(* ===== verification/JB_Prelude.thy ===== *)
theory JB_Prelude
  imports Main "HOL-Library.Word"
begin

section \<open>Shared vocabulary of the development\<close>

text \<open>
  The prelude holds what every component uses: the error values that stand for the
  exceptions the TypeScript code throws, the result type with its sequencing combinators
  (a thrown exception aborts the rest of the function, which is what \<open>bindE\<close> says), the
  byte strings, and the generic facts on lists, characters and 32-bit shifts.
  The collection \<open>res_simps\<close> gathers the equations that decide when a sequenced
  computation succeeds; component proofs are mostly \<open>auto simp: res_simps\<close>.
\<close>

named_theorems res_simps \<open>when a result of the error monad is a success\<close>
named_theorems wf_simps \<open>unfolding of well-formedness predicates\<close>

subsection \<open>Exceptions as values\<close>

text \<open>
  One constructor per exception class of the modelled files. The message strings only go to
  logs and are not part of the model; the class is what a caller can branch on.
\<close>

datatype err =
    DeliveryValidationError
  | DeliveryStateValidationError
  | RangeError
  | TypeError
  | PlainError
  | IdempotencyValidationError
  | PostgresError
  | SyntaxError
  | ConversationSyncValidationError
  | ConversationHistoryRetentionError string string string
  | ConversationCursorExpiredError string string string
  | ConversationCursorInvalidError
  | ConversationCursorBindingFailureError
  | ConversationSyncDependencyTimeoutError
  | ConversationSyncDependencyUnavailableError
  | DeliveryEnvelopeValidationError

type_synonym 'a res = "err + 'a"

definition bindE :: "'a res \<Rightarrow> ('a \<Rightarrow> 'b res) \<Rightarrow> 'b res" where
  "bindE m f = (case m of Inl e \<Rightarrow> Inl e | Inr x \<Rightarrow> f x)"

definition guardE :: "bool \<Rightarrow> err \<Rightarrow> unit res" where
  "guardE b e = (if b then Inr () else Inl e)"

text \<open>\<open>Array.prototype.map\<close> with a callback that may throw: left to right, first throw wins.\<close>

fun mapE :: "('a \<Rightarrow> 'b res) \<Rightarrow> 'a list \<Rightarrow> 'b list res" where
  "mapE f [] = Inr []"
| "mapE f (x # xs) = bindE (f x) (\<lambda>y. bindE (mapE f xs) (\<lambda>ys. Inr (y # ys)))"

lemma bindE_Inl [simp]: "bindE (Inl e) f = Inl e"
  by (simp add: bindE_def)

lemma bindE_Inr [simp]: "bindE (Inr x) f = f x"
  by (simp add: bindE_def)

lemma bindE_eq_Inr [res_simps]: "bindE m f = Inr y \<longleftrightarrow> (\<exists>x. m = Inr x \<and> f x = Inr y)"
  by (cases m) auto

lemma bindE_InrE: "bindE m f = Inr y \<Longrightarrow> (\<And>x. m = Inr x \<Longrightarrow> f x = Inr y \<Longrightarrow> Q) \<Longrightarrow> Q"
  by (cases m) auto

lemma bindE_cong [fundef_cong]:
  "m = m' \<Longrightarrow> (\<And>x. m' = Inr x \<Longrightarrow> f x = g x) \<Longrightarrow> bindE m f = bindE m' g"
  by (cases m') auto

lemma guardE_eq_Inr [res_simps]: "guardE b e = Inr u \<longleftrightarrow> b"
  by (simp add: guardE_def)

lemma guardE_simps [simp]: "guardE True e = Inr ()" "guardE False e = Inl e"
  by (simp_all add: guardE_def)

lemma bindE_guardE: "bindE (guardE b e) f = (if b then f () else Inl e)"
  by (simp add: guardE_def)

lemma mapE_eq_Inr [res_simps]:
  "mapE f xs = Inr ys \<longleftrightarrow> list_all2 (\<lambda>x y. f x = Inr y) xs ys"
  by (induction xs arbitrary: ys) (auto simp: res_simps list_all2_Cons1)

lemma mapE_length: "mapE f xs = Inr ys \<Longrightarrow> length ys = length xs"
  by (auto simp: mapE_eq_Inr dest: list_all2_lengthD)

lemma mapE_map_Inr: "(\<And>x. x \<in> set xs \<Longrightarrow> f (g x) = Inr (h x)) \<Longrightarrow> mapE f (map g xs) = Inr (map h xs)"
  by (induction xs) auto

lemma mapE_source_Inr: "mapE f xs = Inr ys \<Longrightarrow> x \<in> set xs \<Longrightarrow> \<exists>y. f x = Inr y"
  by (induction xs arbitrary: ys) (auto simp: bindE_eq_Inr)

subsection \<open>Bytes and characters\<close>

type_synonym byte = "8 word"
type_synonym bytes = "byte list"

text \<open>
  A JavaScript string is a sequence of UTF-16 code units. The model keeps the units below
  256 as \<open>char\<close>s; every string the modelled validators accept is ASCII, so a unit above that
  range is rejected by them in the same way as any other character outside their alphabets.
  \<open>charCode\<close> is the code unit, \<open>utf8\<close> the encoding of \<open>TextEncoder\<close> for these units.
\<close>

abbreviation charCode :: "char \<Rightarrow> nat" where
  "charCode c \<equiv> of_char c"

lemma charCode_less_256 [simp]: "charCode c < 256"
  by (rule nat_of_char_less_256)

lemma charCode_eq_iff [simp]: "charCode c = charCode d \<longleftrightarrow> c = d"
  by (simp add: of_char_eq_iff)

definition utf8_char :: "char \<Rightarrow> bytes" where
  "utf8_char c = (let n = charCode c in
     if n < 128 then [of_nat n] else [of_nat (192 + n div 64), of_nat (128 + n mod 64)])"

definition utf8 :: "string \<Rightarrow> bytes" where
  "utf8 s = concat (map utf8_char s)"

lemma unat_of_nat_byte [simp]: "n < 256 \<Longrightarrow> unat (of_nat n :: byte) = n"
  by (simp add: unat_of_nat take_bit_eq_mod)

lemma utf8_char_prefix_free:
  assumes "utf8_char c @ xs = utf8_char d @ ys"
  shows "c = d \<and> xs = ys"
proof -
  let ?m = "charCode c" and ?n = "charCode d"
  have bounds: "?m < 256" "?n < 256" by simp_all
  have eq: "(of_nat a :: byte) = of_nat b \<longleftrightarrow> a = b" if "a < 256" "b < 256" for a b
    using that by (metis unat_of_nat_byte)
  have div: "?m div 64 = ?n div 64 \<and> ?m mod 64 = ?n mod 64 \<Longrightarrow> ?m = ?n"
    by (metis div_mult_mod_eq)
  have small: "192 + ?m div 64 < 256" "192 + ?n div 64 < 256"
      "128 + ?m mod 64 < 256" "128 + ?n mod 64 < 256"
    using bounds by linarith+
  show ?thesis
    using assms bounds small div
    by (auto simp: utf8_char_def Let_def eq simp del: of_nat_add split: if_splits)
qed

lemma utf8_char_nonempty [simp]: "utf8_char c \<noteq> []"
  by (simp add: utf8_char_def Let_def)

lemma utf8_inj: "utf8 s = utf8 t \<longleftrightarrow> s = t"
proof
  show "utf8 s = utf8 t \<Longrightarrow> s = t"
  proof (induction s arbitrary: t)
    case Nil
    then show ?case by (cases t) (auto simp: utf8_def)
  next
    case (Cons c s)
    then obtain d t' where t: "t = d # t'"
      by (cases t) (auto simp: utf8_def)
    with Cons.prems have "utf8_char c @ utf8 s = utf8_char d @ utf8 t'"
      by (simp add: utf8_def)
    then have "c = d" and "utf8 s = utf8 t'"
      using utf8_char_prefix_free by blast+
    with Cons.IH t show ?case by auto
  qed
qed simp

subsection \<open>Bitwise shifts on Number values\<close>

text \<open>
  ECMAScript's \<open>x >> 1\<close> first converts the Number to a signed 32-bit integer and then shifts
  arithmetically; \<open>x % 2\<close> takes the sign of the dividend.
\<close>

definition toInt32 :: "int \<Rightarrow> int" where
  "toInt32 x = (let m = x mod 2 ^ 32 in if m \<ge> 2 ^ 31 then m - 2 ^ 32 else m)"

definition js_shr1 :: "int \<Rightarrow> int" where
  "js_shr1 x = toInt32 x div 2"

definition js_rem2 :: "int \<Rightarrow> int" where
  "js_rem2 x = (if x < 0 then - ((- x) mod 2) else x mod 2)"

lemma js_shr1_small: "0 \<le> x \<Longrightarrow> x < 2 ^ 31 \<Longrightarrow> js_shr1 x = x div 2"
  by (simp add: js_shr1_def toInt32_def Let_def)

lemma js_rem2_nonneg: "0 \<le> x \<Longrightarrow> js_rem2 x = x mod 2"
  by (simp add: js_rem2_def)

lemma js_rem2_eq_0: "js_rem2 x = 0 \<longleftrightarrow> even x"
  by (auto simp: js_rem2_def even_iff_mod_2_eq_zero[symmetric] dvd_minus_iff
      simp flip: even_iff_mod_2_eq_zero)

lemma abs_toInt32_le: "\<bar>toInt32 x\<bar> \<le> \<bar>x\<bar>"
proof -
  define m where "m = x mod 2 ^ 32"
  define q where "q = x div 2 ^ 32"
  have x: "x = q * 2 ^ 32 + m" and m: "0 \<le> m" "m < 2 ^ 32"
    by (simp_all add: m_def q_def)
  have q: "q = 0 \<or> q \<ge> 1 \<or> q = -1 \<or> q \<le> -2" by linarith
  show ?thesis
    using m q unfolding toInt32_def Let_def m_def[symmetric]
    by (auto simp: x abs_if)
qed

lemma js_shr1_decreases: "even x \<Longrightarrow> x \<noteq> 0 \<Longrightarrow> \<bar>js_shr1 x\<bar> < \<bar>x\<bar>"
proof -
  assume "even x" "x \<noteq> 0"
  have "even (toInt32 x)"
    using \<open>even x\<close> by (auto simp: toInt32_def Let_def dvd_mod)
  then have "\<bar>toInt32 x div 2\<bar> * 2 = \<bar>toInt32 x\<bar>" by (auto elim!: evenE)
  with abs_toInt32_le [of x] \<open>x \<noteq> 0\<close> show ?thesis
    unfolding js_shr1_def by linarith
qed

end
