(* ===== verification/MerkleLog.thy ===== *)
theory MerkleLog
  imports JB_Prelude
begin

section \<open>The witness's RFC 6962 Merkle log\<close>

text \<open>
  Models \<open>src/src/production/witness/merkleLog.ts\<close>: leaf and node hashes, the recursive root,
  the recursive audit path and consistency proof, and the two iterative verifiers, whose index
  arithmetic is ECMAScript Number arithmetic with 32-bit shifts. SHA-256 comes from
  \<open>node:crypto\<close> and is the parameter \<open>H\<close> of every definition.
\<close>

subsection \<open>Hashes and the tree root\<close>

type_synonym hashfn = "bytes \<Rightarrow> bytes"

definition leafHash :: "hashfn \<Rightarrow> bytes \<Rightarrow> bytes" where
  "leafHash H payload = H ([0] @ payload)"

definition nodeHash :: "hashfn \<Rightarrow> bytes \<Rightarrow> bytes \<Rightarrow> bytes" where
  "nodeHash H left right = H ([1] @ left @ right)"

text \<open>\<open>while (k * 2 < n) k *= 2\<close>; the loop starts at 1, so the guard \<open>0 < k\<close> never fails there.\<close>

function splitLoop :: "nat \<Rightarrow> nat \<Rightarrow> nat" where
  "splitLoop k n = (if 0 < k \<and> k * 2 < n then splitLoop (k * 2) n else k)"
  by pat_completeness auto
termination
  by (relation "measure (\<lambda>(k, n). n - k)") auto

declare splitLoop.simps [simp del]

definition splitPoint :: "nat \<Rightarrow> nat" where
  "splitPoint n = splitLoop 1 n"

lemma splitLoop_pow:
  "2 ^ a < n \<Longrightarrow> \<exists>m. splitLoop (2 ^ a) n = 2 ^ m \<and> 2 ^ m < n \<and> n \<le> 2 ^ Suc m"
proof (induction "n - 2 ^ a" arbitrary: a rule: less_induct)
  case less
  show ?case
  proof (cases "2 ^ a * 2 < n")
    case True
    then have "n - 2 ^ Suc a < n - 2 ^ a" by (intro diff_less_mono2) auto
    moreover have "2 ^ Suc a < n" using True by (simp add: mult.commute)
    ultimately obtain m where "splitLoop (2 ^ Suc a) n = 2 ^ m \<and> 2 ^ m < n \<and> n \<le> 2 ^ Suc m"
      using less.hyps by blast
    with True show ?thesis
      by (auto simp: splitLoop.simps [of "2 ^ a" n] mult.commute intro!: exI [of _ m])
  next
    case False
    with less.prems show ?thesis
      by (auto simp: splitLoop.simps [of "2 ^ a" n] intro!: exI [of _ a])
  qed
qed

text \<open>The split point of a tree of at least two leaves is the power of two just below its size.\<close>

lemma splitPoint_pow:
  assumes "2 \<le> n"
  obtains m where "splitPoint n = 2 ^ m" "2 ^ m < n" "n \<le> 2 ^ Suc m"
  using splitLoop_pow [of 0 n] assms by (auto simp: splitPoint_def)

lemma splitPoint_bounds: "2 \<le> n \<Longrightarrow> 0 < splitPoint n \<and> splitPoint n < n"
  by (rule splitPoint_pow [of n]) auto

function merkleRoot :: "hashfn \<Rightarrow> bytes list \<Rightarrow> bytes" where
  "merkleRoot H leafHashes =
     (if length leafHashes = 0 then H []
      else if length leafHashes = 1 then leafHashes ! 0
      else let k = splitPoint (length leafHashes)
           in nodeHash H (merkleRoot H (take k leafHashes)) (merkleRoot H (drop k leafHashes)))"
  by pat_completeness auto
termination
proof (relation "measure (\<lambda>(H, ls). length ls)", goal_cases)
  case (2 H ls k)
  then have "2 \<le> length ls" by linarith
  with 2 show ?case using splitPoint_bounds [of "length ls"] by auto
next
  case (3 H ls k)
  then have "2 \<le> length ls" by linarith
  with 3 show ?case using splitPoint_bounds [of "length ls"] by auto
qed simp

declare merkleRoot.simps [simp del]

subsection \<open>Proof generation\<close>

text \<open>\<open>PATH(m, D[n])\<close>; an index outside the tree throws a \<open>RangeError\<close>.\<close>

function inclusionProof :: "hashfn \<Rightarrow> bytes list \<Rightarrow> int \<Rightarrow> bytes list res" where
  "inclusionProof H leafHashes index =
     (if index < 0 \<or> index \<ge> int (length leafHashes) then Inl RangeError
      else if length leafHashes = 1 then Inr []
      else let k = splitPoint (length leafHashes)
           in if index < int k
              then bindE (inclusionProof H (take k leafHashes) index)
                     (\<lambda>p. Inr (p @ [merkleRoot H (drop k leafHashes)]))
              else bindE (inclusionProof H (drop k leafHashes) (index - int k))
                     (\<lambda>p. Inr (p @ [merkleRoot H (take k leafHashes)])))"
  by pat_completeness auto
termination
proof (relation "measure (\<lambda>(H, ls, i). length ls)", goal_cases)
  case (2 H ls i k)
  then have "2 \<le> length ls" by linarith
  with 2 show ?case using splitPoint_bounds [of "length ls"] by auto
next
  case (3 H ls i k)
  then have "2 \<le> length ls" by linarith
  with 3 show ?case using splitPoint_bounds [of "length ls"] by auto
qed simp

declare inclusionProof.simps [simp del]

text \<open>
  \<open>subProof\<close> is only entered with \<open>1 \<le> m \<le> n\<close>, where a tree of one leaf is the case
  \<open>m = n\<close>; the branch \<open>length leafHashes < 2\<close> closes the recursion for the other arguments.
\<close>

function subProof :: "hashfn \<Rightarrow> bytes list \<Rightarrow> nat \<Rightarrow> bool \<Rightarrow> bytes list" where
  "subProof H leafHashes m complete =
     (if m = length leafHashes then (if complete then [] else [merkleRoot H leafHashes])
      else if length leafHashes < 2 then []
      else let k = splitPoint (length leafHashes)
           in if m \<le> k
              then subProof H (take k leafHashes) m complete @ [merkleRoot H (drop k leafHashes)]
              else subProof H (drop k leafHashes) (m - k) False @ [merkleRoot H (take k leafHashes)])"
  by pat_completeness auto
termination
proof (relation "measure (\<lambda>(H, ls, m, c). length ls)", goal_cases)
  case (2 H ls m c k)
  then show ?case using splitPoint_bounds [of "length ls"] by auto
next
  case (3 H ls m c k)
  then show ?case using splitPoint_bounds [of "length ls"] by auto
qed simp

declare subProof.simps [simp del]

definition consistencyProof :: "hashfn \<Rightarrow> bytes list \<Rightarrow> int \<Rightarrow> bytes list res" where
  "consistencyProof H leafHashes oldSize =
     (if oldSize < 1 \<or> oldSize > int (length leafHashes) then Inl RangeError
      else if oldSize = int (length leafHashes) then Inr []
      else Inr (subProof H leafHashes (nat oldSize) True))"

subsection \<open>The iterative verifiers\<close>

text \<open>\<open>while (fn % 2 === 0 && fn !== 0) { fn = fn >> 1; sn = sn >> 1; }\<close>\<close>

function stripZeros :: "int \<Rightarrow> int \<Rightarrow> int \<times> int" where
  "stripZeros fn sn =
     (if js_rem2 fn = 0 \<and> fn \<noteq> 0 then stripZeros (js_shr1 fn) (js_shr1 sn) else (fn, sn))"
  by pat_completeness auto
termination
  by (relation "measure (\<lambda>(fn, sn). nat \<bar>fn\<bar>)") (auto simp: js_rem2_eq_0 js_shr1_decreases)

declare stripZeros.simps [simp del]

text \<open>
  The \<open>for\<close> loop of \<open>verifyInclusion\<close>; \<open>None\<close> is the \<open>return false\<close> inside it, \<open>Some (sn, hash)\<close>
  the values after the last sibling.
\<close>

fun inclusionLoop :: "hashfn \<Rightarrow> int \<Rightarrow> int \<Rightarrow> bytes \<Rightarrow> bytes list \<Rightarrow> (int \<times> bytes) option" where
  "inclusionLoop H fn sn hash [] = Some (sn, hash)"
| "inclusionLoop H fn sn hash (sibling # proof) =
     (if sn = 0 then None
      else if js_rem2 fn = 1 \<or> fn = sn
      then (let (fn', sn') = (if js_rem2 fn = 0 then stripZeros fn sn else (fn, sn))
            in inclusionLoop H (js_shr1 fn') (js_shr1 sn') (nodeHash H sibling hash) proof)
      else inclusionLoop H (js_shr1 fn) (js_shr1 sn) (nodeHash H hash sibling) proof)"

definition verifyInclusion :: "hashfn \<Rightarrow> bytes \<Rightarrow> int \<Rightarrow> int \<Rightarrow> bytes list \<Rightarrow> bytes \<Rightarrow> bool" where
  "verifyInclusion H leaf index treeSize proof expectedRoot =
     (if index < 0 \<or> index \<ge> treeSize then False
      else case inclusionLoop H index (treeSize - 1) leaf proof of
             None \<Rightarrow> False
           | Some (sn, hash) \<Rightarrow> sn = 0 \<and> hash = expectedRoot)"

text \<open>\<open>while (node % 2 === 1) { node = node >> 1; lastNode = lastNode >> 1; }\<close>\<close>

lemma abs_js_shr1_odd: "js_rem2 x = 1 \<Longrightarrow> \<bar>js_shr1 x\<bar> < \<bar>x\<bar>"
proof -
  assume "js_rem2 x = 1"
  then have x: "0 < x" "odd x"
    by (auto simp: js_rem2_def odd_iff_mod_2_eq_one split: if_splits) presburger+
  show ?thesis
  proof (cases "x < 2 ^ 31")
    case True
    with x show ?thesis by (simp add: js_shr1_small)
  next
    case False
    have "toInt32 x \<noteq> - (2 ^ 31)"
      using x(2) by (auto simp: toInt32_def Let_def) presburger
    moreover have "- (2 ^ 31) \<le> toInt32 x" "toInt32 x < 2 ^ 31"
      by (auto simp: toInt32_def Let_def)
    ultimately have "\<bar>toInt32 x div 2\<bar> < 2 ^ 31" by linarith
    with False x show ?thesis by (simp add: js_shr1_def)
  qed
qed

function stripOnes :: "int \<Rightarrow> int \<Rightarrow> int \<times> int" where
  "stripOnes node lastNode =
     (if js_rem2 node = 1 then stripOnes (js_shr1 node) (js_shr1 lastNode) else (node, lastNode))"
  by pat_completeness auto
termination
  by (relation "measure (\<lambda>(node, lastNode). nat \<bar>node\<bar>)") (auto simp: abs_js_shr1_odd js_rem2_def)

declare stripOnes.simps [simp del]

fun consistencyLoop ::
  "hashfn \<Rightarrow> int \<Rightarrow> int \<Rightarrow> bytes \<Rightarrow> bytes \<Rightarrow> bytes list \<Rightarrow> (int \<times> bytes \<times> bytes) option" where
  "consistencyLoop H node lastNode oldHash newHash [] = Some (lastNode, oldHash, newHash)"
| "consistencyLoop H node lastNode oldHash newHash (sibling # path) =
     (if lastNode = 0 then None
      else if js_rem2 node = 1 \<or> node = lastNode
      then (let (node', lastNode') =
                  (if js_rem2 node = 0 then stripZeros node lastNode else (node, lastNode))
            in consistencyLoop H (js_shr1 node') (js_shr1 lastNode')
                 (nodeHash H sibling oldHash) (nodeHash H sibling newHash) path)
      else consistencyLoop H (js_shr1 node) (js_shr1 lastNode) oldHash (nodeHash H newHash sibling) path)"

definition verifyConsistency ::
  "hashfn \<Rightarrow> int \<Rightarrow> bytes \<Rightarrow> int \<Rightarrow> bytes \<Rightarrow> bytes list \<Rightarrow> bool" where
  "verifyConsistency H oldSize oldRoot newSize newRoot proof =
     (if oldSize < 1 \<or> oldSize > newSize then False
      else if oldSize = newSize then proof = [] \<and> oldRoot = newRoot
      else let (node, lastNode) = stripOnes (oldSize - 1) (newSize - 1);
               start = (if node > 0
                        then (case proof of [] \<Rightarrow> None | seed # path \<Rightarrow> Some (seed, seed, path))
                        else Some (oldRoot, oldRoot, proof))
           in case start of
                None \<Rightarrow> False
              | Some (oldHash, newHash, path) \<Rightarrow>
                  (case consistencyLoop H node lastNode oldHash newHash path of
                     None \<Rightarrow> False
                   | Some (lastNode', oldHash', newHash') \<Rightarrow>
                       lastNode' = 0 \<and> oldHash' = oldRoot \<and> newHash' = newRoot))"

end
