(* ===== verification/MerkleProofs.thy ===== *)
theory MerkleProofs
  imports MerkleLog
begin

section \<open>Correctness of the Merkle log\<close>

text \<open>
  The two verifiers walk the tree bottom-up with shifted indices, the generators descend
  top-down through the split points. The bridge is one generic loop \<open>pathLoop\<close> over natural
  numbers, parametrised by what a left and a right sibling do to the accumulated value. Two
  lemmas say how its last step relates to the split of the tree: \<open>pathLoop_left\<close> for an index in
  the left (perfect) subtree, \<open>pathLoop_right\<close> for one in the right subtree. Both verifiers are
  instances of the loop while the tree has at most \<open>2 ^ 31\<close> leaves, the range in which the
  32-bit shifts of the source divide by two.
\<close>

subsection \<open>The generic path loop\<close>

function stripN :: "nat \<Rightarrow> nat \<Rightarrow> nat \<times> nat" where
  "stripN fn sn = (if even fn \<and> fn \<noteq> 0 then stripN (fn div 2) (sn div 2) else (fn, sn))"
  by pat_completeness auto
termination
  by (relation "measure fst") auto

declare stripN.simps [simp del]

fun pathLoop ::
  "('h \<Rightarrow> 's \<Rightarrow> 's) \<Rightarrow> ('s \<Rightarrow> 'h \<Rightarrow> 's) \<Rightarrow> nat \<Rightarrow> nat \<Rightarrow> 's \<Rightarrow> 'h list \<Rightarrow> 's option" where
  "pathLoop fl fr fn sn st [] = (if sn = 0 then Some st else None)"
| "pathLoop fl fr fn sn st (x # xs) =
     (if sn = 0 then None
      else if odd fn \<or> fn = sn
      then (let (fn', sn') = (if even fn then stripN fn sn else (fn, sn))
            in pathLoop fl fr (fn' div 2) (sn' div 2) (fl x st) xs)
      else pathLoop fl fr (fn div 2) (sn div 2) (fr st x) xs)"

lemma pathLoop_left:
  assumes "fn < 2 ^ m" "2 ^ m \<le> sn" "sn < 2 ^ Suc m"
  shows "pathLoop fl fr fn sn st xs =
    (if xs = [] then None
     else map_option (\<lambda>r. fr r (last xs)) (pathLoop fl fr fn (2 ^ m - 1) st (butlast xs)))"
  using assms
proof (induction m arbitrary: fn sn st xs)
  case 0
  then have "fn = 0" "sn = 1" by auto
  then show ?case by (cases xs; cases "tl xs") auto
next
  case (Suc m)
  let ?k = "2 ^ Suc m - 1 :: nat"
  have half: "?k div 2 = 2 ^ m - 1" by (simp add: div2_Suc_Suc)
  have IH: "pathLoop fl fr (fn div 2) (sn div 2) st' ys =
      (if ys = [] then None
       else map_option (\<lambda>r. fr r (last ys)) (pathLoop fl fr (fn div 2) (2 ^ m - 1) st' (butlast ys)))"
    for st' ys
    using Suc.prems by (intro Suc.IH) auto
  have "2 \<le> (2 :: nat) ^ Suc m" by simp
  with Suc.prems have ne: "fn \<noteq> sn" "sn \<noteq> 0" "?k \<noteq> 0" "sn div 2 \<noteq> 0" by linarith+
  have odd: "fn = ?k \<Longrightarrow> odd fn" by simp
  have step: "pathLoop fl fr fn l st (x # ys) =
      pathLoop fl fr (fn div 2) (l div 2) (if odd fn then fl x st else fr st x) ys"
    if "l = sn \<or> l = ?k" for l x ys
    using that ne odd by auto
  have base: "pathLoop fl fr fn ?k st [] = None" using ne by simp
  show ?case
  proof (cases xs)
    case (Cons x ys)
    then show ?thesis
      using base ne by (cases ys) (simp_all add: step IH half [unfolded One_nat_def] del: pathLoop.simps power_Suc)
  qed (use ne in simp)
qed

lemma stripN_pow2: "stripN (2 ^ m) (2 ^ m) = (1, 1)"
proof (induction m)
  case (Suc m)
  then show ?case by (subst stripN.simps) simp
qed (simp add: stripN.simps)

lemma stripN_add_pow2:
  assumes "even x" "0 < x" "x < 2 ^ m"
  obtains a y where "stripN (2 ^ m + x) (2 ^ m + x) = (2 ^ a + y, 2 ^ a + y)"
    "stripN x x = (y, y)" "odd y" "y < 2 ^ a" "0 < a"
  using assms
proof (induction m arbitrary: x thesis)
  case (Suc m)
  define z where "z = x div 2"
  have z: "0 < z" "z < 2 ^ m" and half: "(2 ^ Suc m + x) div 2 = 2 ^ m + z"
    using Suc.prems by (auto simp: z_def elim: evenE)
  have s1: "stripN (2 ^ Suc m + x) (2 ^ Suc m + x) = stripN (2 ^ m + z) (2 ^ m + z)"
    using Suc.prems by (subst stripN.simps) (simp add: z_def)
  have s2: "stripN x x = stripN z z"
    using Suc.prems by (subst stripN.simps) (simp add: z_def)
  have m: "0 < m" using z by (cases m) auto
  show ?case
  proof (cases "even z")
    case True
    then show ?thesis
      using Suc.IH [of z] z s1 s2 Suc.prems(1) by metis
  next
    case False
    then have "stripN (2 ^ m + z) (2 ^ m + z) = (2 ^ m + z, 2 ^ m + z)" "stripN z z = (z, z)"
      using m by (subst stripN.simps; simp)+
    with s1 s2 z m False Suc.prems(1) show ?thesis by metis
  qed
qed simp

lemma pathLoop_right:
  assumes "fn \<le> sn" "sn < 2 ^ m"
  shows "pathLoop fl fr (2 ^ m + fn) (2 ^ m + sn) st xs =
    (if xs = [] then None
     else map_option (fl (last xs)) (pathLoop fl fr fn sn st (butlast xs)))"
  using assms
proof (induction xs arbitrary: m fn sn st)
  case (Cons x xs)
  show ?case
  proof (cases "sn = 0")
    case True
    with Cons.prems have "fn = 0" by simp
    with True show ?thesis
      by (cases m; cases xs) (auto simp: stripN_pow2 simp flip: power_Suc)
  next
    case False
    with Cons.prems obtain l where l: "m = Suc l" by (cases m) auto
    have half: "(2 ^ m + n) div 2 = 2 ^ l + n div 2" and par: "even (2 ^ m + n) = even n" for n :: nat
      by (simp_all add: l)
    have step: "pathLoop fl fr ((2 ^ m + fn) div 2) ((2 ^ m + sn) div 2) st' xs =
        (if xs = [] then None
         else map_option (fl (last xs)) (pathLoop fl fr (fn div 2) (sn div 2) st' (butlast xs)))" for st'
      unfolding half using Cons.prems l by (intro Cons.IH) auto
    show ?thesis
    proof (cases "fn = sn \<and> even fn")
      case True
      with False Cons.prems obtain a y where
        y: "stripN (2 ^ m + fn) (2 ^ m + fn) = (2 ^ a + y, 2 ^ a + y)" "stripN fn fn = (y, y)"
          "odd y" "y < 2 ^ a" "0 < a"
        using stripN_add_pow2 [of fn m] by auto
      obtain b where b: "a = Suc b" using y by (cases a) auto
      have halfy: "(2 ^ a + y) div 2 = 2 ^ b + y div 2" by (simp add: b)
      have "pathLoop fl fr (2 ^ b + y div 2) (2 ^ b + y div 2) st' xs =
          (if xs = [] then None
           else map_option (fl (last xs)) (pathLoop fl fr (y div 2) (y div 2) st' (butlast xs)))" for st'
        using y b by (intro Cons.IH) auto
      then show ?thesis
        using True False y l by (auto simp: halfy par)
    next
      case cond: False
      then show ?thesis
        using False step l by (auto simp: par simp del: div_add_self1 div_add_self2)
    qed
  qed
qed simp

subsection \<open>The verifiers are path loops\<close>

text \<open>Below \<open>2 ^ 31\<close> the 32-bit index arithmetic is division by two on natural numbers.\<close>

lemma js_nat_simps:
  assumes "n < 2 ^ 31"
  shows "js_shr1 (int n) = int (n div 2)" "js_rem2 (int n) = 1 \<longleftrightarrow> odd n" "js_rem2 (int n) = 0 \<longleftrightarrow> even n"
  using assms by (auto simp: js_shr1_small js_rem2_nonneg zdiv_int simp flip: of_nat_mod) presburger+

lemma stripZeros_nat:
  "fn < 2 ^ 31 \<Longrightarrow> sn < 2 ^ 31 \<Longrightarrow>
   stripZeros (int fn) (int sn) = map_prod int int (stripN fn sn)"
proof (induction fn sn rule: stripN.induct)
  case (1 fn sn)
  then show ?case
    by (subst stripZeros.simps, subst stripN.simps) (auto simp: js_nat_simps)
qed

lemma stripN_le: "stripN fn sn = (a, b) \<Longrightarrow> a \<le> fn \<and> b \<le> sn"
proof (induction fn sn rule: stripN.induct)
  case (1 fn sn)
  then show ?case
    by (subst (asm) (2) stripN.simps) (force split: if_splits)
qed

lemma inclusionLoop_pathLoop:
  assumes "fn < 2 ^ 31" "sn < 2 ^ 31"
  shows "(case inclusionLoop H (int fn) (int sn) h xs of
            None \<Rightarrow> None | Some (s, r) \<Rightarrow> if s = 0 then Some r else None) =
         pathLoop (nodeHash H) (nodeHash H) fn sn h xs"
  using assms
proof (induction xs arbitrary: fn sn h)
  case (Cons x xs)
  obtain a b where ab: "stripN fn sn = (a, b)" by fastforce
  then have "a < 2 ^ 31" "b < 2 ^ 31" using stripN_le [OF ab] Cons.prems by auto
  moreover have "fn div 2 < 2 ^ 31" "sn div 2 < 2 ^ 31" using Cons.prems by auto
  moreover have "a div 2 < 2 ^ 31" "b div 2 < 2 ^ 31" using calculation by auto
  ultimately show ?case
    using Cons.prems ab
    by (cases "fn = sn") (simp_all add: js_nat_simps stripZeros_nat Cons.IH [symmetric])
qed auto

text \<open>The loop of \<open>verifyConsistency\<close> carries both hashes; a right sibling leaves the old one.\<close>

definition consL :: "hashfn \<Rightarrow> bytes \<Rightarrow> bytes \<times> bytes \<Rightarrow> bytes \<times> bytes" where
  "consL H x st = (nodeHash H x (fst st), nodeHash H x (snd st))"

definition consR :: "hashfn \<Rightarrow> bytes \<times> bytes \<Rightarrow> bytes \<Rightarrow> bytes \<times> bytes" where
  "consR H st x = (fst st, nodeHash H (snd st) x)"

lemma consL_pair: "consL H x (a, b) = (nodeHash H x a, nodeHash H x b)"
  and consR_pair: "consR H (a, b) x = (a, nodeHash H b x)"
  by (simp_all add: consL_def consR_def)

lemma consistencyLoop_pathLoop:
  assumes "fn < 2 ^ 31" "sn < 2 ^ 31"
  shows "(case consistencyLoop H (int fn) (int sn) o1 w xs of
            None \<Rightarrow> None | Some (s, r) \<Rightarrow> if s = 0 then Some r else None) =
         pathLoop (consL H) (consR H) fn sn (o1, w) xs"
  using assms
proof (induction xs arbitrary: fn sn o1 w)
  case (Cons x xs)
  obtain a b where ab: "stripN fn sn = (a, b)" by fastforce
  then have "a < 2 ^ 31" "b < 2 ^ 31" using stripN_le [OF ab] Cons.prems by auto
  moreover have "fn div 2 < 2 ^ 31" "sn div 2 < 2 ^ 31" using Cons.prems by auto
  moreover have "a div 2 < 2 ^ 31" "b div 2 < 2 ^ 31" using calculation by auto
  ultimately show ?case
    using Cons.prems ab
    by (cases "fn = sn")
      (simp_all add: js_nat_simps stripZeros_nat consL_pair consR_pair Cons.IH [symmetric])
qed auto

lemma verifyInclusion_pathLoop:
  assumes "n \<le> 2 ^ 31"
  shows "verifyInclusion H leaf index (int n) xs r \<longleftrightarrow>
    0 \<le> index \<and> index < int n \<and>
    pathLoop (nodeHash H) (nodeHash H) (nat index) (n - 1) leaf xs = Some r"
proof (cases "0 \<le> index \<and> index < int n")
  case True
  then obtain i where i: "index = int i" "i < n" by (metis nat_0_le nat_less_iff of_nat_less_iff)
  have "verifyInclusion H leaf index (int n) xs r =
      (case inclusionLoop H (int i) (int (n - 1)) leaf xs of
         None \<Rightarrow> False | Some (sn, hash) \<Rightarrow> sn = 0 \<and> hash = r)"
    using i by (simp add: verifyInclusion_def of_nat_diff)
  moreover have "i < 2 ^ 31" "n - 1 < 2 ^ 31" using assms i by auto
  ultimately show ?thesis
    using True i inclusionLoop_pathLoop [of i "n - 1" H leaf xs, symmetric]
    by (simp split: option.split)
qed (auto simp: verifyInclusion_def)

lemma pathLoop_map:
  assumes "\<And>x st. f (fl x st) = gl x (f st)" "\<And>x st. f (fr st x) = gr (f st) x"
  shows "map_option f (pathLoop fl fr fn sn st xs) = pathLoop gl gr fn sn (f st) xs"
  by (induction xs arbitrary: fn sn st) (auto simp: assms split: prod.splits)

lemma pathLoop_invar:
  assumes "pathLoop fl fr fn sn st xs = Some r" "P st"
    "\<And>x st. x \<in> set xs \<Longrightarrow> P st \<Longrightarrow> P (fl x st)" "\<And>x st. x \<in> set xs \<Longrightarrow> P st \<Longrightarrow> P (fr st x)"
  shows "P r"
  using assms
proof (induction xs arbitrary: fn sn st)
  case (Cons x xs)
  then show ?case by (auto split: if_splits prod.splits)
qed (auto split: if_splits)

subsection \<open>What is hashed\<close>

text \<open>
  Soundness holds as long as SHA-256 does not collide on the inputs that are hashed. For the
  tree these are \<open>rootHashed\<close>, the preimages of its interior nodes; for a verifier run they are
  collected by the same loop with the preimages as a second component.
\<close>

function rootHashed :: "hashfn \<Rightarrow> bytes list \<Rightarrow> bytes list" where
  "rootHashed H ls =
     (if length ls < 2 then []
      else let k = splitPoint (length ls)
           in ([1] @ merkleRoot H (take k ls) @ merkleRoot H (drop k ls))
                # rootHashed H (take k ls) @ rootHashed H (drop k ls))"
  by pat_completeness auto
termination
proof (relation "measure (\<lambda>(H, ls). length ls)", goal_cases)
  case (2 H ls k)
  then show ?case using splitPoint_bounds [of "length ls"] by auto
next
  case (3 H ls k)
  then show ?case using splitPoint_bounds [of "length ls"] by auto
qed simp

declare rootHashed.simps [simp del]

definition incL :: "hashfn \<Rightarrow> bytes \<Rightarrow> bytes \<times> bytes list \<Rightarrow> bytes \<times> bytes list" where
  "incL H x st = (nodeHash H x (fst st), ([1] @ x @ fst st) # snd st)"

definition incR :: "hashfn \<Rightarrow> bytes \<times> bytes list \<Rightarrow> bytes \<Rightarrow> bytes \<times> bytes list" where
  "incR H st x = (nodeHash H (fst st) x, ([1] @ fst st @ x) # snd st)"

definition inclusionHashed :: "hashfn \<Rightarrow> bytes \<Rightarrow> int \<Rightarrow> int \<Rightarrow> bytes list \<Rightarrow> bytes list" where
  "inclusionHashed H leaf index treeSize xs =
     (case pathLoop (incL H) (incR H) (nat index) (nat (treeSize - 1)) (leaf, []) xs of
        None \<Rightarrow> [] | Some (h, ps) \<Rightarrow> ps)"

lemma merkleRoot_single [simp]: "merkleRoot H [l] = l"
  by (simp add: merkleRoot.simps)

text \<open>The recursion of the tree, with the facts a proof about a split needs.\<close>

lemma merkle_split:
  assumes "2 \<le> length ls"
  obtains k m where "k = 2 ^ m" "k < length ls" "length ls \<le> 2 * k"
    "splitPoint (length ls) = k"
    "merkleRoot H ls = nodeHash H (merkleRoot H (take k ls)) (merkleRoot H (drop k ls))"
    "set (rootHashed H ls) = insert ([1] @ merkleRoot H (take k ls) @ merkleRoot H (drop k ls))
       (set (rootHashed H (take k ls)) \<union> set (rootHashed H (drop k ls)))"
proof -
  obtain m where m: "splitPoint (length ls) = 2 ^ m" "2 ^ m < length ls" "length ls \<le> 2 ^ Suc m"
    using splitPoint_pow [OF assms] by blast
  have "length ls \<noteq> 0" "length ls \<noteq> 1" "\<not> length ls < 2" using assms by linarith+
  then show ?thesis
    by (intro that [of "2 ^ m" m])
      (use m in \<open>simp_all add: merkleRoot.simps [of H ls] rootHashed.simps [of H ls] Let_def\<close>)
qed

lemma length_merkleRoot:
  assumes "\<And>x. length (H x) = 32" "\<forall>l \<in> set ls. length l = 32"
  shows "length (merkleRoot H ls) = 32"
  using assms by (subst merkleRoot.simps) (auto simp: Let_def nodeHash_def)

lemma nodeHash_inj:
  assumes "nodeHash H a b = nodeHash H c d" "inj_on H S" "[1] @ a @ b \<in> S" "[1] @ c @ d \<in> S"
    "length a = length c \<or> length b = length d"
  shows "a = c \<and> b = d"
proof -
  have "[1] @ a @ b = [1] @ c @ d"
    using assms(1-4) by (auto simp: nodeHash_def dest: inj_onD)
  with assms(5) show ?thesis by (auto simp: append_eq_append_conv)
qed

subsection \<open>Inclusion\<close>

lemma inclusion_complete_aux:
  "i < length ls \<Longrightarrow> \<exists>p. inclusionProof H ls (int i) = Inr p \<and>
     pathLoop (nodeHash H) (nodeHash H) i (length ls - 1) (ls ! i) p = Some (merkleRoot H ls)"
proof (induction "length ls" arbitrary: ls i rule: less_induct)
  case less
  show ?case
  proof (cases "length ls = 1")
    case True
    with less.prems obtain l where "ls = [l]" "i = 0" by (auto simp: length_Suc_conv)
    then show ?thesis by (simp add: inclusionProof.simps)
  next
    case False
    with less.prems have "2 \<le> length ls" by linarith
    then obtain k m where k: "k = 2 ^ m" "k < length ls" "length ls \<le> 2 * k"
      "splitPoint (length ls) = k"
      "merkleRoot H ls = nodeHash H (merkleRoot H (take k ls)) (merkleRoot H (drop k ls))"
      by (rule merkle_split)
    note unfold = inclusionProof.simps [of H ls "int i"] k(4)
    have k0: "0 < k" using k by simp
    show ?thesis
    proof (cases "i < k")
      case True
      obtain p where p: "inclusionProof H (take k ls) (int i) = Inr p"
        "pathLoop (nodeHash H) (nodeHash H) i (k - 1) (ls ! i) p = Some (merkleRoot H (take k ls))"
        using less.hyps [of "take k ls" i] True k by auto
      have "pathLoop (nodeHash H) (nodeHash H) i (length ls - 1) (ls ! i)
          (p @ [merkleRoot H (drop k ls)]) = Some (merkleRoot H ls)"
        using p True k by (subst pathLoop_left [of i m]) auto
      then show ?thesis using p True False less.prems by (simp add: unfold)
    next
      case ge: False
      obtain p where p: "inclusionProof H (drop k ls) (int (i - k)) = Inr p"
        "pathLoop (nodeHash H) (nodeHash H) (i - k) (length ls - k - 1) (ls ! i) p =
           Some (merkleRoot H (drop k ls))"
        using less.hyps [of "drop k ls" "i - k"] ge less.prems k(2) k0 by (fastforce simp: not_less)
      have idx: "i = 2 ^ m + (i - k)" "length ls - 1 = 2 ^ m + (length ls - k - 1)"
        using ge k by auto
      have "pathLoop (nodeHash H) (nodeHash H) i (length ls - 1) (ls ! i)
          (p @ [merkleRoot H (take k ls)]) = Some (merkleRoot H ls)"
        using p ge k less.prems
        by (subst idx(1), subst idx(2), subst pathLoop_right) auto
      moreover have "int i - int k = int (i - k)" using ge by simp
      ultimately show ?thesis using p ge False less.prems by (simp add: unfold)
    qed
  qed
qed

lemma incL_incR_fst:
  "map_option fst (pathLoop (incL H) (incR H) fn sn st xs) = pathLoop (nodeHash H) (nodeHash H) fn sn (fst st) xs"
  by (rule pathLoop_map) (simp_all add: incL_def incR_def)

lemma inclusion_sound_aux:
  assumes H32: "\<And>x. length (H x) = 32"
  shows "pathLoop (incL H) (incR H) i (length ls - 1) (leaf, P0) xs = Some (merkleRoot H ls, P) \<Longrightarrow>
    i < length ls \<Longrightarrow> \<forall>l \<in> set ls. length l = 32 \<Longrightarrow> length leaf = 32 \<Longrightarrow>
    inj_on H (set (rootHashed H ls) \<union> set P) \<Longrightarrow> leaf = ls ! i"
proof (induction "length ls" arbitrary: ls i xs P rule: less_induct)
  case less
  show ?case
  proof (cases "length ls = 1")
    case True
    with less.prems obtain l where "ls = [l]" "i = 0" by (auto simp: length_Suc_conv)
    with less.prems show ?thesis by (cases xs) auto
  next
    case False
    with less.prems have "2 \<le> length ls" by linarith
    then obtain k m where k: "k = 2 ^ m" "k < length ls" "length ls \<le> 2 * k"
      "merkleRoot H ls = nodeHash H (merkleRoot H (take k ls)) (merkleRoot H (drop k ls))"
      "set (rootHashed H ls) = insert ([1] @ merkleRoot H (take k ls) @ merkleRoot H (drop k ls))
         (set (rootHashed H (take k ls)) \<union> set (rootHashed H (drop k ls)))"
      by (rule merkle_split [where H = H])
    have len: "length (merkleRoot H (take k ls)) = 32" "length (merkleRoot H (drop k ls)) = 32"
      using less.prems(3) H32 by (auto intro!: length_merkleRoot dest: in_set_takeD in_set_dropD)
    have run32: "length h = 32" if "pathLoop (incL H) (incR H) a b (leaf, P0) ys = Some (h, Q)" for a b ys h Q
      using pathLoop_invar [OF that, where P = "\<lambda>st. length (fst st) = 32"] less.prems(4) H32
      by (simp add: incL_def incR_def nodeHash_def)
    note step = less.prems(1)
    show ?thesis
    proof (cases "i < k")
      case True
      have E: "pathLoop (incL H) (incR H) i (length ls - 1) (leaf, P0) xs =
          (if xs = [] then None else map_option (\<lambda>r. incR H r (last xs))
            (pathLoop (incL H) (incR H) i (k - 1) (leaf, P0) (butlast xs)))"
        using True k by (simp add: pathLoop_left)
      from step [unfolded E] obtain h Q where run: "pathLoop (incL H) (incR H) i (k - 1) (leaf, P0) (butlast xs) = Some (h, Q)"
        and eq: "nodeHash H h (last xs) = merkleRoot H ls" "P = ([1] @ h @ last xs) # Q"
        by (auto simp: incR_def split: if_splits)
      have "h = merkleRoot H (take k ls) \<and> last xs = merkleRoot H (drop k ls)"
        by (rule nodeHash_inj [OF _ less.prems(5)]) (use eq k run32 [OF run] len in auto)
      with run have "leaf = take k ls ! i"
        using less.prems True k eq
        by (intro less.hyps [of "take k ls" i "butlast xs" Q])
          (auto elim: inj_on_subset dest: in_set_takeD)
      with True show ?thesis by simp
    next
      case ge: False
      have E: "pathLoop (incL H) (incR H) (2 ^ m + (i - k)) (2 ^ m + (length ls - k - 1)) (leaf, P0) xs =
          (if xs = [] then None else map_option (incL H (last xs))
            (pathLoop (incL H) (incR H) (i - k) (length ls - k - 1) (leaf, P0) (butlast xs)))"
        using ge k less.prems(2) by (intro pathLoop_right) auto
      have "i = 2 ^ m + (i - k)" "length ls - 1 = 2 ^ m + (length ls - k - 1)"
        using ge k by auto
      then have "pathLoop (incL H) (incR H) (2 ^ m + (i - k)) (2 ^ m + (length ls - k - 1)) (leaf, P0) xs =
          Some (merkleRoot H ls, P)"
        using step by argo
      from this [unfolded E] obtain h Q where
        run: "pathLoop (incL H) (incR H) (i - k) (length ls - k - 1) (leaf, P0) (butlast xs) = Some (h, Q)"
        and eq: "nodeHash H (last xs) h = merkleRoot H ls" "P = ([1] @ last xs @ h) # Q"
        by (auto simp: incL_def split: if_splits)
      have "last xs = merkleRoot H (take k ls) \<and> h = merkleRoot H (drop k ls)"
        by (rule nodeHash_inj [OF _ less.prems(5)]) (use eq k run32 [OF run] len in auto)
      with run have "leaf = drop k ls ! (i - k)"
        using less.prems ge k eq
        by (intro less.hyps [of "drop k ls" "i - k" "butlast xs" Q])
          (auto elim: inj_on_subset dest: in_set_dropD)
      with ge k show ?thesis by simp
    qed
  qed
qed

end
