(* ===== verification/MerkleConsistency.thy ===== *)
theory MerkleConsistency
  imports MerkleProofs
begin

section \<open>Consistency proofs of the Merkle log\<close>

text \<open>
  \<open>consRun\<close> is the loop of \<open>verifyConsistency\<close> from the point where the trailing one bits of the
  old size have been shifted out: with \<open>complete\<close> it starts from the old root, otherwise from the
  first element of the proof. As for inclusion, two lemmas relate its last step to the split of
  the new tree.
\<close>

function stripOnesN :: "nat \<Rightarrow> nat \<Rightarrow> nat \<times> nat" where
  "stripOnesN node lst = (if odd node then stripOnesN (node div 2) (lst div 2) else (node, lst))"
  by pat_completeness auto
termination
  by (relation "measure fst") (auto elim: oddE)

declare stripOnesN.simps [simp del]

definition consRun ::
  "('h \<Rightarrow> 's \<Rightarrow> 's) \<Rightarrow> ('s \<Rightarrow> 'h \<Rightarrow> 's) \<Rightarrow> ('h \<Rightarrow> 's) \<Rightarrow> 's \<Rightarrow> bool \<Rightarrow> nat \<Rightarrow> nat \<Rightarrow> 'h list \<Rightarrow> 's option" where
  "consRun fl fr seed st0 complete n m xs =
     (if m = n
      then (if complete then (if xs = [] then Some st0 else None)
            else if length xs = 1 then Some (seed (hd xs)) else None)
      else let (node, lst) = stripOnesN (m - 1) (n - 1)
           in if complete then pathLoop fl fr node lst st0 xs
              else if xs = [] then None else pathLoop fl fr node lst (seed (hd xs)) (tl xs))"

lemma stripOnesN_all: "stripOnesN (2 ^ t - 1) l = (0, l div 2 ^ t)"
proof (induction t arbitrary: l)
  case (Suc t)
  have "odd ((2 :: nat) ^ Suc t - 1)" "((2 :: nat) ^ Suc t - 1) div 2 = 2 ^ t - 1"
    by simp_all
  with Suc show ?case by (subst stripOnesN.simps) (simp add: div_mult2_eq)
qed (simp add: stripOnesN.simps)

lemma stripOnesN_left:
  assumes "Suc node < 2 ^ t" "2 ^ t \<le> lst" "lst < 2 ^ Suc t"
  obtains a node' lst' where "stripOnesN node lst = (node', lst')"
    "stripOnesN node (2 ^ t - 1) = (node', 2 ^ a - 1)"
    "node' < 2 ^ a" "2 ^ a \<le> lst'" "lst' < 2 ^ Suc a" "0 < a"
  using assms
proof (induction t arbitrary: node lst thesis)
  case (Suc t)
  show ?case
  proof (cases "odd node")
    case True
    have half: "((2 :: nat) ^ Suc t - 1) div 2 = 2 ^ t - 1" by simp
    have "Suc (node div 2) < 2 ^ t" "2 ^ t \<le> lst div 2" "lst div 2 < 2 ^ Suc t"
      using Suc.prems True by (auto elim!: oddE)
    then obtain a node' lst' where "stripOnesN (node div 2) (lst div 2) = (node', lst')"
      "stripOnesN (node div 2) (2 ^ t - 1) = (node', 2 ^ a - 1)"
      "node' < 2 ^ a" "2 ^ a \<le> lst'" "lst' < 2 ^ Suc a" "0 < a"
      using Suc.IH by blast
    with True half show ?thesis
      by (intro Suc.prems(1) [of node' lst' a]) (simp_all add: stripOnesN.simps [of node] del: power_Suc)
  next
    case False
    then show ?thesis
      using Suc.prems(2-4)
      by (intro Suc.prems(1) [of node lst "Suc t"]) (simp_all add: stripOnesN.simps [of node])
  qed
qed simp

lemma stripOnesN_right:
  assumes "node < lst" "lst < 2 ^ t"
  obtains a node' lst' where "stripOnesN (2 ^ t + node) (2 ^ t + lst) = (2 ^ a + node', 2 ^ a + lst')"
    "stripOnesN node lst = (node', lst')" "node' \<le> lst'" "lst' < 2 ^ a"
  using assms
proof (induction t arbitrary: node lst thesis)
  case (Suc t)
  have half: "(2 ^ Suc t + n) div 2 = 2 ^ t + n div 2" and par: "odd (2 ^ Suc t + n) = odd n" for n :: nat
    by simp_all
  show ?case
  proof (cases "odd node")
    case True
    have "node div 2 < lst div 2" "lst div 2 < 2 ^ t"
      using Suc.prems True by (auto elim!: oddE)
    then obtain a node' lst' where
      "stripOnesN (2 ^ t + node div 2) (2 ^ t + lst div 2) = (2 ^ a + node', 2 ^ a + lst')"
      "stripOnesN (node div 2) (lst div 2) = (node', lst')" "node' \<le> lst'" "lst' < 2 ^ a"
      using Suc.IH by blast
    with True half par show ?thesis
      by (intro Suc.prems(1) [of a node' lst'])
        (simp_all add: stripOnesN.simps [of node] stripOnesN.simps [of "2 ^ Suc t + node"] del: power_Suc)
  next
    case False
    then show ?thesis
      using Suc.prems(2,3) par
      by (intro Suc.prems(1) [of "Suc t" node lst])
        (simp_all add: stripOnesN.simps [of node] stripOnesN.simps [of "2 ^ Suc t + node"] del: power_Suc)
  qed
qed simp

lemma consRun_left:
  assumes "0 < m" "m \<le> 2 ^ t" "2 ^ t < n" "n \<le> 2 ^ Suc t"
  shows "consRun fl fr seed st0 c n m xs =
    (if xs = [] then None
     else map_option (\<lambda>r. fr r (last xs)) (consRun fl fr seed st0 c (2 ^ t) m (butlast xs)))"
proof (cases "m = 2 ^ t")
  case True
  have "(n - 1) div 2 ^ t = 1" using assms by (simp add: div_nat_eqI)
  with True have "stripOnesN (m - 1) (n - 1) = (0, 1)"
    using stripOnesN_all [of t "n - 1"] by simp
  moreover have "pathLoop fl fr 0 1 st ys = (if length ys = 1 then Some (fr st (last ys)) else None)" for st ys
    by (cases ys; cases "tl ys") auto
  ultimately show ?thesis
    using True assms
    by (cases xs rule: rev_cases) (auto simp: consRun_def length_Suc_conv hd_append tl_append split: list.splits)
next
  case False
  have "Suc (m - 1) < 2 ^ t" "2 ^ t \<le> n - 1" "n - 1 < 2 ^ Suc t" using False assms by auto
  then obtain a node' lst' where s: "stripOnesN (m - 1) (n - 1) = (node', lst')"
    "stripOnesN (m - 1) (2 ^ t - 1) = (node', 2 ^ a - 1)"
    "node' < 2 ^ a" "2 ^ a \<le> lst'" "lst' < 2 ^ Suc a" "0 < a"
    by (rule stripOnesN_left)
  have loop: "pathLoop fl fr node' lst' st ys =
      (if ys = [] then None
       else map_option (\<lambda>r. fr r (last ys)) (pathLoop fl fr node' (2 ^ a - 1) st (butlast ys)))" for st ys
    using s by (intro pathLoop_left) auto
  have "m \<noteq> n" "2 ^ t \<noteq> m" using False assms by auto
  then show ?thesis
    using s by (cases xs) (auto simp: consRun_def loop simp del: pathLoop.simps One_nat_def)
qed

lemma consRun_right:
  assumes "2 ^ t < m" "m < n" "n \<le> 2 ^ Suc t"
  shows "consRun fl fr seed st0 False n m xs =
    (if xs = [] then None
     else map_option (fl (last xs)) (consRun fl fr seed st0 False (n - 2 ^ t) (m - 2 ^ t) (butlast xs)))"
proof -
  have "m - 2 ^ t - 1 < n - 2 ^ t - 1" "n - 2 ^ t - 1 < 2 ^ t" using assms by auto
  then obtain a node' lst' where s:
    "stripOnesN (2 ^ t + (m - 2 ^ t - 1)) (2 ^ t + (n - 2 ^ t - 1)) = (2 ^ a + node', 2 ^ a + lst')"
    "stripOnesN (m - 2 ^ t - 1) (n - 2 ^ t - 1) = (node', lst')" "node' \<le> lst'" "lst' < 2 ^ a"
    by (rule stripOnesN_right)
  moreover have "2 ^ t + (m - 2 ^ t - 1) = m - 1" "2 ^ t + (n - 2 ^ t - 1) = n - 1" using assms by auto
  ultimately have strip: "stripOnesN (m - 1) (n - 1) = (2 ^ a + node', 2 ^ a + lst')" by argo
  have loop: "pathLoop fl fr (2 ^ a + node') (2 ^ a + lst') st ys =
      (if ys = [] then None
       else map_option (fl (last ys)) (pathLoop fl fr node' lst' st (butlast ys)))" for st ys
    using s by (intro pathLoop_right) auto
  have "m \<noteq> n" "m - 2 ^ t \<noteq> n - 2 ^ t" using assms by auto
  then show ?thesis
    using s(2) strip by (cases xs) (auto simp: consRun_def loop simp del: pathLoop.simps One_nat_def)
qed

subsection \<open>The verifier as such a run\<close>

lemma stripOnes_nat:
  "node < 2 ^ 31 \<Longrightarrow> lst < 2 ^ 31 \<Longrightarrow>
   stripOnes (int node) (int lst) = map_prod int int (stripOnesN node lst)"
proof (induction node lst rule: stripOnesN.induct)
  case (1 node lst)
  then show ?case
    by (subst stripOnes.simps, subst stripOnesN.simps) (auto simp: js_nat_simps)
qed

lemma stripOnesN_le: "stripOnesN node lst = (a, b) \<Longrightarrow> a \<le> node \<and> b \<le> lst"
proof (induction node lst rule: stripOnesN.induct)
  case (1 node lst)
  then show ?case
    by (subst (asm) (2) stripOnesN.simps) (force split: if_splits)
qed

text \<open>After the shift the old index is zero exactly for an old size that is a power of two.\<close>

lemma stripOnesN_zero_iff: "fst (stripOnesN node lst) = 0 \<longleftrightarrow> (\<exists>t. Suc node = 2 ^ t)"
proof (induction node lst rule: stripOnesN.induct)
  case (1 node lst)
  show ?case
  proof (cases "odd node")
    case True
    have "(\<exists>t. Suc (node div 2) = 2 ^ t) \<longleftrightarrow> (\<exists>t. Suc node = 2 ^ t)"
    proof
      assume "\<exists>t. Suc (node div 2) = 2 ^ t"
      then obtain t where "Suc (node div 2) = 2 ^ t" ..
      then have "Suc node = 2 ^ Suc t" using True by (auto elim!: oddE)
      then show "\<exists>t. Suc node = 2 ^ t" ..
    next
      assume "\<exists>t. Suc node = 2 ^ t"
      then obtain t where t: "Suc node = 2 ^ t" ..
      then obtain u where "t = Suc u" using True by (cases t) auto
      with t have "Suc (node div 2) = 2 ^ u" using True by (auto elim!: oddE)
      then show "\<exists>t. Suc (node div 2) = 2 ^ t" ..
    qed
    with 1 True show ?thesis by (subst stripOnesN.simps) simp
  next
    case False
    have "node = 0" if "Suc node = 2 ^ t" for t
      using that False by (cases t) (auto simp: even_Suc [symmetric] simp del: even_Suc, presburger?)
    moreover have "Suc 0 = 2 ^ 0" by simp
    ultimately show ?thesis using False by (subst stripOnesN.simps) (auto simp del: power_0)
  qed
qed

lemma consistencyLoop_iff:
  assumes "fn < 2 ^ 31" "sn < 2 ^ 31"
  shows "consistencyLoop H (int fn) (int sn) o1 w xs = Some (0, a, b) \<longleftrightarrow>
    pathLoop (consL H) (consR H) fn sn (o1, w) xs = Some (a, b)"
  using consistencyLoop_pathLoop [OF assms, of H o1 w xs, symmetric]
  by (auto split: option.splits if_splits)

definition isPow2 :: "nat \<Rightarrow> bool" where
  "isPow2 m \<longleftrightarrow> (\<exists>t. m = 2 ^ t)"

lemma verifyConsistency_consRun:
  assumes "1 \<le> m" "m < n" "n \<le> 2 ^ 31"
  shows "verifyConsistency H (int m) oldRoot (int n) newRoot xs \<longleftrightarrow>
    consRun (consL H) (consR H) (\<lambda>x. (x, x)) (oldRoot, oldRoot) (isPow2 m) n m xs = Some (oldRoot, newRoot)"
proof -
  obtain node lst where nl: "stripOnesN (m - 1) (n - 1) = (node, lst)" by fastforce
  have small: "m - 1 < 2 ^ 31" "n - 1 < 2 ^ 31" using assms by auto
  with nl have b: "node < 2 ^ 31" "lst < 2 ^ 31" using stripOnesN_le [OF nl] by auto
  have pow: "isPow2 m \<longleftrightarrow> node = 0"
    using stripOnesN_zero_iff [of "m - 1" "n - 1"] nl assms by (simp add: isPow2_def)
  have "stripOnes (int (m - 1)) (int (n - 1)) = (int node, int lst)"
    using stripOnes_nat [OF small] nl by simp
  then have strip: "stripOnes (int m - 1) (int n - 1) = (int node, int lst)"
    using assms by (simp add: of_nat_diff)
  have bounds: "\<not> int m < 1" "\<not> int m > int n" "int m \<noteq> int n" "m \<noteq> n" using assms by auto
  have accept: "(case r of None \<Rightarrow> False | Some (l, a, b) \<Rightarrow> l = 0 \<and> a = oldRoot \<and> b = newRoot) \<longleftrightarrow>
      r = Some (0 :: int, oldRoot, newRoot)" for r
    by (auto split: option.splits)
  show ?thesis
  proof (cases "node = 0")
    case True
    then show ?thesis
      using bounds nl pow consistencyLoop_iff [of 0 lst H oldRoot oldRoot xs] b
      by (simp add: verifyConsistency_def strip consRun_def accept del: One_nat_def)
  next
    case False
    then show ?thesis
      using bounds nl pow consistencyLoop_iff [OF b]
      by (cases xs) (simp_all add: verifyConsistency_def strip consRun_def accept del: One_nat_def)
  qed
qed

lemma splitPoint_eq: "2 ^ t < n \<Longrightarrow> n \<le> 2 ^ Suc t \<Longrightarrow> splitPoint n = 2 ^ t"
proof -
  assume n: "2 ^ t < n" "n \<le> 2 ^ Suc t"
  then have "2 \<le> n" using one_le_power [of "2 :: nat" t] by linarith
  then obtain m where m: "splitPoint n = 2 ^ m" "2 ^ m < n" "n \<le> 2 ^ Suc m"
    using splitPoint_pow by blast
  have "(2 :: nat) ^ t < 2 ^ Suc m" "(2 :: nat) ^ m < 2 ^ Suc t"
    using n m by linarith+
  then have "t < Suc m" "m < Suc t" by (metis power_less_imp_less_exp one_less_numeral_iff semiring_norm(76))+
  with m show ?thesis by simp
qed

lemma merkleRoot_take_right:
  assumes "k = 2 ^ t" "k < m" "m \<le> 2 * k" "m \<le> length ls"
  shows "merkleRoot H (take m ls) = nodeHash H (merkleRoot H (take k ls)) (merkleRoot H (take (m - k) (drop k ls)))"
proof -
  have "splitPoint m = k" using splitPoint_eq [of t m] assms by simp
  moreover have "m \<noteq> 0" "m \<noteq> 1" using assms by auto
  ultimately show ?thesis
    using assms by (subst merkleRoot.simps) (auto simp: Let_def drop_take min_def)
qed

text \<open>A power of two inside a larger tree lies in its left part.\<close>

lemma isPow2_le_split: "isPow2 m \<Longrightarrow> m < n \<Longrightarrow> n \<le> 2 ^ Suc t \<Longrightarrow> m \<le> 2 ^ t"
proof -
  assume "isPow2 m" "m < n" "n \<le> 2 ^ Suc t"
  then obtain u where u: "m = 2 ^ u" "(2 :: nat) ^ u < 2 ^ Suc t" by (auto simp: isPow2_def)
  then have "u < Suc t" using power_less_imp_less_exp [of 2 u "Suc t"] by simp
  with u show ?thesis by (simp add: power_increasing)
qed

lemma subProof_split:
  assumes "m \<noteq> length ls" "2 \<le> length ls" "splitPoint (length ls) = k"
  shows "subProof H ls m c =
    (if m \<le> k then subProof H (take k ls) m c @ [merkleRoot H (drop k ls)]
     else subProof H (drop k ls) (m - k) False @ [merkleRoot H (take k ls)])"
  using assms by (subst subProof.simps) (simp add: Let_def)

lemma subProof_incomplete:
  "0 < m \<Longrightarrow> m < length ls \<Longrightarrow> \<not> isPow2 m \<Longrightarrow> subProof H ls m True = subProof H ls m False"
proof (induction "length ls" arbitrary: ls rule: less_induct)
  case less
  then have "2 \<le> length ls" by linarith
  then obtain k t where k: "k = 2 ^ t" "k < length ls" "splitPoint (length ls) = k"
    using merkle_split by metis
  have "m \<noteq> k" using less.prems k by (auto simp: isPow2_def)
  then show ?case
    using less.hyps [of "take k ls"] less.prems \<open>2 \<le> length ls\<close> k
    by (auto simp: subProof_split [of m ls k])
qed

lemma consistency_complete_aux:
  assumes "c \<Longrightarrow> isPow2 m \<and> st0 = (merkleRoot H (take m ls), merkleRoot H (take m ls))"
    "0 < m" "m \<le> length ls"
  shows "consRun (consL H) (consR H) (\<lambda>x. (x, x)) st0 c (length ls) m (subProof H ls m c) =
    Some (merkleRoot H (take m ls), merkleRoot H ls)"
  using assms
proof (induction "length ls" arbitrary: ls m c rule: less_induct)
  case less
  show ?case
  proof (cases "m = length ls")
    case True
    with less.prems show ?thesis by (auto simp: consRun_def subProof.simps)
  next
    case False
    with less.prems have two: "2 \<le> length ls" by linarith
    then obtain k t where k: "k = 2 ^ t" "k < length ls" "length ls \<le> 2 * k" "splitPoint (length ls) = k"
      "merkleRoot H ls = nodeHash H (merkleRoot H (take k ls)) (merkleRoot H (drop k ls))"
      by (rule merkle_split [where H = H])
    note sub = subProof_split [OF False two k(4), of H c]
    show ?thesis
    proof (cases "m \<le> k")
      case True
      have "consRun (consL H) (consR H) (\<lambda>x. (x, x)) st0 c (length (take k ls)) m (subProof H (take k ls) m c) =
          Some (merkleRoot H (take m (take k ls)), merkleRoot H (take k ls))"
        using less.prems True k by (intro less.hyps) (auto simp: min_def)
      then show ?thesis
        using True k less.prems(2,3)
        by (subst sub) (simp add: consRun_left [of m t "length ls"] min_def consR_pair)
    next
      case gt: False
      then have "\<not> c" using less.prems(1) isPow2_le_split [of m "length ls" t] False less.prems(3) k by auto
      have "consRun (consL H) (consR H) (\<lambda>x. (x, x)) st0 False (length (drop k ls)) (m - k)
          (subProof H (drop k ls) (m - k) False) =
          Some (merkleRoot H (take (m - k) (drop k ls)), merkleRoot H (drop k ls))"
        using less.prems gt k by (intro less.hyps) auto
      then show ?thesis
        using gt k less.prems(2,3) False \<open>\<not> c\<close> merkleRoot_take_right [of k t m ls H]
        by (subst sub) (simp add: consRun_right [of t m "length ls"] consL_pair)
    qed
  qed
qed

subsection \<open>Soundness of consistency\<close>

text \<open>The same run that also records the preimages hashed on the way to the new root.\<close>

definition traceL :: "hashfn \<Rightarrow> bytes \<Rightarrow> bytes \<times> bytes \<times> bytes list \<Rightarrow> bytes \<times> bytes \<times> bytes list" where
  "traceL H x st = (case st of (o1, w, ps) \<Rightarrow> (nodeHash H x o1, nodeHash H x w, ([1] @ x @ w) # ps))"

definition traceR :: "hashfn \<Rightarrow> bytes \<times> bytes \<times> bytes list \<Rightarrow> bytes \<Rightarrow> bytes \<times> bytes \<times> bytes list" where
  "traceR H st x = (case st of (o1, w, ps) \<Rightarrow> (o1, nodeHash H w x, ([1] @ w @ x) # ps))"

abbreviation traceRun ::
  "hashfn \<Rightarrow> bytes \<Rightarrow> bool \<Rightarrow> nat \<Rightarrow> nat \<Rightarrow> bytes list \<Rightarrow> (bytes \<times> bytes \<times> bytes list) option" where
  "traceRun H oldRoot \<equiv> consRun (traceL H) (traceR H) (\<lambda>x. (x, x, [])) (oldRoot, oldRoot, [])"

definition consistencyHashed :: "hashfn \<Rightarrow> int \<Rightarrow> bytes \<Rightarrow> int \<Rightarrow> bytes list \<Rightarrow> bytes list" where
  "consistencyHashed H oldSize oldRoot newSize xs =
     (case traceRun H oldRoot (fst (stripOnesN (nat oldSize - 1) (nat newSize - 1)) = 0)
             (nat newSize) (nat oldSize) xs of
        None \<Rightarrow> [] | Some (a, b, ps) \<Rightarrow> ps)"

lemma traceRun_forget:
  "map_option (\<lambda>(a, b, ps). (a, b)) (traceRun H r c n m xs) =
   consRun (consL H) (consR H) (\<lambda>x. (x, x)) (r, r) c n m xs"
  by (auto simp: consRun_def traceL_def traceR_def consL_def consR_def split: prod.splits
      intro!: pathLoop_map [where f = "\<lambda>(a, b, ps). (a, b)", THEN trans] arg_cong [where f = "\<lambda>s. pathLoop _ _ _ _ s _"])

lemma traceRun_length:
  assumes "traceRun H r c n m xs = Some (a, w, ps)" "\<And>x. length (H x) = 32" "length r = 32"
    "\<forall>x \<in> set xs. length x = 32"
  shows "length w = 32"
proof -
  have loop: "length (fst (snd st)) = 32"
    if "pathLoop (traceL H) (traceR H) i j st0 ys = Some st" "length (fst (snd st0)) = 32" for i j st0 ys st
    using pathLoop_invar [OF that(1), where P = "\<lambda>st. length (fst (snd st)) = 32"] that(2) assms(2)
    by (auto simp: traceL_def traceR_def nodeHash_def split: prod.splits)
  show ?thesis
    using assms(1,3,4)
    by (cases xs) (auto simp: consRun_def simp del: pathLoop.simps split: if_splits prod.splits dest!: loop)
qed

lemma consistency_sound_aux:
  assumes H32: "\<And>x. length (H x) = 32" and r32: "length r = 32"
  shows "traceRun H r c (length ls) m xs = Some (a, merkleRoot H ls, P) \<Longrightarrow>
    (c \<Longrightarrow> isPow2 m) \<Longrightarrow> 0 < m \<Longrightarrow> m \<le> length ls \<Longrightarrow>
    \<forall>l \<in> set ls. length l = 32 \<Longrightarrow> \<forall>x \<in> set xs. length x = 32 \<Longrightarrow>
    inj_on H (set (rootHashed H ls) \<union> set P) \<Longrightarrow> a = merkleRoot H (take m ls)"
proof (induction "length ls" arbitrary: ls m c xs a P rule: less_induct)
  case less
  note run = less.prems(1)
  show ?case
  proof (cases "m = length ls")
    case True
    with run show ?thesis by (auto simp: consRun_def split: if_splits)
  next
    case False
    with less.prems(3,4) have two: "2 \<le> length ls" by linarith
    then obtain k t where k: "k = 2 ^ t" "k < length ls" "length ls \<le> 2 * k"
      "merkleRoot H ls = nodeHash H (merkleRoot H (take k ls)) (merkleRoot H (drop k ls))"
      "set (rootHashed H ls) = insert ([1] @ merkleRoot H (take k ls) @ merkleRoot H (drop k ls))
         (set (rootHashed H (take k ls)) \<union> set (rootHashed H (drop k ls)))"
      by (rule merkle_split [where H = H])
    have len: "length (merkleRoot H (take k ls)) = 32" "length (merkleRoot H (drop k ls)) = 32"
      using less.prems(5) H32 by (auto intro!: length_merkleRoot dest: in_set_takeD in_set_dropD)
    have sub32: "\<forall>x \<in> set (butlast xs). length x = 32"
      using less.prems(6) by (auto dest: in_set_butlastD)
    show ?thesis
    proof (cases "m \<le> k")
      case True
      have E: "traceRun H r c (length ls) m xs =
          (if xs = [] then None
           else map_option (\<lambda>st. traceR H st (last xs)) (traceRun H r c k m (butlast xs)))"
        unfolding k(1) using True k less.prems(3) by (intro consRun_left) auto
      from run [unfolded E] obtain w Q where
        sub: "traceRun H r c k m (butlast xs) = Some (a, w, Q)"
        and eq: "nodeHash H w (last xs) = merkleRoot H ls" "P = ([1] @ w @ last xs) # Q"
        by (auto simp: traceR_def split: if_splits)
      have "w = merkleRoot H (take k ls) \<and> last xs = merkleRoot H (drop k ls)"
        by (rule nodeHash_inj [OF _ less.prems(7)])
          (use eq k traceRun_length [OF sub H32 r32 sub32] len in auto)
      then have "a = merkleRoot H (take m (take k ls))"
        using sub less.prems True k eq sub32
        by (intro less.hyps [of "take k ls" c m "butlast xs" a Q])
          (auto elim: inj_on_subset dest: in_set_takeD)
      with True show ?thesis by (simp add: min_def)
    next
      case gt: False
      then have c: "c = False"
        using less.prems(2) isPow2_le_split [of m "length ls" t] False less.prems(4) k by auto
      have E: "traceRun H r c (length ls) m xs =
          (if xs = [] then None
           else map_option (traceL H (last xs)) (traceRun H r False (length ls - k) (m - k) (butlast xs)))"
        unfolding c k(1) using gt k less.prems(4) False by (intro consRun_right) auto
      from run [unfolded E] obtain b w Q where
        sub: "traceRun H r False (length ls - k) (m - k) (butlast xs) = Some (b, w, Q)"
        and eq: "nodeHash H (last xs) w = merkleRoot H ls" "P = ([1] @ last xs @ w) # Q"
          "a = nodeHash H (last xs) b"
        by (auto simp: traceL_def split: if_splits)
      have nodes: "last xs = merkleRoot H (take k ls) \<and> w = merkleRoot H (drop k ls)"
        by (rule nodeHash_inj [OF _ less.prems(7)])
          (use eq k traceRun_length [OF sub H32 r32 sub32] len in auto)
      have "b = merkleRoot H (take (m - k) (drop k ls))"
      proof (rule less.hyps [of "drop k ls" False "m - k" "butlast xs" b Q])
        show "traceRun H r False (length (drop k ls)) (m - k) (butlast xs) = Some (b, merkleRoot H (drop k ls), Q)"
          using sub nodes by simp
        show "inj_on H (set (rootHashed H (drop k ls)) \<union> set Q)"
          by (rule inj_on_subset [OF less.prems(7)]) (use k(5) eq(2) in auto)
        show "\<forall>l \<in> set (drop k ls). length l = 32"
          using less.prems(5) by (auto dest: in_set_dropD)
        show "length (drop k ls) < length ls" using k(1,2) by (cases ls) auto
      qed (use less.prems(3,4) gt k(1,2) sub32 in auto)
      with nodes show ?thesis
        using merkleRoot_take_right [of k t m ls H] gt k(1-3) less.prems(4) eq(3) by auto
    qed
  qed
qed

subsection \<open>The properties of the log\<close>

definition treeSampleHash :: hashfn where
  "treeSampleHash x = replicate 31 0 @ [sum_list x]"

definition treeSampleLeaf :: "nat \<Rightarrow> bytes" where
  "treeSampleLeaf n = replicate 31 0 @ [of_nat n]"

lemma inclusion_complete:
  assumes "0 \<le> index" "index < int (length leaves)" "length leaves \<le> 2 ^ 31"
  shows "\<exists>p. inclusionProof H leaves index = Inr p \<and>
    verifyInclusion H (leaves ! nat index) index (int (length leaves)) p (merkleRoot H leaves)"
proof -
  obtain i where "index = int i" "i < length leaves"
    using assms by (metis nat_0_le nat_less_iff of_nat_less_iff)
  then show ?thesis
    using inclusion_complete_aux [of i leaves H] assms
    by (auto simp: verifyInclusion_pathLoop)
qed

text \<open>
  Every audit path that \<open>inclusionProof\<close> builds is accepted by \<open>verifyInclusion\<close> for the leaf,
  index, size and root of the tree it was built from, for every tree of at most \<open>2 ^ 31\<close> leaves
  (beyond that size the verifier's \<open>>>\<close> no longer halves the index).
\<close>

theorem inclusionProof_verifies:
  assumes "0 \<le> index" "index < int (length leaves)" "length leaves \<le> 2 ^ 31"
  shows "\<exists>p. inclusionProof H leaves index = Inr p \<and>
    verifyInclusion H (leaves ! nat index) index (int (length leaves)) p (merkleRoot H leaves)"
  by (rule inclusion_complete [OF assms])

text \<open>
  C37. Soundness of inclusion: if \<open>verifyInclusion\<close> accepts a leaf hash at an index against the root
  of a tree of 32-byte leaf hashes, and SHA-256 does not collide on the inputs hashed by that tree
  and by this verifier run, then the leaf hash is the one stored at that index.
\<close>

theorem verifyInclusion_sound:
  assumes "\<And>x. length (H x) = 32" "\<forall>l \<in> set leaves. length l = 32" "length leaf = 32"
    "length leaves \<le> 2 ^ 31"
    "inj_on H (set (rootHashed H leaves) \<union> set (inclusionHashed H leaf index (int (length leaves)) p))"
    "verifyInclusion H leaf index (int (length leaves)) p (merkleRoot H leaves)"
  shows "leaf = leaves ! nat index"
proof -
  let ?run = "pathLoop (incL H) (incR H) (nat index) (length leaves - 1) (leaf, []) p"
  from assms(4,6) have idx: "0 \<le> index" "nat index < length leaves"
    and acc: "pathLoop (nodeHash H) (nodeHash H) (nat index) (length leaves - 1) leaf p = Some (merkleRoot H leaves)"
    by (auto simp: verifyInclusion_pathLoop)
  then have "map_option fst ?run = Some (merkleRoot H leaves)"
    using incL_incR_fst [of H "nat index" "length leaves - 1" "(leaf, [])" p] by simp
  then obtain P where P: "?run = Some (merkleRoot H leaves, P)" by auto
  have "nat (int (length leaves) - 1) = length leaves - 1" by simp
  then have "inclusionHashed H leaf index (int (length leaves)) p = P"
    using P by (simp only: inclusionHashed_def) simp
  with P idx assms show ?thesis by (intro inclusion_sound_aux [of H "nat index" leaves leaf "[]" p P]) auto
qed

theorem verifyInclusion_sound_witness:
  "treeSampleLeaf 2 = map treeSampleLeaf [1, 2] ! nat 1"
proof (rule verifyInclusion_sound [where H = treeSampleHash and p = "[treeSampleLeaf 1]"])
  show "verifyInclusion treeSampleHash (treeSampleLeaf 2) 1 (int (length (map treeSampleLeaf [1, 2]))) [treeSampleLeaf 1]
      (merkleRoot treeSampleHash (map treeSampleLeaf [1, 2]))"
    by code_simp
  show "inj_on treeSampleHash (set (rootHashed treeSampleHash (map treeSampleLeaf [1, 2])) \<union>
      set (inclusionHashed treeSampleHash (treeSampleLeaf 2) 1 (int (length (map treeSampleLeaf [1, 2]))) [treeSampleLeaf 1]))"
    unfolding inj_on_def by code_simp
qed (simp_all add: treeSampleHash_def treeSampleLeaf_def)

lemma consistency_complete:
  assumes "1 \<le> oldSize" "oldSize \<le> int (length leaves)" "length leaves \<le> 2 ^ 31"
  shows "\<exists>p. consistencyProof H leaves oldSize = Inr p \<and>
    verifyConsistency H oldSize (merkleRoot H (take (nat oldSize) leaves))
      (int (length leaves)) (merkleRoot H leaves) p"
proof (cases "oldSize = int (length leaves)")
  case True
  with assms show ?thesis by (auto simp: consistencyProof_def verifyConsistency_def)
next
  case False
  define m where "m = nat oldSize"
  with assms False have m: "oldSize = int m" "1 \<le> m" "m < length leaves" by auto
  let ?r = "merkleRoot H (take m leaves)"
  have "consRun (consL H) (consR H) (\<lambda>x. (x, x)) (?r, ?r) (isPow2 m) (length leaves) m
      (subProof H leaves m (isPow2 m)) = Some (?r, merkleRoot H leaves)"
    using m by (intro consistency_complete_aux) auto
  moreover have "subProof H leaves m True = subProof H leaves m (isPow2 m)"
    using subProof_incomplete [of m leaves H] m by (cases "isPow2 m") auto
  ultimately show ?thesis
    using m assms by (simp add: consistencyProof_def verifyConsistency_consRun)
qed

text \<open>
  Every consistency proof that \<open>consistencyProof\<close> builds between the first \<open>oldSize\<close> leaves and the
  whole tree is accepted by \<open>verifyConsistency\<close> for the two roots: an honest append-only log can
  always prove that it only appended.
\<close>

theorem consistencyProof_verifies:
  assumes "1 \<le> oldSize" "oldSize \<le> int (length leaves)" "length leaves \<le> 2 ^ 31"
  shows "\<exists>p. consistencyProof H leaves oldSize = Inr p \<and>
    verifyConsistency H oldSize (merkleRoot H (take (nat oldSize) leaves))
      (int (length leaves)) (merkleRoot H leaves) p"
  by (rule consistency_complete [OF assms])

text \<open>
  C38. Soundness of consistency: if every proof element is a 32-byte hash, \<open>verifyConsistency\<close> accepts
  an old root against the root of the current leaves, and SHA-256 does not collide on the inputs
  hashed, then the old root is the root of the first \<open>oldSize\<close> current leaves: the log only grew.
\<close>

theorem verifyConsistency_sound:
  assumes "\<And>x. length (H x) = 32" "\<forall>l \<in> set leaves. length l = 32" "length oldRoot = 32"
    "\<forall>x \<in> set p. length x = 32" "length leaves \<le> 2 ^ 31"
    "inj_on H (set (rootHashed H leaves) \<union> set (consistencyHashed H oldSize oldRoot (int (length leaves)) p))"
    "verifyConsistency H oldSize oldRoot (int (length leaves)) (merkleRoot H leaves) p"
  shows "oldRoot = merkleRoot H (take (nat oldSize) leaves)"
proof (cases "oldSize = int (length leaves)")
  case True
  with assms(7) show ?thesis by (auto simp: verifyConsistency_def split: if_splits)
next
  case False
  define m where "m = nat oldSize"
  with assms(7) False have m: "oldSize = int m" "1 \<le> m" "m < length leaves"
    by (auto simp: verifyConsistency_def split: if_splits)
  have pow: "isPow2 m \<longleftrightarrow> fst (stripOnesN (m - 1) (length leaves - 1)) = 0"
    using m by (simp add: stripOnesN_zero_iff isPow2_def)
  have "map_option (\<lambda>(a, b, ps). (a, b)) (traceRun H oldRoot (isPow2 m) (length leaves) m p) =
      Some (oldRoot, merkleRoot H leaves)"
    using assms(5,7) m by (simp add: traceRun_forget verifyConsistency_consRun)
  then obtain P where P: "traceRun H oldRoot (isPow2 m) (length leaves) m p = Some (oldRoot, merkleRoot H leaves, P)"
    by auto
  then have "consistencyHashed H oldSize oldRoot (int (length leaves)) p = P"
    by (simp only: consistencyHashed_def m nat_int pow [symmetric]) simp
  with P m assms show ?thesis
    by (intro trans [OF consistency_sound_aux [of H oldRoot "isPow2 m" leaves m p oldRoot P]]) auto
qed

theorem verifyConsistency_sound_witness:
  "treeSampleLeaf 1 = merkleRoot treeSampleHash (take (nat 1) (map treeSampleLeaf [1, 2]))"
proof (rule verifyConsistency_sound [where H = treeSampleHash and p = "[treeSampleLeaf 2]"])
  show "verifyConsistency treeSampleHash 1 (treeSampleLeaf 1) (int (length (map treeSampleLeaf [1, 2])))
      (merkleRoot treeSampleHash (map treeSampleLeaf [1, 2])) [treeSampleLeaf 2]"
    by code_simp
  show "inj_on treeSampleHash (set (rootHashed treeSampleHash (map treeSampleLeaf [1, 2])) \<union>
      set (consistencyHashed treeSampleHash 1 (treeSampleLeaf 1) (int (length (map treeSampleLeaf [1, 2]))) [treeSampleLeaf 2]))"
    unfolding inj_on_def by code_simp
qed (simp_all add: treeSampleHash_def treeSampleLeaf_def)

lemma resplit_accepted:
  "verifyConsistency H 3 (nodeHash H (nodeHash H a b) (take 31 c)) 4 (merkleRoot H [a, b, c, d])
     [take 31 c, drop 31 c @ d, nodeHash H a b]"
proof -
  have "splitPoint (Suc (Suc (Suc (Suc 0)))) = Suc (Suc 0)" "splitPoint (Suc (Suc 0)) = Suc 0"
    by (simp_all add: splitPoint_def splitLoop.simps)
  then have root: "merkleRoot H [a, b, c, d] = nodeHash H (nodeHash H a b) (nodeHash H c d)"
    by (simp add: merkleRoot.simps [of H "[a, b, c, d]"] merkleRoot.simps [of H "[_, _]"] Let_def)
  have same: "nodeHash H (take 31 c) (drop 31 c @ d) = nodeHash H c d"
    by (simp add: nodeHash_def flip: append_assoc)
  show ?thesis
    by (simp add: verifyConsistency_def stripOnes.simps [of 2 3] js_rem2_def js_shr1_def toInt32_def root same)
qed

text \<open>
  C39. The length hypothesis on the proof elements in the previous property is needed, because
  \<open>verifyConsistency\<close> does not check it. In a log of four leaves whose third leaf hash has 32 bytes, moving
  the last byte of that hash from the seed of the proof into its sibling gives an accepted proof of an old
  root for size three that is not the root of the first three leaves, unless the hash function collides on
  the two inputs of that root, which differ in length.
\<close>

theorem verifyConsistency_accepts_resplit_nodes:
  assumes "length c = 32" "inj_on H {[1] @ nodeHash H a b @ c, [1] @ nodeHash H a b @ take 31 c}"
  shows "verifyConsistency H 3 (nodeHash H (nodeHash H a b) (take 31 c)) 4 (merkleRoot H [a, b, c, d])
      [take 31 c, drop 31 c @ d, nodeHash H a b]
    \<and> nodeHash H (nodeHash H a b) (take 31 c) \<noteq> merkleRoot H (take 3 [a, b, c, d])"
proof -
  have "splitPoint (Suc (Suc (Suc 0))) = Suc (Suc 0)" "splitPoint (Suc (Suc 0)) = Suc 0"
    by (simp_all add: splitPoint_def splitLoop.simps)
  then have three: "merkleRoot H (take 3 [a, b, c, d]) = nodeHash H (nodeHash H a b) c"
    by (simp add: merkleRoot.simps [of H "[a, b, c]"] merkleRoot.simps [of H "[_, _]"] Let_def)
  have "length (take 31 c) \<noteq> length c" using assms(1) by simp
  then have "take 31 c \<noteq> c" by metis
  then have "nodeHash H (nodeHash H a b) (take 31 c) \<noteq> nodeHash H (nodeHash H a b) c"
    using assms(2) by (auto simp: nodeHash_def inj_on_def)
  with resplit_accepted [of H a b c d] three show ?thesis by simp
qed

theorem verifyConsistency_accepts_resplit_nodes_witness:
  "\<exists>oldRoot p. verifyConsistency treeSampleHash 3 oldRoot 4 (merkleRoot treeSampleHash (map treeSampleLeaf [1, 2, 3, 4])) p
    \<and> oldRoot \<noteq> merkleRoot treeSampleHash (take 3 (map treeSampleLeaf [1, 2, 3, 4]))"
proof -
  have "inj_on treeSampleHash {[1] @ nodeHash treeSampleHash (treeSampleLeaf 1) (treeSampleLeaf 2) @ treeSampleLeaf 3,
      [1] @ nodeHash treeSampleHash (treeSampleLeaf 1) (treeSampleLeaf 2) @ take 31 (treeSampleLeaf 3)}"
    unfolding inj_on_def by code_simp
  moreover have "length (treeSampleLeaf 3) = 32" by (simp add: treeSampleLeaf_def)
  ultimately show ?thesis
    using verifyConsistency_accepts_resplit_nodes [of "treeSampleLeaf 3" treeSampleHash "treeSampleLeaf 1" "treeSampleLeaf 2" "treeSampleLeaf 4"]
    by (simp only: list.map) blast
qed

lemma inclusionProof_short:
  "0 \<le> i \<Longrightarrow> i < int (length ls) \<Longrightarrow> length ls \<le> 2 ^ m \<Longrightarrow> \<exists>p. inclusionProof H ls i = Inr p \<and> length p \<le> m"
proof (induction m arbitrary: ls i)
  case 0
  then have "length ls = 1" by simp
  with 0 show ?case by (simp add: inclusionProof.simps [of H ls])
next
  case (Suc m)
  show ?case
  proof (cases "length ls = 1")
    case True
    with Suc.prems show ?thesis by (simp add: inclusionProof.simps [of H ls])
  next
    case False
    with Suc.prems have two: "2 \<le> length ls" by linarith
    obtain a where a: "splitPoint (length ls) = 2 ^ a" "2 ^ a < length ls" "length ls \<le> 2 ^ Suc a"
      using splitPoint_pow [OF two] by blast
    have "(2 :: nat) ^ a < 2 ^ Suc m" using a(2) Suc.prems(3) by linarith
    then have "a \<le> m" by (simp only: power_strict_increasing_iff [of "2 :: nat"] less_Suc_eq_le)
    then have le: "(2 :: nat) ^ a \<le> 2 ^ m" by simp
    have small: "length (take (2 ^ a) ls) \<le> 2 ^ m" unfolding length_take using le by linarith
    have "length (drop (2 ^ a) ls) \<le> 2 ^ a" unfolding length_drop using a(3) by simp
    with le have small': "length (drop (2 ^ a) ls) \<le> 2 ^ m" by linarith
    show ?thesis
    proof (cases "i < 2 ^ a")
      case True
      then obtain p where "inclusionProof H (take (2 ^ a) ls) i = Inr p" "length p \<le> m"
        using Suc.IH [of i "take (2 ^ a) ls"] Suc.prems(1) small a(2) by auto
      with True False Suc.prems a show ?thesis
        by (subst inclusionProof.simps) (simp add: Let_def)
    next
      case right: False
      have "\<exists>p. inclusionProof H (drop (2 ^ a) ls) (i - 2 ^ a) = Inr p \<and> length p \<le> m"
        using right Suc.prems(2) small' a(2) by (intro Suc.IH) (simp_all add: of_nat_diff)
      with right False Suc.prems a show ?thesis
        by (subst inclusionProof.simps) (auto simp: Let_def)
    qed
  qed
qed

text \<open>
  Audit paths are total and short: for every index inside a tree of at most \<open>2 ^ m\<close> leaves the recursion
  ends without an error, with a path of at most \<open>m\<close> hashes.
\<close>

theorem inclusionProof_total:
  assumes "0 \<le> index" "index < int (length leafHashes)" "length leafHashes \<le> 2 ^ m"
  shows "\<exists>p. inclusionProof H leafHashes index = Inr p \<and> length p \<le> m"
  by (rule inclusionProof_short [OF assms])

end
