(* ===== verification/JsValues.thy ===== *)
theory JsValues
  imports JB_Prelude "HOL-Library.List_Lexorder" "HOL-Library.Char_ord"
begin

section \<open>ECMAScript values at the trust boundary\<close>

text \<open>
  The parsers of the delivery module take an argument of type \<open>unknown\<close>: whatever a caller,
  a database driver or a forged type brand hands over. This theory is the model of those
  values as far as the parsers can tell them apart: the primitive types, objects with their
  prototype and own property descriptors (data or accessor, enumerable or not, string or
  symbol keys), dense arrays with the number of own keys they carry beside their elements
  and \<open>length\<close>, and views on byte buffers with the internal slots \<open>copyBytes\<close> inspects.
  A Number is an integer (\<open>JNum\<close>) or anything else (\<open>JFrac\<close>: a fraction, an infinity, NaN).

  It also states the two interfaces the rest of the library rests on, as locales: a
  validator of strings (\<open>string_parser\<close>) and a parser of records with its canonical
  encoder (\<open>record_codec\<close>). Every parser of the development is an interpretation of one of them.
\<close>

named_theorems parse_simps \<open>when a parser of a scalar value succeeds\<close>

subsection \<open>Values\<close>

datatype jskey = KStr string | KSym nat

datatype jsproto = ObjectPrototype | ArrayPrototype | NullPrototype | OtherPrototype

datatype viewproto = Uint8ArrayPrototype | BufferPrototype | OtherViewPrototype

datatype backing = PlainBuffer | SharedBuffer

text \<open>
  A typed array: its prototype, the own properties it carries (a caller may try to shadow
  \<open>length\<close> or \<open>set\<close>), the size of its elements in bytes, the kind, length and flags of the
  buffer behind it, its offset in it and the bytes it shows.
\<close>

record typed_view =
  viewPrototype :: viewproto
  viewOwnKeys :: "jskey list"
  viewElementSize :: nat
  viewBacking :: backing
  viewBackingLength :: nat
  viewResizable :: bool
  viewDetached :: bool
  viewOffset :: nat
  viewBytes :: bytes

datatype jsval =
    JUndefined
  | JNull
  | JBool bool
  | JNum int
  | JFrac
  | JBigInt int
  | JStr string
  | JFunction
  | JView typed_view
  | JArr jsproto "jsval list" nat
  | JObj jsproto "(jskey \<times> jsprop) list"
and jsprop =
    Data bool jsval
  | Accessor bool

text \<open>An owned byte array: a fresh \<open>Uint8Array\<close> on a buffer of its own.\<close>

definition ownedView :: "bytes \<Rightarrow> typed_view" where
  "ownedView bs = \<lparr>viewPrototype = Uint8ArrayPrototype, viewOwnKeys = [], viewElementSize = 1,
     viewBacking = PlainBuffer, viewBackingLength = length bs, viewResizable = False,
     viewDetached = False, viewOffset = 0, viewBytes = bs\<rparr>"

subsection \<open>Records\<close>

primrec enumerableData :: "jsprop \<Rightarrow> bool" where
  "enumerableData (Data e v) = e"
| "enumerableData (Accessor e) = False"

primrec propValue :: "jsprop \<Rightarrow> jsval" where
  "propValue (Data e v) = v"
| "propValue (Accessor e) = JUndefined"

definition recGet :: "(jskey \<times> jsprop) list \<Rightarrow> string \<Rightarrow> jsval" where
  "recGet props k = (case map_of props (KStr k) of None \<Rightarrow> JUndefined | Some p \<Rightarrow> propValue p)"

text \<open>
  The guard both record parsers start with: a plain object, not an array, with
  \<open>Object.prototype\<close> or no prototype. The result is the list of its own properties.
\<close>

definition plainProps :: "jsval \<Rightarrow> (jskey \<times> jsprop) list res" where
  "plainProps v = (case v of
     JObj pr props \<Rightarrow>
       if pr = ObjectPrototype \<or> pr = NullPrototype then Inr props else Inl DeliveryValidationError
   | _ \<Rightarrow> Inl DeliveryValidationError)"

definition expectExactRecord :: "jsval \<Rightarrow> string list \<Rightarrow> (string \<Rightarrow> jsval) res" where
  "expectExactRecord v keys =
     bindE (plainProps v) (\<lambda>props.
     let ownKeys = map fst props in
     bindE (guardE (\<not> (length ownKeys \<noteq> length keys
                      \<or> list_ex (\<lambda>k. case k of KSym _ \<Rightarrow> True | KStr s \<Rightarrow> s \<notin> set keys) ownKeys
                      \<or> list_ex (\<lambda>s. KStr s \<notin> set ownKeys) keys)) DeliveryValidationError) (\<lambda>_.
     bindE (guardE (list_all (\<lambda>s. case map_of props (KStr s) of
                        None \<Rightarrow> False
                      | Some p \<Rightarrow> enumerableData p \<and> propValue p \<noteq> JUndefined) keys)
              DeliveryValidationError) (\<lambda>_.
     Inr (recGet props))))"

definition expectPlainDataRecord :: "jsval \<Rightarrow> (string \<Rightarrow> jsval) res" where
  "expectPlainDataRecord v =
     bindE (plainProps v) (\<lambda>props.
     bindE (guardE (list_all (\<lambda>(k, p). (case k of KSym _ \<Rightarrow> False | KStr _ \<Rightarrow> True)
                                       \<and> enumerableData p) props) DeliveryValidationError) (\<lambda>_.
     Inr (recGet props)))"

text \<open>An object literal with the given fields, in the order they are written.\<close>

definition mkRecord :: "(string \<times> jsval) list \<Rightarrow> jsval" where
  "mkRecord kvs = JObj ObjectPrototype (map (\<lambda>(k, v). (KStr k, Data True v)) kvs)"

definition fieldOf :: "(string \<times> jsval) list \<Rightarrow> string \<Rightarrow> jsval" where
  "fieldOf kvs k = (case map_of kvs k of None \<Rightarrow> JUndefined | Some v \<Rightarrow> v)"

lemma map_of_mkRecord:
  "map_of (map (\<lambda>(k, v). (KStr k, Data True v)) kvs) (KStr k) = map_option (Data True) (map_of kvs k)"
  by (induction kvs) auto

lemma recGet_mkRecord:
  "recGet (map (\<lambda>(k, v). (KStr k, Data True v)) kvs) = fieldOf kvs"
  by (auto simp: recGet_def fieldOf_def map_of_mkRecord fun_eq_iff split: option.splits)

lemma fieldOf_Nil [simp]: "fieldOf [] k = JUndefined"
  by (simp add: fieldOf_def)

lemma fieldOf_Cons [simp]: "fieldOf ((k', v) # kvs) k = (if k' = k then v else fieldOf kvs k)"
  by (simp add: fieldOf_def)

lemma expectExactRecord_mkRecord:
  assumes "distinct keys" "map fst kvs = keys" "JUndefined \<notin> set (map snd kvs)"
  shows "expectExactRecord (mkRecord kvs) keys = Inr (fieldOf kvs)"
proof -
  let ?props = "map (\<lambda>(k, v). (KStr k, Data True v)) kvs"
  have keys: "map fst ?props = map KStr keys"
    by (simp add: assms(2)[symmetric] case_prod_beta comp_def)
  have "\<exists>v. map_of kvs s = Some v \<and> v \<noteq> JUndefined" if "s \<in> set keys" for s
  proof -
    obtain v where v: "map_of kvs s = Some v"
      using \<open>s \<in> set keys\<close>
      by (cases "map_of kvs s") (auto simp: assms(2)[symmetric] map_of_eq_None_iff)
    have "v \<in> set (map snd kvs)"
      using map_of_SomeD[OF v] by force
    with assms(3) have "v \<noteq> JUndefined" by metis
    with v show ?thesis by simp
  qed
  then have ok: "list_all (\<lambda>s. case map_of ?props (KStr s) of
                        None \<Rightarrow> False
                      | Some p \<Rightarrow> enumerableData p \<and> propValue p \<noteq> JUndefined) keys"
    by (fastforce simp: list_all_iff map_of_mkRecord split: option.splits)
  have "plainProps (mkRecord kvs) = Inr ?props"
    by (simp add: plainProps_def mkRecord_def)
  then show ?thesis
    unfolding expectExactRecord_def
    by (simp only: bindE_Inr Let_def keys recGet_mkRecord guardE_def ok if_True)
       (simp add: list_ex_iff)
qed

text \<open>
  What an accepted value looks like: exactly the named fields, each an enumerable own data
  property with a defined value.
\<close>

lemma expectExactRecord_shape:
  assumes "expectExactRecord v keys = Inr get"
  obtains pr props where "v = JObj pr props" "pr = ObjectPrototype \<or> pr = NullPrototype"
    "set (map fst props) = KStr ` set keys" "length props = length keys"
    "\<And>k. k \<in> set keys \<Longrightarrow> map_of props (KStr k) = Some (Data True (get k)) \<and> get k \<noteq> JUndefined"
    "get = recGet props"
proof -
  obtain props where props: "plainProps v = Inr props"
    and shape: "length props = length keys"
      "\<not> list_ex (\<lambda>k. case k of KSym _ \<Rightarrow> True | KStr s \<Rightarrow> s \<notin> set keys) (map fst props)"
      "\<not> list_ex (\<lambda>s. KStr s \<notin> set (map fst props)) keys"
      "list_all (\<lambda>s. case map_of props (KStr s) of
          None \<Rightarrow> False | Some p \<Rightarrow> enumerableData p \<and> propValue p \<noteq> JUndefined) keys"
    and get: "get = recGet props"
    using assms by (auto simp: expectExactRecord_def Let_def res_simps)
  obtain pr where v: "v = JObj pr props" "pr = ObjectPrototype \<or> pr = NullPrototype"
    using props by (auto simp: plainProps_def split: jsval.splits if_splits)
  have "set (map fst props) = KStr ` set keys"
  proof (rule set_eqI)
    fix k
    show "k \<in> set (map fst props) \<longleftrightarrow> k \<in> KStr ` set keys"
      using shape(2,3) by (cases k) (fastforce simp: list_ex_iff)+
  qed
  moreover have "map_of props (KStr k) = Some (Data True (get k)) \<and> get k \<noteq> JUndefined"
    if k: "k \<in> set keys" for k
  proof -
    obtain p where p: "map_of props (KStr k) = Some p" "enumerableData p" "propValue p \<noteq> JUndefined"
      using shape(4) k by (auto simp: list_all_iff split: option.splits)
    then have "p = Data True (propValue p)" by (cases p) auto
    with p get show ?thesis by (simp add: recGet_def)
  qed
  ultimately show thesis
    using that v shape(1) get by blast
qed

lemma expectExactRecord_defined:
  "expectExactRecord v keys = Inr get \<Longrightarrow> k \<in> set keys \<Longrightarrow> get k \<noteq> JUndefined"
  by (erule expectExactRecord_shape) blast

subsection \<open>Arrays\<close>

text \<open>
  The shape test the array parsers share: a real array with \<open>Array.prototype\<close> and no own
  keys beside its elements and \<open>length\<close> (\<open>Reflect.ownKeys(value).length === value.length + 1\<close>).
  The arrays of \<open>jsval\<close> are dense; an array with holes and as many other keys is not among the values.
\<close>

definition exactArray :: "jsval \<Rightarrow> jsval list option" where
  "exactArray v = (case v of
     JArr pr xs extra \<Rightarrow>
       if pr = ArrayPrototype \<and> length xs + 1 + extra = length xs + 1 then Some xs else None
   | _ \<Rightarrow> None)"

definition mkArray :: "jsval list \<Rightarrow> jsval" where
  "mkArray xs = JArr ArrayPrototype xs 0"

lemma exactArray_mkArray [simp]: "exactArray (mkArray xs) = Some xs"
  by (simp add: exactArray_def mkArray_def)

subsection \<open>Interfaces\<close>

text \<open>
  A validator of strings returns its argument unchanged when it is a string of its language
  and throws otherwise.
\<close>

locale string_parser =
  fixes parse :: "jsval \<Rightarrow> string res"
    and valid :: "string \<Rightarrow> bool"
  assumes parse_iff: "parse v = Inr s \<longleftrightarrow> v = JStr s \<and> valid s"
begin

lemma parse_JStr: "valid s \<Longrightarrow> parse (JStr s) = Inr s"
  by (simp add: parse_iff)

lemma parse_rejects: "\<not> valid s \<Longrightarrow> \<exists>e. parse (JStr s) = Inl e"
  by (cases "parse (JStr s)") (auto simp: parse_iff)

lemma parse_idem: "parse v = Inr s \<Longrightarrow> parse (JStr s) = Inr s"
  by (simp add: parse_iff)

end

text \<open>
  A parser of records: what it returns is well formed, and the encoding of a well formed
  record is parsed back to it. The derived facts are what the callers use: parsing again
  changes nothing, and a well formed record is determined by its encoding.
\<close>

locale record_codec =
  fixes parse :: "jsval \<Rightarrow> 'r res"
    and encode :: "'r \<Rightarrow> jsval"
    and wf :: "'r \<Rightarrow> bool"
  assumes parse_wf: "parse v = Inr r \<Longrightarrow> wf r"
    and parse_encode: "wf r \<Longrightarrow> parse (encode r) = Inr r"
begin

lemma reparse: "parse v = Inr r \<Longrightarrow> parse (encode r) = Inr r"
  by (simp add: parse_encode parse_wf)

lemma encode_inj: "wf r \<Longrightarrow> wf r' \<Longrightarrow> encode r = encode r' \<Longrightarrow> r = r'"
  by (metis parse_encode Inr_inject)

lemma wf_iff_parses: "wf r \<longleftrightarrow> parse (encode r) = Inr r"
  using parse_encode parse_wf by blast

lemma range_parse: "(\<exists>v. parse v = Inr r) \<longleftrightarrow> wf r"
  using parse_encode parse_wf by blast

end

end
