(* ===== verification/Base64Url.thy ===== *)
theory Base64Url
  imports JsValues
begin

section \<open>Canonical base64url\<close>

text \<open>
  Digests, fingerprints and ciphertexts travel as unpadded base64url. \<open>b64encode\<close> is
  \<open>Buffer.toString("base64url")\<close> and \<open>b64decode\<close> is \<open>Buffer.from(s, "base64url")\<close> on strings of
  the alphabet, as \<open>valueObjects.ts\<close> uses them; \<open>parseCanonicalBase64Url\<close> is the parser with its
  tail-bit test and byte bounds. The main fact, \<open>b64Valid_iff\<close>, says that the parser accepts exactly
  the encodings of byte strings within the bounds, so every accepted string is the unique spelling
  of its bytes.
\<close>

definition BASE64URL_ALPHABET :: string where
  "BASE64URL_ALPHABET = ''ABCDEFGHIJKLMNOPQRSTUVWXYZabcdefghijklmnopqrstuvwxyz0123456789-_''"

definition DEFAULT_MAX_BASE64URL_BYTES :: int where
  "DEFAULT_MAX_BASE64URL_BYTES = 8 * 1024 * 1024"

text \<open>The character class of the regular expression \<open>BASE64URL\<close>.\<close>

definition b64char :: "char \<Rightarrow> bool" where
  "b64char c = (let n = charCode c in
     65 \<le> n \<and> n \<le> 90 \<or> 97 \<le> n \<and> n \<le> 122 \<or> 48 \<le> n \<and> n \<le> 57 \<or> c = CHR ''_'' \<or> c = CHR ''-'')"

text \<open>\<open>BASE64URL_ALPHABET.indexOf(c)\<close> for a character of the alphabet.\<close>

definition b64val :: "char \<Rightarrow> nat" where
  "b64val c = length (takeWhile (\<lambda>d. d \<noteq> c) BASE64URL_ALPHABET)"

definition b64sym :: "nat \<Rightarrow> char" where
  "b64sym n = BASE64URL_ALPHABET ! n"

fun b64encode :: "bytes \<Rightarrow> string" where
  "b64encode [] = []"
| "b64encode [a] = [b64sym (unat a div 4), b64sym (unat a mod 4 * 16)]"
| "b64encode [a, b] =
     [b64sym (unat a div 4), b64sym (unat a mod 4 * 16 + unat b div 16), b64sym (unat b mod 16 * 4)]"
| "b64encode (a # b # c # bs) =
     [b64sym (unat a div 4), b64sym (unat a mod 4 * 16 + unat b div 16),
      b64sym (unat b mod 16 * 4 + unat c div 64), b64sym (unat c mod 64)] @ b64encode bs"

fun b64decode :: "string \<Rightarrow> bytes" where
  "b64decode [] = []"
| "b64decode [c] = []"
| "b64decode [c, d] = [of_nat (b64val c * 4 + b64val d div 16)]"
| "b64decode [c, d, e] =
     [of_nat (b64val c * 4 + b64val d div 16), of_nat (b64val d mod 16 * 16 + b64val e div 4)]"
| "b64decode (c # d # e # f # s) =
     [of_nat (b64val c * 4 + b64val d div 16), of_nat (b64val d mod 16 * 16 + b64val e div 4),
      of_nat (b64val e mod 4 * 64 + b64val f)] @ b64decode s"

definition isSafeInteger :: "int \<Rightarrow> bool" where
  "isSafeInteger z = (- (2 ^ 53) < z \<and> z < 2 ^ 53)"

definition validateByteBounds :: "int \<Rightarrow> int \<Rightarrow> unit res" where
  "validateByteBounds minBytes maxBytes =
     guardE (\<not> (\<not> isSafeInteger minBytes \<or> \<not> isSafeInteger maxBytes \<or> minBytes < 0
               \<or> maxBytes < minBytes \<or> maxBytes > DEFAULT_MAX_BASE64URL_BYTES)) DeliveryValidationError"

text \<open>\<open>lastValue & 0b1111\<close> and \<open>lastValue & 0b11\<close> are the remainders by 16 and by 4.\<close>

definition canonicalTail :: "string \<Rightarrow> bool" where
  "canonicalTail s = (let remainder = length s mod 4; lastValue = b64val (last s) in
     \<not> (remainder = 1 \<or> remainder = 2 \<and> lastValue mod 16 \<noteq> 0 \<or> remainder = 3 \<and> lastValue mod 4 \<noteq> 0))"

definition parseCanonicalBase64Url :: "int \<Rightarrow> int \<Rightarrow> jsval \<Rightarrow> string res" where
  "parseCanonicalBase64Url minBytes maxBytes v =
     bindE (validateByteBounds minBytes maxBytes) (\<lambda>_.
     case v of
       JStr s \<Rightarrow>
         bindE (guardE (s \<noteq> [] \<and> list_all b64char s) DeliveryValidationError) (\<lambda>_.
         bindE (guardE (canonicalTail s) DeliveryValidationError) (\<lambda>_.
         let maximumEncodedLength = (maxBytes * 4 + 2) div 3 in
         bindE (guardE (\<not> int (length s) > maximumEncodedLength) DeliveryValidationError) (\<lambda>_.
         let decoded = b64decode s in
         bindE (guardE (\<not> (int (length decoded) < minBytes \<or> int (length decoded) > maxBytes
                          \<or> b64encode decoded \<noteq> s)) DeliveryValidationError) (\<lambda>_.
         Inr s))))
     | _ \<Rightarrow> Inl DeliveryValidationError)"

subsection \<open>The alphabet\<close>

lemma length_alphabet [simp]: "length BASE64URL_ALPHABET = 64"
  by (simp add: BASE64URL_ALPHABET_def)

lemma distinct_alphabet: "distinct BASE64URL_ALPHABET"
  by (simp add: BASE64URL_ALPHABET_def)

lemma takeWhile_neq_nth:
  "distinct xs \<Longrightarrow> n < length xs \<Longrightarrow> length (takeWhile (\<lambda>d. d \<noteq> xs ! n) xs) = n"
proof (induction xs arbitrary: n)
  case (Cons x xs)
  then show ?case by (cases n) auto
qed simp

lemma nth_length_takeWhile_neq:
  "c \<in> set xs \<Longrightarrow> xs ! length (takeWhile (\<lambda>d. d \<noteq> c) xs) = c \<and> length (takeWhile (\<lambda>d. d \<noteq> c) xs) < length xs"
  by (induction xs) auto

lemma b64val_b64sym [simp]: "n < 64 \<Longrightarrow> b64val (b64sym n) = n"
  unfolding b64val_def b64sym_def by (rule takeWhile_neq_nth) (auto simp: distinct_alphabet)

lemma alphabet_b64char: "list_all b64char BASE64URL_ALPHABET"
  by (simp add: BASE64URL_ALPHABET_def b64char_def)

lemma alphabet_codes:
  "map charCode BASE64URL_ALPHABET = [65..<91] @ [97..<123] @ [48..<58] @ [45, 95]"
  by (simp add: BASE64URL_ALPHABET_def upt_rec)

lemma b64char_alphabet: "b64char c \<Longrightarrow> c \<in> set BASE64URL_ALPHABET"
proof -
  assume "b64char c"
  then have "charCode c \<in> set (map charCode BASE64URL_ALPHABET)"
    unfolding alphabet_codes set_append set_upt by (auto simp: b64char_def Let_def)
  then show ?thesis by (auto simp del: of_char_eq_iff)
qed

lemma b64sym_b64val [simp]: "b64char c \<Longrightarrow> b64sym (b64val c) = c"
  unfolding b64val_def b64sym_def by (rule conjunct1 [OF nth_length_takeWhile_neq [OF b64char_alphabet]])

lemma b64val_less: "b64char c \<Longrightarrow> b64val c < 64"
  unfolding b64val_def using nth_length_takeWhile_neq [of c BASE64URL_ALPHABET] b64char_alphabet
  by auto

lemma b64char_b64sym [simp]: "n < 64 \<Longrightarrow> b64char (b64sym n)"
  using alphabet_b64char by (simp add: b64sym_def list_all_length)

subsection \<open>Encoding and decoding are inverse\<close>

lemma unat_byte_less [simp]: "unat (a :: byte) < 256"
  using unsigned_less [of a] by simp

lemma packed:
  "y < k \<Longrightarrow> (x * k + y) div k = (x::nat)" "y < k \<Longrightarrow> (x * k + y) mod k = (y::nat)"
  by simp_all

lemma byte_parts:
  "unat (a :: byte) div 4 < 64" "unat a div 16 < 16" "unat a div 64 < 4"
  "unat a mod 4 < 4" "unat a mod 16 < 16" "unat a mod 64 < 64"
  using unat_byte_less [of a] by (auto simp: less_mult_imp_div_less)

lemma byte_digits [simp]:
  "unat (a :: byte) div 4 < 64" "unat (a :: byte) mod 4 * 16 + unat (b :: byte) div 16 < 64"
  "unat (b :: byte) mod 16 * 4 + unat (c :: byte) div 64 < 64" "unat (a :: byte) mod 4 * 16 < 64"
  "unat (b :: byte) mod 16 * 4 < 64"
  using byte_parts [of a] byte_parts [of b] byte_parts [of c] by linarith+

lemma byte_triple:
  fixes a b c :: byte
  shows "unat a div 4 * 4 + (unat a mod 4 * 16 + unat b div 16) div 16 = unat a"
    "(unat a mod 4 * 16 + unat b div 16) mod 16 * 16 + (unat b mod 16 * 4 + unat c div 64) div 4 = unat b"
    "(unat b mod 16 * 4 + unat c div 64) mod 4 * 64 + unat c mod 64 = unat c"
  using byte_parts [of a] byte_parts [of b] byte_parts [of c]
  by (simp_all only: packed div_mult_mod_eq)

lemma of_nat_eq_byte: "n = unat a \<Longrightarrow> (of_nat n :: byte) = a"
  by simp

lemma b64decode_encode [simp]: "b64decode (b64encode bs) = bs"
proof (induction bs rule: b64encode.induct)
  case (2 a)
  then show ?case
    using byte_triple(1) [of a 0] by (simp del: of_nat_add of_nat_mult add: of_nat_eq_byte)
next
  case (3 a b)
  then show ?case
    using byte_triple(1) [of a b] byte_triple(2) [of a b 0]
    by (simp only: b64encode.simps b64decode.simps b64val_b64sym byte_digits)
       (simp del: of_nat_add of_nat_mult add: of_nat_eq_byte)
next
  case (4 a b c bs)
  have "b64val (b64sym (unat c mod 64)) = unat c mod 64" by simp
  with 4 show ?case
    by (simp only: b64encode.simps b64decode.simps append.simps b64val_b64sym byte_digits byte_triple
        of_nat_eq_byte[OF refl])
qed simp

lemma b64encode_inj [simp]: "b64encode xs = b64encode ys \<longleftrightarrow> xs = ys"
  by (metis b64decode_encode)

lemma b64encode_chars [simp]: "list_all b64char (b64encode bs)"
  by (induction bs rule: b64encode.induct) auto

lemma b64encode_eq_Nil [simp]: "b64encode bs = [] \<longleftrightarrow> bs = []"
  by (cases bs rule: b64encode.cases) auto

lemma canonicalTail_step: "canonicalTail (c # d # e # f # s) = (s = [] \<or> canonicalTail s)"
  by (auto simp: canonicalTail_def Let_def)

lemma canonicalTail_Nil: "canonicalTail []"
  by (simp add: canonicalTail_def)

lemma canonicalTail_encode [simp]: "canonicalTail (b64encode bs)"
proof (induction bs rule: b64encode.induct)
  case (4 a b c bs)
  then show ?case by (simp add: canonicalTail_step)
qed (auto simp: canonicalTail_def Let_def)

lemma length_b64encode: "length (b64encode bs) = (4 * length bs + 2) div 3"
  by (induction bs rule: b64encode.induct) auto

lemma sextet_pack:
  assumes "c < 64" "d < 64" "e < 64" "f < 64"
  shows "c * 4 + d div 16 < (256::nat)" "d mod 16 * 16 + e div 4 < (256::nat)" "e mod 4 * 64 + f < (256::nat)"
    "(c * 4 + d div 16) div 4 = c"
    "(c * 4 + d div 16) mod 4 * 16 + (d mod 16 * 16 + e div 4) div 16 = d"
    "(d mod 16 * 16 + e div 4) mod 16 * 4 + (e mod 4 * 64 + f) div 64 = e"
    "(e mod 4 * 64 + f) mod 64 = f"
proof -
  have parts: "d div 16 < 4" "d mod 16 < 16" "e div 4 < 16" "e mod 4 < 4"
    using assms by (auto simp: less_mult_imp_div_less)
  show "c * 4 + d div 16 < (256::nat)" "d mod 16 * 16 + e div 4 < (256::nat)"
      "e mod 4 * 64 + f < (256::nat)"
    using parts assms by linarith+
  show "(c * 4 + d div 16) div 4 = c"
    "(c * 4 + d div 16) mod 4 * 16 + (d mod 16 * 16 + e div 4) div 16 = d"
    "(d mod 16 * 16 + e div 4) mod 16 * 4 + (e mod 4 * 64 + f) div 64 = e"
    "(e mod 4 * 64 + f) mod 64 = f"
    using parts assms by (simp_all only: packed div_mult_mod_eq)
qed

lemma sextet_tail:
  assumes "c < 64" "d < 64" "e < (64::nat)"
  shows "d mod 16 = 0 \<Longrightarrow> (c * 4 + d div 16) mod 4 * 16 = d"
    "e mod 4 = 0 \<Longrightarrow> (d mod 16 * 16 + e div 4) mod 16 * 4 = e"
  using sextet_pack [of c d 0 0] sextet_pack [of c d e 0] assms by auto

lemma b64encode_decode:
  "list_all b64char s \<Longrightarrow> canonicalTail s \<Longrightarrow> b64encode (b64decode s) = s"
proof (induction s rule: b64decode.induct)
  case (2 c)
  then show ?case by (simp add: canonicalTail_def)
next
  case (3 c d)
  then have b: "b64val c < 64" "b64val d < 64" "b64val d mod 16 = 0"
    by (auto simp: b64val_less canonicalTail_def)
  with 3 show ?case
    by (simp only: b64decode.simps b64encode.simps unat_of_nat_byte sextet_pack [of _ _ 0 0]
        sextet_tail [of _ _ 0] b64sym_b64val list.pred_inject)
next
  case (4 c d e)
  then have b: "b64val c < 64" "b64val d < 64" "b64val e < 64" "b64val e mod 4 = 0"
    by (auto simp: b64val_less canonicalTail_def)
  with 4 show ?case
    by (simp only: b64decode.simps b64encode.simps unat_of_nat_byte sextet_pack [of _ _ _ 0]
        sextet_tail b64sym_b64val list.pred_inject)
next
  case (5 c d e f s)
  then have IH: "b64encode (b64decode s) = s"
    by (cases "s = []") (auto simp: canonicalTail_step)
  have b: "b64val c < 64" "b64val d < 64" "b64val e < 64" "b64val f < 64"
    using 5 by (auto simp: b64val_less)
  with 5 IH show ?case
    by (simp only: b64decode.simps b64encode.simps append.simps unat_of_nat_byte sextet_pack
        b64sym_b64val list.pred_inject)
qed simp

subsection \<open>The parser\<close>

definition b64Valid :: "int \<Rightarrow> int \<Rightarrow> string \<Rightarrow> bool" where
  "b64Valid lo hi s = (s \<noteq> [] \<and> list_all b64char s \<and> canonicalTail s
     \<and> lo \<le> int (length (b64decode s)) \<and> int (length (b64decode s)) \<le> hi)"

lemma b64Valid_iff:
  "b64Valid lo hi s \<longleftrightarrow> (\<exists>bs. s = b64encode bs \<and> bs \<noteq> [] \<and> lo \<le> int (length bs) \<and> int (length bs) \<le> hi)"
  (is "?L \<longleftrightarrow> ?R")
proof
  assume ?L
  then have "s = b64encode (b64decode s)"
    by (simp add: b64Valid_def b64encode_decode)
  moreover from this \<open>?L\<close> have "b64decode s \<noteq> []"
    by (metis b64Valid_def b64encode.simps(1))
  ultimately show ?R using \<open>?L\<close> unfolding b64Valid_def by blast
qed (auto simp: b64Valid_def)

lemma validateByteBounds_ok:
  "0 \<le> lo \<Longrightarrow> lo \<le> hi \<Longrightarrow> hi \<le> 8388608 \<Longrightarrow> validateByteBounds lo hi = Inr ()"
  by (simp add: validateByteBounds_def isSafeInteger_def DEFAULT_MAX_BASE64URL_BYTES_def)

lemma parseCanonicalBase64Url_iff:
  assumes "validateByteBounds lo hi = Inr ()"
  shows "parseCanonicalBase64Url lo hi v = Inr s \<longleftrightarrow> v = JStr s \<and> b64Valid lo hi s"
proof (cases v)
  case (JStr t)
  have len: "int (length t) \<le> (hi * 4 + 2) div 3" if valid: "b64Valid lo hi t"
  proof -
    obtain bs where bs: "t = b64encode bs" "int (length bs) \<le> hi"
      using valid b64Valid_iff by blast
    have "int (length t) = (4 * int (length bs) + 2) div 3"
      by (simp add: bs(1) length_b64encode zdiv_int)
    also have "\<dots> \<le> (hi * 4 + 2) div 3"
      using bs(2) by (intro zdiv_mono1) auto
    finally show ?thesis .
  qed
  define bound where "bound = (hi * 4 + 2) div 3"
  have "parseCanonicalBase64Url lo hi v = (if b64Valid lo hi t then Inr t else Inl DeliveryValidationError)"
    using len unfolding JStr parseCanonicalBase64Url_def assms bound_def[symmetric] Let_def
      bindE_guardE bindE_Inr jsval.case b64Valid_def
    by (auto simp: b64encode_decode)
  then show ?thesis
    by (auto simp: JStr)
qed (auto simp: parseCanonicalBase64Url_def assms)

end
