(* ===== verification/DecimalText.thy ===== *)
theory DecimalText
  imports JB_Prelude
begin

section \<open>Decimal strings\<close>

text \<open>
  Counters cross every interface of the delivery module as canonical decimal strings and are
  turned into BigInts only for arithmetic. \<open>readNat\<close> is \<open>BigInt(s)\<close> on a string of digits,
  \<open>showNat\<close> is \<open>toString(10)\<close> of a non-negative BigInt; \<open>canonicalDecimal\<close> is the regular expression
  \<open>UINT63\<close> of \<open>valueObjects.ts\<close>. The lemmas show that on canonical strings the two are inverse,
  so that comparing strings with \<open>===\<close> is comparing numbers.
\<close>

definition isDigit :: "char \<Rightarrow> bool" where
  "isDigit c = (48 \<le> charCode c \<and> charCode c \<le> 57)"

definition digitVal :: "char \<Rightarrow> nat" where
  "digitVal c = charCode c - 48"

definition digitChar :: "nat \<Rightarrow> char" where
  "digitChar n = char_of (48 + n)"

fun showNat :: "nat \<Rightarrow> string" where
  "showNat n = (if n < 10 then [digitChar n] else showNat (n div 10) @ [digitChar (n mod 10)])"

declare showNat.simps [simp del]

definition readNat :: "string \<Rightarrow> nat" where
  "readNat s = foldl (\<lambda>acc c. acc * 10 + digitVal c) 0 s"

definition bigInt :: "string \<Rightarrow> int" where
  "bigInt s = int (readNat s)"

definition bigIntToString :: "int \<Rightarrow> string" where
  "bigIntToString z = (if z < 0 then CHR ''-'' # showNat (nat (- z)) else showNat (nat z))"

definition canonicalDecimal :: "string \<Rightarrow> bool" where
  "canonicalDecimal s = (s = ''0'' \<or> (s \<noteq> [] \<and> hd s \<noteq> CHR ''0'' \<and> list_all isDigit s))"

lemma charCode_digitChar [simp]: "d < 10 \<Longrightarrow> charCode (digitChar d) = 48 + d"
  by (simp add: digitChar_def)

lemma isDigit_digitChar [simp]: "d < 10 \<Longrightarrow> isDigit (digitChar d)"
  by (simp add: isDigit_def)

lemma digitVal_digitChar [simp]: "d < 10 \<Longrightarrow> digitVal (digitChar d) = d"
  by (simp add: digitVal_def)

lemma digitChar_digitVal [simp]: "isDigit c \<Longrightarrow> digitChar (digitVal c) = c"
  by (simp add: isDigit_def digitVal_def digitChar_def)

lemma digitVal_less: "isDigit c \<Longrightarrow> digitVal c < 10"
  unfolding isDigit_def digitVal_def by arith

lemma digitChar_0 [simp]: "digitChar 0 = CHR ''0''"
  by (simp add: digitChar_def char_of_def bit_iff_odd)

lemma digitVal_0 [simp]: "digitVal CHR ''0'' = 0"
  by (simp add: digitVal_def)

lemma digitVal_eq_0_iff: "isDigit c \<Longrightarrow> digitVal c = 0 \<longleftrightarrow> c = CHR ''0''"
  by (metis digitChar_0 digitChar_digitVal digitVal_0)

lemma readNat_Nil [simp]: "readNat [] = 0"
  by (simp add: readNat_def)

lemma readNat_snoc [simp]: "readNat (s @ [c]) = readNat s * 10 + digitVal c"
  by (simp add: readNat_def)

lemma readNat_single [simp]: "readNat [c] = digitVal c"
  by (simp add: readNat_def)

lemma readNat_showNat [simp]: "readNat (showNat n) = n"
  by (induction n rule: showNat.induct) (subst showNat.simps, auto)

lemma showNat_digits [simp]: "list_all isDigit (showNat n)"
  by (induction n rule: showNat.induct) (subst showNat.simps, auto)

lemma showNat_nonempty [simp]: "showNat n \<noteq> []"
  by (subst showNat.simps) simp

lemma showNat_inj [simp]: "showNat m = showNat n \<longleftrightarrow> m = n"
  by (metis readNat_showNat)

lemma hd_showNat: "0 < n \<Longrightarrow> hd (showNat n) \<noteq> CHR ''0''"
proof (induction n rule: showNat.induct)
  case (1 n)
  show ?case
  proof (cases "n < 10")
    case True
    have "digitChar n \<noteq> CHR ''0''"
      using True 1(2) digitVal_0 digitVal_digitChar by fastforce
    with True show ?thesis by (subst showNat.simps) simp
  next
    case False
    then show ?thesis
      using 1 by (subst showNat.simps) simp
  qed
qed

lemma canonicalDecimal_showNat [simp]: "canonicalDecimal (showNat n)"
proof (cases "n = 0")
  case True
  then show ?thesis by (subst showNat.simps) (simp add: canonicalDecimal_def)
next
  case False
  then show ?thesis by (simp add: canonicalDecimal_def hd_showNat)
qed

lemma readNat_pos:
  assumes "list_all isDigit s" "s \<noteq> []" "hd s \<noteq> CHR ''0''"
  shows "0 < readNat s"
  using assms
proof (induction s rule: rev_induct)
  case (snoc c s)
  then show ?case
    using digitVal_eq_0_iff [of c] by (cases "s = []") auto
qed simp

lemma showNat_readNat_nonzero:
  assumes "list_all isDigit s" "s \<noteq> []" "hd s \<noteq> CHR ''0''"
  shows "showNat (readNat s) = s"
  using assms
proof (induction s rule: rev_induct)
  case (snoc c s)
  have c: "isDigit c" "digitVal c < 10" using snoc.prems digitVal_less by auto
  show ?case
  proof (cases "s = []")
    case True
    with c show ?thesis by (subst showNat.simps) simp
  next
    case False
    with snoc.prems have s: "list_all isDigit s" "hd s \<noteq> CHR ''0''" by auto
    with False have "0 < readNat s" by (intro readNat_pos) auto
    with c snoc.IH False s show ?thesis by (subst showNat.simps) simp
  qed
qed simp

lemma showNat_readNat [simp]: "canonicalDecimal s \<Longrightarrow> showNat (readNat s) = s"
  unfolding canonicalDecimal_def
proof (elim disjE conjE)
  assume "s = ''0''"
  then show ?thesis by (subst showNat.simps) simp
qed (rule showNat_readNat_nonzero)

lemma canonicalDecimal_iff: "canonicalDecimal s \<longleftrightarrow> (\<exists>n. s = showNat n)"
  by (metis canonicalDecimal_showNat showNat_readNat)

lemma canonicalDecimal_eq_iff:
  "canonicalDecimal s \<Longrightarrow> canonicalDecimal t \<Longrightarrow> s = t \<longleftrightarrow> readNat s = readNat t"
  by (metis showNat_readNat)

lemma showNat_0: "showNat 0 = ''0''"
  by (subst showNat.simps) simp

lemma length_showNat_bound: "10 ^ (length (showNat n) - 1) \<le> max 1 n"
proof (induction n rule: showNat.induct)
  case (1 n)
  show ?case
  proof (cases "n < 10")
    case True
    then show ?thesis by (subst showNat.simps) simp
  next
    case False
    let ?k = "length (showNat (n div 10))"
    have IH: "10 ^ (?k - 1) \<le> n div 10"
      using 1 False by (simp add: max_def split: if_splits)
    have "?k > 0" by simp
    then have "(10::nat) ^ ?k = 10 * 10 ^ (?k - 1)"
      by (metis Suc_diff_1 power_Suc)
    also have "\<dots> \<le> 10 * (n div 10)" using IH by simp
    also have "\<dots> \<le> n" by simp
    finally have "10 ^ ?k \<le> n" .
    moreover have "length (showNat n) = ?k + 1"
      using False by (subst showNat.simps) simp
    ultimately show ?thesis by simp
  qed
qed

lemma length_showNat_le:
  assumes "n < 10 ^ k" "0 < k"
  shows "length (showNat n) \<le> k"
proof (rule ccontr)
  assume "\<not> length (showNat n) \<le> k"
  then have "(10::nat) ^ k \<le> 10 ^ (length (showNat n) - 1)"
    by (intro power_increasing) auto
  also have "\<dots> \<le> max 1 n" by (rule length_showNat_bound)
  finally have "10 ^ k \<le> max 1 n" .
  moreover have "(1::nat) < 10 ^ k" using \<open>0 < k\<close> by (intro one_less_power) auto
  ultimately show False using \<open>n < 10 ^ k\<close> by linarith
qed

lemma bigIntToString_of_nat [simp]: "bigIntToString (int n) = showNat n"
  by (simp add: bigIntToString_def)

lemma bigIntToString_nonneg: "0 \<le> z \<Longrightarrow> bigIntToString z = showNat (nat z)"
  by (simp add: bigIntToString_def)

lemma bigInt_bigIntToString [simp]: "0 \<le> z \<Longrightarrow> bigInt (bigIntToString z) = z"
  by (simp add: bigIntToString_def bigInt_def)

lemma bigInt_nonneg [simp]: "0 \<le> bigInt s"
  by (simp add: bigInt_def)

lemma bigIntToString_bigInt [simp]: "canonicalDecimal s \<Longrightarrow> bigIntToString (bigInt s) = s"
  by (simp add: bigInt_def)

lemma bigInt_eq_iff:
  "canonicalDecimal s \<Longrightarrow> canonicalDecimal t \<Longrightarrow> bigInt s = bigInt t \<longleftrightarrow> s = t"
  by (simp add: bigInt_def canonicalDecimal_eq_iff)

lemma bigInt_0 [simp]: "bigInt ''0'' = 0"
  by (simp add: bigInt_def)

lemma bigInt_1 [simp]: "bigInt ''1'' = 1"
  by (simp add: bigInt_def digitVal_def)

lemma bigInt_pos_iff: "canonicalDecimal s \<Longrightarrow> 0 < bigInt s \<longleftrightarrow> s \<noteq> ''0''"
  using bigInt_eq_iff [of s "''0''"] bigInt_nonneg [of s]
  by (auto simp: canonicalDecimal_def order_less_le)

end
