(* ===== verification/Timestamps.thy ===== *)
theory Timestamps
  imports JsValues DecimalText
begin

section \<open>RFC 3339 timestamps with milliseconds\<close>

text \<open>
  The calendar of ECMAScript's \<open>Date\<close> as the delivery module uses it: \<open>Date.parse\<close> on strings of
  the shape \<open>YYYY-MM-DDTHH:mm:ss.sssZ\<close> and \<open>toISOString\<close>. A timestamp is canonical when printing
  the parsed instant gives the string back. The code compares canonical timestamps as strings
  (\<open>expiresAt <= now\<close>) in most places and as milliseconds in others; \<open>timestamp_less_iff\<close> shows
  that the two orders agree.
\<close>

subsection \<open>The calendar\<close>

definition dayFromYear :: "int \<Rightarrow> int" where
  "dayFromYear y = 365 * (y - 1970) + (y - 1969) div 4 - (y - 1901) div 100 + (y - 1601) div 400"

definition leapYear :: "int \<Rightarrow> bool" where
  "leapYear y = ((y mod 4 = 0 \<and> y mod 100 \<noteq> 0) \<or> y mod 400 = 0)"

definition monthStart :: "bool \<Rightarrow> nat \<Rightarrow> int" where
  "monthStart leap m = [0, 31, 59, 90, 120, 151, 181, 212, 243, 273, 304, 334, 365] ! (m - 1)
     + (if leap \<and> 3 \<le> m then 1 else 0)"

text \<open>Broken-down UTC time.\<close>

record civil =
  cYear :: nat
  cMonth :: nat
  cDay :: nat
  cHour :: nat
  cMinute :: nat
  cSecond :: nat
  cMillis :: nat

definition civilDay :: "civil \<Rightarrow> int" where
  "civilDay f = dayFromYear (int (cYear f)) + monthStart (leapYear (int (cYear f))) (cMonth f)
     + int (cDay f) - 1"

definition civilTime :: "civil \<Rightarrow> int" where
  "civilTime f = (((civilDay f * 24 + int (cHour f)) * 60 + int (cMinute f)) * 60 + int (cSecond f)) * 1000
     + int (cMillis f)"

subsection \<open>Parsing and printing\<close>

definition padNat :: "nat \<Rightarrow> nat \<Rightarrow> string" where
  "padNat k n = replicate (k - length (showNat n)) (CHR ''0'') @ showNat n"

definition formatCivil :: "civil \<Rightarrow> string" where
  "formatCivil f = padNat 4 (cYear f) @ [CHR ''-''] @ padNat 2 (cMonth f) @ [CHR ''-''] @ padNat 2 (cDay f)
     @ [CHR ''T''] @ padNat 2 (cHour f) @ [CHR '':''] @ padNat 2 (cMinute f) @ [CHR '':'']
     @ padNat 2 (cSecond f) @ [CHR ''.''] @ padNat 3 (cMillis f) @ [CHR ''Z'']"

text \<open>A regular expression of fixed length: one predicate per character.\<close>

definition matchesShape :: "(char \<Rightarrow> bool) list \<Rightarrow> string \<Rightarrow> bool" where
  "matchesShape ps s = list_all2 (\<lambda>p c. p c) ps s"

definition RFC3339_MILLISECONDS :: "(char \<Rightarrow> bool) list" where
  "RFC3339_MILLISECONDS =
     replicate 4 isDigit @ [(=) (CHR ''-'')] @ replicate 2 isDigit @ [(=) (CHR ''-'')] @ replicate 2 isDigit
     @ [(=) (CHR ''T'')] @ replicate 2 isDigit @ [(=) (CHR '':'')] @ replicate 2 isDigit @ [(=) (CHR '':'')]
     @ replicate 2 isDigit @ [(=) (CHR ''.'')] @ replicate 3 isDigit @ [(=) (CHR ''Z'')]"

definition readCivil :: "string \<Rightarrow> civil" where
  "readCivil s = \<lparr>cYear = readNat (take 4 s), cMonth = readNat (take 2 (drop 5 s)),
     cDay = readNat (take 2 (drop 8 s)), cHour = readNat (take 2 (drop 11 s)),
     cMinute = readNat (take 2 (drop 14 s)), cSecond = readNat (take 2 (drop 17 s)),
     cMillis = readNat (take 3 (drop 20 s))\<rparr>"

text \<open>
  \<open>Date.parse\<close> on a string of that shape: \<open>None\<close> is NaN. A day past the end of its month rolls
  over, and \<open>24:00:00.000\<close> is the end of the day, as the format of the standard allows.
\<close>

definition dateParse :: "string \<Rightarrow> int option" where
  "dateParse s = (let f = readCivil s in
     if 1 \<le> cMonth f \<and> cMonth f \<le> 12 \<and> 1 \<le> cDay f \<and> cDay f \<le> 31
        \<and> (cHour f < 24 \<and> cMinute f < 60 \<and> cSecond f < 60
           \<or> cHour f = 24 \<and> cMinute f = 0 \<and> cSecond f = 0 \<and> cMillis f = 0)
     then Some (civilTime f) else None)"

lemma div_add_one:
  fixes z k :: int
  assumes "0 < k"
  shows "(z + 1) div k = z div k + (if (z + 1) mod k = 0 then 1 else 0)"
proof -
  define q r where "q = z div k" and "r = z mod k"
  have z: "z = q * k + r" and r: "0 \<le> r" "r < k"
    using assms by (simp_all add: q_def r_def)
  show ?thesis
  proof (cases "r + 1 = k")
    case True
    then have "z + 1 = (q + 1) * k" by (simp add: z algebra_simps)
    then show ?thesis using assms by (simp add: q_def[symmetric])
  next
    case False
    then have "z + 1 = (r + 1) + q * k" "(r + 1) div k = 0" "(r + 1) mod k = r + 1"
      using r by (simp_all add: z)
    then have "(z + 1) div k = q" "(z + 1) mod k = r + 1"
      using assms by (simp_all only: div_mult_self1 mod_mult_self1)
    then show ?thesis using r by (simp add: q_def[symmetric])
  qed
qed

lemma dayFromYear_step:
  "dayFromYear (y + 1) = dayFromYear y + 365 + (if leapYear y then 1 else 0)"
proof -
  define a b c where "a = (y - 1969) div 4" and "b = (y - 1901) div 100" and "c = (y - 1601) div 400"
  have shift: "(y + k * c) mod k = y mod k" for k c :: int by simp
  have "(y + 1 - 1969) div 4 = a + (if y mod 4 = 0 then 1 else 0)"
    using div_add_one [of 4 "y - 1969"] shift [of 4 "-492"] by (simp add: a_def)
  moreover have "(y + 1 - 1901) div 100 = b + (if y mod 100 = 0 then 1 else 0)"
    using div_add_one [of 100 "y - 1901"] shift [of 100 "-19"] by (simp add: b_def)
  moreover have "(y + 1 - 1601) div 400 = c + (if y mod 400 = 0 then 1 else 0)"
    using div_add_one [of 400 "y - 1601"] shift [of 400 "-4"] by (simp add: c_def)
  ultimately have step: "dayFromYear (y + 1) = 365 * (y + 1 - 1970) + (a + (if y mod 4 = 0 then 1 else 0))
      - (b + (if y mod 100 = 0 then 1 else 0)) + (c + (if y mod 400 = 0 then 1 else 0))"
    unfolding dayFromYear_def by (simp only:)
  have start: "dayFromYear y = 365 * (y - 1970) + a - b + c"
    by (simp only: dayFromYear_def a_def b_def c_def)
  have "y mod 400 = 0 \<Longrightarrow> y mod 100 = 0" "y mod 100 = 0 \<Longrightarrow> y mod 4 = 0"
    unfolding mod_eq_0_iff_dvd by (erule dvd_trans[rotated], simp)+
  then show ?thesis
    unfolding step start leapYear_def
    by (cases "y mod 4 = 0"; cases "y mod 100 = 0"; cases "y mod 400 = 0") (simp_all only: if_True if_False simp_thms, simp_all)
qed

text \<open>The year a day falls in: from an estimate that is never too late, upwards.\<close>

function yearUp :: "int \<Rightarrow> int \<Rightarrow> int" where
  "yearUp y d = (if dayFromYear (y + 1) \<le> d then yearUp (y + 1) d else y)"
  by auto
termination
proof (relation "measure (\<lambda>(y, d). nat (d + 1 - dayFromYear y))")
  fix y d :: int
  assume "dayFromYear (y + 1) \<le> d"
  then show "((y + 1, d), (y, d)) \<in> measure (\<lambda>(y, d). nat (d + 1 - dayFromYear y))"
    by (auto simp: dayFromYear_step split: if_splits)
qed simp

declare yearUp.simps [simp del]

definition yearFromDay :: "int \<Rightarrow> int" where
  "yearFromDay d = yearUp (1970 + (if 0 \<le> d then d div 366 else d div 365)) d"

function monthFromDay :: "bool \<Rightarrow> nat \<Rightarrow> int \<Rightarrow> nat" where
  "monthFromDay leap m d = (if m < 12 \<and> monthStart leap (m + 1) \<le> d then monthFromDay leap (m + 1) d else m)"
  by auto
termination by (relation "measure (\<lambda>(leap, m, d). 12 - m)") auto

declare monthFromDay.simps [simp del]

definition timeOfDay :: "int \<Rightarrow> nat \<times> nat \<times> nat \<times> nat" where
  "timeOfDay ms = (nat (ms div 3600000), nat (ms div 60000 mod 60), nat (ms div 1000 mod 60), nat (ms mod 1000))"

text \<open>
  \<open>toISOString\<close>. Years outside 0 to 9999 are printed with a sign and six digits.
\<close>

definition isoYear :: "int \<Rightarrow> string" where
  "isoYear y = (if 0 \<le> y \<and> y \<le> 9999 then padNat 4 (nat y)
     else (if y < 0 then CHR ''-'' else CHR ''+'') # padNat 6 (nat \<bar>y\<bar>))"

definition dateToISO :: "int \<Rightarrow> string" where
  "dateToISO t = (let d = t div 86400000; y = yearFromDay d; leap = leapYear y; n = d - dayFromYear y;
       m = monthFromDay leap 1 n; (h, mi, s, ms) = timeOfDay (t mod 86400000) in
     isoYear y @ [CHR ''-''] @ padNat 2 m @ [CHR ''-''] @ padNat 2 (nat (n - monthStart leap m + 1))
     @ [CHR ''T''] @ padNat 2 h @ [CHR '':''] @ padNat 2 mi @ [CHR '':''] @ padNat 2 s @ [CHR ''.'']
     @ padNat 3 ms @ [CHR ''Z''])"

text \<open>The test of \<open>parseRfc3339Millis\<close>.\<close>

definition rfc3339Valid :: "string \<Rightarrow> bool" where
  "rfc3339Valid s = (matchesShape RFC3339_MILLISECONDS s
     \<and> (case dateParse s of None \<Rightarrow> False | Some t \<Rightarrow> dateToISO t = s))"

text \<open>\<open>Date.parse\<close> of a canonical timestamp.\<close>

definition dateMillis :: "string \<Rightarrow> int" where
  "dateMillis s = (case dateParse s of None \<Rightarrow> 0 | Some t \<Rightarrow> t)"

subsection \<open>The calendar is a bijection\<close>

definition civilValid :: "civil \<Rightarrow> bool" where
  "civilValid f = (cYear f \<le> 9999 \<and> 1 \<le> cMonth f \<and> cMonth f \<le> 12 \<and> 1 \<le> cDay f
     \<and> int (cDay f) \<le> monthStart (leapYear (int (cYear f))) (cMonth f + 1)
                     - monthStart (leapYear (int (cYear f))) (cMonth f)
     \<and> cHour f < 24 \<and> cMinute f < 60 \<and> cSecond f < 60 \<and> cMillis f < 1000)"

lemma dayFromYear_mono: "y \<le> z \<Longrightarrow> dayFromYear y \<le> dayFromYear z"
proof (induction z rule: int_ge_induct)
  case (step i)
  then show ?case by (simp add: dayFromYear_step)
qed simp

lemma dayFromYear_strict: "y < z \<Longrightarrow> dayFromYear y + 365 + (if leapYear y then 1 else 0) \<le> dayFromYear z"
  using dayFromYear_mono [of "y + 1" z] by (simp add: dayFromYear_step)

lemma floor_bounds: "0 < k \<Longrightarrow> k * (x div k) \<le> x \<and> x - k < k * (x div (k::int))"
  using pos_mod_sign [of k x] pos_mod_bound [of k x] mult_div_mod_eq [of k x] by linarith

lemma dayFromYear_bounds:
  obtains a b c where "dayFromYear (1970 + q) = 365 * q + (a - b + c)"
    "4 * a \<le> q + 1" "q + 69 - 100 < 100 * b" "400 * c \<le> q + 369"
proof -
  have "1970 + q - 1969 = q + 1" "1970 + q - 1901 = q + 69" "1970 + q - 1601 = q + 369" "1970 + q - 1970 = q"
    by simp_all
  then have "dayFromYear (1970 + q) = 365 * q + ((q + 1) div 4 - (q + 69) div 100 + (q + 369) div 400)"
    unfolding dayFromYear_def by (simp only: add.assoc diff_conv_add_uminus)
  then show thesis
    using that floor_bounds [of 4 "q + 1"] floor_bounds [of 100 "q + 69"] floor_bounds [of 400 "q + 369"]
    by (metis zero_less_numeral)
qed

lemma dayFromYear_late: "0 \<le> q \<Longrightarrow> dayFromYear (1970 + q) \<le> 366 * q"
proof (cases "q \<ge> 2")
  case True
  obtain a b c where "dayFromYear (1970 + q) = 365 * q + (a - b + c)"
    "4 * a \<le> q + 1" "q + 69 - 100 < 100 * b" "400 * c \<le> q + 369" by (rule dayFromYear_bounds)
  with True show ?thesis by linarith
next
  case False
  moreover assume "0 \<le> q"
  ultimately have "q = 0 \<or> q = 1" by linarith
  then show ?thesis by (auto simp: dayFromYear_def)
qed

lemma dayFromYear_early: "q \<le> -1 \<Longrightarrow> dayFromYear (1970 + q) \<le> 365 * q"
proof (cases "q \<le> -7")
  case True
  obtain a b c where "dayFromYear (1970 + q) = 365 * q + (a - b + c)"
    "4 * a \<le> q + 1" "q + 69 - 100 < 100 * b" "400 * c \<le> q + 369" by (rule dayFromYear_bounds)
  with True show ?thesis by linarith
next
  case False
  moreover assume "q \<le> -1"
  ultimately have "q = -1 \<or> q = -2 \<or> q = -3 \<or> q = -4 \<or> q = -5 \<or> q = -6" by linarith
  then show ?thesis by (auto simp: dayFromYear_def)
qed

lemma dayFromYear_estimate:
  "0 \<le> d \<Longrightarrow> dayFromYear (1970 + d div 366) \<le> d"
  "d < 0 \<Longrightarrow> dayFromYear (1970 + d div 365) \<le> d"
proof -
  assume "0 \<le> d"
  then have "0 \<le> d div 366" by (simp add: pos_imp_zdiv_nonneg_iff)
  then show "dayFromYear (1970 + d div 366) \<le> d"
    using dayFromYear_late floor_bounds [of 366 d] order_trans by fastforce
next
  assume "d < 0"
  then have "d div 365 \<le> -1" using floor_bounds [of 365 d] by linarith
  then show "dayFromYear (1970 + d div 365) \<le> d"
    using dayFromYear_early floor_bounds [of 365 d] order_trans by fastforce
qed

lemma yearUp_correct:
  "dayFromYear y \<le> d \<Longrightarrow> dayFromYear (yearUp y d) \<le> d \<and> d < dayFromYear (yearUp y d + 1)"
proof (induction y d rule: yearUp.induct)
  case (1 y d)
  then show ?case by (subst (1 2) yearUp.simps) auto
qed

lemma yearFromDay_correct: "dayFromYear (yearFromDay d) \<le> d" "d < dayFromYear (yearFromDay d + 1)"
  unfolding yearFromDay_def using yearUp_correct dayFromYear_estimate [of d] by auto

lemma yearFromDay_unique:
  assumes "dayFromYear y \<le> d" "d < dayFromYear (y + 1)"
  shows "yearFromDay d = y"
proof (rule ccontr)
  assume "yearFromDay d \<noteq> y"
  then consider "yearFromDay d + 1 \<le> y" | "y + 1 \<le> yearFromDay d" by linarith
  then show False
    using assms yearFromDay_correct [of d] dayFromYear_mono by cases (meson not_less order_trans)+
qed

lemma month_cases:
  assumes "1 \<le> m" "m \<le> 12"
  shows "m = 1 \<or> m = 2 \<or> m = 3 \<or> m = 4 \<or> m = 5 \<or> m = 6 \<or> m = 7 \<or> m = 8 \<or> m = 9
    \<or> m = 10 \<or> m = 11 \<or> m = (12::nat)"
  using assms by (auto simp: numeral_eq_Suc le_Suc_eq)

lemma monthStart_step: "1 \<le> m \<Longrightarrow> m \<le> 12 \<Longrightarrow> monthStart leap m + 28 \<le> monthStart leap (m + 1)"
  using month_cases [of m] by (auto simp: monthStart_def)

lemma monthStart_ends [simp]: "monthStart leap (Suc 0) = 0" "monthStart leap 13 = 365 + (if leap then 1 else 0)"
  by (auto simp: monthStart_def)

lemma monthStart_mono: "m \<le> n \<Longrightarrow> 1 \<le> m \<Longrightarrow> n \<le> 13 \<Longrightarrow> monthStart leap m \<le> monthStart leap n"
proof (induction n rule: dec_induct)
  case (step n)
  then show ?case using monthStart_step [of n leap] by simp
qed simp

lemma monthFromDay_correct:
  assumes "1 \<le> m" "m \<le> 12" "monthStart leap m \<le> d" "d < monthStart leap 13"
  shows "1 \<le> monthFromDay leap m d \<and> monthFromDay leap m d \<le> 12
    \<and> monthStart leap (monthFromDay leap m d) \<le> d \<and> d < monthStart leap (monthFromDay leap m d + 1)"
  using assms
proof (induction leap m d rule: monthFromDay.induct)
  case (1 leap m d)
  show ?case
  proof (cases "m < 12 \<and> monthStart leap (m + 1) \<le> d")
    case True
    with 1 show ?thesis by (subst (1 2 3 4) monthFromDay.simps) auto
  next
    case False
    moreover from this 1 have "d < monthStart leap (m + 1)"
      by (cases "m = 12") (auto simp: not_le)
    ultimately show ?thesis using 1 by (subst (1 2 3 4) monthFromDay.simps) auto
  qed
qed

lemma monthFromDay_unique:
  assumes "1 \<le> m" "m \<le> 12" "monthStart leap m \<le> d" "d < monthStart leap (m + 1)"
  shows "monthFromDay leap 1 d = m"
proof (rule ccontr)
  let ?k = "monthFromDay leap 1 d"
  have "monthStart leap 1 \<le> d" "d < monthStart leap 13"
    using assms monthStart_mono [of 1 m leap] monthStart_mono [of "m + 1" 13 leap] by auto
  then have k: "1 \<le> ?k" "?k \<le> 12" "monthStart leap ?k \<le> d" "d < monthStart leap (?k + 1)"
    using monthFromDay_correct [of 1 leap d] by auto
  assume "?k \<noteq> m"
  then consider "?k + 1 \<le> m" | "m + 1 \<le> ?k" by linarith
  then show False
    using k assms monthStart_mono [of "?k + 1" m leap] monthStart_mono [of "m + 1" ?k leap]
    by cases auto
qed

subsection \<open>Fixed-width numerals\<close>

lemma readNat_Cons: "readNat (c # s) = digitVal c * 10 ^ length s + readNat s"
  by (induction s rule: rev_induct) (simp_all add: readNat_snoc[of "c # _", simplified] algebra_simps)

lemma readNat_less: "list_all isDigit s \<Longrightarrow> readNat s < 10 ^ length s"
proof (induction s)
  case (Cons c s)
  have "readNat (c # s) < (digitVal c + 1) * 10 ^ length s"
    using Cons by (simp add: readNat_Cons)
  also have "\<dots> \<le> 10 * 10 ^ length s"
    using Cons.prems digitVal_less [of c] by (intro mult_right_mono) auto
  finally show ?case by simp
qed simp

lemma digit_less_iff: "isDigit c \<Longrightarrow> isDigit d \<Longrightarrow> c < d \<longleftrightarrow> digitVal c < digitVal d"
  by (auto simp: less_char_def isDigit_def digitVal_def)

lemma digits_less_iff:
  assumes "length s = length t" "list_all isDigit s" "list_all isDigit t"
  shows "s < t \<longleftrightarrow> readNat s < readNat t"
  using assms
proof (induction s t rule: list_induct2)
  case (Cons c s d t)
  have bounds: "readNat s < 10 ^ length t" "readNat t < 10 ^ length t"
    using Cons.hyps Cons.prems readNat_less [of s] readNat_less [of t] by auto
  have cd: "c = d \<longleftrightarrow> digitVal c = digitVal d"
    using Cons.prems by (metis digitChar_digitVal list.pred_inject(2))
  consider "digitVal c < digitVal d" | "digitVal c = digitVal d" | "digitVal d < digitVal c" by linarith
  then show ?case
  proof cases
    case 1
    then have "(digitVal c + 1) * 10 ^ length t \<le> digitVal d * 10 ^ length t"
      by (intro mult_right_mono) auto
    with 1 Cons bounds cd show ?thesis by (simp add: readNat_Cons digit_less_iff)
  next
    case 2
    with Cons cd show ?thesis by (simp add: readNat_Cons digit_less_iff)
  next
    case 3
    then have "(digitVal d + 1) * 10 ^ length t \<le> digitVal c * 10 ^ length t"
      by (intro mult_right_mono) auto
    with 3 Cons bounds cd show ?thesis by (simp add: readNat_Cons digit_less_iff)
  qed
qed simp

lemma append_less_append:
  fixes p q :: "char list"
  assumes "length p = length q"
  shows "p @ r < q @ s \<longleftrightarrow> p < q \<or> p = q \<and> r < s"
  using assms by (induction p q rule: list_induct2) auto

lemma readNat_replicate_0: "readNat (replicate k (CHR ''0'') @ s) = readNat s"
  by (induction k) (simp_all add: readNat_Cons)

lemma padNat_facts [simp]:
  assumes "n < 10 ^ k" "0 < k"
  shows "length (padNat k n) = k" "list_all isDigit (padNat k n)" "readNat (padNat k n) = n"
  using length_showNat_le [OF assms]
  by (auto simp: padNat_def readNat_replicate_0 list_all_iff isDigit_def)
     (use showNat_digits in \<open>auto simp: list_all_iff isDigit_def\<close>)

lemma padNat_less_iff:
  "m < 10 ^ k \<Longrightarrow> n < 10 ^ k \<Longrightarrow> 0 < k \<Longrightarrow> padNat k m < padNat k n \<longleftrightarrow> m < n"
  by (simp add: digits_less_iff)

lemma padNat_eq_iff:
  "m < 10 ^ k \<Longrightarrow> n < 10 ^ k \<Longrightarrow> 0 < k \<Longrightarrow> padNat k m = padNat k n \<longleftrightarrow> m = n"
  by (metis padNat_facts(3))

subsection \<open>Canonical timestamps are the printed valid dates\<close>

lemma daysInMonth_le: "1 \<le> m \<Longrightarrow> m \<le> 12 \<Longrightarrow> monthStart leap (m + 1) - monthStart leap m \<le> 31"
  using month_cases [of m] by (auto simp: monthStart_def)

lemma civilValid_bounds:
  assumes "civilValid f"
  shows "cYear f < 10 ^ 4" "cMonth f < 10 ^ 2" "cDay f < 10 ^ 2" "cHour f < 10 ^ 2" "cMinute f < 10 ^ 2"
    "cSecond f < 10 ^ 2" "cMillis f < 10 ^ 3" "1 \<le> cMonth f" "cMonth f \<le> 12" "1 \<le> cDay f" "cDay f \<le> 31"
    "cHour f < 24" "cMinute f < 60" "cSecond f < 60" "cMillis f < 1000"
  using assms daysInMonth_le [of "cMonth f" "leapYear (int (cYear f))"] by (auto simp: civilValid_def)

lemma readCivil_formatCivil: "civilValid f \<Longrightarrow> readCivil (formatCivil f) = f"
  using civilValid_bounds [of f] by (simp add: readCivil_def formatCivil_def)

lemma dateParse_formatCivil: "civilValid f \<Longrightarrow> dateParse (formatCivil f) = Some (civilTime f)"
  using civilValid_bounds [of f] by (simp add: dateParse_def readCivil_formatCivil)

lemma matches_digits: "list_all2 (\<lambda>p c. p c) (replicate k p) s \<longleftrightarrow> length s = k \<and> list_all p s"
  by (auto simp: list_all2_conv_all_nth list_all_length)

lemma formatCivil_shape:
  assumes "civilValid f"
  shows "matchesShape RFC3339_MILLISECONDS (formatCivil f)"
  unfolding matchesShape_def RFC3339_MILLISECONDS_def formatCivil_def
  using civilValid_bounds [OF assms]
  by (intro list_all2_appendI) (simp_all only: matches_digits padNat_facts zero_less_numeral, simp_all)

definition dayMillis :: "civil \<Rightarrow> int" where
  "dayMillis f = ((int (cHour f) * 60 + int (cMinute f)) * 60 + int (cSecond f)) * 1000 + int (cMillis f)"

lemma civilTime_split:
  assumes "civilValid f"
  shows "civilTime f div 86400000 = civilDay f" "civilTime f mod 86400000 = dayMillis f"
proof -
  have bounds: "0 \<le> dayMillis f" "dayMillis f < 86400000"
    using civilValid_bounds [OF assms] by (auto simp: dayMillis_def)
  have "civilTime f = dayMillis f + civilDay f * 86400000"
    by (simp add: civilTime_def dayMillis_def algebra_simps)
  then show "civilTime f div 86400000 = civilDay f" "civilTime f mod 86400000 = dayMillis f"
    using bounds by simp_all
qed

lemma int_packed:
  assumes "z = x * k + y" "0 \<le> y" "y < (k::int)"
  shows "z div k = x" "z mod k = y"
  using assms by simp_all

lemma timeOfDay_dayMillis:
  assumes "civilValid f"
  shows "timeOfDay (dayMillis f) = (cHour f, cMinute f, cSecond f, cMillis f)"
proof -
  let ?h = "int (cHour f)" and ?m = "int (cMinute f)" and ?s = "int (cSecond f)" and ?x = "int (cMillis f)"
  note b = civilValid_bounds [OF assms]
  have "dayMillis f div 3600000 = ?h"
    by (rule int_packed [where y = "(?m * 60 + ?s) * 1000 + ?x"]) (use b in \<open>auto simp: dayMillis_def\<close>)
  moreover have "dayMillis f div 60000 = ?h * 60 + ?m"
    by (rule int_packed [where y = "?s * 1000 + ?x"]) (use b in \<open>auto simp: dayMillis_def\<close>)
  moreover have "dayMillis f div 1000 = (?h * 60 + ?m) * 60 + ?s"
    by (rule int_packed [where y = ?x]) (use b in \<open>auto simp: dayMillis_def\<close>)
  moreover have "dayMillis f mod 1000 = ?x"
    by (rule int_packed [where x = "(?h * 60 + ?m) * 60 + ?s"]) (use b in \<open>auto simp: dayMillis_def\<close>)
  moreover have "(?h * 60 + ?m) mod 60 = ?m" "((?h * 60 + ?m) * 60 + ?s) mod 60 = ?s"
    using b by (intro int_packed(2) [OF refl]; simp)+
  ultimately show ?thesis
    by (simp only: timeOfDay_def nat_int)
qed

lemma dateToISO_civilTime:
  assumes "civilValid f"
  shows "dateToISO (civilTime f) = formatCivil f"
proof -
  let ?y = "int (cYear f)" and ?m = "cMonth f"
  let ?leap = "leapYear ?y"
  note b = civilValid_bounds [OF assms]
  have d: "int (cDay f) \<le> monthStart ?leap (?m + 1) - monthStart ?leap ?m"
    using assms by (simp add: civilValid_def)
  have in_year: "civilDay f - dayFromYear ?y = monthStart ?leap ?m + int (cDay f) - 1"
    by (simp add: civilDay_def)
  have "monthStart ?leap 1 \<le> monthStart ?leap ?m" "monthStart ?leap (?m + 1) \<le> monthStart ?leap 13"
    using b by (intro monthStart_mono; simp)+
  then have year: "yearFromDay (civilDay f) = ?y"
    using in_year d b by (intro yearFromDay_unique) (auto simp: dayFromYear_step split: if_splits)
  have month: "monthFromDay ?leap 1 (monthStart ?leap ?m + int (cDay f) - 1) = ?m"
    using b d by (intro monthFromDay_unique) auto
  show ?thesis
    using b by (simp add: dateToISO_def civilTime_split [OF assms] year in_year month [simplified]
        timeOfDay_dayMillis [OF assms] isoYear_def formatCivil_def Let_def)
qed

text \<open>The broken-down time of an instant, and that it is valid when the year has four digits.\<close>

definition civilOf :: "int \<Rightarrow> civil" where
  "civilOf t = (let d = t div 86400000; y = yearFromDay d; leap = leapYear y; n = d - dayFromYear y;
       m = monthFromDay leap 1 n; (h, mi, s, ms) = timeOfDay (t mod 86400000) in
     \<lparr>cYear = nat y, cMonth = m, cDay = nat (n - monthStart leap m + 1), cHour = h, cMinute = mi,
      cSecond = s, cMillis = ms\<rparr>)"

lemma timeOfDay_bounds:
  assumes "0 \<le> ms" "ms < 86400000" "timeOfDay ms = (h, mi, s, x)"
  shows "h < 24" "mi < 60" "s < 60" "x < 1000"
    "((int h * 60 + int mi) * 60 + int s) * 1000 + int x = ms"
proof -
  have h: "h = nat (ms div 3600000)" and mi: "mi = nat (ms div 60000 mod 60)"
    and s: "s = nat (ms div 1000 mod 60)" and x: "x = nat (ms mod 1000)"
    using assms(3) by (auto simp: timeOfDay_def)
  define a b c where "a = ms div 1000" and "b = a div 60" and "c = b div 60"
  have folds: "ms div 60000 = b" "ms div 3600000 = c"
    by (simp_all add: a_def b_def c_def zdiv_zmult2_eq [symmetric])
  define u v w where "u = ms mod 1000" and "v = a mod 60" and "w = b mod 60"
  have parts: "ms = a * 1000 + u" "a = b * 60 + v" "b = c * 60 + w"
    unfolding a_def b_def c_def u_def v_def w_def by (simp_all only: div_mult_mod_eq)
  have bounds: "0 \<le> u" "u < 1000" "0 \<le> v" "v < 60" "0 \<le> w" "w < 60"
    unfolding u_def v_def w_def by (simp_all only: pos_mod_sign pos_mod_bound zero_less_numeral)
  have "h = nat c" "mi = nat w" "s = nat v" "x = nat u"
    by (simp_all only: h mi s x folds a_def[symmetric] u_def v_def w_def)
  moreover have "0 \<le> c" "c < 24"
    using parts bounds assms(1,2) by linarith+
  ultimately show "h < 24" "mi < 60" "s < 60" "x < 1000"
    "((int h * 60 + int mi) * 60 + int s) * 1000 + int x = ms"
    using parts bounds by simp_all
qed

lemma civilOf_correct:
  assumes "0 \<le> yearFromDay (t div 86400000)" "yearFromDay (t div 86400000) \<le> 9999"
  shows "civilValid (civilOf t)" "civilTime (civilOf t) = t"
proof -
  define d where "d = t div 86400000"
  define y where "y = yearFromDay d"
  define n where "n = d - dayFromYear y"
  define m where "m = monthFromDay (leapYear y) 1 n"
  obtain h mi s ms where tod: "timeOfDay (t mod 86400000) = (h, mi, s, ms)"
    by (metis prod_cases4)
  have f: "civilOf t = \<lparr>cYear = nat y, cMonth = m, cDay = nat (n - monthStart (leapYear y) m + 1),
      cHour = h, cMinute = mi, cSecond = s, cMillis = ms\<rparr>"
    by (simp add: civilOf_def tod Let_def d_def[symmetric] y_def[symmetric] n_def[symmetric] m_def[symmetric, simplified])
  have y: "0 \<le> y" "y \<le> 9999" using assms by (simp_all add: y_def d_def)
  have n: "0 \<le> n" "n < monthStart (leapYear y) 13"
    using yearFromDay_correct [of d] unfolding n_def y_def[symmetric] dayFromYear_step by auto
  have m: "1 \<le> m" "m \<le> 12" "monthStart (leapYear y) m \<le> n" "n < monthStart (leapYear y) (m + 1)"
    using n monthFromDay_correct [of 1 "leapYear y" n] by (auto simp: m_def)
  note tod_b = timeOfDay_bounds [OF _ _ tod, OF pos_mod_sign pos_mod_bound]
  show "civilValid (civilOf t)"
    using y m tod_b by (auto simp: f civilValid_def)
  have day: "civilDay (civilOf t) = d"
    using y m by (simp add: f civilDay_def n_def)
  have "t = d * 86400000 + t mod 86400000" by (simp add: d_def)
  also have "\<dots> = civilTime (civilOf t)"
    using tod_b(5) unfolding civilTime_def day by (simp add: f)
  finally show "civilTime (civilOf t) = t" ..
qed

lemma dateToISO_shape_year:
  assumes "matchesShape RFC3339_MILLISECONDS (dateToISO t)"
  shows "0 \<le> yearFromDay (t div 86400000) \<and> yearFromDay (t div 86400000) \<le> 9999"
proof (rule ccontr)
  let ?y = "yearFromDay (t div 86400000)"
  assume "\<not> ?thesis"
  then obtain c r where c: "dateToISO t = c # r" "c = CHR ''-'' \<or> c = CHR ''+''"
    by (auto simp: dateToISO_def isoYear_def Let_def case_prod_beta split: if_splits)
  have "\<exists>ps. RFC3339_MILLISECONDS = isDigit # ps"
    by (simp add: RFC3339_MILLISECONDS_def numeral_nat)
  then obtain ps where ps: "RFC3339_MILLISECONDS = isDigit # ps" ..
  show False
    using assms c(2) unfolding matchesShape_def ps c(1) by (auto simp: isDigit_def)
qed

lemma rfc3339Valid_formatCivil: "civilValid f \<Longrightarrow> rfc3339Valid (formatCivil f)"
  by (simp add: rfc3339Valid_def formatCivil_shape dateParse_formatCivil dateToISO_civilTime)

lemma dateMillis_formatCivil: "civilValid f \<Longrightarrow> dateMillis (formatCivil f) = civilTime f"
  by (simp add: dateMillis_def dateParse_formatCivil)

lemma dateToISO_valid:
  assumes "0 \<le> yearFromDay (t div 86400000)" "yearFromDay (t div 86400000) \<le> 9999"
  shows "rfc3339Valid (dateToISO t)" "dateMillis (dateToISO t) = t"
  using civilOf_correct [OF assms] dateToISO_civilTime [of "civilOf t"]
  by (simp_all add: rfc3339Valid_formatCivil dateMillis_formatCivil)

lemma rfc3339Valid_iff: "rfc3339Valid s \<longleftrightarrow> (\<exists>f. civilValid f \<and> s = formatCivil f)"
proof
  assume v: "rfc3339Valid s"
  then obtain t where t: "dateToISO t = s" "matchesShape RFC3339_MILLISECONDS (dateToISO t)"
    by (auto simp: rfc3339Valid_def split: option.splits)
  then have "civilValid (civilOf t)" "s = formatCivil (civilOf t)"
    using dateToISO_shape_year [of t] civilOf_correct [of t] dateToISO_civilTime [of "civilOf t"] by auto
  then show "\<exists>f. civilValid f \<and> s = formatCivil f" by blast
qed (auto simp: rfc3339Valid_formatCivil)

subsection \<open>String order is time order\<close>

definition civilLess :: "civil \<Rightarrow> civil \<Rightarrow> bool" where
  "civilLess f g = (cYear f < cYear g \<or> cYear f = cYear g \<and> (cMonth f < cMonth g \<or> cMonth f = cMonth g
     \<and> (cDay f < cDay g \<or> cDay f = cDay g \<and> (cHour f < cHour g \<or> cHour f = cHour g
     \<and> (cMinute f < cMinute g \<or> cMinute f = cMinute g \<and> (cSecond f < cSecond g \<or> cSecond f = cSecond g
     \<and> cMillis f < cMillis g))))))"

lemma formatCivil_less:
  assumes "civilValid f" "civilValid g"
  shows "formatCivil f < formatCivil g \<longleftrightarrow> civilLess f g"
  using civilValid_bounds [OF assms(1)] civilValid_bounds [OF assms(2)]
  by (simp add: formatCivil_def append_less_append padNat_less_iff padNat_eq_iff civilLess_def)

lemma civilDay_less:
  assumes "civilValid f" "civilValid g"
    and "cYear f < cYear g \<or> cYear f = cYear g \<and> (cMonth f < cMonth g \<or> cMonth f = cMonth g \<and> cDay f < cDay g)"
  shows "civilDay f < civilDay g"
proof -
  note b = civilValid_bounds [OF assms(1)] civilValid_bounds [OF assms(2)]
  let ?l = "leapYear (int (cYear f))"
  have d: "int (cDay f) \<le> monthStart ?l (cMonth f + 1) - monthStart ?l (cMonth f)"
    using assms(1) by (simp add: civilValid_def)
  show ?thesis
    using assms(3)
  proof (elim disjE conjE)
    assume y: "cYear f < cYear g"
    have "dayFromYear (int (cYear f)) + monthStart ?l 13 \<le> dayFromYear (int (cYear g))"
      using dayFromYear_strict [of "int (cYear f)" "int (cYear g)"] y by simp
    moreover have "monthStart ?l (cMonth f + 1) \<le> monthStart ?l 13"
      using b by (intro monthStart_mono) auto
    moreover have "0 \<le> monthStart (leapYear (int (cYear g))) (cMonth g)"
      using monthStart_mono [of "Suc 0" "cMonth g" "leapYear (int (cYear g))"] b by simp
    ultimately show ?thesis using d b unfolding civilDay_def by linarith
  next
    assume e: "cYear f = cYear g" and m: "cMonth f < cMonth g"
    have "monthStart ?l (cMonth f + 1) \<le> monthStart ?l (cMonth g)"
      using b m by (intro monthStart_mono) auto
    with d b e show ?thesis unfolding civilDay_def by simp
  next
    assume "cYear f = cYear g" "cMonth f = cMonth g" "cDay f < cDay g"
    then show ?thesis by (simp add: civilDay_def)
  qed
qed

lemma civilTime_less:
  assumes "civilValid f" "civilValid g" "civilLess f g"
  shows "civilTime f < civilTime g"
proof -
  note b = civilValid_bounds [OF assms(1)] civilValid_bounds [OF assms(2)]
  show ?thesis
  proof (cases "civilDay f < civilDay g")
    case True
    have "civilTime f < (civilDay f + 1) * 86400000"
      using b by (simp add: civilTime_def)
    also have "\<dots> \<le> civilDay g * 86400000"
      using True by (intro mult_right_mono) auto
    also have "\<dots> \<le> civilTime g"
      by (simp add: civilTime_def)
    finally show ?thesis .
  next
    case False
    then have "cYear f = cYear g" "cMonth f = cMonth g" "cDay f = cDay g"
      using civilDay_less [OF assms(1,2)] assms(3) by (auto simp: civilLess_def)
    then have "civilDay f = civilDay g" by (simp add: civilDay_def)
    with \<open>cYear f = cYear g\<close> \<open>cMonth f = cMonth g\<close> \<open>cDay f = cDay g\<close> b assms(3) show ?thesis
      unfolding civilTime_def civilLess_def by auto
  qed
qed

lemma civilLess_total: "civilLess f g \<or> f = g \<or> civilLess g (f :: civil)"
  unfolding civilLess_def
  using less_linear [of "cYear f" "cYear g"] less_linear [of "cMonth f" "cMonth g"]
    less_linear [of "cDay f" "cDay g"] less_linear [of "cHour f" "cHour g"]
    less_linear [of "cMinute f" "cMinute g"] less_linear [of "cSecond f" "cSecond g"]
    less_linear [of "cMillis f" "cMillis g"] civil.equality [of f g] by (metis old.unit.exhaust)

lemma timestamp_less_iff:
  assumes "rfc3339Valid s" "rfc3339Valid t"
  shows "s < t \<longleftrightarrow> dateMillis s < dateMillis t"
proof -
  obtain f g where f: "civilValid f" "s = formatCivil f" and g: "civilValid g" "t = formatCivil g"
    using assms rfc3339Valid_iff by blast
  have "s < t \<longleftrightarrow> civilLess f g" using f g formatCivil_less by blast
  also have "\<dots> \<longleftrightarrow> civilTime f < civilTime g"
    using civilTime_less f g civilLess_total [of f g] by (metis less_asym less_irrefl)
  finally show ?thesis using f g by (simp add: dateMillis_formatCivil)
qed

lemma timestamp_le_iff:
  "rfc3339Valid s \<Longrightarrow> rfc3339Valid t \<Longrightarrow> s \<le> t \<longleftrightarrow> dateMillis s \<le> dateMillis t"
  using timestamp_less_iff [of t s] by (simp add: not_less [symmetric])

lemma timestamp_eq_iff:
  "rfc3339Valid s \<Longrightarrow> rfc3339Valid t \<Longrightarrow> s = t \<longleftrightarrow> dateMillis s = dateMillis t"
  using timestamp_less_iff [of s t] timestamp_less_iff [of t s] by (auto simp: neq_iff)

end
