(* ===== verification/ValueObjects.thy ===== *)
theory ValueObjects
  imports Base64Url Timestamps
begin

section \<open>Value objects of the delivery module\<close>

text \<open>
  The model of \<open>src/src/production/delivery/valueObjects.ts\<close>: identifiers, counters, timestamps,
  ETags, base64url values, envelope senders and owned byte copies. A branded string of the source
  is a \<open>string\<close> here; what the brand promises is the predicate the parser decides
  (\<open>uuidV4Valid\<close>, \<open>uint63Valid\<close>, \<open>hash32Valid\<close>, ...). Each parser is an interpretation of
  \<open>string_parser\<close>, whose characteristic equation is collected in \<open>parse_simps\<close>.
\<close>

subsection \<open>Patterns\<close>

definition isHexLower :: "char \<Rightarrow> bool" where
  "isHexLower c = (isDigit c \<or> 97 \<le> charCode c \<and> charCode c \<le> 102)"

definition isHexAnyCase :: "char \<Rightarrow> bool" where
  "isHexAnyCase c = (isHexLower c \<or> 65 \<le> charCode c \<and> charCode c \<le> 70)"

definition isVariant :: "char \<Rightarrow> bool" where
  "isVariant c = (c \<in> {CHR ''8'', CHR ''9'', CHR ''a'', CHR ''b''})"

definition uuidPattern :: "char \<Rightarrow> (char \<Rightarrow> bool) list" where
  "uuidPattern version =
     replicate 8 isHexLower @ [(=) (CHR ''-'')] @ replicate 4 isHexLower @ [(=) (CHR ''-'')]
     @ [(=) version] @ replicate 3 isHexLower @ [(=) (CHR ''-'')]
     @ [isVariant] @ replicate 3 isHexLower @ [(=) (CHR ''-'')] @ replicate 12 isHexLower"

definition UUID_V4 :: "(char \<Rightarrow> bool) list" where
  "UUID_V4 = uuidPattern (CHR ''4'')"

definition UUID_V7 :: "(char \<Rightarrow> bool) list" where
  "UUID_V7 = uuidPattern (CHR ''7'')"

definition UUID_SHAPED :: "(char \<Rightarrow> bool) list" where
  "UUID_SHAPED =
     replicate 8 isHexAnyCase @ [(=) (CHR ''-'')] @ replicate 4 isHexAnyCase @ [(=) (CHR ''-'')]
     @ replicate 4 isHexAnyCase @ [(=) (CHR ''-'')] @ replicate 4 isHexAnyCase @ [(=) (CHR ''-'')]
     @ replicate 12 isHexAnyCase"

text \<open>An identifier: a first character, then at most \<open>n\<close> more of a second class.\<close>

definition identShape :: "(char \<Rightarrow> bool) \<Rightarrow> (char \<Rightarrow> bool) \<Rightarrow> nat \<Rightarrow> string \<Rightarrow> bool" where
  "identShape first rest n s =
     (case s of [] \<Rightarrow> False | c # cs \<Rightarrow> first c \<and> list_all rest cs \<and> length cs \<le> n)"

definition isLowerAlnum :: "char \<Rightarrow> bool" where
  "isLowerAlnum c = (isDigit c \<or> 97 \<le> charCode c \<and> charCode c \<le> 122)"

definition SIGNING_KEY_ID :: "string \<Rightarrow> bool" where
  "SIGNING_KEY_ID = identShape isLowerAlnum (\<lambda>c. isLowerAlnum c \<or> c \<in> {CHR ''.'', CHR ''_'', CHR ''-''}) 63"

definition RELEASE_PROFILE_ID :: "string \<Rightarrow> bool" where
  "RELEASE_PROFILE_ID = identShape isLowerAlnum (\<lambda>c. isLowerAlnum c \<or> c \<in> {CHR ''.'', CHR ''_'', CHR ''-''}) 63"

text \<open>
  The capturing expression \<open>CONVERSATION_ETAG\<close>: the two groups of a string of the form
  \<open>"e<epoch>-r<rosterVersion>"\<close>, quotes included. \<open>etagQuote\<close> is the quote character.
\<close>

definition etagQuote :: char where
  "etagQuote = char_of (34 :: nat)"

definition CONVERSATION_ETAG :: "string \<Rightarrow> (string \<times> string) option" where
  "CONVERSATION_ETAG s =
     (if take 2 s = [etagQuote, CHR ''e''] then
        let rest = drop 2 s; epoch = takeWhile isDigit rest; tail = dropWhile isDigit rest in
        if take 2 tail = ''-r'' then
          let rest2 = drop 2 tail; roster = takeWhile isDigit rest2 in
          if dropWhile isDigit rest2 = [etagQuote] \<and> canonicalDecimal epoch \<and> canonicalDecimal roster
          then Some (epoch, roster) else None
        else None
      else None)"

subsection \<open>Constants\<close>

definition UINT63_MAX :: int where
  "UINT63_MAX = 2 ^ 63 - 1"

definition UINT63_MAX_STRING :: string where
  "UINT63_MAX_STRING = ''9223372036854775807''"

definition ZERO_HASH32 :: string where
  "ZERO_HASH32 = ''AAAAAAAAAAAAAAAAAAAAAAAAAAAAAAAAAAAAAAAAAAA''"

definition MAX_INTRINSIC_COPY_BYTES :: int where
  "MAX_INTRINSIC_COPY_BYTES = 4294967295"

definition API_V1_MEDIA_TYPE :: string where
  "API_V1_MEDIA_TYPE = ''application/vnd.juicebox.messaging.v1+json''"

definition MLS_PUBLIC_MESSAGE_MEDIA_TYPE :: string where
  "MLS_PUBLIC_MESSAGE_MEDIA_TYPE = ''application/vnd.juicebox.messaging.mls-public-message''"

definition MLS_PRIVATE_MESSAGE_MEDIA_TYPE :: string where
  "MLS_PRIVATE_MESSAGE_MEDIA_TYPE = ''application/vnd.juicebox.messaging.mls-private-message''"

subsection \<open>Identifiers\<close>

definition parseUuid :: "(char \<Rightarrow> bool) list \<Rightarrow> jsval \<Rightarrow> string res" where
  "parseUuid pattern v = (case v of
     JStr s \<Rightarrow> if matchesShape pattern s then Inr s else Inl DeliveryValidationError
   | _ \<Rightarrow> Inl DeliveryValidationError)"

definition parseUuidV4 :: "jsval \<Rightarrow> string res" where
  "parseUuidV4 v = parseUuid UUID_V4 v"

definition parseUuidV7 :: "jsval \<Rightarrow> string res" where
  "parseUuidV7 v = parseUuid UUID_V7 v"

definition parseAccountId :: "jsval \<Rightarrow> string res" where
  "parseAccountId v = parseUuidV4 v"

definition parseAttachmentId :: "jsval \<Rightarrow> string res" where
  "parseAttachmentId v = parseUuidV4 v"

definition parseConversationId :: "jsval \<Rightarrow> string res" where
  "parseConversationId v = parseUuidV4 v"

definition parseCredentialId :: "jsval \<Rightarrow> string res" where
  "parseCredentialId v = parseUuidV4 v"

definition parseEnvelopeId :: "jsval \<Rightarrow> string res" where
  "parseEnvelopeId v = parseUuidV4 v"

definition parseInstallationId :: "jsval \<Rightarrow> string res" where
  "parseInstallationId v = parseUuidV4 v"

definition parsePolicyHeadId :: "jsval \<Rightarrow> string res" where
  "parsePolicyHeadId v = parseUuidV4 v"

definition parseWitnessCheckpointId :: "jsval \<Rightarrow> string res" where
  "parseWitnessCheckpointId v = parseUuidV4 v"

definition parseMembershipIntentId :: "jsval \<Rightarrow> string res" where
  "parseMembershipIntentId v = parseUuidV7 v"

definition parseProposalId :: "jsval \<Rightarrow> string res" where
  "parseProposalId v = parseUuidV7 v"

definition parseRequestId :: "jsval \<Rightarrow> string res" where
  "parseRequestId v = parseUuidV7 v"

definition parseIdempotencyKey :: "jsval \<Rightarrow> string res" where
  "parseIdempotencyKey v =
     (if (case v of JStr s \<Rightarrow> matchesShape UUID_V7 s | _ \<Rightarrow> False)
      then (case v of JStr s \<Rightarrow> Inr s | _ \<Rightarrow> Inl DeliveryValidationError)
      else if (case v of JStr s \<Rightarrow> matchesShape UUID_SHAPED s | _ \<Rightarrow> False)
      then Inl DeliveryValidationError
      else parseCanonicalBase64Url 16 64 v)"

subsection \<open>Counters\<close>

text \<open>The options \<open>minimum\<close> and \<open>maximum\<close> are absent (\<open>None\<close>) or BigInts.\<close>

definition parseUint63StringWith :: "int option \<Rightarrow> int option \<Rightarrow> jsval \<Rightarrow> string res" where
  "parseUint63StringWith minOpt maxOpt v = (case v of
     JStr s \<Rightarrow>
       bindE (guardE (canonicalDecimal s) DeliveryValidationError) (\<lambda>_.
       bindE (guardE (\<not> (length s > length UINT63_MAX_STRING \<or> bigInt s > UINT63_MAX))
                DeliveryValidationError) (\<lambda>_.
       let parsed = bigInt s;
           minimum = (case minOpt of None \<Rightarrow> 0 | Some m \<Rightarrow> m);
           maximum = (case maxOpt of None \<Rightarrow> UINT63_MAX | Some m \<Rightarrow> m) in
       bindE (guardE (\<not> (minimum < 0 \<or> maximum > UINT63_MAX \<or> maximum < minimum))
                DeliveryValidationError) (\<lambda>_.
       bindE (guardE (\<not> (parsed < minimum \<or> parsed > maximum)) DeliveryValidationError) (\<lambda>_.
       Inr s))))
   | _ \<Rightarrow> Inl DeliveryValidationError)"

definition parseUint63String :: "jsval \<Rightarrow> string res" where
  "parseUint63String v = parseUint63StringWith None None v"

definition parsePositiveUint63String :: "jsval \<Rightarrow> string res" where
  "parsePositiveUint63String v =
     bindE (parseUint63String v) (\<lambda>parsed.
     if parsed = ''0'' then Inl DeliveryValidationError else Inr parsed)"

definition parseUint63BigInt :: "jsval \<Rightarrow> int res" where
  "parseUint63BigInt v = (case v of
     JBigInt z \<Rightarrow> if z < 0 \<or> z > UINT63_MAX then Inl DeliveryValidationError else Inr z
   | _ \<Rightarrow> Inl DeliveryValidationError)"

definition uint63ToBigInt :: "string \<Rightarrow> int res" where
  "uint63ToBigInt s = bindE (parseUint63String (JStr s)) (\<lambda>p. Inr (bigInt p))"

definition uint63FromBigInt :: "int \<Rightarrow> string res" where
  "uint63FromBigInt z = bindE (parseUint63BigInt (JBigInt z)) (\<lambda>p. Inr (bigIntToString p))"

subsection \<open>Timestamps, ETags, key and profile identifiers\<close>

definition parseRfc3339Millis :: "jsval \<Rightarrow> string res" where
  "parseRfc3339Millis v = (case v of
     JStr s \<Rightarrow>
       if matchesShape RFC3339_MILLISECONDS s then
         (case dateParse s of
            None \<Rightarrow> Inl DeliveryValidationError
          | Some t \<Rightarrow> if dateToISO t \<noteq> s then Inl DeliveryValidationError else Inr s)
       else Inl DeliveryValidationError
   | _ \<Rightarrow> Inl DeliveryValidationError)"

definition parseConversationEtag :: "jsval \<Rightarrow> string res" where
  "parseConversationEtag v = (case v of
     JStr s \<Rightarrow>
       (case CONVERSATION_ETAG s of
          None \<Rightarrow> Inl DeliveryValidationError
        | Some (g1, g2) \<Rightarrow>
            bindE (parseUint63String (JStr g1)) (\<lambda>_.
            bindE (parseUint63String (JStr g2)) (\<lambda>_. Inr s)))
   | _ \<Rightarrow> Inl DeliveryValidationError)"

definition etagText :: "string \<Rightarrow> string \<Rightarrow> string" where
  "etagText epoch rosterVersion = [etagQuote, CHR ''e''] @ epoch @ ''-r'' @ rosterVersion @ [etagQuote]"

definition formatConversationEtag :: "string \<Rightarrow> string \<Rightarrow> string res" where
  "formatConversationEtag epoch rosterVersion =
     bindE (parseUint63String (JStr epoch)) (\<lambda>e.
     bindE (parseUint63String (JStr rosterVersion)) (\<lambda>r.
     Inr (etagText e r)))"

definition parseSigningKeyId :: "jsval \<Rightarrow> string res" where
  "parseSigningKeyId v = (case v of
     JStr s \<Rightarrow> if SIGNING_KEY_ID s then Inr s else Inl DeliveryValidationError
   | _ \<Rightarrow> Inl DeliveryValidationError)"

definition parseReleaseProfileId :: "jsval \<Rightarrow> string res" where
  "parseReleaseProfileId v = (case v of
     JStr s \<Rightarrow> if RELEASE_PROFILE_ID s then Inr s else Inl DeliveryValidationError
   | _ \<Rightarrow> Inl DeliveryValidationError)"

subsection \<open>Owned byte copies\<close>

definition catchE :: "'a res \<Rightarrow> err \<Rightarrow> 'a res" where
  "catchE m e = (case m of Inl _ \<Rightarrow> Inl e | Inr x \<Rightarrow> Inr x)"

record inspection =
  inspByteLength :: nat
  inspByteOffset :: nat
  inspLength :: nat
  inspBackingByteLength :: nat

text \<open>
  The intrinsic getters of a typed array read its internal slots: on a view of a detached
  buffer they return zero, otherwise what the slots say. They are non-negative safe integers for
  every view the engine can create, so \<open>readSafeIntegerIntrinsic\<close> does not throw here.
\<close>

definition inspectFixedArrayBufferView :: "typed_view \<Rightarrow> inspection res" where
  "inspectFixedArrayBufferView tv =
     (let byteLength = (if viewDetached tv then 0 else length (viewBytes tv));
          byteOffset = (if viewDetached tv then 0 else viewOffset tv);
          len = byteLength div viewElementSize tv;
          backingByteLength = (if viewDetached tv then 0 else viewBackingLength tv) in
      bindE (guardE (viewBacking tv = PlainBuffer) TypeError) (\<lambda>_.
      bindE (guardE (\<not> viewResizable tv) TypeError) (\<lambda>_.
      bindE (guardE (\<not> viewDetached tv) TypeError) (\<lambda>_.
      bindE (guardE (\<not> (len \<noteq> byteLength \<or> byteOffset + byteLength > backingByteLength)) TypeError) (\<lambda>_.
      Inr \<lparr>inspByteLength = byteLength, inspByteOffset = byteOffset, inspLength = len,
           inspBackingByteLength = backingByteLength\<rparr>)))))"

text \<open>\<open>Symbol.iterator\<close> is the symbol with number 0.\<close>

definition overriddenKeys :: "jskey list" where
  "overriddenKeys = [KSym 0, KStr ''buffer'', KStr ''byteLength'', KStr ''byteOffset'', KStr ''length'', KStr ''set'']"

text \<open>
  Nothing runs between the two inspections of the source: its buffer is neither shared nor
  resizable, so the second one reads the same slots and the comparison with the first cannot fail.
\<close>

definition copyBytes :: "int \<Rightarrow> jsval \<Rightarrow> bytes res" where
  "copyBytes maxBytes v =
     bindE (guardE (\<not> (\<not> isSafeInteger maxBytes \<or> maxBytes < 0 \<or> maxBytes > MAX_INTRINSIC_COPY_BYTES))
              DeliveryValidationError) (\<lambda>_.
     catchE (case v of
         JView tv \<Rightarrow>
           bindE (inspectFixedArrayBufferView tv) (\<lambda>source.
           bindE (guardE (viewPrototype tv = Uint8ArrayPrototype \<or> viewPrototype tv = BufferPrototype)
                    TypeError) (\<lambda>_.
           bindE (guardE (\<not> list_ex (\<lambda>k. k \<in> set (viewOwnKeys tv)) overriddenKeys) TypeError) (\<lambda>_.
           bindE (guardE (\<not> int (inspByteLength source) > maxBytes) RangeError) (\<lambda>_.
           Inr (take (inspByteLength source) (viewBytes tv))))))
       | _ \<Rightarrow> Inl TypeError) DeliveryValidationError)"

subsection \<open>Base64url values\<close>

definition nodeBuffer :: "bytes \<Rightarrow> jsval" where
  "nodeBuffer bs = JView ((ownedView bs)\<lparr>viewPrototype := BufferPrototype\<rparr>)"

definition parseCanonicalBase64UrlBytes :: "int \<Rightarrow> int \<Rightarrow> jsval \<Rightarrow> bytes res" where
  "parseCanonicalBase64UrlBytes minBytes maxBytes v =
     bindE (parseCanonicalBase64Url minBytes maxBytes v) (\<lambda>parsed.
     copyBytes maxBytes (nodeBuffer (b64decode parsed)))"

definition decodeCanonicalBase64Url :: "string \<Rightarrow> bytes res" where
  "decodeCanonicalBase64Url s = parseCanonicalBase64UrlBytes 1 DEFAULT_MAX_BASE64URL_BYTES (JStr s)"

definition parseHash32 :: "jsval \<Rightarrow> string res" where
  "parseHash32 v = parseCanonicalBase64Url 32 32 v"

definition parseFingerprint32 :: "jsval \<Rightarrow> string res" where
  "parseFingerprint32 v = parseCanonicalBase64Url 32 32 v"

definition parseRaw32 :: "jsval \<Rightarrow> string res" where
  "parseRaw32 v = parseCanonicalBase64Url 32 32 v"

definition parseEd25519Signature :: "jsval \<Rightarrow> string res" where
  "parseEd25519Signature v = parseCanonicalBase64Url 64 64 v"

definition decodeHash32 :: "string \<Rightarrow> bytes res" where
  "decodeHash32 s = parseCanonicalBase64UrlBytes 32 32 (JStr s)"

definition decodeFingerprint32 :: "string \<Rightarrow> bytes res" where
  "decodeFingerprint32 s = parseCanonicalBase64UrlBytes 32 32 (JStr s)"

subsection \<open>Envelope classes, media types and senders\<close>

datatype envelopeClass = ExternalProposal | MlsCommit | Application

primrec envelopeClassText :: "envelopeClass \<Rightarrow> string" where
  "envelopeClassText ExternalProposal = ''external_proposal''"
| "envelopeClassText MlsCommit = ''mls_commit''"
| "envelopeClassText Application = ''application''"

definition parseEnvelopeClass :: "jsval \<Rightarrow> envelopeClass res" where
  "parseEnvelopeClass v =
     (if v = JStr ''external_proposal'' then Inr ExternalProposal
      else if v = JStr ''mls_commit'' then Inr MlsCommit
      else if v = JStr ''application'' then Inr Application
      else Inl DeliveryValidationError)"

definition parseEnvelopeContentType :: "jsval \<Rightarrow> string res" where
  "parseEnvelopeContentType v = (case v of
     JStr s \<Rightarrow> if s = MLS_PUBLIC_MESSAGE_MEDIA_TYPE \<or> s = MLS_PRIVATE_MESSAGE_MEDIA_TYPE
              then Inr s else Inl DeliveryValidationError
   | _ \<Rightarrow> Inl DeliveryValidationError)"

text \<open>The discriminated union \<open>EnvelopeSender\<close>; the field \<open>type\<close> is the constructor.\<close>

datatype envelopeSender =
    InstallationSender (senderAccountId: string) (senderInstallationId: string)
  | EntitlementSigner (senderCredentialId: string) (senderFingerprint: string) (signerGeneration: string)

primrec senderType :: "envelopeSender \<Rightarrow> string" where
  "senderType (InstallationSender a i) = ''installation''"
| "senderType (EntitlementSigner c f g) = ''entitlement_signer''"

definition parseEnvelopeSender :: "jsval \<Rightarrow> envelopeSender res" where
  "parseEnvelopeSender v =
     bindE (expectPlainDataRecord v) (\<lambda>discriminated.
     let type = discriminated ''type'' in
     if type = JStr ''installation'' then
       bindE (expectExactRecord v [''type'', ''accountId'', ''installationId'']) (\<lambda>record.
       bindE (parseAccountId (record ''accountId'')) (\<lambda>accountId.
       bindE (parseInstallationId (record ''installationId'')) (\<lambda>installationId.
       Inr (InstallationSender accountId installationId))))
     else if type = JStr ''entitlement_signer'' then
       bindE (expectExactRecord v [''type'', ''credentialId'', ''fingerprint'', ''signerGeneration'']) (\<lambda>record.
       bindE (parsePositiveUint63String (record ''signerGeneration'')) (\<lambda>signerGeneration.
       bindE (parseCredentialId (record ''credentialId'')) (\<lambda>credentialId.
       bindE (parseFingerprint32 (record ''fingerprint'')) (\<lambda>fingerprint.
       Inr (EntitlementSigner credentialId fingerprint signerGeneration)))))
     else Inl DeliveryValidationError)"

primrec encodeSender :: "envelopeSender \<Rightarrow> jsval" where
  "encodeSender (InstallationSender a i) =
     mkRecord [(''type'', JStr ''installation''), (''accountId'', JStr a), (''installationId'', JStr i)]"
| "encodeSender (EntitlementSigner c f g) =
     mkRecord [(''type'', JStr ''entitlement_signer''), (''credentialId'', JStr c), (''fingerprint'', JStr f),
               (''signerGeneration'', JStr g)]"

subsection \<open>What the parsers accept\<close>

definition uuidV4Valid :: "string \<Rightarrow> bool" where
  "uuidV4Valid s = matchesShape UUID_V4 s"

definition uuidV7Valid :: "string \<Rightarrow> bool" where
  "uuidV7Valid s = matchesShape UUID_V7 s"

definition uint63Valid :: "string \<Rightarrow> bool" where
  "uint63Valid s = (canonicalDecimal s \<and> bigInt s \<le> UINT63_MAX)"

definition positiveUint63Valid :: "string \<Rightarrow> bool" where
  "positiveUint63Valid s = (uint63Valid s \<and> s \<noteq> ''0'')"

definition hash32Valid :: "string \<Rightarrow> bool" where
  "hash32Valid s = b64Valid 32 32 s"

definition etagValid :: "string \<Rightarrow> bool" where
  "etagValid s = (\<exists>e r. uint63Valid e \<and> uint63Valid r \<and> s = etagText e r)"

lemma canonicalDecimal_length:
  assumes "canonicalDecimal s" "bigInt s \<le> UINT63_MAX"
  shows "length s \<le> length UINT63_MAX_STRING"
proof -
  have "readNat s < 10 ^ 19"
    using assms(2) by (simp add: bigInt_def UINT63_MAX_def)
  then have "length (showNat (readNat s)) \<le> 19" by (rule length_showNat_le) simp
  then show ?thesis using assms(1) by (simp add: UINT63_MAX_STRING_def)
qed

lemma parseUint63StringWith_eq:
  assumes "0 \<le> (case lo of None \<Rightarrow> 0 | Some m \<Rightarrow> m)" "(case hi of None \<Rightarrow> UINT63_MAX | Some m \<Rightarrow> m) \<le> UINT63_MAX"
    "(case lo of None \<Rightarrow> 0 | Some m \<Rightarrow> m) \<le> (case hi of None \<Rightarrow> UINT63_MAX | Some m \<Rightarrow> m)"
  shows "parseUint63StringWith lo hi v = Inr s \<longleftrightarrow> v = JStr s \<and> canonicalDecimal s
     \<and> (case lo of None \<Rightarrow> 0 | Some m \<Rightarrow> m) \<le> bigInt s \<and> bigInt s \<le> (case hi of None \<Rightarrow> UINT63_MAX | Some m \<Rightarrow> m)"
proof (cases v)
  case (JStr t)
  have len: "canonicalDecimal t \<Longrightarrow> bigInt t \<le> UINT63_MAX \<Longrightarrow> \<not> length UINT63_MAX_STRING < length t"
    using canonicalDecimal_length [of t] by simp
  show ?thesis
    using assms len
    by (auto simp: JStr parseUint63StringWith_def Let_def res_simps)
qed (auto simp: parseUint63StringWith_def)

lemma parseUint63String_iff [parse_simps]: "parseUint63String v = Inr s \<longleftrightarrow> v = JStr s \<and> uint63Valid s"
  unfolding parseUint63String_def
  using parseUint63StringWith_eq [of None None v s] by (auto simp: uint63Valid_def UINT63_MAX_def)

lemma parsePositiveUint63String_iff [parse_simps]:
  "parsePositiveUint63String v = Inr s \<longleftrightarrow> v = JStr s \<and> positiveUint63Valid s"
  by (auto simp: parsePositiveUint63String_def res_simps parse_simps positiveUint63Valid_def split: if_splits)

lemma parseUuidV4_iff [parse_simps]: "parseUuidV4 v = Inr s \<longleftrightarrow> v = JStr s \<and> uuidV4Valid s"
  by (auto simp: parseUuidV4_def parseUuid_def uuidV4Valid_def split: jsval.splits)

lemma parseUuidV7_iff [parse_simps]: "parseUuidV7 v = Inr s \<longleftrightarrow> v = JStr s \<and> uuidV7Valid s"
  by (auto simp: parseUuidV7_def parseUuid_def uuidV7Valid_def split: jsval.splits)

lemmas uuid_parser_defs [parse_simps] =
  parseAccountId_def parseAttachmentId_def parseConversationId_def parseCredentialId_def
  parseEnvelopeId_def parseInstallationId_def parsePolicyHeadId_def parseWitnessCheckpointId_def
  parseMembershipIntentId_def parseProposalId_def parseRequestId_def

lemma parseHash32_iff [parse_simps]: "parseHash32 v = Inr s \<longleftrightarrow> v = JStr s \<and> hash32Valid s"
  by (simp add: parseHash32_def hash32Valid_def parseCanonicalBase64Url_iff validateByteBounds_ok)

lemma parseFingerprint32_iff [parse_simps]: "parseFingerprint32 v = Inr s \<longleftrightarrow> v = JStr s \<and> hash32Valid s"
  by (simp add: parseFingerprint32_def hash32Valid_def parseCanonicalBase64Url_iff validateByteBounds_ok)

lemma parseRaw32_iff [parse_simps]: "parseRaw32 v = Inr s \<longleftrightarrow> v = JStr s \<and> hash32Valid s"
  by (simp add: parseRaw32_def hash32Valid_def parseCanonicalBase64Url_iff validateByteBounds_ok)

lemma parseRfc3339Millis_iff [parse_simps]: "parseRfc3339Millis v = Inr s \<longleftrightarrow> v = JStr s \<and> rfc3339Valid s"
  by (auto simp: parseRfc3339Millis_def rfc3339Valid_def split: jsval.splits option.splits)

lemma parseSigningKeyId_iff [parse_simps]: "parseSigningKeyId v = Inr s \<longleftrightarrow> v = JStr s \<and> SIGNING_KEY_ID s"
  by (auto simp: parseSigningKeyId_def split: jsval.splits)

lemma parseReleaseProfileId_iff [parse_simps]:
  "parseReleaseProfileId v = Inr s \<longleftrightarrow> v = JStr s \<and> RELEASE_PROFILE_ID s"
  by (auto simp: parseReleaseProfileId_def split: jsval.splits)

lemma parseEnvelopeClass_iff [parse_simps]:
  "parseEnvelopeClass v = Inr c \<longleftrightarrow> v = JStr (envelopeClassText c)"
  by (cases c) (auto simp: parseEnvelopeClass_def)

lemma parseEnvelopeContentType_iff [parse_simps]:
  "parseEnvelopeContentType v = Inr s \<longleftrightarrow>
     v = JStr s \<and> (s = MLS_PUBLIC_MESSAGE_MEDIA_TYPE \<or> s = MLS_PRIVATE_MESSAGE_MEDIA_TYPE)"
  by (auto simp: parseEnvelopeContentType_def split: jsval.splits)

subsection \<open>ETags\<close>

lemma takeWhile_digits: "list_all isDigit s \<Longrightarrow> \<not> isDigit c \<Longrightarrow> takeWhile isDigit (s @ c # t) = s"
  by (induction s) auto

lemma dropWhile_digits: "list_all isDigit s \<Longrightarrow> \<not> isDigit c \<Longrightarrow> dropWhile isDigit (s @ c # t) = c # t"
  by (induction s) auto

lemma canonicalDecimal_digits: "canonicalDecimal s \<Longrightarrow> list_all isDigit s"
  by (auto simp: canonicalDecimal_def isDigit_def)

lemma not_digit_marks [simp]: "\<not> isDigit (CHR ''-'')" "\<not> isDigit etagQuote"
  by (simp_all add: isDigit_def etagQuote_def)

lemma CONVERSATION_ETAG_etagText:
  assumes "canonicalDecimal e" "canonicalDecimal r"
  shows "CONVERSATION_ETAG (etagText e r) = Some (e, r)"
proof -
  have d: "list_all isDigit e" "list_all isDigit r" using assms canonicalDecimal_digits by auto
  have "drop 2 (etagText e r) = e @ CHR ''-'' # CHR ''r'' # r @ [etagQuote]"
    by (simp add: etagText_def)
  then show ?thesis
    using assms d takeWhile_digits [OF d(2), of etagQuote "[]"] dropWhile_digits [OF d(2), of etagQuote "[]"]
    by (simp add: CONVERSATION_ETAG_def takeWhile_digits dropWhile_digits Let_def etagText_def)
qed

lemma CONVERSATION_ETAG_SomeD:
  assumes "CONVERSATION_ETAG s = Some (e, r)"
  shows "s = etagText e r" "canonicalDecimal e" "canonicalDecimal r"
proof -
  define rest where "rest = drop 2 s"
  define tail where "tail = dropWhile isDigit rest"
  define rest2 where "rest2 = drop 2 tail"
  have *: "take 2 s = [etagQuote, CHR ''e'']" "e = takeWhile isDigit rest" "take 2 tail = ''-r''"
    "r = takeWhile isDigit rest2" "dropWhile isDigit rest2 = [etagQuote]"
    "canonicalDecimal e" "canonicalDecimal r"
    using assms unfolding rest_def tail_def rest2_def
    by (auto simp: CONVERSATION_ETAG_def Let_def split: if_splits)
  have "s = [etagQuote, CHR ''e''] @ rest"
    using append_take_drop_id [of 2 s] unfolding *(1) rest_def by (rule sym)
  moreover have "rest = e @ tail"
    unfolding *(2) tail_def by simp
  moreover have "tail = ''-r'' @ rest2"
    using append_take_drop_id [of 2 tail] unfolding *(3) rest2_def by (rule sym)
  moreover have "rest2 = r @ [etagQuote]"
    using takeWhile_dropWhile_id [of isDigit rest2] unfolding *(4) *(5) by (rule sym)
  ultimately show "s = etagText e r" by (simp add: etagText_def)
  show "canonicalDecimal e" "canonicalDecimal r" by fact+
qed

lemma parseConversationEtag_iff [parse_simps]:
  "parseConversationEtag v = Inr s \<longleftrightarrow> v = JStr s \<and> etagValid s"
proof (cases v)
  case (JStr t)
  show ?thesis
  proof (cases "CONVERSATION_ETAG t")
    case None
    then have "\<not> etagValid t"
      by (auto simp: etagValid_def CONVERSATION_ETAG_etagText uint63Valid_def)
    with None show ?thesis by (auto simp: JStr parseConversationEtag_def)
  next
    case (Some p)
    obtain e r where p: "p = (e, r)" by (cases p)
    have t: "t = etagText e r" using Some p CONVERSATION_ETAG_SomeD by auto
    have uniq: "e' = e \<and> r' = r" if "t = etagText e' r'" "uint63Valid e'" "uint63Valid r'" for e' r'
      using CONVERSATION_ETAG_etagText [of e' r'] that Some p by (simp add: uint63Valid_def)
    have "etagValid t \<longleftrightarrow> uint63Valid e \<and> uint63Valid r"
      unfolding etagValid_def using uniq t by blast
    with Some p show ?thesis
      by (auto simp: JStr parseConversationEtag_def res_simps parse_simps)
  qed
qed (auto simp: parseConversationEtag_def)

lemma formatConversationEtag_eq:
  "formatConversationEtag e r = Inr s \<longleftrightarrow> uint63Valid e \<and> uint63Valid r \<and> s = etagText e r"
  by (auto simp: formatConversationEtag_def res_simps parse_simps)

lemma etagText_inj:
  assumes "uint63Valid e" "uint63Valid r" "uint63Valid e'" "uint63Valid r'" "etagText e r = etagText e' r'"
  shows "e = e' \<and> r = r'"
proof -
  have "Some (e, r) = CONVERSATION_ETAG (etagText e r)" "CONVERSATION_ETAG (etagText e' r') = Some (e', r')"
    using assms(1-4) by (simp_all add: CONVERSATION_ETAG_etagText uint63Valid_def)
  with assms(5) show ?thesis by simp
qed

subsection \<open>Owned bytes and digests\<close>

lemma copyBytes_owned:
  assumes "0 \<le> maxBytes" "maxBytes \<le> 4294967295"
  shows "copyBytes maxBytes (JView (ownedView bs)) =
      (if int (length bs) \<le> maxBytes then Inr bs else Inl DeliveryValidationError)"
    "copyBytes maxBytes (nodeBuffer bs) =
      (if int (length bs) \<le> maxBytes then Inr bs else Inl DeliveryValidationError)"
  using assms
  by (simp_all add: copyBytes_def nodeBuffer_def isSafeInteger_def MAX_INTRINSIC_COPY_BYTES_def ownedView_def
      inspectFixedArrayBufferView_def guardE_def catchE_def list_ex_iff not_less bindE_def Let_def)

text \<open>Whatever the caller hands over, a copy that is returned is the content of a plain fixed buffer view.\<close>

lemma copyBytes_Inr_view:
  assumes "copyBytes maxBytes v = Inr bs"
  obtains tv where "v = JView tv" "bs = viewBytes tv" "viewBacking tv = PlainBuffer" "\<not> viewResizable tv"
    "\<not> viewDetached tv" "viewOffset tv + length bs \<le> viewBackingLength tv" "int (length bs) \<le> maxBytes"
    "set (viewOwnKeys tv) \<inter> set overriddenKeys = {}"
proof -
  obtain tv where v: "v = JView tv"
    using assms by (cases v) (auto simp: copyBytes_def res_simps catchE_def)
  have ok: "viewBacking tv = PlainBuffer" "\<not> viewResizable tv" "\<not> viewDetached tv"
    "viewOffset tv + length (viewBytes tv) \<le> viewBackingLength tv" "bs = viewBytes tv"
    "int (length bs) \<le> maxBytes" "\<forall>k\<in>set overriddenKeys. k \<notin> set (viewOwnKeys tv)"
    using assms unfolding v copyBytes_def inspectFixedArrayBufferView_def
    by (auto simp: res_simps catchE_def Let_def list_ex_iff guardE_def bindE_def split: if_splits sum.splits)
  then show thesis using that v by blast
qed

lemma hash32Valid_iff: "hash32Valid s \<longleftrightarrow> (\<exists>bs. length bs = 32 \<and> s = b64encode bs)"
  unfolding hash32Valid_def b64Valid_iff by fastforce

lemma decodeHash32_iff: "decodeHash32 s = Inr bs \<longleftrightarrow> length bs = 32 \<and> s = b64encode bs"
proof -
  have "decodeHash32 s = Inr bs \<longleftrightarrow> hash32Valid s \<and> copyBytes 32 (nodeBuffer (b64decode s)) = Inr bs"
    by (auto simp: decodeHash32_def parseCanonicalBase64UrlBytes_def res_simps hash32Valid_def
        parseCanonicalBase64Url_iff validateByteBounds_ok)
  then show ?thesis
    by (auto simp: copyBytes_owned hash32Valid_iff)
qed

lemma decodeFingerprint32_eq: "decodeFingerprint32 s = decodeHash32 s"
  by (simp add: decodeFingerprint32_def decodeHash32_def)

lemma decodeHash32_valid: "hash32Valid s \<Longrightarrow> decodeHash32 s = Inr (b64decode s)"
  using decodeHash32_iff hash32Valid_iff by auto

lemma decodeFingerprint32_valid: "hash32Valid s \<Longrightarrow> decodeFingerprint32 s = Inr (b64decode s)"
  by (simp add: decodeFingerprint32_eq decodeHash32_valid)

lemma b64decode_inj_hash: "hash32Valid s \<Longrightarrow> hash32Valid t \<Longrightarrow> b64decode s = b64decode t \<longleftrightarrow> s = t"
  by (auto simp: hash32Valid_iff)

lemma b64encode_zeros: "b64encode (replicate (3 * n) 0 @ bs) = replicate (4 * n) (CHR ''A'') @ b64encode bs"
proof (induction n)
  case (Suc n)
  have sizes: "3 * Suc n = Suc (Suc (Suc (3 * n)))" "4 * Suc n = Suc (Suc (Suc (Suc (4 * n))))" by simp_all
  have "b64sym 0 = CHR ''A''" by (simp add: b64sym_def BASE64URL_ALPHABET_def)
  with Suc show ?case unfolding sizes by simp
qed simp

lemma ZERO_HASH32_bytes: "ZERO_HASH32 = b64encode (replicate 32 0)"
proof -
  have "replicate 32 (0::byte) = replicate (3 * 10) 0 @ replicate 2 0"
    by (simp only: replicate_add [symmetric]) simp
  moreover have "b64encode (replicate 2 0) = ''AAA''"
    by (simp add: numeral_2_eq_2 b64sym_def BASE64URL_ALPHABET_def)
  moreover have "ZERO_HASH32 = replicate (4 * 10) (CHR ''A'') @ ''AAA''"
    by (simp add: ZERO_HASH32_def numeral_eq_Suc)
  ultimately show ?thesis by (simp only: b64encode_zeros)
qed

lemma ZERO_HASH32_valid [simp]: "hash32Valid ZERO_HASH32"
  unfolding hash32Valid_iff ZERO_HASH32_bytes by (intro exI[of _ "replicate 32 0"]) simp

subsection \<open>Senders\<close>

primrec senderValid :: "envelopeSender \<Rightarrow> bool" where
  "senderValid (InstallationSender a i) = (uuidV4Valid a \<and> uuidV4Valid i)"
| "senderValid (EntitlementSigner c f g) = (uuidV4Valid c \<and> hash32Valid f \<and> positiveUint63Valid g)"

lemma expectPlainDataRecord_mkRecord:
  "expectPlainDataRecord (mkRecord kvs) = Inr (fieldOf kvs)"
  by (simp add: expectPlainDataRecord_def plainProps_def mkRecord_def recGet_mkRecord list_all_iff
      case_prod_beta guardE_def)

lemma parseEnvelopeSender_encode: "senderValid s \<Longrightarrow> parseEnvelopeSender (encodeSender s) = Inr s"
  by (cases s) (auto simp: parseEnvelopeSender_def expectPlainDataRecord_mkRecord expectExactRecord_mkRecord
      res_simps parse_simps)

interpretation sender_codec: record_codec parseEnvelopeSender encodeSender senderValid
proof
  show "senderValid r" if "parseEnvelopeSender v = Inr r" for v r
    using that by (auto simp: parseEnvelopeSender_def res_simps parse_simps Let_def split: if_splits)
qed (rule parseEnvelopeSender_encode)

subsection \<open>Interpretations of the validators\<close>

interpretation uuid4_parser: string_parser parseUuidV4 uuidV4Valid
  by unfold_locales (rule parseUuidV4_iff)

interpretation uuid7_parser: string_parser parseUuidV7 uuidV7Valid
  by unfold_locales (rule parseUuidV7_iff)

interpretation uint63_parser: string_parser parseUint63String uint63Valid
  by unfold_locales (rule parseUint63String_iff)

interpretation hash32_parser: string_parser parseHash32 hash32Valid
  by unfold_locales (rule parseHash32_iff)

interpretation rfc3339_parser: string_parser parseRfc3339Millis rfc3339Valid
  by unfold_locales (rule parseRfc3339Millis_iff)

interpretation etag_parser: string_parser parseConversationEtag etagValid
  by unfold_locales (rule parseConversationEtag_iff)

subsection \<open>Arithmetic on counters\<close>

lemma uint63FromBigInt_iff:
  "uint63FromBigInt z = Inr s \<longleftrightarrow> 0 \<le> z \<and> z \<le> UINT63_MAX \<and> s = bigIntToString z"
  by (auto simp: uint63FromBigInt_def parseUint63BigInt_def)

lemma uint63Valid_toString: "0 \<le> z \<Longrightarrow> z \<le> UINT63_MAX \<Longrightarrow> uint63Valid (bigIntToString z)"
  by (simp add: uint63Valid_def bigIntToString_nonneg bigInt_def)

lemma uint63_roundtrip: "uint63Valid s \<Longrightarrow> bigIntToString (bigInt s) = s"
  by (simp add: uint63Valid_def)

lemma uint63_eq_iff: "uint63Valid s \<Longrightarrow> uint63Valid t \<Longrightarrow> s = t \<longleftrightarrow> bigInt s = bigInt t"
  by (simp add: uint63Valid_def bigInt_eq_iff)

lemma positiveUint63_iff: "positiveUint63Valid s \<longleftrightarrow> uint63Valid s \<and> 0 < bigInt s"
  using bigInt_pos_iff by (auto simp: positiveUint63Valid_def uint63Valid_def)

lemma uint63Valid_0 [simp]: "uint63Valid ''0''"
  by (simp add: uint63Valid_def canonicalDecimal_def UINT63_MAX_def)

lemma uint63Valid_1 [simp]: "uint63Valid ''1''" "positiveUint63Valid ''1''"
  by (simp_all add: positiveUint63Valid_def uint63Valid_def canonicalDecimal_def UINT63_MAX_def isDigit_def)

end
