(* ===== verification/Hashes.thy ===== *)
theory Hashes
  imports ValueObjects
begin

section \<open>Canonical encodings and digests\<close>

text \<open>
  The model of \<open>src/src/production/delivery/hashes.ts\<close>. SHA-256 is a parameter
  \<open>H :: bytes \<Rightarrow> bytes\<close>; the only thing the code relies on for it to return at all is the
  documented digest length, \<open>sha256Length H\<close>. Collision resistance appears as the hypothesis that
  \<open>H\<close> is injective on the finite set of preimages a statement is about.

  Most digests of the module have the form \<open>sha256(domain || LP(field_1) || ... || LP(field_n))\<close>; a
  field is one of the encodings below and \<open>digestOf\<close> is that composition. Its binding lemma,
  \<open>digestOf_binding\<close>, is proved once and used for every digest of the module.
\<close>

definition sha256Length :: "(bytes \<Rightarrow> bytes) \<Rightarrow> bool" where
  "sha256Length H = (\<forall>x. length (H x) = 32)"

definition U32_MAX :: int where
  "U32_MAX = 4294967295"

definition owned :: "bytes \<Rightarrow> jsval" where
  "owned bs = JView (ownedView bs)"

text \<open>The 8-bit groups \<open>(value >> 24n) & 0xffn\<close>, ... of a value below \<open>2 ^ 32\<close>.\<close>

definition encodeU32Be :: "int \<Rightarrow> bytes res" where
  "encodeU32Be value =
     (if value < 0 \<or> value > U32_MAX then Inl DeliveryValidationError
      else Inr [of_int (value div 2 ^ 24 mod 256), of_int (value div 2 ^ 16 mod 256),
                of_int (value div 2 ^ 8 mod 256), of_int (value mod 256)])"

definition concatenateBytes :: "bytes list \<Rightarrow> bytes res" where
  "concatenateBytes values =
     bindE (mapE (\<lambda>value. copyBytes U32_MAX (owned value)) values) (\<lambda>copies.
     let totalLength = sum_list (map (\<lambda>c. int (length c)) copies) in
     if \<not> isSafeInteger totalLength \<or> totalLength > U32_MAX then Inl DeliveryValidationError
     else Inr (concat copies))"

definition lengthPrefix :: "bytes \<Rightarrow> bytes res" where
  "lengthPrefix value =
     bindE (copyBytes DEFAULT_MAX_BASE64URL_BYTES (owned value)) (\<lambda>bytes.
     bindE (encodeU32Be (int (length bytes))) (\<lambda>prefix.
     concatenateBytes [prefix, bytes]))"

definition canonicalLengthPrefixed :: "bytes list \<Rightarrow> bytes res" where
  "canonicalLengthPrefixed values = bindE (mapE lengthPrefix values) concatenateBytes"

definition sha256Bytes :: "(bytes \<Rightarrow> bytes) \<Rightarrow> bytes list \<Rightarrow> string res" where
  "sha256Bytes H values =
     bindE (mapE (\<lambda>value. copyBytes DEFAULT_MAX_BASE64URL_BYTES (owned value)) values) (\<lambda>copies.
     parseHash32 (JStr (b64encode (H (concat copies)))))"

definition computeEnvelopeSha256 :: "(bytes \<Rightarrow> bytes) \<Rightarrow> jsval \<Rightarrow> string res" where
  "computeEnvelopeSha256 H envelopeBytes =
     bindE (copyBytes DEFAULT_MAX_BASE64URL_BYTES envelopeBytes) (\<lambda>bs. sha256Bytes H [bs])"

subsection \<open>Digests over length-prefixed fields\<close>

text \<open>
  The encodings the digests apply to a value: \<open>utf8\<close>, \<open>decodeHash32\<close>, \<open>decodeFingerprint32\<close>, bytes
  as they are, and the two nullable encodings of \<open>state.ts\<close>.
\<close>

datatype digestField =
    Utf8 string
  | DecodedHash string
  | DecodedFingerprint string
  | RawBytes bytes
  | NullableText "string option"
  | NullableHash "string option"

definition encodeNullableText :: "string option \<Rightarrow> bytes res" where
  "encodeNullableText value = (case value of
     None \<Rightarrow> canonicalLengthPrefixed [utf8 ''absent'']
   | Some s \<Rightarrow> canonicalLengthPrefixed [utf8 ''present'', utf8 s])"

definition encodeNullableHash :: "string option \<Rightarrow> bytes res" where
  "encodeNullableHash value = (case value of
     None \<Rightarrow> canonicalLengthPrefixed [utf8 ''absent'']
   | Some s \<Rightarrow> bindE (decodeHash32 s) (\<lambda>bs. canonicalLengthPrefixed [utf8 ''present'', bs]))"

primrec fieldBytes :: "digestField \<Rightarrow> bytes res" where
  "fieldBytes (Utf8 s) = Inr (utf8 s)"
| "fieldBytes (DecodedHash s) = decodeHash32 s"
| "fieldBytes (DecodedFingerprint s) = decodeFingerprint32 s"
| "fieldBytes (RawBytes bs) = Inr bs"
| "fieldBytes (NullableText v) = encodeNullableText v"
| "fieldBytes (NullableHash v) = encodeNullableHash v"

definition digestOf :: "(bytes \<Rightarrow> bytes) \<Rightarrow> string \<Rightarrow> digestField list \<Rightarrow> string res" where
  "digestOf H domain items =
     bindE (mapE fieldBytes items) (\<lambda>values.
     bindE (canonicalLengthPrefixed values) (\<lambda>encoding.
     sha256Bytes H [utf8 domain, encoding]))"

subsection \<open>Envelope leaves and log heads\<close>

definition ENVELOPE_LEAF_HASH_DOMAIN :: string where
  "ENVELOPE_LEAF_HASH_DOMAIN = ''jb-msg-envelope-leaf/v1''"

definition LOG_HEAD_HASH_DOMAIN :: string where
  "LOG_HEAD_HASH_DOMAIN = ''jb-msg-log-head/v1''"

definition DELIVERY_LOG_CHECKPOINT_DIGEST_DOMAIN :: string where
  "DELIVERY_LOG_CHECKPOINT_DIGEST_DOMAIN = ''jb-msg-delivery-log-checkpoint/v1''"

definition EXTERNAL_PROPOSAL_HASH_DOMAIN :: string where
  "EXTERNAL_PROPOSAL_HASH_DOMAIN = ''jb-msg-external-proposal/v1''"

record envelopeLeafInput =
  leafConversationId :: string
  leafPosition :: string
  leafEnvelopeId :: string
  leafEnvelopeClass :: envelopeClass
  leafSender :: envelopeSender
  leafEpoch :: string
  leafRosterVersion :: string
  leafContentType :: string
  leafEnvelopeSha256 :: string
  leafReceivedAt :: string

record deliveryLogCheckpointInput =
  cpConversationId :: string
  cpPosition :: string
  cpPreviousHeadHash :: string
  cpHeadHash :: string
  cpSigningKeyId :: string

primrec isInstallation :: "envelopeSender \<Rightarrow> bool" where
  "isInstallation (InstallationSender a i) = True"
| "isInstallation (EntitlementSigner c f g) = False"

definition requireClassSenderAndMediaType :: "envelopeClass \<Rightarrow> envelopeSender \<Rightarrow> string \<Rightarrow> unit res" where
  "requireClassSenderAndMediaType cls sender contentType = (case cls of
     ExternalProposal \<Rightarrow>
       if isInstallation sender \<or> contentType \<noteq> MLS_PUBLIC_MESSAGE_MEDIA_TYPE
       then Inl DeliveryValidationError else Inr ()
   | MlsCommit \<Rightarrow>
       if \<not> isInstallation sender \<or> contentType \<noteq> MLS_PUBLIC_MESSAGE_MEDIA_TYPE
       then Inl DeliveryValidationError else Inr ()
   | Application \<Rightarrow>
       if \<not> isInstallation sender \<or> contentType \<noteq> MLS_PRIVATE_MESSAGE_MEDIA_TYPE
       then Inl DeliveryValidationError else Inr ())"

definition LEAF_KEYS :: "string list" where
  "LEAF_KEYS = [''conversationId'', ''position'', ''envelopeId'', ''envelopeClass'', ''sender'', ''epoch'',
     ''rosterVersion'', ''contentType'', ''envelopeSha256'', ''receivedAt'']"

definition parseEnvelopeLeafInput :: "jsval \<Rightarrow> envelopeLeafInput res" where
  "parseEnvelopeLeafInput v =
     bindE (expectExactRecord v LEAF_KEYS) (\<lambda>record.
     bindE (parseEnvelopeClass (record ''envelopeClass'')) (\<lambda>cls.
     bindE (parseEnvelopeContentType (record ''contentType'')) (\<lambda>contentType.
     bindE (parseEnvelopeSender (record ''sender'')) (\<lambda>sender.
     bindE (requireClassSenderAndMediaType cls sender contentType) (\<lambda>_.
     bindE (parseConversationId (record ''conversationId'')) (\<lambda>conversationId.
     bindE (parsePositiveUint63String (record ''position'')) (\<lambda>position.
     bindE (parseEnvelopeId (record ''envelopeId'')) (\<lambda>envelopeId.
     bindE (parseUint63String (record ''epoch'')) (\<lambda>epoch.
     bindE (parseUint63String (record ''rosterVersion'')) (\<lambda>rosterVersion.
     bindE (parseHash32 (record ''envelopeSha256'')) (\<lambda>envelopeSha256.
     bindE (parseRfc3339Millis (record ''receivedAt'')) (\<lambda>receivedAt.
     Inr \<lparr>leafConversationId = conversationId, leafPosition = position, leafEnvelopeId = envelopeId,
          leafEnvelopeClass = cls, leafSender = sender, leafEpoch = epoch,
          leafRosterVersion = rosterVersion, leafContentType = contentType,
          leafEnvelopeSha256 = envelopeSha256, leafReceivedAt = receivedAt\<rparr>))))))))))))"

definition encodeEntitlementSignerFields :: "string \<Rightarrow> string \<Rightarrow> string \<Rightarrow> bytes res" where
  "encodeEntitlementSignerFields credentialId fingerprint generation =
     bindE (parseCredentialId (JStr credentialId)) (\<lambda>c.
     bindE (decodeFingerprint32 fingerprint) (\<lambda>f.
     bindE (parsePositiveUint63String (JStr generation)) (\<lambda>g.
     canonicalLengthPrefixed [utf8 c, f, utf8 g])))"

definition encodeEnvelopeSenderFields :: "envelopeSender \<Rightarrow> bytes res" where
  "encodeEnvelopeSenderFields sender =
     bindE (parseEnvelopeSender (encodeSender sender)) (\<lambda>parsed. case parsed of
       InstallationSender accountId installationId \<Rightarrow>
         canonicalLengthPrefixed [utf8 accountId, utf8 installationId]
     | EntitlementSigner credentialId fingerprint generation \<Rightarrow>
         encodeEntitlementSignerFields credentialId fingerprint generation)"

definition computeEnvelopeLeafHash :: "(bytes \<Rightarrow> bytes) \<Rightarrow> jsval \<Rightarrow> string res" where
  "computeEnvelopeLeafHash H input =
     bindE (parseEnvelopeLeafInput input) (\<lambda>parsed.
     bindE (encodeEnvelopeSenderFields (leafSender parsed)) (\<lambda>senderFields.
     digestOf H ENVELOPE_LEAF_HASH_DOMAIN
       [Utf8 (leafConversationId parsed), Utf8 (leafPosition parsed), Utf8 (leafEnvelopeId parsed),
        Utf8 (envelopeClassText (leafEnvelopeClass parsed)), Utf8 (senderType (leafSender parsed)),
        RawBytes senderFields, Utf8 (leafEpoch parsed), Utf8 (leafRosterVersion parsed),
        Utf8 (leafContentType parsed), DecodedHash (leafEnvelopeSha256 parsed),
        Utf8 (leafReceivedAt parsed)]))"

definition computeExternalProposalHash :: "(bytes \<Rightarrow> bytes) \<Rightarrow> jsval \<Rightarrow> jsval \<Rightarrow> string res" where
  "computeExternalProposalHash H publicMessage authorizationRecordHash =
     bindE (copyBytes DEFAULT_MAX_BASE64URL_BYTES publicMessage) (\<lambda>message.
     bindE (lengthPrefix message) (\<lambda>prefixed.
     bindE (parseHash32 authorizationRecordHash) (\<lambda>hash.
     bindE (decodeHash32 hash) (\<lambda>raw.
     sha256Bytes H [utf8 EXTERNAL_PROPOSAL_HASH_DOMAIN, prefixed, raw]))))"

definition computeLogHeadHash :: "(bytes \<Rightarrow> bytes) \<Rightarrow> jsval \<Rightarrow> jsval \<Rightarrow> string res" where
  "computeLogHeadHash H previousHeadHash leafHash =
     bindE (parseHash32 previousHeadHash) (\<lambda>previous.
     bindE (parseHash32 leafHash) (\<lambda>leaf.
     bindE (decodeHash32 previous) (\<lambda>previousRaw.
     bindE (decodeHash32 leaf) (\<lambda>leafRaw.
     sha256Bytes H [utf8 LOG_HEAD_HASH_DOMAIN, previousRaw, leafRaw]))))"

definition CHECKPOINT_KEYS :: "string list" where
  "CHECKPOINT_KEYS = [''conversationId'', ''position'', ''previousHeadHash'', ''headHash'', ''signingKeyId'']"

definition parseDeliveryLogCheckpointInput :: "jsval \<Rightarrow> deliveryLogCheckpointInput res" where
  "parseDeliveryLogCheckpointInput v =
     bindE (expectExactRecord v CHECKPOINT_KEYS) (\<lambda>record.
     bindE (parseConversationId (record ''conversationId'')) (\<lambda>conversationId.
     bindE (parsePositiveUint63String (record ''position'')) (\<lambda>position.
     bindE (parseHash32 (record ''previousHeadHash'')) (\<lambda>previousHeadHash.
     bindE (parseHash32 (record ''headHash'')) (\<lambda>headHash.
     bindE (parseSigningKeyId (record ''signingKeyId'')) (\<lambda>signingKeyId.
     if position = ''1'' \<and> previousHeadHash \<noteq> ZERO_HASH32 then Inl DeliveryValidationError
     else if position \<noteq> ''1'' \<and> previousHeadHash = ZERO_HASH32 then Inl DeliveryValidationError
     else Inr \<lparr>cpConversationId = conversationId, cpPosition = position,
               cpPreviousHeadHash = previousHeadHash, cpHeadHash = headHash,
               cpSigningKeyId = signingKeyId\<rparr>))))))"

definition computeDeliveryLogCheckpointDigest :: "(bytes \<Rightarrow> bytes) \<Rightarrow> jsval \<Rightarrow> string res" where
  "computeDeliveryLogCheckpointDigest H input =
     bindE (parseDeliveryLogCheckpointInput input) (\<lambda>parsed.
     digestOf H DELIVERY_LOG_CHECKPOINT_DIGEST_DOMAIN
       [Utf8 (cpConversationId parsed), Utf8 (cpPosition parsed), DecodedHash (cpPreviousHeadHash parsed),
        DecodedHash (cpHeadHash parsed), Utf8 (cpSigningKeyId parsed)])"

subsection \<open>Length prefixes are injective\<close>

definition u32be :: "nat \<Rightarrow> bytes" where
  "u32be n = [of_nat (n div 2 ^ 24 mod 256), of_nat (n div 2 ^ 16 mod 256),
              of_nat (n div 2 ^ 8 mod 256), of_nat (n mod 256)]"

definition lp :: "bytes \<Rightarrow> bytes" where
  "lp bs = u32be (length bs) @ bs"

lemma encodeU32Be_nat: "int n \<le> U32_MAX \<Longrightarrow> encodeU32Be (int n) = Inr (u32be n)"
proof -
  have bytes: "(of_int (int n div k mod 256) :: byte) = of_nat (n div nat k mod 256)" if "0 < k" for k
  proof -
    have "int n div k mod 256 = int (n div nat k mod 256)"
      using that by (simp add: zdiv_int zmod_int)
    then show ?thesis by (simp only: of_int_of_nat_eq)
  qed
  assume "int n \<le> U32_MAX"
  then show ?thesis
    using bytes [of "2 ^ 24"] bytes [of "2 ^ 16"] bytes [of "2 ^ 8"] bytes [of 1]
    by (simp only: encodeU32Be_def u32be_def) (simp add: nat_power_eq)
qed

lemma length_u32be [simp]: "length (u32be n) = 4"
  by (simp add: u32be_def)

lemma u32be_inj:
  assumes "m < 2 ^ 32" "n < 2 ^ 32" "u32be m = u32be n"
  shows "m = n"
proof -
  have eq: "(of_nat a :: byte) = of_nat b \<longleftrightarrow> a = b" if "a < 256" "b < 256" for a b
    using that by (metis unat_of_nat_byte)
  have split: "k = ((k div 2 ^ 24 mod 256 * 256 + k div 2 ^ 16 mod 256) * 256 + k div 2 ^ 8 mod 256) * 256 + k mod 256"
    if "k < 2 ^ 32" for k :: nat
  proof -
    define a b c where "a = k div 256" and "b = a div 256" and "c = b div 256"
    have folds: "k div 2 ^ 8 = a" "k div 2 ^ 16 = b" "k div 2 ^ 24 = c"
      by (simp_all add: a_def b_def c_def div_mult2_eq [symmetric])
    have "c < 256" using that by (simp add: a_def b_def c_def div_mult2_eq [symmetric] less_mult_imp_div_less)
    then have "c mod 256 = c" by simp
    moreover have "c * 256 + b mod 256 = b" "b * 256 + a mod 256 = a" "a * 256 + k mod 256 = k"
      unfolding a_def b_def c_def by (simp_all only: div_mult_mod_eq)
    ultimately show ?thesis unfolding folds by simp
  qed
  have "m div 2 ^ 24 mod 256 = n div 2 ^ 24 mod 256" "m div 2 ^ 16 mod 256 = n div 2 ^ 16 mod 256"
    "m div 2 ^ 8 mod 256 = n div 2 ^ 8 mod 256" "m mod 256 = n mod 256"
    using assms(3) by (simp_all add: u32be_def eq)
  then show ?thesis
    using split [OF assms(1)] split [OF assms(2)] by metis
qed

lemma lp_prefix_free:
  assumes "length xs < 2 ^ 32" "length ys < 2 ^ 32" "lp xs @ s = lp ys @ t"
  shows "xs = ys \<and> s = t"
proof -
  have "u32be (length xs) = u32be (length ys)" "xs @ s = ys @ t"
    using assms(3) by (simp_all add: lp_def)
  with u32be_inj assms show ?thesis by (metis append_eq_append_conv)
qed

lemma concat_lp_inj:
  assumes "\<forall>x\<in>set xs. length x < 2 ^ 32" "\<forall>y\<in>set ys. length y < 2 ^ 32"
    "concat (map lp xs) = concat (map lp ys)"
  shows "xs = ys"
  using assms
proof (induction xs arbitrary: ys)
  case Nil
  then show ?case by (cases ys) (auto simp: lp_def u32be_def)
next
  case (Cons x xs)
  then obtain y ys' where ys: "ys = y # ys'"
    by (cases ys) (auto simp: lp_def u32be_def)
  have "x = y \<and> concat (map lp xs) = concat (map lp ys')"
    using Cons.prems ys by (intro lp_prefix_free) auto
  with Cons ys show ?case by simp
qed

subsection \<open>The encoders on owned bytes\<close>

lemma copyBytes_default [simp]:
  "copyBytes DEFAULT_MAX_BASE64URL_BYTES (owned bs) =
     (if int (length bs) \<le> DEFAULT_MAX_BASE64URL_BYTES then Inr bs else Inl DeliveryValidationError)"
  unfolding owned_def by (rule copyBytes_owned) (simp_all add: DEFAULT_MAX_BASE64URL_BYTES_def)

lemma copyBytes_u32 [simp]:
  "copyBytes U32_MAX (owned bs) = (if int (length bs) \<le> U32_MAX then Inr bs else Inl DeliveryValidationError)"
  unfolding owned_def by (rule copyBytes_owned) (simp_all add: U32_MAX_def)

lemma mapE_if_Inr:
  "mapE (\<lambda>x. if P x then Inr (f x) else Inl (e x)) xs = Inr ys \<longleftrightarrow> list_all P xs \<and> ys = map f xs"
  by (induction xs arbitrary: ys) (auto simp: res_simps)

lemma mapE_ident_Inr:
  "mapE (\<lambda>x. if P x then Inr x else Inl (e x)) xs = Inr ys \<longleftrightarrow> list_all P xs \<and> ys = xs"
  using mapE_if_Inr [of P "\<lambda>x. x" e xs ys] by simp

lemma length_concat_sum: "int (length (concat xs)) = sum_list (map (\<lambda>c. int (length c)) xs)"
  by (induction xs) auto

lemma concatenateBytes_iff:
  "concatenateBytes xs = Inr ys \<longleftrightarrow> int (length (concat xs)) \<le> U32_MAX \<and> ys = concat xs"
proof -
  have each: "int (length x) \<le> U32_MAX" if "int (length (concat xs)) \<le> U32_MAX" "x \<in> set xs" for x
  proof -
    have "length x \<le> length (concat xs)"
      using that(2) by (simp add: length_concat member_le_sum_list)
    with that(1) show ?thesis by linarith
  qed
  moreover have "isSafeInteger (int (length (concat xs)))" if "int (length (concat xs)) \<le> U32_MAX"
    using that by (simp add: isSafeInteger_def U32_MAX_def)
  ultimately show ?thesis
    unfolding concatenateBytes_def copyBytes_u32
    by (auto simp: bindE_eq_Inr mapE_ident_Inr Let_def length_concat_sum [symmetric] list_all_iff
        split: if_splits simp del: length_concat)
qed

lemma lengthPrefix_iff:
  "lengthPrefix bs = Inr ys \<longleftrightarrow> int (length bs) \<le> DEFAULT_MAX_BASE64URL_BYTES \<and> ys = lp bs"
proof (cases "int (length bs) \<le> DEFAULT_MAX_BASE64URL_BYTES")
  case True
  then have "int (length bs) \<le> U32_MAX" "4 + int (length bs) \<le> U32_MAX"
    by (simp_all add: DEFAULT_MAX_BASE64URL_BYTES_def U32_MAX_def)
  with True show ?thesis
    by (auto simp: lengthPrefix_def encodeU32Be_nat concatenateBytes_iff lp_def)
qed (simp add: lengthPrefix_def)

lemma lengthPrefix_eq:
  "lengthPrefix bs =
     (if int (length bs) \<le> DEFAULT_MAX_BASE64URL_BYTES then Inr (lp bs) else Inl DeliveryValidationError)"
proof (cases "int (length bs) \<le> DEFAULT_MAX_BASE64URL_BYTES")
  case True
  then show ?thesis using lengthPrefix_iff [of bs "lp bs"] by simp
qed (simp add: lengthPrefix_def)

lemma canonicalLengthPrefixed_iff:
  "canonicalLengthPrefixed xs = Inr ys \<longleftrightarrow>
     list_all (\<lambda>x. int (length x) \<le> DEFAULT_MAX_BASE64URL_BYTES) xs
     \<and> int (length ys) \<le> U32_MAX \<and> ys = concat (map lp xs)"
  unfolding canonicalLengthPrefixed_def lengthPrefix_eq
  by (auto simp: bindE_eq_Inr mapE_if_Inr concatenateBytes_iff)

lemma canonicalLengthPrefixed_inj:
  assumes "canonicalLengthPrefixed xs = Inr e" "canonicalLengthPrefixed ys = Inr e"
  shows "xs = ys"
  using assms
  by (intro concat_lp_inj) (auto simp: canonicalLengthPrefixed_iff list_all_iff DEFAULT_MAX_BASE64URL_BYTES_def)

lemma sha256Bytes_iff:
  "sha256Bytes H xs = Inr h \<longleftrightarrow>
     list_all (\<lambda>x. int (length x) \<le> DEFAULT_MAX_BASE64URL_BYTES) xs
     \<and> length (H (concat xs)) = 32 \<and> h = b64encode (H (concat xs))"
  by (auto simp: sha256Bytes_def bindE_eq_Inr mapE_ident_Inr parseHash32_iff hash32Valid_iff)

lemma sha256Bytes_valid: "sha256Bytes H xs = Inr h \<Longrightarrow> hash32Valid h"
  by (auto simp: sha256Bytes_iff hash32Valid_iff)

subsection \<open>Digests bind their fields\<close>

text \<open>The bytes that are hashed for a list of fields.\<close>

definition fieldRaw :: "digestField \<Rightarrow> bytes" where
  "fieldRaw f = (case fieldBytes f of Inl _ \<Rightarrow> [] | Inr bs \<Rightarrow> bs)"

definition digestPreimage :: "string \<Rightarrow> digestField list \<Rightarrow> bytes" where
  "digestPreimage domain items = utf8 domain @ concat (map lp (map fieldRaw items))"

lemma fieldBytes_raw: "fieldBytes f = Inr bs \<Longrightarrow> fieldRaw f = bs"
  by (simp add: fieldRaw_def)

lemma mapE_fieldBytes: "mapE fieldBytes fs = Inr bss \<Longrightarrow> bss = map fieldRaw fs"
  by (induction fs arbitrary: bss) (auto simp: bindE_eq_Inr fieldBytes_raw)

lemma digestOf_Inr:
  assumes "digestOf H domain fs = Inr h"
  shows "mapE fieldBytes fs = Inr (map fieldRaw fs)"
    "canonicalLengthPrefixed (map fieldRaw fs) = Inr (concat (map lp (map fieldRaw fs)))"
    "h = b64encode (H (digestPreimage domain fs))" "hash32Valid h"
proof -
  obtain bss e where bss: "mapE fieldBytes fs = Inr bss" and e: "canonicalLengthPrefixed bss = Inr e"
    and h: "sha256Bytes H [utf8 domain, e] = Inr h"
    using assms by (auto simp: digestOf_def bindE_eq_Inr)
  note raw = mapE_fieldBytes [OF bss]
  show "mapE fieldBytes fs = Inr (map fieldRaw fs)" using bss raw by simp
  show c: "canonicalLengthPrefixed (map fieldRaw fs) = Inr (concat (map lp (map fieldRaw fs)))"
    using e raw canonicalLengthPrefixed_iff by auto
  show "h = b64encode (H (digestPreimage domain fs))"
    using h e raw c by (simp add: sha256Bytes_iff digestPreimage_def)
  show "hash32Valid h" using h by (rule sha256Bytes_valid)
qed

lemma digestOf_binding:
  assumes "digestOf H domain fs = Inr h" "digestOf H domain gs = Inr h"
    "inj_on H {digestPreimage domain fs, digestPreimage domain gs}"
  shows "map fieldRaw fs = map fieldRaw gs"
proof -
  have "H (digestPreimage domain fs) = H (digestPreimage domain gs)"
    using digestOf_Inr(3) [OF assms(1)] digestOf_Inr(3) [OF assms(2)] by simp
  with assms(3) have "digestPreimage domain fs = digestPreimage domain gs"
    by (auto dest: inj_onD)
  then have "concat (map lp (map fieldRaw fs)) = concat (map lp (map fieldRaw gs))"
    by (simp add: digestPreimage_def)
  with digestOf_Inr(2) [OF assms(1)] digestOf_Inr(2) [OF assms(2)] show ?thesis
    using canonicalLengthPrefixed_inj by metis
qed

text \<open>A field is determined by its bytes, constructor by constructor.\<close>

lemma fieldRaw_Utf8 [simp]: "fieldRaw (Utf8 s) = fieldRaw (Utf8 t) \<longleftrightarrow> s = t"
  by (simp add: fieldRaw_def utf8_inj)

lemma fieldRaw_RawBytes [simp]: "fieldRaw (RawBytes s) = fieldRaw (RawBytes t) \<longleftrightarrow> s = t"
  by (simp add: fieldRaw_def)

lemma fieldRaw_DecodedHash [simp]:
  "hash32Valid s \<Longrightarrow> hash32Valid t \<Longrightarrow> fieldRaw (DecodedHash s) = fieldRaw (DecodedHash t) \<longleftrightarrow> s = t"
  by (simp add: fieldRaw_def decodeHash32_valid b64decode_inj_hash)

lemma fieldRaw_DecodedFingerprint [simp]:
  "hash32Valid s \<Longrightarrow> hash32Valid t \<Longrightarrow>
     fieldRaw (DecodedFingerprint s) = fieldRaw (DecodedFingerprint t) \<longleftrightarrow> s = t"
  by (simp add: fieldRaw_def decodeFingerprint32_valid b64decode_inj_hash)

subsection \<open>Digests of bounded fields exist\<close>

definition smallField :: "nat \<Rightarrow> digestField \<Rightarrow> bool" where
  "smallField k f = (\<exists>bs. fieldBytes f = Inr bs \<and> length bs \<le> k)"

lemma length_utf8_char: "length (utf8_char c) \<le> 2"
  by (simp add: utf8_char_def Let_def)

lemma length_utf8: "length (utf8 s) \<le> 2 * length s"
proof (induction s)
  case (Cons c s)
  then show ?case using length_utf8_char [of c] by (simp add: utf8_def)
qed (simp add: utf8_def)

lemma smallField_Utf8: "2 * length s \<le> k \<Longrightarrow> smallField k (Utf8 s)"
  using length_utf8 [of s] by (auto simp: smallField_def)

lemma smallField_DecodedHash: "hash32Valid s \<Longrightarrow> 32 \<le> k \<Longrightarrow> smallField k (DecodedHash s)"
  by (auto simp: smallField_def decodeHash32_iff hash32Valid_iff)

lemma smallField_DecodedFingerprint: "hash32Valid s \<Longrightarrow> 32 \<le> k \<Longrightarrow> smallField k (DecodedFingerprint s)"
  by (auto simp: smallField_def decodeFingerprint32_eq decodeHash32_iff hash32Valid_iff)

lemma smallField_RawBytes: "length bs \<le> k \<Longrightarrow> smallField k (RawBytes bs)"
  by (simp add: smallField_def)

lemma length_lp [simp]: "length (lp bs) = 4 + length bs"
  by (simp add: lp_def)

lemma length_concat_lp:
  "\<forall>x\<in>set xs. length x \<le> k \<Longrightarrow> length (concat (map lp xs)) \<le> (k + 4) * length xs"
  by (induction xs) auto

lemma canonicalLengthPrefixed_small:
  assumes "\<forall>x\<in>set xs. length x \<le> k" "(k + 4) * length xs \<le> 8388608"
  shows "canonicalLengthPrefixed xs = Inr (concat (map lp xs))"
proof -
  have len: "length (concat (map lp xs)) \<le> 8388608"
    using length_concat_lp [OF assms(1)] assms(2) by linarith
  have "length x \<le> 8388608" if "x \<in> set xs" for x
  proof -
    have "k + 4 \<le> (k + 4) * length xs"
      using that by (cases xs) auto
    moreover have "length x \<le> k" using assms(1) that by blast
    ultimately show ?thesis using assms(2) by linarith
  qed
  with len show ?thesis
    by (auto simp: canonicalLengthPrefixed_iff list_all_iff DEFAULT_MAX_BASE64URL_BYTES_def U32_MAX_def
        simp del: length_concat)
qed

lemma digestOf_total:
  assumes "sha256Length H" "list_all (smallField k) fs" "(k + 4) * length fs \<le> 8388608"
    "length domain \<le> 4194304"
  shows "\<exists>h. digestOf H domain fs = Inr h"
proof -
  have f: "fieldBytes f = Inr (fieldRaw f) \<and> length (fieldRaw f) \<le> k" if "f \<in> set fs" for f
    using assms(2) that by (auto simp: list_all_iff smallField_def fieldRaw_def)
  have raw: "mapE fieldBytes (map (\<lambda>f. f) fs) = Inr (map fieldRaw fs)"
    using f by (intro mapE_map_Inr) auto
  have small: "\<forall>x\<in>set (map fieldRaw fs). length x \<le> k" using f by auto
  have enc: "canonicalLengthPrefixed (map fieldRaw fs) = Inr (concat (map lp (map fieldRaw fs)))"
    using small assms(3) by (intro canonicalLengthPrefixed_small) auto
  have "length (concat (map lp (map fieldRaw fs))) \<le> 8388608"
    using length_concat_lp [OF small] assms(3) by simp
  moreover have "length (utf8 domain) \<le> 8388608"
    using length_utf8 [of domain] assms(4) by linarith
  ultimately have "sha256Bytes H [utf8 domain, concat (map lp (map fieldRaw fs))]
      = Inr (b64encode (H (utf8 domain @ concat (map lp (map fieldRaw fs)))))"
    using assms(1) by (simp add: sha256Bytes_iff sha256Length_def DEFAULT_MAX_BASE64URL_BYTES_def del: length_concat)
  with raw enc show ?thesis by (simp add: digestOf_def)
qed

lemma length_uuid: "uuidV4Valid s \<Longrightarrow> length s = 36"
  unfolding uuidV4Valid_def matchesShape_def UUID_V4_def uuidPattern_def
  by (drule list_all2_lengthD) simp

lemma length_uint63: "uint63Valid s \<Longrightarrow> length s \<le> 19"
  using canonicalDecimal_length [of s] by (simp add: uint63Valid_def UINT63_MAX_STRING_def)

lemma length_rfc3339: "rfc3339Valid s \<Longrightarrow> length s = 24"
  unfolding rfc3339Valid_def matchesShape_def RFC3339_MILLISECONDS_def
  by (elim conjE, drule list_all2_lengthD) simp

lemma length_signingKeyId: "SIGNING_KEY_ID s \<Longrightarrow> length s \<le> 64"
  by (auto simp: SIGNING_KEY_ID_def identShape_def split: list.splits)

lemmas scalar_lengths = length_uuid length_uint63 length_rfc3339 length_signingKeyId

subsection \<open>Leaf inputs and checkpoints as codecs\<close>

definition encodeLeaf :: "envelopeLeafInput \<Rightarrow> jsval" where
  "encodeLeaf r = mkRecord
     [(''conversationId'', JStr (leafConversationId r)), (''position'', JStr (leafPosition r)),
      (''envelopeId'', JStr (leafEnvelopeId r)), (''envelopeClass'', JStr (envelopeClassText (leafEnvelopeClass r))),
      (''sender'', encodeSender (leafSender r)), (''epoch'', JStr (leafEpoch r)),
      (''rosterVersion'', JStr (leafRosterVersion r)), (''contentType'', JStr (leafContentType r)),
      (''envelopeSha256'', JStr (leafEnvelopeSha256 r)), (''receivedAt'', JStr (leafReceivedAt r))]"

definition leafValid :: "envelopeLeafInput \<Rightarrow> bool" where
  "leafValid r = (uuidV4Valid (leafConversationId r) \<and> positiveUint63Valid (leafPosition r)
     \<and> uuidV4Valid (leafEnvelopeId r) \<and> senderValid (leafSender r) \<and> uint63Valid (leafEpoch r)
     \<and> uint63Valid (leafRosterVersion r)
     \<and> leafContentType r \<in> {MLS_PUBLIC_MESSAGE_MEDIA_TYPE, MLS_PRIVATE_MESSAGE_MEDIA_TYPE}
     \<and> requireClassSenderAndMediaType (leafEnvelopeClass r) (leafSender r) (leafContentType r) = Inr ()
     \<and> hash32Valid (leafEnvelopeSha256 r) \<and> rfc3339Valid (leafReceivedAt r))"

lemma distinct_leaf_keys: "distinct LEAF_KEYS"
  by (simp add: LEAF_KEYS_def)

lemma encodeSender_defined [simp]: "encodeSender s \<noteq> JUndefined" "JUndefined \<noteq> encodeSender s"
  by (cases s; simp add: mkRecord_def)+

lemma parseEnvelopeLeafInput_encode:
  assumes "leafValid r"
  shows "parseEnvelopeLeafInput (encodeLeaf r) = Inr r"
  using assms parseEnvelopeSender_encode [of "leafSender r"] unfolding parseEnvelopeLeafInput_def encodeLeaf_def
  by (subst expectExactRecord_mkRecord [OF distinct_leaf_keys])
     (auto simp: LEAF_KEYS_def res_simps parse_simps leafValid_def)

interpretation leaf_codec: record_codec parseEnvelopeLeafInput encodeLeaf leafValid
proof
  show "leafValid r" if "parseEnvelopeLeafInput v = Inr r" for v r
    using that
    by (auto simp: parseEnvelopeLeafInput_def leafValid_def res_simps parse_simps sender_codec.parse_wf)
qed (rule parseEnvelopeLeafInput_encode)

definition encodeCheckpoint :: "deliveryLogCheckpointInput \<Rightarrow> jsval" where
  "encodeCheckpoint r = mkRecord
     [(''conversationId'', JStr (cpConversationId r)), (''position'', JStr (cpPosition r)),
      (''previousHeadHash'', JStr (cpPreviousHeadHash r)), (''headHash'', JStr (cpHeadHash r)),
      (''signingKeyId'', JStr (cpSigningKeyId r))]"

definition checkpointValid :: "deliveryLogCheckpointInput \<Rightarrow> bool" where
  "checkpointValid r = (uuidV4Valid (cpConversationId r) \<and> positiveUint63Valid (cpPosition r)
     \<and> hash32Valid (cpPreviousHeadHash r) \<and> hash32Valid (cpHeadHash r) \<and> SIGNING_KEY_ID (cpSigningKeyId r)
     \<and> (cpPosition r = ''1'' \<longleftrightarrow> cpPreviousHeadHash r = ZERO_HASH32))"

interpretation checkpoint_codec: record_codec parseDeliveryLogCheckpointInput encodeCheckpoint checkpointValid
proof
  show "checkpointValid r" if "parseDeliveryLogCheckpointInput v = Inr r" for v r
    using that
    by (auto simp: parseDeliveryLogCheckpointInput_def checkpointValid_def res_simps parse_simps split: if_splits)
  show "parseDeliveryLogCheckpointInput (encodeCheckpoint r) = Inr r" if "checkpointValid r" for r
    using that unfolding parseDeliveryLogCheckpointInput_def encodeCheckpoint_def
    by (subst expectExactRecord_mkRecord)
       (auto simp: CHECKPOINT_KEYS_def res_simps parse_simps checkpointValid_def)
qed

subsection \<open>Leaf and checkpoint digests\<close>

text \<open>The fields a leaf hash covers; the sender's inner encoding is one of them.\<close>

definition senderFieldsRaw :: "envelopeSender \<Rightarrow> bytes" where
  "senderFieldsRaw s = (case encodeEnvelopeSenderFields s of Inl _ \<Rightarrow> [] | Inr bs \<Rightarrow> bs)"

definition leafFields :: "envelopeLeafInput \<Rightarrow> digestField list" where
  "leafFields r =
     [Utf8 (leafConversationId r), Utf8 (leafPosition r), Utf8 (leafEnvelopeId r),
      Utf8 (envelopeClassText (leafEnvelopeClass r)), Utf8 (senderType (leafSender r)),
      RawBytes (senderFieldsRaw (leafSender r)), Utf8 (leafEpoch r), Utf8 (leafRosterVersion r),
      Utf8 (leafContentType r), DecodedHash (leafEnvelopeSha256 r), Utf8 (leafReceivedAt r)]"

definition leafPreimage :: "envelopeLeafInput \<Rightarrow> bytes" where
  "leafPreimage r = digestPreimage ENVELOPE_LEAF_HASH_DOMAIN (leafFields r)"

definition checkpointFields :: "deliveryLogCheckpointInput \<Rightarrow> digestField list" where
  "checkpointFields r =
     [Utf8 (cpConversationId r), Utf8 (cpPosition r), DecodedHash (cpPreviousHeadHash r),
      DecodedHash (cpHeadHash r), Utf8 (cpSigningKeyId r)]"

definition checkpointPreimage :: "deliveryLogCheckpointInput \<Rightarrow> bytes" where
  "checkpointPreimage r = digestPreimage DELIVERY_LOG_CHECKPOINT_DIGEST_DOMAIN (checkpointFields r)"

lemma encodeEnvelopeSenderFields_installation:
  assumes "senderValid (InstallationSender a i)"
  shows "encodeEnvelopeSenderFields (InstallationSender a i) = Inr (concat (map lp [utf8 a, utf8 i]))"
proof -
  have "length a = 36" "length i = 36" using assms length_uuid by auto
  then have "canonicalLengthPrefixed [utf8 a, utf8 i] = Inr (concat (map lp [utf8 a, utf8 i]))"
    using length_utf8 [of a] length_utf8 [of i]
    by (intro canonicalLengthPrefixed_small [where k = 72]) auto
  then show ?thesis
    using assms parseEnvelopeSender_encode [of "InstallationSender a i"]
    by (simp add: encodeEnvelopeSenderFields_def)
qed

lemma encodeEnvelopeSenderFields_signer:
  assumes "senderValid (EntitlementSigner c f g)"
  shows "encodeEnvelopeSenderFields (EntitlementSigner c f g) =
    Inr (concat (map lp [utf8 c, b64decode f, utf8 g]))"
proof -
  have "length c = 36" "length g \<le> 19" "length (b64decode f) = 32"
    using assms length_uuid length_uint63 by (auto simp: positiveUint63Valid_def hash32Valid_iff)
  then have "canonicalLengthPrefixed [utf8 c, b64decode f, utf8 g] =
      Inr (concat (map lp [utf8 c, b64decode f, utf8 g]))"
    using length_utf8 [of c] length_utf8 [of g]
    by (intro canonicalLengthPrefixed_small [where k = 72]) auto
  moreover have "parseCredentialId (JStr c) = Inr c" "parsePositiveUint63String (JStr g) = Inr g"
    using assms by (auto simp: parse_simps)
  ultimately show ?thesis
    using assms parseEnvelopeSender_encode [of "EntitlementSigner c f g"]
    by (simp add: encodeEnvelopeSenderFields_def encodeEntitlementSignerFields_def decodeFingerprint32_valid)
qed

lemma encodeEnvelopeSenderFields_valid:
  assumes "senderValid s"
  shows "encodeEnvelopeSenderFields s = Inr (senderFieldsRaw s) \<and> length (senderFieldsRaw s) \<le> 200"
proof (cases s)
  case (InstallationSender a i)
  have "length a = 36" "length i = 36" using assms InstallationSender length_uuid by auto
  then show ?thesis
    using assms length_utf8 [of a] length_utf8 [of i] unfolding InstallationSender
    by (simp add: encodeEnvelopeSenderFields_installation senderFieldsRaw_def)
next
  case (EntitlementSigner c f g)
  have "length c = 36" "length g \<le> 19" "length (b64decode f) = 32"
    using assms EntitlementSigner length_uuid length_uint63 by (auto simp: positiveUint63Valid_def hash32Valid_iff)
  then show ?thesis
    using assms length_utf8 [of c] length_utf8 [of g] unfolding EntitlementSigner
    by (simp add: encodeEnvelopeSenderFields_signer senderFieldsRaw_def)
qed

lemma senderFieldsRaw_inj:
  assumes "senderValid s" "senderValid t" "senderType s = senderType t" "senderFieldsRaw s = senderFieldsRaw t"
  shows "s = t"
proof (cases s)
  case (InstallationSender a i)
  then obtain b j where t: "t = InstallationSender b j" using assms(3) by (cases t) auto
  have "concat (map lp [utf8 a, utf8 i]) = concat (map lp [utf8 b, utf8 j])"
    using assms unfolding InstallationSender t
    by (simp add: senderFieldsRaw_def encodeEnvelopeSenderFields_installation)
  moreover have "length (utf8 x) < 2 ^ 32" if "x \<in> {a, i, b, j}" for x
    using assms that length_utf8 [of x] length_uuid [of x] unfolding InstallationSender t by auto
  ultimately have "[utf8 a, utf8 i] = [utf8 b, utf8 j]" by (intro concat_lp_inj) auto
  then show ?thesis by (simp add: InstallationSender t utf8_inj)
next
  case (EntitlementSigner c f g)
  then obtain c' f' g' where t: "t = EntitlementSigner c' f' g'" using assms(3) by (cases t) auto
  note valid = assms(1,2)[unfolded EntitlementSigner t, simplified]
  have "concat (map lp [utf8 c, b64decode f, utf8 g]) = concat (map lp [utf8 c', b64decode f', utf8 g'])"
    using assms unfolding EntitlementSigner t
    by (simp add: senderFieldsRaw_def encodeEnvelopeSenderFields_signer)
  moreover have "length (utf8 x) < 2 ^ 32" if "x \<in> {c, g, c', g'}" for x
    using valid that length_utf8 [of x] length_uuid [of x] length_uint63 [of x]
    by (auto simp: positiveUint63Valid_def)
  moreover have "length (b64decode x) < 2 ^ 32" if "x \<in> {f, f'}" for x
    using valid that by (auto simp: hash32Valid_iff)
  ultimately have "[utf8 c, b64decode f, utf8 g] = [utf8 c', b64decode f', utf8 g']"
    by (intro concat_lp_inj) auto
  then show ?thesis
    using valid by (simp add: EntitlementSigner t utf8_inj b64decode_inj_hash)
qed

lemma computeEnvelopeLeafHash_eq:
  assumes "parseEnvelopeLeafInput v = Inr r"
  shows "computeEnvelopeLeafHash H v = digestOf H ENVELOPE_LEAF_HASH_DOMAIN (leafFields r)"
proof -
  have "senderValid (leafSender r)"
    using leaf_codec.parse_wf [OF assms] by (simp add: leafValid_def)
  with assms encodeEnvelopeSenderFields_valid show ?thesis
    by (simp add: computeEnvelopeLeafHash_def leafFields_def)
qed

lemma envelopeClassText_inj: "envelopeClassText c = envelopeClassText d \<longleftrightarrow> c = d"
  by (cases c; cases d) auto

lemma leafFields_inj:
  assumes "leafValid r" "leafValid r'" "map fieldRaw (leafFields r) = map fieldRaw (leafFields r')"
  shows "r = r'"
proof -
  have "hash32Valid (leafEnvelopeSha256 r)" "hash32Valid (leafEnvelopeSha256 r')"
    "senderValid (leafSender r)" "senderValid (leafSender r')"
    using assms(1,2) by (auto simp: leafValid_def)
  with assms(3) show ?thesis
    by (auto simp: leafFields_def envelopeClassText_inj intro!: envelopeLeafInput.equality senderFieldsRaw_inj)
qed

lemma checkpointFields_inj:
  assumes "checkpointValid r" "checkpointValid r'" "map fieldRaw (checkpointFields r) = map fieldRaw (checkpointFields r')"
  shows "r = r'"
  using assms
  by (auto simp: checkpointValid_def checkpointFields_def intro!: deliveryLogCheckpointInput.equality)

end
