(* ===== verification/Limits.thy ===== *)
theory Limits
  imports ValueObjects
begin

section \<open>Delivery limits\<close>

text \<open>
  The model of \<open>src/src/production/delivery/limits.ts\<close>: the limits of a signed release manifest,
  their reviewed ceilings and the consistency conditions between them.
\<close>

definition DELIVERY_EVENT_JSON_METADATA_OVERHEAD_BYTES :: int where
  "DELIVERY_EVENT_JSON_METADATA_OVERHEAD_BYTES = 4096"

definition DELIVERY_PAGE_JSON_FIXED_OVERHEAD_BYTES :: int where
  "DELIVERY_PAGE_JSON_FIXED_OVERHEAD_BYTES = 4096"

definition DELIVERY_CURSOR_MIN_CHARACTERS :: int where
  "DELIVERY_CURSOR_MIN_CHARACTERS = 43"

definition DELIVERY_LIMIT_KEYS :: "string list" where
  "DELIVERY_LIMIT_KEYS =
    [''applicationCiphertextDecodedMaxBytes'',
     ''externalProposalDecodedMaxBytes'',
     ''mlsCommitDecodedMaxBytes'',
     ''welcomeDecodedMaxBytes'',
     ''pageDecodedArtifactsMaxBytes'',
     ''pageSerializedResponseMaxBytes'',
     ''conversationEventsMaxPerPage'',
     ''mailboxEntriesMaxPerPage'',
     ''conversationRecipientInstallationsMax'',
     ''cursorMaxCharacters'',
     ''attachmentsMaxPerEnvelope'']"

record deliveryLimits =
  applicationCiphertextDecodedMaxBytes :: string
  externalProposalDecodedMaxBytes :: string
  mlsCommitDecodedMaxBytes :: string
  welcomeDecodedMaxBytes :: string
  pageDecodedArtifactsMaxBytes :: string
  pageSerializedResponseMaxBytes :: string
  conversationEventsMaxPerPage :: string
  mailboxEntriesMaxPerPage :: string
  conversationRecipientInstallationsMax :: string
  cursorMaxCharacters :: string
  attachmentsMaxPerEnvelope :: string

definition DELIVERY_TESTED_CEILINGS :: "string list" where
  "DELIVERY_TESTED_CEILINGS =
    [''65536'', ''262144'', ''524288'', ''262144'', ''4194304'', ''8388608'', ''500'', ''100'', ''2500'', ''1024'', ''10'']"

text \<open>The entry of a table that is indexed by \<open>DELIVERY_LIMIT_KEYS\<close>.\<close>

definition limitEntry :: "string list \<Rightarrow> string \<Rightarrow> string" where
  "limitEntry table key =
     (case map_of (zip DELIVERY_LIMIT_KEYS table) key of None \<Rightarrow> [] | Some s \<Rightarrow> s)"

definition requirePositive :: "string \<Rightarrow> unit res" where
  "requirePositive value = (if value = ''0'' then Inl DeliveryValidationError else Inr ())"

definition maxBigInt :: "int \<Rightarrow> int \<Rightarrow> int \<Rightarrow> int" where
  "maxBigInt first second third =
     (if first > second then (if first > third then first else third)
      else (if second > third then second else third))"

definition maxTwoBigInts :: "int \<Rightarrow> int \<Rightarrow> int" where
  "maxTwoBigInts first second = (if first > second then first else second)"

definition assertUint63BigInt :: "int \<Rightarrow> unit res" where
  "assertUint63BigInt value =
     (if value < 0 \<or> value > UINT63_MAX then Inl DeliveryValidationError else Inr ())"

definition canonicalBase64UrlEncodedLength :: "int \<Rightarrow> int res" where
  "canonicalBase64UrlEncodedLength decodedBytes =
     bindE (assertUint63BigInt decodedBytes) (\<lambda>_.
     let encoded = (decodedBytes * 4 + 2) div 3 in
     if encoded > UINT63_MAX then Inl DeliveryValidationError else Inr encoded)"

definition minimumSerializedDeliveryPageBytes :: "int \<Rightarrow> int \<Rightarrow> int res" where
  "minimumSerializedDeliveryPageBytes decodedArtifactBytes maximumPageItems =
     bindE (assertUint63BigInt decodedArtifactBytes) (\<lambda>_.
     bindE (assertUint63BigInt maximumPageItems) (\<lambda>_.
     bindE (canonicalBase64UrlEncodedLength decodedArtifactBytes) (\<lambda>encoded.
     let result = encoded + DELIVERY_PAGE_JSON_FIXED_OVERHEAD_BYTES
                  + DELIVERY_EVENT_JSON_METADATA_OVERHEAD_BYTES * maximumPageItems in
     if result > UINT63_MAX then Inl DeliveryValidationError else Inr result)))"

definition parseLimitEntry :: "(string \<Rightarrow> jsval) \<Rightarrow> string \<Rightarrow> string res" where
  "parseLimitEntry record key =
     bindE (parseUint63String (record key)) (\<lambda>limit.
     if bigInt limit > bigInt (limitEntry DELIVERY_TESTED_CEILINGS key)
     then Inl DeliveryValidationError else Inr limit)"

definition parseDeliveryLimits :: "jsval \<Rightarrow> deliveryLimits res" where
  "parseDeliveryLimits v =
     bindE (expectExactRecord v DELIVERY_LIMIT_KEYS) (\<lambda>record.
     bindE (mapE (parseLimitEntry record) DELIVERY_LIMIT_KEYS) (\<lambda>table.
     let parsed = limitEntry table in
     bindE (requirePositive (parsed ''pageDecodedArtifactsMaxBytes'')) (\<lambda>_.
     bindE (requirePositive (parsed ''pageSerializedResponseMaxBytes'')) (\<lambda>_.
     bindE (requirePositive (parsed ''conversationEventsMaxPerPage'')) (\<lambda>_.
     bindE (requirePositive (parsed ''mailboxEntriesMaxPerPage'')) (\<lambda>_.
     bindE (requirePositive (parsed ''conversationRecipientInstallationsMax'')) (\<lambda>_.
     bindE (guardE (\<not> bigInt (parsed ''cursorMaxCharacters'') < DELIVERY_CURSOR_MIN_CHARACTERS)
              DeliveryValidationError) (\<lambda>_.
     let decodedPage = bigInt (parsed ''pageDecodedArtifactsMaxBytes'');
         largestSingleArtifact = maxBigInt
           (bigInt (parsed ''applicationCiphertextDecodedMaxBytes''))
           (bigInt (parsed ''externalProposalDecodedMaxBytes''))
           (bigInt (parsed ''mlsCommitDecodedMaxBytes'') + bigInt (parsed ''welcomeDecodedMaxBytes'')) in
     bindE (guardE (\<not> decodedPage < largestSingleArtifact) DeliveryValidationError) (\<lambda>_.
     let maximumPageItems = maxTwoBigInts (bigInt (parsed ''conversationEventsMaxPerPage''))
                              (bigInt (parsed ''mailboxEntriesMaxPerPage'')) in
     bindE (minimumSerializedDeliveryPageBytes decodedPage maximumPageItems) (\<lambda>minimumSerializedPageBytes.
     bindE (guardE (\<not> bigInt (parsed ''pageSerializedResponseMaxBytes'') < minimumSerializedPageBytes)
              DeliveryValidationError) (\<lambda>_.
     Inr \<lparr>applicationCiphertextDecodedMaxBytes = parsed ''applicationCiphertextDecodedMaxBytes'',
          externalProposalDecodedMaxBytes = parsed ''externalProposalDecodedMaxBytes'',
          mlsCommitDecodedMaxBytes = parsed ''mlsCommitDecodedMaxBytes'',
          welcomeDecodedMaxBytes = parsed ''welcomeDecodedMaxBytes'',
          pageDecodedArtifactsMaxBytes = parsed ''pageDecodedArtifactsMaxBytes'',
          pageSerializedResponseMaxBytes = parsed ''pageSerializedResponseMaxBytes'',
          conversationEventsMaxPerPage = parsed ''conversationEventsMaxPerPage'',
          mailboxEntriesMaxPerPage = parsed ''mailboxEntriesMaxPerPage'',
          conversationRecipientInstallationsMax = parsed ''conversationRecipientInstallationsMax'',
          cursorMaxCharacters = parsed ''cursorMaxCharacters'',
          attachmentsMaxPerEnvelope = parsed ''attachmentsMaxPerEnvelope''\<rparr>)))))))))))"

definition limitTable :: "deliveryLimits \<Rightarrow> string list" where
  "limitTable l =
    [applicationCiphertextDecodedMaxBytes l, externalProposalDecodedMaxBytes l, mlsCommitDecodedMaxBytes l,
     welcomeDecodedMaxBytes l, pageDecodedArtifactsMaxBytes l, pageSerializedResponseMaxBytes l,
     conversationEventsMaxPerPage l, mailboxEntriesMaxPerPage l, conversationRecipientInstallationsMax l,
     cursorMaxCharacters l, attachmentsMaxPerEnvelope l]"

definition encodeLimits :: "deliveryLimits \<Rightarrow> jsval" where
  "encodeLimits l = mkRecord (zip DELIVERY_LIMIT_KEYS (map JStr (limitTable l)))"

subsection \<open>What accepted limits promise\<close>

definition limitsValid :: "deliveryLimits \<Rightarrow> bool" where
  "limitsValid l =
     (list_all2 (\<lambda>limit ceiling. uint63Valid limit \<and> bigInt limit \<le> bigInt ceiling)
        (limitTable l) DELIVERY_TESTED_CEILINGS
      \<and> 0 < bigInt (pageDecodedArtifactsMaxBytes l) \<and> 0 < bigInt (pageSerializedResponseMaxBytes l)
      \<and> 0 < bigInt (conversationEventsMaxPerPage l) \<and> 0 < bigInt (mailboxEntriesMaxPerPage l)
      \<and> 0 < bigInt (conversationRecipientInstallationsMax l) \<and> 43 \<le> bigInt (cursorMaxCharacters l)
      \<and> bigInt (applicationCiphertextDecodedMaxBytes l) \<le> bigInt (pageDecodedArtifactsMaxBytes l)
      \<and> bigInt (externalProposalDecodedMaxBytes l) \<le> bigInt (pageDecodedArtifactsMaxBytes l)
      \<and> bigInt (mlsCommitDecodedMaxBytes l) + bigInt (welcomeDecodedMaxBytes l) \<le> bigInt (pageDecodedArtifactsMaxBytes l)
      \<and> (bigInt (pageDecodedArtifactsMaxBytes l) * 4 + 2) div 3 + 4096
          + 4096 * max (bigInt (conversationEventsMaxPerPage l)) (bigInt (mailboxEntriesMaxPerPage l))
          \<le> bigInt (pageSerializedResponseMaxBytes l))"

lemma limit_keys_distinct: "distinct DELIVERY_LIMIT_KEYS"
  by (simp add: DELIVERY_LIMIT_KEYS_def)

lemma limitEntry_table:
  assumes "length table = 11" "i < 11"
  shows "limitEntry table (DELIVERY_LIMIT_KEYS ! i) = table ! i"
proof -
  have "length DELIVERY_LIMIT_KEYS = 11" by (simp add: DELIVERY_LIMIT_KEYS_def)
  then show ?thesis
    using assms limit_keys_distinct by (simp add: limitEntry_def map_of_zip_nth)
qed

lemma limitEntry_limitTable [simp]:
  "limitEntry (limitTable l) ''applicationCiphertextDecodedMaxBytes'' = applicationCiphertextDecodedMaxBytes l"
  "limitEntry (limitTable l) ''externalProposalDecodedMaxBytes'' = externalProposalDecodedMaxBytes l"
  "limitEntry (limitTable l) ''mlsCommitDecodedMaxBytes'' = mlsCommitDecodedMaxBytes l"
  "limitEntry (limitTable l) ''welcomeDecodedMaxBytes'' = welcomeDecodedMaxBytes l"
  "limitEntry (limitTable l) ''pageDecodedArtifactsMaxBytes'' = pageDecodedArtifactsMaxBytes l"
  "limitEntry (limitTable l) ''pageSerializedResponseMaxBytes'' = pageSerializedResponseMaxBytes l"
  "limitEntry (limitTable l) ''conversationEventsMaxPerPage'' = conversationEventsMaxPerPage l"
  "limitEntry (limitTable l) ''mailboxEntriesMaxPerPage'' = mailboxEntriesMaxPerPage l"
  "limitEntry (limitTable l) ''conversationRecipientInstallationsMax'' = conversationRecipientInstallationsMax l"
  "limitEntry (limitTable l) ''cursorMaxCharacters'' = cursorMaxCharacters l"
  "limitEntry (limitTable l) ''attachmentsMaxPerEnvelope'' = attachmentsMaxPerEnvelope l"
  by (simp_all add: limitEntry_def limitTable_def DELIVERY_LIMIT_KEYS_def)

lemma maxBigInt_le: "maxBigInt a b c \<le> z \<longleftrightarrow> a \<le> z \<and> b \<le> z \<and> c \<le> z"
  by (auto simp: maxBigInt_def)

lemma maxTwoBigInts_max: "maxTwoBigInts a b = max a b"
  by (simp add: maxTwoBigInts_def max_def)

lemma table_of_limits: "length table = 11 \<Longrightarrow> \<exists>l. table = limitTable l"
proof -
  assume "length table = 11"
  then obtain a b c d e f g h i j k where "table = [a, b, c, d, e, f, g, h, i, j, k]"
    by (auto simp: numeral_eq_Suc length_Suc_conv)
  then show ?thesis
    by (intro exI [of _ "\<lparr>applicationCiphertextDecodedMaxBytes = a, externalProposalDecodedMaxBytes = b,
      mlsCommitDecodedMaxBytes = c, welcomeDecodedMaxBytes = d, pageDecodedArtifactsMaxBytes = e,
      pageSerializedResponseMaxBytes = f, conversationEventsMaxPerPage = g, mailboxEntriesMaxPerPage = h,
      conversationRecipientInstallationsMax = i, cursorMaxCharacters = j, attachmentsMaxPerEnvelope = k\<rparr>"])
       (simp add: limitTable_def)
qed

lemma length_tables [simp]:
  "length DELIVERY_LIMIT_KEYS = 11" "length DELIVERY_TESTED_CEILINGS = 11" "length (limitTable l) = 11"
  by (simp_all add: DELIVERY_LIMIT_KEYS_def DELIVERY_TESTED_CEILINGS_def limitTable_def)

lemma parseLimitEntry_iff:
  "parseLimitEntry get key = Inr s \<longleftrightarrow>
     get key = JStr s \<and> uint63Valid s \<and> bigInt s \<le> bigInt (limitEntry DELIVERY_TESTED_CEILINGS key)"
proof (cases "parseUint63String (get key)")
  case (Inr t)
  then have "get key = JStr t" "uint63Valid t" by (simp_all add: parse_simps)
  with Inr show ?thesis by (auto simp: parseLimitEntry_def)
next
  case (Inl e)
  then show ?thesis by (auto simp: parseLimitEntry_def uint63_parser.parse_JStr)
qed

lemma parseLimitEntries_iff:
  "mapE (parseLimitEntry get) DELIVERY_LIMIT_KEYS = Inr table \<longleftrightarrow>
     map get DELIVERY_LIMIT_KEYS = map JStr table
     \<and> list_all2 (\<lambda>limit ceiling. uint63Valid limit \<and> bigInt limit \<le> bigInt ceiling) table DELIVERY_TESTED_CEILINGS"
  (is "?L \<longleftrightarrow> ?R")
proof -
  have key: "limitEntry DELIVERY_TESTED_CEILINGS (DELIVERY_LIMIT_KEYS ! i) = DELIVERY_TESTED_CEILINGS ! i"
    if "i < 11" for i using that by (simp add: limitEntry_table)
  show ?thesis
    by (auto simp: mapE_eq_Inr parseLimitEntry_iff list_all2_conv_all_nth key list_eq_iff_nth_eq)
qed

lemma list_all2_limits:
  "list_all2 P (limitTable l) DELIVERY_TESTED_CEILINGS \<longleftrightarrow>
     P (applicationCiphertextDecodedMaxBytes l) ''65536'' \<and> P (externalProposalDecodedMaxBytes l) ''262144''
     \<and> P (mlsCommitDecodedMaxBytes l) ''524288'' \<and> P (welcomeDecodedMaxBytes l) ''262144''
     \<and> P (pageDecodedArtifactsMaxBytes l) ''4194304'' \<and> P (pageSerializedResponseMaxBytes l) ''8388608''
     \<and> P (conversationEventsMaxPerPage l) ''500'' \<and> P (mailboxEntriesMaxPerPage l) ''100''
     \<and> P (conversationRecipientInstallationsMax l) ''2500'' \<and> P (cursorMaxCharacters l) ''1024''
     \<and> P (attachmentsMaxPerEnvelope l) ''10''"
  by (simp add: limitTable_def DELIVERY_TESTED_CEILINGS_def)

lemma ceilings_value [simp]:
  "bigInt ''4194304'' = 4194304" "bigInt ''500'' = 500" "bigInt ''100'' = 100" "bigInt ''2500'' = 2500"
  by (simp_all add: bigInt_def readNat_def digitVal_def)

lemma minimumSerialized_small:
  assumes "0 \<le> d" "d \<le> 4194304" "0 \<le> n" "n \<le> 500"
  shows "minimumSerializedDeliveryPageBytes d n = Inr ((d * 4 + 2) div 3 + 4096 + 4096 * n)"
proof -
  have "(d * 4 + 2) div 3 \<le> (4194304 * 4 + 2) div 3" using assms by (intro zdiv_mono1) auto
  then have e: "(d * 4 + 2) div 3 \<le> 5592406" by simp
  define x where "x = (d * 4 + 2) div 3"
  show ?thesis
    using assms e unfolding minimumSerializedDeliveryPageBytes_def canonicalBase64UrlEncodedLength_def x_def[symmetric]
    by (simp add: assertUint63BigInt_def UINT63_MAX_def Let_def
        DELIVERY_PAGE_JSON_FIXED_OVERHEAD_BYTES_def DELIVERY_EVENT_JSON_METADATA_OVERHEAD_BYTES_def)
qed

definition tableValid :: "deliveryLimits \<Rightarrow> bool" where
  "tableValid l = list_all2 (\<lambda>limit ceiling. uint63Valid limit \<and> bigInt limit \<le> bigInt ceiling)
     (limitTable l) DELIVERY_TESTED_CEILINGS"

lemma tableValid_minimum:
  "tableValid l \<Longrightarrow> minimumSerializedDeliveryPageBytes (bigInt (pageDecodedArtifactsMaxBytes l))
        (maxTwoBigInts (bigInt (conversationEventsMaxPerPage l)) (bigInt (mailboxEntriesMaxPerPage l)))
      = Inr ((bigInt (pageDecodedArtifactsMaxBytes l) * 4 + 2) div 3 + 4096
          + 4096 * max (bigInt (conversationEventsMaxPerPage l)) (bigInt (mailboxEntriesMaxPerPage l)))"
  unfolding tableValid_def list_all2_limits maxTwoBigInts_max
  by (intro minimumSerialized_small) (auto simp: le_max_iff_disj)

lemma tableValid_positive:
  assumes "tableValid l"
  shows "requirePositive (pageDecodedArtifactsMaxBytes l) = Inr () \<longleftrightarrow> 0 < bigInt (pageDecodedArtifactsMaxBytes l)"
    "requirePositive (pageSerializedResponseMaxBytes l) = Inr () \<longleftrightarrow> 0 < bigInt (pageSerializedResponseMaxBytes l)"
    "requirePositive (conversationEventsMaxPerPage l) = Inr () \<longleftrightarrow> 0 < bigInt (conversationEventsMaxPerPage l)"
    "requirePositive (mailboxEntriesMaxPerPage l) = Inr () \<longleftrightarrow> 0 < bigInt (mailboxEntriesMaxPerPage l)"
    "requirePositive (conversationRecipientInstallationsMax l) = Inr () \<longleftrightarrow> 0 < bigInt (conversationRecipientInstallationsMax l)"
  using assms unfolding tableValid_def list_all2_limits
  by (auto simp: requirePositive_def uint63Valid_def bigInt_pos_iff)

lemma parseDeliveryLimits_table:
  assumes "expectExactRecord v DELIVERY_LIMIT_KEYS = Inr get"
    "mapE (parseLimitEntry get) DELIVERY_LIMIT_KEYS = Inr (limitTable l)" "tableValid l"
  shows "parseDeliveryLimits v = Inr l' \<longleftrightarrow> limitsValid l \<and> l' = l"
proof -
  have unit: "(\<exists>u. m = Inr u \<and> P) \<longleftrightarrow> m = Inr () \<and> P" for m :: "unit res" and P by auto
  show ?thesis
    using assms(3)
    unfolding parseDeliveryLimits_def assms(1,2) bindE_Inr Let_def limitEntry_limitTable
      bindE_eq_Inr unit tableValid_positive [OF assms(3)] tableValid_minimum [OF assms(3)] guardE_eq_Inr
    by (auto simp: limitsValid_def tableValid_def not_less maxBigInt_le DELIVERY_CURSOR_MIN_CHARACTERS_def)
qed

lemma parseDeliveryLimits_valid:
  assumes "parseDeliveryLimits v = Inr l"
  shows "limitsValid l"
proof -
  obtain get table where get: "expectExactRecord v DELIVERY_LIMIT_KEYS = Inr get"
    and table: "mapE (parseLimitEntry get) DELIVERY_LIMIT_KEYS = Inr table"
    using assms by (auto simp: parseDeliveryLimits_def bindE_eq_Inr)
  have "length table = 11"
    using table by (auto simp: parseLimitEntries_iff dest: list_all2_lengthD)
  then obtain l' where l': "table = limitTable l'" using table_of_limits by blast
  have "tableValid l'"
    using table by (simp add: parseLimitEntries_iff l' tableValid_def)
  with parseDeliveryLimits_table [OF get table [unfolded l'], of l] assms show ?thesis by simp
qed

lemma parseDeliveryLimits_encode:
  assumes "limitsValid l"
  shows "parseDeliveryLimits (encodeLimits l) = Inr l"
proof -
  let ?kvs = "zip DELIVERY_LIMIT_KEYS (map JStr (limitTable l))"
  have get: "expectExactRecord (encodeLimits l) DELIVERY_LIMIT_KEYS = Inr (fieldOf ?kvs)"
    unfolding encodeLimits_def
    by (rule expectExactRecord_mkRecord) (auto simp: limit_keys_distinct)
  have "map (fieldOf ?kvs) DELIVERY_LIMIT_KEYS = map JStr (limitTable l)"
    by (simp add: DELIVERY_LIMIT_KEYS_def limitTable_def)
  moreover have t: "tableValid l" using assms by (simp add: limitsValid_def tableValid_def)
  ultimately have "mapE (parseLimitEntry (fieldOf ?kvs)) DELIVERY_LIMIT_KEYS = Inr (limitTable l)"
    by (simp add: parseLimitEntries_iff tableValid_def)
  with get t assms show ?thesis by (simp add: parseDeliveryLimits_table)
qed

interpretation limits_codec: record_codec parseDeliveryLimits encodeLimits limitsValid
  by unfold_locales (auto intro: parseDeliveryLimits_valid parseDeliveryLimits_encode)

text \<open>
  The purpose of the serialized-page bound: whatever artifacts a page carries within its decoded
  budget and item count, their base64url texts with up to 4095 further bytes per item and 4096 bytes
  of framing stay within the response limit. The one byte per item that is missing is the rounding of
  each artifact's own encoding.
\<close>

lemma sum_encoded_le:
  "3 * sum_list (map (\<lambda>n. (n * 4 + 2) div 3) ns) \<le> 4 * sum_list ns + 2 * int (length ns)"
proof (induction ns)
  case (Cons n ns)
  have "3 * ((n * 4 + 2) div 3) \<le> n * 4 + 2"
    using mult_div_mod_eq [of 3 "n * 4 + 2"] pos_mod_sign [of 3 "n * 4 + 2"] by linarith
  with Cons show ?case by simp
qed simp

lemma limitsValid_page_fits:
  assumes "limitsValid l" "sum_list ns \<le> bigInt (pageDecodedArtifactsMaxBytes l)"
    "int (length ns) \<le> max (bigInt (conversationEventsMaxPerPage l)) (bigInt (mailboxEntriesMaxPerPage l))"
  shows "sum_list (map (\<lambda>n. (n * 4 + 2) div 3 + 4095) ns) + 4096 \<le> bigInt (pageSerializedResponseMaxBytes l)"
proof -
  define P M where "P = bigInt (pageDecodedArtifactsMaxBytes l)"
    and "M = max (bigInt (conversationEventsMaxPerPage l)) (bigInt (mailboxEntriesMaxPerPage l))"
  define E where "E = (P * 4 + 2) div 3"
  have "E + 4096 + 4096 * M \<le> bigInt (pageSerializedResponseMaxBytes l)"
    using assms(1) by (simp add: limitsValid_def P_def M_def E_def)
  moreover have "P * 4 \<le> 3 * E"
    using mult_div_mod_eq [of 3 "P * 4 + 2"] pos_mod_bound [of 3 "P * 4 + 2"] unfolding E_def by linarith
  moreover have "sum_list (map (\<lambda>n. (n * 4 + 2) div 3 + 4095) ns) =
      sum_list (map (\<lambda>n. (n * 4 + 2) div 3) ns) + 4095 * int (length ns)"
    by (induction ns) auto
  ultimately show ?thesis
    using assms(2,3) sum_encoded_le [of ns] unfolding P_def[symmetric] M_def[symmetric] by linarith
qed

end
