(* ===== verification/StateParsers.thy ===== *)
theory StateParsers
  imports Hashes Limits
begin

section \<open>Shared parsers and counters of the append state\<close>

text \<open>
  The helpers at the end of \<open>src/src/production/delivery/state.ts\<close> that all its record parsers use:
  enumerations, positive counters, bounded identifiers, non-zero hashes, and the checked addition and
  subtraction on uint63 strings. A union of string literals of the source is a datatype with the
  function that gives its text; \<open>parseOneOf\<close> is the parser for such a union.
\<close>

named_theorems valid_lengths \<open>length bounds of validated strings\<close>

subsection \<open>Enumerations\<close>

definition parseOneOf :: "('a \<Rightarrow> string) \<Rightarrow> 'a list \<Rightarrow> jsval \<Rightarrow> 'a res" where
  "parseOneOf text allowed v = (case v of
     JStr s \<Rightarrow> (case List.find (\<lambda>x. text x = s) allowed of
                 Some x \<Rightarrow> Inr x | None \<Rightarrow> Inl DeliveryStateValidationError)
   | _ \<Rightarrow> Inl DeliveryStateValidationError)"

definition parseRequiredLiteral :: "string \<Rightarrow> jsval \<Rightarrow> string res" where
  "parseRequiredLiteral expected v =
     (if v = JStr expected then Inr expected else Inl DeliveryStateValidationError)"

lemma parseOneOf_iff:
  assumes "inj text" "\<And>y. y \<in> set allowed"
  shows "parseOneOf text allowed v = Inr x \<longleftrightarrow> v = JStr (text x)"
proof (cases v)
  case (JStr s)
  show ?thesis
  proof (cases "List.find (\<lambda>x. text x = s) allowed")
    case None
    then have "text x \<noteq> s" using assms(2) by (auto simp: find_None_iff)
    with None show ?thesis by (auto simp: JStr parseOneOf_def)
  next
    case (Some y)
    then have "text y = s" by (auto simp: find_Some_iff)
    with Some assms(1) show ?thesis by (auto simp: JStr parseOneOf_def inj_eq)
  qed
qed (auto simp: parseOneOf_def)

lemma parseRequiredLiteral_iff [parse_simps]:
  "parseRequiredLiteral e v = Inr s \<longleftrightarrow> v = JStr e \<and> s = e"
  by (auto simp: parseRequiredLiteral_def)

datatype quotaScope = InstallationScope | AccountScope | ProjectScope | ConversationScope | TenantScope

primrec quotaScopeText :: "quotaScope \<Rightarrow> string" where
  "quotaScopeText InstallationScope = ''installation''"
| "quotaScopeText AccountScope = ''account''"
| "quotaScopeText ProjectScope = ''project''"
| "quotaScopeText ConversationScope = ''conversation''"
| "quotaScopeText TenantScope = ''tenant''"

definition APPLICATION_APPEND_QUOTA_SCOPES :: "quotaScope list" where
  "APPLICATION_APPEND_QUOTA_SCOPES =
     [InstallationScope, AccountScope, ProjectScope, ConversationScope, TenantScope]"

datatype conversationLifecycle =
    Provisioning | Active | MembershipPending | Suspended | Closing | Closed | RetentionExpired | Purged

primrec conversationLifecycleText :: "conversationLifecycle \<Rightarrow> string" where
  "conversationLifecycleText Provisioning = ''provisioning''"
| "conversationLifecycleText Active = ''active''"
| "conversationLifecycleText MembershipPending = ''membership_pending''"
| "conversationLifecycleText Suspended = ''suspended''"
| "conversationLifecycleText Closing = ''closing''"
| "conversationLifecycleText Closed = ''closed''"
| "conversationLifecycleText RetentionExpired = ''retention_expired''"
| "conversationLifecycleText Purged = ''purged''"

definition parseConversationState :: "jsval \<Rightarrow> conversationLifecycle res" where
  "parseConversationState v = parseOneOf conversationLifecycleText
     [Provisioning, Active, MembershipPending, Suspended, Closing, Closed, RetentionExpired, Purged] v"

datatype conversationKind = PurchaseSupport | Announcement | Community

primrec conversationKindText :: "conversationKind \<Rightarrow> string" where
  "conversationKindText PurchaseSupport = ''purchase_support''"
| "conversationKindText Announcement = ''announcement''"
| "conversationKindText Community = ''community''"

datatype sendRole = Customer | ProjectStaff | Publisher | Subscriber | Member | Moderator

primrec sendRoleText :: "sendRole \<Rightarrow> string" where
  "sendRoleText Customer = ''customer''"
| "sendRoleText ProjectStaff = ''project-staff''"
| "sendRoleText Publisher = ''publisher''"
| "sendRoleText Subscriber = ''subscriber''"
| "sendRoleText Member = ''member''"
| "sendRoleText Moderator = ''moderator''"

datatype installationState = InstActive | InstSuspended | InstRevoked

primrec installationStateText :: "installationState \<Rightarrow> string" where
  "installationStateText InstActive = ''active''"
| "installationStateText InstSuspended = ''suspended''"
| "installationStateText InstRevoked = ''revoked''"

datatype credentialState = CredActive | CredSuspended | CredRevoked | CredSuperseded

primrec credentialStateText :: "credentialState \<Rightarrow> string" where
  "credentialStateText CredActive = ''active''"
| "credentialStateText CredSuspended = ''suspended''"
| "credentialStateText CredRevoked = ''revoked''"
| "credentialStateText CredSuperseded = ''superseded''"

datatype grantState = GrantActive | GrantSuspended | GrantRevoked | GrantExpired

primrec grantStateText :: "grantState \<Rightarrow> string" where
  "grantStateText GrantActive = ''active''"
| "grantStateText GrantSuspended = ''suspended''"
| "grantStateText GrantRevoked = ''revoked''"
| "grantStateText GrantExpired = ''expired''"

datatype witnessState = WitnessVerified | WitnessMissing | WitnessInconsistent | WitnessStale

primrec witnessStateText :: "witnessState \<Rightarrow> string" where
  "witnessStateText WitnessVerified = ''verified''"
| "witnessStateText WitnessMissing = ''missing''"
| "witnessStateText WitnessInconsistent = ''inconsistent''"
| "witnessStateText WitnessStale = ''stale''"

datatype reservationState = Live | Consumed | Released

primrec reservationStateText :: "reservationState \<Rightarrow> string" where
  "reservationStateText Live = ''live''"
| "reservationStateText Consumed = ''consumed''"
| "reservationStateText Released = ''released''"

datatype proofPurpose = AppendAuthorization | HistoricalPage

primrec proofPurposeText :: "proofPurpose \<Rightarrow> string" where
  "proofPurposeText AppendAuthorization = ''append-authorization''"
| "proofPurposeText HistoricalPage = ''historical-page''"

datatype freshnessStatus = Fresh | Historical

primrec freshnessStatusText :: "freshnessStatus \<Rightarrow> string" where
  "freshnessStatusText Fresh = ''fresh''"
| "freshnessStatusText Historical = ''historical''"

datatype currentStatus = Current | PageExact

primrec currentStatusText :: "currentStatus \<Rightarrow> string" where
  "currentStatusText Current = ''current''"
| "currentStatusText PageExact = ''page-exact''"

datatype inclusionStatus = InclusionVerified | NotRequested

primrec inclusionStatusText :: "inclusionStatus \<Rightarrow> string" where
  "inclusionStatusText InclusionVerified = ''verified''"
| "inclusionStatusText NotRequested = ''not-requested''"

text \<open>The allowed lists of the enumerations that have no parser of their own in the source.\<close>

definition parseQuotaScope :: "jsval \<Rightarrow> quotaScope res" where
  "parseQuotaScope = parseOneOf quotaScopeText APPLICATION_APPEND_QUOTA_SCOPES"

definition parseConversationKind :: "jsval \<Rightarrow> conversationKind res" where
  "parseConversationKind = parseOneOf conversationKindText [PurchaseSupport, Announcement, Community]"

definition parseSendRole :: "jsval \<Rightarrow> sendRole res" where
  "parseSendRole = parseOneOf sendRoleText [Customer, ProjectStaff, Publisher, Subscriber, Member, Moderator]"

definition parseInstallationState :: "jsval \<Rightarrow> installationState res" where
  "parseInstallationState = parseOneOf installationStateText [InstActive, InstSuspended, InstRevoked]"

definition parseCredentialState :: "jsval \<Rightarrow> credentialState res" where
  "parseCredentialState = parseOneOf credentialStateText [CredActive, CredSuspended, CredRevoked, CredSuperseded]"

definition parseGrantState :: "jsval \<Rightarrow> grantState res" where
  "parseGrantState = parseOneOf grantStateText [GrantActive, GrantSuspended, GrantRevoked, GrantExpired]"

definition parseWitnessState :: "jsval \<Rightarrow> witnessState res" where
  "parseWitnessState = parseOneOf witnessStateText
     [WitnessVerified, WitnessMissing, WitnessInconsistent, WitnessStale]"

definition parseReservationState :: "jsval \<Rightarrow> reservationState res" where
  "parseReservationState = parseOneOf reservationStateText [Live, Consumed, Released]"

definition parseProofPurpose :: "jsval \<Rightarrow> proofPurpose res" where
  "parseProofPurpose = parseOneOf proofPurposeText [AppendAuthorization, HistoricalPage]"

definition parseFreshnessStatus :: "jsval \<Rightarrow> freshnessStatus res" where
  "parseFreshnessStatus = parseOneOf freshnessStatusText [Fresh, Historical]"

definition parseCurrentStatus :: "jsval \<Rightarrow> currentStatus res" where
  "parseCurrentStatus = parseOneOf currentStatusText [Current, PageExact]"

definition parseInclusionStatus :: "jsval \<Rightarrow> inclusionStatus res" where
  "parseInclusionStatus = parseOneOf inclusionStatusText [InclusionVerified, NotRequested]"

named_theorems enum_inj \<open>texts of enumerations are distinct\<close>

lemma mem_scopes [simp]: "x \<in> set APPLICATION_APPEND_QUOTA_SCOPES"
  by (cases x) (simp_all add: APPLICATION_APPEND_QUOTA_SCOPES_def)

lemma distinct_scopes: "distinct APPLICATION_APPEND_QUOTA_SCOPES"
  by (simp add: APPLICATION_APPEND_QUOTA_SCOPES_def)

lemma length_scopes [simp]: "length APPLICATION_APPEND_QUOTA_SCOPES = 5"
  by (simp add: APPLICATION_APPEND_QUOTA_SCOPES_def)

lemma quotaScopeText_inj [enum_inj]: "quotaScopeText a = quotaScopeText b \<longleftrightarrow> a = b"
  by (cases a; cases b) simp_all

lemma parseQuotaScope_iff [parse_simps]: "parseQuotaScope v = Inr x \<longleftrightarrow> v = JStr (quotaScopeText x)"
  unfolding parseQuotaScope_def
proof (rule parseOneOf_iff)
  show "y \<in> set APPLICATION_APPEND_QUOTA_SCOPES" for y
    by (cases y) simp_all
qed (simp add: inj_def enum_inj)

lemma conversationLifecycleText_inj [enum_inj]: "conversationLifecycleText a = conversationLifecycleText b \<longleftrightarrow> a = b"
  by (cases a; cases b) simp_all

lemma parseConversationState_iff [parse_simps]: "parseConversationState v = Inr x \<longleftrightarrow> v = JStr (conversationLifecycleText x)"
  unfolding parseConversationState_def
proof (rule parseOneOf_iff)
  show "y \<in> set [Provisioning, Active, MembershipPending, Suspended, Closing, Closed, RetentionExpired, Purged]" for y
    by (cases y) simp_all
qed (simp add: inj_def enum_inj)

lemma conversationKindText_inj [enum_inj]: "conversationKindText a = conversationKindText b \<longleftrightarrow> a = b"
  by (cases a; cases b) simp_all

lemma parseConversationKind_iff [parse_simps]: "parseConversationKind v = Inr x \<longleftrightarrow> v = JStr (conversationKindText x)"
  unfolding parseConversationKind_def
proof (rule parseOneOf_iff)
  show "y \<in> set [PurchaseSupport, Announcement, Community]" for y
    by (cases y) simp_all
qed (simp add: inj_def enum_inj)

lemma sendRoleText_inj [enum_inj]: "sendRoleText a = sendRoleText b \<longleftrightarrow> a = b"
  by (cases a; cases b) simp_all

lemma parseSendRole_iff [parse_simps]: "parseSendRole v = Inr x \<longleftrightarrow> v = JStr (sendRoleText x)"
  unfolding parseSendRole_def
proof (rule parseOneOf_iff)
  show "y \<in> set [Customer, ProjectStaff, Publisher, Subscriber, Member, Moderator]" for y
    by (cases y) simp_all
qed (simp add: inj_def enum_inj)

lemma installationStateText_inj [enum_inj]: "installationStateText a = installationStateText b \<longleftrightarrow> a = b"
  by (cases a; cases b) simp_all

lemma parseInstallationState_iff [parse_simps]: "parseInstallationState v = Inr x \<longleftrightarrow> v = JStr (installationStateText x)"
  unfolding parseInstallationState_def
proof (rule parseOneOf_iff)
  show "y \<in> set [InstActive, InstSuspended, InstRevoked]" for y
    by (cases y) simp_all
qed (simp add: inj_def enum_inj)

lemma credentialStateText_inj [enum_inj]: "credentialStateText a = credentialStateText b \<longleftrightarrow> a = b"
  by (cases a; cases b) simp_all

lemma parseCredentialState_iff [parse_simps]: "parseCredentialState v = Inr x \<longleftrightarrow> v = JStr (credentialStateText x)"
  unfolding parseCredentialState_def
proof (rule parseOneOf_iff)
  show "y \<in> set [CredActive, CredSuspended, CredRevoked, CredSuperseded]" for y
    by (cases y) simp_all
qed (simp add: inj_def enum_inj)

lemma grantStateText_inj [enum_inj]: "grantStateText a = grantStateText b \<longleftrightarrow> a = b"
  by (cases a; cases b) simp_all

lemma parseGrantState_iff [parse_simps]: "parseGrantState v = Inr x \<longleftrightarrow> v = JStr (grantStateText x)"
  unfolding parseGrantState_def
proof (rule parseOneOf_iff)
  show "y \<in> set [GrantActive, GrantSuspended, GrantRevoked, GrantExpired]" for y
    by (cases y) simp_all
qed (simp add: inj_def enum_inj)

lemma witnessStateText_inj [enum_inj]: "witnessStateText a = witnessStateText b \<longleftrightarrow> a = b"
  by (cases a; cases b) simp_all

lemma parseWitnessState_iff [parse_simps]: "parseWitnessState v = Inr x \<longleftrightarrow> v = JStr (witnessStateText x)"
  unfolding parseWitnessState_def
proof (rule parseOneOf_iff)
  show "y \<in> set [WitnessVerified, WitnessMissing, WitnessInconsistent, WitnessStale]" for y
    by (cases y) simp_all
qed (simp add: inj_def enum_inj)

lemma reservationStateText_inj [enum_inj]: "reservationStateText a = reservationStateText b \<longleftrightarrow> a = b"
  by (cases a; cases b) simp_all

lemma parseReservationState_iff [parse_simps]: "parseReservationState v = Inr x \<longleftrightarrow> v = JStr (reservationStateText x)"
  unfolding parseReservationState_def
proof (rule parseOneOf_iff)
  show "y \<in> set [Live, Consumed, Released]" for y
    by (cases y) simp_all
qed (simp add: inj_def enum_inj)

lemma proofPurposeText_inj [enum_inj]: "proofPurposeText a = proofPurposeText b \<longleftrightarrow> a = b"
  by (cases a; cases b) simp_all

lemma parseProofPurpose_iff [parse_simps]: "parseProofPurpose v = Inr x \<longleftrightarrow> v = JStr (proofPurposeText x)"
  unfolding parseProofPurpose_def
proof (rule parseOneOf_iff)
  show "y \<in> set [AppendAuthorization, HistoricalPage]" for y
    by (cases y) simp_all
qed (simp add: inj_def enum_inj)

lemma freshnessStatusText_inj [enum_inj]: "freshnessStatusText a = freshnessStatusText b \<longleftrightarrow> a = b"
  by (cases a; cases b) simp_all

lemma parseFreshnessStatus_iff [parse_simps]: "parseFreshnessStatus v = Inr x \<longleftrightarrow> v = JStr (freshnessStatusText x)"
  unfolding parseFreshnessStatus_def
proof (rule parseOneOf_iff)
  show "y \<in> set [Fresh, Historical]" for y
    by (cases y) simp_all
qed (simp add: inj_def enum_inj)

lemma currentStatusText_inj [enum_inj]: "currentStatusText a = currentStatusText b \<longleftrightarrow> a = b"
  by (cases a; cases b) simp_all

lemma parseCurrentStatus_iff [parse_simps]: "parseCurrentStatus v = Inr x \<longleftrightarrow> v = JStr (currentStatusText x)"
  unfolding parseCurrentStatus_def
proof (rule parseOneOf_iff)
  show "y \<in> set [Current, PageExact]" for y
    by (cases y) simp_all
qed (simp add: inj_def enum_inj)

lemma inclusionStatusText_inj [enum_inj]: "inclusionStatusText a = inclusionStatusText b \<longleftrightarrow> a = b"
  by (cases a; cases b) simp_all

lemma parseInclusionStatus_iff [parse_simps]: "parseInclusionStatus v = Inr x \<longleftrightarrow> v = JStr (inclusionStatusText x)"
  unfolding parseInclusionStatus_def
proof (rule parseOneOf_iff)
  show "y \<in> set [InclusionVerified, NotRequested]" for y
    by (cases y) simp_all
qed (simp add: inj_def enum_inj)

subsection \<open>Identifiers and counters\<close>

definition scopeSubjectValid :: "string \<Rightarrow> bool" where
  "scopeSubjectValid = identShape (\<lambda>c. isLowerAlnum c \<or> 65 \<le> charCode c \<and> charCode c \<le> 90)
     (\<lambda>c. isLowerAlnum c \<or> 65 \<le> charCode c \<and> charCode c \<le> 90
          \<or> c \<in> {CHR '':'', CHR ''.'', CHR ''_'', CHR ''-''}) 127"

definition quotaNameValid :: "string \<Rightarrow> bool" where
  "quotaNameValid = identShape isLowerAlnum (\<lambda>c. isLowerAlnum c \<or> c \<in> {CHR ''.'', CHR ''_'', CHR ''-''}) 63"

definition parseScopeSubjectId :: "jsval \<Rightarrow> string res" where
  "parseScopeSubjectId v = (case v of
     JStr s \<Rightarrow> if scopeSubjectValid s then Inr s else Inl DeliveryStateValidationError
   | _ \<Rightarrow> Inl DeliveryStateValidationError)"

definition parseQuotaName :: "jsval \<Rightarrow> string res" where
  "parseQuotaName v = (case v of
     JStr s \<Rightarrow> if quotaNameValid s then Inr s else Inl DeliveryStateValidationError
   | _ \<Rightarrow> Inl DeliveryStateValidationError)"

definition parsePolicyRealmId :: "jsval \<Rightarrow> string res" where
  "parsePolicyRealmId v = (case v of
     JStr s \<Rightarrow> if quotaNameValid s then Inr s else Inl DeliveryStateValidationError
   | _ \<Rightarrow> Inl DeliveryStateValidationError)"

definition parsePositiveUint63 :: "jsval \<Rightarrow> string res" where
  "parsePositiveUint63 v =
     bindE (parseUint63String v) (\<lambda>parsed.
     if parsed = ''0'' then Inl DeliveryStateValidationError else Inr parsed)"

definition DELIVERY_MANDATORY_PROPOSALS_MAX :: int where
  "DELIVERY_MANDATORY_PROPOSALS_MAX = 100"

definition parseMandatoryProposalCount :: "jsval \<Rightarrow> string res" where
  "parseMandatoryProposalCount v =
     bindE (parseUint63String v) (\<lambda>parsed.
     if bigInt parsed > DELIVERY_MANDATORY_PROPOSALS_MAX then Inl DeliveryStateValidationError else Inr parsed)"

definition parseNonZeroHash32 :: "jsval \<Rightarrow> string res" where
  "parseNonZeroHash32 v =
     bindE (parseHash32 v) (\<lambda>parsed.
     if parsed = ZERO_HASH32 then Inl DeliveryStateValidationError else Inr parsed)"

text \<open>A field that is \<open>null\<close> or parsed by the given parser.\<close>

definition parseNullable :: "(jsval \<Rightarrow> string res) \<Rightarrow> jsval \<Rightarrow> string option res" where
  "parseNullable parse v = (if v = JNull then Inr None else bindE (parse v) (\<lambda>s. Inr (Some s)))"

definition encodeNullable :: "string option \<Rightarrow> jsval" where
  "encodeNullable o1 = (case o1 of None \<Rightarrow> JNull | Some s \<Rightarrow> JStr s)"

definition addUint63 :: "string \<Rightarrow> int \<Rightarrow> string option" where
  "addUint63 value increment =
     (let result = bigInt value + increment in
      if result < 0 \<or> result > UINT63_MAX then None else Some (bigIntToString result))"

definition subtractUint63 :: "string \<Rightarrow> string \<Rightarrow> string option" where
  "subtractUint63 value decrement = addUint63 value (- bigInt decrement)"

subsection \<open>Facts\<close>

lemma parseScopeSubjectId_iff [parse_simps]: "parseScopeSubjectId v = Inr s \<longleftrightarrow> v = JStr s \<and> scopeSubjectValid s"
  by (auto simp: parseScopeSubjectId_def split: jsval.splits)

lemma parseQuotaName_iff [parse_simps]: "parseQuotaName v = Inr s \<longleftrightarrow> v = JStr s \<and> quotaNameValid s"
  by (auto simp: parseQuotaName_def split: jsval.splits)

lemma parsePolicyRealmId_iff [parse_simps]: "parsePolicyRealmId v = Inr s \<longleftrightarrow> v = JStr s \<and> quotaNameValid s"
  by (auto simp: parsePolicyRealmId_def split: jsval.splits)

lemma parsePositiveUint63_iff [parse_simps]:
  "parsePositiveUint63 v = Inr s \<longleftrightarrow> v = JStr s \<and> positiveUint63Valid s"
  by (auto simp: parsePositiveUint63_def res_simps parse_simps positiveUint63Valid_def split: if_splits)

definition proposalCountValid :: "string \<Rightarrow> bool" where
  "proposalCountValid s = (uint63Valid s \<and> bigInt s \<le> DELIVERY_MANDATORY_PROPOSALS_MAX)"

definition nonZeroHashValid :: "string \<Rightarrow> bool" where
  "nonZeroHashValid s = (hash32Valid s \<and> s \<noteq> ZERO_HASH32)"

lemma parseMandatoryProposalCount_iff [parse_simps]:
  "parseMandatoryProposalCount v = Inr s \<longleftrightarrow> v = JStr s \<and> proposalCountValid s"
proof (cases "parseUint63String v")
  case (Inr t)
  then show ?thesis
    by (auto simp: parseMandatoryProposalCount_def proposalCountValid_def dest: parseUint63String_iff [THEN iffD1])
next
  case (Inl e)
  then show ?thesis
    by (auto simp: parseMandatoryProposalCount_def proposalCountValid_def uint63_parser.parse_JStr)
qed

lemma parseNonZeroHash32_iff [parse_simps]:
  "parseNonZeroHash32 v = Inr s \<longleftrightarrow> v = JStr s \<and> nonZeroHashValid s"
  by (auto simp: parseNonZeroHash32_def res_simps parse_simps nonZeroHashValid_def split: if_splits)

lemma parseNullable_iff:
  assumes "\<And>v s. parse v = Inr s \<longleftrightarrow> v = JStr s \<and> valid s"
  shows "parseNullable parse v = Inr x \<longleftrightarrow> v = encodeNullable x \<and> (case x of None \<Rightarrow> True | Some s \<Rightarrow> valid s)"
  using assms by (auto simp: parseNullable_def encodeNullable_def bindE_eq_Inr split: option.splits)

lemma encodeNullable_simps [simp]:
  "encodeNullable x \<noteq> JUndefined" "JUndefined \<noteq> encodeNullable x" "encodeNullable x = JNull \<longleftrightarrow> x = None"
  "encodeNullable x = encodeNullable y \<longleftrightarrow> x = y"
  by (auto simp: encodeNullable_def split: option.splits)

lemma addUint63_Some:
  "addUint63 s i = Some t \<longleftrightarrow> 0 \<le> bigInt s + i \<and> bigInt s + i \<le> UINT63_MAX \<and> t = bigIntToString (bigInt s + i)"
  by (auto simp: addUint63_def Let_def)

lemma addUint63_valid: "addUint63 s i = Some t \<Longrightarrow> uint63Valid t \<and> bigInt t = bigInt s + i"
  by (auto simp: addUint63_Some uint63Valid_toString)

lemma subtractUint63_valid: "subtractUint63 s d = Some t \<Longrightarrow> uint63Valid t \<and> bigInt t = bigInt s - bigInt d"
  unfolding subtractUint63_def using addUint63_valid by fastforce

lemma length_quotaName [valid_lengths]: "quotaNameValid s \<Longrightarrow> length s \<le> 64"
  by (auto simp: quotaNameValid_def identShape_def split: list.splits)

lemma length_scopeSubject [valid_lengths]: "scopeSubjectValid s \<Longrightarrow> length s \<le> 128"
  by (auto simp: scopeSubjectValid_def identShape_def split: list.splits)

lemma length_positiveUint63 [valid_lengths]: "positiveUint63Valid s \<Longrightarrow> length s \<le> 19"
  by (simp add: positiveUint63Valid_def length_uint63)

lemma nonZeroHash_valid [simp]: "nonZeroHashValid s \<Longrightarrow> hash32Valid s"
  by (simp add: nonZeroHashValid_def)

lemma positive_uint63 [simp]: "positiveUint63Valid s \<Longrightarrow> uint63Valid s"
  by (simp add: positiveUint63Valid_def)

subsection \<open>Evaluation on valid values\<close>

text \<open>The parsers read forwards: rewrite rules that evaluate a record parser on an encoding.\<close>

named_theorems parse_ok \<open>parsers on valid values\<close>

lemma uuid_parse_ok [parse_ok]:
  assumes "uuidV4Valid s"
  shows "parseAccountId (JStr s) = Inr s" "parseConversationId (JStr s) = Inr s" "parseCredentialId (JStr s) = Inr s"
    "parseEnvelopeId (JStr s) = Inr s" "parseInstallationId (JStr s) = Inr s" "parsePolicyHeadId (JStr s) = Inr s"
    "parseWitnessCheckpointId (JStr s) = Inr s"
  using assms by (simp_all add: parse_simps)

lemma scalar_parse_ok [parse_ok]:
  "uint63Valid s \<Longrightarrow> parseUint63String (JStr s) = Inr s"
  "positiveUint63Valid s \<Longrightarrow> parsePositiveUint63 (JStr s) = Inr s"
  "positiveUint63Valid s \<Longrightarrow> parsePositiveUint63String (JStr s) = Inr s"
  "proposalCountValid s \<Longrightarrow> parseMandatoryProposalCount (JStr s) = Inr s"
  "hash32Valid s \<Longrightarrow> parseHash32 (JStr s) = Inr s"
  "hash32Valid s \<Longrightarrow> parseFingerprint32 (JStr s) = Inr s"
  "nonZeroHashValid s \<Longrightarrow> parseNonZeroHash32 (JStr s) = Inr s"
  "rfc3339Valid s \<Longrightarrow> parseRfc3339Millis (JStr s) = Inr s"
  "etagValid s \<Longrightarrow> parseConversationEtag (JStr s) = Inr s"
  "SIGNING_KEY_ID s \<Longrightarrow> parseSigningKeyId (JStr s) = Inr s"
  "RELEASE_PROFILE_ID s \<Longrightarrow> parseReleaseProfileId (JStr s) = Inr s"
  "scopeSubjectValid s \<Longrightarrow> parseScopeSubjectId (JStr s) = Inr s"
  "quotaNameValid s \<Longrightarrow> parseQuotaName (JStr s) = Inr s"
  "quotaNameValid s \<Longrightarrow> parsePolicyRealmId (JStr s) = Inr s"
  "parseRequiredLiteral s (JStr s) = Inr s"
  by (simp_all add: parse_simps)

lemma enum_parse_ok [parse_ok]:
  "parseQuotaScope (JStr (quotaScopeText a)) = Inr a"
  "parseConversationState (JStr (conversationLifecycleText l)) = Inr l"
  "parseConversationKind (JStr (conversationKindText k)) = Inr k"
  "parseSendRole (JStr (sendRoleText r)) = Inr r"
  "parseInstallationState (JStr (installationStateText i)) = Inr i"
  "parseCredentialState (JStr (credentialStateText c)) = Inr c"
  "parseGrantState (JStr (grantStateText g)) = Inr g"
  "parseWitnessState (JStr (witnessStateText w)) = Inr w"
  "parseReservationState (JStr (reservationStateText s)) = Inr s"
  "parseProofPurpose (JStr (proofPurposeText p)) = Inr p"
  "parseFreshnessStatus (JStr (freshnessStatusText f)) = Inr f"
  "parseCurrentStatus (JStr (currentStatusText u)) = Inr u"
  "parseInclusionStatus (JStr (inclusionStatusText n)) = Inr n"
  by (simp_all add: parse_simps)

lemma nullable_parse_ok [parse_ok]:
  "(case x of None \<Rightarrow> True | Some s \<Rightarrow> parse (JStr s) = Inr s) \<Longrightarrow> parseNullable parse (encodeNullable x) = Inr x"
  by (auto simp: parseNullable_def encodeNullable_def split: option.splits)

end
