(* ===== verification/QuotaState.thy ===== *)
theory QuotaState
  imports StateParsers
begin

section \<open>Quota counters and capacity reservations\<close>

text \<open>
  The quota part of \<open>src/src/production/delivery/state.ts\<close>: the locked counters of the five scopes, the
  authoritative bindings they must match, the capacity an append reserves on each of them, the
  identity of a reservation, and the conversion of reserved capacity into consumed or released
  capacity. A row set has exactly one row per scope and is kept in the order of
  \<open>APPLICATION_APPEND_QUOTA_SCOPES\<close>.
\<close>

subsection \<open>Rows\<close>

text \<open>\<open>LockedQuotaCounter\<close>, and the callback that \<open>parseLockedQuotaCounters\<close> maps over its array.\<close>

record lockedQuotaCounter =
  qc_scope :: quotaScope
  qc_scopeHash :: string
  qc_quotaName :: string
  qc_windowStartedAt :: string
  qc_windowSeconds :: string
  qc_operationCount :: string
  qc_byteCount :: string
  qc_reservedOperationCount :: string
  qc_reservedByteCount :: string
  qc_rowVersion :: string
  qc_operationLimit :: string
  qc_byteLimit :: string

definition QUOTA_COUNTER_KEYS :: "string list" where
  "QUOTA_COUNTER_KEYS =
    [''scope'', ''scopeHash'', ''quotaName'', ''windowStartedAt'', ''windowSeconds'', ''operationCount'',
     ''byteCount'', ''reservedOperationCount'', ''reservedByteCount'', ''rowVersion'', ''operationLimit'',
     ''byteLimit'']"

definition parseQuotaCounter :: "jsval \<Rightarrow> lockedQuotaCounter res" where
  "parseQuotaCounter v =
     bindE (expectExactRecord v QUOTA_COUNTER_KEYS) (\<lambda>record.
     bindE (parseQuotaScope (record ''scope'')) (\<lambda>scope.
     bindE (parseHash32 (record ''scopeHash'')) (\<lambda>scopeHash.
     bindE (parseQuotaName (record ''quotaName'')) (\<lambda>quotaName.
     bindE (parseRfc3339Millis (record ''windowStartedAt'')) (\<lambda>windowStartedAt.
     bindE (parsePositiveUint63 (record ''windowSeconds'')) (\<lambda>windowSeconds.
     bindE (parseUint63String (record ''operationCount'')) (\<lambda>operationCount.
     bindE (parseUint63String (record ''byteCount'')) (\<lambda>byteCount.
     bindE (parseUint63String (record ''reservedOperationCount'')) (\<lambda>reservedOperationCount.
     bindE (parseUint63String (record ''reservedByteCount'')) (\<lambda>reservedByteCount.
     bindE (parseUint63String (record ''rowVersion'')) (\<lambda>rowVersion.
     bindE (parseUint63String (record ''operationLimit'')) (\<lambda>operationLimit.
     bindE (parseUint63String (record ''byteLimit'')) (\<lambda>byteLimit.
     bindE (guardE (\<not> (bigInt operationCount + bigInt reservedOperationCount > bigInt operationLimit
                      \<or> bigInt byteCount + bigInt reservedByteCount > bigInt byteLimit)) DeliveryStateValidationError) (\<lambda>_.
     Inr \<lparr>qc_scope = scope, qc_scopeHash = scopeHash, qc_quotaName = quotaName,
          qc_windowStartedAt = windowStartedAt, qc_windowSeconds = windowSeconds,
          qc_operationCount = operationCount, qc_byteCount = byteCount,
          qc_reservedOperationCount = reservedOperationCount, qc_reservedByteCount = reservedByteCount,
          qc_rowVersion = rowVersion, qc_operationLimit = operationLimit, qc_byteLimit = byteLimit\<rparr>))))))))))))))"

definition encodeQuotaCounter :: "lockedQuotaCounter \<Rightarrow> jsval" where
  "encodeQuotaCounter r = mkRecord
     [(''scope'', JStr (quotaScopeText (qc_scope r))), (''scopeHash'', JStr (qc_scopeHash r)),
      (''quotaName'', JStr (qc_quotaName r)), (''windowStartedAt'', JStr (qc_windowStartedAt r)),
      (''windowSeconds'', JStr (qc_windowSeconds r)), (''operationCount'', JStr (qc_operationCount r)),
      (''byteCount'', JStr (qc_byteCount r)),
      (''reservedOperationCount'', JStr (qc_reservedOperationCount r)),
      (''reservedByteCount'', JStr (qc_reservedByteCount r)), (''rowVersion'', JStr (qc_rowVersion r)),
      (''operationLimit'', JStr (qc_operationLimit r)), (''byteLimit'', JStr (qc_byteLimit r))]"

definition quotaCounterValid :: "lockedQuotaCounter \<Rightarrow> bool" where
  "quotaCounterValid r =
     (hash32Valid (qc_scopeHash r) \<and> quotaNameValid (qc_quotaName r) \<and>
      rfc3339Valid (qc_windowStartedAt r) \<and> positiveUint63Valid (qc_windowSeconds r) \<and>
      uint63Valid (qc_operationCount r) \<and> uint63Valid (qc_byteCount r) \<and>
      uint63Valid (qc_reservedOperationCount r) \<and> uint63Valid (qc_reservedByteCount r) \<and>
      uint63Valid (qc_rowVersion r) \<and> uint63Valid (qc_operationLimit r) \<and>
      uint63Valid (qc_byteLimit r) \<and>
      bigInt (qc_operationCount r) + bigInt (qc_reservedOperationCount r) \<le> bigInt (qc_operationLimit r) \<and>
      bigInt (qc_byteCount r) + bigInt (qc_reservedByteCount r) \<le> bigInt (qc_byteLimit r))"

text \<open>\<open>ExpectedAppendQuotaIdentity\<close>.\<close>

record quotaBinding =
  qb_scope :: quotaScope
  qb_scopeHash :: string
  qb_quotaName :: string
  qb_windowStartedAt :: string
  qb_windowSeconds :: string
  qb_operationLimit :: string
  qb_byteLimit :: string

definition QUOTA_BINDING_KEYS :: "string list" where
  "QUOTA_BINDING_KEYS =
    [''scope'', ''scopeHash'', ''quotaName'', ''windowStartedAt'', ''windowSeconds'', ''operationLimit'',
     ''byteLimit'']"

definition parseQuotaBinding :: "jsval \<Rightarrow> quotaBinding res" where
  "parseQuotaBinding v =
     bindE (expectExactRecord v QUOTA_BINDING_KEYS) (\<lambda>record.
     bindE (parseQuotaScope (record ''scope'')) (\<lambda>scope.
     bindE (parseHash32 (record ''scopeHash'')) (\<lambda>scopeHash.
     bindE (parseQuotaName (record ''quotaName'')) (\<lambda>quotaName.
     bindE (parseRfc3339Millis (record ''windowStartedAt'')) (\<lambda>windowStartedAt.
     bindE (parsePositiveUint63 (record ''windowSeconds'')) (\<lambda>windowSeconds.
     bindE (parseUint63String (record ''operationLimit'')) (\<lambda>operationLimit.
     bindE (parseUint63String (record ''byteLimit'')) (\<lambda>byteLimit.
     Inr \<lparr>qb_scope = scope, qb_scopeHash = scopeHash, qb_quotaName = quotaName,
          qb_windowStartedAt = windowStartedAt, qb_windowSeconds = windowSeconds,
          qb_operationLimit = operationLimit, qb_byteLimit = byteLimit\<rparr>))))))))"

definition encodeQuotaBinding :: "quotaBinding \<Rightarrow> jsval" where
  "encodeQuotaBinding r = mkRecord
     [(''scope'', JStr (quotaScopeText (qb_scope r))), (''scopeHash'', JStr (qb_scopeHash r)),
      (''quotaName'', JStr (qb_quotaName r)), (''windowStartedAt'', JStr (qb_windowStartedAt r)),
      (''windowSeconds'', JStr (qb_windowSeconds r)), (''operationLimit'', JStr (qb_operationLimit r)),
      (''byteLimit'', JStr (qb_byteLimit r))]"

definition quotaBindingValid :: "quotaBinding \<Rightarrow> bool" where
  "quotaBindingValid r =
     (hash32Valid (qb_scopeHash r) \<and> quotaNameValid (qb_quotaName r) \<and>
      rfc3339Valid (qb_windowStartedAt r) \<and> positiveUint63Valid (qb_windowSeconds r) \<and>
      uint63Valid (qb_operationLimit r) \<and> uint63Valid (qb_byteLimit r))"

text \<open>\<open>ApplicationAppendQuotaCapacityDelta\<close>; a delta always reserves one operation.\<close>

record quotaDelta =
  qd_scope :: quotaScope
  qd_scopeHash :: string
  qd_quotaName :: string
  qd_windowStartedAt :: string
  qd_windowSeconds :: string
  qd_reservationOperationCount :: string
  qd_reservationByteCount :: string
  qd_rowVersionBefore :: string
  qd_rowVersionAfter :: string

definition QUOTA_DELTA_KEYS :: "string list" where
  "QUOTA_DELTA_KEYS =
    [''scope'', ''scopeHash'', ''quotaName'', ''windowStartedAt'', ''windowSeconds'',
     ''reservationOperationCount'', ''reservationByteCount'', ''rowVersionBefore'', ''rowVersionAfter'']"

definition parseQuotaCapacityDeltaRecord :: "jsval \<Rightarrow> quotaDelta res" where
  "parseQuotaCapacityDeltaRecord v =
     bindE (expectExactRecord v QUOTA_DELTA_KEYS) (\<lambda>record.
     bindE (parseUint63String (record ''rowVersionBefore'')) (\<lambda>rowVersionBefore.
     bindE (parseUint63String (record ''rowVersionAfter'')) (\<lambda>rowVersionAfter.
     bindE (guardE (\<not> (record ''reservationOperationCount'' \<noteq> JStr ''1'' \<or> addUint63 rowVersionBefore 1 \<noteq> Some rowVersionAfter)) DeliveryStateValidationError) (\<lambda>_.
     bindE (parseQuotaScope (record ''scope'')) (\<lambda>scope.
     bindE (parseHash32 (record ''scopeHash'')) (\<lambda>scopeHash.
     bindE (parseQuotaName (record ''quotaName'')) (\<lambda>quotaName.
     bindE (parseRfc3339Millis (record ''windowStartedAt'')) (\<lambda>windowStartedAt.
     bindE (parsePositiveUint63 (record ''windowSeconds'')) (\<lambda>windowSeconds.
     bindE (parseUint63String (record ''reservationByteCount'')) (\<lambda>reservationByteCount.
     Inr \<lparr>qd_scope = scope, qd_scopeHash = scopeHash, qd_quotaName = quotaName,
          qd_windowStartedAt = windowStartedAt, qd_windowSeconds = windowSeconds,
          qd_reservationOperationCount = ''1'',
          qd_reservationByteCount = reservationByteCount, qd_rowVersionBefore = rowVersionBefore,
          qd_rowVersionAfter = rowVersionAfter\<rparr>))))))))))"

definition encodeQuotaDelta :: "quotaDelta \<Rightarrow> jsval" where
  "encodeQuotaDelta r = mkRecord
     [(''scope'', JStr (quotaScopeText (qd_scope r))), (''scopeHash'', JStr (qd_scopeHash r)),
      (''quotaName'', JStr (qd_quotaName r)), (''windowStartedAt'', JStr (qd_windowStartedAt r)),
      (''windowSeconds'', JStr (qd_windowSeconds r)),
      (''reservationOperationCount'', JStr (qd_reservationOperationCount r)),
      (''reservationByteCount'', JStr (qd_reservationByteCount r)),
      (''rowVersionBefore'', JStr (qd_rowVersionBefore r)), (''rowVersionAfter'', JStr (qd_rowVersionAfter r))]"

definition quotaDeltaValid :: "quotaDelta \<Rightarrow> bool" where
  "quotaDeltaValid r =
     (hash32Valid (qd_scopeHash r) \<and> quotaNameValid (qd_quotaName r) \<and>
      rfc3339Valid (qd_windowStartedAt r) \<and> positiveUint63Valid (qd_windowSeconds r) \<and>
      uint63Valid (qd_reservationOperationCount r) \<and> uint63Valid (qd_reservationByteCount r) \<and>
      uint63Valid (qd_rowVersionBefore r) \<and> uint63Valid (qd_rowVersionAfter r) \<and>
      qd_reservationOperationCount r = ''1'' \<and>
      addUint63 (qd_rowVersionBefore r) 1 = Some (qd_rowVersionAfter r))"

text \<open>\<open>ApplicationAppendQuotaCapacityReservation\<close> extends the delta it was made from.\<close>

record quotaReservation = quotaDelta +
  qr_reservationId :: string
  qr_pendingPreparationDigest :: string
  qr_fenceGeneration :: string
  qr_fenceTokenHash :: string
  qr_state :: reservationState

definition quotaReservationDelta :: "quotaReservation \<Rightarrow> quotaDelta" where
  "quotaReservationDelta r =
     \<lparr>qd_scope = qd_scope r, qd_scopeHash = qd_scopeHash r, qd_quotaName = qd_quotaName r,
      qd_windowStartedAt = qd_windowStartedAt r, qd_windowSeconds = qd_windowSeconds r,
      qd_reservationOperationCount = qd_reservationOperationCount r,
      qd_reservationByteCount = qd_reservationByteCount r, qd_rowVersionBefore = qd_rowVersionBefore r,
      qd_rowVersionAfter = qd_rowVersionAfter r\<rparr>"

text \<open>The object literal \<open>{...delta, reservationId, pendingPreparationDigest, ...}\<close>.\<close>

definition reservationOf ::
  "quotaDelta \<Rightarrow> string \<Rightarrow> string \<Rightarrow> string \<Rightarrow> string \<Rightarrow> reservationState \<Rightarrow> quotaReservation" where
  "reservationOf d reservationId pendingPreparationDigest fenceGeneration fenceTokenHash state =
     \<lparr>qd_scope = qd_scope d, qd_scopeHash = qd_scopeHash d, qd_quotaName = qd_quotaName d,
      qd_windowStartedAt = qd_windowStartedAt d, qd_windowSeconds = qd_windowSeconds d,
      qd_reservationOperationCount = qd_reservationOperationCount d,
      qd_reservationByteCount = qd_reservationByteCount d, qd_rowVersionBefore = qd_rowVersionBefore d,
      qd_rowVersionAfter = qd_rowVersionAfter d, qr_reservationId = reservationId,
      qr_pendingPreparationDigest = pendingPreparationDigest, qr_fenceGeneration = fenceGeneration,
      qr_fenceTokenHash = fenceTokenHash, qr_state = state\<rparr>"

definition APPLICATION_APPEND_QUOTA_RESERVATION_ID_DOMAIN :: string where
  "APPLICATION_APPEND_QUOTA_RESERVATION_ID_DOMAIN = ''jb-msg-application-append-quota-reservation-id/v1''"

definition reservationIdFields :: "string \<Rightarrow> string \<Rightarrow> string \<Rightarrow> quotaDelta \<Rightarrow> digestField list" where
  "reservationIdFields pendingPreparationDigest fenceGeneration fenceTokenHash d =
     [DecodedHash pendingPreparationDigest, Utf8 fenceGeneration, DecodedHash fenceTokenHash,
      Utf8 (quotaScopeText (qd_scope d)), DecodedHash (qd_scopeHash d), Utf8 (qd_quotaName d),
      Utf8 (qd_windowStartedAt d), Utf8 (qd_windowSeconds d), Utf8 (qd_reservationOperationCount d),
      Utf8 (qd_reservationByteCount d), Utf8 (qd_rowVersionBefore d), Utf8 (qd_rowVersionAfter d)]"

definition computeApplicationAppendQuotaReservationId ::
  "(bytes \<Rightarrow> bytes) \<Rightarrow> jsval \<Rightarrow> jsval \<Rightarrow> jsval \<Rightarrow> quotaDelta \<Rightarrow> string res" where
  "computeApplicationAppendQuotaReservationId H pendingPreparationDigest fenceGeneration fenceTokenHash d =
     bindE (parseHash32 pendingPreparationDigest) (\<lambda>digest.
     bindE (parsePositiveUint63 fenceGeneration) (\<lambda>generation.
     bindE (parseNonZeroHash32 fenceTokenHash) (\<lambda>token.
     digestOf H APPLICATION_APPEND_QUOTA_RESERVATION_ID_DOMAIN (reservationIdFields digest generation token d))))"

definition QUOTA_RESERVATION_KEYS :: "string list" where
  "QUOTA_RESERVATION_KEYS =
    [''scope'', ''scopeHash'', ''quotaName'', ''windowStartedAt'', ''windowSeconds'', ''reservationOperationCount'',
     ''reservationByteCount'', ''rowVersionBefore'', ''rowVersionAfter'', ''reservationId'',
     ''pendingPreparationDigest'', ''fenceGeneration'', ''fenceTokenHash'', ''state'']"

definition parseQuotaReservation :: "(bytes \<Rightarrow> bytes) \<Rightarrow> jsval \<Rightarrow> quotaReservation res" where
  "parseQuotaReservation H v =
     bindE (expectExactRecord v QUOTA_RESERVATION_KEYS) (\<lambda>record.
     bindE (parseQuotaCapacityDeltaRecord (mkRecord (map (\<lambda>k. (k, record k)) QUOTA_DELTA_KEYS))) (\<lambda>delta.
     bindE (parseHash32 (record ''pendingPreparationDigest'')) (\<lambda>pendingPreparationDigest.
     bindE (parsePositiveUint63 (record ''fenceGeneration'')) (\<lambda>fenceGeneration.
     bindE (parseNonZeroHash32 (record ''fenceTokenHash'')) (\<lambda>fenceTokenHash.
     bindE (parseNonZeroHash32 (record ''reservationId'')) (\<lambda>reservationId.
     bindE (parseReservationState (record ''state'')) (\<lambda>state.
     bindE (computeApplicationAppendQuotaReservationId H (JStr pendingPreparationDigest) (JStr fenceGeneration)
              (JStr fenceTokenHash) delta) (\<lambda>expectedId.
     if reservationId \<noteq> expectedId then Inl DeliveryStateValidationError
     else Inr (reservationOf delta reservationId pendingPreparationDigest fenceGeneration fenceTokenHash state)))))))))"

definition encodeQuotaReservation :: "quotaReservation \<Rightarrow> jsval" where
  "encodeQuotaReservation r = mkRecord
     [(''scope'', JStr (quotaScopeText (qd_scope r))), (''scopeHash'', JStr (qd_scopeHash r)),
      (''quotaName'', JStr (qd_quotaName r)), (''windowStartedAt'', JStr (qd_windowStartedAt r)),
      (''windowSeconds'', JStr (qd_windowSeconds r)),
      (''reservationOperationCount'', JStr (qd_reservationOperationCount r)),
      (''reservationByteCount'', JStr (qd_reservationByteCount r)),
      (''rowVersionBefore'', JStr (qd_rowVersionBefore r)), (''rowVersionAfter'', JStr (qd_rowVersionAfter r)),
      (''reservationId'', JStr (qr_reservationId r)),
      (''pendingPreparationDigest'', JStr (qr_pendingPreparationDigest r)),
      (''fenceGeneration'', JStr (qr_fenceGeneration r)), (''fenceTokenHash'', JStr (qr_fenceTokenHash r)),
      (''state'', JStr (reservationStateText (qr_state r)))]"

definition quotaReservationValid :: "(bytes \<Rightarrow> bytes) \<Rightarrow> quotaReservation \<Rightarrow> bool" where
  "quotaReservationValid H r =
     (quotaDeltaValid (quotaReservationDelta r) \<and> hash32Valid (qr_pendingPreparationDigest r) \<and>
      positiveUint63Valid (qr_fenceGeneration r) \<and> nonZeroHashValid (qr_fenceTokenHash r) \<and>
      nonZeroHashValid (qr_reservationId r) \<and>
      digestOf H APPLICATION_APPEND_QUOTA_RESERVATION_ID_DOMAIN
        (reservationIdFields (qr_pendingPreparationDigest r) (qr_fenceGeneration r) (qr_fenceTokenHash r)
           (quotaReservationDelta r)) = Inr (qr_reservationId r))"

subsection \<open>The row parsers are codecs\<close>

interpretation counter_codec: record_codec parseQuotaCounter encodeQuotaCounter quotaCounterValid
proof
  show "quotaCounterValid r" if "parseQuotaCounter v = Inr r" for v r
    using that by (auto simp: parseQuotaCounter_def quotaCounterValid_def res_simps parse_simps not_less split: if_splits)
  show "parseQuotaCounter (encodeQuotaCounter r) = Inr r" if "quotaCounterValid r" for r
    using that unfolding parseQuotaCounter_def encodeQuotaCounter_def
    by (subst expectExactRecord_mkRecord) (auto simp: QUOTA_COUNTER_KEYS_def res_simps parse_simps quotaCounterValid_def)
qed

interpretation binding_codec: record_codec parseQuotaBinding encodeQuotaBinding quotaBindingValid
proof
  show "quotaBindingValid r" if "parseQuotaBinding v = Inr r" for v r
    using that by (auto simp: parseQuotaBinding_def quotaBindingValid_def res_simps parse_simps split: if_splits)
  show "parseQuotaBinding (encodeQuotaBinding r) = Inr r" if "quotaBindingValid r" for r
    using that unfolding parseQuotaBinding_def encodeQuotaBinding_def
    by (subst expectExactRecord_mkRecord) (auto simp: QUOTA_BINDING_KEYS_def res_simps parse_simps quotaBindingValid_def)
qed

interpretation delta_codec: record_codec parseQuotaCapacityDeltaRecord encodeQuotaDelta quotaDeltaValid
proof
  show "quotaDeltaValid r" if "parseQuotaCapacityDeltaRecord v = Inr r" for v r
    using that by (auto simp: parseQuotaCapacityDeltaRecord_def quotaDeltaValid_def res_simps parse_simps split: if_splits)
  show "parseQuotaCapacityDeltaRecord (encodeQuotaDelta r) = Inr r" if "quotaDeltaValid r" for r
    using that unfolding parseQuotaCapacityDeltaRecord_def encodeQuotaDelta_def
    by (subst expectExactRecord_mkRecord) (auto simp: QUOTA_DELTA_KEYS_def res_simps parse_simps quotaDeltaValid_def)
qed


lemma quotaReservationDelta_reservationOf [simp]: "quotaReservationDelta (reservationOf d i p g t s) = d"
  by (simp add: quotaReservationDelta_def reservationOf_def)

lemma reservationOf_sel [simp]:
  "qr_reservationId (reservationOf d i p g t s) = i" "qr_pendingPreparationDigest (reservationOf d i p g t s) = p"
  "qr_fenceGeneration (reservationOf d i p g t s) = g" "qr_fenceTokenHash (reservationOf d i p g t s) = t"
  "qr_state (reservationOf d i p g t s) = s"
  by (simp_all add: reservationOf_def)

lemma reservationOf_delta:
  "reservationOf (quotaReservationDelta r) (qr_reservationId r) (qr_pendingPreparationDigest r)
     (qr_fenceGeneration r) (qr_fenceTokenHash r) (qr_state r) = r"
  by (simp add: quotaReservationDelta_def reservationOf_def)

lemma parseQuotaReservation_valid: "parseQuotaReservation H v = Inr r \<Longrightarrow> quotaReservationValid H r"
  by (auto simp: parseQuotaReservation_def quotaReservationValid_def bindE_eq_Inr parse_simps
      computeApplicationAppendQuotaReservationId_def
      dest!: delta_codec.parse_wf split: if_splits)

lemma parseQuotaReservation_encode:
  assumes "quotaReservationValid H r"
  shows "parseQuotaReservation H (encodeQuotaReservation r) = Inr r"
proof -
  define kvs where "kvs =
     [(''scope'', JStr (quotaScopeText (qd_scope r))), (''scopeHash'', JStr (qd_scopeHash r)),
      (''quotaName'', JStr (qd_quotaName r)), (''windowStartedAt'', JStr (qd_windowStartedAt r)),
      (''windowSeconds'', JStr (qd_windowSeconds r)),
      (''reservationOperationCount'', JStr (qd_reservationOperationCount r)),
      (''reservationByteCount'', JStr (qd_reservationByteCount r)),
      (''rowVersionBefore'', JStr (qd_rowVersionBefore r)), (''rowVersionAfter'', JStr (qd_rowVersionAfter r)),
      (''reservationId'', JStr (qr_reservationId r)),
      (''pendingPreparationDigest'', JStr (qr_pendingPreparationDigest r)),
      (''fenceGeneration'', JStr (qr_fenceGeneration r)), (''fenceTokenHash'', JStr (qr_fenceTokenHash r)),
      (''state'', JStr (reservationStateText (qr_state r)))]"
  have get: "expectExactRecord (encodeQuotaReservation r) QUOTA_RESERVATION_KEYS = Inr (fieldOf kvs)"
    unfolding encodeQuotaReservation_def kvs_def
    by (rule expectExactRecord_mkRecord) (simp_all add: QUOTA_RESERVATION_KEYS_def)
  have "mkRecord (map (\<lambda>k. (k, fieldOf kvs k)) QUOTA_DELTA_KEYS) = encodeQuotaDelta (quotaReservationDelta r)"
    by (simp add: QUOTA_DELTA_KEYS_def kvs_def encodeQuotaDelta_def quotaReservationDelta_def)
  with assms have "parseQuotaCapacityDeltaRecord (mkRecord (map (\<lambda>k. (k, fieldOf kvs k)) QUOTA_DELTA_KEYS))
      = Inr (quotaReservationDelta r)"
    by (simp add: delta_codec.parse_encode quotaReservationValid_def)
  with get assms show ?thesis
    unfolding parseQuotaReservation_def kvs_def
    by (auto simp: bindE_eq_Inr parse_simps quotaReservationValid_def
        computeApplicationAppendQuotaReservationId_def reservationOf_delta)
qed

subsection \<open>Row sets\<close>

text \<open>
  The array parsers end by picking the row of each scope, in the order of the scopes. The scope sets
  are checked before, so the search does not fail there.
\<close>

definition orderByScope :: "('r \<Rightarrow> quotaScope) \<Rightarrow> 'r list \<Rightarrow> 'r list res" where
  "orderByScope scopeOf rows =
     mapE (\<lambda>scope. case List.find (\<lambda>row. scopeOf row = scope) rows of
             Some row \<Rightarrow> Inr row | None \<Rightarrow> Inl TypeError) APPLICATION_APPEND_QUOTA_SCOPES"

definition setSize :: "'a list \<Rightarrow> nat" where
  "setSize xs = length (remdups xs)"

definition quotaRows :: "jsval \<Rightarrow> jsval list res" where
  "quotaRows v = (case exactArray v of
     Some xs \<Rightarrow> if length xs \<noteq> length APPLICATION_APPEND_QUOTA_SCOPES
                then Inl DeliveryStateValidationError else Inr xs
   | None \<Rightarrow> Inl DeliveryStateValidationError)"

definition parseLockedQuotaCounters :: "jsval \<Rightarrow> lockedQuotaCounter list res" where
  "parseLockedQuotaCounters v =
     bindE (quotaRows v) (\<lambda>rows.
     bindE (mapE parseQuotaCounter rows) (\<lambda>quotas.
     let scopes = map qc_scope quotas in
     if setSize scopes \<noteq> length APPLICATION_APPEND_QUOTA_SCOPES
        \<or> list_ex (\<lambda>scope. scope \<notin> set scopes) APPLICATION_APPEND_QUOTA_SCOPES
     then Inl DeliveryStateValidationError
     else orderByScope qc_scope quotas))"

definition parseApplicationAppendQuotaCapacityDeltas :: "jsval \<Rightarrow> quotaDelta list res" where
  "parseApplicationAppendQuotaCapacityDeltas v =
     bindE (quotaRows v) (\<lambda>rows.
     bindE (mapE parseQuotaCapacityDeltaRecord rows) (\<lambda>parsed.
     let scopes = map qd_scope parsed in
     if setSize scopes \<noteq> length APPLICATION_APPEND_QUOTA_SCOPES
        \<or> list_ex (\<lambda>scope. scope \<notin> set scopes) APPLICATION_APPEND_QUOTA_SCOPES
     then Inl DeliveryStateValidationError
     else orderByScope qd_scope parsed))"

text \<open>The compound key of a binding joins its fields with \<open>U+0000\<close>.\<close>

definition compoundKey :: "quotaBinding \<Rightarrow> string" where
  "compoundKey b = (let nul = [char_of (0 :: nat)] in
     quotaScopeText (qb_scope b) @ nul @ qb_scopeHash b @ nul @ qb_quotaName b @ nul @ qb_windowStartedAt b
     @ nul @ qb_windowSeconds b @ nul @ qb_operationLimit b @ nul @ qb_byteLimit b)"

definition parseExpectedQuotaIdentities :: "jsval \<Rightarrow> quotaBinding list res" where
  "parseExpectedQuotaIdentities v =
     bindE (quotaRows v) (\<lambda>rows.
     bindE (mapE parseQuotaBinding rows) (\<lambda>parsed.
     if setSize (map qb_scope parsed) \<noteq> length APPLICATION_APPEND_QUOTA_SCOPES
        \<or> setSize (map compoundKey parsed) \<noteq> length APPLICATION_APPEND_QUOTA_SCOPES
     then Inl DeliveryStateValidationError
     else orderByScope qb_scope parsed))"

definition parseApplicationAppendQuotaCapacityReservations ::
  "(bytes \<Rightarrow> bytes) \<Rightarrow> jsval \<Rightarrow> quotaReservation list res" where
  "parseApplicationAppendQuotaCapacityReservations H v =
     bindE (quotaRows v) (\<lambda>rows.
     bindE (mapE (parseQuotaReservation H) rows) (\<lambda>parsed.
     bindE (mapE (\<lambda>scope.
              let matches = filter (\<lambda>reservation. qd_scope reservation = scope) parsed in
              if length matches \<noteq> 1 then Inl DeliveryStateValidationError else Inr (hd matches))
            APPLICATION_APPEND_QUOTA_SCOPES) (\<lambda>ordered.
     if setSize (map qr_reservationId ordered) \<noteq> length ordered then Inl DeliveryStateValidationError
     else Inr ordered)))"

definition assertQuotaBindingsMatchCounters :: "quotaBinding list \<Rightarrow> lockedQuotaCounter list \<Rightarrow> unit res" where
  "assertQuotaBindingsMatchCounters bindings counters =
     bindE (mapE (\<lambda>scope.
       case (List.find (\<lambda>c. qb_scope c = scope) bindings, List.find (\<lambda>c. qc_scope c = scope) counters) of
         (Some b, Some c) \<Rightarrow>
           if qb_scopeHash b \<noteq> qc_scopeHash c \<or> qb_quotaName b \<noteq> qc_quotaName c
              \<or> qb_windowStartedAt b \<noteq> qc_windowStartedAt c \<or> qb_windowSeconds b \<noteq> qc_windowSeconds c
              \<or> qb_operationLimit b \<noteq> qc_operationLimit c \<or> qb_byteLimit b \<noteq> qc_byteLimit c
           then Inl DeliveryStateValidationError else Inr ()
       | _ \<Rightarrow> Inl DeliveryStateValidationError) APPLICATION_APPEND_QUOTA_SCOPES) (\<lambda>_. Inr ())"

subsection \<open>Digests of quota rows\<close>

definition APPLICATION_APPEND_QUOTA_SCOPE_HASH_DOMAIN :: string where
  "APPLICATION_APPEND_QUOTA_SCOPE_HASH_DOMAIN = ''jb-msg-application-append-quota-scope/v1''"

definition APPLICATION_APPEND_QUOTA_POLICY_DIGEST_DOMAIN :: string where
  "APPLICATION_APPEND_QUOTA_POLICY_DIGEST_DOMAIN = ''jb-msg-application-append-quota-policy/v1''"

definition APPLICATION_APPEND_QUOTA_RESERVATION_SET_DIGEST_DOMAIN :: string where
  "APPLICATION_APPEND_QUOTA_RESERVATION_SET_DIGEST_DOMAIN = ''jb-msg-application-append-quota-reservation-set/v1''"

definition computeApplicationAppendQuotaScopeHash ::
  "(bytes \<Rightarrow> bytes) \<Rightarrow> string \<Rightarrow> quotaScope \<Rightarrow> string \<Rightarrow> string res" where
  "computeApplicationAppendQuotaScopeHash H realmId scope subjectId =
     bindE (parsePolicyRealmId (JStr realmId)) (\<lambda>realm.
     bindE (parseQuotaScope (JStr (quotaScopeText scope))) (\<lambda>sc.
     bindE (parseScopeSubjectId (JStr subjectId)) (\<lambda>subject.
     digestOf H APPLICATION_APPEND_QUOTA_SCOPE_HASH_DOMAIN [Utf8 realm, Utf8 (quotaScopeText sc), Utf8 subject])))"

definition quotaPolicyFields :: "quotaBinding list \<Rightarrow> digestField list" where
  "quotaPolicyFields bindings = concat (map (\<lambda>b.
     [Utf8 (quotaScopeText (qb_scope b)), Utf8 (qb_quotaName b), Utf8 (qb_windowSeconds b),
      Utf8 (qb_operationLimit b), Utf8 (qb_byteLimit b)]) bindings)"

definition computeApplicationAppendQuotaPolicyDigest :: "(bytes \<Rightarrow> bytes) \<Rightarrow> jsval \<Rightarrow> string res" where
  "computeApplicationAppendQuotaPolicyDigest H v =
     bindE (parseExpectedQuotaIdentities v) (\<lambda>bindings.
     digestOf H APPLICATION_APPEND_QUOTA_POLICY_DIGEST_DOMAIN (quotaPolicyFields bindings))"

definition computeApplicationAppendQuotaReservationSetDigest :: "(bytes \<Rightarrow> bytes) \<Rightarrow> jsval \<Rightarrow> string res" where
  "computeApplicationAppendQuotaReservationSetDigest H v =
     bindE (parseApplicationAppendQuotaCapacityReservations H v) (\<lambda>reservations.
     digestOf H APPLICATION_APPEND_QUOTA_RESERVATION_SET_DIGEST_DOMAIN
       (concat (map (\<lambda>r. [DecodedHash (qr_reservationId r), Utf8 (quotaScopeText (qd_scope r)),
                           Utf8 (reservationStateText (qr_state r))]) reservations)))"

definition bindApplicationAppendQuotaCapacityReservations ::
  "(bytes \<Rightarrow> bytes) \<Rightarrow> jsval \<Rightarrow> jsval \<Rightarrow> jsval \<Rightarrow> jsval \<Rightarrow> quotaReservation list res" where
  "bindApplicationAppendQuotaCapacityReservations H deltasInput digestInput generationInput tokenInput =
     bindE (parseApplicationAppendQuotaCapacityDeltas deltasInput) (\<lambda>deltas.
     bindE (parseHash32 digestInput) (\<lambda>pendingPreparationDigest.
     bindE (parsePositiveUint63 generationInput) (\<lambda>fenceGeneration.
     bindE (parseNonZeroHash32 tokenInput) (\<lambda>fenceTokenHash.
     mapE (\<lambda>delta.
       bindE (computeApplicationAppendQuotaReservationId H (JStr pendingPreparationDigest) (JStr fenceGeneration)
                (JStr fenceTokenHash) delta) (\<lambda>reservationId.
       Inr (reservationOf delta reservationId pendingPreparationDigest fenceGeneration fenceTokenHash Live)))
       deltas))))"

subsection \<open>Converting reserved capacity\<close>

datatype conversionMode = Finalize | Release

definition terminalState :: "conversionMode \<Rightarrow> reservationState" where
  "terminalState mode = (case mode of Finalize \<Rightarrow> Consumed | Release \<Rightarrow> Released)"

definition convertQuotaRow ::
  "conversionMode \<Rightarrow> quotaReservation list \<Rightarrow> lockedQuotaCounter \<Rightarrow> lockedQuotaCounter res" where
  "convertQuotaRow mode reservations quota =
     (case List.find (\<lambda>r. qd_scope r = qc_scope quota) reservations of
        None \<Rightarrow> Inl TypeError
      | Some reservation \<Rightarrow>
          if qd_scopeHash reservation \<noteq> qc_scopeHash quota
             \<or> qd_quotaName reservation \<noteq> qc_quotaName quota
             \<or> qd_windowStartedAt reservation \<noteq> qc_windowStartedAt quota
             \<or> qd_windowSeconds reservation \<noteq> qc_windowSeconds quota
             \<or> bigInt (qc_rowVersion quota) < bigInt (qd_rowVersionAfter reservation)
             \<or> bigInt (qc_reservedOperationCount quota) < bigInt (qd_reservationOperationCount reservation)
             \<or> bigInt (qc_reservedByteCount quota) < bigInt (qd_reservationByteCount reservation)
          then Inl DeliveryStateValidationError
          else
            (case (addUint63 (qc_rowVersion quota) 1,
                   subtractUint63 (qc_reservedOperationCount quota) (qd_reservationOperationCount reservation),
                   subtractUint63 (qc_reservedByteCount quota) (qd_reservationByteCount reservation),
                   (case mode of
                      Finalize \<Rightarrow> addUint63 (qc_operationCount quota) (bigInt (qd_reservationOperationCount reservation))
                    | Release \<Rightarrow> Some (qc_operationCount quota)),
                   (case mode of
                      Finalize \<Rightarrow> addUint63 (qc_byteCount quota) (bigInt (qd_reservationByteCount reservation))
                    | Release \<Rightarrow> Some (qc_byteCount quota))) of
               (Some rowVersion, Some reservedOperationCount, Some reservedByteCount, Some operationCount, Some byteCount) \<Rightarrow>
                 if bigInt operationCount + bigInt reservedOperationCount > bigInt (qc_operationLimit quota)
                    \<or> bigInt byteCount + bigInt reservedByteCount > bigInt (qc_byteLimit quota)
                 then Inl DeliveryStateValidationError
                 else Inr (quota\<lparr>qc_operationCount := operationCount, qc_byteCount := byteCount,
                   qc_reservedOperationCount := reservedOperationCount, qc_reservedByteCount := reservedByteCount,
                   qc_rowVersion := rowVersion\<rparr>)
             | _ \<Rightarrow> Inl DeliveryStateValidationError))"

text \<open>The seven inputs of the two validators, as the caller passes them.\<close>

record conversionInput =
  ci_currentQuotas :: jsval
  ci_currentCapacityReservations :: jsval
  ci_pendingPreparationDigest :: jsval
  ci_fenceGeneration :: jsval
  ci_fenceTokenHash :: jsval
  ci_preparedFinalQuotas :: jsval
  ci_preparedFinalReservations :: jsval

definition validateQuotaCapacityConversion ::
  "(bytes \<Rightarrow> bytes) \<Rightarrow> conversionInput \<Rightarrow> conversionMode \<Rightarrow> (lockedQuotaCounter list \<times> quotaReservation list) res" where
  "validateQuotaCapacityConversion H input mode =
     bindE (parseLockedQuotaCounters (ci_currentQuotas input)) (\<lambda>current.
     bindE (parseApplicationAppendQuotaCapacityReservations H (ci_currentCapacityReservations input)) (\<lambda>reservations.
     bindE (parseHash32 (ci_pendingPreparationDigest input)) (\<lambda>pendingPreparationDigest.
     bindE (parsePositiveUint63 (ci_fenceGeneration input)) (\<lambda>fenceGeneration.
     bindE (parseNonZeroHash32 (ci_fenceTokenHash input)) (\<lambda>fenceTokenHash.
     bindE (guardE (\<not> list_ex (\<lambda>r. qr_state r \<noteq> Live \<or> qr_pendingPreparationDigest r \<noteq> pendingPreparationDigest
                        \<or> qr_fenceGeneration r \<noteq> fenceGeneration \<or> qr_fenceTokenHash r \<noteq> fenceTokenHash) reservations)
              DeliveryStateValidationError) (\<lambda>_.
     bindE (mapE (convertQuotaRow mode reservations) current) (\<lambda>expected.
     bindE (parseLockedQuotaCounters (ci_preparedFinalQuotas input)) (\<lambda>prepared.
     bindE (parseApplicationAppendQuotaCapacityReservations H (ci_preparedFinalReservations input)) (\<lambda>preparedReservations.
     let expectedReservations = map (\<lambda>r. r\<lparr>qr_state := terminalState mode\<rparr>) reservations in
     if prepared \<noteq> expected then Inl DeliveryStateValidationError
     else if preparedReservations \<noteq> expectedReservations then Inl DeliveryStateValidationError
     else Inr (prepared, preparedReservations))))))))))"

definition validateLockedApplicationAppendQuotaFinalizationTransition ::
  "(bytes \<Rightarrow> bytes) \<Rightarrow> conversionInput \<Rightarrow> (lockedQuotaCounter list \<times> quotaReservation list) res" where
  "validateLockedApplicationAppendQuotaFinalizationTransition H input =
     validateQuotaCapacityConversion H input Finalize"

definition validateLockedApplicationAppendQuotaReleaseTransition ::
  "(bytes \<Rightarrow> bytes) \<Rightarrow> conversionInput \<Rightarrow> (lockedQuotaCounter list \<times> quotaReservation list) res" where
  "validateLockedApplicationAppendQuotaReleaseTransition H input =
     validateQuotaCapacityConversion H input Release"

end
