(* ===== verification/QuotaProofs.thy ===== *)
theory QuotaProofs
  imports QuotaState
begin

section \<open>Quota rows: codecs, conservation and ownership\<close>

text \<open>
  The array parsers of \<open>QuotaState\<close> are codecs on row sets in canonical order. A conversion that is
  accepted moves exactly the reserved capacity of each row (conservation), and is accepted whenever the
  row still holds the reservation (completeness). These are the facts the append transition and the
  persistence adapters rest on.
\<close>

subsection \<open>Canonical order\<close>

lemma find_unique:
  "distinct (map f rows) \<Longrightarrow> r \<in> set rows \<Longrightarrow> List.find (\<lambda>x. f x = f r) rows = Some r"
  by (induction rows) auto

lemma orderByScope_id:
  assumes "map f rows = APPLICATION_APPEND_QUOTA_SCOPES"
  shows "orderByScope f rows = Inr rows"
proof -
  have d: "distinct (map f rows)" using assms distinct_scopes by simp
  have "mapE (\<lambda>scope. case List.find (\<lambda>row. f row = scope) rows of
      Some row \<Rightarrow> Inr row | None \<Rightarrow> Inl TypeError) (map f rows) = Inr (map (\<lambda>r. r) rows)"
    by (rule mapE_map_Inr) (simp add: find_unique [OF d])
  then show ?thesis by (simp add: orderByScope_def assms)
qed

lemma orderByScope_Inr:
  assumes "orderByScope f rows = Inr out"
  shows "map f out = APPLICATION_APPEND_QUOTA_SCOPES" "set out \<subseteq> set rows"
proof -
  have *: "list_all2 (\<lambda>scope row. f row = scope \<and> row \<in> set rows) APPLICATION_APPEND_QUOTA_SCOPES out"
    using assms unfolding orderByScope_def mapE_eq_Inr
    by (rule list_all2_mono) (auto simp: find_Some_iff split: option.splits)
  then show "map f out = APPLICATION_APPEND_QUOTA_SCOPES"
    by (auto simp: list_eq_iff_nth_eq list_all2_conv_all_nth)
  show "set out \<subseteq> set rows"
    using * by (auto simp: list_all2_conv_all_nth in_set_conv_nth)
qed

lemma setSize_scopes: "setSize APPLICATION_APPEND_QUOTA_SCOPES = 5"
  by (simp add: setSize_def distinct_remdups_id distinct_scopes)

lemma mapE_valid:
  assumes "mapE p xs = Inr ys" "\<And>v r. p v = Inr r \<Longrightarrow> P r"
  shows "\<forall>y\<in>set ys. P y" "length ys = length xs"
proof -
  have *: "list_all2 (\<lambda>x y. P y) xs ys"
    using assms(1) unfolding mapE_eq_Inr by (rule list_all2_mono) (rule assms(2))
  then show "\<forall>y\<in>set ys. P y" by (auto simp: list_all2_conv_all_nth in_set_conv_nth)
  show "length ys = length xs" using * by (simp add: list_all2_lengthD)
qed

lemma quotaRows_mkArray: "quotaRows (mkArray xs) = (if length xs = 5 then Inr xs else Inl DeliveryStateValidationError)"
  by (simp add: quotaRows_def)

definition encodeRows :: "('r \<Rightarrow> jsval) \<Rightarrow> 'r list \<Rightarrow> jsval" where
  "encodeRows enc rows = mkArray (map enc rows)"

text \<open>The row sets each parser returns.\<close>

definition countersValid :: "lockedQuotaCounter list \<Rightarrow> bool" where
  "countersValid qs = (map qc_scope qs = APPLICATION_APPEND_QUOTA_SCOPES \<and> (\<forall>q\<in>set qs. quotaCounterValid q))"

definition deltasValid :: "quotaDelta list \<Rightarrow> bool" where
  "deltasValid ds = (map qd_scope ds = APPLICATION_APPEND_QUOTA_SCOPES \<and> (\<forall>d\<in>set ds. quotaDeltaValid d))"

definition bindingsValid :: "quotaBinding list \<Rightarrow> bool" where
  "bindingsValid bs = (map qb_scope bs = APPLICATION_APPEND_QUOTA_SCOPES \<and> (\<forall>b\<in>set bs. quotaBindingValid b))"

definition reservationsValid :: "(bytes \<Rightarrow> bytes) \<Rightarrow> quotaReservation list \<Rightarrow> bool" where
  "reservationsValid H rs = (map qd_scope rs = APPLICATION_APPEND_QUOTA_SCOPES
     \<and> (\<forall>r\<in>set rs. quotaReservationValid H r) \<and> distinct (map qr_reservationId rs))"

lemma canonical_length: "map f rows = APPLICATION_APPEND_QUOTA_SCOPES \<Longrightarrow> length rows = 5"
  by (metis length_map length_scopes)

lemma canonical_complete: "map f rows = APPLICATION_APPEND_QUOTA_SCOPES \<Longrightarrow> scope \<in> f ` set rows"
  by (metis list.set_map mem_scopes)

lemma mapE_encode: "(\<And>r. r \<in> set rows \<Longrightarrow> p (enc r) = Inr r) \<Longrightarrow> mapE p (map enc rows) = Inr rows"
  using mapE_map_Inr [of rows p enc "\<lambda>r. r"] by simp

interpretation counters_codec: record_codec parseLockedQuotaCounters "encodeRows encodeQuotaCounter" countersValid
proof
  show "countersValid qs" if ok: "parseLockedQuotaCounters v = Inr qs" for v qs
  proof -
    obtain rows quotas where "mapE parseQuotaCounter rows = Inr quotas" "orderByScope qc_scope quotas = Inr qs"
      using ok by (auto simp: parseLockedQuotaCounters_def bindE_eq_Inr Let_def split: if_splits)
    then show ?thesis
      using mapE_valid(1) [of parseQuotaCounter rows quotas quotaCounterValid] orderByScope_Inr counter_codec.parse_wf
      unfolding countersValid_def by blast
  qed
  show "parseLockedQuotaCounters (encodeRows encodeQuotaCounter qs) = Inr qs" if "countersValid qs" for qs
    using that canonical_length [of qc_scope qs] canonical_complete [of qc_scope qs]
    by (simp add: parseLockedQuotaCounters_def encodeRows_def quotaRows_mkArray countersValid_def list_ex_iff
        mapE_encode counter_codec.parse_encode Let_def setSize_scopes orderByScope_id)
qed

interpretation deltas_codec: record_codec parseApplicationAppendQuotaCapacityDeltas "encodeRows encodeQuotaDelta" deltasValid
proof
  show "deltasValid qs" if ok: "parseApplicationAppendQuotaCapacityDeltas v = Inr qs" for v qs
  proof -
    obtain rows quotas where "mapE parseQuotaCapacityDeltaRecord rows = Inr quotas" "orderByScope qd_scope quotas = Inr qs"
      using ok by (auto simp: parseApplicationAppendQuotaCapacityDeltas_def bindE_eq_Inr Let_def split: if_splits)
    then show ?thesis
      using mapE_valid(1) [of parseQuotaCapacityDeltaRecord rows quotas quotaDeltaValid] orderByScope_Inr
        delta_codec.parse_wf
      unfolding deltasValid_def by blast
  qed
  show "parseApplicationAppendQuotaCapacityDeltas (encodeRows encodeQuotaDelta qs) = Inr qs" if "deltasValid qs" for qs
    using that canonical_length [of qd_scope qs] canonical_complete [of qd_scope qs]
    by (simp add: parseApplicationAppendQuotaCapacityDeltas_def encodeRows_def quotaRows_mkArray deltasValid_def
        list_ex_iff mapE_encode delta_codec.parse_encode Let_def setSize_scopes orderByScope_id)
qed

lemma compoundKey_scope: "compoundKey b = compoundKey c \<Longrightarrow> qb_scope b = qb_scope c"
  unfolding compoundKey_def Let_def
  by (cases "qb_scope b"; cases "qb_scope c") (simp_all add: char_of_def bit_iff_odd)

lemma setSize_compound:
  assumes "map qb_scope bs = APPLICATION_APPEND_QUOTA_SCOPES"
  shows "setSize (map compoundKey bs) = 5"
proof -
  have "distinct (map qb_scope bs)" using assms distinct_scopes by simp
  then have "distinct bs" "inj_on qb_scope (set bs)" by (simp_all add: distinct_map)
  then have "distinct (map compoundKey bs)"
    unfolding distinct_map inj_on_def using compoundKey_scope by blast
  then show ?thesis using canonical_length [OF assms] by (simp add: setSize_def distinct_remdups_id)
qed

interpretation bindings_codec: record_codec parseExpectedQuotaIdentities "encodeRows encodeQuotaBinding" bindingsValid
proof
  show "bindingsValid qs" if ok: "parseExpectedQuotaIdentities v = Inr qs" for v qs
  proof -
    obtain rows quotas where "mapE parseQuotaBinding rows = Inr quotas" "orderByScope qb_scope quotas = Inr qs"
      using ok by (auto simp: parseExpectedQuotaIdentities_def bindE_eq_Inr split: if_splits)
    then show ?thesis
      using mapE_valid(1) [of parseQuotaBinding rows quotas quotaBindingValid] orderByScope_Inr binding_codec.parse_wf
      unfolding bindingsValid_def by blast
  qed
  show "parseExpectedQuotaIdentities (encodeRows encodeQuotaBinding qs) = Inr qs" if "bindingsValid qs" for qs
    using that canonical_length [of qb_scope qs]
    by (simp add: parseExpectedQuotaIdentities_def encodeRows_def quotaRows_mkArray bindingsValid_def 
        mapE_encode binding_codec.parse_encode setSize_scopes setSize_compound orderByScope_id)
qed

subsection \<open>Reservations\<close>

lemma filter_unique:
  "distinct (map f rows) \<Longrightarrow> r \<in> set rows \<Longrightarrow> filter (\<lambda>x. f x = f r) rows = [r]"
proof (induction rows)
  case (Cons x rows)
  show ?case
  proof (cases "x = r")
    case True
    with Cons.prems have "\<forall>y\<in>set rows. f y \<noteq> f r" by (metis distinct.simps(2) image_eqI list.set_map list.simps(9))
    with True show ?thesis by (simp add: filter_empty_conv)
  next
    case False
    with Cons have "r \<in> set rows" "f x \<noteq> f r" by (auto simp: image_iff)
    with Cons show ?thesis by simp
  qed
qed simp

lemma reservation_order_id:
  assumes "map f rows = APPLICATION_APPEND_QUOTA_SCOPES"
  shows "mapE (\<lambda>scope. let matches = filter (\<lambda>r. f r = scope) rows in
      if length matches \<noteq> 1 then Inl e else Inr (hd matches)) APPLICATION_APPEND_QUOTA_SCOPES = Inr rows"
proof -
  have d: "distinct (map f rows)" using assms distinct_scopes by simp
  have "mapE (\<lambda>scope. let matches = filter (\<lambda>r. f r = scope) rows in
      if length matches \<noteq> 1 then Inl e else Inr (hd matches)) (map f rows) = Inr (map (\<lambda>r. r) rows)"
    by (rule mapE_map_Inr) (simp add: filter_unique [OF d])
  then show ?thesis by (simp add: assms)
qed

lemma reservation_order_Inr:
  assumes "mapE (\<lambda>scope. let matches = filter (\<lambda>r. f r = scope) rows in
      if length matches \<noteq> 1 then Inl e else Inr (hd matches)) APPLICATION_APPEND_QUOTA_SCOPES = Inr out"
  shows "map f out = APPLICATION_APPEND_QUOTA_SCOPES" "set out \<subseteq> set rows"
proof -
  have *: "list_all2 (\<lambda>scope row. f row = scope \<and> row \<in> set rows) APPLICATION_APPEND_QUOTA_SCOPES out"
    using assms unfolding mapE_eq_Inr
  proof (rule list_all2_mono)
    fix scope row
    assume "(let matches = filter (\<lambda>r. f r = scope) rows in
      if length matches \<noteq> 1 then Inl e else Inr (hd matches)) = Inr row"
    then have "filter (\<lambda>r. f r = scope) rows = [row]"
      by (cases "filter (\<lambda>r. f r = scope) rows") (auto simp: Let_def split: if_splits)
    then show "f row = scope \<and> row \<in> set rows"
      using filter_eq_ConsD [of "\<lambda>r. f r = scope" rows row "[]"] by auto
  qed
  then show "map f out = APPLICATION_APPEND_QUOTA_SCOPES"
    by (auto simp: list_eq_iff_nth_eq list_all2_conv_all_nth)
  show "set out \<subseteq> set rows"
    using * by (auto simp: list_all2_conv_all_nth in_set_conv_nth)
qed

lemma setSize_distinct: "setSize xs = length xs \<longleftrightarrow> distinct xs"
  by (simp add: setSize_def length_remdups_eq)

lemma parseReservations_valid:
  assumes "parseApplicationAppendQuotaCapacityReservations H v = Inr rs"
  shows "reservationsValid H rs"
proof -
  obtain rows parsed where p: "mapE (parseQuotaReservation H) rows = Inr parsed"
    and o: "mapE (\<lambda>scope. let matches = filter (\<lambda>r. qd_scope r = scope) parsed in
        if length matches \<noteq> 1 then Inl DeliveryStateValidationError else Inr (hd matches))
      APPLICATION_APPEND_QUOTA_SCOPES = Inr rs" and d: "setSize (map qr_reservationId rs) = length rs"
    using assms by (auto simp: parseApplicationAppendQuotaCapacityReservations_def bindE_eq_Inr split: if_splits)
  have "\<forall>r\<in>set parsed. quotaReservationValid H r"
    using p by (rule mapE_valid) (rule parseQuotaReservation_valid)
  with reservation_order_Inr [OF o] d show ?thesis
    using setSize_distinct [of "map qr_reservationId rs"] by (auto simp: reservationsValid_def)
qed

lemma parseReservations_encode:
  assumes "reservationsValid H rs"
  shows "parseApplicationAppendQuotaCapacityReservations H (encodeRows encodeQuotaReservation rs) = Inr rs"
proof -
  have s: "map qd_scope rs = APPLICATION_APPEND_QUOTA_SCOPES" using assms by (simp add: reservationsValid_def)
  have "mapE (parseQuotaReservation H) (map encodeQuotaReservation rs) = Inr rs"
    using assms by (intro mapE_encode parseQuotaReservation_encode) (auto simp: reservationsValid_def)
  moreover have "setSize (map qr_reservationId rs) = length rs"
    using assms setSize_distinct [of "map qr_reservationId rs"] by (simp add: reservationsValid_def)
  ultimately show ?thesis
    using reservation_order_id [OF s] canonical_length [OF s]
    by (simp add: parseApplicationAppendQuotaCapacityReservations_def encodeRows_def quotaRows_mkArray)
qed

interpretation reservations_codec: record_codec "parseApplicationAppendQuotaCapacityReservations H"
    "encodeRows encodeQuotaReservation" "reservationsValid H" for H
  by unfold_locales (auto intro: parseReservations_valid parseReservations_encode)

subsection \<open>Conversion moves exactly the reserved capacity\<close>

text \<open>What a conversion does to one row, on numbers.\<close>

definition sameQuotaIdentity :: "lockedQuotaCounter \<Rightarrow> lockedQuotaCounter \<Rightarrow> bool" where
  "sameQuotaIdentity q q' = (qc_scope q' = qc_scope q \<and> qc_scopeHash q' = qc_scopeHash q
     \<and> qc_quotaName q' = qc_quotaName q \<and> qc_windowStartedAt q' = qc_windowStartedAt q
     \<and> qc_windowSeconds q' = qc_windowSeconds q \<and> qc_operationLimit q' = qc_operationLimit q
     \<and> qc_byteLimit q' = qc_byteLimit q)"

definition rowConverted :: "conversionMode \<Rightarrow> lockedQuotaCounter \<Rightarrow> quotaReservation \<Rightarrow> lockedQuotaCounter \<Rightarrow> bool" where
  "rowConverted mode q r q' = (sameQuotaIdentity q q'
     \<and> bigInt (qc_rowVersion q') = bigInt (qc_rowVersion q) + 1
     \<and> bigInt (qc_reservedOperationCount q') = bigInt (qc_reservedOperationCount q) - bigInt (qd_reservationOperationCount r)
     \<and> bigInt (qc_reservedByteCount q') = bigInt (qc_reservedByteCount q) - bigInt (qd_reservationByteCount r)
     \<and> bigInt (qc_operationCount q') = bigInt (qc_operationCount q)
         + (case mode of Finalize \<Rightarrow> bigInt (qd_reservationOperationCount r) | Release \<Rightarrow> 0)
     \<and> bigInt (qc_byteCount q') = bigInt (qc_byteCount q)
         + (case mode of Finalize \<Rightarrow> bigInt (qd_reservationByteCount r) | Release \<Rightarrow> 0))"

definition rowHolds :: "lockedQuotaCounter \<Rightarrow> quotaReservation \<Rightarrow> bool" where
  "rowHolds q r = (qd_scope r = qc_scope q \<and> qd_scopeHash r = qc_scopeHash q \<and> qd_quotaName r = qc_quotaName q
     \<and> qd_windowStartedAt r = qc_windowStartedAt q \<and> qd_windowSeconds r = qc_windowSeconds q
     \<and> bigInt (qd_rowVersionAfter r) \<le> bigInt (qc_rowVersion q)
     \<and> bigInt (qd_reservationOperationCount r) \<le> bigInt (qc_reservedOperationCount q)
     \<and> bigInt (qd_reservationByteCount r) \<le> bigInt (qc_reservedByteCount q))"

lemma convertQuotaRow_sound:
  assumes "convertQuotaRow mode rs q = Inr q'" "quotaCounterValid q"
    "List.find (\<lambda>r. qd_scope r = qc_scope q) rs = Some r"
  shows "rowHolds q r \<and> rowConverted mode q r q' \<and> quotaCounterValid q'"
proof -
  have scope: "qd_scope r = qc_scope q" using assms(3) by (auto simp: find_Some_iff)
  obtain rv ro rb oc bc where rv: "addUint63 (qc_rowVersion q) 1 = Some rv"
    and ro: "subtractUint63 (qc_reservedOperationCount q) (qd_reservationOperationCount r) = Some ro"
    and rb: "subtractUint63 (qc_reservedByteCount q) (qd_reservationByteCount r) = Some rb"
    and oc: "(case mode of Finalize \<Rightarrow> addUint63 (qc_operationCount q) (bigInt (qd_reservationOperationCount r))
        | Release \<Rightarrow> Some (qc_operationCount q)) = Some oc"
    and bc: "(case mode of Finalize \<Rightarrow> addUint63 (qc_byteCount q) (bigInt (qd_reservationByteCount r))
        | Release \<Rightarrow> Some (qc_byteCount q)) = Some bc"
    and lim: "bigInt oc + bigInt ro \<le> bigInt (qc_operationLimit q)" "bigInt bc + bigInt rb \<le> bigInt (qc_byteLimit q)"
    and hold: "rowHolds q r"
    and q': "q' = q\<lparr>qc_operationCount := oc, qc_byteCount := bc, qc_reservedOperationCount := ro,
        qc_reservedByteCount := rb, qc_rowVersion := rv\<rparr>"
    using assms(1) unfolding convertQuotaRow_def assms(3)
    by (auto simp: rowHolds_def scope not_less split: if_splits option.splits)
  note nums = addUint63_valid [OF rv] subtractUint63_valid [OF ro] subtractUint63_valid [OF rb]
  have ocv: "uint63Valid oc \<and> bigInt oc = bigInt (qc_operationCount q)
      + (case mode of Finalize \<Rightarrow> bigInt (qd_reservationOperationCount r) | Release \<Rightarrow> 0)"
    using oc assms(2) addUint63_valid by (cases mode) (auto simp: quotaCounterValid_def)
  have bcv: "uint63Valid bc \<and> bigInt bc = bigInt (qc_byteCount q)
      + (case mode of Finalize \<Rightarrow> bigInt (qd_reservationByteCount r) | Release \<Rightarrow> 0)"
    using bc assms(2) addUint63_valid by (cases mode) (auto simp: quotaCounterValid_def)
  show ?thesis
    using hold nums ocv bcv lim assms(2)
    by (simp add: q' rowConverted_def sameQuotaIdentity_def quotaCounterValid_def)
qed

lemma convertQuotaRow_complete:
  assumes "quotaCounterValid q" "List.find (\<lambda>r. qd_scope r = qc_scope q) rs = Some r" "rowHolds q r"
    "bigInt (qc_rowVersion q) < UINT63_MAX"
  shows "\<exists>q'. convertQuotaRow mode rs q = Inr q'"
proof -
  have b: "bigInt (qc_operationCount q) + bigInt (qc_reservedOperationCount q) \<le> bigInt (qc_operationLimit q)"
    "bigInt (qc_byteCount q) + bigInt (qc_reservedByteCount q) \<le> bigInt (qc_byteLimit q)"
    "bigInt (qc_operationLimit q) \<le> UINT63_MAX" "bigInt (qc_byteLimit q) \<le> UINT63_MAX"
    using assms(1) by (auto simp: quotaCounterValid_def uint63Valid_def)
  have h: "bigInt (qd_reservationOperationCount r) \<le> bigInt (qc_reservedOperationCount q)"
    "bigInt (qd_reservationByteCount r) \<le> bigInt (qc_reservedByteCount q)"
    using assms(3) by (auto simp: rowHolds_def)
  have nn: "0 \<le> bigInt (qc_rowVersion q)" "0 \<le> bigInt (qc_operationCount q)" "0 \<le> bigInt (qc_byteCount q)"
    "0 \<le> bigInt (qd_reservationOperationCount r)" "0 \<le> bigInt (qd_reservationByteCount r)" by simp_all
  have "addUint63 (qc_rowVersion q) 1 = Some (bigIntToString (bigInt (qc_rowVersion q) + 1))"
    using assms(4) nn by (simp add: addUint63_Some)
  moreover have "subtractUint63 (qc_reservedOperationCount q) (qd_reservationOperationCount r) =
      Some (bigIntToString (bigInt (qc_reservedOperationCount q) - bigInt (qd_reservationOperationCount r)))"
    using h b nn unfolding subtractUint63_def addUint63_Some by (simp del: bigInt_nonneg)
  moreover have "subtractUint63 (qc_reservedByteCount q) (qd_reservationByteCount r) =
      Some (bigIntToString (bigInt (qc_reservedByteCount q) - bigInt (qd_reservationByteCount r)))"
    using h b nn unfolding subtractUint63_def addUint63_Some by (simp del: bigInt_nonneg)
  moreover have "addUint63 (qc_operationCount q) (bigInt (qd_reservationOperationCount r)) =
      Some (bigIntToString (bigInt (qc_operationCount q) + bigInt (qd_reservationOperationCount r)))"
    using h b nn unfolding addUint63_Some by (simp del: bigInt_nonneg)
  moreover have "addUint63 (qc_byteCount q) (bigInt (qd_reservationByteCount r)) =
      Some (bigIntToString (bigInt (qc_byteCount q) + bigInt (qd_reservationByteCount r)))"
    using h b nn unfolding addUint63_Some by (simp del: bigInt_nonneg)
  moreover have
    "bigInt (qc_operationCount q) + (bigInt (qc_reservedOperationCount q) - bigInt (qd_reservationOperationCount r))
       \<le> bigInt (qc_operationLimit q)"
    "bigInt (qc_byteCount q) + (bigInt (qc_reservedByteCount q) - bigInt (qd_reservationByteCount r))
       \<le> bigInt (qc_byteLimit q)"
    using b nn by linarith+
  ultimately show ?thesis
    using assms(2,3) h b
    by (cases mode) (auto simp: convertQuotaRow_def rowHolds_def not_less)
qed

lemma find_aligned:
  assumes "map f xs = APPLICATION_APPEND_QUOTA_SCOPES" "map g ys = APPLICATION_APPEND_QUOTA_SCOPES" "i < length xs"
  shows "List.find (\<lambda>y. g y = f (xs ! i)) ys = Some (ys ! i)"
proof -
  have len: "length xs = length ys" using assms canonical_length by metis
  have "f (xs ! i) = g (ys ! i)" using assms len by (metis nth_map)
  moreover have "distinct (map g ys)" using assms(2) distinct_scopes by simp
  ultimately show ?thesis using find_unique [of g ys "ys ! i"] assms(3) len by simp
qed

text \<open>The owner test on the live reservations.\<close>

definition ownedLive :: "string \<Rightarrow> string \<Rightarrow> string \<Rightarrow> quotaReservation list \<Rightarrow> bool" where
  "ownedLive digest generation token rs = (\<forall>r\<in>set rs. qr_state r = Live \<and> qr_pendingPreparationDigest r = digest
     \<and> qr_fenceGeneration r = generation \<and> qr_fenceTokenHash r = token)"

lemma validateQuotaCapacityConversion_Inr:
  assumes "validateQuotaCapacityConversion H input mode = Inr (qs', rs')"
  obtains qs rs digest generation token where
    "parseLockedQuotaCounters (ci_currentQuotas input) = Inr qs"
    "parseApplicationAppendQuotaCapacityReservations H (ci_currentCapacityReservations input) = Inr rs"
    "ci_pendingPreparationDigest input = JStr digest" "ci_fenceGeneration input = JStr generation"
    "ci_fenceTokenHash input = JStr token" "ownedLive digest generation token rs"
    "mapE (convertQuotaRow mode rs) qs = Inr qs'"
    "rs' = map (\<lambda>r. r\<lparr>qr_state := terminalState mode\<rparr>) rs"
  using assms unfolding validateQuotaCapacityConversion_def bindE_eq_Inr Let_def
  by (auto simp: guardE_eq_Inr parse_simps list_ex_iff ownedLive_def split: if_splits)

lemma convertQuotaRows_sound:
  assumes "mapE (convertQuotaRow mode rs) qs = Inr qs'" "countersValid qs" "reservationsValid H rs"
  shows "length qs' = length qs" "length rs = length qs"
    "\<And>i. i < length qs \<Longrightarrow> rowHolds (qs ! i) (rs ! i) \<and> rowConverted mode (qs ! i) (rs ! i) (qs' ! i)
        \<and> quotaCounterValid (qs' ! i)"
proof -
  have s: "map qc_scope qs = APPLICATION_APPEND_QUOTA_SCOPES" "map qd_scope rs = APPLICATION_APPEND_QUOTA_SCOPES"
    using assms(2,3) by (auto simp: countersValid_def reservationsValid_def)
  show "length rs = length qs" using canonical_length [OF s(1)] canonical_length [OF s(2)] by simp
  have each: "list_all2 (\<lambda>q q'. convertQuotaRow mode rs q = Inr q') qs qs'"
    using assms(1) by (simp add: mapE_eq_Inr)
  then show len: "length qs' = length qs" by (simp add: list_all2_lengthD)
  show "rowHolds (qs ! i) (rs ! i) \<and> rowConverted mode (qs ! i) (rs ! i) (qs' ! i) \<and> quotaCounterValid (qs' ! i)"
    if "i < length qs" for i
    using that each assms(2) find_aligned [OF s that] convertQuotaRow_sound
    by (fastforce simp: list_all2_conv_all_nth countersValid_def)
qed

lemma convertedRows_valid:
  assumes "mapE (convertQuotaRow mode rs) qs = Inr qs'" "countersValid qs" "reservationsValid H rs"
  shows "countersValid qs'"
proof -
  note c = convertQuotaRows_sound [OF assms]
  have "map qc_scope qs' = map qc_scope qs"
    using c by (intro nth_equalityI) (auto simp: rowConverted_def sameQuotaIdentity_def)
  moreover have "\<forall>q\<in>set qs'. quotaCounterValid q"
    using c by (auto simp: in_set_conv_nth)
  ultimately show ?thesis using assms(2) by (simp add: countersValid_def)
qed

lemma terminal_reservations_valid:
  "reservationsValid H rs \<Longrightarrow> reservationsValid H (map (\<lambda>r. r\<lparr>qr_state := s\<rparr>) rs)"
  by (auto simp: reservationsValid_def quotaReservationValid_def quotaReservationDelta_def comp_def)

lemma convertQuotaRows_complete:
  assumes "countersValid qs" "reservationsValid H rs" "\<And>i. i < length qs \<Longrightarrow> rowHolds (qs ! i) (rs ! i)"
    "\<forall>q\<in>set qs. bigInt (qc_rowVersion q) < UINT63_MAX"
  shows "\<exists>qs'. mapE (convertQuotaRow mode rs) qs = Inr qs'"
proof -
  have s: "map qc_scope qs = APPLICATION_APPEND_QUOTA_SCOPES" "map qd_scope rs = APPLICATION_APPEND_QUOTA_SCOPES"
    using assms(1,2) by (auto simp: countersValid_def reservationsValid_def)
  have "\<exists>q'. convertQuotaRow mode rs q = Inr q'" if "q \<in> set qs" for q
  proof -
    obtain i where i: "i < length qs" "q = qs ! i" using \<open>q \<in> set qs\<close> by (auto simp: in_set_conv_nth)
    show ?thesis
      using assms i find_aligned [OF s i(1)] by (intro convertQuotaRow_complete) (auto simp: countersValid_def)
  qed
  then have "mapE (convertQuotaRow mode rs) (map (\<lambda>q. q) qs) = Inr (map (\<lambda>q. projr (convertQuotaRow mode rs q)) qs)"
    by (intro mapE_map_Inr) fastforce
  then show ?thesis by auto
qed

end
