(* ===== verification/ConversationState.thy ===== *)
theory ConversationState
  imports StateParsers
begin

section \<open>Locked rows of a conversation\<close>

text \<open>
  The rows an append reads while they are locked (\<open>src/src/production/delivery/state.ts\<close>): the
  conversation, the sender's membership, the send grant, the witnessed policy head and the usage
  counters, each with its parser in the order the source evaluates it. Every parser is a codec: what it
  returns is well formed and is parsed back from its encoding.
\<close>

lemmas nullable_parsers [parse_simps] =
  parseNullable_iff [OF parsePositiveUint63_iff]
  parseNullable_iff [OF parseHash32_iff]

lemma nullable_witness [parse_simps]:
  "parseNullable parseWitnessCheckpointId v = Inr x \<longleftrightarrow>
     v = encodeNullable x \<and> (case x of None \<Rightarrow> True | Some s \<Rightarrow> uuidV4Valid s)"
  by (rule parseNullable_iff) (simp add: parse_simps)

subsection \<open>Conversation\<close>

record lockedConversationState =
  cv_realmId :: string
  cv_conversationId :: string
  cv_projectScopeId :: string
  cv_tenantScopeId :: string
  cv_kind :: conversationKind
  cv_generation :: string
  cv_releaseProfileId :: string
  cv_deliveryLimitsDigest :: string
  cv_releaseTrustRootDigest :: string
  cv_quotaPolicyDigest :: string
  cv_groupIdHash :: string
  cv_state :: conversationLifecycle
  cv_etag :: string
  cv_epoch :: string
  cv_rosterVersion :: string
  cv_rosterHash :: string
  cv_recipientSetVersion :: string
  cv_recipientSetHash :: string
  cv_confirmedTranscriptHash :: string
  cv_lastPosition :: string
  cv_currentLogHeadHash :: string
  cv_currentPolicyHeadSequence :: string
  cv_currentPolicyHeadHash :: string

definition CONVERSATION_KEYS :: "string list" where
  "CONVERSATION_KEYS =
    [''realmId'', ''conversationId'', ''projectScopeId'', ''tenantScopeId'', ''kind'', ''generation'',
     ''releaseProfileId'', ''deliveryLimitsDigest'', ''releaseTrustRootDigest'', ''quotaPolicyDigest'',
     ''groupIdHash'', ''state'', ''etag'', ''epoch'', ''rosterVersion'', ''rosterHash'',
     ''recipientSetVersion'', ''recipientSetHash'', ''confirmedTranscriptHash'', ''lastPosition'',
     ''currentLogHeadHash'', ''currentPolicyHeadSequence'', ''currentPolicyHeadHash'']"

definition parseLockedConversationState :: "jsval \<Rightarrow> lockedConversationState res" where
  "parseLockedConversationState v =
     bindE (expectExactRecord v CONVERSATION_KEYS) (\<lambda>record.
     bindE (parseConversationState (record ''state'')) (\<lambda>state.
     bindE (parsePolicyRealmId (record ''realmId'')) (\<lambda>realmId.
     bindE (parseConversationId (record ''conversationId'')) (\<lambda>conversationId.
     bindE (parseScopeSubjectId (record ''projectScopeId'')) (\<lambda>projectScopeId.
     bindE (parseScopeSubjectId (record ''tenantScopeId'')) (\<lambda>tenantScopeId.
     bindE (parseConversationKind (record ''kind'')) (\<lambda>kind.
     bindE (parsePositiveUint63 (record ''generation'')) (\<lambda>generation.
     bindE (parseReleaseProfileId (record ''releaseProfileId'')) (\<lambda>releaseProfileId.
     bindE (parseHash32 (record ''deliveryLimitsDigest'')) (\<lambda>deliveryLimitsDigest.
     bindE (parseHash32 (record ''releaseTrustRootDigest'')) (\<lambda>releaseTrustRootDigest.
     bindE (parseHash32 (record ''quotaPolicyDigest'')) (\<lambda>quotaPolicyDigest.
     bindE (parseHash32 (record ''groupIdHash'')) (\<lambda>groupIdHash.
     bindE (parseConversationEtag (record ''etag'')) (\<lambda>etag.
     bindE (parseUint63String (record ''epoch'')) (\<lambda>epoch.
     bindE (parseUint63String (record ''rosterVersion'')) (\<lambda>rosterVersion.
     bindE (parseHash32 (record ''rosterHash'')) (\<lambda>rosterHash.
     bindE (parseUint63String (record ''recipientSetVersion'')) (\<lambda>recipientSetVersion.
     bindE (parseHash32 (record ''recipientSetHash'')) (\<lambda>recipientSetHash.
     bindE (parseHash32 (record ''confirmedTranscriptHash'')) (\<lambda>confirmedTranscriptHash.
     bindE (parseUint63String (record ''lastPosition'')) (\<lambda>lastPosition.
     bindE (parseHash32 (record ''currentLogHeadHash'')) (\<lambda>currentLogHeadHash.
     bindE (parseUint63String (record ''currentPolicyHeadSequence'')) (\<lambda>currentPolicyHeadSequence.
     bindE (parseHash32 (record ''currentPolicyHeadHash'')) (\<lambda>currentPolicyHeadHash.
     Inr \<lparr>cv_realmId = realmId, cv_conversationId = conversationId, cv_projectScopeId = projectScopeId,
          cv_tenantScopeId = tenantScopeId, cv_kind = kind, cv_generation = generation,
          cv_releaseProfileId = releaseProfileId, cv_deliveryLimitsDigest = deliveryLimitsDigest,
          cv_releaseTrustRootDigest = releaseTrustRootDigest, cv_quotaPolicyDigest = quotaPolicyDigest,
          cv_groupIdHash = groupIdHash, cv_state = state, cv_etag = etag, cv_epoch = epoch,
          cv_rosterVersion = rosterVersion, cv_rosterHash = rosterHash,
          cv_recipientSetVersion = recipientSetVersion, cv_recipientSetHash = recipientSetHash,
          cv_confirmedTranscriptHash = confirmedTranscriptHash, cv_lastPosition = lastPosition,
          cv_currentLogHeadHash = currentLogHeadHash,
          cv_currentPolicyHeadSequence = currentPolicyHeadSequence,
          cv_currentPolicyHeadHash = currentPolicyHeadHash\<rparr>))))))))))))))))))))))))"

definition entriesConversation :: "lockedConversationState \<Rightarrow> (string \<times> jsval) list" where
  "entriesConversation r =
     [(''realmId'', JStr (cv_realmId r)), (''conversationId'', JStr (cv_conversationId r)),
      (''projectScopeId'', JStr (cv_projectScopeId r)), (''tenantScopeId'', JStr (cv_tenantScopeId r)),
      (''kind'', JStr (conversationKindText (cv_kind r))), (''generation'', JStr (cv_generation r)),
      (''releaseProfileId'', JStr (cv_releaseProfileId r)),
      (''deliveryLimitsDigest'', JStr (cv_deliveryLimitsDigest r)),
      (''releaseTrustRootDigest'', JStr (cv_releaseTrustRootDigest r)),
      (''quotaPolicyDigest'', JStr (cv_quotaPolicyDigest r)), (''groupIdHash'', JStr (cv_groupIdHash r)),
      (''state'', JStr (conversationLifecycleText (cv_state r))), (''etag'', JStr (cv_etag r)),
      (''epoch'', JStr (cv_epoch r)), (''rosterVersion'', JStr (cv_rosterVersion r)),
      (''rosterHash'', JStr (cv_rosterHash r)), (''recipientSetVersion'', JStr (cv_recipientSetVersion r)),
      (''recipientSetHash'', JStr (cv_recipientSetHash r)),
      (''confirmedTranscriptHash'', JStr (cv_confirmedTranscriptHash r)),
      (''lastPosition'', JStr (cv_lastPosition r)), (''currentLogHeadHash'', JStr (cv_currentLogHeadHash r)),
      (''currentPolicyHeadSequence'', JStr (cv_currentPolicyHeadSequence r)),
      (''currentPolicyHeadHash'', JStr (cv_currentPolicyHeadHash r))]"

definition encodeConversation :: "lockedConversationState \<Rightarrow> jsval" where
  "encodeConversation r = mkRecord (entriesConversation r)"

definition conversationValid :: "lockedConversationState \<Rightarrow> bool" where
  "conversationValid r =
     (quotaNameValid (cv_realmId r) \<and> uuidV4Valid (cv_conversationId r) \<and>
      scopeSubjectValid (cv_projectScopeId r) \<and> scopeSubjectValid (cv_tenantScopeId r) \<and>
      positiveUint63Valid (cv_generation r) \<and> RELEASE_PROFILE_ID (cv_releaseProfileId r) \<and>
      hash32Valid (cv_deliveryLimitsDigest r) \<and> hash32Valid (cv_releaseTrustRootDigest r) \<and>
      hash32Valid (cv_quotaPolicyDigest r) \<and> hash32Valid (cv_groupIdHash r) \<and>
      etagValid (cv_etag r) \<and> uint63Valid (cv_epoch r) \<and> uint63Valid (cv_rosterVersion r) \<and>
      hash32Valid (cv_rosterHash r) \<and> uint63Valid (cv_recipientSetVersion r) \<and>
      hash32Valid (cv_recipientSetHash r) \<and> hash32Valid (cv_confirmedTranscriptHash r) \<and>
      uint63Valid (cv_lastPosition r) \<and> hash32Valid (cv_currentLogHeadHash r) \<and>
      uint63Valid (cv_currentPolicyHeadSequence r) \<and> hash32Valid (cv_currentPolicyHeadHash r))"

lemma entriesConversation_get_1:
  "fieldOf (entriesConversation r) ''realmId'' = JStr (cv_realmId r)"
  "fieldOf (entriesConversation r) ''conversationId'' = JStr (cv_conversationId r)"
  "fieldOf (entriesConversation r) ''projectScopeId'' = JStr (cv_projectScopeId r)"
  "fieldOf (entriesConversation r) ''tenantScopeId'' = JStr (cv_tenantScopeId r)"
  "fieldOf (entriesConversation r) ''kind'' = JStr (conversationKindText (cv_kind r))"
  "fieldOf (entriesConversation r) ''generation'' = JStr (cv_generation r)"
  "fieldOf (entriesConversation r) ''releaseProfileId'' = JStr (cv_releaseProfileId r)"
  "fieldOf (entriesConversation r) ''deliveryLimitsDigest'' = JStr (cv_deliveryLimitsDigest r)"
  by (simp_all add: entriesConversation_def)

lemma entriesConversation_get_2:
  "fieldOf (entriesConversation r) ''releaseTrustRootDigest'' = JStr (cv_releaseTrustRootDigest r)"
  "fieldOf (entriesConversation r) ''quotaPolicyDigest'' = JStr (cv_quotaPolicyDigest r)"
  "fieldOf (entriesConversation r) ''groupIdHash'' = JStr (cv_groupIdHash r)"
  "fieldOf (entriesConversation r) ''state'' = JStr (conversationLifecycleText (cv_state r))"
  "fieldOf (entriesConversation r) ''etag'' = JStr (cv_etag r)"
  "fieldOf (entriesConversation r) ''epoch'' = JStr (cv_epoch r)"
  "fieldOf (entriesConversation r) ''rosterVersion'' = JStr (cv_rosterVersion r)"
  "fieldOf (entriesConversation r) ''rosterHash'' = JStr (cv_rosterHash r)"
  by (simp_all add: entriesConversation_def)

lemma entriesConversation_get_3:
  "fieldOf (entriesConversation r) ''recipientSetVersion'' = JStr (cv_recipientSetVersion r)"
  "fieldOf (entriesConversation r) ''recipientSetHash'' = JStr (cv_recipientSetHash r)"
  "fieldOf (entriesConversation r) ''confirmedTranscriptHash'' = JStr (cv_confirmedTranscriptHash r)"
  "fieldOf (entriesConversation r) ''lastPosition'' = JStr (cv_lastPosition r)"
  "fieldOf (entriesConversation r) ''currentLogHeadHash'' = JStr (cv_currentLogHeadHash r)"
  "fieldOf (entriesConversation r) ''currentPolicyHeadSequence'' = JStr (cv_currentPolicyHeadSequence r)"
  "fieldOf (entriesConversation r) ''currentPolicyHeadHash'' = JStr (cv_currentPolicyHeadHash r)"
  by (simp_all add: entriesConversation_def)

lemmas entriesConversation_get [simp] = entriesConversation_get_1 entriesConversation_get_2 entriesConversation_get_3

lemma expect_encodeConversation: "expectExactRecord (encodeConversation r) CONVERSATION_KEYS = Inr (fieldOf (entriesConversation r))"
  unfolding encodeConversation_def by (rule expectExactRecord_mkRecord) (simp_all add: CONVERSATION_KEYS_def entriesConversation_def)

interpretation conversation_codec: record_codec parseLockedConversationState encodeConversation conversationValid
proof
  show "conversationValid r" if "parseLockedConversationState v = Inr r" for v r
    using that unfolding parseLockedConversationState_def
    by (elim bindE_InrE, simp only: parse_simps guardE_eq_Inr sum.inject, elim conjE, hypsubst, simp add: conversationValid_def)
  show "parseLockedConversationState (encodeConversation r) = Inr r" if "conversationValid r" for r
    using that by (simp add: parseLockedConversationState_def expect_encodeConversation parse_ok conversationValid_def split: option.splits)
qed

subsection \<open>Sender membership\<close>

record lockedSenderMembership =
  sm_conversationId :: string
  sm_accountId :: string
  sm_installationId :: string
  sm_credentialId :: string
  sm_credentialFingerprint :: string
  sm_credentialRevocationVersion :: string
  sm_installationState :: installationState
  sm_credentialState :: credentialState
  sm_credentialExpiresAt :: string
  sm_joinedPosition :: string
  sm_removedPosition :: "string option"

definition MEMBERSHIP_KEYS :: "string list" where
  "MEMBERSHIP_KEYS =
    [''conversationId'', ''accountId'', ''installationId'', ''credentialId'', ''credentialFingerprint'',
     ''credentialRevocationVersion'', ''installationState'', ''credentialState'', ''credentialExpiresAt'',
     ''joinedPosition'', ''removedPosition'']"

definition parseLockedSenderMembership :: "jsval \<Rightarrow> lockedSenderMembership res" where
  "parseLockedSenderMembership v =
     bindE (expectExactRecord v MEMBERSHIP_KEYS) (\<lambda>record.
     bindE (parseConversationId (record ''conversationId'')) (\<lambda>conversationId.
     bindE (parseAccountId (record ''accountId'')) (\<lambda>accountId.
     bindE (parseInstallationId (record ''installationId'')) (\<lambda>installationId.
     bindE (parseCredentialId (record ''credentialId'')) (\<lambda>credentialId.
     bindE (parseFingerprint32 (record ''credentialFingerprint'')) (\<lambda>credentialFingerprint.
     bindE (parseUint63String (record ''credentialRevocationVersion'')) (\<lambda>credentialRevocationVersion.
     bindE (parseInstallationState (record ''installationState'')) (\<lambda>installationState.
     bindE (parseCredentialState (record ''credentialState'')) (\<lambda>credentialState.
     bindE (parseRfc3339Millis (record ''credentialExpiresAt'')) (\<lambda>credentialExpiresAt.
     bindE (parsePositiveUint63 (record ''joinedPosition'')) (\<lambda>joinedPosition.
     bindE (parseNullable parsePositiveUint63 (record ''removedPosition'')) (\<lambda>removedPosition.
     Inr \<lparr>sm_conversationId = conversationId, sm_accountId = accountId, sm_installationId = installationId,
          sm_credentialId = credentialId, sm_credentialFingerprint = credentialFingerprint,
          sm_credentialRevocationVersion = credentialRevocationVersion,
          sm_installationState = installationState, sm_credentialState = credentialState,
          sm_credentialExpiresAt = credentialExpiresAt, sm_joinedPosition = joinedPosition,
          sm_removedPosition = removedPosition\<rparr>))))))))))))"

definition entriesMembership :: "lockedSenderMembership \<Rightarrow> (string \<times> jsval) list" where
  "entriesMembership r =
     [(''conversationId'', JStr (sm_conversationId r)), (''accountId'', JStr (sm_accountId r)),
      (''installationId'', JStr (sm_installationId r)), (''credentialId'', JStr (sm_credentialId r)),
      (''credentialFingerprint'', JStr (sm_credentialFingerprint r)),
      (''credentialRevocationVersion'', JStr (sm_credentialRevocationVersion r)),
      (''installationState'', JStr (installationStateText (sm_installationState r))),
      (''credentialState'', JStr (credentialStateText (sm_credentialState r))),
      (''credentialExpiresAt'', JStr (sm_credentialExpiresAt r)),
      (''joinedPosition'', JStr (sm_joinedPosition r)),
      (''removedPosition'', encodeNullable (sm_removedPosition r))]"

definition encodeMembership :: "lockedSenderMembership \<Rightarrow> jsval" where
  "encodeMembership r = mkRecord (entriesMembership r)"

definition membershipValid :: "lockedSenderMembership \<Rightarrow> bool" where
  "membershipValid r =
     (uuidV4Valid (sm_conversationId r) \<and> uuidV4Valid (sm_accountId r) \<and>
      uuidV4Valid (sm_installationId r) \<and> uuidV4Valid (sm_credentialId r) \<and>
      hash32Valid (sm_credentialFingerprint r) \<and> uint63Valid (sm_credentialRevocationVersion r) \<and>
      rfc3339Valid (sm_credentialExpiresAt r) \<and> positiveUint63Valid (sm_joinedPosition r) \<and>
      (case sm_removedPosition r of None \<Rightarrow> True | Some x \<Rightarrow> positiveUint63Valid x))"

lemma entriesMembership_get [simp]:
  "fieldOf (entriesMembership r) ''conversationId'' = JStr (sm_conversationId r)"
  "fieldOf (entriesMembership r) ''accountId'' = JStr (sm_accountId r)"
  "fieldOf (entriesMembership r) ''installationId'' = JStr (sm_installationId r)"
  "fieldOf (entriesMembership r) ''credentialId'' = JStr (sm_credentialId r)"
  "fieldOf (entriesMembership r) ''credentialFingerprint'' = JStr (sm_credentialFingerprint r)"
  "fieldOf (entriesMembership r) ''credentialRevocationVersion'' = JStr (sm_credentialRevocationVersion r)"
  "fieldOf (entriesMembership r) ''installationState'' = JStr (installationStateText (sm_installationState r))"
  "fieldOf (entriesMembership r) ''credentialState'' = JStr (credentialStateText (sm_credentialState r))"
  "fieldOf (entriesMembership r) ''credentialExpiresAt'' = JStr (sm_credentialExpiresAt r)"
  "fieldOf (entriesMembership r) ''joinedPosition'' = JStr (sm_joinedPosition r)"
  "fieldOf (entriesMembership r) ''removedPosition'' = encodeNullable (sm_removedPosition r)"
  by (simp_all add: entriesMembership_def)

lemma expect_encodeMembership: "expectExactRecord (encodeMembership r) MEMBERSHIP_KEYS = Inr (fieldOf (entriesMembership r))"
  unfolding encodeMembership_def by (rule expectExactRecord_mkRecord) (simp_all add: MEMBERSHIP_KEYS_def entriesMembership_def)

interpretation membership_codec: record_codec parseLockedSenderMembership encodeMembership membershipValid
proof
  show "membershipValid r" if "parseLockedSenderMembership v = Inr r" for v r
    using that unfolding parseLockedSenderMembership_def
    by (elim bindE_InrE, simp only: parse_simps guardE_eq_Inr sum.inject, elim conjE, hypsubst, simp add: membershipValid_def)
  show "parseLockedSenderMembership (encodeMembership r) = Inr r" if "membershipValid r" for r
    using that by (simp add: parseLockedSenderMembership_def expect_encodeMembership parse_ok membershipValid_def split: option.splits)
qed

subsection \<open>Send grant\<close>

record lockedConversationSendGrant =
  sg_conversationId :: string
  sg_installationId :: string
  sg_credentialId :: string
  sg_conversationKind :: conversationKind
  sg_conversationGeneration :: string
  sg_role :: sendRole
  sg_roleCredentialId :: string
  sg_roleCredentialFingerprint :: string
  sg_roleCredentialSubjectAccountId :: string
  sg_roleCredentialSubjectInstallationId :: string
  sg_roleCredentialValidFrom :: string
  sg_roleCredentialValidUntil :: string
  sg_capability :: string
  sg_state :: grantState
  sg_policyRevision :: string
  sg_policyHeadSequence :: string
  sg_policyHeadHash :: string
  sg_expiresAt :: string
  sg_grantEvidenceDigest :: string
  sg_grantInclusionEvidenceDigest :: string

definition SEND_GRANT_KEYS :: "string list" where
  "SEND_GRANT_KEYS =
    [''conversationId'', ''installationId'', ''credentialId'', ''conversationKind'',
     ''conversationGeneration'', ''role'', ''roleCredentialId'', ''roleCredentialFingerprint'',
     ''roleCredentialSubjectAccountId'', ''roleCredentialSubjectInstallationId'', ''roleCredentialValidFrom'',
     ''roleCredentialValidUntil'', ''capability'', ''state'', ''policyRevision'', ''policyHeadSequence'',
     ''policyHeadHash'', ''expiresAt'', ''grantEvidenceDigest'', ''grantInclusionEvidenceDigest'']"

definition parseLockedConversationSendGrant :: "jsval \<Rightarrow> lockedConversationSendGrant res" where
  "parseLockedConversationSendGrant v =
     bindE (expectExactRecord v SEND_GRANT_KEYS) (\<lambda>record.
     bindE (parseRequiredLiteral ''send_application'' (record ''capability'')) (\<lambda>capability.
     bindE (parseConversationId (record ''conversationId'')) (\<lambda>conversationId.
     bindE (parseInstallationId (record ''installationId'')) (\<lambda>installationId.
     bindE (parseCredentialId (record ''credentialId'')) (\<lambda>credentialId.
     bindE (parseConversationKind (record ''conversationKind'')) (\<lambda>conversationKind.
     bindE (parsePositiveUint63 (record ''conversationGeneration'')) (\<lambda>conversationGeneration.
     bindE (parseSendRole (record ''role'')) (\<lambda>role.
     bindE (parseCredentialId (record ''roleCredentialId'')) (\<lambda>roleCredentialId.
     bindE (parseFingerprint32 (record ''roleCredentialFingerprint'')) (\<lambda>roleCredentialFingerprint.
     bindE (parseAccountId (record ''roleCredentialSubjectAccountId'')) (\<lambda>roleCredentialSubjectAccountId.
     bindE (parseInstallationId (record ''roleCredentialSubjectInstallationId'')) (\<lambda>roleCredentialSubjectInstallationId.
     bindE (parseRfc3339Millis (record ''roleCredentialValidFrom'')) (\<lambda>roleCredentialValidFrom.
     bindE (parseRfc3339Millis (record ''roleCredentialValidUntil'')) (\<lambda>roleCredentialValidUntil.
     bindE (parseGrantState (record ''state'')) (\<lambda>state.
     bindE (parsePositiveUint63 (record ''policyRevision'')) (\<lambda>policyRevision.
     bindE (parsePositiveUint63 (record ''policyHeadSequence'')) (\<lambda>policyHeadSequence.
     bindE (parseHash32 (record ''policyHeadHash'')) (\<lambda>policyHeadHash.
     bindE (parseRfc3339Millis (record ''expiresAt'')) (\<lambda>expiresAt.
     bindE (parseHash32 (record ''grantEvidenceDigest'')) (\<lambda>grantEvidenceDigest.
     bindE (parseHash32 (record ''grantInclusionEvidenceDigest'')) (\<lambda>grantInclusionEvidenceDigest.
     Inr \<lparr>sg_conversationId = conversationId, sg_installationId = installationId,
          sg_credentialId = credentialId, sg_conversationKind = conversationKind,
          sg_conversationGeneration = conversationGeneration, sg_role = role,
          sg_roleCredentialId = roleCredentialId, sg_roleCredentialFingerprint = roleCredentialFingerprint,
          sg_roleCredentialSubjectAccountId = roleCredentialSubjectAccountId,
          sg_roleCredentialSubjectInstallationId = roleCredentialSubjectInstallationId,
          sg_roleCredentialValidFrom = roleCredentialValidFrom,
          sg_roleCredentialValidUntil = roleCredentialValidUntil, sg_capability = capability,
          sg_state = state, sg_policyRevision = policyRevision, sg_policyHeadSequence = policyHeadSequence,
          sg_policyHeadHash = policyHeadHash, sg_expiresAt = expiresAt,
          sg_grantEvidenceDigest = grantEvidenceDigest,
          sg_grantInclusionEvidenceDigest = grantInclusionEvidenceDigest\<rparr>)))))))))))))))))))))"

definition entriesSendGrant :: "lockedConversationSendGrant \<Rightarrow> (string \<times> jsval) list" where
  "entriesSendGrant r =
     [(''conversationId'', JStr (sg_conversationId r)), (''installationId'', JStr (sg_installationId r)),
      (''credentialId'', JStr (sg_credentialId r)),
      (''conversationKind'', JStr (conversationKindText (sg_conversationKind r))),
      (''conversationGeneration'', JStr (sg_conversationGeneration r)),
      (''role'', JStr (sendRoleText (sg_role r))), (''roleCredentialId'', JStr (sg_roleCredentialId r)),
      (''roleCredentialFingerprint'', JStr (sg_roleCredentialFingerprint r)),
      (''roleCredentialSubjectAccountId'', JStr (sg_roleCredentialSubjectAccountId r)),
      (''roleCredentialSubjectInstallationId'', JStr (sg_roleCredentialSubjectInstallationId r)),
      (''roleCredentialValidFrom'', JStr (sg_roleCredentialValidFrom r)),
      (''roleCredentialValidUntil'', JStr (sg_roleCredentialValidUntil r)),
      (''capability'', JStr (sg_capability r)), (''state'', JStr (grantStateText (sg_state r))),
      (''policyRevision'', JStr (sg_policyRevision r)),
      (''policyHeadSequence'', JStr (sg_policyHeadSequence r)),
      (''policyHeadHash'', JStr (sg_policyHeadHash r)), (''expiresAt'', JStr (sg_expiresAt r)),
      (''grantEvidenceDigest'', JStr (sg_grantEvidenceDigest r)),
      (''grantInclusionEvidenceDigest'', JStr (sg_grantInclusionEvidenceDigest r))]"

definition encodeSendGrant :: "lockedConversationSendGrant \<Rightarrow> jsval" where
  "encodeSendGrant r = mkRecord (entriesSendGrant r)"

definition sendGrantValid :: "lockedConversationSendGrant \<Rightarrow> bool" where
  "sendGrantValid r =
     (uuidV4Valid (sg_conversationId r) \<and> uuidV4Valid (sg_installationId r) \<and>
      uuidV4Valid (sg_credentialId r) \<and> positiveUint63Valid (sg_conversationGeneration r) \<and>
      uuidV4Valid (sg_roleCredentialId r) \<and> hash32Valid (sg_roleCredentialFingerprint r) \<and>
      uuidV4Valid (sg_roleCredentialSubjectAccountId r) \<and>
      uuidV4Valid (sg_roleCredentialSubjectInstallationId r) \<and>
      rfc3339Valid (sg_roleCredentialValidFrom r) \<and> rfc3339Valid (sg_roleCredentialValidUntil r) \<and>
      sg_capability r = ''send_application'' \<and> positiveUint63Valid (sg_policyRevision r) \<and>
      positiveUint63Valid (sg_policyHeadSequence r) \<and> hash32Valid (sg_policyHeadHash r) \<and>
      rfc3339Valid (sg_expiresAt r) \<and> hash32Valid (sg_grantEvidenceDigest r) \<and>
      hash32Valid (sg_grantInclusionEvidenceDigest r))"

lemma entriesSendGrant_get_1:
  "fieldOf (entriesSendGrant r) ''conversationId'' = JStr (sg_conversationId r)"
  "fieldOf (entriesSendGrant r) ''installationId'' = JStr (sg_installationId r)"
  "fieldOf (entriesSendGrant r) ''credentialId'' = JStr (sg_credentialId r)"
  "fieldOf (entriesSendGrant r) ''conversationKind'' = JStr (conversationKindText (sg_conversationKind r))"
  "fieldOf (entriesSendGrant r) ''conversationGeneration'' = JStr (sg_conversationGeneration r)"
  "fieldOf (entriesSendGrant r) ''role'' = JStr (sendRoleText (sg_role r))"
  "fieldOf (entriesSendGrant r) ''roleCredentialId'' = JStr (sg_roleCredentialId r)"
  "fieldOf (entriesSendGrant r) ''roleCredentialFingerprint'' = JStr (sg_roleCredentialFingerprint r)"
  by (simp_all add: entriesSendGrant_def)

lemma entriesSendGrant_get_2:
  "fieldOf (entriesSendGrant r) ''roleCredentialSubjectAccountId'' = JStr (sg_roleCredentialSubjectAccountId r)"
  "fieldOf (entriesSendGrant r) ''roleCredentialSubjectInstallationId'' = JStr (sg_roleCredentialSubjectInstallationId r)"
  "fieldOf (entriesSendGrant r) ''roleCredentialValidFrom'' = JStr (sg_roleCredentialValidFrom r)"
  "fieldOf (entriesSendGrant r) ''roleCredentialValidUntil'' = JStr (sg_roleCredentialValidUntil r)"
  "fieldOf (entriesSendGrant r) ''capability'' = JStr (sg_capability r)"
  "fieldOf (entriesSendGrant r) ''state'' = JStr (grantStateText (sg_state r))"
  "fieldOf (entriesSendGrant r) ''policyRevision'' = JStr (sg_policyRevision r)"
  "fieldOf (entriesSendGrant r) ''policyHeadSequence'' = JStr (sg_policyHeadSequence r)"
  by (simp_all add: entriesSendGrant_def)

lemma entriesSendGrant_get_3:
  "fieldOf (entriesSendGrant r) ''policyHeadHash'' = JStr (sg_policyHeadHash r)"
  "fieldOf (entriesSendGrant r) ''expiresAt'' = JStr (sg_expiresAt r)"
  "fieldOf (entriesSendGrant r) ''grantEvidenceDigest'' = JStr (sg_grantEvidenceDigest r)"
  "fieldOf (entriesSendGrant r) ''grantInclusionEvidenceDigest'' = JStr (sg_grantInclusionEvidenceDigest r)"
  by (simp_all add: entriesSendGrant_def)

lemmas entriesSendGrant_get [simp] = entriesSendGrant_get_1 entriesSendGrant_get_2 entriesSendGrant_get_3

lemma expect_encodeSendGrant: "expectExactRecord (encodeSendGrant r) SEND_GRANT_KEYS = Inr (fieldOf (entriesSendGrant r))"
  unfolding encodeSendGrant_def by (rule expectExactRecord_mkRecord) (simp_all add: SEND_GRANT_KEYS_def entriesSendGrant_def)

interpretation grant_codec: record_codec parseLockedConversationSendGrant encodeSendGrant sendGrantValid
proof
  show "sendGrantValid r" if "parseLockedConversationSendGrant v = Inr r" for v r
    using that unfolding parseLockedConversationSendGrant_def
    by (elim bindE_InrE, simp only: parse_simps guardE_eq_Inr sum.inject, elim conjE, hypsubst, simp add: sendGrantValid_def)
  show "parseLockedConversationSendGrant (encodeSendGrant r) = Inr r" if "sendGrantValid r" for r
    using that by (simp add: parseLockedConversationSendGrant_def expect_encodeSendGrant parse_ok sendGrantValid_def split: option.splits)
qed

subsection \<open>Witnessed policy head\<close>

text \<open>The three consistency conditions of \<open>parseLockedWitnessedPolicyHead\<close>, each as the source tests it.\<close>

definition verifiedBindingsMissing :: "witnessState \<Rightarrow> string option \<Rightarrow> string option \<Rightarrow> bool" where
  "verifiedBindingsMissing state checkpointId headHash =
     (state = WitnessVerified \<and> (checkpointId = None \<or> headHash = None))"

definition unverifiedBindingsPresent :: "witnessState \<Rightarrow> string option \<Rightarrow> string option \<Rightarrow> bool" where
  "unverifiedBindingsPresent state checkpointId headHash =
     (state \<noteq> WitnessVerified \<and> (checkpointId \<noteq> None \<or> headHash \<noteq> None))"

definition policyIntervalInconsistent :: "string \<Rightarrow> string \<Rightarrow> string \<Rightarrow> bool" where
  "policyIntervalInconsistent issuedAt expiresAt proofVerifiedAt =
     (issuedAt \<ge> expiresAt \<or> dateMillis expiresAt - dateMillis issuedAt > 300000
      \<or> proofVerifiedAt < issuedAt \<or> proofVerifiedAt \<ge> expiresAt)"

record lockedWitnessedPolicyHead =
  ph_policyHeadId :: string
  ph_conversationId :: string
  ph_policyHeadSequence :: string
  ph_policyHeadHash :: string
  ph_deliveryLogPosition :: string
  ph_deliveryLogHeadHash :: string
  ph_evaluationLogPosition :: string
  ph_evaluationLogHeadHash :: string
  ph_epoch :: string
  ph_rosterVersion :: string
  ph_confirmedTranscriptHash :: string
  ph_policyRevision :: string
  ph_signedBodySha256 :: string
  ph_signerKeyId :: string
  ph_signatureSha256 :: string
  ph_witnessEvidenceDigest :: string
  ph_proofEvidenceDigest :: string
  ph_policyConsistencyEvidenceDigest :: string
  ph_proofVerifiedAt :: string
  ph_issuedAt :: string
  ph_expiresAt :: string
  ph_witnessState :: witnessState
  ph_witnessCheckpointId :: "string option"
  ph_witnessedPolicyHeadHash :: "string option"
  ph_mandatoryProposalCount :: string
  ph_mandatoryProposalSetHash :: string
  ph_authorizedSendGrantSetHash :: string
  ph_selectedSendGrantEvidenceDigest :: string
  ph_selectedSendGrantInclusionEvidenceDigest :: string
  ph_authorizedQuotaPolicyDigest :: string
  ph_priorPolicyHeadSequence :: string
  ph_priorPolicyHeadHash :: string
  ph_priorPolicyWitnessCheckpointId :: string
  ph_priorPolicyWitnessEvidenceDigest :: string

definition POLICY_HEAD_KEYS :: "string list" where
  "POLICY_HEAD_KEYS =
    [''policyHeadId'', ''conversationId'', ''policyHeadSequence'', ''policyHeadHash'',
     ''deliveryLogPosition'', ''deliveryLogHeadHash'', ''evaluationLogPosition'', ''evaluationLogHeadHash'',
     ''epoch'', ''rosterVersion'', ''confirmedTranscriptHash'', ''policyRevision'', ''signedBodySha256'',
     ''signerKeyId'', ''signatureSha256'', ''witnessEvidenceDigest'', ''proofEvidenceDigest'',
     ''policyConsistencyEvidenceDigest'', ''proofVerifiedAt'', ''issuedAt'', ''expiresAt'', ''witnessState'',
     ''witnessCheckpointId'', ''witnessedPolicyHeadHash'', ''mandatoryProposalCount'',
     ''mandatoryProposalSetHash'', ''authorizedSendGrantSetHash'', ''selectedSendGrantEvidenceDigest'',
     ''selectedSendGrantInclusionEvidenceDigest'', ''authorizedQuotaPolicyDigest'',
     ''priorPolicyHeadSequence'', ''priorPolicyHeadHash'', ''priorPolicyWitnessCheckpointId'',
     ''priorPolicyWitnessEvidenceDigest'']"

definition parseLockedWitnessedPolicyHead :: "jsval \<Rightarrow> lockedWitnessedPolicyHead res" where
  "parseLockedWitnessedPolicyHead v =
     bindE (expectExactRecord v POLICY_HEAD_KEYS) (\<lambda>record.
     bindE (parseWitnessState (record ''witnessState'')) (\<lambda>witnessState.
     bindE (parseNullable parseWitnessCheckpointId (record ''witnessCheckpointId'')) (\<lambda>witnessCheckpointId.
     bindE (parseNullable parseHash32 (record ''witnessedPolicyHeadHash'')) (\<lambda>witnessedPolicyHeadHash.
     bindE (guardE (\<not> verifiedBindingsMissing witnessState witnessCheckpointId witnessedPolicyHeadHash) DeliveryStateValidationError) (\<lambda>_.
     bindE (guardE (\<not> unverifiedBindingsPresent witnessState witnessCheckpointId witnessedPolicyHeadHash) DeliveryStateValidationError) (\<lambda>_.
     bindE (parseRfc3339Millis (record ''issuedAt'')) (\<lambda>issuedAt.
     bindE (parseRfc3339Millis (record ''expiresAt'')) (\<lambda>expiresAt.
     bindE (parseRfc3339Millis (record ''proofVerifiedAt'')) (\<lambda>proofVerifiedAt.
     bindE (guardE (\<not> policyIntervalInconsistent issuedAt expiresAt proofVerifiedAt) DeliveryStateValidationError) (\<lambda>_.
     bindE (parsePolicyHeadId (record ''policyHeadId'')) (\<lambda>policyHeadId.
     bindE (parseConversationId (record ''conversationId'')) (\<lambda>conversationId.
     bindE (parsePositiveUint63 (record ''policyHeadSequence'')) (\<lambda>policyHeadSequence.
     bindE (parseHash32 (record ''policyHeadHash'')) (\<lambda>policyHeadHash.
     bindE (parseUint63String (record ''deliveryLogPosition'')) (\<lambda>deliveryLogPosition.
     bindE (parseHash32 (record ''deliveryLogHeadHash'')) (\<lambda>deliveryLogHeadHash.
     bindE (parseUint63String (record ''evaluationLogPosition'')) (\<lambda>evaluationLogPosition.
     bindE (parseHash32 (record ''evaluationLogHeadHash'')) (\<lambda>evaluationLogHeadHash.
     bindE (parseUint63String (record ''epoch'')) (\<lambda>epoch.
     bindE (parseUint63String (record ''rosterVersion'')) (\<lambda>rosterVersion.
     bindE (parseHash32 (record ''confirmedTranscriptHash'')) (\<lambda>confirmedTranscriptHash.
     bindE (parsePositiveUint63 (record ''policyRevision'')) (\<lambda>policyRevision.
     bindE (parseHash32 (record ''signedBodySha256'')) (\<lambda>signedBodySha256.
     bindE (parseSigningKeyId (record ''signerKeyId'')) (\<lambda>signerKeyId.
     bindE (parseHash32 (record ''signatureSha256'')) (\<lambda>signatureSha256.
     bindE (parseHash32 (record ''witnessEvidenceDigest'')) (\<lambda>witnessEvidenceDigest.
     bindE (parseHash32 (record ''proofEvidenceDigest'')) (\<lambda>proofEvidenceDigest.
     bindE (parseHash32 (record ''policyConsistencyEvidenceDigest'')) (\<lambda>policyConsistencyEvidenceDigest.
     bindE (parseMandatoryProposalCount (record ''mandatoryProposalCount'')) (\<lambda>mandatoryProposalCount.
     bindE (parseHash32 (record ''mandatoryProposalSetHash'')) (\<lambda>mandatoryProposalSetHash.
     bindE (parseHash32 (record ''authorizedSendGrantSetHash'')) (\<lambda>authorizedSendGrantSetHash.
     bindE (parseHash32 (record ''selectedSendGrantEvidenceDigest'')) (\<lambda>selectedSendGrantEvidenceDigest.
     bindE (parseHash32 (record ''selectedSendGrantInclusionEvidenceDigest'')) (\<lambda>selectedSendGrantInclusionEvidenceDigest.
     bindE (parseHash32 (record ''authorizedQuotaPolicyDigest'')) (\<lambda>authorizedQuotaPolicyDigest.
     bindE (parseUint63String (record ''priorPolicyHeadSequence'')) (\<lambda>priorPolicyHeadSequence.
     bindE (parseHash32 (record ''priorPolicyHeadHash'')) (\<lambda>priorPolicyHeadHash.
     bindE (parseWitnessCheckpointId (record ''priorPolicyWitnessCheckpointId'')) (\<lambda>priorPolicyWitnessCheckpointId.
     bindE (parseHash32 (record ''priorPolicyWitnessEvidenceDigest'')) (\<lambda>priorPolicyWitnessEvidenceDigest.
     Inr \<lparr>ph_policyHeadId = policyHeadId, ph_conversationId = conversationId,
          ph_policyHeadSequence = policyHeadSequence, ph_policyHeadHash = policyHeadHash,
          ph_deliveryLogPosition = deliveryLogPosition, ph_deliveryLogHeadHash = deliveryLogHeadHash,
          ph_evaluationLogPosition = evaluationLogPosition, ph_evaluationLogHeadHash = evaluationLogHeadHash,
          ph_epoch = epoch, ph_rosterVersion = rosterVersion,
          ph_confirmedTranscriptHash = confirmedTranscriptHash, ph_policyRevision = policyRevision,
          ph_signedBodySha256 = signedBodySha256, ph_signerKeyId = signerKeyId,
          ph_signatureSha256 = signatureSha256, ph_witnessEvidenceDigest = witnessEvidenceDigest,
          ph_proofEvidenceDigest = proofEvidenceDigest,
          ph_policyConsistencyEvidenceDigest = policyConsistencyEvidenceDigest,
          ph_proofVerifiedAt = proofVerifiedAt, ph_issuedAt = issuedAt, ph_expiresAt = expiresAt,
          ph_witnessState = witnessState, ph_witnessCheckpointId = witnessCheckpointId,
          ph_witnessedPolicyHeadHash = witnessedPolicyHeadHash,
          ph_mandatoryProposalCount = mandatoryProposalCount,
          ph_mandatoryProposalSetHash = mandatoryProposalSetHash,
          ph_authorizedSendGrantSetHash = authorizedSendGrantSetHash,
          ph_selectedSendGrantEvidenceDigest = selectedSendGrantEvidenceDigest,
          ph_selectedSendGrantInclusionEvidenceDigest = selectedSendGrantInclusionEvidenceDigest,
          ph_authorizedQuotaPolicyDigest = authorizedQuotaPolicyDigest,
          ph_priorPolicyHeadSequence = priorPolicyHeadSequence, ph_priorPolicyHeadHash = priorPolicyHeadHash,
          ph_priorPolicyWitnessCheckpointId = priorPolicyWitnessCheckpointId,
          ph_priorPolicyWitnessEvidenceDigest = priorPolicyWitnessEvidenceDigest\<rparr>))))))))))))))))))))))))))))))))))))))"

definition entriesPolicyHead :: "lockedWitnessedPolicyHead \<Rightarrow> (string \<times> jsval) list" where
  "entriesPolicyHead r =
     [(''policyHeadId'', JStr (ph_policyHeadId r)), (''conversationId'', JStr (ph_conversationId r)),
      (''policyHeadSequence'', JStr (ph_policyHeadSequence r)),
      (''policyHeadHash'', JStr (ph_policyHeadHash r)),
      (''deliveryLogPosition'', JStr (ph_deliveryLogPosition r)),
      (''deliveryLogHeadHash'', JStr (ph_deliveryLogHeadHash r)),
      (''evaluationLogPosition'', JStr (ph_evaluationLogPosition r)),
      (''evaluationLogHeadHash'', JStr (ph_evaluationLogHeadHash r)), (''epoch'', JStr (ph_epoch r)),
      (''rosterVersion'', JStr (ph_rosterVersion r)),
      (''confirmedTranscriptHash'', JStr (ph_confirmedTranscriptHash r)),
      (''policyRevision'', JStr (ph_policyRevision r)), (''signedBodySha256'', JStr (ph_signedBodySha256 r)),
      (''signerKeyId'', JStr (ph_signerKeyId r)), (''signatureSha256'', JStr (ph_signatureSha256 r)),
      (''witnessEvidenceDigest'', JStr (ph_witnessEvidenceDigest r)),
      (''proofEvidenceDigest'', JStr (ph_proofEvidenceDigest r)),
      (''policyConsistencyEvidenceDigest'', JStr (ph_policyConsistencyEvidenceDigest r)),
      (''proofVerifiedAt'', JStr (ph_proofVerifiedAt r)), (''issuedAt'', JStr (ph_issuedAt r)),
      (''expiresAt'', JStr (ph_expiresAt r)), (''witnessState'', JStr (witnessStateText (ph_witnessState r))),
      (''witnessCheckpointId'', encodeNullable (ph_witnessCheckpointId r)),
      (''witnessedPolicyHeadHash'', encodeNullable (ph_witnessedPolicyHeadHash r)),
      (''mandatoryProposalCount'', JStr (ph_mandatoryProposalCount r)),
      (''mandatoryProposalSetHash'', JStr (ph_mandatoryProposalSetHash r)),
      (''authorizedSendGrantSetHash'', JStr (ph_authorizedSendGrantSetHash r)),
      (''selectedSendGrantEvidenceDigest'', JStr (ph_selectedSendGrantEvidenceDigest r)),
      (''selectedSendGrantInclusionEvidenceDigest'', JStr (ph_selectedSendGrantInclusionEvidenceDigest r)),
      (''authorizedQuotaPolicyDigest'', JStr (ph_authorizedQuotaPolicyDigest r)),
      (''priorPolicyHeadSequence'', JStr (ph_priorPolicyHeadSequence r)),
      (''priorPolicyHeadHash'', JStr (ph_priorPolicyHeadHash r)),
      (''priorPolicyWitnessCheckpointId'', JStr (ph_priorPolicyWitnessCheckpointId r)),
      (''priorPolicyWitnessEvidenceDigest'', JStr (ph_priorPolicyWitnessEvidenceDigest r))]"

definition encodePolicyHead :: "lockedWitnessedPolicyHead \<Rightarrow> jsval" where
  "encodePolicyHead r = mkRecord (entriesPolicyHead r)"

definition policyHeadValid :: "lockedWitnessedPolicyHead \<Rightarrow> bool" where
  "policyHeadValid r =
     (uuidV4Valid (ph_policyHeadId r) \<and> uuidV4Valid (ph_conversationId r) \<and>
      positiveUint63Valid (ph_policyHeadSequence r) \<and> hash32Valid (ph_policyHeadHash r) \<and>
      uint63Valid (ph_deliveryLogPosition r) \<and> hash32Valid (ph_deliveryLogHeadHash r) \<and>
      uint63Valid (ph_evaluationLogPosition r) \<and> hash32Valid (ph_evaluationLogHeadHash r) \<and>
      uint63Valid (ph_epoch r) \<and> uint63Valid (ph_rosterVersion r) \<and>
      hash32Valid (ph_confirmedTranscriptHash r) \<and> positiveUint63Valid (ph_policyRevision r) \<and>
      hash32Valid (ph_signedBodySha256 r) \<and> SIGNING_KEY_ID (ph_signerKeyId r) \<and>
      hash32Valid (ph_signatureSha256 r) \<and> hash32Valid (ph_witnessEvidenceDigest r) \<and>
      hash32Valid (ph_proofEvidenceDigest r) \<and> hash32Valid (ph_policyConsistencyEvidenceDigest r) \<and>
      rfc3339Valid (ph_proofVerifiedAt r) \<and> rfc3339Valid (ph_issuedAt r) \<and>
      rfc3339Valid (ph_expiresAt r) \<and>
      (case ph_witnessCheckpointId r of None \<Rightarrow> True | Some x \<Rightarrow> uuidV4Valid x) \<and>
      (case ph_witnessedPolicyHeadHash r of None \<Rightarrow> True | Some x \<Rightarrow> hash32Valid x) \<and>
      proposalCountValid (ph_mandatoryProposalCount r) \<and>
      hash32Valid (ph_mandatoryProposalSetHash r) \<and> hash32Valid (ph_authorizedSendGrantSetHash r) \<and>
      hash32Valid (ph_selectedSendGrantEvidenceDigest r) \<and>
      hash32Valid (ph_selectedSendGrantInclusionEvidenceDigest r) \<and>
      hash32Valid (ph_authorizedQuotaPolicyDigest r) \<and> uint63Valid (ph_priorPolicyHeadSequence r) \<and>
      hash32Valid (ph_priorPolicyHeadHash r) \<and> uuidV4Valid (ph_priorPolicyWitnessCheckpointId r) \<and>
      hash32Valid (ph_priorPolicyWitnessEvidenceDigest r) \<and>
      \<not> verifiedBindingsMissing (ph_witnessState r) (ph_witnessCheckpointId r) (ph_witnessedPolicyHeadHash r) \<and>
      \<not> unverifiedBindingsPresent (ph_witnessState r) (ph_witnessCheckpointId r) (ph_witnessedPolicyHeadHash r) \<and>
      \<not> policyIntervalInconsistent (ph_issuedAt r) (ph_expiresAt r) (ph_proofVerifiedAt r))"

lemma entriesPolicyHead_get_1:
  "fieldOf (entriesPolicyHead r) ''policyHeadId'' = JStr (ph_policyHeadId r)"
  "fieldOf (entriesPolicyHead r) ''conversationId'' = JStr (ph_conversationId r)"
  "fieldOf (entriesPolicyHead r) ''policyHeadSequence'' = JStr (ph_policyHeadSequence r)"
  "fieldOf (entriesPolicyHead r) ''policyHeadHash'' = JStr (ph_policyHeadHash r)"
  "fieldOf (entriesPolicyHead r) ''deliveryLogPosition'' = JStr (ph_deliveryLogPosition r)"
  "fieldOf (entriesPolicyHead r) ''deliveryLogHeadHash'' = JStr (ph_deliveryLogHeadHash r)"
  "fieldOf (entriesPolicyHead r) ''evaluationLogPosition'' = JStr (ph_evaluationLogPosition r)"
  "fieldOf (entriesPolicyHead r) ''evaluationLogHeadHash'' = JStr (ph_evaluationLogHeadHash r)"
  by (simp_all add: entriesPolicyHead_def)

lemma entriesPolicyHead_get_2:
  "fieldOf (entriesPolicyHead r) ''epoch'' = JStr (ph_epoch r)"
  "fieldOf (entriesPolicyHead r) ''rosterVersion'' = JStr (ph_rosterVersion r)"
  "fieldOf (entriesPolicyHead r) ''confirmedTranscriptHash'' = JStr (ph_confirmedTranscriptHash r)"
  "fieldOf (entriesPolicyHead r) ''policyRevision'' = JStr (ph_policyRevision r)"
  "fieldOf (entriesPolicyHead r) ''signedBodySha256'' = JStr (ph_signedBodySha256 r)"
  "fieldOf (entriesPolicyHead r) ''signerKeyId'' = JStr (ph_signerKeyId r)"
  "fieldOf (entriesPolicyHead r) ''signatureSha256'' = JStr (ph_signatureSha256 r)"
  "fieldOf (entriesPolicyHead r) ''witnessEvidenceDigest'' = JStr (ph_witnessEvidenceDigest r)"
  by (simp_all add: entriesPolicyHead_def)

lemma entriesPolicyHead_get_3:
  "fieldOf (entriesPolicyHead r) ''proofEvidenceDigest'' = JStr (ph_proofEvidenceDigest r)"
  "fieldOf (entriesPolicyHead r) ''policyConsistencyEvidenceDigest'' = JStr (ph_policyConsistencyEvidenceDigest r)"
  "fieldOf (entriesPolicyHead r) ''proofVerifiedAt'' = JStr (ph_proofVerifiedAt r)"
  "fieldOf (entriesPolicyHead r) ''issuedAt'' = JStr (ph_issuedAt r)"
  "fieldOf (entriesPolicyHead r) ''expiresAt'' = JStr (ph_expiresAt r)"
  "fieldOf (entriesPolicyHead r) ''witnessState'' = JStr (witnessStateText (ph_witnessState r))"
  "fieldOf (entriesPolicyHead r) ''witnessCheckpointId'' = encodeNullable (ph_witnessCheckpointId r)"
  "fieldOf (entriesPolicyHead r) ''witnessedPolicyHeadHash'' = encodeNullable (ph_witnessedPolicyHeadHash r)"
  by (simp_all add: entriesPolicyHead_def)

lemma entriesPolicyHead_get_4:
  "fieldOf (entriesPolicyHead r) ''mandatoryProposalCount'' = JStr (ph_mandatoryProposalCount r)"
  "fieldOf (entriesPolicyHead r) ''mandatoryProposalSetHash'' = JStr (ph_mandatoryProposalSetHash r)"
  "fieldOf (entriesPolicyHead r) ''authorizedSendGrantSetHash'' = JStr (ph_authorizedSendGrantSetHash r)"
  "fieldOf (entriesPolicyHead r) ''selectedSendGrantEvidenceDigest'' = JStr (ph_selectedSendGrantEvidenceDigest r)"
  "fieldOf (entriesPolicyHead r) ''selectedSendGrantInclusionEvidenceDigest'' = JStr (ph_selectedSendGrantInclusionEvidenceDigest r)"
  "fieldOf (entriesPolicyHead r) ''authorizedQuotaPolicyDigest'' = JStr (ph_authorizedQuotaPolicyDigest r)"
  "fieldOf (entriesPolicyHead r) ''priorPolicyHeadSequence'' = JStr (ph_priorPolicyHeadSequence r)"
  "fieldOf (entriesPolicyHead r) ''priorPolicyHeadHash'' = JStr (ph_priorPolicyHeadHash r)"
  by (simp_all add: entriesPolicyHead_def)

lemma entriesPolicyHead_get_5:
  "fieldOf (entriesPolicyHead r) ''priorPolicyWitnessCheckpointId'' = JStr (ph_priorPolicyWitnessCheckpointId r)"
  "fieldOf (entriesPolicyHead r) ''priorPolicyWitnessEvidenceDigest'' = JStr (ph_priorPolicyWitnessEvidenceDigest r)"
  by (simp_all add: entriesPolicyHead_def)

lemmas entriesPolicyHead_get [simp] = entriesPolicyHead_get_1 entriesPolicyHead_get_2 entriesPolicyHead_get_3 entriesPolicyHead_get_4 entriesPolicyHead_get_5

lemma expect_encodePolicyHead: "expectExactRecord (encodePolicyHead r) POLICY_HEAD_KEYS = Inr (fieldOf (entriesPolicyHead r))"
  unfolding encodePolicyHead_def by (rule expectExactRecord_mkRecord) (simp_all add: POLICY_HEAD_KEYS_def entriesPolicyHead_def)

interpretation policyHead_codec: record_codec parseLockedWitnessedPolicyHead encodePolicyHead policyHeadValid
proof
  show "policyHeadValid r" if "parseLockedWitnessedPolicyHead v = Inr r" for v r
    using that unfolding parseLockedWitnessedPolicyHead_def
    by (elim bindE_InrE, simp only: parse_simps guardE_eq_Inr sum.inject, elim conjE, hypsubst, simp add: policyHeadValid_def)
  show "parseLockedWitnessedPolicyHead (encodePolicyHead r) = Inr r" if "policyHeadValid r" for r
    using that by (simp add: parseLockedWitnessedPolicyHead_def expect_encodePolicyHead parse_ok policyHeadValid_def split: option.splits)
qed

subsection \<open>Usage\<close>

record lockedConversationUsage =
  us_conversationId :: string
  us_envelopeCount :: string
  us_envelopeBytes :: string
  us_attachmentBytes :: string
  us_envelopeCountLimit :: string
  us_envelopeBytesLimit :: string
  us_attachmentBytesLimit :: string

definition USAGE_KEYS :: "string list" where
  "USAGE_KEYS =
    [''conversationId'', ''envelopeCount'', ''envelopeBytes'', ''attachmentBytes'', ''envelopeCountLimit'',
     ''envelopeBytesLimit'', ''attachmentBytesLimit'']"

definition parseLockedConversationUsage :: "jsval \<Rightarrow> lockedConversationUsage res" where
  "parseLockedConversationUsage v =
     bindE (expectExactRecord v USAGE_KEYS) (\<lambda>record.
     bindE (parseConversationId (record ''conversationId'')) (\<lambda>conversationId.
     bindE (parseUint63String (record ''envelopeCount'')) (\<lambda>envelopeCount.
     bindE (parseUint63String (record ''envelopeBytes'')) (\<lambda>envelopeBytes.
     bindE (parseUint63String (record ''attachmentBytes'')) (\<lambda>attachmentBytes.
     bindE (parseUint63String (record ''envelopeCountLimit'')) (\<lambda>envelopeCountLimit.
     bindE (parseUint63String (record ''envelopeBytesLimit'')) (\<lambda>envelopeBytesLimit.
     bindE (parseUint63String (record ''attachmentBytesLimit'')) (\<lambda>attachmentBytesLimit.
     bindE (guardE (\<not> (bigInt envelopeCount > bigInt envelopeCountLimit \<or> bigInt envelopeBytes > bigInt envelopeBytesLimit
                      \<or> bigInt attachmentBytes > bigInt attachmentBytesLimit)) DeliveryStateValidationError) (\<lambda>_.
     Inr \<lparr>us_conversationId = conversationId, us_envelopeCount = envelopeCount,
          us_envelopeBytes = envelopeBytes, us_attachmentBytes = attachmentBytes,
          us_envelopeCountLimit = envelopeCountLimit, us_envelopeBytesLimit = envelopeBytesLimit,
          us_attachmentBytesLimit = attachmentBytesLimit\<rparr>)))))))))"

definition entriesUsage :: "lockedConversationUsage \<Rightarrow> (string \<times> jsval) list" where
  "entriesUsage r =
     [(''conversationId'', JStr (us_conversationId r)), (''envelopeCount'', JStr (us_envelopeCount r)),
      (''envelopeBytes'', JStr (us_envelopeBytes r)), (''attachmentBytes'', JStr (us_attachmentBytes r)),
      (''envelopeCountLimit'', JStr (us_envelopeCountLimit r)),
      (''envelopeBytesLimit'', JStr (us_envelopeBytesLimit r)),
      (''attachmentBytesLimit'', JStr (us_attachmentBytesLimit r))]"

definition encodeUsage :: "lockedConversationUsage \<Rightarrow> jsval" where
  "encodeUsage r = mkRecord (entriesUsage r)"

definition usageValid :: "lockedConversationUsage \<Rightarrow> bool" where
  "usageValid r =
     (uuidV4Valid (us_conversationId r) \<and> uint63Valid (us_envelopeCount r) \<and>
      uint63Valid (us_envelopeBytes r) \<and> uint63Valid (us_attachmentBytes r) \<and>
      uint63Valid (us_envelopeCountLimit r) \<and> uint63Valid (us_envelopeBytesLimit r) \<and>
      uint63Valid (us_attachmentBytesLimit r) \<and>
      bigInt (us_envelopeCount r) \<le> bigInt (us_envelopeCountLimit r) \<and>
      bigInt (us_envelopeBytes r) \<le> bigInt (us_envelopeBytesLimit r) \<and>
      bigInt (us_attachmentBytes r) \<le> bigInt (us_attachmentBytesLimit r))"

lemma entriesUsage_get [simp]:
  "fieldOf (entriesUsage r) ''conversationId'' = JStr (us_conversationId r)"
  "fieldOf (entriesUsage r) ''envelopeCount'' = JStr (us_envelopeCount r)"
  "fieldOf (entriesUsage r) ''envelopeBytes'' = JStr (us_envelopeBytes r)"
  "fieldOf (entriesUsage r) ''attachmentBytes'' = JStr (us_attachmentBytes r)"
  "fieldOf (entriesUsage r) ''envelopeCountLimit'' = JStr (us_envelopeCountLimit r)"
  "fieldOf (entriesUsage r) ''envelopeBytesLimit'' = JStr (us_envelopeBytesLimit r)"
  "fieldOf (entriesUsage r) ''attachmentBytesLimit'' = JStr (us_attachmentBytesLimit r)"
  by (simp_all add: entriesUsage_def)

lemma expect_encodeUsage: "expectExactRecord (encodeUsage r) USAGE_KEYS = Inr (fieldOf (entriesUsage r))"
  unfolding encodeUsage_def by (rule expectExactRecord_mkRecord) (simp_all add: USAGE_KEYS_def entriesUsage_def)

interpretation usage_codec: record_codec parseLockedConversationUsage encodeUsage usageValid
proof
  show "usageValid r" if "parseLockedConversationUsage v = Inr r" for v r
    using that unfolding parseLockedConversationUsage_def
    by (elim bindE_InrE, simp only: parse_simps guardE_eq_Inr sum.inject, elim conjE, hypsubst, simp add: usageValid_def not_less)
  show "parseLockedConversationUsage (encodeUsage r) = Inr r" if "usageValid r" for r
    using that by (simp add: parseLockedConversationUsage_def expect_encodeUsage parse_ok usageValid_def split: option.splits)
qed

end
