(* ===== verification/PolicyProof.thy ===== *)
theory PolicyProof
  imports ConversationState
begin

section \<open>Policy-head proof evidence\<close>

text \<open>
  \<open>PolicyHeadProofExpectation\<close>, \<open>PolicyHeadProofEvidence\<close> and their parsers in
  \<open>src/src/production/delivery/state.ts\<close>. The evidence extends the expectation, so its record extends
  the other one and the loop that compares the two key by key is an equality of the common part. The
  constant \<open>profile\<close> field carries no information and is checked where it is read.
\<close>

subsection \<open>Expectation\<close>

text \<open>A log position is zero exactly when its head hash is the zero sentinel.\<close>

definition sentinelMismatch :: "string \<Rightarrow> string \<Rightarrow> bool" where
  "sentinelMismatch position headHash = ((position = ''0'') \<noteq> (headHash = ZERO_HASH32))"

definition grantSentinelInvalid :: "proofPurpose \<Rightarrow> string \<Rightarrow> string \<Rightarrow> bool" where
  "grantSentinelInvalid purpose evidenceDigest inclusionDigest =
     ((purpose = AppendAuthorization \<and> (evidenceDigest = ZERO_HASH32 \<or> inclusionDigest = ZERO_HASH32))
      \<or> (purpose = HistoricalPage \<and> (evidenceDigest \<noteq> ZERO_HASH32 \<or> inclusionDigest \<noteq> ZERO_HASH32)))"

record policyHeadProofExpectation =
  px_realmId :: string
  px_conversationGeneration :: string
  px_releaseTrustRootDigest :: string
  px_purpose :: proofPurpose
  px_releaseProfileId :: string
  px_deliveryLimitsDigest :: string
  px_conversationId :: string
  px_policyHeadId :: string
  px_policyHeadSequence :: string
  px_policyHeadHash :: string
  px_deliveryLogPosition :: string
  px_deliveryLogHeadHash :: string
  px_evaluationLogPosition :: string
  px_evaluationLogHeadHash :: string
  px_epoch :: string
  px_rosterVersion :: string
  px_confirmedTranscriptHash :: string
  px_policyRevision :: string
  px_mandatoryProposalCount :: string
  px_mandatoryProposalSetHash :: string
  px_authorizedSendGrantSetHash :: string
  px_selectedSendGrantEvidenceDigest :: string
  px_selectedSendGrantInclusionEvidenceDigest :: string
  px_authorizedQuotaPolicyDigest :: string
  px_priorPolicyHeadSequence :: string
  px_priorPolicyHeadHash :: string
  px_priorPolicyWitnessCheckpointId :: string
  px_priorPolicyWitnessEvidenceDigest :: string
  px_verifiedAt :: string

definition PROOF_EXPECTATION_KEYS :: "string list" where
  "PROOF_EXPECTATION_KEYS =
    [''realmId'', ''conversationGeneration'', ''releaseTrustRootDigest'', ''releaseProfileId'',
     ''deliveryLimitsDigest'', ''purpose'', ''conversationId'', ''policyHeadId'', ''policyHeadSequence'',
     ''policyHeadHash'', ''deliveryLogPosition'', ''deliveryLogHeadHash'', ''evaluationLogPosition'',
     ''evaluationLogHeadHash'', ''epoch'', ''rosterVersion'', ''confirmedTranscriptHash'', ''policyRevision'',
     ''mandatoryProposalCount'', ''mandatoryProposalSetHash'', ''authorizedSendGrantSetHash'',
     ''selectedSendGrantEvidenceDigest'', ''selectedSendGrantInclusionEvidenceDigest'',
     ''authorizedQuotaPolicyDigest'', ''priorPolicyHeadSequence'', ''priorPolicyHeadHash'',
     ''priorPolicyWitnessCheckpointId'', ''priorPolicyWitnessEvidenceDigest'', ''verifiedAt'']"

definition parsePolicyHeadProofExpectation :: "jsval \<Rightarrow> policyHeadProofExpectation res" where
  "parsePolicyHeadProofExpectation v =
     bindE (expectExactRecord v PROOF_EXPECTATION_KEYS) (\<lambda>record.
     bindE (parsePolicyRealmId (record ''realmId'')) (\<lambda>realmId.
     bindE (parsePositiveUint63 (record ''conversationGeneration'')) (\<lambda>conversationGeneration.
     bindE (parseHash32 (record ''releaseTrustRootDigest'')) (\<lambda>releaseTrustRootDigest.
     bindE (parseProofPurpose (record ''purpose'')) (\<lambda>purpose.
     bindE (parseReleaseProfileId (record ''releaseProfileId'')) (\<lambda>releaseProfileId.
     bindE (parseHash32 (record ''deliveryLimitsDigest'')) (\<lambda>deliveryLimitsDigest.
     bindE (parseConversationId (record ''conversationId'')) (\<lambda>conversationId.
     bindE (parsePolicyHeadId (record ''policyHeadId'')) (\<lambda>policyHeadId.
     bindE (parsePositiveUint63 (record ''policyHeadSequence'')) (\<lambda>policyHeadSequence.
     bindE (parseNonZeroHash32 (record ''policyHeadHash'')) (\<lambda>policyHeadHash.
     bindE (parseUint63String (record ''deliveryLogPosition'')) (\<lambda>deliveryLogPosition.
     bindE (parseHash32 (record ''deliveryLogHeadHash'')) (\<lambda>deliveryLogHeadHash.
     bindE (parseUint63String (record ''evaluationLogPosition'')) (\<lambda>evaluationLogPosition.
     bindE (parseHash32 (record ''evaluationLogHeadHash'')) (\<lambda>evaluationLogHeadHash.
     bindE (parseUint63String (record ''epoch'')) (\<lambda>epoch.
     bindE (parseUint63String (record ''rosterVersion'')) (\<lambda>rosterVersion.
     bindE (parseHash32 (record ''confirmedTranscriptHash'')) (\<lambda>confirmedTranscriptHash.
     bindE (parsePositiveUint63 (record ''policyRevision'')) (\<lambda>policyRevision.
     bindE (parseMandatoryProposalCount (record ''mandatoryProposalCount'')) (\<lambda>mandatoryProposalCount.
     bindE (parseHash32 (record ''mandatoryProposalSetHash'')) (\<lambda>mandatoryProposalSetHash.
     bindE (parseHash32 (record ''authorizedSendGrantSetHash'')) (\<lambda>authorizedSendGrantSetHash.
     bindE (parseHash32 (record ''selectedSendGrantEvidenceDigest'')) (\<lambda>selectedSendGrantEvidenceDigest.
     bindE (parseHash32 (record ''selectedSendGrantInclusionEvidenceDigest'')) (\<lambda>selectedSendGrantInclusionEvidenceDigest.
     bindE (parseHash32 (record ''authorizedQuotaPolicyDigest'')) (\<lambda>authorizedQuotaPolicyDigest.
     bindE (parseUint63String (record ''priorPolicyHeadSequence'')) (\<lambda>priorPolicyHeadSequence.
     bindE (parseHash32 (record ''priorPolicyHeadHash'')) (\<lambda>priorPolicyHeadHash.
     bindE (parseWitnessCheckpointId (record ''priorPolicyWitnessCheckpointId'')) (\<lambda>priorPolicyWitnessCheckpointId.
     bindE (parseHash32 (record ''priorPolicyWitnessEvidenceDigest'')) (\<lambda>priorPolicyWitnessEvidenceDigest.
     bindE (parseRfc3339Millis (record ''verifiedAt'')) (\<lambda>verifiedAt.
     bindE (guardE (\<not> (sentinelMismatch priorPolicyHeadSequence priorPolicyHeadHash
                      \<or> sentinelMismatch deliveryLogPosition deliveryLogHeadHash
                      \<or> sentinelMismatch evaluationLogPosition evaluationLogHeadHash
                      \<or> grantSentinelInvalid purpose selectedSendGrantEvidenceDigest selectedSendGrantInclusionEvidenceDigest)) DeliveryStateValidationError) (\<lambda>_.
     Inr \<lparr>px_realmId = realmId, px_conversationGeneration = conversationGeneration,
          px_releaseTrustRootDigest = releaseTrustRootDigest, px_purpose = purpose,
          px_releaseProfileId = releaseProfileId, px_deliveryLimitsDigest = deliveryLimitsDigest,
          px_conversationId = conversationId, px_policyHeadId = policyHeadId,
          px_policyHeadSequence = policyHeadSequence, px_policyHeadHash = policyHeadHash,
          px_deliveryLogPosition = deliveryLogPosition, px_deliveryLogHeadHash = deliveryLogHeadHash,
          px_evaluationLogPosition = evaluationLogPosition, px_evaluationLogHeadHash = evaluationLogHeadHash,
          px_epoch = epoch, px_rosterVersion = rosterVersion,
          px_confirmedTranscriptHash = confirmedTranscriptHash, px_policyRevision = policyRevision,
          px_mandatoryProposalCount = mandatoryProposalCount,
          px_mandatoryProposalSetHash = mandatoryProposalSetHash,
          px_authorizedSendGrantSetHash = authorizedSendGrantSetHash,
          px_selectedSendGrantEvidenceDigest = selectedSendGrantEvidenceDigest,
          px_selectedSendGrantInclusionEvidenceDigest = selectedSendGrantInclusionEvidenceDigest,
          px_authorizedQuotaPolicyDigest = authorizedQuotaPolicyDigest,
          px_priorPolicyHeadSequence = priorPolicyHeadSequence, px_priorPolicyHeadHash = priorPolicyHeadHash,
          px_priorPolicyWitnessCheckpointId = priorPolicyWitnessCheckpointId,
          px_priorPolicyWitnessEvidenceDigest = priorPolicyWitnessEvidenceDigest, px_verifiedAt = verifiedAt\<rparr>)))))))))))))))))))))))))))))))"

definition entriesExpectation :: "policyHeadProofExpectation \<Rightarrow> (string \<times> jsval) list" where
  "entriesExpectation r =
     [(''realmId'', JStr (px_realmId r)), (''conversationGeneration'', JStr (px_conversationGeneration r)),
      (''releaseTrustRootDigest'', JStr (px_releaseTrustRootDigest r)),
      (''releaseProfileId'', JStr (px_releaseProfileId r)),
      (''deliveryLimitsDigest'', JStr (px_deliveryLimitsDigest r)),
      (''purpose'', JStr (proofPurposeText (px_purpose r))), (''conversationId'', JStr (px_conversationId r)),
      (''policyHeadId'', JStr (px_policyHeadId r)), (''policyHeadSequence'', JStr (px_policyHeadSequence r)),
      (''policyHeadHash'', JStr (px_policyHeadHash r)),
      (''deliveryLogPosition'', JStr (px_deliveryLogPosition r)),
      (''deliveryLogHeadHash'', JStr (px_deliveryLogHeadHash r)),
      (''evaluationLogPosition'', JStr (px_evaluationLogPosition r)),
      (''evaluationLogHeadHash'', JStr (px_evaluationLogHeadHash r)), (''epoch'', JStr (px_epoch r)),
      (''rosterVersion'', JStr (px_rosterVersion r)),
      (''confirmedTranscriptHash'', JStr (px_confirmedTranscriptHash r)),
      (''policyRevision'', JStr (px_policyRevision r)),
      (''mandatoryProposalCount'', JStr (px_mandatoryProposalCount r)),
      (''mandatoryProposalSetHash'', JStr (px_mandatoryProposalSetHash r)),
      (''authorizedSendGrantSetHash'', JStr (px_authorizedSendGrantSetHash r)),
      (''selectedSendGrantEvidenceDigest'', JStr (px_selectedSendGrantEvidenceDigest r)),
      (''selectedSendGrantInclusionEvidenceDigest'', JStr (px_selectedSendGrantInclusionEvidenceDigest r)),
      (''authorizedQuotaPolicyDigest'', JStr (px_authorizedQuotaPolicyDigest r)),
      (''priorPolicyHeadSequence'', JStr (px_priorPolicyHeadSequence r)),
      (''priorPolicyHeadHash'', JStr (px_priorPolicyHeadHash r)),
      (''priorPolicyWitnessCheckpointId'', JStr (px_priorPolicyWitnessCheckpointId r)),
      (''priorPolicyWitnessEvidenceDigest'', JStr (px_priorPolicyWitnessEvidenceDigest r)),
      (''verifiedAt'', JStr (px_verifiedAt r))]"

definition encodeExpectation :: "policyHeadProofExpectation \<Rightarrow> jsval" where
  "encodeExpectation r = mkRecord (entriesExpectation r)"

definition expectationValid :: "policyHeadProofExpectation \<Rightarrow> bool" where
  "expectationValid r =
     (quotaNameValid (px_realmId r) \<and> positiveUint63Valid (px_conversationGeneration r) \<and>
      hash32Valid (px_releaseTrustRootDigest r) \<and> RELEASE_PROFILE_ID (px_releaseProfileId r) \<and>
      hash32Valid (px_deliveryLimitsDigest r) \<and> uuidV4Valid (px_conversationId r) \<and>
      uuidV4Valid (px_policyHeadId r) \<and> positiveUint63Valid (px_policyHeadSequence r) \<and>
      nonZeroHashValid (px_policyHeadHash r) \<and> uint63Valid (px_deliveryLogPosition r) \<and>
      hash32Valid (px_deliveryLogHeadHash r) \<and> uint63Valid (px_evaluationLogPosition r) \<and>
      hash32Valid (px_evaluationLogHeadHash r) \<and> uint63Valid (px_epoch r) \<and>
      uint63Valid (px_rosterVersion r) \<and> hash32Valid (px_confirmedTranscriptHash r) \<and>
      positiveUint63Valid (px_policyRevision r) \<and> proposalCountValid (px_mandatoryProposalCount r) \<and>
      hash32Valid (px_mandatoryProposalSetHash r) \<and> hash32Valid (px_authorizedSendGrantSetHash r) \<and>
      hash32Valid (px_selectedSendGrantEvidenceDigest r) \<and>
      hash32Valid (px_selectedSendGrantInclusionEvidenceDigest r) \<and>
      hash32Valid (px_authorizedQuotaPolicyDigest r) \<and> uint63Valid (px_priorPolicyHeadSequence r) \<and>
      hash32Valid (px_priorPolicyHeadHash r) \<and> uuidV4Valid (px_priorPolicyWitnessCheckpointId r) \<and>
      hash32Valid (px_priorPolicyWitnessEvidenceDigest r) \<and> rfc3339Valid (px_verifiedAt r) \<and>
      \<not> sentinelMismatch (px_priorPolicyHeadSequence r) (px_priorPolicyHeadHash r) \<and>
      \<not> sentinelMismatch (px_deliveryLogPosition r) (px_deliveryLogHeadHash r) \<and>
      \<not> sentinelMismatch (px_evaluationLogPosition r) (px_evaluationLogHeadHash r) \<and>
      \<not> grantSentinelInvalid (px_purpose r) (px_selectedSendGrantEvidenceDigest r) (px_selectedSendGrantInclusionEvidenceDigest r))"

lemma entriesExpectation_get_1:
  "fieldOf (entriesExpectation r) ''realmId'' = JStr (px_realmId r)"
  "fieldOf (entriesExpectation r) ''conversationGeneration'' = JStr (px_conversationGeneration r)"
  "fieldOf (entriesExpectation r) ''releaseTrustRootDigest'' = JStr (px_releaseTrustRootDigest r)"
  "fieldOf (entriesExpectation r) ''releaseProfileId'' = JStr (px_releaseProfileId r)"
  "fieldOf (entriesExpectation r) ''deliveryLimitsDigest'' = JStr (px_deliveryLimitsDigest r)"
  "fieldOf (entriesExpectation r) ''purpose'' = JStr (proofPurposeText (px_purpose r))"
  "fieldOf (entriesExpectation r) ''conversationId'' = JStr (px_conversationId r)"
  "fieldOf (entriesExpectation r) ''policyHeadId'' = JStr (px_policyHeadId r)"
  by (simp_all add: entriesExpectation_def)

lemma entriesExpectation_get_2:
  "fieldOf (entriesExpectation r) ''policyHeadSequence'' = JStr (px_policyHeadSequence r)"
  "fieldOf (entriesExpectation r) ''policyHeadHash'' = JStr (px_policyHeadHash r)"
  "fieldOf (entriesExpectation r) ''deliveryLogPosition'' = JStr (px_deliveryLogPosition r)"
  "fieldOf (entriesExpectation r) ''deliveryLogHeadHash'' = JStr (px_deliveryLogHeadHash r)"
  "fieldOf (entriesExpectation r) ''evaluationLogPosition'' = JStr (px_evaluationLogPosition r)"
  "fieldOf (entriesExpectation r) ''evaluationLogHeadHash'' = JStr (px_evaluationLogHeadHash r)"
  "fieldOf (entriesExpectation r) ''epoch'' = JStr (px_epoch r)"
  "fieldOf (entriesExpectation r) ''rosterVersion'' = JStr (px_rosterVersion r)"
  by (simp_all add: entriesExpectation_def)

lemma entriesExpectation_get_3:
  "fieldOf (entriesExpectation r) ''confirmedTranscriptHash'' = JStr (px_confirmedTranscriptHash r)"
  "fieldOf (entriesExpectation r) ''policyRevision'' = JStr (px_policyRevision r)"
  "fieldOf (entriesExpectation r) ''mandatoryProposalCount'' = JStr (px_mandatoryProposalCount r)"
  "fieldOf (entriesExpectation r) ''mandatoryProposalSetHash'' = JStr (px_mandatoryProposalSetHash r)"
  "fieldOf (entriesExpectation r) ''authorizedSendGrantSetHash'' = JStr (px_authorizedSendGrantSetHash r)"
  "fieldOf (entriesExpectation r) ''selectedSendGrantEvidenceDigest'' = JStr (px_selectedSendGrantEvidenceDigest r)"
  "fieldOf (entriesExpectation r) ''selectedSendGrantInclusionEvidenceDigest'' = JStr (px_selectedSendGrantInclusionEvidenceDigest r)"
  "fieldOf (entriesExpectation r) ''authorizedQuotaPolicyDigest'' = JStr (px_authorizedQuotaPolicyDigest r)"
  by (simp_all add: entriesExpectation_def)

lemma entriesExpectation_get_4:
  "fieldOf (entriesExpectation r) ''priorPolicyHeadSequence'' = JStr (px_priorPolicyHeadSequence r)"
  "fieldOf (entriesExpectation r) ''priorPolicyHeadHash'' = JStr (px_priorPolicyHeadHash r)"
  "fieldOf (entriesExpectation r) ''priorPolicyWitnessCheckpointId'' = JStr (px_priorPolicyWitnessCheckpointId r)"
  "fieldOf (entriesExpectation r) ''priorPolicyWitnessEvidenceDigest'' = JStr (px_priorPolicyWitnessEvidenceDigest r)"
  "fieldOf (entriesExpectation r) ''verifiedAt'' = JStr (px_verifiedAt r)"
  by (simp_all add: entriesExpectation_def)

lemmas entriesExpectation_get [simp] = entriesExpectation_get_1 entriesExpectation_get_2 entriesExpectation_get_3 entriesExpectation_get_4

lemma expect_encodeExpectation: "expectExactRecord (encodeExpectation r) PROOF_EXPECTATION_KEYS = Inr (fieldOf (entriesExpectation r))"
  unfolding encodeExpectation_def by (rule expectExactRecord_mkRecord) (simp_all add: PROOF_EXPECTATION_KEYS_def entriesExpectation_def)

interpretation expectation_codec: record_codec parsePolicyHeadProofExpectation encodeExpectation expectationValid
proof
  show "expectationValid r" if "parsePolicyHeadProofExpectation v = Inr r" for v r
    using that unfolding parsePolicyHeadProofExpectation_def
    by (elim bindE_InrE, simp only: parse_simps guardE_eq_Inr sum.inject, elim conjE, hypsubst, simp add: expectationValid_def)
  show "parsePolicyHeadProofExpectation (encodeExpectation r) = Inr r" if "expectationValid r" for r
    using that by (simp add: parsePolicyHeadProofExpectation_def expect_encodeExpectation parse_ok expectationValid_def split: option.splits)
qed

subsection \<open>Evidence\<close>

text \<open>The object \<open>parsed\<close> of \<open>parsePolicyHeadProofEvidence\<close>, before the checks that follow it.\<close>

record policyHeadProofEvidence = policyHeadProofExpectation +
  pv_signedBodySha256 :: string
  pv_signerKeyId :: string
  pv_signatureSha256 :: string
  pv_witnessCheckpointId :: string
  pv_witnessedPolicyHeadHash :: string
  pv_witnessEvidenceDigest :: string
  pv_issuedAt :: string
  pv_expiresAt :: string
  pv_signatureStatus :: string
  pv_keyStatus :: string
  pv_witnessStatus :: string
  pv_freshnessStatus :: freshnessStatus
  pv_currentStatus :: currentStatus
  pv_policyConsistencyStatus :: string
  pv_sendGrantInclusionStatus :: inclusionStatus
  pv_policyConsistencyEvidenceDigest :: string
  pv_evidenceDigest :: string

definition PROOF_EVIDENCE_KEYS :: "string list" where
  "PROOF_EVIDENCE_KEYS =
    [''status'', ''profile'', ''realmId'', ''conversationGeneration'', ''releaseTrustRootDigest'',
     ''purpose'', ''releaseProfileId'', ''deliveryLimitsDigest'', ''conversationId'', ''policyHeadId'',
     ''policyHeadSequence'', ''policyHeadHash'', ''deliveryLogPosition'', ''deliveryLogHeadHash'',
     ''evaluationLogPosition'', ''evaluationLogHeadHash'', ''epoch'', ''rosterVersion'',
     ''confirmedTranscriptHash'', ''policyRevision'', ''mandatoryProposalCount'',
     ''mandatoryProposalSetHash'', ''authorizedSendGrantSetHash'', ''selectedSendGrantEvidenceDigest'',
     ''selectedSendGrantInclusionEvidenceDigest'', ''authorizedQuotaPolicyDigest'',
     ''priorPolicyHeadSequence'', ''priorPolicyHeadHash'', ''priorPolicyWitnessCheckpointId'',
     ''priorPolicyWitnessEvidenceDigest'', ''signedBodySha256'', ''signerKeyId'', ''signatureSha256'',
     ''witnessCheckpointId'', ''witnessedPolicyHeadHash'', ''witnessEvidenceDigest'', ''issuedAt'',
     ''expiresAt'', ''verifiedAt'', ''signatureStatus'', ''keyStatus'', ''witnessStatus'',
     ''freshnessStatus'', ''currentStatus'', ''policyConsistencyStatus'', ''policyConsistencyEvidenceDigest'',
     ''sendGrantInclusionStatus'', ''evidenceDigest'']"

definition parsePolicyHeadProofFields :: "jsval \<Rightarrow> policyHeadProofEvidence res" where
  "parsePolicyHeadProofFields v =
     bindE (expectExactRecord v PROOF_EVIDENCE_KEYS) (\<lambda>record.
     bindE (guardE (record ''status'' = JStr ''verified'' \<and> record ''profile'' = JStr ''conversation-policy-head-proof.v1'') DeliveryStateValidationError) (\<lambda>_.
     bindE (parsePolicyRealmId (record ''realmId'')) (\<lambda>realmId.
     bindE (parsePositiveUint63 (record ''conversationGeneration'')) (\<lambda>conversationGeneration.
     bindE (parseHash32 (record ''releaseTrustRootDigest'')) (\<lambda>releaseTrustRootDigest.
     bindE (parseProofPurpose (record ''purpose'')) (\<lambda>purpose.
     bindE (parseReleaseProfileId (record ''releaseProfileId'')) (\<lambda>releaseProfileId.
     bindE (parseHash32 (record ''deliveryLimitsDigest'')) (\<lambda>deliveryLimitsDigest.
     bindE (parseConversationId (record ''conversationId'')) (\<lambda>conversationId.
     bindE (parsePolicyHeadId (record ''policyHeadId'')) (\<lambda>policyHeadId.
     bindE (parsePositiveUint63 (record ''policyHeadSequence'')) (\<lambda>policyHeadSequence.
     bindE (parseNonZeroHash32 (record ''policyHeadHash'')) (\<lambda>policyHeadHash.
     bindE (parseUint63String (record ''deliveryLogPosition'')) (\<lambda>deliveryLogPosition.
     bindE (parseHash32 (record ''deliveryLogHeadHash'')) (\<lambda>deliveryLogHeadHash.
     bindE (parseUint63String (record ''evaluationLogPosition'')) (\<lambda>evaluationLogPosition.
     bindE (parseHash32 (record ''evaluationLogHeadHash'')) (\<lambda>evaluationLogHeadHash.
     bindE (parseUint63String (record ''epoch'')) (\<lambda>epoch.
     bindE (parseUint63String (record ''rosterVersion'')) (\<lambda>rosterVersion.
     bindE (parseHash32 (record ''confirmedTranscriptHash'')) (\<lambda>confirmedTranscriptHash.
     bindE (parsePositiveUint63 (record ''policyRevision'')) (\<lambda>policyRevision.
     bindE (parseMandatoryProposalCount (record ''mandatoryProposalCount'')) (\<lambda>mandatoryProposalCount.
     bindE (parseHash32 (record ''mandatoryProposalSetHash'')) (\<lambda>mandatoryProposalSetHash.
     bindE (parseHash32 (record ''authorizedSendGrantSetHash'')) (\<lambda>authorizedSendGrantSetHash.
     bindE (parseHash32 (record ''selectedSendGrantEvidenceDigest'')) (\<lambda>selectedSendGrantEvidenceDigest.
     bindE (parseHash32 (record ''selectedSendGrantInclusionEvidenceDigest'')) (\<lambda>selectedSendGrantInclusionEvidenceDigest.
     bindE (parseHash32 (record ''authorizedQuotaPolicyDigest'')) (\<lambda>authorizedQuotaPolicyDigest.
     bindE (parseUint63String (record ''priorPolicyHeadSequence'')) (\<lambda>priorPolicyHeadSequence.
     bindE (parseHash32 (record ''priorPolicyHeadHash'')) (\<lambda>priorPolicyHeadHash.
     bindE (parseWitnessCheckpointId (record ''priorPolicyWitnessCheckpointId'')) (\<lambda>priorPolicyWitnessCheckpointId.
     bindE (parseHash32 (record ''priorPolicyWitnessEvidenceDigest'')) (\<lambda>priorPolicyWitnessEvidenceDigest.
     bindE (parseHash32 (record ''signedBodySha256'')) (\<lambda>signedBodySha256.
     bindE (parseSigningKeyId (record ''signerKeyId'')) (\<lambda>signerKeyId.
     bindE (parseHash32 (record ''signatureSha256'')) (\<lambda>signatureSha256.
     bindE (parseWitnessCheckpointId (record ''witnessCheckpointId'')) (\<lambda>witnessCheckpointId.
     bindE (parseHash32 (record ''witnessedPolicyHeadHash'')) (\<lambda>witnessedPolicyHeadHash.
     bindE (parseHash32 (record ''witnessEvidenceDigest'')) (\<lambda>witnessEvidenceDigest.
     bindE (parseRfc3339Millis (record ''issuedAt'')) (\<lambda>issuedAt.
     bindE (parseRfc3339Millis (record ''expiresAt'')) (\<lambda>expiresAt.
     bindE (parseRfc3339Millis (record ''verifiedAt'')) (\<lambda>verifiedAt.
     bindE (parseRequiredLiteral ''verified'' (record ''signatureStatus'')) (\<lambda>signatureStatus.
     bindE (parseRequiredLiteral ''valid-for-checkpoint'' (record ''keyStatus'')) (\<lambda>keyStatus.
     bindE (parseRequiredLiteral ''verified'' (record ''witnessStatus'')) (\<lambda>witnessStatus.
     bindE (parseFreshnessStatus (record ''freshnessStatus'')) (\<lambda>freshnessStatus.
     bindE (parseCurrentStatus (record ''currentStatus'')) (\<lambda>currentStatus.
     bindE (parseRequiredLiteral ''verified'' (record ''policyConsistencyStatus'')) (\<lambda>policyConsistencyStatus.
     bindE (parseInclusionStatus (record ''sendGrantInclusionStatus'')) (\<lambda>sendGrantInclusionStatus.
     bindE (parseHash32 (record ''policyConsistencyEvidenceDigest'')) (\<lambda>policyConsistencyEvidenceDigest.
     bindE (parseHash32 (record ''evidenceDigest'')) (\<lambda>evidenceDigest.
     Inr \<lparr>px_realmId = realmId, px_conversationGeneration = conversationGeneration,
          px_releaseTrustRootDigest = releaseTrustRootDigest, px_purpose = purpose,
          px_releaseProfileId = releaseProfileId, px_deliveryLimitsDigest = deliveryLimitsDigest,
          px_conversationId = conversationId, px_policyHeadId = policyHeadId,
          px_policyHeadSequence = policyHeadSequence, px_policyHeadHash = policyHeadHash,
          px_deliveryLogPosition = deliveryLogPosition, px_deliveryLogHeadHash = deliveryLogHeadHash,
          px_evaluationLogPosition = evaluationLogPosition, px_evaluationLogHeadHash = evaluationLogHeadHash,
          px_epoch = epoch, px_rosterVersion = rosterVersion,
          px_confirmedTranscriptHash = confirmedTranscriptHash, px_policyRevision = policyRevision,
          px_mandatoryProposalCount = mandatoryProposalCount,
          px_mandatoryProposalSetHash = mandatoryProposalSetHash,
          px_authorizedSendGrantSetHash = authorizedSendGrantSetHash,
          px_selectedSendGrantEvidenceDigest = selectedSendGrantEvidenceDigest,
          px_selectedSendGrantInclusionEvidenceDigest = selectedSendGrantInclusionEvidenceDigest,
          px_authorizedQuotaPolicyDigest = authorizedQuotaPolicyDigest,
          px_priorPolicyHeadSequence = priorPolicyHeadSequence, px_priorPolicyHeadHash = priorPolicyHeadHash,
          px_priorPolicyWitnessCheckpointId = priorPolicyWitnessCheckpointId,
          px_priorPolicyWitnessEvidenceDigest = priorPolicyWitnessEvidenceDigest, px_verifiedAt = verifiedAt,
          pv_signedBodySha256 = signedBodySha256, pv_signerKeyId = signerKeyId,
          pv_signatureSha256 = signatureSha256, pv_witnessCheckpointId = witnessCheckpointId,
          pv_witnessedPolicyHeadHash = witnessedPolicyHeadHash,
          pv_witnessEvidenceDigest = witnessEvidenceDigest, pv_issuedAt = issuedAt, pv_expiresAt = expiresAt,
          pv_signatureStatus = signatureStatus, pv_keyStatus = keyStatus, pv_witnessStatus = witnessStatus,
          pv_freshnessStatus = freshnessStatus, pv_currentStatus = currentStatus,
          pv_policyConsistencyStatus = policyConsistencyStatus,
          pv_sendGrantInclusionStatus = sendGrantInclusionStatus,
          pv_policyConsistencyEvidenceDigest = policyConsistencyEvidenceDigest,
          pv_evidenceDigest = evidenceDigest\<rparr>))))))))))))))))))))))))))))))))))))))))))))))))"

definition entriesEvidence :: "policyHeadProofEvidence \<Rightarrow> (string \<times> jsval) list" where
  "entriesEvidence r =
     [(''status'', JStr ''verified''), (''profile'', JStr ''conversation-policy-head-proof.v1''),
      (''realmId'', JStr (px_realmId r)), (''conversationGeneration'', JStr (px_conversationGeneration r)),
      (''releaseTrustRootDigest'', JStr (px_releaseTrustRootDigest r)),
      (''purpose'', JStr (proofPurposeText (px_purpose r))),
      (''releaseProfileId'', JStr (px_releaseProfileId r)),
      (''deliveryLimitsDigest'', JStr (px_deliveryLimitsDigest r)),
      (''conversationId'', JStr (px_conversationId r)), (''policyHeadId'', JStr (px_policyHeadId r)),
      (''policyHeadSequence'', JStr (px_policyHeadSequence r)),
      (''policyHeadHash'', JStr (px_policyHeadHash r)),
      (''deliveryLogPosition'', JStr (px_deliveryLogPosition r)),
      (''deliveryLogHeadHash'', JStr (px_deliveryLogHeadHash r)),
      (''evaluationLogPosition'', JStr (px_evaluationLogPosition r)),
      (''evaluationLogHeadHash'', JStr (px_evaluationLogHeadHash r)), (''epoch'', JStr (px_epoch r)),
      (''rosterVersion'', JStr (px_rosterVersion r)),
      (''confirmedTranscriptHash'', JStr (px_confirmedTranscriptHash r)),
      (''policyRevision'', JStr (px_policyRevision r)),
      (''mandatoryProposalCount'', JStr (px_mandatoryProposalCount r)),
      (''mandatoryProposalSetHash'', JStr (px_mandatoryProposalSetHash r)),
      (''authorizedSendGrantSetHash'', JStr (px_authorizedSendGrantSetHash r)),
      (''selectedSendGrantEvidenceDigest'', JStr (px_selectedSendGrantEvidenceDigest r)),
      (''selectedSendGrantInclusionEvidenceDigest'', JStr (px_selectedSendGrantInclusionEvidenceDigest r)),
      (''authorizedQuotaPolicyDigest'', JStr (px_authorizedQuotaPolicyDigest r)),
      (''priorPolicyHeadSequence'', JStr (px_priorPolicyHeadSequence r)),
      (''priorPolicyHeadHash'', JStr (px_priorPolicyHeadHash r)),
      (''priorPolicyWitnessCheckpointId'', JStr (px_priorPolicyWitnessCheckpointId r)),
      (''priorPolicyWitnessEvidenceDigest'', JStr (px_priorPolicyWitnessEvidenceDigest r)),
      (''signedBodySha256'', JStr (pv_signedBodySha256 r)), (''signerKeyId'', JStr (pv_signerKeyId r)),
      (''signatureSha256'', JStr (pv_signatureSha256 r)),
      (''witnessCheckpointId'', JStr (pv_witnessCheckpointId r)),
      (''witnessedPolicyHeadHash'', JStr (pv_witnessedPolicyHeadHash r)),
      (''witnessEvidenceDigest'', JStr (pv_witnessEvidenceDigest r)), (''issuedAt'', JStr (pv_issuedAt r)),
      (''expiresAt'', JStr (pv_expiresAt r)), (''verifiedAt'', JStr (px_verifiedAt r)),
      (''signatureStatus'', JStr (pv_signatureStatus r)), (''keyStatus'', JStr (pv_keyStatus r)),
      (''witnessStatus'', JStr (pv_witnessStatus r)),
      (''freshnessStatus'', JStr (freshnessStatusText (pv_freshnessStatus r))),
      (''currentStatus'', JStr (currentStatusText (pv_currentStatus r))),
      (''policyConsistencyStatus'', JStr (pv_policyConsistencyStatus r)),
      (''policyConsistencyEvidenceDigest'', JStr (pv_policyConsistencyEvidenceDigest r)),
      (''sendGrantInclusionStatus'', JStr (inclusionStatusText (pv_sendGrantInclusionStatus r))),
      (''evidenceDigest'', JStr (pv_evidenceDigest r))]"

definition encodeEvidence :: "policyHeadProofEvidence \<Rightarrow> jsval" where
  "encodeEvidence r = mkRecord (entriesEvidence r)"

definition evidenceFieldsValid :: "policyHeadProofEvidence \<Rightarrow> bool" where
  "evidenceFieldsValid r =
     (quotaNameValid (px_realmId r) \<and> positiveUint63Valid (px_conversationGeneration r) \<and>
      hash32Valid (px_releaseTrustRootDigest r) \<and> RELEASE_PROFILE_ID (px_releaseProfileId r) \<and>
      hash32Valid (px_deliveryLimitsDigest r) \<and> uuidV4Valid (px_conversationId r) \<and>
      uuidV4Valid (px_policyHeadId r) \<and> positiveUint63Valid (px_policyHeadSequence r) \<and>
      nonZeroHashValid (px_policyHeadHash r) \<and> uint63Valid (px_deliveryLogPosition r) \<and>
      hash32Valid (px_deliveryLogHeadHash r) \<and> uint63Valid (px_evaluationLogPosition r) \<and>
      hash32Valid (px_evaluationLogHeadHash r) \<and> uint63Valid (px_epoch r) \<and>
      uint63Valid (px_rosterVersion r) \<and> hash32Valid (px_confirmedTranscriptHash r) \<and>
      positiveUint63Valid (px_policyRevision r) \<and> proposalCountValid (px_mandatoryProposalCount r) \<and>
      hash32Valid (px_mandatoryProposalSetHash r) \<and> hash32Valid (px_authorizedSendGrantSetHash r) \<and>
      hash32Valid (px_selectedSendGrantEvidenceDigest r) \<and>
      hash32Valid (px_selectedSendGrantInclusionEvidenceDigest r) \<and>
      hash32Valid (px_authorizedQuotaPolicyDigest r) \<and> uint63Valid (px_priorPolicyHeadSequence r) \<and>
      hash32Valid (px_priorPolicyHeadHash r) \<and> uuidV4Valid (px_priorPolicyWitnessCheckpointId r) \<and>
      hash32Valid (px_priorPolicyWitnessEvidenceDigest r) \<and> rfc3339Valid (px_verifiedAt r) \<and>
      hash32Valid (pv_signedBodySha256 r) \<and> SIGNING_KEY_ID (pv_signerKeyId r) \<and>
      hash32Valid (pv_signatureSha256 r) \<and> uuidV4Valid (pv_witnessCheckpointId r) \<and>
      hash32Valid (pv_witnessedPolicyHeadHash r) \<and> hash32Valid (pv_witnessEvidenceDigest r) \<and>
      rfc3339Valid (pv_issuedAt r) \<and> rfc3339Valid (pv_expiresAt r) \<and>
      pv_signatureStatus r = ''verified'' \<and> pv_keyStatus r = ''valid-for-checkpoint'' \<and>
      pv_witnessStatus r = ''verified'' \<and> pv_policyConsistencyStatus r = ''verified'' \<and>
      hash32Valid (pv_policyConsistencyEvidenceDigest r) \<and> hash32Valid (pv_evidenceDigest r))"

lemma entriesEvidence_get_1:
  "fieldOf (entriesEvidence r) ''status'' = JStr ''verified''"
  "fieldOf (entriesEvidence r) ''profile'' = JStr ''conversation-policy-head-proof.v1''"
  "fieldOf (entriesEvidence r) ''realmId'' = JStr (px_realmId r)"
  "fieldOf (entriesEvidence r) ''conversationGeneration'' = JStr (px_conversationGeneration r)"
  "fieldOf (entriesEvidence r) ''releaseTrustRootDigest'' = JStr (px_releaseTrustRootDigest r)"
  "fieldOf (entriesEvidence r) ''purpose'' = JStr (proofPurposeText (px_purpose r))"
  "fieldOf (entriesEvidence r) ''releaseProfileId'' = JStr (px_releaseProfileId r)"
  "fieldOf (entriesEvidence r) ''deliveryLimitsDigest'' = JStr (px_deliveryLimitsDigest r)"
  by (simp_all add: entriesEvidence_def)

lemma entriesEvidence_get_2:
  "fieldOf (entriesEvidence r) ''conversationId'' = JStr (px_conversationId r)"
  "fieldOf (entriesEvidence r) ''policyHeadId'' = JStr (px_policyHeadId r)"
  "fieldOf (entriesEvidence r) ''policyHeadSequence'' = JStr (px_policyHeadSequence r)"
  "fieldOf (entriesEvidence r) ''policyHeadHash'' = JStr (px_policyHeadHash r)"
  "fieldOf (entriesEvidence r) ''deliveryLogPosition'' = JStr (px_deliveryLogPosition r)"
  "fieldOf (entriesEvidence r) ''deliveryLogHeadHash'' = JStr (px_deliveryLogHeadHash r)"
  "fieldOf (entriesEvidence r) ''evaluationLogPosition'' = JStr (px_evaluationLogPosition r)"
  "fieldOf (entriesEvidence r) ''evaluationLogHeadHash'' = JStr (px_evaluationLogHeadHash r)"
  by (simp_all add: entriesEvidence_def)

lemma entriesEvidence_get_3:
  "fieldOf (entriesEvidence r) ''epoch'' = JStr (px_epoch r)"
  "fieldOf (entriesEvidence r) ''rosterVersion'' = JStr (px_rosterVersion r)"
  "fieldOf (entriesEvidence r) ''confirmedTranscriptHash'' = JStr (px_confirmedTranscriptHash r)"
  "fieldOf (entriesEvidence r) ''policyRevision'' = JStr (px_policyRevision r)"
  "fieldOf (entriesEvidence r) ''mandatoryProposalCount'' = JStr (px_mandatoryProposalCount r)"
  "fieldOf (entriesEvidence r) ''mandatoryProposalSetHash'' = JStr (px_mandatoryProposalSetHash r)"
  "fieldOf (entriesEvidence r) ''authorizedSendGrantSetHash'' = JStr (px_authorizedSendGrantSetHash r)"
  "fieldOf (entriesEvidence r) ''selectedSendGrantEvidenceDigest'' = JStr (px_selectedSendGrantEvidenceDigest r)"
  by (simp_all add: entriesEvidence_def)

lemma entriesEvidence_get_4:
  "fieldOf (entriesEvidence r) ''selectedSendGrantInclusionEvidenceDigest'' = JStr (px_selectedSendGrantInclusionEvidenceDigest r)"
  "fieldOf (entriesEvidence r) ''authorizedQuotaPolicyDigest'' = JStr (px_authorizedQuotaPolicyDigest r)"
  "fieldOf (entriesEvidence r) ''priorPolicyHeadSequence'' = JStr (px_priorPolicyHeadSequence r)"
  "fieldOf (entriesEvidence r) ''priorPolicyHeadHash'' = JStr (px_priorPolicyHeadHash r)"
  "fieldOf (entriesEvidence r) ''priorPolicyWitnessCheckpointId'' = JStr (px_priorPolicyWitnessCheckpointId r)"
  "fieldOf (entriesEvidence r) ''priorPolicyWitnessEvidenceDigest'' = JStr (px_priorPolicyWitnessEvidenceDigest r)"
  "fieldOf (entriesEvidence r) ''signedBodySha256'' = JStr (pv_signedBodySha256 r)"
  "fieldOf (entriesEvidence r) ''signerKeyId'' = JStr (pv_signerKeyId r)"
  by (simp_all add: entriesEvidence_def)

lemma entriesEvidence_get_5:
  "fieldOf (entriesEvidence r) ''signatureSha256'' = JStr (pv_signatureSha256 r)"
  "fieldOf (entriesEvidence r) ''witnessCheckpointId'' = JStr (pv_witnessCheckpointId r)"
  "fieldOf (entriesEvidence r) ''witnessedPolicyHeadHash'' = JStr (pv_witnessedPolicyHeadHash r)"
  "fieldOf (entriesEvidence r) ''witnessEvidenceDigest'' = JStr (pv_witnessEvidenceDigest r)"
  "fieldOf (entriesEvidence r) ''issuedAt'' = JStr (pv_issuedAt r)"
  "fieldOf (entriesEvidence r) ''expiresAt'' = JStr (pv_expiresAt r)"
  "fieldOf (entriesEvidence r) ''verifiedAt'' = JStr (px_verifiedAt r)"
  "fieldOf (entriesEvidence r) ''signatureStatus'' = JStr (pv_signatureStatus r)"
  by (simp_all add: entriesEvidence_def)

lemma entriesEvidence_get_6:
  "fieldOf (entriesEvidence r) ''keyStatus'' = JStr (pv_keyStatus r)"
  "fieldOf (entriesEvidence r) ''witnessStatus'' = JStr (pv_witnessStatus r)"
  "fieldOf (entriesEvidence r) ''freshnessStatus'' = JStr (freshnessStatusText (pv_freshnessStatus r))"
  "fieldOf (entriesEvidence r) ''currentStatus'' = JStr (currentStatusText (pv_currentStatus r))"
  "fieldOf (entriesEvidence r) ''policyConsistencyStatus'' = JStr (pv_policyConsistencyStatus r)"
  "fieldOf (entriesEvidence r) ''policyConsistencyEvidenceDigest'' = JStr (pv_policyConsistencyEvidenceDigest r)"
  "fieldOf (entriesEvidence r) ''sendGrantInclusionStatus'' = JStr (inclusionStatusText (pv_sendGrantInclusionStatus r))"
  "fieldOf (entriesEvidence r) ''evidenceDigest'' = JStr (pv_evidenceDigest r)"
  by (simp_all add: entriesEvidence_def)

lemmas entriesEvidence_get [simp] = entriesEvidence_get_1 entriesEvidence_get_2 entriesEvidence_get_3 entriesEvidence_get_4 entriesEvidence_get_5 entriesEvidence_get_6

lemma expect_encodeEvidence: "expectExactRecord (encodeEvidence r) PROOF_EVIDENCE_KEYS = Inr (fieldOf (entriesEvidence r))"
  unfolding encodeEvidence_def by (rule expectExactRecord_mkRecord) (simp_all add: PROOF_EVIDENCE_KEYS_def entriesEvidence_def)

interpretation evidence_fields_codec: record_codec parsePolicyHeadProofFields encodeEvidence evidenceFieldsValid
proof
  show "evidenceFieldsValid r" if "parsePolicyHeadProofFields v = Inr r" for v r
    using that unfolding parsePolicyHeadProofFields_def
    by (elim bindE_InrE, simp only: parse_simps guardE_eq_Inr sum.inject, elim conjE, hypsubst, simp add: evidenceFieldsValid_def)
  show "parsePolicyHeadProofFields (encodeEvidence r) = Inr r" if "evidenceFieldsValid r" for r
    using that by (simp add: parsePolicyHeadProofFields_def expect_encodeEvidence parse_ok evidenceFieldsValid_def split: option.splits)
qed

definition POLICY_HEAD_PROOF_EVIDENCE_DIGEST_DOMAIN :: string where
  "POLICY_HEAD_PROOF_EVIDENCE_DIGEST_DOMAIN = ''jb-msg-policy-head-proof-evidence/v1''"

definition evidenceDigestFields :: "policyHeadProofEvidence \<Rightarrow> digestField list" where
  "evidenceDigestFields r =
     [Utf8 (px_realmId r), Utf8 (px_conversationGeneration r), DecodedHash (px_releaseTrustRootDigest r),
      Utf8 (px_releaseProfileId r), DecodedHash (px_deliveryLimitsDigest r),
      Utf8 (proofPurposeText (px_purpose r)), Utf8 (px_conversationId r), Utf8 (px_policyHeadId r),
      Utf8 (px_policyHeadSequence r), DecodedHash (px_policyHeadHash r), Utf8 (px_deliveryLogPosition r),
      DecodedHash (px_deliveryLogHeadHash r), Utf8 (px_evaluationLogPosition r),
      DecodedHash (px_evaluationLogHeadHash r), Utf8 (px_epoch r), Utf8 (px_rosterVersion r),
      DecodedHash (px_confirmedTranscriptHash r), Utf8 (px_policyRevision r),
      Utf8 (px_mandatoryProposalCount r), DecodedHash (px_mandatoryProposalSetHash r),
      DecodedHash (px_authorizedSendGrantSetHash r), DecodedHash (px_selectedSendGrantEvidenceDigest r),
      DecodedHash (px_selectedSendGrantInclusionEvidenceDigest r),
      DecodedHash (px_authorizedQuotaPolicyDigest r), Utf8 (px_priorPolicyHeadSequence r),
      DecodedHash (px_priorPolicyHeadHash r), Utf8 (px_priorPolicyWitnessCheckpointId r),
      DecodedHash (px_priorPolicyWitnessEvidenceDigest r), DecodedHash (pv_signedBodySha256 r),
      Utf8 (pv_signerKeyId r), DecodedHash (pv_signatureSha256 r), Utf8 (pv_witnessCheckpointId r),
      DecodedHash (pv_witnessedPolicyHeadHash r), DecodedHash (pv_witnessEvidenceDigest r),
      Utf8 (pv_issuedAt r), Utf8 (pv_expiresAt r), Utf8 (px_verifiedAt r), Utf8 (pv_signatureStatus r),
      Utf8 (pv_keyStatus r), Utf8 (pv_witnessStatus r), Utf8 (freshnessStatusText (pv_freshnessStatus r)),
      Utf8 (currentStatusText (pv_currentStatus r)), Utf8 (pv_policyConsistencyStatus r),
      DecodedHash (pv_policyConsistencyEvidenceDigest r),
      Utf8 (inclusionStatusText (pv_sendGrantInclusionStatus r))]"

definition computePolicyHeadProofEvidenceDigest :: "(bytes \<Rightarrow> bytes) \<Rightarrow> policyHeadProofEvidence \<Rightarrow> string res" where
  "computePolicyHeadProofEvidenceDigest H r =
     digestOf H POLICY_HEAD_PROOF_EVIDENCE_DIGEST_DOMAIN (evidenceDigestFields r)"

text \<open>The part of the evidence that the expectation also has.\<close>

definition expectationPart :: "policyHeadProofEvidence \<Rightarrow> policyHeadProofExpectation" where
  "expectationPart r =
     \<lparr>px_realmId = px_realmId r, px_conversationGeneration = px_conversationGeneration r,
      px_releaseTrustRootDigest = px_releaseTrustRootDigest r, px_purpose = px_purpose r,
      px_releaseProfileId = px_releaseProfileId r, px_deliveryLimitsDigest = px_deliveryLimitsDigest r,
      px_conversationId = px_conversationId r, px_policyHeadId = px_policyHeadId r,
      px_policyHeadSequence = px_policyHeadSequence r, px_policyHeadHash = px_policyHeadHash r,
      px_deliveryLogPosition = px_deliveryLogPosition r, px_deliveryLogHeadHash = px_deliveryLogHeadHash r,
      px_evaluationLogPosition = px_evaluationLogPosition r,
      px_evaluationLogHeadHash = px_evaluationLogHeadHash r, px_epoch = px_epoch r,
      px_rosterVersion = px_rosterVersion r, px_confirmedTranscriptHash = px_confirmedTranscriptHash r,
      px_policyRevision = px_policyRevision r, px_mandatoryProposalCount = px_mandatoryProposalCount r,
      px_mandatoryProposalSetHash = px_mandatoryProposalSetHash r,
      px_authorizedSendGrantSetHash = px_authorizedSendGrantSetHash r,
      px_selectedSendGrantEvidenceDigest = px_selectedSendGrantEvidenceDigest r,
      px_selectedSendGrantInclusionEvidenceDigest = px_selectedSendGrantInclusionEvidenceDigest r,
      px_authorizedQuotaPolicyDigest = px_authorizedQuotaPolicyDigest r,
      px_priorPolicyHeadSequence = px_priorPolicyHeadSequence r,
      px_priorPolicyHeadHash = px_priorPolicyHeadHash r,
      px_priorPolicyWitnessCheckpointId = px_priorPolicyWitnessCheckpointId r,
      px_priorPolicyWitnessEvidenceDigest = px_priorPolicyWitnessEvidenceDigest r,
      px_verifiedAt = px_verifiedAt r\<rparr>"

text \<open>The second and third check of the source, as conditions on the parsed object.\<close>

definition witnessBindingInconsistent :: "policyHeadProofEvidence \<Rightarrow> bool" where
  "witnessBindingInconsistent r =
     (pv_witnessedPolicyHeadHash r \<noteq> px_policyHeadHash r
      \<or> (px_purpose r = AppendAuthorization
         \<and> (bigInt (px_policyHeadSequence r) < bigInt (px_priorPolicyHeadSequence r)
            \<or> (px_policyHeadSequence r = px_priorPolicyHeadSequence r
               \<and> px_policyHeadHash r \<noteq> px_priorPolicyHeadHash r)))
      \<or> bigInt (px_deliveryLogPosition r) > bigInt (px_evaluationLogPosition r)
      \<or> sentinelMismatch (px_deliveryLogPosition r) (px_deliveryLogHeadHash r)
      \<or> sentinelMismatch (px_evaluationLogPosition r) (px_evaluationLogHeadHash r)
      \<or> pv_issuedAt r > px_verifiedAt r
      \<or> pv_expiresAt r \<le> pv_issuedAt r
      \<or> dateMillis (pv_expiresAt r) - dateMillis (pv_issuedAt r) > 300000)"

definition statusInvalidForPurpose :: "policyHeadProofEvidence \<Rightarrow> bool" where
  "statusInvalidForPurpose r =
     ((px_purpose r = AppendAuthorization
       \<and> (pv_freshnessStatus r \<noteq> Fresh \<or> pv_currentStatus r \<noteq> Current
          \<or> pv_sendGrantInclusionStatus r \<noteq> InclusionVerified
          \<or> px_selectedSendGrantEvidenceDigest r = ZERO_HASH32
          \<or> px_selectedSendGrantInclusionEvidenceDigest r = ZERO_HASH32
          \<or> pv_expiresAt r \<le> px_verifiedAt r))
      \<or> (px_purpose r = HistoricalPage
         \<and> (pv_freshnessStatus r \<noteq> Historical \<or> pv_currentStatus r \<noteq> PageExact
            \<or> pv_sendGrantInclusionStatus r \<noteq> NotRequested
            \<or> px_selectedSendGrantEvidenceDigest r \<noteq> ZERO_HASH32
            \<or> px_selectedSendGrantInclusionEvidenceDigest r \<noteq> ZERO_HASH32)))"

definition parsePolicyHeadProofEvidence ::
  "(bytes \<Rightarrow> bytes) \<Rightarrow> jsval \<Rightarrow> jsval \<Rightarrow> policyHeadProofEvidence res" where
  "parsePolicyHeadProofEvidence H v expectedValue =
     bindE (parsePolicyHeadProofExpectation expectedValue) (\<lambda>expected.
     bindE (parsePolicyHeadProofFields v) (\<lambda>parsed.
     bindE (guardE (expectationPart parsed = expected) DeliveryStateValidationError) (\<lambda>_.
     bindE (guardE (\<not> witnessBindingInconsistent parsed) DeliveryStateValidationError) (\<lambda>_.
     bindE (guardE (\<not> statusInvalidForPurpose parsed) DeliveryStateValidationError) (\<lambda>_.
     bindE (computePolicyHeadProofEvidenceDigest H parsed) (\<lambda>digest.
     bindE (guardE (pv_evidenceDigest parsed = digest) DeliveryStateValidationError) (\<lambda>_.
     Inr parsed)))))))"

subsection \<open>What accepted evidence says\<close>

lemma parsePolicyHeadProofEvidence_Inr:
  "parsePolicyHeadProofEvidence H v e = Inr r \<longleftrightarrow>
     parsePolicyHeadProofExpectation e = Inr (expectationPart r) \<and> parsePolicyHeadProofFields v = Inr r
     \<and> \<not> witnessBindingInconsistent r \<and> \<not> statusInvalidForPurpose r
     \<and> computePolicyHeadProofEvidenceDigest H r = Inr (pv_evidenceDigest r)"
  by (auto simp: parsePolicyHeadProofEvidence_def bindE_eq_Inr guardE_eq_Inr)

lemma evidenceDigestFields_inj:
  assumes "evidenceFieldsValid r" "evidenceFieldsValid s"
    "map fieldRaw (evidenceDigestFields r) = map fieldRaw (evidenceDigestFields s)"
    "pv_evidenceDigest r = pv_evidenceDigest s"
  shows "r = s"
  using assms
  by (simp add: evidenceFieldsValid_def evidenceDigestFields_def enum_inj policyHeadProofEvidence.equality)

end
