(* ===== verification/DigestFacts.thy ===== *)
theory DigestFacts
  imports StateParsers
begin

section \<open>Fields of digests: injectivity and size\<close>

text \<open>
  Shared facts for the digests of state rows: a validated value is at most 128 characters long, so every
  field of a digest is small and the digest exists; and a field determines the value it encodes, the
  nullable encodings included. The collection \<open>small_fields\<close> decides the size of a list of fields from
  the validity of the row, \<open>field_inj\<close> its injectivity.
\<close>

named_theorems small_fields \<open>validated values are small digest fields\<close>
named_theorems field_inj \<open>a digest field determines its value\<close>

subsection \<open>Sizes\<close>

lemma digitsLength: "uint63Valid s \<Longrightarrow> length s \<le> 19"
  by (rule length_uint63)

lemma length_etag: "etagValid s \<Longrightarrow> length s \<le> 43"
proof -
  assume "etagValid s"
  then obtain e r where "uint63Valid e" "uint63Valid r" "s = etagText e r"
    by (auto simp: etagValid_def)
  then show ?thesis
    using digitsLength [of e] digitsLength [of r] by (simp add: etagText_def)
qed

lemma length_release: "RELEASE_PROFILE_ID s \<Longrightarrow> length s \<le> 64"
  by (auto simp: RELEASE_PROFILE_ID_def identShape_def split: list.splits)

lemma small_scalars [small_fields]:
  "uuidV4Valid s \<Longrightarrow> smallField 256 (Utf8 s)"
  "uint63Valid s \<Longrightarrow> smallField 256 (Utf8 s)"
  "positiveUint63Valid s \<Longrightarrow> smallField 256 (Utf8 s)"
  "proposalCountValid s \<Longrightarrow> smallField 256 (Utf8 s)"
  "rfc3339Valid s \<Longrightarrow> smallField 256 (Utf8 s)"
  "etagValid s \<Longrightarrow> smallField 256 (Utf8 s)"
  "quotaNameValid s \<Longrightarrow> smallField 256 (Utf8 s)"
  "scopeSubjectValid s \<Longrightarrow> smallField 256 (Utf8 s)"
  "SIGNING_KEY_ID s \<Longrightarrow> smallField 256 (Utf8 s)"
  "RELEASE_PROFILE_ID s \<Longrightarrow> smallField 256 (Utf8 s)"
  "hash32Valid s \<Longrightarrow> smallField 256 (DecodedHash s)"
  "nonZeroHashValid s \<Longrightarrow> smallField 256 (DecodedHash s)"
  "hash32Valid s \<Longrightarrow> smallField 256 (DecodedFingerprint s)"
  by (auto intro!: smallField_Utf8 smallField_DecodedHash smallField_DecodedFingerprint simp: proposalCountValid_def
      dest: length_uuid length_uint63 length_positiveUint63 length_rfc3339 length_etag length_quotaName
      length_scopeSubject length_signingKeyId length_release)

lemma small_quotaScope [small_fields]: "smallField 256 (Utf8 (quotaScopeText x))"
  by (rule smallField_Utf8, cases x) simp_all

lemma small_conversationLifecycle [small_fields]: "smallField 256 (Utf8 (conversationLifecycleText x))"
  by (rule smallField_Utf8, cases x) simp_all

lemma small_conversationKind [small_fields]: "smallField 256 (Utf8 (conversationKindText x))"
  by (rule smallField_Utf8, cases x) simp_all

lemma small_sendRole [small_fields]: "smallField 256 (Utf8 (sendRoleText x))"
  by (rule smallField_Utf8, cases x) simp_all

lemma small_installationState [small_fields]: "smallField 256 (Utf8 (installationStateText x))"
  by (rule smallField_Utf8, cases x) simp_all

lemma small_credentialState [small_fields]: "smallField 256 (Utf8 (credentialStateText x))"
  by (rule smallField_Utf8, cases x) simp_all

lemma small_grantState [small_fields]: "smallField 256 (Utf8 (grantStateText x))"
  by (rule smallField_Utf8, cases x) simp_all

lemma small_witnessState [small_fields]: "smallField 256 (Utf8 (witnessStateText x))"
  by (rule smallField_Utf8, cases x) simp_all

lemma small_reservationState [small_fields]: "smallField 256 (Utf8 (reservationStateText x))"
  by (rule smallField_Utf8, cases x) simp_all

lemma small_proofPurpose [small_fields]: "smallField 256 (Utf8 (proofPurposeText x))"
  by (rule smallField_Utf8, cases x) simp_all

lemma small_freshnessStatus [small_fields]: "smallField 256 (Utf8 (freshnessStatusText x))"
  by (rule smallField_Utf8, cases x) simp_all

lemma small_currentStatus [small_fields]: "smallField 256 (Utf8 (currentStatusText x))"
  by (rule smallField_Utf8, cases x) simp_all

lemma small_inclusionStatus [small_fields]: "smallField 256 (Utf8 (inclusionStatusText x))"
  by (rule smallField_Utf8, cases x) simp_all

subsection \<open>Nullable fields\<close>

definition nullablePart :: "bytes option \<Rightarrow> bytes list" where
  "nullablePart v = (case v of None \<Rightarrow> [utf8 ''absent''] | Some bs \<Rightarrow> [utf8 ''present'', bs])"

lemma length_present: "length (utf8 ''present'') = 7" "length (utf8 ''absent'') = 6"
  by (simp_all add: utf8_def utf8_char_def Let_def)

lemma nullablePart_prefixed:
  assumes "case v of None \<Rightarrow> True | Some bs \<Rightarrow> length bs \<le> 2000"
  shows "canonicalLengthPrefixed (nullablePart v) = Inr (concat (map lp (nullablePart v)))"
  by (rule canonicalLengthPrefixed_small [where k = 2000])
     (use assms in \<open>auto simp: nullablePart_def length_present split: option.splits\<close>)

lemma nullablePart_inj:
  assumes "case v of None \<Rightarrow> True | Some bs \<Rightarrow> length bs \<le> 2000"
    "case w of None \<Rightarrow> True | Some bs \<Rightarrow> length bs \<le> 2000"
    "concat (map lp (nullablePart v)) = concat (map lp (nullablePart w))"
  shows "v = w"
proof -
  have "nullablePart v = nullablePart w"
    using assms nullablePart_prefixed canonicalLengthPrefixed_inj by metis
  then show ?thesis by (auto simp: nullablePart_def split: option.splits)
qed

lemma utf8_bound: "length s \<le> n \<Longrightarrow> 2 * n \<le> m \<Longrightarrow> length (utf8 s) \<le> m"
  using length_utf8 [of s] by linarith

lemma nullableText_raw:
  "(case v of None \<Rightarrow> True | Some s \<Rightarrow> length s \<le> 1000) \<Longrightarrow>
   fieldBytes (NullableText v) = Inr (concat (map lp (nullablePart (map_option utf8 v))))"
  using nullablePart_prefixed [of "map_option utf8 v"]
  by (cases v) (auto simp: encodeNullableText_def nullablePart_def utf8_bound [where n = 1000])

lemma nullableHash_raw:
  "(case v of None \<Rightarrow> True | Some s \<Rightarrow> hash32Valid s) \<Longrightarrow>
   fieldBytes (NullableHash v) = Inr (concat (map lp (nullablePart (map_option b64decode v))))"
  using nullablePart_prefixed [of "map_option b64decode v"]
  by (cases v) (auto simp: encodeNullableHash_def nullablePart_def decodeHash32_valid hash32Valid_iff)

lemma fieldRaw_NullableText:
  assumes "case v of None \<Rightarrow> True | Some s \<Rightarrow> length s \<le> 1000" "case w of None \<Rightarrow> True | Some s \<Rightarrow> length s \<le> 1000"
  shows "fieldRaw (NullableText v) = fieldRaw (NullableText w) \<longleftrightarrow> v = w"
proof
  assume eq: "fieldRaw (NullableText v) = fieldRaw (NullableText w)"
  have small: "case map_option utf8 x of None \<Rightarrow> True | Some bs \<Rightarrow> length bs \<le> 2000"
    if "case x of None \<Rightarrow> True | Some s \<Rightarrow> length s \<le> 1000" for x
    using that by (auto simp: utf8_bound [where n = 1000] split: option.splits)
  have "map_option utf8 v = map_option utf8 w"
    using eq nullableText_raw assms small by (intro nullablePart_inj) (auto simp: fieldRaw_def)
  then show "v = w" by (cases v; cases w) (auto simp: utf8_inj)
qed simp

lemma fieldRaw_NullableText_valid [field_inj]:
  "(case v of None \<Rightarrow> True | Some s \<Rightarrow> uuidV4Valid s) \<Longrightarrow> (case w of None \<Rightarrow> True | Some s \<Rightarrow> uuidV4Valid s) \<Longrightarrow>
     fieldRaw (NullableText v) = fieldRaw (NullableText w) \<longleftrightarrow> v = w"
  "(case v of None \<Rightarrow> True | Some s \<Rightarrow> positiveUint63Valid s) \<Longrightarrow>
   (case w of None \<Rightarrow> True | Some s \<Rightarrow> positiveUint63Valid s) \<Longrightarrow>
     fieldRaw (NullableText v) = fieldRaw (NullableText w) \<longleftrightarrow> v = w"
  by (rule fieldRaw_NullableText; auto dest!: length_uuid length_positiveUint63 split: option.splits)+

lemma fieldRaw_NullableHash [field_inj]:
  assumes "case v of None \<Rightarrow> True | Some s \<Rightarrow> hash32Valid s" "case w of None \<Rightarrow> True | Some s \<Rightarrow> hash32Valid s"
  shows "fieldRaw (NullableHash v) = fieldRaw (NullableHash w) \<longleftrightarrow> v = w"
proof
  assume eq: "fieldRaw (NullableHash v) = fieldRaw (NullableHash w)"
  have small: "case map_option b64decode x of None \<Rightarrow> True | Some bs \<Rightarrow> length bs \<le> 2000"
    if "case x of None \<Rightarrow> True | Some s \<Rightarrow> hash32Valid s" for x
    using that by (auto simp: hash32Valid_iff split: option.splits)
  have "map_option b64decode v = map_option b64decode w"
    using eq nullableHash_raw assms small by (intro nullablePart_inj) (auto simp: fieldRaw_def)
  with assms show "v = w" by (cases v; cases w) (auto simp: b64decode_inj_hash)
qed simp

lemma small_nullables [small_fields]:
  "(case v of None \<Rightarrow> True | Some s \<Rightarrow> positiveUint63Valid s) \<Longrightarrow> smallField 256 (NullableText v)"
  "(case v of None \<Rightarrow> True | Some s \<Rightarrow> uuidV4Valid s) \<Longrightarrow> smallField 256 (NullableText v)"
  "(case w of None \<Rightarrow> True | Some s \<Rightarrow> hash32Valid s) \<Longrightarrow> smallField 256 (NullableHash w)"
proof -
  have short: "smallField 256 (NullableText v)" if "case v of None \<Rightarrow> True | Some s \<Rightarrow> length s \<le> 100" for v
    using that nullableText_raw [of v]
    by (cases v) (auto simp: smallField_def nullablePart_def length_present utf8_bound [where n = 100])
  show "(case v of None \<Rightarrow> True | Some s \<Rightarrow> positiveUint63Valid s) \<Longrightarrow> smallField 256 (NullableText v)"
    by (rule short) (auto dest: length_positiveUint63 split: option.splits)
  show "(case v of None \<Rightarrow> True | Some s \<Rightarrow> uuidV4Valid s) \<Longrightarrow> smallField 256 (NullableText v)"
    by (rule short) (auto dest: length_uuid split: option.splits)
  show "(case w of None \<Rightarrow> True | Some s \<Rightarrow> hash32Valid s) \<Longrightarrow> smallField 256 (NullableHash w)"
    using nullableHash_raw [of w]
    by (cases w) (auto simp: smallField_def nullablePart_def length_present hash32Valid_iff)
qed

subsection \<open>Lists of fields\<close>

lemma map_fieldRaw_append:
  assumes "map fieldRaw (xs @ ys) = map fieldRaw (xs' @ ys')" "length xs = length xs'"
  shows "map fieldRaw xs = map fieldRaw xs'" "map fieldRaw ys = map fieldRaw ys'"
  using assms by auto

text \<open>Rows of one fixed width are determined by their concatenation.\<close>

lemma row_fields_inj:
  assumes "map fieldRaw (concat (map f xs)) = map fieldRaw (concat (map f ys))" "length xs = length ys"
    "\<And>x. length (f x) = n" "\<And>x y. x \<in> set xs \<Longrightarrow> y \<in> set ys \<Longrightarrow> map fieldRaw (f x) = map fieldRaw (f y) \<Longrightarrow> x = y"
  shows "xs = ys"
  using assms(2,1,4)
proof (induction xs ys rule: list_induct2)
  case (Cons x xs y ys)
  then have "map fieldRaw (f x) = map fieldRaw (f y)"
    "map fieldRaw (concat (map f xs)) = map fieldRaw (concat (map f ys))"
    by (simp_all add: assms(3))
  with Cons show ?case by (metis list.set_intros(1) list.set_intros(2))
qed simp

lemma list_all_concat: "list_all P (concat (map f xs)) \<longleftrightarrow> (\<forall>x\<in>set xs. list_all P (f x))"
  by (auto simp: list_all_iff)

text \<open>A digest of at most a few thousand small fields exists.\<close>

lemma digestOf_small:
  assumes "sha256Length H" "list_all (smallField 256) fs" "length fs \<le> 30000" "length domain \<le> 1000"
  shows "\<exists>h. digestOf H domain fs = Inr h"
  by (rule digestOf_total [where k = 256]) (use assms in auto)

end
