(* ===== verification/AppendSnapshot.thy ===== *)
theory AppendSnapshot
  imports QuotaProofs PolicyProof Limits DigestFacts
begin

section \<open>The locked snapshot of an append\<close>

text \<open>
  \<open>LockedApplicationAppendSnapshot\<close> of \<open>src/src/production/delivery/state.ts\<close>: the rows read under one
  lock, the consistency conditions between them, the refresh of the policy head from a newer proof, and
  the digest that fences the snapshot between preflight and reservation.
\<close>

subsection \<open>Digests of rows\<close>

definition DELIVERY_LIMITS_DIGEST_DOMAIN :: string where
  "DELIVERY_LIMITS_DIGEST_DOMAIN = ''jb-msg-delivery-limits/v1''"

definition limitsDigestFields :: "deliveryLimits \<Rightarrow> digestField list" where
  "limitsDigestFields limits =
     concat (map (\<lambda>key. [Utf8 key, Utf8 (limitEntry (limitTable limits) key)]) DELIVERY_LIMIT_KEYS)"

definition computeDeliveryLimitsDigest :: "(bytes \<Rightarrow> bytes) \<Rightarrow> jsval \<Rightarrow> string res" where
  "computeDeliveryLimitsDigest H v =
     bindE (parseDeliveryLimits v) (\<lambda>limits.
     digestOf H DELIVERY_LIMITS_DIGEST_DOMAIN (limitsDigestFields limits))"

definition CONVERSATION_SEND_GRANT_EVIDENCE_DIGEST_DOMAIN :: string where
  "CONVERSATION_SEND_GRANT_EVIDENCE_DIGEST_DOMAIN = ''jb-msg-conversation-send-grant-evidence/v1''"

definition grantEvidenceFields :: "lockedConversationSendGrant \<Rightarrow> digestField list" where
  "grantEvidenceFields r =
     [Utf8 (sg_conversationId r), Utf8 (sg_installationId r), Utf8 (sg_credentialId r),
      Utf8 (conversationKindText (sg_conversationKind r)), Utf8 (sg_conversationGeneration r),
      Utf8 (sendRoleText (sg_role r)), Utf8 (sg_roleCredentialId r),
      DecodedFingerprint (sg_roleCredentialFingerprint r), Utf8 (sg_roleCredentialSubjectAccountId r),
      Utf8 (sg_roleCredentialSubjectInstallationId r), Utf8 (sg_roleCredentialValidFrom r),
      Utf8 (sg_roleCredentialValidUntil r), Utf8 (sg_capability r), Utf8 (grantStateText (sg_state r)),
      Utf8 (sg_policyRevision r), Utf8 (sg_policyHeadSequence r), DecodedHash (sg_policyHeadHash r),
      Utf8 (sg_expiresAt r)]"

definition computeConversationSendGrantEvidenceDigest ::
  "(bytes \<Rightarrow> bytes) \<Rightarrow> lockedConversationSendGrant \<Rightarrow> string res" where
  "computeConversationSendGrantEvidenceDigest H r =
     digestOf H CONVERSATION_SEND_GRANT_EVIDENCE_DIGEST_DOMAIN (grantEvidenceFields r)"

subsection \<open>Snapshot\<close>

record lockedApplicationAppendSnapshot =
  ss_conversation :: lockedConversationState
  ss_membership :: lockedSenderMembership
  ss_policyHead :: lockedWitnessedPolicyHead
  ss_sendGrant :: lockedConversationSendGrant
  ss_pendingRemovalCount :: string
  ss_usage :: lockedConversationUsage
  ss_quotaBindings :: "quotaBinding list"
  ss_quotas :: "lockedQuotaCounter list"

definition SNAPSHOT_KEYS :: "string list" where
  "SNAPSHOT_KEYS =
    [''conversation'', ''membership'', ''policyHead'', ''sendGrant'', ''pendingRemovalCount'', ''usage'',
     ''quotaBindings'', ''quotas'']"

definition quotaSubjectId :: "lockedConversationState \<Rightarrow> lockedSenderMembership \<Rightarrow> quotaScope \<Rightarrow> string" where
  "quotaSubjectId conversation membership scope = (case scope of
     InstallationScope \<Rightarrow> sm_installationId membership
   | AccountScope \<Rightarrow> sm_accountId membership
   | ProjectScope \<Rightarrow> cv_projectScopeId conversation
   | ConversationScope \<Rightarrow> cv_conversationId conversation
   | TenantScope \<Rightarrow> cv_tenantScopeId conversation)"

text \<open>
  The proof evidence that a verified policy head must have been built from. The non-null assertions of
  the source (\<open>witnessCheckpointId!\<close>) hold there, since the head is verified; \<open>orEmpty\<close> is only
  evaluated on a value that is present.
\<close>

definition orEmpty :: "string option \<Rightarrow> string" where
  "orEmpty v = (case v of None \<Rightarrow> [] | Some s \<Rightarrow> s)"

definition snapshotEvidence :: "lockedConversationState \<Rightarrow> lockedWitnessedPolicyHead \<Rightarrow> policyHeadProofEvidence" where
  "snapshotEvidence cv ph =
     \<lparr>px_realmId = cv_realmId cv, px_conversationGeneration = cv_generation cv,
      px_releaseTrustRootDigest = cv_releaseTrustRootDigest cv, px_purpose = AppendAuthorization,
      px_releaseProfileId = cv_releaseProfileId cv, px_deliveryLimitsDigest = cv_deliveryLimitsDigest cv,
      px_conversationId = ph_conversationId ph, px_policyHeadId = ph_policyHeadId ph,
      px_policyHeadSequence = ph_policyHeadSequence ph, px_policyHeadHash = ph_policyHeadHash ph,
      px_deliveryLogPosition = ph_deliveryLogPosition ph, px_deliveryLogHeadHash = ph_deliveryLogHeadHash ph,
      px_evaluationLogPosition = ph_evaluationLogPosition ph,
      px_evaluationLogHeadHash = ph_evaluationLogHeadHash ph, px_epoch = ph_epoch ph,
      px_rosterVersion = ph_rosterVersion ph, px_confirmedTranscriptHash = ph_confirmedTranscriptHash ph,
      px_policyRevision = ph_policyRevision ph, px_mandatoryProposalCount = ph_mandatoryProposalCount ph,
      px_mandatoryProposalSetHash = ph_mandatoryProposalSetHash ph,
      px_authorizedSendGrantSetHash = ph_authorizedSendGrantSetHash ph,
      px_selectedSendGrantEvidenceDigest = ph_selectedSendGrantEvidenceDigest ph,
      px_selectedSendGrantInclusionEvidenceDigest = ph_selectedSendGrantInclusionEvidenceDigest ph,
      px_authorizedQuotaPolicyDigest = ph_authorizedQuotaPolicyDigest ph,
      px_priorPolicyHeadSequence = ph_priorPolicyHeadSequence ph,
      px_priorPolicyHeadHash = ph_priorPolicyHeadHash ph,
      px_priorPolicyWitnessCheckpointId = ph_priorPolicyWitnessCheckpointId ph,
      px_priorPolicyWitnessEvidenceDigest = ph_priorPolicyWitnessEvidenceDigest ph,
      px_verifiedAt = ph_proofVerifiedAt ph, pv_signedBodySha256 = ph_signedBodySha256 ph,
      pv_signerKeyId = ph_signerKeyId ph, pv_signatureSha256 = ph_signatureSha256 ph,
      pv_witnessCheckpointId = orEmpty (ph_witnessCheckpointId ph),
      pv_witnessedPolicyHeadHash = orEmpty (ph_witnessedPolicyHeadHash ph),
      pv_witnessEvidenceDigest = ph_witnessEvidenceDigest ph, pv_issuedAt = ph_issuedAt ph,
      pv_expiresAt = ph_expiresAt ph, pv_signatureStatus = ''verified'',
      pv_keyStatus = ''valid-for-checkpoint'', pv_witnessStatus = ''verified'', pv_freshnessStatus = Fresh,
      pv_currentStatus = Current, pv_policyConsistencyStatus = ''verified'',
      pv_sendGrantInclusionStatus = InclusionVerified,
      pv_policyConsistencyEvidenceDigest = ph_policyConsistencyEvidenceDigest ph,
      pv_evidenceDigest = ph_proofEvidenceDigest ph\<rparr>"

text \<open>The consistency conditions between the rows, in the order of the source.\<close>

definition rowsOfOneConversation :: "lockedApplicationAppendSnapshot \<Rightarrow> bool" where
  "rowsOfOneConversation s = (let id = cv_conversationId (ss_conversation s) in
     sm_conversationId (ss_membership s) = id \<and> ph_conversationId (ss_policyHead s) = id
     \<and> sg_conversationId (ss_sendGrant s) = id \<and> us_conversationId (ss_usage s) = id)"

definition deliveryAnchorInvalid :: "lockedConversationState \<Rightarrow> lockedWitnessedPolicyHead \<Rightarrow> bool" where
  "deliveryAnchorInvalid cv ph =
     (bigInt (ph_deliveryLogPosition ph) > bigInt (cv_lastPosition cv)
      \<or> sentinelMismatch (ph_deliveryLogPosition ph) (ph_deliveryLogHeadHash ph))"

definition evaluationAnchorInvalid :: "lockedConversationState \<Rightarrow> lockedWitnessedPolicyHead \<Rightarrow> bool" where
  "evaluationAnchorInvalid cv ph =
     (bigInt (ph_evaluationLogPosition ph) > bigInt (cv_lastPosition cv)
      \<or> bigInt (ph_deliveryLogPosition ph) > bigInt (ph_evaluationLogPosition ph)
      \<or> sentinelMismatch (ph_evaluationLogPosition ph) (ph_evaluationLogHeadHash ph))"

definition assertHeadEvidence ::
  "(bytes \<Rightarrow> bytes) \<Rightarrow> lockedConversationState \<Rightarrow> lockedWitnessedPolicyHead \<Rightarrow> unit res" where
  "assertHeadEvidence H cv ph =
     (if ph_witnessState ph = WitnessVerified then
        bindE (computePolicyHeadProofEvidenceDigest H (snapshotEvidence cv ph)) (\<lambda>digest.
        guardE (ph_proofEvidenceDigest ph = digest) DeliveryStateValidationError)
      else Inr ())"

definition assertQuotaSubjects ::
  "(bytes \<Rightarrow> bytes) \<Rightarrow> lockedConversationState \<Rightarrow> lockedSenderMembership \<Rightarrow> quotaBinding list \<Rightarrow> unit res" where
  "assertQuotaSubjects H cv sm bindings =
     bindE (mapE (\<lambda>b.
       bindE (computeApplicationAppendQuotaScopeHash H (cv_realmId cv) (qb_scope b)
                (quotaSubjectId cv sm (qb_scope b))) (\<lambda>hash.
       guardE (qb_scopeHash b = hash) DeliveryStateValidationError)) bindings) (\<lambda>_. Inr ())"

definition grantDetached :: "lockedConversationState \<Rightarrow> lockedWitnessedPolicyHead \<Rightarrow> lockedConversationSendGrant \<Rightarrow> string \<Rightarrow> bool" where
  "grantDetached cv ph sg grantDigest =
     (sg_grantEvidenceDigest sg \<noteq> grantDigest
      \<or> ph_selectedSendGrantEvidenceDigest ph \<noteq> sg_grantEvidenceDigest sg
      \<or> ph_selectedSendGrantInclusionEvidenceDigest ph \<noteq> sg_grantInclusionEvidenceDigest sg
      \<or> ph_authorizedQuotaPolicyDigest ph \<noteq> cv_quotaPolicyDigest cv)"

definition assertSnapshot :: "(bytes \<Rightarrow> bytes) \<Rightarrow> lockedApplicationAppendSnapshot \<Rightarrow> unit res" where
  "assertSnapshot H s =
     (let cv = ss_conversation s; ph = ss_policyHead s; sg = ss_sendGrant s in
     bindE (guardE (rowsOfOneConversation s) DeliveryStateValidationError) (\<lambda>_.
     bindE (guardE (\<not> sentinelMismatch (cv_lastPosition cv) (cv_currentLogHeadHash cv)) DeliveryStateValidationError) (\<lambda>_.
     bindE (guardE (\<not> deliveryAnchorInvalid cv ph) DeliveryStateValidationError) (\<lambda>_.
     bindE (guardE (\<not> evaluationAnchorInvalid cv ph) DeliveryStateValidationError) (\<lambda>_.
     bindE (assertHeadEvidence H cv ph) (\<lambda>_.
     bindE (assertQuotaBindingsMatchCounters (ss_quotaBindings s) (ss_quotas s)) (\<lambda>_.
     bindE (assertQuotaSubjects H cv (ss_membership s) (ss_quotaBindings s)) (\<lambda>_.
     bindE (computeApplicationAppendQuotaPolicyDigest H (encodeRows encodeQuotaBinding (ss_quotaBindings s))) (\<lambda>policy.
     bindE (guardE (policy = cv_quotaPolicyDigest cv) DeliveryStateValidationError) (\<lambda>_.
     bindE (computeConversationSendGrantEvidenceDigest H sg) (\<lambda>grantDigest.
     guardE (\<not> grantDetached cv ph sg grantDigest) DeliveryStateValidationError)))))))))))"

definition parseLockedApplicationAppendSnapshot ::
  "(bytes \<Rightarrow> bytes) \<Rightarrow> jsval \<Rightarrow> lockedApplicationAppendSnapshot res" where
  "parseLockedApplicationAppendSnapshot H v =
     bindE (expectExactRecord v SNAPSHOT_KEYS) (\<lambda>record.
     bindE (parseLockedConversationState (record ''conversation'')) (\<lambda>conversation.
     bindE (parseLockedSenderMembership (record ''membership'')) (\<lambda>membership.
     bindE (parseLockedWitnessedPolicyHead (record ''policyHead'')) (\<lambda>policyHead.
     bindE (parseLockedConversationSendGrant (record ''sendGrant'')) (\<lambda>sendGrant.
     bindE (parseUint63String (record ''pendingRemovalCount'')) (\<lambda>pendingRemovalCount.
     bindE (parseLockedConversationUsage (record ''usage'')) (\<lambda>usage.
     bindE (parseExpectedQuotaIdentities (record ''quotaBindings'')) (\<lambda>quotaBindings.
     bindE (parseLockedQuotaCounters (record ''quotas'')) (\<lambda>quotas.
     let snapshot = \<lparr>ss_conversation = conversation, ss_membership = membership, ss_policyHead = policyHead,
           ss_sendGrant = sendGrant, ss_pendingRemovalCount = pendingRemovalCount, ss_usage = usage,
           ss_quotaBindings = quotaBindings, ss_quotas = quotas\<rparr> in
     bindE (assertSnapshot H snapshot) (\<lambda>_.
     Inr snapshot))))))))))"

definition entriesSnapshot :: "lockedApplicationAppendSnapshot \<Rightarrow> (string \<times> jsval) list" where
  "entriesSnapshot s =
     [(''conversation'', encodeConversation (ss_conversation s)), (''membership'', encodeMembership (ss_membership s)),
      (''policyHead'', encodePolicyHead (ss_policyHead s)), (''sendGrant'', encodeSendGrant (ss_sendGrant s)),
      (''pendingRemovalCount'', JStr (ss_pendingRemovalCount s)), (''usage'', encodeUsage (ss_usage s)),
      (''quotaBindings'', encodeRows encodeQuotaBinding (ss_quotaBindings s)),
      (''quotas'', encodeRows encodeQuotaCounter (ss_quotas s))]"

definition encodeSnapshot :: "lockedApplicationAppendSnapshot \<Rightarrow> jsval" where
  "encodeSnapshot s = mkRecord (entriesSnapshot s)"

definition snapshotRowsValid :: "lockedApplicationAppendSnapshot \<Rightarrow> bool" where
  "snapshotRowsValid s =
     (conversationValid (ss_conversation s) \<and> membershipValid (ss_membership s) \<and> policyHeadValid (ss_policyHead s)
      \<and> sendGrantValid (ss_sendGrant s) \<and> uint63Valid (ss_pendingRemovalCount s) \<and> usageValid (ss_usage s)
      \<and> bindingsValid (ss_quotaBindings s) \<and> countersValid (ss_quotas s))"

definition snapshotValid :: "(bytes \<Rightarrow> bytes) \<Rightarrow> lockedApplicationAppendSnapshot \<Rightarrow> bool" where
  "snapshotValid H s = (snapshotRowsValid s \<and> assertSnapshot H s = Inr ())"

subsection \<open>Refreshing the policy head\<close>

text \<open>The expectation and the overlay of \<open>refreshLockedApplicationAppendAuthorizationSnapshot\<close>.\<close>

definition refreshExpectation ::
  "lockedConversationState \<Rightarrow> lockedWitnessedPolicyHead \<Rightarrow> lockedConversationSendGrant \<Rightarrow> string \<Rightarrow> policyHeadProofExpectation" where
  "refreshExpectation cv ph sg verifiedAt =
     \<lparr>px_realmId = cv_realmId cv, px_conversationGeneration = cv_generation cv,
      px_releaseTrustRootDigest = cv_releaseTrustRootDigest cv, px_purpose = AppendAuthorization,
      px_releaseProfileId = cv_releaseProfileId cv, px_deliveryLimitsDigest = cv_deliveryLimitsDigest cv,
      px_conversationId = cv_conversationId cv, px_policyHeadId = ph_policyHeadId ph,
      px_policyHeadSequence = cv_currentPolicyHeadSequence cv,
      px_policyHeadHash = cv_currentPolicyHeadHash cv, px_deliveryLogPosition = ph_deliveryLogPosition ph,
      px_deliveryLogHeadHash = ph_deliveryLogHeadHash ph, px_evaluationLogPosition = cv_lastPosition cv,
      px_evaluationLogHeadHash = cv_currentLogHeadHash cv, px_epoch = cv_epoch cv,
      px_rosterVersion = cv_rosterVersion cv, px_confirmedTranscriptHash = cv_confirmedTranscriptHash cv,
      px_policyRevision = ph_policyRevision ph, px_mandatoryProposalCount = ph_mandatoryProposalCount ph,
      px_mandatoryProposalSetHash = ph_mandatoryProposalSetHash ph,
      px_authorizedSendGrantSetHash = ph_authorizedSendGrantSetHash ph,
      px_selectedSendGrantEvidenceDigest = sg_grantEvidenceDigest sg,
      px_selectedSendGrantInclusionEvidenceDigest = sg_grantInclusionEvidenceDigest sg,
      px_authorizedQuotaPolicyDigest = cv_quotaPolicyDigest cv,
      px_priorPolicyHeadSequence = ph_priorPolicyHeadSequence ph,
      px_priorPolicyHeadHash = ph_priorPolicyHeadHash ph,
      px_priorPolicyWitnessCheckpointId = ph_priorPolicyWitnessCheckpointId ph,
      px_priorPolicyWitnessEvidenceDigest = ph_priorPolicyWitnessEvidenceDigest ph, px_verifiedAt = verifiedAt\<rparr>"

definition overlayPolicyHead :: "policyHeadProofEvidence \<Rightarrow> lockedWitnessedPolicyHead \<Rightarrow> lockedWitnessedPolicyHead" where
  "overlayPolicyHead proof ph = ph
     \<lparr>ph_deliveryLogPosition := px_deliveryLogPosition proof,
         ph_deliveryLogHeadHash := px_deliveryLogHeadHash proof,
         ph_evaluationLogPosition := px_evaluationLogPosition proof,
         ph_evaluationLogHeadHash := px_evaluationLogHeadHash proof,
         ph_signedBodySha256 := pv_signedBodySha256 proof, ph_signerKeyId := pv_signerKeyId proof,
         ph_signatureSha256 := pv_signatureSha256 proof,
         ph_witnessEvidenceDigest := pv_witnessEvidenceDigest proof,
         ph_proofEvidenceDigest := pv_evidenceDigest proof,
         ph_policyConsistencyEvidenceDigest := pv_policyConsistencyEvidenceDigest proof,
         ph_proofVerifiedAt := px_verifiedAt proof, ph_issuedAt := pv_issuedAt proof,
         ph_expiresAt := pv_expiresAt proof, ph_witnessState := WitnessVerified,
         ph_witnessCheckpointId := Some (pv_witnessCheckpointId proof),
         ph_witnessedPolicyHeadHash := Some (pv_witnessedPolicyHeadHash proof),
         ph_selectedSendGrantEvidenceDigest := px_selectedSendGrantEvidenceDigest proof,
         ph_selectedSendGrantInclusionEvidenceDigest := px_selectedSendGrantInclusionEvidenceDigest proof,
         ph_authorizedQuotaPolicyDigest := px_authorizedQuotaPolicyDigest proof\<rparr>"

definition refreshLockedApplicationAppendAuthorizationSnapshot ::
  "(bytes \<Rightarrow> bytes) \<Rightarrow> jsval \<Rightarrow> policyHeadProofEvidence \<Rightarrow> lockedApplicationAppendSnapshot res" where
  "refreshLockedApplicationAppendAuthorizationSnapshot H persistedSnapshot evidence =
     bindE (parseLockedApplicationAppendSnapshot H persistedSnapshot) (\<lambda>snapshot.
     let expected = refreshExpectation (ss_conversation snapshot) (ss_policyHead snapshot) (ss_sendGrant snapshot)
                      (px_verifiedAt evidence) in
     bindE (parsePolicyHeadProofEvidence H (encodeEvidence evidence) (encodeExpectation expected)) (\<lambda>proof.
     parseLockedApplicationAppendSnapshot H
       (encodeSnapshot (snapshot\<lparr>ss_policyHead := overlayPolicyHead proof (ss_policyHead snapshot)\<rparr>))))"

subsection \<open>Snapshot digest\<close>

definition LOCKED_APPLICATION_APPEND_SNAPSHOT_DIGEST_DOMAIN :: string where
  "LOCKED_APPLICATION_APPEND_SNAPSHOT_DIGEST_DOMAIN = ''jb-msg-locked-application-append-snapshot/v1''"

definition conversationDigestFields :: "lockedConversationState \<Rightarrow> digestField list" where
  "conversationDigestFields r =
     [Utf8 (cv_realmId r), Utf8 (cv_conversationId r), Utf8 (cv_projectScopeId r), Utf8 (cv_tenantScopeId r),
      Utf8 (conversationKindText (cv_kind r)), Utf8 (cv_generation r), Utf8 (cv_releaseProfileId r),
      DecodedHash (cv_deliveryLimitsDigest r), DecodedHash (cv_releaseTrustRootDigest r),
      DecodedHash (cv_quotaPolicyDigest r), DecodedHash (cv_groupIdHash r),
      Utf8 (conversationLifecycleText (cv_state r)), Utf8 (cv_etag r), Utf8 (cv_epoch r),
      Utf8 (cv_rosterVersion r), DecodedHash (cv_rosterHash r), Utf8 (cv_recipientSetVersion r),
      DecodedHash (cv_recipientSetHash r), DecodedHash (cv_confirmedTranscriptHash r),
      Utf8 (cv_lastPosition r), DecodedHash (cv_currentLogHeadHash r), Utf8 (cv_currentPolicyHeadSequence r),
      DecodedHash (cv_currentPolicyHeadHash r)]"

definition membershipDigestFields :: "lockedSenderMembership \<Rightarrow> digestField list" where
  "membershipDigestFields r =
     [Utf8 (sm_conversationId r), Utf8 (sm_accountId r), Utf8 (sm_installationId r), Utf8 (sm_credentialId r),
      DecodedFingerprint (sm_credentialFingerprint r), Utf8 (sm_credentialRevocationVersion r),
      Utf8 (installationStateText (sm_installationState r)),
      Utf8 (credentialStateText (sm_credentialState r)), Utf8 (sm_credentialExpiresAt r),
      Utf8 (sm_joinedPosition r), NullableText (sm_removedPosition r)]"

definition policyHeadDigestFields :: "lockedWitnessedPolicyHead \<Rightarrow> digestField list" where
  "policyHeadDigestFields r =
     [Utf8 (ph_policyHeadId r), Utf8 (ph_conversationId r), Utf8 (ph_policyHeadSequence r),
      DecodedHash (ph_policyHeadHash r), Utf8 (ph_deliveryLogPosition r),
      DecodedHash (ph_deliveryLogHeadHash r), Utf8 (ph_evaluationLogPosition r),
      DecodedHash (ph_evaluationLogHeadHash r), Utf8 (ph_epoch r), Utf8 (ph_rosterVersion r),
      DecodedHash (ph_confirmedTranscriptHash r), Utf8 (ph_policyRevision r),
      DecodedHash (ph_signedBodySha256 r), Utf8 (ph_signerKeyId r), DecodedHash (ph_signatureSha256 r),
      DecodedHash (ph_witnessEvidenceDigest r), DecodedHash (ph_proofEvidenceDigest r),
      DecodedHash (ph_policyConsistencyEvidenceDigest r), Utf8 (ph_proofVerifiedAt r), Utf8 (ph_issuedAt r),
      Utf8 (ph_expiresAt r), Utf8 (witnessStateText (ph_witnessState r)),
      NullableText (ph_witnessCheckpointId r), NullableHash (ph_witnessedPolicyHeadHash r),
      Utf8 (ph_mandatoryProposalCount r), DecodedHash (ph_mandatoryProposalSetHash r),
      DecodedHash (ph_authorizedSendGrantSetHash r), DecodedHash (ph_selectedSendGrantEvidenceDigest r),
      DecodedHash (ph_selectedSendGrantInclusionEvidenceDigest r),
      DecodedHash (ph_authorizedQuotaPolicyDigest r), Utf8 (ph_priorPolicyHeadSequence r),
      DecodedHash (ph_priorPolicyHeadHash r), Utf8 (ph_priorPolicyWitnessCheckpointId r),
      DecodedHash (ph_priorPolicyWitnessEvidenceDigest r)]"

definition sendGrantDigestFields :: "lockedConversationSendGrant \<Rightarrow> digestField list" where
  "sendGrantDigestFields r =
     [Utf8 (sg_conversationId r), Utf8 (sg_installationId r), Utf8 (sg_credentialId r),
      Utf8 (conversationKindText (sg_conversationKind r)), Utf8 (sg_conversationGeneration r),
      Utf8 (sendRoleText (sg_role r)), Utf8 (sg_roleCredentialId r),
      DecodedFingerprint (sg_roleCredentialFingerprint r), Utf8 (sg_roleCredentialSubjectAccountId r),
      Utf8 (sg_roleCredentialSubjectInstallationId r), Utf8 (sg_roleCredentialValidFrom r),
      Utf8 (sg_roleCredentialValidUntil r), Utf8 (sg_capability r), Utf8 (grantStateText (sg_state r)),
      Utf8 (sg_policyRevision r), Utf8 (sg_policyHeadSequence r), DecodedHash (sg_policyHeadHash r),
      Utf8 (sg_expiresAt r), DecodedHash (sg_grantEvidenceDigest r),
      DecodedHash (sg_grantInclusionEvidenceDigest r)]"

definition usageDigestFields :: "lockedConversationUsage \<Rightarrow> digestField list" where
  "usageDigestFields r =
     [Utf8 (us_conversationId r), Utf8 (us_envelopeCount r), Utf8 (us_envelopeBytes r),
      Utf8 (us_attachmentBytes r), Utf8 (us_envelopeCountLimit r), Utf8 (us_envelopeBytesLimit r),
      Utf8 (us_attachmentBytesLimit r)]"

definition bindingDigestFields :: "quotaBinding \<Rightarrow> digestField list" where
  "bindingDigestFields b =
     [Utf8 (quotaScopeText (qb_scope b)), DecodedHash (qb_scopeHash b), Utf8 (qb_quotaName b),
      Utf8 (qb_windowStartedAt b), Utf8 (qb_windowSeconds b), Utf8 (qb_operationLimit b), Utf8 (qb_byteLimit b)]"

definition counterDigestFields :: "lockedQuotaCounter \<Rightarrow> digestField list" where
  "counterDigestFields q =
     [Utf8 (quotaScopeText (qc_scope q)), DecodedHash (qc_scopeHash q), Utf8 (qc_quotaName q),
      Utf8 (qc_windowStartedAt q), Utf8 (qc_windowSeconds q), Utf8 (qc_operationCount q), Utf8 (qc_byteCount q),
      Utf8 (qc_reservedOperationCount q), Utf8 (qc_reservedByteCount q), Utf8 (qc_rowVersion q),
      Utf8 (qc_operationLimit q), Utf8 (qc_byteLimit q)]"

definition snapshotDigestFields :: "lockedApplicationAppendSnapshot \<Rightarrow> digestField list" where
  "snapshotDigestFields s =
     conversationDigestFields (ss_conversation s) @ membershipDigestFields (ss_membership s)
     @ policyHeadDigestFields (ss_policyHead s) @ sendGrantDigestFields (ss_sendGrant s)
     @ [Utf8 (ss_pendingRemovalCount s)] @ usageDigestFields (ss_usage s)
     @ concat (map bindingDigestFields (ss_quotaBindings s)) @ concat (map counterDigestFields (ss_quotas s))"

definition computeLockedApplicationAppendSnapshotDigest :: "(bytes \<Rightarrow> bytes) \<Rightarrow> jsval \<Rightarrow> string res" where
  "computeLockedApplicationAppendSnapshotDigest H v =
     bindE (parseLockedApplicationAppendSnapshot H v) (\<lambda>snapshot.
     digestOf H LOCKED_APPLICATION_APPEND_SNAPSHOT_DIGEST_DOMAIN (snapshotDigestFields snapshot))"

subsection \<open>The snapshot parser is a codec\<close>

lemma entriesSnapshot_get [simp]:
  "fieldOf (entriesSnapshot s) ''conversation'' = encodeConversation (ss_conversation s)"
  "fieldOf (entriesSnapshot s) ''membership'' = encodeMembership (ss_membership s)"
  "fieldOf (entriesSnapshot s) ''policyHead'' = encodePolicyHead (ss_policyHead s)"
  "fieldOf (entriesSnapshot s) ''sendGrant'' = encodeSendGrant (ss_sendGrant s)"
  "fieldOf (entriesSnapshot s) ''pendingRemovalCount'' = JStr (ss_pendingRemovalCount s)"
  "fieldOf (entriesSnapshot s) ''usage'' = encodeUsage (ss_usage s)"
  "fieldOf (entriesSnapshot s) ''quotaBindings'' = encodeRows encodeQuotaBinding (ss_quotaBindings s)"
  "fieldOf (entriesSnapshot s) ''quotas'' = encodeRows encodeQuotaCounter (ss_quotas s)"
  by (simp_all add: entriesSnapshot_def)

lemma encode_defined [simp]:
  "encodeConversation a \<noteq> JUndefined" "encodeMembership b \<noteq> JUndefined" "encodePolicyHead c \<noteq> JUndefined"
  "encodeSendGrant d \<noteq> JUndefined" "encodeUsage e \<noteq> JUndefined" "encodeRows enc rows \<noteq> JUndefined"
  by (simp_all add: encodeConversation_def encodeMembership_def encodePolicyHead_def encodeSendGrant_def
      encodeUsage_def encodeRows_def mkRecord_def mkArray_def)

lemmas encode_defined' [simp] = encode_defined [THEN not_sym]

lemma expect_encodeSnapshot: "expectExactRecord (encodeSnapshot s) SNAPSHOT_KEYS = Inr (fieldOf (entriesSnapshot s))"
  unfolding encodeSnapshot_def by (rule expectExactRecord_mkRecord) (simp_all add: SNAPSHOT_KEYS_def entriesSnapshot_def)

lemmas row_codecs_wf =
  conversation_codec.parse_wf membership_codec.parse_wf policyHead_codec.parse_wf grant_codec.parse_wf
  usage_codec.parse_wf bindings_codec.parse_wf counters_codec.parse_wf

lemmas row_codecs_encode =
  conversation_codec.parse_encode membership_codec.parse_encode policyHead_codec.parse_encode
  grant_codec.parse_encode usage_codec.parse_encode bindings_codec.parse_encode counters_codec.parse_encode

interpretation snapshot_codec: record_codec "parseLockedApplicationAppendSnapshot H" encodeSnapshot "snapshotValid H" for H
proof
  show "snapshotValid H s" if "parseLockedApplicationAppendSnapshot H v = Inr s" for v s
    using that unfolding parseLockedApplicationAppendSnapshot_def Let_def
    by (elim bindE_InrE, simp only: sum.inject parseUint63String_iff, hypsubst)
       (simp add: snapshotValid_def snapshotRowsValid_def row_codecs_wf)
  show "parseLockedApplicationAppendSnapshot H (encodeSnapshot s) = Inr s" if "snapshotValid H s" for s
    using that
    by (cases s) (simp add: parseLockedApplicationAppendSnapshot_def expect_encodeSnapshot parse_ok snapshotValid_def
        snapshotRowsValid_def row_codecs_encode Let_def)
qed

lemma rows_length:
  "bindingsValid bs \<Longrightarrow> length bs = 5" "countersValid qs \<Longrightarrow> length qs = 5" "deltasValid ds \<Longrightarrow> length ds = 5"
  "reservationsValid H rs \<Longrightarrow> length rs = 5"
  using canonical_length [of qb_scope bs] canonical_length [of qc_scope qs] canonical_length [of qd_scope ds]
    canonical_length [of qd_scope rs]
  by (auto simp: bindingsValid_def countersValid_def deltasValid_def reservationsValid_def)

subsection \<open>Row digests determine the rows\<close>

lemma digestFields_length [simp]:
  "length (conversationDigestFields a) = 23" "length (membershipDigestFields b) = 11"
  "length (policyHeadDigestFields c) = 34" "length (sendGrantDigestFields d) = 20"
  "length (usageDigestFields e) = 7" "length (bindingDigestFields f) = 7" "length (counterDigestFields g) = 12"
  by (simp_all add: conversationDigestFields_def membershipDigestFields_def policyHeadDigestFields_def
      sendGrantDigestFields_def usageDigestFields_def bindingDigestFields_def counterDigestFields_def)

lemma conversationDigestFields_inj:
  "conversationValid r \<Longrightarrow> conversationValid s \<Longrightarrow>
   map fieldRaw (conversationDigestFields r) = map fieldRaw (conversationDigestFields s) \<Longrightarrow> r = s"
  by (simp add: conversationDigestFields_def conversationValid_def enum_inj lockedConversationState.equality)

lemma membershipDigestFields_inj:
  "membershipValid r \<Longrightarrow> membershipValid s \<Longrightarrow>
   map fieldRaw (membershipDigestFields r) = map fieldRaw (membershipDigestFields s) \<Longrightarrow> r = s"
  by (simp add: membershipDigestFields_def membershipValid_def enum_inj field_inj lockedSenderMembership.equality)

lemma policyHeadDigestFields_inj:
  "policyHeadValid r \<Longrightarrow> policyHeadValid s \<Longrightarrow>
   map fieldRaw (policyHeadDigestFields r) = map fieldRaw (policyHeadDigestFields s) \<Longrightarrow> r = s"
  by (simp add: policyHeadDigestFields_def policyHeadValid_def enum_inj field_inj lockedWitnessedPolicyHead.equality)

lemma sendGrantDigestFields_inj:
  "sendGrantValid r \<Longrightarrow> sendGrantValid s \<Longrightarrow>
   map fieldRaw (sendGrantDigestFields r) = map fieldRaw (sendGrantDigestFields s) \<Longrightarrow> r = s"
  by (simp add: sendGrantDigestFields_def sendGrantValid_def enum_inj lockedConversationSendGrant.equality)

lemma usageDigestFields_inj:
  "map fieldRaw (usageDigestFields r) = map fieldRaw (usageDigestFields s) \<Longrightarrow> r = s"
  by (simp add: usageDigestFields_def lockedConversationUsage.equality)

lemma bindingDigestFields_inj:
  "quotaBindingValid r \<Longrightarrow> quotaBindingValid s \<Longrightarrow>
   map fieldRaw (bindingDigestFields r) = map fieldRaw (bindingDigestFields s) \<Longrightarrow> r = s"
  by (simp add: bindingDigestFields_def quotaBindingValid_def enum_inj quotaBinding.equality)

lemma counterDigestFields_inj:
  "quotaCounterValid r \<Longrightarrow> quotaCounterValid s \<Longrightarrow>
   map fieldRaw (counterDigestFields r) = map fieldRaw (counterDigestFields s) \<Longrightarrow> r = s"
  by (simp add: counterDigestFields_def quotaCounterValid_def enum_inj lockedQuotaCounter.equality)

lemma bindingRows_inj:
  assumes "bindingsValid xs" "bindingsValid ys"
    "map fieldRaw (concat (map bindingDigestFields xs)) = map fieldRaw (concat (map bindingDigestFields ys))"
  shows "xs = ys"
  by (rule row_fields_inj [OF assms(3)])
     (use assms(1,2) in \<open>auto simp: rows_length bindingsValid_def intro: bindingDigestFields_inj\<close>)

lemma counterRows_inj:
  assumes "countersValid xs" "countersValid ys"
    "map fieldRaw (concat (map counterDigestFields xs)) = map fieldRaw (concat (map counterDigestFields ys))"
  shows "xs = ys"
  by (rule row_fields_inj [OF assms(3)])
     (use assms(1,2) in \<open>auto simp: rows_length countersValid_def intro: counterDigestFields_inj\<close>)

lemma length_bindingFields: "bindingsValid xs \<Longrightarrow> length (concat (map bindingDigestFields xs)) = 35"
proof -
  assume "bindingsValid xs"
  then have "length xs = 5" by (rule rows_length)
  then show ?thesis by (simp add: length_concat comp_def sum_list_triv)
qed

lemma snapshotDigestFields_inj:
  assumes valid: "snapshotRowsValid s" "snapshotRowsValid t"
    and eq: "map fieldRaw (snapshotDigestFields s) = map fieldRaw (snapshotDigestFields t)"
  shows "s = t"
proof -
  note rows = valid[unfolded snapshotRowsValid_def]
  have parts: "map fieldRaw (conversationDigestFields (ss_conversation s)) = map fieldRaw (conversationDigestFields (ss_conversation t))"
    "map fieldRaw (membershipDigestFields (ss_membership s)) = map fieldRaw (membershipDigestFields (ss_membership t))"
    "map fieldRaw (policyHeadDigestFields (ss_policyHead s)) = map fieldRaw (policyHeadDigestFields (ss_policyHead t))"
    "map fieldRaw (sendGrantDigestFields (ss_sendGrant s)) = map fieldRaw (sendGrantDigestFields (ss_sendGrant t))"
    "ss_pendingRemovalCount s = ss_pendingRemovalCount t"
    "map fieldRaw (usageDigestFields (ss_usage s)) = map fieldRaw (usageDigestFields (ss_usage t))"
    "map fieldRaw (concat (map bindingDigestFields (ss_quotaBindings s)))
       = map fieldRaw (concat (map bindingDigestFields (ss_quotaBindings t)))"
    "map fieldRaw (concat (map counterDigestFields (ss_quotas s)))
       = map fieldRaw (concat (map counterDigestFields (ss_quotas t)))"
    using eq rows by (simp_all add: snapshotDigestFields_def length_bindingFields del: map_concat)
  have "ss_conversation s = ss_conversation t" "ss_membership s = ss_membership t"
    "ss_policyHead s = ss_policyHead t" "ss_sendGrant s = ss_sendGrant t" "ss_usage s = ss_usage t"
    "ss_quotaBindings s = ss_quotaBindings t" "ss_quotas s = ss_quotas t"
    using rows parts conversationDigestFields_inj membershipDigestFields_inj policyHeadDigestFields_inj
      sendGrantDigestFields_inj usageDigestFields_inj bindingRows_inj counterRows_inj
    by blast+
  with parts(5) show ?thesis by (simp add: lockedApplicationAppendSnapshot.equality)
qed

subsection \<open>Row digests exist\<close>

lemma conversationDigestFields_small: "conversationValid r \<Longrightarrow> list_all (smallField 256) (conversationDigestFields r)"
  by (simp add: conversationDigestFields_def conversationValid_def small_fields)

lemma membershipDigestFields_small: "membershipValid r \<Longrightarrow> list_all (smallField 256) (membershipDigestFields r)"
  by (simp add: membershipDigestFields_def membershipValid_def small_fields)

lemma policyHeadDigestFields_small: "policyHeadValid r \<Longrightarrow> list_all (smallField 256) (policyHeadDigestFields r)"
  by (simp add: policyHeadDigestFields_def policyHeadValid_def small_fields)

lemma sendGrantDigestFields_small: "sendGrantValid r \<Longrightarrow> list_all (smallField 256) (sendGrantDigestFields r)"
  by (simp add: sendGrantDigestFields_def sendGrantValid_def small_fields smallField_Utf8)

lemma usageDigestFields_small: "usageValid r \<Longrightarrow> list_all (smallField 256) (usageDigestFields r)"
  by (simp add: usageDigestFields_def usageValid_def small_fields)

lemma bindingDigestFields_small: "quotaBindingValid r \<Longrightarrow> list_all (smallField 256) (bindingDigestFields r)"
  by (simp add: bindingDigestFields_def quotaBindingValid_def small_fields)

lemma counterDigestFields_small: "quotaCounterValid r \<Longrightarrow> list_all (smallField 256) (counterDigestFields r)"
  by (simp add: counterDigestFields_def quotaCounterValid_def small_fields)

lemma snapshotDigestFields_small:
  "snapshotRowsValid s \<Longrightarrow> list_all (smallField 256) (snapshotDigestFields s)"
  by (simp add: snapshotRowsValid_def snapshotDigestFields_def conversationDigestFields_small
      membershipDigestFields_small policyHeadDigestFields_small sendGrantDigestFields_small usageDigestFields_small
      list_all_concat bindingDigestFields_small counterDigestFields_small bindingsValid_def countersValid_def
      small_fields)

lemma length_snapshotDigestFields: "snapshotRowsValid s \<Longrightarrow> length (snapshotDigestFields s) = 191"
proof -
  assume valid: "snapshotRowsValid s"
  then have "length (ss_quotas s) = 5" by (simp add: snapshotRowsValid_def rows_length)
  then have "length (concat (map counterDigestFields (ss_quotas s))) = 60"
    by (simp add: length_concat comp_def sum_list_triv)
  with valid show ?thesis
    by (simp add: snapshotRowsValid_def snapshotDigestFields_def length_bindingFields del: length_concat)
qed

lemma snapshotDigest_total:
  assumes "sha256Length H" "snapshotRowsValid s"
  shows "\<exists>h. digestOf H LOCKED_APPLICATION_APPEND_SNAPSHOT_DIGEST_DOMAIN (snapshotDigestFields s) = Inr h"
  using assms
  by (intro digestOf_small snapshotDigestFields_small)
     (simp_all add: length_snapshotDigestFields LOCKED_APPLICATION_APPEND_SNAPSHOT_DIGEST_DOMAIN_def)

lemma grantDigest_total:
  assumes "sha256Length H" "sendGrantValid r"
  shows "\<exists>h. computeConversationSendGrantEvidenceDigest H r = Inr h"
  unfolding computeConversationSendGrantEvidenceDigest_def
  by (rule digestOf_small) (use assms in \<open>simp_all add: grantEvidenceFields_def sendGrantValid_def small_fields
      smallField_Utf8 CONVERSATION_SEND_GRANT_EVIDENCE_DIGEST_DOMAIN_def\<close>)

end
