(* ===== verification/AppendDecision.thy ===== *)
theory AppendDecision
  imports AppendSnapshot
begin

section \<open>The append decision\<close>

text \<open>
  \<open>evaluateLockedApplicationAppend\<close> of \<open>src/src/production/delivery/state.ts\<close>: what the caller expects
  of the locked rows, the fifteen reasons to reject, and the reservation of capacity in the five quota
  rows. The early returns of the source are the branches here, in the same order; each compound condition
  has a name. \<open>appendAuthorized\<close> is the specification the decision is compared with: it speaks of
  numbers, points in time and row identities instead of strings.
\<close>

subsection \<open>Expectation\<close>

record applicationAppendExpectation =
  ae_realmId :: string
  ae_conversationId :: string
  ae_accountId :: string
  ae_installationId :: string
  ae_credentialId :: string
  ae_credentialFingerprint :: string
  ae_credentialRevocationVersion :: string
  ae_releaseProfileId :: string
  ae_expectedDeliveryLimitsDigest :: string
  ae_expectedQuotaPolicyDigest :: string
  ae_expectedProjectScopeId :: string
  ae_expectedTenantScopeId :: string
  ae_expectedGroupIdHash :: string
  ae_ifMatch :: string
  ae_expectedEpoch :: string
  ae_expectedRosterVersion :: string
  ae_expectedConfirmedTranscriptHash :: string
  ae_policyHeadId :: string
  ae_policyHeadSequence :: string
  ae_policyHeadHash :: string
  ae_policyEvaluationLogPosition :: string
  ae_policyEvaluationLogHeadHash :: string
  ae_envelopeByteLength :: string
  ae_attachmentByteLength :: string

definition APPEND_EXPECTATION_KEYS :: "string list" where
  "APPEND_EXPECTATION_KEYS =
    [''conversationId'', ''realmId'', ''accountId'', ''installationId'', ''credentialId'',
     ''credentialFingerprint'', ''credentialRevocationVersion'', ''releaseProfileId'',
     ''expectedDeliveryLimitsDigest'', ''expectedQuotaPolicyDigest'', ''expectedProjectScopeId'',
     ''expectedTenantScopeId'', ''expectedGroupIdHash'', ''ifMatch'', ''expectedEpoch'',
     ''expectedRosterVersion'', ''expectedConfirmedTranscriptHash'', ''policyHeadId'', ''policyHeadSequence'',
     ''policyHeadHash'', ''policyEvaluationLogPosition'', ''policyEvaluationLogHeadHash'',
     ''envelopeByteLength'', ''attachmentByteLength'']"

definition parseApplicationAppendExpectation :: "jsval \<Rightarrow> applicationAppendExpectation res" where
  "parseApplicationAppendExpectation v =
     bindE (expectExactRecord v APPEND_EXPECTATION_KEYS) (\<lambda>record.
     bindE (parseUint63String (record ''envelopeByteLength'')) (\<lambda>envelopeByteLength.
     bindE (guardE (envelopeByteLength \<noteq> ''0'') DeliveryStateValidationError) (\<lambda>_.
     bindE (parsePolicyRealmId (record ''realmId'')) (\<lambda>realmId.
     bindE (parseConversationId (record ''conversationId'')) (\<lambda>conversationId.
     bindE (parseAccountId (record ''accountId'')) (\<lambda>accountId.
     bindE (parseInstallationId (record ''installationId'')) (\<lambda>installationId.
     bindE (parseCredentialId (record ''credentialId'')) (\<lambda>credentialId.
     bindE (parseFingerprint32 (record ''credentialFingerprint'')) (\<lambda>credentialFingerprint.
     bindE (parseUint63String (record ''credentialRevocationVersion'')) (\<lambda>credentialRevocationVersion.
     bindE (parseReleaseProfileId (record ''releaseProfileId'')) (\<lambda>releaseProfileId.
     bindE (parseHash32 (record ''expectedDeliveryLimitsDigest'')) (\<lambda>expectedDeliveryLimitsDigest.
     bindE (parseHash32 (record ''expectedQuotaPolicyDigest'')) (\<lambda>expectedQuotaPolicyDigest.
     bindE (parseScopeSubjectId (record ''expectedProjectScopeId'')) (\<lambda>expectedProjectScopeId.
     bindE (parseScopeSubjectId (record ''expectedTenantScopeId'')) (\<lambda>expectedTenantScopeId.
     bindE (parseHash32 (record ''expectedGroupIdHash'')) (\<lambda>expectedGroupIdHash.
     bindE (parseConversationEtag (record ''ifMatch'')) (\<lambda>ifMatch.
     bindE (parseUint63String (record ''expectedEpoch'')) (\<lambda>expectedEpoch.
     bindE (parseUint63String (record ''expectedRosterVersion'')) (\<lambda>expectedRosterVersion.
     bindE (parseHash32 (record ''expectedConfirmedTranscriptHash'')) (\<lambda>expectedConfirmedTranscriptHash.
     bindE (parsePolicyHeadId (record ''policyHeadId'')) (\<lambda>policyHeadId.
     bindE (parseUint63String (record ''policyHeadSequence'')) (\<lambda>policyHeadSequence.
     bindE (parseNonZeroHash32 (record ''policyHeadHash'')) (\<lambda>policyHeadHash.
     bindE (parseUint63String (record ''policyEvaluationLogPosition'')) (\<lambda>policyEvaluationLogPosition.
     bindE (parseHash32 (record ''policyEvaluationLogHeadHash'')) (\<lambda>policyEvaluationLogHeadHash.
     bindE (parseUint63String (record ''attachmentByteLength'')) (\<lambda>attachmentByteLength.
     Inr \<lparr>ae_realmId = realmId, ae_conversationId = conversationId, ae_accountId = accountId,
          ae_installationId = installationId, ae_credentialId = credentialId,
          ae_credentialFingerprint = credentialFingerprint,
          ae_credentialRevocationVersion = credentialRevocationVersion,
          ae_releaseProfileId = releaseProfileId,
          ae_expectedDeliveryLimitsDigest = expectedDeliveryLimitsDigest,
          ae_expectedQuotaPolicyDigest = expectedQuotaPolicyDigest,
          ae_expectedProjectScopeId = expectedProjectScopeId,
          ae_expectedTenantScopeId = expectedTenantScopeId, ae_expectedGroupIdHash = expectedGroupIdHash,
          ae_ifMatch = ifMatch, ae_expectedEpoch = expectedEpoch,
          ae_expectedRosterVersion = expectedRosterVersion,
          ae_expectedConfirmedTranscriptHash = expectedConfirmedTranscriptHash,
          ae_policyHeadId = policyHeadId, ae_policyHeadSequence = policyHeadSequence,
          ae_policyHeadHash = policyHeadHash, ae_policyEvaluationLogPosition = policyEvaluationLogPosition,
          ae_policyEvaluationLogHeadHash = policyEvaluationLogHeadHash,
          ae_envelopeByteLength = envelopeByteLength, ae_attachmentByteLength = attachmentByteLength\<rparr>))))))))))))))))))))))))))"

definition entriesAppendExpectation :: "applicationAppendExpectation \<Rightarrow> (string \<times> jsval) list" where
  "entriesAppendExpectation r =
     [(''conversationId'', JStr (ae_conversationId r)), (''realmId'', JStr (ae_realmId r)),
      (''accountId'', JStr (ae_accountId r)), (''installationId'', JStr (ae_installationId r)),
      (''credentialId'', JStr (ae_credentialId r)),
      (''credentialFingerprint'', JStr (ae_credentialFingerprint r)),
      (''credentialRevocationVersion'', JStr (ae_credentialRevocationVersion r)),
      (''releaseProfileId'', JStr (ae_releaseProfileId r)),
      (''expectedDeliveryLimitsDigest'', JStr (ae_expectedDeliveryLimitsDigest r)),
      (''expectedQuotaPolicyDigest'', JStr (ae_expectedQuotaPolicyDigest r)),
      (''expectedProjectScopeId'', JStr (ae_expectedProjectScopeId r)),
      (''expectedTenantScopeId'', JStr (ae_expectedTenantScopeId r)),
      (''expectedGroupIdHash'', JStr (ae_expectedGroupIdHash r)), (''ifMatch'', JStr (ae_ifMatch r)),
      (''expectedEpoch'', JStr (ae_expectedEpoch r)),
      (''expectedRosterVersion'', JStr (ae_expectedRosterVersion r)),
      (''expectedConfirmedTranscriptHash'', JStr (ae_expectedConfirmedTranscriptHash r)),
      (''policyHeadId'', JStr (ae_policyHeadId r)), (''policyHeadSequence'', JStr (ae_policyHeadSequence r)),
      (''policyHeadHash'', JStr (ae_policyHeadHash r)),
      (''policyEvaluationLogPosition'', JStr (ae_policyEvaluationLogPosition r)),
      (''policyEvaluationLogHeadHash'', JStr (ae_policyEvaluationLogHeadHash r)),
      (''envelopeByteLength'', JStr (ae_envelopeByteLength r)),
      (''attachmentByteLength'', JStr (ae_attachmentByteLength r))]"

definition encodeAppendExpectation :: "applicationAppendExpectation \<Rightarrow> jsval" where
  "encodeAppendExpectation r = mkRecord (entriesAppendExpectation r)"

definition appendExpectationValid :: "applicationAppendExpectation \<Rightarrow> bool" where
  "appendExpectationValid r =
     (quotaNameValid (ae_realmId r) \<and> uuidV4Valid (ae_conversationId r) \<and>
      uuidV4Valid (ae_accountId r) \<and> uuidV4Valid (ae_installationId r) \<and>
      uuidV4Valid (ae_credentialId r) \<and> hash32Valid (ae_credentialFingerprint r) \<and>
      uint63Valid (ae_credentialRevocationVersion r) \<and> RELEASE_PROFILE_ID (ae_releaseProfileId r) \<and>
      hash32Valid (ae_expectedDeliveryLimitsDigest r) \<and>
      hash32Valid (ae_expectedQuotaPolicyDigest r) \<and>
      scopeSubjectValid (ae_expectedProjectScopeId r) \<and>
      scopeSubjectValid (ae_expectedTenantScopeId r) \<and> hash32Valid (ae_expectedGroupIdHash r) \<and>
      etagValid (ae_ifMatch r) \<and> uint63Valid (ae_expectedEpoch r) \<and>
      uint63Valid (ae_expectedRosterVersion r) \<and>
      hash32Valid (ae_expectedConfirmedTranscriptHash r) \<and> uuidV4Valid (ae_policyHeadId r) \<and>
      uint63Valid (ae_policyHeadSequence r) \<and> nonZeroHashValid (ae_policyHeadHash r) \<and>
      uint63Valid (ae_policyEvaluationLogPosition r) \<and>
      hash32Valid (ae_policyEvaluationLogHeadHash r) \<and> uint63Valid (ae_envelopeByteLength r) \<and>
      uint63Valid (ae_attachmentByteLength r) \<and> ae_envelopeByteLength r \<noteq> ''0'')"

lemma entriesAppendExpectation_get_1:
  "fieldOf (entriesAppendExpectation r) ''conversationId'' = JStr (ae_conversationId r)"
  "fieldOf (entriesAppendExpectation r) ''realmId'' = JStr (ae_realmId r)"
  "fieldOf (entriesAppendExpectation r) ''accountId'' = JStr (ae_accountId r)"
  "fieldOf (entriesAppendExpectation r) ''installationId'' = JStr (ae_installationId r)"
  "fieldOf (entriesAppendExpectation r) ''credentialId'' = JStr (ae_credentialId r)"
  "fieldOf (entriesAppendExpectation r) ''credentialFingerprint'' = JStr (ae_credentialFingerprint r)"
  "fieldOf (entriesAppendExpectation r) ''credentialRevocationVersion'' = JStr (ae_credentialRevocationVersion r)"
  "fieldOf (entriesAppendExpectation r) ''releaseProfileId'' = JStr (ae_releaseProfileId r)"
  by (simp_all add: entriesAppendExpectation_def)

lemma entriesAppendExpectation_get_2:
  "fieldOf (entriesAppendExpectation r) ''expectedDeliveryLimitsDigest'' = JStr (ae_expectedDeliveryLimitsDigest r)"
  "fieldOf (entriesAppendExpectation r) ''expectedQuotaPolicyDigest'' = JStr (ae_expectedQuotaPolicyDigest r)"
  "fieldOf (entriesAppendExpectation r) ''expectedProjectScopeId'' = JStr (ae_expectedProjectScopeId r)"
  "fieldOf (entriesAppendExpectation r) ''expectedTenantScopeId'' = JStr (ae_expectedTenantScopeId r)"
  "fieldOf (entriesAppendExpectation r) ''expectedGroupIdHash'' = JStr (ae_expectedGroupIdHash r)"
  "fieldOf (entriesAppendExpectation r) ''ifMatch'' = JStr (ae_ifMatch r)"
  "fieldOf (entriesAppendExpectation r) ''expectedEpoch'' = JStr (ae_expectedEpoch r)"
  "fieldOf (entriesAppendExpectation r) ''expectedRosterVersion'' = JStr (ae_expectedRosterVersion r)"
  by (simp_all add: entriesAppendExpectation_def)

lemma entriesAppendExpectation_get_3:
  "fieldOf (entriesAppendExpectation r) ''expectedConfirmedTranscriptHash'' = JStr (ae_expectedConfirmedTranscriptHash r)"
  "fieldOf (entriesAppendExpectation r) ''policyHeadId'' = JStr (ae_policyHeadId r)"
  "fieldOf (entriesAppendExpectation r) ''policyHeadSequence'' = JStr (ae_policyHeadSequence r)"
  "fieldOf (entriesAppendExpectation r) ''policyHeadHash'' = JStr (ae_policyHeadHash r)"
  "fieldOf (entriesAppendExpectation r) ''policyEvaluationLogPosition'' = JStr (ae_policyEvaluationLogPosition r)"
  "fieldOf (entriesAppendExpectation r) ''policyEvaluationLogHeadHash'' = JStr (ae_policyEvaluationLogHeadHash r)"
  "fieldOf (entriesAppendExpectation r) ''envelopeByteLength'' = JStr (ae_envelopeByteLength r)"
  "fieldOf (entriesAppendExpectation r) ''attachmentByteLength'' = JStr (ae_attachmentByteLength r)"
  by (simp_all add: entriesAppendExpectation_def)

lemmas entriesAppendExpectation_get [simp] = entriesAppendExpectation_get_1 entriesAppendExpectation_get_2 entriesAppendExpectation_get_3

lemma expect_encodeAppendExpectation: "expectExactRecord (encodeAppendExpectation r) APPEND_EXPECTATION_KEYS = Inr (fieldOf (entriesAppendExpectation r))"
  unfolding encodeAppendExpectation_def by (rule expectExactRecord_mkRecord) (simp_all add: APPEND_EXPECTATION_KEYS_def entriesAppendExpectation_def)

interpretation append_expectation_codec: record_codec parseApplicationAppendExpectation encodeAppendExpectation appendExpectationValid
proof
  show "appendExpectationValid r" if "parseApplicationAppendExpectation v = Inr r" for v r
    using that unfolding parseApplicationAppendExpectation_def
    by (elim bindE_InrE, simp only: parse_simps guardE_eq_Inr sum.inject, elim conjE, hypsubst, simp add: appendExpectationValid_def)
  show "parseApplicationAppendExpectation (encodeAppendExpectation r) = Inr r" if "appendExpectationValid r" for r
    using that by (simp add: parseApplicationAppendExpectation_def expect_encodeAppendExpectation parse_ok appendExpectationValid_def split: option.splits)
qed

subsection \<open>Decision\<close>

datatype rejectionReason =
    ConversationNotActive | ConversationStateInvalid | ConversationStateChanged | SenderMembershipInactive
  | SenderCredentialMismatch | SenderCredentialInactive | SenderCredentialExpired | SendGrantInvalid
  | PolicyHeadNotCurrent | PolicyHeadNotWitnessed | PolicyHeadExpired | MandatoryProposalPending
  | RemovalPending | CounterExhausted | QuotaExceeded

primrec rejectionReasonText :: "rejectionReason \<Rightarrow> string" where
  "rejectionReasonText ConversationNotActive = ''conversation-not-active''"
| "rejectionReasonText ConversationStateInvalid = ''conversation-state-invalid''"
| "rejectionReasonText ConversationStateChanged = ''conversation-state-changed''"
| "rejectionReasonText SenderMembershipInactive = ''sender-membership-inactive''"
| "rejectionReasonText SenderCredentialMismatch = ''sender-credential-mismatch''"
| "rejectionReasonText SenderCredentialInactive = ''sender-credential-inactive''"
| "rejectionReasonText SenderCredentialExpired = ''sender-credential-expired''"
| "rejectionReasonText SendGrantInvalid = ''send-grant-invalid''"
| "rejectionReasonText PolicyHeadNotCurrent = ''policy-head-not-current''"
| "rejectionReasonText PolicyHeadNotWitnessed = ''policy-head-not-witnessed''"
| "rejectionReasonText PolicyHeadExpired = ''policy-head-expired''"
| "rejectionReasonText MandatoryProposalPending = ''mandatory-proposal-pending''"
| "rejectionReasonText RemovalPending = ''removal-pending''"
| "rejectionReasonText CounterExhausted = ''counter-exhausted''"
| "rejectionReasonText QuotaExceeded = ''quota-exceeded''"

definition APPLICATION_APPEND_REJECTION_REASONS :: "rejectionReason list" where
  "APPLICATION_APPEND_REJECTION_REASONS =
     [ConversationNotActive, ConversationStateInvalid, ConversationStateChanged, SenderMembershipInactive,
      SenderCredentialMismatch, SenderCredentialInactive, SenderCredentialExpired, SendGrantInvalid,
      PolicyHeadNotCurrent, PolicyHeadNotWitnessed, PolicyHeadExpired, MandatoryProposalPending,
      RemovalPending, CounterExhausted, QuotaExceeded]"

definition parseApplicationAppendRejectionReason :: "jsval \<Rightarrow> rejectionReason res" where
  "parseApplicationAppendRejectionReason = parseOneOf rejectionReasonText APPLICATION_APPEND_REJECTION_REASONS"

text \<open>
  \<open>LockedApplicationAppendDecision\<close>: the next position, the next usage row, the capacity deltas and the
  quota rows after the reservation; or the reason code.
\<close>

datatype appendDecision =
    Allowed string lockedConversationUsage "quotaDelta list" "lockedQuotaCounter list"
  | Rejected rejectionReason

definition roleMaySend :: "conversationKind \<Rightarrow> sendRole \<Rightarrow> bool" where
  "roleMaySend kind role = (case kind of
     PurchaseSupport \<Rightarrow> role = Customer \<or> role = ProjectStaff
   | Announcement \<Rightarrow> role = Publisher
   | Community \<Rightarrow> role = Member \<or> role = Moderator)"

text \<open>Division of \<open>bigint\<close>s truncates towards zero, and throws for a zero divisor.\<close>

definition bigIntDiv :: "int \<Rightarrow> int \<Rightarrow> int res" where
  "bigIntDiv a b = (if b = 0 then Inl RangeError else Inr (sgn a * sgn b * (\<bar>a\<bar> div \<bar>b\<bar>)))"

definition isWithinQuotaWindow :: "lockedQuotaCounter \<Rightarrow> string \<Rightarrow> bool res" where
  "isWithinQuotaWindow quota now =
     (let nowMilliseconds = dateMillis now; startsAt = dateMillis (qc_windowStartedAt quota);
          duration = bigInt (qc_windowSeconds quota) * 1000 in
      bindE (bigIntDiv nowMilliseconds duration) (\<lambda>quotient.
      let expectedStart = quotient * duration in
      Inr (startsAt = expectedStart \<and> nowMilliseconds < startsAt + duration)))"

text \<open>The conditions of the early returns.\<close>

definition conversationStateChanged :: "applicationAppendExpectation \<Rightarrow> lockedConversationState \<Rightarrow> bool" where
  "conversationStateChanged e cv =
     (ae_realmId e \<noteq> cv_realmId cv \<or> ae_conversationId e \<noteq> cv_conversationId cv
      \<or> ae_releaseProfileId e \<noteq> cv_releaseProfileId cv
      \<or> ae_expectedDeliveryLimitsDigest e \<noteq> cv_deliveryLimitsDigest cv
      \<or> ae_expectedQuotaPolicyDigest e \<noteq> cv_quotaPolicyDigest cv
      \<or> ae_expectedProjectScopeId e \<noteq> cv_projectScopeId cv
      \<or> ae_expectedTenantScopeId e \<noteq> cv_tenantScopeId cv
      \<or> ae_expectedGroupIdHash e \<noteq> cv_groupIdHash cv
      \<or> ae_ifMatch e \<noteq> cv_etag cv \<or> ae_expectedEpoch e \<noteq> cv_epoch cv
      \<or> ae_expectedRosterVersion e \<noteq> cv_rosterVersion cv
      \<or> ae_expectedConfirmedTranscriptHash e \<noteq> cv_confirmedTranscriptHash cv)"

definition membershipInactive :: "lockedConversationState \<Rightarrow> lockedSenderMembership \<Rightarrow> bool" where
  "membershipInactive cv sm =
     (sm_conversationId sm \<noteq> cv_conversationId cv \<or> sm_removedPosition sm \<noteq> None
      \<or> bigInt (sm_joinedPosition sm) > bigInt (cv_lastPosition cv))"

definition credentialMismatch :: "applicationAppendExpectation \<Rightarrow> lockedSenderMembership \<Rightarrow> bool" where
  "credentialMismatch e sm =
     (ae_accountId e \<noteq> sm_accountId sm \<or> ae_installationId e \<noteq> sm_installationId sm
      \<or> ae_credentialId e \<noteq> sm_credentialId sm
      \<or> ae_credentialFingerprint e \<noteq> sm_credentialFingerprint sm
      \<or> ae_credentialRevocationVersion e \<noteq> sm_credentialRevocationVersion sm)"

definition credentialInactive :: "lockedSenderMembership \<Rightarrow> bool" where
  "credentialInactive sm = (sm_installationState sm \<noteq> InstActive \<or> sm_credentialState sm \<noteq> CredActive)"

text \<open>
  The disjunction of the grant condition is evaluated from the left: the digest of the grant is only
  computed when the first eight comparisons hold.
\<close>

definition grantSubjectInvalid ::
  "lockedConversationState \<Rightarrow> lockedSenderMembership \<Rightarrow> lockedConversationSendGrant \<Rightarrow> string \<Rightarrow> bool" where
  "grantSubjectInvalid cv sm sg now =
     (sg_conversationId sg \<noteq> cv_conversationId cv \<or> sg_installationId sg \<noteq> sm_installationId sm
      \<or> sg_credentialId sg \<noteq> sm_credentialId sm
      \<or> sg_roleCredentialSubjectAccountId sg \<noteq> sm_accountId sm
      \<or> sg_roleCredentialSubjectInstallationId sg \<noteq> sm_installationId sm
      \<or> sg_roleCredentialValidFrom sg > now \<or> sg_roleCredentialValidUntil sg \<le> now
      \<or> sg_roleCredentialValidUntil sg \<le> sg_roleCredentialValidFrom sg)"

definition grantTermsInvalid :: "lockedConversationState \<Rightarrow> lockedConversationSendGrant \<Rightarrow> string \<Rightarrow> bool" where
  "grantTermsInvalid cv sg now =
     (sg_conversationKind sg \<noteq> cv_kind cv \<or> sg_conversationGeneration sg \<noteq> cv_generation cv
      \<or> sg_capability sg \<noteq> ''send_application'' \<or> sg_state sg \<noteq> GrantActive \<or> sg_expiresAt sg \<le> now
      \<or> \<not> roleMaySend (cv_kind cv) (sg_role sg))"

definition sendGrantInvalid ::
  "(bytes \<Rightarrow> bytes) \<Rightarrow> lockedConversationState \<Rightarrow> lockedSenderMembership \<Rightarrow> lockedConversationSendGrant \<Rightarrow> string \<Rightarrow> bool res" where
  "sendGrantInvalid H cv sm sg now =
     (if grantSubjectInvalid cv sm sg now then Inr True
      else bindE (computeConversationSendGrantEvidenceDigest H sg) (\<lambda>digest.
        Inr (sg_grantEvidenceDigest sg \<noteq> digest \<or> grantTermsInvalid cv sg now)))"

definition policyHeadNotCurrent ::
  "applicationAppendExpectation \<Rightarrow> lockedConversationState \<Rightarrow> lockedWitnessedPolicyHead \<Rightarrow> bool" where
  "policyHeadNotCurrent e cv ph =
     (ph_conversationId ph \<noteq> cv_conversationId cv \<or> ph_policyHeadId ph \<noteq> ae_policyHeadId e
      \<or> ph_policyHeadSequence ph \<noteq> ae_policyHeadSequence e \<or> ph_policyHeadHash ph \<noteq> ae_policyHeadHash e
      \<or> ph_policyHeadSequence ph \<noteq> cv_currentPolicyHeadSequence cv
      \<or> ph_policyHeadHash ph \<noteq> cv_currentPolicyHeadHash cv
      \<or> ae_policyEvaluationLogPosition e \<noteq> cv_lastPosition cv
      \<or> ae_policyEvaluationLogHeadHash e \<noteq> cv_currentLogHeadHash cv
      \<or> ph_evaluationLogPosition ph \<noteq> ae_policyEvaluationLogPosition e
      \<or> ph_evaluationLogHeadHash ph \<noteq> ae_policyEvaluationLogHeadHash e
      \<or> ph_epoch ph \<noteq> cv_epoch cv \<or> ph_rosterVersion ph \<noteq> cv_rosterVersion cv
      \<or> ph_confirmedTranscriptHash ph \<noteq> cv_confirmedTranscriptHash cv)"

definition policyHeadNotWitnessed :: "lockedWitnessedPolicyHead \<Rightarrow> bool" where
  "policyHeadNotWitnessed ph =
     (ph_witnessState ph \<noteq> WitnessVerified \<or> ph_witnessCheckpointId ph = None
      \<or> ph_witnessedPolicyHeadHash ph \<noteq> Some (ph_policyHeadHash ph))"

definition policyHeadExpired :: "lockedWitnessedPolicyHead \<Rightarrow> string \<Rightarrow> bool" where
  "policyHeadExpired ph now = (ph_issuedAt ph > now \<or> ph_proofVerifiedAt ph > now \<or> ph_expiresAt ph \<le> now)"

definition grantPolicyMismatch ::
  "lockedConversationState \<Rightarrow> lockedWitnessedPolicyHead \<Rightarrow> lockedConversationSendGrant \<Rightarrow> bool" where
  "grantPolicyMismatch cv ph sg =
     (sg_policyRevision sg \<noteq> ph_policyRevision ph \<or> sg_policyHeadSequence sg \<noteq> ph_policyHeadSequence ph
      \<or> sg_policyHeadHash sg \<noteq> ph_policyHeadHash ph
      \<or> ph_selectedSendGrantEvidenceDigest ph \<noteq> sg_grantEvidenceDigest sg
      \<or> ph_selectedSendGrantInclusionEvidenceDigest ph \<noteq> sg_grantInclusionEvidenceDigest sg
      \<or> ph_authorizedQuotaPolicyDigest ph \<noteq> cv_quotaPolicyDigest cv)"

text \<open>One round of the loop over the quota rows: a delta and the row after the reservation, or a reason.\<close>

definition quotaIdentityMismatch :: "quotaBinding \<Rightarrow> lockedQuotaCounter \<Rightarrow> bool" where
  "quotaIdentityMismatch b q =
     (qb_scopeHash b \<noteq> qc_scopeHash q \<or> qb_quotaName b \<noteq> qc_quotaName q
      \<or> qb_windowStartedAt b \<noteq> qc_windowStartedAt q \<or> qb_windowSeconds b \<noteq> qc_windowSeconds q)"

definition reserveQuotaCounts ::
  "int \<Rightarrow> lockedQuotaCounter \<Rightarrow> rejectionReason + (quotaDelta \<times> lockedQuotaCounter)" where
  "reserveQuotaCounts totalChargedBytes quota =
     (case (addUint63 (qc_operationCount quota) 1, addUint63 (qc_byteCount quota) totalChargedBytes,
            addUint63 (qc_reservedOperationCount quota) 1, addUint63 (qc_reservedByteCount quota) totalChargedBytes,
            addUint63 (qc_rowVersion quota) 1) of
        (Some _, Some _, Some reservedOperationCount, Some reservedByteCount, Some rowVersionAfter) \<Rightarrow>
          if bigInt (qc_operationCount quota) + bigInt reservedOperationCount > bigInt (qc_operationLimit quota)
             \<or> bigInt (qc_byteCount quota) + bigInt reservedByteCount > bigInt (qc_byteLimit quota)
          then Inl QuotaExceeded
          else Inr (\<lparr>qd_scope = qc_scope quota, qd_scopeHash = qc_scopeHash quota, qd_quotaName = qc_quotaName quota,
                     qd_windowStartedAt = qc_windowStartedAt quota, qd_windowSeconds = qc_windowSeconds quota,
                     qd_reservationOperationCount = ''1'',
                     qd_reservationByteCount = bigIntToString totalChargedBytes,
                     qd_rowVersionBefore = qc_rowVersion quota, qd_rowVersionAfter = rowVersionAfter\<rparr>,
                    quota\<lparr>qc_reservedOperationCount := reservedOperationCount,
                          qc_reservedByteCount := reservedByteCount, qc_rowVersion := rowVersionAfter\<rparr>)
      | _ \<Rightarrow> Inl CounterExhausted)"

definition reserveQuotaRow ::
  "quotaBinding list \<Rightarrow> string \<Rightarrow> int \<Rightarrow> lockedQuotaCounter \<Rightarrow> (rejectionReason + (quotaDelta \<times> lockedQuotaCounter)) res" where
  "reserveQuotaRow bindings now totalChargedBytes quota =
     (case List.find (\<lambda>b. qb_scope b = qc_scope quota) bindings of
        None \<Rightarrow> Inr (Inl QuotaExceeded)
      | Some expectedQuota \<Rightarrow>
          if quotaIdentityMismatch expectedQuota quota then Inr (Inl QuotaExceeded)
          else bindE (isWithinQuotaWindow quota now) (\<lambda>within.
            if \<not> within then Inr (Inl QuotaExceeded) else Inr (reserveQuotaCounts totalChargedBytes quota)))"

fun reserveQuotas ::
  "quotaBinding list \<Rightarrow> string \<Rightarrow> int \<Rightarrow> lockedQuotaCounter list
     \<Rightarrow> (rejectionReason + (quotaDelta \<times> lockedQuotaCounter) list) res" where
  "reserveQuotas bindings now charge [] = Inr (Inr [])"
| "reserveQuotas bindings now charge (quota # quotas) =
     bindE (reserveQuotaRow bindings now charge quota) (\<lambda>row.
     case row of
       Inl reason \<Rightarrow> Inr (Inl reason)
     | Inr reserved \<Rightarrow>
         bindE (reserveQuotas bindings now charge quotas) (\<lambda>rest.
         case rest of Inl reason \<Rightarrow> Inr (Inl reason) | Inr others \<Rightarrow> Inr (Inr (reserved # others))))"

text \<open>The tail of the function: usage counters, then the loop over the quota rows.\<close>

definition usageExceeded :: "lockedConversationUsage \<Rightarrow> bool" where
  "usageExceeded u =
     (bigInt (us_envelopeCount u) > bigInt (us_envelopeCountLimit u)
      \<or> bigInt (us_envelopeBytes u) > bigInt (us_envelopeBytesLimit u)
      \<or> bigInt (us_attachmentBytes u) > bigInt (us_attachmentBytesLimit u))"

definition chargeAppend ::
  "lockedApplicationAppendSnapshot \<Rightarrow> applicationAppendExpectation \<Rightarrow> string \<Rightarrow> appendDecision res" where
  "chargeAppend s e now =
     (let usage = ss_usage s; envelopeBytes = bigInt (ae_envelopeByteLength e);
          attachmentBytes = bigInt (ae_attachmentByteLength e);
          totalChargedBytes = envelopeBytes + attachmentBytes in
      case (addUint63 (cv_lastPosition (ss_conversation s)) 1, addUint63 (us_envelopeCount usage) 1,
            addUint63 (us_envelopeBytes usage) envelopeBytes, addUint63 (us_attachmentBytes usage) attachmentBytes) of
        (Some nextPosition, Some nextEnvelopeCount, Some nextEnvelopeBytes, Some nextAttachmentBytes) \<Rightarrow>
          let nextUsage = usage\<lparr>us_envelopeCount := nextEnvelopeCount, us_envelopeBytes := nextEnvelopeBytes,
                                us_attachmentBytes := nextAttachmentBytes\<rparr> in
          if usageExceeded nextUsage then Inr (Rejected QuotaExceeded)
          else bindE (reserveQuotas (ss_quotaBindings s) now totalChargedBytes (ss_quotas s)) (\<lambda>reserved.
            case reserved of
              Inl reason \<Rightarrow> Inr (Rejected reason)
            | Inr rows \<Rightarrow> Inr (Allowed nextPosition nextUsage (map fst rows) (map snd rows)))
      | _ \<Rightarrow> Inr (Rejected CounterExhausted))"

definition evaluateLockedApplicationAppend ::
  "(bytes \<Rightarrow> bytes) \<Rightarrow> lockedApplicationAppendSnapshot \<Rightarrow> applicationAppendExpectation \<Rightarrow> string \<Rightarrow> appendDecision res" where
  "evaluateLockedApplicationAppend H s e now =
     (let cv = ss_conversation s; sm = ss_membership s; ph = ss_policyHead s; sg = ss_sendGrant s in
      if cv_state cv \<noteq> Active then Inr (Rejected ConversationNotActive)
      else if cv_etag cv \<noteq> etagText (cv_epoch cv) (cv_rosterVersion cv) then Inr (Rejected ConversationStateInvalid)
      else if conversationStateChanged e cv then Inr (Rejected ConversationStateChanged)
      else if membershipInactive cv sm then Inr (Rejected SenderMembershipInactive)
      else if credentialMismatch e sm then Inr (Rejected SenderCredentialMismatch)
      else if credentialInactive sm then Inr (Rejected SenderCredentialInactive)
      else if sm_credentialExpiresAt sm \<le> now then Inr (Rejected SenderCredentialExpired)
      else bindE (sendGrantInvalid H cv sm sg now) (\<lambda>grantInvalid.
      if grantInvalid then Inr (Rejected SendGrantInvalid)
      else if policyHeadNotCurrent e cv ph then Inr (Rejected PolicyHeadNotCurrent)
      else if policyHeadNotWitnessed ph then Inr (Rejected PolicyHeadNotWitnessed)
      else if policyHeadExpired ph now then Inr (Rejected PolicyHeadExpired)
      else if grantPolicyMismatch cv ph sg then Inr (Rejected SendGrantInvalid)
      else if ph_mandatoryProposalCount ph \<noteq> ''0'' then Inr (Rejected MandatoryProposalPending)
      else if ss_pendingRemovalCount s \<noteq> ''0'' then Inr (Rejected RemovalPending)
      else chargeAppend s e now))"

end
