(* ===== verification/AppendProofs.thy ===== *)
theory AppendProofs
  imports AppendDecision
begin

section \<open>What the append decision guarantees\<close>

text \<open>
  The decision compared with a specification over integers and points in time, the validity of every row
  it produces, and the arithmetic of a reservation. These are the facts the transition validators and
  the life cycle of a reservation rest on.
\<close>

subsection \<open>Quota windows\<close>

lemma bigIntDiv_nonneg: "0 \<le> a \<Longrightarrow> 0 < b \<Longrightarrow> bigIntDiv a b = Inr (a div b)"
  by (cases "a = 0") (simp_all add: bigIntDiv_def)

definition windowContains :: "lockedQuotaCounter \<Rightarrow> int \<Rightarrow> bool" where
  "windowContains q t = (let start = dateMillis (qc_windowStartedAt q); duration = bigInt (qc_windowSeconds q) * 1000 in
     duration dvd start \<and> start \<le> t \<and> t < start + duration)"

lemma window_start:
  fixes t d s :: int
  assumes "0 < d"
  shows "s = t div d * d \<and> t < s + d \<longleftrightarrow> d dvd s \<and> s \<le> t \<and> t < s + d"
proof -
  have eq: "t div d * d + t mod d = t" and m: "0 \<le> t mod d" "t mod d < d"
    using assms by simp_all
  show ?thesis
  proof
    assume "s = t div d * d \<and> t < s + d"
    moreover have "t div d * d \<le> t" using eq m by linarith
    ultimately show "d dvd s \<and> s \<le> t \<and> t < s + d" by simp
  next
    assume *: "d dvd s \<and> s \<le> t \<and> t < s + d"
    then obtain k where k: "s = k * d" by (auto elim: dvdE simp: mult.commute)
    with * have "k * d \<le> t" "t < (k + 1) * d" by (simp_all add: algebra_simps)
    then have "t div d = k"
      by (intro int_div_pos_eq [where r = "t - k * d"]) (simp_all add: algebra_simps)
    with * k show "s = t div d * d \<and> t < s + d" by simp
  qed
qed

lemma isWithinQuotaWindow_iff:
  assumes "quotaCounterValid q" "0 \<le> dateMillis now"
  shows "isWithinQuotaWindow q now = Inr (windowContains q (dateMillis now))"
proof -
  have d: "0 < bigInt (qc_windowSeconds q) * 1000"
    using assms(1) by (simp add: quotaCounterValid_def positiveUint63_iff)
  then show ?thesis
    using assms(2) window_start [OF d, of "dateMillis (qc_windowStartedAt q)" "dateMillis now"]
    by (simp add: isWithinQuotaWindow_def windowContains_def bigIntDiv_nonneg Let_def)
qed

subsection \<open>Reserving in one row\<close>

text \<open>The delta and the row of an admitted reservation, and the condition that admits it.\<close>

definition quotaDeltaOf :: "int \<Rightarrow> lockedQuotaCounter \<Rightarrow> quotaDelta" where
  "quotaDeltaOf charge q =
     \<lparr>qd_scope = qc_scope q, qd_scopeHash = qc_scopeHash q, qd_quotaName = qc_quotaName q,
      qd_windowStartedAt = qc_windowStartedAt q, qd_windowSeconds = qc_windowSeconds q,
      qd_reservationOperationCount = ''1'', qd_reservationByteCount = bigIntToString charge,
      qd_rowVersionBefore = qc_rowVersion q, qd_rowVersionAfter = bigIntToString (bigInt (qc_rowVersion q) + 1)\<rparr>"

definition reservedRow :: "int \<Rightarrow> lockedQuotaCounter \<Rightarrow> lockedQuotaCounter" where
  "reservedRow charge q = q
     \<lparr>qc_reservedOperationCount := bigIntToString (bigInt (qc_reservedOperationCount q) + 1),
      qc_reservedByteCount := bigIntToString (bigInt (qc_reservedByteCount q) + charge),
      qc_rowVersion := bigIntToString (bigInt (qc_rowVersion q) + 1)\<rparr>"

definition hasCapacity :: "int \<Rightarrow> lockedQuotaCounter \<Rightarrow> bool" where
  "hasCapacity charge q =
     (bigInt (qc_operationCount q) + bigInt (qc_reservedOperationCount q) + 1 \<le> bigInt (qc_operationLimit q)
      \<and> bigInt (qc_byteCount q) + bigInt (qc_reservedByteCount q) + charge \<le> bigInt (qc_byteLimit q)
      \<and> bigInt (qc_rowVersion q) < UINT63_MAX)"

lemma uint63_bounds: "uint63Valid s \<Longrightarrow> bigInt s \<le> UINT63_MAX"
  by (simp add: uint63Valid_def)

lemma counter_bounds:
  assumes "quotaCounterValid q"
  shows "bigInt (qc_operationLimit q) \<le> UINT63_MAX" "bigInt (qc_byteLimit q) \<le> UINT63_MAX"
    "bigInt (qc_rowVersion q) \<le> UINT63_MAX"
  using assms by (auto simp: quotaCounterValid_def intro: uint63_bounds)

lemma reserveQuotaCounts_admit:
  assumes "quotaCounterValid q" "0 \<le> charge" "hasCapacity charge q"
  shows "reserveQuotaCounts charge q = Inr (quotaDeltaOf charge q, reservedRow charge q)"
proof -
  have nn: "0 \<le> bigInt (qc_operationCount q)" "0 \<le> bigInt (qc_byteCount q)"
    "0 \<le> bigInt (qc_reservedOperationCount q)" "0 \<le> bigInt (qc_reservedByteCount q)" "0 \<le> bigInt (qc_rowVersion q)"
    by simp_all
  note b = counter_bounds [OF assms(1)] assms(2) assms(3)[unfolded hasCapacity_def]
  have "addUint63 (qc_operationCount q) 1 = Some (bigIntToString (bigInt (qc_operationCount q) + 1))"
    "addUint63 (qc_byteCount q) charge = Some (bigIntToString (bigInt (qc_byteCount q) + charge))"
    "addUint63 (qc_reservedOperationCount q) 1 = Some (bigIntToString (bigInt (qc_reservedOperationCount q) + 1))"
    "addUint63 (qc_reservedByteCount q) charge = Some (bigIntToString (bigInt (qc_reservedByteCount q) + charge))"
    "addUint63 (qc_rowVersion q) 1 = Some (bigIntToString (bigInt (qc_rowVersion q) + 1))"
    using nn b unfolding addUint63_Some by (simp_all del: bigInt_nonneg)
  moreover have "\<not> bigInt (qc_operationCount q) + (bigInt (qc_reservedOperationCount q) + 1) > bigInt (qc_operationLimit q)"
    "\<not> bigInt (qc_byteCount q) + (bigInt (qc_reservedByteCount q) + charge) > bigInt (qc_byteLimit q)"
    using b by linarith+
  ultimately show ?thesis
    using assms(2) by (simp add: reserveQuotaCounts_def quotaDeltaOf_def reservedRow_def)
qed

lemma reserveQuotaCounts_refuse:
  assumes "quotaCounterValid q" "0 \<le> charge" "\<not> hasCapacity charge q"
  shows "\<exists>reason. reserveQuotaCounts charge q = Inl reason"
proof (rule ccontr)
  assume "\<not> ?thesis"
  then obtain d q' where ok: "reserveQuotaCounts charge q = Inr (d, q')"
    by (cases "reserveQuotaCounts charge q") auto
  then obtain ro rb rv where "addUint63 (qc_reservedOperationCount q) 1 = Some ro"
    "addUint63 (qc_reservedByteCount q) charge = Some rb" "addUint63 (qc_rowVersion q) 1 = Some rv"
    "bigInt (qc_operationCount q) + bigInt ro \<le> bigInt (qc_operationLimit q)"
    "bigInt (qc_byteCount q) + bigInt rb \<le> bigInt (qc_byteLimit q)"
    by (auto simp: reserveQuotaCounts_def split: option.splits if_splits)
  then have "hasCapacity charge q"
    using addUint63_valid [of "qc_reservedOperationCount q" 1 ro] addUint63_valid [of "qc_reservedByteCount q" charge rb]
    by (auto simp: hasCapacity_def addUint63_Some)
  with assms(3) show False by simp
qed

lemma reservedRow_valid:
  assumes "quotaCounterValid q" "0 \<le> charge" "hasCapacity charge q"
  shows "quotaCounterValid (reservedRow charge q)"
proof -
  have nn: "0 \<le> bigInt (qc_operationCount q)" "0 \<le> bigInt (qc_byteCount q)"
    "0 \<le> bigInt (qc_reservedOperationCount q)" "0 \<le> bigInt (qc_reservedByteCount q)" "0 \<le> bigInt (qc_rowVersion q)"
    by simp_all
  note b = counter_bounds [OF assms(1)] assms(2) assms(3)[unfolded hasCapacity_def]
  have "uint63Valid (bigIntToString (bigInt (qc_reservedOperationCount q) + 1))"
    "uint63Valid (bigIntToString (bigInt (qc_reservedByteCount q) + charge))"
    "uint63Valid (bigIntToString (bigInt (qc_rowVersion q) + 1))"
    using nn b by (auto intro!: uint63Valid_toString simp del: bigInt_nonneg)
  with assms(1,2) b show ?thesis by (simp add: quotaCounterValid_def reservedRow_def)
qed

lemma quotaDeltaOf_valid:
  assumes "quotaCounterValid q" "0 \<le> charge" "hasCapacity charge q"
  shows "quotaDeltaValid (quotaDeltaOf charge q)"
proof -
  have nn: "0 \<le> bigInt (qc_byteCount q)" "0 \<le> bigInt (qc_reservedByteCount q)" "0 \<le> bigInt (qc_rowVersion q)"
    by simp_all
  note b = counter_bounds [OF assms(1)] assms(2) assms(3)[unfolded hasCapacity_def]
  have "uint63Valid (bigIntToString charge)" "uint63Valid (bigIntToString (bigInt (qc_rowVersion q) + 1))"
    using nn b by (auto intro!: uint63Valid_toString simp del: bigInt_nonneg)
  moreover have "addUint63 (qc_rowVersion q) 1 = Some (bigIntToString (bigInt (qc_rowVersion q) + 1))"
    using nn b unfolding addUint63_Some by (simp del: bigInt_nonneg)
  moreover have "uint63Valid ''1''"
    using uint63Valid_toString [of 1] by (simp add: UINT63_MAX_def bigIntToString_def)
  ultimately show ?thesis
    using assms(1) by (simp add: quotaDeltaValid_def quotaDeltaOf_def quotaCounterValid_def)
qed

subsection \<open>Reserving in all rows\<close>

lemma snapshot_binding:
  assumes "assertQuotaBindingsMatchCounters bs qs = Inr ()" "countersValid qs" "q \<in> set qs"
  shows "\<exists>b. List.find (\<lambda>b. qb_scope b = qc_scope q) bs = Some b \<and> \<not> quotaIdentityMismatch b q"
proof -
  let ?check = "\<lambda>scope. case (List.find (\<lambda>c. qb_scope c = scope) bs, List.find (\<lambda>c. qc_scope c = scope) qs) of
         (Some b, Some c) \<Rightarrow>
           if qb_scopeHash b \<noteq> qc_scopeHash c \<or> qb_quotaName b \<noteq> qc_quotaName c
              \<or> qb_windowStartedAt b \<noteq> qc_windowStartedAt c \<or> qb_windowSeconds b \<noteq> qc_windowSeconds c
              \<or> qb_operationLimit b \<noteq> qc_operationLimit c \<or> qb_byteLimit b \<noteq> qc_byteLimit c
           then Inl DeliveryStateValidationError else Inr ()
       | _ \<Rightarrow> Inl DeliveryStateValidationError"
  obtain us where us: "mapE ?check APPLICATION_APPEND_QUOTA_SCOPES = Inr us"
    using assms(1) unfolding assertQuotaBindingsMatchCounters_def by (auto simp: bindE_eq_Inr)
  have "?check (qc_scope q) = Inr ()"
    using mapE_source_Inr [OF us, of "qc_scope q"] by simp
  moreover have "List.find (\<lambda>c. qc_scope c = qc_scope q) qs = Some q"
    using assms(2,3) distinct_scopes by (intro find_unique) (simp_all add: countersValid_def)
  ultimately show ?thesis
    by (auto simp: quotaIdentityMismatch_def split: option.splits if_splits)
qed

lemma reserveQuotaRow_eq:
  assumes "assertQuotaBindingsMatchCounters bs qs = Inr ()" "countersValid qs" "q \<in> set qs" "0 \<le> dateMillis now"
  shows "reserveQuotaRow bs now charge q =
    Inr (if windowContains q (dateMillis now) then reserveQuotaCounts charge q else Inl QuotaExceeded)"
proof -
  have "quotaCounterValid q" using assms(2,3) by (simp add: countersValid_def)
  with snapshot_binding [OF assms(1-3)] assms(4) show ?thesis
    by (auto simp: reserveQuotaRow_def isWithinQuotaWindow_iff)
qed

lemma reserveQuotas_admit:
  "(\<And>q. q \<in> set qs \<Longrightarrow> reserveQuotaRow bs now charge q = Inr (Inr (f q))) \<Longrightarrow>
   reserveQuotas bs now charge qs = Inr (Inr (map f qs))"
  by (induction qs) simp_all

lemma reserveQuotas_refuse:
  "(\<And>q. q \<in> set qs \<Longrightarrow> reserveQuotaRow bs now charge q = Inr (r q)) \<Longrightarrow> \<exists>q\<in>set qs. \<exists>reason. r q = Inl reason \<Longrightarrow>
   \<exists>reason. reserveQuotas bs now charge qs = Inr (Inl reason)"
proof (induction qs)
  case (Cons q qs)
  show ?case
  proof (cases "r q")
    case (Inr x)
    with Cons have "\<exists>reason. reserveQuotas bs now charge qs = Inr (Inl reason)" by force
    with Inr Cons.prems(1) show ?thesis by auto
  qed (use Cons.prems(1) in auto)
qed simp

definition quotasAdmit :: "int \<Rightarrow> int \<Rightarrow> lockedQuotaCounter list \<Rightarrow> bool" where
  "quotasAdmit charge t qs = (\<forall>q\<in>set qs. windowContains q t \<and> hasCapacity charge q)"

lemma reserveQuotas_iff:
  assumes "assertQuotaBindingsMatchCounters bs qs = Inr ()" "countersValid qs" "0 \<le> dateMillis now" "0 \<le> charge"
  shows "if quotasAdmit charge (dateMillis now) qs
    then reserveQuotas bs now charge qs = Inr (Inr (map (\<lambda>q. (quotaDeltaOf charge q, reservedRow charge q)) qs))
    else \<exists>reason. reserveQuotas bs now charge qs = Inr (Inl reason)"
proof -
  have valid: "quotaCounterValid q" if "q \<in> set qs" for q using assms(2) that by (simp add: countersValid_def)
  note row = reserveQuotaRow_eq [OF assms(1,2) _ assms(3)]
  show ?thesis
  proof (cases "quotasAdmit charge (dateMillis now) qs")
    case True
    with row valid assms(4) show ?thesis
      by (auto intro!: reserveQuotas_admit simp: quotasAdmit_def reserveQuotaCounts_admit)
  next
    case False
    then obtain q where q: "q \<in> set qs" "\<not> (windowContains q (dateMillis now) \<and> hasCapacity charge q)"
      by (auto simp: quotasAdmit_def)
    then have "\<exists>reason. (if windowContains q (dateMillis now) then reserveQuotaCounts charge q else Inl QuotaExceeded) = Inl reason"
      using reserveQuotaCounts_refuse valid assms(4) by auto
    with q(1) have "\<exists>reason. reserveQuotas bs now charge qs = Inr (Inl reason)"
      using reserveQuotas_refuse [OF row] by blast
    with False show ?thesis by simp
  qed
qed

subsection \<open>Charging the usage row\<close>

definition chargeOf :: "applicationAppendExpectation \<Rightarrow> int" where
  "chargeOf e = bigInt (ae_envelopeByteLength e) + bigInt (ae_attachmentByteLength e)"

definition usageFits :: "applicationAppendExpectation \<Rightarrow> lockedConversationUsage \<Rightarrow> bool" where
  "usageFits e u =
     (bigInt (us_envelopeCount u) + 1 \<le> bigInt (us_envelopeCountLimit u)
      \<and> bigInt (us_envelopeBytes u) + bigInt (ae_envelopeByteLength e) \<le> bigInt (us_envelopeBytesLimit u)
      \<and> bigInt (us_attachmentBytes u) + bigInt (ae_attachmentByteLength e) \<le> bigInt (us_attachmentBytesLimit u))"

definition chargedUsage :: "applicationAppendExpectation \<Rightarrow> lockedConversationUsage \<Rightarrow> lockedConversationUsage" where
  "chargedUsage e u = u
     \<lparr>us_envelopeCount := bigIntToString (bigInt (us_envelopeCount u) + 1),
      us_envelopeBytes := bigIntToString (bigInt (us_envelopeBytes u) + bigInt (ae_envelopeByteLength e)),
      us_attachmentBytes := bigIntToString (bigInt (us_attachmentBytes u) + bigInt (ae_attachmentByteLength e))\<rparr>"

definition appendAllowed :: "lockedApplicationAppendSnapshot \<Rightarrow> applicationAppendExpectation \<Rightarrow> appendDecision" where
  "appendAllowed s e = Allowed (bigIntToString (bigInt (cv_lastPosition (ss_conversation s)) + 1))
     (chargedUsage e (ss_usage s)) (map (quotaDeltaOf (chargeOf e)) (ss_quotas s))
     (map (reservedRow (chargeOf e)) (ss_quotas s))"

definition capacityFits :: "lockedApplicationAppendSnapshot \<Rightarrow> applicationAppendExpectation \<Rightarrow> int \<Rightarrow> bool" where
  "capacityFits s e t =
     (bigInt (cv_lastPosition (ss_conversation s)) < UINT63_MAX \<and> usageFits e (ss_usage s)
      \<and> quotasAdmit (chargeOf e) t (ss_quotas s))"

lemma chargeOf_nonneg [simp]: "0 \<le> chargeOf e"
  by (simp add: chargeOf_def)

lemma usage_limits:
  assumes "usageValid u"
  shows "bigInt (us_envelopeCountLimit u) \<le> UINT63_MAX" "bigInt (us_envelopeBytesLimit u) \<le> UINT63_MAX"
    "bigInt (us_attachmentBytesLimit u) \<le> UINT63_MAX"
  using assms by (auto simp: usageValid_def intro: uint63_bounds)

lemma usage_adds:
  assumes "usageValid u" "usageFits e u"
  shows "addUint63 (us_envelopeCount u) 1 = Some (us_envelopeCount (chargedUsage e u))"
    "addUint63 (us_envelopeBytes u) (bigInt (ae_envelopeByteLength e)) = Some (us_envelopeBytes (chargedUsage e u))"
    "addUint63 (us_attachmentBytes u) (bigInt (ae_attachmentByteLength e)) = Some (us_attachmentBytes (chargedUsage e u))"
proof -
  have nn: "0 \<le> bigInt (us_envelopeCount u)" "0 \<le> bigInt (us_envelopeBytes u)" "0 \<le> bigInt (us_attachmentBytes u)"
    "0 \<le> bigInt (ae_envelopeByteLength e)" "0 \<le> bigInt (ae_attachmentByteLength e)"
    by simp_all
  note b = usage_limits [OF assms(1)] assms(2)[unfolded usageFits_def]
  show "addUint63 (us_envelopeCount u) 1 = Some (us_envelopeCount (chargedUsage e u))"
    "addUint63 (us_envelopeBytes u) (bigInt (ae_envelopeByteLength e)) = Some (us_envelopeBytes (chargedUsage e u))"
    "addUint63 (us_attachmentBytes u) (bigInt (ae_attachmentByteLength e)) = Some (us_attachmentBytes (chargedUsage e u))"
    using nn b unfolding addUint63_Some by (simp_all add: chargedUsage_def del: bigInt_nonneg)
qed

lemma chargedUsage_valid:
  assumes "usageValid u" "usageFits e u"
  shows "usageValid (chargedUsage e u)"
  using usage_adds [OF assms, THEN addUint63_valid] assms
  by (simp add: usageValid_def usageFits_def chargedUsage_def)

lemma usage_refuse:
  assumes "usageValid u" "\<not> usageFits e u"
    "addUint63 (us_envelopeCount u) 1 = Some c" "addUint63 (us_envelopeBytes u) (bigInt (ae_envelopeByteLength e)) = Some b"
    "addUint63 (us_attachmentBytes u) (bigInt (ae_attachmentByteLength e)) = Some a"
  shows "usageExceeded (u\<lparr>us_envelopeCount := c, us_envelopeBytes := b, us_attachmentBytes := a\<rparr>)"
  using assms(2) assms(3-5)[THEN addUint63_valid] by (auto simp: usageFits_def usageExceeded_def)

lemma chargeAppend_iff:
  assumes "snapshotValid H s" "0 \<le> dateMillis now"
  shows "if capacityFits s e (dateMillis now) then chargeAppend s e now = Inr (appendAllowed s e)
    else \<exists>reason. chargeAppend s e now = Inr (Rejected reason)"
proof -
  note rows = assms(1)[unfolded snapshotValid_def snapshotRowsValid_def]
  have usage: "usageValid (ss_usage s)" and bind: "assertQuotaBindingsMatchCounters (ss_quotaBindings s) (ss_quotas s) = Inr ()"
    and counters: "countersValid (ss_quotas s)"
    using rows by (auto simp: assertSnapshot_def Let_def bindE_eq_Inr)
  note quotas = reserveQuotas_iff [OF bind counters assms(2) chargeOf_nonneg [of e]]
  let ?last = "cv_lastPosition (ss_conversation s)"
  have last: "addUint63 ?last 1 = (if bigInt ?last < UINT63_MAX then Some (bigIntToString (bigInt ?last + 1)) else None)"
    using bigInt_nonneg [of ?last] by (auto simp: addUint63_def Let_def simp del: bigInt_nonneg)
  show ?thesis
  proof (cases "usageFits e (ss_usage s)")
    case True
    note adds = usage_adds [OF usage True]
    have fits: "\<not> usageExceeded (chargedUsage e (ss_usage s))"
      using chargedUsage_valid [OF usage True] by (simp add: usageValid_def usageExceeded_def)
    have upd: "(ss_usage s)\<lparr>us_envelopeCount := us_envelopeCount (chargedUsage e (ss_usage s)),
        us_envelopeBytes := us_envelopeBytes (chargedUsage e (ss_usage s)),
        us_attachmentBytes := us_attachmentBytes (chargedUsage e (ss_usage s))\<rparr> = chargedUsage e (ss_usage s)"
      by (simp add: chargedUsage_def)
    show ?thesis
      using quotas True
      by (auto simp: chargeAppend_def Let_def adds last upd fits capacityFits_def appendAllowed_def comp_def
          chargeOf_def [symmetric] split: if_splits)
  next
    case False
    have "\<exists>reason. chargeAppend s e now = Inr (Rejected reason)"
      using usage_refuse [OF usage False]
      by (auto simp: chargeAppend_def Let_def split: option.splits)
    with False show ?thesis by (simp add: capacityFits_def)
  qed
qed

subsection \<open>The specification of an authorised append\<close>

text \<open>
  An append is authorised at time \<open>t\<close> (milliseconds) when the conversation is active under the state the
  caller expects, the sender is a current member with a live credential, holds a live grant for the role,
  the policy head is current, witnessed and valid at \<open>t\<close>, nothing is pending, and the capacity fits.
\<close>

definition expectationMatches :: "applicationAppendExpectation \<Rightarrow> lockedApplicationAppendSnapshot \<Rightarrow> bool" where
  "expectationMatches e s =
     (\<not> conversationStateChanged e (ss_conversation s) \<and> \<not> credentialMismatch e (ss_membership s)
      \<and> \<not> policyHeadNotCurrent e (ss_conversation s) (ss_policyHead s))"

definition senderCurrent :: "lockedApplicationAppendSnapshot \<Rightarrow> int \<Rightarrow> bool" where
  "senderCurrent s t = (let sm = ss_membership s in
     sm_removedPosition sm = None \<and> bigInt (sm_joinedPosition sm) \<le> bigInt (cv_lastPosition (ss_conversation s))
     \<and> sm_installationState sm = InstActive \<and> sm_credentialState sm = CredActive
     \<and> t < dateMillis (sm_credentialExpiresAt sm))"

definition grantCovers :: "lockedApplicationAppendSnapshot \<Rightarrow> int \<Rightarrow> bool" where
  "grantCovers s t = (let sg = ss_sendGrant s; sm = ss_membership s; cv = ss_conversation s; ph = ss_policyHead s in
     sg_installationId sg = sm_installationId sm \<and> sg_credentialId sg = sm_credentialId sm
     \<and> sg_roleCredentialSubjectAccountId sg = sm_accountId sm
     \<and> sg_roleCredentialSubjectInstallationId sg = sm_installationId sm
     \<and> dateMillis (sg_roleCredentialValidFrom sg) \<le> t \<and> t < dateMillis (sg_roleCredentialValidUntil sg)
     \<and> sg_conversationKind sg = cv_kind cv \<and> sg_conversationGeneration sg = cv_generation cv
     \<and> sg_state sg = GrantActive \<and> t < dateMillis (sg_expiresAt sg) \<and> roleMaySend (cv_kind cv) (sg_role sg)
     \<and> sg_policyRevision sg = ph_policyRevision ph \<and> sg_policyHeadSequence sg = ph_policyHeadSequence ph
     \<and> sg_policyHeadHash sg = ph_policyHeadHash ph)"

definition headLive :: "lockedWitnessedPolicyHead \<Rightarrow> int \<Rightarrow> bool" where
  "headLive ph t =
     (ph_witnessState ph = WitnessVerified \<and> ph_witnessedPolicyHeadHash ph = Some (ph_policyHeadHash ph)
      \<and> dateMillis (ph_proofVerifiedAt ph) \<le> t \<and> t < dateMillis (ph_expiresAt ph))"

definition appendAuthorized :: "lockedApplicationAppendSnapshot \<Rightarrow> applicationAppendExpectation \<Rightarrow> int \<Rightarrow> bool" where
  "appendAuthorized s e t =
     (cv_state (ss_conversation s) = Active
      \<and> cv_etag (ss_conversation s) = etagText (cv_epoch (ss_conversation s)) (cv_rosterVersion (ss_conversation s))
      \<and> expectationMatches e s \<and> senderCurrent s t \<and> grantCovers s t \<and> headLive (ss_policyHead s) t
      \<and> bigInt (ph_mandatoryProposalCount (ss_policyHead s)) = 0 \<and> bigInt (ss_pendingRemovalCount s) = 0
      \<and> capacityFits s e t)"

lemma snapshot_links:
  assumes "snapshotValid H s"
  shows "rowsOfOneConversation s"
    "computeConversationSendGrantEvidenceDigest H (ss_sendGrant s) = Inr (sg_grantEvidenceDigest (ss_sendGrant s))"
    "ph_selectedSendGrantEvidenceDigest (ss_policyHead s) = sg_grantEvidenceDigest (ss_sendGrant s)"
    "ph_selectedSendGrantInclusionEvidenceDigest (ss_policyHead s) = sg_grantInclusionEvidenceDigest (ss_sendGrant s)"
    "ph_authorizedQuotaPolicyDigest (ss_policyHead s) = cv_quotaPolicyDigest (ss_conversation s)"
  using assms by (auto simp: snapshotValid_def assertSnapshot_def Let_def bindE_eq_Inr guardE_eq_Inr grantDetached_def)

lemma head_witness:
  "policyHeadValid ph \<Longrightarrow> ph_witnessState ph = WitnessVerified \<Longrightarrow> ph_witnessCheckpointId ph \<noteq> None"
  by (simp add: policyHeadValid_def verifiedBindingsMissing_def)

lemma head_interval:
  assumes "policyHeadValid ph"
  shows "dateMillis (ph_issuedAt ph) \<le> dateMillis (ph_proofVerifiedAt ph)"
    "dateMillis (ph_proofVerifiedAt ph) < dateMillis (ph_expiresAt ph)"
    "dateMillis (ph_expiresAt ph) \<le> dateMillis (ph_issuedAt ph) + 300000"
proof -
  have valid: "rfc3339Valid (ph_issuedAt ph)" "rfc3339Valid (ph_expiresAt ph)" "rfc3339Valid (ph_proofVerifiedAt ph)"
    and "\<not> policyIntervalInconsistent (ph_issuedAt ph) (ph_expiresAt ph) (ph_proofVerifiedAt ph)"
    using assms by (simp_all add: policyHeadValid_def)
  then show "dateMillis (ph_issuedAt ph) \<le> dateMillis (ph_proofVerifiedAt ph)"
    "dateMillis (ph_proofVerifiedAt ph) < dateMillis (ph_expiresAt ph)"
    "dateMillis (ph_expiresAt ph) \<le> dateMillis (ph_issuedAt ph) + 300000"
    by (simp_all add: policyIntervalInconsistent_def timestamp_less_iff timestamp_le_iff not_less not_le)
qed

lemma sendGrant_check:
  assumes "snapshotValid H s" "rfc3339Valid now"
  shows "sendGrantInvalid H (ss_conversation s) (ss_membership s) (ss_sendGrant s) now =
    Inr (grantSubjectInvalid (ss_conversation s) (ss_membership s) (ss_sendGrant s) now
       \<or> grantTermsInvalid (ss_conversation s) (ss_sendGrant s) now)"
  using snapshot_links(2) [OF assms(1)] by (simp add: sendGrantInvalid_def)

lemma grantCovers_iff:
  assumes "snapshotValid H s" "rfc3339Valid now"
  shows "grantCovers s (dateMillis now) \<longleftrightarrow>
    \<not> grantSubjectInvalid (ss_conversation s) (ss_membership s) (ss_sendGrant s) now
    \<and> \<not> grantTermsInvalid (ss_conversation s) (ss_sendGrant s) now
    \<and> \<not> grantPolicyMismatch (ss_conversation s) (ss_policyHead s) (ss_sendGrant s)"
proof -
  note links = snapshot_links [OF assms(1)]
  have grant: "rfc3339Valid (sg_roleCredentialValidFrom (ss_sendGrant s))"
    "rfc3339Valid (sg_roleCredentialValidUntil (ss_sendGrant s))" "rfc3339Valid (sg_expiresAt (ss_sendGrant s))"
    "sg_capability (ss_sendGrant s) = ''send_application''"
    using assms(1) by (simp_all add: snapshotValid_def snapshotRowsValid_def sendGrantValid_def)
  have conv: "sg_conversationId (ss_sendGrant s) = cv_conversationId (ss_conversation s)"
    using links(1) by (simp add: rowsOfOneConversation_def Let_def)
  show ?thesis
    using links(3-5) conv grant assms(2)
    by (auto simp: grantCovers_def grantSubjectInvalid_def grantTermsInvalid_def grantPolicyMismatch_def Let_def
        timestamp_less_iff timestamp_le_iff not_less not_le)
qed

lemma headLive_iff:
  assumes "snapshotValid H s" "rfc3339Valid now"
  shows "headLive (ss_policyHead s) (dateMillis now) \<longleftrightarrow>
    \<not> policyHeadNotWitnessed (ss_policyHead s) \<and> \<not> policyHeadExpired (ss_policyHead s) now"
proof -
  have valid: "policyHeadValid (ss_policyHead s)"
    using assms(1) by (simp add: snapshotValid_def snapshotRowsValid_def)
  then have times: "rfc3339Valid (ph_issuedAt (ss_policyHead s))" "rfc3339Valid (ph_expiresAt (ss_policyHead s))"
    "rfc3339Valid (ph_proofVerifiedAt (ss_policyHead s))"
    by (simp_all add: policyHeadValid_def)
  show ?thesis
    using head_interval [OF valid] head_witness [OF valid] times assms(2)
    by (auto simp: headLive_def policyHeadNotWitnessed_def policyHeadExpired_def timestamp_less_iff
        timestamp_le_iff not_less not_le)
qed

lemma senderCurrent_iff:
  assumes "snapshotValid H s" "rfc3339Valid now"
  shows "senderCurrent s (dateMillis now) \<longleftrightarrow>
    \<not> membershipInactive (ss_conversation s) (ss_membership s) \<and> \<not> credentialInactive (ss_membership s)
    \<and> \<not> sm_credentialExpiresAt (ss_membership s) \<le> now"
proof -
  have "rfc3339Valid (sm_credentialExpiresAt (ss_membership s))"
    using assms(1) by (simp add: snapshotValid_def snapshotRowsValid_def membershipValid_def)
  moreover have "sm_conversationId (ss_membership s) = cv_conversationId (ss_conversation s)"
    using snapshot_links(1) [OF assms(1)] by (simp add: rowsOfOneConversation_def Let_def)
  ultimately show ?thesis
    using assms(2)
    by (auto simp: senderCurrent_def membershipInactive_def credentialInactive_def Let_def timestamp_le_iff
        not_less not_le)
qed

lemma zero_text: "uint63Valid x \<Longrightarrow> x = ''0'' \<longleftrightarrow> bigInt x = 0"
  using uint63_eq_iff [of x "''0''"] by (simp add: bigInt_def readNat_def)

lemma evaluate_cases:
  assumes valid: "snapshotValid H s" and now: "rfc3339Valid now" "0 \<le> dateMillis now"
  shows "if appendAuthorized s e (dateMillis now)
    then evaluateLockedApplicationAppend H s e now = Inr (appendAllowed s e)
    else \<exists>reason. evaluateLockedApplicationAppend H s e now = Inr (Rejected reason)"
proof -
  have zero: "ph_mandatoryProposalCount (ss_policyHead s) = ''0'' \<longleftrightarrow> bigInt (ph_mandatoryProposalCount (ss_policyHead s)) = 0"
    "ss_pendingRemovalCount s = ''0'' \<longleftrightarrow> bigInt (ss_pendingRemovalCount s) = 0"
    using valid by (auto simp: snapshotValid_def snapshotRowsValid_def policyHeadValid_def proposalCountValid_def
        intro!: zero_text)
  show ?thesis
    using chargeAppend_iff [OF valid now(2), of e]
    unfolding appendAuthorized_def expectationMatches_def senderCurrent_iff [OF valid now(1)]
      grantCovers_iff [OF valid now(1)] headLive_iff [OF valid now(1)] zero [symmetric]
    by (simp add: evaluateLockedApplicationAppend_def sendGrant_check [OF valid now(1)] Let_def split: if_splits)
qed

lemma evaluate_allowed_iff:
  assumes "snapshotValid H s" "rfc3339Valid now" "0 \<le> dateMillis now"
  shows "evaluateLockedApplicationAppend H s e now = Inr (Allowed p u ds qs) \<longleftrightarrow>
    appendAuthorized s e (dateMillis now) \<and> Allowed p u ds qs = appendAllowed s e"
  using evaluate_cases [OF assms, of e] by (auto split: if_splits)

lemma allowed_rows_valid:
  assumes "snapshotValid H s" "capacityFits s e t"
  shows "deltasValid (map (quotaDeltaOf (chargeOf e)) (ss_quotas s))"
    "countersValid (map (reservedRow (chargeOf e)) (ss_quotas s))" "usageValid (chargedUsage e (ss_usage s))"
proof -
  have rows: "countersValid (ss_quotas s)" "usageValid (ss_usage s)"
    using assms(1) by (simp_all add: snapshotValid_def snapshotRowsValid_def)
  have cap: "hasCapacity (chargeOf e) q" if "q \<in> set (ss_quotas s)" for q
    using assms(2) that by (simp add: capacityFits_def quotasAdmit_def)
  show "deltasValid (map (quotaDeltaOf (chargeOf e)) (ss_quotas s))"
    using rows(1) cap quotaDeltaOf_valid chargeOf_nonneg
    by (auto simp: deltasValid_def countersValid_def comp_def quotaDeltaOf_def [THEN arg_cong, of qd_scope])
  show "countersValid (map (reservedRow (chargeOf e)) (ss_quotas s))"
    using rows(1) cap reservedRow_valid chargeOf_nonneg
    by (auto simp: countersValid_def comp_def reservedRow_def [THEN arg_cong, of qc_scope])
  show "usageValid (chargedUsage e (ss_usage s))"
    using rows(2) assms(2) by (intro chargedUsage_valid) (simp_all add: capacityFits_def)
qed

end
