(* ===== verification/AppendExpiry.thy ===== *)
theory AppendExpiry
  imports AppendProofs
begin

section \<open>Expiry of a pending append\<close>

text \<open>
  \<open>computeApplicationAppendPendingExpiresAt\<close> of \<open>src/src/production/delivery/state.ts\<close>: a pending intent lives
  until the first of everything it depends on ends, and at most thirty seconds.
\<close>

definition APPLICATION_APPEND_PENDING_MAX_TTL_MILLISECONDS :: int where
  "APPLICATION_APPEND_PENDING_MAX_TTL_MILLISECONDS = 30000"

definition APPLICATION_APPEND_ADMISSION_MAX_AGE_MILLISECONDS :: int where
  "APPLICATION_APPEND_ADMISSION_MAX_AGE_MILLISECONDS = 15000"

definition pendingBounds :: "lockedApplicationAppendSnapshot \<Rightarrow> int \<Rightarrow> int \<Rightarrow> int list" where
  "pendingBounds s received signingKeyValidUntil =
     [received + APPLICATION_APPEND_PENDING_MAX_TTL_MILLISECONDS, dateMillis (ph_expiresAt (ss_policyHead s)),
      dateMillis (sm_credentialExpiresAt (ss_membership s)), dateMillis (sg_expiresAt (ss_sendGrant s)),
      dateMillis (sg_roleCredentialValidUntil (ss_sendGrant s)), signingKeyValidUntil]
     @ map (\<lambda>q. dateMillis (qc_windowStartedAt q) + bigInt (qc_windowSeconds q) * 1000) (ss_quotas s)"

definition leastBound :: "int list \<Rightarrow> int" where
  "leastBound bounds = foldl (\<lambda>left right. if left < right then left else right) (hd bounds) (tl bounds)"

definition computeApplicationAppendPendingExpiresAt ::
  "(bytes \<Rightarrow> bytes) \<Rightarrow> jsval \<Rightarrow> jsval \<Rightarrow> jsval \<Rightarrow> jsval \<Rightarrow> string res" where
  "computeApplicationAppendPendingExpiresAt H snapshotInput admissionInput receivedInput keyInput =
     bindE (parseLockedApplicationAppendSnapshot H snapshotInput) (\<lambda>snapshot.
     bindE (parseRfc3339Millis admissionInput) (\<lambda>admissionStartedAt.
     bindE (parseRfc3339Millis receivedInput) (\<lambda>receivedAt.
     bindE (parseRfc3339Millis keyInput) (\<lambda>signingKeyValidUntil.
     let admissionMilliseconds = dateMillis admissionStartedAt; receivedMilliseconds = dateMillis receivedAt in
     bindE (guardE (\<not> (receivedMilliseconds < admissionMilliseconds
                       \<or> receivedMilliseconds - admissionMilliseconds > APPLICATION_APPEND_ADMISSION_MAX_AGE_MILLISECONDS))
              DeliveryStateValidationError) (\<lambda>_.
     let bounds = pendingBounds snapshot receivedMilliseconds (dateMillis signingKeyValidUntil) in
     bindE (guardE (\<not> list_ex (\<lambda>bound. bound \<le> receivedMilliseconds) bounds) DeliveryStateValidationError) (\<lambda>_.
     parseRfc3339Millis (JStr (dateToISO (leastBound bounds)))))))))"

subsection \<open>Facts\<close>

lemma foldl_least: "foldl (\<lambda>l r. if l < r then l else r) x xs = Min (insert x (set xs))" for x :: int
proof (induction xs arbitrary: x)
  case (Cons y xs)
  have "(if x < y then x else y) = min x y" by simp
  with Cons show ?case by (cases "xs = []") (simp_all add: min.assoc)
qed simp

lemma leastBound_Min: "bounds \<noteq> [] \<Longrightarrow> leastBound bounds = Min (set bounds)"
  by (cases bounds) (simp_all add: leastBound_def foldl_least)

lemma leastBound_mem: "bounds \<noteq> [] \<Longrightarrow> leastBound bounds \<in> set bounds"
  by (simp add: leastBound_Min Min_in)

lemma leastBound_le: "b \<in> set bounds \<Longrightarrow> leastBound bounds \<le> b"
  by (cases bounds) (auto simp: leastBound_Min)

lemma pendingBounds_nonempty [simp]: "pendingBounds s r k \<noteq> []"
  by (simp add: pendingBounds_def)

lemma pendingExpires_Inr:
  assumes "computeApplicationAppendPendingExpiresAt H sv av rv kv = Inr x"
  obtains s adm rec key where "parseLockedApplicationAppendSnapshot H sv = Inr s" "av = JStr adm" "rv = JStr rec"
    "kv = JStr key" "rfc3339Valid adm" "rfc3339Valid rec" "rfc3339Valid key"
    "dateMillis adm \<le> dateMillis rec" "dateMillis rec \<le> dateMillis adm + 15000"
    "\<forall>b\<in>set (pendingBounds s (dateMillis rec) (dateMillis key)). dateMillis rec < b"
    "x = dateToISO (leastBound (pendingBounds s (dateMillis rec) (dateMillis key)))" "rfc3339Valid x"
  using assms unfolding computeApplicationAppendPendingExpiresAt_def Let_def
  by (elim bindE_InrE)
     (auto simp: guardE_eq_Inr parse_simps list_ex_iff not_le not_less APPLICATION_APPEND_ADMISSION_MAX_AGE_MILLISECONDS_def)

lemma rfc3339_iso_millis: "rfc3339Valid (dateToISO t) \<Longrightarrow> dateMillis (dateToISO t) = t"
proof -
  assume "rfc3339Valid (dateToISO t)"
  then have "matchesShape RFC3339_MILLISECONDS (dateToISO t)" by (simp add: rfc3339Valid_def)
  then show ?thesis using dateToISO_shape_year [of t] dateToISO_valid(2) [of t] by blast
qed

end
