(* ===== verification/AppendTransition.thy ===== *)
theory AppendTransition
  imports AppendProofs
begin

section \<open>Validated transitions of an append\<close>

text \<open>
  The transition validators of \<open>src/src/production/delivery/state.ts\<close> that persistence adapters call: the
  next conversation and usage rows, the reservation of quota capacity, and the commit projection. A
  \<open>sameCanonicalObject\<close> of the source compares the JSON texts of two parsed objects whose keys are written
  in the same order, which is equality of the parsed records.
\<close>

subsection \<open>Commit projection\<close>

record commitProjection =
  pj_conversation :: lockedConversationState
  pj_usage :: lockedConversationUsage
  pj_quotaCapacityReservations :: "quotaReservation list"

definition PROJECTION_KEYS :: "string list" where
  "PROJECTION_KEYS = [''conversation'', ''usage'', ''quotaCapacityReservations'']"

definition parseLockedApplicationAppendCommitProjection :: "(bytes \<Rightarrow> bytes) \<Rightarrow> jsval \<Rightarrow> commitProjection res" where
  "parseLockedApplicationAppendCommitProjection H v =
     bindE (expectExactRecord v PROJECTION_KEYS) (\<lambda>record.
     bindE (parseLockedConversationState (record ''conversation'')) (\<lambda>conversation.
     bindE (parseLockedConversationUsage (record ''usage'')) (\<lambda>usage.
     bindE (parseApplicationAppendQuotaCapacityReservations H (record ''quotaCapacityReservations'')) (\<lambda>reservations.
     Inr \<lparr>pj_conversation = conversation, pj_usage = usage, pj_quotaCapacityReservations = reservations\<rparr>))))"

definition entriesProjection :: "commitProjection \<Rightarrow> (string \<times> jsval) list" where
  "entriesProjection p =
     [(''conversation'', encodeConversation (pj_conversation p)), (''usage'', encodeUsage (pj_usage p)),
      (''quotaCapacityReservations'', encodeRows encodeQuotaReservation (pj_quotaCapacityReservations p))]"

definition encodeProjection :: "commitProjection \<Rightarrow> jsval" where
  "encodeProjection p = mkRecord (entriesProjection p)"

definition projectionValid :: "(bytes \<Rightarrow> bytes) \<Rightarrow> commitProjection \<Rightarrow> bool" where
  "projectionValid H p = (conversationValid (pj_conversation p) \<and> usageValid (pj_usage p)
     \<and> reservationsValid H (pj_quotaCapacityReservations p))"

lemma entriesProjection_get [simp]:
  "fieldOf (entriesProjection p) ''conversation'' = encodeConversation (pj_conversation p)"
  "fieldOf (entriesProjection p) ''usage'' = encodeUsage (pj_usage p)"
  "fieldOf (entriesProjection p) ''quotaCapacityReservations'' =
     encodeRows encodeQuotaReservation (pj_quotaCapacityReservations p)"
  by (simp_all add: entriesProjection_def)

lemma expect_encodeProjection:
  "expectExactRecord (encodeProjection p) PROJECTION_KEYS = Inr (fieldOf (entriesProjection p))"
  unfolding encodeProjection_def
  by (rule expectExactRecord_mkRecord) (simp_all add: PROJECTION_KEYS_def entriesProjection_def)

interpretation projection_codec: record_codec "parseLockedApplicationAppendCommitProjection H" encodeProjection
    "projectionValid H" for H
proof
  show "projectionValid H p" if "parseLockedApplicationAppendCommitProjection H v = Inr p" for v p
    using that unfolding parseLockedApplicationAppendCommitProjection_def
    by (elim bindE_InrE, simp only: sum.inject, hypsubst)
       (simp add: projectionValid_def row_codecs_wf reservations_codec.parse_wf)
  show "parseLockedApplicationAppendCommitProjection H (encodeProjection p) = Inr p" if "projectionValid H p" for p
    using that
    by (simp add: parseLockedApplicationAppendCommitProjection_def expect_encodeProjection projectionValid_def
        row_codecs_encode reservations_codec.parse_encode)
qed

subsection \<open>State transition\<close>

record stateTransitionInput =
  si_priorSnapshot :: jsval
  si_expectation :: jsval
  si_authoritativeReceivedAt :: jsval
  si_nextHeadHash :: jsval
  si_preparedNextConversation :: jsval
  si_preparedNextUsage :: jsval
  si_quotaCapacityReservations :: jsval

text \<open>The comparison of the prepared rows with the decision, after the decision was made.\<close>

definition checkPreparedState ::
  "(bytes \<Rightarrow> bytes) \<Rightarrow> stateTransitionInput \<Rightarrow> lockedConversationState \<Rightarrow> string \<Rightarrow> appendDecision \<Rightarrow> commitProjection res" where
  "checkPreparedState H input conversation nextHeadHash decision = (case decision of
       Rejected reason \<Rightarrow> Inl DeliveryStateValidationError
     | Allowed position usage deltas postQuotas \<Rightarrow>
         bindE (parseLockedConversationState (encodeConversation
                  (conversation\<lparr>cv_lastPosition := position, cv_currentLogHeadHash := nextHeadHash\<rparr>)))
           (\<lambda>expectedConversation.
         bindE (parseLockedConversationState (si_preparedNextConversation input)) (\<lambda>preparedConversation.
         bindE (parseLockedConversationUsage (si_preparedNextUsage input)) (\<lambda>preparedUsage.
         bindE (parseApplicationAppendQuotaCapacityReservations H (si_quotaCapacityReservations input)) (\<lambda>reservations.
         if preparedConversation \<noteq> expectedConversation \<or> preparedUsage \<noteq> usage
            \<or> list_ex (\<lambda>r. qr_state r \<noteq> Live) reservations \<or> map quotaReservationDelta reservations \<noteq> deltas
         then Inl DeliveryStateValidationError
         else Inr \<lparr>pj_conversation = preparedConversation, pj_usage = preparedUsage,
                   pj_quotaCapacityReservations = reservations\<rparr>)))))"

definition validateLockedApplicationAppendStateTransition ::
  "(bytes \<Rightarrow> bytes) \<Rightarrow> stateTransitionInput \<Rightarrow> commitProjection res" where
  "validateLockedApplicationAppendStateTransition H input =
     bindE (parseLockedApplicationAppendSnapshot H (si_priorSnapshot input)) (\<lambda>prior.
     bindE (parseApplicationAppendExpectation (si_expectation input)) (\<lambda>expectation.
     bindE (parseRfc3339Millis (si_authoritativeReceivedAt input)) (\<lambda>authoritativeReceivedAt.
     bindE (parseHash32 (si_nextHeadHash input)) (\<lambda>nextHeadHash.
     bindE (guardE (nextHeadHash \<noteq> ZERO_HASH32) DeliveryStateValidationError) (\<lambda>_.
     bindE (evaluateLockedApplicationAppend H prior expectation authoritativeReceivedAt) (\<lambda>decision.
     checkPreparedState H input (ss_conversation prior) nextHeadHash decision))))))"

subsection \<open>Reservation transition\<close>

record reservationInput =
  ri_priorSnapshot :: jsval
  ri_expectation :: jsval
  ri_authoritativeReceivedAt :: jsval
  ri_quotaCapacityReservations :: jsval
  ri_preparedPostReservationQuotas :: jsval

definition validateLockedApplicationAppendQuotaReservationTransition ::
  "(bytes \<Rightarrow> bytes) \<Rightarrow> reservationInput \<Rightarrow> lockedQuotaCounter list res" where
  "validateLockedApplicationAppendQuotaReservationTransition H input =
     bindE (parseLockedApplicationAppendSnapshot H (ri_priorSnapshot input)) (\<lambda>prior.
     bindE (parseApplicationAppendExpectation (ri_expectation input)) (\<lambda>expectation.
     bindE (parseRfc3339Millis (ri_authoritativeReceivedAt input)) (\<lambda>at.
     bindE (evaluateLockedApplicationAppend H prior expectation at) (\<lambda>decision.
     case decision of
       Rejected reason \<Rightarrow> Inl DeliveryStateValidationError
     | Allowed position usage deltas postQuotas \<Rightarrow>
         bindE (parseApplicationAppendQuotaCapacityReservations H (ri_quotaCapacityReservations input)) (\<lambda>reservations.
         bindE (parseLockedQuotaCounters (ri_preparedPostReservationQuotas input)) (\<lambda>prepared.
         if list_ex (\<lambda>r. qr_state r \<noteq> Live) reservations \<or> map quotaReservationDelta reservations \<noteq> deltas
            \<or> prepared \<noteq> postQuotas
         then Inl DeliveryStateValidationError else Inr prepared))))))"

subsection \<open>What an accepted transition is\<close>

definition nextConversation :: "lockedConversationState \<Rightarrow> string \<Rightarrow> lockedConversationState" where
  "nextConversation cv nextHeadHash =
     cv\<lparr>cv_lastPosition := bigIntToString (bigInt (cv_lastPosition cv) + 1), cv_currentLogHeadHash := nextHeadHash\<rparr>"

lemma parse_encodeConversation_Inr:
  assumes "parseLockedConversationState (encodeConversation r) = Inr x"
  shows "x = r"
  using assms unfolding parseLockedConversationState_def expect_encodeConversation bindE_Inr entriesConversation_get
  by (elim bindE_InrE, simp only: parse_simps sum.inject jsval.inject enum_inj, elim conjE, hypsubst) simp

lemma checkPreparedState_Inr:
  "checkPreparedState H input cv h d = Inr p \<longleftrightarrow> (\<exists>post.
     d = Allowed (cv_lastPosition (pj_conversation p)) (pj_usage p)
           (map quotaReservationDelta (pj_quotaCapacityReservations p)) post
     \<and> pj_conversation p = cv\<lparr>cv_lastPosition := cv_lastPosition (pj_conversation p), cv_currentLogHeadHash := h\<rparr>
     \<and> parseLockedConversationState (si_preparedNextConversation input) = Inr (pj_conversation p)
     \<and> parseLockedConversationUsage (si_preparedNextUsage input) = Inr (pj_usage p)
     \<and> parseApplicationAppendQuotaCapacityReservations H (si_quotaCapacityReservations input)
         = Inr (pj_quotaCapacityReservations p)
     \<and> (\<forall>r\<in>set (pj_quotaCapacityReservations p). qr_state r = Live))" (is "?l \<longleftrightarrow> ?r")
proof
  assume ?l
  then obtain position usage deltas post x where d: "d = Allowed position usage deltas post"
    and x: "parseLockedConversationState (encodeConversation
      (cv\<lparr>cv_lastPosition := position, cv_currentLogHeadHash := h\<rparr>)) = Inr x"
    and p: "pj_conversation p = x" "pj_usage p = usage"
      "\<forall>r\<in>set (pj_quotaCapacityReservations p). qr_state r = Live"
      "map quotaReservationDelta (pj_quotaCapacityReservations p) = deltas"
    and parsed: "parseLockedConversationState (si_preparedNextConversation input) = Inr (pj_conversation p)"
      "parseLockedConversationUsage (si_preparedNextUsage input) = Inr (pj_usage p)"
      "parseApplicationAppendQuotaCapacityReservations H (si_quotaCapacityReservations input)
         = Inr (pj_quotaCapacityReservations p)"
    by (auto simp: checkPreparedState_def bindE_eq_Inr list_ex_iff split: appendDecision.splits if_splits)
  from x have "x = cv\<lparr>cv_lastPosition := position, cv_currentLogHeadHash := h\<rparr>"
    by (rule parse_encodeConversation_Inr)
  with d p parsed show ?r by auto
next
  assume ?r
  then obtain post where d: "d = Allowed (cv_lastPosition (pj_conversation p)) (pj_usage p)
           (map quotaReservationDelta (pj_quotaCapacityReservations p)) post"
    and cv: "cv\<lparr>cv_lastPosition := cv_lastPosition (pj_conversation p), cv_currentLogHeadHash := h\<rparr> = pj_conversation p"
    and parsed: "parseLockedConversationState (si_preparedNextConversation input) = Inr (pj_conversation p)"
      "parseLockedConversationUsage (si_preparedNextUsage input) = Inr (pj_usage p)"
      "parseApplicationAppendQuotaCapacityReservations H (si_quotaCapacityReservations input)
         = Inr (pj_quotaCapacityReservations p)"
    and live: "\<forall>r\<in>set (pj_quotaCapacityReservations p). qr_state r = Live"
    by auto
  have "parseLockedConversationState (encodeConversation (pj_conversation p)) = Inr (pj_conversation p)"
    using parsed(1) by (rule conversation_codec.reparse)
  with parsed live show ?l by (simp add: checkPreparedState_def d cv list_ex_iff)
qed

lemma stateTransition_Inr:
  "validateLockedApplicationAppendStateTransition H input = Inr p \<longleftrightarrow> (\<exists>s e now h d.
     parseLockedApplicationAppendSnapshot H (si_priorSnapshot input) = Inr s
     \<and> parseApplicationAppendExpectation (si_expectation input) = Inr e
     \<and> si_authoritativeReceivedAt input = JStr now \<and> rfc3339Valid now
     \<and> si_nextHeadHash input = JStr h \<and> hash32Valid h \<and> h \<noteq> ZERO_HASH32
     \<and> evaluateLockedApplicationAppend H s e now = Inr d
     \<and> checkPreparedState H input (ss_conversation s) h d = Inr p)"
  by (auto simp: validateLockedApplicationAppendStateTransition_def bindE_eq_Inr guardE_eq_Inr parse_simps)

text \<open>
  The projection an accepted transition returns: the append is authorised, the conversation moves by one
  position to the new head, the usage row is charged, and the reservations carry the decided deltas.
\<close>

definition projectionOf ::
  "lockedApplicationAppendSnapshot \<Rightarrow> applicationAppendExpectation \<Rightarrow> string \<Rightarrow> quotaReservation list \<Rightarrow> commitProjection" where
  "projectionOf s e h rs =
     \<lparr>pj_conversation = nextConversation (ss_conversation s) h, pj_usage = chargedUsage e (ss_usage s),
      pj_quotaCapacityReservations = rs\<rparr>"

lemma nextConversation_valid:
  assumes "conversationValid cv" "bigInt (cv_lastPosition cv) < UINT63_MAX" "hash32Valid h"
  shows "conversationValid (nextConversation cv h)"
proof -
  have "uint63Valid (bigIntToString (bigInt (cv_lastPosition cv) + 1))"
    using assms(2) bigInt_nonneg [of "cv_lastPosition cv"] by (intro uint63Valid_toString) simp_all
  with assms show ?thesis by (simp add: conversationValid_def nextConversation_def)
qed

lemma stateTransition_sound:
  assumes "validateLockedApplicationAppendStateTransition H input = Inr p"
    and prior: "parseLockedApplicationAppendSnapshot H (si_priorSnapshot input) = Inr s"
    and "parseApplicationAppendExpectation (si_expectation input) = Inr e"
    and "si_authoritativeReceivedAt input = JStr now" and time: "0 \<le> dateMillis now"
    and "si_nextHeadHash input = JStr h"
  shows "appendAuthorized s e (dateMillis now)" "p = projectionOf s e h (pj_quotaCapacityReservations p)"
    "map quotaReservationDelta (pj_quotaCapacityReservations p) = map (quotaDeltaOf (chargeOf e)) (ss_quotas s)"
    "\<forall>r\<in>set (pj_quotaCapacityReservations p). qr_state r = Live" "projectionValid H p"
proof -
  have valid: "snapshotValid H s" using prior by (rule snapshot_codec.parse_wf)
  obtain d where now: "rfc3339Valid now" and h: "hash32Valid h"
    and d: "evaluateLockedApplicationAppend H s e now = Inr d"
    and check: "checkPreparedState H input (ss_conversation s) h d = Inr p"
    using assms by (auto simp: stateTransition_Inr)
  obtain post where dA: "d = Allowed (cv_lastPosition (pj_conversation p)) (pj_usage p)
           (map quotaReservationDelta (pj_quotaCapacityReservations p)) post"
    and cv: "pj_conversation p =
      (ss_conversation s)\<lparr>cv_lastPosition := cv_lastPosition (pj_conversation p), cv_currentLogHeadHash := h\<rparr>"
    and live: "\<forall>r\<in>set (pj_quotaCapacityReservations p). qr_state r = Live"
    and parsed: "parseLockedConversationState (si_preparedNextConversation input) = Inr (pj_conversation p)"
      "parseLockedConversationUsage (si_preparedNextUsage input) = Inr (pj_usage p)"
      "parseApplicationAppendQuotaCapacityReservations H (si_quotaCapacityReservations input)
         = Inr (pj_quotaCapacityReservations p)"
    using check by (auto simp: checkPreparedState_Inr)
  from d dA show auth: "appendAuthorized s e (dateMillis now)"
    using evaluate_allowed_iff [OF valid now time] by blast
  from d dA have eqs: "d = appendAllowed s e"
    using evaluate_allowed_iff [OF valid now time] by blast
  with dA show "map quotaReservationDelta (pj_quotaCapacityReservations p) = map (quotaDeltaOf (chargeOf e)) (ss_quotas s)"
    by (simp add: appendAllowed_def)
  have "pj_conversation p = nextConversation (ss_conversation s) h" "pj_usage p = chargedUsage e (ss_usage s)"
    using dA eqs cv by (simp_all add: appendAllowed_def nextConversation_def)
  then show "p = projectionOf s e h (pj_quotaCapacityReservations p)" by (simp add: projectionOf_def)
  show "\<forall>r\<in>set (pj_quotaCapacityReservations p). qr_state r = Live" by (rule live)
  show "projectionValid H p"
    using parsed conversation_codec.parse_wf usage_codec.parse_wf reservations_codec.parse_wf
    by (auto simp: projectionValid_def)
qed

lemma stateTransition_complete:
  assumes valid: "snapshotValid H s" "appendExpectationValid e" and now: "rfc3339Valid now" "0 \<le> dateMillis now"
    and h: "hash32Valid h" "h \<noteq> ZERO_HASH32" and auth: "appendAuthorized s e (dateMillis now)"
    and rs: "reservationsValid H rs" "\<forall>r\<in>set rs. qr_state r = Live"
      "map quotaReservationDelta rs = map (quotaDeltaOf (chargeOf e)) (ss_quotas s)"
  shows "validateLockedApplicationAppendStateTransition H
    \<lparr>si_priorSnapshot = encodeSnapshot s, si_expectation = encodeAppendExpectation e,
     si_authoritativeReceivedAt = JStr now, si_nextHeadHash = JStr h,
     si_preparedNextConversation = encodeConversation (nextConversation (ss_conversation s) h),
     si_preparedNextUsage = encodeUsage (chargedUsage e (ss_usage s)),
     si_quotaCapacityReservations = encodeRows encodeQuotaReservation rs\<rparr> = Inr (projectionOf s e h rs)"
proof -
  have cap: "capacityFits s e (dateMillis now)" using auth by (simp add: appendAuthorized_def)
  have "conversationValid (nextConversation (ss_conversation s) h)"
    using valid(1) cap h(1) by (intro nextConversation_valid) (auto simp: snapshotValid_def snapshotRowsValid_def capacityFits_def)
  moreover have "usageValid (chargedUsage e (ss_usage s))" by (rule allowed_rows_valid(3) [OF valid(1) cap])
  moreover have "evaluateLockedApplicationAppend H s e now = Inr (appendAllowed s e)"
    using evaluate_cases [OF valid(1) now, of e] auth by simp
  ultimately show ?thesis
    using assms
    by (auto simp: stateTransition_Inr checkPreparedState_Inr projectionOf_def appendAllowed_def nextConversation_def
        snapshot_codec.parse_encode append_expectation_codec.parse_encode conversation_codec.parse_encode
        usage_codec.parse_encode reservations_codec.parse_encode intro!: exI [of _ s] exI [of _ e])
qed

end
