(* ===== verification/QuotaLedger.thy ===== *)
theory QuotaLedger
  imports AppendTransition "HOL-Library.Multiset"
begin

section \<open>The life cycle of reserved capacity\<close>

text \<open>
  Appends of a conversation overlap: each reserves capacity in the five quota rows, and later finalises or
  releases what it reserved while others reserve and convert in between. The ledger is the quota rows
  together with the live reservation sets; its steps are the accepted calls of the transition validators.
  The specification is an account with a limit, the amount used and the amounts on hold. Every ledger step
  is an account step on each row (refinement), so what is reserved in a row is always the sum of the
  live reservations, no limit is ever exceeded, and a live reservation set can always be converted.
\<close>

subsection \<open>Specification: an account with holds\<close>

record account =
  ac_limit :: int
  ac_used :: int
  ac_held :: "int multiset"

definition accountOk :: "account \<Rightarrow> bool" where
  "accountOk a = (0 \<le> ac_used a \<and> (\<forall>c\<in>#ac_held a. 0 \<le> c) \<and> ac_used a + sum_mset (ac_held a) \<le> ac_limit a)"

inductive accountStep :: "account \<Rightarrow> account \<Rightarrow> bool" where
  hold: "0 \<le> c \<Longrightarrow> ac_used a + sum_mset (ac_held a) + c \<le> ac_limit a \<Longrightarrow>
    accountStep a (a\<lparr>ac_held := add_mset c (ac_held a)\<rparr>)"
| settle: "c \<in># ac_held a \<Longrightarrow>
    accountStep a (a\<lparr>ac_used := ac_used a + c, ac_held := ac_held a - {#c#}\<rparr>)"
| cancel: "c \<in># ac_held a \<Longrightarrow> accountStep a (a\<lparr>ac_held := ac_held a - {#c#}\<rparr>)"

lemma sum_mset_remove:
  assumes "c \<in># M"
  shows "sum_mset (M - {#c#}) = sum_mset M - (c :: int)"
proof -
  obtain N where "M = add_mset c N" using assms by (auto dest: multi_member_split)
  then show ?thesis by simp
qed

lemma accountStep_ok:
  assumes "accountStep a a'" "accountOk a"
  shows "accountOk a'"
  using assms
proof (induction rule: accountStep.induct)
  case (hold c a)
  then show ?case by (simp add: accountOk_def)
next
  case (settle c a)
  then have "0 \<le> c" "sum_mset (ac_held a - {#c#}) = sum_mset (ac_held a) - c"
    by (simp_all add: accountOk_def sum_mset_remove)
  with settle show ?case by (auto simp: accountOk_def dest: in_diffD)
next
  case (cancel c a)
  then have "0 \<le> c" "sum_mset (ac_held a - {#c#}) = sum_mset (ac_held a) - c"
    by (simp_all add: accountOk_def sum_mset_remove)
  with cancel show ?case by (auto simp: accountOk_def dest: in_diffD)
qed

subsection \<open>The ledger\<close>

record quotaLedger =
  lg_quotas :: "lockedQuotaCounter list"
  lg_live :: "quotaReservation list multiset"

inductive ledgerStep :: "(bytes \<Rightarrow> bytes) \<Rightarrow> quotaLedger \<Rightarrow> quotaLedger \<Rightarrow> bool" for H where
  reserve: "validateLockedApplicationAppendQuotaReservationTransition H input = Inr qs' \<Longrightarrow>
    parseLockedApplicationAppendSnapshot H (ri_priorSnapshot input) = Inr s \<Longrightarrow> ss_quotas s = lg_quotas L \<Longrightarrow>
    ri_authoritativeReceivedAt input = JStr now \<Longrightarrow> 0 \<le> dateMillis now \<Longrightarrow>
    bindApplicationAppendQuotaCapacityReservations H deltas digest generation token = Inr rs \<Longrightarrow>
    parseApplicationAppendQuotaCapacityReservations H (ri_quotaCapacityReservations input) = Inr rs \<Longrightarrow>
    ledgerStep H L (L\<lparr>lg_quotas := qs', lg_live := add_mset rs (lg_live L)\<rparr>)"
| convert: "validateQuotaCapacityConversion H input mode = Inr (qs', rs') \<Longrightarrow>
    parseLockedQuotaCounters (ci_currentQuotas input) = Inr (lg_quotas L) \<Longrightarrow>
    parseApplicationAppendQuotaCapacityReservations H (ci_currentCapacityReservations input) = Inr rs \<Longrightarrow>
    rs \<in># lg_live L \<Longrightarrow>
    ledgerStep H L (L\<lparr>lg_quotas := qs', lg_live := lg_live L - {#rs#}\<rparr>)"

definition ledgerInit :: "quotaLedger \<Rightarrow> bool" where
  "ledgerInit L = (countersValid (lg_quotas L) \<and> lg_live L = {#}
     \<and> (\<forall>q\<in>set (lg_quotas L). bigInt (qc_reservedOperationCount q) = 0 \<and> bigInt (qc_reservedByteCount q) = 0))"

inductive_cases ledgerStepE: "ledgerStep H L L'"

text \<open>The accounts of row \<open>i\<close>: one for operations, one for bytes.\<close>

definition opsAccount :: "quotaLedger \<Rightarrow> nat \<Rightarrow> account" where
  "opsAccount L i = \<lparr>ac_limit = bigInt (qc_operationLimit (lg_quotas L ! i)),
     ac_used = bigInt (qc_operationCount (lg_quotas L ! i)),
     ac_held = image_mset (\<lambda>rs. bigInt (qd_reservationOperationCount (rs ! i))) (lg_live L)\<rparr>"

definition bytesAccount :: "quotaLedger \<Rightarrow> nat \<Rightarrow> account" where
  "bytesAccount L i = \<lparr>ac_limit = bigInt (qc_byteLimit (lg_quotas L ! i)),
     ac_used = bigInt (qc_byteCount (lg_quotas L ! i)),
     ac_held = image_mset (\<lambda>rs. bigInt (qd_reservationByteCount (rs ! i))) (lg_live L)\<rparr>"

text \<open>
  The invariant: the rows and the live sets are valid, each set has one owner, the sets fit the rows, and
  what a row has reserved is the sum over the live sets.
\<close>

definition rowFits :: "lockedQuotaCounter \<Rightarrow> quotaReservation \<Rightarrow> bool" where
  "rowFits q r = (qd_scope r = qc_scope q \<and> qd_scopeHash r = qc_scopeHash q \<and> qd_quotaName r = qc_quotaName q
     \<and> qd_windowStartedAt r = qc_windowStartedAt q \<and> qd_windowSeconds r = qc_windowSeconds q
     \<and> bigInt (qd_rowVersionAfter r) \<le> bigInt (qc_rowVersion q))"

definition setFits :: "lockedQuotaCounter list \<Rightarrow> quotaReservation list \<Rightarrow> bool" where
  "setFits qs rs = (\<forall>i<5. rowFits (qs ! i) (rs ! i))"

definition ledgerInv :: "(bytes \<Rightarrow> bytes) \<Rightarrow> quotaLedger \<Rightarrow> bool" where
  "ledgerInv H L = (countersValid (lg_quotas L)
     \<and> (\<forall>rs\<in>#lg_live L. reservationsValid H rs \<and> (\<exists>d g t. ownedLive d g t rs) \<and> setFits (lg_quotas L) rs)
     \<and> (\<forall>i<5. bigInt (qc_reservedOperationCount (lg_quotas L ! i)) = sum_mset (ac_held (opsAccount L i))
          \<and> bigInt (qc_reservedByteCount (lg_quotas L ! i)) = sum_mset (ac_held (bytesAccount L i))))"

subsection \<open>Reservations are bound to one owner\<close>

lemma bind_owned:
  assumes "bindApplicationAppendQuotaCapacityReservations H dv hv gv tv = Inr rs"
  shows "\<exists>d g t. ownedLive d g t rs"
proof -
  obtain ds d g t where rs: "mapE (\<lambda>delta. bindE (computeApplicationAppendQuotaReservationId H (JStr d) (JStr g) (JStr t) delta)
      (\<lambda>reservationId. Inr (reservationOf delta reservationId d g t Live))) ds = Inr rs"
    using assms by (auto simp: bindApplicationAppendQuotaCapacityReservations_def bindE_eq_Inr)
  then have "\<forall>r\<in>set rs. qr_state r = Live \<and> qr_pendingPreparationDigest r = d \<and> qr_fenceGeneration r = g \<and> qr_fenceTokenHash r = t"
    by (rule mapE_valid(1)) (auto simp: bindE_eq_Inr)
  then show ?thesis by (auto simp: ownedLive_def)
qed

subsection \<open>One step\<close>

lemma reservationTransition_sound:
  assumes "validateLockedApplicationAppendQuotaReservationTransition H input = Inr qs'"
    "parseLockedApplicationAppendSnapshot H (ri_priorSnapshot input) = Inr s"
    "ri_authoritativeReceivedAt input = JStr now" "0 \<le> dateMillis now"
    "parseApplicationAppendQuotaCapacityReservations H (ri_quotaCapacityReservations input) = Inr rs"
  shows "\<exists>e. parseApplicationAppendExpectation (ri_expectation input) = Inr e \<and> appendAuthorized s e (dateMillis now)
    \<and> qs' = map (reservedRow (chargeOf e)) (ss_quotas s)
    \<and> map quotaReservationDelta rs = map (quotaDeltaOf (chargeOf e)) (ss_quotas s)"
proof -
  have valid: "snapshotValid H s" using assms(2) by (rule snapshot_codec.parse_wf)
  obtain e d where e: "parseApplicationAppendExpectation (ri_expectation input) = Inr e" and now: "rfc3339Valid now"
    and d: "evaluateLockedApplicationAppend H s e now = Inr d"
    and rest: "(case d of Rejected reason \<Rightarrow> Inl DeliveryStateValidationError
     | Allowed position usage deltas postQuotas \<Rightarrow>
         bindE (parseLockedQuotaCounters (ri_preparedPostReservationQuotas input)) (\<lambda>prepared.
         if list_ex (\<lambda>r. qr_state r \<noteq> Live) rs \<or> map quotaReservationDelta rs \<noteq> deltas \<or> prepared \<noteq> postQuotas
         then Inl DeliveryStateValidationError else Inr prepared)) = Inr qs'"
    using assms(1) unfolding validateLockedApplicationAppendQuotaReservationTransition_def assms(2,3,5) bindE_Inr
    by (elim bindE_InrE) (auto simp: parse_simps)
  then obtain position usage deltas where dA: "d = Allowed position usage deltas qs'"
    and deltas: "map quotaReservationDelta rs = deltas"
    by (cases d) (auto simp: bindE_eq_Inr split: if_splits)
  then show ?thesis
    using evaluate_allowed_iff [OF valid now assms(4)] d e by (auto simp: appendAllowed_def)
qed

lemma delta_fields:
  assumes "map quotaReservationDelta rs = map (quotaDeltaOf c) qs" "i < length qs"
  shows "qd_scope (rs ! i) = qc_scope (qs ! i)" "qd_scopeHash (rs ! i) = qc_scopeHash (qs ! i)"
    "qd_quotaName (rs ! i) = qc_quotaName (qs ! i)" "qd_windowStartedAt (rs ! i) = qc_windowStartedAt (qs ! i)"
    "qd_windowSeconds (rs ! i) = qc_windowSeconds (qs ! i)"
    "qd_reservationOperationCount (rs ! i) = ''1''" "qd_reservationByteCount (rs ! i) = bigIntToString c"
    "qd_rowVersionAfter (rs ! i) = bigIntToString (bigInt (qc_rowVersion (qs ! i)) + 1)"
proof -
  have "length rs = length qs" using assms(1) by (metis length_map)
  then have "quotaReservationDelta (rs ! i) = quotaDeltaOf c (qs ! i)"
    using assms by (metis nth_map)
  then show "qd_scope (rs ! i) = qc_scope (qs ! i)" "qd_scopeHash (rs ! i) = qc_scopeHash (qs ! i)"
    "qd_quotaName (rs ! i) = qc_quotaName (qs ! i)" "qd_windowStartedAt (rs ! i) = qc_windowStartedAt (qs ! i)"
    "qd_windowSeconds (rs ! i) = qc_windowSeconds (qs ! i)"
    "qd_reservationOperationCount (rs ! i) = ''1''" "qd_reservationByteCount (rs ! i) = bigIntToString c"
    "qd_rowVersionAfter (rs ! i) = bigIntToString (bigInt (qc_rowVersion (qs ! i)) + 1)"
    by (simp_all add: quotaReservationDelta_def quotaDeltaOf_def)
qed

lemma bigInt_one: "bigInt ''1'' = 1"
  by (simp add: bigInt_def readNat_def digitVal_def)

lemma reservedRow_fields [simp]:
  "qc_scope (reservedRow c q) = qc_scope q" "qc_scopeHash (reservedRow c q) = qc_scopeHash q"
  "qc_quotaName (reservedRow c q) = qc_quotaName q" "qc_windowStartedAt (reservedRow c q) = qc_windowStartedAt q"
  "qc_windowSeconds (reservedRow c q) = qc_windowSeconds q" "qc_operationCount (reservedRow c q) = qc_operationCount q"
  "qc_byteCount (reservedRow c q) = qc_byteCount q" "qc_operationLimit (reservedRow c q) = qc_operationLimit q"
  "qc_byteLimit (reservedRow c q) = qc_byteLimit q"
  "bigInt (qc_reservedOperationCount (reservedRow c q)) = bigInt (qc_reservedOperationCount q) + 1"
  "0 \<le> c \<Longrightarrow> bigInt (qc_reservedByteCount (reservedRow c q)) = bigInt (qc_reservedByteCount q) + c"
  "bigInt (qc_rowVersion (reservedRow c q)) = bigInt (qc_rowVersion q) + 1"
  using bigInt_nonneg [of "qc_reservedOperationCount q"] bigInt_nonneg [of "qc_reservedByteCount q"]
    bigInt_nonneg [of "qc_rowVersion q"]
  by (simp_all add: reservedRow_def del: bigInt_nonneg)

text \<open>A reservation as a step of the ledger, on the numbers of each row.\<close>

definition reserved :: "(bytes \<Rightarrow> bytes) \<Rightarrow> int \<Rightarrow> quotaLedger \<Rightarrow> quotaReservation list \<Rightarrow> bool" where
  "reserved H c L rs = (0 \<le> c \<and> (\<forall>q\<in>set (lg_quotas L). hasCapacity c q) \<and> reservationsValid H rs
     \<and> (\<exists>d g t. ownedLive d g t rs) \<and> map quotaReservationDelta rs = map (quotaDeltaOf c) (lg_quotas L))"

lemma ledgerStep_cases:
  assumes "ledgerStep H L L'"
  obtains
    (reserve) c rs where "reserved H c L rs"
      "L' = L\<lparr>lg_quotas := map (reservedRow c) (lg_quotas L), lg_live := add_mset rs (lg_live L)\<rparr>"
  | (convert) mode rs qs' where "mapE (convertQuotaRow mode rs) (lg_quotas L) = Inr qs'" "rs \<in># lg_live L"
      "L' = L\<lparr>lg_quotas := qs', lg_live := lg_live L - {#rs#}\<rparr>"
  using assms
proof (cases rule: ledgerStep.cases)
  case (reserve input qs' s now deltas digest generation token rs)
  note rs = reserve(8)
  obtain e where e: "appendAuthorized s e (dateMillis now)" "qs' = map (reservedRow (chargeOf e)) (ss_quotas s)"
    "map quotaReservationDelta rs = map (quotaDeltaOf (chargeOf e)) (ss_quotas s)"
    using reservationTransition_sound [OF reserve(2,3,5,6) rs] by blast
  have "reserved H (chargeOf e) L rs"
    using e reserve(4) bind_owned [OF reserve(7)] reservations_codec.parse_wf [OF rs]
    by (auto simp: reserved_def appendAuthorized_def capacityFits_def quotasAdmit_def)
  with that(1) [OF this] e reserve(1,4) show thesis by simp
next
  case (convert input mode qs' rs' rs)
  then show thesis using that(2) by (auto elim!: validateQuotaCapacityConversion_Inr)
qed

subsection \<open>The invariant is kept\<close>

lemma setFits_mono:
  assumes "setFits qs rs" "\<And>i. i < 5 \<Longrightarrow> sameQuotaIdentity (qs ! i) (qs' ! i)"
    "\<And>i. i < 5 \<Longrightarrow> bigInt (qc_rowVersion (qs ! i)) \<le> bigInt (qc_rowVersion (qs' ! i))"
  shows "setFits qs' rs"
  unfolding setFits_def
proof (intro allI impI)
  fix i :: nat assume "i < 5"
  with assms(1) assms(2,3) [of i] show "rowFits (qs' ! i) (rs ! i)"
    by (auto simp: setFits_def rowFits_def sameQuotaIdentity_def)
qed

lemma ledgerInvD:
  assumes "ledgerInv H L"
  shows "countersValid (lg_quotas L)" "length (lg_quotas L) = 5"
    "rs \<in># lg_live L \<Longrightarrow> reservationsValid H rs" "rs \<in># lg_live L \<Longrightarrow> \<exists>d g t. ownedLive d g t rs"
    "rs \<in># lg_live L \<Longrightarrow> setFits (lg_quotas L) rs"
    "i < 5 \<Longrightarrow> bigInt (qc_reservedOperationCount (lg_quotas L ! i)) = sum_mset (ac_held (opsAccount L i))"
    "i < 5 \<Longrightarrow> bigInt (qc_reservedByteCount (lg_quotas L ! i)) = sum_mset (ac_held (bytesAccount L i))"
  using assms rows_length(2) [of "lg_quotas L"] by (auto simp: ledgerInv_def)

lemma held_eq:
  "ac_held (opsAccount L i) = image_mset (\<lambda>rs. bigInt (qd_reservationOperationCount (rs ! i))) (lg_live L)"
  "ac_held (bytesAccount L i) = image_mset (\<lambda>rs. bigInt (qd_reservationByteCount (rs ! i))) (lg_live L)"
  by (simp_all add: opsAccount_def bytesAccount_def)

lemma ledgerInvI:
  assumes "countersValid (lg_quotas L)"
    "\<And>rs. rs \<in># lg_live L \<Longrightarrow> reservationsValid H rs \<and> (\<exists>d g t. ownedLive d g t rs) \<and> setFits (lg_quotas L) rs"
    "\<And>i. i < 5 \<Longrightarrow> bigInt (qc_reservedOperationCount (lg_quotas L ! i)) =
       (\<Sum>rs\<in>#lg_live L. bigInt (qd_reservationOperationCount (rs ! i)))"
    "\<And>i. i < 5 \<Longrightarrow> bigInt (qc_reservedByteCount (lg_quotas L ! i)) =
       (\<Sum>rs\<in>#lg_live L. bigInt (qd_reservationByteCount (rs ! i)))"
  shows "ledgerInv H L"
  using assms by (simp add: ledgerInv_def held_eq)

lemma reservedD:
  assumes "reserved H c L rs"
  shows "0 \<le> c" "\<And>q. q \<in> set (lg_quotas L) \<Longrightarrow> hasCapacity c q" "reservationsValid H rs" "\<exists>d g t. ownedLive d g t rs"
    "map quotaReservationDelta rs = map (quotaDeltaOf c) (lg_quotas L)"
  using assms by (simp_all add: reserved_def)

lemma reserve_keeps:
  assumes inv: "ledgerInv H L" and res: "reserved H c L rs"
  shows "ledgerInv H (L\<lparr>lg_quotas := map (reservedRow c) (lg_quotas L), lg_live := add_mset rs (lg_live L)\<rparr>)"
proof (rule ledgerInvI)
  let ?qs = "map (reservedRow c) (lg_quotas L)"
  note qs = ledgerInvD(1) [OF inv] and len = ledgerInvD(2) [OF inv] and r = reservedD [OF res]
  show "countersValid (lg_quotas (L\<lparr>lg_quotas := ?qs, lg_live := add_mset rs (lg_live L)\<rparr>))"
    using qs r(1,2) reservedRow_valid by (auto simp: countersValid_def comp_def)
  have new: "setFits ?qs rs"
    using delta_fields [OF r(5)] len by (simp add: setFits_def rowFits_def)
  have old: "setFits ?qs x" if "x \<in># lg_live L" for x
    by (rule setFits_mono [OF ledgerInvD(5) [OF inv that]]) (use len in \<open>auto simp: sameQuotaIdentity_def\<close>)
  show "reservationsValid H x \<and> (\<exists>d g t. ownedLive d g t x)
      \<and> setFits (lg_quotas (L\<lparr>lg_quotas := ?qs, lg_live := add_mset rs (lg_live L)\<rparr>)) x"
    if "x \<in># lg_live (L\<lparr>lg_quotas := ?qs, lg_live := add_mset rs (lg_live L)\<rparr>)" for x
  proof (cases "x = rs")
    case False
    then have "x \<in># lg_live L" using that by simp
    then show ?thesis using ledgerInvD(3,4) [OF inv, of x] old by simp
  qed (use new r(3,4) in simp)
  fix i :: nat assume i: "i < 5"
  show "bigInt (qc_reservedOperationCount (lg_quotas (L\<lparr>lg_quotas := ?qs, lg_live := add_mset rs (lg_live L)\<rparr>) ! i)) =
      (\<Sum>rs\<in>#lg_live (L\<lparr>lg_quotas := ?qs, lg_live := add_mset rs (lg_live L)\<rparr>). bigInt (qd_reservationOperationCount (rs ! i)))"
    using ledgerInvD(6) [OF inv i, unfolded held_eq] i len delta_fields(6) [OF r(5), of i] by (simp add: bigInt_one)
  show "bigInt (qc_reservedByteCount (lg_quotas (L\<lparr>lg_quotas := ?qs, lg_live := add_mset rs (lg_live L)\<rparr>) ! i)) =
      (\<Sum>rs\<in>#lg_live (L\<lparr>lg_quotas := ?qs, lg_live := add_mset rs (lg_live L)\<rparr>). bigInt (qd_reservationByteCount (rs ! i)))"
    using ledgerInvD(7) [OF inv i, unfolded held_eq] i len delta_fields(7) [OF r(5), of i] r(1) by simp
qed

lemma convert_keeps:
  assumes inv: "ledgerInv H L" and conv: "mapE (convertQuotaRow mode rs) (lg_quotas L) = Inr qs'" and mem: "rs \<in># lg_live L"
  shows "ledgerInv H (L\<lparr>lg_quotas := qs', lg_live := lg_live L - {#rs#}\<rparr>)"
proof (rule ledgerInvI)
  note qs = ledgerInvD(1) [OF inv] and len = ledgerInvD(2) [OF inv]
  have rs: "reservationsValid H rs" using ledgerInvD(3) [OF inv mem] .
  note row = convertQuotaRows_sound(3) [OF conv qs rs, unfolded len]
  obtain N where N: "lg_live L = add_mset rs N" using mem by (auto dest: multi_member_split)
  show "countersValid (lg_quotas (L\<lparr>lg_quotas := qs', lg_live := lg_live L - {#rs#}\<rparr>))"
    using convertedRows_valid [OF conv qs rs] by simp
  have fit: "setFits qs' x" if "x \<in># lg_live L" for x
    by (rule setFits_mono [OF ledgerInvD(5) [OF inv that]]) (use row in \<open>auto simp: rowConverted_def\<close>)
  show "reservationsValid H x \<and> (\<exists>d g t. ownedLive d g t x)
      \<and> setFits (lg_quotas (L\<lparr>lg_quotas := qs', lg_live := lg_live L - {#rs#}\<rparr>)) x"
    if "x \<in># lg_live (L\<lparr>lg_quotas := qs', lg_live := lg_live L - {#rs#}\<rparr>)" for x
  proof -
    have "x \<in># lg_live L" using that by (auto dest: in_diffD)
    then show ?thesis using ledgerInvD(3,4) [OF inv, of x] fit by simp
  qed
  fix i :: nat assume i: "i < 5"
  show "bigInt (qc_reservedOperationCount (lg_quotas (L\<lparr>lg_quotas := qs', lg_live := lg_live L - {#rs#}\<rparr>) ! i)) =
      (\<Sum>rs\<in>#lg_live (L\<lparr>lg_quotas := qs', lg_live := lg_live L - {#rs#}\<rparr>). bigInt (qd_reservationOperationCount (rs ! i)))"
    using ledgerInvD(6) [OF inv i, unfolded held_eq N] row [OF i] by (simp add: rowConverted_def N)
  show "bigInt (qc_reservedByteCount (lg_quotas (L\<lparr>lg_quotas := qs', lg_live := lg_live L - {#rs#}\<rparr>) ! i)) =
      (\<Sum>rs\<in>#lg_live (L\<lparr>lg_quotas := qs', lg_live := lg_live L - {#rs#}\<rparr>). bigInt (qd_reservationByteCount (rs ! i)))"
    using ledgerInvD(7) [OF inv i, unfolded held_eq N] row [OF i] by (simp add: rowConverted_def N)
qed

lemma ledgerInv_step: "ledgerStep H L L' \<Longrightarrow> ledgerInv H L \<Longrightarrow> ledgerInv H L'"
  by (erule ledgerStep_cases) (auto intro: reserve_keeps convert_keeps)

lemma ledgerInv_init: "ledgerInit L \<Longrightarrow> ledgerInv H L"
  using rows_length(2) [of "lg_quotas L"]
  by (auto simp: ledgerInit_def ledgerInv_def opsAccount_def bytesAccount_def)

lemma ledgerInv_reachable:
  assumes "(ledgerStep H)\<^sup>*\<^sup>* L L'" "ledgerInit L"
  shows "ledgerInv H L'"
  using assms(1) by (induction rule: rtranclp_induct) (auto intro: ledgerInv_init [OF assms(2)] ledgerInv_step)

subsection \<open>Refinement and progress\<close>

lemma image_mset_remove: "x \<in># M \<Longrightarrow> image_mset f (M - {#x#}) = image_mset f M - {#f x#}"
  by (simp add: image_mset_Diff)

lemma ledger_refines:
  assumes inv: "ledgerInv H L" and step: "ledgerStep H L L'" and i: "i < 5"
  shows "accountStep (opsAccount L i) (opsAccount L' i)" "accountStep (bytesAccount L i) (bytesAccount L' i)"
proof -
  have qs: "countersValid (lg_quotas L)" using inv by (simp add: ledgerInv_def)
  have len: "length (lg_quotas L) = 5" using qs by (rule rows_length)
  have held: "bigInt (qc_reservedOperationCount (lg_quotas L ! i)) = sum_mset (ac_held (opsAccount L i))"
    "bigInt (qc_reservedByteCount (lg_quotas L ! i)) = sum_mset (ac_held (bytesAccount L i))"
    using inv i by (auto simp: ledgerInv_def)
  have "accountStep (opsAccount L i) (opsAccount L' i) \<and> accountStep (bytesAccount L i) (bytesAccount L' i)"
    using step
  proof (cases rule: ledgerStep_cases)
    case (reserve c rs)
    have c: "0 \<le> c" "hasCapacity c (lg_quotas L ! i)"
      and deltas: "map quotaReservationDelta rs = map (quotaDeltaOf c) (lg_quotas L)"
      using reserve(1) i len by (auto simp: reserved_def)
    have "opsAccount L' i = (opsAccount L i)\<lparr>ac_held := add_mset 1 (ac_held (opsAccount L i))\<rparr>"
      "bytesAccount L' i = (bytesAccount L i)\<lparr>ac_held := add_mset c (ac_held (bytesAccount L i))\<rparr>"
      using delta_fields(6,7) [OF deltas, of i] i len c(1)
      by (simp_all add: reserve(2) opsAccount_def bytesAccount_def bigInt_one)
    moreover have "ac_used (opsAccount L i) + sum_mset (ac_held (opsAccount L i)) + 1 \<le> ac_limit (opsAccount L i)"
      "ac_used (bytesAccount L i) + sum_mset (ac_held (bytesAccount L i)) + c \<le> ac_limit (bytesAccount L i)"
      unfolding held [symmetric] using c(2) by (simp_all add: hasCapacity_def opsAccount_def bytesAccount_def)
    ultimately show ?thesis
      using accountStep.hold [of 1 "opsAccount L i"] accountStep.hold [of c "bytesAccount L i"] c(1) by simp
  next
    case (convert mode rs qs')
    have rs: "reservationsValid H rs" using inv convert(2) by (simp add: ledgerInv_def)
    have row: "rowConverted mode (lg_quotas L ! i) (rs ! i) (qs' ! i)"
      using convertQuotaRows_sound(3) [OF convert(1) qs rs] i len by simp
    let ?o = "bigInt (qd_reservationOperationCount (rs ! i))" and ?b = "bigInt (qd_reservationByteCount (rs ! i))"
    have mem: "?o \<in># ac_held (opsAccount L i)" "?b \<in># ac_held (bytesAccount L i)"
      using convert(2) by (auto simp: opsAccount_def bytesAccount_def)
    show ?thesis
      using row mem convert(2) accountStep.settle [OF mem(1)] accountStep.settle [OF mem(2)]
        accountStep.cancel [OF mem(1)] accountStep.cancel [OF mem(2)]
      by (cases mode) (simp_all add: convert(3) opsAccount_def bytesAccount_def rowConverted_def sameQuotaIdentity_def
          image_mset_remove)
  qed
  then show "accountStep (opsAccount L i) (opsAccount L' i)" "accountStep (bytesAccount L i) (bytesAccount L' i)"
    by auto
qed

lemma ledgerInv_accounts:
  assumes "ledgerInv H L" "i < 5"
  shows "accountOk (opsAccount L i)" "accountOk (bytesAccount L i)"
proof -
  have "countersValid (lg_quotas L)" using assms by (simp add: ledgerInv_def)
  then have "quotaCounterValid (lg_quotas L ! i)"
    using assms(2) rows_length(2) [of "lg_quotas L"] by (simp add: countersValid_def)
  with assms show "accountOk (opsAccount L i)" "accountOk (bytesAccount L i)"
    by (auto simp: accountOk_def ledgerInv_def quotaCounterValid_def opsAccount_def bytesAccount_def)
qed

lemma sum_image_nonneg: "(\<And>x. 0 \<le> f x) \<Longrightarrow> (0 :: int) \<le> sum_mset (image_mset f M)"
  by (induction M) (simp_all add: add_nonneg_nonneg)

lemma live_holds:
  assumes inv: "ledgerInv H L" and mem: "rs \<in># lg_live L" and i: "i < 5"
  shows "rowHolds (lg_quotas L ! i) (rs ! i)"
proof -
  obtain N where N: "lg_live L = add_mset rs N" using mem by (auto dest: multi_member_split)
  have "rowFits (lg_quotas L ! i) (rs ! i)" using ledgerInvD(5) [OF inv mem] i by (simp add: setFits_def)
  moreover have "bigInt (qd_reservationOperationCount (rs ! i)) \<le> bigInt (qc_reservedOperationCount (lg_quotas L ! i))"
    "bigInt (qd_reservationByteCount (rs ! i)) \<le> bigInt (qc_reservedByteCount (lg_quotas L ! i))"
    using ledgerInvD(6,7) [OF inv i, unfolded held_eq N]
      sum_image_nonneg [of "\<lambda>x. bigInt (qd_reservationOperationCount (x ! i))" N]
      sum_image_nonneg [of "\<lambda>x. bigInt (qd_reservationByteCount (x ! i))" N]
    by simp_all
  ultimately show ?thesis by (simp add: rowHolds_def rowFits_def)
qed

text \<open>The call that converts a live set: the current rows, the set, its owner, and the prepared rows.\<close>

definition conversionCall ::
  "lockedQuotaCounter list \<Rightarrow> quotaReservation list \<Rightarrow> string \<Rightarrow> string \<Rightarrow> string \<Rightarrow> lockedQuotaCounter list
     \<Rightarrow> conversionMode \<Rightarrow> conversionInput" where
  "conversionCall qs rs digest generation token qs' mode =
     \<lparr>ci_currentQuotas = encodeRows encodeQuotaCounter qs,
      ci_currentCapacityReservations = encodeRows encodeQuotaReservation rs,
      ci_pendingPreparationDigest = JStr digest, ci_fenceGeneration = JStr generation, ci_fenceTokenHash = JStr token,
      ci_preparedFinalQuotas = encodeRows encodeQuotaCounter qs',
      ci_preparedFinalReservations =
        encodeRows encodeQuotaReservation (map (\<lambda>r. r\<lparr>qr_state := terminalState mode\<rparr>) rs)\<rparr>"

lemma conversion_accepted:
  assumes qs: "countersValid qs" and rs: "reservationsValid H rs" "ownedLive d g t rs"
    and conv: "mapE (convertQuotaRow mode rs) qs = Inr qs'"
  shows "validateQuotaCapacityConversion H (conversionCall qs rs d g t qs' mode) mode =
    Inr (qs', map (\<lambda>r. r\<lparr>qr_state := terminalState mode\<rparr>) rs)"
proof -
  have "rs \<noteq> []" using rows_length(4) [OF rs(1)] by auto
  then obtain r where r: "r \<in> set rs" by (cases rs) auto
  then have "quotaReservationValid H r" using rs(1) by (simp add: reservationsValid_def)
  then have owner: "hash32Valid d" "positiveUint63Valid g" "nonZeroHashValid t"
    using rs(2) r by (auto simp: quotaReservationValid_def ownedLive_def)
  have "countersValid qs'" by (rule convertedRows_valid [OF conv qs rs(1)])
  moreover have "reservationsValid H (map (\<lambda>r. r\<lparr>qr_state := terminalState mode\<rparr>) rs)"
    using rs(1) by (rule terminal_reservations_valid)
  ultimately show ?thesis
    using qs rs owner conv
    by (simp add: validateQuotaCapacityConversion_def conversionCall_def counters_codec.parse_encode
        reservations_codec.parse_encode parse_ok guardE_def ownedLive_def list_ex_iff)
qed

lemma ledger_progress:
  assumes inv: "ledgerInv H L" and mem: "rs \<in># lg_live L"
    and room: "\<forall>q\<in>set (lg_quotas L). bigInt (qc_rowVersion q) < UINT63_MAX"
  shows "\<exists>d g t qs'. validateQuotaCapacityConversion H (conversionCall (lg_quotas L) rs d g t qs' mode) mode
      = Inr (qs', map (\<lambda>r. r\<lparr>qr_state := terminalState mode\<rparr>) rs)
    \<and> ledgerStep H L (L\<lparr>lg_quotas := qs', lg_live := lg_live L - {#rs#}\<rparr>)"
proof -
  note qs = ledgerInvD(1) [OF inv] and len = ledgerInvD(2) [OF inv]
  have rs: "reservationsValid H rs" using ledgerInvD(3) [OF inv mem] .
  obtain d g t where own: "ownedLive d g t rs" using ledgerInvD(4) [OF inv mem] by blast
  obtain qs' where conv: "mapE (convertQuotaRow mode rs) (lg_quotas L) = Inr qs'"
    using convertQuotaRows_complete [OF qs rs] live_holds [OF inv mem] len room by metis
  note ok = conversion_accepted [OF qs rs own conv]
  have "ledgerStep H L (L\<lparr>lg_quotas := qs', lg_live := lg_live L - {#rs#}\<rparr>)"
    using qs rs mem by (intro ledgerStep.convert [OF ok])
      (simp_all add: conversionCall_def counters_codec.parse_encode reservations_codec.parse_encode)
  with ok show ?thesis by blast
qed

end
