(* ===== verification/Fanout.thy ===== *)
theory Fanout
  imports QuotaLedger
begin

section \<open>Fan-out of an appended envelope\<close>

text \<open>
  The recipients of an application envelope (\<open>src/src/production/delivery/state.ts\<close>): the routing rows, the
  active MLS roster, the plan derived from both, and the evidence of its commit.

  The source sorts rows and recipients with \<open>localeCompare\<close>, whose order is the collation of the locale of the
  host. It is a parameter of the definitions: the sign of \<open>localeCompare left right\<close> is that of
  \<open>left.localeCompare(right)\<close>.
\<close>

subsection \<open>Sorting with a comparison function\<close>

text \<open>
  \<open>Array.prototype.sort\<close> is stable, and for a consistent comparison function its result is determined by that:
  it is the one of the insertion sort below.
\<close>

type_synonym localeOrder = "string \<Rightarrow> string \<Rightarrow> int"

primrec insertBefore :: "('a \<Rightarrow> 'a \<Rightarrow> int) \<Rightarrow> 'a \<Rightarrow> 'a list \<Rightarrow> 'a list" where
  "insertBefore compareFn x [] = [x]"
| "insertBefore compareFn x (y # ys) = (if compareFn x y \<le> 0 then x # y # ys else y # insertBefore compareFn x ys)"

definition jsSort :: "('a \<Rightarrow> 'a \<Rightarrow> int) \<Rightarrow> 'a list \<Rightarrow> 'a list" where
  "jsSort compareFn xs = foldr (insertBefore compareFn) xs []"

subsection \<open>Routing rows and roster rows\<close>

definition removalPrecedesJoin :: "string option \<Rightarrow> string \<Rightarrow> bool" where
  "removalPrecedesJoin removedPosition joinedPosition = (case removedPosition of
     None \<Rightarrow> False | Some removed \<Rightarrow> bigInt removed < bigInt joinedPosition)"

record recipientProjection =
  rp_conversationId :: string
  rp_conversationGeneration :: string
  rp_recipientSetVersion :: string
  rp_accountId :: string
  rp_installationId :: string
  rp_credentialId :: string
  rp_credentialFingerprint :: string
  rp_credentialRevocationVersion :: string
  rp_credentialState :: credentialState
  rp_credentialExpiresAt :: string
  rp_joinedPosition :: string
  rp_removedPosition :: "string option"
  rp_installationState :: installationState

definition RECIPIENT_KEYS :: "string list" where
  "RECIPIENT_KEYS =
    [''conversationId'', ''conversationGeneration'', ''recipientSetVersion'', ''accountId'',
     ''installationId'', ''credentialId'', ''credentialFingerprint'', ''credentialRevocationVersion'',
     ''credentialState'', ''credentialExpiresAt'', ''joinedPosition'', ''removedPosition'',
     ''installationState'']"

definition parseRecipientProjection :: "jsval \<Rightarrow> recipientProjection res" where
  "parseRecipientProjection v =
     bindE (expectExactRecord v RECIPIENT_KEYS) (\<lambda>record.
     bindE (parseNullable parsePositiveUint63 (record ''removedPosition'')) (\<lambda>removedPosition.
     bindE (parsePositiveUint63 (record ''joinedPosition'')) (\<lambda>joinedPosition.
     bindE (guardE (\<not> removalPrecedesJoin removedPosition joinedPosition) DeliveryStateValidationError) (\<lambda>_.
     bindE (parseConversationId (record ''conversationId'')) (\<lambda>conversationId.
     bindE (parsePositiveUint63 (record ''conversationGeneration'')) (\<lambda>conversationGeneration.
     bindE (parseUint63String (record ''recipientSetVersion'')) (\<lambda>recipientSetVersion.
     bindE (parseAccountId (record ''accountId'')) (\<lambda>accountId.
     bindE (parseInstallationId (record ''installationId'')) (\<lambda>installationId.
     bindE (parseCredentialId (record ''credentialId'')) (\<lambda>credentialId.
     bindE (parseFingerprint32 (record ''credentialFingerprint'')) (\<lambda>credentialFingerprint.
     bindE (parsePositiveUint63 (record ''credentialRevocationVersion'')) (\<lambda>credentialRevocationVersion.
     bindE (parseCredentialState (record ''credentialState'')) (\<lambda>credentialState.
     bindE (parseRfc3339Millis (record ''credentialExpiresAt'')) (\<lambda>credentialExpiresAt.
     bindE (parseInstallationState (record ''installationState'')) (\<lambda>installationState.
     Inr \<lparr>rp_conversationId = conversationId, rp_conversationGeneration = conversationGeneration,
          rp_recipientSetVersion = recipientSetVersion, rp_accountId = accountId,
          rp_installationId = installationId, rp_credentialId = credentialId,
          rp_credentialFingerprint = credentialFingerprint,
          rp_credentialRevocationVersion = credentialRevocationVersion, rp_credentialState = credentialState,
          rp_credentialExpiresAt = credentialExpiresAt, rp_joinedPosition = joinedPosition,
          rp_removedPosition = removedPosition, rp_installationState = installationState\<rparr>)))))))))))))))"

definition entriesRecipient :: "recipientProjection \<Rightarrow> (string \<times> jsval) list" where
  "entriesRecipient r =
     [(''conversationId'', JStr (rp_conversationId r)),
      (''conversationGeneration'', JStr (rp_conversationGeneration r)),
      (''recipientSetVersion'', JStr (rp_recipientSetVersion r)), (''accountId'', JStr (rp_accountId r)),
      (''installationId'', JStr (rp_installationId r)), (''credentialId'', JStr (rp_credentialId r)),
      (''credentialFingerprint'', JStr (rp_credentialFingerprint r)),
      (''credentialRevocationVersion'', JStr (rp_credentialRevocationVersion r)),
      (''credentialState'', JStr (credentialStateText (rp_credentialState r))),
      (''credentialExpiresAt'', JStr (rp_credentialExpiresAt r)),
      (''joinedPosition'', JStr (rp_joinedPosition r)),
      (''removedPosition'', encodeNullable (rp_removedPosition r)),
      (''installationState'', JStr (installationStateText (rp_installationState r)))]"

definition encodeRecipient :: "recipientProjection \<Rightarrow> jsval" where
  "encodeRecipient r = mkRecord (entriesRecipient r)"

definition recipientValid :: "recipientProjection \<Rightarrow> bool" where
  "recipientValid r =
     (uuidV4Valid (rp_conversationId r) \<and> positiveUint63Valid (rp_conversationGeneration r) \<and>
      uint63Valid (rp_recipientSetVersion r) \<and> uuidV4Valid (rp_accountId r) \<and>
      uuidV4Valid (rp_installationId r) \<and> uuidV4Valid (rp_credentialId r) \<and>
      hash32Valid (rp_credentialFingerprint r) \<and>
      positiveUint63Valid (rp_credentialRevocationVersion r) \<and>
      rfc3339Valid (rp_credentialExpiresAt r) \<and> positiveUint63Valid (rp_joinedPosition r) \<and>
      (case rp_removedPosition r of None \<Rightarrow> True | Some x \<Rightarrow> positiveUint63Valid x) \<and>
      \<not> removalPrecedesJoin (rp_removedPosition r) (rp_joinedPosition r))"

lemma entriesRecipient_get [simp]:
  "fieldOf (entriesRecipient r) ''conversationId'' = JStr (rp_conversationId r)"
  "fieldOf (entriesRecipient r) ''conversationGeneration'' = JStr (rp_conversationGeneration r)"
  "fieldOf (entriesRecipient r) ''recipientSetVersion'' = JStr (rp_recipientSetVersion r)"
  "fieldOf (entriesRecipient r) ''accountId'' = JStr (rp_accountId r)"
  "fieldOf (entriesRecipient r) ''installationId'' = JStr (rp_installationId r)"
  "fieldOf (entriesRecipient r) ''credentialId'' = JStr (rp_credentialId r)"
  "fieldOf (entriesRecipient r) ''credentialFingerprint'' = JStr (rp_credentialFingerprint r)"
  "fieldOf (entriesRecipient r) ''credentialRevocationVersion'' = JStr (rp_credentialRevocationVersion r)"
  "fieldOf (entriesRecipient r) ''credentialState'' = JStr (credentialStateText (rp_credentialState r))"
  "fieldOf (entriesRecipient r) ''credentialExpiresAt'' = JStr (rp_credentialExpiresAt r)"
  "fieldOf (entriesRecipient r) ''joinedPosition'' = JStr (rp_joinedPosition r)"
  "fieldOf (entriesRecipient r) ''removedPosition'' = encodeNullable (rp_removedPosition r)"
  "fieldOf (entriesRecipient r) ''installationState'' = JStr (installationStateText (rp_installationState r))"
  by (simp_all add: entriesRecipient_def)

lemma expect_encodeRecipient: "expectExactRecord (encodeRecipient r) RECIPIENT_KEYS = Inr (fieldOf (entriesRecipient r))"
  unfolding encodeRecipient_def by (rule expectExactRecord_mkRecord) (simp_all add: RECIPIENT_KEYS_def entriesRecipient_def)

interpretation recipient_codec: record_codec parseRecipientProjection encodeRecipient recipientValid
proof
  show "recipientValid r" if "parseRecipientProjection v = Inr r" for v r
    using that unfolding parseRecipientProjection_def
    by (elim bindE_InrE, simp only: parse_simps guardE_eq_Inr sum.inject, elim conjE, hypsubst, simp add: recipientValid_def)
  show "parseRecipientProjection (encodeRecipient r) = Inr r" if "recipientValid r" for r
    using that by (simp add: parseRecipientProjection_def expect_encodeRecipient parse_ok recipientValid_def split: option.splits)
qed

record rosterProjection =
  mr_conversationId :: string
  mr_conversationGeneration :: string
  mr_rosterVersion :: string
  mr_accountId :: string
  mr_installationId :: string
  mr_credentialId :: string
  mr_credentialFingerprint :: string

definition ROSTER_KEYS :: "string list" where
  "ROSTER_KEYS =
    [''conversationId'', ''conversationGeneration'', ''rosterVersion'', ''accountId'', ''installationId'',
     ''credentialId'', ''credentialFingerprint'']"

definition parseRosterProjection :: "jsval \<Rightarrow> rosterProjection res" where
  "parseRosterProjection v =
     bindE (expectExactRecord v ROSTER_KEYS) (\<lambda>record.
     bindE (parseConversationId (record ''conversationId'')) (\<lambda>conversationId.
     bindE (parsePositiveUint63 (record ''conversationGeneration'')) (\<lambda>conversationGeneration.
     bindE (parseUint63String (record ''rosterVersion'')) (\<lambda>rosterVersion.
     bindE (parseAccountId (record ''accountId'')) (\<lambda>accountId.
     bindE (parseInstallationId (record ''installationId'')) (\<lambda>installationId.
     bindE (parseCredentialId (record ''credentialId'')) (\<lambda>credentialId.
     bindE (parseFingerprint32 (record ''credentialFingerprint'')) (\<lambda>credentialFingerprint.
     Inr \<lparr>mr_conversationId = conversationId, mr_conversationGeneration = conversationGeneration,
          mr_rosterVersion = rosterVersion, mr_accountId = accountId, mr_installationId = installationId,
          mr_credentialId = credentialId, mr_credentialFingerprint = credentialFingerprint\<rparr>))))))))"

definition entriesRoster :: "rosterProjection \<Rightarrow> (string \<times> jsval) list" where
  "entriesRoster r =
     [(''conversationId'', JStr (mr_conversationId r)),
      (''conversationGeneration'', JStr (mr_conversationGeneration r)),
      (''rosterVersion'', JStr (mr_rosterVersion r)), (''accountId'', JStr (mr_accountId r)),
      (''installationId'', JStr (mr_installationId r)), (''credentialId'', JStr (mr_credentialId r)),
      (''credentialFingerprint'', JStr (mr_credentialFingerprint r))]"

definition encodeRoster :: "rosterProjection \<Rightarrow> jsval" where
  "encodeRoster r = mkRecord (entriesRoster r)"

definition rosterValid :: "rosterProjection \<Rightarrow> bool" where
  "rosterValid r =
     (uuidV4Valid (mr_conversationId r) \<and> positiveUint63Valid (mr_conversationGeneration r) \<and>
      uint63Valid (mr_rosterVersion r) \<and> uuidV4Valid (mr_accountId r) \<and>
      uuidV4Valid (mr_installationId r) \<and> uuidV4Valid (mr_credentialId r) \<and>
      hash32Valid (mr_credentialFingerprint r))"

lemma entriesRoster_get [simp]:
  "fieldOf (entriesRoster r) ''conversationId'' = JStr (mr_conversationId r)"
  "fieldOf (entriesRoster r) ''conversationGeneration'' = JStr (mr_conversationGeneration r)"
  "fieldOf (entriesRoster r) ''rosterVersion'' = JStr (mr_rosterVersion r)"
  "fieldOf (entriesRoster r) ''accountId'' = JStr (mr_accountId r)"
  "fieldOf (entriesRoster r) ''installationId'' = JStr (mr_installationId r)"
  "fieldOf (entriesRoster r) ''credentialId'' = JStr (mr_credentialId r)"
  "fieldOf (entriesRoster r) ''credentialFingerprint'' = JStr (mr_credentialFingerprint r)"
  by (simp_all add: entriesRoster_def)

lemma expect_encodeRoster: "expectExactRecord (encodeRoster r) ROSTER_KEYS = Inr (fieldOf (entriesRoster r))"
  unfolding encodeRoster_def by (rule expectExactRecord_mkRecord) (simp_all add: ROSTER_KEYS_def entriesRoster_def)

interpretation roster_codec: record_codec parseRosterProjection encodeRoster rosterValid
proof
  show "rosterValid r" if "parseRosterProjection v = Inr r" for v r
    using that unfolding parseRosterProjection_def
    by (elim bindE_InrE, simp only: parse_simps guardE_eq_Inr sum.inject, elim conjE, hypsubst, simp add: rosterValid_def)
  show "parseRosterProjection (encodeRoster r) = Inr r" if "rosterValid r" for r
    using that by (simp add: parseRosterProjection_def expect_encodeRoster parse_ok rosterValid_def split: option.splits)
qed

definition APPLICATION_APPEND_RECIPIENT_INSTALLATIONS_HARD_MAX :: int where
  "APPLICATION_APPEND_RECIPIENT_INSTALLATIONS_HARD_MAX = 2500"

definition boundedRows :: "jsval \<Rightarrow> int \<Rightarrow> jsval list res" where
  "boundedRows v maximum = (case exactArray v of
     None \<Rightarrow> Inl DeliveryStateValidationError
   | Some xs \<Rightarrow>
       if xs = [] \<or> int (length xs) > maximum
          \<or> int (length xs) > APPLICATION_APPEND_RECIPIENT_INSTALLATIONS_HARD_MAX
       then Inl DeliveryStateValidationError else Inr xs)"

definition parseApplicationAppendRecipientProjections :: "localeOrder \<Rightarrow> jsval \<Rightarrow> string \<Rightarrow> recipientProjection list res" where
  "parseApplicationAppendRecipientProjections localeCompare v recipientInstallationsMax =
     bindE (parsePositiveUint63 (JStr recipientInstallationsMax)) (\<lambda>maximum.
     bindE (boundedRows v (bigInt maximum)) (\<lambda>entries.
     bindE (mapE parseRecipientProjection entries) (\<lambda>parsed.
     if setSize (map rp_installationId parsed) \<noteq> length parsed
        \<or> setSize (map rp_credentialId parsed) \<noteq> length parsed
     then Inl DeliveryStateValidationError
     else Inr (jsSort (\<lambda>left right. localeCompare (rp_installationId left) (rp_installationId right)) parsed))))"

definition parseApplicationAppendMlsRosterProjections :: "localeOrder \<Rightarrow> jsval \<Rightarrow> string \<Rightarrow> rosterProjection list res" where
  "parseApplicationAppendMlsRosterProjections localeCompare v recipientInstallationsMax =
     bindE (parsePositiveUint63 (JStr recipientInstallationsMax)) (\<lambda>maximum.
     bindE (boundedRows v (bigInt maximum)) (\<lambda>entries.
     bindE (mapE parseRosterProjection entries) (\<lambda>parsed.
     if setSize (map mr_installationId parsed) \<noteq> length parsed
        \<or> setSize (map mr_credentialId parsed) \<noteq> length parsed
     then Inl DeliveryStateValidationError
     else Inr (jsSort (\<lambda>left right. localeCompare (mr_installationId left) (mr_installationId right)) parsed))))"

definition sameRecipientIdentity :: "recipientProjection \<Rightarrow> rosterProjection \<Rightarrow> bool" where
  "sameRecipientIdentity route roster =
     (rp_conversationId route = mr_conversationId roster
      \<and> rp_conversationGeneration route = mr_conversationGeneration roster
      \<and> rp_accountId route = mr_accountId roster \<and> rp_installationId route = mr_installationId roster
      \<and> rp_credentialId route = mr_credentialId roster
      \<and> rp_credentialFingerprint route = mr_credentialFingerprint roster)"

subsection \<open>Digests\<close>

definition APPLICATION_APPEND_RECIPIENT_SET_DIGEST_DOMAIN :: string where
  "APPLICATION_APPEND_RECIPIENT_SET_DIGEST_DOMAIN = ''jb-msg-application-append-recipient-set/v1''"

definition APPLICATION_APPEND_MLS_ROSTER_DIGEST_DOMAIN :: string where
  "APPLICATION_APPEND_MLS_ROSTER_DIGEST_DOMAIN = ''jb-msg-application-append-mls-roster/v1''"

definition APPLICATION_APPEND_FANOUT_PLAN_DIGEST_DOMAIN :: string where
  "APPLICATION_APPEND_FANOUT_PLAN_DIGEST_DOMAIN = ''jb-msg-application-append-fanout-plan/v1''"

definition APPLICATION_APPEND_FANOUT_EVIDENCE_DIGEST_DOMAIN :: string where
  "APPLICATION_APPEND_FANOUT_EVIDENCE_DIGEST_DOMAIN = ''jb-msg-application-append-fanout-evidence/v1''"

definition APPLICATION_APPEND_MAILBOX_PROJECTION_DIGEST_DOMAIN :: string where
  "APPLICATION_APPEND_MAILBOX_PROJECTION_DIGEST_DOMAIN = ''jb-msg-application-append-mailbox-projection/v1''"

definition APPLICATION_APPEND_OUTBOX_PROJECTION_DIGEST_DOMAIN :: string where
  "APPLICATION_APPEND_OUTBOX_PROJECTION_DIGEST_DOMAIN = ''jb-msg-application-append-outbox-projection/v1''"

definition recipientDigestFields :: "recipientProjection \<Rightarrow> digestField list" where
  "recipientDigestFields r =
     [Utf8 (rp_conversationId r), Utf8 (rp_conversationGeneration r), Utf8 (rp_recipientSetVersion r),
      Utf8 (rp_accountId r), Utf8 (rp_installationId r), Utf8 (rp_credentialId r),
      DecodedFingerprint (rp_credentialFingerprint r), Utf8 (rp_credentialRevocationVersion r),
      Utf8 (credentialStateText (rp_credentialState r)), Utf8 (rp_credentialExpiresAt r),
      Utf8 (rp_joinedPosition r), NullableText (rp_removedPosition r),
      Utf8 (installationStateText (rp_installationState r))]"

definition computeApplicationAppendRecipientSetHash ::
  "localeOrder \<Rightarrow> (bytes \<Rightarrow> bytes) \<Rightarrow> recipientProjection list \<Rightarrow> string res" where
  "computeApplicationAppendRecipientSetHash localeCompare H projectionsValue =
     bindE (parseUint63String (JStr (showNat (length projectionsValue)))) (\<lambda>ceiling.
     bindE (parseApplicationAppendRecipientProjections localeCompare (encodeRows encodeRecipient projectionsValue) ceiling) (\<lambda>projections.
     digestOf H APPLICATION_APPEND_RECIPIENT_SET_DIGEST_DOMAIN (concat (map recipientDigestFields projections))))"

definition rosterDigestFields :: "rosterProjection \<Rightarrow> digestField list" where
  "rosterDigestFields r =
     [Utf8 (mr_conversationId r), Utf8 (mr_conversationGeneration r), Utf8 (mr_rosterVersion r),
      Utf8 (mr_accountId r), Utf8 (mr_installationId r), Utf8 (mr_credentialId r),
      DecodedFingerprint (mr_credentialFingerprint r)]"

definition computeApplicationAppendMlsRosterHash ::
  "localeOrder \<Rightarrow> (bytes \<Rightarrow> bytes) \<Rightarrow> rosterProjection list \<Rightarrow> string res" where
  "computeApplicationAppendMlsRosterHash localeCompare H projectionsValue =
     bindE (parseUint63String (JStr (showNat (length projectionsValue)))) (\<lambda>ceiling.
     bindE (parseApplicationAppendMlsRosterProjections localeCompare (encodeRows encodeRoster projectionsValue) ceiling) (\<lambda>projections.
     digestOf H APPLICATION_APPEND_MLS_ROSTER_DIGEST_DOMAIN (concat (map rosterDigestFields projections))))"

subsection \<open>The plan\<close>

record fanoutPlan =
  fp_conversationId :: string
  fp_conversationGeneration :: string
  fp_rosterVersion :: string
  fp_rosterHash :: string
  fp_recipientSetVersion :: string
  fp_recipientSetHash :: string
  fp_position :: string
  fp_recipientInstallationIds :: "string list"
  fp_recipientCount :: string
  fp_planDigest :: string

definition planDigestFields :: "fanoutPlan \<Rightarrow> string list \<Rightarrow> digestField list" where
  "planDigestFields p ids =
     [Utf8 (fp_conversationId p), Utf8 (fp_conversationGeneration p), Utf8 (fp_rosterVersion p),
      DecodedHash (fp_rosterHash p), Utf8 (fp_recipientSetVersion p), DecodedHash (fp_recipientSetHash p),
      Utf8 (fp_position p)] @ map Utf8 ids"

text \<open>Only the fields of the plan that precede \<open>recipientCount\<close> are read.\<close>

definition computeApplicationAppendFanoutPlanDigest :: "(bytes \<Rightarrow> bytes) \<Rightarrow> fanoutPlan \<Rightarrow> string res" where
  "computeApplicationAppendFanoutPlanDigest H p =
     bindE (mapE (\<lambda>id. parseInstallationId (JStr id)) (fp_recipientInstallationIds p)) (\<lambda>ids.
     digestOf H APPLICATION_APPEND_FANOUT_PLAN_DIGEST_DOMAIN (planDigestFields p ids))"

definition FANOUT_PLAN_KEYS :: "string list" where
  "FANOUT_PLAN_KEYS =
    [''conversationId'', ''conversationGeneration'', ''rosterVersion'', ''rosterHash'', ''recipientSetVersion'',
     ''recipientSetHash'', ''position'', ''recipientInstallationIds'', ''recipientCount'', ''planDigest'']"

definition notStrictlySorted :: "string list \<Rightarrow> bool" where
  "notStrictlySorted ids = list_ex (\<lambda>i. i > 0 \<and> ids ! (i - 1) \<ge> ids ! i) [0..<length ids]"

definition parseApplicationAppendFanoutPlan :: "(bytes \<Rightarrow> bytes) \<Rightarrow> jsval \<Rightarrow> string \<Rightarrow> fanoutPlan res" where
  "parseApplicationAppendFanoutPlan H v recipientInstallationsMax =
     bindE (expectExactRecord v FANOUT_PLAN_KEYS) (\<lambda>record.
     bindE (parsePositiveUint63 (JStr recipientInstallationsMax)) (\<lambda>maximum.
     bindE (case exactArray (record ''recipientInstallationIds'') of
              None \<Rightarrow> Inl DeliveryStateValidationError
            | Some xs \<Rightarrow>
                if int (length xs) > bigInt maximum
                   \<or> int (length xs) > APPLICATION_APPEND_RECIPIENT_INSTALLATIONS_HARD_MAX
                then Inl DeliveryStateValidationError else Inr xs) (\<lambda>entries.
     bindE (mapE parseInstallationId entries) (\<lambda>recipientInstallationIds.
     bindE (guardE (\<not> (setSize recipientInstallationIds \<noteq> length recipientInstallationIds
                       \<or> notStrictlySorted recipientInstallationIds)) DeliveryStateValidationError) (\<lambda>_.
     bindE (parseConversationId (record ''conversationId'')) (\<lambda>conversationId.
     bindE (parsePositiveUint63 (record ''conversationGeneration'')) (\<lambda>conversationGeneration.
     bindE (parseUint63String (record ''rosterVersion'')) (\<lambda>rosterVersion.
     bindE (parseHash32 (record ''rosterHash'')) (\<lambda>rosterHash.
     bindE (parseUint63String (record ''recipientSetVersion'')) (\<lambda>recipientSetVersion.
     bindE (parseHash32 (record ''recipientSetHash'')) (\<lambda>recipientSetHash.
     bindE (parsePositiveUint63 (record ''position'')) (\<lambda>position.
     bindE (parseUint63String (record ''recipientCount'')) (\<lambda>recipientCount.
     bindE (parseHash32 (record ''planDigest'')) (\<lambda>planDigest.
     let parsed = \<lparr>fp_conversationId = conversationId, fp_conversationGeneration = conversationGeneration,
           fp_rosterVersion = rosterVersion, fp_rosterHash = rosterHash, fp_recipientSetVersion = recipientSetVersion,
           fp_recipientSetHash = recipientSetHash, fp_position = position,
           fp_recipientInstallationIds = recipientInstallationIds, fp_recipientCount = recipientCount,
           fp_planDigest = planDigest\<rparr> in
     if bigInt recipientCount \<noteq> int (length recipientInstallationIds) then Inl DeliveryStateValidationError
     else bindE (computeApplicationAppendFanoutPlanDigest H parsed) (\<lambda>digest.
       if planDigest \<noteq> digest then Inl DeliveryStateValidationError else Inr parsed)))))))))))))))"

definition entriesPlan :: "fanoutPlan \<Rightarrow> (string \<times> jsval) list" where
  "entriesPlan p =
     [(''conversationId'', JStr (fp_conversationId p)), (''conversationGeneration'', JStr (fp_conversationGeneration p)),
      (''rosterVersion'', JStr (fp_rosterVersion p)), (''rosterHash'', JStr (fp_rosterHash p)),
      (''recipientSetVersion'', JStr (fp_recipientSetVersion p)), (''recipientSetHash'', JStr (fp_recipientSetHash p)),
      (''position'', JStr (fp_position p)),
      (''recipientInstallationIds'', mkArray (map JStr (fp_recipientInstallationIds p))),
      (''recipientCount'', JStr (fp_recipientCount p)), (''planDigest'', JStr (fp_planDigest p))]"

definition encodePlan :: "fanoutPlan \<Rightarrow> jsval" where
  "encodePlan p = mkRecord (entriesPlan p)"

text \<open>The inputs of \<open>deriveApplicationAppendFanoutPlan\<close>.\<close>

record fanoutInput =
  fi_conversation :: jsval
  fi_senderMembership :: jsval
  fi_position :: jsval
  fi_authoritativeReceivedAt :: jsval
  fi_recipientInstallationsMax :: jsval
  fi_mlsRosterProjections :: jsval
  fi_recipientProjections :: jsval

definition foreignRoute :: "lockedConversationState \<Rightarrow> recipientProjection \<Rightarrow> bool" where
  "foreignRoute cv p =
     (rp_conversationId p \<noteq> cv_conversationId cv \<or> rp_conversationGeneration p \<noteq> cv_generation cv
      \<or> rp_recipientSetVersion p \<noteq> cv_recipientSetVersion cv)"

definition foreignRosterRow :: "lockedConversationState \<Rightarrow> rosterProjection \<Rightarrow> bool" where
  "foreignRosterRow cv m =
     (mr_conversationId m \<noteq> cv_conversationId cv \<or> mr_conversationGeneration m \<noteq> cv_generation cv
      \<or> mr_rosterVersion m \<noteq> cv_rosterVersion cv)"

definition lacksRoute :: "recipientProjection list \<Rightarrow> rosterProjection \<Rightarrow> bool" where
  "lacksRoute projections m =
     (case List.find (\<lambda>p. rp_installationId p = mr_installationId m) projections of
        None \<Rightarrow> True | Some route \<Rightarrow> \<not> sameRecipientIdentity route m)"

definition senderRouteMismatch :: "recipientProjection list \<Rightarrow> lockedSenderMembership \<Rightarrow> bool" where
  "senderRouteMismatch projections sm =
     (case List.find (\<lambda>p. rp_installationId p = sm_installationId sm) projections of
        None \<Rightarrow> True
      | Some p \<Rightarrow> rp_accountId p \<noteq> sm_accountId sm \<or> rp_credentialId p \<noteq> sm_credentialId sm
          \<or> rp_credentialFingerprint p \<noteq> sm_credentialFingerprint sm
          \<or> rp_credentialRevocationVersion p \<noteq> sm_credentialRevocationVersion sm
          \<or> rp_credentialState p \<noteq> sm_credentialState sm
          \<or> rp_credentialExpiresAt p \<noteq> sm_credentialExpiresAt sm
          \<or> rp_joinedPosition p \<noteq> sm_joinedPosition sm \<or> sm_removedPosition sm \<noteq> None
          \<or> rp_removedPosition p \<noteq> sm_removedPosition sm
          \<or> rp_installationState p \<noteq> sm_installationState sm)"

definition eligibleRecipient ::
  "rosterProjection list \<Rightarrow> string \<Rightarrow> string \<Rightarrow> recipientProjection \<Rightarrow> bool" where
  "eligibleRecipient mlsRoster position authoritativeReceivedAt p =
     (list_ex (\<lambda>m. mr_installationId m = rp_installationId p \<and> sameRecipientIdentity p m) mlsRoster
      \<and> bigInt (rp_joinedPosition p) \<le> bigInt position
      \<and> (case rp_removedPosition p of None \<Rightarrow> True | Some removed \<Rightarrow> bigInt position \<le> bigInt removed)
      \<and> rp_installationState p = InstActive \<and> rp_credentialState p = CredActive
      \<and> rp_credentialExpiresAt p > authoritativeReceivedAt)"

text \<open>The plan object before its digest is known.\<close>

definition planOf ::
  "lockedConversationState \<Rightarrow> string \<Rightarrow> string \<Rightarrow> string list \<Rightarrow> string \<Rightarrow> string \<Rightarrow> fanoutPlan" where
  "planOf cv recipientSetHash position ids recipientCount digest =
     \<lparr>fp_conversationId = cv_conversationId cv, fp_conversationGeneration = cv_generation cv,
      fp_rosterVersion = cv_rosterVersion cv, fp_rosterHash = cv_rosterHash cv,
      fp_recipientSetVersion = cv_recipientSetVersion cv, fp_recipientSetHash = recipientSetHash,
      fp_position = position, fp_recipientInstallationIds = ids, fp_recipientCount = recipientCount, fp_planDigest = digest\<rparr>"

definition deriveApplicationAppendFanoutPlan :: "localeOrder \<Rightarrow> (bytes \<Rightarrow> bytes) \<Rightarrow> fanoutInput \<Rightarrow> fanoutPlan res" where
  "deriveApplicationAppendFanoutPlan localeCompare H input =
     bindE (parseLockedConversationState (fi_conversation input)) (\<lambda>conversation.
     bindE (parseLockedSenderMembership (fi_senderMembership input)) (\<lambda>membership.
     bindE (parsePositiveUint63 (fi_position input)) (\<lambda>position.
     bindE (parseRfc3339Millis (fi_authoritativeReceivedAt input)) (\<lambda>authoritativeReceivedAt.
     bindE (parsePositiveUint63 (fi_recipientInstallationsMax input)) (\<lambda>recipientInstallationsMax.
     bindE (guardE (\<not> bigInt recipientInstallationsMax > APPLICATION_APPEND_RECIPIENT_INSTALLATIONS_HARD_MAX)
              DeliveryStateValidationError) (\<lambda>_.
     bindE (parseApplicationAppendRecipientProjections localeCompare (fi_recipientProjections input) recipientInstallationsMax) (\<lambda>projections.
     bindE (parseApplicationAppendMlsRosterProjections localeCompare (fi_mlsRosterProjections input) recipientInstallationsMax) (\<lambda>mlsRoster.
     bindE (guardE (\<not> (sm_conversationId membership \<noteq> cv_conversationId conversation
                       \<or> bigInt position \<noteq> bigInt (cv_lastPosition conversation) + 1)) DeliveryStateValidationError) (\<lambda>_.
     bindE (guardE (\<not> list_ex (foreignRoute conversation) projections) DeliveryStateValidationError) (\<lambda>_.
     bindE (guardE (\<not> list_ex (foreignRosterRow conversation) mlsRoster) DeliveryStateValidationError) (\<lambda>_.
     bindE (computeApplicationAppendMlsRosterHash localeCompare H mlsRoster) (\<lambda>rosterHash.
     bindE (guardE (rosterHash = cv_rosterHash conversation) DeliveryStateValidationError) (\<lambda>_.
     bindE (computeApplicationAppendRecipientSetHash localeCompare H projections) (\<lambda>recipientSetHash.
     bindE (guardE (recipientSetHash = cv_recipientSetHash conversation) DeliveryStateValidationError) (\<lambda>_.
     bindE (guardE (\<not> list_ex (lacksRoute projections) mlsRoster) DeliveryStateValidationError) (\<lambda>_.
     bindE (guardE (\<not> senderRouteMismatch projections membership) DeliveryStateValidationError) (\<lambda>_.
     let recipientInstallationIds =
           jsSort localeCompare (map rp_installationId (filter (eligibleRecipient mlsRoster position authoritativeReceivedAt) projections)) in
     bindE (parseUint63String (JStr (showNat (length recipientInstallationIds)))) (\<lambda>recipientCount.
     bindE (computeApplicationAppendFanoutPlanDigest H
              (planOf conversation recipientSetHash position recipientInstallationIds recipientCount [])) (\<lambda>planDigest.
     Inr (planOf conversation recipientSetHash position recipientInstallationIds recipientCount planDigest))))))))))))))))))))"

subsection \<open>Commit evidence\<close>

record fanoutEvidence =
  fe_conversationId :: string
  fe_envelopeId :: string
  fe_position :: string
  fe_headHash :: string
  fe_rosterHash :: string
  fe_planDigest :: string
  fe_recipientCount :: string
  fe_mailboxProjectionDigest :: string
  fe_outboxProjectionDigest :: string
  fe_evidenceDigest :: string

definition computeApplicationAppendMailboxProjectionDigest ::
  "(bytes \<Rightarrow> bytes) \<Rightarrow> fanoutPlan \<Rightarrow> string \<Rightarrow> string res" where
  "computeApplicationAppendMailboxProjectionDigest H plan envelopeId =
     digestOf H APPLICATION_APPEND_MAILBOX_PROJECTION_DIGEST_DOMAIN
       ([Utf8 (fp_conversationId plan), Utf8 envelopeId, Utf8 (fp_position plan), DecodedHash (fp_planDigest plan),
         Utf8 (fp_recipientCount plan)] @ map Utf8 (fp_recipientInstallationIds plan))"

definition computeApplicationAppendOutboxProjectionDigest ::
  "(bytes \<Rightarrow> bytes) \<Rightarrow> string \<Rightarrow> string \<Rightarrow> string \<Rightarrow> string \<Rightarrow> string res" where
  "computeApplicationAppendOutboxProjectionDigest H conversationId envelopeId position headHash =
     digestOf H APPLICATION_APPEND_OUTBOX_PROJECTION_DIGEST_DOMAIN
       [Utf8 conversationId, Utf8 envelopeId, Utf8 position, DecodedHash headHash]"

definition fanoutEvidenceFields :: "fanoutEvidence \<Rightarrow> digestField list" where
  "fanoutEvidenceFields e =
     [Utf8 (fe_conversationId e), Utf8 (fe_envelopeId e), Utf8 (fe_position e), DecodedHash (fe_headHash e),
      DecodedHash (fe_rosterHash e), DecodedHash (fe_planDigest e), Utf8 (fe_recipientCount e),
      DecodedHash (fe_mailboxProjectionDigest e), DecodedHash (fe_outboxProjectionDigest e), Utf8 ''committed'']"

definition computeApplicationAppendFanoutEvidenceDigest :: "(bytes \<Rightarrow> bytes) \<Rightarrow> fanoutEvidence \<Rightarrow> string res" where
  "computeApplicationAppendFanoutEvidenceDigest H e =
     digestOf H APPLICATION_APPEND_FANOUT_EVIDENCE_DIGEST_DOMAIN (fanoutEvidenceFields e)"

definition FANOUT_EVIDENCE_KEYS :: "string list" where
  "FANOUT_EVIDENCE_KEYS =
    [''profile'', ''status'', ''conversationId'', ''envelopeId'', ''position'', ''headHash'', ''rosterHash'',
     ''planDigest'', ''recipientCount'', ''mailboxProjectionDigest'', ''outboxProjectionDigest'', ''evidenceDigest'']"

text \<open>
  The constant fields \<open>profile\<close> and \<open>status\<close> are checked where the source checks them; the record keeps
  the others.
\<close>

definition parseApplicationAppendFanoutEvidence ::
  "(bytes \<Rightarrow> bytes) \<Rightarrow> jsval \<Rightarrow> fanoutPlan \<Rightarrow> string \<Rightarrow> string \<Rightarrow> fanoutEvidence res" where
  "parseApplicationAppendFanoutEvidence H v plan expectedEnvelopeId expectedHeadHash =
     bindE (expectExactRecord v FANOUT_EVIDENCE_KEYS) (\<lambda>record.
     bindE (parseEnvelopeId (record ''envelopeId'')) (\<lambda>envelopeId.
     bindE (parseHash32 (record ''headHash'')) (\<lambda>headHash.
     bindE (computeApplicationAppendMailboxProjectionDigest H plan envelopeId) (\<lambda>mailboxProjectionDigest.
     bindE (computeApplicationAppendOutboxProjectionDigest H (fp_conversationId plan) envelopeId (fp_position plan)
              headHash) (\<lambda>outboxProjectionDigest.
     bindE (parseConversationId (record ''conversationId'')) (\<lambda>conversationId.
     bindE (parsePositiveUint63 (record ''position'')) (\<lambda>position.
     bindE (parseHash32 (record ''rosterHash'')) (\<lambda>rosterHash.
     bindE (parseHash32 (record ''planDigest'')) (\<lambda>planDigest.
     bindE (parseUint63String (record ''recipientCount'')) (\<lambda>recipientCount.
     bindE (parseHash32 (record ''mailboxProjectionDigest'')) (\<lambda>mailboxDigest.
     bindE (parseHash32 (record ''outboxProjectionDigest'')) (\<lambda>outboxDigest.
     bindE (parseHash32 (record ''evidenceDigest'')) (\<lambda>evidenceDigest.
     let parsed = \<lparr>fe_conversationId = conversationId, fe_envelopeId = envelopeId, fe_position = position,
           fe_headHash = headHash, fe_rosterHash = rosterHash, fe_planDigest = planDigest,
           fe_recipientCount = recipientCount, fe_mailboxProjectionDigest = mailboxDigest,
           fe_outboxProjectionDigest = outboxDigest, fe_evidenceDigest = evidenceDigest\<rparr> in
     bindE (guardE (record ''profile'' = JStr ''application-append-fanout.v1''
              \<and> record ''status'' = JStr ''committed''
              \<and> conversationId = fp_conversationId plan \<and> envelopeId = expectedEnvelopeId
              \<and> position = fp_position plan \<and> headHash = expectedHeadHash
              \<and> rosterHash = fp_rosterHash plan \<and> planDigest = fp_planDigest plan
              \<and> recipientCount = fp_recipientCount plan
              \<and> mailboxDigest = mailboxProjectionDigest \<and> outboxDigest = outboxProjectionDigest)
              DeliveryStateValidationError) (\<lambda>_.
     bindE (computeApplicationAppendFanoutEvidenceDigest H
              (parsed\<lparr>fe_mailboxProjectionDigest := mailboxProjectionDigest,
                      fe_outboxProjectionDigest := outboxProjectionDigest\<rparr>)) (\<lambda>digest.
     if evidenceDigest \<noteq> digest then Inl DeliveryStateValidationError else Inr parsed)))))))))))))))"

end
