(* ===== verification/FanoutProofs.thy ===== *)
theory FanoutProofs
  imports Fanout
begin

section \<open>Fan-out plans: canonical, complete and bound to the conversation\<close>

text \<open>
  What a derived plan says: its recipients are the eligible routing rows of the active roster, without
  duplicates and in the order of the locale, it parses back exactly if that is the order of the code units,
  and the routing rows and the roster it was derived from are the only
  ones that the conversation row commits to.
\<close>

subsection \<open>Sorting\<close>

definition sortsOn :: "('a \<Rightarrow> 'a \<Rightarrow> int) \<Rightarrow> 'a set \<Rightarrow> bool" where
  "sortsOn compareFn S = ((\<forall>x\<in>S. \<forall>y\<in>S. compareFn x y \<le> 0 \<or> compareFn y x \<le> 0)
     \<and> (\<forall>x\<in>S. \<forall>y\<in>S. \<forall>z\<in>S. compareFn x y \<le> 0 \<longrightarrow> compareFn y z \<le> 0 \<longrightarrow> compareFn x z \<le> 0))"

definition ordered :: "('a \<Rightarrow> 'a \<Rightarrow> int) \<Rightarrow> 'a list \<Rightarrow> bool" where
  "ordered compareFn = sorted_wrt (\<lambda>x y. compareFn x y \<le> 0)"

text \<open>
  What ECMA-262 says of \<open>localeCompare\<close>: it is a consistent comparison function. And what the root collation
  gives, but not every locale: identifiers in lower case are in the order of their code units.
\<close>

definition localeConsistent :: "localeOrder \<Rightarrow> bool" where
  "localeConsistent localeCompare = sortsOn localeCompare UNIV"

definition codeUnitLocale :: "localeOrder \<Rightarrow> bool" where
  "codeUnitLocale localeCompare = (\<forall>x y. uuidV4Valid x \<and> uuidV4Valid y \<longrightarrow> (localeCompare x y \<le> 0 \<longleftrightarrow> x \<le> y))"

lemma mset_jsSort [simp]: "mset (jsSort compareFn xs) = mset xs"
proof -
  have insert: "mset (insertBefore compareFn x ys) = add_mset x (mset ys)" for x ys by (induction ys) simp_all
  show ?thesis by (induction xs) (simp_all add: jsSort_def insert)
qed

lemma set_jsSort [simp]: "set (jsSort compareFn xs) = set xs"
  by (metis mset_jsSort set_mset_mset)

lemma length_jsSort [simp]: "length (jsSort compareFn xs) = length xs"
  by (metis mset_jsSort size_mset)

lemma distinct_map_jsSort [simp]: "distinct (map f (jsSort compareFn xs)) \<longleftrightarrow> distinct (map f xs)"
  by (rule mset_eq_imp_distinct_iff) simp

lemma distinct_jsSort [simp]: "distinct (jsSort compareFn xs) \<longleftrightarrow> distinct xs"
  by (rule mset_eq_imp_distinct_iff) simp

lemma ordered_insertBefore:
  assumes "sortsOn compareFn S" "x \<in> S" "set ys \<subseteq> S" "ordered compareFn ys"
  shows "ordered compareFn (insertBefore compareFn x ys)"
  using assms(3,4)
proof (induction ys)
  case (Cons y ys)
  have elems: "set (insertBefore compareFn x ys) = insert x (set ys)" by (induction ys) auto
  have le: "compareFn y x \<le> 0" if "\<not> compareFn x y \<le> 0" using that assms(1,2) Cons.prems(1) by (auto simp: sortsOn_def)
  have "compareFn x z \<le> 0" if "compareFn x y \<le> 0" "z \<in> set ys" for z
  proof -
    have "compareFn y z \<le> 0" "y \<in> S" "z \<in> S" using that Cons.prems by (auto simp: ordered_def)
    with that(1) assms(1,2) show ?thesis unfolding sortsOn_def by blast
  qed
  with le elems Cons show ?case by (auto simp: ordered_def)
qed (simp add: ordered_def)

lemma ordered_jsSort: "sortsOn compareFn S \<Longrightarrow> set xs \<subseteq> S \<Longrightarrow> ordered compareFn (jsSort compareFn xs)"
proof (induction xs)
  case (Cons x xs)
  then show ?case
    using ordered_insertBefore [of compareFn S x "jsSort compareFn xs"] set_jsSort [of compareFn xs] by (simp add: jsSort_def)
qed (simp add: jsSort_def ordered_def)

lemma jsSort_ordered: "ordered compareFn xs \<Longrightarrow> jsSort compareFn xs = xs"
proof (induction xs)
  case (Cons x xs)
  then show ?case by (cases xs) (simp_all add: jsSort_def ordered_def)
qed (simp add: jsSort_def)

lemma sortsOn_key: "sortsOn compareFn UNIV \<Longrightarrow> sortsOn (\<lambda>left right. compareFn (key left) (key right)) UNIV"
  by (auto simp: sortsOn_def)

lemma codeUnit_sorted:
  assumes "codeUnitLocale localeCompare" "\<forall>x\<in>set xs. uuidV4Valid x"
  shows "sorted (jsSort localeCompare xs)"
proof -
  have "sortsOn localeCompare (set xs)"
    unfolding sortsOn_def using assms by (auto simp: codeUnitLocale_def)
  then have "ordered localeCompare (jsSort localeCompare xs)" by (rule ordered_jsSort) simp
  then have "sorted_wrt (\<le>) (jsSort localeCompare xs)"
    unfolding ordered_def by (rule sorted_wrt_mono_rel [rotated]) (use assms in \<open>simp add: codeUnitLocale_def\<close>)
  then show ?thesis by simp
qed

subsection \<open>Row sets\<close>

definition recipientsValid :: "recipientProjection list \<Rightarrow> bool" where
  "recipientsValid ps = ((\<forall>p\<in>set ps. recipientValid p)
     \<and> distinct (map rp_installationId ps) \<and> distinct (map rp_credentialId ps) \<and> ps \<noteq> [] \<and> length ps \<le> 2500)"

definition rosterSetValid :: "rosterProjection list \<Rightarrow> bool" where
  "rosterSetValid ms = ((\<forall>m\<in>set ms. rosterValid m)
     \<and> distinct (map mr_installationId ms) \<and> distinct (map mr_credentialId ms) \<and> ms \<noteq> [] \<and> length ms \<le> 2500)"

lemma boundedRows_Inr:
  "boundedRows v m = Inr xs \<longleftrightarrow> exactArray v = Some xs \<and> xs \<noteq> [] \<and> int (length xs) \<le> m \<and> length xs \<le> 2500"
  by (auto simp: boundedRows_def APPLICATION_APPEND_RECIPIENT_INSTALLATIONS_HARD_MAX_def split: option.splits)

lemma parseRecipients_Inr:
  assumes "parseApplicationAppendRecipientProjections localeCompare v m = Inr ps"
  shows "recipientsValid ps" "int (length ps) \<le> bigInt m" "localeConsistent localeCompare \<Longrightarrow> ordered (\<lambda>left right. localeCompare (rp_installationId left) (rp_installationId right)) ps"
proof -
  obtain entries parsed where e: "boundedRows v (bigInt m) = Inr entries"
    and p: "mapE parseRecipientProjection entries = Inr parsed"
    and ps: "ps = jsSort (\<lambda>left right. localeCompare (rp_installationId left) (rp_installationId right)) parsed"
    and d: "distinct (map rp_installationId parsed)" "distinct (map rp_credentialId parsed)"
    using assms unfolding parseApplicationAppendRecipientProjections_def
    by (auto simp: bindE_eq_Inr parse_simps setSize_distinct [of "map _ _", simplified] split: if_splits)
  have len: "length ps = length entries" using mapE_length [OF p] by (simp add: ps)
  then have "ps \<noteq> []" "length ps \<le> 2500" using e by (auto simp: boundedRows_Inr)
  moreover have "\<forall>y\<in>set parsed. recipientValid y" by (rule mapE_valid(1) [OF p recipient_codec.parse_wf])
  ultimately show "recipientsValid ps" using d by (auto simp: recipientsValid_def ps)
  show "int (length ps) \<le> bigInt m" using e len by (simp add: boundedRows_Inr)
  show "ordered (\<lambda>left right. localeCompare (rp_installationId left) (rp_installationId right)) ps" if "localeConsistent localeCompare"
    unfolding ps by (rule ordered_jsSort [OF sortsOn_key]) (use that in \<open>simp_all add: localeConsistent_def\<close>)
qed

lemma parseRecipients_encode:
  assumes "recipientsValid ps" "positiveUint63Valid m" "int (length ps) \<le> bigInt m"
  shows "parseApplicationAppendRecipientProjections localeCompare (encodeRows encodeRecipient ps) m
    = Inr (jsSort (\<lambda>left right. localeCompare (rp_installationId left) (rp_installationId right)) ps)"
proof -
  have "boundedRows (encodeRows encodeRecipient ps) (bigInt m) = Inr (map encodeRecipient ps)"
    using assms by (simp add: boundedRows_Inr encodeRows_def recipientsValid_def)
  moreover have "mapE parseRecipientProjection (map encodeRecipient ps) = Inr ps"
    using assms(1) by (intro mapE_encode) (simp add: recipient_codec.parse_encode recipientsValid_def)
  ultimately show ?thesis
    using assms by (simp add: parseApplicationAppendRecipientProjections_def parse_ok recipientsValid_def
        setSize_distinct [of "map _ _", simplified])
qed

lemma parseRoster_Inr:
  assumes "parseApplicationAppendMlsRosterProjections localeCompare v m = Inr ms"
  shows "rosterSetValid ms" "int (length ms) \<le> bigInt m" "localeConsistent localeCompare \<Longrightarrow> ordered (\<lambda>left right. localeCompare (mr_installationId left) (mr_installationId right)) ms"
proof -
  obtain entries parsed where e: "boundedRows v (bigInt m) = Inr entries"
    and p: "mapE parseRosterProjection entries = Inr parsed"
    and ms: "ms = jsSort (\<lambda>left right. localeCompare (mr_installationId left) (mr_installationId right)) parsed"
    and d: "distinct (map mr_installationId parsed)" "distinct (map mr_credentialId parsed)"
    using assms unfolding parseApplicationAppendMlsRosterProjections_def
    by (auto simp: bindE_eq_Inr parse_simps setSize_distinct [of "map _ _", simplified] split: if_splits)
  have len: "length ms = length entries" using mapE_length [OF p] by (simp add: ms)
  then have "ms \<noteq> []" "length ms \<le> 2500" using e by (auto simp: boundedRows_Inr)
  moreover have "\<forall>y\<in>set parsed. rosterValid y" by (rule mapE_valid(1) [OF p roster_codec.parse_wf])
  ultimately show "rosterSetValid ms" using d by (auto simp: rosterSetValid_def ms)
  show "int (length ms) \<le> bigInt m" using e len by (simp add: boundedRows_Inr)
  show "ordered (\<lambda>left right. localeCompare (mr_installationId left) (mr_installationId right)) ms" if "localeConsistent localeCompare"
    unfolding ms by (rule ordered_jsSort [OF sortsOn_key]) (use that in \<open>simp_all add: localeConsistent_def\<close>)
qed

lemma parseRoster_encode:
  assumes "rosterSetValid ms" "positiveUint63Valid m" "int (length ms) \<le> bigInt m"
  shows "parseApplicationAppendMlsRosterProjections localeCompare (encodeRows encodeRoster ms) m
    = Inr (jsSort (\<lambda>left right. localeCompare (mr_installationId left) (mr_installationId right)) ms)"
proof -
  have "boundedRows (encodeRows encodeRoster ms) (bigInt m) = Inr (map encodeRoster ms)"
    using assms by (simp add: boundedRows_Inr encodeRows_def rosterSetValid_def)
  moreover have "mapE parseRosterProjection (map encodeRoster ms) = Inr ms"
    using assms(1) by (intro mapE_encode) (simp add: roster_codec.parse_encode rosterSetValid_def)
  ultimately show ?thesis
    using assms by (simp add: parseApplicationAppendMlsRosterProjections_def parse_ok rosterSetValid_def
        setSize_distinct [of "map _ _", simplified])
qed

subsection \<open>Row-set digests\<close>

lemma length_text: "0 < n \<Longrightarrow> n \<le> 2500 \<Longrightarrow> positiveUint63Valid (showNat n) \<and> bigInt (showNat n) = int n"
  using uint63Valid_toString [of "int n"]
  by (auto simp: positiveUint63_iff bigIntToString_def UINT63_MAX_def bigInt_def)

lemma recipientSetHash_eq:
  assumes "recipientsValid ps" "ordered (\<lambda>left right. localeCompare (rp_installationId left) (rp_installationId right)) ps"
  shows "computeApplicationAppendRecipientSetHash localeCompare H ps =
    digestOf H APPLICATION_APPEND_RECIPIENT_SET_DIGEST_DOMAIN (concat (map recipientDigestFields ps))"
proof -
  have "positiveUint63Valid (showNat (length ps)) \<and> bigInt (showNat (length ps)) = int (length ps)"
    using assms(1) by (intro length_text) (auto simp: recipientsValid_def)
  with parseRecipients_encode [OF assms(1)] jsSort_ordered [OF assms(2)] show ?thesis
    by (simp add: computeApplicationAppendRecipientSetHash_def parse_ok)
qed

lemma rosterHash_eq:
  assumes "rosterSetValid ms" "ordered (\<lambda>left right. localeCompare (mr_installationId left) (mr_installationId right)) ms"
  shows "computeApplicationAppendMlsRosterHash localeCompare H ms =
    digestOf H APPLICATION_APPEND_MLS_ROSTER_DIGEST_DOMAIN (concat (map rosterDigestFields ms))"
proof -
  have "positiveUint63Valid (showNat (length ms)) \<and> bigInt (showNat (length ms)) = int (length ms)"
    using assms(1) by (intro length_text) (auto simp: rosterSetValid_def)
  with parseRoster_encode [OF assms(1)] jsSort_ordered [OF assms(2)] show ?thesis
    by (simp add: computeApplicationAppendMlsRosterHash_def parse_ok)
qed

text \<open>Rows of a fixed width: the number of rows is determined by the number of fields.\<close>

lemma length_rows: "(\<And>x. length (f x) = n) \<Longrightarrow> length (concat (map f xs)) = n * length xs"
  by (induction xs) simp_all

lemma recipientRows_inj:
  assumes "recipientsValid ps" "recipientsValid qs"
    "map fieldRaw (concat (map recipientDigestFields ps)) = map fieldRaw (concat (map recipientDigestFields qs))"
  shows "ps = qs"
proof -
  have width: "length (recipientDigestFields x) = 13" for x by (simp add: recipientDigestFields_def)
  have "length (concat (map recipientDigestFields ps)) = length (concat (map recipientDigestFields qs))"
    using assms(3) by (metis length_map)
  then have "length ps = length qs" by (simp add: length_rows [of recipientDigestFields, OF width] del: length_concat)
  then show ?thesis
  proof (rule row_fields_inj [OF assms(3) _ width])
    fix x y assume "x \<in> set ps" "y \<in> set qs" and eq: "map fieldRaw (recipientDigestFields x) = map fieldRaw (recipientDigestFields y)"
    then have "recipientValid x" "recipientValid y" using assms(1,2) by (auto simp: recipientsValid_def)
    with eq show "x = y"
      by (simp add: recipientDigestFields_def recipientValid_def enum_inj field_inj recipientProjection.equality)
  qed
qed

lemma rosterRows_inj:
  assumes "rosterSetValid ps" "rosterSetValid qs"
    "map fieldRaw (concat (map rosterDigestFields ps)) = map fieldRaw (concat (map rosterDigestFields qs))"
  shows "ps = qs"
proof -
  have width: "length (rosterDigestFields x) = 7" for x by (simp add: rosterDigestFields_def)
  have "length (concat (map rosterDigestFields ps)) = length (concat (map rosterDigestFields qs))"
    using assms(3) by (metis length_map)
  then have "length ps = length qs" by (simp add: length_rows [of rosterDigestFields, OF width] del: length_concat)
  then show ?thesis
  proof (rule row_fields_inj [OF assms(3) _ width])
    fix x y assume "x \<in> set ps" "y \<in> set qs" and eq: "map fieldRaw (rosterDigestFields x) = map fieldRaw (rosterDigestFields y)"
    then have "rosterValid x" "rosterValid y" using assms(1,2) by (auto simp: rosterSetValid_def)
    with eq show "x = y" by (simp add: rosterDigestFields_def rosterValid_def rosterProjection.equality)
  qed
qed

subsection \<open>Derived plans\<close>

text \<open>The eligible recipients of a plan, as a set.\<close>

definition recipientIds :: "recipientProjection list \<Rightarrow> rosterProjection list \<Rightarrow> string \<Rightarrow> string \<Rightarrow> string list" where
  "recipientIds ps ms position now = map rp_installationId (filter (eligibleRecipient ms position now) ps)"

lemma recipientIds_distinct:
  assumes "recipientsValid ps"
  shows "distinct (recipientIds ps ms position now)"
    "length (recipientIds ps ms position now) \<le> length ps"
    "\<forall>id\<in>set (recipientIds ps ms position now). uuidV4Valid id"
  using assms by (auto simp: recipientIds_def recipientsValid_def recipientValid_def distinct_map_filter)

definition planAccepted ::
  "localeOrder \<Rightarrow> (bytes \<Rightarrow> bytes) \<Rightarrow> lockedConversationState \<Rightarrow> lockedSenderMembership \<Rightarrow> string \<Rightarrow>
     recipientProjection list \<Rightarrow> rosterProjection list \<Rightarrow> bool" where
  "planAccepted localeCompare H cv sm position ps ms =
     (sm_conversationId sm = cv_conversationId cv \<and> bigInt position = bigInt (cv_lastPosition cv) + 1
      \<and> (\<forall>p\<in>set ps. \<not> foreignRoute cv p) \<and> (\<forall>m\<in>set ms. \<not> foreignRosterRow cv m)
      \<and> computeApplicationAppendMlsRosterHash localeCompare H ms = Inr (cv_rosterHash cv)
      \<and> computeApplicationAppendRecipientSetHash localeCompare H ps = Inr (cv_recipientSetHash cv)
      \<and> (\<forall>m\<in>set ms. \<not> lacksRoute ps m) \<and> \<not> senderRouteMismatch ps sm)"

lemma derivePlan_Inr:
  assumes "deriveApplicationAppendFanoutPlan localeCompare H input = Inr plan"
  obtains cv sm position now m ps ms digest where
    "parseLockedConversationState (fi_conversation input) = Inr cv"
    "parseLockedSenderMembership (fi_senderMembership input) = Inr sm"
    "fi_position input = JStr position" "positiveUint63Valid position"
    "fi_authoritativeReceivedAt input = JStr now" "rfc3339Valid now"
    "fi_recipientInstallationsMax input = JStr m" "positiveUint63Valid m"
    "parseApplicationAppendRecipientProjections localeCompare (fi_recipientProjections input) m = Inr ps"
    "parseApplicationAppendMlsRosterProjections localeCompare (fi_mlsRosterProjections input) m = Inr ms"
    "planAccepted localeCompare H cv sm position ps ms"
    "computeApplicationAppendFanoutPlanDigest H
       (planOf cv (cv_recipientSetHash cv) position (jsSort localeCompare (recipientIds ps ms position now))
          (showNat (length (recipientIds ps ms position now))) []) = Inr digest"
    "plan = planOf cv (cv_recipientSetHash cv) position (jsSort localeCompare (recipientIds ps ms position now))
       (showNat (length (recipientIds ps ms position now))) digest"
  using assms unfolding deriveApplicationAppendFanoutPlan_def Let_def
  by (elim bindE_InrE, intro that)
     (auto simp: guardE_eq_Inr parse_simps list_ex_iff planAccepted_def recipientIds_def)

lemma planDigest_fields:
  "computeApplicationAppendFanoutPlanDigest H (planOf cv h position ids count1 d1) =
   computeApplicationAppendFanoutPlanDigest H (planOf cv h position ids count2 d2)"
  by (simp add: computeApplicationAppendFanoutPlanDigest_def planDigestFields_def planOf_def)

lemma entriesPlan_get [simp]:
  "fieldOf (entriesPlan p) ''conversationId'' = JStr (fp_conversationId p)"
  "fieldOf (entriesPlan p) ''conversationGeneration'' = JStr (fp_conversationGeneration p)"
  "fieldOf (entriesPlan p) ''rosterVersion'' = JStr (fp_rosterVersion p)"
  "fieldOf (entriesPlan p) ''rosterHash'' = JStr (fp_rosterHash p)"
  "fieldOf (entriesPlan p) ''recipientSetVersion'' = JStr (fp_recipientSetVersion p)"
  "fieldOf (entriesPlan p) ''recipientSetHash'' = JStr (fp_recipientSetHash p)"
  "fieldOf (entriesPlan p) ''position'' = JStr (fp_position p)"
  "fieldOf (entriesPlan p) ''recipientInstallationIds'' = mkArray (map JStr (fp_recipientInstallationIds p))"
  "fieldOf (entriesPlan p) ''recipientCount'' = JStr (fp_recipientCount p)"
  "fieldOf (entriesPlan p) ''planDigest'' = JStr (fp_planDigest p)"
  by (simp_all add: entriesPlan_def)

lemma expect_encodePlan: "expectExactRecord (encodePlan p) FANOUT_PLAN_KEYS = Inr (fieldOf (entriesPlan p))"
  unfolding encodePlan_def
  by (rule expectExactRecord_mkRecord) (simp_all add: FANOUT_PLAN_KEYS_def entriesPlan_def mkArray_def)

lemma strictly_sorted: "sorted ids \<Longrightarrow> distinct ids \<Longrightarrow> \<not> notStrictlySorted ids"
proof -
  assume ids: "sorted ids" "distinct ids"
  have "ids ! (i - 1) < ids ! i" if "0 < i" "i < length ids" for i
  proof (rule le_neq_trans)
    show "ids ! (i - 1) \<le> ids ! i" using ids(1) that by (intro sorted_nth_mono) auto
    show "ids ! (i - 1) \<noteq> ids ! i" using ids(2) that by (simp add: nth_eq_iff_index_eq)
  qed
  then have "\<not> ids ! i \<le> ids ! (i - 1)" if "0 < i" "i < length ids" for i
    using that by (simp add: not_le)
  then show ?thesis by (auto simp: notStrictlySorted_def list_ex_iff)
qed

text \<open>
  A plan whose fields are valid and whose count and digest are those of its recipients; the parser accepts
  it if the recipients are sorted by code units.
\<close>

definition planFields :: "(bytes \<Rightarrow> bytes) \<Rightarrow> string \<Rightarrow> fanoutPlan \<Rightarrow> bool" where
  "planFields H m p =
     (uuidV4Valid (fp_conversationId p) \<and> positiveUint63Valid (fp_conversationGeneration p)
      \<and> uint63Valid (fp_rosterVersion p) \<and> hash32Valid (fp_rosterHash p) \<and> uint63Valid (fp_recipientSetVersion p)
      \<and> hash32Valid (fp_recipientSetHash p) \<and> positiveUint63Valid (fp_position p)
      \<and> uint63Valid (fp_recipientCount p) \<and> hash32Valid (fp_planDigest p)
      \<and> (\<forall>id\<in>set (fp_recipientInstallationIds p). uuidV4Valid id)
      \<and> distinct (fp_recipientInstallationIds p) \<and> positiveUint63Valid m
      \<and> int (length (fp_recipientInstallationIds p)) \<le> bigInt m \<and> length (fp_recipientInstallationIds p) \<le> 2500
      \<and> bigInt (fp_recipientCount p) = int (length (fp_recipientInstallationIds p))
      \<and> computeApplicationAppendFanoutPlanDigest H p = Inr (fp_planDigest p))"

definition planValid :: "(bytes \<Rightarrow> bytes) \<Rightarrow> string \<Rightarrow> fanoutPlan \<Rightarrow> bool" where
  "planValid H m p = (planFields H m p \<and> sorted (fp_recipientInstallationIds p))"

lemma strictly_sorted_iff: "distinct ids \<Longrightarrow> notStrictlySorted ids \<longleftrightarrow> \<not> sorted ids"
proof
  show "\<not> sorted ids" if "distinct ids" "notStrictlySorted ids" using that strictly_sorted by blast
  show "notStrictlySorted ids" if "\<not> sorted ids"
    using that by (auto simp: notStrictlySorted_def list_ex_iff sorted_iff_nth_Suc not_le
        intro!: bexI [where x = "Suc _"] less_imp_le)
qed

lemma parsePlan_fields:
  assumes "planFields H m p"
  shows "parseApplicationAppendFanoutPlan H (encodePlan p) m =
    (if sorted (fp_recipientInstallationIds p) then Inr p else Inl DeliveryStateValidationError)"
proof -
  have ids: "mapE parseInstallationId (map JStr (fp_recipientInstallationIds p)) = Inr (fp_recipientInstallationIds p)"
    using assms by (intro mapE_encode) (simp add: planFields_def parse_ok)
  have d: "distinct (fp_recipientInstallationIds p)" using assms by (simp add: planFields_def)
  then have "setSize (fp_recipientInstallationIds p) = length (fp_recipientInstallationIds p)" by (simp add: setSize_distinct)
  with ids assms strictly_sorted_iff [OF d] show ?thesis
    by (cases p) (simp add: parseApplicationAppendFanoutPlan_def expect_encodePlan parse_ok planFields_def Let_def guardE_def
        APPLICATION_APPEND_RECIPIENT_INSTALLATIONS_HARD_MAX_def)
qed

lemma parsePlan_valid:
  assumes "parseApplicationAppendFanoutPlan H v m = Inr p"
  shows "planValid H m p"
proof -
  have sorted: "sorted ids" if "distinct ids" "\<not> notStrictlySorted ids" for ids
    using that strictly_sorted_iff by blast
  show ?thesis
    using assms unfolding parseApplicationAppendFanoutPlan_def Let_def
    by (elim bindE_InrE)
       (auto simp: guardE_eq_Inr parse_simps planValid_def planFields_def bindE_eq_Inr setSize_distinct mapE_eq_Inr
         APPLICATION_APPEND_RECIPIENT_INSTALLATIONS_HARD_MAX_def list_all2_conv_all_nth in_set_conv_nth
         intro: sorted split: option.splits if_splits)
qed

interpretation plan_codec: record_codec "\<lambda>v. parseApplicationAppendFanoutPlan H v m" encodePlan "planValid H m" for H m
  by unfold_locales (auto dest: parsePlan_valid simp: parsePlan_fields planValid_def)

lemma showNat_count: "n \<le> 2500 \<Longrightarrow> uint63Valid (showNat n) \<and> bigInt (showNat n) = int n"
  using uint63Valid_toString [of "int n"] by (auto simp: bigIntToString_def UINT63_MAX_def bigInt_def)

lemma derived_plan_fields:
  assumes "deriveApplicationAppendFanoutPlan localeCompare H input = Inr plan" "fi_recipientInstallationsMax input = JStr m"
  shows "planFields H m plan"
  using assms(1)
proof (cases rule: derivePlan_Inr)
  case (1 cv sm position now m' ps ms digest)
  have m: "m' = m" using 1(7) assms(2) by simp
  have ps: "recipientsValid ps" "int (length ps) \<le> bigInt m" using 1(9) parseRecipients_Inr m by auto
  note ids = recipientIds_distinct [OF ps(1), of ms position now]
  have len: "length (recipientIds ps ms position now) \<le> 2500" "int (length (recipientIds ps ms position now)) \<le> bigInt m"
    using ids(2) ps by (auto simp: recipientsValid_def)
  have cv: "conversationValid cv" using 1(1) by (rule conversation_codec.parse_wf)
  have "hash32Valid digest"
    using 1(12) digestOf_Inr(4) by (auto simp: computeApplicationAppendFanoutPlanDigest_def bindE_eq_Inr)
  moreover have "computeApplicationAppendFanoutPlanDigest H plan = Inr digest"
    using 1(12) unfolding 1(13) by (metis planDigest_fields)
  ultimately show ?thesis
    using ids(1,3) len showNat_count [OF len(1)] cv 1(4,8) m
    by (simp add: 1(13) planFields_def planOf_def conversationValid_def)
qed

lemma plan_rows_unique:
  assumes "planAccepted localeCompare H cv sm position ps ms" "planAccepted localeCompare H cv sm' position' ps' ms'"
    and valid: "recipientsValid ps" "recipientsValid ps'" "rosterSetValid ms" "rosterSetValid ms'"
    and order: "ordered (\<lambda>left right. localeCompare (rp_installationId left) (rp_installationId right)) ps"
      "ordered (\<lambda>left right. localeCompare (rp_installationId left) (rp_installationId right)) ps'"
      "ordered (\<lambda>left right. localeCompare (mr_installationId left) (mr_installationId right)) ms"
      "ordered (\<lambda>left right. localeCompare (mr_installationId left) (mr_installationId right)) ms'"
    and "inj_on H {digestPreimage APPLICATION_APPEND_RECIPIENT_SET_DIGEST_DOMAIN (concat (map recipientDigestFields ps)),
      digestPreimage APPLICATION_APPEND_RECIPIENT_SET_DIGEST_DOMAIN (concat (map recipientDigestFields ps'))}"
    and "inj_on H {digestPreimage APPLICATION_APPEND_MLS_ROSTER_DIGEST_DOMAIN (concat (map rosterDigestFields ms)),
      digestPreimage APPLICATION_APPEND_MLS_ROSTER_DIGEST_DOMAIN (concat (map rosterDigestFields ms'))}"
  shows "ps = ps'" "ms = ms'"
proof -
  have "map fieldRaw (concat (map recipientDigestFields ps)) = map fieldRaw (concat (map recipientDigestFields ps'))"
    using assms by (intro digestOf_binding [of H]) (auto simp: planAccepted_def recipientSetHash_eq [where localeCompare = localeCompare])
  with valid(1,2) show "ps = ps'" by (rule recipientRows_inj)
  have "map fieldRaw (concat (map rosterDigestFields ms)) = map fieldRaw (concat (map rosterDigestFields ms'))"
    using assms by (intro digestOf_binding [of H]) (auto simp: planAccepted_def rosterHash_eq [where localeCompare = localeCompare])
  with valid(3,4) show "ms = ms'" by (rule rosterRows_inj)
qed

lemma recipientIds_mem:
  assumes "recipientsValid ps" "rfc3339Valid now"
  shows "rid \<in> set (recipientIds ps ms position now) \<longleftrightarrow> (\<exists>p\<in>set ps. rp_installationId p = rid
    \<and> (\<exists>m\<in>set ms. sameRecipientIdentity p m)
    \<and> bigInt (rp_joinedPosition p) \<le> bigInt position
    \<and> (\<forall>removed. rp_removedPosition p = Some removed \<longrightarrow> bigInt position \<le> bigInt removed)
    \<and> rp_installationState p = InstActive \<and> rp_credentialState p = CredActive
    \<and> dateMillis now < dateMillis (rp_credentialExpiresAt p))"
proof -
  have member: "list_ex (\<lambda>m. mr_installationId m = rp_installationId p \<and> sameRecipientIdentity p m) ms
      \<longleftrightarrow> (\<exists>m\<in>set ms. sameRecipientIdentity p m)" for p
    by (auto simp: list_ex_iff sameRecipientIdentity_def)
  have removed: "(case r of None \<Rightarrow> True | Some removed \<Rightarrow> P removed) \<longleftrightarrow> (\<forall>removed. r = Some removed \<longrightarrow> P removed)" for r :: "string option" and P
    by (cases r) auto
  have time: "rp_credentialExpiresAt p > now \<longleftrightarrow> dateMillis now < dateMillis (rp_credentialExpiresAt p)"
    if "p \<in> set ps" for p
    using that assms by (intro timestamp_less_iff) (auto simp: recipientsValid_def recipientValid_def)
  have "rid \<in> set (recipientIds ps ms position now) \<longleftrightarrow>
      (\<exists>p\<in>set ps. rp_installationId p = rid \<and> eligibleRecipient ms position now p)"
    by (auto simp: recipientIds_def)
  then show ?thesis
    unfolding eligibleRecipient_def member removed using time by (simp cong: bex_cong)
qed

end
