(* ===== verification/Samples.thy ===== *)
theory Samples
  imports AppendExpiry QuotaLedger FanoutProofs
begin

section \<open>A concrete conversation\<close>

text \<open>
  One conversation with its locked rows, the caller's expectation, a routing row and a roster row. The
  witnesses of the append properties are evaluated on it. SHA-256 is instantiated by a function with
  results of the right length that tells the five reservation identifiers of one append apart: it keeps
  the first byte of the scope name in their preimage.
\<close>

subsection \<open>Hash and scalars\<close>

definition sampleHash :: "bytes \<Rightarrow> bytes" where
  "sampleHash bs = replicate 31 1 @ take 1 (drop 130 bs @ [0])"

definition sampleDigest :: "string \<Rightarrow> digestField list \<Rightarrow> string" where
  "sampleDigest domain fs = b64encode (sampleHash (digestPreimage domain fs))"

definition hashText :: string where
  "hashText = b64encode (replicate 32 7)"

definition sampleConversationId :: string where "sampleConversationId = ''00000000-0000-4000-8000-00000000000a''"
definition sampleAccountId :: string where "sampleAccountId = ''00000000-0000-4000-8000-00000000000b''"
definition sampleInstallationId :: string where "sampleInstallationId = ''00000000-0000-4000-8000-00000000000c''"
definition sampleCredentialId :: string where "sampleCredentialId = ''00000000-0000-4000-8000-00000000000d''"
definition sampleCheckpointId :: string where "sampleCheckpointId = ''00000000-0000-4000-8000-00000000000e''"
definition sampleRealm :: string where "sampleRealm = ''realm-1''"
definition sampleScope :: string where "sampleScope = ''scope-1''"

text \<open>Times on 2 January 1970: the start of the day, ten seconds and four minutes later, and its end.\<close>

definition clock :: "nat \<Rightarrow> nat \<Rightarrow> nat \<Rightarrow> string" where
  "clock day minute second = formatCivil \<lparr>cYear = 1970, cMonth = 1, cDay = day, cHour = 0, cMinute = minute,
     cSecond = second, cMillis = 0\<rparr>"

definition dayStart :: string where "dayStart = clock 2 0 0"
definition receivedAt :: string where "receivedAt = clock 2 0 10"
definition soonAfter :: string where "soonAfter = clock 2 4 0"
definition dayEnd :: string where "dayEnd = clock 3 0 0"

lemma length_sampleHash [simp]: "length (sampleHash bs) = 32"
  by (simp add: sampleHash_def)

lemma sampleHash_length [simp]: "sha256Length sampleHash"
  by (simp add: sha256Length_def)

lemma sampleDigest_valid [simp]: "hash32Valid (sampleDigest domain fs)"
  unfolding hash32Valid_iff sampleDigest_def by (intro exI [of _ "sampleHash (digestPreimage domain fs)"]) simp

lemma encoded_not_zero: "bs \<noteq> replicate 32 0 \<Longrightarrow> b64encode bs \<noteq> ZERO_HASH32"
  by (simp add: ZERO_HASH32_bytes)

lemma hashText_valid [simp]: "hash32Valid hashText" "hashText \<noteq> ZERO_HASH32" "nonZeroHashValid hashText"
proof -
  show v: "hash32Valid hashText"
    unfolding hash32Valid_iff hashText_def by (intro exI [of _ "replicate 32 7"]) simp
  show z: "hashText \<noteq> ZERO_HASH32"
    unfolding hashText_def by (rule encoded_not_zero) (simp add: list_eq_iff_nth_eq exI [of _ 0])
  show "nonZeroHashValid hashText" using v z by (simp add: nonZeroHashValid_def)
qed

lemma sampleDigest_nonzero [simp]:
  "sampleDigest domain fs \<noteq> ZERO_HASH32" "nonZeroHashValid (sampleDigest domain fs)"
proof -
  have "sampleHash bs ! 0 = 1" for bs by (simp add: sampleHash_def nth_append)
  then have "sampleHash bs \<noteq> replicate 32 0" for bs by (metis nth_replicate zero_less_numeral zero_neq_one)
  then show z: "sampleDigest domain fs \<noteq> ZERO_HASH32" by (simp add: sampleDigest_def encoded_not_zero)
  show "nonZeroHashValid (sampleDigest domain fs)" using z by (simp add: nonZeroHashValid_def)
qed

lemma sample_digestOf:
  assumes "list_all (smallField 256) fs" "length fs \<le> 30000" "length domain \<le> 1000"
  shows "digestOf sampleHash domain fs = Inr (sampleDigest domain fs)"
proof -
  obtain h where h: "digestOf sampleHash domain fs = Inr h"
    using digestOf_small [OF sampleHash_length assms] by blast
  then show ?thesis using digestOf_Inr(3) [OF h] by (simp add: sampleDigest_def)
qed

lemma sample_ids [simp]:
  "uuidV4Valid sampleConversationId" "uuidV4Valid sampleAccountId" "uuidV4Valid sampleInstallationId"
  "uuidV4Valid sampleCredentialId" "uuidV4Valid sampleCheckpointId"
  by code_simp+

lemma uuid_scopeSubject [simp]: "scopeSubjectValid sampleConversationId" "scopeSubjectValid sampleAccountId"
  "scopeSubjectValid sampleInstallationId"
  by code_simp+

lemma sample_names [simp]:
  "quotaNameValid sampleRealm" "quotaNameValid ''append''" "scopeSubjectValid sampleScope"
  "RELEASE_PROFILE_ID ''release-1''" "SIGNING_KEY_ID ''signer-1''"
  by code_simp+

lemma sample_values [simp]:
  "bigInt ''1'' = 1" "bigInt ''2'' = 2" "bigInt ''5'' = 5" "bigInt ''0'' = 0" "bigInt ''100'' = 100" "bigInt ''86400'' = 86400"
  by (simp_all add: bigInt_def readNat_def digitVal_def)

lemma sample_decimals [simp]:
  "canonicalDecimal ''1''" "canonicalDecimal ''2''" "canonicalDecimal ''5''" "canonicalDecimal ''0''"
  "canonicalDecimal ''100''" "canonicalDecimal ''86400''"
  by (simp_all add: canonicalDecimal_def isDigit_def)

lemma sample_numbers [simp]:
  "uint63Valid ''1''" "uint63Valid ''2''" "uint63Valid ''5''" "uint63Valid ''0''" "uint63Valid ''100''" "uint63Valid ''86400''"
  "positiveUint63Valid ''1''" "positiveUint63Valid ''2''" "positiveUint63Valid ''86400''" "proposalCountValid ''0''"
  by (simp_all add: uint63Valid_def positiveUint63Valid_def proposalCountValid_def UINT63_MAX_def
      DELIVERY_MANDATORY_PROPOSALS_MAX_def)

lemma clock_time:
  assumes "1 \<le> day" "day \<le> 28" "minute < 60" "second < 60"
  shows "rfc3339Valid (clock day minute second)"
    "dateMillis (clock day minute second) = (int (day - 1) * 1440 + int minute) * 60000 + int second * 1000"
proof -
  have *: "civilValid \<lparr>cYear = 1970, cMonth = 1, cDay = day, cHour = 0, cMinute = minute, cSecond = second, cMillis = 0\<rparr>"
    using assms by (simp add: civilValid_def monthStart_def leapYear_def)
  then show "rfc3339Valid (clock day minute second)" unfolding clock_def by (rule rfc3339Valid_formatCivil)
  show "dateMillis (clock day minute second) = (int (day - 1) * 1440 + int minute) * 60000 + int second * 1000"
    unfolding clock_def dateMillis_formatCivil [OF *] using assms(1)
    by (simp add: civilTime_def civilDay_def dayFromYear_def monthStart_def leapYear_def of_nat_diff)
qed

lemma sample_times [simp]:
  "rfc3339Valid dayStart" "rfc3339Valid receivedAt" "rfc3339Valid soonAfter" "rfc3339Valid dayEnd"
  "dateMillis dayStart = 86400000" "dateMillis receivedAt = 86410000" "dateMillis soonAfter = 86640000"
  "dateMillis dayEnd = 172800000"
  by (simp_all add: dayStart_def receivedAt_def soonAfter_def dayEnd_def clock_time)

subsection \<open>Rows\<close>

definition sampleSubject :: "quotaScope \<Rightarrow> string" where
  "sampleSubject scope = (case scope of InstallationScope \<Rightarrow> sampleInstallationId | AccountScope \<Rightarrow> sampleAccountId
     | ProjectScope \<Rightarrow> sampleScope | ConversationScope \<Rightarrow> sampleConversationId | TenantScope \<Rightarrow> sampleScope)"

definition sampleScopeHash :: "quotaScope \<Rightarrow> string" where
  "sampleScopeHash scope = sampleDigest APPLICATION_APPEND_QUOTA_SCOPE_HASH_DOMAIN
     [Utf8 sampleRealm, Utf8 (quotaScopeText scope), Utf8 (sampleSubject scope)]"

definition sampleBindings :: "quotaBinding list" where
  "sampleBindings = map (\<lambda>scope. \<lparr>qb_scope = scope, qb_scopeHash = sampleScopeHash scope, qb_quotaName = ''append'',
     qb_windowStartedAt = dayStart, qb_windowSeconds = ''86400'', qb_operationLimit = ''100'', qb_byteLimit = ''100''\<rparr>)
     APPLICATION_APPEND_QUOTA_SCOPES"

definition sampleCounters :: "lockedQuotaCounter list" where
  "sampleCounters = map (\<lambda>scope. \<lparr>qc_scope = scope, qc_scopeHash = sampleScopeHash scope, qc_quotaName = ''append'',
     qc_windowStartedAt = dayStart, qc_windowSeconds = ''86400'', qc_operationCount = ''0'', qc_byteCount = ''0'',
     qc_reservedOperationCount = ''0'', qc_reservedByteCount = ''0'', qc_rowVersion = ''0'',
     qc_operationLimit = ''100'', qc_byteLimit = ''100''\<rparr>) APPLICATION_APPEND_QUOTA_SCOPES"

definition sampleRecipient :: recipientProjection where
  "sampleRecipient = \<lparr>rp_conversationId = sampleConversationId, rp_conversationGeneration = ''1'',
     rp_recipientSetVersion = ''1'', rp_accountId = sampleAccountId, rp_installationId = sampleInstallationId,
     rp_credentialId = sampleCredentialId, rp_credentialFingerprint = hashText,
     rp_credentialRevocationVersion = ''1'', rp_credentialState = CredActive, rp_credentialExpiresAt = dayEnd,
     rp_joinedPosition = ''1'', rp_removedPosition = None, rp_installationState = InstActive\<rparr>"

definition sampleRosterRow :: rosterProjection where
  "sampleRosterRow = \<lparr>mr_conversationId = sampleConversationId, mr_conversationGeneration = ''1'',
     mr_rosterVersion = ''1'', mr_accountId = sampleAccountId, mr_installationId = sampleInstallationId,
     mr_credentialId = sampleCredentialId, mr_credentialFingerprint = hashText\<rparr>"

definition sampleConversation :: lockedConversationState where
  "sampleConversation =
     \<lparr>cv_realmId = sampleRealm, cv_conversationId = sampleConversationId, cv_projectScopeId = sampleScope,
      cv_tenantScopeId = sampleScope, cv_kind = Community, cv_generation = ''1'', cv_releaseProfileId = ''release-1'',
      cv_deliveryLimitsDigest = hashText, cv_releaseTrustRootDigest = hashText,
      cv_quotaPolicyDigest = sampleDigest APPLICATION_APPEND_QUOTA_POLICY_DIGEST_DOMAIN (quotaPolicyFields sampleBindings),
      cv_groupIdHash = hashText, cv_state = Active, cv_etag = etagText ''1'' ''1'', cv_epoch = ''1'',
      cv_rosterVersion = ''1'',
      cv_rosterHash = sampleDigest APPLICATION_APPEND_MLS_ROSTER_DIGEST_DOMAIN (rosterDigestFields sampleRosterRow),
      cv_recipientSetVersion = ''1'',
      cv_recipientSetHash = sampleDigest APPLICATION_APPEND_RECIPIENT_SET_DIGEST_DOMAIN (recipientDigestFields sampleRecipient),
      cv_confirmedTranscriptHash = hashText, cv_lastPosition = ''1'', cv_currentLogHeadHash = hashText,
      cv_currentPolicyHeadSequence = ''1'', cv_currentPolicyHeadHash = hashText\<rparr>"

definition sampleMembership :: lockedSenderMembership where
  "sampleMembership = \<lparr>sm_conversationId = sampleConversationId, sm_accountId = sampleAccountId,
     sm_installationId = sampleInstallationId, sm_credentialId = sampleCredentialId,
     sm_credentialFingerprint = hashText, sm_credentialRevocationVersion = ''1'', sm_installationState = InstActive,
     sm_credentialState = CredActive, sm_credentialExpiresAt = dayEnd, sm_joinedPosition = ''1'', sm_removedPosition = None\<rparr>"

text \<open>The grant before and after its own digest is filled in.\<close>

definition sampleGrantBody :: lockedConversationSendGrant where
  "sampleGrantBody = \<lparr>sg_conversationId = sampleConversationId, sg_installationId = sampleInstallationId,
     sg_credentialId = sampleCredentialId, sg_conversationKind = Community, sg_conversationGeneration = ''1'',
     sg_role = Member, sg_roleCredentialId = sampleCredentialId, sg_roleCredentialFingerprint = hashText,
     sg_roleCredentialSubjectAccountId = sampleAccountId, sg_roleCredentialSubjectInstallationId = sampleInstallationId,
     sg_roleCredentialValidFrom = dayStart, sg_roleCredentialValidUntil = dayEnd, sg_capability = ''send_application'',
     sg_state = GrantActive, sg_policyRevision = ''1'', sg_policyHeadSequence = ''1'', sg_policyHeadHash = hashText,
     sg_expiresAt = dayEnd, sg_grantEvidenceDigest = hashText, sg_grantInclusionEvidenceDigest = hashText\<rparr>"

definition sampleGrantDigest :: string where
  "sampleGrantDigest = sampleDigest CONVERSATION_SEND_GRANT_EVIDENCE_DIGEST_DOMAIN (grantEvidenceFields sampleGrantBody)"

definition sampleGrant :: lockedConversationSendGrant where
  "sampleGrant = sampleGrantBody\<lparr>sg_grantEvidenceDigest := sampleGrantDigest\<rparr>"

definition sampleHeadBody :: lockedWitnessedPolicyHead where
  "sampleHeadBody =
     \<lparr>ph_policyHeadId = sampleCredentialId, ph_conversationId = sampleConversationId, ph_policyHeadSequence = ''1'',
      ph_policyHeadHash = hashText, ph_deliveryLogPosition = ''1'', ph_deliveryLogHeadHash = hashText,
      ph_evaluationLogPosition = ''1'', ph_evaluationLogHeadHash = hashText, ph_epoch = ''1'', ph_rosterVersion = ''1'',
      ph_confirmedTranscriptHash = hashText, ph_policyRevision = ''1'', ph_signedBodySha256 = hashText,
      ph_signerKeyId = ''signer-1'', ph_signatureSha256 = hashText, ph_witnessEvidenceDigest = hashText,
      ph_proofEvidenceDigest = hashText, ph_policyConsistencyEvidenceDigest = hashText, ph_proofVerifiedAt = dayStart,
      ph_issuedAt = dayStart, ph_expiresAt = soonAfter, ph_witnessState = WitnessVerified,
      ph_witnessCheckpointId = Some sampleCheckpointId, ph_witnessedPolicyHeadHash = Some hashText,
      ph_mandatoryProposalCount = ''0'', ph_mandatoryProposalSetHash = hashText, ph_authorizedSendGrantSetHash = hashText,
      ph_selectedSendGrantEvidenceDigest = sampleGrantDigest, ph_selectedSendGrantInclusionEvidenceDigest = hashText,
      ph_authorizedQuotaPolicyDigest = cv_quotaPolicyDigest sampleConversation, ph_priorPolicyHeadSequence = ''0'',
      ph_priorPolicyHeadHash = ZERO_HASH32, ph_priorPolicyWitnessCheckpointId = sampleCheckpointId,
      ph_priorPolicyWitnessEvidenceDigest = hashText\<rparr>"

definition sampleHead :: lockedWitnessedPolicyHead where
  "sampleHead = sampleHeadBody\<lparr>ph_proofEvidenceDigest := sampleDigest POLICY_HEAD_PROOF_EVIDENCE_DIGEST_DOMAIN
     (evidenceDigestFields (snapshotEvidence sampleConversation sampleHeadBody))\<rparr>"

definition sampleUsage :: lockedConversationUsage where
  "sampleUsage = \<lparr>us_conversationId = sampleConversationId, us_envelopeCount = ''1'', us_envelopeBytes = ''5'',
     us_attachmentBytes = ''0'', us_envelopeCountLimit = ''100'', us_envelopeBytesLimit = ''100'',
     us_attachmentBytesLimit = ''100''\<rparr>"

definition sampleSnapshot :: lockedApplicationAppendSnapshot where
  "sampleSnapshot = \<lparr>ss_conversation = sampleConversation, ss_membership = sampleMembership, ss_policyHead = sampleHead,
     ss_sendGrant = sampleGrant, ss_pendingRemovalCount = ''0'', ss_usage = sampleUsage, ss_quotaBindings = sampleBindings,
     ss_quotas = sampleCounters\<rparr>"

definition sampleExpectation :: applicationAppendExpectation where
  "sampleExpectation =
     \<lparr>ae_realmId = sampleRealm, ae_conversationId = sampleConversationId, ae_accountId = sampleAccountId,
      ae_installationId = sampleInstallationId, ae_credentialId = sampleCredentialId, ae_credentialFingerprint = hashText,
      ae_credentialRevocationVersion = ''1'', ae_releaseProfileId = ''release-1'',
      ae_expectedDeliveryLimitsDigest = hashText, ae_expectedQuotaPolicyDigest = cv_quotaPolicyDigest sampleConversation,
      ae_expectedProjectScopeId = sampleScope, ae_expectedTenantScopeId = sampleScope, ae_expectedGroupIdHash = hashText,
      ae_ifMatch = etagText ''1'' ''1'', ae_expectedEpoch = ''1'', ae_expectedRosterVersion = ''1'',
      ae_expectedConfirmedTranscriptHash = hashText, ae_policyHeadId = sampleCredentialId, ae_policyHeadSequence = ''1'',
      ae_policyHeadHash = hashText, ae_policyEvaluationLogPosition = ''1'', ae_policyEvaluationLogHeadHash = hashText,
      ae_envelopeByteLength = ''5'', ae_attachmentByteLength = ''0''\<rparr>"

subsection \<open>The rows are valid and consistent\<close>

lemmas sample_rows = sampleConversation_def sampleMembership_def sampleGrant_def sampleGrantBody_def sampleHead_def
  sampleHeadBody_def sampleUsage_def

lemma etag_sample [simp]: "etagValid (etagText ''1'' ''1'')"
  unfolding etagValid_def by (intro exI [of _ "''1''"]) simp

lemma sample_before [simp]:
  "dayStart < dayEnd" "dayStart < soonAfter" "\<not> dayStart < dayStart" "\<not> soonAfter \<le> dayStart" "dayStart \<le> dayStart"
  by (simp_all add: timestamp_less_iff timestamp_le_iff)

lemma sampleConversation_valid [simp]: "conversationValid sampleConversation"
  by (simp add: sampleConversation_def conversationValid_def)

lemma sampleMembership_valid [simp]: "membershipValid sampleMembership"
  by (simp add: sampleMembership_def membershipValid_def)

lemma sampleGrant_valid [simp]: "sendGrantValid sampleGrant"
  by (simp add: sampleGrant_def sampleGrantBody_def sendGrantValid_def sampleGrantDigest_def)

lemma sampleHead_valid [simp]: "policyHeadValid sampleHead"
  by (simp add: sampleHead_def sampleHeadBody_def policyHeadValid_def sampleGrantDigest_def verifiedBindingsMissing_def
      unverifiedBindingsPresent_def policyIntervalInconsistent_def sampleConversation_def ZERO_HASH32_valid
      sample_before [unfolded not_le])

lemma sampleUsage_valid [simp]: "usageValid sampleUsage"
  by (simp add: sampleUsage_def usageValid_def)

lemma sampleBindings_valid [simp]: "bindingsValid sampleBindings"
  by (simp add: sampleBindings_def bindingsValid_def quotaBindingValid_def comp_def sampleScopeHash_def)

lemma sampleCounters_valid [simp]: "countersValid sampleCounters"
  by (simp add: sampleCounters_def countersValid_def quotaCounterValid_def comp_def sampleScopeHash_def)

lemma sampleExpectation_valid [simp]: "appendExpectationValid sampleExpectation"
  by (simp add: sampleExpectation_def appendExpectationValid_def sampleConversation_def)

lemma sample_scopeHash:
  "computeApplicationAppendQuotaScopeHash sampleHash sampleRealm scope (sampleSubject scope) = Inr (sampleScopeHash scope)"
proof -
  have subject: "scopeSubjectValid (sampleSubject scope)" by (cases scope) (simp_all add: sampleSubject_def)
  have "digestOf sampleHash APPLICATION_APPEND_QUOTA_SCOPE_HASH_DOMAIN
      [Utf8 sampleRealm, Utf8 (quotaScopeText scope), Utf8 (sampleSubject scope)] = Inr (sampleScopeHash scope)"
    unfolding sampleScopeHash_def
    by (rule sample_digestOf) (use subject in \<open>simp_all add: small_fields APPLICATION_APPEND_QUOTA_SCOPE_HASH_DOMAIN_def\<close>)
  with subject show ?thesis
    by (simp add: computeApplicationAppendQuotaScopeHash_def parse_ok)
qed

lemma sample_subjects: "assertQuotaSubjects sampleHash sampleConversation sampleMembership sampleBindings = Inr ()"
proof -
  have "quotaSubjectId sampleConversation sampleMembership scope = sampleSubject scope" for scope
    by (cases scope) (simp_all add: quotaSubjectId_def sampleSubject_def sampleConversation_def sampleMembership_def)
  moreover have "cv_realmId sampleConversation = sampleRealm" by (simp add: sampleConversation_def)
  ultimately show ?thesis
    by (simp add: assertQuotaSubjects_def sampleBindings_def sample_scopeHash APPLICATION_APPEND_QUOTA_SCOPES_def)
qed

lemma sample_policy_digest:
  "computeApplicationAppendQuotaPolicyDigest sampleHash (encodeRows encodeQuotaBinding sampleBindings) =
   Inr (cv_quotaPolicyDigest sampleConversation)"
proof -
  have "digestOf sampleHash APPLICATION_APPEND_QUOTA_POLICY_DIGEST_DOMAIN (quotaPolicyFields sampleBindings)
      = Inr (sampleDigest APPLICATION_APPEND_QUOTA_POLICY_DIGEST_DOMAIN (quotaPolicyFields sampleBindings))"
    by (rule sample_digestOf)
      (simp_all add: quotaPolicyFields_def sampleBindings_def APPLICATION_APPEND_QUOTA_SCOPES_def small_fields
        smallField_Utf8 APPLICATION_APPEND_QUOTA_POLICY_DIGEST_DOMAIN_def)
  then show ?thesis
    by (simp add: computeApplicationAppendQuotaPolicyDigest_def bindings_codec.parse_encode sampleConversation_def)
qed

lemma sample_grant_digest: "computeConversationSendGrantEvidenceDigest sampleHash sampleGrant = Inr sampleGrantDigest"
proof -
  have same: "grantEvidenceFields sampleGrant = grantEvidenceFields sampleGrantBody"
    by (simp add: sampleGrant_def grantEvidenceFields_def)
  show ?thesis
    unfolding computeConversationSendGrantEvidenceDigest_def same sampleGrantDigest_def
    by (rule sample_digestOf)
      (simp_all add: grantEvidenceFields_def sampleGrantBody_def small_fields smallField_Utf8
        CONVERSATION_SEND_GRANT_EVIDENCE_DIGEST_DOMAIN_def)
qed

lemma sample_head_digest:
  "computePolicyHeadProofEvidenceDigest sampleHash (snapshotEvidence sampleConversation sampleHead) =
   Inr (ph_proofEvidenceDigest sampleHead)"
proof -
  have same: "evidenceDigestFields (snapshotEvidence sampleConversation sampleHead) =
      evidenceDigestFields (snapshotEvidence sampleConversation sampleHeadBody)"
    by (simp add: sampleHead_def snapshotEvidence_def evidenceDigestFields_def)
  have "list_all (smallField 256) (evidenceDigestFields (snapshotEvidence sampleConversation sampleHeadBody))"
    by (simp add: evidenceDigestFields_def snapshotEvidence_def sampleConversation_def sampleHeadBody_def orEmpty_def
        sampleGrantDigest_def small_fields smallField_Utf8 ZERO_HASH32_valid)
  then have "digestOf sampleHash POLICY_HEAD_PROOF_EVIDENCE_DIGEST_DOMAIN
      (evidenceDigestFields (snapshotEvidence sampleConversation sampleHeadBody)) = Inr (ph_proofEvidenceDigest sampleHead)"
    using sample_digestOf [of _ POLICY_HEAD_PROOF_EVIDENCE_DIGEST_DOMAIN]
    by (simp add: sampleHead_def evidenceDigestFields_def POLICY_HEAD_PROOF_EVIDENCE_DIGEST_DOMAIN_def)
  then show ?thesis unfolding computePolicyHeadProofEvidenceDigest_def same .
qed

lemma sample_bindings_match: "assertQuotaBindingsMatchCounters sampleBindings sampleCounters = Inr ()"
  by (simp add: assertQuotaBindingsMatchCounters_def sampleBindings_def sampleCounters_def
      APPLICATION_APPEND_QUOTA_SCOPES_def)

lemma one_not_zero [simp]: "''1'' \<noteq> ''0''"
  by simp

lemma sampleSnapshot_valid [simp]: "snapshotValid sampleHash sampleSnapshot"
proof -
  have rows: "snapshotRowsValid sampleSnapshot" by (simp add: snapshotRowsValid_def sampleSnapshot_def)
  have "assertHeadEvidence sampleHash sampleConversation sampleHead = Inr ()"
    by (simp add: assertHeadEvidence_def sample_head_digest)
  moreover have "\<not> sentinelMismatch (cv_lastPosition sampleConversation) (cv_currentLogHeadHash sampleConversation)"
    "\<not> deliveryAnchorInvalid sampleConversation sampleHead" "\<not> evaluationAnchorInvalid sampleConversation sampleHead"
    by (simp_all add: sentinelMismatch_def deliveryAnchorInvalid_def evaluationAnchorInvalid_def sample_rows)
  moreover have "rowsOfOneConversation sampleSnapshot"
    by (simp add: rowsOfOneConversation_def sampleSnapshot_def sample_rows)
  moreover have "\<not> grantDetached sampleConversation sampleHead sampleGrant sampleGrantDigest"
    by (simp add: grantDetached_def sampleGrant_def sampleGrantBody_def sampleHead_def sampleHeadBody_def)
  ultimately have "assertSnapshot sampleHash sampleSnapshot = Inr ()"
    by (simp add: assertSnapshot_def sampleSnapshot_def Let_def sample_bindings_match sample_subjects
        sample_policy_digest sample_grant_digest)
  with rows show ?thesis by (simp add: snapshotValid_def)
qed

lemma sample_authorized [simp]: "appendAuthorized sampleSnapshot sampleExpectation (dateMillis receivedAt)"
proof -
  have "capacityFits sampleSnapshot sampleExpectation 86410000"
    by (simp add: capacityFits_def usageFits_def quotasAdmit_def windowContains_def hasCapacity_def sampleSnapshot_def
        sampleCounters_def sampleUsage_def sampleExpectation_def chargeOf_def sampleConversation_def UINT63_MAX_def Let_def)
  moreover have "senderCurrent sampleSnapshot 86410000"
    by (simp add: senderCurrent_def sampleSnapshot_def sample_rows Let_def)
  moreover have "grantCovers sampleSnapshot 86410000"
    by (simp add: grantCovers_def sampleSnapshot_def sample_rows Let_def roleMaySend_def)
  moreover have "expectationMatches sampleExpectation sampleSnapshot"
    by (simp add: expectationMatches_def conversationStateChanged_def credentialMismatch_def policyHeadNotCurrent_def
        sampleSnapshot_def sampleExpectation_def sample_rows)
  moreover have "headLive (ss_policyHead sampleSnapshot) 86410000"
    by (simp add: headLive_def sampleSnapshot_def sampleHead_def sampleHeadBody_def)
  ultimately show ?thesis
    by (simp add: appendAuthorized_def) (simp add: sampleSnapshot_def sampleConversation_def sampleHead_def sampleHeadBody_def)
qed

subsection \<open>A reservation and a ledger\<close>

definition sampleDeltas :: "quotaDelta list" where
  "sampleDeltas = map (quotaDeltaOf (chargeOf sampleExpectation)) sampleCounters"

definition sampleReservationId :: "quotaDelta \<Rightarrow> string" where
  "sampleReservationId d = sampleDigest APPLICATION_APPEND_QUOTA_RESERVATION_ID_DOMAIN (reservationIdFields hashText ''1'' hashText d)"

definition sampleReservations :: "quotaReservation list" where
  "sampleReservations = map (\<lambda>d. reservationOf d (sampleReservationId d) hashText ''1'' hashText Live) sampleDeltas"

lemma sampleDeltas_valid [simp]: "deltasValid sampleDeltas"
  using allowed_rows_valid(1) [OF sampleSnapshot_valid, of sampleExpectation "dateMillis receivedAt"] sample_authorized
  by (simp add: sampleDeltas_def appendAuthorized_def sampleSnapshot_def)

lemma sample_reservationId:
  assumes "quotaDeltaValid d"
  shows "digestOf sampleHash APPLICATION_APPEND_QUOTA_RESERVATION_ID_DOMAIN (reservationIdFields hashText ''1'' hashText d)
    = Inr (sampleReservationId d)"
  unfolding sampleReservationId_def
  by (rule sample_digestOf)
    (use assms in \<open>simp_all add: reservationIdFields_def quotaDeltaValid_def small_fields
      APPLICATION_APPEND_QUOTA_RESERVATION_ID_DOMAIN_def\<close>)

text \<open>The last byte of a reservation identifier is the first letter of its scope.\<close>

definition scopeLetter :: "quotaScope \<Rightarrow> byte" where
  "scopeLetter scope = hd (utf8 (quotaScopeText scope))"

lemma sample_id_letter:
  "sampleReservationId d = b64encode (replicate 31 1 @ [scopeLetter (qd_scope d)])"
proof -
  have decoded: "length (fieldRaw (DecodedHash hashText)) = 32"
    using decodeHash32_iff [of hashText "replicate 32 7"] by (simp add: fieldRaw_def hashText_def)
  have raw1: "fieldRaw (Utf8 ''1'') = utf8 ''1''" by (simp add: fieldRaw_def)
  let ?head = "utf8 APPLICATION_APPEND_QUOTA_RESERVATION_ID_DOMAIN @ lp (fieldRaw (DecodedHash hashText))
     @ lp (fieldRaw (Utf8 ''1'')) @ lp (fieldRaw (DecodedHash hashText)) @ u32be (length (utf8 (quotaScopeText (qd_scope d))))"
  have "length ?head = 130"
    by (simp add: decoded raw1 APPLICATION_APPEND_QUOTA_RESERVATION_ID_DOMAIN_def utf8_def utf8_char_def Let_def)
  moreover obtain rest where "digestPreimage APPLICATION_APPEND_QUOTA_RESERVATION_ID_DOMAIN
      (reservationIdFields hashText ''1'' hashText d) = ?head @ utf8 (quotaScopeText (qd_scope d)) @ rest"
    by (simp add: digestPreimage_def reservationIdFields_def lp_def fieldRaw_def)
  ultimately have "drop 130 (digestPreimage APPLICATION_APPEND_QUOTA_RESERVATION_ID_DOMAIN
      (reservationIdFields hashText ''1'' hashText d)) = utf8 (quotaScopeText (qd_scope d)) @ rest"
    by simp
  moreover have "take 1 (utf8 (quotaScopeText (qd_scope d)) @ xs) = [scopeLetter (qd_scope d)]" for xs
    by (cases "qd_scope d") (simp_all add: scopeLetter_def utf8_def utf8_char_def Let_def)
  ultimately show ?thesis
    unfolding sampleReservationId_def sampleDigest_def sampleHash_def by (simp only: append.assoc)
qed

lemma sampleReservations_valid [simp]: "reservationsValid sampleHash sampleReservations"
proof -
  have valid: "quotaDeltaValid d" if "d \<in> set sampleDeltas" for d
    using that sampleDeltas_valid by (simp add: deltasValid_def)
  have "quotaReservationValid sampleHash r" if r: "r \<in> set sampleReservations" for r
  proof -
    obtain d where d: "d \<in> set sampleDeltas" "r = reservationOf d (sampleReservationId d) hashText ''1'' hashText Live"
      using r by (auto simp: sampleReservations_def)
    moreover have "nonZeroHashValid (sampleReservationId d)" by (simp add: sampleReservationId_def)
    ultimately show ?thesis
      using valid [OF d(1)] sample_reservationId [of d] by (simp add: quotaReservationValid_def)
  qed
  moreover have scopes: "map qd_scope sampleReservations = APPLICATION_APPEND_QUOTA_SCOPES"
    using sampleDeltas_valid by (simp add: sampleReservations_def deltasValid_def comp_def reservationOf_def)
  moreover have "distinct (map qr_reservationId sampleReservations)"
  proof -
    have "map qr_reservationId sampleReservations =
        map (\<lambda>scope. b64encode (replicate 31 1 @ [scopeLetter scope])) (map qd_scope sampleDeltas)"
      by (simp add: sampleReservations_def sample_id_letter)
    also have "map qd_scope sampleDeltas = APPLICATION_APPEND_QUOTA_SCOPES"
      using sampleDeltas_valid by (simp add: deltasValid_def)
    finally show ?thesis
      by (simp add: APPLICATION_APPEND_QUOTA_SCOPES_def scopeLetter_def utf8_def utf8_char_def Let_def)
  qed
  ultimately show ?thesis by (simp add: reservationsValid_def)
qed

lemma sampleReservations_live [simp]: "\<forall>r\<in>set sampleReservations. qr_state r = Live" "ownedLive hashText ''1'' hashText sampleReservations"
  by (simp_all add: sampleReservations_def ownedLive_def)

lemma sampleReservations_deltas [simp]: "map quotaReservationDelta sampleReservations = sampleDeltas"
  by (simp add: sampleReservations_def comp_def)

text \<open>The call that binds the deltas of the decision to the owner, and the reservation step of the ledger.\<close>

lemma sample_bound:
  "bindApplicationAppendQuotaCapacityReservations sampleHash (encodeRows encodeQuotaDelta sampleDeltas) (JStr hashText)
     (JStr ''1'') (JStr hashText) = Inr sampleReservations"
proof -
  have "mapE (\<lambda>delta. bindE (computeApplicationAppendQuotaReservationId sampleHash (JStr hashText) (JStr ''1'') (JStr hashText) delta)
      (\<lambda>reservationId. Inr (reservationOf delta reservationId hashText ''1'' hashText Live))) (map (\<lambda>d. d) sampleDeltas)
    = Inr sampleReservations"
    unfolding sampleReservations_def using sampleDeltas_valid
    by (intro mapE_map_Inr)
      (simp add: computeApplicationAppendQuotaReservationId_def sample_reservationId parse_ok deltasValid_def)
  then show ?thesis
    by (simp add: bindApplicationAppendQuotaCapacityReservations_def deltas_codec.parse_encode parse_ok)
qed

definition sampleInitialLedger :: quotaLedger where
  "sampleInitialLedger = \<lparr>lg_quotas = sampleCounters, lg_live = {#}\<rparr>"

definition sampleReservedLedger :: quotaLedger where
  "sampleReservedLedger = \<lparr>lg_quotas = map (reservedRow (chargeOf sampleExpectation)) sampleCounters,
     lg_live = {#sampleReservations#}\<rparr>"

definition sampleReservationInput :: reservationInput where
  "sampleReservationInput = \<lparr>ri_priorSnapshot = encodeSnapshot sampleSnapshot,
     ri_expectation = encodeAppendExpectation sampleExpectation, ri_authoritativeReceivedAt = JStr receivedAt,
     ri_quotaCapacityReservations = encodeRows encodeQuotaReservation sampleReservations,
     ri_preparedPostReservationQuotas = encodeRows encodeQuotaCounter (lg_quotas sampleReservedLedger)\<rparr>"

lemma sample_decision:
  "evaluateLockedApplicationAppend sampleHash sampleSnapshot sampleExpectation receivedAt = Inr (appendAllowed sampleSnapshot sampleExpectation)"
  using evaluate_cases [OF sampleSnapshot_valid, of receivedAt sampleExpectation] sample_authorized by simp

lemma sample_reservedRows_valid: "countersValid (lg_quotas sampleReservedLedger)"
  using allowed_rows_valid(2) [OF sampleSnapshot_valid, of sampleExpectation "dateMillis receivedAt"] sample_authorized
  by (simp add: sampleReservedLedger_def appendAuthorized_def sampleSnapshot_def)

lemma sample_reservation_accepted:
  "validateLockedApplicationAppendQuotaReservationTransition sampleHash sampleReservationInput = Inr (lg_quotas sampleReservedLedger)"
proof -
  have live: "\<not> list_ex (\<lambda>r. qr_state r \<noteq> Live) sampleReservations"
    using sampleReservations_live(1) by (auto simp: list_ex_iff)
  show ?thesis
    using sample_reservedRows_valid live
    by (simp add: validateLockedApplicationAppendQuotaReservationTransition_def sampleReservationInput_def
        snapshot_codec.parse_encode append_expectation_codec.parse_encode parse_ok sample_decision appendAllowed_def
        reservations_codec.parse_encode counters_codec.parse_encode)
      (simp add: sampleDeltas_def sampleSnapshot_def sampleReservedLedger_def)
qed

lemma sample_ledger_step: "ledgerStep sampleHash sampleInitialLedger sampleReservedLedger"
proof -
  have "ledgerStep sampleHash sampleInitialLedger (sampleInitialLedger
      \<lparr>lg_quotas := lg_quotas sampleReservedLedger, lg_live := add_mset sampleReservations (lg_live sampleInitialLedger)\<rparr>)"
    by (rule ledgerStep.reserve [OF sample_reservation_accepted _ _ _ _ sample_bound, of sampleSnapshot _ receivedAt])
      (simp_all add: sampleReservationInput_def snapshot_codec.parse_encode reservations_codec.parse_encode
        sampleInitialLedger_def sampleSnapshot_def sampleSnapshot_valid [unfolded sampleSnapshot_def])
  then show ?thesis by (simp add: sampleInitialLedger_def sampleReservedLedger_def)
qed

lemma sample_ledger_init: "ledgerInit sampleInitialLedger"
  by (simp add: ledgerInit_def sampleInitialLedger_def) (simp add: sampleCounters_def)

text \<open>The call of the state transition that follows the decision.\<close>

definition sampleTransition :: stateTransitionInput where
  "sampleTransition = \<lparr>si_priorSnapshot = encodeSnapshot sampleSnapshot, si_expectation = encodeAppendExpectation sampleExpectation,
     si_authoritativeReceivedAt = JStr receivedAt, si_nextHeadHash = JStr hashText,
     si_preparedNextConversation = encodeConversation (nextConversation sampleConversation hashText),
     si_preparedNextUsage = encodeUsage (chargedUsage sampleExpectation sampleUsage),
     si_quotaCapacityReservations = encodeRows encodeQuotaReservation sampleReservations\<rparr>"

lemma sample_transition:
  "validateLockedApplicationAppendStateTransition sampleHash sampleTransition =
   Inr (projectionOf sampleSnapshot sampleExpectation hashText sampleReservations)"
proof -
  have sel: "ss_conversation sampleSnapshot = sampleConversation" "ss_usage sampleSnapshot = sampleUsage"
    "ss_quotas sampleSnapshot = sampleCounters"
    by (simp_all add: sampleSnapshot_def)
  show ?thesis
    using stateTransition_complete [OF sampleSnapshot_valid sampleExpectation_valid sample_times(2) _ hashText_valid(1,2)
        sample_authorized sampleReservations_valid sampleReservations_live(1)]
    by (simp add: sampleTransition_def sel sampleDeltas_def)
qed

end
