(* ===== verification/AppendProperties.thy ===== *)
theory AppendProperties
  imports Samples
begin

section \<open>Properties of appends and of reserved capacity\<close>

text \<open>
  The statements about the append decision, the transition validators and the life cycle of reserved
  capacity, each with a witness on the conversation of \<open>Samples\<close>.
\<close>

subsection \<open>The ledger of reserved capacity\<close>

text \<open>
  C1. Refinement. Appends of a conversation overlap, each reserving, then finalising or releasing capacity.
  In every reachable ledger each accepted call of a validator acts, on each of the five quota rows, as one
  step of an account with holds: it places a hold within the limit, settles one, or cancels one, for
  operations and for bytes.
\<close>

theorem ledger_step_refines_account:
  assumes "ledgerInit L0" "(ledgerStep H)\<^sup>*\<^sup>* L0 L" "ledgerStep H L L'" "i < 5"
  shows "accountStep (opsAccount L i) (opsAccount L' i) \<and> accountStep (bytesAccount L i) (bytesAccount L' i)"
  using ledger_refines [OF ledgerInv_reachable [OF assms(2,1)] assms(3,4)] by simp

theorem ledger_step_refines_account_witness:
  "accountStep (opsAccount sampleInitialLedger 2) (opsAccount sampleReservedLedger 2)
   \<and> accountStep (bytesAccount sampleInitialLedger 2) (bytesAccount sampleReservedLedger 2)"
  by (rule ledger_step_refines_account [OF sample_ledger_init _ sample_ledger_step]) simp_all

text \<open>
  C2. Invariant. In every reachable ledger what a row has reserved is the sum of the live reservations, and
  used plus reserved capacity never exceeds the limit, for operations and for bytes.
\<close>

theorem ledger_within_limits:
  assumes "ledgerInit L0" "(ledgerStep H)\<^sup>*\<^sup>* L0 L" "i < 5"
  shows "bigInt (qc_reservedOperationCount (lg_quotas L ! i)) = (\<Sum>rs\<in>#lg_live L. bigInt (qd_reservationOperationCount (rs ! i)))
    \<and> bigInt (qc_reservedByteCount (lg_quotas L ! i)) = (\<Sum>rs\<in>#lg_live L. bigInt (qd_reservationByteCount (rs ! i)))
    \<and> bigInt (qc_operationCount (lg_quotas L ! i)) + bigInt (qc_reservedOperationCount (lg_quotas L ! i))
        \<le> bigInt (qc_operationLimit (lg_quotas L ! i))
    \<and> bigInt (qc_byteCount (lg_quotas L ! i)) + bigInt (qc_reservedByteCount (lg_quotas L ! i))
        \<le> bigInt (qc_byteLimit (lg_quotas L ! i))"
proof -
  have inv: "ledgerInv H L" by (rule ledgerInv_reachable [OF assms(2,1)])
  have "quotaCounterValid (lg_quotas L ! i)"
    using ledgerInvD(1,2) [OF inv] assms(3) by (simp add: countersValid_def)
  with ledgerInvD(6,7) [OF inv assms(3)] show ?thesis by (simp add: held_eq quotaCounterValid_def)
qed

theorem ledger_within_limits_witness:
  "bigInt (qc_reservedByteCount (lg_quotas sampleReservedLedger ! 2)) =
     (\<Sum>rs\<in>#lg_live sampleReservedLedger. bigInt (qd_reservationByteCount (rs ! 2)))"
  using ledger_within_limits [OF sample_ledger_init r_into_rtranclp [where r = "ledgerStep sampleHash", OF sample_ledger_step], of 2] by simp

text \<open>
  C3. Progress. A live reservation set of a reachable ledger can always be finalised and can always be
  released: there is a call of the conversion validator that is accepted, whatever happened to the rows in
  between. The hypothesis excludes row versions that have used up their 63 bits.
\<close>

theorem live_reservation_convertible:
  assumes "ledgerInit L0" "(ledgerStep H)\<^sup>*\<^sup>* L0 L" "rs \<in># lg_live L"
    "\<forall>q\<in>set (lg_quotas L). bigInt (qc_rowVersion q) < UINT63_MAX"
  shows "\<exists>digest generation token qs'.
    validateQuotaCapacityConversion H (conversionCall (lg_quotas L) rs digest generation token qs' mode) mode
      = Inr (qs', map (\<lambda>r. r\<lparr>qr_state := terminalState mode\<rparr>) rs)
    \<and> ledgerStep H L (L\<lparr>lg_quotas := qs', lg_live := lg_live L - {#rs#}\<rparr>)"
  by (rule ledger_progress [OF ledgerInv_reachable [OF assms(2,1)] assms(3,4)])

theorem live_reservation_convertible_witness:
  "\<exists>digest generation token qs'. validateQuotaCapacityConversion sampleHash
       (conversionCall (lg_quotas sampleReservedLedger) sampleReservations digest generation token qs' Release) Release
     = Inr (qs', map (\<lambda>r. r\<lparr>qr_state := Released\<rparr>) sampleReservations)"
proof -
  have "bigInt (qc_rowVersion q) < UINT63_MAX" if "q \<in> set (lg_quotas sampleReservedLedger)" for q
    using that by (auto simp: sampleReservedLedger_def sampleCounters_def UINT63_MAX_def)
  moreover have "sampleReservations \<in># lg_live sampleReservedLedger" by (simp add: sampleReservedLedger_def)
  ultimately show ?thesis
    using live_reservation_convertible [OF sample_ledger_init r_into_rtranclp [where r = "ledgerStep sampleHash", OF sample_ledger_step],
        of sampleReservations Release]
    by (fastforce simp: terminalState_def)
qed

subsection \<open>The decision\<close>

text \<open>
  C4. Equivalence with the specification. For a snapshot that parses and a canonical time from 1970 on, the
  decision allows an append exactly when the append is authorised at that time, and then with the next
  position, the charged usage row, one delta and one post-reservation row per quota.
\<close>

theorem append_decision_correct:
  assumes "parseLockedApplicationAppendSnapshot H v = Inr s" "rfc3339Valid now" "0 \<le> dateMillis now"
  shows "evaluateLockedApplicationAppend H s e now = Inr (Allowed position usage deltas quotas) \<longleftrightarrow>
    appendAuthorized s e (dateMillis now)
    \<and> position = bigIntToString (bigInt (cv_lastPosition (ss_conversation s)) + 1) \<and> usage = chargedUsage e (ss_usage s)
    \<and> deltas = map (quotaDeltaOf (chargeOf e)) (ss_quotas s) \<and> quotas = map (reservedRow (chargeOf e)) (ss_quotas s)"
  using evaluate_allowed_iff [OF snapshot_codec.parse_wf [OF assms(1)] assms(2,3)] by (simp add: appendAllowed_def)

theorem append_decision_correct_witness:
  "evaluateLockedApplicationAppend sampleHash sampleSnapshot sampleExpectation receivedAt =
     Inr (Allowed (bigIntToString 2) (chargedUsage sampleExpectation sampleUsage) sampleDeltas (lg_quotas sampleReservedLedger))"
  using append_decision_correct [OF snapshot_codec.parse_encode [OF sampleSnapshot_valid], of receivedAt sampleExpectation
      "bigIntToString 2" "chargedUsage sampleExpectation sampleUsage" sampleDeltas "lg_quotas sampleReservedLedger"]
    sample_authorized
  by (simp add: sampleSnapshot_def sampleConversation_def sampleDeltas_def sampleReservedLedger_def)

text \<open>
  C5. The decision does not throw: for a snapshot that parses and a canonical time from 1970 on it returns
  an allowance or one of the rejection reasons, also where the digest of the grant is recomputed and where
  counters overflow.
\<close>

theorem append_decision_total:
  assumes "parseLockedApplicationAppendSnapshot H v = Inr s" "rfc3339Valid now" "0 \<le> dateMillis now"
  shows "\<exists>decision. evaluateLockedApplicationAppend H s e now = Inr decision
    \<and> (\<not> appendAuthorized s e (dateMillis now) \<longleftrightarrow> (\<exists>reason. decision = Rejected reason))"
  using evaluate_cases [OF snapshot_codec.parse_wf [OF assms(1)] assms(2,3), of e]
  by (cases "appendAuthorized s e (dateMillis now)") (auto simp: appendAllowed_def)

theorem append_decision_total_witness:
  "\<exists>decision. evaluateLockedApplicationAppend sampleHash sampleSnapshot (sampleExpectation\<lparr>ae_expectedEpoch := ''2''\<rparr>) receivedAt
     = Inr decision \<and> (\<exists>reason. decision = Rejected reason)"
proof -
  have "\<not> appendAuthorized sampleSnapshot (sampleExpectation\<lparr>ae_expectedEpoch := ''2''\<rparr>) (dateMillis receivedAt)"
    by (simp add: appendAuthorized_def expectationMatches_def conversationStateChanged_def sampleSnapshot_def
        sampleConversation_def)
  then show ?thesis
    using append_decision_total [OF snapshot_codec.parse_encode [OF sampleSnapshot_valid], of receivedAt
        "sampleExpectation\<lparr>ae_expectedEpoch := ''2''\<rparr>"]
    by auto
qed

text \<open>
  C6. Type invariant. The usage row, the deltas and the post-reservation rows of an allowance are valid rows
  again: they satisfy every condition of their parsers, in canonical scope order.
\<close>

theorem append_decision_rows_valid:
  assumes "parseLockedApplicationAppendSnapshot H v = Inr s" "rfc3339Valid now" "0 \<le> dateMillis now"
    "evaluateLockedApplicationAppend H s e now = Inr (Allowed position usage deltas quotas)"
  shows "positiveUint63Valid position \<and> usageValid usage
    \<and> parseApplicationAppendQuotaCapacityDeltas (encodeRows encodeQuotaDelta deltas) = Inr deltas
    \<and> parseLockedQuotaCounters (encodeRows encodeQuotaCounter quotas) = Inr quotas"
proof -
  have valid: "snapshotValid H s" using assms(1) by (rule snapshot_codec.parse_wf)
  note d = assms(4)[unfolded evaluate_allowed_iff [OF valid assms(2,3)]]
  then have cap: "capacityFits s e (dateMillis now)" by (simp add: appendAuthorized_def)
  let ?last = "cv_lastPosition (ss_conversation s)"
  have "uint63Valid (bigIntToString (bigInt ?last + 1))"
    using cap bigInt_nonneg [of ?last] by (intro uint63Valid_toString) (auto simp: capacityFits_def simp del: bigInt_nonneg)
  moreover have "0 < bigInt (bigIntToString (bigInt ?last + 1))"
    using bigInt_nonneg [of ?last] by (simp del: bigInt_nonneg)
  ultimately show ?thesis
    using allowed_rows_valid [OF valid cap] d
    by (simp add: appendAllowed_def deltas_codec.parse_encode counters_codec.parse_encode positiveUint63_iff)
qed

theorem append_decision_rows_valid_witness:
  "parseLockedQuotaCounters (encodeRows encodeQuotaCounter (lg_quotas sampleReservedLedger)) = Inr (lg_quotas sampleReservedLedger)"
  using append_decision_rows_valid [OF snapshot_codec.parse_encode [OF sampleSnapshot_valid] _ _
      sample_decision [unfolded appendAllowed_def]]
  by (simp add: sampleSnapshot_def sampleReservedLedger_def)

subsection \<open>Transitions\<close>

text \<open>
  C7. Safety of the state transition. When the validator accepts prepared rows, the append was authorised, the
  conversation moved to the next position and the given head and changed nowhere else, the usage row was
  charged exactly once, and the reservations are live and carry the deltas of the decision.
\<close>

theorem state_transition_sound:
  assumes "validateLockedApplicationAppendStateTransition H input = Inr p"
    "parseLockedApplicationAppendSnapshot H (si_priorSnapshot input) = Inr s"
    "parseApplicationAppendExpectation (si_expectation input) = Inr e"
    "si_authoritativeReceivedAt input = JStr now" "0 \<le> dateMillis now" "si_nextHeadHash input = JStr h"
  shows "appendAuthorized s e (dateMillis now) \<and> p = projectionOf s e h (pj_quotaCapacityReservations p)
    \<and> map quotaReservationDelta (pj_quotaCapacityReservations p) = map (quotaDeltaOf (chargeOf e)) (ss_quotas s)
    \<and> (\<forall>r\<in>set (pj_quotaCapacityReservations p). qr_state r = Live) \<and> projectionValid H p"
  using stateTransition_sound [OF assms] by simp

theorem state_transition_sound_witness:
  "appendAuthorized sampleSnapshot sampleExpectation (dateMillis receivedAt)
   \<and> projectionValid sampleHash (projectionOf sampleSnapshot sampleExpectation hashText sampleReservations)"
  using state_transition_sound [OF sample_transition, of sampleSnapshot sampleExpectation receivedAt hashText]
  by (simp add: sampleTransition_def snapshot_codec.parse_encode append_expectation_codec.parse_encode)

text \<open>
  C8. Completeness of the state transition. For a valid snapshot and expectation, a nonzero head hash, an
  authorised append and live reservations with the decided deltas, the validator accepts the rows that the
  decision prescribes and returns their projection.
\<close>

theorem state_transition_complete:
  assumes "snapshotValid H s" "appendExpectationValid e" "rfc3339Valid now" "0 \<le> dateMillis now"
    "nonZeroHashValid h" "appendAuthorized s e (dateMillis now)" "reservationsValid H rs"
    "\<forall>r\<in>set rs. qr_state r = Live" "map quotaReservationDelta rs = map (quotaDeltaOf (chargeOf e)) (ss_quotas s)"
  shows "validateLockedApplicationAppendStateTransition H
    \<lparr>si_priorSnapshot = encodeSnapshot s, si_expectation = encodeAppendExpectation e,
     si_authoritativeReceivedAt = JStr now, si_nextHeadHash = JStr h,
     si_preparedNextConversation = encodeConversation (nextConversation (ss_conversation s) h),
     si_preparedNextUsage = encodeUsage (chargedUsage e (ss_usage s)),
     si_quotaCapacityReservations = encodeRows encodeQuotaReservation rs\<rparr> = Inr (projectionOf s e h rs)"
  using assms(5) by (intro stateTransition_complete [OF assms(1-4) _ _ assms(6-9)]) (simp_all add: nonZeroHashValid_def)

theorem state_transition_complete_witness:
  "validateLockedApplicationAppendStateTransition sampleHash
    \<lparr>si_priorSnapshot = encodeSnapshot sampleSnapshot, si_expectation = encodeAppendExpectation sampleExpectation,
     si_authoritativeReceivedAt = JStr receivedAt, si_nextHeadHash = JStr hashText,
     si_preparedNextConversation = encodeConversation (nextConversation (ss_conversation sampleSnapshot) hashText),
     si_preparedNextUsage = encodeUsage (chargedUsage sampleExpectation (ss_usage sampleSnapshot)),
     si_quotaCapacityReservations = encodeRows encodeQuotaReservation sampleReservations\<rparr>
   = Inr (projectionOf sampleSnapshot sampleExpectation hashText sampleReservations)"
  by (rule state_transition_complete [OF sampleSnapshot_valid sampleExpectation_valid sample_times(2) _ hashText_valid(3)
        sample_authorized sampleReservations_valid sampleReservations_live(1)])
    (simp_all add: sampleDeltas_def sampleSnapshot_def)

text \<open>
  The reservation transition. Accepted rows reserve, in each of the five quota rows, one operation and the
  bytes of the envelope and its attachments, within the limits, advance the row version by one, and change
  neither the used amounts nor the identity of the row.
\<close>

theorem reservation_transition_sound:
  assumes "validateLockedApplicationAppendQuotaReservationTransition H input = Inr qs'"
    "parseLockedApplicationAppendSnapshot H (ri_priorSnapshot input) = Inr s"
    "parseApplicationAppendExpectation (ri_expectation input) = Inr e"
    "ri_authoritativeReceivedAt input = JStr now" "0 \<le> dateMillis now" "i < 5"
  shows "sameQuotaIdentity (ss_quotas s ! i) (qs' ! i)
    \<and> qc_operationCount (qs' ! i) = qc_operationCount (ss_quotas s ! i) \<and> qc_byteCount (qs' ! i) = qc_byteCount (ss_quotas s ! i)
    \<and> bigInt (qc_reservedOperationCount (qs' ! i)) = bigInt (qc_reservedOperationCount (ss_quotas s ! i)) + 1
    \<and> bigInt (qc_reservedByteCount (qs' ! i)) = bigInt (qc_reservedByteCount (ss_quotas s ! i))
        + bigInt (ae_envelopeByteLength e) + bigInt (ae_attachmentByteLength e)
    \<and> bigInt (qc_rowVersion (qs' ! i)) = bigInt (qc_rowVersion (ss_quotas s ! i)) + 1
    \<and> quotaCounterValid (qs' ! i)"
proof -
  obtain rs where rs: "parseApplicationAppendQuotaCapacityReservations H (ri_quotaCapacityReservations input) = Inr rs"
    using assms(1) unfolding validateLockedApplicationAppendQuotaReservationTransition_def
    by (elim bindE_InrE) (auto simp: bindE_eq_Inr split: appendDecision.splits)
  have auth: "appendAuthorized s e (dateMillis now)" and qs': "qs' = map (reservedRow (chargeOf e)) (ss_quotas s)"
    using reservationTransition_sound [OF assms(1,2,4,5) rs] assms(3) by auto
  have valid: "snapshotValid H s" using assms(2) by (rule snapshot_codec.parse_wf)
  have len: "length (ss_quotas s) = 5"
    using valid rows_length(2) by (simp add: snapshotValid_def snapshotRowsValid_def)
  have "countersValid qs'"
    using allowed_rows_valid(2) [OF valid, of e "dateMillis now"] auth by (simp add: qs' appendAuthorized_def)
  then have "quotaCounterValid (qs' ! i)" using assms(6) len by (simp add: countersValid_def qs')
  then show ?thesis
    using assms(6) len by (simp add: qs' sameQuotaIdentity_def chargeOf_def)
qed

text \<open>
  Conservation in a conversion. An accepted finalisation or release keeps the identity and the limits of each
  row, moves exactly the amounts of the reservation out of the reserved counts, adds them to the used counts
  in a finalisation only, and advances the row version by one; the reservations all belong to the given
  owner and fence, and become terminal.
\<close>

theorem conversion_conserves:
  assumes "validateQuotaCapacityConversion H input mode = Inr (qs', rs')"
    "parseLockedQuotaCounters (ci_currentQuotas input) = Inr qs"
    "parseApplicationAppendQuotaCapacityReservations H (ci_currentCapacityReservations input) = Inr rs" "i < 5"
  shows "rowConverted mode (qs ! i) (rs ! i) (qs' ! i) \<and> rowHolds (qs ! i) (rs ! i) \<and> quotaCounterValid (qs' ! i)
    \<and> qr_state (rs ! i) = Live \<and> JStr (qr_pendingPreparationDigest (rs ! i)) = ci_pendingPreparationDigest input
    \<and> JStr (qr_fenceGeneration (rs ! i)) = ci_fenceGeneration input \<and> JStr (qr_fenceTokenHash (rs ! i)) = ci_fenceTokenHash input
    \<and> rs' ! i = (rs ! i)\<lparr>qr_state := terminalState mode\<rparr>"
  using assms(1)
proof (cases rule: validateQuotaCapacityConversion_Inr)
  case (1 qs0 rs0 digest generation token)
  have eqs: "qs0 = qs" "rs0 = rs" using 1 assms(2,3) by simp_all
  have valid: "countersValid qs" "reservationsValid H rs"
    using assms(2,3) counters_codec.parse_wf reservations_codec.parse_wf by blast+
  have len: "length qs = 5" "length rs = 5" using valid rows_length by auto
  then have "rs ! i \<in> set rs" using assms(4) by simp
  then show ?thesis
    using convertQuotaRows_sound(3) [OF 1(7)[unfolded eqs] valid, of i] assms(4) len 1 by (auto simp: eqs ownedLive_def)
qed

end
