(* ===== verification/SnapshotProperties.thy ===== *)
theory SnapshotProperties
  imports Samples
begin

section \<open>Properties of snapshots, policy proofs and pending expiry\<close>

text \<open>
  The statements about the locked snapshot, its digest, the refresh of its policy head from proof evidence,
  and the expiry of a pending append.
\<close>

subsection \<open>Refreshing the policy head\<close>

lemma parse_encodePolicyHead_Inr:
  assumes "parseLockedWitnessedPolicyHead (encodePolicyHead r) = Inr x"
  shows "x = r"
  using assms unfolding parseLockedWitnessedPolicyHead_def expect_encodePolicyHead bindE_Inr entriesPolicyHead_get
  by (elim bindE_InrE, simp only: parse_simps sum.inject jsval.inject enum_inj guardE_eq_Inr, elim conjE, hypsubst) simp

lemma parse_overlaid_snapshot:
  assumes "snapshotValid H s" "parseLockedApplicationAppendSnapshot H (encodeSnapshot (s\<lparr>ss_policyHead := ph\<rparr>)) = Inr s'"
  shows "s' = s\<lparr>ss_policyHead := ph\<rparr>"
proof -
  note rows = assms(1)[unfolded snapshotValid_def snapshotRowsValid_def]
  obtain x where "parseLockedWitnessedPolicyHead (encodePolicyHead ph) = Inr x" "s' = s\<lparr>ss_policyHead := x\<rparr>"
    using assms(2) rows unfolding parseLockedApplicationAppendSnapshot_def expect_encodeSnapshot Let_def
    by (cases s) (auto simp: bindE_eq_Inr row_codecs_encode parse_ok)
  then show ?thesis using parse_encodePolicyHead_Inr by auto
qed

lemma parse_encodeEvidence_Inr:
  assumes "parsePolicyHeadProofFields (encodeEvidence r) = Inr x"
  shows "x = r"
  using assms unfolding parsePolicyHeadProofFields_def expect_encodeEvidence bindE_Inr entriesEvidence_get
  by (elim bindE_InrE, simp only: parse_simps sum.inject jsval.inject enum_inj guardE_eq_Inr, elim conjE, hypsubst) simp

lemma parse_encodeExpectation_Inr:
  assumes "parsePolicyHeadProofExpectation (encodeExpectation r) = Inr x"
  shows "x = r"
  using assms unfolding parsePolicyHeadProofExpectation_def expect_encodeExpectation bindE_Inr entriesExpectation_get
  by (elim bindE_InrE, simp only: parse_simps sum.inject jsval.inject enum_inj guardE_eq_Inr, elim conjE, hypsubst) simp

lemma refresh_Inr:
  assumes "refreshLockedApplicationAppendAuthorizationSnapshot H v evidence = Inr s'"
    "parseLockedApplicationAppendSnapshot H v = Inr s"
  shows "parsePolicyHeadProofEvidence H (encodeEvidence evidence)
      (encodeExpectation (refreshExpectation (ss_conversation s) (ss_policyHead s) (ss_sendGrant s) (px_verifiedAt evidence))) = Inr evidence"
    "s' = s\<lparr>ss_policyHead := overlayPolicyHead evidence (ss_policyHead s)\<rparr>" "snapshotValid H s'"
proof -
  have valid: "snapshotValid H s" using assms(2) by (rule snapshot_codec.parse_wf)
  obtain x where x: "parsePolicyHeadProofEvidence H (encodeEvidence evidence) (encodeExpectation
      (refreshExpectation (ss_conversation s) (ss_policyHead s) (ss_sendGrant s) (px_verifiedAt evidence))) = Inr x"
    and s': "parseLockedApplicationAppendSnapshot H
      (encodeSnapshot (s\<lparr>ss_policyHead := overlayPolicyHead x (ss_policyHead s)\<rparr>)) = Inr s'"
    using assms by (auto simp: refreshLockedApplicationAppendAuthorizationSnapshot_def Let_def bindE_eq_Inr)
  have "x = evidence"
    using x parse_encodeEvidence_Inr by (simp add: parsePolicyHeadProofEvidence_Inr)
  with x s' parse_overlaid_snapshot [OF valid] snapshot_codec.parse_wf [OF s']
  show "parsePolicyHeadProofEvidence H (encodeEvidence evidence)
      (encodeExpectation (refreshExpectation (ss_conversation s) (ss_policyHead s) (ss_sendGrant s) (px_verifiedAt evidence))) = Inr evidence"
    "s' = s\<lparr>ss_policyHead := overlayPolicyHead evidence (ss_policyHead s)\<rparr>" "snapshotValid H s'"
    by auto
qed

lemma accepted_evidence:
  assumes "parsePolicyHeadProofEvidence H v e = Inr r" "px_purpose r = AppendAuthorization"
  shows "pv_witnessedPolicyHeadHash r = px_policyHeadHash r"
    "bigInt (px_priorPolicyHeadSequence r) \<le> bigInt (px_policyHeadSequence r)"
    "dateMillis (pv_issuedAt r) \<le> dateMillis (px_verifiedAt r)" "dateMillis (px_verifiedAt r) < dateMillis (pv_expiresAt r)"
    "dateMillis (pv_expiresAt r) \<le> dateMillis (pv_issuedAt r) + 300000"
proof -
  have f: "evidenceFieldsValid r" "\<not> witnessBindingInconsistent r" "\<not> statusInvalidForPurpose r"
    using assms(1) evidence_fields_codec.parse_wf by (auto simp: parsePolicyHeadProofEvidence_Inr)
  then have t: "rfc3339Valid (pv_issuedAt r)" "rfc3339Valid (px_verifiedAt r)" "rfc3339Valid (pv_expiresAt r)"
    by (simp_all add: evidenceFieldsValid_def)
  show "pv_witnessedPolicyHeadHash r = px_policyHeadHash r"
    "bigInt (px_priorPolicyHeadSequence r) \<le> bigInt (px_policyHeadSequence r)"
    "dateMillis (pv_issuedAt r) \<le> dateMillis (px_verifiedAt r)" "dateMillis (px_verifiedAt r) < dateMillis (pv_expiresAt r)"
    "dateMillis (pv_expiresAt r) \<le> dateMillis (pv_issuedAt r) + 300000"
    using f(2,3) assms(2) t
    by (simp_all add: witnessBindingInconsistent_def statusInvalidForPurpose_def timestamp_less_iff timestamp_le_iff not_less not_le)
qed

text \<open>
  The overlay fits the conversation: evaluated at its last entry and its current policy head, witnessed, and
  verified within a validity interval of at most five minutes.
\<close>

definition headRefreshed :: "lockedConversationState \<Rightarrow> lockedWitnessedPolicyHead \<Rightarrow> bool" where
  "headRefreshed cv ph =
     (ph_evaluationLogPosition ph = cv_lastPosition cv \<and> ph_evaluationLogHeadHash ph = cv_currentLogHeadHash cv
      \<and> ph_witnessState ph = WitnessVerified \<and> ph_witnessedPolicyHeadHash ph = Some (cv_currentPolicyHeadHash cv)
      \<and> dateMillis (ph_issuedAt ph) \<le> dateMillis (ph_proofVerifiedAt ph)
      \<and> dateMillis (ph_proofVerifiedAt ph) < dateMillis (ph_expiresAt ph)
      \<and> dateMillis (ph_expiresAt ph) \<le> dateMillis (ph_issuedAt ph) + 300000)"

lemma expectationPart_sel:
  assumes "expectationPart r = refreshExpectation cv ph sg t"
  shows "px_purpose r = AppendAuthorization" "px_policyHeadHash r = cv_currentPolicyHeadHash cv"
    "px_evaluationLogPosition r = cv_lastPosition cv" "px_evaluationLogHeadHash r = cv_currentLogHeadHash cv"
  using assms by (simp_all add: expectationPart_def refreshExpectation_def)

lemma refresh_headRefreshed:
  assumes "parsePolicyHeadProofEvidence H v (encodeExpectation (refreshExpectation cv ph sg (px_verifiedAt r))) = Inr r"
  shows "headRefreshed cv (overlayPolicyHead r ph')"
proof -
  have part: "expectationPart r = refreshExpectation cv ph sg (px_verifiedAt r)"
    using assms parse_encodeExpectation_Inr by (auto simp: parsePolicyHeadProofEvidence_Inr)
  note sel = expectationPart_sel [OF part]
  show ?thesis
    using accepted_evidence [OF assms sel(1)] sel by (simp add: headRefreshed_def overlayPolicyHead_def)
qed

text \<open>The policy head of the snapshot is the current one of the conversation.\<close>

definition headOfConversation :: "lockedConversationState \<Rightarrow> lockedWitnessedPolicyHead \<Rightarrow> bool" where
  "headOfConversation cv ph =
     (ph_policyHeadSequence ph = cv_currentPolicyHeadSequence cv \<and> ph_policyHeadHash ph = cv_currentPolicyHeadHash cv
      \<and> ph_epoch ph = cv_epoch cv \<and> ph_rosterVersion ph = cv_rosterVersion cv
      \<and> ph_confirmedTranscriptHash ph = cv_confirmedTranscriptHash cv)"

lemma overlay_evidence:
  assumes part: "expectationPart r = refreshExpectation cv ph sg (px_verifiedAt r)"
    and ok: "evidenceFieldsValid r" "\<not> statusInvalidForPurpose r"
    and head: "headOfConversation cv ph" "ph_conversationId ph = cv_conversationId cv"
  shows "snapshotEvidence cv (overlayPolicyHead r ph) = r"
proof -
  have "px_purpose r = AppendAuthorization" using part by (rule expectationPart_sel)
  with ok(2) have "pv_freshnessStatus r = Fresh" "pv_currentStatus r = Current" "pv_sendGrantInclusionStatus r = InclusionVerified"
    by (simp_all add: statusInvalidForPurpose_def)
  with part ok(1) head show ?thesis
    by (intro policyHeadProofEvidence.equality)
      (simp_all add: snapshotEvidence_def overlayPolicyHead_def expectationPart_def refreshExpectation_def orEmpty_def
        headOfConversation_def evidenceFieldsValid_def)
qed

lemma overlay_valid:
  assumes valid: "policyHeadValid ph" and ok: "parsePolicyHeadProofEvidence H v e = Inr r" "px_purpose r = AppendAuthorization"
  shows "policyHeadValid (overlayPolicyHead r ph)"
proof -
  have f: "evidenceFieldsValid r" using ok(1) evidence_fields_codec.parse_wf by (auto simp: parsePolicyHeadProofEvidence_Inr)
  then have "\<not> policyIntervalInconsistent (pv_issuedAt r) (pv_expiresAt r) (px_verifiedAt r)"
    using accepted_evidence [OF ok]
    by (simp add: policyIntervalInconsistent_def evidenceFieldsValid_def timestamp_less_iff timestamp_le_iff not_less not_le)
  with f valid show ?thesis
    by (simp add: policyHeadValid_def overlayPolicyHead_def evidenceFieldsValid_def verifiedBindingsMissing_def
        unverifiedBindingsPresent_def)
qed

lemma assertSnapshot_iff:
  "assertSnapshot H s = Inr () \<longleftrightarrow> (let cv = ss_conversation s; ph = ss_policyHead s; sg = ss_sendGrant s in
     rowsOfOneConversation s \<and> \<not> sentinelMismatch (cv_lastPosition cv) (cv_currentLogHeadHash cv)
     \<and> \<not> deliveryAnchorInvalid cv ph \<and> \<not> evaluationAnchorInvalid cv ph \<and> assertHeadEvidence H cv ph = Inr ()
     \<and> assertQuotaBindingsMatchCounters (ss_quotaBindings s) (ss_quotas s) = Inr ()
     \<and> assertQuotaSubjects H cv (ss_membership s) (ss_quotaBindings s) = Inr ()
     \<and> computeApplicationAppendQuotaPolicyDigest H (encodeRows encodeQuotaBinding (ss_quotaBindings s)) = Inr (cv_quotaPolicyDigest cv)
     \<and> (\<exists>d. computeConversationSendGrantEvidenceDigest H sg = Inr d \<and> \<not> grantDetached cv ph sg d))"
  by (auto simp: assertSnapshot_def Let_def bindE_eq_Inr guardE_eq_Inr)

lemma refresh_snapshotValid:
  assumes valid: "snapshotValid H s"
    and ok: "parsePolicyHeadProofEvidence H v (encodeExpectation
        (refreshExpectation (ss_conversation s) (ss_policyHead s) (ss_sendGrant s) (px_verifiedAt r))) = Inr r"
    and head: "headOfConversation (ss_conversation s) (ss_policyHead s)"
  shows "snapshotValid H (s\<lparr>ss_policyHead := overlayPolicyHead r (ss_policyHead s)\<rparr>)"
proof -
  let ?cv = "ss_conversation s" and ?ph = "ss_policyHead s" and ?sg = "ss_sendGrant s"
  let ?new = "overlayPolicyHead r ?ph"
  have part: "expectationPart r = refreshExpectation ?cv ?ph ?sg (px_verifiedAt r)"
    using ok parse_encodeExpectation_Inr by (auto simp: parsePolicyHeadProofEvidence_Inr)
  have fields: "evidenceFieldsValid r" "\<not> statusInvalidForPurpose r" "\<not> witnessBindingInconsistent r"
    "computePolicyHeadProofEvidenceDigest H r = Inr (pv_evidenceDigest r)"
    using ok evidence_fields_codec.parse_wf by (auto simp: parsePolicyHeadProofEvidence_Inr)
  note old = valid[unfolded snapshotValid_def assertSnapshot_iff Let_def]
  have one: "ph_conversationId ?ph = cv_conversationId ?cv"
    using old by (simp add: rowsOfOneConversation_def Let_def)
  have rows: "snapshotRowsValid (s\<lparr>ss_policyHead := ?new\<rparr>)"
    using old overlay_valid [OF _ ok expectationPart_sel(1) [OF part]] by (simp add: snapshotRowsValid_def)
  have anchors: "px_deliveryLogPosition r = ph_deliveryLogPosition ?ph" "px_deliveryLogHeadHash r = ph_deliveryLogHeadHash ?ph"
    "px_evaluationLogPosition r = cv_lastPosition ?cv" "px_evaluationLogHeadHash r = cv_currentLogHeadHash ?cv"
    "px_selectedSendGrantEvidenceDigest r = sg_grantEvidenceDigest ?sg"
    "px_selectedSendGrantInclusionEvidenceDigest r = sg_grantInclusionEvidenceDigest ?sg"
    "px_authorizedQuotaPolicyDigest r = cv_quotaPolicyDigest ?cv"
    using part by (simp_all add: expectationPart_def refreshExpectation_def)
  have "assertHeadEvidence H ?cv ?new = Inr ()"
    using overlay_evidence [OF part fields(1,2) head one] fields(4)
    by (simp add: assertHeadEvidence_def) (simp add: overlayPolicyHead_def)
  moreover have "\<not> deliveryAnchorInvalid ?cv ?new" "\<not> evaluationAnchorInvalid ?cv ?new" "rowsOfOneConversation (s\<lparr>ss_policyHead := ?new\<rparr>)"
    using old fields(3) anchors
    by (auto simp: deliveryAnchorInvalid_def evaluationAnchorInvalid_def overlayPolicyHead_def rowsOfOneConversation_def Let_def
        witnessBindingInconsistent_def)
  moreover have "\<not> grantDetached ?cv ?new ?sg d" if "\<not> grantDetached ?cv ?ph ?sg d" for d
    using that anchors by (simp add: grantDetached_def overlayPolicyHead_def)
  ultimately show ?thesis
    using rows old by (auto simp: snapshotValid_def assertSnapshot_iff Let_def)
qed

subsection \<open>Sample evidence\<close>

definition sampleEvidence :: policyHeadProofEvidence where
  "sampleEvidence = snapshotEvidence sampleConversation sampleHead"

lemma sampleEvidence_fields: "evidenceFieldsValid sampleEvidence"
  by (simp add: sampleEvidence_def snapshotEvidence_def evidenceFieldsValid_def sampleConversation_def sampleHead_def
      sampleHeadBody_def orEmpty_def sampleGrantDigest_def ZERO_HASH32_valid)

lemma sample_expectation:
  "refreshExpectation sampleConversation sampleHead sampleGrant (px_verifiedAt sampleEvidence) = expectationPart sampleEvidence"
  by (simp add: sampleEvidence_def snapshotEvidence_def refreshExpectation_def expectationPart_def sampleConversation_def
      sampleHead_def sampleHeadBody_def sampleGrant_def sampleGrantBody_def)

lemma sample_expectation_valid: "expectationValid (expectationPart sampleEvidence)"
  using sampleEvidence_fields
  by (simp add: expectationValid_def evidenceFieldsValid_def expectationPart_def)
    (simp add: sampleEvidence_def snapshotEvidence_def sentinelMismatch_def grantSentinelInvalid_def sampleConversation_def
      sampleHead_def sampleHeadBody_def sampleGrantDigest_def)

lemma sample_evidence_accepted:
  "parsePolicyHeadProofEvidence sampleHash (encodeEvidence sampleEvidence) (encodeExpectation (expectationPart sampleEvidence))
   = Inr sampleEvidence"
proof -
  have "\<not> witnessBindingInconsistent sampleEvidence" "\<not> statusInvalidForPurpose sampleEvidence"
    by (simp_all add: sampleEvidence_def snapshotEvidence_def witnessBindingInconsistent_def statusInvalidForPurpose_def
        sentinelMismatch_def sampleConversation_def sampleHead_def sampleHeadBody_def orEmpty_def sampleGrantDigest_def
        sample_before [unfolded not_le])
  moreover have "computePolicyHeadProofEvidenceDigest sampleHash sampleEvidence = Inr (pv_evidenceDigest sampleEvidence)"
    using sample_head_digest by (simp add: sampleEvidence_def snapshotEvidence_def)
  ultimately show ?thesis
    using sampleEvidence_fields sample_expectation_valid
    by (simp add: parsePolicyHeadProofEvidence_Inr evidence_fields_codec.parse_encode expectation_codec.parse_encode)
qed

subsection \<open>Properties\<close>

text \<open>
  C35. The refresh of a snapshot. When it succeeds only the policy head has changed, the result satisfies every
  condition of a snapshot, and its head is evaluated at the last entry of the conversation, witnessed under
  the current policy head and verified within a validity interval of at most five minutes.
\<close>

theorem refresh_sound:
  assumes "refreshLockedApplicationAppendAuthorizationSnapshot H v evidence = Inr s'"
    "parseLockedApplicationAppendSnapshot H v = Inr s"
  shows "s' = s\<lparr>ss_policyHead := overlayPolicyHead evidence (ss_policyHead s)\<rparr> \<and> snapshotValid H s'
    \<and> headRefreshed (ss_conversation s) (ss_policyHead s')"
  using refresh_Inr [OF assms] refresh_headRefreshed by auto

lemma sample_head_of_conversation: "headOfConversation sampleConversation sampleHead"
  by (simp add: headOfConversation_def sampleConversation_def sampleHead_def sampleHeadBody_def)

lemma refresh_accepts:
  assumes "parseLockedApplicationAppendSnapshot H v = Inr s"
    "headOfConversation (ss_conversation s) (ss_policyHead s)"
    "parsePolicyHeadProofEvidence H (encodeEvidence evidence) (encodeExpectation
       (refreshExpectation (ss_conversation s) (ss_policyHead s) (ss_sendGrant s) (px_verifiedAt evidence))) = Inr evidence"
  shows "refreshLockedApplicationAppendAuthorizationSnapshot H v evidence =
    Inr (s\<lparr>ss_policyHead := overlayPolicyHead evidence (ss_policyHead s)\<rparr>)"
  using refresh_snapshotValid [OF snapshot_codec.parse_wf [OF assms(1)] assms(3,2)] assms(1,3)
  by (simp add: refreshLockedApplicationAppendAuthorizationSnapshot_def Let_def snapshot_codec.parse_encode)

lemma sample_refresh:
  "refreshLockedApplicationAppendAuthorizationSnapshot sampleHash (encodeSnapshot sampleSnapshot) sampleEvidence =
   Inr (sampleSnapshot\<lparr>ss_policyHead := overlayPolicyHead sampleEvidence sampleHead\<rparr>)"
proof -
  have sel: "ss_conversation sampleSnapshot = sampleConversation" "ss_policyHead sampleSnapshot = sampleHead"
    "ss_sendGrant sampleSnapshot = sampleGrant"
    by (simp_all add: sampleSnapshot_def)
  show ?thesis
    using refresh_accepts [OF snapshot_codec.parse_encode [OF sampleSnapshot_valid], of sampleEvidence]
    by (simp add: sel sample_expectation sample_evidence_accepted sample_head_of_conversation)
qed

theorem refresh_sound_witness:
  "headRefreshed sampleConversation (overlayPolicyHead sampleEvidence sampleHead)"
  using refresh_sound [OF sample_refresh snapshot_codec.parse_encode [OF sampleSnapshot_valid]]
  by (simp add: sampleSnapshot_def)

text \<open>
  A refresh is never refused for a reason of its own: if the head of the snapshot is the current head of
  the conversation and the evidence is accepted for the expectation of the refresh, the refreshed snapshot
  passes every check, including the recomputation of the evidence digest from its rows.
\<close>

theorem refresh_complete:
  assumes "parseLockedApplicationAppendSnapshot H v = Inr s"
    "headOfConversation (ss_conversation s) (ss_policyHead s)"
    "parsePolicyHeadProofEvidence H (encodeEvidence evidence) (encodeExpectation
       (refreshExpectation (ss_conversation s) (ss_policyHead s) (ss_sendGrant s) (px_verifiedAt evidence))) = Inr evidence"
  shows "refreshLockedApplicationAppendAuthorizationSnapshot H v evidence =
    Inr (s\<lparr>ss_policyHead := overlayPolicyHead evidence (ss_policyHead s)\<rparr>)"
  by (rule refresh_accepts [OF assms])

text \<open>
  The snapshot digest fences every row. Two inputs with the same snapshot digest parse to the same snapshot,
  down to each counter, if SHA-256 does not collide on their two preimages.
\<close>

theorem snapshot_digest_binding:
  assumes "parseLockedApplicationAppendSnapshot H v = Inr s" "parseLockedApplicationAppendSnapshot H v' = Inr s'"
    "computeLockedApplicationAppendSnapshotDigest H v = Inr d" "computeLockedApplicationAppendSnapshotDigest H v' = Inr d"
    "inj_on H {digestPreimage LOCKED_APPLICATION_APPEND_SNAPSHOT_DIGEST_DOMAIN (snapshotDigestFields s),
       digestPreimage LOCKED_APPLICATION_APPEND_SNAPSHOT_DIGEST_DOMAIN (snapshotDigestFields s')}"
  shows "s = s'"
proof -
  have "map fieldRaw (snapshotDigestFields s) = map fieldRaw (snapshotDigestFields s')"
    using assms by (intro digestOf_binding [of H]) (simp_all add: computeLockedApplicationAppendSnapshotDigest_def)
  moreover have "snapshotRowsValid s" "snapshotRowsValid s'"
    using assms(1,2)[THEN snapshot_codec.parse_wf] by (simp_all add: snapshotValid_def)
  ultimately show ?thesis by (intro snapshotDigestFields_inj)
qed

text \<open>
  Round trip and totality. A snapshot that parses is valid, its plain-object form parses back to itself,
  and its digest exists whenever the hash function returns 32 bytes: no field is too long for the canonical
  encoding.
\<close>

theorem snapshot_roundtrip:
  assumes "parseLockedApplicationAppendSnapshot H v = Inr s" "sha256Length H"
  shows "parseLockedApplicationAppendSnapshot H (encodeSnapshot s) = Inr s
    \<and> (\<exists>d. hash32Valid d \<and> computeLockedApplicationAppendSnapshotDigest H v = Inr d
         \<and> computeLockedApplicationAppendSnapshotDigest H (encodeSnapshot s) = Inr d)"
proof -
  have valid: "snapshotValid H s" using assms(1) by (rule snapshot_codec.parse_wf)
  obtain d where "digestOf H LOCKED_APPLICATION_APPEND_SNAPSHOT_DIGEST_DOMAIN (snapshotDigestFields s) = Inr d"
    using snapshotDigest_total [OF assms(2), of s] valid by (auto simp: snapshotValid_def)
  with assms(1) valid show ?thesis
    using digestOf_Inr(4) by (simp add: computeLockedApplicationAppendSnapshotDigest_def snapshot_codec.parse_encode)
qed

text \<open>
  What accepted policy evidence says: it agrees with the expectation in every field the two share, its
  statuses are the ones its purpose demands, it is witnessed under its own policy head, does not go behind
  the prior policy head, and was verified inside its validity interval; its digest fixes all of it.
\<close>

theorem policy_evidence_sound:
  assumes "parsePolicyHeadProofEvidence H v e = Inr r" "parsePolicyHeadProofExpectation e = Inr x"
    "px_purpose x = AppendAuthorization"
  shows "expectationPart r = x \<and> pv_freshnessStatus r = Fresh \<and> pv_currentStatus r = Current
    \<and> pv_sendGrantInclusionStatus r = InclusionVerified \<and> pv_witnessedPolicyHeadHash r = px_policyHeadHash x
    \<and> bigInt (px_priorPolicyHeadSequence x) \<le> bigInt (px_policyHeadSequence x)
    \<and> dateMillis (pv_issuedAt r) \<le> dateMillis (px_verifiedAt x) \<and> dateMillis (px_verifiedAt x) < dateMillis (pv_expiresAt r)
    \<and> dateMillis (pv_expiresAt r) \<le> dateMillis (pv_issuedAt r) + 300000
    \<and> computePolicyHeadProofEvidenceDigest H r = Inr (pv_evidenceDigest r)"
proof -
  have x: "expectationPart r = x" using assms(1,2) by (simp add: parsePolicyHeadProofEvidence_Inr)
  then have purpose: "px_purpose r = AppendAuthorization" using assms(3) by (auto simp: expectationPart_def)
  show ?thesis
    using accepted_evidence [OF assms(1) purpose] assms(1) x purpose
    by (auto simp: parsePolicyHeadProofEvidence_Inr statusInvalidForPurpose_def expectationPart_def)
qed

text \<open>
  The evidence digest is binding: two accepted pieces of evidence with the same digest are equal if SHA-256
  does not collide on their preimages.
\<close>

theorem policy_evidence_binding:
  assumes "parsePolicyHeadProofEvidence H v e = Inr r" "parsePolicyHeadProofEvidence H v' e' = Inr r'"
    "pv_evidenceDigest r = pv_evidenceDigest r'"
    "inj_on H {digestPreimage POLICY_HEAD_PROOF_EVIDENCE_DIGEST_DOMAIN (evidenceDigestFields r),
       digestPreimage POLICY_HEAD_PROOF_EVIDENCE_DIGEST_DOMAIN (evidenceDigestFields r')}"
  shows "r = r'"
proof (rule evidenceDigestFields_inj)
  show "map fieldRaw (evidenceDigestFields r) = map fieldRaw (evidenceDigestFields r')"
    using assms by (intro digestOf_binding [of H])
      (simp_all add: parsePolicyHeadProofEvidence_Inr computePolicyHeadProofEvidenceDigest_def)
  show "evidenceFieldsValid r" "evidenceFieldsValid r'"
    using assms(1,2) evidence_fields_codec.parse_wf by (auto simp: parsePolicyHeadProofEvidence_Inr)
qed (rule assms(3))

text \<open>
  C36. The expiry of a pending append. The computed time is a canonical timestamp after the time of receipt, at
  most thirty seconds later, and not after the end of anything the append depends on: the policy head, the
  credential, the grant, the role credential, the signing key, and the window of every quota row; and it is
  one of these bounds.
\<close>

theorem pending_expiry_bounds:
  assumes "computeApplicationAppendPendingExpiresAt H sv (JStr admission) (JStr received) (JStr key) = Inr x"
    "parseLockedApplicationAppendSnapshot H sv = Inr s"
  shows "rfc3339Valid x \<and> dateMillis received < dateMillis x \<and> dateMillis x \<le> dateMillis received + 30000
    \<and> dateMillis x \<le> dateMillis (ph_expiresAt (ss_policyHead s)) \<and> dateMillis x \<le> dateMillis (sm_credentialExpiresAt (ss_membership s))
    \<and> dateMillis x \<le> dateMillis (sg_expiresAt (ss_sendGrant s)) \<and> dateMillis x \<le> dateMillis (sg_roleCredentialValidUntil (ss_sendGrant s))
    \<and> dateMillis x \<le> dateMillis key
    \<and> (\<forall>q\<in>set (ss_quotas s). dateMillis x \<le> dateMillis (qc_windowStartedAt q) + bigInt (qc_windowSeconds q) * 1000)
    \<and> dateMillis x \<in> set (pendingBounds s (dateMillis received) (dateMillis key))
    \<and> dateMillis admission \<le> dateMillis received \<and> dateMillis received \<le> dateMillis admission + 15000"
  using assms(1)
proof (cases rule: pendingExpires_Inr)
  case (1 s0 adm rec k)
  have same: "s0 = s" "adm = admission" "rec = received" "k = key" using 1 assms(2) by simp_all
  let ?bs = "pendingBounds s (dateMillis received) (dateMillis key)"
  have x: "dateMillis x = leastBound ?bs" using rfc3339_iso_millis 1(11,12) by (simp add: same)
  have mem: "dateMillis x \<in> set ?bs" unfolding x by (rule leastBound_mem) simp
  have le: "dateMillis x \<le> b" if "b \<in> set ?bs" for b unfolding x using that by (rule leastBound_le)
  show ?thesis
    using 1 mem le by (auto simp: same pendingBounds_def APPLICATION_APPEND_PENDING_MAX_TTL_MILLISECONDS_def)
qed

lemma sample_iso: "dateToISO 86440000 = clock 2 0 40"
proof -
  have "civilTime \<lparr>cYear = 1970, cMonth = 1, cDay = 2, cHour = 0, cMinute = 0, cSecond = 40, cMillis = 0\<rparr> = 86440000"
    by (simp add: civilTime_def civilDay_def dayFromYear_def monthStart_def leapYear_def)
  moreover have "civilValid \<lparr>cYear = 1970, cMonth = 1, cDay = 2, cHour = 0, cMinute = 0, cSecond = 40, cMillis = 0\<rparr>"
    by (simp add: civilValid_def monthStart_def leapYear_def)
  ultimately show ?thesis using dateToISO_civilTime unfolding clock_def by metis
qed

lemma sample_expiry:
  "computeApplicationAppendPendingExpiresAt sampleHash (encodeSnapshot sampleSnapshot) (JStr dayStart) (JStr receivedAt) (JStr dayEnd)
   = Inr (clock 2 0 40)"
proof -
  have bounds: "pendingBounds sampleSnapshot 86410000 172800000 =
      [86440000, 86640000, 172800000, 172800000, 172800000, 172800000, 172800000, 172800000, 172800000, 172800000, 172800000]"
    by (simp add: pendingBounds_def sampleSnapshot_def sampleHead_def sampleHeadBody_def sampleMembership_def sampleGrant_def
        sampleGrantBody_def sampleCounters_def APPLICATION_APPEND_QUOTA_SCOPES_def
        APPLICATION_APPEND_PENDING_MAX_TTL_MILLISECONDS_def)
  have least: "leastBound (pendingBounds sampleSnapshot 86410000 172800000) = 86440000"
    by (simp add: bounds leastBound_def)
  show ?thesis
    by (simp add: computeApplicationAppendPendingExpiresAt_def Let_def snapshot_codec.parse_encode parse_ok least sample_iso
        clock_time APPLICATION_APPEND_ADMISSION_MAX_AGE_MILLISECONDS_def guardE_def)
      (simp add: bounds)
qed

theorem pending_expiry_bounds_witness: "dateMillis receivedAt < dateMillis (clock 2 0 40)"
  using pending_expiry_bounds [OF sample_expiry snapshot_codec.parse_encode [OF sampleSnapshot_valid]] by blast

end
