(* ===== verification/FanoutProperties.thy ===== *)
theory FanoutProperties
  imports Samples
begin

section \<open>Properties of fan-out plans\<close>

text \<open>
  Whom a plan reaches, that it survives a round trip, and that the conversation row fixes the rows it was
  derived from.
\<close>

subsection \<open>A derived plan for the sample conversation\<close>

definition sampleFanoutInput :: fanoutInput where
  "sampleFanoutInput = \<lparr>fi_conversation = encodeConversation sampleConversation,
     fi_senderMembership = encodeMembership sampleMembership, fi_position = JStr ''2'',
     fi_authoritativeReceivedAt = JStr receivedAt, fi_recipientInstallationsMax = JStr ''5'',
     fi_mlsRosterProjections = encodeRows encodeRoster [sampleRosterRow],
     fi_recipientProjections = encodeRows encodeRecipient [sampleRecipient]\<rparr>"

definition samplePlanBody :: fanoutPlan where
  "samplePlanBody = planOf sampleConversation (cv_recipientSetHash sampleConversation) ''2'' [sampleInstallationId] ''1'' []"

definition samplePlan :: fanoutPlan where
  "samplePlan = samplePlanBody\<lparr>fp_planDigest := sampleDigest APPLICATION_APPEND_FANOUT_PLAN_DIGEST_DOMAIN (planDigestFields samplePlanBody [sampleInstallationId])\<rparr>"

lemma ordered_single [simp]: "ordered compareFn [x]" "jsSort compareFn [x] = [x]"
  by (simp_all add: ordered_def jsSort_def)

lemma sampleRecipient_valid: "recipientsValid [sampleRecipient]"
  by (simp add: recipientsValid_def recipientValid_def sampleRecipient_def removalPrecedesJoin_def)

lemma sampleRoster_valid: "rosterSetValid [sampleRosterRow]"
  by (simp add: rosterSetValid_def rosterValid_def sampleRosterRow_def)

lemma sample_rosterHash: "computeApplicationAppendMlsRosterHash localeCompare sampleHash [sampleRosterRow] = Inr (cv_rosterHash sampleConversation)"
  unfolding rosterHash_eq [OF sampleRoster_valid ordered_single(1)]
  using sample_digestOf [of "rosterDigestFields sampleRosterRow" APPLICATION_APPEND_MLS_ROSTER_DIGEST_DOMAIN]
  by (simp add: sampleConversation_def rosterDigestFields_def sampleRosterRow_def small_fields APPLICATION_APPEND_MLS_ROSTER_DIGEST_DOMAIN_def)

lemma sample_recipientSetHash:
  "computeApplicationAppendRecipientSetHash localeCompare sampleHash [sampleRecipient] = Inr (cv_recipientSetHash sampleConversation)"
  unfolding recipientSetHash_eq [OF sampleRecipient_valid ordered_single(1)]
  using sample_digestOf [of "recipientDigestFields sampleRecipient" APPLICATION_APPEND_RECIPIENT_SET_DIGEST_DOMAIN]
  by (simp add: sampleConversation_def recipientDigestFields_def sampleRecipient_def small_fields smallField_Utf8
      APPLICATION_APPEND_RECIPIENT_SET_DIGEST_DOMAIN_def)

lemma sample_planDigest: "computeApplicationAppendFanoutPlanDigest sampleHash samplePlanBody = Inr (fp_planDigest samplePlan)"
  using sample_digestOf [of "planDigestFields samplePlanBody [sampleInstallationId]" APPLICATION_APPEND_FANOUT_PLAN_DIGEST_DOMAIN]
  by (simp add: samplePlan_def computeApplicationAppendFanoutPlanDigest_def planDigestFields_def samplePlanBody_def planOf_def parse_ok
      sampleConversation_def small_fields APPLICATION_APPEND_FANOUT_PLAN_DIGEST_DOMAIN_def)

lemma showNat_one: "showNat 1 = ''1''"
  by (simp add: showNat.simps digitChar_def char_of_def bit_iff_odd)

lemma sample_plan: "deriveApplicationAppendFanoutPlan localeCompare sampleHash sampleFanoutInput = Inr samplePlan"
proof -
  have five: "positiveUint63Valid ''5''" by (simp add: positiveUint63Valid_def)
  have rows: "parseApplicationAppendRecipientProjections localeCompare (encodeRows encodeRecipient [sampleRecipient]) ''5'' = Inr [sampleRecipient]"
    "parseApplicationAppendMlsRosterProjections localeCompare (encodeRows encodeRoster [sampleRosterRow]) ''5'' = Inr [sampleRosterRow]"
    by (simp_all add: parseRecipients_encode sampleRecipient_valid parseRoster_encode sampleRoster_valid five)
  have "receivedAt < dayEnd" by (simp add: timestamp_less_iff)
  then have eligible: "eligibleRecipient [sampleRosterRow] ''2'' receivedAt sampleRecipient"
    by (simp add: eligibleRecipient_def sampleRecipient_def sampleRosterRow_def sameRecipientIdentity_def)
  have checks: "\<not> foreignRoute sampleConversation sampleRecipient" "\<not> foreignRosterRow sampleConversation sampleRosterRow"
    "\<not> lacksRoute [sampleRecipient] sampleRosterRow" "\<not> senderRouteMismatch [sampleRecipient] sampleMembership"
    "sm_conversationId sampleMembership = cv_conversationId sampleConversation" "cv_lastPosition sampleConversation = ''1''"
    by (simp_all add: foreignRoute_def foreignRosterRow_def lacksRoute_def senderRouteMismatch_def sameRecipientIdentity_def
        sampleConversation_def sampleMembership_def sampleRecipient_def sampleRosterRow_def)
  have id: "rp_installationId sampleRecipient = sampleInstallationId" by (simp add: sampleRecipient_def)
  have count: "showNat (Suc 0) = ''1''" using showNat_one by simp
  show ?thesis
    by (simp add: deriveApplicationAppendFanoutPlan_def sampleFanoutInput_def conversation_codec.parse_encode
        membership_codec.parse_encode parse_ok five rows Let_def checks eligible id count sample_rosterHash sample_recipientSetHash
        APPLICATION_APPEND_RECIPIENT_INSTALLATIONS_HARD_MAX_def guardE_def samplePlanBody_def [symmetric] sample_planDigest)
      (simp add: samplePlan_def samplePlanBody_def planOf_def)
qed

subsection \<open>Properties\<close>

text \<open>
  C34. The recipients of a derived plan are exactly the installations with a routing row that matches a row of
  the MLS roster, that had joined by the position of the append and had not been removed before it, whose
  installation and credential are active and whose credential has not expired at the time of receipt. Each is
  listed once, their number is the count of the plan, and the position is the one after the last entry. This
  holds for every locale of the host. The parser of plans accepts the derived plan unchanged if its recipients
  are in the order of their code units, and refuses it otherwise; they are in that order if the locale
  compares identifiers so.
\<close>

theorem fanout_recipients_exact:
  assumes "deriveApplicationAppendFanoutPlan localeCompare H input = Inr plan"
    "parseApplicationAppendRecipientProjections localeCompare (fi_recipientProjections input) m = Inr ps"
    "parseApplicationAppendMlsRosterProjections localeCompare (fi_mlsRosterProjections input) m = Inr ms"
    "parseLockedConversationState (fi_conversation input) = Inr cv"
    "fi_recipientInstallationsMax input = JStr m" "fi_position input = JStr position" "fi_authoritativeReceivedAt input = JStr now"
  shows "distinct (fp_recipientInstallationIds plan)
    \<and> bigInt (fp_position plan) = bigInt (cv_lastPosition cv) + 1
    \<and> bigInt (fp_recipientCount plan) = int (length (fp_recipientInstallationIds plan))
    \<and> (rid \<in> set (fp_recipientInstallationIds plan) \<longleftrightarrow> (\<exists>p\<in>set ps. rp_installationId p = rid
         \<and> (\<exists>row\<in>set ms. sameRecipientIdentity p row) \<and> bigInt (rp_joinedPosition p) \<le> bigInt position
         \<and> (\<forall>removed. rp_removedPosition p = Some removed \<longrightarrow> bigInt position \<le> bigInt removed)
         \<and> rp_installationState p = InstActive \<and> rp_credentialState p = CredActive
         \<and> dateMillis now < dateMillis (rp_credentialExpiresAt p)))
    \<and> parseApplicationAppendFanoutPlan H (encodePlan plan) m
        = (if sorted (fp_recipientInstallationIds plan) then Inr plan else Inl DeliveryStateValidationError)
    \<and> (codeUnitLocale localeCompare \<longrightarrow> sorted (fp_recipientInstallationIds plan))"
  using assms(1)
proof (cases rule: derivePlan_Inr)
  case (1 cv0 sm0 position0 now0 m0 ps0 ms0 digest)
  have same: "cv0 = cv" "position0 = position" "now0 = now" "m0 = m" using 1 assms by simp_all
  have rows: "ps0 = ps" "ms0 = ms" using 1 assms by (simp_all add: same)
  have fields: "planFields H m plan" by (rule derived_plan_fields [OF assms(1,5)])
  have ps: "recipientsValid ps" by (rule parseRecipients_Inr(1) [OF assms(2)])
  have plan: "fp_position plan = position"
    "fp_recipientInstallationIds plan = jsSort localeCompare (recipientIds ps ms position now)"
    using 1(13) by (simp_all add: planOf_def same rows)
  have now: "rfc3339Valid now" using 1(6) by (simp add: same)
  have "bigInt position = bigInt (cv_lastPosition cv) + 1" using 1(11) by (simp add: planAccepted_def same)
  moreover have "sorted (fp_recipientInstallationIds plan)" if "codeUnitLocale localeCompare"
    using codeUnit_sorted [OF that] recipientIds_distinct(3) [OF ps] by (simp add: plan)
  ultimately show ?thesis
    using fields parsePlan_fields [OF fields] recipientIds_mem [OF ps now, of rid ms position]
    by (auto simp: planFields_def plan)
qed

definition sampleLocale :: localeOrder where
  "sampleLocale left right = (if left < right then - 1 else if left = right then 0 else 1)"

theorem fanout_recipients_exact_witness:
  "codeUnitLocale sampleLocale \<and> deriveApplicationAppendFanoutPlan sampleLocale sampleHash sampleFanoutInput = Inr samplePlan
   \<and> sampleInstallationId \<in> set (fp_recipientInstallationIds samplePlan)
   \<and> parseApplicationAppendFanoutPlan sampleHash (encodePlan samplePlan) ''5'' = Inr samplePlan"
proof -
  have five: "positiveUint63Valid ''5''" by (simp add: positiveUint63Valid_def)
  have "codeUnitLocale sampleLocale" by (auto simp: codeUnitLocale_def sampleLocale_def)
  then show ?thesis
    using fanout_recipients_exact [OF sample_plan [of sampleLocale], of "''5''" "[sampleRecipient]" "[sampleRosterRow]" sampleConversation
        "''2''" receivedAt sampleInstallationId] sample_plan [of sampleLocale]
    by (simp add: sampleFanoutInput_def parseRecipients_encode sampleRecipient_valid parseRoster_encode sampleRoster_valid five
        conversation_codec.parse_encode)
      (simp add: samplePlan_def samplePlanBody_def planOf_def)
qed

text \<open>
  No member is forgotten. Every row of the MLS roster has a routing row of the same identity, and if that
  row is active, has joined and has not expired, the member is a recipient of the plan.
\<close>

theorem fanout_covers_roster:
  assumes "deriveApplicationAppendFanoutPlan localeCompare H input = Inr plan"
    "parseApplicationAppendRecipientProjections localeCompare (fi_recipientProjections input) m = Inr ps"
    "parseApplicationAppendMlsRosterProjections localeCompare (fi_mlsRosterProjections input) m = Inr ms"
    "fi_recipientInstallationsMax input = JStr m" "fi_position input = JStr position" "fi_authoritativeReceivedAt input = JStr now"
    "row \<in> set ms"
  shows "\<exists>p\<in>set ps. sameRecipientIdentity p row
    \<and> (eligibleRecipient ms position now p \<longrightarrow> mr_installationId row \<in> set (fp_recipientInstallationIds plan))"
  using assms(1)
proof (cases rule: derivePlan_Inr)
  case (1 cv0 sm0 position0 now0 m0 ps0 ms0 digest)
  have same: "position0 = position" "now0 = now" "m0 = m" using 1 assms by simp_all
  have rows: "ps0 = ps" "ms0 = ms" using 1 assms by (simp_all add: same)
  have "\<not> lacksRoute ps row" using 1(11) assms(7) by (simp add: planAccepted_def rows)
  then obtain p where p: "p \<in> set ps" "sameRecipientIdentity p row"
    by (auto simp: lacksRoute_def find_Some_iff split: option.splits intro: nth_mem)
  have "fp_recipientInstallationIds plan = jsSort localeCompare (recipientIds ps ms position now)"
    using 1(13) by (simp add: planOf_def same rows)
  then have "rp_installationId p \<in> set (fp_recipientInstallationIds plan)" if "eligibleRecipient ms position now p"
    using p(1) that by (simp add: recipientIds_def)
  moreover have "rp_installationId p = mr_installationId row" using p(2) by (simp add: sameRecipientIdentity_def)
  ultimately show ?thesis using p by auto
qed

text \<open>
  The conversation row fixes the plan. Two plans derived for the same conversation row, position and time of
  receipt are equal, whatever routing and roster rows the callers supplied: the rows must hash to the digests
  in the conversation row, so they are the same rows if SHA-256 does not collide on the two pairs of preimages
  and the hosts compare identifiers in the same consistent way.
\<close>

theorem fanout_plan_unique:
  assumes "deriveApplicationAppendFanoutPlan localeCompare H input = Inr plan" "deriveApplicationAppendFanoutPlan localeCompare H input' = Inr plan'"
    "fi_conversation input = fi_conversation input'" "fi_authoritativeReceivedAt input = fi_authoritativeReceivedAt input'"
    "fi_recipientInstallationsMax input = JStr m" "fi_recipientInstallationsMax input' = JStr m'"
    "parseApplicationAppendRecipientProjections localeCompare (fi_recipientProjections input) m = Inr ps"
    "parseApplicationAppendRecipientProjections localeCompare (fi_recipientProjections input') m' = Inr ps'"
    "parseApplicationAppendMlsRosterProjections localeCompare (fi_mlsRosterProjections input) m = Inr ms"
    "parseApplicationAppendMlsRosterProjections localeCompare (fi_mlsRosterProjections input') m' = Inr ms'"
    "inj_on H {digestPreimage APPLICATION_APPEND_RECIPIENT_SET_DIGEST_DOMAIN (concat (map recipientDigestFields ps)),
      digestPreimage APPLICATION_APPEND_RECIPIENT_SET_DIGEST_DOMAIN (concat (map recipientDigestFields ps'))}"
    "inj_on H {digestPreimage APPLICATION_APPEND_MLS_ROSTER_DIGEST_DOMAIN (concat (map rosterDigestFields ms)),
      digestPreimage APPLICATION_APPEND_MLS_ROSTER_DIGEST_DOMAIN (concat (map rosterDigestFields ms'))}"
    "localeConsistent localeCompare"
  shows "ps = ps' \<and> ms = ms' \<and> plan = plan'"
  using assms(1)
proof (cases rule: derivePlan_Inr)
  case d: (1 cv sm position now m0 ps0 ms0 digest)
  show ?thesis using assms(2)
  proof (cases rule: derivePlan_Inr)
    case d': (1 cv' sm' position' now' m0' ps0' ms0' digest')
    have same: "m0 = m" "m0' = m'" "cv' = cv" "now' = now" using d d' assms by simp_all
    have rows: "ps0 = ps" "ms0 = ms" "ps0' = ps'" "ms0' = ms'" using d d' assms by (simp_all add: same)
    note acc = d(11)[unfolded rows] d'(11)[unfolded same rows]
    have eqs: "ps = ps'" "ms = ms'"
      using plan_rows_unique [OF acc parseRecipients_Inr(1) [OF assms(7)] parseRecipients_Inr(1) [OF assms(8)]
          parseRoster_Inr(1) [OF assms(9)] parseRoster_Inr(1) [OF assms(10)]
          parseRecipients_Inr(3) [OF assms(7,13)] parseRecipients_Inr(3) [OF assms(8,13)]
          parseRoster_Inr(3) [OF assms(9,13)] parseRoster_Inr(3) [OF assms(10,13)] assms(11,12)]
      by simp_all
    have "bigInt position = bigInt position'" using acc by (simp add: planAccepted_def)
    then have "position = position'" using d(4) d'(4) uint63_eq_iff [of position position'] by (simp add: positiveUint63Valid_def)
    then have "digest = digest'" using d(12) d'(12) unfolding same rows eqs by (metis sum.inject(2))
    with eqs \<open>position = position'\<close> show ?thesis unfolding d(13) d'(13) same rows by simp
  qed
qed

subsection \<open>A plan that its own parser refuses\<close>

text \<open>
  In Danish and Norwegian collation \<open>aa\<close> is a letter after \<open>z\<close>. Under such an order, here for a leading \<open>aa\<close>, a
  conversation of two installations gets a plan that lists them against the order of their code units.
\<close>

definition danishKey :: "string \<Rightarrow> string" where
  "danishKey s = (if take 2 s = ''aa'' then CHR ''z'' # drop 2 s else s)"

definition danishLocale :: localeOrder where
  "danishLocale left right = sampleLocale (danishKey left) (danishKey right)"

definition memberId :: "char \<Rightarrow> string" where
  "memberId c = [c, c] @ ''000000-0000-4000-8000-000000000000''"

definition memberRoute :: "char \<Rightarrow> recipientProjection" where
  "memberRoute c = sampleRecipient\<lparr>rp_installationId := memberId c, rp_credentialId := memberId c\<rparr>"

definition memberRow :: "char \<Rightarrow> rosterProjection" where
  "memberRow c = sampleRosterRow\<lparr>mr_installationId := memberId c, mr_credentialId := memberId c\<rparr>"

definition pairRoutes :: "recipientProjection list" where
  "pairRoutes = [memberRoute CHR ''b'', memberRoute CHR ''a'']"

definition pairRoster :: "rosterProjection list" where
  "pairRoster = [memberRow CHR ''b'', memberRow CHR ''a'']"

definition pairConversation :: lockedConversationState where
  "pairConversation = sampleConversation\<lparr>
     cv_rosterHash := sampleDigest APPLICATION_APPEND_MLS_ROSTER_DIGEST_DOMAIN (concat (map rosterDigestFields pairRoster)),
     cv_recipientSetHash := sampleDigest APPLICATION_APPEND_RECIPIENT_SET_DIGEST_DOMAIN (concat (map recipientDigestFields pairRoutes))\<rparr>"

definition pairMembership :: lockedSenderMembership where
  "pairMembership = sampleMembership\<lparr>sm_installationId := memberId CHR ''b'', sm_credentialId := memberId CHR ''b''\<rparr>"

definition pairInput :: fanoutInput where
  "pairInput = \<lparr>fi_conversation = encodeConversation pairConversation,
     fi_senderMembership = encodeMembership pairMembership, fi_position = JStr ''2'',
     fi_authoritativeReceivedAt = JStr receivedAt, fi_recipientInstallationsMax = JStr ''5'',
     fi_mlsRosterProjections = encodeRows encodeRoster pairRoster,
     fi_recipientProjections = encodeRows encodeRecipient pairRoutes\<rparr>"

lemma memberId_valid [simp]: "uuidV4Valid (memberId CHR ''a'')" "uuidV4Valid (memberId CHR ''b'')"
  "memberId CHR ''a'' \<noteq> memberId CHR ''b''" "memberId CHR ''b'' \<noteq> memberId CHR ''a''"
  by code_simp+

lemma danish_order: "danishLocale (memberId CHR ''b'') (memberId CHR ''a'') = - 1" "\<not> sorted [memberId CHR ''b'', memberId CHR ''a'']"
  by code_simp+

lemma pair_valid: "recipientsValid pairRoutes" "rosterSetValid pairRoster"
  by (simp_all add: recipientsValid_def rosterSetValid_def pairRoutes_def pairRoster_def memberRoute_def memberRow_def
      recipientValid_def rosterValid_def sampleRecipient_def sampleRosterRow_def removalPrecedesJoin_def)

lemma pair_ordered:
  "ordered (\<lambda>left right. danishLocale (rp_installationId left) (rp_installationId right)) pairRoutes"
  "ordered (\<lambda>left right. danishLocale (mr_installationId left) (mr_installationId right)) pairRoster"
  by (simp_all add: ordered_def pairRoutes_def pairRoster_def memberRoute_def memberRow_def danish_order)

lemma pair_hashes:
  "computeApplicationAppendMlsRosterHash danishLocale sampleHash pairRoster = Inr (cv_rosterHash pairConversation)"
  "computeApplicationAppendRecipientSetHash danishLocale sampleHash pairRoutes = Inr (cv_recipientSetHash pairConversation)"
proof -
  have "list_all (smallField 256) (concat (map rosterDigestFields pairRoster))"
    by (simp add: pairRoster_def memberRow_def rosterDigestFields_def sampleRosterRow_def small_fields)
  then have "digestOf sampleHash APPLICATION_APPEND_MLS_ROSTER_DIGEST_DOMAIN (concat (map rosterDigestFields pairRoster))
      = Inr (cv_rosterHash pairConversation)"
    using sample_digestOf [of "concat (map rosterDigestFields pairRoster)" APPLICATION_APPEND_MLS_ROSTER_DIGEST_DOMAIN]
    by (simp add: pairConversation_def pairRoster_def rosterDigestFields_def APPLICATION_APPEND_MLS_ROSTER_DIGEST_DOMAIN_def)
  then show "computeApplicationAppendMlsRosterHash danishLocale sampleHash pairRoster = Inr (cv_rosterHash pairConversation)"
    by (simp add: rosterHash_eq [OF pair_valid(2) pair_ordered(2)])
  have "list_all (smallField 256) (concat (map recipientDigestFields pairRoutes))"
    by (simp add: pairRoutes_def memberRoute_def recipientDigestFields_def sampleRecipient_def small_fields smallField_Utf8)
  then have "digestOf sampleHash APPLICATION_APPEND_RECIPIENT_SET_DIGEST_DOMAIN (concat (map recipientDigestFields pairRoutes))
      = Inr (cv_recipientSetHash pairConversation)"
    using sample_digestOf [of "concat (map recipientDigestFields pairRoutes)" APPLICATION_APPEND_RECIPIENT_SET_DIGEST_DOMAIN]
    by (simp add: pairConversation_def pairRoutes_def recipientDigestFields_def APPLICATION_APPEND_RECIPIENT_SET_DIGEST_DOMAIN_def)
  then show "computeApplicationAppendRecipientSetHash danishLocale sampleHash pairRoutes = Inr (cv_recipientSetHash pairConversation)"
    by (simp add: recipientSetHash_eq [OF pair_valid(1) pair_ordered(1)])
qed

lemma pair_rows:
  "parseApplicationAppendRecipientProjections danishLocale (encodeRows encodeRecipient pairRoutes) ''5'' = Inr pairRoutes"
  "parseApplicationAppendMlsRosterProjections danishLocale (encodeRows encodeRoster pairRoster) ''5'' = Inr pairRoster"
proof -
  have five: "positiveUint63Valid ''5''" by (simp add: positiveUint63Valid_def)
  have "int (length pairRoutes) \<le> bigInt ''5''" "int (length pairRoster) \<le> bigInt ''5''"
    by (simp_all add: pairRoutes_def pairRoster_def)
  then show "parseApplicationAppendRecipientProjections danishLocale (encodeRows encodeRecipient pairRoutes) ''5'' = Inr pairRoutes"
    "parseApplicationAppendMlsRosterProjections danishLocale (encodeRows encodeRoster pairRoster) ''5'' = Inr pairRoster"
    using parseRecipients_encode [OF pair_valid(1) five, of danishLocale] parseRoster_encode [OF pair_valid(2) five, of danishLocale]
    by (simp_all add: jsSort_ordered pair_ordered)
qed

lemma pair_valid_rows: "conversationValid pairConversation" "membershipValid pairMembership"
  using sampleConversation_valid sampleMembership_valid
  by (simp_all add: pairConversation_def pairMembership_def conversationValid_def membershipValid_def)

lemma pair_eligible: "filter (eligibleRecipient pairRoster ''2'' receivedAt) pairRoutes = pairRoutes"
proof -
  have "receivedAt < dayEnd" by (simp add: timestamp_less_iff)
  then show ?thesis
    by (simp add: pairRoutes_def pairRoster_def eligibleRecipient_def memberRoute_def memberRow_def sampleRecipient_def
        sampleRosterRow_def sameRecipientIdentity_def)
qed

lemma pair_checks:
  "\<not> list_ex (foreignRoute pairConversation) pairRoutes" "\<not> list_ex (foreignRosterRow pairConversation) pairRoster"
  "\<not> list_ex (lacksRoute pairRoutes) pairRoster" "\<not> senderRouteMismatch pairRoutes pairMembership"
  "sm_conversationId pairMembership = cv_conversationId pairConversation" "cv_lastPosition pairConversation = ''1''"
  by (simp_all add: foreignRoute_def foreignRosterRow_def lacksRoute_def senderRouteMismatch_def sameRecipientIdentity_def
      pairConversation_def pairMembership_def pairRoutes_def pairRoster_def memberRoute_def memberRow_def
      sampleConversation_def sampleMembership_def sampleRecipient_def sampleRosterRow_def)

theorem danish_plan_refused:
  "\<exists>plan. deriveApplicationAppendFanoutPlan danishLocale sampleHash pairInput = Inr plan
     \<and> parseApplicationAppendFanoutPlan sampleHash (encodePlan plan) ''5'' = Inl DeliveryStateValidationError"
proof -
  let ?ids = "[memberId CHR ''b'', memberId CHR ''a'']"
  let ?body = "planOf pairConversation (cv_recipientSetHash pairConversation) ''2'' ?ids"
  have five: "positiveUint63Valid ''5''" by (simp add: positiveUint63Valid_def)
  have ids: "map rp_installationId pairRoutes = ?ids" "length pairRoutes = 2" by (simp_all add: pairRoutes_def memberRoute_def)
  have sorted: "jsSort danishLocale ?ids = ?ids" by (rule jsSort_ordered) (simp add: ordered_def danish_order)
  have hashes: "hash32Valid (cv_rosterHash pairConversation)" "hash32Valid (cv_recipientSetHash pairConversation)"
    using pair_valid_rows(1) by (simp_all add: conversationValid_def)
  have "list_all (smallField 256) (planDigestFields (?body (showNat 2) []) ?ids)"
    using hashes by (simp add: planDigestFields_def planOf_def pairConversation_def sampleConversation_def small_fields)
  then have digest: "computeApplicationAppendFanoutPlanDigest sampleHash (?body (showNat 2) [])
      = Inr (sampleDigest APPLICATION_APPEND_FANOUT_PLAN_DIGEST_DOMAIN (planDigestFields (?body (showNat 2) []) ?ids))"
    using sample_digestOf [of "planDigestFields (?body (showNat 2) []) ?ids" APPLICATION_APPEND_FANOUT_PLAN_DIGEST_DOMAIN]
    by (simp add: computeApplicationAppendFanoutPlanDigest_def planDigestFields_def planOf_def parse_ok
        APPLICATION_APPEND_FANOUT_PLAN_DIGEST_DOMAIN_def)
  have count: "parseUint63String (JStr (showNat 2)) = Inr (showNat 2)" using showNat_count [of 2] by (simp add: parse_ok)
  obtain d where plan: "deriveApplicationAppendFanoutPlan danishLocale sampleHash pairInput = Inr (?body (showNat 2) d)"
    using digest count
    by (simp add: deriveApplicationAppendFanoutPlan_def pairInput_def conversation_codec.parse_encode membership_codec.parse_encode
        pair_valid_rows parse_ok five pair_rows Let_def pair_checks pair_eligible ids sorted pair_hashes numeral_2_eq_2
        APPLICATION_APPEND_RECIPIENT_INSTALLATIONS_HARD_MAX_def guardE_def)
  have "planFields sampleHash ''5'' (?body (showNat 2) d)"
    by (rule derived_plan_fields [OF plan]) (simp add: pairInput_def)
  then have "parseApplicationAppendFanoutPlan sampleHash (encodePlan (?body (showNat 2) d)) ''5'' = Inl DeliveryStateValidationError"
    using danish_order(2) by (simp add: parsePlan_fields planOf_def)
  with plan show ?thesis by blast
qed

end
