(* ===== verification/Idempotency.thy ===== *)
theory Idempotency
  imports Hashes
begin

section \<open>Idempotent HTTP mutations\<close>

text \<open>
  The model of \<open>src/src/production/delivery/idempotency.ts\<close>: what a mutation request commits to, the
  digest of that commitment, and the classification of a retried request as a miss, an exact replay
  or a conflict.
\<close>

definition IDEMPOTENCY_REQUEST_COMMITMENT_DOMAIN :: string where
  "IDEMPOTENCY_REQUEST_COMMITMENT_DOMAIN = ''jb-msg-idempotency-request/v1''"

definition SERVICE_JSON_MEDIA_TYPE :: string where
  "SERVICE_JSON_MEDIA_TYPE = API_V1_MEDIA_TYPE"

definition MAX_IDEMPOTENCY_RAW_BODY_BYTES :: int where
  "MAX_IDEMPOTENCY_RAW_BODY_BYTES = 1024 * 1024"

subsection \<open>Routes and resources\<close>

text \<open>A path segment: a lowercase word with hyphens, or a parameter in braces.\<close>

definition isLower :: "char \<Rightarrow> bool" where
  "isLower c = (97 \<le> charCode c \<and> charCode c \<le> 122)"

definition isUpper :: "char \<Rightarrow> bool" where
  "isUpper c = (65 \<le> charCode c \<and> charCode c \<le> 90)"

definition literalSegment :: "string \<Rightarrow> bool" where
  "literalSegment s = (case s of [] \<Rightarrow> False
     | c # cs \<Rightarrow> (isLower c \<or> isDigit c) \<and> list_all (\<lambda>d. isLower d \<or> isDigit d \<or> d = CHR ''-'') cs)"

definition parameterSegment :: "string \<Rightarrow> bool" where
  "parameterSegment s = (3 \<le> length s \<and> hd s = CHR ''{'' \<and> last s = CHR ''}''
     \<and> isLower (s ! 1) \<and> list_all (\<lambda>d. isLower d \<or> isUpper d \<or> isDigit d) (butlast (drop 2 s)))"

fun splitSlash :: "string \<Rightarrow> string list" where
  "splitSlash [] = [[]]"
| "splitSlash (c # cs) =
     (if c = CHR ''/'' then [] # splitSlash cs
      else (case splitSlash cs of [] \<Rightarrow> [[c]] | s # ss \<Rightarrow> (c # s) # ss))"

definition ROUTE_TEMPLATE :: "string \<Rightarrow> bool" where
  "ROUTE_TEMPLATE s = (take 3 s = ''/v1'' \<and> (drop 3 s = [] \<or>
     (hd (drop 3 s) = CHR ''/'' \<and> list_all (\<lambda>seg. literalSegment seg \<or> parameterSegment seg)
        (splitSlash (tl (drop 3 s))))))"

definition CANONICAL_UUID :: "string \<Rightarrow> bool" where
  "CANONICAL_UUID s = (matchesShape UUID_V4 s \<or> matchesShape UUID_V7 s)"

datatype mutationMethod = POST | PUT | PATCH | DELETE

primrec mutationMethodText :: "mutationMethod \<Rightarrow> string" where
  "mutationMethodText POST = ''POST''"
| "mutationMethodText PUT = ''PUT''"
| "mutationMethodText PATCH = ''PATCH''"
| "mutationMethodText DELETE = ''DELETE''"

definition parseMutationMethod :: "jsval \<Rightarrow> mutationMethod res" where
  "parseMutationMethod v =
     (if v = JStr ''POST'' then Inr POST else if v = JStr ''PUT'' then Inr PUT
      else if v = JStr ''PATCH'' then Inr PATCH else if v = JStr ''DELETE'' then Inr DELETE
      else Inl IdempotencyValidationError)"

definition parseRouteTemplate :: "jsval \<Rightarrow> string res" where
  "parseRouteTemplate v = (case v of
     JStr s \<Rightarrow> if length s < 4 \<or> length s > 256 \<or> \<not> ROUTE_TEMPLATE s
              then Inl IdempotencyValidationError else Inr s
   | _ \<Rightarrow> Inl IdempotencyValidationError)"

definition parseCanonicalResourceId :: "jsval \<Rightarrow> string res" where
  "parseCanonicalResourceId v = (case v of
     JStr s \<Rightarrow> if s \<noteq> [] \<and> \<not> CANONICAL_UUID s then Inl IdempotencyValidationError else Inr s
   | _ \<Rightarrow> Inl IdempotencyValidationError)"

definition parseIdempotencyKeyHeader :: "jsval \<Rightarrow> string res" where
  "parseIdempotencyKeyHeader v = parseIdempotencyKey v"

subsection \<open>The commitment\<close>

text \<open>
  The fields \<open>mediaType\<close>, \<open>queryString\<close> and \<open>contentEncoding\<close> of the parsed input have one value each;
  the record keeps the five that vary.
\<close>

record idempotencyRequest =
  reqMethod :: mutationMethod
  reqRouteTemplate :: string
  reqResourceId :: string
  reqIfMatch :: string
  reqRawBodyBytes :: bytes

definition IDEMPOTENCY_KEYS :: "string list" where
  "IDEMPOTENCY_KEYS = [''method'', ''routeTemplate'', ''resourceId'', ''mediaType'', ''ifMatch'',
     ''rawBodyBytes'', ''queryString'', ''contentEncoding'']"

definition parseIdempotencyRequestCommitmentInput :: "jsval \<Rightarrow> idempotencyRequest res" where
  "parseIdempotencyRequestCommitmentInput v =
     bindE (expectExactRecord v IDEMPOTENCY_KEYS) (\<lambda>record.
     bindE (parseMutationMethod (record ''method'')) (\<lambda>method.
     bindE (parseRouteTemplate (record ''routeTemplate'')) (\<lambda>routeTemplate.
     bindE (parseCanonicalResourceId (record ''resourceId'')) (\<lambda>resourceId.
     bindE (guardE (record ''mediaType'' = JStr SERVICE_JSON_MEDIA_TYPE) IdempotencyValidationError) (\<lambda>_.
     bindE (if record ''ifMatch'' = JStr [] then Inr [] else parseConversationEtag (record ''ifMatch'')) (\<lambda>ifMatch.
     bindE (guardE (record ''queryString'' = JStr []) IdempotencyValidationError) (\<lambda>_.
     bindE (guardE (record ''contentEncoding'' = JNull) IdempotencyValidationError) (\<lambda>_.
     bindE (copyBytes MAX_IDEMPOTENCY_RAW_BODY_BYTES (record ''rawBodyBytes'')) (\<lambda>rawBodyBytes.
     Inr \<lparr>reqMethod = method, reqRouteTemplate = routeTemplate, reqResourceId = resourceId,
          reqIfMatch = ifMatch, reqRawBodyBytes = rawBodyBytes\<rparr>)))))))))"

definition requestFields :: "idempotencyRequest \<Rightarrow> digestField list" where
  "requestFields r = [Utf8 (mutationMethodText (reqMethod r)), Utf8 (reqRouteTemplate r), Utf8 (reqResourceId r),
     Utf8 SERVICE_JSON_MEDIA_TYPE, Utf8 (reqIfMatch r), RawBytes (reqRawBodyBytes r)]"

definition computeIdempotencyRequestCommitment :: "(bytes \<Rightarrow> bytes) \<Rightarrow> jsval \<Rightarrow> string res" where
  "computeIdempotencyRequestCommitment H v =
     bindE (parseIdempotencyRequestCommitmentInput v) (\<lambda>parsed.
     digestOf H IDEMPOTENCY_REQUEST_COMMITMENT_DOMAIN (requestFields parsed))"

datatype httpIdempotency = Miss | ExactReplay | Conflict

definition classifyHttpIdempotencyCommitment :: "jsval \<Rightarrow> jsval \<Rightarrow> httpIdempotency res" where
  "classifyHttpIdempotencyCommitment storedCommitment candidateCommitment =
     bindE (parseHash32 candidateCommitment) (\<lambda>candidate.
     if storedCommitment = JUndefined then Inr Miss
     else bindE (parseHash32 storedCommitment) (\<lambda>stored.
       if stored = candidate then Inr ExactReplay else Inr Conflict))"

subsection \<open>Facts\<close>

definition requestPreimage :: "idempotencyRequest \<Rightarrow> bytes" where
  "requestPreimage r = digestPreimage IDEMPOTENCY_REQUEST_COMMITMENT_DOMAIN (requestFields r)"

lemma mutationMethodText_inj: "mutationMethodText a = mutationMethodText b \<longleftrightarrow> a = b"
  by (cases a; cases b) auto

lemma requestFields_inj: "map fieldRaw (requestFields r) = map fieldRaw (requestFields r') \<Longrightarrow> r = r'"
  by (auto simp: requestFields_def mutationMethodText_inj intro!: idempotencyRequest.equality)

lemma parseMutationMethod_iff [parse_simps]:
  "parseMutationMethod v = Inr m \<longleftrightarrow> v = JStr (mutationMethodText m)"
  by (cases m) (auto simp: parseMutationMethod_def)

lemma parseRouteTemplate_iff [parse_simps]:
  "parseRouteTemplate v = Inr s \<longleftrightarrow> v = JStr s \<and> 4 \<le> length s \<and> length s \<le> 256 \<and> ROUTE_TEMPLATE s"
  by (auto simp: parseRouteTemplate_def split: jsval.splits)

lemma parseCanonicalResourceId_iff [parse_simps]:
  "parseCanonicalResourceId v = Inr s \<longleftrightarrow> v = JStr s \<and> (s = [] \<or> CANONICAL_UUID s)"
  by (auto simp: parseCanonicalResourceId_def split: jsval.splits)

definition requestValid :: "idempotencyRequest \<Rightarrow> bool" where
  "requestValid r = (4 \<le> length (reqRouteTemplate r) \<and> length (reqRouteTemplate r) \<le> 256
     \<and> ROUTE_TEMPLATE (reqRouteTemplate r) \<and> (reqResourceId r = [] \<or> CANONICAL_UUID (reqResourceId r))
     \<and> (reqIfMatch r = [] \<or> etagValid (reqIfMatch r))
     \<and> int (length (reqRawBodyBytes r)) \<le> MAX_IDEMPOTENCY_RAW_BODY_BYTES)"

definition encodeRequest :: "idempotencyRequest \<Rightarrow> jsval" where
  "encodeRequest r = mkRecord
     [(''method'', JStr (mutationMethodText (reqMethod r))), (''routeTemplate'', JStr (reqRouteTemplate r)),
      (''resourceId'', JStr (reqResourceId r)), (''mediaType'', JStr SERVICE_JSON_MEDIA_TYPE),
      (''ifMatch'', JStr (reqIfMatch r)), (''rawBodyBytes'', owned (reqRawBodyBytes r)),
      (''queryString'', JStr []), (''contentEncoding'', JNull)]"

lemma owned_defined [simp]: "owned bs \<noteq> JUndefined" "JUndefined \<noteq> owned bs"
  by (simp_all add: owned_def)

interpretation request_codec: record_codec parseIdempotencyRequestCommitmentInput encodeRequest requestValid
proof
  show "requestValid r" if "parseIdempotencyRequestCommitmentInput v = Inr r" for v r
    using that
    by (auto simp: parseIdempotencyRequestCommitmentInput_def requestValid_def res_simps parse_simps
        elim!: copyBytes_Inr_view split: if_splits)
  show "parseIdempotencyRequestCommitmentInput (encodeRequest r) = Inr r" if "requestValid r" for r
  proof -
    have "copyBytes MAX_IDEMPOTENCY_RAW_BODY_BYTES (owned (reqRawBodyBytes r)) = Inr (reqRawBodyBytes r)"
      using that copyBytes_owned(1) [of MAX_IDEMPOTENCY_RAW_BODY_BYTES "reqRawBodyBytes r"]
      by (simp add: owned_def requestValid_def MAX_IDEMPOTENCY_RAW_BODY_BYTES_def)
    with that show ?thesis
      unfolding parseIdempotencyRequestCommitmentInput_def encodeRequest_def
      by (subst expectExactRecord_mkRecord)
         (auto simp: IDEMPOTENCY_KEYS_def res_simps parse_simps requestValid_def)
  qed
qed

end
