(* ===== verification/LogProperties.thy ===== *)
theory LogProperties
  imports Samples Idempotency
begin

section \<open>Properties of envelope hashes, the head chain and request commitments\<close>

text \<open>
  Leaf hashes, the chain of log heads, checkpoints and idempotency commitments identify what they were
  computed from, as far as SHA-256 does not collide on the inputs at hand, and exist for every valid input.
\<close>

subsection \<open>The chain of log heads\<close>

text \<open>
  The head after appending envelopes with the given leaf hashes, starting from a head: the way the log grows,
  one \<open>computeLogHeadHash\<close> per append.
\<close>

fun logHead :: "(bytes \<Rightarrow> bytes) \<Rightarrow> string \<Rightarrow> string list \<Rightarrow> string res" where
  "logHead H head [] = Inr head"
| "logHead H head (leaf # leaves) = bindE (computeLogHeadHash H (JStr head) (JStr leaf)) (\<lambda>next. logHead H next leaves)"

definition headPreimage :: "string \<Rightarrow> string \<Rightarrow> bytes" where
  "headPreimage head leaf = utf8 LOG_HEAD_HASH_DOMAIN @ b64decode head @ b64decode leaf"

text \<open>Everything hashed along a chain.\<close>

fun headPreimages :: "(bytes \<Rightarrow> bytes) \<Rightarrow> string \<Rightarrow> string list \<Rightarrow> bytes set" where
  "headPreimages H head [] = {}"
| "headPreimages H head (leaf # leaves) =
     insert (headPreimage head leaf) (headPreimages H (b64encode (H (headPreimage head leaf))) leaves)"

lemma computeLogHeadHash_Inr:
  assumes "computeLogHeadHash H (JStr head) (JStr leaf) = Inr h"
  shows "hash32Valid head" "hash32Valid leaf" "h = b64encode (H (headPreimage head leaf))"
proof -
  show v: "hash32Valid head" "hash32Valid leaf"
    using assms by (auto simp: computeLogHeadHash_def bindE_eq_Inr parse_simps)
  show "h = b64encode (H (headPreimage head leaf))"
    using assms v by (auto simp: computeLogHeadHash_def bindE_eq_Inr parse_simps decodeHash32_valid sha256Bytes_iff headPreimage_def)
qed

lemma headPreimage_inj:
  assumes "hash32Valid head" "hash32Valid head'" "hash32Valid leaf" "hash32Valid leaf'"
    "headPreimage head leaf = headPreimage head' leaf'"
  shows "head = head' \<and> leaf = leaf'"
proof -
  have "length (b64decode head) = 32" "length (b64decode head') = 32"
    using assms(1,2) by (auto simp: hash32Valid_iff)
  then show ?thesis using assms b64decode_inj_hash by (simp add: headPreimage_def)
qed

lemma logHead_snoc: "logHead H head (leaves @ [leaf]) = bindE (logHead H head leaves) (\<lambda>h. computeLogHeadHash H (JStr h) (JStr leaf))"
proof (induction leaves arbitrary: head)
  case Nil
  show ?case by (cases "computeLogHeadHash H (JStr head) (JStr leaf)") simp_all
next
  case (Cons a leaves)
  then show ?case by (cases "computeLogHeadHash H (JStr head) (JStr a)") simp_all
qed

lemma logHead_preimage:
  "logHead H head (leaves @ [leaf]) = Inr h \<Longrightarrow>
   \<exists>p. logHead H head leaves = Inr p \<and> computeLogHeadHash H (JStr p) (JStr leaf) = Inr h
     \<and> headPreimage p leaf \<in> headPreimages H head (leaves @ [leaf])
     \<and> headPreimages H head leaves \<subseteq> headPreimages H head (leaves @ [leaf])"
proof (induction leaves arbitrary: head)
  case (Cons a leaves)
  then obtain n where n: "computeLogHeadHash H (JStr head) (JStr a) = Inr n" "logHead H n (leaves @ [leaf]) = Inr h"
    by (auto simp: bindE_eq_Inr)
  have "n = b64encode (H (headPreimage head a))" using computeLogHeadHash_Inr(3) [OF n(1)] .
  with Cons.IH [OF n(2)] n(1) show ?case by auto
qed (auto simp: bindE_eq_Inr)

lemma logHead_binding:
  assumes "length leaves = length leaves'" "logHead H head leaves = Inr h" "logHead H head' leaves' = Inr h"
    "hash32Valid head" "hash32Valid head'" "inj_on H (headPreimages H head leaves \<union> headPreimages H head' leaves')"
  shows "head = head' \<and> leaves = leaves'"
  using assms
proof (induction leaves leaves' arbitrary: h rule: rev_induct2)
  case (4 x xs y ys)
  obtain p where p: "logHead H head xs = Inr p" "computeLogHeadHash H (JStr p) (JStr x) = Inr h"
    "headPreimage p x \<in> headPreimages H head (xs @ [x])" "headPreimages H head xs \<subseteq> headPreimages H head (xs @ [x])"
    using logHead_preimage [OF 4(3)] by blast
  obtain q where q: "logHead H head' ys = Inr q" "computeLogHeadHash H (JStr q) (JStr y) = Inr h"
    "headPreimage q y \<in> headPreimages H head' (ys @ [y])" "headPreimages H head' ys \<subseteq> headPreimages H head' (ys @ [y])"
    using logHead_preimage [OF 4(4)] by blast
  have "H (headPreimage p x) = H (headPreimage q y)"
    using computeLogHeadHash_Inr(3) [OF p(2)] computeLogHeadHash_Inr(3) [OF q(2)] by simp
  then have "headPreimage p x = headPreimage q y"
    using 4(7) p(3) q(3) by (auto dest: inj_onD)
  then have "p = q" "x = y"
    using headPreimage_inj computeLogHeadHash_Inr(1,2) [OF p(2)] computeLogHeadHash_Inr(1,2) [OF q(2)] by blast+
  moreover have "inj_on H (headPreimages H head xs \<union> headPreimages H head' ys)"
    using 4(7) p(4) q(4) by (auto intro: inj_on_subset)
  ultimately show ?case using 4 p(1) q(1) by simp
qed simp_all

text \<open>
  The log head identifies the history. If two logs of the same length, each grown from the empty-log
  sentinel by one \<open>computeLogHeadHash\<close> per envelope, have the same head hash, their leaf hashes agree at every
  position, if SHA-256 does not collide on what was hashed along the two chains.
\<close>

theorem log_head_binds_history:
  assumes "logHead H ZERO_HASH32 leaves = Inr h" "logHead H ZERO_HASH32 leaves' = Inr h" "length leaves = length leaves'"
    "inj_on H (headPreimages H ZERO_HASH32 leaves \<union> headPreimages H ZERO_HASH32 leaves')"
  shows "leaves = leaves'"
  using logHead_binding [OF assms(3,1,2) ZERO_HASH32_valid ZERO_HASH32_valid assms(4)] by simp

lemma computeLogHeadHash_total:
  assumes "sha256Length H" "hash32Valid head" "hash32Valid leaf"
  shows "computeLogHeadHash H (JStr head) (JStr leaf) = Inr (b64encode (H (headPreimage head leaf)))"
proof -
  have "length (b64decode head) = 32" "length (b64decode leaf) = 32" using assms(2,3) by (auto simp: hash32Valid_iff)
  then show ?thesis
    using assms by (simp add: computeLogHeadHash_def parse_ok decodeHash32_valid sha256Bytes_iff sha256Length_def headPreimage_def
        LOG_HEAD_HASH_DOMAIN_def utf8_def utf8_char_def Let_def DEFAULT_MAX_BASE64URL_BYTES_def)
qed

subsection \<open>Leaves, checkpoints and commitments\<close>

text \<open>
  The leaf hash identifies the envelope. Inputs with the same leaf hash parse to the same leaf: conversation,
  position, envelope, class, sender, epoch, roster version, content type, ciphertext hash and time of receipt,
  if SHA-256 does not collide on the two preimages. The inner encoding of the two kinds of sender is covered.
\<close>

theorem leaf_hash_binding:
  assumes "computeEnvelopeLeafHash H v = Inr h" "computeEnvelopeLeafHash H v' = Inr h"
    "parseEnvelopeLeafInput v = Inr r" "parseEnvelopeLeafInput v' = Inr r'" "inj_on H {leafPreimage r, leafPreimage r'}"
  shows "r = r'"
proof (rule leafFields_inj)
  show "leafValid r" "leafValid r'" using assms(3,4) by (auto dest: leaf_codec.parse_wf)
  show "map fieldRaw (leafFields r) = map fieldRaw (leafFields r')"
    using assms by (intro digestOf_binding [of H]) (simp_all add: computeEnvelopeLeafHash_eq leafPreimage_def)
qed

definition sampleLeaf :: envelopeLeafInput where
  "sampleLeaf = \<lparr>leafConversationId = sampleConversationId, leafPosition = ''2'', leafEnvelopeId = sampleCredentialId,
     leafEnvelopeClass = Application, leafSender = InstallationSender sampleAccountId sampleInstallationId,
     leafEpoch = ''1'', leafRosterVersion = ''1'', leafContentType = MLS_PRIVATE_MESSAGE_MEDIA_TYPE,
     leafEnvelopeSha256 = hashText, leafReceivedAt = receivedAt\<rparr>"

lemma sampleLeaf_valid: "leafValid sampleLeaf"
  by (simp add: leafValid_def sampleLeaf_def requireClassSenderAndMediaType_def)

lemma small_sender: "senderValid s \<Longrightarrow> smallField 256 (RawBytes (senderFieldsRaw s))"
  using encodeEnvelopeSenderFields_valid [of s] by (intro smallField_RawBytes) simp

lemma small_envelope_texts: "smallField 256 (Utf8 (envelopeClassText c))" "smallField 256 (Utf8 (senderType s))"
  by (cases c; simp add: smallField_Utf8) (cases s; simp add: smallField_Utf8)

lemma leafFields_small: "leafValid r \<Longrightarrow> list_all (smallField 256) (leafFields r)"
  by (auto simp: leafValid_def leafFields_def small_fields small_sender small_envelope_texts smallField_Utf8 MLS_PUBLIC_MESSAGE_MEDIA_TYPE_def
      MLS_PRIVATE_MESSAGE_MEDIA_TYPE_def)

lemma leaf_hash_exists:
  assumes "sha256Length H" "parseEnvelopeLeafInput v = Inr r"
  shows "\<exists>h. computeEnvelopeLeafHash H v = Inr h \<and> hash32Valid h"
proof -
  have "\<exists>h. digestOf H ENVELOPE_LEAF_HASH_DOMAIN (leafFields r) = Inr h"
    by (rule digestOf_small [OF assms(1) leafFields_small [OF leaf_codec.parse_wf [OF assms(2)]]])
      (simp_all add: leafFields_def ENVELOPE_LEAF_HASH_DOMAIN_def)
  then show ?thesis using digestOf_Inr(4) by (auto simp: computeEnvelopeLeafHash_eq [OF assms(2)])
qed

text \<open>
  Hashing a leaf never fails once the input has parsed: the canonical encoding of every valid leaf is short
  enough, for both kinds of sender, and the result is a canonical 32-byte hash.
\<close>

theorem leaf_hash_total:
  assumes "sha256Length H"
  shows "(\<exists>h. computeEnvelopeLeafHash H v = Inr h \<and> hash32Valid h) \<longleftrightarrow> (\<exists>r. parseEnvelopeLeafInput v = Inr r)"
  using leaf_hash_exists [OF assms, of v] by (auto simp: computeEnvelopeLeafHash_def bindE_eq_Inr)

text \<open>
  A checkpoint digest identifies its checkpoint: conversation, position, previous head, head and signing key.
  An accepted checkpoint has the zero sentinel as previous head exactly at position one.
\<close>

theorem checkpoint_digest_binding:
  assumes "computeDeliveryLogCheckpointDigest H v = Inr h" "computeDeliveryLogCheckpointDigest H v' = Inr h"
    "parseDeliveryLogCheckpointInput v = Inr r" "parseDeliveryLogCheckpointInput v' = Inr r'"
    "inj_on H {checkpointPreimage r, checkpointPreimage r'}"
  shows "r = r' \<and> (cpPosition r = ''1'' \<longleftrightarrow> cpPreviousHeadHash r = ZERO_HASH32)"
proof -
  have valid: "checkpointValid r" "checkpointValid r'" using assms(3,4) by (auto dest: checkpoint_codec.parse_wf)
  have "map fieldRaw (checkpointFields r) = map fieldRaw (checkpointFields r')"
    using assms by (intro digestOf_binding [of H])
      (simp_all add: computeDeliveryLogCheckpointDigest_def checkpointPreimage_def checkpointFields_def)
  with valid have "r = r'" by (rule checkpointFields_inj)
  with valid show ?thesis by (simp add: checkpointValid_def)
qed

definition sampleCheckpoint :: deliveryLogCheckpointInput where
  "sampleCheckpoint = \<lparr>cpConversationId = sampleConversationId, cpPosition = ''1'', cpPreviousHeadHash = ZERO_HASH32,
     cpHeadHash = hashText, cpSigningKeyId = ''signer-1''\<rparr>"

lemma sampleCheckpoint_valid: "checkpointValid sampleCheckpoint"
  by (simp add: checkpointValid_def sampleCheckpoint_def ZERO_HASH32_valid)

text \<open>
  Idempotency. A retry is classified as an exact replay only if it is the same request as the stored one:
  same method, route, resource, precondition and body bytes, if SHA-256 does not collide on the two requests.
\<close>

theorem exact_replay_same_request:
  assumes "computeIdempotencyRequestCommitment H v = Inr stored" "computeIdempotencyRequestCommitment H v' = Inr candidate"
    "parseIdempotencyRequestCommitmentInput v = Inr r" "parseIdempotencyRequestCommitmentInput v' = Inr r'"
    "inj_on H {requestPreimage r, requestPreimage r'}"
  shows "classifyHttpIdempotencyCommitment (JStr stored) (JStr candidate) = Inr (if r = r' then ExactReplay else Conflict)"
proof -
  have d: "digestOf H IDEMPOTENCY_REQUEST_COMMITMENT_DOMAIN (requestFields r) = Inr stored"
    "digestOf H IDEMPOTENCY_REQUEST_COMMITMENT_DOMAIN (requestFields r') = Inr candidate"
    using assms by (simp_all add: computeIdempotencyRequestCommitment_def)
  have "r = r'" if "stored = candidate"
    using digestOf_binding [OF d(1) d(2)[folded that]] assms(5) by (intro requestFields_inj) (simp add: requestPreimage_def)
  moreover have "stored = candidate" if "r = r'" using d that by simp
  ultimately have "stored = candidate \<longleftrightarrow> r = r'" by blast
  moreover have "hash32Valid stored" "hash32Valid candidate" using d digestOf_Inr(4) by blast+
  ultimately show ?thesis by (simp add: classifyHttpIdempotencyCommitment_def parse_ok)
qed

definition sampleRequest :: idempotencyRequest where
  "sampleRequest = \<lparr>reqMethod = POST, reqRouteTemplate = ''/v1/messages'', reqResourceId = [], reqIfMatch = [], reqRawBodyBytes = [1, 2]\<rparr>"

lemma sampleRequest_valid: "requestValid sampleRequest"
  by (simp add: requestValid_def sampleRequest_def ROUTE_TEMPLATE_def literalSegment_def isLower_def
      MAX_IDEMPOTENCY_RAW_BODY_BYTES_def)

end
