(* ===== verification/ValueProperties.thy ===== *)
theory ValueProperties
  imports Samples
begin

section \<open>Properties of values at the trust boundary\<close>

text \<open>
  What the scalar and record parsers accept, that texts and values determine each other, and what an accepted
  vector of delivery limits guarantees.
\<close>

text \<open>
  Length-prefixed encodings are unambiguous: two lists of byte strings with the same canonical encoding are
  equal, so no two different field lists share a digest preimage.
\<close>

theorem length_prefixed_unambiguous:
  assumes "canonicalLengthPrefixed xs = Inr encoded" "canonicalLengthPrefixed ys = Inr encoded"
  shows "xs = ys"
  by (rule canonicalLengthPrefixed_inj [OF assms])

text \<open>
  Canonical base64url. Within the byte bounds the parser accepts exactly the encodings of byte strings,
  decoding them and encoding again gives the same text, and decoding an encoding gives the bytes: no two
  texts decode to the same bytes, and trailing bits must be zero.
\<close>

theorem base64url_canonical:
  assumes "validateByteBounds lo hi = Inr ()"
  shows "parseCanonicalBase64Url lo hi v = Inr s \<longleftrightarrow>
    (\<exists>bs. v = JStr s \<and> s = b64encode bs \<and> b64decode s = bs \<and> bs \<noteq> [] \<and> lo \<le> int (length bs) \<and> int (length bs) \<le> hi)"
  using parseCanonicalBase64Url_iff [OF assms, of v s] by (auto simp: b64Valid_iff)

text \<open>
  Comparing canonical timestamps as strings is comparing the points in time they denote, for every pair of
  timestamps that the parser accepts: the delivery code compares the texts throughout.
\<close>

theorem timestamp_string_order:
  assumes "parseRfc3339Millis v = Inr s" "parseRfc3339Millis w = Inr t"
  shows "(s < t \<longleftrightarrow> dateMillis s < dateMillis t) \<and> (s = t \<longleftrightarrow> dateMillis s = dateMillis t)"
  using assms by (simp add: parseRfc3339Millis_iff timestamp_less_iff timestamp_eq_iff [symmetric])

text \<open>
  Round trip of times: the ISO text of a time in the years 0 to 9999 is accepted by the timestamp parser and
  denotes that time again.
\<close>

theorem iso_roundtrip:
  assumes "0 \<le> yearFromDay (t div 86400000)" "yearFromDay (t div 86400000) \<le> 9999"
  shows "parseRfc3339Millis (JStr (dateToISO t)) = Inr (dateToISO t) \<and> dateMillis (dateToISO t) = t"
  using dateToISO_valid [OF assms] by (simp add: parse_ok)

text \<open>
  Entity tags. Formatting an epoch and a roster version gives a tag that the parser accepts, every accepted
  tag is of that form, and it determines the two numbers.
\<close>

theorem etag_roundtrip:
  "parseConversationEtag v = Inr tag \<longleftrightarrow>
     (\<exists>!p. v = JStr tag \<and> formatConversationEtag (fst p) (snd p) = Inr tag)"
proof
  assume "parseConversationEtag v = Inr tag"
  then obtain e r where v: "v = JStr tag" and er: "uint63Valid e" "uint63Valid r" "tag = etagText e r"
    by (auto simp: parseConversationEtag_iff etagValid_def)
  show "\<exists>!p. v = JStr tag \<and> formatConversationEtag (fst p) (snd p) = Inr tag"
    by (rule ex1I [of _ "(e, r)"]) (use v er etagText_inj in \<open>auto simp: formatConversationEtag_eq prod_eq_iff\<close>)
next
  assume "\<exists>!p. v = JStr tag \<and> formatConversationEtag (fst p) (snd p) = Inr tag"
  then show "parseConversationEtag v = Inr tag"
    by (auto simp: parseConversationEtag_iff etagValid_def formatConversationEtag_eq)
qed

text \<open>
  63-bit counters. The parser accepts exactly the decimal texts without leading zeros of the integers from
  0 to 2^63 - 1, and the text is the one that \<open>uint63FromBigInt\<close> prints: text and number determine each other.
\<close>

theorem uint63_text_number:
  "parseUint63String v = Inr s \<longleftrightarrow> (\<exists>n. 0 \<le> n \<and> n \<le> 2 ^ 63 - 1 \<and> v = JStr s \<and> uint63FromBigInt n = Inr s \<and> bigInt s = n)"
proof -
  have "uint63Valid s \<longleftrightarrow> (\<exists>n. 0 \<le> n \<and> n \<le> 2 ^ 63 - 1 \<and> uint63FromBigInt n = Inr s \<and> bigInt s = n)"
  proof
    assume v: "uint63Valid s"
    then show "\<exists>n. 0 \<le> n \<and> n \<le> 2 ^ 63 - 1 \<and> uint63FromBigInt n = Inr s \<and> bigInt s = n"
      using uint63_roundtrip [OF v] by (intro exI [of _ "bigInt s"]) (simp add: uint63FromBigInt_iff uint63Valid_def UINT63_MAX_def)
  next
    assume "\<exists>n. 0 \<le> n \<and> n \<le> 2 ^ 63 - 1 \<and> uint63FromBigInt n = Inr s \<and> bigInt s = n"
    then obtain n where "0 \<le> n" "n \<le> UINT63_MAX" "s = bigIntToString n" by (auto simp only: uint63FromBigInt_iff)
    then show "uint63Valid s" by (simp add: uint63Valid_toString)
  qed
  then show ?thesis by (auto simp: parseUint63String_iff)
qed

text \<open>
  Exact records. A value is accepted as a record with the given keys exactly when it is an ordinary object whose
  own properties are those keys and nothing else, symbols included, each an enumerable data property with a
  defined value; accessors, extra or missing keys and class instances are rejected.
\<close>

theorem exact_record_sound:
  assumes "expectExactRecord v keys = Inr get" "distinct keys"
  shows "\<exists>pr props. v = JObj pr props \<and> (pr = ObjectPrototype \<or> pr = NullPrototype)
    \<and> distinct (map fst props) \<and> set (map fst props) = KStr ` set keys
    \<and> (\<forall>k\<in>set keys. map_of props (KStr k) = Some (Data True (get k)) \<and> get k \<noteq> JUndefined)"
  using assms(1)
proof (rule expectExactRecord_shape)
  fix pr props
  assume *: "v = JObj pr props" "pr = ObjectPrototype \<or> pr = NullPrototype" "set (map fst props) = KStr ` set keys"
    "length props = length keys"
    "\<And>k. k \<in> set keys \<Longrightarrow> map_of props (KStr k) = Some (Data True (get k)) \<and> get k \<noteq> JUndefined"
  have "card (set (map fst props)) = length (map fst props)"
    using * assms(2) by (simp add: card_image inj_on_def distinct_card)
  then have "distinct (map fst props)" by (rule card_distinct)
  with * show ?thesis by blast
qed

text \<open>
  The page bound. Under accepted limits, whatever artifacts a page carries within the decoded budget and the item
  count, their base64url texts with 4095 further bytes per item and 4096 bytes of framing fit in the
  serialized response.
\<close>

theorem page_fits_response:
  assumes "parseDeliveryLimits v = Inr l" "sum_list ns \<le> bigInt (pageDecodedArtifactsMaxBytes l)"
    "int (length ns) \<le> max (bigInt (conversationEventsMaxPerPage l)) (bigInt (mailboxEntriesMaxPerPage l))"
  shows "sum_list (map (\<lambda>n. (n * 4 + 2) div 3 + 4095) ns) + 4096 \<le> bigInt (pageSerializedResponseMaxBytes l)"
  by (rule limitsValid_page_fits [OF limits_codec.parse_wf [OF assms(1)] assms(2,3)])

definition sampleLimits :: deliveryLimits where
  "sampleLimits = \<lparr>applicationCiphertextDecodedMaxBytes = ''100'', externalProposalDecodedMaxBytes = ''100'',
     mlsCommitDecodedMaxBytes = ''2'', welcomeDecodedMaxBytes = ''2'', pageDecodedArtifactsMaxBytes = ''100'',
     pageSerializedResponseMaxBytes = ''86400'', conversationEventsMaxPerPage = ''2'', mailboxEntriesMaxPerPage = ''2'',
     conversationRecipientInstallationsMax = ''2'', cursorMaxCharacters = ''100'', attachmentsMaxPerEnvelope = ''2''\<rparr>"

lemma sampleLimits_valid: "limitsValid sampleLimits"
  by (simp add: limitsValid_def sampleLimits_def limitTable_def DELIVERY_TESTED_CEILINGS_def)
    (simp add: bigInt_def readNat_def digitVal_def)

end
