(* ===== verification/NodeRuntime.thy ===== *)
theory NodeRuntime
  imports ValueObjects
begin

section \<open>Conversions of the runtime\<close>

text \<open>
  What the witness, the cursors and the persistence code use of the language and of Node: the lenient
  base64url decoder of \<open>Buffer.from(s, "base64url")\<close> on arbitrary strings, \<open>BigInt(s)\<close> on arbitrary
  strings, and hexadecimal text. On the canonical texts that the validators accept both agree with the
  strict conversions of \<open>Base64Url\<close> and \<open>DecimalText\<close>.
\<close>

subsection \<open>\<open>Buffer.from(s, "base64url")\<close>\<close>

text \<open>
  Node reads both base64 alphabets, skips every other character, and drops the bits of an incomplete
  last byte. Padding is skipped like any other character; the calls modelled here decode canonical text, in
  which nothing is skipped.
\<close>

definition urlAlphabet :: "char \<Rightarrow> char" where
  "urlAlphabet c = (if c = CHR ''+'' then CHR ''-'' else if c = CHR ''/'' then CHR ''_'' else c)"

definition bufferFromBase64url :: "string \<Rightarrow> bytes" where
  "bufferFromBase64url s = b64decode (filter b64char (map urlAlphabet s))"

lemma urlAlphabet_b64char: "b64char c \<Longrightarrow> urlAlphabet c = c"
  by (auto simp: urlAlphabet_def b64char_def Let_def)

lemma bufferFromBase64url_alphabet:
  assumes "list_all b64char s"
  shows "bufferFromBase64url s = b64decode s"
proof -
  have "map urlAlphabet s = s"
    using assms by (induction s) (auto simp: urlAlphabet_b64char)
  moreover have "filter b64char s = s"
    using assms by (induction s) auto
  ultimately show ?thesis by (simp add: bufferFromBase64url_def)
qed

lemma bufferFromBase64url_encode [simp]: "bufferFromBase64url (b64encode bs) = bs"
  by (simp add: bufferFromBase64url_alphabet)

lemma bufferFromBase64url_hash32: "hash32Valid s \<Longrightarrow> length (bufferFromBase64url s) = 32 \<and> b64encode (bufferFromBase64url s) = s"
  by (auto simp: hash32Valid_iff)

subsection \<open>\<open>BigInt(s)\<close>\<close>

text \<open>
  White space around the literal is ignored and an empty literal is zero; a sign may precede a decimal
  literal only; the prefixes \<open>0x\<close>, \<open>0o\<close> and \<open>0b\<close> select another base. Anything else is a \<open>SyntaxError\<close>.
\<close>

definition isJsSpace :: "char \<Rightarrow> bool" where
  "isJsSpace c = (charCode c \<in> {9, 10, 11, 12, 13, 32, 160})"

definition trimText :: "string \<Rightarrow> string" where
  "trimText s = rev (dropWhile isJsSpace (rev (dropWhile isJsSpace s)))"

definition digitOf :: "char \<Rightarrow> nat option" where
  "digitOf c = (let n = charCode c in
     if 48 \<le> n \<and> n \<le> 57 then Some (n - 48)
     else if 97 \<le> n \<and> n \<le> 102 then Some (n - 87)
     else if 65 \<le> n \<and> n \<le> 70 then Some (n - 55) else None)"

fun readBase :: "nat \<Rightarrow> nat \<Rightarrow> string \<Rightarrow> nat option" where
  "readBase base acc [] = Some acc"
| "readBase base acc (c # s) = (case digitOf c of
     None \<Rightarrow> None
   | Some d \<Rightarrow> if d < base then readBase base (acc * base + d) s else None)"

definition unsignedLiteral :: "nat \<Rightarrow> string \<Rightarrow> int res" where
  "unsignedLiteral base s = (if s = [] then Inl SyntaxError else
     case readBase base 0 s of None \<Rightarrow> Inl SyntaxError | Some n \<Rightarrow> Inr (int n))"

definition bigIntOfText :: "string \<Rightarrow> int res" where
  "bigIntOfText s = (let t = trimText s in
     if t = [] then Inr 0
     else if take 2 t = ''0x'' \<or> take 2 t = ''0X'' then unsignedLiteral 16 (drop 2 t)
     else if take 2 t = ''0o'' \<or> take 2 t = ''0O'' then unsignedLiteral 8 (drop 2 t)
     else if take 2 t = ''0b'' \<or> take 2 t = ''0B'' then unsignedLiteral 2 (drop 2 t)
     else if hd t = CHR ''-'' then bindE (unsignedLiteral 10 (tl t)) (\<lambda>z. Inr (- z))
     else if hd t = CHR ''+'' then unsignedLiteral 10 (tl t)
     else unsignedLiteral 10 t)"

lemma isJsSpace_digit: "isDigit c \<Longrightarrow> \<not> isJsSpace c"
  by (auto simp: isJsSpace_def isDigit_def)

lemma trimText_digits:
  assumes "list_all isDigit s"
  shows "trimText s = s"
proof -
  have "dropWhile isJsSpace t = t" if "list_all isDigit t" for t
    using that by (cases t) (auto simp: isJsSpace_digit)
  from this [of s] this [of "rev s"] assms show ?thesis
    by (simp add: trimText_def list_all_iff)
qed

lemma digitOf_digit: "isDigit c \<Longrightarrow> digitOf c = Some (digitVal c)"
  by (simp add: digitOf_def isDigit_def digitVal_def Let_def)

lemma readBase_digits:
  "list_all isDigit s \<Longrightarrow> readBase 10 acc s = Some (foldl (\<lambda>acc c. acc * 10 + digitVal c) acc s)"
  by (induction s arbitrary: acc) (auto simp: digitOf_digit digitVal_less)

lemma bigIntOfText_digits:
  assumes "s \<noteq> []" "list_all isDigit s"
  shows "bigIntOfText s = Inr (bigInt s)"
proof -
  obtain c t where s: "s = c # t" using assms(1) by (cases s) auto
  have "d \<notin> {CHR ''x'', CHR ''X'', CHR ''o'', CHR ''O'', CHR ''b'', CHR ''B'', CHR ''-'', CHR ''+''}" if "isDigit d" for d
    using that by (auto simp: isDigit_def)
  then have "take 2 s \<notin> {''0x'', ''0X'', ''0o'', ''0O'', ''0b'', ''0B''}" "hd s \<notin> {CHR ''-'', CHR ''+''}"
    using assms(2) s by (cases t; auto)+
  then show ?thesis
    using assms by (simp add: bigIntOfText_def trimText_digits unsignedLiteral_def readBase_digits bigInt_def readNat_def Let_def)
qed

lemma bigIntOfText_canonical: "canonicalDecimal s \<Longrightarrow> bigIntOfText s = Inr (bigInt s)"
  by (rule bigIntOfText_digits) (use canonicalDecimal_digits in \<open>auto simp: canonicalDecimal_def\<close>)

lemma bigIntOfText_uint63: "uint63Valid s \<Longrightarrow> bigIntOfText s = Inr (bigInt s)"
  by (simp add: uint63Valid_def bigIntOfText_canonical)

subsection \<open>Hexadecimal text and big-endian integers\<close>

definition hexDigit :: "nat \<Rightarrow> char" where
  "hexDigit n = (''0123456789abcdef'' ! n)"

definition hexText :: "bytes \<Rightarrow> string" where
  "hexText bs = concat (map (\<lambda>b. [hexDigit (unat b div 16), hexDigit (unat b mod 16)]) bs)"

lemma length_hexText [simp]: "length (hexText bs) = 2 * length bs"
  by (induction bs) (auto simp: hexText_def)

lemma isHexLower_hexDigit [simp]:
  assumes "n < 16"
  shows "isHexLower (hexDigit n)"
proof -
  have "list_all isHexLower ''0123456789abcdef''" by (simp add: isHexLower_def isDigit_def)
  moreover have "hexDigit n \<in> set ''0123456789abcdef''"
    unfolding hexDigit_def using assms by (intro nth_mem) simp
  ultimately show ?thesis unfolding list_all_iff by blast
qed

end
