(* ===== verification/WitnessCore.thy ===== *)
theory WitnessCore
  imports NodeRuntime Hashes MerkleLog
begin

section \<open>The witness\<close>

text \<open>
  Models \<open>src/src/production/witness/witnessCore.ts\<close>. The witness owns a database with three append-only
  logs; each extension is one transaction under a row lock of its namespace, so a call is one step from a
  database to the next, and an exception rolls the transaction back. The tables carry the constraints of
  \<open>src/witness/migrations/0001_witness_baseline.sql\<close>: an insert that violates a key or a check throws.

  Parameters: SHA-256, the signer, the Ed25519 verification of \<open>node:crypto\<close> (which may throw), and what
  PostgreSQL reads a text parameter as when the column is a \<open>uuid\<close>, a \<open>bigint\<close> or a \<open>timestamptz\<close>
  (microseconds). The clock of the database, in milliseconds, and the random bytes are arguments of a call.
\<close>

subsection \<open>Parameters and tables\<close>

record postgresInput =
  pg_uuid :: "string \<Rightarrow> string option"
  pg_bigint :: "string \<Rightarrow> int option"
  pg_timestamptz :: "string \<Rightarrow> int option"

record witnessContext =
  wx_sha256 :: hashfn
  wx_witnessKeyId :: string
  wx_sign :: "bytes \<Rightarrow> bytes"
  wx_verify :: "bytes \<Rightarrow> bytes \<Rightarrow> bytes \<Rightarrow> bool res"
  wx_postgres :: postgresInput

datatype witnessNamespace = DeliveryNamespace | PolicyNamespace | DirectoryNamespace

primrec namespaceText :: "witnessNamespace \<Rightarrow> string" where
  "namespaceText DeliveryNamespace = ''delivery''"
| "namespaceText PolicyNamespace = ''policy''"
| "namespaceText DirectoryNamespace = ''directory''"

record leafRow =
  lf_namespace :: witnessNamespace
  lf_treeIndex :: int
  lf_leafPayload :: bytes
  lf_leafHash :: bytes
  lf_appendedAt :: int

record checkpointRow =
  ck_checkpointId :: string
  ck_namespace :: witnessNamespace
  ck_treeSize :: int
  ck_rootHash :: bytes
  ck_witnessKeyId :: string
  ck_witnessSignature :: bytes
  ck_witnessedAt :: int

record deliveryHeadRow =
  dh_conversationId :: string
  dh_position :: int
  dh_headHash :: bytes
  dh_treeIndex :: int

record chainHeadRow =
  ch_namespace :: witnessNamespace
  ch_lastUpstreamCheckpointId :: "string option"
  ch_updatedAt :: int

record submitterKeyRow =
  sk_keyId :: string
  sk_publicKey :: bytes
  sk_validFrom :: int
  sk_validUntil :: int

record gossipRow =
  gr_reportId :: string
  gr_conversationId :: string
  gr_position :: int
  gr_headHash :: bytes
  gr_witnessCheckpointId :: string
  gr_splitView :: bool
  gr_receivedAt :: int

record witnessDb =
  wd_leaves :: "leafRow list"
  wd_checkpoints :: "checkpointRow list"
  wd_deliveryHeads :: "deliveryHeadRow list"
  wd_chainHeads :: "chainHeadRow list"
  wd_submitterKeys :: "submitterKeyRow list"
  wd_gossipReports :: "gossipRow list"

definition sqlParameter :: "(string \<Rightarrow> 'a option) \<Rightarrow> string \<Rightarrow> 'a res" where
  "sqlParameter readText s = (case readText s of None \<Rightarrow> Inl PostgresError | Some x \<Rightarrow> Inr x)"

definition bigintRange :: "int \<Rightarrow> int \<Rightarrow> bool" where
  "bigintRange low z = (low \<le> z \<and> z \<le> UINT63_MAX)"

subsection \<open>Inserts with the constraints of the schema\<close>

text \<open>
  A table is a list of its rows. An insert adds a row at the end; what is read back is selected by key or sorted
  by \<open>tree_index\<close> or \<open>tree_size\<close>, as in the queries of the source, and does not depend on the place in the list.
\<close>

definition insertLeaf :: "leafRow \<Rightarrow> witnessDb \<Rightarrow> witnessDb res" where
  "insertLeaf row db =
     (if bigintRange 0 (lf_treeIndex row) \<and> length (lf_leafPayload row) \<le> 4096 \<and> length (lf_leafHash row) = 32
         \<and> \<not> list_ex (\<lambda>r. lf_namespace r = lf_namespace row \<and> lf_treeIndex r = lf_treeIndex row) (wd_leaves db)
      then Inr (db\<lparr>wd_leaves := wd_leaves db @ [row]\<rparr>) else Inl PostgresError)"

definition insertCheckpoint :: "checkpointRow \<Rightarrow> witnessDb \<Rightarrow> witnessDb res" where
  "insertCheckpoint row db =
     (if bigintRange 1 (ck_treeSize row) \<and> length (ck_rootHash row) = 32
         \<and> 1 \<le> length (utf8 (ck_witnessKeyId row)) \<and> length (utf8 (ck_witnessKeyId row)) \<le> 64
         \<and> length (ck_witnessSignature row) = 64
         \<and> \<not> list_ex (\<lambda>r. ck_checkpointId r = ck_checkpointId row) (wd_checkpoints db)
         \<and> \<not> list_ex (\<lambda>r. ck_namespace r = ck_namespace row \<and> ck_treeSize r = ck_treeSize row) (wd_checkpoints db)
      then Inr (db\<lparr>wd_checkpoints := wd_checkpoints db @ [row]\<rparr>) else Inl PostgresError)"

definition insertDeliveryHead :: "deliveryHeadRow \<Rightarrow> witnessDb \<Rightarrow> witnessDb res" where
  "insertDeliveryHead row db =
     (if bigintRange 1 (dh_position row) \<and> length (dh_headHash row) = 32
         \<and> \<not> list_ex (\<lambda>r. dh_conversationId r = dh_conversationId row \<and> dh_position r = dh_position row) (wd_deliveryHeads db)
      then Inr (db\<lparr>wd_deliveryHeads := wd_deliveryHeads db @ [row]\<rparr>) else Inl PostgresError)"

definition insertGossipReport :: "gossipRow \<Rightarrow> witnessDb \<Rightarrow> witnessDb res" where
  "insertGossipReport row db =
     (if bigintRange 1 (gr_position row) \<and> length (gr_headHash row) = 32
         \<and> \<not> list_ex (\<lambda>r. gr_reportId r = gr_reportId row) (wd_gossipReports db)
      then Inr (db\<lparr>wd_gossipReports := wd_gossipReports db @ [row]\<rparr>) else Inl PostgresError)"

subsection \<open>Encodings\<close>

definition WITNESS_CHECKPOINT_DOMAIN :: string where
  "WITNESS_CHECKPOINT_DOMAIN = ''jb-msg-witness-checkpoint/v1''"

definition ED25519_SPKI_PREFIX :: bytes where
  "ED25519_SPKI_PREFIX = [0x30, 0x2a, 0x30, 0x05, 0x06, 0x03, 0x2b, 0x65, 0x70, 0x03, 0x21, 0x00]"

definition ZERO_HASH_32 :: bytes where
  "ZERO_HASH_32 = replicate 32 0"

text \<open>\<open>writeUInt32BE\<close> throws when the length does not fit in 32 bits.\<close>

definition lengthPrefixed :: "bytes \<Rightarrow> bytes res" where
  "lengthPrefixed bs = (if int (length bs) > U32_MAX then Inl RangeError else Inr (u32be (length bs) @ bs))"

text \<open>\<open>bytes[6] = (bytes[6] & 0x0f) | 0x40; bytes[8] = (bytes[8] & 0x3f) | 0x80\<close>, then the dashes.\<close>

definition uuidV4 :: "bytes \<Rightarrow> string" where
  "uuidV4 random =
     (let versioned = (random[6 := of_nat (unat (random ! 6) mod 16 + 64)])[8 := of_nat (unat (random ! 8) mod 64 + 128)];
          hex = hexText versioned
      in take 8 hex @ ''-'' @ take 4 (drop 8 hex) @ ''-'' @ take 4 (drop 12 hex) @ ''-'' @ take 4 (drop 16 hex) @ ''-'' @ drop 20 hex)"

definition computeWitnessCheckpointDigest ::
  "hashfn \<Rightarrow> string \<Rightarrow> string \<Rightarrow> string \<Rightarrow> bytes \<Rightarrow> string \<Rightarrow> string \<Rightarrow> bytes res" where
  "computeWitnessCheckpointDigest H namespace checkpointId treeSize rootHash witnessKeyId witnessedAt =
     bindE (mapE lengthPrefixed [utf8 namespace, utf8 checkpointId, utf8 treeSize, rootHash, utf8 witnessKeyId, utf8 witnessedAt])
       (\<lambda>parts. Inr (H (utf8 WITNESS_CHECKPOINT_DOMAIN @ concat parts)))"

definition verifyEd25519 :: "witnessContext \<Rightarrow> bytes \<Rightarrow> bytes \<Rightarrow> bytes \<Rightarrow> bool" where
  "verifyEd25519 ctx rawPublicKey message signature =
     (case wx_verify ctx (ED25519_SPKI_PREFIX @ rawPublicKey) message signature of Inl e \<Rightarrow> False | Inr valid \<Rightarrow> valid)"

subsection \<open>Helpers of a transaction\<close>

definition lockNamespace :: "witnessDb \<Rightarrow> witnessNamespace \<Rightarrow> string option res" where
  "lockNamespace db ns = (case filter (\<lambda>r. ch_namespace r = ns) (wd_chainHeads db) of
     [] \<Rightarrow> Inl TypeError | row # rows \<Rightarrow> Inr (ch_lastUpstreamCheckpointId row))"

definition loadLeafHashes :: "witnessDb \<Rightarrow> witnessNamespace \<Rightarrow> int option \<Rightarrow> bytes list" where
  "loadLeafHashes db ns limit =
     map lf_leafHash (sort_key lf_treeIndex
       (filter (\<lambda>r. lf_namespace r = ns \<and> (case limit of None \<Rightarrow> True | Some n \<Rightarrow> lf_treeIndex r < n)) (wd_leaves db)))"

record witnessCheckpoint =
  wc_checkpointId :: string
  wc_namespace :: string
  wc_treeSize :: string
  wc_rootHash :: string
  wc_witnessKeyId :: string
  wc_witnessSignature :: string
  wc_witnessedAt :: string

definition appendAndCheckpoint ::
  "witnessContext \<Rightarrow> bytes \<Rightarrow> witnessNamespace \<Rightarrow> bytes \<Rightarrow> string \<Rightarrow> witnessDb \<Rightarrow> (witnessCheckpoint \<times> int \<times> witnessDb) res" where
  "appendAndCheckpoint ctx random ns leafPayload witnessedAt db =
     (let H = wx_sha256 ctx; pg = wx_postgres ctx;
          existing = loadLeafHashes db ns None; treeIndex = int (length existing); hash = leafHash H leafPayload in
      bindE (sqlParameter (pg_bigint pg) (bigIntToString treeIndex)) (\<lambda>index.
      bindE (sqlParameter (pg_timestamptz pg) witnessedAt) (\<lambda>time.
      bindE (insertLeaf \<lparr>lf_namespace = ns, lf_treeIndex = index, lf_leafPayload = leafPayload, lf_leafHash = hash,
                         lf_appendedAt = time\<rparr> db) (\<lambda>db1.
      let treeSize = bigIntToString (treeIndex + 1); rootHash = merkleRoot H (existing @ [hash]); checkpointId = uuidV4 random in
      bindE (computeWitnessCheckpointDigest H (namespaceText ns) checkpointId treeSize rootHash (wx_witnessKeyId ctx) witnessedAt)
        (\<lambda>digest.
      let signature = wx_sign ctx digest in
      bindE (sqlParameter (pg_uuid pg) checkpointId) (\<lambda>uuid.
      bindE (sqlParameter (pg_bigint pg) treeSize) (\<lambda>size.
      bindE (insertCheckpoint \<lparr>ck_checkpointId = uuid, ck_namespace = ns, ck_treeSize = size, ck_rootHash = rootHash,
                ck_witnessKeyId = wx_witnessKeyId ctx, ck_witnessSignature = signature, ck_witnessedAt = time\<rparr> db1) (\<lambda>db2.
      Inr (\<lparr>wc_checkpointId = checkpointId, wc_namespace = namespaceText ns, wc_treeSize = treeSize,
             wc_rootHash = b64encode rootHash, wc_witnessKeyId = wx_witnessKeyId ctx,
             wc_witnessSignature = b64encode signature, wc_witnessedAt = witnessedAt\<rparr>, treeIndex, db2)))))))))"

definition checkpointFromRow :: "checkpointRow \<Rightarrow> witnessCheckpoint" where
  "checkpointFromRow row =
     \<lparr>wc_checkpointId = ck_checkpointId row, wc_namespace = namespaceText (ck_namespace row),
      wc_treeSize = bigIntToString (ck_treeSize row), wc_rootHash = b64encode (ck_rootHash row),
      wc_witnessKeyId = ck_witnessKeyId row, wc_witnessSignature = b64encode (ck_witnessSignature row),
      wc_witnessedAt = dateToISO (ck_witnessedAt row div 1000)\<rparr>"

subsection \<open>Extending the delivery log\<close>

record deliveryExtensionInput =
  xd_conversationId :: string
  xd_position :: string
  xd_previousHeadHash :: string
  xd_headHash :: string
  xd_signingKeyId :: string
  xd_signature :: string
  xd_checkpointReceivedAt :: string

datatype deliveryExtensionResult =
    DeliveryWitnessed witnessCheckpoint
  | DeliveryEquivocation string string string
  | DeliveryRejected string

definition checkpointArgument :: "deliveryExtensionInput \<Rightarrow> jsval" where
  "checkpointArgument input = mkRecord
     [(''conversationId'', JStr (xd_conversationId input)), (''position'', JStr (xd_position input)),
      (''previousHeadHash'', JStr (xd_previousHeadHash input)), (''headHash'', JStr (xd_headHash input)),
      (''signingKeyId'', JStr (xd_signingKeyId input))]"

definition submitterKeys :: "witnessDb \<Rightarrow> string \<Rightarrow> int \<Rightarrow> submitterKeyRow list" where
  "submitterKeys db keyId receivedAt =
     filter (\<lambda>k. sk_keyId k = keyId \<and> sk_validFrom k \<le> receivedAt \<and> receivedAt < sk_validUntil k) (wd_submitterKeys db)"

definition headsAt :: "witnessDb \<Rightarrow> string \<Rightarrow> int \<Rightarrow> deliveryHeadRow list" where
  "headsAt db conversationId position =
     filter (\<lambda>r. dh_conversationId r = conversationId \<and> dh_position r = position) (wd_deliveryHeads db)"

definition deliveryLeafPayload :: "deliveryExtensionInput \<Rightarrow> bytes res" where
  "deliveryLeafPayload input =
     bindE (mapE lengthPrefixed [utf8 (xd_conversationId input), utf8 (xd_position input),
              bufferFromBase64url (xd_previousHeadHash input), bufferFromBase64url (xd_headHash input),
              utf8 (xd_signingKeyId input)]) (\<lambda>parts. Inr (concat parts))"

text \<open>The part of the transaction after the submitter is authenticated.\<close>

definition extendDeliveryHead ::
  "witnessContext \<Rightarrow> bytes \<Rightarrow> string \<Rightarrow> deliveryExtensionInput \<Rightarrow> witnessDb \<Rightarrow> (deliveryExtensionResult \<times> witnessDb) res" where
  "extendDeliveryHead ctx random witnessedAt input db =
     (let pg = wx_postgres ctx in
      bindE (bigIntOfText (xd_position input)) (\<lambda>position.
      bindE (sqlParameter (pg_uuid pg) (xd_conversationId input)) (\<lambda>conversationId.
      bindE (sqlParameter (pg_bigint pg) (xd_position input)) (\<lambda>column.
      let existingAtPosition = headsAt db conversationId column in
      if length existingAtPosition = 1 then
        let witnessedHead = b64encode (dh_headHash (hd existingAtPosition)) in
        if witnessedHead = xd_headHash input then Inr (DeliveryRejected ''already-witnessed'', db)
        else Inr (DeliveryEquivocation (xd_position input) witnessedHead (xd_headHash input), db)
      else
        bindE (sqlParameter (pg_bigint pg) (bigIntToString (position - 1))) (\<lambda>before.
        let previous = headsAt db conversationId before;
            expectedPrevious = (if position = 1 then Some ZERO_HASH_32
                                else if length previous = 1 then Some (dh_headHash (hd previous)) else None) in
        if expectedPrevious \<noteq> Some (bufferFromBase64url (xd_previousHeadHash input))
        then Inr (DeliveryRejected ''not-an-extension'', db)
        else
          bindE (deliveryLeafPayload input) (\<lambda>leafPayload.
          bindE (appendAndCheckpoint ctx random DeliveryNamespace leafPayload witnessedAt db) (\<lambda>(receipt, treeIndex, db1).
          bindE (sqlParameter (pg_bigint pg) (bigIntToString treeIndex)) (\<lambda>index.
          bindE (insertDeliveryHead \<lparr>dh_conversationId = conversationId, dh_position = column,
                   dh_headHash = bufferFromBase64url (xd_headHash input), dh_treeIndex = index\<rparr> db1) (\<lambda>db2.
          Inr (DeliveryWitnessed receipt, db2)))))))))) "

definition extendDelivery ::
  "witnessContext \<Rightarrow> int \<Rightarrow> bytes \<Rightarrow> deliveryExtensionInput \<Rightarrow> witnessDb \<Rightarrow> (deliveryExtensionResult \<times> witnessDb) res" where
  "extendDelivery ctx now random input db =
     bindE (lockNamespace db DeliveryNamespace) (\<lambda>_.
     let witnessedAt = dateToISO now in
     bindE (sqlParameter (pg_timestamptz (wx_postgres ctx)) (xd_checkpointReceivedAt input)) (\<lambda>receivedAt.
     let keys = submitterKeys db (xd_signingKeyId input) receivedAt in
     if length keys \<noteq> 1 then Inr (DeliveryRejected ''submitter-key-unknown'', db)
     else
       bindE (computeDeliveryLogCheckpointDigest (wx_sha256 ctx) (checkpointArgument input)) (\<lambda>digestText.
       let digest = bufferFromBase64url digestText in
       if \<not> verifyEd25519 ctx (sk_publicKey (hd keys)) digest (bufferFromBase64url (xd_signature input))
       then Inr (DeliveryRejected ''submitter-signature-invalid'', db)
       else extendDeliveryHead ctx random witnessedAt input db)))"

subsection \<open>Extending the policy and directory logs\<close>

record chainExtensionInput =
  xc_checkpointId :: string
  xc_treeSize :: string
  xc_rootHash :: string
  xc_previousCheckpointId :: "string option"
  xc_signerKeyId :: string

datatype chainExtensionResult =
    ChainWitnessed witnessCheckpoint
  | ChainEquivocation "string option" "string option"
  | ChainRejected string

definition chainLeafPayload :: "chainExtensionInput \<Rightarrow> bytes res" where
  "chainLeafPayload input =
     bindE (mapE lengthPrefixed [utf8 (xc_checkpointId input), utf8 (xc_treeSize input),
              bufferFromBase64url (xc_rootHash input),
              utf8 (case xc_previousCheckpointId input of None \<Rightarrow> [] | Some s \<Rightarrow> s),
              utf8 (xc_signerKeyId input)]) (\<lambda>parts. Inr (concat parts))"

definition updateChainHead :: "witnessNamespace \<Rightarrow> string \<Rightarrow> int \<Rightarrow> witnessDb \<Rightarrow> witnessDb" where
  "updateChainHead ns checkpointId time db =
     db\<lparr>wd_chainHeads := map (\<lambda>r. if ch_namespace r = ns
          then r\<lparr>ch_lastUpstreamCheckpointId := Some checkpointId, ch_updatedAt := time\<rparr> else r) (wd_chainHeads db)\<rparr>"

definition extendChain ::
  "witnessContext \<Rightarrow> int \<Rightarrow> bytes \<Rightarrow> witnessNamespace \<Rightarrow> chainExtensionInput \<Rightarrow> witnessDb \<Rightarrow> (chainExtensionResult \<times> witnessDb) res" where
  "extendChain ctx now random ns input db =
     bindE (lockNamespace db ns) (\<lambda>lastUpstreamCheckpointId.
     let witnessedAt = dateToISO now; pg = wx_postgres ctx in
     if lastUpstreamCheckpointId \<noteq> xc_previousCheckpointId input
     then Inr (ChainEquivocation lastUpstreamCheckpointId (xc_previousCheckpointId input), db)
     else
       bindE (chainLeafPayload input) (\<lambda>leafPayload.
       bindE (appendAndCheckpoint ctx random ns leafPayload witnessedAt db) (\<lambda>(receipt, treeIndex, db1).
       bindE (sqlParameter (pg_uuid pg) (xc_checkpointId input)) (\<lambda>upstream.
       bindE (sqlParameter (pg_timestamptz pg) witnessedAt) (\<lambda>time.
       Inr (ChainWitnessed receipt, updateChainHead ns upstream time db1))))))"

subsection \<open>Reads, proofs and gossip\<close>

definition readCheckpoint :: "witnessContext \<Rightarrow> string \<Rightarrow> witnessDb \<Rightarrow> witnessCheckpoint option res" where
  "readCheckpoint ctx checkpointId db =
     bindE (sqlParameter (pg_uuid (wx_postgres ctx)) checkpointId) (\<lambda>uuid.
     let rows = filter (\<lambda>r. ck_checkpointId r = uuid) (wd_checkpoints db) in
     Inr (if length rows = 1 then Some (checkpointFromRow (hd rows)) else None))"

definition latestCheckpoint :: "witnessNamespace \<Rightarrow> witnessDb \<Rightarrow> witnessCheckpoint option" where
  "latestCheckpoint ns db =
     (let rows = take 1 (rev (sort_key ck_treeSize (filter (\<lambda>r. ck_namespace r = ns) (wd_checkpoints db)))) in
      if length rows = 1 then Some (checkpointFromRow (hd rows)) else None)"

definition proveConsistency ::
  "witnessContext \<Rightarrow> witnessNamespace \<Rightarrow> string \<Rightarrow> string \<Rightarrow> witnessDb \<Rightarrow> string list option res" where
  "proveConsistency ctx ns fromTreeSize toTreeSize db =
     bindE (bigIntOfText toTreeSize) (\<lambda>to.
     bindE (bigIntOfText fromTreeSize) (\<lambda>from.
     if from < 1 \<or> from > to then Inr None
     else
       bindE (sqlParameter (pg_bigint (wx_postgres ctx)) (bigIntToString to)) (\<lambda>limit.
       let hashes = loadLeafHashes db ns (Some limit) in
       if int (length hashes) \<noteq> to then Inr None
       else bindE (consistencyProof (wx_sha256 ctx) hashes from) (\<lambda>p. Inr (Some (map b64encode p))))))"

definition proveInclusion ::
  "witnessContext \<Rightarrow> witnessNamespace \<Rightarrow> string \<Rightarrow> string \<Rightarrow> witnessDb \<Rightarrow> string list option res" where
  "proveInclusion ctx ns treeIndex treeSize db =
     bindE (bigIntOfText treeSize) (\<lambda>size.
     bindE (bigIntOfText treeIndex) (\<lambda>index.
     if index < 0 \<or> index \<ge> size then Inr None
     else
       bindE (sqlParameter (pg_bigint (wx_postgres ctx)) (bigIntToString size)) (\<lambda>limit.
       let hashes = loadLeafHashes db ns (Some limit) in
       if int (length hashes) \<noteq> size then Inr None
       else bindE (inclusionProof (wx_sha256 ctx) hashes index) (\<lambda>p. Inr (Some (map b64encode p))))))"

record gossipInput =
  gi_conversationId :: string
  gi_position :: string
  gi_headHash :: string
  gi_witnessCheckpointId :: string

definition reportGossip ::
  "witnessContext \<Rightarrow> int \<Rightarrow> bytes \<Rightarrow> gossipInput \<Rightarrow> witnessDb \<Rightarrow> (bool \<times> witnessDb) res" where
  "reportGossip ctx now random input db =
     (let receivedAt = dateToISO now; pg = wx_postgres ctx in
      bindE (sqlParameter (pg_uuid pg) (gi_conversationId input)) (\<lambda>conversationId.
      bindE (sqlParameter (pg_bigint pg) (gi_position input)) (\<lambda>position.
      let rows = headsAt db conversationId position;
          splitView = (length rows = 0 \<or> b64encode (dh_headHash (hd rows)) \<noteq> gi_headHash input) in
      bindE (sqlParameter (pg_uuid pg) (uuidV4 random)) (\<lambda>reportId.
      bindE (sqlParameter (pg_uuid pg) (gi_witnessCheckpointId input)) (\<lambda>checkpointId.
      bindE (sqlParameter (pg_timestamptz pg) receivedAt) (\<lambda>time.
      bindE (insertGossipReport \<lparr>gr_reportId = reportId, gr_conversationId = conversationId, gr_position = position,
               gr_headHash = bufferFromBase64url (gi_headHash input), gr_witnessCheckpointId = checkpointId,
               gr_splitView = splitView, gr_receivedAt = time\<rparr> db) (\<lambda>db1.
      Inr (splitView, db1))))))))"

text \<open>\<open>count(*)::int\<close> throws when the count does not fit in 32 bits.\<close>

definition splitViewCount :: "witnessDb \<Rightarrow> int res" where
  "splitViewCount db =
     (let n = int (length (filter gr_splitView (wd_gossipReports db))) in
      if n < 2 ^ 31 then Inr n else Inl PostgresError)"

end
