(* ===== verification/WitnessProofs.thy ===== *)
theory WitnessProofs
  imports WitnessCore
begin

section \<open>The witness keeps its logs\<close>

text \<open>
  The invariant of the witness database: the leaves of a namespace are numbered from zero without gaps, the
  checkpoints have the sizes one to the number of leaves and each root is the Merkle root of that prefix, and
  the delivery heads of a conversation are numbered from one without gaps, each recorded in its leaf together
  with its predecessor. Every call keeps it; the tables only grow.
\<close>

subsection \<open>Hypotheses on the database server\<close>

text \<open>
  PostgreSQL reads a canonical lower-case identifier as itself, canonical digits in the range of a
  \<open>bigint\<close> as their number, and an ISO text with milliseconds as that time.
\<close>

definition readsCanonicalText :: "postgresInput \<Rightarrow> bool" where
  "readsCanonicalText pg =
     ((\<forall>s. uuidV4Valid s \<longrightarrow> pg_uuid pg s = Some s)
      \<and> (\<forall>s. canonicalDecimal s \<longrightarrow> pg_bigint pg s = (if bigInt s \<le> UINT63_MAX then Some (bigInt s) else None))
      \<and> (\<forall>s. rfc3339Valid s \<longrightarrow> pg_timestamptz pg s = Some (1000 * dateMillis s)))"

lemma sqlParameter_eq_Inr [res_simps]: "sqlParameter readText s = Inr x \<longleftrightarrow> readText s = Some x"
  by (simp add: sqlParameter_def split: option.splits)

lemma pg_bigint_canonical:
  assumes "readsCanonicalText pg"
  shows "0 \<le> z \<Longrightarrow> pg_bigint pg (bigIntToString z) = (if z \<le> UINT63_MAX then Some z else None)"
    and "pg_bigint pg (showNat n) = (if int n \<le> UINT63_MAX then Some (int n) else None)"
    and "uint63Valid s \<Longrightarrow> pg_bigint pg s = Some (bigInt s)"
  using assms by (simp_all add: readsCanonicalText_def bigIntToString_nonneg bigInt_def uint63Valid_def)

lemma pg_uuid_canonical: "readsCanonicalText pg \<Longrightarrow> uuidV4Valid s \<Longrightarrow> pg_uuid pg s = Some s"
  by (simp add: readsCanonicalText_def)

lemma pg_timestamptz_canonical:
  "readsCanonicalText pg \<Longrightarrow> rfc3339Valid s \<Longrightarrow> pg_timestamptz pg s = Some (1000 * dateMillis s)"
  by (simp add: readsCanonicalText_def)

subsection \<open>Views of the tables\<close>

definition leavesOf :: "witnessDb \<Rightarrow> witnessNamespace \<Rightarrow> leafRow list" where
  "leavesOf db ns = filter (\<lambda>r. lf_namespace r = ns) (wd_leaves db)"

definition leafHashes :: "witnessDb \<Rightarrow> witnessNamespace \<Rightarrow> bytes list" where
  "leafHashes db ns = map lf_leafHash (leavesOf db ns)"

definition checkpointsOf :: "witnessDb \<Rightarrow> witnessNamespace \<Rightarrow> checkpointRow list" where
  "checkpointsOf db ns = filter (\<lambda>r. ck_namespace r = ns) (wd_checkpoints db)"

definition headsOf :: "witnessDb \<Rightarrow> string \<Rightarrow> deliveryHeadRow list" where
  "headsOf db c = filter (\<lambda>r. dh_conversationId r = c) (wd_deliveryHeads db)"

definition numberedFrom :: "nat \<Rightarrow> ('r \<Rightarrow> int) \<Rightarrow> 'r list \<Rightarrow> bool" where
  "numberedFrom start key rows = (map key rows = map int [start..<start + length rows])"

lemma numberedFrom_Nil [simp]: "numberedFrom start key []"
  by (simp add: numberedFrom_def)

lemma numberedFrom_snoc [simp]:
  "numberedFrom start key (rows @ [r]) \<longleftrightarrow> numberedFrom start key rows \<and> key r = int (start + length rows)"
  by (auto simp: numberedFrom_def)

lemma numberedFrom_nth: "numberedFrom start key rows \<Longrightarrow> i < length rows \<Longrightarrow> key (rows ! i) = int (start + i)"
proof -
  assume "numberedFrom start key rows" "i < length rows"
  then have "map key rows ! i = map int [start..<start + length rows] ! i" by (simp add: numberedFrom_def)
  with \<open>i < length rows\<close> show ?thesis by simp
qed

lemma sorted_map_int: "sorted (map int [m..<n])"
  by (induction n) (auto simp: sorted_append)

lemma numberedFrom_sort_key: "numberedFrom start key rows \<Longrightarrow> sort_key key rows = rows"
  by (rule sort_key_id_if_sorted) (simp add: numberedFrom_def sorted_map_int)

lemma numberedFrom_filter_less:
  "numberedFrom start key rows \<Longrightarrow> filter (\<lambda>r. key r < int start + n) rows = take (nat n) rows"
proof (induction rows rule: rev_induct)
  case (snoc r rows)
  then have eq: "filter (\<lambda>r. key r < int start + n) rows = take (nat n) rows" "key r = int (start + length rows)" by simp_all
  show ?case
  proof (cases "int (length rows) < n")
    case True
    then have "length rows < nat n" by linarith
    with eq True show ?thesis by simp
  next
    case False
    then have "nat n \<le> length rows" by linarith
    with eq False show ?thesis by simp
  qed
qed simp

lemma numberedFrom_filter_eq:
  "numberedFrom start key rows \<Longrightarrow>
   filter (\<lambda>r. key r = int start + int i) rows = (if i < length rows then [rows ! i] else [])"
proof (induction rows rule: rev_induct)
  case (snoc r rows)
  then show ?case by (auto simp: nth_append less_Suc_eq)
qed simp

lemma numberedFrom_filter_other:
  assumes "numberedFrom start key rows" "n < int start"
  shows "filter (\<lambda>r. key r = n) rows = []"
  using assms by (induction rows rule: rev_induct) auto

subsection \<open>The invariant of one log\<close>

definition logInv :: "hashfn \<Rightarrow> witnessDb \<Rightarrow> witnessNamespace \<Rightarrow> bool" where
  "logInv H db ns =
     (numberedFrom 0 lf_treeIndex (leavesOf db ns)
      \<and> (\<forall>r\<in>set (leavesOf db ns). lf_leafHash r = leafHash H (lf_leafPayload r) \<and> length (lf_leafHash r) = 32)
      \<and> numberedFrom 1 ck_treeSize (checkpointsOf db ns)
      \<and> map ck_rootHash (checkpointsOf db ns) = map (\<lambda>n. merkleRoot H (take n (leafHashes db ns))) [1..<Suc (length (leafHashes db ns))])"

lemma length_leafHashes [simp]: "length (leafHashes db ns) = length (leavesOf db ns)"
  by (simp add: leafHashes_def)

lemma logInv_length_checkpoints: "logInv H db ns \<Longrightarrow> length (checkpointsOf db ns) = length (leavesOf db ns)"
  unfolding logInv_def by (metis length_map length_upt diff_Suc_1 length_leafHashes)

lemma logInvD:
  assumes "logInv H db ns"
  shows "numberedFrom 0 lf_treeIndex (leavesOf db ns)" "numberedFrom 1 ck_treeSize (checkpointsOf db ns)"
    "r \<in> set (leavesOf db ns) \<Longrightarrow> lf_leafHash r = leafHash H (lf_leafPayload r) \<and> length (lf_leafHash r) = 32"
  using assms unfolding logInv_def by blast+

lemma loadLeafHashes_all: "logInv H db ns \<Longrightarrow> loadLeafHashes db ns None = leafHashes db ns"
  using numberedFrom_sort_key [OF logInvD(1)]
  by (simp add: loadLeafHashes_def leafHashes_def leavesOf_def)

lemma loadLeafHashes_limit:
  assumes "logInv H db ns"
  shows "loadLeafHashes db ns (Some n) = take (nat n) (leafHashes db ns)"
proof -
  have num: "numberedFrom 0 lf_treeIndex (leavesOf db ns)" using assms by (simp add: logInv_def)
  have "filter (\<lambda>r. lf_namespace r = ns \<and> lf_treeIndex r < n) (wd_leaves db)
      = filter (\<lambda>r. lf_treeIndex r < n) (leavesOf db ns)"
    by (simp add: leavesOf_def conj_commute)
  also have "\<dots> = take (nat n) (leavesOf db ns)"
    using numberedFrom_filter_less [OF num, of n] by simp
  moreover have "sort_key lf_treeIndex (take (nat n) (leavesOf db ns)) = take (nat n) (leavesOf db ns)"
    by (rule sort_key_id_if_sorted)
      (use num in \<open>simp add: numberedFrom_def take_map [symmetric] sorted_map_int\<close>)
  ultimately show ?thesis by (simp add: loadLeafHashes_def leafHashes_def take_map)
qed

lemma checkpoint_root:
  assumes "logInv H db ns" "r \<in> set (wd_checkpoints db)" "ck_namespace r = ns"
  shows "1 \<le> ck_treeSize r" "ck_treeSize r \<le> int (length (leafHashes db ns))"
    "ck_rootHash r = merkleRoot H (take (nat (ck_treeSize r)) (leafHashes db ns))"
proof -
  have "r \<in> set (checkpointsOf db ns)" using assms by (simp add: checkpointsOf_def)
  then obtain i where i: "i < length (checkpointsOf db ns)" "r = checkpointsOf db ns ! i"
    by (auto simp: in_set_conv_nth)
  have len: "length (checkpointsOf db ns) = length (leafHashes db ns)"
    using logInv_length_checkpoints [OF assms(1)] by simp
  have size: "ck_treeSize r = int (1 + i)"
    using assms(1) i by (auto simp: logInv_def dest: numberedFrom_nth)
  with i len show "1 \<le> ck_treeSize r" "ck_treeSize r \<le> int (length (leafHashes db ns))" by auto
  have "ck_rootHash r = map ck_rootHash (checkpointsOf db ns) ! i" using i by simp
  also have "\<dots> = map (\<lambda>n. merkleRoot H (take n (leafHashes db ns))) [1..<Suc (length (leafHashes db ns))] ! i"
    using assms(1) by (simp add: logInv_def)
  also have "\<dots> = merkleRoot H (take (Suc i) (leafHashes db ns))"
    using i len by (simp del: upt_Suc)
  finally show "ck_rootHash r = merkleRoot H (take (nat (ck_treeSize r)) (leafHashes db ns))"
    by (simp only: size nat_int plus_1_eq_Suc)
qed

lemma checkpoint_exists:
  assumes "logInv H db ns" "1 \<le> n" "n \<le> length (leavesOf db ns)"
  shows "\<exists>r\<in>set (wd_checkpoints db). ck_namespace r = ns \<and> ck_treeSize r = int n"
proof -
  let ?r = "checkpointsOf db ns ! (n - 1)"
  have "n - 1 < length (checkpointsOf db ns)" using assms logInv_length_checkpoints [OF assms(1)] by simp
  then have "?r \<in> set (checkpointsOf db ns)" "ck_treeSize ?r = int (1 + (n - 1))"
    using assms(1) by (auto simp: logInv_def dest: numberedFrom_nth)
  with assms(2) show ?thesis by (auto simp: checkpointsOf_def)
qed

lemma checkpoint_unique:
  assumes "logInv H db ns" "r \<in> set (wd_checkpoints db)" "r' \<in> set (wd_checkpoints db)"
    "ck_namespace r = ns" "ck_namespace r' = ns" "ck_treeSize r = ck_treeSize r'"
  shows "r = r'"
proof -
  have "r \<in> set (checkpointsOf db ns)" "r' \<in> set (checkpointsOf db ns)" using assms(2-5) by (simp_all add: checkpointsOf_def)
  then obtain i j where "i < length (checkpointsOf db ns)" "r = checkpointsOf db ns ! i"
      "j < length (checkpointsOf db ns)" "r' = checkpointsOf db ns ! j"
    by (auto simp: in_set_conv_nth)
  with numberedFrom_nth [OF logInvD(2) [OF assms(1)], of i] numberedFrom_nth [OF logInvD(2) [OF assms(1)], of j] assms(6)
  show ?thesis by simp
qed

subsection \<open>Appending a leaf\<close>

lemma appendAndCheckpoint_Inr:
  assumes "appendAndCheckpoint ctx random ns payload witnessedAt db = Inr (receipt, treeIndex, db')"
    "readsCanonicalText (wx_postgres ctx)" "logInv (wx_sha256 ctx) db ns"
  obtains time uuid digest where
    "pg_timestamptz (wx_postgres ctx) witnessedAt = Some time"
    "pg_uuid (wx_postgres ctx) (uuidV4 random) = Some uuid"
    "treeIndex = int (length (leavesOf db ns))"
    "length (leafHash (wx_sha256 ctx) payload) = 32"
    "\<not> list_ex (\<lambda>r. ck_checkpointId r = uuid) (wd_checkpoints db)"
    "db' = db\<lparr>wd_leaves := wd_leaves db @ [\<lparr>lf_namespace = ns, lf_treeIndex = treeIndex, lf_leafPayload = payload,
                 lf_leafHash = leafHash (wx_sha256 ctx) payload, lf_appendedAt = time\<rparr>],
             wd_checkpoints := wd_checkpoints db @ [\<lparr>ck_checkpointId = uuid, ck_namespace = ns, ck_treeSize = treeIndex + 1,
                 ck_rootHash = merkleRoot (wx_sha256 ctx) (leafHashes db ns @ [leafHash (wx_sha256 ctx) payload]),
                 ck_witnessKeyId = wx_witnessKeyId ctx, ck_witnessSignature = wx_sign ctx digest, ck_witnessedAt = time\<rparr>]\<rparr>"
    "computeWitnessCheckpointDigest (wx_sha256 ctx) (namespaceText ns) (uuidV4 random) (bigIntToString (treeIndex + 1))
       (merkleRoot (wx_sha256 ctx) (leafHashes db ns @ [leafHash (wx_sha256 ctx) payload])) (wx_witnessKeyId ctx) witnessedAt = Inr digest"
    "receipt = \<lparr>wc_checkpointId = uuidV4 random, wc_namespace = namespaceText ns, wc_treeSize = bigIntToString (treeIndex + 1),
       wc_rootHash = b64encode (merkleRoot (wx_sha256 ctx) (leafHashes db ns @ [leafHash (wx_sha256 ctx) payload])),
       wc_witnessKeyId = wx_witnessKeyId ctx, wc_witnessSignature = b64encode (wx_sign ctx digest), wc_witnessedAt = witnessedAt\<rparr>"
proof -
  from assms(1) show thesis
    unfolding appendAndCheckpoint_def loadLeafHashes_all [OF assms(3)] length_leafHashes Let_def
    by (elim bindE_InrE, intro that)
      (auto simp: sqlParameter_eq_Inr pg_bigint_canonical [OF assms(2)] insertLeaf_def insertCheckpoint_def split: if_splits)
qed

lemma appendAndCheckpoint_index:
  "appendAndCheckpoint ctx random ns payload witnessedAt db = Inr (receipt, treeIndex, db') \<Longrightarrow> 0 \<le> treeIndex"
  by (auto simp: appendAndCheckpoint_def Let_def bindE_eq_Inr)

lemma logInv_append:
  assumes "appendAndCheckpoint ctx random ns payload witnessedAt db = Inr (receipt, treeIndex, db')"
    "readsCanonicalText (wx_postgres ctx)" "logInv (wx_sha256 ctx) db ns"
  shows "logInv (wx_sha256 ctx) db' ns"
    and "ns' \<noteq> ns \<Longrightarrow> logInv (wx_sha256 ctx) db ns' \<Longrightarrow> logInv (wx_sha256 ctx) db' ns'"
proof -
  let ?H = "wx_sha256 ctx"
  let ?h = "leafHash ?H payload"
  from assms obtain time uuid digest where
    len: "length ?h = 32" and ti: "treeIndex = int (length (leavesOf db ns))" and
    db': "db' = db\<lparr>wd_leaves := wd_leaves db @ [\<lparr>lf_namespace = ns, lf_treeIndex = treeIndex, lf_leafPayload = payload,
                 lf_leafHash = ?h, lf_appendedAt = time\<rparr>],
             wd_checkpoints := wd_checkpoints db @ [\<lparr>ck_checkpointId = uuid, ck_namespace = ns, ck_treeSize = treeIndex + 1,
                 ck_rootHash = merkleRoot ?H (leafHashes db ns @ [?h]),
                 ck_witnessKeyId = wx_witnessKeyId ctx, ck_witnessSignature = wx_sign ctx digest, ck_witnessedAt = time\<rparr>]\<rparr>"
    by (rule appendAndCheckpoint_Inr)
  have leaves: "leafHashes db' ns = leafHashes db ns @ [?h]" by (simp add: db' leafHashes_def leavesOf_def)
  have roots: "map (\<lambda>n. merkleRoot ?H (take n (leafHashes db ns @ [?h]))) [1..<Suc (length (leafHashes db ns))]
      = map (\<lambda>n. merkleRoot ?H (take n (leafHashes db ns))) [1..<Suc (length (leafHashes db ns))]"
    by (rule map_cong) auto
  show "logInv ?H db' ns"
    using assms(3) len logInv_length_checkpoints [OF assms(3)] roots unfolding logInv_def leaves
    by (auto simp: db' ti leavesOf_def checkpointsOf_def simp del: upt_Suc simp add: upt_Suc_append)
  assume ns': "ns' \<noteq> ns" and inv: "logInv ?H db ns'"
  then have "leavesOf db' ns' = leavesOf db ns'" "checkpointsOf db' ns' = checkpointsOf db ns'"
    by (simp_all add: db' leavesOf_def checkpointsOf_def)
  with inv show "logInv ?H db' ns'" unfolding logInv_def leafHashes_def by metis
qed

subsection \<open>Delivery heads\<close>

definition headPayload :: "string \<Rightarrow> int \<Rightarrow> bytes \<Rightarrow> bytes \<Rightarrow> string \<Rightarrow> bytes" where
  "headPayload c position previous head keyId =
     concat (map lp [utf8 c, utf8 (bigIntToString position), previous, head, utf8 keyId])"

definition witnessHeads :: "witnessDb \<Rightarrow> string \<Rightarrow> bytes list" where
  "witnessHeads db c = map dh_headHash (headsOf db c)"

definition headBefore :: "bytes list \<Rightarrow> nat \<Rightarrow> bytes" where
  "headBefore heads i = (if i = 0 then ZERO_HASH_32 else heads ! (i - 1))"

definition deliveryInv :: "witnessDb \<Rightarrow> bool" where
  "deliveryInv db =
     (numberedFrom 0 dh_treeIndex (wd_deliveryHeads db)
      \<and> length (wd_deliveryHeads db) = length (leavesOf db DeliveryNamespace)
      \<and> (\<forall>c. numberedFrom 1 dh_position (headsOf db c))
      \<and> (\<forall>j < length (wd_deliveryHeads db). \<exists>keyId.
           lf_leafPayload (leavesOf db DeliveryNamespace ! j) =
             (let r = wd_deliveryHeads db ! j; c = dh_conversationId r in
              headPayload c (dh_position r) (headBefore (witnessHeads db c) (nat (dh_position r) - 1)) (dh_headHash r) keyId)))"

lemma deliveryInvD:
  assumes "deliveryInv db"
  shows "numberedFrom 0 dh_treeIndex (wd_deliveryHeads db)"
    "length (wd_deliveryHeads db) = length (leavesOf db DeliveryNamespace)"
    "numberedFrom 1 dh_position (headsOf db c)"
  using assms unfolding deliveryInv_def by blast+

lemma length_witnessHeads [simp]: "length (witnessHeads db c) = length (headsOf db c)"
  by (simp add: witnessHeads_def)

lemma headsAt_headsOf: "headsAt db c p = filter (\<lambda>r. dh_position r = p) (headsOf db c)"
  by (simp add: headsAt_def headsOf_def conj_commute)

lemma headsAt_Suc:
  assumes "deliveryInv db"
  shows "headsAt db c (int (Suc i)) = (if i < length (headsOf db c) then [headsOf db c ! i] else [])"
  using numberedFrom_filter_eq [OF deliveryInvD(3) [OF assms], of i c] by (simp add: headsAt_headsOf)

lemma headsAt_zero: "deliveryInv db \<Longrightarrow> headsAt db c 0 = []"
  using numberedFrom_filter_other [OF deliveryInvD(3), of db 0 c] by (simp add: headsAt_headsOf)

lemma head_position_bound:
  assumes "deliveryInv db" "r \<in> set (wd_deliveryHeads db)"
  shows "1 \<le> dh_position r" "nat (dh_position r) \<le> length (headsOf db (dh_conversationId r))"
proof -
  have "r \<in> set (headsOf db (dh_conversationId r))" using assms(2) by (simp add: headsOf_def)
  then obtain i where "i < length (headsOf db (dh_conversationId r))" "r = headsOf db (dh_conversationId r) ! i"
    by (auto simp: in_set_conv_nth)
  then show "1 \<le> dh_position r" "nat (dh_position r) \<le> length (headsOf db (dh_conversationId r))"
    using numberedFrom_nth [OF deliveryInvD(3) [OF assms(1), of "dh_conversationId r"], of i] by auto
qed

lemma lengthPrefixed_Inr [res_simps]: "lengthPrefixed bs = Inr x \<longleftrightarrow> int (length bs) \<le> U32_MAX \<and> x = lp bs"
  by (auto simp: lengthPrefixed_def lp_def)

lemma mapE_lengthPrefixed: "mapE lengthPrefixed xs = Inr ys \<Longrightarrow> ys = map lp xs"
  by (induction xs arbitrary: ys) (auto simp: res_simps)

text \<open>One more head of conversation \<open>c\<close>, with its leaf, keeps the invariant.\<close>

lemma deliveryInv_extend:
  assumes inv: "deliveryInv db"
    and heads: "wd_deliveryHeads db' = wd_deliveryHeads db @ [row]"
    and leaves: "leavesOf db' DeliveryNamespace = leavesOf db DeliveryNamespace @ [leaf]"
    and row: "dh_treeIndex row = int (length (leavesOf db DeliveryNamespace))"
      "dh_position row = int (Suc (length (headsOf db (dh_conversationId row))))"
    and leaf: "lf_leafPayload leaf = headPayload (dh_conversationId row) (dh_position row)
      (headBefore (witnessHeads db (dh_conversationId row)) (length (headsOf db (dh_conversationId row)))) (dh_headHash row) keyId"
  shows "deliveryInv db'"
proof -
  have of': "headsOf db' c = headsOf db c @ (if c = dh_conversationId row then [row] else [])" for c
    by (auto simp: headsOf_def heads)
  have before: "headBefore (witnessHeads db' c) i = headBefore (witnessHeads db c) i" if "i \<le> length (headsOf db c)" for c i
    using that by (auto simp: headBefore_def witnessHeads_def of' nth_append)
  have nums: "numberedFrom 1 dh_position (headsOf db' c)" for c
    using deliveryInvD(3) [OF inv, of c] row(2) by (auto simp: of')
  have payload: "\<exists>keyId. lf_leafPayload (leavesOf db' DeliveryNamespace ! j) =
      (let r = wd_deliveryHeads db' ! j; c = dh_conversationId r in
       headPayload c (dh_position r) (headBefore (witnessHeads db' c) (nat (dh_position r) - 1)) (dh_headHash r) keyId)"
    if j: "j < length (wd_deliveryHeads db')" for j
  proof (cases "j < length (wd_deliveryHeads db)")
    case True
    let ?r = "wd_deliveryHeads db ! j"
    have "nat (dh_position ?r) - 1 \<le> length (headsOf db (dh_conversationId ?r))"
      using head_position_bound(2) [OF inv, of ?r] True by simp
    moreover have "\<exists>keyId. lf_leafPayload (leavesOf db DeliveryNamespace ! j) =
        headPayload (dh_conversationId ?r) (dh_position ?r)
          (headBefore (witnessHeads db (dh_conversationId ?r)) (nat (dh_position ?r) - 1)) (dh_headHash ?r) keyId"
      using inv True unfolding deliveryInv_def Let_def by blast
    ultimately show ?thesis
      using True deliveryInvD(2) [OF inv] by (simp add: heads leaves nth_append Let_def before)
  next
    case False
    then have "j = length (wd_deliveryHeads db)" using j heads by simp
    moreover have "nat (dh_position row) - 1 = length (headsOf db (dh_conversationId row))" using row(2) by linarith
    ultimately show ?thesis
      using leaf deliveryInvD(2) [OF inv] by (auto simp: heads leaves nth_append Let_def before)
  qed
  show ?thesis
    unfolding deliveryInv_def
    using deliveryInvD(1,2) [OF inv] row(1) nums payload by (simp add: heads leaves)
qed

lemma deliveryInv_other:
  assumes "deliveryInv db" "wd_deliveryHeads db' = wd_deliveryHeads db"
    "leavesOf db' DeliveryNamespace = leavesOf db DeliveryNamespace"
  shows "deliveryInv db'"
  using assms by (simp add: deliveryInv_def headsOf_def witnessHeads_def)

subsection \<open>What the delivery extension answers\<close>

datatype headOutcome = AlreadyWitnessed | Conflicts bytes | NotAnExtension | Extends

definition headOutcome :: "bytes list \<Rightarrow> nat \<Rightarrow> bytes \<Rightarrow> bytes \<Rightarrow> headOutcome" where
  "headOutcome heads position previous head =
     (if position \<le> length heads then (if heads ! (position - 1) = head then AlreadyWitnessed else Conflicts (heads ! (position - 1)))
      else if position = Suc (length heads) \<and> previous = headBefore heads (length heads) then Extends else NotAnExtension)"

definition extensionValid :: "deliveryExtensionInput \<Rightarrow> bool" where
  "extensionValid input = checkpointValid
     \<lparr>cpConversationId = xd_conversationId input, cpPosition = xd_position input,
      cpPreviousHeadHash = xd_previousHeadHash input, cpHeadHash = xd_headHash input, cpSigningKeyId = xd_signingKeyId input\<rparr>"

text \<open>A digest is computed only for input whose fields are canonical.\<close>

lemma digest_extensionValid:
  assumes "computeDeliveryLogCheckpointDigest H (checkpointArgument input) = Inr d"
  shows "extensionValid input"
proof -
  let ?r = "\<lparr>cpConversationId = xd_conversationId input, cpPosition = xd_position input,
      cpPreviousHeadHash = xd_previousHeadHash input, cpHeadHash = xd_headHash input, cpSigningKeyId = xd_signingKeyId input\<rparr>"
  have arg: "checkpointArgument input = encodeCheckpoint ?r"
    by (simp add: checkpointArgument_def encodeCheckpoint_def)
  from assms obtain r where r: "parseDeliveryLogCheckpointInput (encodeCheckpoint ?r) = Inr r"
    by (auto simp: computeDeliveryLogCheckpointDigest_def arg bindE_eq_Inr)
  then have "r = ?r"
    unfolding parseDeliveryLogCheckpointInput_def encodeCheckpoint_def
    by (subst (asm) expectExactRecord_mkRecord) (auto simp: CHECKPOINT_KEYS_def res_simps parse_simps split: if_splits)
  with checkpoint_codec.parse_wf [OF r] show ?thesis by (simp add: extensionValid_def)
qed

lemma extensionValidD:
  assumes "extensionValid input"
  shows "uuidV4Valid (xd_conversationId input)" "uint63Valid (xd_position input)" "1 \<le> bigInt (xd_position input)"
    "hash32Valid (xd_previousHeadHash input)" "hash32Valid (xd_headHash input)" "SIGNING_KEY_ID (xd_signingKeyId input)"
  using assms bigInt_pos_iff [of "xd_position input"]
  by (auto simp: extensionValid_def checkpointValid_def positiveUint63Valid_def uint63Valid_def)

text \<open>The answer of the authenticated part, as a function of the witnessed heads of the conversation.\<close>

lemma extendDeliveryHead_cases:
  assumes run: "extendDeliveryHead ctx random witnessedAt input db = Inr (result, db')"
    and pg: "readsCanonicalText (wx_postgres ctx)" and inv: "deliveryInv db"
    and valid: "extensionValid input"
  defines "heads \<equiv> witnessHeads db (xd_conversationId input)"
    and "previous \<equiv> bufferFromBase64url (xd_previousHeadHash input)" and "head \<equiv> bufferFromBase64url (xd_headHash input)"
    and "n \<equiv> nat (bigInt (xd_position input))"
  shows "case headOutcome heads n previous head of
      AlreadyWitnessed \<Rightarrow> result = DeliveryRejected ''already-witnessed'' \<and> db' = db
    | Conflicts witnessed \<Rightarrow> result = DeliveryEquivocation (xd_position input) (b64encode witnessed) (xd_headHash input) \<and> db' = db
    | NotAnExtension \<Rightarrow> result = DeliveryRejected ''not-an-extension'' \<and> db' = db
    | Extends \<Rightarrow> \<exists>receipt treeIndex payload db1 row. result = DeliveryWitnessed receipt
        \<and> payload = headPayload (xd_conversationId input) (int n) previous head (xd_signingKeyId input)
        \<and> appendAndCheckpoint ctx random DeliveryNamespace payload witnessedAt db = Inr (receipt, treeIndex, db1)
        \<and> db' = db1\<lparr>wd_deliveryHeads := wd_deliveryHeads db1 @ [row]\<rparr>
        \<and> row = \<lparr>dh_conversationId = xd_conversationId input, dh_position = int n, dh_headHash = head, dh_treeIndex = treeIndex\<rparr>"
proof -
  note v = extensionValidD [OF valid]
  have n: "bigInt (xd_position input) = int n" "1 \<le> n" using v(3) by (simp_all add: n_def)
  have digits: "bigIntToString (int n) = xd_position input"
    using v(2) n(1) by (metis bigIntToString_bigInt uint63Valid_def)
  have n_max: "int n \<le> UINT63_MAX" using v(2) n(1) by (simp add: uint63Valid_def)
  have b64: "b64encode x = xd_headHash input \<longleftrightarrow> x = head" for x
    using bufferFromBase64url_hash32 [OF v(5)] by (metis bufferFromBase64url_encode head_def)
  let ?c = "xd_conversationId input"
  obtain m where m: "n = Suc m" using n(2) by (cases n) auto
  have before: "int n - 1 = int m" "int m \<le> UINT63_MAX" using n_max m by simp_all
  have at: "headsAt db ?c (int n) = (if m < length heads then [headsOf db ?c ! m] else [])"
    using headsAt_Suc [OF inv, of ?c m] by (simp add: heads_def m)
  have prior: "(if int n = 1 then Some ZERO_HASH_32
      else if length (headsAt db ?c (int m)) = 1 then Some (dh_headHash (hd (headsAt db ?c (int m)))) else None)
      = (if m = length heads then Some (headBefore heads (length heads)) else None)" if "\<not> m < length heads"
  proof (cases m)
    case 0
    with that m show ?thesis by (cases heads) (simp_all add: headBefore_def)
  next
    case (Suc k)
    then have "headsAt db ?c (int m) = (if m = length heads then [headsOf db ?c ! k] else [])"
      using headsAt_Suc [OF inv, of ?c k] that by (simp add: heads_def del: of_nat_Suc)
    then show ?thesis
      using Suc m by (cases "m = length heads") (simp_all add: headBefore_def heads_def witnessHeads_def)
  qed
  note run' = run [unfolded extendDeliveryHead_def Let_def bigIntOfText_uint63 [OF v(2)] bindE_Inr n(1) before(1)
      sqlParameter_def pg_uuid_canonical [OF pg v(1)] pg_bigint_canonical(3) [OF pg v(2)] option.case at
      pg_bigint_canonical(1) [OF pg of_nat_0_le_iff]]
  show ?thesis
  proof (cases "m < length heads")
    case True
    then have "dh_headHash (headsOf db ?c ! m) = heads ! m" by (simp add: heads_def witnessHeads_def)
    with run' True show ?thesis by (auto simp: headOutcome_def b64 m split: if_splits)
  next
    case False
    note stepped = run' [unfolded if_not_P [OF False] list.size zero_neq_one if_False if_P [OF before(2)] option.case bindE_Inr
        prior [OF False]]
    show ?thesis
    proof (cases "m = length heads \<and> previous = headBefore heads (length heads)")
      case True
      then have outcome: "headOutcome heads n previous head = Extends" by (simp add: headOutcome_def m)
      from stepped False True before(2) obtain payload receipt treeIndex db1 index where
        facts: "deliveryLeafPayload input = Inr payload"
          "appendAndCheckpoint ctx random DeliveryNamespace payload witnessedAt db = Inr (receipt, treeIndex, db1)"
          "pg_bigint (wx_postgres ctx) (bigIntToString treeIndex) = Some index"
          "insertDeliveryHead \<lparr>dh_conversationId = ?c, dh_position = int n, dh_headHash = head, dh_treeIndex = index\<rparr> db1 = Inr db'"
          "result = DeliveryWitnessed receipt"
        by (auto simp: bindE_eq_Inr previous_def head_def split: option.splits)
      have "index = treeIndex"
        using facts(3) appendAndCheckpoint_index [OF facts(2)] pg_bigint_canonical(1) [OF pg, of treeIndex]
        by (simp split: if_splits)
      moreover have "payload = headPayload ?c (int n) previous head (xd_signingKeyId input)"
        using facts(1) unfolding headPayload_def digits
        by (auto simp: deliveryLeafPayload_def bindE_eq_Inr lengthPrefixed_Inr previous_def head_def)
      ultimately show ?thesis
        using facts unfolding outcome headOutcome.case insertDeliveryHead_def by (auto split: if_splits)
    next
      case no: False
      then have "headOutcome heads n previous head = NotAnExtension" using False by (auto simp: headOutcome_def m)
      with stepped False no before(2) show ?thesis by (auto simp: previous_def split: if_splits)
    qed
  qed
qed

text \<open>The whole call: before the submitter is authenticated nothing changes.\<close>

lemma extendDelivery_cases:
  assumes "extendDelivery ctx now random input db = Inr (result, db')"
  obtains reason where "result = DeliveryRejected reason" "reason \<in> {''submitter-key-unknown'', ''submitter-signature-invalid''}" "db' = db"
  | "extensionValid input" "extendDeliveryHead ctx random (dateToISO now) input db = Inr (result, db')"
proof -
  from assms have "(\<exists>reason. result = DeliveryRejected reason
        \<and> reason \<in> {''submitter-key-unknown'', ''submitter-signature-invalid''} \<and> db' = db)
      \<or> extensionValid input \<and> extendDeliveryHead ctx random (dateToISO now) input db = Inr (result, db')"
    unfolding extendDelivery_def Let_def
    by (auto elim!: bindE_InrE split: if_splits dest: digest_extensionValid)
  with that show thesis by blast
qed

subsection \<open>The invariant of the witness\<close>

definition witnessInv :: "hashfn \<Rightarrow> witnessDb \<Rightarrow> bool" where
  "witnessInv H db = ((\<forall>ns. logInv H db ns) \<and> deliveryInv db)"

lemma logInv_tables:
  assumes "logInv H db ns" "wd_leaves db' = wd_leaves db" "wd_checkpoints db' = wd_checkpoints db"
  shows "logInv H db' ns"
proof -
  have "leavesOf db' ns = leavesOf db ns" "checkpointsOf db' ns = checkpointsOf db ns"
    using assms(2,3) by (simp_all add: leavesOf_def checkpointsOf_def)
  with assms(1) show ?thesis unfolding logInv_def leafHashes_def by metis
qed

lemma extendDelivery_witnessed:
  assumes "extendDelivery ctx now random input db = Inr (DeliveryWitnessed receipt, db')"
    "readsCanonicalText (wx_postgres ctx)" "witnessInv (wx_sha256 ctx) db"
  defines "c \<equiv> xd_conversationId input" and "previous \<equiv> bufferFromBase64url (xd_previousHeadHash input)"
    and "head \<equiv> bufferFromBase64url (xd_headHash input)"
  obtains treeIndex db1 where "extensionValid input"
    "bigInt (xd_position input) = int (Suc (length (headsOf db c)))"
    "previous = headBefore (witnessHeads db c) (length (headsOf db c))"
    "appendAndCheckpoint ctx random DeliveryNamespace
       (headPayload c (int (Suc (length (headsOf db c)))) previous head (xd_signingKeyId input)) (dateToISO now) db
       = Inr (receipt, treeIndex, db1)"
    "db' = db1\<lparr>wd_deliveryHeads := wd_deliveryHeads db1 @
       [\<lparr>dh_conversationId = c, dh_position = int (Suc (length (headsOf db c))), dh_headHash = head, dh_treeIndex = treeIndex\<rparr>]\<rparr>"
proof -
  have inv: "deliveryInv db" using assms(3) by (simp add: witnessInv_def)
  from assms(1) have valid: "extensionValid input"
    and run: "extendDeliveryHead ctx random (dateToISO now) input db = Inr (DeliveryWitnessed receipt, db')"
    by (auto elim: extendDelivery_cases)
  let ?n = "nat (bigInt (xd_position input))"
  note cases = extendDeliveryHead_cases [OF run assms(2) inv valid]
  then have "headOutcome (witnessHeads db c) ?n previous head = Extends"
    unfolding c_def previous_def head_def by (auto split: headOutcome.splits)
  moreover from this have n: "?n = Suc (length (headsOf db c))" "previous = headBefore (witnessHeads db c) (length (headsOf db c))"
    by (auto simp: headOutcome_def split: if_splits)
  moreover have "bigInt (xd_position input) = int ?n" by simp
  ultimately show thesis
    using cases valid that unfolding c_def previous_def head_def by (auto simp del: of_nat_Suc)
qed

lemma witnessInv_extendDelivery:
  assumes "extendDelivery ctx now random input db = Inr (result, db')"
    "readsCanonicalText (wx_postgres ctx)" "witnessInv (wx_sha256 ctx) db"
  shows "witnessInv (wx_sha256 ctx) db'"
proof (cases "\<exists>receipt. result = DeliveryWitnessed receipt")
  case False
  have inv: "deliveryInv db" using assms(3) by (simp add: witnessInv_def)
  from assms(1) have "db' = db"
  proof (cases rule: extendDelivery_cases)
    case 2
    with extendDeliveryHead_cases [OF 2(2) assms(2) inv 2(1)] False show ?thesis
      by (auto split: headOutcome.splits)
  qed
  with assms(3) show ?thesis by simp
next
  case True
  then obtain receipt where "result = DeliveryWitnessed receipt" by blast
  with assms obtain treeIndex db1 where *:
    "bigInt (xd_position input) = int (Suc (length (headsOf db (xd_conversationId input))))"
    "bufferFromBase64url (xd_previousHeadHash input)
       = headBefore (witnessHeads db (xd_conversationId input)) (length (headsOf db (xd_conversationId input)))"
    "appendAndCheckpoint ctx random DeliveryNamespace (headPayload (xd_conversationId input)
       (int (Suc (length (headsOf db (xd_conversationId input))))) (bufferFromBase64url (xd_previousHeadHash input))
       (bufferFromBase64url (xd_headHash input)) (xd_signingKeyId input)) (dateToISO now) db = Inr (receipt, treeIndex, db1)"
    "db' = db1\<lparr>wd_deliveryHeads := wd_deliveryHeads db1 @ [\<lparr>dh_conversationId = xd_conversationId input,
       dh_position = int (Suc (length (headsOf db (xd_conversationId input)))),
       dh_headHash = bufferFromBase64url (xd_headHash input), dh_treeIndex = treeIndex\<rparr>]\<rparr>"
    by (auto elim!: extendDelivery_witnessed)
  have logs: "logInv (wx_sha256 ctx) db ns" for ns using assms(3) by (simp add: witnessInv_def)
  have log1: "logInv (wx_sha256 ctx) db1 ns" for ns
    using logInv_append [OF *(3) assms(2) logs] logs by (cases "ns = DeliveryNamespace") auto
  then have "logInv (wx_sha256 ctx) db' ns" for ns
    by (rule logInv_tables) (simp_all add: *(4))
  moreover from *(3) assms(2) logs have "deliveryInv db'"
  proof (rule appendAndCheckpoint_Inr, goal_cases)
    case (1 time uuid digest)
    have "deliveryInv db" using assms(3) by (simp add: witnessInv_def)
    then show ?case
      by (rule deliveryInv_extend [where keyId = "xd_signingKeyId input"])
         (auto simp: *(4) 1(3,6) leavesOf_def *(2) simp del: of_nat_Suc)
  qed
  ultimately show ?thesis by (simp add: witnessInv_def)
qed

end
