(* ===== verification/WitnessSteps.thy ===== *)
theory WitnessSteps
  imports WitnessProofs MerkleConsistency DigestFacts "HOL-Library.Sublist"
begin

section \<open>Runs of the witness\<close>

text \<open>
  The calls of the witness as steps between databases, in any order: submissions to the three logs and
  gossip reports. A call that throws is rolled back and is no step. The invariant holds in every state that
  a fresh database reaches. The interface \<open>append_only\<close> is what the clients of a transparency log rely
  on: what has been recorded stays where it is; the tables of the witness implement it.
\<close>

subsection \<open>Logs that only grow\<close>

locale append_only =
  fixes step :: "'s \<Rightarrow> 's \<Rightarrow> bool"
    and entries :: "'s \<Rightarrow> 'e list"
  assumes step_grows: "step s s' \<Longrightarrow> prefix (entries s) (entries s')"
begin

lemma run_grows: "step\<^sup>*\<^sup>* s s' \<Longrightarrow> prefix (entries s) (entries s')"
  by (induction rule: rtranclp_induct) (auto dest: step_grows prefix_order.trans)

lemma run_keeps: "step\<^sup>*\<^sup>* s s' \<Longrightarrow> e \<in> set (entries s) \<Longrightarrow> e \<in> set (entries s')"
  by (metis run_grows set_mono_prefix subsetD)

lemma run_filter: "step\<^sup>*\<^sup>* s s' \<Longrightarrow> prefix (filter P (entries s)) (filter P (entries s'))"
  by (auto dest!: run_grows simp: prefix_def)

end

subsection \<open>Steps\<close>

inductive witnessStep :: "witnessContext \<Rightarrow> witnessDb \<Rightarrow> witnessDb \<Rightarrow> bool" for ctx where
  deliveryStep: "witnessStep ctx db db'" if "extendDelivery ctx now random input db = Inr (result, db')"
| chainStep: "witnessStep ctx db db'" if "ns \<noteq> DeliveryNamespace" "extendChain ctx now random ns input db = Inr (outcome, db')"
| gossipStep: "witnessStep ctx db db'" if "reportGossip ctx now random report db = Inr (splitView, db')"

definition witnessInit :: "witnessDb \<Rightarrow> bool" where
  "witnessInit db = (wd_leaves db = [] \<and> wd_checkpoints db = [] \<and> wd_deliveryHeads db = [] \<and> wd_gossipReports db = []
     \<and> map (\<lambda>r. (ch_namespace r, ch_lastUpstreamCheckpointId r)) (wd_chainHeads db)
         = [(DeliveryNamespace, None), (PolicyNamespace, None), (DirectoryNamespace, None)])"

lemma witnessInv_init: "witnessInit db \<Longrightarrow> witnessInv H db"
  by (simp add: witnessInit_def witnessInv_def logInv_def deliveryInv_def leavesOf_def checkpointsOf_def headsOf_def leafHashes_def)

lemma extendChain_cases:
  assumes "extendChain ctx now random ns input db = Inr (outcome, db')"
  obtains "db' = db"
  | receipt payload treeIndex db1 upstream time where "outcome = ChainWitnessed receipt"
    "lockNamespace db ns = Inr (xc_previousCheckpointId input)" "chainLeafPayload input = Inr payload"
    "appendAndCheckpoint ctx random ns payload (dateToISO now) db = Inr (receipt, treeIndex, db1)"
    "db' = updateChainHead ns upstream time db1"
proof -
  from assms have "db' = db \<or> (\<exists>receipt payload treeIndex db1 upstream time. outcome = ChainWitnessed receipt
      \<and> lockNamespace db ns = Inr (xc_previousCheckpointId input) \<and> chainLeafPayload input = Inr payload
      \<and> appendAndCheckpoint ctx random ns payload (dateToISO now) db = Inr (receipt, treeIndex, db1)
      \<and> db' = updateChainHead ns upstream time db1)"
    unfolding extendChain_def Let_def by (fastforce elim!: bindE_InrE split: if_splits)
  with that show thesis by blast
qed

lemma witnessInv_extendChain:
  assumes "extendChain ctx now random ns input db = Inr (outcome, db')" "ns \<noteq> DeliveryNamespace"
    "readsCanonicalText (wx_postgres ctx)" "witnessInv (wx_sha256 ctx) db"
  shows "witnessInv (wx_sha256 ctx) db'"
  using assms(1)
proof (cases rule: extendChain_cases)
  case 1
  with assms(4) show ?thesis by simp
next
  case (2 receipt payload treeIndex db1 upstream time)
  have logs: "logInv (wx_sha256 ctx) db ns'" for ns' using assms(4) by (simp add: witnessInv_def)
  have "logInv (wx_sha256 ctx) db1 ns'" for ns'
    using logInv_append [OF 2(4) assms(3) logs] logs by (cases "ns' = ns") auto
  then have "logInv (wx_sha256 ctx) db' ns'" for ns'
    by (rule logInv_tables) (simp_all add: 2(5) updateChainHead_def)
  moreover from 2(4) assms(3) logs have "deliveryInv db'"
  proof (rule appendAndCheckpoint_Inr, goal_cases)
    case (1 t uuid digest)
    show ?case
      by (rule deliveryInv_other [of db]) (use assms(2,4) 1 2(5) in \<open>auto simp: witnessInv_def updateChainHead_def leavesOf_def\<close>)
  qed
  ultimately show ?thesis by (simp add: witnessInv_def)
qed

lemma reportGossip_tables:
  assumes "reportGossip ctx now random report db = Inr (splitView, db')"
  shows "\<exists>row. db' = db\<lparr>wd_gossipReports := wd_gossipReports db @ [row]\<rparr> \<and> gr_splitView row = splitView"
  using assms unfolding reportGossip_def Let_def
  by (elim bindE_InrE) (auto simp: insertGossipReport_def split: if_splits)

lemma witnessInv_gossip:
  assumes "reportGossip ctx now random report db = Inr (splitView, db')" "witnessInv H db"
  shows "witnessInv H db'"
proof -
  obtain row where db': "db' = db\<lparr>wd_gossipReports := wd_gossipReports db @ [row]\<rparr>"
    using reportGossip_tables [OF assms(1)] by blast
  have "logInv H db' ns" for ns
    by (rule logInv_tables [of H db]) (use assms(2) in \<open>simp_all add: db' witnessInv_def\<close>)
  moreover have "deliveryInv db'"
    by (rule deliveryInv_other [of db]) (use assms(2) in \<open>simp_all add: db' witnessInv_def leavesOf_def\<close>)
  ultimately show ?thesis by (simp add: witnessInv_def)
qed

lemma witnessInv_step:
  assumes "witnessStep ctx db db'" "readsCanonicalText (wx_postgres ctx)" "witnessInv (wx_sha256 ctx) db"
  shows "witnessInv (wx_sha256 ctx) db'"
  using assms
  by (induction rule: witnessStep.induct) (auto intro: witnessInv_extendDelivery witnessInv_extendChain witnessInv_gossip)

lemma witnessInv_reachable:
  assumes "(witnessStep ctx)\<^sup>*\<^sup>* db0 db" "witnessInit db0" "readsCanonicalText (wx_postgres ctx)"
  shows "witnessInv (wx_sha256 ctx) db"
  using assms(1)
  by (induction rule: rtranclp_induct) (auto intro: witnessInv_step assms witnessInv_init)

subsection \<open>The tables are append-only\<close>

lemma insert_grows:
  "insertLeaf row db = Inr db' \<Longrightarrow> db' = db\<lparr>wd_leaves := wd_leaves db @ [row]\<rparr>"
  "insertCheckpoint crow db = Inr db' \<Longrightarrow> db' = db\<lparr>wd_checkpoints := wd_checkpoints db @ [crow]\<rparr>"
  "insertDeliveryHead hrow db = Inr db' \<Longrightarrow> db' = db\<lparr>wd_deliveryHeads := wd_deliveryHeads db @ [hrow]\<rparr>"
  by (auto simp: insertLeaf_def insertCheckpoint_def insertDeliveryHead_def split: if_splits)

lemma appendAndCheckpoint_tables:
  assumes "appendAndCheckpoint ctx random ns payload witnessedAt db = Inr (receipt, treeIndex, db')"
  obtains leaf checkpoint where
    "db' = db\<lparr>wd_leaves := wd_leaves db @ [leaf], wd_checkpoints := wd_checkpoints db @ [checkpoint]\<rparr>"
proof -
  from assms have "\<exists>leaf checkpoint.
      db' = db\<lparr>wd_leaves := wd_leaves db @ [leaf], wd_checkpoints := wd_checkpoints db @ [checkpoint]\<rparr>"
    unfolding appendAndCheckpoint_def Let_def
    by (auto elim!: bindE_InrE dest!: insert_grows) blast
  with that show thesis by blast
qed

lemma witnessStep_tables:
  assumes "witnessStep ctx db db'"
  shows "prefix (wd_leaves db) (wd_leaves db') \<and> prefix (wd_checkpoints db) (wd_checkpoints db')
    \<and> prefix (wd_deliveryHeads db) (wd_deliveryHeads db') \<and> prefix (wd_gossipReports db) (wd_gossipReports db')"
  using assms
proof cases
  case (deliveryStep now random input result)
  then show ?thesis
  proof (cases rule: extendDelivery_cases)
    case 2
    then show ?thesis
      unfolding extendDeliveryHead_def Let_def
      by (auto elim!: bindE_InrE appendAndCheckpoint_tables split: if_splits dest!: insert_grows(3))
  qed simp
next
  case (chainStep ns now random input outcome)
  from chainStep(2) show ?thesis
    by (cases rule: extendChain_cases) (auto elim!: appendAndCheckpoint_tables simp: updateChainHead_def)
next
  case (gossipStep now random report splitView)
  then show ?thesis by (auto dest!: reportGossip_tables)
qed

interpretation leaf_log: append_only "witnessStep ctx" wd_leaves for ctx
  by unfold_locales (simp add: witnessStep_tables)

interpretation checkpoint_log: append_only "witnessStep ctx" wd_checkpoints for ctx
  by unfold_locales (simp add: witnessStep_tables)

interpretation head_log: append_only "witnessStep ctx" wd_deliveryHeads for ctx
  by unfold_locales (simp add: witnessStep_tables)

interpretation gossip_log: append_only "witnessStep ctx" wd_gossipReports for ctx
  by unfold_locales (simp add: witnessStep_tables)

end
