(* ===== verification/WitnessClients.thy ===== *)
theory WitnessClients
  imports WitnessSteps
begin

section \<open>What the clients of the witness can rely on\<close>

text \<open>
  Lemmas about the answers of the witness: the identifiers it draws are canonical, every receipt can be
  read back later, proofs between stored checkpoints verify, gossip is judged against the witnessed heads,
  and a submission that extends the witnessed heads is accepted.
\<close>

subsection \<open>Random identifiers\<close>

lemma versionDigit: "unat (of_nat (n mod 16 + 64) :: byte) div 16 = 4"
proof -
  have m: "n mod 16 < 16" by simp
  then have "unat (of_nat (n mod 16 + 64) :: byte) = n mod 16 + 64" by (intro unat_of_nat_byte) linarith
  with m show ?thesis by simp
qed

lemma variantDigit: "unat (of_nat (n mod 64 + 128) :: byte) div 16 \<in> {8, 9, 10, 11}"
proof -
  have m: "n mod 64 < 64" by simp
  then have "unat (of_nat (n mod 64 + 128) :: byte) = n mod 64 + 128" by (intro unat_of_nat_byte) linarith
  moreover have "8 \<le> (n mod 64 + 128) div 16" "(n mod 64 + 128) div 16 < 12" using m by linarith+
  ultimately show ?thesis unfolding insert_iff empty_iff by linarith
qed

lemma isVariant_hexDigit: "n \<in> {8, 9, 10, 11} \<Longrightarrow> isVariant (hexDigit n)"
  by (auto simp: isVariant_def hexDigit_def)

lemma list_16:
  assumes "length xs = 16"
  obtains a b c d e f g h i j k l m n p q where "xs = [a, b, c, d, e, f, g, h, i, j, k, l, m, n, p, q]"
proof -
  have *: "length ys = Suc n \<Longrightarrow> \<exists>y zs. ys = y # zs \<and> length zs = n" for ys :: "'a list" and n
    by (cases ys) auto
  have "\<exists>a b c d e f g h i j k l m n p q. xs = [a, b, c, d, e, f, g, h, i, j, k, l, m, n, p, q]"
    using assms by (auto simp: numeral_eq_Suc dest!: *)
  with that show thesis by blast
qed

lemma hexDigit_nibbles [simp]: "isHexLower (hexDigit (unat (b :: byte) div 16))" "isHexLower (hexDigit (unat b mod 16))"
proof -
  have "unat b < 256" using unsigned_less [of b] by simp
  then show "isHexLower (hexDigit (unat b div 16))" "isHexLower (hexDigit (unat b mod 16))"
    by (intro isHexLower_hexDigit, linarith)+
qed

lemma uuidPattern_eq:
  "uuidPattern v = (let x = isHexLower; d = (=) CHR ''-'' in
     [x, x, x, x, x, x, x, x, d, x, x, x, x, d, (=) v, x, x, x, d, isVariant, x, x, x, d, x, x, x, x, x, x, x, x, x, x, x, x])"
  by (simp add: uuidPattern_def numeral_eq_Suc Let_def)

lemma uuidV4_valid:
  assumes "length random = 16"
  shows "uuidV4Valid (uuidV4 random)"
proof -
  obtain a b c d e f g h i j k l m n p q where r: "random = [a, b, c, d, e, f, g, h, i, j, k, l, m, n, p, q]"
    using assms by (rule list_16)
  define v where "v = (of_nat (unat g mod 16 + 64) :: byte)"
  define w where "w = (of_nat (unat i mod 64 + 128) :: byte)"
  have upd: "(random[6 := v])[8 := w] = [a, b, c, d, e, f, v, h, w, j, k, l, m, n, p, q]"
    by (simp add: r numeral_eq_Suc)
  have at: "random ! 6 = g" "random ! 8 = i" by (simp_all add: r)
  have "hexDigit (unat v div 16) = CHR ''4''" using versionDigit [of "unat g"] by (simp add: v_def hexDigit_def)
  moreover have "isVariant (hexDigit (unat w div 16))" unfolding w_def by (rule isVariant_hexDigit [OF variantDigit])
  ultimately show ?thesis
    unfolding uuidV4_def at v_def [symmetric] w_def [symmetric] upd
    by (simp add: Let_def hexText_def uuidV4Valid_def matchesShape_def UUID_V4_def uuidPattern_eq)
qed

subsection \<open>Receipts\<close>

lemma dateToISO_dateMillis: "rfc3339Valid s \<Longrightarrow> dateToISO (dateMillis s) = s"
  by (auto simp: rfc3339Valid_def dateMillis_def split: option.splits)

definition checkpointIdsDistinct :: "witnessDb \<Rightarrow> bool" where
  "checkpointIdsDistinct db = distinct (map ck_checkpointId (wd_checkpoints db))"

lemma insertCheckpoint_distinct:
  "insertCheckpoint row db = Inr db' \<Longrightarrow> checkpointIdsDistinct db \<Longrightarrow> checkpointIdsDistinct db'"
  by (auto simp: insertCheckpoint_def checkpointIdsDistinct_def list_ex_iff split: if_splits) metis

lemma appendAndCheckpoint_distinct:
  assumes "appendAndCheckpoint ctx random ns payload witnessedAt db = Inr (receipt, treeIndex, db')" "checkpointIdsDistinct db"
  shows "checkpointIdsDistinct db'"
proof -
  from assms(1) obtain leaf row where "insertCheckpoint row (db\<lparr>wd_leaves := wd_leaves db @ [leaf]\<rparr>) = Inr db'"
    unfolding appendAndCheckpoint_def Let_def by (auto elim!: bindE_InrE dest!: insert_grows(1))
  then show ?thesis
    by (rule insertCheckpoint_distinct) (use assms(2) in \<open>simp add: checkpointIdsDistinct_def\<close>)
qed

lemma checkpointIdsDistinct_tables [simp]:
  "checkpointIdsDistinct (db\<lparr>wd_deliveryHeads := hs\<rparr>) = checkpointIdsDistinct db"
  "checkpointIdsDistinct (db\<lparr>wd_chainHeads := cs\<rparr>) = checkpointIdsDistinct db"
  "checkpointIdsDistinct (db\<lparr>wd_gossipReports := gs\<rparr>) = checkpointIdsDistinct db"
  by (simp_all add: checkpointIdsDistinct_def)

lemma checkpointIdsDistinct_step:
  assumes "witnessStep ctx db db'" "checkpointIdsDistinct db"
  shows "checkpointIdsDistinct db'"
  using assms(1)
proof cases
  case (deliveryStep now random input result)
  then show ?thesis
  proof (cases rule: extendDelivery_cases)
    case 2
    then show ?thesis
      using assms(2) unfolding extendDeliveryHead_def Let_def
      by (auto elim!: bindE_InrE split: if_splits dest!: insert_grows(3))
        (erule (1) appendAndCheckpoint_distinct)+
  qed (use assms(2) in simp)
next
  case (chainStep ns now random input outcome)
  from chainStep(2) show ?thesis
    using assms(2)
    by (cases rule: extendChain_cases)
       (auto simp: updateChainHead_def dest: appendAndCheckpoint_distinct)
next
  case (gossipStep now random report splitView)
  then show ?thesis using assms(2) by (auto dest!: reportGossip_tables)
qed

lemma checkpointIdsDistinct_run: "(witnessStep ctx)\<^sup>*\<^sup>* db db' \<Longrightarrow> checkpointIdsDistinct db \<Longrightarrow> checkpointIdsDistinct db'"
  by (induction rule: rtranclp_induct) (auto intro: checkpointIdsDistinct_step)

lemma appendAndCheckpoint_receipt:
  assumes "appendAndCheckpoint ctx random ns payload (dateToISO now) db = Inr (receipt, treeIndex, db')"
    "readsCanonicalText (wx_postgres ctx)" "logInv (wx_sha256 ctx) db ns" "length random = 16" "rfc3339Valid (dateToISO now)"
  shows "\<exists>row\<in>set (wd_checkpoints db'). receipt = checkpointFromRow row \<and> ck_checkpointId row = wc_checkpointId receipt
    \<and> uuidV4Valid (wc_checkpointId receipt)"
  using assms(1-3)
proof (rule appendAndCheckpoint_Inr, goal_cases)
  case (1 time uuid digest)
  have uuid: "uuid = uuidV4 random" using 1(2) pg_uuid_canonical [OF assms(2) uuidV4_valid [OF assms(4)]] by simp
  have "time = 1000 * dateMillis (dateToISO now)" using 1(1) pg_timestamptz_canonical [OF assms(2,5)] by simp
  then have "dateToISO (time div 1000) = dateToISO now" using dateToISO_dateMillis [OF assms(5)] by simp
  then show ?case
    using uuidV4_valid [OF assms(4)] unfolding 1(6,8) uuid by (simp add: checkpointFromRow_def)
qed

lemma chainWitnessed_append:
  assumes "extendChain ctx now random ns input db = Inr (ChainWitnessed receipt, db')"
  shows "\<exists>payload treeIndex db1. appendAndCheckpoint ctx random ns payload (dateToISO now) db = Inr (receipt, treeIndex, db1)
    \<and> wd_checkpoints db' = wd_checkpoints db1"
  using assms unfolding extendChain_def Let_def
  by (auto elim!: bindE_InrE split: if_splits simp: updateChainHead_def) blast

lemma deliveryWitnessed_append:
  assumes "extendDelivery ctx now random input db = Inr (DeliveryWitnessed receipt, db')"
  shows "\<exists>payload treeIndex db1. appendAndCheckpoint ctx random DeliveryNamespace payload (dateToISO now) db = Inr (receipt, treeIndex, db1)
    \<and> wd_checkpoints db' = wd_checkpoints db1"
  using assms
proof (cases rule: extendDelivery_cases)
  case 2
  then show ?thesis
    unfolding extendDeliveryHead_def Let_def
    by (auto elim!: bindE_InrE split: if_splits dest!: insert_grows(3)) (blast | simp)+
qed simp

lemma readCheckpoint_row:
  assumes "row \<in> set (wd_checkpoints db)" "checkpointIdsDistinct db" "uuidV4Valid (ck_checkpointId row)"
    "readsCanonicalText (wx_postgres ctx)"
  shows "readCheckpoint ctx (ck_checkpointId row) db = Inr (Some (checkpointFromRow row))"
proof -
  obtain xs ys where split: "wd_checkpoints db = xs @ row # ys" using assms(1) by (meson split_list)
  have "ck_checkpointId r \<noteq> ck_checkpointId row" if "r \<in> set xs \<or> r \<in> set ys" for r
    using assms(2) that unfolding split checkpointIdsDistinct_def by (auto simp: image_iff)
  then have "filter (\<lambda>r. ck_checkpointId r = ck_checkpointId row) (wd_checkpoints db) = [row]"
    by (simp add: split)
  then show ?thesis
    by (simp add: readCheckpoint_def sqlParameter_def pg_uuid_canonical [OF assms(4,3)])
qed

lemma receipt_stays_readable:
  assumes "row \<in> set (wd_checkpoints db)" "receipt = checkpointFromRow row" "ck_checkpointId row = wc_checkpointId receipt"
    "uuidV4Valid (wc_checkpointId receipt)" "checkpointIdsDistinct db" "readsCanonicalText (wx_postgres ctx)"
    "(witnessStep ctx)\<^sup>*\<^sup>* db db'"
  shows "readCheckpoint ctx (wc_checkpointId receipt) db' = Inr (Some receipt)"
  using readCheckpoint_row [of row db' ctx] checkpoint_log.run_keeps [OF assms(7,1)] checkpointIdsDistinct_run [OF assms(7,5)] assms
  by simp

subsection \<open>Served proofs\<close>

lemma proveConsistency_served:
  assumes "witnessInv (wx_sha256 ctx) db" "readsCanonicalText (wx_postgres ctx)"
    "old \<in> set (wd_checkpoints db)" "new \<in> set (wd_checkpoints db)" "ck_namespace old = ns" "ck_namespace new = ns"
    "ck_treeSize old \<le> ck_treeSize new" "ck_treeSize new \<le> 2 ^ 31"
  shows "\<exists>p. proveConsistency ctx ns (bigIntToString (ck_treeSize old)) (bigIntToString (ck_treeSize new)) db
      = Inr (Some (map b64encode p))
    \<and> verifyConsistency (wx_sha256 ctx) (ck_treeSize old) (ck_rootHash old) (ck_treeSize new) (ck_rootHash new) p"
proof -
  let ?H = "wx_sha256 ctx"
  have log: "logInv ?H db ns" using assms(1) by (simp add: witnessInv_def)
  define a b where "a = nat (ck_treeSize old)" and "b = nat (ck_treeSize new)"
  note o = checkpoint_root [OF log assms(3,5)] and n = checkpoint_root [OF log assms(4,6)]
  have sizes: "ck_treeSize old = int a" "ck_treeSize new = int b" "1 \<le> a" "a \<le> b" "b \<le> length (leafHashes db ns)" "b \<le> 2 ^ 31"
    using o(1) n(1,2) assms(7,8) by (auto simp: a_def b_def)
  let ?leaves = "take b (leafHashes db ns)"
  have len: "length ?leaves = b" using sizes(5) by simp
  obtain p where p: "consistencyProof ?H ?leaves (int a) = Inr p"
    "verifyConsistency ?H (int a) (merkleRoot ?H (take (nat (int a)) ?leaves)) (int (length ?leaves)) (merkleRoot ?H ?leaves) p"
    using consistency_complete [of "int a" ?leaves ?H] sizes len by auto
  have "int b \<le> UINT63_MAX" using sizes(6) by (simp add: UINT63_MAX_def)
  then have "proveConsistency ctx ns (bigIntToString (int a)) (bigIntToString (int b)) db = Inr (Some (map b64encode p))"
    using sizes p(1) len bigIntOfText_canonical [of "showNat a"] bigIntOfText_canonical [of "showNat b"]
    by (simp add: proveConsistency_def loadLeafHashes_limit [OF log] sqlParameter_def pg_bigint_canonical [OF assms(2)] bigInt_def)
  moreover have "take a ?leaves = take a (leafHashes db ns)" using sizes(4) by (simp add: min_absorb1)
  ultimately show ?thesis
    using p(2) len o(3) n(3) by (auto simp: sizes(1,2))
qed

lemma proveInclusion_served:
  assumes "witnessInv (wx_sha256 ctx) db" "readsCanonicalText (wx_postgres ctx)"
    "row \<in> set (wd_checkpoints db)" "ck_namespace row = ns" "int i < ck_treeSize row" "ck_treeSize row \<le> 2 ^ 31"
  shows "\<exists>p. proveInclusion ctx ns (showNat i) (bigIntToString (ck_treeSize row)) db = Inr (Some (map b64encode p))
    \<and> verifyInclusion (wx_sha256 ctx) (leafHash (wx_sha256 ctx) (lf_leafPayload (leavesOf db ns ! i))) (int i)
        (ck_treeSize row) p (ck_rootHash row)"
proof -
  let ?H = "wx_sha256 ctx"
  have log: "logInv ?H db ns" using assms(1) by (simp add: witnessInv_def)
  define b where "b = nat (ck_treeSize row)"
  note n = checkpoint_root [OF log assms(3,4)]
  have sizes: "ck_treeSize row = int b" "i < b" "b \<le> length (leafHashes db ns)" "b \<le> 2 ^ 31"
    using n(1,2) assms(5,6) by (auto simp: b_def)
  let ?leaves = "take b (leafHashes db ns)"
  have len: "length ?leaves = b" using sizes(3) by simp
  obtain p where p: "inclusionProof ?H ?leaves (int i) = Inr p"
    "verifyInclusion ?H (?leaves ! nat (int i)) (int i) (int (length ?leaves)) p (merkleRoot ?H ?leaves)"
    using inclusion_complete [of "int i" ?leaves ?H] sizes len by auto
  have "int b \<le> UINT63_MAX" using sizes(4) by (simp add: UINT63_MAX_def)
  then have "proveInclusion ctx ns (showNat i) (bigIntToString (int b)) db = Inr (Some (map b64encode p))"
    using sizes p(1) len bigIntOfText_canonical [of "showNat i"] bigIntOfText_canonical [of "showNat b"]
    by (simp add: proveInclusion_def loadLeafHashes_limit [OF log] sqlParameter_def pg_bigint_canonical [OF assms(2)] bigInt_def)
  moreover have "?leaves ! i = leafHash ?H (lf_leafPayload (leavesOf db ns ! i))"
    using sizes logInvD(3) [OF log, of "leavesOf db ns ! i"] by (simp add: leafHashes_def)
  ultimately show ?thesis
    using p(2) len n(3) by (auto simp: sizes(1))
qed

subsection \<open>Gossip\<close>

lemma reportGossip_verdict:
  assumes "reportGossip ctx now random report db = Inr (splitView, db')"
    "readsCanonicalText (wx_postgres ctx)" "deliveryInv db"
    "uuidV4Valid (gi_conversationId report)" "positiveUint63Valid (gi_position report)"
  defines "heads \<equiv> witnessHeads db (gi_conversationId report)" and "n \<equiv> nat (bigInt (gi_position report))"
  shows "splitView \<longleftrightarrow> \<not> (n \<le> length heads \<and> b64encode (heads ! (n - 1)) = gi_headHash report)"
proof -
  have pos: "uint63Valid (gi_position report)" "1 \<le> bigInt (gi_position report)"
    using assms(5) bigInt_pos_iff [of "gi_position report"] by (auto simp: positiveUint63Valid_def uint63Valid_def)
  define m where "m = n - 1"
  have m: "bigInt (gi_position report) = int (Suc m)" "n = Suc m" using pos(2) by (simp_all add: m_def n_def)
  from assms(1) have "splitView = (length (headsAt db (gi_conversationId report) (int (Suc m))) = 0
      \<or> b64encode (dh_headHash (hd (headsAt db (gi_conversationId report) (int (Suc m))))) \<noteq> gi_headHash report)"
    unfolding reportGossip_def Let_def sqlParameter_def pg_uuid_canonical [OF assms(2,4)]
      pg_bigint_canonical(3) [OF assms(2) pos(1)] option.case bindE_Inr m(1)
    by (elim bindE_InrE) (simp only: sum.inject prod.inject)
  then show ?thesis
    unfolding headsAt_Suc [OF assms(3)] by (auto simp: m(2) heads_def witnessHeads_def split: if_splits)
qed

lemma splitViewCount_gossip:
  assumes "reportGossip ctx now random report db = Inr (splitView, db')" "splitViewCount db' = Inr n"
  shows "splitViewCount db = Inr (if splitView then n - 1 else n)"
proof -
  obtain row where "db' = db\<lparr>wd_gossipReports := wd_gossipReports db @ [row]\<rparr>" "gr_splitView row = splitView"
    using reportGossip_tables [OF assms(1)] by blast
  with assms(2) show ?thesis by (auto simp: splitViewCount_def Let_def split: if_splits)
qed

subsection \<open>Submissions are accepted\<close>

lemma length_utf8_ascii: "list_all (\<lambda>c. charCode c < 128) s \<Longrightarrow> length (utf8 s) = length s"
  by (induction s) (auto simp: utf8_def utf8_char_def Let_def)

lemma SIGNING_KEY_ID_utf8:
  assumes "SIGNING_KEY_ID s"
  shows "1 \<le> length (utf8 s)" "length (utf8 s) \<le> 64"
proof -
  obtain c cs where s: "s = c # cs" "length cs \<le> 63" "isLowerAlnum c"
    "list_all (\<lambda>c. isLowerAlnum c \<or> c \<in> {CHR ''.'', CHR ''_'', CHR ''-''}) cs"
    using assms by (auto simp: SIGNING_KEY_ID_def identShape_def split: list.splits)
  have ascii: "charCode d < 128" if "isLowerAlnum d \<or> d \<in> {CHR ''.'', CHR ''_'', CHR ''-''}" for d
    using that by (auto simp: isLowerAlnum_def isDigit_def)
  have "list_all (\<lambda>c. charCode c < 128) s"
    using s ascii by (auto simp: list_all_iff)
  with s show "1 \<le> length (utf8 s)" "length (utf8 s) \<le> 64" by (simp_all add: length_utf8_ascii)
qed

text \<open>
  The environment of a call that can be served: 32-byte hashes, 64-byte signatures, a canonical key
  identifier, a fresh random identifier, a clock in the years 0 to 9999, and a log below the range of
  \<open>bigint\<close>.
\<close>

definition serviceable :: "witnessContext \<Rightarrow> int \<Rightarrow> bytes \<Rightarrow> witnessNamespace \<Rightarrow> witnessDb \<Rightarrow> bool" where
  "serviceable ctx now random ns db =
     (readsCanonicalText (wx_postgres ctx) \<and> sha256Length (wx_sha256 ctx) \<and> (\<forall>d. length (wx_sign ctx d) = 64)
      \<and> SIGNING_KEY_ID (wx_witnessKeyId ctx) \<and> length random = 16
      \<and> (\<forall>r\<in>set (wd_checkpoints db). ck_checkpointId r \<noteq> uuidV4 random)
      \<and> rfc3339Valid (dateToISO now) \<and> int (length (leavesOf db ns)) < UINT63_MAX)"

lemma numberedFrom_fresh:
  "numberedFrom start key rows \<Longrightarrow> r \<in> set rows \<Longrightarrow> key r \<noteq> int (start + length rows)"
  by (induction rows arbitrary: r rule: rev_induct) (auto simp: in_set_conv_nth nth_append dest: numberedFrom_nth)

lemma mapE_lengthPrefixed_total:
  "\<forall>x\<in>set xs. int (length x) \<le> U32_MAX \<Longrightarrow> mapE lengthPrefixed xs = Inr (map lp xs)"
  by (induction xs) (auto simp: lengthPrefixed_def lp_def)

lemma appendAndCheckpoint_total:
  assumes env: "serviceable ctx now random ns db" and log: "logInv (wx_sha256 ctx) db ns" and small: "length payload \<le> 4096"
  shows "\<exists>receipt db'. appendAndCheckpoint ctx random ns payload (dateToISO now) db
    = Inr (receipt, int (length (leavesOf db ns)), db')"
proof -
  let ?H = "wx_sha256 ctx" and ?n = "length (leavesOf db ns)"
  have H: "length (?H x) = 32" for x using env by (simp add: serviceable_def sha256Length_def)
  have pg: "readsCanonicalText (wx_postgres ctx)" and random: "length random = 16" and iso: "rfc3339Valid (dateToISO now)"
    and room: "int ?n < UINT63_MAX"
    using env by (simp_all add: serviceable_def)
  have hashes: "\<forall>l\<in>set (leafHashes db ns @ [leafHash ?H payload]). length l = 32"
    using logInvD(3) [OF log] by (auto simp: leafHashes_def leafHash_def H)
  have root: "length (merkleRoot ?H (leafHashes db ns @ [leafHash ?H payload])) = 32"
    using length_merkleRoot [of ?H] H hashes by simp
  have fresh_leaf: "\<not> list_ex (\<lambda>r. lf_namespace r = ns \<and> lf_treeIndex r = int ?n) (wd_leaves db)"
    using numberedFrom_fresh [OF logInvD(1) [OF log]] by (auto simp: list_ex_iff leavesOf_def)
  have fresh_size: "\<not> list_ex (\<lambda>r. ck_namespace r = ns \<and> ck_treeSize r = 1 + int ?n) (wd_checkpoints db)"
    using numberedFrom_fresh [OF logInvD(2) [OF log]] logInv_length_checkpoints [OF log]
    by (auto simp: list_ex_iff checkpointsOf_def add.commute)
  have fresh_id: "\<not> list_ex (\<lambda>r. ck_checkpointId r = uuidV4 random) (wd_checkpoints db)"
    using env by (auto simp: serviceable_def list_ex_iff)
  have count: "uint63Valid (showNat (Suc ?n))" using room by (simp add: uint63Valid_def bigInt_def)
  have "namespaceText ns \<in> {''delivery'', ''policy'', ''directory''}" by (cases ns) simp_all
  then have "length (namespaceText ns) \<le> 9" by auto
  moreover have "length (uuidV4 random) \<le> 36" "length (showNat (Suc ?n)) \<le> 19" "length (dateToISO now) \<le> 24"
      "length (wx_witnessKeyId ctx) \<le> 64"
    using scalar_lengths uuidV4_valid [OF random] count iso env by (auto simp: serviceable_def dest: scalar_lengths)
  ultimately have parts: "\<forall>x\<in>set [utf8 (namespaceText ns), utf8 (uuidV4 random), utf8 (showNat (Suc ?n)),
      merkleRoot ?H (leafHashes db ns @ [leafHash ?H payload]), utf8 (wx_witnessKeyId ctx), utf8 (dateToISO now)].
      int (length x) \<le> U32_MAX"
    using root by (auto simp: U32_MAX_def intro: order_trans [OF length_utf8])
  define digest where "digest = ?H (utf8 WITNESS_CHECKPOINT_DOMAIN @ concat (map lp [utf8 (namespaceText ns), utf8 (uuidV4 random),
      utf8 (showNat (Suc ?n)), merkleRoot ?H (leafHashes db ns @ [leafHash ?H payload]), utf8 (wx_witnessKeyId ctx), utf8 (dateToISO now)]))"
  have digest: "computeWitnessCheckpointDigest ?H (namespaceText ns) (uuidV4 random) (showNat (Suc ?n))
      (merkleRoot ?H (leafHashes db ns @ [leafHash ?H payload])) (wx_witnessKeyId ctx) (dateToISO now) = Inr digest"
    unfolding computeWitnessCheckpointDigest_def mapE_lengthPrefixed_total [OF parts] digest_def by simp
  have succ: "bigIntToString (int ?n + 1) = showNat (Suc ?n)" using bigIntToString_of_nat [of "Suc ?n"] by (simp add: add.commute)
  show ?thesis
    using room fresh_leaf fresh_size fresh_id root small env SIGNING_KEY_ID_utf8 [of "wx_witnessKeyId ctx"]
    unfolding appendAndCheckpoint_def Let_def loadLeafHashes_all [OF log] length_leafHashes succ digest
    by (simp add: sqlParameter_def pg_bigint_canonical [OF pg] pg_uuid_canonical [OF pg uuidV4_valid [OF random]]
        pg_timestamptz_canonical [OF pg iso] insertLeaf_def insertCheckpoint_def bigintRange_def leafHash_def H serviceable_def)
qed

lemma checkpointArgument_digest:
  assumes "sha256Length H" "extensionValid input"
  shows "\<exists>d. computeDeliveryLogCheckpointDigest H (checkpointArgument input) = Inr d"
proof -
  let ?r = "\<lparr>cpConversationId = xd_conversationId input, cpPosition = xd_position input,
      cpPreviousHeadHash = xd_previousHeadHash input, cpHeadHash = xd_headHash input, cpSigningKeyId = xd_signingKeyId input\<rparr>"
  have "checkpointArgument input = encodeCheckpoint ?r"
    by (simp add: checkpointArgument_def encodeCheckpoint_def)
  moreover have "parseDeliveryLogCheckpointInput (encodeCheckpoint ?r) = Inr ?r"
    using assms(2) by (intro checkpoint_codec.parse_encode) (simp add: extensionValid_def)
  moreover have "\<exists>h. digestOf H DELIVERY_LOG_CHECKPOINT_DIGEST_DOMAIN (checkpointFields ?r) = Inr h"
    using extensionValidD [OF assms(2)]
    by (intro digestOf_small [OF assms(1)]) (simp_all add: checkpointFields_def small_fields DELIVERY_LOG_CHECKPOINT_DIGEST_DOMAIN_def)
  ultimately show ?thesis
    by (simp add: computeDeliveryLogCheckpointDigest_def checkpointFields_def)
qed

lemma headPayload_small:
  assumes "extensionValid input" "int n = bigInt (xd_position input)"
  shows "deliveryLeafPayload input = Inr (headPayload (xd_conversationId input) (int n)
      (bufferFromBase64url (xd_previousHeadHash input)) (bufferFromBase64url (xd_headHash input)) (xd_signingKeyId input))"
    and "length (headPayload (xd_conversationId input) (int n)
      (bufferFromBase64url (xd_previousHeadHash input)) (bufferFromBase64url (xd_headHash input)) (xd_signingKeyId input)) \<le> 4096"
proof -
  note v = extensionValidD [OF assms(1)]
  have digits: "bigIntToString (int n) = xd_position input"
    using v(2) unfolding assms(2) uint63Valid_def by simp
  have "length (xd_conversationId input) \<le> 36" "length (xd_position input) \<le> 19" "length (xd_signingKeyId input) \<le> 64"
    using v by (auto dest: scalar_lengths)
  then have sizes: "length (utf8 (xd_conversationId input)) \<le> 72" "length (utf8 (xd_position input)) \<le> 38"
      "length (utf8 (xd_signingKeyId input)) \<le> 128"
    by (auto intro: order_trans [OF length_utf8])
  moreover have "length (bufferFromBase64url (xd_previousHeadHash input)) = 32" "length (bufferFromBase64url (xd_headHash input)) = 32"
    using v bufferFromBase64url_hash32 by auto
  ultimately show "deliveryLeafPayload input = Inr (headPayload (xd_conversationId input) (int n)
      (bufferFromBase64url (xd_previousHeadHash input)) (bufferFromBase64url (xd_headHash input)) (xd_signingKeyId input))"
    and "length (headPayload (xd_conversationId input) (int n)
      (bufferFromBase64url (xd_previousHeadHash input)) (bufferFromBase64url (xd_headHash input)) (xd_signingKeyId input)) \<le> 4096"
    unfolding deliveryLeafPayload_def headPayload_def digits
    by (simp_all add: mapE_lengthPrefixed_total U32_MAX_def lengthPrefixed_def lp_def)
qed

text \<open>The answer of a call whose submitter is authenticated, when nothing in the environment fails.\<close>

lemma extendDeliveryHead_total:
  assumes env: "serviceable ctx now random DeliveryNamespace db" and inv: "witnessInv (wx_sha256 ctx) db"
    and valid: "extensionValid input"
  shows "\<exists>result db'. extendDeliveryHead ctx random (dateToISO now) input db = Inr (result, db')"
proof -
  note v = extensionValidD [OF valid]
  have pg: "readsCanonicalText (wx_postgres ctx)" using env by (simp add: serviceable_def)
  have dinv: "deliveryInv db" and log: "logInv (wx_sha256 ctx) db DeliveryNamespace" using inv by (simp_all add: witnessInv_def)
  define n where "n = nat (bigInt (xd_position input))"
  have n: "bigInt (xd_position input) = int n" "1 \<le> n" "int n \<le> UINT63_MAX"
    using v(2,3) by (simp_all add: n_def uint63Valid_def)
  obtain receipt db1 where app: "appendAndCheckpoint ctx random DeliveryNamespace (headPayload (xd_conversationId input) (int n)
      (bufferFromBase64url (xd_previousHeadHash input)) (bufferFromBase64url (xd_headHash input)) (xd_signingKeyId input))
      (dateToISO now) db = Inr (receipt, int (length (leavesOf db DeliveryNamespace)), db1)"
    using appendAndCheckpoint_total [OF env log headPayload_small(2) [OF valid n(1) [symmetric]]] by blast
  then obtain leaf checkpoint where db1: "db1 = db\<lparr>wd_leaves := wd_leaves db @ [leaf], wd_checkpoints := wd_checkpoints db @ [checkpoint]\<rparr>"
    by (rule appendAndCheckpoint_tables)
  have room: "int (length (leavesOf db DeliveryNamespace)) < UINT63_MAX" using env by (simp add: serviceable_def)
  have len: "length (bufferFromBase64url (xd_headHash input)) = 32" using bufferFromBase64url_hash32 [OF v(5)] by simp
  obtain m where m: "n = Suc m" using n(2) by (cases n) auto
  have free: "\<not> list_ex (\<lambda>r. dh_conversationId r = xd_conversationId input \<and> dh_position r = int n) (wd_deliveryHeads db)"
    if "length (headsAt db (xd_conversationId input) (int n)) \<noteq> 1"
    using that headsAt_Suc [OF dinv, of "xd_conversationId input" m]
    by (auto simp: m headsAt_def list_ex_iff filter_empty_conv split: if_splits simp del: of_nat_Suc)
  show ?thesis
    unfolding extendDeliveryHead_def Let_def sqlParameter_def bigIntOfText_uint63 [OF v(2)] bindE_Inr
      pg_uuid_canonical [OF pg v(1)] pg_bigint_canonical(3) [OF pg v(2)] option.case n(1)
      headPayload_small(1) [OF valid n(1) [symmetric]]
    using n free room len app
    by (simp add: pg_bigint_canonical [OF pg] insertDeliveryHead_def bigintRange_def db1)
qed

lemma extendDelivery_accepts:
  assumes env: "serviceable ctx now random DeliveryNamespace db" and inv: "witnessInv (wx_sha256 ctx) db"
    and valid: "extensionValid input" and lock: "lockNamespace db DeliveryNamespace = Inr upstream"
    and received: "rfc3339Valid (xd_checkpointReceivedAt input)"
    and key: "submitterKeys db (xd_signingKeyId input) (1000 * dateMillis (xd_checkpointReceivedAt input)) = [key]"
    and signed: "\<And>d. computeDeliveryLogCheckpointDigest (wx_sha256 ctx) (checkpointArgument input) = Inr d \<Longrightarrow>
      verifyEd25519 ctx (sk_publicKey key) (bufferFromBase64url d) (bufferFromBase64url (xd_signature input))"
  shows "\<exists>result db'. extendDelivery ctx now random input db = Inr (result, db')
    \<and> extendDeliveryHead ctx random (dateToISO now) input db = Inr (result, db')"
proof -
  have pg: "readsCanonicalText (wx_postgres ctx)" and H: "sha256Length (wx_sha256 ctx)" using env by (simp_all add: serviceable_def)
  obtain d where d: "computeDeliveryLogCheckpointDigest (wx_sha256 ctx) (checkpointArgument input) = Inr d"
    using checkpointArgument_digest [OF H valid] by blast
  obtain result db' where run: "extendDeliveryHead ctx random (dateToISO now) input db = Inr (result, db')"
    using extendDeliveryHead_total [OF env inv valid] by blast
  show ?thesis
    using run signed [OF d]
    by (simp add: extendDelivery_def lock sqlParameter_def pg_timestamptz_canonical [OF pg received] key d)
qed

subsection \<open>Answers as a function of the witnessed heads\<close>

lemma extendDeliveryHead_outcome:
  assumes "extendDeliveryHead ctx random witnessedAt input db = Inr (result, db')"
    "readsCanonicalText (wx_postgres ctx)" "deliveryInv db" "extensionValid input"
  defines "c \<equiv> xd_conversationId input" and "head \<equiv> bufferFromBase64url (xd_headHash input)"
  shows "case headOutcome (witnessHeads db c) (nat (bigInt (xd_position input))) (bufferFromBase64url (xd_previousHeadHash input)) head of
      AlreadyWitnessed \<Rightarrow> result = DeliveryRejected ''already-witnessed'' \<and> witnessHeads db' = witnessHeads db
    | Conflicts witnessed \<Rightarrow> result = DeliveryEquivocation (xd_position input) (b64encode witnessed) (xd_headHash input)
        \<and> witnessHeads db' = witnessHeads db
    | NotAnExtension \<Rightarrow> result = DeliveryRejected ''not-an-extension'' \<and> witnessHeads db' = witnessHeads db
    | Extends \<Rightarrow> (\<exists>receipt. result = DeliveryWitnessed receipt)
        \<and> witnessHeads db' = (witnessHeads db)(c := witnessHeads db c @ [head])"
  using extendDeliveryHead_cases [OF assms(1-4)] unfolding c_def head_def
  by (auto split: headOutcome.splits elim!: appendAndCheckpoint_tables simp: witnessHeads_def headsOf_def fun_eq_iff)

end
