(* ===== verification/WitnessHistory.thy ===== *)
theory WitnessHistory
  imports WitnessClients "HOL-Library.Multiset"
begin

section \<open>What the witness reads back, and its upstream chains\<close>

text \<open>
  A table of the database has no order of its own: the witness reads leaves \<open>ORDER BY tree_index\<close> and heads by
  conversation and position. The first part shows that what it reads depends only on the rows, and that what
  it has answered for a position stays its answer. The second part relates the leaves of the policy and the
  directory log to the chain of upstream checkpoints that was submitted.
\<close>

subsection \<open>Reads do not depend on the order of the rows\<close>

lemma numberedFrom_inj: "numberedFrom start key rows \<Longrightarrow> inj_on key (set rows)"
  by (metis distinct_map distinct_upt inj_of_nat inj_on_subset numberedFrom_def subset_UNIV)

lemma sort_key_any_order:
  assumes "numberedFrom start key rows" "mset rows' = mset (filter P rows)"
  shows "sort_key key rows' = filter P rows"
proof (rule sort_key_inj_key_eq [OF assms(2)])
  have "set rows' \<subseteq> set rows" using assms(2) by (metis filter_is_subset mset_eq_setD)
  with numberedFrom_inj [OF assms(1)] show "inj_on key (set rows')" by (rule inj_on_subset)
  have "sorted (map key rows)" using assms(1) by (simp add: numberedFrom_def sorted_map_int)
  then show "sorted (map key (filter P rows))" by (rule sorted_filter)
qed

lemma loadLeafHashes_any_order:
  assumes "logInv H db ns" "mset (wd_leaves table) = mset (wd_leaves db)"
  shows "loadLeafHashes table ns limit = loadLeafHashes db ns limit"
proof -
  let ?P = "\<lambda>r. case limit of None \<Rightarrow> True | Some n \<Rightarrow> lf_treeIndex r < n"
  have split: "filter (\<lambda>r. lf_namespace r = ns \<and> ?P r) (wd_leaves t) = filter ?P (leavesOf t ns)" for t
    by (simp add: leavesOf_def conj_commute)
  have "mset (filter ?P (leavesOf table ns)) = mset (filter ?P (leavesOf db ns))"
    using assms(2) by (simp add: leavesOf_def mset_filter)
  from sort_key_any_order [OF logInvD(1) [OF assms(1)] this] sort_key_any_order [OF logInvD(1) [OF assms(1)] refl]
  show ?thesis by (simp only: loadLeafHashes_def split)
qed

lemma headsAt_any_order:
  assumes "mset (wd_deliveryHeads table) = mset (wd_deliveryHeads db)" "headsAt db c p = [row]"
  shows "headsAt table c p = [row]"
proof -
  have "mset (headsAt table c p) = mset (headsAt db c p)" using assms(1) by (simp add: headsAt_def mset_filter)
  with assms(2) show ?thesis by simp
qed

subsection \<open>What was recorded stays recorded\<close>

lemma leafHashes_grow: "(witnessStep ctx)\<^sup>*\<^sup>* db db' \<Longrightarrow> prefix (leafHashes db ns) (leafHashes db' ns)"
  unfolding leafHashes_def leavesOf_def by (intro map_mono_prefix leaf_log.run_filter)

lemma headsAt_single:
  assumes "deliveryInv db" "headsAt db c p \<noteq> []"
  shows "\<exists>row. headsAt db c p = [row]"
proof (cases "1 \<le> p")
  case True
  then have "p = int (Suc (nat (p - 1)))" by simp
  with headsAt_Suc [OF assms(1), of c "nat (p - 1)"] assms(2) show ?thesis by (metis (full_types))
next
  case False
  then show ?thesis
    using numberedFrom_filter_other [OF deliveryInvD(3) [OF assms(1), of c], of p] assms(2) by (simp add: headsAt_headsOf)
qed

lemma headsAt_stays:
  assumes "(witnessStep ctx)\<^sup>*\<^sup>* db db'" "deliveryInv db'" "headsAt db c p = [row]"
  shows "headsAt db' c p = [row]"
proof -
  have "prefix (headsAt db c p) (headsAt db' c p)" unfolding headsAt_def by (rule head_log.run_filter [OF assms(1)])
  then obtain rest where rows: "headsAt db' c p = row # rest" using assms(3) by (auto simp: prefix_def)
  with headsAt_single [OF assms(2), of c p] show ?thesis by auto
qed

lemma headsAt_witnessed:
  assumes "deliveryInv db" "headsAt db c (int (Suc i)) = [row]"
  shows "i < length (witnessHeads db c)" "witnessHeads db c ! i = dh_headHash row"
  using assms headsAt_Suc [OF assms(1), of c i] by (auto simp: witnessHeads_def split: if_splits)

lemma taken_position_answer:
  assumes "deliveryInv db" "readsCanonicalText (wx_postgres ctx)"
    "extendDelivery ctx now random input db = Inr (result, db')"
    "result \<notin> {DeliveryRejected ''submitter-key-unknown'', DeliveryRejected ''submitter-signature-invalid''}"
    "headsAt db (xd_conversationId input) (bigInt (xd_position input)) = [row]"
  shows "result = (if dh_headHash row = bufferFromBase64url (xd_headHash input) then DeliveryRejected ''already-witnessed''
      else DeliveryEquivocation (xd_position input) (b64encode (dh_headHash row)) (xd_headHash input)) \<and> db' = db"
  using assms(3)
proof (cases rule: extendDelivery_cases)
  case (1 reason)
  with assms(4) show ?thesis by blast
next
  case 2
  define i where "i = nat (bigInt (xd_position input)) - 1"
  have pos: "nat (bigInt (xd_position input)) = Suc i" "bigInt (xd_position input) = int (Suc i)"
    using extensionValidD(3) [OF 2(1)] by (simp_all add: i_def)
  note taken = headsAt_witnessed [OF assms(1) assms(5) [unfolded pos(2)]]
  from extendDeliveryHead_cases [OF 2(2) assms(2,1) 2(1)] taken show ?thesis
    by (auto simp: headOutcome_def pos(1) split: if_splits)
qed
lemma extendDelivery_unwitnessed:
  assumes "extendDelivery ctx now random input db = Inr (result, db')" "readsCanonicalText (wx_postgres ctx)" "deliveryInv db"
    "\<nexists>receipt. result = DeliveryWitnessed receipt"
  shows "db' = db"
  using assms(1)
proof (cases rule: extendDelivery_cases)
  case 2
  with extendDeliveryHead_cases [OF 2(2) assms(2,3) 2(1)] assms(4) show ?thesis by (auto split: headOutcome.splits)
qed

subsection \<open>The upstream chains\<close>

text \<open>
  The submissions that a policy or directory log accepted, in the order of the tree: each leaf is the payload of
  one of them, each quotes the checkpoint of the one before it (none at the start), and the head of the
  namespace names the last one. Identifiers are compared in the form PostgreSQL stores them in.
\<close>

definition chainLast :: "postgresInput \<Rightarrow> chainExtensionInput list \<Rightarrow> string option" where
  "chainLast pg inputs = (if inputs = [] then None else pg_uuid pg (xc_checkpointId (last inputs)))"

definition chainLinked :: "postgresInput \<Rightarrow> chainExtensionInput list \<Rightarrow> bool" where
  "chainLinked pg inputs = (\<forall>i<length inputs. xc_previousCheckpointId (inputs ! i) = chainLast pg (take i inputs)
     \<and> pg_uuid pg (xc_checkpointId (inputs ! i)) \<noteq> None)"

definition leafPayloads :: "witnessDb \<Rightarrow> witnessNamespace \<Rightarrow> bytes list" where
  "leafPayloads db ns = map lf_leafPayload (sort_key lf_treeIndex (leavesOf db ns))"

definition upstreamChain :: "postgresInput \<Rightarrow> witnessDb \<Rightarrow> witnessNamespace \<Rightarrow> chainExtensionInput list \<Rightarrow> bool" where
  "upstreamChain pg db ns inputs = (chainLinked pg inputs \<and> map chainLeafPayload inputs = map Inr (leafPayloads db ns)
     \<and> lockNamespace db ns = Inr (chainLast pg inputs))"

lemma chainLinked_snoc:
  "chainLinked pg (inputs @ [input]) \<longleftrightarrow> chainLinked pg inputs \<and> xc_previousCheckpointId input = chainLast pg inputs
     \<and> pg_uuid pg (xc_checkpointId input) \<noteq> None"
  by (auto simp: chainLinked_def less_Suc_eq nth_append)

lemma leafPayloads_table: "logInv H db ns \<Longrightarrow> leafPayloads db ns = map lf_leafPayload (leavesOf db ns)"
  by (simp add: leafPayloads_def numberedFrom_sort_key [OF logInvD(1)])

lemma lockNamespace_update:
  "lockNamespace (updateChainHead ns upstream time db) ns' =
     (if ns = ns' then bindE (lockNamespace db ns') (\<lambda>_. Inr (Some upstream)) else lockNamespace db ns')"
proof -
  let ?f = "\<lambda>r :: chainHeadRow. if ch_namespace r = ns then r\<lparr>ch_lastUpstreamCheckpointId := Some upstream, ch_updatedAt := time\<rparr> else r"
  define kept where "kept = filter (\<lambda>r. ch_namespace r = ns') (wd_chainHeads db)"
  have "filter (\<lambda>r. ch_namespace r = ns') (map ?f rows) = map ?f (filter (\<lambda>r. ch_namespace r = ns') rows)" for rows
    by (induction rows) auto
  then have locks: "lockNamespace (updateChainHead ns upstream time db) ns'
      = (case map ?f kept of [] \<Rightarrow> Inl TypeError | row # rows \<Rightarrow> Inr (ch_lastUpstreamCheckpointId row))"
    by (simp add: lockNamespace_def updateChainHead_def kept_def)
  have "\<forall>r\<in>set kept. ch_namespace r = ns'" by (simp add: kept_def)
  moreover have "lockNamespace db ns' = (case kept of [] \<Rightarrow> Inl TypeError | row # rows \<Rightarrow> Inr (ch_lastUpstreamCheckpointId row))"
    by (simp add: lockNamespace_def kept_def)
  ultimately show ?thesis unfolding locks by (cases kept) auto
qed

lemma leafPayloads_append:
  assumes "appendAndCheckpoint ctx random ns payload time db = Inr (receipt, treeIndex, db')"
    "readsCanonicalText (wx_postgres ctx)" "logInv (wx_sha256 ctx) db ns" "logInv (wx_sha256 ctx) db ns'"
  shows "leafPayloads db' ns' = leafPayloads db ns' @ (if ns' = ns then [payload] else [])" "wd_chainHeads db' = wd_chainHeads db"
proof -
  have log': "logInv (wx_sha256 ctx) db' ns'" using logInv_append [OF assms(1-3)] assms(4) by (cases "ns' = ns") auto
  from assms(1-3) obtain row checkpoint where db': "lf_namespace row = ns" "lf_leafPayload row = payload"
      "db' = db\<lparr>wd_leaves := wd_leaves db @ [row], wd_checkpoints := wd_checkpoints db @ [checkpoint]\<rparr>"
    by (rule appendAndCheckpoint_Inr) force
  show "leafPayloads db' ns' = leafPayloads db ns' @ (if ns' = ns then [payload] else [])"
    unfolding leafPayloads_table [OF log'] leafPayloads_table [OF assms(4)] by (simp add: db' leavesOf_def)
  show "wd_chainHeads db' = wd_chainHeads db" by (simp add: db')
qed

lemma upstreamChain_cong:
  "leafPayloads db' ns = leafPayloads db ns \<Longrightarrow> lockNamespace db' ns = lockNamespace db ns \<Longrightarrow>
   upstreamChain pg db ns inputs \<Longrightarrow> upstreamChain pg db' ns inputs"
  by (simp add: upstreamChain_def)

lemma upstreamChain_extend:
  assumes "extendChain ctx now random ns input db = Inr (outcome, db')" "upstreamChain (wx_postgres ctx) db ns inputs"
    "readsCanonicalText (wx_postgres ctx)" "logInv (wx_sha256 ctx) db ns"
  shows "if xc_previousCheckpointId input = chainLast (wx_postgres ctx) inputs
    then (\<exists>receipt. outcome = ChainWitnessed receipt) \<and> upstreamChain (wx_postgres ctx) db' ns (inputs @ [input])
    else outcome = ChainEquivocation (chainLast (wx_postgres ctx) inputs) (xc_previousCheckpointId input) \<and> db' = db"
proof (cases "xc_previousCheckpointId input = chainLast (wx_postgres ctx) inputs")
  case False
  with assms(1,2) show ?thesis by (auto simp: extendChain_def upstreamChain_def Let_def)
next
  case True
  have lock: "lockNamespace db ns = Inr (xc_previousCheckpointId input)" using assms(2) True by (simp add: upstreamChain_def)
  from assms(1) obtain payload receipt treeIndex db1 upstream time where run: "chainLeafPayload input = Inr payload"
      "appendAndCheckpoint ctx random ns payload (dateToISO now) db = Inr (receipt, treeIndex, db1)"
      "pg_uuid (wx_postgres ctx) (xc_checkpointId input) = Some upstream"
      "outcome = ChainWitnessed receipt" "db' = updateChainHead ns upstream time db1"
    unfolding extendChain_def lock Let_def by (auto simp: sqlParameter_eq_Inr elim!: bindE_InrE)
  note app = leafPayloads_append [OF run(2) assms(3,4,4)]
  have "leafPayloads db' ns = leafPayloads db ns @ [payload]"
    using app(1) by (simp add: run(5) updateChainHead_def leafPayloads_def leavesOf_def)
  moreover have "lockNamespace db1 ns = lockNamespace db ns" by (simp add: lockNamespace_def app(2))
  then have "lockNamespace db' ns = Inr (Some upstream)" by (simp add: run(5) lockNamespace_update lock)
  ultimately show ?thesis
    using assms(2) True run(1,3,4) by (simp add: upstreamChain_def chainLinked_snoc chainLast_def)
qed

lemma upstreamChain_step:
  assumes "witnessStep ctx db db'" "upstreamChain (wx_postgres ctx) db ns inputs" "ns \<noteq> DeliveryNamespace"
    "readsCanonicalText (wx_postgres ctx)" "witnessInv (wx_sha256 ctx) db"
  shows "\<exists>inputs. upstreamChain (wx_postgres ctx) db' ns inputs"
proof -
  have logs: "logInv (wx_sha256 ctx) db ns'" for ns' using assms(5) by (simp add: witnessInv_def)
  have other: "upstreamChain (wx_postgres ctx) db2 ns inputs"
    if "appendAndCheckpoint ctx random ns' payload time db = Inr (receipt, treeIndex, db1)" "ns \<noteq> ns'"
      "wd_leaves db2 = wd_leaves db1" "lockNamespace db2 ns = lockNamespace db1 ns" for random ns' payload time receipt treeIndex db1 db2
  proof (rule upstreamChain_cong [OF _ _ assms(2)])
    note app = leafPayloads_append [OF that(1) assms(4) logs logs [of ns]]
    show "leafPayloads db2 ns = leafPayloads db ns" using app(1) that(2,3) by (simp add: leafPayloads_def leavesOf_def)
    show "lockNamespace db2 ns = lockNamespace db ns" using app(2) that(4) by (simp add: lockNamespace_def)
  qed
  from assms(1) show ?thesis
  proof cases
    case (deliveryStep now random input result)
    show ?thesis
    proof (cases "\<exists>receipt. result = DeliveryWitnessed receipt")
      case True
      then obtain receipt where "result = DeliveryWitnessed receipt" by blast
      then obtain payload treeIndex db1 row where
        app: "appendAndCheckpoint ctx random DeliveryNamespace payload (dateToISO now) db = Inr (receipt, treeIndex, db1)"
          "db' = db1\<lparr>wd_deliveryHeads := wd_deliveryHeads db1 @ [row]\<rparr>"
        using extendDelivery_witnessed [OF _ assms(4,5)] deliveryStep by metis
      have "upstreamChain (wx_postgres ctx) db' ns inputs"
        by (rule other [OF app(1) assms(3)]) (simp_all add: app(2) lockNamespace_def)
      then show ?thesis by blast
    next
      case False
      then have "db' = db"
        using extendDelivery_unwitnessed [OF deliveryStep assms(4)] assms(5) by (auto simp: witnessInv_def)
      with assms(2) show ?thesis by blast
    qed
  next
    case (chainStep ns' now random input outcome)
    show ?thesis
    proof (cases "ns' = ns")
      case True
      from upstreamChain_extend [OF chainStep(2) [unfolded True] assms(2,4) logs] assms(2) show ?thesis
        by (auto split: if_splits)
    next
      case False
      from chainStep(2) show ?thesis
      proof (cases rule: extendChain_cases)
        case (2 receipt payload treeIndex db1 upstream time)
        have "upstreamChain (wx_postgres ctx) db' ns inputs"
        proof (rule other [OF 2(4)])
          show "lockNamespace db' ns = lockNamespace db1 ns" using False by (simp add: 2(5) lockNamespace_update)
        qed (use False in \<open>simp_all add: 2(5) updateChainHead_def\<close>)
        then show ?thesis by blast
      qed (use assms(2) in blast)
    qed
  next
    case (gossipStep now random report splitView)
    then have "wd_leaves db' = wd_leaves db" "wd_chainHeads db' = wd_chainHeads db" by (auto dest!: reportGossip_tables)
    then have "upstreamChain (wx_postgres ctx) db' ns inputs"
      by (intro upstreamChain_cong [OF _ _ assms(2)]) (simp_all add: leafPayloads_def leavesOf_def lockNamespace_def)
    then show ?thesis by blast
  qed
qed

lemma upstreamChain_init:
  assumes "witnessInit db"
  shows "upstreamChain pg db ns []"
proof -
  have "lockNamespace db ns = Inr None"
    using assms by (cases ns) (auto simp: witnessInit_def lockNamespace_def map_eq_Cons_conv)
  with assms show ?thesis
    by (simp add: upstreamChain_def chainLinked_def chainLast_def leafPayloads_def leavesOf_def witnessInit_def)
qed

lemma upstreamChain_reachable:
  assumes "(witnessStep ctx)\<^sup>*\<^sup>* db0 db" "witnessInit db0" "readsCanonicalText (wx_postgres ctx)" "ns \<noteq> DeliveryNamespace"
  shows "\<exists>inputs. upstreamChain (wx_postgres ctx) db ns inputs"
  using assms(1)
proof (induction rule: rtranclp_induct)
  case base
  show ?case using upstreamChain_init [OF assms(2)] by blast
next
  case (step db1 db2)
  then show ?case
    using upstreamChain_step [OF step(2) _ assms(4,3) witnessInv_reachable [OF step(1) assms(2,3)]] by blast
qed

end
