(* ===== verification/WitnessProperties.thy ===== *)
theory WitnessProperties
  imports WitnessHistory Samples
begin

section \<open>Properties of the witness\<close>

text \<open>
  The statements about every database that a fresh witness reaches, and about the answers it gives, with
  witnesses on a database with one submitter key and one witnessed head.
\<close>

subsection \<open>A sample run\<close>

definition samplePostgres :: postgresInput where
  "samplePostgres = \<lparr>pg_uuid = (\<lambda>s. if uuidV4Valid s then Some s else None),
     pg_bigint = (\<lambda>s. if canonicalDecimal s \<and> bigInt s \<le> UINT63_MAX then Some (bigInt s) else None),
     pg_timestamptz = (\<lambda>s. if rfc3339Valid s then Some (1000 * dateMillis s) else None)\<rparr>"

definition sampleWitness :: witnessContext where
  "sampleWitness = \<lparr>wx_sha256 = sampleHash, wx_witnessKeyId = ''witness-1'', wx_sign = (\<lambda>digest. replicate 64 1),
     wx_verify = (\<lambda>key message signature. Inr True), wx_postgres = samplePostgres\<rparr>"

definition sampleNow :: int where
  "sampleNow = dateMillis receivedAt"

definition sampleKeyRow :: submitterKeyRow where
  "sampleKeyRow = \<lparr>sk_keyId = ''log-1'', sk_publicKey = replicate 32 1, sk_validFrom = 1000 * dateMillis receivedAt,
     sk_validUntil = 1000 * dateMillis receivedAt + 1\<rparr>"

definition sampleWitnessDb :: witnessDb where
  "sampleWitnessDb = \<lparr>wd_leaves = [], wd_checkpoints = [], wd_deliveryHeads = [],
     wd_chainHeads = map (\<lambda>ns. \<lparr>ch_namespace = ns, ch_lastUpstreamCheckpointId = None, ch_updatedAt = 0\<rparr>)
       [DeliveryNamespace, PolicyNamespace, DirectoryNamespace],
     wd_submitterKeys = [sampleKeyRow], wd_gossipReports = []\<rparr>"

definition sampleExtension :: deliveryExtensionInput where
  "sampleExtension = \<lparr>xd_conversationId = sampleConversationId, xd_position = ''1'', xd_previousHeadHash = ZERO_HASH32,
     xd_headHash = hashText, xd_signingKeyId = ''log-1'', xd_signature = [], xd_checkpointReceivedAt = receivedAt\<rparr>"

definition sampleRandom :: bytes where
  "sampleRandom = replicate 16 0"

lemma samplePostgres_reads: "readsCanonicalText samplePostgres"
  by (simp add: readsCanonicalText_def samplePostgres_def)

lemma sampleWitness_reads: "readsCanonicalText (wx_postgres sampleWitness)"
  by (simp add: sampleWitness_def samplePostgres_reads)

lemma sampleWitnessDb_init: "witnessInit sampleWitnessDb"
  by (simp add: witnessInit_def sampleWitnessDb_def)

lemma sample_key_ids [simp]: "SIGNING_KEY_ID ''log-1''" "SIGNING_KEY_ID ''witness-1''"
  by (simp_all add: SIGNING_KEY_ID_def identShape_def isLowerAlnum_def isDigit_def)

lemma sampleExtension_valid: "extensionValid sampleExtension"
  by (simp add: extensionValid_def checkpointValid_def sampleExtension_def)

lemma sample_now [simp]: "dateToISO sampleNow = receivedAt"
  unfolding sampleNow_def by (rule dateToISO_dateMillis) simp

lemma sample_serviceable: "serviceable sampleWitness sampleNow sampleRandom DeliveryNamespace sampleWitnessDb"
  by (simp add: serviceable_def sampleWitness_reads)
     (simp add: sampleWitness_def sampleRandom_def sampleWitnessDb_def leavesOf_def UINT63_MAX_def)

lemma sample_outcome:
  "headOutcome (witnessHeads sampleWitnessDb sampleConversationId) 1 (bufferFromBase64url ZERO_HASH32) (bufferFromBase64url hashText) = Extends"
  by (simp add: headOutcome_def headBefore_def witnessHeads_def headsOf_def sampleWitnessDb_def ZERO_HASH32_bytes ZERO_HASH_32_def)

lemma sample_submission:
  "\<exists>result db. extendDelivery sampleWitness sampleNow sampleRandom sampleExtension sampleWitnessDb = Inr (result, db)
    \<and> extendDeliveryHead sampleWitness sampleRandom (dateToISO sampleNow) sampleExtension sampleWitnessDb = Inr (result, db)"
proof (rule extendDelivery_accepts [OF sample_serviceable _ sampleExtension_valid])
  show "witnessInv (wx_sha256 sampleWitness) sampleWitnessDb" by (rule witnessInv_init [OF sampleWitnessDb_init])
  show "lockNamespace sampleWitnessDb DeliveryNamespace = Inr None" by (simp add: lockNamespace_def sampleWitnessDb_def)
  show "submitterKeys sampleWitnessDb (xd_signingKeyId sampleExtension) (1000 * dateMillis (xd_checkpointReceivedAt sampleExtension)) = [sampleKeyRow]"
    by (simp add: submitterKeys_def sampleWitnessDb_def sampleExtension_def sampleKeyRow_def)
qed (simp_all add: sampleExtension_def verifyEd25519_def sampleWitness_def)

lemma sample_witnessed:
  obtains receipt db where
    "extendDelivery sampleWitness sampleNow sampleRandom sampleExtension sampleWitnessDb = Inr (DeliveryWitnessed receipt, db)"
    "witnessHeads db sampleConversationId = [bufferFromBase64url hashText]"
    "(witnessStep sampleWitness)\<^sup>*\<^sup>* sampleWitnessDb db"
proof -
  obtain result db where run: "extendDelivery sampleWitness sampleNow sampleRandom sampleExtension sampleWitnessDb = Inr (result, db)"
    and head: "extendDeliveryHead sampleWitness sampleRandom (dateToISO sampleNow) sampleExtension sampleWitnessDb = Inr (result, db)"
    using sample_submission by blast
  have "deliveryInv sampleWitnessDb" using witnessInv_init [OF sampleWitnessDb_init] by (simp add: witnessInv_def)
  from extendDeliveryHead_outcome [OF head sampleWitness_reads this sampleExtension_valid]
  have "\<exists>receipt. result = DeliveryWitnessed receipt" "witnessHeads db sampleConversationId = [bufferFromBase64url hashText]"
    using sample_outcome by (simp_all add: sampleExtension_def witnessHeads_def headsOf_def sampleWitnessDb_def)
  with run that show thesis by (auto intro: r_into_rtranclp witnessStep.deliveryStep)
qed

lemma sample_checkpoint:
  assumes "witnessHeads db sampleConversationId = [bufferFromBase64url hashText]" "(witnessStep sampleWitness)\<^sup>*\<^sup>* sampleWitnessDb db"
  obtains row where "row \<in> set (wd_checkpoints db)" "ck_namespace row = DeliveryNamespace" "ck_treeSize row = 1"
proof -
  have inv: "witnessInv sampleHash db"
    using witnessInv_reachable [OF assms(2) sampleWitnessDb_init sampleWitness_reads] by (simp add: sampleWitness_def)
  then have "leavesOf db DeliveryNamespace \<noteq> []"
    using assms(1) by (auto simp: witnessHeads_def headsOf_def witnessInv_def dest: deliveryInvD(2))
  then show thesis
    using checkpoint_exists [of sampleHash db DeliveryNamespace 1] inv that by (auto simp: witnessInv_def Suc_le_eq)
qed

subsection \<open>The logs\<close>

text \<open>
  C9. Invariant. In every database a fresh witness reaches, each checkpoint of a namespace commits to a
  prefix of its leaves: its size is between one and their number and its root is the Merkle root of that
  prefix. Every prefix has a checkpoint, and two checkpoints of the same size are the same row, so the
  witness cannot have signed two views of one size.
\<close>

theorem witness_checkpoints_commit:
  assumes "witnessInit db0" "(witnessStep ctx)\<^sup>*\<^sup>* db0 db" "readsCanonicalText (wx_postgres ctx)"
  shows "(\<forall>row\<in>set (wd_checkpoints db). ck_namespace row = ns \<longrightarrow>
      1 \<le> ck_treeSize row \<and> ck_treeSize row \<le> int (length (leafHashes db ns))
      \<and> ck_rootHash row = merkleRoot (wx_sha256 ctx) (take (nat (ck_treeSize row)) (leafHashes db ns)))
    \<and> (\<forall>n\<in>{1..length (leafHashes db ns)}. \<exists>!row. row \<in> set (wd_checkpoints db) \<and> ck_namespace row = ns \<and> ck_treeSize row = int n)"
proof -
  have log: "logInv (wx_sha256 ctx) db ns" using witnessInv_reachable [OF assms(2,1,3)] by (simp add: witnessInv_def)
  show ?thesis
    using checkpoint_root [OF log] checkpoint_exists [OF log] checkpoint_unique [OF log]
    by (intro conjI ballI impI ex_ex1I) (auto, blast+)
qed

theorem witness_checkpoints_commit_witness:
  "\<exists>db. leafHashes db DeliveryNamespace \<noteq> [] \<and> (\<forall>n\<in>{1..length (leafHashes db DeliveryNamespace)}.
     \<exists>!row. row \<in> set (wd_checkpoints db) \<and> ck_namespace row = DeliveryNamespace \<and> ck_treeSize row = int n)"
proof -
  obtain receipt db where run: "witnessHeads db sampleConversationId = [bufferFromBase64url hashText]"
      "(witnessStep sampleWitness)\<^sup>*\<^sup>* sampleWitnessDb db"
    by (rule sample_witnessed)
  have "deliveryInv db"
    using witnessInv_reachable [OF run(2) sampleWitnessDb_init sampleWitness_reads] by (simp add: witnessInv_def)
  with run(1) have "leafHashes db DeliveryNamespace \<noteq> []"
    by (auto simp: leafHashes_def witnessHeads_def headsOf_def dest: deliveryInvD(2))
  moreover note witness_checkpoints_commit [OF sampleWitnessDb_init run(2) sampleWitness_reads, of DeliveryNamespace]
  ultimately show ?thesis by blast
qed

text \<open>
  C10. The log is never rewritten. Let a fresh witness reach one database and later another, whose rows may be
  stored in any order. What the witness loads later by tree index extends what it loaded before; every
  checkpoint signed before is still the root of the leaves loaded for its size; the head it reads for a
  conversation and position is the one it read before; and an authenticated submission for a position that
  was taken before is answered from that head, as a repetition or as an equivocation, and changes nothing.
\<close>

theorem witness_append_only:
  assumes "witnessInit db0" "(witnessStep ctx)\<^sup>*\<^sup>* db0 db" "readsCanonicalText (wx_postgres ctx)" "(witnessStep ctx)\<^sup>*\<^sup>* db db'"
    "mset (wd_leaves table) = mset (wd_leaves db')" "mset (wd_deliveryHeads table) = mset (wd_deliveryHeads db')"
  shows "prefix (loadLeafHashes db ns None) (loadLeafHashes table ns None)
    \<and> (\<forall>row\<in>set (wd_checkpoints db). ck_namespace row = ns \<longrightarrow>
        int (length (loadLeafHashes table ns (Some (ck_treeSize row)))) = ck_treeSize row
        \<and> ck_rootHash row = merkleRoot (wx_sha256 ctx) (loadLeafHashes table ns (Some (ck_treeSize row))))
    \<and> (headsAt db c p \<noteq> [] \<longrightarrow> headsAt table c p = headsAt db c p)
    \<and> (\<forall>now random input result db2 row. extendDelivery ctx now random input db' = Inr (result, db2)
        \<and> result \<notin> {DeliveryRejected ''submitter-key-unknown'', DeliveryRejected ''submitter-signature-invalid''}
        \<and> headsAt db (xd_conversationId input) (bigInt (xd_position input)) = [row] \<longrightarrow>
        db2 = db' \<and> result = (if dh_headHash row = bufferFromBase64url (xd_headHash input) then DeliveryRejected ''already-witnessed''
          else DeliveryEquivocation (xd_position input) (b64encode (dh_headHash row)) (xd_headHash input)))"
proof (intro conjI ballI allI impI)
  have inv: "witnessInv (wx_sha256 ctx) db" by (rule witnessInv_reachable [OF assms(2,1,3)])
  have inv': "witnessInv (wx_sha256 ctx) db'" by (rule witnessInv_reachable [OF rtranclp_trans [OF assms(2,4)] assms(1,3)])
  have log: "logInv (wx_sha256 ctx) db ns" and log': "logInv (wx_sha256 ctx) db' ns" and heads: "deliveryInv db" and heads': "deliveryInv db'"
    using inv inv' by (simp_all add: witnessInv_def)
  have grow: "prefix (leafHashes db ns) (leafHashes db' ns)" by (rule leafHashes_grow [OF assms(4)])
  have load: "loadLeafHashes table ns limit = loadLeafHashes db' ns limit" for limit
    by (rule loadLeafHashes_any_order [OF log' assms(5)])
  show "prefix (loadLeafHashes db ns None) (loadLeafHashes table ns None)"
    using grow by (simp add: load loadLeafHashes_all [OF log] loadLeafHashes_all [OF log'])
  show "int (length (loadLeafHashes table ns (Some (ck_treeSize row)))) = ck_treeSize row"
    "ck_rootHash row = merkleRoot (wx_sha256 ctx) (loadLeafHashes table ns (Some (ck_treeSize row)))"
    if "row \<in> set (wd_checkpoints db)" "ck_namespace row = ns" for row
  proof -
    have "row \<in> set (wd_checkpoints db')" using that(1) by (rule checkpoint_log.run_keeps [OF assms(4)])
    note root = checkpoint_root [OF log' this that(2)]
    from root show "int (length (loadLeafHashes table ns (Some (ck_treeSize row)))) = ck_treeSize row"
      by (simp add: load loadLeafHashes_limit [OF log'])
    from root(3) show "ck_rootHash row = merkleRoot (wx_sha256 ctx) (loadLeafHashes table ns (Some (ck_treeSize row)))"
      by (simp add: load loadLeafHashes_limit [OF log'])
  qed
  show "headsAt table c p = headsAt db c p" if present: "headsAt db c p \<noteq> []"
  proof -
    obtain row where "headsAt db c p = [row]" using headsAt_single [OF heads present] by blast
    with headsAt_any_order [OF assms(6) headsAt_stays [OF assms(4) heads' this]] show ?thesis by simp
  qed
  fix now random input result db2 row
  assume sub: "extendDelivery ctx now random input db' = Inr (result, db2)
        \<and> result \<notin> {DeliveryRejected ''submitter-key-unknown'', DeliveryRejected ''submitter-signature-invalid''}
        \<and> headsAt db (xd_conversationId input) (bigInt (xd_position input)) = [row]"
  then have "headsAt db' (xd_conversationId input) (bigInt (xd_position input)) = [row]"
    using headsAt_stays [OF assms(4) heads'] by blast
  with taken_position_answer [OF heads' assms(3)] sub
  show "db2 = db'" "result = (if dh_headHash row = bufferFromBase64url (xd_headHash input) then DeliveryRejected ''already-witnessed''
      else DeliveryEquivocation (xd_position input) (b64encode (dh_headHash row)) (xd_headHash input))"
    by blast+
qed

theorem witness_append_only_witness:
  "\<exists>db table row. set (wd_leaves table) = set (wd_leaves db) \<and> headsAt db sampleConversationId 1 \<noteq> []
     \<and> headsAt table sampleConversationId 1 = headsAt db sampleConversationId 1 \<and> row \<in> set (wd_checkpoints db)
     \<and> ck_rootHash row = merkleRoot sampleHash (loadLeafHashes table DeliveryNamespace (Some 1))"
proof -
  obtain receipt db where run: "witnessHeads db sampleConversationId = [bufferFromBase64url hashText]"
      "(witnessStep sampleWitness)\<^sup>*\<^sup>* sampleWitnessDb db"
    by (rule sample_witnessed)
  obtain row where row: "row \<in> set (wd_checkpoints db)" "ck_namespace row = DeliveryNamespace" "ck_treeSize row = 1"
    using run by (rule sample_checkpoint)
  have "deliveryInv db" using witnessInv_reachable [OF run(2) sampleWitnessDb_init sampleWitness_reads] by (simp add: witnessInv_def)
  then have "headsAt db sampleConversationId 1 \<noteq> []"
    using headsAt_Suc [of db sampleConversationId 0] run(1) by (auto simp: witnessHeads_def split: if_splits)
  define table where "table = db\<lparr>wd_leaves := rev (wd_leaves db), wd_deliveryHeads := rev (wd_deliveryHeads db)\<rparr>"
  have rows: "mset (wd_leaves table) = mset (wd_leaves db)" "mset (wd_deliveryHeads table) = mset (wd_deliveryHeads db)"
    by (simp_all add: table_def)
  have "wx_sha256 sampleWitness = sampleHash" by (simp add: sampleWitness_def)
  with witness_append_only [OF sampleWitnessDb_init run(2) sampleWitness_reads rtranclp.rtrancl_refl rows, of DeliveryNamespace sampleConversationId 1]
    row \<open>headsAt db sampleConversationId 1 \<noteq> []\<close> mset_eq_setD [OF rows(1)]
  show ?thesis by (intro exI [of _ db] exI [of _ table] exI [of _ row]) auto
qed

text \<open>
  C13. Composition with the Merkle log. For any two checkpoints of a namespace in a reachable database the
  witness serves a consistency proof, and the client's verifier accepts it for the two signed roots.
\<close>

theorem witness_serves_consistency:
  assumes "witnessInit db0" "(witnessStep ctx)\<^sup>*\<^sup>* db0 db" "readsCanonicalText (wx_postgres ctx)"
    "old \<in> set (wd_checkpoints db)" "new \<in> set (wd_checkpoints db)" "ck_namespace old = ns" "ck_namespace new = ns"
    "ck_treeSize old \<le> ck_treeSize new" "ck_treeSize new \<le> 2 ^ 31"
  shows "\<exists>p. proveConsistency ctx ns (bigIntToString (ck_treeSize old)) (bigIntToString (ck_treeSize new)) db
      = Inr (Some (map b64encode p))
    \<and> verifyConsistency (wx_sha256 ctx) (ck_treeSize old) (ck_rootHash old) (ck_treeSize new) (ck_rootHash new) p"
  by (rule proveConsistency_served [OF witnessInv_reachable [OF assms(2,1,3)] assms(3-9)])

theorem witness_serves_consistency_witness:
  "\<exists>db old p. old \<in> set (wd_checkpoints db)
     \<and> proveConsistency sampleWitness DeliveryNamespace ''1'' ''1'' db = Inr (Some (map b64encode p))
     \<and> verifyConsistency sampleHash 1 (ck_rootHash old) 1 (ck_rootHash old) p"
proof -
  obtain receipt db where run: "witnessHeads db sampleConversationId = [bufferFromBase64url hashText]"
      "(witnessStep sampleWitness)\<^sup>*\<^sup>* sampleWitnessDb db"
    by (rule sample_witnessed)
  obtain row where row: "row \<in> set (wd_checkpoints db)" "ck_namespace row = DeliveryNamespace" "ck_treeSize row = 1"
    using run by (rule sample_checkpoint)
  have "wx_sha256 sampleWitness = sampleHash" by (simp add: sampleWitness_def)
  moreover have "bigIntToString 1 = ''1''" using bigIntToString_bigInt [of "''1''"] by (simp add: canonicalDecimal_def isDigit_def)
  ultimately show ?thesis
    using witness_serves_consistency [OF sampleWitnessDb_init run(2) sampleWitness_reads row(1,1,2,2)] row by (auto simp: row(3))
qed

subsection \<open>Heads of conversations\<close>

text \<open>
  C14. Inclusion of heads. The head at index \<open>j\<close> of the delivery log is recorded at leaf \<open>j\<close>, together with
  its conversation, its position and the head before it, and under every larger checkpoint the witness
  serves an inclusion proof of exactly that leaf, which the client's verifier accepts.
\<close>

theorem witness_proves_heads:
  assumes "witnessInit db0" "(witnessStep ctx)\<^sup>*\<^sup>* db0 db" "readsCanonicalText (wx_postgres ctx)"
    "j < length (wd_deliveryHeads db)" "row \<in> set (wd_checkpoints db)" "ck_namespace row = DeliveryNamespace"
    "int j < ck_treeSize row" "ck_treeSize row \<le> 2 ^ 31"
  shows "\<exists>keyId p. let head = wd_deliveryHeads db ! j; heads = witnessHeads db (dh_conversationId head) in
    dh_treeIndex head = int j
    \<and> proveInclusion ctx DeliveryNamespace (showNat j) (bigIntToString (ck_treeSize row)) db = Inr (Some (map b64encode p))
    \<and> verifyInclusion (wx_sha256 ctx)
        (leafHash (wx_sha256 ctx) (headPayload (dh_conversationId head) (dh_position head)
          (headBefore heads (nat (dh_position head) - 1)) (dh_headHash head) keyId))
        (int j) (ck_treeSize row) p (ck_rootHash row)"
proof -
  have inv: "witnessInv (wx_sha256 ctx) db" by (rule witnessInv_reachable [OF assms(2,1,3)])
  then have delivery: "deliveryInv db" by (simp add: witnessInv_def)
  obtain keyId where payload: "lf_leafPayload (leavesOf db DeliveryNamespace ! j) =
      (let r = wd_deliveryHeads db ! j; c = dh_conversationId r in
       headPayload c (dh_position r) (headBefore (witnessHeads db c) (nat (dh_position r) - 1)) (dh_headHash r) keyId)"
    using delivery assms(4) unfolding deliveryInv_def by blast
  have "dh_treeIndex (wd_deliveryHeads db ! j) = int j"
    using numberedFrom_nth [OF deliveryInvD(1) [OF delivery] assms(4)] by simp
  then show ?thesis
    using proveInclusion_served [OF inv assms(3,5-8)] unfolding payload Let_def by blast
qed

theorem witness_proves_heads_witness:
  "\<exists>db p. wd_deliveryHeads db \<noteq> []
     \<and> proveInclusion sampleWitness DeliveryNamespace (showNat 0) (bigIntToString 1) db = Inr (Some (map b64encode p))"
proof -
  obtain receipt db where run: "witnessHeads db sampleConversationId = [bufferFromBase64url hashText]"
      "(witnessStep sampleWitness)\<^sup>*\<^sup>* sampleWitnessDb db"
    by (rule sample_witnessed)
  obtain row where row: "row \<in> set (wd_checkpoints db)" "ck_namespace row = DeliveryNamespace" "ck_treeSize row = 1"
    using run by (rule sample_checkpoint)
  have "wd_deliveryHeads db \<noteq> []" using run(1) by (auto simp: witnessHeads_def headsOf_def)
  with witness_proves_heads [OF sampleWitnessDb_init run(2) sampleWitness_reads, of 0 row] row show ?thesis
    by (auto simp: Let_def)
qed



text \<open>
  C12. Liveness. A signed submission of the next head of a conversation, with its predecessor, is witnessed:
  in a reachable database no check and no constraint of the schema stands in its way, provided the clock,
  the fresh identifier, the hash and the signer deliver values of their formats.
\<close>

theorem extension_is_witnessed:
  assumes "witnessInit db0" "(witnessStep ctx)\<^sup>*\<^sup>* db0 db" "serviceable ctx now random DeliveryNamespace db"
    "extensionValid input" "lockNamespace db DeliveryNamespace = Inr upstream" "rfc3339Valid (xd_checkpointReceivedAt input)"
    "submitterKeys db (xd_signingKeyId input) (1000 * dateMillis (xd_checkpointReceivedAt input)) = [key]"
    "\<And>d. computeDeliveryLogCheckpointDigest (wx_sha256 ctx) (checkpointArgument input) = Inr d \<Longrightarrow>
      verifyEd25519 ctx (sk_publicKey key) (bufferFromBase64url d) (bufferFromBase64url (xd_signature input))"
    "headOutcome (witnessHeads db (xd_conversationId input)) (nat (bigInt (xd_position input)))
      (bufferFromBase64url (xd_previousHeadHash input)) (bufferFromBase64url (xd_headHash input)) = Extends"
  shows "\<exists>receipt db'. extendDelivery ctx now random input db = Inr (DeliveryWitnessed receipt, db')
    \<and> witnessHeads db' (xd_conversationId input)
        = witnessHeads db (xd_conversationId input) @ [bufferFromBase64url (xd_headHash input)]"
proof -
  have pg: "readsCanonicalText (wx_postgres ctx)" using assms(3) by (simp add: serviceable_def)
  have inv: "witnessInv (wx_sha256 ctx) db" by (rule witnessInv_reachable [OF assms(2,1) pg])
  obtain result db' where run: "extendDelivery ctx now random input db = Inr (result, db')"
      "extendDeliveryHead ctx random (dateToISO now) input db = Inr (result, db')"
    using extendDelivery_accepts [OF assms(3) inv assms(4-8)] by blast
  have "deliveryInv db" using inv by (simp add: witnessInv_def)
  from extendDeliveryHead_outcome [OF run(2) pg this assms(4)] run(1) assms(9) show ?thesis by auto
qed

theorem extension_is_witnessed_witness:
  "\<exists>receipt db. extendDelivery sampleWitness sampleNow sampleRandom sampleExtension sampleWitnessDb = Inr (DeliveryWitnessed receipt, db)"
proof -
  have "\<exists>receipt db. extendDelivery sampleWitness sampleNow sampleRandom sampleExtension sampleWitnessDb = Inr (DeliveryWitnessed receipt, db)
      \<and> witnessHeads db (xd_conversationId sampleExtension)
          = witnessHeads sampleWitnessDb (xd_conversationId sampleExtension) @ [bufferFromBase64url (xd_headHash sampleExtension)]"
  proof (rule extension_is_witnessed [OF sampleWitnessDb_init rtranclp.rtrancl_refl sample_serviceable sampleExtension_valid])
    show "lockNamespace sampleWitnessDb DeliveryNamespace = Inr None" by (simp add: lockNamespace_def sampleWitnessDb_def)
    show "submitterKeys sampleWitnessDb (xd_signingKeyId sampleExtension) (1000 * dateMillis (xd_checkpointReceivedAt sampleExtension)) = [sampleKeyRow]"
      by (simp add: submitterKeys_def sampleWitnessDb_def sampleExtension_def sampleKeyRow_def)
    show "headOutcome (witnessHeads sampleWitnessDb (xd_conversationId sampleExtension)) (nat (bigInt (xd_position sampleExtension)))
        (bufferFromBase64url (xd_previousHeadHash sampleExtension)) (bufferFromBase64url (xd_headHash sampleExtension)) = Extends"
      using sample_outcome by (simp add: sampleExtension_def)
  qed (simp_all add: sampleExtension_def verifyEd25519_def sampleWitness_def)
  then show ?thesis by blast
qed

subsection \<open>Receipts, gossip and the upstream chains\<close>

text \<open>
  Round trip. The receipt a submitter gets, for a delivery head or for a policy or directory checkpoint,
  is what the witness answers for its identifier from then on, in every later state.
\<close>

theorem receipt_reads_back:
  assumes "witnessInit db0" "(witnessStep ctx)\<^sup>*\<^sup>* db0 db" "readsCanonicalText (wx_postgres ctx)"
    "length random = 16" "rfc3339Valid (dateToISO now)"
    "extendDelivery ctx now random input db = Inr (DeliveryWitnessed receipt, db1)
     \<or> ns \<noteq> DeliveryNamespace \<and> extendChain ctx now random ns chainInput db = Inr (ChainWitnessed receipt, db1)"
    "(witnessStep ctx)\<^sup>*\<^sup>* db1 db'"
  shows "readCheckpoint ctx (wc_checkpointId receipt) db' = Inr (Some receipt)"
proof -
  have inv: "witnessInv (wx_sha256 ctx) db" by (rule witnessInv_reachable [OF assms(2,1,3)])
  have "checkpointIdsDistinct db0" using assms(1) by (simp add: witnessInit_def checkpointIdsDistinct_def)
  then have "checkpointIdsDistinct db" by (rule checkpointIdsDistinct_run [OF assms(2)])
  moreover have "witnessStep ctx db db1" using assms(6) by (auto intro: witnessStep.intros)
  ultimately have ids: "checkpointIdsDistinct db1" by (rule checkpointIdsDistinct_step [rotated])
  have "\<exists>row\<in>set (wd_checkpoints db1). receipt = checkpointFromRow row \<and> ck_checkpointId row = wc_checkpointId receipt
      \<and> uuidV4Valid (wc_checkpointId receipt)"
    using assms(6) deliveryWitnessed_append chainWitnessed_append
    by (metis appendAndCheckpoint_receipt [OF _ assms(3) _ assms(4,5)] inv witnessInv_def)
  then show ?thesis using receipt_stays_readable [OF _ _ _ _ ids assms(3,7)] by blast
qed

text \<open>
  Split views. A gossip report for a canonical conversation and position is recorded as a split view
  exactly when the reported head is not the one the witness has at that position, in particular when it
  has none; the count of split views moves accordingly.
\<close>

theorem gossip_detects_split_views:
  assumes "witnessInit db0" "(witnessStep ctx)\<^sup>*\<^sup>* db0 db" "readsCanonicalText (wx_postgres ctx)"
    "reportGossip ctx now random report db = Inr (splitView, db')" "splitViewCount db' = Inr n"
    "uuidV4Valid (gi_conversationId report)" "positiveUint63Valid (gi_position report)"
  shows "(splitView \<longleftrightarrow> \<not> (nat (bigInt (gi_position report)) \<le> length (witnessHeads db (gi_conversationId report))
      \<and> b64encode (witnessHeads db (gi_conversationId report) ! (nat (bigInt (gi_position report)) - 1)) = gi_headHash report))
    \<and> splitViewCount db = Inr (if splitView then n - 1 else n)"
proof -
  have "deliveryInv db" using witnessInv_reachable [OF assms(2,1,3)] by (simp add: witnessInv_def)
  then show ?thesis
    using reportGossip_verdict [OF assms(4,3) _ assms(6,7)] splitViewCount_gossip [OF assms(4,5)] by blast
qed

text \<open>
  C40. Refinement. The policy and the directory log hold exactly the chain of upstream checkpoints that was
  submitted. In a reachable database the leaves, by tree index, are the payloads of submissions each of which
  quotes the checkpoint of the one before it, and the head of the namespace names the last. A further
  submission that quotes it is witnessed and appended to that chain; any other is answered by an equivocation
  with both identifiers, and nothing is stored.
\<close>

theorem chain_extension_refines:
  assumes "witnessInit db0" "(witnessStep ctx)\<^sup>*\<^sup>* db0 db" "readsCanonicalText (wx_postgres ctx)" "ns \<noteq> DeliveryNamespace"
    "extendChain ctx now random ns input db = Inr (outcome, db')"
  shows "\<exists>inputs. upstreamChain (wx_postgres ctx) db ns inputs
    \<and> (if xc_previousCheckpointId input = chainLast (wx_postgres ctx) inputs
       then (\<exists>receipt. outcome = ChainWitnessed receipt) \<and> upstreamChain (wx_postgres ctx) db' ns (inputs @ [input])
       else outcome = ChainEquivocation (chainLast (wx_postgres ctx) inputs) (xc_previousCheckpointId input) \<and> db' = db)"
proof -
  obtain inputs where chain: "upstreamChain (wx_postgres ctx) db ns inputs"
    using upstreamChain_reachable [OF assms(2,1,3,4)] by blast
  have "logInv (wx_sha256 ctx) db ns" using witnessInv_reachable [OF assms(2,1,3)] by (simp add: witnessInv_def)
  from upstreamChain_extend [OF assms(5) chain assms(3) this] chain show ?thesis by blast
qed

definition sampleChainInput :: chainExtensionInput where
  "sampleChainInput = \<lparr>xc_checkpointId = sampleCheckpointId, xc_treeSize = ''1'', xc_rootHash = hashText,
     xc_previousCheckpointId = None, xc_signerKeyId = ''policy-1''\<rparr>"

lemma sample_chain_run:
  obtains receipt db where "extendChain sampleWitness sampleNow sampleRandom PolicyNamespace sampleChainInput sampleWitnessDb
    = Inr (ChainWitnessed receipt, db)"
proof -
  have lock: "lockNamespace sampleWitnessDb PolicyNamespace = Inr None" by (simp add: lockNamespace_def sampleWitnessDb_def)
  define payload where "payload = concat (map lp [utf8 sampleCheckpointId, utf8 ''1'', replicate 32 7, [], utf8 ''policy-1''])"
  have texts: "length (utf8 sampleCheckpointId) = 36" "length (utf8 ''1'') = 1" "length (utf8 ''policy-1'') = 8" "utf8 [] = []"
    by (simp_all add: sampleCheckpointId_def utf8_def utf8_char_def)
  have "bufferFromBase64url hashText = replicate 32 7" by (simp add: hashText_def bufferFromBase64url_encode)
  then have payload: "chainLeafPayload sampleChainInput = Inr payload" "length payload \<le> 4096"
    using mapE_lengthPrefixed_total [of "[utf8 sampleCheckpointId, utf8 ''1'', replicate 32 7, [], utf8 ''policy-1'']"] texts
    by (simp_all add: chainLeafPayload_def sampleChainInput_def payload_def U32_MAX_def length_lp)
  have "serviceable sampleWitness sampleNow sampleRandom PolicyNamespace sampleWitnessDb"
    using sample_serviceable by (simp add: serviceable_def sampleWitnessDb_def leavesOf_def)
  moreover have "logInv (wx_sha256 sampleWitness) sampleWitnessDb PolicyNamespace"
    using witnessInv_init [OF sampleWitnessDb_init] by (simp add: witnessInv_def)
  ultimately obtain receipt treeIndex db where
    "appendAndCheckpoint sampleWitness sampleRandom PolicyNamespace payload (dateToISO sampleNow) sampleWitnessDb = Inr (receipt, treeIndex, db)"
    using appendAndCheckpoint_total [OF _ _ payload(2)] by blast
  then have "\<exists>db. extendChain sampleWitness sampleNow sampleRandom PolicyNamespace sampleChainInput sampleWitnessDb
      = Inr (ChainWitnessed receipt, db)"
    by (simp add: extendChain_def lock payload Let_def)
      (simp add: sampleChainInput_def sqlParameter_def sampleWitness_def samplePostgres_def)
  with that show thesis by blast
qed

theorem chain_extension_refines_witness:
  "\<exists>receipt db. extendChain sampleWitness sampleNow sampleRandom PolicyNamespace sampleChainInput sampleWitnessDb
      = Inr (ChainWitnessed receipt, db) \<and> upstreamChain samplePostgres db PolicyNamespace [sampleChainInput]"
proof -
  obtain receipt db where run: "extendChain sampleWitness sampleNow sampleRandom PolicyNamespace sampleChainInput sampleWitnessDb
      = Inr (ChainWitnessed receipt, db)"
    by (rule sample_chain_run)
  have "inputs = []" if "upstreamChain pg sampleWitnessDb PolicyNamespace inputs" for pg inputs
    using that by (simp add: upstreamChain_def leafPayloads_def leavesOf_def sampleWitnessDb_def)
  moreover have "wx_postgres sampleWitness = samplePostgres" by (simp add: sampleWitness_def)
  ultimately show ?thesis
    using chain_extension_refines [OF sampleWitnessDb_init rtranclp.rtrancl_refl sampleWitness_reads _ run] run
    by (fastforce split: if_splits)
qed

end
