(* ===== verification/CursorCodec.thy ===== *)
theory CursorCodec
  imports NodeRuntime Hashes Limits StateParsers
begin

section \<open>Conversation cursors\<close>

text \<open>
  Models \<open>src/src/production/delivery/conversationCursorCodec.ts\<close> and the cursor parsers of \<open>sync.ts\<close>. A
  cursor is an AES-256-GCM box around a position and two times; account and route are associated data only.
  The cipher is a parameter: \<open>seal\<close> is \<open>createCipheriv\<close> with its tag, \<open>unseal\<close> is \<open>createDecipheriv\<close>, where
  \<open>None\<close> is the exception of \<open>final()\<close>. The nonce is what the allocator returns.
\<close>

subsection \<open>Bytes of a cursor\<close>

text \<open>
  The encoding \<open>"ascii"\<close> of Node: writing keeps the low eight bits of a code unit, reading drops the high
  bit of a byte.
\<close>

definition asciiBytes :: "string \<Rightarrow> bytes" where
  "asciiBytes s = map (\<lambda>c. of_nat (charCode c)) s"

definition asciiText :: "bytes \<Rightarrow> string" where
  "asciiText bs = map (\<lambda>b. char_of (unat b mod 128)) bs"

fun beBytes :: "nat \<Rightarrow> nat \<Rightarrow> bytes" where
  "beBytes 0 v = []"
| "beBytes (Suc n) v = beBytes n (v div 256) @ [of_nat (v mod 256)]"

definition beNat :: "bytes \<Rightarrow> nat" where
  "beNat bs = foldl (\<lambda>acc b. acc * 256 + unat b) 0 bs"

definition cursorLengthPrefixed :: "string \<Rightarrow> bytes res" where
  "cursorLengthPrefixed s = (let bs = asciiBytes s in
     if int (length bs) > U32_MAX then Inl RangeError else Inr (beBytes 4 (length bs) @ bs))"

definition u64be :: "int \<Rightarrow> bytes res" where
  "u64be value = (if value < 0 \<or> value > 2 ^ 64 - 1 then Inl TypeError else Inr (beBytes 8 (nat value)))"

text \<open>The reader: its state is what it has not read yet.\<close>

definition readU8 :: "bytes \<Rightarrow> (nat \<times> bytes) res" where
  "readU8 bs = (if length bs < 1 then Inl RangeError else Inr (unat (hd bs), drop 1 bs))"

definition readU64be :: "bytes \<Rightarrow> (nat \<times> bytes) res" where
  "readU64be bs = (if length bs < 8 then Inl RangeError else Inr (beNat (take 8 bs), drop 8 bs))"

definition readLengthPrefixedAscii :: "bytes \<Rightarrow> (string \<times> bytes) res" where
  "readLengthPrefixedAscii bs =
     (if length bs < 4 then Inl RangeError
      else let n = beNat (take 4 bs); rest = drop 4 bs in
        if length rest < n then Inl RangeError else Inr (asciiText (take n rest), drop n rest))"

definition expectExhausted :: "bytes \<Rightarrow> unit res" where
  "expectExhausted bs = guardE (bs = []) RangeError"

subsection \<open>Context and claims\<close>

definition CONVERSATION_CURSOR_PREFIX :: string where
  "CONVERSATION_CURSOR_PREFIX = ''cc1.''"

definition CONVERSATION_CURSOR_PROFILE :: string where
  "CONVERSATION_CURSOR_PROFILE = ''conversation-cursor-aes-256-gcm.v1''"

definition CONVERSATION_EVENTS_ROUTE_TEMPLATE :: string where
  "CONVERSATION_EVENTS_ROUTE_TEMPLATE = ''/v1/conversations/{conversationId}/events''"

definition CONVERSATION_CURSOR_MAX_LIFETIME_MILLISECONDS :: int where
  "CONVERSATION_CURSOR_MAX_LIFETIME_MILLISECONDS = 30 * 24 * 60 * 60 * 1000"

definition CURSOR_KIND :: string where
  "CURSOR_KIND = ''conversation-cursor-claims.v1''"

definition CURSOR_AAD_DOMAIN :: string where
  "CURSOR_AAD_DOMAIN = ''jb-msg-conversation-cursor-aad/v1''"

definition CURSOR_MAX_CHARACTERS :: nat where
  "CURSOR_MAX_CHARACTERS = 1024"

text \<open>\<open>/^[a-z0-9][a-z0-9._-]{0,63}$/\<close>, for realms and for key identifiers.\<close>

definition REALM_ID :: "string \<Rightarrow> bool" where
  "REALM_ID = identShape isLowerAlnum (\<lambda>c. isLowerAlnum c \<or> c \<in> {CHR ''.'', CHR ''_'', CHR ''-''}) 63"

definition parseDeliveryRealmId :: "jsval \<Rightarrow> string res" where
  "parseDeliveryRealmId v = (case v of
     JStr s \<Rightarrow> if REALM_ID s then Inr s else Inl ConversationSyncValidationError
   | _ \<Rightarrow> Inl ConversationSyncValidationError)"

record cursorContext =
  cx_realmId :: string
  cx_accountId :: string
  cx_installationId :: string
  cx_conversationId :: string

definition CURSOR_CONTEXT_KEYS :: "string list" where
  "CURSOR_CONTEXT_KEYS = [''realmId'', ''accountId'', ''installationId'', ''conversationId'', ''routeTemplate'']"

definition parseConversationCursorContext :: "jsval \<Rightarrow> cursorContext res" where
  "parseConversationCursorContext v =
     bindE (expectExactRecord v CURSOR_CONTEXT_KEYS) (\<lambda>record.
     if record ''routeTemplate'' \<noteq> JStr CONVERSATION_EVENTS_ROUTE_TEMPLATE then Inl ConversationSyncValidationError
     else
       bindE (parseDeliveryRealmId (record ''realmId'')) (\<lambda>realmId.
       bindE (parseAccountId (record ''accountId'')) (\<lambda>accountId.
       bindE (parseInstallationId (record ''installationId'')) (\<lambda>installationId.
       bindE (parseConversationId (record ''conversationId'')) (\<lambda>conversationId.
       Inr \<lparr>cx_realmId = realmId, cx_accountId = accountId, cx_installationId = installationId,
            cx_conversationId = conversationId\<rparr>)))))"

record cursorPlaintext =
  pt_realmId :: string
  pt_installationId :: string
  pt_conversationId :: string
  pt_lastReturnedPosition :: string
  pt_issuedAt :: string
  pt_expiresAt :: string
  pt_keyId :: string

record cursorClaims =
  cc_encodedCursor :: string
  cc_realmId :: string
  cc_accountId :: string
  cc_installationId :: string
  cc_conversationId :: string
  cc_lastReturnedPosition :: string
  cc_issuedAt :: string
  cc_expiresAt :: string
  cc_keyId :: string

subsection \<open>The codec\<close>

record cursorCipher =
  ci_seal :: "bytes \<Rightarrow> bytes \<Rightarrow> bytes \<Rightarrow> bytes \<Rightarrow> bytes \<times> bytes"
  ci_unseal :: "bytes \<Rightarrow> bytes \<Rightarrow> bytes \<Rightarrow> bytes \<Rightarrow> bytes \<Rightarrow> bytes option"

text \<open>The closure of \<open>createKeyedConversationCursorCodec\<close>, after its two checks.\<close>

record cursorCodec =
  kc_keyId :: string
  kc_key :: bytes
  kc_cipher :: cursorCipher

definition createKeyedConversationCursorCodec :: "cursorCipher \<Rightarrow> string \<Rightarrow> bytes \<Rightarrow> cursorCodec res" where
  "createKeyedConversationCursorCodec cipher keyId key =
     (if \<not> SIGNING_KEY_ID keyId then Inl TypeError
      else if length key \<noteq> 32 then Inl TypeError
      else Inr \<lparr>kc_keyId = keyId, kc_key = key, kc_cipher = cipher\<rparr>)"

definition aadFor :: "cursorCodec \<Rightarrow> cursorContext \<Rightarrow> bytes res" where
  "aadFor codec cx =
     bindE (mapE cursorLengthPrefixed [cx_realmId cx, cx_accountId cx, cx_installationId cx, cx_conversationId cx,
              ''GET '' @ CONVERSATION_EVENTS_ROUTE_TEMPLATE, kc_keyId codec]) (\<lambda>parts.
     Inr (asciiBytes CURSOR_AAD_DOMAIN @ concat parts))"

text \<open>\<open>BigInt(Date.parse(s))\<close> throws on \<open>NaN\<close>.\<close>

definition dateParseBigInt :: "string \<Rightarrow> int res" where
  "dateParseBigInt s = (case dateParse s of None \<Rightarrow> Inl RangeError | Some t \<Rightarrow> Inr t)"

definition cursorBody :: "cursorPlaintext \<Rightarrow> bytes res" where
  "cursorBody pt =
     bindE (cursorLengthPrefixed (pt_realmId pt)) (\<lambda>realmId.
     bindE (cursorLengthPrefixed (pt_conversationId pt)) (\<lambda>conversationId.
     bindE (cursorLengthPrefixed (pt_installationId pt)) (\<lambda>installationId.
     bindE (bigIntOfText (pt_lastReturnedPosition pt)) (\<lambda>lastPosition.
     bindE (u64be lastPosition) (\<lambda>position.
     bindE (dateParseBigInt (pt_issuedAt pt)) (\<lambda>issuedMillis.
     bindE (u64be issuedMillis) (\<lambda>issuedAt.
     bindE (dateParseBigInt (pt_expiresAt pt)) (\<lambda>expiresMillis.
     bindE (u64be expiresMillis) (\<lambda>expiresAt.
     bindE (cursorLengthPrefixed (pt_keyId pt)) (\<lambda>keyId.
     Inr ([1] @ realmId @ conversationId @ installationId @ position @ issuedAt @ expiresAt @ keyId)))))))))))"

definition encodeCursor :: "cursorCodec \<Rightarrow> bytes \<Rightarrow> cursorPlaintext \<Rightarrow> jsval \<Rightarrow> string res" where
  "encodeCursor codec nonce pt contextInput =
     bindE (parseConversationCursorContext contextInput) (\<lambda>cx.
     if pt_keyId pt \<noteq> kc_keyId codec \<or> pt_realmId pt \<noteq> cx_realmId cx \<or> pt_installationId pt \<noteq> cx_installationId cx
        \<or> pt_conversationId pt \<noteq> cx_conversationId cx
     then Inl TypeError
     else
       bindE (cursorBody pt) (\<lambda>body.
       if length nonce \<noteq> 12 then Inl TypeError
       else
         bindE (aadFor codec cx) (\<lambda>aad.
         let (ciphertext, tag) = ci_seal (kc_cipher codec) (kc_key codec) nonce aad body;
             keyIdBytes = asciiBytes (kc_keyId codec);
             blob = [1, of_nat (length keyIdBytes)] @ keyIdBytes @ nonce @ ciphertext @ tag;
             encodedCursor = CONVERSATION_CURSOR_PREFIX @ b64encode blob in
         if length encodedCursor > CURSOR_MAX_CHARACTERS then Inl TypeError else Inr encodedCursor)))"

text \<open>\<open>new Date(Number(ms)).toISOString()\<close> throws beyond the range of a time value.\<close>

definition isoOfMillis :: "nat \<Rightarrow> string res" where
  "isoOfMillis ms = (if ms > 8640000000000000 then Inl RangeError else Inr (dateToISO (int ms)))"

text \<open>The part of \<open>decode\<close> in its last \<open>try\<close>: \<open>None\<close> is \<open>AUTHENTICATION_FAILED\<close> returned inside it.\<close>

definition decodeBody :: "string \<Rightarrow> cursorContext \<Rightarrow> string \<Rightarrow> bytes \<Rightarrow> cursorClaims option res" where
  "decodeBody token cx clearKeyId body =
     bindE (readU8 body) (\<lambda>(version, r0).
     if version \<noteq> 1 then Inr None
     else
       bindE (readLengthPrefixedAscii r0) (\<lambda>(realmId, r1).
       bindE (readLengthPrefixedAscii r1) (\<lambda>(conversationId, r2).
       bindE (readLengthPrefixedAscii r2) (\<lambda>(installationId, r3).
       bindE (readU64be r3) (\<lambda>(lastReturnedPosition, r4).
       bindE (readU64be r4) (\<lambda>(issuedAtMilliseconds, r5).
       bindE (readU64be r5) (\<lambda>(expiresAtMilliseconds, r6).
       bindE (readLengthPrefixedAscii r6) (\<lambda>(encryptedKeyId, r7).
       bindE (expectExhausted r7) (\<lambda>_.
       if realmId \<noteq> cx_realmId cx \<or> conversationId \<noteq> cx_conversationId cx \<or> installationId \<noteq> cx_installationId cx
          \<or> encryptedKeyId \<noteq> clearKeyId
       then Inr None
       else
         bindE (isoOfMillis issuedAtMilliseconds) (\<lambda>issuedAt.
         bindE (isoOfMillis expiresAtMilliseconds) (\<lambda>expiresAt.
         Inr (Some \<lparr>cc_encodedCursor = token, cc_realmId = realmId, cc_accountId = cx_accountId cx,
                    cc_installationId = installationId, cc_conversationId = conversationId,
                    cc_lastReturnedPosition = showNat lastReturnedPosition, cc_issuedAt = issuedAt,
                    cc_expiresAt = expiresAt, cc_keyId = encryptedKeyId\<rparr>))))))))))))"

definition decodeBlob :: "cursorCodec \<Rightarrow> string \<Rightarrow> cursorContext \<Rightarrow> bytes \<Rightarrow> cursorClaims option res" where
  "decodeBlob codec token cx blob =
     (if length blob < 2 + 1 + 12 + 16 then Inr None
      else if blob ! 0 \<noteq> 1 then Inr None
      else let keyIdLength = unat (blob ! 1) in
        if keyIdLength < 1 \<or> keyIdLength > 64 \<or> length blob < 2 + keyIdLength + 12 + 16 then Inr None
        else let clearKeyId = asciiText (take keyIdLength (drop 2 blob)) in
          if clearKeyId \<noteq> kc_keyId codec then Inr None
          else let nonce = take 12 (drop (2 + keyIdLength) blob); tag = drop (length blob - 16) blob;
                   ciphertext = take (length blob - 16 - (2 + keyIdLength + 12)) (drop (2 + keyIdLength + 12) blob) in
            (case aadFor codec cx of
               Inl e \<Rightarrow> Inr None
             | Inr aad \<Rightarrow>
                 (case ci_unseal (kc_cipher codec) (kc_key codec) nonce aad ciphertext tag of
                    None \<Rightarrow> Inr None
                  | Some body \<Rightarrow>
                      (case decodeBody token cx clearKeyId body of Inl e \<Rightarrow> Inr None | Inr claims \<Rightarrow> Inr claims))))"

text \<open>\<open>None\<close> is the answer \<open>AUTHENTICATION_FAILED\<close>; only a malformed context throws.\<close>

definition decodeCursor :: "cursorCodec \<Rightarrow> jsval \<Rightarrow> jsval \<Rightarrow> cursorClaims option res" where
  "decodeCursor codec tokenInput contextInput =
     bindE (parseConversationCursorContext contextInput) (\<lambda>cx.
     case tokenInput of
       JStr token \<Rightarrow>
         if length token > CURSOR_MAX_CHARACTERS \<or> take 4 token \<noteq> CONVERSATION_CURSOR_PREFIX then Inr None
         else let encodedBlob = drop 4 token in
           if encodedBlob = [] \<or> \<not> list_all b64char encodedBlob then Inr None
           else let blob = bufferFromBase64url encodedBlob in
             if b64encode blob \<noteq> encodedBlob then Inr None
             else decodeBlob codec token cx blob
     | _ \<Rightarrow> Inr None)"

subsection \<open>The claims parser of the sync kernel\<close>

definition parseEncodedConversationCursor :: "jsval \<Rightarrow> jsval \<Rightarrow> string res" where
  "parseEncodedConversationCursor v limits =
     bindE (parseDeliveryLimits limits) (\<lambda>parsedLimits.
     case v of
       JStr s \<Rightarrow>
         if int (length s) > bigInt (cursorMaxCharacters parsedLimits) \<or> take 4 s \<noteq> CONVERSATION_CURSOR_PREFIX
         then Inl ConversationSyncValidationError
         else let blob = drop 4 s in
           if blob = [] \<or> \<not> list_all b64char blob then Inl ConversationSyncValidationError
           else bindE (parseCanonicalBase64UrlBytes 29 (bigInt (cursorMaxCharacters parsedLimits)) (JStr blob)) (\<lambda>_. Inr s)
     | _ \<Rightarrow> Inl ConversationSyncValidationError)"

datatype cursorVerdict = CurrentCursor cursorClaims | ExpiredCursor cursorClaims | ForeignCursor

definition CURSOR_CLAIM_KEYS :: "string list" where
  "CURSOR_CLAIM_KEYS = [''kind'', ''profile'', ''encodedCursor'', ''realmId'', ''accountId'', ''installationId'',
     ''conversationId'', ''routeTemplate'', ''lastReturnedPosition'', ''issuedAt'', ''expiresAt'', ''keyId'', ''authenticated'']"

definition encodeCursorClaims :: "cursorClaims \<Rightarrow> jsval" where
  "encodeCursorClaims c = mkRecord
     [(''kind'', JStr CURSOR_KIND), (''profile'', JStr CONVERSATION_CURSOR_PROFILE),
      (''encodedCursor'', JStr (cc_encodedCursor c)), (''realmId'', JStr (cc_realmId c)), (''accountId'', JStr (cc_accountId c)),
      (''installationId'', JStr (cc_installationId c)), (''conversationId'', JStr (cc_conversationId c)),
      (''routeTemplate'', JStr CONVERSATION_EVENTS_ROUTE_TEMPLATE), (''lastReturnedPosition'', JStr (cc_lastReturnedPosition c)),
      (''issuedAt'', JStr (cc_issuedAt c)), (''expiresAt'', JStr (cc_expiresAt c)), (''keyId'', JStr (cc_keyId c)),
      (''authenticated'', JBool True)]"

text \<open>
  The two exceptions that the caller tells apart, an expired cursor with its claims and a cursor of another
  context, are the verdicts \<open>ExpiredCursor\<close> and \<open>ForeignCursor\<close>.
\<close>

definition cursorVerdictOf :: "cursorContext \<Rightarrow> string \<Rightarrow> cursorClaims \<Rightarrow> cursorVerdict res" where
  "cursorVerdictOf cx now parsed =
     (if cc_realmId parsed \<noteq> cx_realmId cx \<or> cc_accountId parsed \<noteq> cx_accountId cx
         \<or> cc_installationId parsed \<noteq> cx_installationId cx \<or> cc_conversationId parsed \<noteq> cx_conversationId cx
      then Inr ForeignCursor
      else let issuedAt = dateMillis (cc_issuedAt parsed); expiresAt = dateMillis (cc_expiresAt parsed) in
        if issuedAt > dateMillis now \<or> expiresAt \<le> issuedAt
           \<or> expiresAt - issuedAt > CONVERSATION_CURSOR_MAX_LIFETIME_MILLISECONDS
        then Inl ConversationSyncValidationError
        else if expiresAt \<le> dateMillis now then Inr (ExpiredCursor parsed) else Inr (CurrentCursor parsed))"

definition parseConversationCursorClaims :: "jsval \<Rightarrow> jsval \<Rightarrow> jsval \<Rightarrow> jsval \<Rightarrow> jsval \<Rightarrow> cursorVerdict res" where
  "parseConversationCursorClaims v expectedCursor expectedContext expectedNow limits =
     bindE (parseConversationCursorContext expectedContext) (\<lambda>cx.
     bindE (parseRfc3339Millis expectedNow) (\<lambda>now.
     bindE (parseEncodedConversationCursor expectedCursor limits) (\<lambda>encodedCursor.
     bindE (expectExactRecord v CURSOR_CLAIM_KEYS) (\<lambda>record.
     if record ''kind'' \<noteq> JStr CURSOR_KIND \<or> record ''profile'' \<noteq> JStr CONVERSATION_CURSOR_PROFILE
        \<or> record ''encodedCursor'' \<noteq> JStr encodedCursor \<or> record ''routeTemplate'' \<noteq> JStr CONVERSATION_EVENTS_ROUTE_TEMPLATE
        \<or> record ''authenticated'' \<noteq> JBool True
     then Inl ConversationSyncValidationError
     else
       bindE (parseDeliveryRealmId (record ''realmId'')) (\<lambda>realmId.
       bindE (parseAccountId (record ''accountId'')) (\<lambda>accountId.
       bindE (parseInstallationId (record ''installationId'')) (\<lambda>installationId.
       bindE (parseConversationId (record ''conversationId'')) (\<lambda>conversationId.
       bindE (parseUint63String (record ''lastReturnedPosition'')) (\<lambda>lastReturnedPosition.
       bindE (parseRfc3339Millis (record ''issuedAt'')) (\<lambda>issuedAt.
       bindE (parseRfc3339Millis (record ''expiresAt'')) (\<lambda>expiresAt.
       bindE (parseSigningKeyId (record ''keyId'')) (\<lambda>keyId.
       cursorVerdictOf cx now \<lparr>cc_encodedCursor = encodedCursor, cc_realmId = realmId, cc_accountId = accountId,
         cc_installationId = installationId, cc_conversationId = conversationId,
         cc_lastReturnedPosition = lastReturnedPosition, cc_issuedAt = issuedAt, cc_expiresAt = expiresAt, cc_keyId = keyId\<rparr>))))))))))))"

subsection \<open>Big-endian numbers and text\<close>

lemma length_beBytes [simp]: "length (beBytes n v) = n"
  by (induction n arbitrary: v) auto

lemma beNat_snoc: "beNat (bs @ [b]) = beNat bs * 256 + unat b"
  by (simp add: beNat_def)

lemma beNat_beBytes: "v < 256 ^ n \<Longrightarrow> beNat (beBytes n v) = v"
proof (induction n arbitrary: v)
  case 0
  then show ?case by (simp add: beNat_def)
next
  case (Suc n)
  then have "v div 256 < 256 ^ n" by (simp add: less_mult_imp_div_less mult.commute)
  then have "beNat (beBytes n (v div 256)) = v div 256" by (rule Suc.IH)
  moreover have "v mod 256 < 256" by simp
  ultimately show ?case by (simp add: beNat_snoc del: of_nat_mod)
qed

lemma asciiText_bytes:
  assumes "list_all (\<lambda>c. charCode c < 128) s"
  shows "asciiText (asciiBytes s) = s"
proof -
  have "char_of (unat (of_nat (charCode c) :: byte) mod 128) = c" if "charCode c < 128" for c
    using that by simp
  with assms show ?thesis by (induction s) (auto simp: asciiText_def asciiBytes_def)
qed

lemma length_asciiBytes [simp]: "length (asciiBytes s) = length s"
  by (simp add: asciiBytes_def)

lemma length_asciiText [simp]: "length (asciiText bs) = length bs"
  by (simp add: asciiText_def)

subsection \<open>Reading back what was written\<close>

definition cursorText :: "string \<Rightarrow> bool" where
  "cursorText s = (list_all (\<lambda>c. charCode c < 128) s \<and> length s \<le> 200)"

lemma cursorLengthPrefixed_text: "cursorText s \<Longrightarrow> cursorLengthPrefixed s = Inr (beBytes 4 (length s) @ asciiBytes s)"
  by (simp add: cursorLengthPrefixed_def cursorText_def U32_MAX_def)

lemma readLengthPrefixedAscii_written:
  "cursorText s \<Longrightarrow> readLengthPrefixedAscii (beBytes 4 (length s) @ asciiBytes s @ rest) = Inr (s, rest)"
  by (simp add: readLengthPrefixedAscii_def cursorText_def beNat_beBytes asciiText_bytes)

lemma readU64be_written: "0 \<le> z \<Longrightarrow> z < 2 ^ 64 \<Longrightarrow> readU64be (beBytes 8 (nat z) @ rest) = Inr (nat z, rest)"
  by (simp add: readU64be_def beNat_beBytes nat_less_iff)

end
