(* ===== verification/CursorProofs.thy ===== *)
theory CursorProofs
  imports CursorCodec
begin

section \<open>What a cursor carries\<close>

text \<open>
  Lemmas about the codec: the layout of the sealed body and of the token, that every field of a valid plaintext
  is read back as it was written, and that a token never reaches its ceiling. What AES-256-GCM promises
  with a 32-byte key and a 12-byte nonce is the predicate \<open>gcmCipher\<close>.
\<close>

subsection \<open>Identifiers are short ASCII texts\<close>

lemma identifier_ascii:
  "identShape isLowerAlnum (\<lambda>c. isLowerAlnum c \<or> c \<in> {CHR ''.'', CHR ''_'', CHR ''-''}) 63 s \<Longrightarrow>
     cursorText s \<and> length s \<le> 64 \<and> 1 \<le> length s"
  by (auto simp: identShape_def cursorText_def isLowerAlnum_def isDigit_def list_all_iff split: list.splits)

lemma cursorText_keyId: "SIGNING_KEY_ID s \<Longrightarrow> cursorText s \<and> length s \<le> 64 \<and> 1 \<le> length s"
  unfolding SIGNING_KEY_ID_def by (rule identifier_ascii)

lemma cursorText_realm: "REALM_ID s \<Longrightarrow> cursorText s \<and> length s \<le> 64 \<and> 1 \<le> length s"
  unfolding REALM_ID_def by (rule identifier_ascii)

lemma uuidPattern_ascii: "p \<in> set (uuidPattern (CHR ''4'')) \<Longrightarrow> p c \<Longrightarrow> charCode c < 128"
  by (auto simp: uuidPattern_def isHexLower_def isVariant_def isDigit_def)

lemma cursorText_uuid:
  assumes "uuidV4Valid s"
  shows "cursorText s" "length s = 36"
proof -
  have "list_all2 (\<lambda>p c. p c) (uuidPattern (CHR ''4'')) s"
    using assms by (simp add: uuidV4Valid_def matchesShape_def UUID_V4_def)
  then have "charCode (s ! i) < 128" if "i < length s" for i
    using that uuidPattern_ascii [of "uuidPattern (CHR ''4'') ! i"] by (simp add: list_all2_conv_all_nth)
  then have "list_all (\<lambda>c. charCode c < 128) s" by (simp add: list_all_length)
  with length_uuid [OF assms] show "cursorText s" "length s = 36" by (simp_all add: cursorText_def)
qed

subsection \<open>Contexts and plaintexts\<close>

definition contextValid :: "cursorContext \<Rightarrow> bool" where
  "contextValid cx = (REALM_ID (cx_realmId cx) \<and> uuidV4Valid (cx_accountId cx) \<and> uuidV4Valid (cx_installationId cx)
     \<and> uuidV4Valid (cx_conversationId cx))"

definition encodeCursorContext :: "cursorContext \<Rightarrow> jsval" where
  "encodeCursorContext cx = mkRecord
     [(''realmId'', JStr (cx_realmId cx)), (''accountId'', JStr (cx_accountId cx)), (''installationId'', JStr (cx_installationId cx)),
      (''conversationId'', JStr (cx_conversationId cx)), (''routeTemplate'', JStr CONVERSATION_EVENTS_ROUTE_TEMPLATE)]"

lemma parseDeliveryRealmId_iff [parse_simps]: "parseDeliveryRealmId v = Inr s \<longleftrightarrow> v = JStr s \<and> REALM_ID s"
  by (auto simp: parseDeliveryRealmId_def split: jsval.splits if_splits)

lemma parseDeliveryRealmId_ok: "REALM_ID s \<Longrightarrow> parseDeliveryRealmId (JStr s) = Inr s"
  by (simp add: parse_simps)

lemma parseConversationCursorContext_valid: "parseConversationCursorContext v = Inr cx \<Longrightarrow> contextValid cx"
  by (auto simp: parseConversationCursorContext_def contextValid_def res_simps parse_simps split: if_splits)

lemma parseConversationCursorContext_encode:
  "contextValid cx \<Longrightarrow> parseConversationCursorContext (encodeCursorContext cx) = Inr cx"
proof -
  assume v: "contextValid cx"
  have keys: "CURSOR_CONTEXT_KEYS = map fst [(''realmId'', JStr (cx_realmId cx)), (''accountId'', JStr (cx_accountId cx)),
      (''installationId'', JStr (cx_installationId cx)), (''conversationId'', JStr (cx_conversationId cx)),
      (''routeTemplate'', JStr CONVERSATION_EVENTS_ROUTE_TEMPLATE)]"
    by (simp add: CURSOR_CONTEXT_KEYS_def)
  show ?thesis
    using v unfolding parseConversationCursorContext_def encodeCursorContext_def keys
    by (subst expectExactRecord_mkRecord) (auto simp: contextValid_def res_simps parse_simps)
qed

interpretation context_codec: record_codec parseConversationCursorContext encodeCursorContext contextValid
  by unfold_locales (auto intro: parseConversationCursorContext_valid parseConversationCursorContext_encode)

subsection \<open>The layout of the body\<close>

definition textField :: "string \<Rightarrow> bytes" where
  "textField s = beBytes 4 (length s) @ asciiBytes s"

definition plaintextValid :: "cursorPlaintext \<Rightarrow> bool" where
  "plaintextValid pt = (REALM_ID (pt_realmId pt) \<and> uuidV4Valid (pt_installationId pt) \<and> uuidV4Valid (pt_conversationId pt)
     \<and> uint63Valid (pt_lastReturnedPosition pt) \<and> rfc3339Valid (pt_issuedAt pt) \<and> 0 \<le> dateMillis (pt_issuedAt pt)
     \<and> rfc3339Valid (pt_expiresAt pt) \<and> 0 \<le> dateMillis (pt_expiresAt pt) \<and> SIGNING_KEY_ID (pt_keyId pt))"

definition bodyLayout :: "cursorPlaintext \<Rightarrow> bytes" where
  "bodyLayout pt = [1] @ textField (pt_realmId pt) @ textField (pt_conversationId pt) @ textField (pt_installationId pt)
     @ beBytes 8 (nat (bigInt (pt_lastReturnedPosition pt))) @ beBytes 8 (nat (dateMillis (pt_issuedAt pt)))
     @ beBytes 8 (nat (dateMillis (pt_expiresAt pt))) @ textField (pt_keyId pt)"

definition claimsOf :: "string \<Rightarrow> cursorContext \<Rightarrow> cursorPlaintext \<Rightarrow> cursorClaims" where
  "claimsOf token cx pt =
     \<lparr>cc_encodedCursor = token, cc_realmId = pt_realmId pt, cc_accountId = cx_accountId cx,
      cc_installationId = pt_installationId pt, cc_conversationId = pt_conversationId pt,
      cc_lastReturnedPosition = pt_lastReturnedPosition pt, cc_issuedAt = pt_issuedAt pt,
      cc_expiresAt = pt_expiresAt pt, cc_keyId = pt_keyId pt\<rparr>"

lemma cursorLengthPrefixed_field: "cursorText s \<Longrightarrow> cursorLengthPrefixed s = Inr (textField s)"
  by (simp add: cursorLengthPrefixed_text textField_def)

lemma readLengthPrefixedAscii_field: "cursorText s \<Longrightarrow> readLengthPrefixedAscii (textField s @ rest) = Inr (s, rest)"
  by (simp add: readLengthPrefixedAscii_written textField_def)

lemma readLengthPrefixedAscii_last: "cursorText s \<Longrightarrow> readLengthPrefixedAscii (textField s) = Inr (s, [])"
  using readLengthPrefixedAscii_field [of s "[]"] by simp

lemma civilDay_bound:
  assumes "civilValid f"
  shows "civilDay f < 100000000"
proof -
  have "dayFromYear (int (cYear f)) \<le> dayFromYear 9999"
    using assms by (intro dayFromYear_mono) (simp add: civilValid_def)
  moreover have "monthStart (leapYear (int (cYear f))) (cMonth f + 1) \<le> 366"
    using monthStart_mono [of "cMonth f + 1" 13 "leapYear (int (cYear f))"] assms by (simp add: civilValid_def split: if_splits)
  ultimately show ?thesis
    using assms by (simp add: civilDay_def civilValid_def dayFromYear_def)
qed

lemma rfc3339_millis:
  assumes "rfc3339Valid s"
  shows "dateParse s = Some (dateMillis s)" "dateToISO (dateMillis s) = s" "dateMillis s \<le> 8640000000000000"
proof -
  obtain f where f: "civilValid f" "s = formatCivil f" using assms by (auto simp: rfc3339Valid_iff)
  then show "dateParse s = Some (dateMillis s)" by (simp add: dateParse_formatCivil dateMillis_formatCivil)
  then show "dateToISO (dateMillis s) = s" using assms by (simp add: rfc3339Valid_def)
  have "civilTime f div 86400000 < 100000000"
    using civilTime_split [OF f(1)] civilDay_bound [OF f(1)] by simp
  then have "civilTime f < 8640000000000000" by (simp add: div_less_iff_less_mult)
  with f show "dateMillis s \<le> 8640000000000000" by (simp add: dateMillis_formatCivil)
qed

lemmas cursor_text = cursorText_keyId [THEN conjunct1] cursorText_realm [THEN conjunct1] cursorText_uuid(1)

lemma uint63_range: "uint63Valid s \<Longrightarrow> bigInt s < 2 ^ 64"
  by (simp add: uint63Valid_def UINT63_MAX_def)

lemma cursorBody_layout: "plaintextValid pt \<Longrightarrow> cursorBody pt = Inr (bodyLayout pt)"
  using uint63_range [of "pt_lastReturnedPosition pt"] rfc3339_millis [of "pt_issuedAt pt"] rfc3339_millis [of "pt_expiresAt pt"]
  by (simp add: cursorBody_def bodyLayout_def plaintextValid_def cursorLengthPrefixed_field cursor_text bigIntOfText_uint63
      dateParseBigInt_def u64be_def not_less)

lemma decodeBody_layout:
  assumes "plaintextValid pt"
  shows "decodeBody token cx (pt_keyId pt) (bodyLayout pt) =
    Inr (if pt_realmId pt = cx_realmId cx \<and> pt_conversationId pt = cx_conversationId cx \<and> pt_installationId pt = cx_installationId cx
         then Some (claimsOf token cx pt) else None)"
proof -
  note v = assms [unfolded plaintextValid_def]
  have position: "showNat (nat (bigInt (pt_lastReturnedPosition pt))) = pt_lastReturnedPosition pt"
    using v uint63_roundtrip [of "pt_lastReturnedPosition pt"] by (simp add: bigInt_def uint63Valid_def)
  have iso: "isoOfMillis (nat (dateMillis s)) = Inr s" if "rfc3339Valid s" "0 \<le> dateMillis s" for s
    using that rfc3339_millis [of s] by (simp add: isoOfMillis_def not_less nat_le_iff)
  show ?thesis
    using v position uint63_range [of "pt_lastReturnedPosition pt"]
      rfc3339_millis(3) [of "pt_issuedAt pt"] rfc3339_millis(3) [of "pt_expiresAt pt"]
    by (auto simp: decodeBody_def bodyLayout_def readU8_def readLengthPrefixedAscii_field readLengthPrefixedAscii_last
        readU64be_written cursor_text expectExhausted_def claimsOf_def iso)
qed

lemma length_bodyLayout: "plaintextValid pt \<Longrightarrow> length (bodyLayout pt) \<le> 241"
  using cursorText_realm [of "pt_realmId pt"] cursorText_keyId [of "pt_keyId pt"]
  by (simp add: bodyLayout_def plaintextValid_def textField_def cursorText_uuid)

subsection \<open>Tokens\<close>

text \<open>
  The tag of AES-GCM has 16 bytes and the ciphertext the length of the plaintext; decryption succeeds exactly on
  what encryption produces under the same key, nonce and associated data; the ciphertext is the plaintext
  combined with a key stream that depends on key and nonce only.
\<close>

definition gcmCipher :: "cursorCipher \<Rightarrow> bool" where
  "gcmCipher c = (\<forall>k n. length k = 32 \<and> length n = 12 \<longrightarrow>
     (\<forall>a p. length (fst (ci_seal c k n a p)) = length p \<and> length (snd (ci_seal c k n a p)) = 16)
     \<and> (\<forall>a p ct t. ci_unseal c k n a ct t = Some p \<longleftrightarrow> ci_seal c k n a p = (ct, t))
     \<and> (\<forall>a b p q. fst (ci_seal c k n a p) = fst (ci_seal c k n b q) \<longleftrightarrow> p = q))"

definition tokenBlob :: "cursorCodec \<Rightarrow> bytes \<Rightarrow> bytes \<Rightarrow> bytes \<Rightarrow> bytes \<Rightarrow> bytes" where
  "tokenBlob codec header nonce aad body =
     [1, of_nat (length header)] @ header @ nonce @ fst (ci_seal (kc_cipher codec) (kc_key codec) nonce aad body)
     @ snd (ci_seal (kc_cipher codec) (kc_key codec) nonce aad body)"

definition contextAad :: "cursorCodec \<Rightarrow> cursorContext \<Rightarrow> bytes" where
  "contextAad codec cx = asciiBytes CURSOR_AAD_DOMAIN @ textField (cx_realmId cx) @ textField (cx_accountId cx)
     @ textField (cx_installationId cx) @ textField (cx_conversationId cx)
     @ textField (''GET '' @ CONVERSATION_EVENTS_ROUTE_TEMPLATE) @ textField (kc_keyId codec)"

definition codecValid :: "cursorCodec \<Rightarrow> bool" where
  "codecValid codec = (SIGNING_KEY_ID (kc_keyId codec) \<and> length (kc_key codec) = 32 \<and> gcmCipher (kc_cipher codec))"

lemma createKeyed_valid:
  "createKeyedConversationCursorCodec cipher keyId key = Inr codec \<Longrightarrow> gcmCipher cipher \<Longrightarrow> codecValid codec"
  by (auto simp: createKeyedConversationCursorCodec_def codecValid_def split: if_splits)

lemma route_text: "cursorText (''GET '' @ CONVERSATION_EVENTS_ROUTE_TEMPLATE)"
  by (simp add: cursorText_def CONVERSATION_EVENTS_ROUTE_TEMPLATE_def)

lemma aadFor_layout: "codecValid codec \<Longrightarrow> contextValid cx \<Longrightarrow> aadFor codec cx = Inr (contextAad codec cx)"
  using route_text
  by (simp add: aadFor_def contextAad_def codecValid_def contextValid_def cursorLengthPrefixed_field cursor_text)

lemma gcm_facts:
  assumes "codecValid codec" "length nonce = 12"
  shows "length (fst (ci_seal (kc_cipher codec) (kc_key codec) nonce aad p)) = length p"
    and "length (snd (ci_seal (kc_cipher codec) (kc_key codec) nonce aad p)) = 16"
    and "ci_unseal (kc_cipher codec) (kc_key codec) nonce aad ct t = Some p \<longleftrightarrow>
           ci_seal (kc_cipher codec) (kc_key codec) nonce aad p = (ct, t)"
    and "fst (ci_seal (kc_cipher codec) (kc_key codec) nonce aad p) = fst (ci_seal (kc_cipher codec) (kc_key codec) nonce bad q)
           \<longleftrightarrow> p = q"
  using assms by (simp_all add: codecValid_def gcmCipher_def)

text \<open>Which bytes of a blob \<open>decode\<close> reads for what; the header is only compared after the high bits are dropped.\<close>

lemma decodeBlob_layout:
  assumes c: "codecValid codec" and cx: "contextValid cx" and n: "length nonce = 12"
    and h: "asciiText header = kc_keyId codec"
  shows "decodeBlob codec token cx (tokenBlob codec header nonce aad body) =
     (case ci_unseal (kc_cipher codec) (kc_key codec) nonce (contextAad codec cx)
             (fst (ci_seal (kc_cipher codec) (kc_key codec) nonce aad body))
             (snd (ci_seal (kc_cipher codec) (kc_key codec) nonce aad body)) of
        None \<Rightarrow> Inr None
      | Some p \<Rightarrow> (case decodeBody token cx (kc_keyId codec) p of Inl e \<Rightarrow> Inr None | Inr claims \<Rightarrow> Inr claims))"
proof -
  let ?c = "fst (ci_seal (kc_cipher codec) (kc_key codec) nonce aad body)"
  let ?t = "snd (ci_seal (kc_cipher codec) (kc_key codec) nonce aad body)"
  have hl: "1 \<le> length header" "length header \<le> 64"
    using cursorText_keyId [of "kc_keyId codec"] c length_asciiText [of header] unfolding h by (auto simp: codecValid_def)
  have t: "length ?t = 16" using gcm_facts(2) [OF c n] .
  define blob where "blob = tokenBlob codec header nonce aad body"
  have parts: "length blob = 2 + length header + 12 + length ?c + 16" "blob ! 0 = 1" "blob ! 1 = of_nat (length header)"
    "drop 2 blob = header @ nonce @ ?c @ ?t" "drop (2 + length header) blob = nonce @ ?c @ ?t"
    "drop (2 + length header + 12) blob = ?c @ ?t" "drop (2 + length header + 12 + length ?c) blob = ?t"
    using n t by (simp_all add: blob_def tokenBlob_def drop_Cons')
  have u: "unat (of_nat (length header) :: byte) = length header" using hl by simp
  have ends: "length blob - 16 = 2 + length header + 12 + length ?c"
    "length blob - 16 - (2 + length header + 12) = length ?c"
    using parts(1) by simp_all
  have reads: "asciiText (take (length header) (drop 2 blob)) = kc_keyId codec"
    "take 12 (drop (2 + length header) blob) = nonce" "take (length ?c) (drop (2 + length header + 12) blob) = ?c"
    unfolding parts(4-6) using n h by simp_all
  have guards: "\<not> length blob < 2 + 1 + 12 + 16" "\<not> blob ! 0 \<noteq> 1"
    "\<not> (length header < 1 \<or> length header > 64 \<or> length blob < 2 + length header + 12 + 16)"
    using hl parts(1,2) by auto
  show ?thesis
    unfolding decodeBlob_def blob_def [symmetric] Let_def parts(3) u ends reads parts(7) aadFor_layout [OF c cx]
    using guards reads(3) by simp
qed

lemma length_tokenBlob:
  "codecValid codec \<Longrightarrow> length nonce = 12 \<Longrightarrow> length (tokenBlob codec header nonce aad body) = 30 + length header + length body"
  by (simp add: tokenBlob_def gcm_facts)

definition tokenOf :: "bytes \<Rightarrow> string" where
  "tokenOf blob = CONVERSATION_CURSOR_PREFIX @ b64encode blob"

lemma length_tokenOf: "length (tokenOf blob) = 4 + (4 * length blob + 2) div 3"
  by (simp add: tokenOf_def CONVERSATION_CURSOR_PREFIX_def length_b64encode)

lemma tokenOf_inj: "tokenOf a = tokenOf b \<longleftrightarrow> a = b"
  by (simp add: tokenOf_def)

lemma decodeCursor_tokenOf:
  assumes "parseConversationCursorContext context = Inr cx" "0 < length blob" "length blob \<le> 700"
  shows "decodeCursor codec (JStr (tokenOf blob)) context = decodeBlob codec (tokenOf blob) cx blob"
proof -
  have "length (tokenOf blob) \<le> CURSOR_MAX_CHARACTERS"
    using assms(3) by (simp add: length_tokenOf CURSOR_MAX_CHARACTERS_def)
  moreover have "take 4 (tokenOf blob) = CONVERSATION_CURSOR_PREFIX" "drop 4 (tokenOf blob) = b64encode blob"
    by (simp_all add: tokenOf_def CONVERSATION_CURSOR_PREFIX_def)
  ultimately show ?thesis
    using assms by (simp add: decodeCursor_def Let_def)
qed

definition bindsContext :: "cursorCodec \<Rightarrow> cursorContext \<Rightarrow> cursorPlaintext \<Rightarrow> bool" where
  "bindsContext codec cx pt = (pt_keyId pt = kc_keyId codec \<and> pt_realmId pt = cx_realmId cx
     \<and> pt_installationId pt = cx_installationId cx \<and> pt_conversationId pt = cx_conversationId cx)"

lemma encodeCursor_layout:
  assumes c: "codecValid codec" and cx: "parseConversationCursorContext context = Inr cx"
    and n: "length nonce = 12" and v: "plaintextValid pt" and b: "bindsContext codec cx pt"
  defines "blob \<equiv> tokenBlob codec (asciiBytes (kc_keyId codec)) nonce (contextAad codec cx) (bodyLayout pt)"
  shows "encodeCursor codec nonce pt context = Inr (tokenOf blob)" "0 < length blob" "length blob \<le> 335"
proof -
  have "length (kc_keyId codec) \<le> 64" using c cursorText_keyId by (simp add: codecValid_def)
  then show l: "0 < length blob" "length blob \<le> 335"
    using length_bodyLayout [OF v] by (simp_all add: blob_def length_tokenBlob [OF c n])
  have "\<not> length (tokenOf blob) > CURSOR_MAX_CHARACTERS"
    using l(2) by (simp add: length_tokenOf CURSOR_MAX_CHARACTERS_def)
  moreover have "contextValid cx" using cx by (rule parseConversationCursorContext_valid)
  ultimately show "encodeCursor codec nonce pt context = Inr (tokenOf blob)"
    using b n by (simp add: encodeCursor_def cx bindsContext_def cursorBody_layout [OF v] aadFor_layout [OF c] Let_def
        case_prod_beta tokenOf_def blob_def tokenBlob_def)
qed

text \<open>A token that was sealed for one context, opened in another: its claims are those that were sealed.\<close>

lemma decodeCursor_sealed:
  fixes aad :: bytes
  assumes c: "codecValid codec" and cx: "parseConversationCursorContext context = Inr cx"
    and n: "length nonce = 12" and v: "plaintextValid pt" and k: "pt_keyId pt = kc_keyId codec"
    and h: "asciiText header = kc_keyId codec"
  defines "blob \<equiv> tokenBlob codec header nonce aad (bodyLayout pt)"
  shows "decodeCursor codec (JStr (tokenOf blob)) context =
    (if bindsContext codec cx pt
        \<and> snd (ci_seal (kc_cipher codec) (kc_key codec) nonce (contextAad codec cx) (bodyLayout pt))
          = snd (ci_seal (kc_cipher codec) (kc_key codec) nonce aad (bodyLayout pt))
     then Inr (Some (claimsOf (tokenOf blob) cx pt)) else Inr None)"
    (is "_ = (if _ \<and> ?tag = ?tag' then _ else _)")
proof -
  let ?seal = "ci_seal (kc_cipher codec) (kc_key codec) nonce"
  let ?open = "ci_unseal (kc_cipher codec) (kc_key codec) nonce (contextAad codec cx) (fst (?seal aad (bodyLayout pt))) ?tag'"
  have hl: "length header = length (kc_keyId codec)" using h length_asciiText [of header] by simp
  have "length (kc_keyId codec) \<le> 64" using c cursorText_keyId by (simp add: codecValid_def)
  then have l: "0 < length blob" "length blob \<le> 700"
    using length_bodyLayout [OF v] by (simp_all add: blob_def length_tokenBlob [OF c n] hl)
  have valid: "contextValid cx" using cx by (rule parseConversationCursorContext_valid)
  have opened: "?open = (if ?tag = ?tag' then Some (bodyLayout pt) else None)"
  proof (cases ?open)
    case None
    then have "?seal (contextAad codec cx) (bodyLayout pt) \<noteq> (fst (?seal aad (bodyLayout pt)), ?tag')"
      using gcm_facts(3) [OF c n] by (metis option.distinct(1))
    with None show ?thesis using gcm_facts(4) [OF c n] by (auto simp: prod_eq_iff)
  next
    case (Some p)
    then have p: "?seal (contextAad codec cx) p = (fst (?seal aad (bodyLayout pt)), ?tag')"
      using gcm_facts(3) [OF c n] by simp
    then have "p = bodyLayout pt" using gcm_facts(4) [OF c n] by (metis fst_conv)
    with p Some show ?thesis by simp
  qed
  have "decodeCursor codec (JStr (tokenOf blob)) context = decodeBlob codec (tokenOf blob) cx blob"
    by (rule decodeCursor_tokenOf [OF cx l])
  also have "\<dots> = (if ?tag = ?tag'
      then Inr (if bindsContext codec cx pt then Some (claimsOf (tokenOf blob) cx pt) else None) else Inr None)"
    unfolding blob_def decodeBlob_layout [OF c valid n h] opened
    using decodeBody_layout [OF v, of _ cx] k by (auto simp: bindsContext_def)
  finally show ?thesis by simp
qed

subsection \<open>The associated data determine the context\<close>

lemma textField_prefix:
  "textField s @ xs = textField t @ ys \<Longrightarrow> cursorText s \<Longrightarrow> cursorText t \<Longrightarrow> s = t \<and> xs = ys"
  by (metis readLengthPrefixedAscii_field Pair_inject sum.inject(2))

lemma textField_inj: "textField s = textField t \<Longrightarrow> cursorText s \<Longrightarrow> cursorText t \<Longrightarrow> s = t"
  using textField_prefix [of s "[]" t "[]"] by simp

lemma contextAad_inj:
  assumes "contextValid a" "contextValid b" "contextAad codec a = contextAad codec b"
  shows "a = b"
proof -
  have "textField (cx_realmId a) @ textField (cx_accountId a) @ textField (cx_installationId a) @ textField (cx_conversationId a)
        @ textField (''GET '' @ CONVERSATION_EVENTS_ROUTE_TEMPLATE) @ textField (kc_keyId codec)
      = textField (cx_realmId b) @ textField (cx_accountId b) @ textField (cx_installationId b) @ textField (cx_conversationId b)
        @ textField (''GET '' @ CONVERSATION_EVENTS_ROUTE_TEMPLATE) @ textField (kc_keyId codec)"
    using assms(3) by (simp add: contextAad_def)
  then have "cx_realmId a = cx_realmId b" "cx_accountId a = cx_accountId b" "cx_installationId a = cx_installationId b"
    "cx_conversationId a = cx_conversationId b"
    using assms(1,2) cursor_text by (auto simp: contextValid_def dest!: textField_prefix textField_inj)
  then show ?thesis by (simp add: cursorContext.equality)
qed

subsection \<open>The claims parser\<close>

lemma cursorClaims_keys:
  "expectExactRecord (encodeCursorClaims c) CURSOR_CLAIM_KEYS = Inr (fieldOf
     [(''kind'', JStr CURSOR_KIND), (''profile'', JStr CONVERSATION_CURSOR_PROFILE),
      (''encodedCursor'', JStr (cc_encodedCursor c)), (''realmId'', JStr (cc_realmId c)), (''accountId'', JStr (cc_accountId c)),
      (''installationId'', JStr (cc_installationId c)), (''conversationId'', JStr (cc_conversationId c)),
      (''routeTemplate'', JStr CONVERSATION_EVENTS_ROUTE_TEMPLATE), (''lastReturnedPosition'', JStr (cc_lastReturnedPosition c)),
      (''issuedAt'', JStr (cc_issuedAt c)), (''expiresAt'', JStr (cc_expiresAt c)), (''keyId'', JStr (cc_keyId c)),
      (''authenticated'', JBool True)])"
  unfolding encodeCursorClaims_def by (rule expectExactRecord_mkRecord) (simp_all add: CURSOR_CLAIM_KEYS_def)

lemma parseEncodedConversationCursor_token:
  assumes "limitsValid limits" "29 \<le> length blob" "int (length (tokenOf blob)) \<le> bigInt (cursorMaxCharacters limits)"
  shows "parseEncodedConversationCursor (JStr (tokenOf blob)) (encodeLimits limits) = Inr (tokenOf blob)"
proof -
  let ?max = "bigInt (cursorMaxCharacters limits)"
  have "?max \<le> bigInt ''1024''" using assms(1) by (simp add: limitsValid_def list_all2_limits)
  then have max: "?max \<le> 8388608" by (simp add: bigInt_def readNat_def digitVal_def)
  have len: "int (length blob) \<le> ?max" using assms(3) by (simp add: length_tokenOf)
  have "b64Valid 29 ?max (b64encode blob)"
    unfolding b64Valid_iff using assms(2) len by (intro exI [of _ blob]) auto
  moreover have "validateByteBounds 29 ?max = Inr ()"
    using assms(2) len max by (intro validateByteBounds_ok) auto
  ultimately have "parseCanonicalBase64UrlBytes 29 ?max (JStr (b64encode blob)) = Inr blob"
    using len max by (simp add: parseCanonicalBase64UrlBytes_def parseCanonicalBase64Url_iff [THEN iffD2] copyBytes_owned)
  moreover have "take 4 (tokenOf blob) = CONVERSATION_CURSOR_PREFIX" "drop 4 (tokenOf blob) = b64encode blob" "blob \<noteq> []"
    using assms(2) by (auto simp: tokenOf_def CONVERSATION_CURSOR_PREFIX_def)
  ultimately show ?thesis
    using assms(3) limits_codec.parse_encode [OF assms(1)]
    by (simp add: parseEncodedConversationCursor_def Let_def)
qed

lemma parseConversationCursorClaims_claimsOf:
  assumes "parseConversationCursorContext context = Inr cx" "contextValid cx" "plaintextValid pt" "bindsContext codec cx pt"
    and "rfc3339Valid now" "parseEncodedConversationCursor (JStr token) limits = Inr token"
  shows "parseConversationCursorClaims (encodeCursorClaims (claimsOf token cx pt)) (JStr token) context (JStr now) limits
    = cursorVerdictOf cx now (claimsOf token cx pt)"
  using assms
  by (simp add: parseConversationCursorClaims_def cursorClaims_keys claimsOf_def plaintextValid_def contextValid_def
      bindsContext_def parseDeliveryRealmId_ok parse_ok)

end
