(* ===== verification/CursorProperties.thy ===== *)
theory CursorProperties
  imports CursorProofs Samples
begin

section \<open>Properties of cursors\<close>

text \<open>
  A sealed cursor is opened again in its context and accepted by the claims parser until it expires; opened in
  another context it would need a collision of authentication tags. The header of a token is not canonical.
\<close>

subsection \<open>A sample codec\<close>

definition sampleCipher :: cursorCipher where
  "sampleCipher = \<lparr>ci_seal = (\<lambda>k n a p. (p, take 16 (rev a @ replicate 16 0))),
     ci_unseal = (\<lambda>k n a c t. if t = take 16 (rev a @ replicate 16 0) then Some c else None)\<rparr>"

definition sampleCodec :: cursorCodec where
  "sampleCodec = \<lparr>kc_keyId = ''cursor-1'', kc_key = replicate 32 7, kc_cipher = sampleCipher\<rparr>"

definition sampleCursorContext :: cursorContext where
  "sampleCursorContext = \<lparr>cx_realmId = ''main'', cx_accountId = sampleConversationId, cx_installationId = sampleConversationId,
     cx_conversationId = sampleConversationId\<rparr>"

definition samplePlaintext :: cursorPlaintext where
  "samplePlaintext = \<lparr>pt_realmId = ''main'', pt_installationId = sampleConversationId, pt_conversationId = sampleConversationId,
     pt_lastReturnedPosition = ''7'', pt_issuedAt = ''2024-01-01T00:00:00.000Z'', pt_expiresAt = ''2024-01-02T00:00:00.000Z'',
     pt_keyId = ''cursor-1''\<rparr>"

definition sampleCursorLimits :: deliveryLimits where
  "sampleCursorLimits = \<lparr>applicationCiphertextDecodedMaxBytes = ''100'', externalProposalDecodedMaxBytes = ''100'',
     mlsCommitDecodedMaxBytes = ''2'', welcomeDecodedMaxBytes = ''2'', pageDecodedArtifactsMaxBytes = ''100'',
     pageSerializedResponseMaxBytes = ''86400'', conversationEventsMaxPerPage = ''2'', mailboxEntriesMaxPerPage = ''2'',
     conversationRecipientInstallationsMax = ''2'', cursorMaxCharacters = ''1024'', attachmentsMaxPerEnvelope = ''2''\<rparr>"

lemma sampleCursorLimits_valid: "limitsValid sampleCursorLimits" "451 \<le> bigInt (cursorMaxCharacters sampleCursorLimits)"
  by (simp_all add: limitsValid_def sampleCursorLimits_def limitTable_def DELIVERY_TESTED_CEILINGS_def)
    (simp_all add: uint63Valid_def canonicalDecimal_def isDigit_def bigInt_def readNat_def digitVal_def UINT63_MAX_def)

lemma sampleCipher_gcm: "gcmCipher sampleCipher"
  by (auto simp: gcmCipher_def sampleCipher_def)

lemma sampleCodec_created:
  "createKeyedConversationCursorCodec sampleCipher ''cursor-1'' (replicate 32 7) = Inr sampleCodec"
  by (simp add: createKeyedConversationCursorCodec_def sampleCodec_def SIGNING_KEY_ID_def identShape_def isLowerAlnum_def isDigit_def)

lemma cursor_sample_times:
  "dateParse ''2024-01-01T00:00:00.000Z'' = Some 1704067200000" "dateParse ''2024-01-02T00:00:00.000Z'' = Some 1704153600000"
  "rfc3339Valid ''2024-01-01T00:00:00.000Z''" "rfc3339Valid ''2024-01-02T00:00:00.000Z''"
  by code_simp+

lemma samplePlaintext_valid: "plaintextValid samplePlaintext" "bindsContext sampleCodec sampleCursorContext samplePlaintext"
  "contextValid sampleCursorContext"
  by (simp_all add: plaintextValid_def samplePlaintext_def REALM_ID_def SIGNING_KEY_ID_def identShape_def isLowerAlnum_def
      isDigit_def cursor_sample_times dateMillis_def bindsContext_def sampleCodec_def sampleCursorContext_def contextValid_def
      uint63Valid_def canonicalDecimal_def bigInt_def readNat_def digitVal_def UINT63_MAX_def)

subsection \<open>Round trip\<close>

text \<open>
  C32. Sealing never fails on a valid plaintext that matches its context, whatever 96-bit nonce the allocator
  returned; opening the token in the same context returns exactly the claims that were sealed, and the parser of the
  sync kernel accepts them between issue and expiry, provided the limit on cursors is at least 451 characters, the
  longest token there is.
\<close>

theorem cursor_roundtrip:
  assumes "createKeyedConversationCursorCodec cipher keyId key = Inr codec" "gcmCipher cipher"
    and "contextValid cx" "length nonce = 12" "plaintextValid pt" "bindsContext codec cx pt"
    and "limitsValid limits" "451 \<le> bigInt (cursorMaxCharacters limits)"
    and "rfc3339Valid now" "dateMillis (pt_issuedAt pt) \<le> dateMillis now" "dateMillis now < dateMillis (pt_expiresAt pt)"
    and "dateMillis (pt_expiresAt pt) - dateMillis (pt_issuedAt pt) \<le> CONVERSATION_CURSOR_MAX_LIFETIME_MILLISECONDS"
  shows "\<exists>token. encodeCursor codec nonce pt (encodeCursorContext cx) = Inr token
    \<and> decodeCursor codec (JStr token) (encodeCursorContext cx) = Inr (Some (claimsOf token cx pt))
    \<and> parseConversationCursorClaims (encodeCursorClaims (claimsOf token cx pt)) (JStr token) (encodeCursorContext cx) (JStr now)
        (encodeLimits limits) = Inr (CurrentCursor (claimsOf token cx pt))"
proof -
  let ?cxv = "encodeCursorContext cx"
  have c: "codecValid codec" using assms(1,2) by (rule createKeyed_valid)
  have cx: "parseConversationCursorContext ?cxv = Inr cx" using assms(3) by (rule context_codec.parse_encode)
  define blob where "blob = tokenBlob codec (asciiBytes (kc_keyId codec)) nonce (contextAad codec cx) (bodyLayout pt)"
  have e: "encodeCursor codec nonce pt ?cxv = Inr (tokenOf blob)" "length blob \<le> 335"
    using encodeCursor_layout [OF c cx assms(4-6)] by (simp_all add: blob_def)
  have h: "asciiText (asciiBytes (kc_keyId codec)) = kc_keyId codec"
    using c cursorText_keyId [of "kc_keyId codec"] by (simp add: codecValid_def cursorText_def asciiText_bytes)
  have d: "decodeCursor codec (JStr (tokenOf blob)) ?cxv = Inr (Some (claimsOf (tokenOf blob) cx pt))"
    using decodeCursor_sealed [OF c cx assms(4,5) _ h, of "contextAad codec cx"] assms(6)
    by (simp add: blob_def bindsContext_def)
  have "parseEncodedConversationCursor (JStr (tokenOf blob)) (encodeLimits limits) = Inr (tokenOf blob)"
    using assms(7,8) e(2) length_tokenBlob [OF c assms(4)]
    by (intro parseEncodedConversationCursor_token) (simp_all add: length_tokenOf blob_def)
  note p = parseConversationCursorClaims_claimsOf [OF cx assms(3,5,6,9) this]
  have "cursorVerdictOf cx now (claimsOf (tokenOf blob) cx pt) = Inr (CurrentCursor (claimsOf (tokenOf blob) cx pt))"
    using assms(6,10-12) by (simp add: cursorVerdictOf_def claimsOf_def bindsContext_def Let_def)
  with p e(1) d show ?thesis by auto
qed

theorem cursor_roundtrip_witness:
  "\<exists>token. encodeCursor sampleCodec (replicate 12 0) samplePlaintext (encodeCursorContext sampleCursorContext) = Inr token
    \<and> decodeCursor sampleCodec (JStr token) (encodeCursorContext sampleCursorContext)
        = Inr (Some (claimsOf token sampleCursorContext samplePlaintext))
    \<and> parseConversationCursorClaims (encodeCursorClaims (claimsOf token sampleCursorContext samplePlaintext)) (JStr token)
        (encodeCursorContext sampleCursorContext) (JStr ''2024-01-01T00:00:00.000Z'') (encodeLimits sampleCursorLimits)
        = Inr (CurrentCursor (claimsOf token sampleCursorContext samplePlaintext))"
  by (rule cursor_roundtrip [OF sampleCodec_created sampleCipher_gcm samplePlaintext_valid(3) _ samplePlaintext_valid(1,2)
        sampleCursorLimits_valid])
    (simp_all add: cursor_sample_times samplePlaintext_def dateMillis_def CONVERSATION_CURSOR_MAX_LIFETIME_MILLISECONDS_def)

subsection \<open>A cursor is bound to its context\<close>

text \<open>
  A token sealed in one context and opened in another: realm, installation and conversation are the same, the
  claims are those that were sealed, and the account is the same too unless the two different associated data have
  the same AES-GCM tag under one nonce, that is, unless the tag is forged.
\<close>

theorem cursor_bound_to_context:
  assumes "createKeyedConversationCursorCodec cipher keyId key = Inr codec" "gcmCipher cipher"
    and "contextValid cx" "length nonce = 12" "plaintextValid pt"
    and sealed: "encodeCursor codec nonce pt (encodeCursorContext cx) = Inr token"
    and opened: "decodeCursor codec (JStr token) context' = Inr (Some claims)"
  shows "\<exists>cx'. parseConversationCursorContext context' = Inr cx' \<and> claims = claimsOf token cx' pt
    \<and> cx_realmId cx' = cx_realmId cx \<and> cx_installationId cx' = cx_installationId cx \<and> cx_conversationId cx' = cx_conversationId cx
    \<and> (cx' = cx \<or> contextAad codec cx' \<noteq> contextAad codec cx
        \<and> snd (ci_seal cipher key nonce (contextAad codec cx') (bodyLayout pt))
          = snd (ci_seal cipher key nonce (contextAad codec cx) (bodyLayout pt)))"
proof -
  let ?cxv = "encodeCursorContext cx"
  have c: "codecValid codec" using assms(1,2) by (rule createKeyed_valid)
  have codec: "kc_cipher codec = cipher" "kc_key codec = key"
    using assms(1) by (auto simp: createKeyedConversationCursorCodec_def split: if_splits)
  have cx: "parseConversationCursorContext ?cxv = Inr cx" using assms(3) by (rule context_codec.parse_encode)
  have b: "bindsContext codec cx pt"
    using sealed by (auto simp: encodeCursor_def cx bindsContext_def split: if_splits)
  define blob where "blob = tokenBlob codec (asciiBytes (kc_keyId codec)) nonce (contextAad codec cx) (bodyLayout pt)"
  have token: "token = tokenOf blob"
    using encodeCursor_layout(1) [OF c cx assms(4,5) b] sealed by (simp add: blob_def)
  have h: "asciiText (asciiBytes (kc_keyId codec)) = kc_keyId codec"
    using c cursorText_keyId [of "kc_keyId codec"] by (simp add: codecValid_def cursorText_def asciiText_bytes)
  obtain cx' where cx': "parseConversationCursorContext context' = Inr cx'"
    using opened by (auto simp: decodeCursor_def elim: bindE_InrE)
  have "pt_keyId pt = kc_keyId codec" using b by (simp add: bindsContext_def)
  from decodeCursor_sealed [OF c cx' assms(4,5) this h, of "contextAad codec cx"] opened
  have "bindsContext codec cx' pt" "claims = claimsOf token cx' pt"
    "snd (ci_seal cipher key nonce (contextAad codec cx') (bodyLayout pt))
      = snd (ci_seal cipher key nonce (contextAad codec cx) (bodyLayout pt))"
    by (auto simp: token blob_def codec split: if_splits)
  moreover have "cx' = cx" if "contextAad codec cx' = contextAad codec cx"
    using contextAad_inj [OF parseConversationCursorContext_valid [OF cx'] assms(3) that] .
  ultimately show ?thesis using cx' b by (auto simp: bindsContext_def)
qed

subsection \<open>The header of a token is malleable\<close>

text \<open>
  \<open>decode\<close> compares the key identifier of the header after \<open>toString("ascii")\<close>, which drops the high bit of every
  byte, and authenticates the configured identifier instead of the bytes it read: a token whose first header byte
  has its high bit set is another text that opens to the same claims.
\<close>

lemma cursor_header_malleable:
  assumes c: "codecValid codec" and cx: "parseConversationCursorContext context = Inr cx"
    and n: "length nonce = 12" and v: "plaintextValid pt" and b: "bindsContext codec cx pt"
    and k: "kc_keyId codec = ch # rest"
  defines "altered \<equiv> tokenOf (tokenBlob codec ((of_nat (charCode ch + 128)) # asciiBytes rest) nonce (contextAad codec cx) (bodyLayout pt))"
  shows "encodeCursor codec nonce pt context \<noteq> Inr altered"
    and "decodeCursor codec (JStr altered) context = Inr (Some (claimsOf altered cx pt))"
proof -
  have ascii: "cursorText (ch # rest)" using c k cursorText_keyId [of "kc_keyId codec"] by (simp add: codecValid_def)
  then have small: "charCode ch < 128" by (simp add: cursorText_def)
  have h: "asciiText (of_nat (charCode ch + 128) # asciiBytes rest) = kc_keyId codec"
    using ascii small asciiText_bytes [of rest] unfolding k
    by (simp add: asciiText_def cursorText_def del: of_nat_add)
  show "decodeCursor codec (JStr altered) context = Inr (Some (claimsOf altered cx pt))"
    using decodeCursor_sealed [OF c cx n v _ h, of "contextAad codec cx"] b by (simp add: altered_def bindsContext_def)
  have "(of_nat (charCode ch + 128) :: byte) \<noteq> of_nat (charCode ch)"
    using small by (metis add_cancel_left_right add.commute add_less_mono1 charCode_less_256 numeral_Bit0 numeral_eq_iff
        unat_of_nat_byte zero_neq_numeral)
  then show "encodeCursor codec nonce pt context \<noteq> Inr altered"
    unfolding encodeCursor_layout(1) [OF c cx n v b] by (simp add: altered_def tokenOf_inj tokenBlob_def k asciiBytes_def del: of_nat_add)
qed

end
