(* ===== verification/NonceAllocator.thy ===== *)
theory NonceAllocator
  imports CursorCodec
begin

section \<open>Cursor nonces\<close>

text \<open>
  Models \<open>src/src/production/storage/cursorNonceAllocator.ts\<close>. Every cursor key has one row with a fence and a
  high-water mark. An allocator instance reserves a range by one atomic upsert, then hands out the counters of the
  range. Any number of instances of one key may run at once (a restarted process does not wait for its
  predecessor), and the answer to a committed upsert may be lost; the step relation below has both.
\<close>

subsection \<open>The allocator\<close>

record nonceRow =
  nr_fence :: int
  nr_highWater :: int

record nonceAllocator =
  na_rangeSize :: int
  na_fence :: int
  na_next :: int
  na_ceiling :: int

definition DEFAULT_RANGE_SIZE :: int where
  "DEFAULT_RANGE_SIZE = 1024"

definition createPostgresCursorNonceAllocator :: "int option \<Rightarrow> nonceAllocator res" where
  "createPostgresCursorNonceAllocator requested =
     (let rangeSize = (case requested of None \<Rightarrow> DEFAULT_RANGE_SIZE | Some n \<Rightarrow> n) in
      if \<not> isSafeInteger rangeSize \<or> rangeSize < 1 then Inl TypeError
      else Inr \<lparr>na_rangeSize = rangeSize, na_fence = 0, na_next = 0, na_ceiling = 0\<rparr>)"

text \<open>The upsert; the columns are of type \<open>bigint\<close> with a check that they are not negative.\<close>

definition reserveRange :: "int \<Rightarrow> nonceRow option \<Rightarrow> nonceRow res" where
  "reserveRange rangeSize stored =
     (let row = (case stored of
            None \<Rightarrow> \<lparr>nr_fence = 1, nr_highWater = rangeSize\<rparr>
          | Some old \<Rightarrow> \<lparr>nr_fence = nr_fence old + 1, nr_highWater = nr_highWater old + rangeSize\<rparr>) in
      if 0 \<le> nr_fence row \<and> nr_fence row \<le> UINT63_MAX \<and> 0 \<le> nr_highWater row \<and> nr_highWater row \<le> UINT63_MAX
      then Inr row else Inl PostgresError)"

definition installRange :: "nonceRow \<Rightarrow> nonceAllocator \<Rightarrow> nonceAllocator" where
  "installRange row al = al\<lparr>na_fence := nr_fence row, na_ceiling := nr_highWater row,
     na_next := nr_highWater row - na_rangeSize al\<rparr>"

definition nonceBytes :: "int \<Rightarrow> int \<Rightarrow> bytes" where
  "nonceBytes fence counter = beBytes 4 (nat (fence mod 2 ^ 32)) @ beBytes 8 (nat counter)"

definition takeNonce :: "nonceAllocator \<Rightarrow> bytes \<times> nonceAllocator" where
  "takeNonce al = (nonceBytes (na_fence al) (na_next al), al\<lparr>na_next := na_next al + 1\<rparr>)"

text \<open>
  \<open>allocate\<close> of an instance that runs alone: the loop refills until the range is not empty. \<open>None\<close> stands for a
  loop that does not end.
\<close>

partial_function (option) allocateNonce ::
  "nonceRow option \<Rightarrow> nonceAllocator \<Rightarrow> (bytes \<times> nonceRow option \<times> nonceAllocator) res option" where
  "allocateNonce stored al =
     (if na_next al \<ge> na_ceiling al
      then (case reserveRange (na_rangeSize al) stored of
              Inl e \<Rightarrow> Some (Inl e)
            | Inr row \<Rightarrow> allocateNonce (Some row) (installRange row al))
      else Some (Inr (fst (takeNonce al), stored, snd (takeNonce al))))"

subsection \<open>Instances that interleave\<close>

text \<open>
  A refill is sent at most once at a time (\<open>refilling\<close>); the database commits it, and the answer arrives or is lost.
\<close>

datatype refillPhase = NoRefill | RefillSent | RefillCommitted nonceRow

record nonceInstance =
  ni_allocator :: nonceAllocator
  ni_refilling :: refillPhase

record nonceSystem =
  ns_row :: "nonceRow option"
  ns_instances :: "nonceInstance list"
  ns_issued :: "bytes list"

definition nonceInit :: "nonceSystem \<Rightarrow> bool" where
  "nonceInit s = (ns_row s = None \<and> ns_instances s = [] \<and> ns_issued s = [])"

definition setInstance :: "nat \<Rightarrow> nonceInstance \<Rightarrow> nonceSystem \<Rightarrow> nonceSystem" where
  "setInstance i a s = s\<lparr>ns_instances := (ns_instances s)[i := a]\<rparr>"

text \<open>
  A refill may fail before its upsert has committed, or after it, when the answer is lost. An upsert that commits
  only after the client has seen the failure would skip a range and is not a step.
\<close>

inductive nonceStep :: "nonceSystem \<Rightarrow> nonceSystem \<Rightarrow> bool" where
  create: "createPostgresCursorNonceAllocator requested = Inr al \<Longrightarrow>
    nonceStep s (s\<lparr>ns_instances := ns_instances s @ [\<lparr>ni_allocator = al, ni_refilling = NoRefill\<rparr>]\<rparr>)"
| sendRefill: "i < length (ns_instances s) \<Longrightarrow> a = ns_instances s ! i \<Longrightarrow>
    na_next (ni_allocator a) \<ge> na_ceiling (ni_allocator a) \<Longrightarrow> ni_refilling a = NoRefill \<Longrightarrow>
    nonceStep s (setInstance i (a\<lparr>ni_refilling := RefillSent\<rparr>) s)"
| commitRefill: "i < length (ns_instances s) \<Longrightarrow> a = ns_instances s ! i \<Longrightarrow> ni_refilling a = RefillSent \<Longrightarrow>
    reserveRange (na_rangeSize (ni_allocator a)) (ns_row s) = Inr row \<Longrightarrow>
    nonceStep s (setInstance i (a\<lparr>ni_refilling := RefillCommitted row\<rparr>) (s\<lparr>ns_row := Some row\<rparr>))"
| refillFails: "i < length (ns_instances s) \<Longrightarrow> a = ns_instances s ! i \<Longrightarrow> ni_refilling a \<noteq> NoRefill \<Longrightarrow>
    nonceStep s (setInstance i (a\<lparr>ni_refilling := NoRefill\<rparr>) s)"
| deliverRefill: "i < length (ns_instances s) \<Longrightarrow> a = ns_instances s ! i \<Longrightarrow> ni_refilling a = RefillCommitted row \<Longrightarrow>
    nonceStep s (setInstance i (a\<lparr>ni_allocator := installRange row (ni_allocator a), ni_refilling := NoRefill\<rparr>) s)"
| issue: "i < length (ns_instances s) \<Longrightarrow> a = ns_instances s ! i \<Longrightarrow>
    na_next (ni_allocator a) < na_ceiling (ni_allocator a) \<Longrightarrow> takeNonce (ni_allocator a) = (nonce, al) \<Longrightarrow>
    nonceStep s (setInstance i (a\<lparr>ni_allocator := al\<rparr>) (s\<lparr>ns_issued := ns_issued s @ [nonce]\<rparr>))"

inductive nonceReachable :: "nonceSystem \<Rightarrow> bool" where
  start: "nonceInit s \<Longrightarrow> nonceReachable s"
| step: "nonceReachable s \<Longrightarrow> nonceStep s s' \<Longrightarrow> nonceReachable s'"

subsection \<open>Every counter has one owner\<close>

definition highWaterOf :: "nonceSystem \<Rightarrow> int" where
  "highWaterOf s = (case ns_row s of None \<Rightarrow> 0 | Some row \<Rightarrow> nr_highWater row)"

definition ownedCounters :: "nonceInstance \<Rightarrow> int set" where
  "ownedCounters a = {na_next (ni_allocator a) ..< na_ceiling (ni_allocator a)}
     \<union> (case ni_refilling a of RefillCommitted row \<Rightarrow> {nr_highWater row - na_rangeSize (ni_allocator a) ..< nr_highWater row} | _ \<Rightarrow> {})"

definition counterOf :: "bytes \<Rightarrow> int" where
  "counterOf nonce = int (beNat (drop 4 nonce))"

definition issuedCounters :: "nonceSystem \<Rightarrow> int list" where
  "issuedCounters s = map counterOf (ns_issued s)"

definition instanceOk :: "nonceInstance \<Rightarrow> bool" where
  "instanceOk a = (1 \<le> na_rangeSize (ni_allocator a)
     \<and> (ni_refilling a \<noteq> NoRefill \<longrightarrow> na_ceiling (ni_allocator a) \<le> na_next (ni_allocator a)))"

definition nonceInv :: "nonceSystem \<Rightarrow> bool" where
  "nonceInv s =
     (0 \<le> highWaterOf s \<and> highWaterOf s \<le> UINT63_MAX
      \<and> (\<forall>a \<in> set (ns_instances s). instanceOk a \<and> ownedCounters a \<subseteq> {0 ..< highWaterOf s}
           \<and> ownedCounters a \<inter> set (issuedCounters s) = {})
      \<and> (\<forall>i < length (ns_instances s). \<forall>j < i. ownedCounters (ns_instances s ! i) \<inter> ownedCounters (ns_instances s ! j) = {})
      \<and> set (issuedCounters s) \<subseteq> {0 ..< highWaterOf s} \<and> distinct (issuedCounters s))"

lemma counterOf_nonceBytes: "0 \<le> c \<Longrightarrow> c \<le> UINT63_MAX \<Longrightarrow> counterOf (nonceBytes f c) = c"
  by (simp add: counterOf_def nonceBytes_def beNat_beBytes UINT63_MAX_def nat_less_iff)

lemma reserveRange_highWater:
  assumes "reserveRange r (ns_row s) = Inr row"
  shows "nr_highWater row = highWaterOf s + r" "nr_highWater row \<le> UINT63_MAX"
  using assms by (auto simp: reserveRange_def highWaterOf_def Let_def split: option.splits if_splits)

text \<open>Replacing one instance: the others keep what they own.\<close>

lemma nonceInv_setInstance:
  assumes inv: "nonceInv s" and i: "i < length (ns_instances s)"
    and s': "ns_instances s' = (ns_instances s)[i := a']"
    and owned: "instanceOk a'" "ownedCounters a' \<subseteq> {0 ..< highWaterOf s'}"
      "\<And>j. j < length (ns_instances s) \<Longrightarrow> j \<noteq> i \<Longrightarrow> ownedCounters a' \<inter> ownedCounters (ns_instances s ! j) = {}"
    and issued: "distinct (issuedCounters s')" "set (issuedCounters s') \<subseteq> set (issuedCounters s) \<union> ownedCounters (ns_instances s ! i)"
      "ownedCounters a' \<inter> set (issuedCounters s') = {}"
    and water: "highWaterOf s \<le> highWaterOf s'" "highWaterOf s' \<le> UINT63_MAX"
  shows "nonceInv s'"
proof -
  let ?n = "length (ns_instances s)"
  have at: "instanceOk (ns_instances s ! j)" "ownedCounters (ns_instances s ! j) \<subseteq> {0 ..< highWaterOf s}"
    "ownedCounters (ns_instances s ! j) \<inter> set (issuedCounters s) = {}" if "j < ?n" for j
    using inv that by (auto simp: nonceInv_def)
  have disj: "ownedCounters (ns_instances s ! j) \<inter> ownedCounters (ns_instances s ! k) = {}" if "j < ?n" "k < ?n" "j \<noteq> k" for j k
    using inv that unfolding nonceInv_def by (metis Int_commute nat_neq_iff)
  have each: "instanceOk (ns_instances s' ! j) \<and> ownedCounters (ns_instances s' ! j) \<subseteq> {0 ..< highWaterOf s'}
      \<and> ownedCounters (ns_instances s' ! j) \<inter> set (issuedCounters s') = {}" if "j < ?n" for j
    using that at [OF that] owned issued water(1) disj [OF that i] by (cases "j = i") (auto simp: s' i)
  moreover have "ownedCounters (ns_instances s' ! j) \<inter> ownedCounters (ns_instances s' ! k) = {}" if "j < ?n" "k < j" for j k
    using that disj [of j k] owned(3) [of j] owned(3) [of k] i by (cases "j = i"; cases "k = i") (auto simp: s' Int_commute)
  moreover have "set (issuedCounters s') \<subseteq> {0 ..< highWaterOf s'}"
    using inv issued(2) at(2) [OF i] water(1) by (fastforce simp: nonceInv_def)
  moreover have "0 \<le> highWaterOf s'" using inv water(1) by (simp add: nonceInv_def)
  moreover have "\<forall>a \<in> set (ns_instances s'). instanceOk a \<and> ownedCounters a \<subseteq> {0 ..< highWaterOf s'}
      \<and> ownedCounters a \<inter> set (issuedCounters s') = {}"
    unfolding all_set_conv_all_nth using each by (simp add: s')
  ultimately show ?thesis
    using issued(1) water(2) unfolding nonceInv_def by (simp add: s')
qed

lemma instances_setInstance: "ns_instances (setInstance i a s) = (ns_instances s)[i := a]"
  "highWaterOf (setInstance i a s) = highWaterOf s" "issuedCounters (setInstance i a s) = issuedCounters s"
  by (simp_all add: setInstance_def highWaterOf_def issuedCounters_def)

lemma nonceInv_at:
  assumes "nonceInv s" "i < length (ns_instances s)"
  shows "instanceOk (ns_instances s ! i)" "ownedCounters (ns_instances s ! i) \<subseteq> {0 ..< highWaterOf s}"
    "ownedCounters (ns_instances s ! i) \<inter> set (issuedCounters s) = {}"
    "j < length (ns_instances s) \<Longrightarrow> j \<noteq> i \<Longrightarrow> ownedCounters (ns_instances s ! i) \<inter> ownedCounters (ns_instances s ! j) = {}"
  using assms unfolding nonceInv_def by (auto, metis Int_iff empty_iff nat_neq_iff)

lemmas nonceInv_bounds = nonceInv_def [THEN iffD1, THEN conjunct1] nonceInv_def [THEN iffD1, THEN conjunct2, THEN conjunct1]

text \<open>Giving up counters, or moving them within an instance, keeps the invariant.\<close>

lemma nonceInv_shrink:
  assumes "nonceInv s" "i < length (ns_instances s)" "ownedCounters a' \<subseteq> ownedCounters (ns_instances s ! i)"
    "instanceOk a'"
  shows "nonceInv (setInstance i a' s)"
proof (rule nonceInv_setInstance [OF assms(1,2) instances_setInstance(1)])
  show "distinct (issuedCounters (setInstance i a' s))"
    using assms(1) by (simp add: instances_setInstance nonceInv_def)
  show "ownedCounters a' \<inter> ownedCounters (ns_instances s ! j) = {}" if "j < length (ns_instances s)" "j \<noteq> i" for j
    using nonceInv_at(4) [OF assms(1,2) that] assms(3) by blast
qed (use assms nonceInv_at [OF assms(1,2)] nonceInv_bounds [OF assms(1)] in \<open>auto simp: instances_setInstance\<close>)

lemma nonceInv_commit:
  assumes "nonceInv s" "i < length (ns_instances s)" "a = ns_instances s ! i" "ni_refilling a = RefillSent"
    and "reserveRange (na_rangeSize (ni_allocator a)) (ns_row s) = Inr row"
  shows "nonceInv (setInstance i (a\<lparr>ni_refilling := RefillCommitted row\<rparr>) (s\<lparr>ns_row := Some row\<rparr>))"
proof -
  let ?r = "na_rangeSize (ni_allocator a)" and ?s = "s\<lparr>ns_row := Some row\<rparr>"
  note hw = reserveRange_highWater [OF assms(5)]
  note at = nonceInv_at [OF assms(1,2), folded assms(3)]
  have positive: "1 \<le> ?r" using at(1) by (simp add: instanceOk_def)
  have w: "highWaterOf ?s = highWaterOf s + ?r" "issuedCounters ?s = issuedCounters s"
    using hw by (simp_all add: highWaterOf_def issuedCounters_def)
  have o: "ownedCounters (a\<lparr>ni_refilling := RefillCommitted row\<rparr>)
      = ownedCounters a \<union> {highWaterOf s ..< highWaterOf s + ?r}"
    using assms(4) hw by (simp add: ownedCounters_def)
  have below: "ownedCounters (ns_instances s ! j) \<subseteq> {0 ..< highWaterOf s}" if "j < length (ns_instances s)" for j
    using nonceInv_at(2) [OF assms(1) that] .
  have issued: "set (issuedCounters s) \<subseteq> {0 ..< highWaterOf s}" "distinct (issuedCounters s)"
    using assms(1) by (simp_all add: nonceInv_def)
  show ?thesis
  proof (rule nonceInv_setInstance [OF assms(1,2)])
    show "ns_instances (setInstance i (a\<lparr>ni_refilling := RefillCommitted row\<rparr>) ?s)
        = (ns_instances s)[i := a\<lparr>ni_refilling := RefillCommitted row\<rparr>]"
      by (simp add: instances_setInstance)
    show "instanceOk (a\<lparr>ni_refilling := RefillCommitted row\<rparr>)"
      using at(1) assms(4) by (simp add: instanceOk_def)
    show "ownedCounters (a\<lparr>ni_refilling := RefillCommitted row\<rparr>) \<inter> ownedCounters (ns_instances s ! j) = {}"
      if "j < length (ns_instances s)" "j \<noteq> i" for j
      using at(4) [OF that] below [OF that(1)] unfolding o by fastforce
    show "ownedCounters (a\<lparr>ni_refilling := RefillCommitted row\<rparr>)
        \<inter> set (issuedCounters (setInstance i (a\<lparr>ni_refilling := RefillCommitted row\<rparr>) ?s)) = {}"
      using at(3) issued(1) unfolding o instances_setInstance w by fastforce
  qed (use assms(3) at positive w hw o issued nonceInv_bounds [OF assms(1)] in \<open>auto simp: instances_setInstance\<close>)
qed

lemma nonceInv_issue:
  assumes "nonceInv s" "i < length (ns_instances s)" "a = ns_instances s ! i"
    and "na_next (ni_allocator a) < na_ceiling (ni_allocator a)" "takeNonce (ni_allocator a) = (nonce, al)"
  shows "nonceInv (setInstance i (a\<lparr>ni_allocator := al\<rparr>) (s\<lparr>ns_issued := ns_issued s @ [nonce]\<rparr>))"
proof -
  let ?c = "na_next (ni_allocator a)" and ?s = "s\<lparr>ns_issued := ns_issued s @ [nonce]\<rparr>"
  note at = nonceInv_at [OF assms(1,2), folded assms(3)]
  have mine: "?c \<in> ownedCounters a" using assms(4) by (simp add: ownedCounters_def)
  with at(2) have range: "0 \<le> ?c" "?c < highWaterOf s" by auto
  have al: "nonce = nonceBytes (na_fence (ni_allocator a)) ?c" "al = (ni_allocator a)\<lparr>na_next := ?c + 1\<rparr>"
    using assms(5) by (auto simp: takeNonce_def)
  have w: "highWaterOf ?s = highWaterOf s" "issuedCounters ?s = issuedCounters s @ [?c]"
    using range nonceInv_bounds(2) [OF assms(1)] by (simp_all add: highWaterOf_def issuedCounters_def al counterOf_nonceBytes)
  have o: "ownedCounters (a\<lparr>ni_allocator := al\<rparr>) \<subseteq> ownedCounters a"
    by (auto simp: ownedCounters_def al split: refillPhase.splits)
  have gone: "?c \<notin> ownedCounters (a\<lparr>ni_allocator := al\<rparr>)"
    using at(1) assms(4) by (auto simp: ownedCounters_def al instanceOk_def split: refillPhase.splits)
  show ?thesis
  proof (rule nonceInv_setInstance [OF assms(1,2)])
    show "ns_instances (setInstance i (a\<lparr>ni_allocator := al\<rparr>) ?s) = (ns_instances s)[i := a\<lparr>ni_allocator := al\<rparr>]"
      by (simp add: instances_setInstance)
    show "instanceOk (a\<lparr>ni_allocator := al\<rparr>)"
      using at(1) assms(4) by (auto simp: instanceOk_def al)
    show "ownedCounters (a\<lparr>ni_allocator := al\<rparr>) \<inter> ownedCounters (ns_instances s ! j) = {}"
      if "j < length (ns_instances s)" "j \<noteq> i" for j
      using at(4) [OF that] o by blast
    show "distinct (issuedCounters (setInstance i (a\<lparr>ni_allocator := al\<rparr>) ?s))"
      using assms(1) mine at(3) by (auto simp: instances_setInstance w nonceInv_def)
  qed (use assms(3) at w o gone mine nonceInv_bounds [OF assms(1)] in \<open>auto simp: instances_setInstance\<close>)
qed

lemma nonceInv_deliver:
  assumes "nonceInv s" "i < length (ns_instances s)" "a = ns_instances s ! i" "ni_refilling a = RefillCommitted row"
  shows "nonceInv (setInstance i (a\<lparr>ni_allocator := installRange row (ni_allocator a), ni_refilling := NoRefill\<rparr>) s)"
  using nonceInv_at(1) [OF assms(1,2)] assms(3,4)
  by (intro nonceInv_shrink [OF assms(1,2)]) (auto simp: ownedCounters_def installRange_def instanceOk_def)

lemma nonceInv_create:
  assumes "nonceInv s" "createPostgresCursorNonceAllocator rangeSize = Inr al"
  shows "nonceInv (s\<lparr>ns_instances := ns_instances s @ [\<lparr>ni_allocator = al, ni_refilling = NoRefill\<rparr>]\<rparr>)" (is "nonceInv ?s")
proof -
  have "ownedCounters \<lparr>ni_allocator = al, ni_refilling = NoRefill\<rparr> = {}"
    "instanceOk \<lparr>ni_allocator = al, ni_refilling = NoRefill\<rparr>"
    using assms(2) by (auto simp: createPostgresCursorNonceAllocator_def Let_def ownedCounters_def instanceOk_def split: if_splits)
  moreover have "highWaterOf ?s = highWaterOf s" "issuedCounters ?s = issuedCounters s"
    by (simp_all add: highWaterOf_def issuedCounters_def)
  ultimately show ?thesis
    using assms(1) unfolding nonceInv_def by (auto simp: nth_append less_Suc_eq)
qed

lemma nonceInv_step: "nonceStep s s' \<Longrightarrow> nonceInv s \<Longrightarrow> nonceInv s'"
proof (induction rule: nonceStep.induct)
  case (sendRefill i s a)
  with nonceInv_at(1) [OF sendRefill.prems sendRefill.hyps(1)] show ?case
    by (intro nonceInv_shrink) (auto simp: ownedCounters_def instanceOk_def)
next
  case (refillFails i s a)
  with nonceInv_at(1) [OF refillFails.prems refillFails.hyps(1)] show ?case
    by (intro nonceInv_shrink) (auto simp: ownedCounters_def instanceOk_def)
qed (auto intro: nonceInv_create nonceInv_commit nonceInv_deliver nonceInv_issue)

lemma nonceInv_init: "nonceInit s \<Longrightarrow> nonceInv s"
  by (simp add: nonceInit_def nonceInv_def highWaterOf_def issuedCounters_def UINT63_MAX_def)

lemma nonceInv_reachable: "nonceReachable s \<Longrightarrow> nonceInv s"
  by (induction rule: nonceReachable.induct) (auto intro: nonceInv_init nonceInv_step)

lemma issued_lengths_step:
  "nonceStep s s' \<Longrightarrow> list_all (\<lambda>n. length n = 12) (ns_issued s) \<Longrightarrow> list_all (\<lambda>n. length n = 12) (ns_issued s')"
  by (induction rule: nonceStep.induct) (auto simp: setInstance_def takeNonce_def nonceBytes_def)

lemma issued_lengths: "nonceReachable s \<Longrightarrow> list_all (\<lambda>n. length n = 12) (ns_issued s)"
  by (induction rule: nonceReachable.induct) (auto simp: nonceInit_def intro: issued_lengths_step)

subsection \<open>The loop of one call\<close>

lemma allocateNonce_ready:
  "na_next al < na_ceiling al \<Longrightarrow> allocateNonce stored al = Some (Inr (fst (takeNonce al), stored, snd (takeNonce al)))"
  by (simp add: allocateNonce.simps)

lemma allocateNonce_refill:
  assumes "na_ceiling al \<le> na_next al" "1 \<le> na_rangeSize al"
  shows "allocateNonce stored al = Some (case reserveRange (na_rangeSize al) stored of
      Inl e \<Rightarrow> Inl e
    | Inr row \<Rightarrow> Inr (fst (takeNonce (installRange row al)), Some row, snd (takeNonce (installRange row al))))"
proof (cases "reserveRange (na_rangeSize al) stored")
  case (Inr row)
  have "na_next (installRange row al) < na_ceiling (installRange row al)" using assms(2) by (simp add: installRange_def)
  with Inr assms(1) show ?thesis by (subst allocateNonce.simps) (simp add: allocateNonce_ready)
qed (use assms(1) in \<open>simp add: allocateNonce.simps\<close>)

subsection \<open>Properties\<close>

text \<open>
  C31. Whatever the interleaving of the instances of one key, of their refills and of lost answers, no two cursors are
  sealed under the same nonce, and every nonce has the 96 bits that the codec asks for.
\<close>

theorem nonces_never_repeat:
  assumes "nonceReachable s"
  shows "distinct (ns_issued s) \<and> list_all (\<lambda>n. length n = 12) (ns_issued s)"
proof
  have "distinct (issuedCounters s)" using nonceInv_reachable [OF assms] by (simp add: nonceInv_def)
  then show "distinct (ns_issued s)" by (simp add: issuedCounters_def distinct_map)
qed (rule issued_lengths [OF assms])

definition sampleAllocator :: nonceAllocator where
  "sampleAllocator = \<lparr>na_rangeSize = 2, na_fence = 0, na_next = 0, na_ceiling = 0\<rparr>"

definition sampleSystem :: "refillPhase \<Rightarrow> nonceRow option \<Rightarrow> nonceAllocator \<Rightarrow> bytes list \<Rightarrow> nonceSystem" where
  "sampleSystem phase row al issued =
     \<lparr>ns_row = row, ns_instances = [\<lparr>ni_allocator = al, ni_refilling = phase\<rparr>], ns_issued = issued\<rparr>"

lemma sampleSystem_reachable:
  defines "row \<equiv> \<lparr>nr_fence = 1, nr_highWater = 2\<rparr>"
  defines "al \<equiv> \<lparr>na_rangeSize = 2, na_fence = 1, na_next = 0, na_ceiling = 2\<rparr>"
  shows "nonceReachable (sampleSystem NoRefill (Some row) (al\<lparr>na_next := 2\<rparr>) [nonceBytes 1 0, nonceBytes 1 1])"
proof -
  have r0: "nonceReachable \<lparr>ns_row = None, ns_instances = [], ns_issued = []\<rparr>"
    by (rule nonceReachable.start) (simp add: nonceInit_def)
  have s1: "nonceStep \<lparr>ns_row = None, ns_instances = [], ns_issued = []\<rparr> (sampleSystem NoRefill None sampleAllocator [])"
    using nonceStep.create [of "Some 2" sampleAllocator "\<lparr>ns_row = None, ns_instances = [], ns_issued = []\<rparr>"]
    by (simp add: createPostgresCursorNonceAllocator_def sampleAllocator_def sampleSystem_def isSafeInteger_def)
  have s2: "nonceStep (sampleSystem NoRefill None sampleAllocator []) (sampleSystem RefillSent None sampleAllocator [])"
    using nonceStep.sendRefill [of 0 "sampleSystem NoRefill None sampleAllocator []"]
    by (simp add: sampleAllocator_def sampleSystem_def setInstance_def)
  have s3: "nonceStep (sampleSystem RefillSent None sampleAllocator []) (sampleSystem (RefillCommitted row) (Some row) sampleAllocator [])"
    using nonceStep.commitRefill [of 0 "sampleSystem RefillSent None sampleAllocator []" _ row]
    by (simp add: sampleAllocator_def sampleSystem_def setInstance_def reserveRange_def row_def UINT63_MAX_def)
  have s4: "nonceStep (sampleSystem (RefillCommitted row) (Some row) sampleAllocator []) (sampleSystem NoRefill (Some row) al [])"
    using nonceStep.deliverRefill [of 0 "sampleSystem (RefillCommitted row) (Some row) sampleAllocator []" _ row]
    by (simp add: sampleAllocator_def sampleSystem_def setInstance_def installRange_def al_def row_def)
  have s5: "nonceStep (sampleSystem NoRefill (Some row) al []) (sampleSystem NoRefill (Some row) (al\<lparr>na_next := 1\<rparr>) [nonceBytes 1 0])"
    using nonceStep.issue [of 0 "sampleSystem NoRefill (Some row) al []"]
    by (simp add: sampleSystem_def setInstance_def takeNonce_def al_def)
  have s6: "nonceStep (sampleSystem NoRefill (Some row) (al\<lparr>na_next := 1\<rparr>) [nonceBytes 1 0])
      (sampleSystem NoRefill (Some row) (al\<lparr>na_next := 2\<rparr>) [nonceBytes 1 0, nonceBytes 1 1])"
    using nonceStep.issue [of 0 "sampleSystem NoRefill (Some row) (al\<lparr>na_next := 1\<rparr>) [nonceBytes 1 0]"]
    by (simp add: sampleSystem_def setInstance_def takeNonce_def al_def)
  show ?thesis using r0 s1 s2 s3 s4 s5 s6 by (meson nonceReachable.step)
qed

theorem nonces_never_repeat_witness: "nonceBytes 1 0 \<noteq> nonceBytes 1 1"
  using nonces_never_repeat [OF sampleSystem_reachable] by (simp add: sampleSystem_def)

text \<open>
  A call of \<open>allocate\<close> returns: the loop refills at most once, since a new range is never empty; it hands out
  the next counter of the current range, or the first of a fresh range above the high-water mark, or fails with the
  database.
\<close>

theorem allocate_returns:
  assumes "1 \<le> na_rangeSize al"
  shows "allocateNonce stored al = Some (
    if na_next al < na_ceiling al
    then Inr (nonceBytes (na_fence al) (na_next al), stored, al\<lparr>na_next := na_next al + 1\<rparr>)
    else (case reserveRange (na_rangeSize al) stored of
      Inl e \<Rightarrow> Inl e
    | Inr row \<Rightarrow> Inr (nonceBytes (nr_fence row) (nr_highWater row - na_rangeSize al), Some row,
        al\<lparr>na_fence := nr_fence row, na_ceiling := nr_highWater row, na_next := nr_highWater row - na_rangeSize al + 1\<rparr>)))"
  using allocateNonce_refill [OF _ assms, of stored]
  by (auto simp: allocateNonce_ready takeNonce_def installRange_def split: sum.splits)

end
