(* ===== verification/Envelopes.thy ===== *)
theory Envelopes
  imports Hashes Limits
begin

section \<open>Envelopes\<close>

text \<open>
  Models \<open>src/src/production/delivery/envelopes.ts\<close> without its JSON reader: the body of an append, the stored
  envelope of the log with all its hashes, the limits of the release applied on admission, and the classification
  of a retry by its semantic identity.
\<close>

definition MAX_APPLICATION_ENVELOPE_BYTES :: int where
  "MAX_APPLICATION_ENVELOPE_BYTES = 64 * 1024"

definition MAX_EXTERNAL_PROPOSAL_ENVELOPE_BYTES :: int where
  "MAX_EXTERNAL_PROPOSAL_ENVELOPE_BYTES = 256 * 1024"

definition MAX_MLS_COMMIT_ENVELOPE_BYTES :: int where
  "MAX_MLS_COMMIT_ENVELOPE_BYTES = 512 * 1024"

definition MAX_APPLICATION_ATTACHMENTS :: nat where
  "MAX_APPLICATION_ATTACHMENTS = 10"

subsection \<open>The body of an append\<close>

definition APPLICATION_APPEND_KEYS :: "string list" where
  "APPLICATION_APPEND_KEYS = [''envelopeId'', ''policyHeadId'', ''policyHeadSequence'', ''policyHeadHash'', ''expectedEpoch'',
     ''expectedRosterVersion'', ''expectedConfirmedTranscriptHash'', ''contentType'', ''ciphertext'', ''envelopeSha256'',
     ''attachmentIds'']"

record applicationAppendBody =
  ab_envelopeId :: string
  ab_policyHeadId :: string
  ab_policyHeadSequence :: string
  ab_policyHeadHash :: string
  ab_expectedEpoch :: string
  ab_expectedRosterVersion :: string
  ab_expectedConfirmedTranscriptHash :: string
  ab_contentType :: string
  ab_ciphertext :: string
  ab_envelopeSha256 :: string
  ab_attachmentIds :: "string list"

text \<open>A dense array of data properties with the prototype of arrays and no other own key.\<close>

definition expectExactArray :: "jsval \<Rightarrow> nat \<Rightarrow> jsval list res" where
  "expectExactArray v maximumLength = (case v of
     JArr ArrayPrototype xs extra \<Rightarrow>
       if length xs > maximumLength then Inl DeliveryEnvelopeValidationError
       else if extra \<noteq> 0 then Inl DeliveryEnvelopeValidationError
       else Inr xs
   | _ \<Rightarrow> Inl DeliveryEnvelopeValidationError)"

definition parseApplicationAppendBody :: "(bytes \<Rightarrow> bytes) \<Rightarrow> jsval \<Rightarrow> applicationAppendBody res" where
  "parseApplicationAppendBody H v =
     bindE (expectExactRecord v APPLICATION_APPEND_KEYS) (\<lambda>record.
     bindE (expectExactArray (record ''attachmentIds'') MAX_APPLICATION_ATTACHMENTS) (\<lambda>attachmentValues.
     bindE (mapE parseAttachmentId attachmentValues) (\<lambda>attachmentIds.
     if card (set attachmentIds) \<noteq> length attachmentIds then Inl DeliveryEnvelopeValidationError
     else if record ''contentType'' \<noteq> JStr MLS_PRIVATE_MESSAGE_MEDIA_TYPE then Inl DeliveryEnvelopeValidationError
     else
       bindE (parseCanonicalBase64UrlBytes 1 MAX_APPLICATION_ENVELOPE_BYTES (record ''ciphertext'')) (\<lambda>ciphertextBytes.
       bindE (parseHash32 (record ''envelopeSha256'')) (\<lambda>envelopeSha256.
       bindE (computeEnvelopeSha256 H (owned ciphertextBytes)) (\<lambda>actual.
       if actual \<noteq> envelopeSha256 then Inl DeliveryEnvelopeValidationError
       else
         bindE (parseEnvelopeId (record ''envelopeId'')) (\<lambda>envelopeId.
         bindE (parsePolicyHeadId (record ''policyHeadId'')) (\<lambda>policyHeadId.
         bindE (parsePositiveUint63String (record ''policyHeadSequence'')) (\<lambda>policyHeadSequence.
         bindE (parseHash32 (record ''policyHeadHash'')) (\<lambda>policyHeadHash.
         bindE (parseUint63String (record ''expectedEpoch'')) (\<lambda>expectedEpoch.
         bindE (parseUint63String (record ''expectedRosterVersion'')) (\<lambda>expectedRosterVersion.
         bindE (parseHash32 (record ''expectedConfirmedTranscriptHash'')) (\<lambda>expectedConfirmedTranscriptHash.
         bindE (parseCanonicalBase64Url 1 MAX_APPLICATION_ENVELOPE_BYTES (record ''ciphertext'')) (\<lambda>ciphertext.
         Inr \<lparr>ab_envelopeId = envelopeId, ab_policyHeadId = policyHeadId, ab_policyHeadSequence = policyHeadSequence,
              ab_policyHeadHash = policyHeadHash, ab_expectedEpoch = expectedEpoch,
              ab_expectedRosterVersion = expectedRosterVersion,
              ab_expectedConfirmedTranscriptHash = expectedConfirmedTranscriptHash,
              ab_contentType = MLS_PRIVATE_MESSAGE_MEDIA_TYPE, ab_ciphertext = ciphertext,
              ab_envelopeSha256 = envelopeSha256, ab_attachmentIds = attachmentIds\<rparr>))))))))))))))"

definition encodeAppendBody :: "applicationAppendBody \<Rightarrow> jsval" where
  "encodeAppendBody b = mkRecord
     [(''envelopeId'', JStr (ab_envelopeId b)), (''policyHeadId'', JStr (ab_policyHeadId b)),
      (''policyHeadSequence'', JStr (ab_policyHeadSequence b)), (''policyHeadHash'', JStr (ab_policyHeadHash b)),
      (''expectedEpoch'', JStr (ab_expectedEpoch b)), (''expectedRosterVersion'', JStr (ab_expectedRosterVersion b)),
      (''expectedConfirmedTranscriptHash'', JStr (ab_expectedConfirmedTranscriptHash b)),
      (''contentType'', JStr (ab_contentType b)), (''ciphertext'', JStr (ab_ciphertext b)),
      (''envelopeSha256'', JStr (ab_envelopeSha256 b)), (''attachmentIds'', mkArray (map JStr (ab_attachmentIds b)))]"

definition enforceApplicationAppendDeliveryLimits :: "(bytes \<Rightarrow> bytes) \<Rightarrow> jsval \<Rightarrow> jsval \<Rightarrow> applicationAppendBody res" where
  "enforceApplicationAppendDeliveryLimits H v limits =
     bindE (parseApplicationAppendBody H v) (\<lambda>parsed.
     bindE (parseDeliveryLimits limits) (\<lambda>parsedLimits.
     bindE (parseCanonicalBase64UrlBytes 1 MAX_APPLICATION_ENVELOPE_BYTES (JStr (ab_ciphertext parsed))) (\<lambda>ciphertextBytes.
     if int (length ciphertextBytes) > bigInt (applicationCiphertextDecodedMaxBytes parsedLimits)
     then Inl DeliveryEnvelopeValidationError
     else if int (length (ab_attachmentIds parsed)) > bigInt (attachmentsMaxPerEnvelope parsedLimits)
     then Inl DeliveryEnvelopeValidationError
     else Inr parsed)))"

subsection \<open>Stored envelopes\<close>

definition STORED_ENVELOPE_COMMON_KEYS :: "string list" where
  "STORED_ENVELOPE_COMMON_KEYS = [''conversationId'', ''position'', ''envelopeId'', ''envelopeClass'', ''contentType'',
     ''envelopeBytes'', ''envelopeSha256'', ''epoch'', ''rosterVersion'', ''sender'', ''receivedAt'', ''leafHash'',
     ''previousHeadHash'', ''headHash'', ''logSigningKeyId'', ''logCheckpointDigest'', ''logHeadSignature'']"

definition COMMIT_TRANSCRIPT_KEYS :: "string list" where
  "COMMIT_TRANSCRIPT_KEYS = STORED_ENVELOPE_COMMON_KEYS @ [''baseConfirmedTranscriptHash'', ''resultingConfirmedTranscriptHash'']"

record storedEnvelopeCommon =
  se_conversationId :: string
  se_position :: string
  se_envelopeId :: string
  se_envelopeClass :: envelopeClass
  se_contentType :: string
  se_envelopeBytes :: string
  se_envelopeSha256 :: string
  se_epoch :: string
  se_rosterVersion :: string
  se_sender :: envelopeSender
  se_receivedAt :: string
  se_leafHash :: string
  se_previousHeadHash :: string
  se_headHash :: string
  se_logSigningKeyId :: string
  se_logCheckpointDigest :: string
  se_logHeadSignature :: string

datatype storedEnvelope =
    StoredExternalProposal (storedCommon: storedEnvelopeCommon)
  | StoredMlsCommit (storedCommon: storedEnvelopeCommon) (baseConfirmedTranscriptHash: string)
      (resultingConfirmedTranscriptHash: string)
  | StoredApplication (storedCommon: storedEnvelopeCommon)

definition maximumEnvelopeBytes :: "envelopeClass \<Rightarrow> int" where
  "maximumEnvelopeBytes cls = (case cls of
     Application \<Rightarrow> MAX_APPLICATION_ENVELOPE_BYTES
   | ExternalProposal \<Rightarrow> MAX_EXTERNAL_PROPOSAL_ENVELOPE_BYTES
   | MlsCommit \<Rightarrow> MAX_MLS_COMMIT_ENVELOPE_BYTES)"

definition leafInputOf :: "storedEnvelopeCommon \<Rightarrow> envelopeLeafInput" where
  "leafInputOf e = \<lparr>leafConversationId = se_conversationId e, leafPosition = se_position e, leafEnvelopeId = se_envelopeId e,
     leafEnvelopeClass = se_envelopeClass e, leafSender = se_sender e, leafEpoch = se_epoch e,
     leafRosterVersion = se_rosterVersion e, leafContentType = se_contentType e,
     leafEnvelopeSha256 = se_envelopeSha256 e, leafReceivedAt = se_receivedAt e\<rparr>"

definition checkpointInputOf :: "storedEnvelopeCommon \<Rightarrow> deliveryLogCheckpointInput" where
  "checkpointInputOf e = \<lparr>cpConversationId = se_conversationId e, cpPosition = se_position e,
     cpPreviousHeadHash = se_previousHeadHash e, cpHeadHash = se_headHash e, cpSigningKeyId = se_logSigningKeyId e\<rparr>"

text \<open>The checks of \<open>parseStoredCommon\<close> after the fields are read.\<close>

definition checkStoredHashes :: "(bytes \<Rightarrow> bytes) \<Rightarrow> storedEnvelopeCommon \<Rightarrow> storedEnvelopeCommon res" where
  "checkStoredHashes H parsed =
     (if (se_position parsed = ''1'') \<noteq> (se_previousHeadHash parsed = ZERO_HASH32) then Inl DeliveryEnvelopeValidationError
      else
        bindE (computeEnvelopeLeafHash H (encodeLeaf (leafInputOf parsed))) (\<lambda>expectedLeafHash.
        if se_leafHash parsed \<noteq> expectedLeafHash then Inl DeliveryEnvelopeValidationError
        else
          bindE (computeLogHeadHash H (JStr (se_previousHeadHash parsed)) (JStr (se_leafHash parsed))) (\<lambda>expectedHeadHash.
          if se_headHash parsed \<noteq> expectedHeadHash then Inl DeliveryEnvelopeValidationError
          else
            bindE (computeDeliveryLogCheckpointDigest H (encodeCheckpoint (checkpointInputOf parsed))) (\<lambda>expectedDigest.
            if se_logCheckpointDigest parsed \<noteq> expectedDigest then Inl DeliveryEnvelopeValidationError
            else Inr parsed))))"

definition parseStoredCommon :: "(bytes \<Rightarrow> bytes) \<Rightarrow> (string \<Rightarrow> jsval) \<Rightarrow> envelopeClass \<Rightarrow> storedEnvelopeCommon res" where
  "parseStoredCommon H record cls =
     bindE (parseCanonicalBase64UrlBytes 1 (maximumEnvelopeBytes cls) (record ''envelopeBytes'')) (\<lambda>bytes.
     bindE (parseHash32 (record ''envelopeSha256'')) (\<lambda>envelopeSha256.
     bindE (computeEnvelopeSha256 H (owned bytes)) (\<lambda>actual.
     if actual \<noteq> envelopeSha256 then Inl DeliveryEnvelopeValidationError
     else
       bindE (parseConversationId (record ''conversationId'')) (\<lambda>conversationId.
       bindE (parsePositiveUint63String (record ''position'')) (\<lambda>position.
       bindE (parseEnvelopeId (record ''envelopeId'')) (\<lambda>envelopeId.
       bindE (parseEnvelopeContentType (record ''contentType'')) (\<lambda>contentType.
       bindE (parseCanonicalBase64Url 1 (maximumEnvelopeBytes cls) (record ''envelopeBytes'')) (\<lambda>envelopeBytes.
       bindE (parseUint63String (record ''epoch'')) (\<lambda>epoch.
       bindE (parseUint63String (record ''rosterVersion'')) (\<lambda>rosterVersion.
       bindE (parseEnvelopeSender (record ''sender'')) (\<lambda>sender.
       bindE (parseRfc3339Millis (record ''receivedAt'')) (\<lambda>receivedAt.
       bindE (parseHash32 (record ''leafHash'')) (\<lambda>leafHash.
       bindE (parseHash32 (record ''previousHeadHash'')) (\<lambda>previousHeadHash.
       bindE (parseHash32 (record ''headHash'')) (\<lambda>headHash.
       bindE (parseSigningKeyId (record ''logSigningKeyId'')) (\<lambda>logSigningKeyId.
       bindE (parseHash32 (record ''logCheckpointDigest'')) (\<lambda>logCheckpointDigest.
       bindE (parseEd25519Signature (record ''logHeadSignature'')) (\<lambda>logHeadSignature.
       checkStoredHashes H
         \<lparr>se_conversationId = conversationId, se_position = position, se_envelopeId = envelopeId, se_envelopeClass = cls,
          se_contentType = contentType, se_envelopeBytes = envelopeBytes, se_envelopeSha256 = envelopeSha256,
          se_epoch = epoch, se_rosterVersion = rosterVersion, se_sender = sender, se_receivedAt = receivedAt,
          se_leafHash = leafHash, se_previousHeadHash = previousHeadHash, se_headHash = headHash,
          se_logSigningKeyId = logSigningKeyId, se_logCheckpointDigest = logCheckpointDigest,
          se_logHeadSignature = logHeadSignature\<rparr>))))))))))))))))))"

definition readDataDiscriminator :: "jsval \<Rightarrow> string \<Rightarrow> jsval res" where
  "readDataDiscriminator v key = (case v of
     JObj pr props \<Rightarrow>
       if pr \<noteq> ObjectPrototype \<and> pr \<noteq> NullPrototype then Inl DeliveryEnvelopeValidationError
       else (case map_of props (KStr key) of
           None \<Rightarrow> Inl DeliveryEnvelopeValidationError
         | Some p \<Rightarrow> if enumerableData p then Inr (propValue p) else Inl DeliveryEnvelopeValidationError)
   | _ \<Rightarrow> Inl DeliveryEnvelopeValidationError)"

definition parseStoredEnvelope :: "(bytes \<Rightarrow> bytes) \<Rightarrow> jsval \<Rightarrow> storedEnvelope res" where
  "parseStoredEnvelope H v =
     bindE (readDataDiscriminator v ''envelopeClass'') (\<lambda>envelopeClass.
     if envelopeClass \<noteq> JStr ''external_proposal'' \<and> envelopeClass \<noteq> JStr ''mls_commit'' \<and> envelopeClass \<noteq> JStr ''application''
     then Inl DeliveryEnvelopeValidationError
     else
       bindE (expectExactRecord v (if envelopeClass = JStr ''mls_commit'' then COMMIT_TRANSCRIPT_KEYS
                                   else STORED_ENVELOPE_COMMON_KEYS)) (\<lambda>record.
       if envelopeClass = JStr ''external_proposal'' then
         bindE (parseStoredCommon H record ExternalProposal) (\<lambda>parsed.
         if se_contentType parsed \<noteq> MLS_PUBLIC_MESSAGE_MEDIA_TYPE \<or> senderType (se_sender parsed) \<noteq> ''entitlement_signer''
         then Inl DeliveryEnvelopeValidationError
         else Inr (StoredExternalProposal parsed))
       else if envelopeClass = JStr ''mls_commit'' then
         bindE (parseStoredCommon H record MlsCommit) (\<lambda>parsed.
         if se_contentType parsed \<noteq> MLS_PUBLIC_MESSAGE_MEDIA_TYPE \<or> senderType (se_sender parsed) \<noteq> ''installation''
         then Inl DeliveryEnvelopeValidationError
         else
           bindE (parseHash32 (record ''baseConfirmedTranscriptHash'')) (\<lambda>base.
           bindE (parseHash32 (record ''resultingConfirmedTranscriptHash'')) (\<lambda>resulting.
           Inr (StoredMlsCommit parsed base resulting))))
       else
         bindE (parseStoredCommon H record Application) (\<lambda>parsed.
         if se_contentType parsed \<noteq> MLS_PRIVATE_MESSAGE_MEDIA_TYPE \<or> senderType (se_sender parsed) \<noteq> ''installation''
         then Inl DeliveryEnvelopeValidationError
         else Inr (StoredApplication parsed))))"

definition entriesStored :: "storedEnvelopeCommon \<Rightarrow> (string \<times> jsval) list" where
  "entriesStored e =
     [(''conversationId'', JStr (se_conversationId e)), (''position'', JStr (se_position e)),
      (''envelopeId'', JStr (se_envelopeId e)), (''envelopeClass'', JStr (envelopeClassText (se_envelopeClass e))),
      (''contentType'', JStr (se_contentType e)), (''envelopeBytes'', JStr (se_envelopeBytes e)),
      (''envelopeSha256'', JStr (se_envelopeSha256 e)), (''epoch'', JStr (se_epoch e)),
      (''rosterVersion'', JStr (se_rosterVersion e)), (''sender'', encodeSender (se_sender e)),
      (''receivedAt'', JStr (se_receivedAt e)), (''leafHash'', JStr (se_leafHash e)),
      (''previousHeadHash'', JStr (se_previousHeadHash e)), (''headHash'', JStr (se_headHash e)),
      (''logSigningKeyId'', JStr (se_logSigningKeyId e)), (''logCheckpointDigest'', JStr (se_logCheckpointDigest e)),
      (''logHeadSignature'', JStr (se_logHeadSignature e))]"

fun encodeStoredEnvelope :: "storedEnvelope \<Rightarrow> jsval" where
  "encodeStoredEnvelope (StoredMlsCommit e base resulting) = mkRecord (entriesStored e @
     [(''baseConfirmedTranscriptHash'', JStr base), (''resultingConfirmedTranscriptHash'', JStr resulting)])"
| "encodeStoredEnvelope (StoredExternalProposal e) = mkRecord (entriesStored e)"
| "encodeStoredEnvelope (StoredApplication e) = mkRecord (entriesStored e)"

definition enforceStoredEnvelopeDeliveryLimits :: "(bytes \<Rightarrow> bytes) \<Rightarrow> jsval \<Rightarrow> jsval \<Rightarrow> storedEnvelope res" where
  "enforceStoredEnvelopeDeliveryLimits H v limits =
     bindE (parseStoredEnvelope H v) (\<lambda>parsed.
     bindE (parseDeliveryLimits limits) (\<lambda>parsedLimits.
     let cls = se_envelopeClass (storedCommon parsed);
         configuredMaximum = (case cls of
             Application \<Rightarrow> applicationCiphertextDecodedMaxBytes parsedLimits
           | ExternalProposal \<Rightarrow> externalProposalDecodedMaxBytes parsedLimits
           | MlsCommit \<Rightarrow> mlsCommitDecodedMaxBytes parsedLimits) in
     bindE (parseCanonicalBase64UrlBytes 1 (maximumEnvelopeBytes cls) (JStr (se_envelopeBytes (storedCommon parsed)))) (\<lambda>bytes.
     if int (length bytes) > bigInt configuredMaximum then Inl DeliveryEnvelopeValidationError else Inr parsed)))"

subsection \<open>Semantic identity and replay\<close>

record semanticIdentity =
  si_conversationId :: string
  si_ifMatch :: string
  si_accountId :: string
  si_installationId :: string
  si_append :: applicationAppendBody

definition SEMANTIC_IDENTITY_KEYS :: "string list" where
  "SEMANTIC_IDENTITY_KEYS = [''conversationId'', ''ifMatch'', ''authenticatedSender'', ''append'']"

definition parseApplicationEnvelopeSemanticIdentity :: "(bytes \<Rightarrow> bytes) \<Rightarrow> jsval \<Rightarrow> semanticIdentity res" where
  "parseApplicationEnvelopeSemanticIdentity H v =
     bindE (expectExactRecord v SEMANTIC_IDENTITY_KEYS) (\<lambda>record.
     bindE (parseEnvelopeSender (record ''authenticatedSender'')) (\<lambda>sender.
     case sender of
       EntitlementSigner c f g \<Rightarrow> Inl DeliveryEnvelopeValidationError
     | InstallationSender accountId installationId \<Rightarrow>
         bindE (parseConversationId (record ''conversationId'')) (\<lambda>conversationId.
         bindE (parseConversationEtag (record ''ifMatch'')) (\<lambda>ifMatch.
         bindE (parseApplicationAppendBody H (record ''append'')) (\<lambda>append.
         Inr \<lparr>si_conversationId = conversationId, si_ifMatch = ifMatch, si_accountId = accountId,
              si_installationId = installationId, si_append = append\<rparr>)))))"

definition encodeIdentity :: "semanticIdentity \<Rightarrow> jsval" where
  "encodeIdentity s = mkRecord [(''conversationId'', JStr (si_conversationId s)), (''ifMatch'', JStr (si_ifMatch s)),
     (''authenticatedSender'', encodeSender (InstallationSender (si_accountId s) (si_installationId s))),
     (''append'', encodeAppendBody (si_append s))]"

definition sameOrderedStrings :: "string list \<Rightarrow> string list \<Rightarrow> bool" where
  "sameOrderedStrings left right = (length left = length right \<and> list_all (\<lambda>i. left ! i = right ! i) [0 ..< length left])"

definition sameParsedApplicationIdentity :: "semanticIdentity \<Rightarrow> semanticIdentity \<Rightarrow> bool" where
  "sameParsedApplicationIdentity left right =
     (let a = si_append left; b = si_append right in
      si_conversationId left = si_conversationId right \<and> si_ifMatch left = si_ifMatch right
      \<and> si_accountId left = si_accountId right \<and> si_installationId left = si_installationId right
      \<and> ab_envelopeId a = ab_envelopeId b \<and> ab_policyHeadId a = ab_policyHeadId b
      \<and> ab_policyHeadSequence a = ab_policyHeadSequence b \<and> ab_policyHeadHash a = ab_policyHeadHash b
      \<and> ab_expectedEpoch a = ab_expectedEpoch b \<and> ab_expectedRosterVersion a = ab_expectedRosterVersion b
      \<and> ab_expectedConfirmedTranscriptHash a = ab_expectedConfirmedTranscriptHash b
      \<and> ab_contentType a = ab_contentType b \<and> ab_ciphertext a = ab_ciphertext b
      \<and> ab_envelopeSha256 a = ab_envelopeSha256 b
      \<and> sameOrderedStrings (ab_attachmentIds a) (ab_attachmentIds b))"

datatype 'receipt replayClassification = NewEnvelope | ExactEnvelopeReplay 'receipt | EnvelopeConflict

definition classifyImmutableApplicationEnvelopeReplay ::
  "(bytes \<Rightarrow> bytes) \<Rightarrow> (jsval \<times> 'receipt) option \<Rightarrow> jsval \<Rightarrow> 'receipt replayClassification res" where
  "classifyImmutableApplicationEnvelopeReplay H accepted candidate =
     bindE (parseApplicationEnvelopeSemanticIdentity H candidate) (\<lambda>parsedCandidate.
     case accepted of
       None \<Rightarrow> Inr NewEnvelope
     | Some (identity, receipt) \<Rightarrow>
         bindE (parseApplicationEnvelopeSemanticIdentity H identity) (\<lambda>parsedAccepted.
         if \<not> sameParsedApplicationIdentity parsedAccepted parsedCandidate then Inr EnvelopeConflict
         else Inr (ExactEnvelopeReplay receipt)))"

definition applicationEnvelopeSemanticallyEqual :: "(bytes \<Rightarrow> bytes) \<Rightarrow> jsval \<Rightarrow> jsval \<Rightarrow> bool res" where
  "applicationEnvelopeSemanticallyEqual H left right =
     bindE (parseApplicationEnvelopeSemanticIdentity H left) (\<lambda>a.
     bindE (parseApplicationEnvelopeSemanticIdentity H right) (\<lambda>b.
     Inr (sameParsedApplicationIdentity a b)))"

end
