(* ===== verification/EnvelopeProofs.thy ===== *)
theory EnvelopeProofs
  imports Envelopes StateParsers
begin

section \<open>What the envelope parsers accept\<close>

text \<open>
  Characterisations of the parsers of \<open>Envelopes\<close> as codecs: an accepted body or envelope has fields of their formats,
  its hash is the hash of the bytes it carries, its leaf, head and checkpoint hashes are those that the log defines;
  and everything of this kind is accepted.
\<close>

subsection \<open>Bytes and their hash\<close>

definition carriesHash :: "(bytes \<Rightarrow> bytes) \<Rightarrow> int \<Rightarrow> string \<Rightarrow> string \<Rightarrow> bool" where
  "carriesHash H maximum payload digest =
     (b64Valid 1 maximum payload \<and> hash32Valid digest \<and> digest = b64encode (H (b64decode payload)))"

lemma parseCanonicalBase64UrlBytes_iff:
  assumes "1 \<le> maximum" "maximum \<le> 8388608"
  shows "parseCanonicalBase64UrlBytes 1 maximum v = Inr bs \<longleftrightarrow> (\<exists>s. v = JStr s \<and> b64Valid 1 maximum s \<and> bs = b64decode s)"
proof -
  have "validateByteBounds 1 maximum = Inr ()" using assms by (intro validateByteBounds_ok) auto
  moreover have "int (length (b64decode s)) \<le> maximum" if "b64Valid 1 maximum s" for s
    using that by (simp add: b64Valid_def)
  ultimately show ?thesis
    using assms
    by (auto simp: parseCanonicalBase64UrlBytes_def res_simps parseCanonicalBase64Url_iff copyBytes_owned split: if_splits)
qed

lemma parseCanonicalBase64Url_text:
  "1 \<le> maximum \<Longrightarrow> maximum \<le> 8388608 \<Longrightarrow>
     parseCanonicalBase64Url 1 maximum v = Inr s \<longleftrightarrow> v = JStr s \<and> b64Valid 1 maximum s"
  by (rule parseCanonicalBase64Url_iff) (auto intro: validateByteBounds_ok)

lemma computeEnvelopeSha256_owned:
  "computeEnvelopeSha256 H (owned bs) = Inr h \<longleftrightarrow> length bs \<le> 8388608 \<and> length (H bs) = 32 \<and> h = b64encode (H bs)"
  by (auto simp: computeEnvelopeSha256_def owned_def res_simps copyBytes_owned DEFAULT_MAX_BASE64URL_BYTES_def sha256Bytes_iff
      split: if_splits)

lemma parseEd25519Signature_iff [parse_simps]:
  "parseEd25519Signature v = Inr s \<longleftrightarrow> v = JStr s \<and> b64Valid 64 64 s"
  unfolding parseEd25519Signature_def by (rule parseCanonicalBase64Url_iff) (simp add: validateByteBounds_ok)

lemma hashed_payload:
  assumes "1 \<le> maximum" "maximum \<le> 8388608"
  shows "(\<exists>bs. parseCanonicalBase64UrlBytes 1 maximum v = Inr bs \<and> computeEnvelopeSha256 H (owned bs) = Inr digest) \<longleftrightarrow>
    (\<exists>s. v = JStr s \<and> carriesHash H maximum s digest)" (is "?L \<longleftrightarrow> ?R")
proof
  assume ?L
  then show ?R
    by (auto simp: parseCanonicalBase64UrlBytes_iff [OF assms] computeEnvelopeSha256_owned carriesHash_def hash32Valid_iff)
next
  assume ?R
  then obtain s where s: "v = JStr s" "b64Valid 1 maximum s" "hash32Valid digest" "digest = b64encode (H (b64decode s))"
    by (auto simp: carriesHash_def)
  moreover have "length (b64decode s) \<le> 8388608" using s(2) assms by (simp add: b64Valid_def)
  moreover have "length (H (b64decode s)) = 32" using s(3,4) by (auto simp: hash32Valid_iff)
  ultimately show ?L by (auto simp: parseCanonicalBase64UrlBytes_iff [OF assms] computeEnvelopeSha256_owned)
qed

subsection \<open>The body of an append\<close>

definition appendBodyValid :: "(bytes \<Rightarrow> bytes) \<Rightarrow> applicationAppendBody \<Rightarrow> bool" where
  "appendBodyValid H b =
     (uuidV4Valid (ab_envelopeId b) \<and> uuidV4Valid (ab_policyHeadId b) \<and> positiveUint63Valid (ab_policyHeadSequence b)
      \<and> hash32Valid (ab_policyHeadHash b) \<and> uint63Valid (ab_expectedEpoch b) \<and> uint63Valid (ab_expectedRosterVersion b)
      \<and> hash32Valid (ab_expectedConfirmedTranscriptHash b) \<and> ab_contentType b = MLS_PRIVATE_MESSAGE_MEDIA_TYPE
      \<and> carriesHash H MAX_APPLICATION_ENVELOPE_BYTES (ab_ciphertext b) (ab_envelopeSha256 b)
      \<and> list_all uuidV4Valid (ab_attachmentIds b) \<and> distinct (ab_attachmentIds b) \<and> length (ab_attachmentIds b) \<le> 10)"

lemma envelope_maxima: "1 \<le> MAX_APPLICATION_ENVELOPE_BYTES" "MAX_APPLICATION_ENVELOPE_BYTES \<le> 8388608"
  "1 \<le> maximumEnvelopeBytes cls" "maximumEnvelopeBytes cls \<le> 8388608"
  by (cases cls; simp add: maximumEnvelopeBytes_def MAX_APPLICATION_ENVELOPE_BYTES_def
      MAX_EXTERNAL_PROPOSAL_ENVELOPE_BYTES_def MAX_MLS_COMMIT_ENVELOPE_BYTES_def)+

lemma expectExactArray_iff:
  "expectExactArray v n = Inr xs \<longleftrightarrow> v = mkArray xs \<and> length xs \<le> n"
  by (auto simp: expectExactArray_def mkArray_def split: jsval.splits jsproto.splits if_splits)

lemma parseAttachments_iff:
  "mapE parseAttachmentId xs = Inr ids \<longleftrightarrow> xs = map JStr ids \<and> list_all uuidV4Valid ids"
proof (induction xs arbitrary: ids)
  case (Cons x xs)
  then show ?case by (cases ids) (auto simp: res_simps parse_simps)
qed auto

lemma parseApplicationAppendBody_valid:
  assumes "parseApplicationAppendBody H v = Inr b"
  shows "appendBodyValid H b"
proof -
  note m = envelope_maxima(1,2)
  note bytes = parseCanonicalBase64UrlBytes_iff [OF m] parseCanonicalBase64Url_text [OF m]
  from assms show ?thesis
    unfolding parseApplicationAppendBody_def
    by (elim bindE_InrE)
      (auto elim!: bindE_InrE simp: bytes expectExactArray_iff parseAttachments_iff computeEnvelopeSha256_owned parse_simps
        appendBodyValid_def carriesHash_def MAX_APPLICATION_ATTACHMENTS_def card_distinct split: if_splits)
qed

lemma parseApplicationAppendBody_encode:
  assumes "appendBodyValid H b"
  shows "parseApplicationAppendBody H (encodeAppendBody b) = Inr b"
proof -
  note v = assms [unfolded appendBodyValid_def]
  note m = envelope_maxima(1,2)
  have read: "expectExactRecord (encodeAppendBody b) APPLICATION_APPEND_KEYS = Inr (fieldOf
     [(''envelopeId'', JStr (ab_envelopeId b)), (''policyHeadId'', JStr (ab_policyHeadId b)),
      (''policyHeadSequence'', JStr (ab_policyHeadSequence b)), (''policyHeadHash'', JStr (ab_policyHeadHash b)),
      (''expectedEpoch'', JStr (ab_expectedEpoch b)), (''expectedRosterVersion'', JStr (ab_expectedRosterVersion b)),
      (''expectedConfirmedTranscriptHash'', JStr (ab_expectedConfirmedTranscriptHash b)),
      (''contentType'', JStr (ab_contentType b)), (''ciphertext'', JStr (ab_ciphertext b)),
      (''envelopeSha256'', JStr (ab_envelopeSha256 b)), (''attachmentIds'', mkArray (map JStr (ab_attachmentIds b)))])"
    unfolding encodeAppendBody_def
    by (rule expectExactRecord_mkRecord) (simp_all add: APPLICATION_APPEND_KEYS_def mkArray_def)
  have arr: "expectExactArray (mkArray (map JStr (ab_attachmentIds b))) MAX_APPLICATION_ATTACHMENTS = Inr (map JStr (ab_attachmentIds b))"
    "mapE parseAttachmentId (map JStr (ab_attachmentIds b)) = Inr (ab_attachmentIds b)"
    using v by (simp_all add: expectExactArray_iff parseAttachments_iff MAX_APPLICATION_ATTACHMENTS_def)
  obtain bs where bs: "parseCanonicalBase64UrlBytes 1 MAX_APPLICATION_ENVELOPE_BYTES (JStr (ab_ciphertext b)) = Inr bs"
    "computeEnvelopeSha256 H (owned bs) = Inr (ab_envelopeSha256 b)"
    using hashed_payload [OF m, of "JStr (ab_ciphertext b)" H "ab_envelopeSha256 b"] v by auto
  have ct: "parseCanonicalBase64Url 1 MAX_APPLICATION_ENVELOPE_BYTES (JStr (ab_ciphertext b)) = Inr (ab_ciphertext b)"
    using v by (simp add: parseCanonicalBase64Url_text [OF m] carriesHash_def)
  have h: "hash32Valid (ab_envelopeSha256 b)" using v unfolding carriesHash_def by blast
  show ?thesis
    using v h by (simp add: parseApplicationAppendBody_def read arr bs ct parse_ok distinct_card)
qed

interpretation append_body_codec: record_codec "parseApplicationAppendBody H" encodeAppendBody "appendBodyValid H" for H
  by unfold_locales (auto intro: parseApplicationAppendBody_valid parseApplicationAppendBody_encode)

subsection \<open>Stored envelopes\<close>

definition classMatches :: "storedEnvelopeCommon \<Rightarrow> bool" where
  "classMatches e = (requireClassSenderAndMediaType (se_envelopeClass e) (se_sender e) (se_contentType e) = Inr ())"

text \<open>The three hashes of a stored envelope are those that the log defines.\<close>

definition storedHashes :: "(bytes \<Rightarrow> bytes) \<Rightarrow> storedEnvelopeCommon \<Rightarrow> bool" where
  "storedHashes H e =
     ((se_position e = ''1'') = (se_previousHeadHash e = ZERO_HASH32)
      \<and> computeEnvelopeLeafHash H (encodeLeaf (leafInputOf e)) = Inr (se_leafHash e)
      \<and> computeLogHeadHash H (JStr (se_previousHeadHash e)) (JStr (se_leafHash e)) = Inr (se_headHash e)
      \<and> computeDeliveryLogCheckpointDigest H (encodeCheckpoint (checkpointInputOf e)) = Inr (se_logCheckpointDigest e))"

definition storedCommonValid :: "(bytes \<Rightarrow> bytes) \<Rightarrow> storedEnvelopeCommon \<Rightarrow> bool" where
  "storedCommonValid H e =
     (carriesHash H (maximumEnvelopeBytes (se_envelopeClass e)) (se_envelopeBytes e) (se_envelopeSha256 e)
      \<and> uuidV4Valid (se_conversationId e) \<and> positiveUint63Valid (se_position e) \<and> uuidV4Valid (se_envelopeId e)
      \<and> (se_contentType e = MLS_PUBLIC_MESSAGE_MEDIA_TYPE \<or> se_contentType e = MLS_PRIVATE_MESSAGE_MEDIA_TYPE)
      \<and> uint63Valid (se_epoch e) \<and> uint63Valid (se_rosterVersion e) \<and> senderValid (se_sender e)
      \<and> rfc3339Valid (se_receivedAt e) \<and> hash32Valid (se_leafHash e) \<and> hash32Valid (se_previousHeadHash e)
      \<and> hash32Valid (se_headHash e) \<and> SIGNING_KEY_ID (se_logSigningKeyId e) \<and> hash32Valid (se_logCheckpointDigest e)
      \<and> b64Valid 64 64 (se_logHeadSignature e) \<and> classMatches e \<and> storedHashes H e)"

fun storedEnvelopeValid :: "(bytes \<Rightarrow> bytes) \<Rightarrow> storedEnvelope \<Rightarrow> bool" where
  "storedEnvelopeValid H (StoredExternalProposal e) = (storedCommonValid H e \<and> se_envelopeClass e = ExternalProposal)"
| "storedEnvelopeValid H (StoredMlsCommit e base resulting) =
     (storedCommonValid H e \<and> se_envelopeClass e = MlsCommit \<and> hash32Valid base \<and> hash32Valid resulting)"
| "storedEnvelopeValid H (StoredApplication e) = (storedCommonValid H e \<and> se_envelopeClass e = Application)"

lemma checkStoredHashes_iff: "checkStoredHashes H e = Inr e' \<longleftrightarrow> e' = e \<and> storedHashes H e"
  by (auto simp: checkStoredHashes_def storedHashes_def res_simps split: if_splits)

lemma leaf_hash_class:
  assumes "computeEnvelopeLeafHash H (encodeLeaf (leafInputOf e)) = Inr h" "senderValid (se_sender e)"
  shows "classMatches e"
proof -
  have "expectExactRecord (encodeLeaf r) LEAF_KEYS = Inr (fieldOf
     [(''conversationId'', JStr (leafConversationId r)), (''position'', JStr (leafPosition r)),
      (''envelopeId'', JStr (leafEnvelopeId r)), (''envelopeClass'', JStr (envelopeClassText (leafEnvelopeClass r))),
      (''sender'', encodeSender (leafSender r)), (''epoch'', JStr (leafEpoch r)),
      (''rosterVersion'', JStr (leafRosterVersion r)), (''contentType'', JStr (leafContentType r)),
      (''envelopeSha256'', JStr (leafEnvelopeSha256 r)), (''receivedAt'', JStr (leafReceivedAt r))])" for r
    unfolding encodeLeaf_def by (rule expectExactRecord_mkRecord) (simp_all add: LEAF_KEYS_def)
  with assms parseEnvelopeSender_encode [OF assms(2)] show ?thesis
    by (auto simp: computeEnvelopeLeafHash_def parseEnvelopeLeafInput_def leafInputOf_def classMatches_def res_simps parse_simps
        envelopeClassText_inj)
qed

lemma parseStoredCommon_valid:
  assumes "parseStoredCommon H record cls = Inr e"
  shows "storedCommonValid H e \<and> se_envelopeClass e = cls"
proof -
  note m = envelope_maxima(3,4) [of cls]
  note bytes = parseCanonicalBase64UrlBytes_iff [OF m] parseCanonicalBase64Url_text [OF m]
  have leaf: "classMatches x" if "storedHashes H x" "senderValid (se_sender x)" for x
    using that by (auto simp: storedHashes_def intro: leaf_hash_class)
  from assms have "storedCommonValid H e \<and> se_envelopeClass e = cls \<or> \<not> classMatches e \<and> storedHashes H e \<and> senderValid (se_sender e)"
    unfolding parseStoredCommon_def
    by (elim bindE_InrE)
      (auto elim!: bindE_InrE simp: bytes computeEnvelopeSha256_owned parse_simps checkStoredHashes_iff
        storedCommonValid_def carriesHash_def sender_codec.parse_wf split: if_splits)
  with leaf show ?thesis by blast
qed

lemma parseStoredCommon_entries:
  assumes v: "storedCommonValid H e" and r: "\<And>k. k \<in> set STORED_ENVELOPE_COMMON_KEYS \<Longrightarrow> record k = fieldOf (entriesStored e) k"
  shows "parseStoredCommon H record (se_envelopeClass e) = Inr e"
proof -
  note m = envelope_maxima(3,4) [of "se_envelopeClass e"]
  note w = v [unfolded storedCommonValid_def]
  have get: "record ''conversationId'' = JStr (se_conversationId e)" "record ''position'' = JStr (se_position e)"
    "record ''envelopeId'' = JStr (se_envelopeId e)" "record ''contentType'' = JStr (se_contentType e)"
    "record ''envelopeBytes'' = JStr (se_envelopeBytes e)" "record ''envelopeSha256'' = JStr (se_envelopeSha256 e)"
    "record ''epoch'' = JStr (se_epoch e)" "record ''rosterVersion'' = JStr (se_rosterVersion e)"
    "record ''sender'' = encodeSender (se_sender e)" "record ''receivedAt'' = JStr (se_receivedAt e)"
    "record ''leafHash'' = JStr (se_leafHash e)" "record ''previousHeadHash'' = JStr (se_previousHeadHash e)"
    "record ''headHash'' = JStr (se_headHash e)" "record ''logSigningKeyId'' = JStr (se_logSigningKeyId e)"
    "record ''logCheckpointDigest'' = JStr (se_logCheckpointDigest e)" "record ''logHeadSignature'' = JStr (se_logHeadSignature e)"
    using r by (simp_all add: STORED_ENVELOPE_COMMON_KEYS_def entriesStored_def)
  obtain bs where bs: "parseCanonicalBase64UrlBytes 1 (maximumEnvelopeBytes (se_envelopeClass e)) (JStr (se_envelopeBytes e)) = Inr bs"
    "computeEnvelopeSha256 H (owned bs) = Inr (se_envelopeSha256 e)"
    using hashed_payload [OF m, of "JStr (se_envelopeBytes e)" H "se_envelopeSha256 e"] w by auto
  have ct: "parseCanonicalBase64Url 1 (maximumEnvelopeBytes (se_envelopeClass e)) (JStr (se_envelopeBytes e)) = Inr (se_envelopeBytes e)"
    using w by (simp add: parseCanonicalBase64Url_text [OF m] carriesHash_def)
  have h: "hash32Valid (se_envelopeSha256 e)" using w unfolding carriesHash_def by blast
  have media: "parseEnvelopeContentType (JStr (se_contentType e)) = Inr (se_contentType e)" using w by (simp add: parse_simps)
  have signature: "parseEd25519Signature (JStr (se_logHeadSignature e)) = Inr (se_logHeadSignature e)" using w by (simp add: parse_simps)
  have eta: "\<lparr>se_conversationId = se_conversationId e, se_position = se_position e, se_envelopeId = se_envelopeId e,
      se_envelopeClass = se_envelopeClass e, se_contentType = se_contentType e, se_envelopeBytes = se_envelopeBytes
      e, se_envelopeSha256 = se_envelopeSha256 e, se_epoch = se_epoch e, se_rosterVersion = se_rosterVersion e,
      se_sender = se_sender e, se_receivedAt = se_receivedAt e, se_leafHash = se_leafHash e, se_previousHeadHash =
      se_previousHeadHash e, se_headHash = se_headHash e, se_logSigningKeyId = se_logSigningKeyId e,
      se_logCheckpointDigest = se_logCheckpointDigest e, se_logHeadSignature = se_logHeadSignature e\<rparr> = e"
    by (cases e) simp
  have check: "checkStoredHashes H e = Inr e" using w by (simp add: checkStoredHashes_iff)
  show ?thesis
    using w h unfolding parseStoredCommon_def get bs ct media signature
    by (simp add: bs ct media signature parse_ok parseEnvelopeSender_encode eta check)
qed

lemma expect_storedEnvelope:
  "expectExactRecord (mkRecord (entriesStored e)) STORED_ENVELOPE_COMMON_KEYS = Inr (fieldOf (entriesStored e))"
  "expectExactRecord (mkRecord (entriesStored e @ [(''baseConfirmedTranscriptHash'', JStr base),
     (''resultingConfirmedTranscriptHash'', JStr resulting)])) COMMIT_TRANSCRIPT_KEYS
     = Inr (fieldOf (entriesStored e @ [(''baseConfirmedTranscriptHash'', JStr base),
         (''resultingConfirmedTranscriptHash'', JStr resulting)]))"
  by (rule expectExactRecord_mkRecord;
      simp add: STORED_ENVELOPE_COMMON_KEYS_def COMMIT_TRANSCRIPT_KEYS_def entriesStored_def)+

lemma readDataDiscriminator_mkRecord:
  "map_of kvs key = Some v \<Longrightarrow> readDataDiscriminator (mkRecord kvs) key = Inr v"
  by (simp add: readDataDiscriminator_def mkRecord_def map_of_mkRecord)

lemma discriminator_stored:
  "readDataDiscriminator (mkRecord (entriesStored e @ others)) ''envelopeClass'' = Inr (JStr (envelopeClassText (se_envelopeClass e)))"
  "readDataDiscriminator (mkRecord (entriesStored e)) ''envelopeClass'' = Inr (JStr (envelopeClassText (se_envelopeClass e)))"
  by (rule readDataDiscriminator_mkRecord; simp add: entriesStored_def)+

lemma classMatches_cases:
  assumes "classMatches e"
  shows "se_envelopeClass e = ExternalProposal \<Longrightarrow> se_contentType e = MLS_PUBLIC_MESSAGE_MEDIA_TYPE \<and> senderType (se_sender e) = ''entitlement_signer''"
    and "se_envelopeClass e = MlsCommit \<Longrightarrow> se_contentType e = MLS_PUBLIC_MESSAGE_MEDIA_TYPE \<and> senderType (se_sender e) = ''installation''"
    and "se_envelopeClass e = Application \<Longrightarrow> se_contentType e = MLS_PRIVATE_MESSAGE_MEDIA_TYPE \<and> senderType (se_sender e) = ''installation''"
  using assms by (cases "se_sender e"; simp add: classMatches_def requireClassSenderAndMediaType_def split: if_splits)+

lemma parseStoredEnvelope_encode:
  assumes "storedEnvelopeValid H env"
  shows "parseStoredEnvelope H (encodeStoredEnvelope env) = Inr env"
proof (cases env)
  case (StoredExternalProposal e)
  have "parseStoredCommon H (fieldOf (entriesStored e)) ExternalProposal = Inr e"
    using assms parseStoredCommon_entries [of H e "fieldOf (entriesStored e)"] by (auto simp: StoredExternalProposal)
  with assms show ?thesis
    using classMatches_cases(1) [of e]
    by (simp add: StoredExternalProposal parseStoredEnvelope_def discriminator_stored expect_storedEnvelope storedCommonValid_def)
next
  case (StoredMlsCommit e base resulting)
  let ?entries = "fieldOf (entriesStored e @ [(''baseConfirmedTranscriptHash'', JStr base), (''resultingConfirmedTranscriptHash'', JStr resulting)])"
  have "?entries k = fieldOf (entriesStored e) k" if "k \<in> set STORED_ENVELOPE_COMMON_KEYS" for k
    using that by (auto simp: STORED_ENVELOPE_COMMON_KEYS_def entriesStored_def)
  then have "parseStoredCommon H ?entries MlsCommit = Inr e"
    using assms parseStoredCommon_entries [of H e ?entries] by (auto simp: StoredMlsCommit)
  moreover have "?entries ''baseConfirmedTranscriptHash'' = JStr base" "?entries ''resultingConfirmedTranscriptHash'' = JStr resulting"
    by (simp_all add: entriesStored_def)
  ultimately show ?thesis
    using assms classMatches_cases(2) [of e]
    by (simp add: StoredMlsCommit parseStoredEnvelope_def discriminator_stored expect_storedEnvelope storedCommonValid_def parse_ok)
next
  case (StoredApplication e)
  have "parseStoredCommon H (fieldOf (entriesStored e)) Application = Inr e"
    using assms parseStoredCommon_entries [of H e "fieldOf (entriesStored e)"] by (auto simp: StoredApplication)
  with assms show ?thesis
    using classMatches_cases(3) [of e]
    by (simp add: StoredApplication parseStoredEnvelope_def discriminator_stored expect_storedEnvelope storedCommonValid_def)
qed

lemma parseStoredEnvelope_valid: "parseStoredEnvelope H v = Inr env \<Longrightarrow> storedEnvelopeValid H env"
  unfolding parseStoredEnvelope_def
  by (auto elim!: bindE_InrE dest!: parseStoredCommon_valid simp: parse_simps split: if_splits)

interpretation stored_envelope_codec: record_codec "parseStoredEnvelope H" encodeStoredEnvelope "storedEnvelopeValid H" for H
  by unfold_locales (auto intro: parseStoredEnvelope_valid parseStoredEnvelope_encode)

subsection \<open>Semantic identity\<close>

definition identityValid :: "(bytes \<Rightarrow> bytes) \<Rightarrow> semanticIdentity \<Rightarrow> bool" where
  "identityValid H s = (uuidV4Valid (si_conversationId s) \<and> etagValid (si_ifMatch s) \<and> uuidV4Valid (si_accountId s)
     \<and> uuidV4Valid (si_installationId s) \<and> appendBodyValid H (si_append s))"

lemma parseIdentity_valid: "parseApplicationEnvelopeSemanticIdentity H v = Inr s \<Longrightarrow> identityValid H s"
  unfolding parseApplicationEnvelopeSemanticIdentity_def
  by (auto elim!: bindE_InrE dest!: sender_codec.parse_wf append_body_codec.parse_wf simp: parse_simps identityValid_def
      split: envelopeSender.splits)

lemma parseIdentity_encode:
  assumes "identityValid H s"
  shows "parseApplicationEnvelopeSemanticIdentity H (encodeIdentity s) = Inr s"
proof -
  have "expectExactRecord (encodeIdentity s) SEMANTIC_IDENTITY_KEYS = Inr (fieldOf
     [(''conversationId'', JStr (si_conversationId s)), (''ifMatch'', JStr (si_ifMatch s)),
      (''authenticatedSender'', encodeSender (InstallationSender (si_accountId s) (si_installationId s))),
      (''append'', encodeAppendBody (si_append s))])"
    unfolding encodeIdentity_def
    by (rule expectExactRecord_mkRecord) (simp_all add: SEMANTIC_IDENTITY_KEYS_def mkRecord_def encodeAppendBody_def)
  then show ?thesis
    using assms parseEnvelopeSender_encode [of "InstallationSender (si_accountId s) (si_installationId s)"]
      append_body_codec.parse_encode [of H "si_append s"]
    by (simp add: parseApplicationEnvelopeSemanticIdentity_def identityValid_def parse_ok del: encodeSender.simps)
qed

interpretation identity_codec: record_codec "parseApplicationEnvelopeSemanticIdentity H" encodeIdentity "identityValid H" for H
  by unfold_locales (auto intro: parseIdentity_valid parseIdentity_encode)

lemma sameOrderedStrings_iff: "sameOrderedStrings xs ys \<longleftrightarrow> xs = ys"
  unfolding list_eq_iff_nth_eq [of xs ys] by (auto simp: sameOrderedStrings_def list_all_iff)

lemma sameParsedApplicationIdentity_iff: "sameParsedApplicationIdentity a b \<longleftrightarrow> a = b"
proof
  assume same: "sameParsedApplicationIdentity a b"
  then have "si_append a = si_append b"
    by (intro applicationAppendBody.equality) (simp_all add: sameParsedApplicationIdentity_def Let_def sameOrderedStrings_iff)
  with same show "a = b"
    by (intro semanticIdentity.equality) (simp_all add: sameParsedApplicationIdentity_def Let_def)
qed (simp add: sameParsedApplicationIdentity_def sameOrderedStrings_iff)

end
