(* ===== verification/StrictJson.thy ===== *)
theory StrictJson
  imports JsValues
begin

section \<open>Strict JSON\<close>

text \<open>
  Models the JSON reader that \<open>envelopes.ts\<close> (\<open>parseJsonWithoutDuplicateObjectKeys\<close>) and \<open>sync.ts\<close>
  (\<open>parseStrictJsonBytes\<close>) both contain, under \<open>src/src/production/delivery\<close>. The two differ in their bounds on depth
  and number of values and in the class of their errors; these are the parameter \<open>jsonLimits\<close>. A text is a list of
  UTF-16 code units; the reader's offset is the rest of the text that it has not read.

  The loops of objects and arrays take fuel, and \<open>None\<close> means that it ran out; \<open>parseJsonText_returns\<close> shows that the
  fuel they are given, one more than the length of the text, is always enough.
\<close>

type_synonym units = "nat list"

definition unitsOf :: "string \<Rightarrow> units" where
  "unitsOf s = map charCode s"

datatype json =
    JsonNull
  | JsonBool bool
  | JsonNumber bool nat int
  | JsonString units
  | JsonArray "json list"
  | JsonObject "(units \<times> json) list"

record jsonLimits =
  jl_depth :: nat
  jl_nodes :: nat
  jl_error :: err

subsection \<open>Decoding UTF-8\<close>

text \<open>
  \<open>TextDecoder("utf-8", { fatal: true })\<close>: a byte sequence that is not well-formed UTF-8 throws; a code point above
  the basic plane becomes a surrogate pair.
\<close>

definition continuation :: "nat \<Rightarrow> bool" where
  "continuation b = (128 \<le> b \<and> b < 192)"

definition unitsOfCodePoint :: "nat \<Rightarrow> units" where
  "unitsOfCodePoint p = (if p < 65536 then [p] else [55296 + (p - 65536) div 1024, 56320 + (p - 65536) mod 1024])"

fun decodeUtf8 :: "nat list \<Rightarrow> units option" where
  "decodeUtf8 [] = Some []"
| "decodeUtf8 (a # xs) =
     (if a < 128 then map_option ((#) a) (decodeUtf8 xs)
      else if 194 \<le> a \<and> a < 224 then
        (case xs of
           b # ys \<Rightarrow> if continuation b
             then map_option ((@) (unitsOfCodePoint ((a - 192) * 64 + (b - 128)))) (decodeUtf8 ys) else None
         | _ \<Rightarrow> None)
      else if 224 \<le> a \<and> a < 240 then
        (case xs of
           b # c # ys \<Rightarrow> if continuation b \<and> continuation c \<and> (a = 224 \<longrightarrow> 160 \<le> b) \<and> (a = 237 \<longrightarrow> b < 160)
             then map_option ((@) (unitsOfCodePoint (((a - 224) * 64 + (b - 128)) * 64 + (c - 128)))) (decodeUtf8 ys) else None
         | _ \<Rightarrow> None)
      else if 240 \<le> a \<and> a < 245 then
        (case xs of
           b # c # d # ys \<Rightarrow> if continuation b \<and> continuation c \<and> continuation d
               \<and> (a = 240 \<longrightarrow> 144 \<le> b) \<and> (a = 244 \<longrightarrow> b < 144)
             then map_option ((@) (unitsOfCodePoint ((((a - 240) * 64 + (b - 128)) * 64 + (c - 128)) * 64 + (d - 128))))
                    (decodeUtf8 ys) else None
         | _ \<Rightarrow> None)
      else None)"

subsection \<open>Tokens\<close>

fun skipWhitespace :: "units \<Rightarrow> units" where
  "skipWhitespace (c # r) = (if c = 32 \<or> c = 10 \<or> c = 13 \<or> c = 9 then skipWhitespace r else c # r)"
| "skipWhitespace [] = []"

definition hexUnit :: "nat \<Rightarrow> nat option" where
  "hexUnit c = (if 48 \<le> c \<and> c \<le> 57 then Some (c - 48)
     else if 97 \<le> c \<and> c \<le> 102 then Some (c - 87)
     else if 65 \<le> c \<and> c \<le> 70 then Some (c - 55) else None)"

definition hex4 :: "units \<Rightarrow> nat option" where
  "hex4 r = (case r of
     a # b # c # d # _ \<Rightarrow>
       (case (hexUnit a, hexUnit b, hexUnit c, hexUnit d) of
          (Some p, Some q, Some s, Some t) \<Rightarrow> Some (((p * 16 + q) * 16 + s) * 16 + t)
        | _ \<Rightarrow> None)
   | _ \<Rightarrow> None)"

definition escapedUnit :: "nat \<Rightarrow> nat option" where
  "escapedUnit c = (if c = 34 \<or> c = 92 \<or> c = 47 then Some c
     else if c = 98 then Some 8 else if c = 102 then Some 12 else if c = 110 then Some 10
     else if c = 114 then Some 13 else if c = 116 then Some 9 else None)"

text \<open>
  The loop of \<open>parseString\<close> after the opening quote, together with the decoding that \<open>JSON.parse\<close> makes of the slice
  it has validated: the characters of the string and what follows the closing quote; \<open>None\<close> is \<open>fail()\<close>.
\<close>

function scanString :: "units \<Rightarrow> (units \<times> units) option" where
  "scanString [] = None"
| "scanString (c # r) =
     (if c = 34 then Some ([], r)
      else if c < 32 then None
      else if c = 92 then
        (case r of
           [] \<Rightarrow> None
         | e # r' \<Rightarrow>
             if e = 117 then
               (case hex4 r' of
                  None \<Rightarrow> None
                | Some u \<Rightarrow> map_option (\<lambda>(s, rest). (u # s, rest)) (scanString (drop 4 r')))
             else
               (case escapedUnit e of
                  None \<Rightarrow> None
                | Some u \<Rightarrow> map_option (\<lambda>(s, rest). (u # s, rest)) (scanString r')))
      else map_option (\<lambda>(s, rest). (c # s, rest)) (scanString r))"
  by pat_completeness auto
termination by (relation "measure length") auto

definition parseString :: "units \<Rightarrow> (units \<times> units) option" where
  "parseString r = (case r of [] \<Rightarrow> None | c # r' \<Rightarrow> if c = 34 then scanString r' else None)"

definition digitUnit :: "nat \<Rightarrow> bool" where
  "digitUnit c = (48 \<le> c \<and> c \<le> 57)"

definition digitsValue :: "units \<Rightarrow> nat" where
  "digitsValue ds = foldl (\<lambda>acc d. acc * 10 + (d - 48)) 0 ds"

text \<open>
  The longest prefix that matches \<open>-?(?:0|[1-9]\d*)(?:\.\d+)?(?:[eE][+-]?\d+)?\<close>, as sign, digits and decimal exponent.
\<close>

definition matchInteger :: "units \<Rightarrow> (units \<times> units) option" where
  "matchInteger r = (case r of
     [] \<Rightarrow> None
   | c # r' \<Rightarrow> if c = 48 then Some ([c], r')
       else if digitUnit c then Some (takeWhile digitUnit r, dropWhile digitUnit r) else None)"

definition matchFraction :: "units \<Rightarrow> units \<times> units" where
  "matchFraction r = (case r of
     c # r' \<Rightarrow> if c = 46 \<and> takeWhile digitUnit r' \<noteq> [] then (takeWhile digitUnit r', dropWhile digitUnit r') else ([], r)
   | [] \<Rightarrow> ([], r))"

definition matchExponent :: "units \<Rightarrow> int \<times> units" where
  "matchExponent r = (case r of
     [] \<Rightarrow> (0, r)
   | c # r' \<Rightarrow>
       if c = 101 \<or> c = 69 then
         (let (negative, r'') = (case r' of
                [] \<Rightarrow> (False, r') | s # t \<Rightarrow> if s = 43 then (False, t) else if s = 45 then (True, t) else (False, r'));
              ds = takeWhile digitUnit r'' in
          if ds = [] then (0, r)
          else (if negative then - int (digitsValue ds) else int (digitsValue ds), dropWhile digitUnit r''))
       else (0, r))"

text \<open>
  \<open>Number.isFinite(Number(text))\<close>: the decimal value rounds to an infinity from \<open>2^1024 - 2^970\<close> on.
\<close>

definition finiteNumber :: "nat \<Rightarrow> int \<Rightarrow> bool" where
  "finiteNumber digits e = (if 0 \<le> e then digits * 10 ^ nat e < 2 ^ 1024 - 2 ^ 970
     else digits < (2 ^ 1024 - 2 ^ 970) * 10 ^ nat (- e))"

definition parseNumber :: "units \<Rightarrow> (json \<times> units) option" where
  "parseNumber r =
     (let (negative, r1) = (case r of [] \<Rightarrow> (False, r) | c # t \<Rightarrow> if c = 45 then (True, t) else (False, r)) in
      case matchInteger r1 of
        None \<Rightarrow> None
      | Some (whole, r2) \<Rightarrow>
          (let (fraction, r3) = matchFraction r2; (e, r4) = matchExponent r3;
               digits = digitsValue (whole @ fraction); scale = e - int (length fraction) in
           if finiteNumber digits scale then Some (JsonNumber negative digits scale, r4) else None))"

definition startsWith :: "string \<Rightarrow> units \<Rightarrow> bool" where
  "startsWith s r = (take (length s) r = unitsOf s)"

subsection \<open>Values\<close>

type_synonym jsonResult = "(json \<times> units \<times> nat) res option"

definition failJson :: "jsonLimits \<Rightarrow> 'a res option" where
  "failJson lim = Some (Inl (jl_error lim))"

definition andThen :: "'a res option \<Rightarrow> ('a \<Rightarrow> 'b res option) \<Rightarrow> 'b res option" where
  "andThen m f = (case m of None \<Rightarrow> None | Some (Inl e) \<Rightarrow> Some (Inl e) | Some (Inr x) \<Rightarrow> f x)"

definition tokenResult :: "jsonLimits \<Rightarrow> nat \<Rightarrow> (json \<times> units) option \<Rightarrow> jsonResult" where
  "tokenResult lim nodes t = (case t of None \<Rightarrow> failJson lim | Some (v, rest) \<Rightarrow> Some (Inr (v, rest, nodes)))"

text \<open>
  The loops of \<open>parseObject\<close> and \<open>parseArray\<close>. They are given the reader of a value one level deeper, the number of
  values seen, what they have read and the rest of the text; the condition \<open>offset < source.length\<close> is the
  non-emptiness of the rest. The first argument is the fuel.
\<close>

primrec objectLoop :: "nat \<Rightarrow> jsonLimits \<Rightarrow> (nat \<Rightarrow> units \<Rightarrow> jsonResult) \<Rightarrow> nat \<Rightarrow> (units \<times> json) list \<Rightarrow> units \<Rightarrow> jsonResult" where
  "objectLoop 0 lim readValue nodes members r = None"
| "objectLoop (Suc fuel) lim readValue nodes members r =
     (if r = [] then failJson lim
      else (case parseString (skipWhitespace r) of
          None \<Rightarrow> failJson lim
        | Some (key, r1) \<Rightarrow>
            if key \<in> set (map fst members) then failJson lim
            else if take 1 (skipWhitespace r1) \<noteq> [58] then failJson lim
            else
              andThen (readValue nodes (drop 1 (skipWhitespace r1))) (\<lambda>(v, r3, seen).
              let r4 = skipWhitespace r3 in
              if take 1 r4 = [125] then Some (Inr (JsonObject (members @ [(key, v)]), drop 1 r4, seen))
              else if take 1 r4 \<noteq> [44] then failJson lim
              else objectLoop fuel lim readValue seen (members @ [(key, v)]) (drop 1 r4))))"

primrec arrayLoop :: "nat \<Rightarrow> jsonLimits \<Rightarrow> (nat \<Rightarrow> units \<Rightarrow> jsonResult) \<Rightarrow> nat \<Rightarrow> json list \<Rightarrow> units \<Rightarrow> jsonResult" where
  "arrayLoop 0 lim readValue nodes elements r = None"
| "arrayLoop (Suc fuel) lim readValue nodes elements r =
     (if r = [] then failJson lim
      else
        andThen (readValue nodes r) (\<lambda>(v, r1, seen).
        let r2 = skipWhitespace r1 in
        if take 1 r2 = [93] then Some (Inr (JsonArray (elements @ [v]), drop 1 r2, seen))
        else if take 1 r2 \<noteq> [44] then failJson lim
        else arrayLoop fuel lim readValue seen (elements @ [v]) (drop 1 r2)))"

definition parseObject :: "jsonLimits \<Rightarrow> (nat \<Rightarrow> units \<Rightarrow> jsonResult) \<Rightarrow> nat \<Rightarrow> units \<Rightarrow> jsonResult" where
  "parseObject lim readValue nodes r =
     (let r1 = skipWhitespace (drop 1 r) in
      if take 1 r1 = [125] then Some (Inr (JsonObject [], drop 1 r1, nodes))
      else objectLoop (Suc (length r1)) lim readValue nodes [] r1)"

definition parseArray :: "jsonLimits \<Rightarrow> (nat \<Rightarrow> units \<Rightarrow> jsonResult) \<Rightarrow> nat \<Rightarrow> units \<Rightarrow> jsonResult" where
  "parseArray lim readValue nodes r =
     (let r1 = skipWhitespace (drop 1 r) in
      if take 1 r1 = [93] then Some (Inr (JsonArray [], drop 1 r1, nodes))
      else arrayLoop (Suc (length r1)) lim readValue nodes [] r1)"

text \<open>
  The first argument of \<open>parseValue\<close> is the number of levels left, \<open>0\<close> where the source has \<open>depth\<close> beyond its bound.
\<close>

primrec parseValue :: "nat \<Rightarrow> jsonLimits \<Rightarrow> nat \<Rightarrow> units \<Rightarrow> jsonResult" where
  "parseValue 0 lim nodes r = failJson lim"
| "parseValue (Suc levels) lim nodes r =
     (if nodes + 1 > jl_nodes lim then failJson lim
      else let r1 = skipWhitespace r; seen = nodes + 1 in
        if take 1 r1 = [34] then tokenResult lim seen (map_option (\<lambda>(s, rest). (JsonString s, rest)) (parseString r1))
        else if take 1 r1 = [123] then parseObject lim (parseValue levels lim) seen r1
        else if take 1 r1 = [91] then parseArray lim (parseValue levels lim) seen r1
        else if startsWith ''true'' r1 then Some (Inr (JsonBool True, drop 4 r1, seen))
        else if startsWith ''false'' r1 then Some (Inr (JsonBool False, drop 5 r1, seen))
        else if startsWith ''null'' r1 then Some (Inr (JsonNull, drop 4 r1, seen))
        else tokenResult lim seen (parseNumber r1))"

definition parseJsonText :: "jsonLimits \<Rightarrow> units \<Rightarrow> json res option" where
  "parseJsonText lim source =
     andThen (parseValue (jl_depth lim + 1) lim 0 source) (\<lambda>(v, rest, nodes).
     if skipWhitespace rest \<noteq> [] then failJson lim else Some (Inr v))"

end
