(* ===== verification/StrictJsonProofs.thy ===== *)
theory StrictJsonProofs
  imports StrictJson
begin

section \<open>What the JSON reader promises\<close>

text \<open>
  The reader always returns; what it accepts has no duplicate keys at any level and respects the bounds on depth and
  number of values; and it reads back the text of every such value whose strings need no escapes.
\<close>

subsection \<open>Readers of a value\<close>

text \<open>
  The interface of the two loops: a reader of values that always returns and consumes something when it succeeds.
\<close>

locale value_reader =
  fixes readValue :: "nat \<Rightarrow> units \<Rightarrow> jsonResult"
  assumes returns: "readValue n r \<noteq> None"
    and consumes: "readValue n r = Some (Inr (v, rest, m)) \<Longrightarrow> length rest < length r"
begin

lemma value_cases:
  obtains e where "readValue n r = Some (Inl e)"
    | v rest m where "readValue n r = Some (Inr (v, rest, m))" "length rest < length r"
  using returns [of n r] consumes [of n r]
  by (cases "readValue n r") (auto, metis old.sum.exhaust prod_cases3)

end

lemma length_skipWhitespace: "length (skipWhitespace r) \<le> length r"
  by (induction r rule: skipWhitespace.induct) auto

lemma skipWhitespace_drop: "r \<noteq> [] \<Longrightarrow> length (skipWhitespace (drop 1 r)) < length r"
  using length_skipWhitespace [of "drop 1 r"] by (cases r) (auto simp: le_imp_less_Suc)

lemma scanString_consumes: "scanString r = Some (s, rest) \<Longrightarrow> length rest < length r"
proof (induction r arbitrary: s rest rule: scanString.induct)
  case (2 c r)
  show ?case
  proof (cases "c = 34 \<or> c < 32")
    case True
    then show ?thesis using "2.prems" by (auto split: if_splits)
  next
    case plain: False
    show ?thesis
    proof (cases "c = 92")
      case False
      then obtain t where "scanString r = Some (t, rest)" using "2.prems" plain by auto
      with "2.IH"(3) plain False show ?thesis by (simp add: less_SucI)
    next
      case True
      then obtain e r' where r: "r = e # r'" using "2.prems" plain by (cases r) auto
      show ?thesis
      proof (cases "e = 117")
        case u: True
        with "2.prems" plain True r obtain h t where h: "hex4 r' = Some h" "scanString (drop 4 r') = Some (t, rest)"
          by (auto split: option.splits)
        with "2.IH"(1) [OF _ _ True r u h(1)] plain r show ?thesis by fastforce
      next
        case False
        with "2.prems" plain True r obtain h t where h: "escapedUnit e = Some h" "scanString r' = Some (t, rest)"
          by (auto split: option.splits)
        with "2.IH"(2) [OF _ _ True r False h(1)] plain r show ?thesis by fastforce
      qed
    qed
  qed
qed simp

lemma parseString_consumes: "parseString r = Some (s, rest) \<Longrightarrow> length rest < length r"
  by (auto simp: parseString_def dest: scanString_consumes split: list.splits if_splits)

lemma parseNumber_consumes:
  assumes "parseNumber r = Some (v, rest)"
  shows "length rest < length r"
proof -
  have le: "length (dropWhile digitUnit xs) \<le> length xs" for xs by (rule length_dropWhile_le)
  have fraction: "length (snd (matchFraction xs)) \<le> length xs" for xs
    using le [of "tl xs"] by (cases xs) (auto simp: matchFraction_def)
  have exponent: "length (snd (matchExponent xs)) \<le> length xs" for xs
  proof -
    have "length (dropWhile digitUnit (tl xs)) \<le> length xs" "length (dropWhile digitUnit (tl (tl xs))) \<le> length xs"
      using le [of "tl xs"] le [of "tl (tl xs)"] by (cases xs; simp; cases "tl xs"; simp)+
    then show ?thesis by (auto simp: matchExponent_def Let_def split: list.splits if_splits)
  qed
  have integer: "length r2 < length xs" if "matchInteger xs = Some (w, r2)" for xs w r2
    using that le [of "tl xs"] by (auto simp: matchInteger_def split: list.splits if_splits)
  define r1 where "r1 = (case r of [] \<Rightarrow> r | c # t \<Rightarrow> if c = 45 then t else r)"
  have "length r1 \<le> length r" by (auto simp: r1_def split: list.splits)
  moreover obtain w r2 where "matchInteger r1 = Some (w, r2)" "rest = snd (matchExponent (snd (matchFraction r2)))"
    using assms
    by (cases r) (auto simp: parseNumber_def r1_def Let_def case_prod_beta split: option.splits if_splits)
  ultimately show ?thesis
    using integer [of r1 w r2] fraction [of r2] exponent [of "snd (matchFraction r2)"] by simp
qed

context value_reader
begin

lemma objectLoop_reads:
  "length r < fuel \<Longrightarrow> objectLoop fuel lim readValue n ms r \<noteq> None
     \<and> (objectLoop fuel lim readValue n ms r = Some (Inr (v, rest, m)) \<longrightarrow> length rest < length r)"
proof (induction fuel arbitrary: n ms r)
  case (Suc fuel)
  show ?case
  proof (cases "parseString (skipWhitespace r)")
    case None
    then show ?thesis by (simp add: failJson_def)
  next
    case (Some p)
    obtain key r1 where p: "p = (key, r1)" by (cases p)
    have l: "length r1 < length r" using parseString_consumes [OF Some [unfolded p]] length_skipWhitespace [of r] by simp
    have l2: "length (drop 1 (skipWhitespace r1)) < length r" using l length_skipWhitespace [of r1] by simp
    show ?thesis
    proof (cases rule: value_cases [of n "drop 1 (skipWhitespace r1)"])
      case (1 e)
      then show ?thesis using Some p by (auto simp: andThen_def failJson_def)
    next
      case (2 w r3 k)
      have l4: "length (drop 1 (skipWhitespace r3)) < length r" using 2(2) l2 length_skipWhitespace [of r3] by simp
      show ?thesis
        using Some p 2(1) l4 Suc.prems Suc.IH [of "drop 1 (skipWhitespace r3)" k "ms @ [(key, w)]"]
        by (auto simp: andThen_def failJson_def Let_def)
    qed
  qed
qed simp

lemma arrayLoop_reads:
  "length r < fuel \<Longrightarrow> arrayLoop fuel lim readValue n xs r \<noteq> None
     \<and> (arrayLoop fuel lim readValue n xs r = Some (Inr (v, rest, m)) \<longrightarrow> length rest < length r)"
proof (induction fuel arbitrary: n xs r)
  case (Suc fuel)
  show ?case
  proof (cases rule: value_cases [of n r])
    case (1 e)
    then show ?thesis by (auto simp: andThen_def failJson_def)
  next
    case (2 w r1 k)
    have l: "r \<noteq> [] \<Longrightarrow> length (drop 1 (skipWhitespace r1)) < length r" using 2(2) length_skipWhitespace [of r1] by simp
    show ?thesis
      using 2(1) l Suc.prems Suc.IH [of "drop 1 (skipWhitespace r1)" k "xs @ [w]"]
      by (auto simp: andThen_def failJson_def Let_def)
  qed
qed simp

lemma parseObject_reads:
  assumes "r \<noteq> []"
  shows "parseObject lim readValue n r \<noteq> None"
    and "parseObject lim readValue n r = Some (Inr (v, rest, m)) \<Longrightarrow> length rest < length r"
  using assms objectLoop_reads [of "skipWhitespace (drop 1 r)" "Suc (length (skipWhitespace (drop 1 r)))" lim n "[]" v rest m]
    skipWhitespace_drop [OF assms]
  by (auto simp: parseObject_def Let_def simp del: objectLoop.simps split: if_splits)

lemma parseArray_reads:
  assumes "r \<noteq> []"
  shows "parseArray lim readValue n r \<noteq> None"
    and "parseArray lim readValue n r = Some (Inr (v, rest, m)) \<Longrightarrow> length rest < length r"
  using assms arrayLoop_reads [of "skipWhitespace (drop 1 r)" "Suc (length (skipWhitespace (drop 1 r)))" lim n "[]" v rest m]
    skipWhitespace_drop [OF assms]
  by (auto simp: parseArray_def Let_def simp del: arrayLoop.simps split: if_splits)

end

lemma startsWith_nonempty: "startsWith s r \<Longrightarrow> s \<noteq> [] \<Longrightarrow> r \<noteq> []"
  by (auto simp: startsWith_def unitsOf_def)

lemma parseValue_reads:
  "parseValue levels lim n r \<noteq> None
     \<and> (\<forall>v rest m. parseValue levels lim n r = Some (Inr (v, rest, m)) \<longrightarrow> length rest < length r)"
proof (induction levels arbitrary: n r)
  case 0
  then show ?case by (simp add: failJson_def)
next
  case (Suc levels)
  then have reader: "value_reader (parseValue levels lim)" by unfold_locales blast+
  let ?r = "skipWhitespace r"
  have le: "length ?r \<le> length r" by (rule length_skipWhitespace)
  have ne: "?r \<noteq> []" if "take 1 ?r = [c]" for c using that by auto
  have drops: "length (drop k ?r) < length r" if "?r \<noteq> []" "0 < k" for k using that le by (cases ?r) auto
  have words: "?r \<noteq> []" if "startsWith ''true'' ?r \<or> startsWith ''false'' ?r \<or> startsWith ''null'' ?r"
    using that startsWith_nonempty by blast
  have token: "tokenResult lim k t \<noteq> None" for k t
    by (cases t) (auto simp: tokenResult_def failJson_def)
  show ?case
    using value_reader.parseObject_reads [OF reader ne, of 123 lim "n + 1"] value_reader.parseArray_reads [OF reader ne, of 91 lim "n + 1"]
      token words drops le
    by (auto simp: Let_def failJson_def tokenResult_def split: option.splits
        dest!: parseString_consumes parseNumber_consumes)
qed

interpretation json_reader: value_reader "parseValue levels lim" for levels lim
  by unfold_locales (use parseValue_reads in blast)+

lemma parseJsonText_returns: "parseJsonText lim source \<noteq> None"
  using json_reader.returns [of "jl_depth lim + 1" lim 0 source]
  by (auto simp: parseJsonText_def andThen_def failJson_def simp del: parseValue.simps split: option.splits sum.splits prod.splits)

subsection \<open>Accepted values\<close>

fun uniqueKeys :: "json \<Rightarrow> bool" where
  "uniqueKeys (JsonArray xs) = (\<forall>x \<in> set xs. uniqueKeys x)"
| "uniqueKeys (JsonObject ms) = (distinct (map fst ms) \<and> (\<forall>m \<in> set ms. uniqueKeys (snd m)))"
| "uniqueKeys _ = True"

fun jsonSize :: "json \<Rightarrow> nat" where
  "jsonSize (JsonArray xs) = 1 + sum_list (map jsonSize xs)"
| "jsonSize (JsonObject ms) = 1 + sum_list (map (\<lambda>m. jsonSize (snd m)) ms)"
| "jsonSize _ = 1"

fun jsonDepthAtMost :: "nat \<Rightarrow> json \<Rightarrow> bool" where
  "jsonDepthAtMost 0 v = False"
| "jsonDepthAtMost (Suc d) (JsonArray xs) = (\<forall>x \<in> set xs. jsonDepthAtMost d x)"
| "jsonDepthAtMost (Suc d) (JsonObject ms) = (\<forall>m \<in> set ms. jsonDepthAtMost d (snd m))"
| "jsonDepthAtMost (Suc d) _ = True"

definition strictJson :: "nat \<Rightarrow> json \<Rightarrow> bool" where
  "strictJson levels v = (uniqueKeys v \<and> jsonDepthAtMost levels v)"

locale strict_reader = value_reader +
  fixes levels bound :: nat
  assumes strict: "readValue n r = Some (Inr (v, rest, m)) \<Longrightarrow> strictJson levels v \<and> m = n + jsonSize v \<and> m \<le> bound"
begin

lemma objectLoop_strict:
  "objectLoop fuel lim readValue n ms r = Some (Inr (v, rest, m)) \<Longrightarrow> distinct (map fst ms) \<Longrightarrow>
     (\<forall>x \<in> set ms. strictJson levels (snd x)) \<Longrightarrow>
     strictJson (Suc levels) v \<and> m + 1 + sum_list (map (\<lambda>x. jsonSize (snd x)) ms) = n + jsonSize v \<and> m \<le> bound"
proof (induction fuel arbitrary: n ms r)
  case (Suc fuel)
  from Suc.prems(1) obtain key r1 w r3 k where step: "parseString (skipWhitespace r) = Some (key, r1)" "key \<notin> fst ` set ms"
      "readValue n (drop 1 (skipWhitespace r1)) = Some (Inr (w, r3, k))"
      "take 1 (skipWhitespace r3) = [125] \<and> v = JsonObject (ms @ [(key, w)]) \<and> m = k
       \<or> objectLoop fuel lim readValue k (ms @ [(key, w)]) (drop 1 (skipWhitespace r3)) = Some (Inr (v, rest, m))"
    by (auto simp: andThen_def failJson_def Let_def split: option.splits sum.splits if_splits prod.splits)
  from strict [OF step(3)] have w: "strictJson levels w" "k = n + jsonSize w" "k \<le> bound" by auto
  show ?case
    using step(4)
  proof
    assume "take 1 (skipWhitespace r3) = [125] \<and> v = JsonObject (ms @ [(key, w)]) \<and> m = k"
    then show ?thesis using w step(2) Suc.prems(2,3) by (auto simp: strictJson_def)
  next
    assume "objectLoop fuel lim readValue k (ms @ [(key, w)]) (drop 1 (skipWhitespace r3)) = Some (Inr (v, rest, m))"
    from Suc.IH [OF this] show ?thesis using w step(2) Suc.prems(2,3) by auto
  qed
qed simp

lemma arrayLoop_strict:
  "arrayLoop fuel lim readValue n xs r = Some (Inr (v, rest, m)) \<Longrightarrow> (\<forall>x \<in> set xs. strictJson levels x) \<Longrightarrow>
     strictJson (Suc levels) v \<and> m + 1 + sum_list (map jsonSize xs) = n + jsonSize v \<and> m \<le> bound"
proof (induction fuel arbitrary: n xs r)
  case (Suc fuel)
  from Suc.prems(1) obtain w r1 k where step: "readValue n r = Some (Inr (w, r1, k))"
      "take 1 (skipWhitespace r1) = [93] \<and> v = JsonArray (xs @ [w]) \<and> m = k
       \<or> arrayLoop fuel lim readValue k (xs @ [w]) (drop 1 (skipWhitespace r1)) = Some (Inr (v, rest, m))"
    by (auto simp: andThen_def failJson_def Let_def split: option.splits sum.splits if_splits prod.splits)
  from strict [OF step(1)] have w: "strictJson levels w" "k = n + jsonSize w" "k \<le> bound" by auto
  show ?case
    using step(2)
  proof
    assume "take 1 (skipWhitespace r1) = [93] \<and> v = JsonArray (xs @ [w]) \<and> m = k"
    then show ?thesis using w Suc.prems(2) by (auto simp: strictJson_def)
  next
    assume "arrayLoop fuel lim readValue k (xs @ [w]) (drop 1 (skipWhitespace r1)) = Some (Inr (v, rest, m))"
    from Suc.IH [OF this] show ?thesis using w Suc.prems(2) by auto
  qed
qed simp

lemma parseObject_strict:
  "parseObject lim readValue n r = Some (Inr (v, rest, m)) \<Longrightarrow> n \<le> bound \<Longrightarrow>
     strictJson (Suc levels) v \<and> m + 1 = n + jsonSize v \<and> m \<le> bound"
  by (auto simp: parseObject_def Let_def strictJson_def simp del: objectLoop.simps split: if_splits dest: objectLoop_strict)

lemma parseArray_strict:
  "parseArray lim readValue n r = Some (Inr (v, rest, m)) \<Longrightarrow> n \<le> bound \<Longrightarrow>
     strictJson (Suc levels) v \<and> m + 1 = n + jsonSize v \<and> m \<le> bound"
  by (auto simp: parseArray_def Let_def strictJson_def simp del: arrayLoop.simps split: if_splits dest: arrayLoop_strict)

end

lemma parseValue_strict:
  "parseValue levels lim n r = Some (Inr (v, rest, m)) \<Longrightarrow> strictJson levels v \<and> m = n + jsonSize v \<and> m \<le> jl_nodes lim"
proof (induction levels arbitrary: n r v rest m)
  case 0
  then show ?case by (simp add: failJson_def)
next
  case (Suc levels)
  then have reader: "strict_reader (parseValue levels lim) levels (jl_nodes lim)"
    by unfold_locales (use parseValue_reads in blast)+
  have leaf: "strictJson (Suc levels) (JsonString s)" "strictJson (Suc levels) (JsonBool b)" "strictJson (Suc levels) JsonNull"
    "strictJson (Suc levels) (JsonNumber neg d e)" for s b neg d e
    by (simp_all add: strictJson_def)
  have number: "\<exists>neg d e. w = JsonNumber neg d e" if "parseNumber q = Some (w, t)" for q w t
    using that by (auto simp: parseNumber_def Let_def case_prod_beta split: option.splits if_splits)
  show ?case
    using Suc.prems strict_reader.parseObject_strict [OF reader, of lim "n + 1"] strict_reader.parseArray_strict [OF reader, of lim "n + 1"] leaf
    by (fastforce simp: Let_def failJson_def tokenResult_def split: if_splits option.splits dest: number)
qed

interpretation strict_json_reader: strict_reader "parseValue levels lim" levels "jl_nodes lim" for levels lim
  by unfold_locales (use parseValue_strict in blast)

lemma parseJsonText_strict:
  "parseJsonText lim source = Some (Inr v) \<Longrightarrow> strictJson (jl_depth lim + 1) v \<and> jsonSize v \<le> jl_nodes lim"
  by (auto simp: parseJsonText_def andThen_def failJson_def simp del: parseValue.simps
      split: option.splits sum.splits if_splits dest!: parseValue_strict)

subsection \<open>Reading what was printed\<close>

text \<open>The text of a value without numbers and control characters, as \<open>JSON.stringify\<close> writes it.\<close>

definition plainUnits :: "units \<Rightarrow> bool" where
  "plainUnits s = list_all (\<lambda>c. 32 \<le> c) s"

definition escapeUnit :: "nat \<Rightarrow> units" where
  "escapeUnit c = (if c = 34 \<or> c = 92 then [92, c] else [c])"

definition printString :: "units \<Rightarrow> units" where
  "printString s = 34 # concat (map escapeUnit s) @ [34]"

fun joined :: "units list \<Rightarrow> units" where
  "joined [] = []"
| "joined [x] = x"
| "joined (x # y # ys) = x @ 44 # joined (y # ys)"

fun printJson :: "json \<Rightarrow> units" where
  "printJson JsonNull = unitsOf ''null''"
| "printJson (JsonBool b) = (if b then unitsOf ''true'' else unitsOf ''false'')"
| "printJson (JsonNumber negative digits e) = []"
| "printJson (JsonString s) = printString s"
| "printJson (JsonArray xs) = 91 # joined (map printJson xs) @ [93]"
| "printJson (JsonObject ms) = 123 # joined (map (\<lambda>m. printString (fst m) @ 58 # printJson (snd m)) ms) @ [125]"

fun plainJson :: "json \<Rightarrow> bool" where
  "plainJson (JsonNumber negative digits e) = False"
| "plainJson (JsonString s) = plainUnits s"
| "plainJson (JsonArray xs) = (\<forall>x \<in> set xs. plainJson x)"
| "plainJson (JsonObject ms) = (\<forall>m \<in> set ms. plainUnits (fst m) \<and> plainJson (snd m))"
| "plainJson _ = True"

lemma scanString_plain: "plainUnits s \<Longrightarrow> scanString (concat (map escapeUnit s) @ 34 # rest) = Some (s, rest)"
  by (induction s) (auto simp: plainUnits_def escapeUnit_def escapedUnit_def)

lemma parseString_print: "plainUnits s \<Longrightarrow> parseString (printString s @ rest) = Some (s, rest)"
  by (simp add: parseString_def printString_def scanString_plain)

lemma printJson_head:
  assumes "plainJson v"
  obtains c t where "printJson v = c # t" "c \<notin> {32, 10, 13, 9, 93}"
proof -
  have "\<exists>c t. printJson v = c # t \<and> c \<notin> {32, 10, 13, 9, 93}"
    using assms by (cases v) (auto simp: unitsOf_def printString_def)
  with that show thesis by blast
qed

lemma skipWhitespace_print: "plainJson v \<Longrightarrow> skipWhitespace (printJson v @ rest) = printJson v @ rest"
  by (erule printJson_head) auto

lemma joined_head: "xs \<noteq> [] \<Longrightarrow> hd xs = c # t \<Longrightarrow> \<exists>u. joined xs = c # u"
  by (induction xs rule: joined.induct) auto

lemma length_joined: "(\<forall>x \<in> set xs. x \<noteq> []) \<Longrightarrow> length xs \<le> length (joined xs)"
  by (induction xs rule: joined.induct) (auto simp: Suc_le_eq)

lemma arrayLoop_print:
  assumes "xs \<noteq> []" "length xs \<le> fuel" "\<forall>x \<in> set xs. plainJson x"
    and "\<And>x k rest. x \<in> set xs \<Longrightarrow> k + jsonSize x \<le> n + sum_list (map jsonSize xs) \<Longrightarrow>
           readValue k (printJson x @ rest) = Some (Inr (x, rest, k + jsonSize x))"
  shows "arrayLoop fuel lim readValue n acc (joined (map printJson xs) @ 93 # rest)
    = Some (Inr (JsonArray (acc @ xs), rest, n + sum_list (map jsonSize xs)))"
  using assms
proof (induction xs arbitrary: fuel n acc)
  case (Cons x xs)
  obtain f where fuel: "fuel = Suc f" using Cons.prems(2) by (cases fuel) auto
  show ?case
  proof (cases xs)
    case Nil
    have "readValue n (printJson x @ 93 # rest) = Some (Inr (x, 93 # rest, n + jsonSize x))"
      using Cons.prems(4) [of x n] by (simp add: Nil)
    moreover have "printJson x \<noteq> []" using Cons.prems(3) by (auto elim: printJson_head)
    ultimately show ?thesis by (simp add: Nil fuel andThen_def)
  next
    case (Cons y ys)
    let ?tail = "joined (map printJson xs) @ 93 # rest"
    have joined: "joined (map printJson (x # xs)) @ 93 # rest = printJson x @ 44 # ?tail" by (simp add: Cons)
    have first: "readValue n (printJson x @ 44 # ?tail) = Some (Inr (x, 44 # ?tail, n + jsonSize x))"
      using Cons.prems(4) [of x n] by simp
    have "arrayLoop f lim readValue (n + jsonSize x) (acc @ [x]) ?tail
        = Some (Inr (JsonArray ((acc @ [x]) @ xs), rest, n + jsonSize x + sum_list (map jsonSize xs)))"
      using Cons.prems fuel by (intro Cons.IH) (auto simp: Cons add.assoc)
    moreover have "printJson x \<noteq> []" using Cons.prems(3) by (auto elim: printJson_head)
    ultimately show ?thesis
      unfolding joined fuel by (simp add: first andThen_def add.assoc)
  qed
qed simp

lemma objectLoop_print:
  assumes "ms \<noteq> []" "length ms \<le> fuel" "\<forall>m \<in> set ms. plainUnits (fst m) \<and> plainJson (snd m)" "distinct (map fst (acc @ ms))"
    and "\<And>m k rest. m \<in> set ms \<Longrightarrow> k + jsonSize (snd m) \<le> n + sum_list (map (\<lambda>m. jsonSize (snd m)) ms) \<Longrightarrow>
           readValue k (printJson (snd m) @ rest) = Some (Inr (snd m, rest, k + jsonSize (snd m)))"
  shows "objectLoop fuel lim readValue n acc (joined (map (\<lambda>m. printString (fst m) @ 58 # printJson (snd m)) ms) @ 125 # rest)
    = Some (Inr (JsonObject (acc @ ms), rest, n + sum_list (map (\<lambda>m. jsonSize (snd m)) ms)))"
  using assms
proof (induction ms arbitrary: fuel n acc)
  case (Cons m ms)
  let ?text = "\<lambda>m. printString (fst m) @ 58 # printJson (snd m)"
  obtain f where fuel: "fuel = Suc f" using Cons.prems(2) by (cases fuel) auto
  have key: "parseString (printString (fst m) @ t) = Some (fst m, t)" for t
    using Cons.prems(3) by (simp add: parseString_print)
  have fresh: "fst m \<notin> set (map fst acc)" using Cons.prems(4) by auto
  have ws: "skipWhitespace (printString s @ t) = printString s @ t" "printString s @ t \<noteq> []" for s t by (simp_all add: printString_def)
  show ?case
  proof (cases ms)
    case Nil
    have "readValue n (printJson (snd m) @ 125 # rest) = Some (Inr (snd m, 125 # rest, n + jsonSize (snd m)))"
      using Cons.prems(5) [of m n] by (simp add: Nil)
    then show ?thesis
      using fresh by (simp add: Nil fuel andThen_def key ws)
  next
    case (Cons y ys)
    let ?tail = "joined (map ?text ms) @ 125 # rest"
    have joined: "joined (map ?text (m # ms)) @ 125 # rest = printString (fst m) @ 58 # printJson (snd m) @ 44 # ?tail" by (simp add: Cons)
    have first: "readValue n (printJson (snd m) @ 44 # ?tail) = Some (Inr (snd m, 44 # ?tail, n + jsonSize (snd m)))"
      using Cons.prems(5) [of m n] by simp
    have "objectLoop f lim readValue (n + jsonSize (snd m)) (acc @ [m]) ?tail
        = Some (Inr (JsonObject ((acc @ [m]) @ ms), rest, n + jsonSize (snd m) + sum_list (map (\<lambda>m. jsonSize (snd m)) ms)))"
      using Cons.prems fuel by (intro Cons.IH) (auto simp: Cons add.assoc)
    then show ?thesis
      unfolding joined fuel using fresh by (simp add: first andThen_def key ws add.assoc)
  qed
qed simp

text \<open>What follows the opening bracket of a printed array or object is its first element, not a closing bracket.\<close>

lemma joined_text:
  assumes "xs \<noteq> []" "\<And>x. x \<in> set xs \<Longrightarrow> \<exists>c t. f x = c # t \<and> c \<notin> {32, 10, 13, 9, 93, 125}"
  shows "skipWhitespace (joined (map f xs) @ rest) = joined (map f xs) @ rest"
    and "take 1 (joined (map f xs) @ rest) \<noteq> [93]" "take 1 (joined (map f xs) @ rest) \<noteq> [125]"
    and "length xs \<le> length (joined (map f xs))"
proof -
  obtain c t where c: "hd (map f xs) = c # t" "c \<notin> {32, 10, 13, 9, 93, 125}"
    using assms(2) [of "hd xs"] assms(1) by (auto simp: hd_map)
  then obtain u where u: "joined (map f xs) = c # u" using joined_head [of "map f xs" c t] assms(1) by auto
  show "skipWhitespace (joined (map f xs) @ rest) = joined (map f xs) @ rest"
    "take 1 (joined (map f xs) @ rest) \<noteq> [93]" "take 1 (joined (map f xs) @ rest) \<noteq> [125]"
    using c(2) by (simp_all add: u)
  have "\<forall>x \<in> set (map f xs). x \<noteq> []" using assms(2) by fastforce
  from length_joined [OF this] show "length xs \<le> length (joined (map f xs))" by simp
qed

lemma printJson_first: "plainJson v \<Longrightarrow> \<exists>c t. printJson v = c # t \<and> c \<notin> {32, 10, 13, 9, 93, 125}"
  by (cases v) (auto simp: unitsOf_def printString_def)

lemma parseArray_print:
  assumes "\<forall>x \<in> set xs. plainJson x"
    and "\<And>x k rest. x \<in> set xs \<Longrightarrow> k + jsonSize x \<le> n + sum_list (map jsonSize xs) \<Longrightarrow>
           readValue k (printJson x @ rest) = Some (Inr (x, rest, k + jsonSize x))"
  shows "parseArray lim readValue n (printJson (JsonArray xs) @ rest)
    = Some (Inr (JsonArray xs, rest, n + sum_list (map jsonSize xs)))"
proof (cases "xs = []")
  case False
  let ?text = "joined (map printJson xs) @ 93 # rest"
  have first: "\<exists>c t. printJson x = c # t \<and> c \<notin> {32, 10, 13, 9, 93, 125}" if "x \<in> set xs" for x
    using assms(1) that by (intro printJson_first) blast
  have "length xs \<le> Suc (length ?text)" using joined_text(4) [of xs printJson] False first by simp
  then have "arrayLoop (Suc (length ?text)) lim readValue n [] ?text = Some (Inr (JsonArray ([] @ xs), rest, n + sum_list (map jsonSize xs)))"
    by (rule arrayLoop_print [OF False _ assms])
  moreover have "skipWhitespace ?text = ?text" "take 1 ?text \<noteq> [93]"
    using joined_text(1,2) [of xs printJson "93 # rest"] False first by simp_all
  ultimately show ?thesis by (simp add: parseArray_def Let_def del: arrayLoop.simps)
qed (simp add: parseArray_def)

lemma parseObject_print:
  assumes "\<forall>m \<in> set ms. plainUnits (fst m) \<and> plainJson (snd m)" "distinct (map fst ms)"
    and "\<And>m k rest. m \<in> set ms \<Longrightarrow> k + jsonSize (snd m) \<le> n + sum_list (map (\<lambda>m. jsonSize (snd m)) ms) \<Longrightarrow>
           readValue k (printJson (snd m) @ rest) = Some (Inr (snd m, rest, k + jsonSize (snd m)))"
  shows "parseObject lim readValue n (printJson (JsonObject ms) @ rest)
    = Some (Inr (JsonObject ms, rest, n + sum_list (map (\<lambda>m. jsonSize (snd m)) ms)))"
proof (cases "ms = []")
  case False
  let ?text = "\<lambda>m. printString (fst m) @ 58 # printJson (snd m)"
  let ?all = "joined (map ?text ms) @ 125 # rest"
  have first: "\<exists>c t. ?text m = c # t \<and> c \<notin> {32, 10, 13, 9, 93, 125}" for m :: "units \<times> json" by (simp add: printString_def)
  have "length ms \<le> Suc (length ?all)" using joined_text(4) [of ms ?text] False first by simp
  moreover have "distinct (map fst ([] @ ms))" using assms(2) by simp
  ultimately have "objectLoop (Suc (length ?all)) lim readValue n [] ?all
      = Some (Inr (JsonObject ([] @ ms), rest, n + sum_list (map (\<lambda>m. jsonSize (snd m)) ms)))"
    using assms(1,3) by (intro objectLoop_print [OF False]) auto
  moreover have "skipWhitespace ?all = ?all" "take 1 ?all \<noteq> [125]"
    using joined_text(1,3) [of ms ?text "125 # rest"] False first by simp_all
  ultimately show ?thesis by (simp add: parseObject_def Let_def del: objectLoop.simps)
qed (simp add: parseObject_def)

lemma parseValue_print:
  "plainJson v \<Longrightarrow> strictJson levels v \<Longrightarrow> n + jsonSize v \<le> jl_nodes lim \<Longrightarrow>
     parseValue levels lim n (printJson v @ rest) = Some (Inr (v, rest, n + jsonSize v))"
proof (induction levels arbitrary: v n rest)
  case 0
  then show ?case by (simp add: strictJson_def)
next
  case (Suc levels)
  note ws = skipWhitespace_print [OF Suc.prems(1)]
  have nodes: "\<not> n + 1 > jl_nodes lim" using Suc.prems(3) by (cases v) auto
  show ?case
  proof (cases v)
    case (JsonArray xs)
    have "parseArray lim (parseValue levels lim) (n + 1) (printJson v @ rest)
        = Some (Inr (JsonArray xs, rest, n + 1 + sum_list (map jsonSize xs)))"
      unfolding JsonArray using Suc.prems JsonArray
      by (intro parseArray_print Suc.IH) (auto simp: strictJson_def)
    then show ?thesis using nodes ws by (simp add: JsonArray Let_def)
  next
    case (JsonObject ms)
    have "parseObject lim (parseValue levels lim) (n + 1) (printJson v @ rest)
        = Some (Inr (JsonObject ms, rest, n + 1 + sum_list (map (\<lambda>m. jsonSize (snd m)) ms)))"
      unfolding JsonObject using Suc.prems JsonObject
      by (intro parseObject_print Suc.IH) (auto simp: strictJson_def)
    then show ?thesis using nodes ws by (simp add: JsonObject Let_def)
  next
    case (JsonString s)
    then show ?thesis
      using nodes Suc.prems parseString_print [of s rest] ws by (simp add: Let_def tokenResult_def printString_def)
  qed (use nodes Suc.prems ws in \<open>auto simp: Let_def startsWith_def unitsOf_def\<close>)
qed

lemma parseJsonText_print:
  assumes "plainJson v" "strictJson (jl_depth lim + 1) v" "jsonSize v \<le> jl_nodes lim"
  shows "parseJsonText lim (printJson v) = Some (Inr v)"
  using parseValue_print [OF assms(1,2), of 0 lim "[]"] assms(3)
  by (simp add: parseJsonText_def andThen_def del: parseValue.simps)

end
