(* ===== verification/EnvelopeJson.thy ===== *)
theory EnvelopeJson
  imports EnvelopeProofs StrictJsonProofs
begin

section \<open>Append requests as JSON\<close>

text \<open>
  Models \<open>parseApplicationAppendJson\<close> of \<open>src/src/production/delivery/envelopes.ts\<close>: the bytes of a request are copied,
  decoded, read as strict JSON and parsed as the body of an append.

  \<open>jsvalOf\<close> maps what the reader built to the values the parsers inspect. A code unit above 255 becomes the last
  character of the model, which no parser accepts either; a number that is not a safe integer becomes \<open>JFrac\<close>; no
  parser of the module accepts a number.
\<close>

definition textOfUnits :: "units \<Rightarrow> string" where
  "textOfUnits us = map (\<lambda>u. char_of (if u < 256 then u else 255)) us"

definition numberValue :: "bool \<Rightarrow> nat \<Rightarrow> int \<Rightarrow> jsval" where
  "numberValue negative digits e =
     (if 0 \<le> e \<and> int (digits * 10 ^ nat e) \<le> 2 ^ 53 - 1
      then JNum (if negative then - int (digits * 10 ^ nat e) else int (digits * 10 ^ nat e)) else JFrac)"

fun jsvalOf :: "json \<Rightarrow> jsval" where
  "jsvalOf JsonNull = JNull"
| "jsvalOf (JsonBool b) = JBool b"
| "jsvalOf (JsonNumber negative digits e) = numberValue negative digits e"
| "jsvalOf (JsonString s) = JStr (textOfUnits s)"
| "jsvalOf (JsonArray xs) = mkArray (map jsvalOf xs)"
| "jsvalOf (JsonObject ms) = mkRecord (map (\<lambda>m. (textOfUnits (fst m), jsvalOf (snd m))) ms)"

definition MAX_APPLICATION_APPEND_JSON_BYTES :: int where
  "MAX_APPLICATION_APPEND_JSON_BYTES = 96 * 1024"

definition ENVELOPE_JSON_LIMITS :: jsonLimits where
  "ENVELOPE_JSON_LIMITS = \<lparr>jl_depth = 16, jl_nodes = 256, jl_error = DeliveryEnvelopeValidationError\<rparr>"

definition parseJsonWithoutDuplicateObjectKeys :: "units \<Rightarrow> json res option" where
  "parseJsonWithoutDuplicateObjectKeys source = parseJsonText ENVELOPE_JSON_LIMITS source"

definition startsWithBom :: "bytes \<Rightarrow> bool" where
  "startsWithBom bs = (take 3 bs = [0xef, 0xbb, 0xbf])"

definition parseApplicationAppendJson :: "(bytes \<Rightarrow> bytes) \<Rightarrow> jsval \<Rightarrow> (bytes \<times> applicationAppendBody) res option" where
  "parseApplicationAppendJson H rawBody =
     andThen (Some (copyBytes MAX_APPLICATION_APPEND_JSON_BYTES rawBody)) (\<lambda>rawBodyBytes.
     if startsWithBom rawBodyBytes then Some (Inl DeliveryEnvelopeValidationError)
     else (case decodeUtf8 (map unat rawBodyBytes) of
         None \<Rightarrow> Some (Inl DeliveryEnvelopeValidationError)
       | Some source \<Rightarrow>
           andThen (parseJsonWithoutDuplicateObjectKeys source) (\<lambda>decoded.
           andThen (Some (parseApplicationAppendBody H (jsvalOf decoded))) (\<lambda>body.
           Some (Inr (rawBodyBytes, body))))))"

subsection \<open>Texts of bodies\<close>

definition plainText :: "string \<Rightarrow> bool" where
  "plainText s = list_all (\<lambda>c. 32 \<le> charCode c \<and> charCode c < 128 \<and> charCode c \<noteq> 34 \<and> charCode c \<noteq> 92) s"

definition textJson :: "string \<Rightarrow> json" where
  "textJson s = JsonString (unitsOf s)"

definition bodyJson :: "applicationAppendBody \<Rightarrow> json" where
  "bodyJson b = JsonObject
     [(unitsOf ''envelopeId'', textJson (ab_envelopeId b)), (unitsOf ''policyHeadId'', textJson (ab_policyHeadId b)),
      (unitsOf ''policyHeadSequence'', textJson (ab_policyHeadSequence b)), (unitsOf ''policyHeadHash'', textJson (ab_policyHeadHash b)),
      (unitsOf ''expectedEpoch'', textJson (ab_expectedEpoch b)), (unitsOf ''expectedRosterVersion'', textJson (ab_expectedRosterVersion b)),
      (unitsOf ''expectedConfirmedTranscriptHash'', textJson (ab_expectedConfirmedTranscriptHash b)),
      (unitsOf ''contentType'', textJson (ab_contentType b)), (unitsOf ''ciphertext'', textJson (ab_ciphertext b)),
      (unitsOf ''envelopeSha256'', textJson (ab_envelopeSha256 b)),
      (unitsOf ''attachmentIds'', JsonArray (map textJson (ab_attachmentIds b)))]"

lemma textOfUnits_unitsOf [simp]: "textOfUnits (unitsOf s) = s"
  by (simp add: textOfUnits_def unitsOf_def comp_def)

lemma plainUnits_text: "plainText s \<Longrightarrow> plainUnits (unitsOf s)"
  by (auto simp: plainText_def plainUnits_def unitsOf_def list_all_iff)

lemma jsvalOf_bodyJson: "jsvalOf (bodyJson b) = encodeAppendBody b"
  by (simp add: bodyJson_def encodeAppendBody_def textJson_def comp_def)

lemma unitsOf_eq_iff: "unitsOf s = unitsOf t \<longleftrightarrow> s = t"
  by (metis textOfUnits_unitsOf)

lemma bodyJson_strict: "strictJson 17 (bodyJson b)"
proof -
  have "distinct (map unitsOf APPLICATION_APPEND_KEYS)"
    by (simp add: distinct_map inj_on_def unitsOf_eq_iff APPLICATION_APPEND_KEYS_def)
  then show ?thesis
    by (simp add: strictJson_def bodyJson_def textJson_def APPLICATION_APPEND_KEYS_def numeral_eq_Suc)
qed

lemma bodyJson_size: "jsonSize (bodyJson b) = 12 + length (ab_attachmentIds b)"
  by (simp add: bodyJson_def textJson_def comp_def sum_list_triv)

text \<open>Every text of a valid body is plain.\<close>

lemma plainText_digits: "list_all isDigit s \<Longrightarrow> plainText s"
  by (auto simp: plainText_def list_all_iff isDigit_def)

lemma plainText_b64: "list_all b64char s \<Longrightarrow> plainText s"
proof -
  have "32 \<le> charCode c \<and> charCode c < 128 \<and> charCode c \<noteq> 34 \<and> charCode c \<noteq> 92" if "b64char c" for c
    using that by (auto simp: b64char_def Let_def)
  then show "list_all b64char s \<Longrightarrow> plainText s" by (simp add: plainText_def list_all_iff)
qed

lemma plainText_uuid:
  assumes "uuidV4Valid s"
  shows "plainText s"
proof -
  have shape: "list_all2 (\<lambda>p c. p c) (uuidPattern (CHR ''4'')) s"
    using assms by (simp add: uuidV4Valid_def matchesShape_def UUID_V4_def)
  have ok: "32 \<le> charCode c \<and> charCode c < 128 \<and> charCode c \<noteq> 34 \<and> charCode c \<noteq> 92"
    if "p \<in> set (uuidPattern (CHR ''4''))" "p c" for p c
    using that by (auto simp: uuidPattern_def isHexLower_def isVariant_def isDigit_def)
  show ?thesis
    using shape ok unfolding plainText_def list_all_length list_all2_conv_all_nth by (metis nth_mem)
qed

lemma plainText_hash: "hash32Valid s \<Longrightarrow> plainText s"
  by (auto simp: hash32Valid_def b64Valid_def intro: plainText_b64)

lemma plainText_uint63: "uint63Valid s \<Longrightarrow> plainText s"
  by (auto simp: uint63Valid_def intro: plainText_digits canonicalDecimal_digits)

lemma plainText_media: "plainText MLS_PRIVATE_MESSAGE_MEDIA_TYPE"
  by (simp add: plainText_def MLS_PRIVATE_MESSAGE_MEDIA_TYPE_def)

lemma bodyJson_plain:
  assumes "appendBodyValid H b"
  shows "plainJson (bodyJson b)"
proof -
  have "plainUnits (unitsOf s)" if "s \<in> set APPLICATION_APPEND_KEYS" for s
    using that by (intro plainUnits_text) (auto simp: APPLICATION_APPEND_KEYS_def plainText_def)
  moreover have "plainText (ab_ciphertext b)" "plainText (ab_envelopeSha256 b)"
    using assms unfolding appendBodyValid_def carriesHash_def b64Valid_def by (blast intro: plainText_b64 plainText_hash)+
  ultimately show ?thesis
    using assms
    by (simp add: bodyJson_def textJson_def APPLICATION_APPEND_KEYS_def appendBodyValid_def list_all_iff
        positiveUint63Valid_def plainUnits_text plainText_uuid plainText_hash plainText_uint63 plainText_media)
qed

subsection \<open>Bytes of a text\<close>

definition asciiUnits :: "units \<Rightarrow> bool" where
  "asciiUnits us = list_all (\<lambda>u. u < 128) us"

lemma decodeUtf8_ascii: "asciiUnits us \<Longrightarrow> decodeUtf8 us = Some us"
  by (induction us) (auto simp: asciiUnits_def)

lemma asciiUnits_joined: "(\<forall>x \<in> set xs. asciiUnits x) \<Longrightarrow> asciiUnits (joined xs)"
  by (induction xs rule: joined.induct) (auto simp: asciiUnits_def)

lemma asciiUnits_append [simp]: "asciiUnits (xs @ ys) \<longleftrightarrow> asciiUnits xs \<and> asciiUnits ys"
  "asciiUnits (x # xs) \<longleftrightarrow> x < 128 \<and> asciiUnits xs" "asciiUnits []"
  by (simp_all add: asciiUnits_def)

fun asciiJson :: "json \<Rightarrow> bool" where
  "asciiJson (JsonString s) = asciiUnits s"
| "asciiJson (JsonArray xs) = (\<forall>x \<in> set xs. asciiJson x)"
| "asciiJson (JsonObject ms) = (\<forall>m \<in> set ms. asciiUnits (fst m) \<and> asciiJson (snd m))"
| "asciiJson _ = True"

lemma asciiUnits_printString: "asciiUnits (printString s) \<longleftrightarrow> asciiUnits s"
  by (induction s) (auto simp: printString_def escapeUnit_def)

lemma asciiUnits_printJson: "asciiJson v \<Longrightarrow> asciiUnits (printJson v)"
  by (induction v rule: printJson.induct)
    (auto simp: asciiUnits_printString unitsOf_def intro!: asciiUnits_joined, fastforce)

lemma asciiUnits_text: "plainText s \<Longrightarrow> asciiUnits (unitsOf s)"
  by (auto simp: plainText_def asciiUnits_def unitsOf_def list_all_iff)

lemma length_joined_le: "length (joined xs) \<le> sum_list (map (\<lambda>x. length x + 1) xs)"
  by (induction xs rule: joined.induct) auto

lemma bodyJson_ascii:
  assumes "appendBodyValid H b"
  shows "asciiUnits (printJson (bodyJson b))"
proof (rule asciiUnits_printJson)
  have "asciiUnits (unitsOf s)" if "s \<in> set APPLICATION_APPEND_KEYS" for s
    using that by (intro asciiUnits_text) (auto simp: APPLICATION_APPEND_KEYS_def plainText_def)
  moreover have "plainText (ab_ciphertext b)" "plainText (ab_envelopeSha256 b)"
    using assms unfolding appendBodyValid_def carriesHash_def b64Valid_def by (blast intro: plainText_b64 plainText_hash)+
  ultimately show "asciiJson (bodyJson b)"
    using assms
    by (simp add: bodyJson_def textJson_def APPLICATION_APPEND_KEYS_def appendBodyValid_def list_all_iff
        positiveUint63Valid_def asciiUnits_text plainText_uuid plainText_hash plainText_uint63 plainText_media)
qed

lemma length_hash32: "hash32Valid s \<Longrightarrow> length s = 43"
  by (auto simp: hash32Valid_iff length_b64encode)

lemma length_unitsOf [simp]: "length (unitsOf s) = length s"
  by (simp add: unitsOf_def)

lemma length_printText: "plainText s \<Longrightarrow> length (printJson (textJson s)) = length s + 2"
proof -
  have "length (concat (map escapeUnit (unitsOf s))) = length s" if "plainText s"
    using that by (induction s) (auto simp: escapeUnit_def unitsOf_def plainText_def)
  then show ?thesis if "plainText s" using that by (simp add: textJson_def printString_def)
qed

lemma length_attachments:
  assumes "list_all uuidV4Valid ids" "length ids \<le> 10"
  shows "length (printJson (JsonArray (map textJson ids))) \<le> 392"
proof -
  have "sum_list (map (\<lambda>x. length x + 1) (map printJson (map textJson ids))) = 39 * length ids"
    using assms(1) by (induction ids) (auto simp: length_printText plainText_uuid length_uuid)
  then show ?thesis
    using length_joined_le [of "map printJson (map textJson ids)"] assms(2) by simp
qed

lemma length_bodyText:
  assumes "appendBodyValid H b"
  shows "length (printJson (bodyJson b)) \<le> 88600"
proof -
  obtain bs where bs: "ab_ciphertext b = b64encode bs" "int (length bs) \<le> MAX_APPLICATION_ENVELOPE_BYTES"
    using assms by (auto simp: appendBodyValid_def carriesHash_def b64Valid_iff)
  have "length bs \<le> 65536" using bs(2) by (simp add: MAX_APPLICATION_ENVELOPE_BYTES_def)
  then have c: "length (ab_ciphertext b) \<le> 87382" by (simp add: bs(1) length_b64encode)
  have h: "length (ab_envelopeSha256 b) = 43"
    using assms unfolding appendBodyValid_def carriesHash_def by (blast intro: length_hash32)
  have f: "length (ab_envelopeId b) = 36" "length (ab_policyHeadId b) = 36" "length (ab_policyHeadSequence b) \<le> 19"
    "length (ab_policyHeadHash b) = 43" "length (ab_expectedEpoch b) \<le> 19" "length (ab_expectedRosterVersion b) \<le> 19"
    "length (ab_expectedConfirmedTranscriptHash b) = 43" "length (ab_contentType b) \<le> 60"
    using assms
    by (simp_all add: appendBodyValid_def length_uuid length_uint63 length_hash32 positiveUint63Valid_def MLS_PRIVATE_MESSAGE_MEDIA_TYPE_def)
  have a: "length (printJson (JsonArray (map textJson (ab_attachmentIds b)))) \<le> 392"
    using assms by (intro length_attachments) (simp_all add: appendBodyValid_def)
  have plain: "plainText (ab_ciphertext b)" "plainText (ab_envelopeSha256 b)"
    using assms unfolding appendBodyValid_def carriesHash_def b64Valid_def by (blast intro: plainText_b64 plainText_hash)+
  have t: "length (printJson (textJson (sel b))) = length (sel b) + 2" if "sel \<in> {ab_ciphertext, ab_envelopeSha256, ab_envelopeId,
      ab_policyHeadId, ab_policyHeadSequence, ab_policyHeadHash, ab_expectedEpoch, ab_expectedRosterVersion,
      ab_expectedConfirmedTranscriptHash, ab_contentType}" for sel
    using assms plain that
    by (auto simp: appendBodyValid_def positiveUint63Valid_def length_printText plainText_uuid plainText_hash plainText_uint63 plainText_media)
  show ?thesis
    using c h f a by (simp add: bodyJson_def t printString_def escapeUnit_def unitsOf_def del: printJson.simps(5))
qed

subsection \<open>Properties\<close>

text \<open>
  An append request always gets an answer, and an accepted one is UTF-8 without a byte-order mark, at most 256 JSON
  values nested at most 17 levels deep, in which no object at any level names a key twice, and the body it carries is
  valid: in particular its hash is the hash of its ciphertext.
\<close>

theorem append_json_strict:
  "parseApplicationAppendJson H rawBody \<noteq> None
   \<and> (\<forall>rawBytes body. parseApplicationAppendJson H rawBody = Some (Inr (rawBytes, body)) \<longrightarrow>
        copyBytes MAX_APPLICATION_APPEND_JSON_BYTES rawBody = Inr rawBytes \<and> appendBodyValid H body
        \<and> (\<exists>source v. decodeUtf8 (map unat rawBytes) = Some source \<and> parseJsonWithoutDuplicateObjectKeys source = Some (Inr v)
             \<and> uniqueKeys v \<and> jsonDepthAtMost 17 v \<and> jsonSize v \<le> 256 \<and> parseApplicationAppendBody H (jsvalOf v) = Inr body))"
proof -
  have strict: "uniqueKeys v \<and> jsonDepthAtMost 17 v \<and> jsonSize v \<le> 256"
    if "parseJsonWithoutDuplicateObjectKeys source = Some (Inr v)" for source v
    using parseJsonText_strict [OF that [unfolded parseJsonWithoutDuplicateObjectKeys_def]]
    by (simp add: strictJson_def ENVELOPE_JSON_LIMITS_def)
  have returns: "parseJsonWithoutDuplicateObjectKeys source \<noteq> None" for source
    unfolding parseJsonWithoutDuplicateObjectKeys_def by (rule parseJsonText_returns)
  have "parseApplicationAppendJson H rawBody \<noteq> None"
    using returns
    by (auto simp: parseApplicationAppendJson_def andThen_def simp del: not_None_eq split: option.splits sum.splits)
  then show ?thesis
    by (auto simp: parseApplicationAppendJson_def andThen_def append_body_codec.parse_wf
        split: option.splits sum.splits if_splits dest: strict)
qed

lemma bodyJson_accepted:
  assumes "appendBodyValid H b"
  defines "rawBytes \<equiv> map of_nat (printJson (bodyJson b)) :: bytes"
  shows "parseApplicationAppendJson H (owned rawBytes) = Some (Inr (rawBytes, b))"
proof -
  let ?text = "printJson (bodyJson b)"
  have ascii: "asciiUnits ?text" using assms(1) by (rule bodyJson_ascii)
  then have units: "map unat rawBytes = ?text"
    by (auto simp: rawBytes_def asciiUnits_def list_all_iff intro!: map_idI)
  have copied: "copyBytes MAX_APPLICATION_APPEND_JSON_BYTES (owned rawBytes) = Inr rawBytes"
    using length_bodyText [OF assms(1)]
    by (simp add: owned_def copyBytes_owned MAX_APPLICATION_APPEND_JSON_BYTES_def rawBytes_def)
  have bom: "\<not> startsWithBom rawBytes" by (simp add: startsWithBom_def rawBytes_def bodyJson_def take_Cons')
  have "jsonSize (bodyJson b) \<le> 256" using assms(1) by (simp add: bodyJson_size appendBodyValid_def)
  then have "parseJsonWithoutDuplicateObjectKeys ?text = Some (Inr (bodyJson b))"
    unfolding parseJsonWithoutDuplicateObjectKeys_def using bodyJson_plain [OF assms(1)] bodyJson_strict
    by (intro parseJsonText_print) (simp_all add: ENVELOPE_JSON_LIMITS_def)
  then show ?thesis
    using bom assms(1)
    by (simp add: parseApplicationAppendJson_def copied units decodeUtf8_ascii [OF ascii] andThen_def jsvalOf_bodyJson
        append_body_codec.parse_encode)
qed

text \<open>
  C33. The JSON text of every valid body is accepted: it fits the limit on requests whatever the ciphertext and the
  attachments, and the reader and the parser return the bytes and the body.
\<close>

theorem append_json_roundtrip:
  assumes "appendBodyValid H b"
  defines "rawBytes \<equiv> map of_nat (printJson (bodyJson b)) :: bytes"
  shows "parseApplicationAppendJson H (owned rawBytes) = Some (Inr (rawBytes, b))"
  unfolding rawBytes_def using assms(1) by (rule bodyJson_accepted)

end
