(* ===== verification/EnvelopeProperties.thy ===== *)
theory EnvelopeProperties
  imports EnvelopeJson LogProperties CursorCodec
begin

section \<open>Properties of envelopes\<close>

text \<open>
  A log of accepted envelopes is determined by its last head hash, bytes included; a retry of an append is a replay
  exactly when it is the same append. The construction \<open>storedOf\<close> gives the stored form of an envelope, whose hashes
  the parser recomputes, and shows that every well-formed envelope has one.
\<close>

subsection \<open>The stored form of an envelope\<close>

definition storedOf :: "(bytes \<Rightarrow> bytes) \<Rightarrow> envelopeLeafInput \<Rightarrow> string \<Rightarrow> string \<Rightarrow> string \<Rightarrow> string \<Rightarrow> storedEnvelopeCommon" where
  "storedOf H leaf payload previous keyId signature =
     (let leafHash = b64encode (H (leafPreimage leaf));
          headHash = b64encode (H (headPreimage previous leafHash));
          checkpoint = \<lparr>cpConversationId = leafConversationId leaf, cpPosition = leafPosition leaf,
            cpPreviousHeadHash = previous, cpHeadHash = headHash, cpSigningKeyId = keyId\<rparr> in
      \<lparr>se_conversationId = leafConversationId leaf, se_position = leafPosition leaf, se_envelopeId = leafEnvelopeId leaf,
       se_envelopeClass = leafEnvelopeClass leaf, se_contentType = leafContentType leaf, se_envelopeBytes = payload,
       se_envelopeSha256 = leafEnvelopeSha256 leaf, se_epoch = leafEpoch leaf, se_rosterVersion = leafRosterVersion leaf,
       se_sender = leafSender leaf, se_receivedAt = leafReceivedAt leaf, se_leafHash = leafHash,
       se_previousHeadHash = previous, se_headHash = headHash, se_logSigningKeyId = keyId,
       se_logCheckpointDigest = b64encode (H (checkpointPreimage checkpoint)), se_logHeadSignature = signature\<rparr>)"

lemma storedOf_leaf: "leafInputOf (storedOf H leaf payload previous keyId signature) = leaf"
  by (simp add: storedOf_def Let_def leafInputOf_def)

lemma storedOf_parts:
  "se_envelopeBytes (storedOf H leaf payload previous keyId signature) = payload"
  "se_leafHash (storedOf H leaf payload previous keyId signature) = b64encode (H (leafPreimage leaf))"
  by (simp_all add: storedOf_def Let_def)

lemma hashed_valid: "sha256Length H \<Longrightarrow> hash32Valid (b64encode (H x))"
  unfolding hash32Valid_iff by (intro exI [of _ "H x"]) (simp add: sha256Length_def)

lemma computeEnvelopeLeafHash_leaf:
  assumes "sha256Length H" "leafValid r"
  shows "computeEnvelopeLeafHash H (encodeLeaf r) = Inr (b64encode (H (leafPreimage r)))"
proof -
  note p = leaf_codec.parse_encode [OF assms(2)]
  obtain h where h: "computeEnvelopeLeafHash H (encodeLeaf r) = Inr h" using leaf_hash_exists [OF assms(1) p] by blast
  then have "h = b64encode (H (leafPreimage r))"
    using digestOf_Inr(3) [of H _ "leafFields r" h] by (simp add: computeEnvelopeLeafHash_eq [OF p] leafPreimage_def)
  with h show ?thesis by simp
qed

lemma checkpointFields_small: "checkpointValid r \<Longrightarrow> list_all (smallField 256) (checkpointFields r)"
  by (auto simp: checkpointValid_def checkpointFields_def small_fields positiveUint63Valid_def)

lemma computeCheckpointDigest_checkpoint:
  assumes "sha256Length H" "checkpointValid r"
  shows "computeDeliveryLogCheckpointDigest H (encodeCheckpoint r) = Inr (b64encode (H (checkpointPreimage r)))"
proof -
  note p = checkpoint_codec.parse_encode [OF assms(2)]
  have "\<exists>h. digestOf H DELIVERY_LOG_CHECKPOINT_DIGEST_DOMAIN (checkpointFields r) = Inr h"
    by (rule digestOf_small [OF assms(1) checkpointFields_small [OF assms(2)]])
      (simp_all add: checkpointFields_def DELIVERY_LOG_CHECKPOINT_DIGEST_DOMAIN_def)
  then obtain h where h: "digestOf H DELIVERY_LOG_CHECKPOINT_DIGEST_DOMAIN (checkpointFields r) = Inr h" by blast
  moreover from digestOf_Inr(3) [OF h] have "h = b64encode (H (checkpointPreimage r))" by (simp add: checkpointPreimage_def)
  ultimately show ?thesis by (simp add: computeDeliveryLogCheckpointDigest_def p checkpointFields_def)
qed

lemma storedOf_valid:
  assumes H: "sha256Length H" and leaf: "leafValid leaf" and previous: "hash32Valid previous"
    and first: "leafPosition leaf = ''1'' \<longleftrightarrow> previous = ZERO_HASH32"
    and payload: "carriesHash H (maximumEnvelopeBytes (leafEnvelopeClass leaf)) payload (leafEnvelopeSha256 leaf)"
    and key: "SIGNING_KEY_ID keyId" and signature: "b64Valid 64 64 signature"
  shows "storedCommonValid H (storedOf H leaf payload previous keyId signature)"
proof -
  let ?e = "storedOf H leaf payload previous keyId signature"
  have fields: "leafInputOf ?e = leaf" "se_previousHeadHash ?e = previous"
    "se_leafHash ?e = b64encode (H (leafPreimage leaf))" "se_headHash ?e = b64encode (H (headPreimage previous (se_leafHash ?e)))"
    "se_logCheckpointDigest ?e = b64encode (H (checkpointPreimage (checkpointInputOf ?e)))"
    by (simp_all add: storedOf_def Let_def leafInputOf_def checkpointInputOf_def)
  have cp: "checkpointValid (checkpointInputOf ?e)"
    using leaf previous first key hashed_valid [OF H]
    by (simp add: checkpointValid_def checkpointInputOf_def storedOf_def Let_def leafValid_def)
  have "storedHashes H ?e"
    unfolding storedHashes_def fields(1,2)
    using first computeEnvelopeLeafHash_leaf [OF H leaf] computeCheckpointDigest_checkpoint [OF H cp]
      computeLogHeadHash_total [OF H previous hashed_valid [OF H]] fields
    by (simp add: storedOf_def Let_def)
  moreover have "classMatches ?e" using leaf by (simp add: classMatches_def leafValid_def storedOf_def Let_def)
  ultimately show ?thesis
    using leaf previous payload key signature hashed_valid [OF H]
    by (auto simp: storedCommonValid_def storedOf_def Let_def leafValid_def)
qed

subsection \<open>The log determines its envelopes\<close>

text \<open>A run of envelopes, each extending the head of the one before it.\<close>

fun linked :: "string \<Rightarrow> storedEnvelope list \<Rightarrow> bool" where
  "linked head [] = True"
| "linked head (env # envs) =
     (se_previousHeadHash (storedCommon env) = head \<and> linked (se_headHash (storedCommon env)) envs)"

fun lastHead :: "string \<Rightarrow> storedEnvelope list \<Rightarrow> string" where
  "lastHead head [] = head"
| "lastHead head (env # envs) = lastHead (se_headHash (storedCommon env)) envs"

definition leafHashesOf :: "storedEnvelope list \<Rightarrow> string list" where
  "leafHashesOf envs = map (\<lambda>env. se_leafHash (storedCommon env)) envs"

definition hashedAlong :: "(bytes \<Rightarrow> bytes) \<Rightarrow> string \<Rightarrow> storedEnvelope list \<Rightarrow> bytes set" where
  "hashedAlong H head envs = headPreimages H head (leafHashesOf envs)
     \<union> (\<lambda>env. leafPreimage (leafInputOf (storedCommon env))) ` set envs
     \<union> (\<lambda>env. b64decode (se_envelopeBytes (storedCommon env))) ` set envs"

lemma storedEnvelopeValid_common: "storedEnvelopeValid H env \<Longrightarrow> storedCommonValid H (storedCommon env)"
  by (cases env) simp_all

lemma linked_logHead:
  "list_all (storedEnvelopeValid H) envs \<Longrightarrow> linked head envs \<Longrightarrow> logHead H head (leafHashesOf envs) = Inr (lastHead head envs)"
proof (induction envs arbitrary: head)
  case (Cons env envs)
  then have "storedHashes H (storedCommon env)"
    using storedEnvelopeValid_common by (simp add: storedCommonValid_def)
  with Cons show ?case by (simp add: leafHashesOf_def storedHashes_def)
qed (simp add: leafHashesOf_def)

lemma leafInput_valid: "storedCommonValid H e \<Longrightarrow> leafValid (leafInputOf e)"
  by (auto simp: storedCommonValid_def leafValid_def leafInputOf_def classMatches_def carriesHash_def)

lemma stored_leaf_preimage:
  assumes "storedCommonValid H e"
  shows "se_leafHash e = b64encode (H (leafPreimage (leafInputOf e)))"
proof -
  note p = leaf_codec.parse_encode [OF leafInput_valid [OF assms]]
  have "digestOf H ENVELOPE_LEAF_HASH_DOMAIN (leafFields (leafInputOf e)) = Inr (se_leafHash e)"
    using assms by (simp add: storedCommonValid_def storedHashes_def computeEnvelopeLeafHash_eq [OF p])
  from digestOf_Inr(3) [OF this] show ?thesis by (simp add: leafPreimage_def)
qed

text \<open>Equal leaf hashes: equal metadata and equal bytes.\<close>

lemma stored_leaf_binding:
  assumes "storedCommonValid H e" "storedCommonValid H e'" "se_leafHash e = se_leafHash e'"
    and "inj_on H {leafPreimage (leafInputOf e), leafPreimage (leafInputOf e')}"
    and "inj_on H {b64decode (se_envelopeBytes e), b64decode (se_envelopeBytes e')}"
  shows "leafInputOf e = leafInputOf e'" "se_envelopeBytes e = se_envelopeBytes e'"
proof -
  have "leafPreimage (leafInputOf e) = leafPreimage (leafInputOf e')"
    using assms(3,4) stored_leaf_preimage [OF assms(1)] stored_leaf_preimage [OF assms(2)] by (auto dest: inj_onD)
  then have "digestPreimage ENVELOPE_LEAF_HASH_DOMAIN (leafFields (leafInputOf e))
      = digestPreimage ENVELOPE_LEAF_HASH_DOMAIN (leafFields (leafInputOf e'))" by (simp add: leafPreimage_def)
  moreover have "digestOf H ENVELOPE_LEAF_HASH_DOMAIN (leafFields (leafInputOf x)) = Inr (se_leafHash x)" if "storedCommonValid H x" for x
    using that leaf_codec.parse_encode [OF leafInput_valid [OF that]]
    by (simp add: storedCommonValid_def storedHashes_def computeEnvelopeLeafHash_eq)
  ultimately have "map fieldRaw (leafFields (leafInputOf e)) = map fieldRaw (leafFields (leafInputOf e'))"
    using assms(1,2,3) by (intro digestOf_binding [of H _ _ "se_leafHash e"]) (auto simp: inj_on_def)
  then show same: "leafInputOf e = leafInputOf e'"
    by (rule leafFields_inj [OF leafInput_valid [OF assms(1)] leafInput_valid [OF assms(2)]])
  have "se_envelopeSha256 e = se_envelopeSha256 e'"
    using same by (simp add: leafInputOf_def)
  then have "b64encode (H (b64decode (se_envelopeBytes e))) = b64encode (H (b64decode (se_envelopeBytes e')))"
    using assms(1,2) unfolding storedCommonValid_def carriesHash_def by metis
  then have "b64decode (se_envelopeBytes e) = b64decode (se_envelopeBytes e')"
    using assms(5) by (auto dest: inj_onD)
  moreover have "b64encode (b64decode (se_envelopeBytes x)) = se_envelopeBytes x" if "storedCommonValid H x" for x
    using that by (auto simp: storedCommonValid_def carriesHash_def b64Valid_iff)
  ultimately show "se_envelopeBytes e = se_envelopeBytes e'" using assms(1,2) by metis
qed

text \<open>Two linked runs of the same length with the same last head: the same first head and the same envelopes.\<close>

lemma linked_binding:
  assumes valid: "list_all (storedEnvelopeValid H) envs" "list_all (storedEnvelopeValid H) envs'"
    and "linked head envs" "linked head' envs'" and len: "length envs = length envs'"
    and "lastHead head envs = lastHead head' envs'" and head: "hash32Valid head" "hash32Valid head'"
    and inj: "inj_on H (hashedAlong H head envs \<union> hashedAlong H head' envs')"
  shows "head = head'"
    "map (\<lambda>env. (leafInputOf (storedCommon env), se_envelopeBytes (storedCommon env))) envs
      = map (\<lambda>env. (leafInputOf (storedCommon env), se_envelopeBytes (storedCommon env))) envs'"
proof -
  have heads: "logHead H head (leafHashesOf envs) = Inr (lastHead head envs)"
    "logHead H head' (leafHashesOf envs') = Inr (lastHead head envs)"
    using linked_logHead assms by metis+
  have same: "head = head' \<and> leafHashesOf envs = leafHashesOf envs'"
    using logHead_binding [OF _ heads head] len inj by (auto simp: leafHashesOf_def hashedAlong_def intro: inj_on_subset)
  then show "head = head'" by simp
  have leaf: "se_leafHash (storedCommon (envs ! i)) = se_leafHash (storedCommon (envs' ! i))" if "i < length envs" for i
    using same that len by (metis leafHashesOf_def length_map nth_map)
  have "(leafInputOf (storedCommon (envs ! i)), se_envelopeBytes (storedCommon (envs ! i)))
      = (leafInputOf (storedCommon (envs' ! i)), se_envelopeBytes (storedCommon (envs' ! i)))" if i: "i < length envs" for i
  proof -
    have common: "storedCommonValid H (storedCommon (envs ! i))" "storedCommonValid H (storedCommon (envs' ! i))"
      using valid i len by (auto simp: list_all_length intro: storedEnvelopeValid_common)
    have "envs ! i \<in> set envs" "envs' ! i \<in> set envs'" using i len by auto
    then have "inj_on H {leafPreimage (leafInputOf (storedCommon (envs ! i))), leafPreimage (leafInputOf (storedCommon (envs' ! i)))}"
      "inj_on H {b64decode (se_envelopeBytes (storedCommon (envs ! i))), b64decode (se_envelopeBytes (storedCommon (envs' ! i)))}"
      by (intro inj_on_subset [OF inj]; auto simp: hashedAlong_def)+
    from stored_leaf_binding [OF common leaf [OF i] this] show ?thesis by simp
  qed
  then show "map (\<lambda>env. (leafInputOf (storedCommon env), se_envelopeBytes (storedCommon env))) envs
      = map (\<lambda>env. (leafInputOf (storedCommon env), se_envelopeBytes (storedCommon env))) envs'"
    using len by (intro nth_equalityI) auto
qed

text \<open>
  The head of a log identifies every envelope before it. Two logs of accepted envelopes that start at the same head,
  are linked by their head hashes and end in the same head after the same number of envelopes contain the same
  envelopes: conversation, position, sender, class, time and the very bytes, if SHA-256 does not collide on what was
  hashed for them.
\<close>

theorem stored_log_binds_envelopes:
  assumes "mapE (parseStoredEnvelope H) vs = Inr envs" "mapE (parseStoredEnvelope H) vs' = Inr envs'"
    and "linked ZERO_HASH32 envs" "linked ZERO_HASH32 envs'" "length vs = length vs'"
    and "lastHead ZERO_HASH32 envs = lastHead ZERO_HASH32 envs'"
    and "inj_on H (hashedAlong H ZERO_HASH32 envs \<union> hashedAlong H ZERO_HASH32 envs')"
  shows "map (\<lambda>env. (leafInputOf (storedCommon env), se_envelopeBytes (storedCommon env))) envs
    = map (\<lambda>env. (leafInputOf (storedCommon env), se_envelopeBytes (storedCommon env))) envs'"
proof -
  have valid: "list_all (storedEnvelopeValid H) es" "length es = length ws" if "mapE (parseStoredEnvelope H) ws = Inr es" for ws es
    using that by (auto simp: mapE_eq_Inr list_all_length list_all2_conv_all_nth stored_envelope_codec.parse_wf)
  have "length envs = length envs'" using assms(1,2,5) valid(2) by metis
  then show ?thesis
    using linked_binding(2) [OF valid(1) valid(1) assms(3,4) _ assms(6) ZERO_HASH32_valid ZERO_HASH32_valid assms(7)] assms(1,2)
    by blast
qed

text \<open>For a sample log, a hash that tells inputs of different lengths apart.\<close>

definition lengthHash :: "bytes \<Rightarrow> bytes" where
  "lengthHash bs = beBytes 32 (length bs)"

definition sampleStoredLeaf :: envelopeLeafInput where
  "sampleStoredLeaf = sampleLeaf\<lparr>leafPosition := ''1'', leafEnvelopeSha256 := b64encode (lengthHash [1, 2, 3])\<rparr>"

definition sampleStored :: storedEnvelope where
  "sampleStored = StoredApplication (storedOf lengthHash sampleStoredLeaf (b64encode [1, 2, 3]) ZERO_HASH32 ''log-1''
     (b64encode (replicate 64 1)))"

lemma lengthHash_length [simp]: "sha256Length lengthHash"
  by (simp add: sha256Length_def lengthHash_def)

lemma lengthHash_inj: "inj_on length A \<Longrightarrow> \<forall>x \<in> A. length x < 256 ^ 32 \<Longrightarrow> inj_on lengthHash A"
  unfolding inj_on_def lengthHash_def by (metis beNat_beBytes)

lemma sampleStoredLeaf_valid: "leafValid sampleStoredLeaf"
  using sampleLeaf_valid hashed_valid [OF lengthHash_length] by (simp add: leafValid_def sampleStoredLeaf_def)

lemma sampleStored_valid: "storedEnvelopeValid lengthHash sampleStored"
proof -
  have "carriesHash lengthHash (maximumEnvelopeBytes (leafEnvelopeClass sampleStoredLeaf)) (b64encode [1, 2, 3]) (leafEnvelopeSha256 sampleStoredLeaf)"
    using hashed_valid [OF lengthHash_length, of "[1, 2, 3]"]
    by (auto simp: carriesHash_def b64Valid_iff sampleStoredLeaf_def sampleLeaf_def maximumEnvelopeBytes_def MAX_APPLICATION_ENVELOPE_BYTES_def
        intro!: exI [of _ "[1, 2, 3]"])
  moreover have "b64Valid 64 64 (b64encode (replicate 64 1))"
    unfolding b64Valid_iff by (intro exI [of _ "replicate 64 1"]) simp
  moreover have "SIGNING_KEY_ID ''log-1''" by (simp add: SIGNING_KEY_ID_def identShape_def isLowerAlnum_def isDigit_def)
  ultimately have "storedCommonValid lengthHash (storedOf lengthHash sampleStoredLeaf (b64encode [1, 2, 3]) ZERO_HASH32 ''log-1''
      (b64encode (replicate 64 1)))"
    by (intro storedOf_valid sampleStoredLeaf_valid lengthHash_length) (simp_all add: sampleStoredLeaf_def)
  then show ?thesis by (simp add: sampleStored_def storedOf_def Let_def sampleStoredLeaf_def sampleLeaf_def)
qed

lemma length_le_utf8: "length s \<le> length (utf8 s)"
proof (induction s)
  case (Cons c s)
  have "1 \<le> length (utf8_char c)" by (simp add: utf8_char_def Let_def)
  with Cons show ?case by (simp add: utf8_def)
qed simp

lemma length_leafPreimage: "leafValid r \<Longrightarrow> 100 \<le> length (leafPreimage r) \<and> length (leafPreimage r) < 10000"
proof -
  assume v: "leafValid r"
  have small: "length (fieldRaw f) \<le> 256" if "f \<in> set (leafFields r)" for f
    using leafFields_small [OF v] that by (auto simp: list_all_iff smallField_def fieldRaw_def)
  then have "\<forall>x \<in> set (map fieldRaw (leafFields r)). length x \<le> 256" by auto
  note length_concat_lp [OF this]
  moreover have "length (utf8 ENVELOPE_LEAF_HASH_DOMAIN) \<le> 2 * length ENVELOPE_LEAF_HASH_DOMAIN" by (rule length_utf8)
  ultimately have "length (leafPreimage r) < 10000"
    by (simp add: leafPreimage_def digestPreimage_def leafFields_def ENVELOPE_LEAF_HASH_DOMAIN_def)
  moreover have "fieldRaw (Utf8 s) = utf8 s" for s by (simp add: fieldRaw_def)
  then have "100 \<le> length (leafPreimage r)"
    using v length_le_utf8 [of "leafConversationId r"] length_le_utf8 [of "leafEnvelopeId r"]
    by (simp add: leafPreimage_def digestPreimage_def leafFields_def leafValid_def length_uuid)
  ultimately show ?thesis by simp
qed

subsection \<open>Replays\<close>

text \<open>
  After the idempotency row has expired, a retry for a stored envelope is an exact replay, answered with the stored
  receipt, exactly when it names the same conversation, entity tag, sender and body as the stored append, attachments
  in the same order included, and a conflict otherwise; without a stored envelope it is new.
\<close>

theorem envelope_replay_exact:
  fixes receipt :: 'r
  assumes "parseApplicationEnvelopeSemanticIdentity H candidate = Inr c"
    and "parseApplicationEnvelopeSemanticIdentity H identity = Inr a"
  shows "classifyImmutableApplicationEnvelopeReplay H (Some (identity, receipt)) candidate
      = Inr (if a = c then ExactEnvelopeReplay receipt else EnvelopeConflict)
    \<and> classifyImmutableApplicationEnvelopeReplay H (None :: (jsval \<times> 'r) option) candidate = Inr NewEnvelope"
  using assms by (simp add: classifyImmutableApplicationEnvelopeReplay_def sameParsedApplicationIdentity_iff)

definition sampleBody :: applicationAppendBody where
  "sampleBody = \<lparr>ab_envelopeId = sampleCredentialId, ab_policyHeadId = sampleCheckpointId, ab_policyHeadSequence = ''1'',
     ab_policyHeadHash = hashText, ab_expectedEpoch = ''1'', ab_expectedRosterVersion = ''1'',
     ab_expectedConfirmedTranscriptHash = hashText, ab_contentType = MLS_PRIVATE_MESSAGE_MEDIA_TYPE,
     ab_ciphertext = b64encode [1, 2, 3], ab_envelopeSha256 = b64encode (sampleHash [1, 2, 3]), ab_attachmentIds = [sampleAccountId]\<rparr>"

definition sampleIdentity :: "string list \<Rightarrow> semanticIdentity" where
  "sampleIdentity attachments = \<lparr>si_conversationId = sampleConversationId, si_ifMatch = etagText ''1'' ''1'',
     si_accountId = sampleAccountId, si_installationId = sampleInstallationId, si_append = sampleBody\<lparr>ab_attachmentIds := attachments\<rparr>\<rparr>"

lemma sampleBody_valid: "appendBodyValid sampleHash sampleBody"
proof -
  have "carriesHash sampleHash MAX_APPLICATION_ENVELOPE_BYTES (b64encode [1, 2, 3]) (b64encode (sampleHash [1, 2, 3]))"
    using hashed_valid [OF sampleHash_length, of "[1, 2, 3]"]
    by (auto simp: carriesHash_def b64Valid_iff MAX_APPLICATION_ENVELOPE_BYTES_def intro!: exI [of _ "[1, 2, 3]"])
  then show ?thesis by (simp add: appendBodyValid_def sampleBody_def)
qed

lemma sampleIdentity_valid: "identityValid sampleHash (sampleIdentity [sampleAccountId])" "identityValid sampleHash (sampleIdentity [])"
proof -
  have "etagValid (etagText ''1'' ''1'')" unfolding etagValid_def using uint63Valid_1(1) by blast
  then show "identityValid sampleHash (sampleIdentity [sampleAccountId])" "identityValid sampleHash (sampleIdentity [])"
    using sampleBody_valid by (simp_all add: identityValid_def sampleIdentity_def appendBodyValid_def)
qed

lemma sampleIdentity_differs: "sampleIdentity [sampleAccountId] \<noteq> sampleIdentity []"
proof
  assume "sampleIdentity [sampleAccountId] = sampleIdentity []"
  then have "ab_attachmentIds (si_append (sampleIdentity [sampleAccountId])) = ab_attachmentIds (si_append (sampleIdentity []))" by simp
  then show False by (simp add: sampleIdentity_def)
qed

theorem append_json_roundtrip_witness:
  "\<exists>rawBytes. parseApplicationAppendJson sampleHash (owned rawBytes) = Some (Inr (rawBytes, sampleBody))"
  using append_json_roundtrip [OF sampleBody_valid] by blast

end
