(* ===== verification/SyncValues.thy ===== *)
theory SyncValues
  imports EnvelopeProofs CursorProofs DigestFacts
begin

section \<open>Values of the synchronisation kernel\<close>

text \<open>
  The helpers and the small records of \<open>src/src/production/delivery/sync.ts\<close>, with which a client of the log keeps the
  part of a conversation it has verified: its membership window, the anchor in the log, the anchors in the witness and
  in the policy log, the MLS projection and the mandatory proposals of the policy. Every parser is a codec.
\<close>

definition CONVERSATION_PAGE_HARD_MAX_EVENTS :: nat where
  "CONVERSATION_PAGE_HARD_MAX_EVENTS = 500"

definition CONVERSATION_PAGE_HARD_MAX_DECODED_ARTIFACT_BYTES :: int where
  "CONVERSATION_PAGE_HARD_MAX_DECODED_ARTIFACT_BYTES = 4 * 1024 * 1024"

definition CONVERSATION_PAGE_HARD_MAX_SERIALIZED_BYTES :: int where
  "CONVERSATION_PAGE_HARD_MAX_SERIALIZED_BYTES = 8 * 1024 * 1024"

definition CONVERSATION_PAGE_HARD_MAX_FIRST_ITEM_BYTES :: int where
  "CONVERSATION_PAGE_HARD_MAX_FIRST_ITEM_BYTES = 768 * 1024"

definition CONVERSATION_WELCOME_HARD_MAX_BYTES :: int where
  "CONVERSATION_WELCOME_HARD_MAX_BYTES = 256 * 1024"

definition POLICY_MANDATORY_PROPOSAL_SET_HASH_DOMAIN :: string where
  "POLICY_MANDATORY_PROPOSAL_SET_HASH_DOMAIN = ''jb-msg-policy-mandatory-proposal-set/v1''"

subsection \<open>Scalars\<close>

definition parsePositive :: "jsval \<Rightarrow> string res" where
  "parsePositive v =
     bindE (parseUint63String v) (\<lambda>parsed.
     if parsed = ''0'' then Inl ConversationSyncValidationError else Inr parsed)"

text \<open>\<open>parseNonZeroHash32\<close> of \<open>sync.ts\<close>; the function of the same name in \<open>state.ts\<close> throws another class.\<close>

definition parseNonZeroHash32Sync :: "jsval \<Rightarrow> string res" where
  "parseNonZeroHash32Sync v =
     bindE (parseHash32 v) (\<lambda>parsed.
     if parsed = ZERO_HASH32 then Inl ConversationSyncValidationError else Inr parsed)"

definition decrementPositive :: "string \<Rightarrow> string" where
  "decrementPositive s = bigIntToString (bigInt s - 1)"

definition incrementUint63 :: "string \<Rightarrow> string res" where
  "incrementUint63 s =
     (let nextValue = bigInt s + 1 in
      if nextValue > 9223372036854775807 then Inl ConversationSyncValidationError else Inr (bigIntToString nextValue))"

definition minimum :: "int \<Rightarrow> int \<Rightarrow> int" where
  "minimum left right = (if left < right then left else right)"

definition maximumUint63 :: "string \<Rightarrow> string \<Rightarrow> string" where
  "maximumUint63 left right = (if bigInt left \<ge> bigInt right then left else right)"

definition parseOneOfString :: "('a \<Rightarrow> string) \<Rightarrow> 'a list \<Rightarrow> jsval \<Rightarrow> 'a res" where
  "parseOneOfString toText allowed v = (case v of
     JStr s \<Rightarrow> (case List.find (\<lambda>x. toText x = s) allowed of
                 Some x \<Rightarrow> Inr x | None \<Rightarrow> Inl ConversationSyncValidationError)
   | _ \<Rightarrow> Inl ConversationSyncValidationError)"

text \<open>A removal, if there is one, is not before the join.\<close>

definition atOrAfter :: "string option \<Rightarrow> string \<Rightarrow> bool" where
  "atOrAfter bound position = (case bound of None \<Rightarrow> True | Some b \<Rightarrow> bigInt position \<le> bigInt b)"

lemma parsePositive_iff [parse_simps]: "parsePositive v = Inr s \<longleftrightarrow> v = JStr s \<and> positiveUint63Valid s"
  by (auto simp: parsePositive_def res_simps parse_simps positiveUint63Valid_def split: if_splits)

lemma parseNonZeroHash32Sync_iff [parse_simps]: "parseNonZeroHash32Sync v = Inr s \<longleftrightarrow> v = JStr s \<and> nonZeroHashValid s"
  by (auto simp: parseNonZeroHash32Sync_def res_simps parse_simps nonZeroHashValid_def split: if_splits)

lemma parseOneOfString_iff:
  assumes "inj toText" "\<And>y. y \<in> set allowed"
  shows "parseOneOfString toText allowed v = Inr x \<longleftrightarrow> v = JStr (toText x)"
proof -
  have "parseOneOfString toText allowed v = Inr x \<longleftrightarrow> parseOneOf toText allowed v = Inr x"
    by (cases v) (auto simp: parseOneOf_def parseOneOfString_def split: option.splits)
  with parseOneOf_iff [OF assms] show ?thesis by simp
qed

lemma sync_scalar_parse_ok [parse_ok]:
  "positiveUint63Valid s \<Longrightarrow> parsePositive (JStr s) = Inr s"
  "nonZeroHashValid s \<Longrightarrow> parseNonZeroHash32Sync (JStr s) = Inr s"
  "uuidV7Valid s \<Longrightarrow> parseProposalId (JStr s) = Inr s"
  "uuidV7Valid s \<Longrightarrow> parseMembershipIntentId (JStr s) = Inr s"
  "b64Valid 64 64 s \<Longrightarrow> parseEd25519Signature (JStr s) = Inr s"
  by (simp_all add: parse_simps)

lemma etagText_parse_ok [parse_ok]:
  "uint63Valid e \<Longrightarrow> uint63Valid r \<Longrightarrow> parseConversationEtag (JStr (etagText e r)) = Inr (etagText e r)"
  by (rule scalar_parse_ok) (auto simp: etagValid_def)

lemmas sync_nullable_parsers [parse_simps] =
  parseNullable_iff [OF parsePositive_iff]
  parseNullable_iff [OF parseRfc3339Millis_iff]

subsection \<open>Arrays and records\<close>

definition expectDenseArray :: "jsval \<Rightarrow> int \<Rightarrow> jsval list res" where
  "expectDenseArray v maximum = (case v of
     JArr ArrayPrototype xs extra \<Rightarrow>
       if int (length xs) > maximum then Inl ConversationSyncValidationError
       else if length xs + 1 + extra \<noteq> length xs + 1 then Inl ConversationSyncValidationError
       else Inr xs
   | _ \<Rightarrow> Inl ConversationSyncValidationError)"

lemma expectDenseArray_iff: "expectDenseArray v n = Inr xs \<longleftrightarrow> v = mkArray xs \<and> int (length xs) \<le> n"
  by (auto simp: expectDenseArray_def mkArray_def split: jsval.splits jsproto.splits if_splits)

lemma expectDenseArray_mkArray: "int (length xs) \<le> n \<Longrightarrow> expectDenseArray (mkArray xs) n = Inr xs"
  by (simp add: expectDenseArray_iff)

text \<open>A page comes from the JSON reader, which produces plain objects and arrays only; a view has no fields here.\<close>

definition hasOwnDataField :: "jsval \<Rightarrow> string \<Rightarrow> bool" where
  "hasOwnDataField v key = (case v of
     JObj pr props \<Rightarrow> (case map_of props (KStr key) of None \<Rightarrow> False | Some p \<Rightarrow> enumerableData p)
   | _ \<Rightarrow> False)"

definition readDataField :: "jsval \<Rightarrow> string \<Rightarrow> jsval res" where
  "readDataField v key = (case v of
     JObj pr props \<Rightarrow> (case map_of props (KStr key) of
         None \<Rightarrow> Inl ConversationSyncValidationError
       | Some p \<Rightarrow> if enumerableData p then Inr (propValue p) else Inl ConversationSyncValidationError)
   | _ \<Rightarrow> Inl ConversationSyncValidationError)"

definition copyRecordWithout :: "jsval \<Rightarrow> string \<Rightarrow> jsval" where
  "copyRecordWithout v omitted = (case v of
     JObj pr props \<Rightarrow> JObj NullPrototype
       (map (\<lambda>(k, p). (k, Data True (propValue p))) (filter (\<lambda>(k, p). enumerableData p \<and> k \<noteq> KStr omitted) props))
   | _ \<Rightarrow> JObj NullPrototype [])"

subsection \<open>The membership window and the anchors of a prefix\<close>

datatype bootstrapMode = CreatorBootstrap | WelcomeBootstrap

primrec bootstrapModeText :: "bootstrapMode \<Rightarrow> string" where
  "bootstrapModeText CreatorBootstrap = ''creator''"
| "bootstrapModeText WelcomeBootstrap = ''welcome''"

definition parseBootstrapMode :: "jsval \<Rightarrow> bootstrapMode res" where
  "parseBootstrapMode = parseOneOfString bootstrapModeText [CreatorBootstrap, WelcomeBootstrap]"

lemma bootstrapModeText_inj [enum_inj]: "bootstrapModeText a = bootstrapModeText b \<longleftrightarrow> a = b"
  by (cases a; cases b) simp_all

lemma parseBootstrapMode_iff [parse_simps]: "parseBootstrapMode v = Inr x \<longleftrightarrow> v = JStr (bootstrapModeText x)"
  unfolding parseBootstrapMode_def
proof (rule parseOneOfString_iff)
  show "inj bootstrapModeText" by (rule injI) (simp add: enum_inj)
  show "y \<in> set [CreatorBootstrap, WelcomeBootstrap]" for y by (cases y) simp_all
qed

lemma parseBootstrapMode_ok [parse_ok]: "parseBootstrapMode (JStr (bootstrapModeText x)) = Inr x"
  by (simp add: parse_simps)

record membershipWindow =
  mw_bootstrapMode :: bootstrapMode
  mw_credentialId :: string
  mw_credentialFingerprint :: string
  mw_joinedPosition :: string
  mw_removedPosition :: "string option"

definition MEMBERSHIP_WINDOW_KEYS :: "string list" where
  "MEMBERSHIP_WINDOW_KEYS =
    [''bootstrapMode'', ''credentialId'', ''credentialFingerprint'', ''joinedPosition'', ''removedPosition'']"

definition parseMembershipWindow :: "jsval \<Rightarrow> membershipWindow res" where
  "parseMembershipWindow v =
     bindE (expectExactRecord v MEMBERSHIP_WINDOW_KEYS) (\<lambda>record.
     bindE (parsePositive (record ''joinedPosition'')) (\<lambda>joinedPosition.
     bindE (parseNullable parsePositive (record ''removedPosition'')) (\<lambda>removedPosition.
     bindE (guardE (atOrAfter removedPosition joinedPosition) ConversationSyncValidationError) (\<lambda>_.
     bindE (parseBootstrapMode (record ''bootstrapMode'')) (\<lambda>bootstrapMode.
     bindE (parseCredentialId (record ''credentialId'')) (\<lambda>credentialId.
     bindE (parseFingerprint32 (record ''credentialFingerprint'')) (\<lambda>credentialFingerprint.
     Inr \<lparr>mw_bootstrapMode = bootstrapMode, mw_credentialId = credentialId,
          mw_credentialFingerprint = credentialFingerprint, mw_joinedPosition = joinedPosition,
          mw_removedPosition = removedPosition\<rparr>)))))))"

definition entriesWindow :: "membershipWindow \<Rightarrow> (string \<times> jsval) list" where
  "entriesWindow r =
     [(''bootstrapMode'', JStr (bootstrapModeText (mw_bootstrapMode r))),
      (''credentialId'', JStr (mw_credentialId r)),
      (''credentialFingerprint'', JStr (mw_credentialFingerprint r)),
      (''joinedPosition'', JStr (mw_joinedPosition r)),
      (''removedPosition'', encodeNullable (mw_removedPosition r))]"

definition encodeWindow :: "membershipWindow \<Rightarrow> jsval" where
  "encodeWindow r = mkRecord (entriesWindow r)"

definition windowValid :: "membershipWindow \<Rightarrow> bool" where
  "windowValid r =
     (uuidV4Valid (mw_credentialId r) \<and> hash32Valid (mw_credentialFingerprint r) \<and>
      positiveUint63Valid (mw_joinedPosition r) \<and>
      (case mw_removedPosition r of None \<Rightarrow> True | Some x \<Rightarrow> positiveUint63Valid x) \<and>
      atOrAfter (mw_removedPosition r) (mw_joinedPosition r))"

lemma entriesWindow_get [simp]:
  "fieldOf (entriesWindow r) ''bootstrapMode'' = JStr (bootstrapModeText (mw_bootstrapMode r))"
  "fieldOf (entriesWindow r) ''credentialId'' = JStr (mw_credentialId r)"
  "fieldOf (entriesWindow r) ''credentialFingerprint'' = JStr (mw_credentialFingerprint r)"
  "fieldOf (entriesWindow r) ''joinedPosition'' = JStr (mw_joinedPosition r)"
  "fieldOf (entriesWindow r) ''removedPosition'' = encodeNullable (mw_removedPosition r)"
  by (simp_all add: entriesWindow_def)

lemma expect_encodeWindow: "expectExactRecord (encodeWindow r) MEMBERSHIP_WINDOW_KEYS = Inr (fieldOf (entriesWindow r))"
  unfolding encodeWindow_def by (rule expectExactRecord_mkRecord) (simp_all add: MEMBERSHIP_WINDOW_KEYS_def entriesWindow_def)

interpretation window_codec: record_codec parseMembershipWindow encodeWindow windowValid
proof
  show "windowValid r" if "parseMembershipWindow v = Inr r" for v r
    using that unfolding parseMembershipWindow_def
    by (elim bindE_InrE, simp only: parse_simps guardE_eq_Inr sum.inject, elim conjE, hypsubst, simp add: windowValid_def)
  show "parseMembershipWindow (encodeWindow r) = Inr r" if "windowValid r" for r
    using that by (simp add: parseMembershipWindow_def expect_encodeWindow parse_ok windowValid_def split: option.splits)
qed

record headAnchor =
  ha_position :: string
  ha_previousHeadHash :: string
  ha_headHash :: string
  ha_checkpointReceivedAt :: "string option"

definition HEAD_ANCHOR_KEYS :: "string list" where
  "HEAD_ANCHOR_KEYS =
    [''position'', ''previousHeadHash'', ''headHash'', ''checkpointReceivedAt'']"

definition parseHeadAnchor :: "jsval \<Rightarrow> headAnchor res" where
  "parseHeadAnchor v =
     bindE (expectExactRecord v HEAD_ANCHOR_KEYS) (\<lambda>record.
     bindE (parseUint63String (record ''position'')) (\<lambda>position.
     bindE (parseHash32 (record ''previousHeadHash'')) (\<lambda>previousHeadHash.
     bindE (parseHash32 (record ''headHash'')) (\<lambda>headHash.
     bindE (parseNullable parseRfc3339Millis (record ''checkpointReceivedAt'')) (\<lambda>checkpointReceivedAt.
     Inr \<lparr>ha_position = position, ha_previousHeadHash = previousHeadHash, ha_headHash = headHash,
          ha_checkpointReceivedAt = checkpointReceivedAt\<rparr>)))))"

definition entriesAnchor :: "headAnchor \<Rightarrow> (string \<times> jsval) list" where
  "entriesAnchor r =
     [(''position'', JStr (ha_position r)), (''previousHeadHash'', JStr (ha_previousHeadHash r)),
      (''headHash'', JStr (ha_headHash r)),
      (''checkpointReceivedAt'', encodeNullable (ha_checkpointReceivedAt r))]"

definition encodeAnchor :: "headAnchor \<Rightarrow> jsval" where
  "encodeAnchor r = mkRecord (entriesAnchor r)"

definition anchorValid :: "headAnchor \<Rightarrow> bool" where
  "anchorValid r =
     (uint63Valid (ha_position r) \<and> hash32Valid (ha_previousHeadHash r) \<and>
      hash32Valid (ha_headHash r) \<and>
      (case ha_checkpointReceivedAt r of None \<Rightarrow> True | Some x \<Rightarrow> rfc3339Valid x))"

lemma entriesAnchor_get [simp]:
  "fieldOf (entriesAnchor r) ''position'' = JStr (ha_position r)"
  "fieldOf (entriesAnchor r) ''previousHeadHash'' = JStr (ha_previousHeadHash r)"
  "fieldOf (entriesAnchor r) ''headHash'' = JStr (ha_headHash r)"
  "fieldOf (entriesAnchor r) ''checkpointReceivedAt'' = encodeNullable (ha_checkpointReceivedAt r)"
  by (simp_all add: entriesAnchor_def)

lemma expect_encodeAnchor: "expectExactRecord (encodeAnchor r) HEAD_ANCHOR_KEYS = Inr (fieldOf (entriesAnchor r))"
  unfolding encodeAnchor_def by (rule expectExactRecord_mkRecord) (simp_all add: HEAD_ANCHOR_KEYS_def entriesAnchor_def)

interpretation anchor_codec: record_codec parseHeadAnchor encodeAnchor anchorValid
proof
  show "anchorValid r" if "parseHeadAnchor v = Inr r" for v r
    using that unfolding parseHeadAnchor_def
    by (elim bindE_InrE, simp only: parse_simps guardE_eq_Inr sum.inject, elim conjE, hypsubst, simp add: anchorValid_def)
  show "parseHeadAnchor (encodeAnchor r) = Inr r" if "anchorValid r" for r
    using that by (simp add: parseHeadAnchor_def expect_encodeAnchor parse_ok anchorValid_def split: option.splits)
qed

definition validateAnchor :: "headAnchor \<Rightarrow> unit res" where
  "validateAnchor anchor =
     (if ha_position anchor = ''0'' then
        if ha_previousHeadHash anchor \<noteq> ZERO_HASH32 \<or> ha_headHash anchor \<noteq> ZERO_HASH32
           \<or> ha_checkpointReceivedAt anchor \<noteq> None
        then Inl ConversationSyncValidationError else Inr ()
      else if ha_headHash anchor = ZERO_HASH32 \<or> ha_checkpointReceivedAt anchor = None
      then Inl ConversationSyncValidationError
      else if (ha_position anchor = ''1'') \<noteq> (ha_previousHeadHash anchor = ZERO_HASH32)
      then Inl ConversationSyncValidationError
      else Inr ())"

record witnessAnchor =
  wa_witnessCheckpointId :: string
  wa_witnessTreeSize :: string
  wa_witnessRootHash :: string
  wa_witnessedAt :: string

definition WITNESS_ANCHOR_KEYS :: "string list" where
  "WITNESS_ANCHOR_KEYS =
    [''witnessCheckpointId'', ''witnessTreeSize'', ''witnessRootHash'', ''witnessedAt'']"

definition parseWitnessConsistencyAnchor :: "jsval \<Rightarrow> witnessAnchor res" where
  "parseWitnessConsistencyAnchor v =
     bindE (expectExactRecord v WITNESS_ANCHOR_KEYS) (\<lambda>record.
     bindE (parseWitnessCheckpointId (record ''witnessCheckpointId'')) (\<lambda>witnessCheckpointId.
     bindE (parseUint63String (record ''witnessTreeSize'')) (\<lambda>witnessTreeSize.
     bindE (parseHash32 (record ''witnessRootHash'')) (\<lambda>witnessRootHash.
     bindE (parseRfc3339Millis (record ''witnessedAt'')) (\<lambda>witnessedAt.
     Inr \<lparr>wa_witnessCheckpointId = witnessCheckpointId, wa_witnessTreeSize = witnessTreeSize,
          wa_witnessRootHash = witnessRootHash, wa_witnessedAt = witnessedAt\<rparr>)))))"

definition entriesWitnessAnchor :: "witnessAnchor \<Rightarrow> (string \<times> jsval) list" where
  "entriesWitnessAnchor r =
     [(''witnessCheckpointId'', JStr (wa_witnessCheckpointId r)),
      (''witnessTreeSize'', JStr (wa_witnessTreeSize r)), (''witnessRootHash'', JStr (wa_witnessRootHash r)),
      (''witnessedAt'', JStr (wa_witnessedAt r))]"

definition encodeWitnessAnchor :: "witnessAnchor \<Rightarrow> jsval" where
  "encodeWitnessAnchor r = mkRecord (entriesWitnessAnchor r)"

definition witnessAnchorValid :: "witnessAnchor \<Rightarrow> bool" where
  "witnessAnchorValid r =
     (uuidV4Valid (wa_witnessCheckpointId r) \<and> uint63Valid (wa_witnessTreeSize r) \<and>
      hash32Valid (wa_witnessRootHash r) \<and> rfc3339Valid (wa_witnessedAt r))"

lemma entriesWitnessAnchor_get [simp]:
  "fieldOf (entriesWitnessAnchor r) ''witnessCheckpointId'' = JStr (wa_witnessCheckpointId r)"
  "fieldOf (entriesWitnessAnchor r) ''witnessTreeSize'' = JStr (wa_witnessTreeSize r)"
  "fieldOf (entriesWitnessAnchor r) ''witnessRootHash'' = JStr (wa_witnessRootHash r)"
  "fieldOf (entriesWitnessAnchor r) ''witnessedAt'' = JStr (wa_witnessedAt r)"
  by (simp_all add: entriesWitnessAnchor_def)

lemma expect_encodeWitnessAnchor: "expectExactRecord (encodeWitnessAnchor r) WITNESS_ANCHOR_KEYS = Inr (fieldOf (entriesWitnessAnchor r))"
  unfolding encodeWitnessAnchor_def by (rule expectExactRecord_mkRecord) (simp_all add: WITNESS_ANCHOR_KEYS_def entriesWitnessAnchor_def)

interpretation witness_anchor_codec: record_codec parseWitnessConsistencyAnchor encodeWitnessAnchor witnessAnchorValid
proof
  show "witnessAnchorValid r" if "parseWitnessConsistencyAnchor v = Inr r" for v r
    using that unfolding parseWitnessConsistencyAnchor_def
    by (elim bindE_InrE, simp only: parse_simps guardE_eq_Inr sum.inject, elim conjE, hypsubst, simp add: witnessAnchorValid_def)
  show "parseWitnessConsistencyAnchor (encodeWitnessAnchor r) = Inr r" if "witnessAnchorValid r" for r
    using that by (simp add: parseWitnessConsistencyAnchor_def expect_encodeWitnessAnchor parse_ok witnessAnchorValid_def split: option.splits)
qed

record policyAnchor =
  pa_policyHeadSequence :: string
  pa_policyHeadHash :: string
  pa_witnessCheckpointId :: string
  pa_witnessEvidenceDigest :: string

definition POLICY_ANCHOR_KEYS :: "string list" where
  "POLICY_ANCHOR_KEYS =
    [''policyHeadSequence'', ''policyHeadHash'', ''witnessCheckpointId'', ''witnessEvidenceDigest'']"

definition parsePolicyConsistencyAnchor :: "jsval \<Rightarrow> policyAnchor res" where
  "parsePolicyConsistencyAnchor v =
     bindE (expectExactRecord v POLICY_ANCHOR_KEYS) (\<lambda>record.
     bindE (parseUint63String (record ''policyHeadSequence'')) (\<lambda>policyHeadSequence.
     bindE (parseHash32 (record ''policyHeadHash'')) (\<lambda>policyHeadHash.
     bindE (parseWitnessCheckpointId (record ''witnessCheckpointId'')) (\<lambda>witnessCheckpointId.
     bindE (parseHash32 (record ''witnessEvidenceDigest'')) (\<lambda>witnessEvidenceDigest.
     bindE (guardE ((policyHeadSequence = ''0'') = (policyHeadHash = ZERO_HASH32)) ConversationSyncValidationError) (\<lambda>_.
     Inr \<lparr>pa_policyHeadSequence = policyHeadSequence, pa_policyHeadHash = policyHeadHash,
          pa_witnessCheckpointId = witnessCheckpointId, pa_witnessEvidenceDigest = witnessEvidenceDigest\<rparr>))))))"

definition entriesPolicyAnchor :: "policyAnchor \<Rightarrow> (string \<times> jsval) list" where
  "entriesPolicyAnchor r =
     [(''policyHeadSequence'', JStr (pa_policyHeadSequence r)),
      (''policyHeadHash'', JStr (pa_policyHeadHash r)),
      (''witnessCheckpointId'', JStr (pa_witnessCheckpointId r)),
      (''witnessEvidenceDigest'', JStr (pa_witnessEvidenceDigest r))]"

definition encodePolicyAnchor :: "policyAnchor \<Rightarrow> jsval" where
  "encodePolicyAnchor r = mkRecord (entriesPolicyAnchor r)"

definition policyAnchorValid :: "policyAnchor \<Rightarrow> bool" where
  "policyAnchorValid r =
     (uint63Valid (pa_policyHeadSequence r) \<and> hash32Valid (pa_policyHeadHash r) \<and>
      uuidV4Valid (pa_witnessCheckpointId r) \<and> hash32Valid (pa_witnessEvidenceDigest r) \<and>
      (pa_policyHeadSequence r = ''0'') = (pa_policyHeadHash r = ZERO_HASH32))"

lemma entriesPolicyAnchor_get [simp]:
  "fieldOf (entriesPolicyAnchor r) ''policyHeadSequence'' = JStr (pa_policyHeadSequence r)"
  "fieldOf (entriesPolicyAnchor r) ''policyHeadHash'' = JStr (pa_policyHeadHash r)"
  "fieldOf (entriesPolicyAnchor r) ''witnessCheckpointId'' = JStr (pa_witnessCheckpointId r)"
  "fieldOf (entriesPolicyAnchor r) ''witnessEvidenceDigest'' = JStr (pa_witnessEvidenceDigest r)"
  by (simp_all add: entriesPolicyAnchor_def)

lemma expect_encodePolicyAnchor: "expectExactRecord (encodePolicyAnchor r) POLICY_ANCHOR_KEYS = Inr (fieldOf (entriesPolicyAnchor r))"
  unfolding encodePolicyAnchor_def by (rule expectExactRecord_mkRecord) (simp_all add: POLICY_ANCHOR_KEYS_def entriesPolicyAnchor_def)

interpretation policy_anchor_codec: record_codec parsePolicyConsistencyAnchor encodePolicyAnchor policyAnchorValid
proof
  show "policyAnchorValid r" if "parsePolicyConsistencyAnchor v = Inr r" for v r
    using that unfolding parsePolicyConsistencyAnchor_def
    by (elim bindE_InrE, simp only: parse_simps guardE_eq_Inr sum.inject, elim conjE, hypsubst, simp add: policyAnchorValid_def)
  show "parsePolicyConsistencyAnchor (encodePolicyAnchor r) = Inr r" if "policyAnchorValid r" for r
    using that by (simp add: parsePolicyConsistencyAnchor_def expect_encodePolicyAnchor parse_ok policyAnchorValid_def split: option.splits)
qed

record mlsProjection =
  mp_epoch :: string
  mp_rosterVersion :: string
  mp_confirmedTranscriptHash :: string

definition MLS_PROJECTION_KEYS :: "string list" where
  "MLS_PROJECTION_KEYS =
    [''epoch'', ''rosterVersion'', ''confirmedTranscriptHash'']"

definition parseConversationMlsProjection :: "jsval \<Rightarrow> mlsProjection res" where
  "parseConversationMlsProjection v =
     bindE (expectExactRecord v MLS_PROJECTION_KEYS) (\<lambda>record.
     bindE (parseUint63String (record ''epoch'')) (\<lambda>epoch.
     bindE (parseUint63String (record ''rosterVersion'')) (\<lambda>rosterVersion.
     bindE (parseHash32 (record ''confirmedTranscriptHash'')) (\<lambda>confirmedTranscriptHash.
     Inr \<lparr>mp_epoch = epoch, mp_rosterVersion = rosterVersion,
          mp_confirmedTranscriptHash = confirmedTranscriptHash\<rparr>))))"

definition entriesMlsProjection :: "mlsProjection \<Rightarrow> (string \<times> jsval) list" where
  "entriesMlsProjection r =
     [(''epoch'', JStr (mp_epoch r)), (''rosterVersion'', JStr (mp_rosterVersion r)),
      (''confirmedTranscriptHash'', JStr (mp_confirmedTranscriptHash r))]"

definition encodeMlsProjection :: "mlsProjection \<Rightarrow> jsval" where
  "encodeMlsProjection r = mkRecord (entriesMlsProjection r)"

definition mlsProjectionValid :: "mlsProjection \<Rightarrow> bool" where
  "mlsProjectionValid r =
     (uint63Valid (mp_epoch r) \<and> uint63Valid (mp_rosterVersion r) \<and>
      hash32Valid (mp_confirmedTranscriptHash r))"

lemma entriesMlsProjection_get [simp]:
  "fieldOf (entriesMlsProjection r) ''epoch'' = JStr (mp_epoch r)"
  "fieldOf (entriesMlsProjection r) ''rosterVersion'' = JStr (mp_rosterVersion r)"
  "fieldOf (entriesMlsProjection r) ''confirmedTranscriptHash'' = JStr (mp_confirmedTranscriptHash r)"
  by (simp_all add: entriesMlsProjection_def)

lemma expect_encodeMlsProjection: "expectExactRecord (encodeMlsProjection r) MLS_PROJECTION_KEYS = Inr (fieldOf (entriesMlsProjection r))"
  unfolding encodeMlsProjection_def by (rule expectExactRecord_mkRecord) (simp_all add: MLS_PROJECTION_KEYS_def entriesMlsProjection_def)

interpretation mls_projection_codec: record_codec parseConversationMlsProjection encodeMlsProjection mlsProjectionValid
proof
  show "mlsProjectionValid r" if "parseConversationMlsProjection v = Inr r" for v r
    using that unfolding parseConversationMlsProjection_def
    by (elim bindE_InrE, simp only: parse_simps guardE_eq_Inr sum.inject, elim conjE, hypsubst, simp add: mlsProjectionValid_def)
  show "parseConversationMlsProjection (encodeMlsProjection r) = Inr r" if "mlsProjectionValid r" for r
    using that by (simp add: parseConversationMlsProjection_def expect_encodeMlsProjection parse_ok mlsProjectionValid_def split: option.splits)
qed

subsection \<open>Mandatory proposals\<close>

record mandatoryProposal =
  pm_proposalId :: string
  pm_proposalHash :: string

definition MANDATORY_PROPOSAL_KEYS :: "string list" where
  "MANDATORY_PROPOSAL_KEYS =
    [''proposalId'', ''proposalHash'']"

definition parseMandatoryProposal :: "jsval \<Rightarrow> mandatoryProposal res" where
  "parseMandatoryProposal v =
     bindE (expectExactRecord v MANDATORY_PROPOSAL_KEYS) (\<lambda>record.
     bindE (parseProposalId (record ''proposalId'')) (\<lambda>proposalId.
     bindE (parseHash32 (record ''proposalHash'')) (\<lambda>proposalHash.
     Inr \<lparr>pm_proposalId = proposalId, pm_proposalHash = proposalHash\<rparr>)))"

definition entriesMandatoryProposal :: "mandatoryProposal \<Rightarrow> (string \<times> jsval) list" where
  "entriesMandatoryProposal r =
     [(''proposalId'', JStr (pm_proposalId r)), (''proposalHash'', JStr (pm_proposalHash r))]"

definition encodeMandatoryProposal :: "mandatoryProposal \<Rightarrow> jsval" where
  "encodeMandatoryProposal r = mkRecord (entriesMandatoryProposal r)"

definition mandatoryProposalValid :: "mandatoryProposal \<Rightarrow> bool" where
  "mandatoryProposalValid r =
     (uuidV7Valid (pm_proposalId r) \<and> hash32Valid (pm_proposalHash r))"

lemma entriesMandatoryProposal_get [simp]:
  "fieldOf (entriesMandatoryProposal r) ''proposalId'' = JStr (pm_proposalId r)"
  "fieldOf (entriesMandatoryProposal r) ''proposalHash'' = JStr (pm_proposalHash r)"
  by (simp_all add: entriesMandatoryProposal_def)

lemma expect_encodeMandatoryProposal: "expectExactRecord (encodeMandatoryProposal r) MANDATORY_PROPOSAL_KEYS = Inr (fieldOf (entriesMandatoryProposal r))"
  unfolding encodeMandatoryProposal_def by (rule expectExactRecord_mkRecord) (simp_all add: MANDATORY_PROPOSAL_KEYS_def entriesMandatoryProposal_def)

interpretation mandatory_proposal_codec: record_codec parseMandatoryProposal encodeMandatoryProposal mandatoryProposalValid
proof
  show "mandatoryProposalValid r" if "parseMandatoryProposal v = Inr r" for v r
    using that unfolding parseMandatoryProposal_def
    by (elim bindE_InrE, simp only: parse_simps guardE_eq_Inr sum.inject, elim conjE, hypsubst, simp add: mandatoryProposalValid_def)
  show "parseMandatoryProposal (encodeMandatoryProposal r) = Inr r" if "mandatoryProposalValid r" for r
    using that by (simp add: parseMandatoryProposal_def expect_encodeMandatoryProposal parse_ok mandatoryProposalValid_def split: option.splits)
qed

text \<open>The loop over the entries, with the sets of identifiers and of hashes seen so far.\<close>

primrec mandatoryScan :: "string list \<Rightarrow> string list \<Rightarrow> jsval list \<Rightarrow> mandatoryProposal list res" where
  "mandatoryScan ids hashes [] = Inr []"
| "mandatoryScan ids hashes (entry # rest) =
     bindE (parseMandatoryProposal entry) (\<lambda>proposal.
     if pm_proposalId proposal \<in> set ids \<or> pm_proposalHash proposal \<in> set hashes then Inl ConversationSyncValidationError
     else bindE (mandatoryScan (pm_proposalId proposal # ids) (pm_proposalHash proposal # hashes) rest) (\<lambda>parsed.
       Inr (proposal # parsed)))"

definition parsePolicyMandatoryProposals :: "jsval \<Rightarrow> mandatoryProposal list res" where
  "parsePolicyMandatoryProposals v =
     bindE (expectDenseArray v DELIVERY_MANDATORY_PROPOSALS_MAX) (\<lambda>entries. mandatoryScan [] [] entries)"

definition mandatoryDigestFields :: "mandatoryProposal list \<Rightarrow> digestField list" where
  "mandatoryDigestFields proposals =
     concat (map (\<lambda>p. [Utf8 (pm_proposalId p), DecodedHash (pm_proposalHash p)]) proposals)"

definition computePolicyMandatoryProposalSetHash :: "(bytes \<Rightarrow> bytes) \<Rightarrow> mandatoryProposal list \<Rightarrow> string res" where
  "computePolicyMandatoryProposalSetHash H proposals =
     (if int (length proposals) > DELIVERY_MANDATORY_PROPOSALS_MAX then Inl ConversationSyncValidationError
      else if proposals = [] then Inr ZERO_HASH32
      else digestOf H POLICY_MANDATORY_PROPOSAL_SET_HASH_DOMAIN (mandatoryDigestFields proposals))"

definition validatePolicyMandatoryProposalProjection ::
  "(bytes \<Rightarrow> bytes) \<Rightarrow> string \<Rightarrow> string \<Rightarrow> mandatoryProposal list \<Rightarrow> unit res" where
  "validatePolicyMandatoryProposalProjection H declared setHash proposals =
     (if bigInt declared \<noteq> int (length proposals) then Inl ConversationSyncValidationError
      else bindE (computePolicyMandatoryProposalSetHash H proposals) (\<lambda>expected.
        if setHash \<noteq> expected then Inl ConversationSyncValidationError else Inr ()))"

definition samePolicyMandatoryProposals :: "mandatoryProposal list \<Rightarrow> mandatoryProposal list \<Rightarrow> bool" where
  "samePolicyMandatoryProposals left right =
     (length left = length right \<and>
      list_all (\<lambda>i. pm_proposalId (left ! i) = pm_proposalId (right ! i) \<and> pm_proposalHash (left ! i) = pm_proposalHash (right ! i))
        [0 ..< length left])"

text \<open>What the loop accepts, and the list of proposals as a codec.\<close>

definition mandatoryProposalsValid :: "mandatoryProposal list \<Rightarrow> bool" where
  "mandatoryProposalsValid ps =
     (list_all mandatoryProposalValid ps \<and> distinct (map pm_proposalId ps) \<and> distinct (map pm_proposalHash ps)
      \<and> int (length ps) \<le> DELIVERY_MANDATORY_PROPOSALS_MAX)"

definition encodeMandatoryProposals :: "mandatoryProposal list \<Rightarrow> jsval" where
  "encodeMandatoryProposals ps = mkArray (map encodeMandatoryProposal ps)"

lemma mandatoryScan_valid:
  "mandatoryScan ids hashes xs = Inr ps \<Longrightarrow>
     list_all mandatoryProposalValid ps \<and> distinct (map pm_proposalId ps) \<and> distinct (map pm_proposalHash ps)
     \<and> length ps = length xs \<and> set (map pm_proposalId ps) \<inter> set ids = {} \<and> set (map pm_proposalHash ps) \<inter> set hashes = {}"
proof (induction xs arbitrary: ids hashes ps)
  case (Cons x xs)
  then obtain p qs where p: "parseMandatoryProposal x = Inr p" "pm_proposalId p \<notin> set ids" "pm_proposalHash p \<notin> set hashes"
    and qs: "mandatoryScan (pm_proposalId p # ids) (pm_proposalHash p # hashes) xs = Inr qs" "ps = p # qs"
    by (auto simp: res_simps split: if_splits)
  show ?case using Cons.IH [OF qs(1)] p mandatory_proposal_codec.parse_wf [OF p(1)] qs(2) by auto
qed simp

lemma mandatoryScan_encode:
  "list_all mandatoryProposalValid ps \<Longrightarrow> distinct (map pm_proposalId ps) \<Longrightarrow> distinct (map pm_proposalHash ps) \<Longrightarrow>
   set (map pm_proposalId ps) \<inter> set ids = {} \<Longrightarrow> set (map pm_proposalHash ps) \<inter> set hashes = {} \<Longrightarrow>
   mandatoryScan ids hashes (map encodeMandatoryProposal ps) = Inr ps"
  by (induction ps arbitrary: ids hashes) (auto simp: mandatory_proposal_codec.parse_encode)

interpretation mandatory_codec: record_codec parsePolicyMandatoryProposals encodeMandatoryProposals mandatoryProposalsValid
proof
  show "mandatoryProposalsValid r" if "parsePolicyMandatoryProposals v = Inr r" for v r
    using that mandatoryScan_valid
    by (fastforce simp: parsePolicyMandatoryProposals_def res_simps expectDenseArray_iff mandatoryProposalsValid_def)
  show "parsePolicyMandatoryProposals (encodeMandatoryProposals r) = Inr r" if "mandatoryProposalsValid r" for r
    using that mandatoryScan_encode [of r "[]" "[]"]
    by (simp add: parsePolicyMandatoryProposals_def expectDenseArray_mkArray encodeMandatoryProposals_def
        mandatoryProposalsValid_def)
qed

lemma samePolicyMandatoryProposals_iff: "samePolicyMandatoryProposals a b \<longleftrightarrow> a = b"
  by (auto simp: samePolicyMandatoryProposals_def list_all_iff intro!: nth_equalityI mandatoryProposal.equality)

lemma encodeMandatoryProposals_defined [simp]: "JUndefined \<noteq> encodeMandatoryProposals ps"
  by (simp add: encodeMandatoryProposals_def mkArray_def)

subsection \<open>The policy projection of a prefix\<close>

record policyProjection =
  pp_etag :: string
  pp_policyHeadId :: string
  pp_policyRevision :: string
  pp_policyMandatoryProposalCount :: string
  pp_policyMandatoryProposalSetHash :: string
  pp_policyMandatoryProposals :: "mandatoryProposal list"
  pp_policyAuthorizedSendGrantSetHash :: string
  pp_policyAuthorizedQuotaPolicyDigest :: string
  pp_policyHeadSequence :: string
  pp_policyHeadHash :: string
  pp_policyDeliveryLogPosition :: string
  pp_policyDeliveryLogHeadHash :: string
  pp_policyWitnessCheckpointId :: string
  pp_policyWitnessEvidenceDigest :: string

definition POLICY_PROJECTION_KEYS :: "string list" where
  "POLICY_PROJECTION_KEYS =
    [''etag'', ''policyHeadId'', ''policyRevision'', ''policyMandatoryProposalCount'',
     ''policyMandatoryProposalSetHash'', ''policyMandatoryProposals'', ''policyAuthorizedSendGrantSetHash'',
     ''policyAuthorizedQuotaPolicyDigest'', ''policyHeadSequence'', ''policyHeadHash'',
     ''policyDeliveryLogPosition'', ''policyDeliveryLogHeadHash'', ''policyWitnessCheckpointId'',
     ''policyWitnessEvidenceDigest'']"

definition parseConversationPolicyProjection :: "(bytes \<Rightarrow> bytes) \<Rightarrow> jsval \<Rightarrow> policyProjection res" where
  "parseConversationPolicyProjection H v =
     bindE (expectExactRecord v POLICY_PROJECTION_KEYS) (\<lambda>record.
     bindE (parseUint63String (record ''policyDeliveryLogPosition'')) (\<lambda>policyDeliveryLogPosition.
     bindE (parseHash32 (record ''policyDeliveryLogHeadHash'')) (\<lambda>policyDeliveryLogHeadHash.
     bindE (guardE ((policyDeliveryLogPosition = ''0'') = (policyDeliveryLogHeadHash = ZERO_HASH32)) ConversationSyncValidationError) (\<lambda>_.
     bindE (parseUint63String (record ''policyMandatoryProposalCount'')) (\<lambda>policyMandatoryProposalCount.
     bindE (parseHash32 (record ''policyMandatoryProposalSetHash'')) (\<lambda>policyMandatoryProposalSetHash.
     bindE (parsePolicyMandatoryProposals (record ''policyMandatoryProposals'')) (\<lambda>policyMandatoryProposals.
     bindE (validatePolicyMandatoryProposalProjection H policyMandatoryProposalCount policyMandatoryProposalSetHash policyMandatoryProposals) (\<lambda>_.
     bindE (parseConversationEtag (record ''etag'')) (\<lambda>etag.
     bindE (parsePolicyHeadId (record ''policyHeadId'')) (\<lambda>policyHeadId.
     bindE (parsePositive (record ''policyRevision'')) (\<lambda>policyRevision.
     bindE (parseHash32 (record ''policyAuthorizedSendGrantSetHash'')) (\<lambda>policyAuthorizedSendGrantSetHash.
     bindE (parseHash32 (record ''policyAuthorizedQuotaPolicyDigest'')) (\<lambda>policyAuthorizedQuotaPolicyDigest.
     bindE (parsePositive (record ''policyHeadSequence'')) (\<lambda>policyHeadSequence.
     bindE (parseNonZeroHash32Sync (record ''policyHeadHash'')) (\<lambda>policyHeadHash.
     bindE (parseWitnessCheckpointId (record ''policyWitnessCheckpointId'')) (\<lambda>policyWitnessCheckpointId.
     bindE (parseHash32 (record ''policyWitnessEvidenceDigest'')) (\<lambda>policyWitnessEvidenceDigest.
     Inr \<lparr>pp_etag = etag, pp_policyHeadId = policyHeadId, pp_policyRevision = policyRevision,
          pp_policyMandatoryProposalCount = policyMandatoryProposalCount,
          pp_policyMandatoryProposalSetHash = policyMandatoryProposalSetHash,
          pp_policyMandatoryProposals = policyMandatoryProposals,
          pp_policyAuthorizedSendGrantSetHash = policyAuthorizedSendGrantSetHash,
          pp_policyAuthorizedQuotaPolicyDigest = policyAuthorizedQuotaPolicyDigest,
          pp_policyHeadSequence = policyHeadSequence, pp_policyHeadHash = policyHeadHash,
          pp_policyDeliveryLogPosition = policyDeliveryLogPosition,
          pp_policyDeliveryLogHeadHash = policyDeliveryLogHeadHash,
          pp_policyWitnessCheckpointId = policyWitnessCheckpointId,
          pp_policyWitnessEvidenceDigest = policyWitnessEvidenceDigest\<rparr>)))))))))))))))))"

definition entriesPolicyProjection :: "policyProjection \<Rightarrow> (string \<times> jsval) list" where
  "entriesPolicyProjection r =
     [(''etag'', JStr (pp_etag r)), (''policyHeadId'', JStr (pp_policyHeadId r)),
      (''policyRevision'', JStr (pp_policyRevision r)),
      (''policyMandatoryProposalCount'', JStr (pp_policyMandatoryProposalCount r)),
      (''policyMandatoryProposalSetHash'', JStr (pp_policyMandatoryProposalSetHash r)),
      (''policyMandatoryProposals'', encodeMandatoryProposals (pp_policyMandatoryProposals r)),
      (''policyAuthorizedSendGrantSetHash'', JStr (pp_policyAuthorizedSendGrantSetHash r)),
      (''policyAuthorizedQuotaPolicyDigest'', JStr (pp_policyAuthorizedQuotaPolicyDigest r)),
      (''policyHeadSequence'', JStr (pp_policyHeadSequence r)),
      (''policyHeadHash'', JStr (pp_policyHeadHash r)),
      (''policyDeliveryLogPosition'', JStr (pp_policyDeliveryLogPosition r)),
      (''policyDeliveryLogHeadHash'', JStr (pp_policyDeliveryLogHeadHash r)),
      (''policyWitnessCheckpointId'', JStr (pp_policyWitnessCheckpointId r)),
      (''policyWitnessEvidenceDigest'', JStr (pp_policyWitnessEvidenceDigest r))]"

definition encodePolicyProjection :: "policyProjection \<Rightarrow> jsval" where
  "encodePolicyProjection r = mkRecord (entriesPolicyProjection r)"

definition policyProjectionValid :: "(bytes \<Rightarrow> bytes) \<Rightarrow> policyProjection \<Rightarrow> bool" where
  "policyProjectionValid H r =
     (etagValid (pp_etag r) \<and> uuidV4Valid (pp_policyHeadId r) \<and>
      positiveUint63Valid (pp_policyRevision r) \<and> uint63Valid (pp_policyMandatoryProposalCount r) \<and>
      hash32Valid (pp_policyMandatoryProposalSetHash r) \<and>
      mandatoryProposalsValid (pp_policyMandatoryProposals r) \<and>
      hash32Valid (pp_policyAuthorizedSendGrantSetHash r) \<and>
      hash32Valid (pp_policyAuthorizedQuotaPolicyDigest r) \<and>
      positiveUint63Valid (pp_policyHeadSequence r) \<and> nonZeroHashValid (pp_policyHeadHash r) \<and>
      uint63Valid (pp_policyDeliveryLogPosition r) \<and> hash32Valid (pp_policyDeliveryLogHeadHash r) \<and>
      uuidV4Valid (pp_policyWitnessCheckpointId r) \<and>
      hash32Valid (pp_policyWitnessEvidenceDigest r) \<and>
      (pp_policyDeliveryLogPosition r = ''0'') = (pp_policyDeliveryLogHeadHash r = ZERO_HASH32) \<and>
      validatePolicyMandatoryProposalProjection H (pp_policyMandatoryProposalCount r) (pp_policyMandatoryProposalSetHash r) (pp_policyMandatoryProposals r) = Inr ())"

lemma entriesPolicyProjection_get [simp]:
  "fieldOf (entriesPolicyProjection r) ''etag'' = JStr (pp_etag r)"
  "fieldOf (entriesPolicyProjection r) ''policyHeadId'' = JStr (pp_policyHeadId r)"
  "fieldOf (entriesPolicyProjection r) ''policyRevision'' = JStr (pp_policyRevision r)"
  "fieldOf (entriesPolicyProjection r) ''policyMandatoryProposalCount'' = JStr (pp_policyMandatoryProposalCount r)"
  "fieldOf (entriesPolicyProjection r) ''policyMandatoryProposalSetHash'' = JStr (pp_policyMandatoryProposalSetHash r)"
  "fieldOf (entriesPolicyProjection r) ''policyMandatoryProposals'' = encodeMandatoryProposals (pp_policyMandatoryProposals r)"
  "fieldOf (entriesPolicyProjection r) ''policyAuthorizedSendGrantSetHash'' = JStr (pp_policyAuthorizedSendGrantSetHash r)"
  "fieldOf (entriesPolicyProjection r) ''policyAuthorizedQuotaPolicyDigest'' = JStr (pp_policyAuthorizedQuotaPolicyDigest r)"
  "fieldOf (entriesPolicyProjection r) ''policyHeadSequence'' = JStr (pp_policyHeadSequence r)"
  "fieldOf (entriesPolicyProjection r) ''policyHeadHash'' = JStr (pp_policyHeadHash r)"
  "fieldOf (entriesPolicyProjection r) ''policyDeliveryLogPosition'' = JStr (pp_policyDeliveryLogPosition r)"
  "fieldOf (entriesPolicyProjection r) ''policyDeliveryLogHeadHash'' = JStr (pp_policyDeliveryLogHeadHash r)"
  "fieldOf (entriesPolicyProjection r) ''policyWitnessCheckpointId'' = JStr (pp_policyWitnessCheckpointId r)"
  "fieldOf (entriesPolicyProjection r) ''policyWitnessEvidenceDigest'' = JStr (pp_policyWitnessEvidenceDigest r)"
  by (simp_all add: entriesPolicyProjection_def)

lemma expect_encodePolicyProjection: "expectExactRecord (encodePolicyProjection r) POLICY_PROJECTION_KEYS = Inr (fieldOf (entriesPolicyProjection r))"
  unfolding encodePolicyProjection_def by (rule expectExactRecord_mkRecord) (simp_all add: POLICY_PROJECTION_KEYS_def entriesPolicyProjection_def)

interpretation policy_projection_codec: record_codec "parseConversationPolicyProjection H" encodePolicyProjection "policyProjectionValid H" for H
proof
  show "policyProjectionValid H r" if "parseConversationPolicyProjection H v = Inr r" for v r
    using that unfolding parseConversationPolicyProjection_def
    by (elim bindE_InrE, simp only: parse_simps guardE_eq_Inr sum.inject, elim conjE, hypsubst, simp add: policyProjectionValid_def mandatory_codec.parse_wf)
  show "parseConversationPolicyProjection H (encodePolicyProjection r) = Inr r" if "policyProjectionValid H r" for r
    using that by (simp add: parseConversationPolicyProjection_def expect_encodePolicyProjection parse_ok policyProjectionValid_def mandatory_codec.parse_encode split: option.splits)
qed

end
