(* ===== verification/SyncPage.thy ===== *)
theory SyncPage
  imports SyncValues
begin

section \<open>Pages of a conversation\<close>

text \<open>
  \<open>verifyConversationPage\<close> of \<open>src/src/production/delivery/sync.ts\<close> and what it calls: the items of a page, the signed head
  of its snapshot, the witness receipt, the snapshot, and the checks that a page continues the verified prefix of the
  client. The function is split where the source changes from reading the request to the loop over the events and to the
  final checks; the loop is a recursion over the events with its local variables as a record.
\<close>

subsection \<open>Items\<close>

record targetWelcome =
  tw_targetInstallationId :: string
  tw_welcome :: string
  tw_welcomeSha256 :: string

record eventItem =
  ei_envelope :: storedEnvelope
  ei_welcome :: "targetWelcome option"

definition STORED_COMMIT_KEYS :: "string list" where
  "STORED_COMMIT_KEYS = STORED_ENVELOPE_COMMON_KEYS @ [''baseConfirmedTranscriptHash'', ''resultingConfirmedTranscriptHash'']"

definition TARGET_WELCOME_KEYS :: "string list" where
  "TARGET_WELCOME_KEYS = [''targetInstallationId'', ''welcome'', ''welcomeSha256'']"

definition welcomeMaximum :: "deliveryLimits \<Rightarrow> int" where
  "welcomeMaximum limits = minimum (bigInt (welcomeDecodedMaxBytes limits)) CONVERSATION_WELCOME_HARD_MAX_BYTES"

definition parseTargetWelcome :: "(bytes \<Rightarrow> bytes) \<Rightarrow> jsval \<Rightarrow> string \<Rightarrow> deliveryLimits \<Rightarrow> targetWelcome res" where
  "parseTargetWelcome H v expectedInstallationId limits =
     bindE (expectExactRecord v TARGET_WELCOME_KEYS) (\<lambda>record.
     bindE (parseInstallationId (record ''targetInstallationId'')) (\<lambda>targetInstallationId.
     if targetInstallationId \<noteq> expectedInstallationId then Inl ConversationSyncValidationError
     else if bigInt (welcomeDecodedMaxBytes limits) = 0 then Inl ConversationSyncValidationError
     else
       bindE (parseCanonicalBase64UrlBytes 1 (welcomeMaximum limits) (record ''welcome'')) (\<lambda>welcomeBytes.
       bindE (parseHash32 (record ''welcomeSha256'')) (\<lambda>welcomeSha256.
       bindE (computeEnvelopeSha256 H (owned welcomeBytes)) (\<lambda>actual.
       if actual \<noteq> welcomeSha256 then Inl ConversationSyncValidationError
       else
         bindE (parseCanonicalBase64Url 1 (welcomeMaximum limits) (record ''welcome'')) (\<lambda>welcome.
         Inr \<lparr>tw_targetInstallationId = targetInstallationId, tw_welcome = welcome, tw_welcomeSha256 = welcomeSha256\<rparr>))))))"

definition configuredMaximum :: "deliveryLimits \<Rightarrow> envelopeClass \<Rightarrow> int" where
  "configuredMaximum limits cls = bigInt (case cls of
     Application \<Rightarrow> applicationCiphertextDecodedMaxBytes limits
   | ExternalProposal \<Rightarrow> externalProposalDecodedMaxBytes limits
   | MlsCommit \<Rightarrow> mlsCommitDecodedMaxBytes limits)"

definition decodedEnvelopeLength :: "storedEnvelope \<Rightarrow> deliveryLimits \<Rightarrow> int res" where
  "decodedEnvelopeLength envelope limits =
     (let cls = se_envelopeClass (storedCommon envelope) in
      if configuredMaximum limits cls = 0 then Inl ConversationSyncValidationError
      else
        bindE (parseCanonicalBase64UrlBytes 1 (minimum (configuredMaximum limits cls) (maximumEnvelopeBytes cls))
            (JStr (se_envelopeBytes (storedCommon envelope)))) (\<lambda>bytes.
        Inr (int (length bytes))))"

definition verifyStoredEnvelopeHashes :: "(bytes \<Rightarrow> bytes) \<Rightarrow> storedEnvelope \<Rightarrow> unit res" where
  "verifyStoredEnvelopeHashes H envelope =
     (let e = storedCommon envelope in
      bindE (computeEnvelopeLeafHash H (encodeLeaf (leafInputOf e))) (\<lambda>leafHash.
      if leafHash \<noteq> se_leafHash e then Inl ConversationSyncValidationError
      else
        bindE (computeLogHeadHash H (JStr (se_previousHeadHash e)) (JStr leafHash)) (\<lambda>head.
        if head \<noteq> se_headHash e then Inl ConversationSyncValidationError
        else
          bindE (computeDeliveryLogCheckpointDigest H (encodeCheckpoint (checkpointInputOf e))) (\<lambda>checkpointDigest.
          if checkpointDigest \<noteq> se_logCheckpointDigest e then Inl ConversationSyncValidationError else Inr ()))))"

definition parseConversationEventItem :: "(bytes \<Rightarrow> bytes) \<Rightarrow> jsval \<Rightarrow> string \<Rightarrow> deliveryLimits \<Rightarrow> eventItem res" where
  "parseConversationEventItem H v targetInstallationId limits =
     bindE (readDataField v ''envelopeClass'') (\<lambda>envelopeClass.
     let hasWelcome = hasOwnDataField v ''welcome'' in
     if envelopeClass \<noteq> JStr ''mls_commit'' \<and> hasWelcome then Inl ConversationSyncValidationError
     else
       bindE (expectExactRecord v
          (if envelopeClass = JStr ''mls_commit'' then
             if hasWelcome then STORED_COMMIT_KEYS @ [''welcome''] else STORED_COMMIT_KEYS
           else STORED_ENVELOPE_COMMON_KEYS)) (\<lambda>record.
       bindE (parseStoredEnvelope H (copyRecordWithout v ''welcome'')) (\<lambda>envelope.
       bindE (decodedEnvelopeLength envelope limits) (\<lambda>_.
       bindE (if hasWelcome then map_sum id Some (parseTargetWelcome H (record ''welcome'') targetInstallationId limits)
              else Inr None) (\<lambda>welcome.
       if welcome \<noteq> None \<and> se_envelopeClass (storedCommon envelope) \<noteq> MlsCommit then Inl ConversationSyncValidationError
       else Inr \<lparr>ei_envelope = envelope, ei_welcome = welcome\<rparr>)))))"

subsection \<open>The snapshot of a page\<close>

record signedLogHead =
  lh_position :: string
  lh_previousHeadHash :: string
  lh_headHash :: string
  lh_signingKeyId :: string
  lh_checkpointDigest :: string
  lh_signature :: string
  lh_checkpointReceivedAt :: string

definition LOG_HEAD_KEYS :: "string list" where
  "LOG_HEAD_KEYS =
    [''position'', ''previousHeadHash'', ''headHash'', ''signingKeyId'', ''checkpointDigest'', ''signature'',
     ''checkpointReceivedAt'']"

definition parseSignedDeliveryLogHead :: "(bytes \<Rightarrow> bytes) \<Rightarrow> string \<Rightarrow> jsval \<Rightarrow> signedLogHead res" where
  "parseSignedDeliveryLogHead H conversationId v =
     bindE (expectExactRecord v LOG_HEAD_KEYS) (\<lambda>record.
     bindE (parsePositive (record ''position'')) (\<lambda>position.
     bindE (parseHash32 (record ''previousHeadHash'')) (\<lambda>previousHeadHash.
     bindE (parseNonZeroHash32Sync (record ''headHash'')) (\<lambda>headHash.
     bindE (parseSigningKeyId (record ''signingKeyId'')) (\<lambda>signingKeyId.
     bindE (parseHash32 (record ''checkpointDigest'')) (\<lambda>checkpointDigest.
     bindE (guardE ((position = ''1'') = (previousHeadHash = ZERO_HASH32)) ConversationSyncValidationError) (\<lambda>_.
     bindE (computeDeliveryLogCheckpointDigest H (encodeCheckpoint \<lparr>cpConversationId = conversationId, cpPosition = position,
        cpPreviousHeadHash = previousHeadHash, cpHeadHash = headHash, cpSigningKeyId = signingKeyId\<rparr>)) (\<lambda>expected.
     bindE (guardE (expected = checkpointDigest) ConversationSyncValidationError) (\<lambda>_.
     bindE (parseEd25519Signature (record ''signature'')) (\<lambda>signature.
     bindE (parseRfc3339Millis (record ''checkpointReceivedAt'')) (\<lambda>checkpointReceivedAt.
     Inr \<lparr>lh_position = position, lh_previousHeadHash = previousHeadHash, lh_headHash = headHash,
          lh_signingKeyId = signingKeyId, lh_checkpointDigest = checkpointDigest, lh_signature = signature,
          lh_checkpointReceivedAt = checkpointReceivedAt\<rparr>)))))))))))"

definition entriesLogHead :: "signedLogHead \<Rightarrow> (string \<times> jsval) list" where
  "entriesLogHead r =
     [(''position'', JStr (lh_position r)), (''previousHeadHash'', JStr (lh_previousHeadHash r)),
      (''headHash'', JStr (lh_headHash r)), (''signingKeyId'', JStr (lh_signingKeyId r)),
      (''checkpointDigest'', JStr (lh_checkpointDigest r)), (''signature'', JStr (lh_signature r)),
      (''checkpointReceivedAt'', JStr (lh_checkpointReceivedAt r))]"

definition encodeLogHead :: "signedLogHead \<Rightarrow> jsval" where
  "encodeLogHead r = mkRecord (entriesLogHead r)"

definition logHeadValid :: "(bytes \<Rightarrow> bytes) \<Rightarrow> string \<Rightarrow> signedLogHead \<Rightarrow> bool" where
  "logHeadValid H conversationId r =
     (positiveUint63Valid (lh_position r) \<and> hash32Valid (lh_previousHeadHash r) \<and>
      nonZeroHashValid (lh_headHash r) \<and> SIGNING_KEY_ID (lh_signingKeyId r) \<and>
      hash32Valid (lh_checkpointDigest r) \<and> b64Valid 64 64 (lh_signature r) \<and>
      rfc3339Valid (lh_checkpointReceivedAt r) \<and>
      (lh_position r = ''1'') = (lh_previousHeadHash r = ZERO_HASH32) \<and>
      computeDeliveryLogCheckpointDigest H (encodeCheckpoint \<lparr>cpConversationId = conversationId, cpPosition = lh_position r,
        cpPreviousHeadHash = lh_previousHeadHash r, cpHeadHash = lh_headHash r, cpSigningKeyId = lh_signingKeyId r\<rparr>) = Inr (lh_checkpointDigest r))"

lemma entriesLogHead_get [simp]:
  "fieldOf (entriesLogHead r) ''position'' = JStr (lh_position r)"
  "fieldOf (entriesLogHead r) ''previousHeadHash'' = JStr (lh_previousHeadHash r)"
  "fieldOf (entriesLogHead r) ''headHash'' = JStr (lh_headHash r)"
  "fieldOf (entriesLogHead r) ''signingKeyId'' = JStr (lh_signingKeyId r)"
  "fieldOf (entriesLogHead r) ''checkpointDigest'' = JStr (lh_checkpointDigest r)"
  "fieldOf (entriesLogHead r) ''signature'' = JStr (lh_signature r)"
  "fieldOf (entriesLogHead r) ''checkpointReceivedAt'' = JStr (lh_checkpointReceivedAt r)"
  by (simp_all add: entriesLogHead_def)

lemma expect_encodeLogHead: "expectExactRecord (encodeLogHead r) LOG_HEAD_KEYS = Inr (fieldOf (entriesLogHead r))"
  unfolding encodeLogHead_def by (rule expectExactRecord_mkRecord) (simp_all add: LOG_HEAD_KEYS_def entriesLogHead_def)

interpretation log_head_codec: record_codec "parseSignedDeliveryLogHead H conversationId" encodeLogHead "logHeadValid H conversationId" for H conversationId
proof
  show "logHeadValid H conversationId r" if "parseSignedDeliveryLogHead H conversationId v = Inr r" for v r
    using that unfolding parseSignedDeliveryLogHead_def
    by (elim bindE_InrE, simp only: parse_simps guardE_eq_Inr sum.inject, elim conjE, hypsubst, simp add: logHeadValid_def)
  show "parseSignedDeliveryLogHead H conversationId (encodeLogHead r) = Inr r" if "logHeadValid H conversationId r" for r
    using that by (simp add: parseSignedDeliveryLogHead_def expect_encodeLogHead parse_ok logHeadValid_def split: option.splits)
qed

record witnessReceipt =
  wr_conversationId :: string
  wr_position :: string
  wr_headHash :: string
  wr_witnessCheckpointId :: string
  wr_witnessTreeSize :: string
  wr_witnessRootHash :: string
  wr_witnessKeyId :: string
  wr_witnessSignature :: string
  wr_witnessedAt :: string

definition WITNESS_RECEIPT_KEYS :: "string list" where
  "WITNESS_RECEIPT_KEYS =
    [''conversationId'', ''position'', ''headHash'', ''witnessCheckpointId'', ''witnessTreeSize'',
     ''witnessRootHash'', ''witnessKeyId'', ''witnessSignature'', ''witnessedAt'']"

definition parseWitnessReceipt :: "jsval \<Rightarrow> witnessReceipt res" where
  "parseWitnessReceipt v =
     bindE (expectExactRecord v WITNESS_RECEIPT_KEYS) (\<lambda>record.
     bindE (parseConversationId (record ''conversationId'')) (\<lambda>conversationId.
     bindE (parsePositive (record ''position'')) (\<lambda>position.
     bindE (parseNonZeroHash32Sync (record ''headHash'')) (\<lambda>headHash.
     bindE (parseWitnessCheckpointId (record ''witnessCheckpointId'')) (\<lambda>witnessCheckpointId.
     bindE (parseUint63String (record ''witnessTreeSize'')) (\<lambda>witnessTreeSize.
     bindE (parseHash32 (record ''witnessRootHash'')) (\<lambda>witnessRootHash.
     bindE (parseSigningKeyId (record ''witnessKeyId'')) (\<lambda>witnessKeyId.
     bindE (parseEd25519Signature (record ''witnessSignature'')) (\<lambda>witnessSignature.
     bindE (parseRfc3339Millis (record ''witnessedAt'')) (\<lambda>witnessedAt.
     Inr \<lparr>wr_conversationId = conversationId, wr_position = position, wr_headHash = headHash,
          wr_witnessCheckpointId = witnessCheckpointId, wr_witnessTreeSize = witnessTreeSize,
          wr_witnessRootHash = witnessRootHash, wr_witnessKeyId = witnessKeyId,
          wr_witnessSignature = witnessSignature, wr_witnessedAt = witnessedAt\<rparr>))))))))))"

definition entriesReceipt :: "witnessReceipt \<Rightarrow> (string \<times> jsval) list" where
  "entriesReceipt r =
     [(''conversationId'', JStr (wr_conversationId r)), (''position'', JStr (wr_position r)),
      (''headHash'', JStr (wr_headHash r)), (''witnessCheckpointId'', JStr (wr_witnessCheckpointId r)),
      (''witnessTreeSize'', JStr (wr_witnessTreeSize r)), (''witnessRootHash'', JStr (wr_witnessRootHash r)),
      (''witnessKeyId'', JStr (wr_witnessKeyId r)), (''witnessSignature'', JStr (wr_witnessSignature r)),
      (''witnessedAt'', JStr (wr_witnessedAt r))]"

definition encodeReceipt :: "witnessReceipt \<Rightarrow> jsval" where
  "encodeReceipt r = mkRecord (entriesReceipt r)"

definition receiptValid :: "witnessReceipt \<Rightarrow> bool" where
  "receiptValid r =
     (uuidV4Valid (wr_conversationId r) \<and> positiveUint63Valid (wr_position r) \<and>
      nonZeroHashValid (wr_headHash r) \<and> uuidV4Valid (wr_witnessCheckpointId r) \<and>
      uint63Valid (wr_witnessTreeSize r) \<and> hash32Valid (wr_witnessRootHash r) \<and>
      SIGNING_KEY_ID (wr_witnessKeyId r) \<and> b64Valid 64 64 (wr_witnessSignature r) \<and>
      rfc3339Valid (wr_witnessedAt r))"

lemma entriesReceipt_get [simp]:
  "fieldOf (entriesReceipt r) ''conversationId'' = JStr (wr_conversationId r)"
  "fieldOf (entriesReceipt r) ''position'' = JStr (wr_position r)"
  "fieldOf (entriesReceipt r) ''headHash'' = JStr (wr_headHash r)"
  "fieldOf (entriesReceipt r) ''witnessCheckpointId'' = JStr (wr_witnessCheckpointId r)"
  "fieldOf (entriesReceipt r) ''witnessTreeSize'' = JStr (wr_witnessTreeSize r)"
  "fieldOf (entriesReceipt r) ''witnessRootHash'' = JStr (wr_witnessRootHash r)"
  "fieldOf (entriesReceipt r) ''witnessKeyId'' = JStr (wr_witnessKeyId r)"
  "fieldOf (entriesReceipt r) ''witnessSignature'' = JStr (wr_witnessSignature r)"
  "fieldOf (entriesReceipt r) ''witnessedAt'' = JStr (wr_witnessedAt r)"
  by (simp_all add: entriesReceipt_def)

lemma expect_encodeReceipt: "expectExactRecord (encodeReceipt r) WITNESS_RECEIPT_KEYS = Inr (fieldOf (entriesReceipt r))"
  unfolding encodeReceipt_def by (rule expectExactRecord_mkRecord) (simp_all add: WITNESS_RECEIPT_KEYS_def entriesReceipt_def)

interpretation receipt_codec: record_codec parseWitnessReceipt encodeReceipt receiptValid
proof
  show "receiptValid r" if "parseWitnessReceipt v = Inr r" for v r
    using that unfolding parseWitnessReceipt_def
    by (elim bindE_InrE, simp only: parse_simps guardE_eq_Inr sum.inject, elim conjE, hypsubst, simp add: receiptValid_def)
  show "parseWitnessReceipt (encodeReceipt r) = Inr r" if "receiptValid r" for r
    using that by (simp add: parseWitnessReceipt_def expect_encodeReceipt parse_ok receiptValid_def split: option.splits)
qed

lemma nested_heads_defined [simp]: "JUndefined \<noteq> encodeLogHead h" "JUndefined \<noteq> encodeReceipt w"
  by (simp_all add: encodeLogHead_def encodeReceipt_def mkRecord_def)

record pageSnapshot =
  ps_conversationId :: string
  ps_generation :: string
  ps_releaseProfileId :: string
  ps_deliveryLimitsDigest :: string
  ps_etag :: string
  ps_epoch :: string
  ps_rosterVersion :: string
  ps_confirmedTranscriptHash :: string
  ps_policyHeadId :: string
  ps_policyRevision :: string
  ps_policyMandatoryProposalCount :: string
  ps_policyMandatoryProposalSetHash :: string
  ps_policyMandatoryProposals :: "mandatoryProposal list"
  ps_policyAuthorizedSendGrantSetHash :: string
  ps_policyAuthorizedQuotaPolicyDigest :: string
  ps_policyHeadSequence :: string
  ps_policyHeadHash :: string
  ps_policyDeliveryLogPosition :: string
  ps_policyDeliveryLogHeadHash :: string
  ps_policyWitnessCheckpointId :: string
  ps_policyWitnessEvidenceDigest :: string
  ps_logHead :: signedLogHead
  ps_witnessReceipt :: witnessReceipt

definition PAGE_SNAPSHOT_KEYS :: "string list" where
  "PAGE_SNAPSHOT_KEYS =
    [''conversationId'', ''generation'', ''releaseProfileId'', ''deliveryLimitsDigest'', ''etag'', ''epoch'',
     ''rosterVersion'', ''confirmedTranscriptHash'', ''policyHeadId'', ''policyRevision'',
     ''policyMandatoryProposalCount'', ''policyMandatoryProposalSetHash'', ''policyMandatoryProposals'',
     ''policyAuthorizedSendGrantSetHash'', ''policyAuthorizedQuotaPolicyDigest'', ''policyHeadSequence'',
     ''policyHeadHash'', ''policyDeliveryLogPosition'', ''policyDeliveryLogHeadHash'',
     ''policyWitnessCheckpointId'', ''policyWitnessEvidenceDigest'', ''logHead'', ''witnessReceipt'']"

definition parseConversationPageSnapshot :: "(bytes \<Rightarrow> bytes) \<Rightarrow> jsval \<Rightarrow> pageSnapshot res" where
  "parseConversationPageSnapshot H v =
     bindE (expectExactRecord v PAGE_SNAPSHOT_KEYS) (\<lambda>record.
     bindE (parseUint63String (record ''epoch'')) (\<lambda>epoch.
     bindE (parseUint63String (record ''rosterVersion'')) (\<lambda>rosterVersion.
     bindE (parseConversationEtag (record ''etag'')) (\<lambda>etag.
     bindE (guardE (etag = etagText epoch rosterVersion) ConversationSyncValidationError) (\<lambda>_.
     bindE (parseConversationId (record ''conversationId'')) (\<lambda>conversationId.
     bindE (parseSignedDeliveryLogHead H conversationId (record ''logHead'')) (\<lambda>logHead.
     bindE (parseUint63String (record ''policyDeliveryLogPosition'')) (\<lambda>policyDeliveryLogPosition.
     bindE (parseHash32 (record ''policyDeliveryLogHeadHash'')) (\<lambda>policyDeliveryLogHeadHash.
     bindE (guardE (\<not> (bigInt policyDeliveryLogPosition > bigInt (lh_position logHead) \<or> ((policyDeliveryLogPosition = ''0'') \<noteq> (policyDeliveryLogHeadHash = ZERO_HASH32))
        \<or> (policyDeliveryLogPosition = lh_position logHead \<and> policyDeliveryLogHeadHash \<noteq> lh_headHash logHead))) ConversationSyncValidationError) (\<lambda>_.
     bindE (parseWitnessReceipt (record ''witnessReceipt'')) (\<lambda>witnessReceipt.
     bindE (guardE (\<not> (wr_conversationId witnessReceipt \<noteq> conversationId \<or> wr_position witnessReceipt \<noteq> lh_position logHead \<or> wr_headHash witnessReceipt \<noteq> lh_headHash logHead)) ConversationSyncValidationError) (\<lambda>_.
     bindE (parseUint63String (record ''policyMandatoryProposalCount'')) (\<lambda>policyMandatoryProposalCount.
     bindE (parseHash32 (record ''policyMandatoryProposalSetHash'')) (\<lambda>policyMandatoryProposalSetHash.
     bindE (parsePolicyMandatoryProposals (record ''policyMandatoryProposals'')) (\<lambda>policyMandatoryProposals.
     bindE (validatePolicyMandatoryProposalProjection H policyMandatoryProposalCount policyMandatoryProposalSetHash policyMandatoryProposals) (\<lambda>_.
     bindE (parsePositive (record ''generation'')) (\<lambda>generation.
     bindE (parseReleaseProfileId (record ''releaseProfileId'')) (\<lambda>releaseProfileId.
     bindE (parseHash32 (record ''deliveryLimitsDigest'')) (\<lambda>deliveryLimitsDigest.
     bindE (parseHash32 (record ''confirmedTranscriptHash'')) (\<lambda>confirmedTranscriptHash.
     bindE (parsePolicyHeadId (record ''policyHeadId'')) (\<lambda>policyHeadId.
     bindE (parsePositive (record ''policyRevision'')) (\<lambda>policyRevision.
     bindE (parseHash32 (record ''policyAuthorizedSendGrantSetHash'')) (\<lambda>policyAuthorizedSendGrantSetHash.
     bindE (parseHash32 (record ''policyAuthorizedQuotaPolicyDigest'')) (\<lambda>policyAuthorizedQuotaPolicyDigest.
     bindE (parsePositive (record ''policyHeadSequence'')) (\<lambda>policyHeadSequence.
     bindE (parseNonZeroHash32Sync (record ''policyHeadHash'')) (\<lambda>policyHeadHash.
     bindE (parseWitnessCheckpointId (record ''policyWitnessCheckpointId'')) (\<lambda>policyWitnessCheckpointId.
     bindE (parseHash32 (record ''policyWitnessEvidenceDigest'')) (\<lambda>policyWitnessEvidenceDigest.
     Inr \<lparr>ps_conversationId = conversationId, ps_generation = generation,
          ps_releaseProfileId = releaseProfileId, ps_deliveryLimitsDigest = deliveryLimitsDigest,
          ps_etag = etag, ps_epoch = epoch, ps_rosterVersion = rosterVersion,
          ps_confirmedTranscriptHash = confirmedTranscriptHash, ps_policyHeadId = policyHeadId,
          ps_policyRevision = policyRevision, ps_policyMandatoryProposalCount = policyMandatoryProposalCount,
          ps_policyMandatoryProposalSetHash = policyMandatoryProposalSetHash,
          ps_policyMandatoryProposals = policyMandatoryProposals,
          ps_policyAuthorizedSendGrantSetHash = policyAuthorizedSendGrantSetHash,
          ps_policyAuthorizedQuotaPolicyDigest = policyAuthorizedQuotaPolicyDigest,
          ps_policyHeadSequence = policyHeadSequence, ps_policyHeadHash = policyHeadHash,
          ps_policyDeliveryLogPosition = policyDeliveryLogPosition,
          ps_policyDeliveryLogHeadHash = policyDeliveryLogHeadHash,
          ps_policyWitnessCheckpointId = policyWitnessCheckpointId,
          ps_policyWitnessEvidenceDigest = policyWitnessEvidenceDigest, ps_logHead = logHead,
          ps_witnessReceipt = witnessReceipt\<rparr>))))))))))))))))))))))))))))"

definition entriesPageSnapshot :: "pageSnapshot \<Rightarrow> (string \<times> jsval) list" where
  "entriesPageSnapshot r =
     [(''conversationId'', JStr (ps_conversationId r)), (''generation'', JStr (ps_generation r)),
      (''releaseProfileId'', JStr (ps_releaseProfileId r)),
      (''deliveryLimitsDigest'', JStr (ps_deliveryLimitsDigest r)), (''etag'', JStr (ps_etag r)),
      (''epoch'', JStr (ps_epoch r)), (''rosterVersion'', JStr (ps_rosterVersion r)),
      (''confirmedTranscriptHash'', JStr (ps_confirmedTranscriptHash r)),
      (''policyHeadId'', JStr (ps_policyHeadId r)), (''policyRevision'', JStr (ps_policyRevision r)),
      (''policyMandatoryProposalCount'', JStr (ps_policyMandatoryProposalCount r)),
      (''policyMandatoryProposalSetHash'', JStr (ps_policyMandatoryProposalSetHash r)),
      (''policyMandatoryProposals'', encodeMandatoryProposals (ps_policyMandatoryProposals r)),
      (''policyAuthorizedSendGrantSetHash'', JStr (ps_policyAuthorizedSendGrantSetHash r)),
      (''policyAuthorizedQuotaPolicyDigest'', JStr (ps_policyAuthorizedQuotaPolicyDigest r)),
      (''policyHeadSequence'', JStr (ps_policyHeadSequence r)),
      (''policyHeadHash'', JStr (ps_policyHeadHash r)),
      (''policyDeliveryLogPosition'', JStr (ps_policyDeliveryLogPosition r)),
      (''policyDeliveryLogHeadHash'', JStr (ps_policyDeliveryLogHeadHash r)),
      (''policyWitnessCheckpointId'', JStr (ps_policyWitnessCheckpointId r)),
      (''policyWitnessEvidenceDigest'', JStr (ps_policyWitnessEvidenceDigest r)),
      (''logHead'', encodeLogHead (ps_logHead r)), (''witnessReceipt'', encodeReceipt (ps_witnessReceipt r))]"

definition encodePageSnapshot :: "pageSnapshot \<Rightarrow> jsval" where
  "encodePageSnapshot r = mkRecord (entriesPageSnapshot r)"

definition pageSnapshotValid :: "(bytes \<Rightarrow> bytes) \<Rightarrow> pageSnapshot \<Rightarrow> bool" where
  "pageSnapshotValid H r =
     (uuidV4Valid (ps_conversationId r) \<and> positiveUint63Valid (ps_generation r) \<and>
      RELEASE_PROFILE_ID (ps_releaseProfileId r) \<and> hash32Valid (ps_deliveryLimitsDigest r) \<and>
      etagValid (ps_etag r) \<and> uint63Valid (ps_epoch r) \<and> uint63Valid (ps_rosterVersion r) \<and>
      hash32Valid (ps_confirmedTranscriptHash r) \<and> uuidV4Valid (ps_policyHeadId r) \<and>
      positiveUint63Valid (ps_policyRevision r) \<and> uint63Valid (ps_policyMandatoryProposalCount r) \<and>
      hash32Valid (ps_policyMandatoryProposalSetHash r) \<and>
      mandatoryProposalsValid (ps_policyMandatoryProposals r) \<and>
      hash32Valid (ps_policyAuthorizedSendGrantSetHash r) \<and>
      hash32Valid (ps_policyAuthorizedQuotaPolicyDigest r) \<and>
      positiveUint63Valid (ps_policyHeadSequence r) \<and> nonZeroHashValid (ps_policyHeadHash r) \<and>
      uint63Valid (ps_policyDeliveryLogPosition r) \<and> hash32Valid (ps_policyDeliveryLogHeadHash r) \<and>
      uuidV4Valid (ps_policyWitnessCheckpointId r) \<and>
      hash32Valid (ps_policyWitnessEvidenceDigest r) \<and>
      logHeadValid H (ps_conversationId r) (ps_logHead r) \<and> receiptValid (ps_witnessReceipt r) \<and>
      ps_etag r = etagText (ps_epoch r) (ps_rosterVersion r) \<and>
      \<not> (bigInt (ps_policyDeliveryLogPosition r) > bigInt (lh_position (ps_logHead r)) \<or> (((ps_policyDeliveryLogPosition r) = ''0'') \<noteq> ((ps_policyDeliveryLogHeadHash r) = ZERO_HASH32))
        \<or> ((ps_policyDeliveryLogPosition r) = lh_position (ps_logHead r) \<and> (ps_policyDeliveryLogHeadHash r) \<noteq> lh_headHash (ps_logHead r))) \<and>
      \<not> (wr_conversationId (ps_witnessReceipt r) \<noteq> (ps_conversationId r) \<or> wr_position (ps_witnessReceipt r) \<noteq> lh_position (ps_logHead r) \<or> wr_headHash (ps_witnessReceipt r) \<noteq> lh_headHash (ps_logHead r)) \<and>
      validatePolicyMandatoryProposalProjection H (ps_policyMandatoryProposalCount r) (ps_policyMandatoryProposalSetHash r) (ps_policyMandatoryProposals r) = Inr ())"

lemma entriesPageSnapshot_get_1:
  "fieldOf (entriesPageSnapshot r) ''conversationId'' = JStr (ps_conversationId r)"
  "fieldOf (entriesPageSnapshot r) ''generation'' = JStr (ps_generation r)"
  "fieldOf (entriesPageSnapshot r) ''releaseProfileId'' = JStr (ps_releaseProfileId r)"
  "fieldOf (entriesPageSnapshot r) ''deliveryLimitsDigest'' = JStr (ps_deliveryLimitsDigest r)"
  "fieldOf (entriesPageSnapshot r) ''etag'' = JStr (ps_etag r)"
  "fieldOf (entriesPageSnapshot r) ''epoch'' = JStr (ps_epoch r)"
  "fieldOf (entriesPageSnapshot r) ''rosterVersion'' = JStr (ps_rosterVersion r)"
  "fieldOf (entriesPageSnapshot r) ''confirmedTranscriptHash'' = JStr (ps_confirmedTranscriptHash r)"
  by (simp_all add: entriesPageSnapshot_def)

lemma entriesPageSnapshot_get_2:
  "fieldOf (entriesPageSnapshot r) ''policyHeadId'' = JStr (ps_policyHeadId r)"
  "fieldOf (entriesPageSnapshot r) ''policyRevision'' = JStr (ps_policyRevision r)"
  "fieldOf (entriesPageSnapshot r) ''policyMandatoryProposalCount'' = JStr (ps_policyMandatoryProposalCount r)"
  "fieldOf (entriesPageSnapshot r) ''policyMandatoryProposalSetHash'' = JStr (ps_policyMandatoryProposalSetHash r)"
  "fieldOf (entriesPageSnapshot r) ''policyMandatoryProposals'' = encodeMandatoryProposals (ps_policyMandatoryProposals r)"
  "fieldOf (entriesPageSnapshot r) ''policyAuthorizedSendGrantSetHash'' = JStr (ps_policyAuthorizedSendGrantSetHash r)"
  "fieldOf (entriesPageSnapshot r) ''policyAuthorizedQuotaPolicyDigest'' = JStr (ps_policyAuthorizedQuotaPolicyDigest r)"
  "fieldOf (entriesPageSnapshot r) ''policyHeadSequence'' = JStr (ps_policyHeadSequence r)"
  by (simp_all add: entriesPageSnapshot_def)

lemma entriesPageSnapshot_get_3:
  "fieldOf (entriesPageSnapshot r) ''policyHeadHash'' = JStr (ps_policyHeadHash r)"
  "fieldOf (entriesPageSnapshot r) ''policyDeliveryLogPosition'' = JStr (ps_policyDeliveryLogPosition r)"
  "fieldOf (entriesPageSnapshot r) ''policyDeliveryLogHeadHash'' = JStr (ps_policyDeliveryLogHeadHash r)"
  "fieldOf (entriesPageSnapshot r) ''policyWitnessCheckpointId'' = JStr (ps_policyWitnessCheckpointId r)"
  "fieldOf (entriesPageSnapshot r) ''policyWitnessEvidenceDigest'' = JStr (ps_policyWitnessEvidenceDigest r)"
  "fieldOf (entriesPageSnapshot r) ''logHead'' = encodeLogHead (ps_logHead r)"
  "fieldOf (entriesPageSnapshot r) ''witnessReceipt'' = encodeReceipt (ps_witnessReceipt r)"
  by (simp_all add: entriesPageSnapshot_def)

lemmas entriesPageSnapshot_get [simp] = entriesPageSnapshot_get_1 entriesPageSnapshot_get_2 entriesPageSnapshot_get_3

lemma expect_encodePageSnapshot: "expectExactRecord (encodePageSnapshot r) PAGE_SNAPSHOT_KEYS = Inr (fieldOf (entriesPageSnapshot r))"
  unfolding encodePageSnapshot_def by (rule expectExactRecord_mkRecord) (simp_all add: PAGE_SNAPSHOT_KEYS_def entriesPageSnapshot_def)

interpretation page_snapshot_codec: record_codec "parseConversationPageSnapshot H" encodePageSnapshot "pageSnapshotValid H" for H
proof
  show "pageSnapshotValid H r" if "parseConversationPageSnapshot H v = Inr r" for v r
    using that unfolding parseConversationPageSnapshot_def
    by (elim bindE_InrE, simp only: parse_simps guardE_eq_Inr sum.inject, elim conjE, hypsubst, simp add: pageSnapshotValid_def mandatory_codec.parse_wf log_head_codec.parse_wf receipt_codec.parse_wf)
  show "parseConversationPageSnapshot H (encodePageSnapshot r) = Inr r" if "pageSnapshotValid H r" for r
    using that by (cases r) (simp add: parseConversationPageSnapshot_def expect_encodePageSnapshot parse_ok pageSnapshotValid_def mandatory_codec.parse_encode log_head_codec.parse_encode receipt_codec.parse_encode split: option.splits)
qed

subsection \<open>The heads a snapshot may name\<close>

definition anchorOfEnvelope :: "storedEnvelope \<Rightarrow> headAnchor" where
  "anchorOfEnvelope envelope =
     (let e = storedCommon envelope in
      \<lparr>ha_position = se_position e, ha_previousHeadHash = se_previousHeadHash e, ha_headHash = se_headHash e,
       ha_checkpointReceivedAt = Some (se_receivedAt e)\<rparr>)"

text \<open>The map of the source: the anchor under its position, then each event, a later entry replacing an earlier one.\<close>

definition pageHeads :: "headAnchor \<Rightarrow> eventItem list \<Rightarrow> (string \<times> headAnchor) list" where
  "pageHeads anchor events =
     rev ((ha_position anchor, anchor)
          # map (\<lambda>item. (se_position (storedCommon (ei_envelope item)), anchorOfEnvelope (ei_envelope item))) events)"

definition verifySnapshotHead :: "pageSnapshot \<Rightarrow> headAnchor \<Rightarrow> eventItem list \<Rightarrow> unit res" where
  "verifySnapshotHead snapshot anchor events =
     (let heads = map_of (pageHeads anchor events); logHead = ps_logHead snapshot; receipt = ps_witnessReceipt snapshot in
      if (case heads (lh_position logHead) of
            None \<Rightarrow> True
          | Some entry \<Rightarrow>
              ha_previousHeadHash entry \<noteq> lh_previousHeadHash logHead \<or> ha_headHash entry \<noteq> lh_headHash logHead
              \<or> ha_checkpointReceivedAt entry \<noteq> Some (lh_checkpointReceivedAt logHead))
      then Inl ConversationSyncValidationError
      else if (case heads (wr_position receipt) of None \<Rightarrow> True | Some entry \<Rightarrow> ha_headHash entry \<noteq> wr_headHash receipt)
              \<and> \<not> (wr_position receipt = lh_position logHead \<and> wr_headHash receipt = lh_headHash logHead)
      then Inl ConversationSyncValidationError
      else Inr ())"

definition verifySnapshotPolicyDeliveryAnchor :: "pageSnapshot \<Rightarrow> headAnchor \<Rightarrow> eventItem list \<Rightarrow> unit res" where
  "verifySnapshotPolicyDeliveryAnchor snapshot anchor events =
     (let position = bigInt (ps_policyDeliveryLogPosition snapshot) in
      if position = bigInt (ha_position anchor) then
        if ps_policyDeliveryLogHeadHash snapshot \<noteq> ha_headHash anchor then Inl ConversationSyncValidationError else Inr ()
      else if position < bigInt (ha_position anchor) then Inr ()
      else
        (case List.find (\<lambda>item. se_position (storedCommon (ei_envelope item)) = ps_policyDeliveryLogPosition snapshot) events of
           None \<Rightarrow> Inl ConversationSyncValidationError
         | Some item \<Rightarrow>
             if se_headHash (storedCommon (ei_envelope item)) \<noteq> ps_policyDeliveryLogHeadHash snapshot
             then Inl ConversationSyncValidationError else Inr ()))"

definition snapshotMatchesPolicyProjection :: "pageSnapshot \<Rightarrow> policyProjection \<Rightarrow> bool" where
  "snapshotMatchesPolicyProjection snapshot projection =
     (ps_etag snapshot = pp_etag projection \<and> ps_policyHeadId snapshot = pp_policyHeadId projection
      \<and> ps_policyRevision snapshot = pp_policyRevision projection
      \<and> ps_policyMandatoryProposalCount snapshot = pp_policyMandatoryProposalCount projection
      \<and> ps_policyMandatoryProposalSetHash snapshot = pp_policyMandatoryProposalSetHash projection
      \<and> samePolicyMandatoryProposals (ps_policyMandatoryProposals snapshot) (pp_policyMandatoryProposals projection)
      \<and> ps_policyAuthorizedSendGrantSetHash snapshot = pp_policyAuthorizedSendGrantSetHash projection
      \<and> ps_policyAuthorizedQuotaPolicyDigest snapshot = pp_policyAuthorizedQuotaPolicyDigest projection
      \<and> ps_policyHeadSequence snapshot = pp_policyHeadSequence projection
      \<and> ps_policyHeadHash snapshot = pp_policyHeadHash projection
      \<and> ps_policyDeliveryLogPosition snapshot = pp_policyDeliveryLogPosition projection
      \<and> ps_policyDeliveryLogHeadHash snapshot = pp_policyDeliveryLogHeadHash projection
      \<and> ps_policyWitnessCheckpointId snapshot = pp_policyWitnessCheckpointId projection
      \<and> ps_policyWitnessEvidenceDigest snapshot = pp_policyWitnessEvidenceDigest projection)"

subsection \<open>The request for a page\<close>

record pageInput =
  pi_cursorContext :: jsval
  pi_requestedCursor :: jsval
  pi_requestedCursorClaims :: "cursorClaims option"
  pi_requestedLimit :: jsval
  pi_membership :: jsval
  pi_retainedFloor :: jsval
  pi_anchor :: jsval
  pi_policyProjectionAtAnchor :: jsval
  pi_conversationGeneration :: string
  pi_releaseProfileId :: string
  pi_deliveryLimitsDigest :: string
  pi_limits :: deliveryLimits
  pi_serializedBytes :: nat

text \<open>What the first part of \<open>verifyConversationPage\<close> has established when it comes to the page itself.\<close>

record pageFrame =
  pf_context :: cursorContext
  pf_requestedLimit :: string
  pf_membership :: membershipWindow
  pf_anchor :: headAnchor
  pf_requestedAfterPosition :: string

definition boundaryBeforeJoin :: "membershipWindow \<Rightarrow> string" where
  "boundaryBeforeJoin membership = decrementPositive (mw_joinedPosition membership)"

definition requestedAfterPosition :: "pageInput \<Rightarrow> membershipWindow \<Rightarrow> string res" where
  "requestedAfterPosition input membership =
     (if pi_requestedCursor input = JNull then
        (case pi_requestedCursorClaims input of
           Some _ \<Rightarrow> Inl ConversationSyncValidationError
         | None \<Rightarrow> Inr (boundaryBeforeJoin membership))
      else
        (case pi_requestedCursorClaims input of
           None \<Rightarrow> Inl ConversationSyncValidationError
         | Some claims \<Rightarrow> Inr (cc_lastReturnedPosition claims)))"

text \<open>The next position the client needs, if it may see one at all, must still be retained.\<close>

definition checkRetention :: "cursorContext \<Rightarrow> membershipWindow \<Rightarrow> string \<Rightarrow> string \<Rightarrow> unit res" where
  "checkRetention cx membership retainedFloor after =
     (if after \<noteq> UINT63_MAX_STRING
         \<and> (case mw_removedPosition membership of None \<Rightarrow> True | Some removed \<Rightarrow> bigInt after < bigInt removed)
      then
        bindE (incrementUint63 after) (\<lambda>nextRequired.
        if bigInt retainedFloor > bigInt nextRequired
        then Inl (ConversationHistoryRetentionError (cx_conversationId cx) (cx_installationId cx) nextRequired)
        else Inr ())
      else Inr ())"

definition openPageRequest :: "pageInput \<Rightarrow> pageFrame res" where
  "openPageRequest input =
     bindE (parseConversationCursorContext (pi_cursorContext input)) (\<lambda>cx.
     bindE (parseUint63String (pi_requestedLimit input)) (\<lambda>requestedLimit.
     if requestedLimit = ''0'' \<or> bigInt requestedLimit > bigInt (conversationEventsMaxPerPage (pi_limits input))
        \<or> bigInt requestedLimit > int CONVERSATION_PAGE_HARD_MAX_EVENTS
     then Inl ConversationSyncValidationError
     else
       bindE (parseMembershipWindow (pi_membership input)) (\<lambda>membership.
       bindE (parsePositive (pi_retainedFloor input)) (\<lambda>retainedFloor.
       bindE (parseHeadAnchor (pi_anchor input)) (\<lambda>anchor.
       bindE (requestedAfterPosition input membership) (\<lambda>after.
       if bigInt after < bigInt (boundaryBeforeJoin membership)
          \<or> (case mw_removedPosition membership of None \<Rightarrow> False | Some removed \<Rightarrow> bigInt after > bigInt removed)
       then Inl ConversationSyncValidationError
       else if ha_position anchor \<noteq> after then Inl ConversationSyncValidationError
       else
         bindE (validateAnchor anchor) (\<lambda>_.
         bindE (checkRetention cx membership retainedFloor after) (\<lambda>_.
         Inr \<lparr>pf_context = cx, pf_requestedLimit = requestedLimit, pf_membership = membership, pf_anchor = anchor,
              pf_requestedAfterPosition = after\<rparr>))))))))"

definition requiresJoinCommit :: "pageFrame \<Rightarrow> bool" where
  "requiresJoinCommit frame = (pf_requestedAfterPosition frame = boundaryBeforeJoin (pf_membership frame))"

definition expectedWelcomeCommitPosition :: "pageFrame \<Rightarrow> string option" where
  "expectedWelcomeCommitPosition frame =
     (if pf_requestedAfterPosition frame = boundaryBeforeJoin (pf_membership frame)
         \<and> mw_bootstrapMode (pf_membership frame) = WelcomeBootstrap
      then Some (mw_joinedPosition (pf_membership frame)) else None)"

subsection \<open>The loop over the events\<close>

record pageScan =
  sc_previousPosition :: int
  sc_previousHeadHash :: string
  sc_decodedArtifactBytes :: int
  sc_welcomeCount :: nat
  sc_envelopeIds :: "string list"
  sc_headHashes :: "string list"
  sc_events :: "eventItem list"

definition welcomeBytesOf :: "deliveryLimits \<Rightarrow> targetWelcome option \<Rightarrow> int res" where
  "welcomeBytesOf limits welcome = (case welcome of
     None \<Rightarrow> Inr 0
   | Some w \<Rightarrow> bindE (parseCanonicalBase64UrlBytes 1 (welcomeMaximum limits) (JStr (tw_welcome w))) (\<lambda>bytes. Inr (int (length bytes))))"

definition verifyPageEvent :: "(bytes \<Rightarrow> bytes) \<Rightarrow> deliveryLimits \<Rightarrow> pageFrame \<Rightarrow> pageScan \<Rightarrow> jsval \<Rightarrow> pageScan res" where
  "verifyPageEvent H limits frame scan rawEvent =
     bindE (parseConversationEventItem H rawEvent (cx_installationId (pf_context frame)) limits) (\<lambda>item.
     let e = storedCommon (ei_envelope item); position = bigInt (se_position e); membership = pf_membership frame in
     if se_conversationId e \<noteq> cx_conversationId (pf_context frame) \<or> position \<noteq> sc_previousPosition scan + 1
        \<or> se_previousHeadHash e \<noteq> sc_previousHeadHash scan
     then Inl ConversationSyncValidationError
     else if position < bigInt (mw_joinedPosition membership)
        \<or> (case mw_removedPosition membership of None \<Rightarrow> False | Some removed \<Rightarrow> position > bigInt removed)
     then Inl ConversationSyncValidationError
     else if se_envelopeId e \<in> set (sc_envelopeIds scan) \<or> se_headHash e \<in> set (sc_headHashes scan)
     then Inl ConversationSyncValidationError
     else
       bindE (verifyStoredEnvelopeHashes H (ei_envelope item)) (\<lambda>_.
       bindE (decodedEnvelopeLength (ei_envelope item) limits) (\<lambda>envelopeBytes.
       bindE (welcomeBytesOf limits (ei_welcome item)) (\<lambda>welcomeBytes.
       if ei_welcome item \<noteq> None
          \<and> (expectedWelcomeCommitPosition frame = None \<or> Some (se_position e) \<noteq> expectedWelcomeCommitPosition frame)
       then Inl ConversationSyncValidationError
       else let itemBytes = envelopeBytes + welcomeBytes; decodedArtifactBytes = sc_decodedArtifactBytes scan + itemBytes in
         if itemBytes > CONVERSATION_PAGE_HARD_MAX_FIRST_ITEM_BYTES then Inl ConversationSyncValidationError
         else if decodedArtifactBytes > bigInt (pageDecodedArtifactsMaxBytes limits)
            \<or> decodedArtifactBytes > CONVERSATION_PAGE_HARD_MAX_DECODED_ARTIFACT_BYTES
         then Inl ConversationSyncValidationError
         else Inr \<lparr>sc_previousPosition = position, sc_previousHeadHash = se_headHash e,
                   sc_decodedArtifactBytes = decodedArtifactBytes,
                   sc_welcomeCount = sc_welcomeCount scan + (if ei_welcome item = None then 0 else 1),
                   sc_envelopeIds = se_envelopeId e # sc_envelopeIds scan, sc_headHashes = se_headHash e # sc_headHashes scan,
                   sc_events = sc_events scan @ [item]\<rparr>))))"

primrec verifyPageEvents :: "(bytes \<Rightarrow> bytes) \<Rightarrow> deliveryLimits \<Rightarrow> pageFrame \<Rightarrow> pageScan \<Rightarrow> jsval list \<Rightarrow> pageScan res" where
  "verifyPageEvents H limits frame scan [] = Inr scan"
| "verifyPageEvents H limits frame scan (rawEvent # rest) =
     bindE (verifyPageEvent H limits frame scan rawEvent) (\<lambda>scan'. verifyPageEvents H limits frame scan' rest)"

definition initialScan :: "pageFrame \<Rightarrow> pageScan" where
  "initialScan frame = \<lparr>sc_previousPosition = bigInt (pf_requestedAfterPosition frame),
     sc_previousHeadHash = ha_headHash (pf_anchor frame), sc_decodedArtifactBytes = 0, sc_welcomeCount = 0,
     sc_envelopeIds = [], sc_headHashes = [], sc_events = []\<rparr>"

subsection \<open>The page\<close>

record verifiedPage =
  vp_events :: "eventItem list"
  vp_nextCursor :: string
  vp_hasMore :: bool
  vp_snapshot :: pageSnapshot
  vp_decodedArtifactBytes :: string
  vp_serializedBytes :: string

definition PAGE_KEYS :: "string list" where
  "PAGE_KEYS = [''events'', ''nextCursor'', ''hasMore'', ''snapshot'']"

text \<open>The checks after the loop, up to the two on the head of the snapshot.\<close>

definition checkJoinCommit :: "pageFrame \<Rightarrow> pageScan \<Rightarrow> unit res" where
  "checkJoinCommit frame scan =
     (if sc_welcomeCount scan > 1 then Inl ConversationSyncValidationError
      else if requiresJoinCommit frame
        \<and> (case sc_events scan of
             [] \<Rightarrow> True
           | item # _ \<Rightarrow> se_position (storedCommon (ei_envelope item)) \<noteq> mw_joinedPosition (pf_membership frame)
                        \<or> se_envelopeClass (storedCommon (ei_envelope item)) \<noteq> MlsCommit)
      then Inl ConversationSyncValidationError
      else if expectedWelcomeCommitPosition frame \<noteq> None \<and> sc_welcomeCount scan \<noteq> 1 then Inl ConversationSyncValidationError
      else Inr ())"

text \<open>The checks that the page ends at the head of the snapshot and hides nothing.\<close>

definition checkPageEnd :: "(bytes \<Rightarrow> bytes) \<Rightarrow> pageInput \<Rightarrow> pageFrame \<Rightarrow> pageScan \<Rightarrow> pageSnapshot \<Rightarrow> bool \<Rightarrow> unit res" where
  "checkPageEnd H input frame scan snapshot hasMore =
     (let snapshotPosition = bigInt (lh_position (ps_logHead snapshot)); removedPosition = mw_removedPosition (pf_membership frame) in
      bindE (if sc_events scan = [] then
               if hasMore \<or> snapshotPosition \<noteq> bigInt (pf_requestedAfterPosition frame) then Inl ConversationSyncValidationError
               else bindE (parseConversationPolicyProjection H (pi_policyProjectionAtAnchor input)) (\<lambda>projection.
                 if \<not> snapshotMatchesPolicyProjection snapshot projection then Inl ConversationSyncValidationError else Inr ())
             else if snapshotPosition \<noteq> sc_previousPosition scan then Inl ConversationSyncValidationError
             else Inr ()) (\<lambda>_.
      if (case removedPosition of None \<Rightarrow> False | Some removed \<Rightarrow> snapshotPosition > bigInt removed)
      then Inl ConversationSyncValidationError
      else if removedPosition = Some (lh_position (ps_logHead snapshot)) \<and> hasMore then Inl ConversationSyncValidationError
      else Inr ()))"

definition verifyConversationPage :: "(bytes \<Rightarrow> bytes) \<Rightarrow> jsval \<Rightarrow> pageInput \<Rightarrow> verifiedPage res" where
  "verifyConversationPage H v input =
     bindE (openPageRequest input) (\<lambda>frame.
     bindE (expectExactRecord v PAGE_KEYS) (\<lambda>record.
     bindE (expectDenseArray (record ''events'') (bigInt (pf_requestedLimit frame))) (\<lambda>rawEvents.
     case record ''hasMore'' of
       JBool hasMore \<Rightarrow>
         bindE (parseEncodedConversationCursor (record ''nextCursor'') (encodeLimits (pi_limits input))) (\<lambda>nextCursor.
         bindE (parseConversationPageSnapshot H (record ''snapshot'')) (\<lambda>snapshot.
         if ps_conversationId snapshot \<noteq> cx_conversationId (pf_context frame)
            \<or> ps_generation snapshot \<noteq> pi_conversationGeneration input
            \<or> ps_releaseProfileId snapshot \<noteq> pi_releaseProfileId input
            \<or> ps_deliveryLimitsDigest snapshot \<noteq> pi_deliveryLimitsDigest input
         then Inl ConversationSyncValidationError
         else
           bindE (verifyPageEvents H (pi_limits input) frame (initialScan frame) rawEvents) (\<lambda>scan.
           bindE (checkJoinCommit frame scan) (\<lambda>_.
           bindE (verifySnapshotHead snapshot (pf_anchor frame) (sc_events scan)) (\<lambda>_.
           bindE (verifySnapshotPolicyDeliveryAnchor snapshot (pf_anchor frame) (sc_events scan)) (\<lambda>_.
           bindE (checkPageEnd H input frame scan snapshot hasMore) (\<lambda>_.
           Inr \<lparr>vp_events = sc_events scan, vp_nextCursor = nextCursor, vp_hasMore = hasMore, vp_snapshot = snapshot,
                vp_decodedArtifactBytes = bigIntToString (sc_decodedArtifactBytes scan),
                vp_serializedBytes = showNat (pi_serializedBytes input)\<rparr>)))))))
     | _ \<Rightarrow> Inl ConversationSyncValidationError)))"

end
