(* ===== verification/SyncPrefix.thy ===== *)
theory SyncPrefix
  imports SyncPage AppendSnapshot
begin

section \<open>The verified prefix of a conversation\<close>

text \<open>
  The record a client keeps of the part of a conversation it has verified (\<open>src/src/production/delivery/sync.ts\<close>): the
  bindings of the senders of commits, the proposals that are staged at the anchor, and the digest that ties identity,
  membership, log, MLS state, witness, policy and release together as one unit.
\<close>

definition CONVERSATION_VERIFIED_PREFIX_EVIDENCE_DIGEST_DOMAIN :: string where
  "CONVERSATION_VERIFIED_PREFIX_EVIDENCE_DIGEST_DOMAIN = ''jb-msg-conversation-verified-prefix/v1''"

subsection \<open>Bindings of commit senders\<close>

definition nonEmptyRange :: "string option \<Rightarrow> string \<Rightarrow> bool" where
  "nonEmptyRange inactiveAt activeFrom = (case inactiveAt of None \<Rightarrow> True | Some until \<Rightarrow> bigInt activeFrom < bigInt until)"

record senderBinding =
  sb_accountId :: string
  sb_installationId :: string
  sb_credentialId :: string
  sb_credentialFingerprint :: string
  sb_credentialRevocationVersion :: string
  sb_senderGeneration :: string
  sb_activeFromPosition :: string
  sb_inactiveAtPosition :: "string option"

definition SENDER_BINDING_KEYS :: "string list" where
  "SENDER_BINDING_KEYS =
    [''accountId'', ''installationId'', ''credentialId'', ''credentialFingerprint'',
     ''credentialRevocationVersion'', ''senderGeneration'', ''activeFromPosition'', ''inactiveAtPosition'']"

definition parseSenderBinding :: "jsval \<Rightarrow> senderBinding res" where
  "parseSenderBinding v =
     bindE (expectExactRecord v SENDER_BINDING_KEYS) (\<lambda>record.
     bindE (parsePositive (record ''activeFromPosition'')) (\<lambda>activeFromPosition.
     bindE (parseNullable parsePositive (record ''inactiveAtPosition'')) (\<lambda>inactiveAtPosition.
     bindE (guardE (nonEmptyRange inactiveAtPosition activeFromPosition) ConversationSyncValidationError) (\<lambda>_.
     bindE (parseAccountId (record ''accountId'')) (\<lambda>accountId.
     bindE (parseInstallationId (record ''installationId'')) (\<lambda>installationId.
     bindE (parseCredentialId (record ''credentialId'')) (\<lambda>credentialId.
     bindE (parseFingerprint32 (record ''credentialFingerprint'')) (\<lambda>credentialFingerprint.
     bindE (parseUint63String (record ''credentialRevocationVersion'')) (\<lambda>credentialRevocationVersion.
     bindE (parsePositive (record ''senderGeneration'')) (\<lambda>senderGeneration.
     Inr \<lparr>sb_accountId = accountId, sb_installationId = installationId, sb_credentialId = credentialId,
          sb_credentialFingerprint = credentialFingerprint,
          sb_credentialRevocationVersion = credentialRevocationVersion,
          sb_senderGeneration = senderGeneration, sb_activeFromPosition = activeFromPosition,
          sb_inactiveAtPosition = inactiveAtPosition\<rparr>))))))))))"

definition entriesSenderBinding :: "senderBinding \<Rightarrow> (string \<times> jsval) list" where
  "entriesSenderBinding r =
     [(''accountId'', JStr (sb_accountId r)), (''installationId'', JStr (sb_installationId r)),
      (''credentialId'', JStr (sb_credentialId r)),
      (''credentialFingerprint'', JStr (sb_credentialFingerprint r)),
      (''credentialRevocationVersion'', JStr (sb_credentialRevocationVersion r)),
      (''senderGeneration'', JStr (sb_senderGeneration r)),
      (''activeFromPosition'', JStr (sb_activeFromPosition r)),
      (''inactiveAtPosition'', encodeNullable (sb_inactiveAtPosition r))]"

definition encodeSenderBinding :: "senderBinding \<Rightarrow> jsval" where
  "encodeSenderBinding r = mkRecord (entriesSenderBinding r)"

definition senderBindingValid :: "senderBinding \<Rightarrow> bool" where
  "senderBindingValid r =
     (uuidV4Valid (sb_accountId r) \<and> uuidV4Valid (sb_installationId r) \<and>
      uuidV4Valid (sb_credentialId r) \<and> hash32Valid (sb_credentialFingerprint r) \<and>
      uint63Valid (sb_credentialRevocationVersion r) \<and> positiveUint63Valid (sb_senderGeneration r) \<and>
      positiveUint63Valid (sb_activeFromPosition r) \<and>
      (case sb_inactiveAtPosition r of None \<Rightarrow> True | Some x \<Rightarrow> positiveUint63Valid x) \<and>
      nonEmptyRange (sb_inactiveAtPosition r) (sb_activeFromPosition r))"

lemma entriesSenderBinding_get [simp]:
  "fieldOf (entriesSenderBinding r) ''accountId'' = JStr (sb_accountId r)"
  "fieldOf (entriesSenderBinding r) ''installationId'' = JStr (sb_installationId r)"
  "fieldOf (entriesSenderBinding r) ''credentialId'' = JStr (sb_credentialId r)"
  "fieldOf (entriesSenderBinding r) ''credentialFingerprint'' = JStr (sb_credentialFingerprint r)"
  "fieldOf (entriesSenderBinding r) ''credentialRevocationVersion'' = JStr (sb_credentialRevocationVersion r)"
  "fieldOf (entriesSenderBinding r) ''senderGeneration'' = JStr (sb_senderGeneration r)"
  "fieldOf (entriesSenderBinding r) ''activeFromPosition'' = JStr (sb_activeFromPosition r)"
  "fieldOf (entriesSenderBinding r) ''inactiveAtPosition'' = encodeNullable (sb_inactiveAtPosition r)"
  by (simp_all add: entriesSenderBinding_def)

lemma expect_encodeSenderBinding: "expectExactRecord (encodeSenderBinding r) SENDER_BINDING_KEYS = Inr (fieldOf (entriesSenderBinding r))"
  unfolding encodeSenderBinding_def by (rule expectExactRecord_mkRecord) (simp_all add: SENDER_BINDING_KEYS_def entriesSenderBinding_def)

interpretation sender_binding_codec: record_codec parseSenderBinding encodeSenderBinding senderBindingValid
proof
  show "senderBindingValid r" if "parseSenderBinding v = Inr r" for v r
    using that unfolding parseSenderBinding_def
    by (elim bindE_InrE, simp only: parse_simps guardE_eq_Inr sum.inject, elim conjE, hypsubst, simp add: senderBindingValid_def)
  show "parseSenderBinding (encodeSenderBinding r) = Inr r" if "senderBindingValid r" for r
    using that by (simp add: parseSenderBinding_def expect_encodeSenderBinding parse_ok senderBindingValid_def split: option.splits)
qed

definition rangeEnd :: "senderBinding \<Rightarrow> int" where
  "rangeEnd b = (case sb_inactiveAtPosition b of None \<Rightarrow> 9223372036854775808 | Some p \<Rightarrow> bigInt p)"

definition bindingsOverlap :: "senderBinding \<Rightarrow> senderBinding \<Rightarrow> bool" where
  "bindingsOverlap a b = (sb_accountId a = sb_accountId b \<and> sb_installationId a = sb_installationId b
     \<and> bigInt (sb_activeFromPosition a) < rangeEnd b \<and> bigInt (sb_activeFromPosition b) < rangeEnd a)"

text \<open>The two nested loops: some pair of different entries overlaps.\<close>

primrec someOverlap :: "senderBinding list \<Rightarrow> bool" where
  "someOverlap [] = False"
| "someOverlap (a # rest) = (list_ex (bindingsOverlap a) rest \<or> someOverlap rest)"

definition parseMlsCommitSenderBindings :: "jsval \<Rightarrow> senderBinding list res" where
  "parseMlsCommitSenderBindings v =
     bindE (expectDenseArray v (int CONVERSATION_PAGE_HARD_MAX_EVENTS)) (\<lambda>entries.
     bindE (mapE parseSenderBinding entries) (\<lambda>parsed.
     if someOverlap parsed then Inl ConversationSyncValidationError else Inr parsed))"

definition encodeSenderBindings :: "senderBinding list \<Rightarrow> jsval" where
  "encodeSenderBindings bs = mkArray (map encodeSenderBinding bs)"

definition senderBindingsValid :: "senderBinding list \<Rightarrow> bool" where
  "senderBindingsValid bs = (list_all senderBindingValid bs \<and> \<not> someOverlap bs \<and> length bs \<le> CONVERSATION_PAGE_HARD_MAX_EVENTS)"

interpretation sender_bindings_codec: record_codec parseMlsCommitSenderBindings encodeSenderBindings senderBindingsValid
proof
  show "senderBindingsValid r" if "parseMlsCommitSenderBindings v = Inr r" for v r
    using that by (auto simp: parseMlsCommitSenderBindings_def bindE_eq_Inr expectDenseArray_iff mapE_eq_Inr senderBindingsValid_def
        list_all_length list_all2_conv_all_nth split: if_splits intro: sender_binding_codec.parse_wf)
  show "parseMlsCommitSenderBindings (encodeSenderBindings r) = Inr r" if "senderBindingsValid r" for r
  proof -
    have "mapE parseSenderBinding (map encodeSenderBinding r) = Inr r"
      using that by (auto simp: mapE_eq_Inr list_all2_conv_all_nth senderBindingsValid_def list_all_length sender_binding_codec.parse_encode)
    with that show ?thesis
      by (simp add: parseMlsCommitSenderBindings_def encodeSenderBindings_def expectDenseArray_mkArray senderBindingsValid_def)
  qed
qed

subsection \<open>Staged proposals\<close>

datatype proposalType = AddProposal | RemoveProposal

primrec proposalTypeText :: "proposalType \<Rightarrow> string" where
  "proposalTypeText AddProposal = ''add''"
| "proposalTypeText RemoveProposal = ''remove''"

definition parseProposalType :: "jsval \<Rightarrow> proposalType res" where
  "parseProposalType = parseOneOfString proposalTypeText [AddProposal, RemoveProposal]"

lemma proposalTypeText_inj [enum_inj]: "proposalTypeText a = proposalTypeText b \<longleftrightarrow> a = b"
  by (cases a; cases b) simp_all

lemma parseProposalType_iff [parse_simps]: "parseProposalType v = Inr x \<longleftrightarrow> v = JStr (proposalTypeText x)"
  unfolding parseProposalType_def
proof (rule parseOneOfString_iff)
  show "inj proposalTypeText" by (rule injI) (simp add: enum_inj)
  show "y \<in> set [AddProposal, RemoveProposal]" for y by (cases y) simp_all
qed

lemma parseProposalType_ok [parse_ok]: "parseProposalType (JStr (proposalTypeText x)) = Inr x"
  by (simp add: parse_simps)

datatype proposalRequirement = MandatoryProposal | OptionalProposal

primrec proposalRequirementText :: "proposalRequirement \<Rightarrow> string" where
  "proposalRequirementText MandatoryProposal = ''mandatory''"
| "proposalRequirementText OptionalProposal = ''optional''"

definition parseProposalRequirement :: "jsval \<Rightarrow> proposalRequirement res" where
  "parseProposalRequirement = parseOneOfString proposalRequirementText [MandatoryProposal, OptionalProposal]"

lemma proposalRequirementText_inj [enum_inj]: "proposalRequirementText a = proposalRequirementText b \<longleftrightarrow> a = b"
  by (cases a; cases b) simp_all

lemma parseProposalRequirement_iff [parse_simps]: "parseProposalRequirement v = Inr x \<longleftrightarrow> v = JStr (proposalRequirementText x)"
  unfolding parseProposalRequirement_def
proof (rule parseOneOfString_iff)
  show "inj proposalRequirementText" by (rule injI) (simp add: enum_inj)
  show "y \<in> set [MandatoryProposal, OptionalProposal]" for y by (cases y) simp_all
qed

lemma parseProposalRequirement_ok [parse_ok]: "parseProposalRequirement (JStr (proposalRequirementText x)) = Inr x"
  by (simp add: parse_simps)

record stagedProposal =
  sp_position :: string
  sp_envelopeId :: string
  sp_envelopeSha256 :: string
  sp_epoch :: string
  sp_proposalId :: string
  sp_proposalHash :: string
  sp_authorizationRecordHash :: string
  sp_membershipIntentId :: string
  sp_membershipIntentHash :: string
  sp_membershipIntentEvidenceDigest :: string
  sp_proposalType :: proposalType
  sp_proposalRequirement :: proposalRequirement
  sp_authorizingPolicyHeadSequence :: string
  sp_authorizingPolicyHeadHash :: string

definition STAGED_PROPOSAL_KEYS :: "string list" where
  "STAGED_PROPOSAL_KEYS =
    [''position'', ''envelopeId'', ''envelopeSha256'', ''epoch'', ''proposalId'', ''proposalHash'',
     ''authorizationRecordHash'', ''membershipIntentId'', ''membershipIntentHash'',
     ''membershipIntentEvidenceDigest'', ''proposalType'', ''proposalRequirement'',
     ''authorizingPolicyHeadSequence'', ''authorizingPolicyHeadHash'']"

definition parseStagedProposal :: "jsval \<Rightarrow> stagedProposal res" where
  "parseStagedProposal v =
     bindE (expectExactRecord v STAGED_PROPOSAL_KEYS) (\<lambda>record.
     bindE (parsePositive (record ''position'')) (\<lambda>position.
     bindE (parseEnvelopeId (record ''envelopeId'')) (\<lambda>envelopeId.
     bindE (parseHash32 (record ''envelopeSha256'')) (\<lambda>envelopeSha256.
     bindE (parseUint63String (record ''epoch'')) (\<lambda>epoch.
     bindE (parseProposalId (record ''proposalId'')) (\<lambda>proposalId.
     bindE (parseHash32 (record ''proposalHash'')) (\<lambda>proposalHash.
     bindE (parseHash32 (record ''authorizationRecordHash'')) (\<lambda>authorizationRecordHash.
     bindE (parseMembershipIntentId (record ''membershipIntentId'')) (\<lambda>membershipIntentId.
     bindE (parseHash32 (record ''membershipIntentHash'')) (\<lambda>membershipIntentHash.
     bindE (parseHash32 (record ''membershipIntentEvidenceDigest'')) (\<lambda>membershipIntentEvidenceDigest.
     bindE (parseProposalType (record ''proposalType'')) (\<lambda>proposalType.
     bindE (parseProposalRequirement (record ''proposalRequirement'')) (\<lambda>proposalRequirement.
     bindE (parsePositive (record ''authorizingPolicyHeadSequence'')) (\<lambda>authorizingPolicyHeadSequence.
     bindE (parseHash32 (record ''authorizingPolicyHeadHash'')) (\<lambda>authorizingPolicyHeadHash.
     Inr \<lparr>sp_position = position, sp_envelopeId = envelopeId, sp_envelopeSha256 = envelopeSha256,
          sp_epoch = epoch, sp_proposalId = proposalId, sp_proposalHash = proposalHash,
          sp_authorizationRecordHash = authorizationRecordHash, sp_membershipIntentId = membershipIntentId,
          sp_membershipIntentHash = membershipIntentHash,
          sp_membershipIntentEvidenceDigest = membershipIntentEvidenceDigest, sp_proposalType = proposalType,
          sp_proposalRequirement = proposalRequirement,
          sp_authorizingPolicyHeadSequence = authorizingPolicyHeadSequence,
          sp_authorizingPolicyHeadHash = authorizingPolicyHeadHash\<rparr>)))))))))))))))"

definition entriesStagedProposal :: "stagedProposal \<Rightarrow> (string \<times> jsval) list" where
  "entriesStagedProposal r =
     [(''position'', JStr (sp_position r)), (''envelopeId'', JStr (sp_envelopeId r)),
      (''envelopeSha256'', JStr (sp_envelopeSha256 r)), (''epoch'', JStr (sp_epoch r)),
      (''proposalId'', JStr (sp_proposalId r)), (''proposalHash'', JStr (sp_proposalHash r)),
      (''authorizationRecordHash'', JStr (sp_authorizationRecordHash r)),
      (''membershipIntentId'', JStr (sp_membershipIntentId r)),
      (''membershipIntentHash'', JStr (sp_membershipIntentHash r)),
      (''membershipIntentEvidenceDigest'', JStr (sp_membershipIntentEvidenceDigest r)),
      (''proposalType'', JStr (proposalTypeText (sp_proposalType r))),
      (''proposalRequirement'', JStr (proposalRequirementText (sp_proposalRequirement r))),
      (''authorizingPolicyHeadSequence'', JStr (sp_authorizingPolicyHeadSequence r)),
      (''authorizingPolicyHeadHash'', JStr (sp_authorizingPolicyHeadHash r))]"

definition encodeStagedProposal :: "stagedProposal \<Rightarrow> jsval" where
  "encodeStagedProposal r = mkRecord (entriesStagedProposal r)"

definition stagedProposalValid :: "stagedProposal \<Rightarrow> bool" where
  "stagedProposalValid r =
     (positiveUint63Valid (sp_position r) \<and> uuidV4Valid (sp_envelopeId r) \<and>
      hash32Valid (sp_envelopeSha256 r) \<and> uint63Valid (sp_epoch r) \<and>
      uuidV7Valid (sp_proposalId r) \<and> hash32Valid (sp_proposalHash r) \<and>
      hash32Valid (sp_authorizationRecordHash r) \<and> uuidV7Valid (sp_membershipIntentId r) \<and>
      hash32Valid (sp_membershipIntentHash r) \<and> hash32Valid (sp_membershipIntentEvidenceDigest r) \<and>
      positiveUint63Valid (sp_authorizingPolicyHeadSequence r) \<and>
      hash32Valid (sp_authorizingPolicyHeadHash r))"

lemma entriesStagedProposal_get [simp]:
  "fieldOf (entriesStagedProposal r) ''position'' = JStr (sp_position r)"
  "fieldOf (entriesStagedProposal r) ''envelopeId'' = JStr (sp_envelopeId r)"
  "fieldOf (entriesStagedProposal r) ''envelopeSha256'' = JStr (sp_envelopeSha256 r)"
  "fieldOf (entriesStagedProposal r) ''epoch'' = JStr (sp_epoch r)"
  "fieldOf (entriesStagedProposal r) ''proposalId'' = JStr (sp_proposalId r)"
  "fieldOf (entriesStagedProposal r) ''proposalHash'' = JStr (sp_proposalHash r)"
  "fieldOf (entriesStagedProposal r) ''authorizationRecordHash'' = JStr (sp_authorizationRecordHash r)"
  "fieldOf (entriesStagedProposal r) ''membershipIntentId'' = JStr (sp_membershipIntentId r)"
  "fieldOf (entriesStagedProposal r) ''membershipIntentHash'' = JStr (sp_membershipIntentHash r)"
  "fieldOf (entriesStagedProposal r) ''membershipIntentEvidenceDigest'' = JStr (sp_membershipIntentEvidenceDigest r)"
  "fieldOf (entriesStagedProposal r) ''proposalType'' = JStr (proposalTypeText (sp_proposalType r))"
  "fieldOf (entriesStagedProposal r) ''proposalRequirement'' = JStr (proposalRequirementText (sp_proposalRequirement r))"
  "fieldOf (entriesStagedProposal r) ''authorizingPolicyHeadSequence'' = JStr (sp_authorizingPolicyHeadSequence r)"
  "fieldOf (entriesStagedProposal r) ''authorizingPolicyHeadHash'' = JStr (sp_authorizingPolicyHeadHash r)"
  by (simp_all add: entriesStagedProposal_def)

lemma expect_encodeStagedProposal: "expectExactRecord (encodeStagedProposal r) STAGED_PROPOSAL_KEYS = Inr (fieldOf (entriesStagedProposal r))"
  unfolding encodeStagedProposal_def by (rule expectExactRecord_mkRecord) (simp_all add: STAGED_PROPOSAL_KEYS_def entriesStagedProposal_def)

interpretation staged_proposal_codec: record_codec parseStagedProposal encodeStagedProposal stagedProposalValid
proof
  show "stagedProposalValid r" if "parseStagedProposal v = Inr r" for v r
    using that unfolding parseStagedProposal_def
    by (elim bindE_InrE, simp only: parse_simps guardE_eq_Inr sum.inject, elim conjE, hypsubst, simp add: stagedProposalValid_def)
  show "parseStagedProposal (encodeStagedProposal r) = Inr r" if "stagedProposalValid r" for r
    using that by (simp add: parseStagedProposal_def expect_encodeStagedProposal parse_ok stagedProposalValid_def split: option.splits)
qed

text \<open>The loop over the entries with the position of the entry before and the sets of what was seen.\<close>

record stagedSeen =
  seen_position :: int
  seen_ids :: "string list"
  seen_hashes :: "string list"
  seen_envelopes :: "string list"

definition stagedRejected :: "stagedSeen \<Rightarrow> stagedProposal \<Rightarrow> bool" where
  "stagedRejected seen p = (bigInt (sp_position p) \<le> seen_position seen \<or> sp_proposalId p \<in> set (seen_ids seen)
     \<or> sp_proposalHash p \<in> set (seen_hashes seen) \<or> sp_envelopeId p \<in> set (seen_envelopes seen)
     \<or> sp_membershipIntentHash p = ZERO_HASH32 \<or> sp_membershipIntentEvidenceDigest p = ZERO_HASH32)"

definition seeStaged :: "stagedSeen \<Rightarrow> stagedProposal \<Rightarrow> stagedSeen" where
  "seeStaged seen p = \<lparr>seen_position = bigInt (sp_position p), seen_ids = sp_proposalId p # seen_ids seen,
     seen_hashes = sp_proposalHash p # seen_hashes seen, seen_envelopes = sp_envelopeId p # seen_envelopes seen\<rparr>"

primrec stagedScan :: "stagedSeen \<Rightarrow> jsval list \<Rightarrow> stagedProposal list res" where
  "stagedScan seen [] = Inr []"
| "stagedScan seen (entry # rest) =
     bindE (parseStagedProposal entry) (\<lambda>proposal.
     if stagedRejected seen proposal then Inl ConversationSyncValidationError
     else bindE (stagedScan (seeStaged seen proposal) rest) (\<lambda>parsed. Inr (proposal # parsed)))"

definition nothingStaged :: stagedSeen where
  "nothingStaged = \<lparr>seen_position = 0, seen_ids = [], seen_hashes = [], seen_envelopes = []\<rparr>"

definition parseStagedProposalBindings :: "jsval \<Rightarrow> stagedProposal list res" where
  "parseStagedProposalBindings v =
     bindE (expectDenseArray v (int CONVERSATION_PAGE_HARD_MAX_EVENTS)) (\<lambda>entries. stagedScan nothingStaged entries)"

definition encodeStagedList :: "stagedProposal list \<Rightarrow> jsval" where
  "encodeStagedList ps = mkArray (map encodeStagedProposal ps)"

primrec stagedAccepted :: "stagedSeen \<Rightarrow> stagedProposal list \<Rightarrow> bool" where
  "stagedAccepted seen [] = True"
| "stagedAccepted seen (p # ps) = (stagedProposalValid p \<and> \<not> stagedRejected seen p \<and> stagedAccepted (seeStaged seen p) ps)"

definition stagedListValid :: "stagedProposal list \<Rightarrow> bool" where
  "stagedListValid ps = (stagedAccepted nothingStaged ps \<and> length ps \<le> CONVERSATION_PAGE_HARD_MAX_EVENTS)"

lemma stagedScan_valid: "stagedScan seen xs = Inr ps \<Longrightarrow> stagedAccepted seen ps \<and> length ps = length xs"
  by (induction xs arbitrary: seen ps) (auto simp: bindE_eq_Inr staged_proposal_codec.parse_wf split: if_splits)

lemma stagedScan_encode: "stagedAccepted seen ps \<Longrightarrow> stagedScan seen (map encodeStagedProposal ps) = Inr ps"
  by (induction ps arbitrary: seen) (auto simp: staged_proposal_codec.parse_encode)

interpretation staged_list_codec: record_codec parseStagedProposalBindings encodeStagedList stagedListValid
proof
  show "stagedListValid r" if "parseStagedProposalBindings v = Inr r" for v r
    using that by (auto simp: parseStagedProposalBindings_def bindE_eq_Inr expectDenseArray_iff stagedListValid_def dest: stagedScan_valid)
  show "parseStagedProposalBindings (encodeStagedList r) = Inr r" if "stagedListValid r" for r
    using that by (simp add: parseStagedProposalBindings_def encodeStagedList_def expectDenseArray_mkArray stagedListValid_def stagedScan_encode)
qed

definition sameStagedProposals :: "stagedProposal list \<Rightarrow> stagedProposal list \<Rightarrow> bool" where
  "sameStagedProposals left right = (length left = length right \<and> list_all (\<lambda>i. left ! i = right ! i) [0 ..< length left])"

subsection \<open>The digest of a prefix\<close>

text \<open>The input of the digest, as the caller gives it, and what it parses to.\<close>

record prefixInput =
  xi_cursorContext :: jsval
  xi_membership :: jsval
  xi_anchor :: jsval
  xi_trustedWitnessAnchor :: jsval
  xi_trustedPolicyAnchor :: jsval
  xi_mlsProjectionAtAnchor :: jsval
  xi_policyProjectionAtAnchor :: jsval
  xi_mlsCommitSenderBindings :: jsval
  xi_stagedProposalsAtAnchor :: jsval
  xi_conversationGeneration :: jsval
  xi_releaseProfileId :: jsval
  xi_deliveryLimitsDigest :: jsval
  xi_releaseTrustRootDigest :: jsval
  xi_expectedGroupIdHash :: jsval

record verifiedPrefix =
  vx_context :: cursorContext
  vx_membership :: membershipWindow
  vx_anchor :: headAnchor
  vx_witness :: witnessAnchor
  vx_policy :: policyAnchor
  vx_projection :: mlsProjection
  vx_policyProjection :: policyProjection
  vx_senderBindings :: "senderBinding list"
  vx_stagedProposals :: "stagedProposal list"
  vx_conversationGeneration :: string
  vx_releaseProfileId :: string
  vx_deliveryLimitsDigest :: string
  vx_releaseTrustRootDigest :: string
  vx_expectedGroupIdHash :: string

definition parsePrefixInput :: "(bytes \<Rightarrow> bytes) \<Rightarrow> prefixInput \<Rightarrow> verifiedPrefix res" where
  "parsePrefixInput H input =
     bindE (parseConversationCursorContext (xi_cursorContext input)) (\<lambda>cx.
     bindE (parseMembershipWindow (xi_membership input)) (\<lambda>membership.
     bindE (parseHeadAnchor (xi_anchor input)) (\<lambda>anchor.
     bindE (parseWitnessConsistencyAnchor (xi_trustedWitnessAnchor input)) (\<lambda>witness.
     bindE (parsePolicyConsistencyAnchor (xi_trustedPolicyAnchor input)) (\<lambda>policy.
     bindE (parseConversationMlsProjection (xi_mlsProjectionAtAnchor input)) (\<lambda>projection.
     bindE (parseConversationPolicyProjection H (xi_policyProjectionAtAnchor input)) (\<lambda>policyProjection.
     bindE (parseMlsCommitSenderBindings (xi_mlsCommitSenderBindings input)) (\<lambda>senderBindings.
     bindE (parseStagedProposalBindings (xi_stagedProposalsAtAnchor input)) (\<lambda>stagedProposals.
     bindE (parsePositive (xi_conversationGeneration input)) (\<lambda>conversationGeneration.
     bindE (parseReleaseProfileId (xi_releaseProfileId input)) (\<lambda>releaseProfileId.
     bindE (parseHash32 (xi_deliveryLimitsDigest input)) (\<lambda>deliveryLimitsDigest.
     bindE (parseHash32 (xi_releaseTrustRootDigest input)) (\<lambda>releaseTrustRootDigest.
     bindE (parseHash32 (xi_expectedGroupIdHash input)) (\<lambda>expectedGroupIdHash.
     Inr \<lparr>vx_context = cx, vx_membership = membership, vx_anchor = anchor, vx_witness = witness, vx_policy = policy,
          vx_projection = projection, vx_policyProjection = policyProjection, vx_senderBindings = senderBindings,
          vx_stagedProposals = stagedProposals, vx_conversationGeneration = conversationGeneration,
          vx_releaseProfileId = releaseProfileId, vx_deliveryLimitsDigest = deliveryLimitsDigest,
          vx_releaseTrustRootDigest = releaseTrustRootDigest, vx_expectedGroupIdHash = expectedGroupIdHash\<rparr>))))))))))))))"

definition encodePolicyMandatoryProposals :: "mandatoryProposal list \<Rightarrow> digestField list" where
  "encodePolicyMandatoryProposals proposals = Utf8 (showNat (length proposals)) # mandatoryDigestFields proposals"

definition senderBindingDigestFields :: "senderBinding \<Rightarrow> digestField list" where
  "senderBindingDigestFields b =
     [Utf8 (sb_accountId b), Utf8 (sb_installationId b), Utf8 (sb_credentialId b), DecodedFingerprint (sb_credentialFingerprint b),
      Utf8 (sb_credentialRevocationVersion b), Utf8 (sb_senderGeneration b), Utf8 (sb_activeFromPosition b),
      NullableText (sb_inactiveAtPosition b)]"

definition stagedDigestFields :: "stagedProposal \<Rightarrow> digestField list" where
  "stagedDigestFields p =
     [Utf8 (sp_position p), Utf8 (sp_envelopeId p), DecodedHash (sp_envelopeSha256 p), Utf8 (sp_epoch p), Utf8 (sp_proposalId p),
      DecodedHash (sp_proposalHash p), DecodedHash (sp_authorizationRecordHash p), Utf8 (sp_membershipIntentId p),
      DecodedHash (sp_membershipIntentHash p), DecodedHash (sp_membershipIntentEvidenceDigest p),
      Utf8 (proposalTypeText (sp_proposalType p)), Utf8 (proposalRequirementText (sp_proposalRequirement p)),
      Utf8 (sp_authorizingPolicyHeadSequence p), DecodedHash (sp_authorizingPolicyHeadHash p)]"

definition encodeStagedProposals :: "stagedProposal list \<Rightarrow> digestField list" where
  "encodeStagedProposals proposals = Utf8 (showNat (length proposals)) # concat (map stagedDigestFields proposals)"

text \<open>The fields before the mandatory proposals, between them and the sender bindings, and the whole list.\<close>

definition prefixIdentityFields :: "verifiedPrefix \<Rightarrow> digestField list" where
  "prefixIdentityFields x =
     (let cx = vx_context x; m = vx_membership x; a = vx_anchor x; mls = vx_projection x; pp = vx_policyProjection x in
      [Utf8 (cx_realmId cx), Utf8 (cx_accountId cx), Utf8 (cx_installationId cx), Utf8 (cx_conversationId cx),
       Utf8 CONVERSATION_EVENTS_ROUTE_TEMPLATE, Utf8 (vx_conversationGeneration x), Utf8 (vx_releaseProfileId x),
       DecodedHash (vx_deliveryLimitsDigest x), DecodedHash (vx_releaseTrustRootDigest x), DecodedHash (vx_expectedGroupIdHash x),
       Utf8 (bootstrapModeText (mw_bootstrapMode m)), Utf8 (mw_credentialId m), DecodedFingerprint (mw_credentialFingerprint m),
       Utf8 (mw_joinedPosition m), NullableText (mw_removedPosition m), Utf8 (ha_position a), DecodedHash (ha_previousHeadHash a),
       DecodedHash (ha_headHash a), NullableText (ha_checkpointReceivedAt a), Utf8 (mp_epoch mls), Utf8 (mp_rosterVersion mls),
       DecodedHash (mp_confirmedTranscriptHash mls), Utf8 (pp_etag pp), Utf8 (pp_policyHeadId pp), Utf8 (pp_policyRevision pp),
       Utf8 (pp_policyMandatoryProposalCount pp), DecodedHash (pp_policyMandatoryProposalSetHash pp)])"

definition prefixTrustFields :: "verifiedPrefix \<Rightarrow> digestField list" where
  "prefixTrustFields x =
     (let pp = vx_policyProjection x; w = vx_witness x; p = vx_policy x in
      [DecodedHash (pp_policyAuthorizedSendGrantSetHash pp), DecodedHash (pp_policyAuthorizedQuotaPolicyDigest pp),
       Utf8 (pp_policyHeadSequence pp), DecodedHash (pp_policyHeadHash pp), Utf8 (pp_policyDeliveryLogPosition pp),
       DecodedHash (pp_policyDeliveryLogHeadHash pp), Utf8 (pp_policyWitnessCheckpointId pp),
       DecodedHash (pp_policyWitnessEvidenceDigest pp), Utf8 (wa_witnessCheckpointId w), Utf8 (wa_witnessTreeSize w),
       DecodedHash (wa_witnessRootHash w), Utf8 (wa_witnessedAt w), Utf8 (pa_policyHeadSequence p), DecodedHash (pa_policyHeadHash p),
       Utf8 (pa_witnessCheckpointId p), DecodedHash (pa_witnessEvidenceDigest p)])"

definition prefixDigestFields :: "verifiedPrefix \<Rightarrow> digestField list" where
  "prefixDigestFields x = prefixIdentityFields x @ encodePolicyMandatoryProposals (pp_policyMandatoryProposals (vx_policyProjection x))
     @ prefixTrustFields x @ concat (map senderBindingDigestFields (vx_senderBindings x)) @ encodeStagedProposals (vx_stagedProposals x)"

definition computeConversationVerifiedPrefixEvidenceDigest :: "(bytes \<Rightarrow> bytes) \<Rightarrow> prefixInput \<Rightarrow> string res" where
  "computeConversationVerifiedPrefixEvidenceDigest H input =
     bindE (parsePrefixInput H input) (\<lambda>x.
     digestOf H CONVERSATION_VERIFIED_PREFIX_EVIDENCE_DIGEST_DOMAIN (prefixDigestFields x))"

end
