(* ===== verification/SyncKernel.thy ===== *)
theory SyncKernel
  imports SyncPrefix EnvelopeJson
begin

section \<open>Reading a page response\<close>

text \<open>
  \<open>parseAndVerifyConversationPageJson\<close> of \<open>src/src/production/delivery/sync.ts\<close> up to the calls of the proof verifiers: the
  checks of the prefix, the resolution of the requested cursor, the JSON of the response, the page, and the cursor
  the server issued for the next one. The cursor codec is a port: the parameter \<open>decode\<close> gives its answer for a cursor,
  or the error the call ended with. The JSON reader runs on fuel, hence the option; it is proved below that the answer
  is never \<open>None\<close>.
\<close>

definition CONVERSATION_SYNC_MAX_PORT_WAIT_MILLISECONDS :: int where
  "CONVERSATION_SYNC_MAX_PORT_WAIT_MILLISECONDS = 15000"

definition SYNC_JSON_LIMITS :: jsonLimits where
  "SYNC_JSON_LIMITS = \<lparr>jl_depth = 20, jl_nodes = 50000, jl_error = ConversationSyncValidationError\<rparr>"

definition parseStrictJsonBytes :: "bytes \<Rightarrow> json res option" where
  "parseStrictJsonBytes bs =
     (if startsWithBom bs then Some (Inl ConversationSyncValidationError)
      else (case decodeUtf8 (map unat bs) of
          None \<Rightarrow> Some (Inl ConversationSyncValidationError)
        | Some source \<Rightarrow> parseJsonText SYNC_JSON_LIMITS source))"

definition parseOwnedBytes :: "jsval \<Rightarrow> int \<Rightarrow> bytes res" where
  "parseOwnedBytes v maximum = (case copyBytes maximum v of Inl _ \<Rightarrow> Inl ConversationSyncValidationError | Inr bs \<Rightarrow> Inr bs)"

subsection \<open>Answers of ports\<close>

definition DELIVERY_PORT_UNAVAILABLE_REASONS :: "string list" where
  "DELIVERY_PORT_UNAVAILABLE_REASONS =
     [''not-configured'', ''dependency-unavailable'', ''timeout'', ''malformed-dependency-response'']"

definition PORT_ANSWER_KEYS :: "string list" where
  "PORT_ANSWER_KEYS = [''status'', ''reasonCode'']"

definition parseDeliveryPortUnavailable :: "jsval \<Rightarrow> string res" where
  "parseDeliveryPortUnavailable v =
     bindE (expectExactRecord v PORT_ANSWER_KEYS) (\<lambda>record.
     case record ''reasonCode'' of
       JStr reason \<Rightarrow>
         if record ''status'' \<noteq> JStr ''unavailable'' \<or> reason \<notin> set DELIVERY_PORT_UNAVAILABLE_REASONS
         then Inl DeliveryValidationError else Inr reason
     | _ \<Rightarrow> Inl DeliveryValidationError)"

definition throwIfDeliveryPortUnavailable :: "jsval \<Rightarrow> unit res" where
  "throwIfDeliveryPortUnavailable v =
     (if (case v of JObj pr props \<Rightarrow> recGet props ''status'' = JStr ''unavailable'' | _ \<Rightarrow> False)
      then (case parseDeliveryPortUnavailable v of
          Inr _ \<Rightarrow> Inl ConversationSyncDependencyUnavailableError
        | Inl _ \<Rightarrow> Inl ConversationSyncValidationError)
      else Inr ())"

definition isAuthenticatedCursorRejection :: "jsval \<Rightarrow> bool" where
  "isAuthenticatedCursorRejection v = (case expectExactRecord v PORT_ANSWER_KEYS of
     Inl _ \<Rightarrow> False
   | Inr record \<Rightarrow> record ''status'' = JStr ''invalid'' \<and> record ''reasonCode'' = JStr ''authentication-failed'')"

primrec normalizeConversationSyncFailure :: "err \<Rightarrow> err" where
  "normalizeConversationSyncFailure DeliveryValidationError = ConversationSyncValidationError"
| "normalizeConversationSyncFailure DeliveryStateValidationError = ConversationSyncValidationError"
| "normalizeConversationSyncFailure RangeError = ConversationSyncValidationError"
| "normalizeConversationSyncFailure TypeError = ConversationSyncValidationError"
| "normalizeConversationSyncFailure PlainError = ConversationSyncValidationError"
| "normalizeConversationSyncFailure IdempotencyValidationError = ConversationSyncValidationError"
| "normalizeConversationSyncFailure PostgresError = ConversationSyncValidationError"
| "normalizeConversationSyncFailure SyntaxError = ConversationSyncValidationError"
| "normalizeConversationSyncFailure ConversationSyncValidationError = ConversationSyncValidationError"
| "normalizeConversationSyncFailure (ConversationHistoryRetentionError c i p) = ConversationHistoryRetentionError c i p"
| "normalizeConversationSyncFailure (ConversationCursorExpiredError c i p) = ConversationCursorExpiredError c i p"
| "normalizeConversationSyncFailure ConversationCursorInvalidError = ConversationCursorInvalidError"
| "normalizeConversationSyncFailure ConversationCursorBindingFailureError = ConversationCursorBindingFailureError"
| "normalizeConversationSyncFailure ConversationSyncDependencyTimeoutError = ConversationSyncDependencyTimeoutError"
| "normalizeConversationSyncFailure ConversationSyncDependencyUnavailableError = ConversationSyncDependencyUnavailableError"
| "normalizeConversationSyncFailure DeliveryEnvelopeValidationError = ConversationSyncValidationError"

subsection \<open>The prefix of a request\<close>

record syncRequest =
  rq_prefix :: prefixInput
  rq_requestedCursor :: jsval
  rq_requestedLimit :: jsval
  rq_retainedFloor :: jsval
  rq_verifiedPrefixEvidenceDigest :: jsval
  rq_now :: jsval
  rq_deadline :: jsval
  rq_aborted :: bool
  rq_limits :: jsval

record openedSync =
  os_limits :: deliveryLimits
  os_now :: string
  os_prefix :: verifiedPrefix

text \<open>A parsed prefix handed on to a function that parses it again.\<close>

definition encodePrefix :: "verifiedPrefix \<Rightarrow> prefixInput" where
  "encodePrefix x = \<lparr>xi_cursorContext = encodeCursorContext (vx_context x), xi_membership = encodeWindow (vx_membership x),
     xi_anchor = encodeAnchor (vx_anchor x), xi_trustedWitnessAnchor = encodeWitnessAnchor (vx_witness x),
     xi_trustedPolicyAnchor = encodePolicyAnchor (vx_policy x), xi_mlsProjectionAtAnchor = encodeMlsProjection (vx_projection x),
     xi_policyProjectionAtAnchor = encodePolicyProjection (vx_policyProjection x),
     xi_mlsCommitSenderBindings = encodeSenderBindings (vx_senderBindings x),
     xi_stagedProposalsAtAnchor = encodeStagedList (vx_stagedProposals x),
     xi_conversationGeneration = JStr (vx_conversationGeneration x), xi_releaseProfileId = JStr (vx_releaseProfileId x),
     xi_deliveryLimitsDigest = JStr (vx_deliveryLimitsDigest x), xi_releaseTrustRootDigest = JStr (vx_releaseTrustRootDigest x),
     xi_expectedGroupIdHash = JStr (vx_expectedGroupIdHash x)\<rparr>"

definition substitutedMandatory :: "mandatoryProposal list \<Rightarrow> stagedProposal \<Rightarrow> bool" where
  "substitutedMandatory required staged =
     (sp_proposalRequirement staged = MandatoryProposal
      \<and> \<not> list_ex (\<lambda>r. pm_proposalId r = sp_proposalId staged \<and> pm_proposalHash r = sp_proposalHash staged) required)"

definition checkPrefixConsistency :: "verifiedPrefix \<Rightarrow> unit res" where
  "checkPrefixConsistency x =
     (let pp = vx_policyProjection x; mls = vx_projection x; anchor = vx_anchor x in
      if pp_etag pp \<noteq> etagText (mp_epoch mls) (mp_rosterVersion mls)
         \<or> bigInt (pp_policyDeliveryLogPosition pp) > bigInt (ha_position anchor)
         \<or> (pp_policyDeliveryLogPosition pp = ha_position anchor \<and> pp_policyDeliveryLogHeadHash pp \<noteq> ha_headHash anchor)
      then Inl ConversationSyncValidationError
      else if list_ex (substitutedMandatory (pp_policyMandatoryProposals pp)) (vx_stagedProposals x)
      then Inl ConversationSyncValidationError
      else if list_ex (\<lambda>p. bigInt (sp_position p) > bigInt (ha_position anchor)) (vx_stagedProposals x)
      then Inl ConversationSyncValidationError
      else Inr ())"

definition openSyncPrefix :: "(bytes \<Rightarrow> bytes) \<Rightarrow> syncRequest \<Rightarrow> openedSync res" where
  "openSyncPrefix H rq =
     (let input = rq_prefix rq in
     bindE (parseDeliveryLimits (rq_limits rq)) (\<lambda>limits.
     bindE (parseConversationCursorContext (xi_cursorContext input)) (\<lambda>cx.
     bindE (parseRfc3339Millis (rq_now rq)) (\<lambda>now.
     bindE (parseRfc3339Millis (rq_deadline rq)) (\<lambda>deadline.
     if deadline \<le> now \<or> dateMillis deadline - dateMillis now > CONVERSATION_SYNC_MAX_PORT_WAIT_MILLISECONDS \<or> rq_aborted rq
     then Inl ConversationSyncValidationError
     else
     bindE (parseReleaseProfileId (xi_releaseProfileId input)) (\<lambda>releaseProfileId.
     bindE (parsePositive (xi_conversationGeneration input)) (\<lambda>conversationGeneration.
     bindE (parseHash32 (xi_deliveryLimitsDigest input)) (\<lambda>deliveryLimitsDigest.
     bindE (computeDeliveryLimitsDigest H (encodeLimits limits)) (\<lambda>limitsDigest.
     if limitsDigest \<noteq> deliveryLimitsDigest then Inl ConversationSyncValidationError
     else
     bindE (parseHash32 (xi_expectedGroupIdHash input)) (\<lambda>expectedGroupIdHash.
     bindE (parseHash32 (xi_releaseTrustRootDigest input)) (\<lambda>releaseTrustRootDigest.
     bindE (parseWitnessConsistencyAnchor (xi_trustedWitnessAnchor input)) (\<lambda>witness.
     bindE (parsePolicyConsistencyAnchor (xi_trustedPolicyAnchor input)) (\<lambda>policy.
     bindE (parseMembershipWindow (xi_membership input)) (\<lambda>membership.
     bindE (parseHeadAnchor (xi_anchor input)) (\<lambda>anchor.
     bindE (parseConversationMlsProjection (xi_mlsProjectionAtAnchor input)) (\<lambda>projection.
     bindE (parseConversationPolicyProjection H (xi_policyProjectionAtAnchor input)) (\<lambda>policyProjection.
     bindE (parseMlsCommitSenderBindings (xi_mlsCommitSenderBindings input)) (\<lambda>senderBindings.
     bindE (parseStagedProposalBindings (xi_stagedProposalsAtAnchor input)) (\<lambda>stagedProposals.
     let x = \<lparr>vx_context = cx, vx_membership = membership, vx_anchor = anchor, vx_witness = witness, vx_policy = policy,
          vx_projection = projection, vx_policyProjection = policyProjection, vx_senderBindings = senderBindings,
          vx_stagedProposals = stagedProposals, vx_conversationGeneration = conversationGeneration,
          vx_releaseProfileId = releaseProfileId, vx_deliveryLimitsDigest = deliveryLimitsDigest,
          vx_releaseTrustRootDigest = releaseTrustRootDigest, vx_expectedGroupIdHash = expectedGroupIdHash\<rparr> in
     bindE (checkPrefixConsistency x) (\<lambda>_.
     bindE (parseHash32 (rq_verifiedPrefixEvidenceDigest rq)) (\<lambda>evidence.
     bindE (computeConversationVerifiedPrefixEvidenceDigest H (encodePrefix x)) (\<lambda>expected.
     if evidence \<noteq> expected then Inl ConversationSyncValidationError
     else Inr \<lparr>os_limits = limits, os_now = now, os_prefix = x\<rparr>))))))))))))))))))))))"

subsection \<open>The cursors of a request and of a page\<close>

definition restartPosition :: "membershipWindow \<Rightarrow> string \<Rightarrow> string" where
  "restartPosition membership retainedFloor =
     maximumUint63 (decrementPositive (mw_joinedPosition membership)) (decrementPositive retainedFloor)"

definition expiredCursorFailure :: "cursorContext \<Rightarrow> membershipWindow \<Rightarrow> string \<Rightarrow> err" where
  "expiredCursorFailure cx membership retainedFloor =
     (if (case mw_removedPosition membership of None \<Rightarrow> False | Some removed \<Rightarrow> bigInt retainedFloor > bigInt removed)
      then ConversationHistoryRetentionError (cx_conversationId cx) (cx_installationId cx) (mw_joinedPosition membership)
      else ConversationCursorExpiredError (cx_conversationId cx) (cx_installationId cx) (restartPosition membership retainedFloor))"

definition resolveRequestedCursor ::
  "(string \<Rightarrow> jsval res) \<Rightarrow> openedSync \<Rightarrow> jsval \<Rightarrow> jsval \<Rightarrow> cursorClaims option res" where
  "resolveRequestedCursor decode os requestedCursor retainedFloor =
     (if requestedCursor = JNull then Inr None
      else (case parseEncodedConversationCursor requestedCursor (encodeLimits (os_limits os)) of
          Inl _ \<Rightarrow> Inl ConversationCursorInvalidError
        | Inr encodedCursor \<Rightarrow>
            bindE (decode encodedCursor) (\<lambda>raw.
            if isAuthenticatedCursorRejection raw then Inl ConversationCursorInvalidError
            else bindE (throwIfDeliveryPortUnavailable raw) (\<lambda>_.
              case parseConversationCursorClaims raw (JStr encodedCursor) (encodeCursorContext (vx_context (os_prefix os)))
                  (JStr (os_now os)) (encodeLimits (os_limits os)) of
                Inr (CurrentCursor claims) \<Rightarrow> Inr (Some claims)
              | Inr (ExpiredCursor _) \<Rightarrow>
                  bindE (parsePositive retainedFloor) (\<lambda>floor_position.
                  Inl (expiredCursorFailure (vx_context (os_prefix os)) (vx_membership (os_prefix os)) floor_position))
              | Inr ForeignCursor \<Rightarrow> Inl ConversationCursorBindingFailureError
              | Inl _ \<Rightarrow> Inl ConversationCursorInvalidError))))"

definition resolveNextCursor :: "(string \<Rightarrow> jsval res) \<Rightarrow> openedSync \<Rightarrow> verifiedPage \<Rightarrow> cursorClaims res" where
  "resolveNextCursor decode os page =
     bindE (decode (vp_nextCursor page)) (\<lambda>raw.
     bindE (throwIfDeliveryPortUnavailable raw) (\<lambda>_.
     case parseConversationCursorClaims raw (JStr (vp_nextCursor page)) (encodeCursorContext (vx_context (os_prefix os)))
         (JStr (os_now os)) (encodeLimits (os_limits os)) of
       Inr (CurrentCursor claims) \<Rightarrow>
         if cc_lastReturnedPosition claims
            \<noteq> (if vp_events page = [] then lh_position (ps_logHead (vp_snapshot page))
               else se_position (storedCommon (ei_envelope (last (vp_events page)))))
         then Inl ConversationSyncValidationError else Inr claims
     | _ \<Rightarrow> Inl ConversationSyncValidationError))"

subsection \<open>The response\<close>

definition pageInputOf :: "syncRequest \<Rightarrow> openedSync \<Rightarrow> cursorClaims option \<Rightarrow> bytes \<Rightarrow> pageInput" where
  "pageInputOf rq os claims serialized =
     (let x = encodePrefix (os_prefix os) in
      \<lparr>pi_cursorContext = xi_cursorContext (rq_prefix rq), pi_requestedCursor = rq_requestedCursor rq, pi_requestedCursorClaims = claims,
       pi_requestedLimit = rq_requestedLimit rq, pi_membership = xi_membership x, pi_retainedFloor = rq_retainedFloor rq,
       pi_anchor = xi_anchor x, pi_policyProjectionAtAnchor = xi_policyProjectionAtAnchor x,
       pi_conversationGeneration = vx_conversationGeneration (os_prefix os), pi_releaseProfileId = vx_releaseProfileId (os_prefix os),
       pi_deliveryLimitsDigest = vx_deliveryLimitsDigest (os_prefix os), pi_limits = os_limits os, pi_serializedBytes = length serialized\<rparr>)"

definition readOpenedPage ::
  "(bytes \<Rightarrow> bytes) \<Rightarrow> (string \<Rightarrow> jsval res) \<Rightarrow> jsval \<Rightarrow> syncRequest \<Rightarrow> openedSync \<Rightarrow> (verifiedPage \<times> cursorClaims) res option" where
  "readOpenedPage H decode rawResponse rq os =
     andThen (Some (resolveRequestedCursor decode os (rq_requestedCursor rq) (rq_retainedFloor rq))) (\<lambda>claims.
     andThen (Some (parseOwnedBytes rawResponse
        (minimum (bigInt (pageSerializedResponseMaxBytes (os_limits os))) CONVERSATION_PAGE_HARD_MAX_SERIALIZED_BYTES))) (\<lambda>serialized.
     andThen (parseStrictJsonBytes serialized) (\<lambda>parsedJson.
     andThen (Some (verifyConversationPage H (jsvalOf parsedJson) (pageInputOf rq os claims serialized))) (\<lambda>page.
     andThen (Some (resolveNextCursor decode os page)) (\<lambda>nextCursorClaims.
     Some (Inr (page, nextCursorClaims)))))))"

definition readConversationPage ::
  "(bytes \<Rightarrow> bytes) \<Rightarrow> (string \<Rightarrow> jsval res) \<Rightarrow> jsval \<Rightarrow> syncRequest \<Rightarrow> (verifiedPage \<times> cursorClaims) res option" where
  "readConversationPage H decode rawResponse rq =
     andThen (Some (openSyncPrefix H rq)) (\<lambda>os. readOpenedPage H decode rawResponse rq os)"

text \<open>The exported function reports only the errors it declares.\<close>

definition normalizedPage ::
  "(bytes \<Rightarrow> bytes) \<Rightarrow> (string \<Rightarrow> jsval res) \<Rightarrow> jsval \<Rightarrow> syncRequest \<Rightarrow> (verifiedPage \<times> cursorClaims) res option" where
  "normalizedPage H decode rawResponse rq =
     map_option (map_sum normalizeConversationSyncFailure id) (readConversationPage H decode rawResponse rq)"

end
