(* ===== verification/PolicyReplay.thy ===== *)
theory PolicyReplay
  imports SyncKernel
begin

section \<open>Policy replay\<close>

text \<open>
  Models the policy replay of \<open>src/src/production/delivery/sync.ts\<close>: after the structure of a page is checked, a
  verifier port returns evidence of the policy history over the page, that is, the policy projections at its start and end
  and the transitions of the set of mandatory proposals between them, each at a position of the log. The client parses the
  evidence, compares it with what it asked for, and replays the events against the transitions: while a mandatory
  proposal is outstanding no application message may appear, and a requirement may disappear only at a Commit. The
  answer of the port is an argument; what it proves by signatures is the port's business.
\<close>

definition CONVERSATION_POLICY_REPLAY_MAX_COALESCED_TRANSITIONS :: nat where
  "CONVERSATION_POLICY_REPLAY_MAX_COALESCED_TRANSITIONS = CONVERSATION_PAGE_HARD_MAX_EVENTS + 1"

definition CONVERSATION_POLICY_REPLAY_EVIDENCE_DIGEST_DOMAIN :: string where
  "CONVERSATION_POLICY_REPLAY_EVIDENCE_DIGEST_DOMAIN = ''jb-msg-conversation-policy-replay-evidence/v1''"

definition parseExactLiteral :: "string \<Rightarrow> jsval \<Rightarrow> string res" where
  "parseExactLiteral expected v = (if v \<noteq> JStr expected then Inl ConversationSyncValidationError else Inr expected)"

lemma parseExactLiteral_iff [parse_simps]: "parseExactLiteral e v = Inr s \<longleftrightarrow> v = JStr e \<and> s = e"
  by (auto simp: parseExactLiteral_def)

lemma parseExactLiteral_ok [parse_ok]: "parseExactLiteral e (JStr e) = Inr e"
  by (simp add: parseExactLiteral_def)

subsection \<open>Projections\<close>

record replayProjection =
  rj_policyHeadId :: string
  rj_policyHeadSequence :: string
  rj_policyHeadHash :: string
  rj_deliveryLogPosition :: string
  rj_deliveryLogHeadHash :: string
  rj_mandatoryProposals :: "mandatoryProposal list"
  rj_witnessCheckpointId :: string
  rj_witnessEvidenceDigest :: string

definition REPLAY_PROJECTION_KEYS :: "string list" where
  "REPLAY_PROJECTION_KEYS =
    [''policyHeadId'', ''policyHeadSequence'', ''policyHeadHash'', ''deliveryLogPosition'',
     ''deliveryLogHeadHash'', ''mandatoryProposals'', ''witnessCheckpointId'', ''witnessEvidenceDigest'']"

definition parsePolicyReplayProjection :: "jsval \<Rightarrow> replayProjection res" where
  "parsePolicyReplayProjection v =
     bindE (expectExactRecord v REPLAY_PROJECTION_KEYS) (\<lambda>record.
     bindE (parseUint63String (record ''deliveryLogPosition'')) (\<lambda>deliveryLogPosition.
     bindE (parseHash32 (record ''deliveryLogHeadHash'')) (\<lambda>deliveryLogHeadHash.
     bindE (guardE ((deliveryLogPosition = ''0'') = (deliveryLogHeadHash = ZERO_HASH32)) ConversationSyncValidationError) (\<lambda>_.
     bindE (parsePolicyHeadId (record ''policyHeadId'')) (\<lambda>policyHeadId.
     bindE (parsePositive (record ''policyHeadSequence'')) (\<lambda>policyHeadSequence.
     bindE (parseNonZeroHash32Sync (record ''policyHeadHash'')) (\<lambda>policyHeadHash.
     bindE (parsePolicyMandatoryProposals (record ''mandatoryProposals'')) (\<lambda>mandatoryProposals.
     bindE (parseWitnessCheckpointId (record ''witnessCheckpointId'')) (\<lambda>witnessCheckpointId.
     bindE (parseHash32 (record ''witnessEvidenceDigest'')) (\<lambda>witnessEvidenceDigest.
     Inr \<lparr>rj_policyHeadId = policyHeadId, rj_policyHeadSequence = policyHeadSequence,
          rj_policyHeadHash = policyHeadHash, rj_deliveryLogPosition = deliveryLogPosition,
          rj_deliveryLogHeadHash = deliveryLogHeadHash, rj_mandatoryProposals = mandatoryProposals,
          rj_witnessCheckpointId = witnessCheckpointId, rj_witnessEvidenceDigest = witnessEvidenceDigest\<rparr>))))))))))"

definition entriesReplayProjection :: "replayProjection \<Rightarrow> (string \<times> jsval) list" where
  "entriesReplayProjection r =
     [(''policyHeadId'', JStr (rj_policyHeadId r)), (''policyHeadSequence'', JStr (rj_policyHeadSequence r)),
      (''policyHeadHash'', JStr (rj_policyHeadHash r)),
      (''deliveryLogPosition'', JStr (rj_deliveryLogPosition r)),
      (''deliveryLogHeadHash'', JStr (rj_deliveryLogHeadHash r)),
      (''mandatoryProposals'', encodeMandatoryProposals (rj_mandatoryProposals r)),
      (''witnessCheckpointId'', JStr (rj_witnessCheckpointId r)),
      (''witnessEvidenceDigest'', JStr (rj_witnessEvidenceDigest r))]"

definition encodeReplayProjection :: "replayProjection \<Rightarrow> jsval" where
  "encodeReplayProjection r = mkRecord (entriesReplayProjection r)"

definition replayProjectionValid :: "replayProjection \<Rightarrow> bool" where
  "replayProjectionValid r =
     (uuidV4Valid (rj_policyHeadId r) \<and> positiveUint63Valid (rj_policyHeadSequence r) \<and>
      nonZeroHashValid (rj_policyHeadHash r) \<and> uint63Valid (rj_deliveryLogPosition r) \<and>
      hash32Valid (rj_deliveryLogHeadHash r) \<and> mandatoryProposalsValid (rj_mandatoryProposals r) \<and>
      uuidV4Valid (rj_witnessCheckpointId r) \<and> hash32Valid (rj_witnessEvidenceDigest r) \<and>
      (rj_deliveryLogPosition r = ''0'') = (rj_deliveryLogHeadHash r = ZERO_HASH32))"

lemma entriesReplayProjection_get [simp]:
  "fieldOf (entriesReplayProjection r) ''policyHeadId'' = JStr (rj_policyHeadId r)"
  "fieldOf (entriesReplayProjection r) ''policyHeadSequence'' = JStr (rj_policyHeadSequence r)"
  "fieldOf (entriesReplayProjection r) ''policyHeadHash'' = JStr (rj_policyHeadHash r)"
  "fieldOf (entriesReplayProjection r) ''deliveryLogPosition'' = JStr (rj_deliveryLogPosition r)"
  "fieldOf (entriesReplayProjection r) ''deliveryLogHeadHash'' = JStr (rj_deliveryLogHeadHash r)"
  "fieldOf (entriesReplayProjection r) ''mandatoryProposals'' = encodeMandatoryProposals (rj_mandatoryProposals r)"
  "fieldOf (entriesReplayProjection r) ''witnessCheckpointId'' = JStr (rj_witnessCheckpointId r)"
  "fieldOf (entriesReplayProjection r) ''witnessEvidenceDigest'' = JStr (rj_witnessEvidenceDigest r)"
  by (simp_all add: entriesReplayProjection_def)

lemma expect_encodeReplayProjection: "expectExactRecord (encodeReplayProjection r) REPLAY_PROJECTION_KEYS = Inr (fieldOf (entriesReplayProjection r))"
  unfolding encodeReplayProjection_def by (rule expectExactRecord_mkRecord) (simp_all add: REPLAY_PROJECTION_KEYS_def entriesReplayProjection_def)

interpretation replay_projection_codec: record_codec parsePolicyReplayProjection encodeReplayProjection replayProjectionValid
proof
  show "replayProjectionValid r" if "parsePolicyReplayProjection v = Inr r" for v r
    using that unfolding parsePolicyReplayProjection_def
    by (elim bindE_InrE, simp only: parse_simps guardE_eq_Inr sum.inject, elim conjE, hypsubst, simp add: replayProjectionValid_def mandatory_codec.parse_wf)
  show "parsePolicyReplayProjection (encodeReplayProjection r) = Inr r" if "replayProjectionValid r" for r
    using that by (simp add: parsePolicyReplayProjection_def expect_encodeReplayProjection parse_ok replayProjectionValid_def mandatory_codec.parse_encode split: option.splits)
qed

definition parsePolicyReplayTransitions :: "jsval \<Rightarrow> replayProjection list res" where
  "parsePolicyReplayTransitions v =
     bindE (expectDenseArray v (int CONVERSATION_POLICY_REPLAY_MAX_COALESCED_TRANSITIONS)) (\<lambda>entries.
     mapE parsePolicyReplayProjection entries)"

definition encodeReplayTransitions :: "replayProjection list \<Rightarrow> jsval" where
  "encodeReplayTransitions ts = mkArray (map encodeReplayProjection ts)"

definition replayTransitionsValid :: "replayProjection list \<Rightarrow> bool" where
  "replayTransitionsValid ts = (list_all replayProjectionValid ts \<and> length ts \<le> CONVERSATION_POLICY_REPLAY_MAX_COALESCED_TRANSITIONS)"

interpretation replay_transitions_codec: record_codec parsePolicyReplayTransitions encodeReplayTransitions replayTransitionsValid
proof
  show "replayTransitionsValid r" if "parsePolicyReplayTransitions v = Inr r" for v r
    using that by (auto simp: parsePolicyReplayTransitions_def bindE_eq_Inr expectDenseArray_iff mapE_eq_Inr replayTransitionsValid_def
        list_all_length list_all2_conv_all_nth split: if_splits intro: replay_projection_codec.parse_wf)
  show "parsePolicyReplayTransitions (encodeReplayTransitions r) = Inr r" if "replayTransitionsValid r" for r
    using that by (auto simp: parsePolicyReplayTransitions_def encodeReplayTransitions_def bindE_eq_Inr expectDenseArray_iff mapE_eq_Inr
        replayTransitionsValid_def list_all_length list_all2_conv_all_nth replay_projection_codec.parse_encode)
qed

subsection \<open>Events\<close>

definition parseReplayClass :: "jsval \<Rightarrow> envelopeClass res" where
  "parseReplayClass = parseOneOfString envelopeClassText [Application, ExternalProposal, MlsCommit]"

lemma parseReplayClass_iff [parse_simps]: "parseReplayClass v = Inr x \<longleftrightarrow> v = JStr (envelopeClassText x)"
  unfolding parseReplayClass_def
proof (rule parseOneOfString_iff)
  show "inj envelopeClassText"
  proof (rule injI)
    show "a = b" if "envelopeClassText a = envelopeClassText b" for a b using that by (cases a; cases b) simp_all
  qed
  show "y \<in> set [Application, ExternalProposal, MlsCommit]" for y by (cases y) simp_all
qed

lemma parseReplayClass_ok [parse_ok]: "parseReplayClass (JStr (envelopeClassText x)) = Inr x"
  by (simp add: parse_simps)

record replayEvent =
  re_position :: string
  re_envelopeId :: string
  re_envelopeClass :: envelopeClass
  re_envelopeSha256 :: string
  re_headHash :: string

definition REPLAY_EVENT_KEYS :: "string list" where
  "REPLAY_EVENT_KEYS =
    [''position'', ''envelopeId'', ''envelopeClass'', ''envelopeSha256'', ''headHash'']"

definition parseReplayEvent :: "jsval \<Rightarrow> replayEvent res" where
  "parseReplayEvent v =
     bindE (expectExactRecord v REPLAY_EVENT_KEYS) (\<lambda>record.
     bindE (parsePositive (record ''position'')) (\<lambda>position.
     bindE (parseEnvelopeId (record ''envelopeId'')) (\<lambda>envelopeId.
     bindE (parseReplayClass (record ''envelopeClass'')) (\<lambda>envelopeClass.
     bindE (parseHash32 (record ''envelopeSha256'')) (\<lambda>envelopeSha256.
     bindE (parseHash32 (record ''headHash'')) (\<lambda>headHash.
     Inr \<lparr>re_position = position, re_envelopeId = envelopeId, re_envelopeClass = envelopeClass,
          re_envelopeSha256 = envelopeSha256, re_headHash = headHash\<rparr>))))))"

definition entriesReplayEvent :: "replayEvent \<Rightarrow> (string \<times> jsval) list" where
  "entriesReplayEvent r =
     [(''position'', JStr (re_position r)), (''envelopeId'', JStr (re_envelopeId r)),
      (''envelopeClass'', JStr (envelopeClassText (re_envelopeClass r))),
      (''envelopeSha256'', JStr (re_envelopeSha256 r)), (''headHash'', JStr (re_headHash r))]"

definition encodeReplayEvent :: "replayEvent \<Rightarrow> jsval" where
  "encodeReplayEvent r = mkRecord (entriesReplayEvent r)"

definition replayEventValid :: "replayEvent \<Rightarrow> bool" where
  "replayEventValid r =
     (positiveUint63Valid (re_position r) \<and> uuidV4Valid (re_envelopeId r) \<and>
      hash32Valid (re_envelopeSha256 r) \<and> hash32Valid (re_headHash r))"

lemma entriesReplayEvent_get [simp]:
  "fieldOf (entriesReplayEvent r) ''position'' = JStr (re_position r)"
  "fieldOf (entriesReplayEvent r) ''envelopeId'' = JStr (re_envelopeId r)"
  "fieldOf (entriesReplayEvent r) ''envelopeClass'' = JStr (envelopeClassText (re_envelopeClass r))"
  "fieldOf (entriesReplayEvent r) ''envelopeSha256'' = JStr (re_envelopeSha256 r)"
  "fieldOf (entriesReplayEvent r) ''headHash'' = JStr (re_headHash r)"
  by (simp_all add: entriesReplayEvent_def)

lemma expect_encodeReplayEvent: "expectExactRecord (encodeReplayEvent r) REPLAY_EVENT_KEYS = Inr (fieldOf (entriesReplayEvent r))"
  unfolding encodeReplayEvent_def by (rule expectExactRecord_mkRecord) (simp_all add: REPLAY_EVENT_KEYS_def entriesReplayEvent_def)

interpretation replay_event_codec: record_codec parseReplayEvent encodeReplayEvent replayEventValid
proof
  show "replayEventValid r" if "parseReplayEvent v = Inr r" for v r
    using that unfolding parseReplayEvent_def
    by (elim bindE_InrE, simp only: parse_simps guardE_eq_Inr sum.inject, elim conjE, hypsubst, simp add: replayEventValid_def)
  show "parseReplayEvent (encodeReplayEvent r) = Inr r" if "replayEventValid r" for r
    using that by (simp add: parseReplayEvent_def expect_encodeReplayEvent parse_ok replayEventValid_def split: option.splits)
qed

text \<open>The loop of the parser: the positions have to increase strictly from zero.\<close>

fun replayEventScan :: "int \<Rightarrow> jsval list \<Rightarrow> replayEvent list res" where
  "replayEventScan prior [] = Inr []"
| "replayEventScan prior (x # xs) =
     bindE (parseReplayEvent x) (\<lambda>parsed.
     if bigInt (re_position parsed) \<le> prior then Inl ConversationSyncValidationError
     else bindE (replayEventScan (bigInt (re_position parsed)) xs) (\<lambda>rest. Inr (parsed # rest)))"

definition parsePolicyReplayEvents :: "jsval \<Rightarrow> replayEvent list res" where
  "parsePolicyReplayEvents v =
     bindE (expectDenseArray v (int CONVERSATION_PAGE_HARD_MAX_EVENTS)) (\<lambda>entries. replayEventScan 0 entries)"

fun eventsOrdered :: "int \<Rightarrow> replayEvent list \<Rightarrow> bool" where
  "eventsOrdered prior [] = True"
| "eventsOrdered prior (e # es) = (replayEventValid e \<and> prior < bigInt (re_position e) \<and> eventsOrdered (bigInt (re_position e)) es)"

definition encodeReplayEvents :: "replayEvent list \<Rightarrow> jsval" where
  "encodeReplayEvents es = mkArray (map encodeReplayEvent es)"

definition replayEventsValid :: "replayEvent list \<Rightarrow> bool" where
  "replayEventsValid es = (eventsOrdered 0 es \<and> length es \<le> CONVERSATION_PAGE_HARD_MAX_EVENTS)"

lemma replayEventScan_valid: "replayEventScan prior xs = Inr es \<Longrightarrow> eventsOrdered prior es \<and> length es = length xs"
  by (induction xs arbitrary: prior es) (auto simp: bindE_eq_Inr replay_event_codec.parse_wf split: if_splits)

lemma replayEventScan_encode: "eventsOrdered prior es \<Longrightarrow> replayEventScan prior (map encodeReplayEvent es) = Inr es"
  by (induction es arbitrary: prior) (auto simp: replay_event_codec.parse_encode)

interpretation replay_events_codec: record_codec parsePolicyReplayEvents encodeReplayEvents replayEventsValid
proof
  show "replayEventsValid r" if "parsePolicyReplayEvents v = Inr r" for v r
    using that by (auto simp: parsePolicyReplayEvents_def bindE_eq_Inr expectDenseArray_iff replayEventsValid_def dest: replayEventScan_valid)
  show "parsePolicyReplayEvents (encodeReplayEvents r) = Inr r" if "replayEventsValid r" for r
    using that by (auto simp: parsePolicyReplayEvents_def encodeReplayEvents_def bindE_eq_Inr expectDenseArray_iff replayEventsValid_def
        replayEventScan_encode)
qed

lemma replay_lists_defined [simp]: "JUndefined \<noteq> encodeReplayEvents es" "JUndefined \<noteq> encodeReplayTransitions ts" "JUndefined \<noteq> encodeReplayProjection p"
  by (simp_all add: encodeReplayEvents_def encodeReplayTransitions_def encodeReplayProjection_def mkArray_def mkRecord_def)

subsection \<open>Evidence\<close>

record replayEvidence =
  rv_realmId :: string
  rv_conversationGeneration :: string
  rv_releaseProfileId :: string
  rv_deliveryLimitsDigest :: string
  rv_releaseTrustRootDigest :: string
  rv_conversationId :: string
  rv_pageStartPosition :: string
  rv_pageStartHeadHash :: string
  rv_pageStartPolicy :: replayProjection
  rv_pageEndPosition :: string
  rv_pageEndHeadHash :: string
  rv_pageEndPolicy :: replayProjection
  rv_policyLogHighWaterSequence :: string
  rv_policyLogHighWaterHash :: string
  rv_policyLogHighWaterWitnessCheckpointId :: string
  rv_policyLogHighWaterWitnessEvidenceDigest :: string
  rv_events :: "replayEvent list"
  rv_transitions :: "replayProjection list"
  rv_transitionCompactionStatus :: string
  rv_transitionRangeProofDigest :: string
  rv_historicalIntervalStatus :: string
  rv_applicationCutoffStatus :: string
  rv_policyConsistencyStatus :: string
  rv_policyConsistencyEvidenceDigest :: string
  rv_verifiedAt :: string
  rv_evidenceDigest :: string

definition REPLAY_EVIDENCE_KEYS :: "string list" where
  "REPLAY_EVIDENCE_KEYS =
    [''status'', ''profile'', ''realmId'', ''conversationGeneration'', ''releaseProfileId'',
     ''deliveryLimitsDigest'', ''releaseTrustRootDigest'', ''conversationId'', ''pageStartPosition'',
     ''pageStartHeadHash'', ''pageStartPolicy'', ''pageEndPosition'', ''pageEndHeadHash'', ''pageEndPolicy'',
     ''policyLogHighWaterSequence'', ''policyLogHighWaterHash'', ''policyLogHighWaterWitnessCheckpointId'',
     ''policyLogHighWaterWitnessEvidenceDigest'', ''events'', ''transitions'', ''transitionCompactionStatus'',
     ''transitionRangeProofDigest'', ''historicalIntervalStatus'', ''applicationCutoffStatus'',
     ''policyConsistencyStatus'', ''policyConsistencyEvidenceDigest'', ''verifiedAt'', ''evidenceDigest'']"

definition parsePolicyReplayFields :: "jsval \<Rightarrow> replayEvidence res" where
  "parsePolicyReplayFields v =
     bindE (expectExactRecord v REPLAY_EVIDENCE_KEYS) (\<lambda>record.
     bindE (guardE (record ''status'' = JStr ''verified'' \<and> record ''profile'' = JStr ''conversation-policy-replay.v1'') ConversationSyncValidationError) (\<lambda>_.
     bindE (parseDeliveryRealmId (record ''realmId'')) (\<lambda>realmId.
     bindE (parsePositive (record ''conversationGeneration'')) (\<lambda>conversationGeneration.
     bindE (parseReleaseProfileId (record ''releaseProfileId'')) (\<lambda>releaseProfileId.
     bindE (parseHash32 (record ''deliveryLimitsDigest'')) (\<lambda>deliveryLimitsDigest.
     bindE (parseHash32 (record ''releaseTrustRootDigest'')) (\<lambda>releaseTrustRootDigest.
     bindE (parseConversationId (record ''conversationId'')) (\<lambda>conversationId.
     bindE (parseUint63String (record ''pageStartPosition'')) (\<lambda>pageStartPosition.
     bindE (parseHash32 (record ''pageStartHeadHash'')) (\<lambda>pageStartHeadHash.
     bindE (parsePolicyReplayProjection (record ''pageStartPolicy'')) (\<lambda>pageStartPolicy.
     bindE (parsePositive (record ''pageEndPosition'')) (\<lambda>pageEndPosition.
     bindE (parseHash32 (record ''pageEndHeadHash'')) (\<lambda>pageEndHeadHash.
     bindE (parsePolicyReplayProjection (record ''pageEndPolicy'')) (\<lambda>pageEndPolicy.
     bindE (parseUint63String (record ''policyLogHighWaterSequence'')) (\<lambda>policyLogHighWaterSequence.
     bindE (parseHash32 (record ''policyLogHighWaterHash'')) (\<lambda>policyLogHighWaterHash.
     bindE (parseWitnessCheckpointId (record ''policyLogHighWaterWitnessCheckpointId'')) (\<lambda>policyLogHighWaterWitnessCheckpointId.
     bindE (parseHash32 (record ''policyLogHighWaterWitnessEvidenceDigest'')) (\<lambda>policyLogHighWaterWitnessEvidenceDigest.
     bindE (parsePolicyReplayEvents (record ''events'')) (\<lambda>events.
     bindE (parsePolicyReplayTransitions (record ''transitions'')) (\<lambda>transitions.
     bindE (parseExactLiteral ''verified-complete'' (record ''transitionCompactionStatus'')) (\<lambda>transitionCompactionStatus.
     bindE (parseHash32 (record ''transitionRangeProofDigest'')) (\<lambda>transitionRangeProofDigest.
     bindE (parseExactLiteral ''verified'' (record ''historicalIntervalStatus'')) (\<lambda>historicalIntervalStatus.
     bindE (parseExactLiteral ''verified'' (record ''applicationCutoffStatus'')) (\<lambda>applicationCutoffStatus.
     bindE (parseExactLiteral ''verified'' (record ''policyConsistencyStatus'')) (\<lambda>policyConsistencyStatus.
     bindE (parseHash32 (record ''policyConsistencyEvidenceDigest'')) (\<lambda>policyConsistencyEvidenceDigest.
     bindE (parseRfc3339Millis (record ''verifiedAt'')) (\<lambda>verifiedAt.
     bindE (parseHash32 (record ''evidenceDigest'')) (\<lambda>evidenceDigest.
     Inr \<lparr>rv_realmId = realmId, rv_conversationGeneration = conversationGeneration,
          rv_releaseProfileId = releaseProfileId, rv_deliveryLimitsDigest = deliveryLimitsDigest,
          rv_releaseTrustRootDigest = releaseTrustRootDigest, rv_conversationId = conversationId,
          rv_pageStartPosition = pageStartPosition, rv_pageStartHeadHash = pageStartHeadHash,
          rv_pageStartPolicy = pageStartPolicy, rv_pageEndPosition = pageEndPosition,
          rv_pageEndHeadHash = pageEndHeadHash, rv_pageEndPolicy = pageEndPolicy,
          rv_policyLogHighWaterSequence = policyLogHighWaterSequence,
          rv_policyLogHighWaterHash = policyLogHighWaterHash,
          rv_policyLogHighWaterWitnessCheckpointId = policyLogHighWaterWitnessCheckpointId,
          rv_policyLogHighWaterWitnessEvidenceDigest = policyLogHighWaterWitnessEvidenceDigest,
          rv_events = events, rv_transitions = transitions,
          rv_transitionCompactionStatus = transitionCompactionStatus,
          rv_transitionRangeProofDigest = transitionRangeProofDigest,
          rv_historicalIntervalStatus = historicalIntervalStatus,
          rv_applicationCutoffStatus = applicationCutoffStatus,
          rv_policyConsistencyStatus = policyConsistencyStatus,
          rv_policyConsistencyEvidenceDigest = policyConsistencyEvidenceDigest, rv_verifiedAt = verifiedAt,
          rv_evidenceDigest = evidenceDigest\<rparr>))))))))))))))))))))))))))))"

definition entriesReplayEvidence :: "replayEvidence \<Rightarrow> (string \<times> jsval) list" where
  "entriesReplayEvidence r =
     [(''status'', JStr ''verified''), (''profile'', JStr ''conversation-policy-replay.v1''),
      (''realmId'', JStr (rv_realmId r)), (''conversationGeneration'', JStr (rv_conversationGeneration r)),
      (''releaseProfileId'', JStr (rv_releaseProfileId r)),
      (''deliveryLimitsDigest'', JStr (rv_deliveryLimitsDigest r)),
      (''releaseTrustRootDigest'', JStr (rv_releaseTrustRootDigest r)),
      (''conversationId'', JStr (rv_conversationId r)),
      (''pageStartPosition'', JStr (rv_pageStartPosition r)),
      (''pageStartHeadHash'', JStr (rv_pageStartHeadHash r)),
      (''pageStartPolicy'', encodeReplayProjection (rv_pageStartPolicy r)),
      (''pageEndPosition'', JStr (rv_pageEndPosition r)), (''pageEndHeadHash'', JStr (rv_pageEndHeadHash r)),
      (''pageEndPolicy'', encodeReplayProjection (rv_pageEndPolicy r)),
      (''policyLogHighWaterSequence'', JStr (rv_policyLogHighWaterSequence r)),
      (''policyLogHighWaterHash'', JStr (rv_policyLogHighWaterHash r)),
      (''policyLogHighWaterWitnessCheckpointId'', JStr (rv_policyLogHighWaterWitnessCheckpointId r)),
      (''policyLogHighWaterWitnessEvidenceDigest'', JStr (rv_policyLogHighWaterWitnessEvidenceDigest r)),
      (''events'', encodeReplayEvents (rv_events r)),
      (''transitions'', encodeReplayTransitions (rv_transitions r)),
      (''transitionCompactionStatus'', JStr (rv_transitionCompactionStatus r)),
      (''transitionRangeProofDigest'', JStr (rv_transitionRangeProofDigest r)),
      (''historicalIntervalStatus'', JStr (rv_historicalIntervalStatus r)),
      (''applicationCutoffStatus'', JStr (rv_applicationCutoffStatus r)),
      (''policyConsistencyStatus'', JStr (rv_policyConsistencyStatus r)),
      (''policyConsistencyEvidenceDigest'', JStr (rv_policyConsistencyEvidenceDigest r)),
      (''verifiedAt'', JStr (rv_verifiedAt r)), (''evidenceDigest'', JStr (rv_evidenceDigest r))]"

definition encodeReplayEvidence :: "replayEvidence \<Rightarrow> jsval" where
  "encodeReplayEvidence r = mkRecord (entriesReplayEvidence r)"

definition replayEvidenceValid :: "replayEvidence \<Rightarrow> bool" where
  "replayEvidenceValid r =
     (REALM_ID (rv_realmId r) \<and> positiveUint63Valid (rv_conversationGeneration r) \<and>
      RELEASE_PROFILE_ID (rv_releaseProfileId r) \<and> hash32Valid (rv_deliveryLimitsDigest r) \<and>
      hash32Valid (rv_releaseTrustRootDigest r) \<and> uuidV4Valid (rv_conversationId r) \<and>
      uint63Valid (rv_pageStartPosition r) \<and> hash32Valid (rv_pageStartHeadHash r) \<and>
      replayProjectionValid (rv_pageStartPolicy r) \<and> positiveUint63Valid (rv_pageEndPosition r) \<and>
      hash32Valid (rv_pageEndHeadHash r) \<and> replayProjectionValid (rv_pageEndPolicy r) \<and>
      uint63Valid (rv_policyLogHighWaterSequence r) \<and> hash32Valid (rv_policyLogHighWaterHash r) \<and>
      uuidV4Valid (rv_policyLogHighWaterWitnessCheckpointId r) \<and>
      hash32Valid (rv_policyLogHighWaterWitnessEvidenceDigest r) \<and> replayEventsValid (rv_events r) \<and>
      replayTransitionsValid (rv_transitions r) \<and>
      rv_transitionCompactionStatus r = ''verified-complete'' \<and>
      hash32Valid (rv_transitionRangeProofDigest r) \<and> rv_historicalIntervalStatus r = ''verified'' \<and>
      rv_applicationCutoffStatus r = ''verified'' \<and> rv_policyConsistencyStatus r = ''verified'' \<and>
      hash32Valid (rv_policyConsistencyEvidenceDigest r) \<and> rfc3339Valid (rv_verifiedAt r) \<and>
      hash32Valid (rv_evidenceDigest r))"

lemma entriesReplayEvidence_get_1:
  "fieldOf (entriesReplayEvidence r) ''status'' = JStr ''verified''"
  "fieldOf (entriesReplayEvidence r) ''profile'' = JStr ''conversation-policy-replay.v1''"
  "fieldOf (entriesReplayEvidence r) ''realmId'' = JStr (rv_realmId r)"
  "fieldOf (entriesReplayEvidence r) ''conversationGeneration'' = JStr (rv_conversationGeneration r)"
  "fieldOf (entriesReplayEvidence r) ''releaseProfileId'' = JStr (rv_releaseProfileId r)"
  "fieldOf (entriesReplayEvidence r) ''deliveryLimitsDigest'' = JStr (rv_deliveryLimitsDigest r)"
  "fieldOf (entriesReplayEvidence r) ''releaseTrustRootDigest'' = JStr (rv_releaseTrustRootDigest r)"
  "fieldOf (entriesReplayEvidence r) ''conversationId'' = JStr (rv_conversationId r)"
  by (simp_all add: entriesReplayEvidence_def)

lemma entriesReplayEvidence_get_2:
  "fieldOf (entriesReplayEvidence r) ''pageStartPosition'' = JStr (rv_pageStartPosition r)"
  "fieldOf (entriesReplayEvidence r) ''pageStartHeadHash'' = JStr (rv_pageStartHeadHash r)"
  "fieldOf (entriesReplayEvidence r) ''pageStartPolicy'' = encodeReplayProjection (rv_pageStartPolicy r)"
  "fieldOf (entriesReplayEvidence r) ''pageEndPosition'' = JStr (rv_pageEndPosition r)"
  "fieldOf (entriesReplayEvidence r) ''pageEndHeadHash'' = JStr (rv_pageEndHeadHash r)"
  "fieldOf (entriesReplayEvidence r) ''pageEndPolicy'' = encodeReplayProjection (rv_pageEndPolicy r)"
  "fieldOf (entriesReplayEvidence r) ''policyLogHighWaterSequence'' = JStr (rv_policyLogHighWaterSequence r)"
  "fieldOf (entriesReplayEvidence r) ''policyLogHighWaterHash'' = JStr (rv_policyLogHighWaterHash r)"
  by (simp_all add: entriesReplayEvidence_def)

lemma entriesReplayEvidence_get_3:
  "fieldOf (entriesReplayEvidence r) ''policyLogHighWaterWitnessCheckpointId'' = JStr (rv_policyLogHighWaterWitnessCheckpointId r)"
  "fieldOf (entriesReplayEvidence r) ''policyLogHighWaterWitnessEvidenceDigest'' = JStr (rv_policyLogHighWaterWitnessEvidenceDigest r)"
  "fieldOf (entriesReplayEvidence r) ''events'' = encodeReplayEvents (rv_events r)"
  "fieldOf (entriesReplayEvidence r) ''transitions'' = encodeReplayTransitions (rv_transitions r)"
  "fieldOf (entriesReplayEvidence r) ''transitionCompactionStatus'' = JStr (rv_transitionCompactionStatus r)"
  "fieldOf (entriesReplayEvidence r) ''transitionRangeProofDigest'' = JStr (rv_transitionRangeProofDigest r)"
  "fieldOf (entriesReplayEvidence r) ''historicalIntervalStatus'' = JStr (rv_historicalIntervalStatus r)"
  "fieldOf (entriesReplayEvidence r) ''applicationCutoffStatus'' = JStr (rv_applicationCutoffStatus r)"
  by (simp_all add: entriesReplayEvidence_def)

lemma entriesReplayEvidence_get_4:
  "fieldOf (entriesReplayEvidence r) ''policyConsistencyStatus'' = JStr (rv_policyConsistencyStatus r)"
  "fieldOf (entriesReplayEvidence r) ''policyConsistencyEvidenceDigest'' = JStr (rv_policyConsistencyEvidenceDigest r)"
  "fieldOf (entriesReplayEvidence r) ''verifiedAt'' = JStr (rv_verifiedAt r)"
  "fieldOf (entriesReplayEvidence r) ''evidenceDigest'' = JStr (rv_evidenceDigest r)"
  by (simp_all add: entriesReplayEvidence_def)

lemmas entriesReplayEvidence_get [simp] = entriesReplayEvidence_get_1 entriesReplayEvidence_get_2 entriesReplayEvidence_get_3 entriesReplayEvidence_get_4

lemma expect_encodeReplayEvidence: "expectExactRecord (encodeReplayEvidence r) REPLAY_EVIDENCE_KEYS = Inr (fieldOf (entriesReplayEvidence r))"
  unfolding encodeReplayEvidence_def by (rule expectExactRecord_mkRecord) (simp_all add: REPLAY_EVIDENCE_KEYS_def entriesReplayEvidence_def)

interpretation replay_evidence_codec: record_codec parsePolicyReplayFields encodeReplayEvidence replayEvidenceValid
proof
  show "replayEvidenceValid r" if "parsePolicyReplayFields v = Inr r" for v r
    using that unfolding parsePolicyReplayFields_def
    by (elim bindE_InrE, simp only: parse_simps guardE_eq_Inr sum.inject, elim conjE, hypsubst, simp add: replayEvidenceValid_def replay_projection_codec.parse_wf replay_events_codec.parse_wf replay_transitions_codec.parse_wf)
  show "parsePolicyReplayFields (encodeReplayEvidence r) = Inr r" if "replayEvidenceValid r" for r
    using that by (cases r) (simp add: parsePolicyReplayFields_def expect_encodeReplayEvidence parse_ok replayEvidenceValid_def replay_projection_codec.parse_encode replay_events_codec.parse_encode replay_transitions_codec.parse_encode parseDeliveryRealmId_ok split: option.splits)
qed

subsection \<open>The request and the comparison with it\<close>

record replayRequest =
  rr_realmId :: string
  rr_conversationGeneration :: string
  rr_releaseProfileId :: string
  rr_deliveryLimitsDigest :: string
  rr_releaseTrustRootDigest :: string
  rr_conversationId :: string
  rr_pageStartPosition :: string
  rr_pageStartHeadHash :: string
  rr_pageStartPolicy :: replayProjection
  rr_pageEndPosition :: string
  rr_pageEndHeadHash :: string
  rr_pageEndPolicy :: replayProjection
  rr_policyLogHighWaterSequence :: string
  rr_policyLogHighWaterHash :: string
  rr_policyLogHighWaterWitnessCheckpointId :: string
  rr_policyLogHighWaterWitnessEvidenceDigest :: string
  rr_events :: "replayEvent list"
  rr_verifiedAt :: string

definition samePolicyReplayProjection :: "replayProjection \<Rightarrow> replayProjection \<Rightarrow> bool" where
  "samePolicyReplayProjection left right =
     (rj_policyHeadId left = rj_policyHeadId right \<and> rj_policyHeadSequence left = rj_policyHeadSequence right
      \<and> rj_policyHeadHash left = rj_policyHeadHash right \<and> rj_deliveryLogPosition left = rj_deliveryLogPosition right
      \<and> rj_deliveryLogHeadHash left = rj_deliveryLogHeadHash right
      \<and> samePolicyMandatoryProposals (rj_mandatoryProposals left) (rj_mandatoryProposals right)
      \<and> rj_witnessCheckpointId left = rj_witnessCheckpointId right \<and> rj_witnessEvidenceDigest left = rj_witnessEvidenceDigest right)"

definition sameReplayEvent :: "replayEvent \<Rightarrow> replayEvent \<Rightarrow> bool" where
  "sameReplayEvent event expected =
     (re_position event = re_position expected \<and> re_envelopeId event = re_envelopeId expected
      \<and> re_envelopeClass event = re_envelopeClass expected \<and> re_envelopeSha256 event = re_envelopeSha256 expected
      \<and> re_headHash event = re_headHash expected)"

definition assertPolicyReplayMatchesRequest :: "replayEvidence \<Rightarrow> replayRequest \<Rightarrow> unit res" where
  "assertPolicyReplayMatchesRequest parsed expected =
     (if rv_realmId parsed \<noteq> rr_realmId expected \<or> rv_conversationGeneration parsed \<noteq> rr_conversationGeneration expected
         \<or> rv_releaseProfileId parsed \<noteq> rr_releaseProfileId expected
         \<or> rv_deliveryLimitsDigest parsed \<noteq> rr_deliveryLimitsDigest expected
         \<or> rv_releaseTrustRootDigest parsed \<noteq> rr_releaseTrustRootDigest expected
         \<or> rv_conversationId parsed \<noteq> rr_conversationId expected
         \<or> rv_pageStartPosition parsed \<noteq> rr_pageStartPosition expected
         \<or> rv_pageStartHeadHash parsed \<noteq> rr_pageStartHeadHash expected
         \<or> \<not> samePolicyReplayProjection (rv_pageStartPolicy parsed) (rr_pageStartPolicy expected)
         \<or> rv_pageEndPosition parsed \<noteq> rr_pageEndPosition expected \<or> rv_pageEndHeadHash parsed \<noteq> rr_pageEndHeadHash expected
         \<or> \<not> samePolicyReplayProjection (rv_pageEndPolicy parsed) (rr_pageEndPolicy expected)
         \<or> rv_policyLogHighWaterSequence parsed \<noteq> rr_policyLogHighWaterSequence expected
         \<or> rv_policyLogHighWaterHash parsed \<noteq> rr_policyLogHighWaterHash expected
         \<or> rv_policyLogHighWaterWitnessCheckpointId parsed \<noteq> rr_policyLogHighWaterWitnessCheckpointId expected
         \<or> rv_policyLogHighWaterWitnessEvidenceDigest parsed \<noteq> rr_policyLogHighWaterWitnessEvidenceDigest expected
         \<or> rv_verifiedAt parsed \<noteq> rr_verifiedAt expected
         \<or> length (rv_events parsed) \<noteq> length (rr_events expected)
         \<or> list_ex (\<lambda>i. \<not> sameReplayEvent (rv_events parsed ! i) (rr_events expected ! i)) [0..<length (rv_events parsed)]
      then Inl ConversationSyncValidationError else Inr ())"

subsection \<open>The interval\<close>

definition policyReplayHeadMatchesPage :: "replayEvidence \<Rightarrow> replayProjection \<Rightarrow> bool" where
  "policyReplayHeadMatchesPage evidence projection =
     (if rj_deliveryLogPosition projection = rv_pageStartPosition evidence
      then rj_deliveryLogHeadHash projection = rv_pageStartHeadHash evidence
      else list_ex (\<lambda>e. re_position e = rj_deliveryLogPosition projection \<and> re_headHash e = rj_deliveryLogHeadHash projection)
        (rv_events evidence))"

definition replayRollsBack :: "replayEvidence \<Rightarrow> bool" where
  "replayRollsBack evidence =
     (let s = rv_pageStartPolicy evidence; e = rv_pageEndPolicy evidence in
      bigInt (rv_pageEndPosition evidence) < bigInt (rv_pageStartPosition evidence)
      \<or> rv_transitionRangeProofDigest evidence = ZERO_HASH32
      \<or> bigInt (rj_policyHeadSequence e) < bigInt (rj_policyHeadSequence s)
      \<or> (rj_policyHeadSequence e = rj_policyHeadSequence s \<and> \<not> samePolicyReplayProjection e s)
      \<or> bigInt (rj_deliveryLogPosition e) < bigInt (rj_deliveryLogPosition s)
      \<or> bigInt (rv_policyLogHighWaterSequence evidence) < bigInt (rj_policyHeadSequence e)
      \<or> (rv_policyLogHighWaterSequence evidence = rj_policyHeadSequence e
         \<and> rv_policyLogHighWaterHash evidence \<noteq> rj_policyHeadHash e))"

definition transitionRejected :: "replayEvidence \<Rightarrow> replayProjection \<Rightarrow> replayProjection \<Rightarrow> bool" where
  "transitionRejected evidence prior transition =
     (bigInt (rj_policyHeadSequence transition) \<le> bigInt (rj_policyHeadSequence prior)
      \<or> bigInt (rj_policyHeadSequence transition) > bigInt (rj_policyHeadSequence (rv_pageEndPolicy evidence))
      \<or> bigInt (rj_deliveryLogPosition transition) < bigInt (rv_pageStartPosition evidence)
      \<or> bigInt (rj_deliveryLogPosition transition) > bigInt (rv_pageEndPosition evidence)
      \<or> bigInt (rj_deliveryLogPosition transition) < bigInt (rj_deliveryLogPosition prior)
      \<or> samePolicyMandatoryProposals (rj_mandatoryProposals transition) (rj_mandatoryProposals prior)
      \<or> \<not> policyReplayHeadMatchesPage evidence transition)"

text \<open>The first loop returns the last transition, which the check of the page end looks at.\<close>

fun checkTransitions :: "replayEvidence \<Rightarrow> replayProjection \<Rightarrow> replayProjection list \<Rightarrow> replayProjection res" where
  "checkTransitions evidence prior [] = Inr prior"
| "checkTransitions evidence prior (t # ts) =
     (if transitionRejected evidence prior t then Inl ConversationSyncValidationError else checkTransitions evidence t ts)"

text \<open>
  The second loop, with the mandatory proposals in force and the transitions not yet reached as its state: transitions before
  the position of an event take effect, then the event is looked at, then transitions at its position take effect.
\<close>

fun passTransitions :: "string \<Rightarrow> mandatoryProposal list \<Rightarrow> replayProjection list \<Rightarrow> mandatoryProposal list \<times> replayProjection list" where
  "passTransitions position active [] = (active, [])"
| "passTransitions position active (t # ts) =
     (if bigInt (rj_deliveryLogPosition t) < bigInt position then passTransitions position (rj_mandatoryProposals t) ts
      else (active, t # ts))"

definition clearsRequirement :: "mandatoryProposal list \<Rightarrow> replayProjection \<Rightarrow> bool" where
  "clearsRequirement active transition =
     list_ex (\<lambda>required. \<not> list_ex (\<lambda>later. pm_proposalId later = pm_proposalId required \<and> pm_proposalHash later = pm_proposalHash required)
       (rj_mandatoryProposals transition)) active"

fun settleTransitions ::
  "replayEvent \<Rightarrow> mandatoryProposal list \<Rightarrow> replayProjection list \<Rightarrow> (mandatoryProposal list \<times> replayProjection list) res" where
  "settleTransitions event active [] = Inr (active, [])"
| "settleTransitions event active (t # ts) =
     (if rj_deliveryLogPosition t = re_position event then
        if clearsRequirement active t \<and> re_envelopeClass event \<noteq> MlsCommit then Inl ConversationSyncValidationError
        else settleTransitions event (rj_mandatoryProposals t) ts
      else Inr (active, t # ts))"

fun replayEvents :: "mandatoryProposal list \<Rightarrow> replayProjection list \<Rightarrow> replayEvent list \<Rightarrow> unit res" where
  "replayEvents active ts [] = Inr ()"
| "replayEvents active ts (e # es) =
     (case passTransitions (re_position e) active ts of (active1, ts1) \<Rightarrow>
        if re_envelopeClass e = Application \<and> active1 \<noteq> [] then Inl ConversationSyncValidationError
        else bindE (settleTransitions e active1 ts1) (\<lambda>(active2, ts2). replayEvents active2 ts2 es))"

definition validatePolicyReplayInterval :: "replayEvidence \<Rightarrow> unit res" where
  "validatePolicyReplayInterval evidence =
     (if replayRollsBack evidence then Inl ConversationSyncValidationError
      else bindE (checkTransitions evidence (rv_pageStartPolicy evidence) (rv_transitions evidence)) (\<lambda>prior.
        if \<not> samePolicyMandatoryProposals (rj_mandatoryProposals prior) (rj_mandatoryProposals (rv_pageEndPolicy evidence))
        then Inl ConversationSyncValidationError
        else replayEvents (rj_mandatoryProposals (rv_pageStartPolicy evidence)) (rv_transitions evidence) (rv_events evidence)))"

subsection \<open>The digest of the evidence\<close>

definition encodePolicyReplayProjection :: "replayProjection \<Rightarrow> digestField list" where
  "encodePolicyReplayProjection p =
     [Utf8 (rj_policyHeadId p), Utf8 (rj_policyHeadSequence p), DecodedHash (rj_policyHeadHash p), Utf8 (rj_deliveryLogPosition p),
      DecodedHash (rj_deliveryLogHeadHash p)]
     @ encodePolicyMandatoryProposals (rj_mandatoryProposals p)
     @ [Utf8 (rj_witnessCheckpointId p), DecodedHash (rj_witnessEvidenceDigest p)]"

definition replayEventDigestFields :: "replayEvent \<Rightarrow> digestField list" where
  "replayEventDigestFields e =
     [Utf8 (re_position e), Utf8 (re_envelopeId e), Utf8 (envelopeClassText (re_envelopeClass e)), DecodedHash (re_envelopeSha256 e),
      DecodedHash (re_headHash e)]"

definition replayDigestFields :: "replayEvidence \<Rightarrow> digestField list" where
  "replayDigestFields r =
     [Utf8 (rv_realmId r), Utf8 (rv_conversationGeneration r), Utf8 (rv_releaseProfileId r), DecodedHash (rv_deliveryLimitsDigest r),
      DecodedHash (rv_releaseTrustRootDigest r), Utf8 (rv_conversationId r), Utf8 (rv_pageStartPosition r),
      DecodedHash (rv_pageStartHeadHash r)]
     @ encodePolicyReplayProjection (rv_pageStartPolicy r)
     @ [Utf8 (rv_pageEndPosition r), DecodedHash (rv_pageEndHeadHash r)]
     @ encodePolicyReplayProjection (rv_pageEndPolicy r)
     @ [Utf8 (rv_policyLogHighWaterSequence r), DecodedHash (rv_policyLogHighWaterHash r),
        Utf8 (rv_policyLogHighWaterWitnessCheckpointId r), DecodedHash (rv_policyLogHighWaterWitnessEvidenceDigest r)]
     @ Utf8 (showNat (length (rv_events r))) # concat (map replayEventDigestFields (rv_events r))
     @ Utf8 (showNat (length (rv_transitions r))) # concat (map encodePolicyReplayProjection (rv_transitions r))
     @ [Utf8 (rv_transitionCompactionStatus r), DecodedHash (rv_transitionRangeProofDigest r), Utf8 (rv_historicalIntervalStatus r),
        Utf8 (rv_applicationCutoffStatus r), Utf8 (rv_policyConsistencyStatus r), DecodedHash (rv_policyConsistencyEvidenceDigest r),
        Utf8 (rv_verifiedAt r)]"

definition computeConversationPolicyReplayEvidenceDigest :: "(bytes \<Rightarrow> bytes) \<Rightarrow> replayEvidence \<Rightarrow> string res" where
  "computeConversationPolicyReplayEvidenceDigest H r =
     digestOf H CONVERSATION_POLICY_REPLAY_EVIDENCE_DIGEST_DOMAIN (replayDigestFields r)"

definition parseConversationPolicyReplayEvidence :: "(bytes \<Rightarrow> bytes) \<Rightarrow> jsval \<Rightarrow> replayRequest \<Rightarrow> replayEvidence res" where
  "parseConversationPolicyReplayEvidence H v expected =
     bindE (parsePolicyReplayFields v) (\<lambda>parsed.
     bindE (assertPolicyReplayMatchesRequest parsed expected) (\<lambda>_.
     bindE (validatePolicyReplayInterval parsed) (\<lambda>_.
     bindE (computeConversationPolicyReplayEvidenceDigest H parsed) (\<lambda>digest.
     if rv_evidenceDigest parsed \<noteq> digest then Inl ConversationSyncValidationError else Inr parsed))))"

subsection \<open>The call of the verifier\<close>

definition toPolicyReplayProjection :: "policyProjection \<Rightarrow> replayProjection" where
  "toPolicyReplayProjection p =
     \<lparr>rj_policyHeadId = pp_policyHeadId p, rj_policyHeadSequence = pp_policyHeadSequence p, rj_policyHeadHash = pp_policyHeadHash p,
      rj_deliveryLogPosition = pp_policyDeliveryLogPosition p, rj_deliveryLogHeadHash = pp_policyDeliveryLogHeadHash p,
      rj_mandatoryProposals = pp_policyMandatoryProposals p, rj_witnessCheckpointId = pp_policyWitnessCheckpointId p,
      rj_witnessEvidenceDigest = pp_policyWitnessEvidenceDigest p\<rparr>"

definition snapshotPolicyReplayProjection :: "pageSnapshot \<Rightarrow> replayProjection" where
  "snapshotPolicyReplayProjection s =
     \<lparr>rj_policyHeadId = ps_policyHeadId s, rj_policyHeadSequence = ps_policyHeadSequence s, rj_policyHeadHash = ps_policyHeadHash s,
      rj_deliveryLogPosition = ps_policyDeliveryLogPosition s, rj_deliveryLogHeadHash = ps_policyDeliveryLogHeadHash s,
      rj_mandatoryProposals = ps_policyMandatoryProposals s, rj_witnessCheckpointId = ps_policyWitnessCheckpointId s,
      rj_witnessEvidenceDigest = ps_policyWitnessEvidenceDigest s\<rparr>"

definition replayEventOf :: "eventItem \<Rightarrow> replayEvent" where
  "replayEventOf item =
     (let e = storedCommon (ei_envelope item) in
      \<lparr>re_position = se_position e, re_envelopeId = se_envelopeId e, re_envelopeClass = se_envelopeClass e,
       re_envelopeSha256 = se_envelopeSha256 e, re_headHash = se_headHash e\<rparr>)"

definition replayRequestOf ::
  "verifiedPage \<Rightarrow> headAnchor \<Rightarrow> policyProjection \<Rightarrow> policyAnchor \<Rightarrow> string \<Rightarrow> string \<Rightarrow> string \<Rightarrow> string \<Rightarrow> string \<Rightarrow> string \<Rightarrow> replayRequest" where
  "replayRequestOf page anchor pageStartPolicy highWater verifiedAt realmId conversationGeneration releaseProfileId
       deliveryLimitsDigest releaseTrustRootDigest =
     (let snapshot = vp_snapshot page in
      \<lparr>rr_realmId = realmId, rr_conversationGeneration = conversationGeneration, rr_releaseProfileId = releaseProfileId,
       rr_deliveryLimitsDigest = deliveryLimitsDigest, rr_releaseTrustRootDigest = releaseTrustRootDigest,
       rr_conversationId = ps_conversationId snapshot, rr_pageStartPosition = ha_position anchor, rr_pageStartHeadHash = ha_headHash anchor,
       rr_pageStartPolicy = toPolicyReplayProjection pageStartPolicy, rr_pageEndPosition = lh_position (ps_logHead snapshot),
       rr_pageEndHeadHash = lh_headHash (ps_logHead snapshot), rr_pageEndPolicy = snapshotPolicyReplayProjection snapshot,
       rr_policyLogHighWaterSequence = pa_policyHeadSequence highWater, rr_policyLogHighWaterHash = pa_policyHeadHash highWater,
       rr_policyLogHighWaterWitnessCheckpointId = pa_witnessCheckpointId highWater,
       rr_policyLogHighWaterWitnessEvidenceDigest = pa_witnessEvidenceDigest highWater,
       rr_events = map replayEventOf (vp_events page), rr_verifiedAt = verifiedAt\<rparr>)"

text \<open>The port answers a request with a value, or the call ends with an error.\<close>

definition verifyConversationPolicyReplay ::
  "(bytes \<Rightarrow> bytes) \<Rightarrow> (replayRequest \<Rightarrow> jsval res) \<Rightarrow> verifiedPage \<Rightarrow> headAnchor \<Rightarrow> policyProjection \<Rightarrow> policyAnchor \<Rightarrow> string \<Rightarrow> string \<Rightarrow>
    string \<Rightarrow> string \<Rightarrow> string \<Rightarrow> string \<Rightarrow> replayEvidence res" where
  "verifyConversationPolicyReplay H verify page anchor pageStartPolicy highWater verifiedAt realmId conversationGeneration
       releaseProfileId deliveryLimitsDigest releaseTrustRootDigest =
     (let request = replayRequestOf page anchor pageStartPolicy highWater verifiedAt realmId conversationGeneration
          releaseProfileId deliveryLimitsDigest releaseTrustRootDigest in
      bindE (verify request) (\<lambda>raw.
      bindE (throwIfDeliveryPortUnavailable raw) (\<lambda>_.
      parseConversationPolicyReplayEvidence H raw request)))"

end
