(* ===== verification/PageProofs.thy ===== *)
theory PageProofs
  imports PolicyReplay
begin

section \<open>Evidence about checkpoints and the witness\<close>

text \<open>
  Models the evidence that the proof verifier returns for a page in \<open>src/src/production/delivery/sync.ts\<close>: one entry per
  signed checkpoint (those of the events and the one of the log head), one for the receipt of the witness, and one for the
  Welcome of the client if the page holds it. The client compares every entry with the checkpoint, receipt or Welcome it asked
  about, and the witness with the last one it trusted, and recomputes the digests. The signatures themselves are checked
  behind the port.
\<close>

definition CHECKPOINT_PROOF_EVIDENCE_DIGEST_DOMAIN :: string where
  "CHECKPOINT_PROOF_EVIDENCE_DIGEST_DOMAIN = ''jb-msg-checkpoint-proof-evidence/v1''"

definition WITNESS_PROOF_EVIDENCE_DIGEST_DOMAIN :: string where
  "WITNESS_PROOF_EVIDENCE_DIGEST_DOMAIN = ''jb-msg-witness-proof-evidence/v1''"

definition PAGE_PROOF_BUNDLE_EVIDENCE_DIGEST_DOMAIN :: string where
  "PAGE_PROOF_BUNDLE_EVIDENCE_DIGEST_DOMAIN = ''jb-msg-page-proof-bundle-evidence/v1''"

definition TARGET_WELCOME_PROOF_EVIDENCE_DIGEST_DOMAIN :: string where
  "TARGET_WELCOME_PROOF_EVIDENCE_DIGEST_DOMAIN = ''jb-msg-target-welcome-proof-evidence/v1''"

lemma nullable_uint63 [parse_simps]:
  "parseNullable parseUint63String v = Inr x \<longleftrightarrow> v = encodeNullable x \<and> (case x of None \<Rightarrow> True | Some s \<Rightarrow> uint63Valid s)"
  by (rule parseNullable_iff) (simp add: parse_simps)

definition hashSignature :: "(bytes \<Rightarrow> bytes) \<Rightarrow> string \<Rightarrow> string res" where
  "hashSignature H signature = bindE (parseCanonicalBase64UrlBytes 64 64 (JStr signature)) (\<lambda>bs. computeEnvelopeSha256 H (owned bs))"

subsection \<open>Checkpoints\<close>

record checkpointInput =
  ki_conversationId :: string
  ki_position :: string
  ki_previousHeadHash :: string
  ki_headHash :: string
  ki_signingKeyId :: string
  ki_checkpointDigest :: string
  ki_signature :: string
  ki_checkpointReceivedAt :: string

record checkpointProof =
  kp_position :: string
  kp_previousHeadHash :: string
  kp_headHash :: string
  kp_signingKeyId :: string
  kp_checkpointDigest :: string
  kp_signatureSha256 :: string
  kp_checkpointReceivedAt :: string
  kp_signatureStatus :: string
  kp_keyStatus :: string
  kp_evidenceDigest :: string

definition CHECKPOINT_PROOF_KEYS :: "string list" where
  "CHECKPOINT_PROOF_KEYS =
    [''position'', ''previousHeadHash'', ''headHash'', ''signingKeyId'', ''checkpointDigest'',
     ''signatureSha256'', ''checkpointReceivedAt'', ''signatureStatus'', ''keyStatus'', ''evidenceDigest'']"

definition parseCheckpointFields :: "jsval \<Rightarrow> checkpointProof res" where
  "parseCheckpointFields v =
     bindE (expectExactRecord v CHECKPOINT_PROOF_KEYS) (\<lambda>record.
     bindE (parsePositive (record ''position'')) (\<lambda>position.
     bindE (parseHash32 (record ''previousHeadHash'')) (\<lambda>previousHeadHash.
     bindE (parseHash32 (record ''headHash'')) (\<lambda>headHash.
     bindE (parseSigningKeyId (record ''signingKeyId'')) (\<lambda>signingKeyId.
     bindE (parseHash32 (record ''checkpointDigest'')) (\<lambda>checkpointDigest.
     bindE (parseHash32 (record ''signatureSha256'')) (\<lambda>signatureSha256.
     bindE (parseRfc3339Millis (record ''checkpointReceivedAt'')) (\<lambda>checkpointReceivedAt.
     bindE (parseExactLiteral ''verified'' (record ''signatureStatus'')) (\<lambda>signatureStatus.
     bindE (parseExactLiteral ''valid-for-checkpoint'' (record ''keyStatus'')) (\<lambda>keyStatus.
     bindE (parseHash32 (record ''evidenceDigest'')) (\<lambda>evidenceDigest.
     Inr \<lparr>kp_position = position, kp_previousHeadHash = previousHeadHash, kp_headHash = headHash,
          kp_signingKeyId = signingKeyId, kp_checkpointDigest = checkpointDigest,
          kp_signatureSha256 = signatureSha256, kp_checkpointReceivedAt = checkpointReceivedAt,
          kp_signatureStatus = signatureStatus, kp_keyStatus = keyStatus, kp_evidenceDigest = evidenceDigest\<rparr>)))))))))))"

definition entriesCheckpointProof :: "checkpointProof \<Rightarrow> (string \<times> jsval) list" where
  "entriesCheckpointProof r =
     [(''position'', JStr (kp_position r)), (''previousHeadHash'', JStr (kp_previousHeadHash r)),
      (''headHash'', JStr (kp_headHash r)), (''signingKeyId'', JStr (kp_signingKeyId r)),
      (''checkpointDigest'', JStr (kp_checkpointDigest r)),
      (''signatureSha256'', JStr (kp_signatureSha256 r)),
      (''checkpointReceivedAt'', JStr (kp_checkpointReceivedAt r)),
      (''signatureStatus'', JStr (kp_signatureStatus r)), (''keyStatus'', JStr (kp_keyStatus r)),
      (''evidenceDigest'', JStr (kp_evidenceDigest r))]"

definition encodeCheckpointProof :: "checkpointProof \<Rightarrow> jsval" where
  "encodeCheckpointProof r = mkRecord (entriesCheckpointProof r)"

definition checkpointProofValid :: "checkpointProof \<Rightarrow> bool" where
  "checkpointProofValid r =
     (positiveUint63Valid (kp_position r) \<and> hash32Valid (kp_previousHeadHash r) \<and>
      hash32Valid (kp_headHash r) \<and> SIGNING_KEY_ID (kp_signingKeyId r) \<and>
      hash32Valid (kp_checkpointDigest r) \<and> hash32Valid (kp_signatureSha256 r) \<and>
      rfc3339Valid (kp_checkpointReceivedAt r) \<and> kp_signatureStatus r = ''verified'' \<and>
      kp_keyStatus r = ''valid-for-checkpoint'' \<and> hash32Valid (kp_evidenceDigest r))"

lemma entriesCheckpointProof_get [simp]:
  "fieldOf (entriesCheckpointProof r) ''position'' = JStr (kp_position r)"
  "fieldOf (entriesCheckpointProof r) ''previousHeadHash'' = JStr (kp_previousHeadHash r)"
  "fieldOf (entriesCheckpointProof r) ''headHash'' = JStr (kp_headHash r)"
  "fieldOf (entriesCheckpointProof r) ''signingKeyId'' = JStr (kp_signingKeyId r)"
  "fieldOf (entriesCheckpointProof r) ''checkpointDigest'' = JStr (kp_checkpointDigest r)"
  "fieldOf (entriesCheckpointProof r) ''signatureSha256'' = JStr (kp_signatureSha256 r)"
  "fieldOf (entriesCheckpointProof r) ''checkpointReceivedAt'' = JStr (kp_checkpointReceivedAt r)"
  "fieldOf (entriesCheckpointProof r) ''signatureStatus'' = JStr (kp_signatureStatus r)"
  "fieldOf (entriesCheckpointProof r) ''keyStatus'' = JStr (kp_keyStatus r)"
  "fieldOf (entriesCheckpointProof r) ''evidenceDigest'' = JStr (kp_evidenceDigest r)"
  by (simp_all add: entriesCheckpointProof_def)

lemma expect_encodeCheckpointProof: "expectExactRecord (encodeCheckpointProof r) CHECKPOINT_PROOF_KEYS = Inr (fieldOf (entriesCheckpointProof r))"
  unfolding encodeCheckpointProof_def by (rule expectExactRecord_mkRecord) (simp_all add: CHECKPOINT_PROOF_KEYS_def entriesCheckpointProof_def)

interpretation checkpoint_proof_codec: record_codec parseCheckpointFields encodeCheckpointProof checkpointProofValid
proof
  show "checkpointProofValid r" if "parseCheckpointFields v = Inr r" for v r
    using that unfolding parseCheckpointFields_def
    by (elim bindE_InrE, simp only: parse_simps guardE_eq_Inr sum.inject, elim conjE, hypsubst, simp add: checkpointProofValid_def)
  show "parseCheckpointFields (encodeCheckpointProof r) = Inr r" if "checkpointProofValid r" for r
    using that by (simp add: parseCheckpointFields_def expect_encodeCheckpointProof parse_ok checkpointProofValid_def split: option.splits)
qed

definition checkpointProofFields :: "checkpointProof \<Rightarrow> digestField list" where
  "checkpointProofFields r =
     [Utf8 (kp_position r), DecodedHash (kp_previousHeadHash r), DecodedHash (kp_headHash r),
      Utf8 (kp_signingKeyId r), DecodedHash (kp_checkpointDigest r), DecodedHash (kp_signatureSha256 r),
      Utf8 (kp_checkpointReceivedAt r), Utf8 (kp_signatureStatus r), Utf8 (kp_keyStatus r)]"

definition computeDeliveryCheckpointProofEvidenceDigest :: "(bytes \<Rightarrow> bytes) \<Rightarrow> string \<Rightarrow> string \<Rightarrow> checkpointProof \<Rightarrow> string res" where
  "computeDeliveryCheckpointProofEvidenceDigest H conversationId verifiedAt r =
     digestOf H CHECKPOINT_PROOF_EVIDENCE_DIGEST_DOMAIN (Utf8 conversationId # Utf8 verifiedAt # checkpointProofFields r)"

definition parseCheckpointProofEvidence :: "(bytes \<Rightarrow> bytes) \<Rightarrow> jsval \<Rightarrow> checkpointInput \<Rightarrow> string \<Rightarrow> string \<Rightarrow> checkpointProof res" where
  "parseCheckpointProofEvidence H v expected conversationId verifiedAt =
     bindE (parseCheckpointFields v) (\<lambda>parsed.
     if kp_position parsed \<noteq> ki_position expected \<or> kp_previousHeadHash parsed \<noteq> ki_previousHeadHash expected
        \<or> kp_headHash parsed \<noteq> ki_headHash expected \<or> kp_signingKeyId parsed \<noteq> ki_signingKeyId expected
        \<or> kp_checkpointDigest parsed \<noteq> ki_checkpointDigest expected
     then Inl ConversationSyncValidationError
     else bindE (hashSignature H (ki_signature expected)) (\<lambda>signatureSha256.
     if kp_signatureSha256 parsed \<noteq> signatureSha256 \<or> kp_checkpointReceivedAt parsed \<noteq> ki_checkpointReceivedAt expected
     then Inl ConversationSyncValidationError
     else bindE (computeDeliveryCheckpointProofEvidenceDigest H conversationId verifiedAt parsed) (\<lambda>digest.
     if kp_evidenceDigest parsed \<noteq> digest then Inl ConversationSyncValidationError else Inr parsed)))"

subsection \<open>The witness\<close>

datatype witnessConsistency = ConsistencyVerified | ConsistencyBootstrap

primrec witnessConsistencyText :: "witnessConsistency \<Rightarrow> string" where
  "witnessConsistencyText ConsistencyVerified = ''verified''"
| "witnessConsistencyText ConsistencyBootstrap = ''bootstrap''"

definition parseWitnessConsistency :: "jsval \<Rightarrow> witnessConsistency res" where
  "parseWitnessConsistency = parseOneOfString witnessConsistencyText [ConsistencyVerified, ConsistencyBootstrap]"

lemma witnessConsistencyText_inj [enum_inj]: "witnessConsistencyText a = witnessConsistencyText b \<longleftrightarrow> a = b"
  by (cases a; cases b) simp_all

lemma parseWitnessConsistency_iff [parse_simps]: "parseWitnessConsistency v = Inr x \<longleftrightarrow> v = JStr (witnessConsistencyText x)"
  unfolding parseWitnessConsistency_def
proof (rule parseOneOfString_iff)
  show "inj witnessConsistencyText" by (rule injI) (simp add: enum_inj)
  show "y \<in> set [ConsistencyVerified, ConsistencyBootstrap]" for y by (cases y) simp_all
qed

lemma parseWitnessConsistency_ok [parse_ok]: "parseWitnessConsistency (JStr (witnessConsistencyText x)) = Inr x"
  by (simp add: parse_simps)

record witnessProof =
  wp_position :: string
  wp_headHash :: string
  wp_witnessCheckpointId :: string
  wp_witnessTreeSize :: string
  wp_witnessRootHash :: string
  wp_witnessKeyId :: string
  wp_witnessSignatureSha256 :: string
  wp_witnessedAt :: string
  wp_priorWitnessCheckpointId :: "string option"
  wp_priorWitnessTreeSize :: "string option"
  wp_priorWitnessRootHash :: "string option"
  wp_signatureStatus :: string
  wp_keyStatus :: string
  wp_inclusionStatus :: string
  wp_consistencyStatus :: witnessConsistency
  wp_freshnessStatus :: string
  wp_evidenceDigest :: string

definition WITNESS_PROOF_KEYS :: "string list" where
  "WITNESS_PROOF_KEYS =
    [''position'', ''headHash'', ''witnessCheckpointId'', ''witnessTreeSize'', ''witnessRootHash'',
     ''witnessKeyId'', ''witnessSignatureSha256'', ''witnessedAt'', ''priorWitnessCheckpointId'',
     ''priorWitnessTreeSize'', ''priorWitnessRootHash'', ''signatureStatus'', ''keyStatus'',
     ''inclusionStatus'', ''consistencyStatus'', ''freshnessStatus'', ''evidenceDigest'']"

definition parseWitnessFields :: "jsval \<Rightarrow> witnessProof res" where
  "parseWitnessFields v =
     bindE (expectExactRecord v WITNESS_PROOF_KEYS) (\<lambda>record.
     bindE (parsePositive (record ''position'')) (\<lambda>position.
     bindE (parseHash32 (record ''headHash'')) (\<lambda>headHash.
     bindE (parseWitnessCheckpointId (record ''witnessCheckpointId'')) (\<lambda>witnessCheckpointId.
     bindE (parseUint63String (record ''witnessTreeSize'')) (\<lambda>witnessTreeSize.
     bindE (parseHash32 (record ''witnessRootHash'')) (\<lambda>witnessRootHash.
     bindE (parseSigningKeyId (record ''witnessKeyId'')) (\<lambda>witnessKeyId.
     bindE (parseHash32 (record ''witnessSignatureSha256'')) (\<lambda>witnessSignatureSha256.
     bindE (parseRfc3339Millis (record ''witnessedAt'')) (\<lambda>witnessedAt.
     bindE (parseNullable parseWitnessCheckpointId (record ''priorWitnessCheckpointId'')) (\<lambda>priorWitnessCheckpointId.
     bindE (parseNullable parseUint63String (record ''priorWitnessTreeSize'')) (\<lambda>priorWitnessTreeSize.
     bindE (parseNullable parseHash32 (record ''priorWitnessRootHash'')) (\<lambda>priorWitnessRootHash.
     bindE (parseExactLiteral ''verified'' (record ''signatureStatus'')) (\<lambda>signatureStatus.
     bindE (parseExactLiteral ''valid-for-checkpoint'' (record ''keyStatus'')) (\<lambda>keyStatus.
     bindE (parseExactLiteral ''verified'' (record ''inclusionStatus'')) (\<lambda>inclusionStatus.
     bindE (parseWitnessConsistency (record ''consistencyStatus'')) (\<lambda>consistencyStatus.
     bindE (parseExactLiteral ''fresh'' (record ''freshnessStatus'')) (\<lambda>freshnessStatus.
     bindE (parseHash32 (record ''evidenceDigest'')) (\<lambda>evidenceDigest.
     Inr \<lparr>wp_position = position, wp_headHash = headHash, wp_witnessCheckpointId = witnessCheckpointId,
          wp_witnessTreeSize = witnessTreeSize, wp_witnessRootHash = witnessRootHash,
          wp_witnessKeyId = witnessKeyId, wp_witnessSignatureSha256 = witnessSignatureSha256,
          wp_witnessedAt = witnessedAt, wp_priorWitnessCheckpointId = priorWitnessCheckpointId,
          wp_priorWitnessTreeSize = priorWitnessTreeSize, wp_priorWitnessRootHash = priorWitnessRootHash,
          wp_signatureStatus = signatureStatus, wp_keyStatus = keyStatus,
          wp_inclusionStatus = inclusionStatus, wp_consistencyStatus = consistencyStatus,
          wp_freshnessStatus = freshnessStatus, wp_evidenceDigest = evidenceDigest\<rparr>))))))))))))))))))"

definition entriesWitnessProof :: "witnessProof \<Rightarrow> (string \<times> jsval) list" where
  "entriesWitnessProof r =
     [(''position'', JStr (wp_position r)), (''headHash'', JStr (wp_headHash r)),
      (''witnessCheckpointId'', JStr (wp_witnessCheckpointId r)),
      (''witnessTreeSize'', JStr (wp_witnessTreeSize r)), (''witnessRootHash'', JStr (wp_witnessRootHash r)),
      (''witnessKeyId'', JStr (wp_witnessKeyId r)),
      (''witnessSignatureSha256'', JStr (wp_witnessSignatureSha256 r)),
      (''witnessedAt'', JStr (wp_witnessedAt r)),
      (''priorWitnessCheckpointId'', encodeNullable (wp_priorWitnessCheckpointId r)),
      (''priorWitnessTreeSize'', encodeNullable (wp_priorWitnessTreeSize r)),
      (''priorWitnessRootHash'', encodeNullable (wp_priorWitnessRootHash r)),
      (''signatureStatus'', JStr (wp_signatureStatus r)), (''keyStatus'', JStr (wp_keyStatus r)),
      (''inclusionStatus'', JStr (wp_inclusionStatus r)),
      (''consistencyStatus'', JStr (witnessConsistencyText (wp_consistencyStatus r))),
      (''freshnessStatus'', JStr (wp_freshnessStatus r)), (''evidenceDigest'', JStr (wp_evidenceDigest r))]"

definition encodeWitnessProof :: "witnessProof \<Rightarrow> jsval" where
  "encodeWitnessProof r = mkRecord (entriesWitnessProof r)"

definition witnessProofValid :: "witnessProof \<Rightarrow> bool" where
  "witnessProofValid r =
     (positiveUint63Valid (wp_position r) \<and> hash32Valid (wp_headHash r) \<and>
      uuidV4Valid (wp_witnessCheckpointId r) \<and> uint63Valid (wp_witnessTreeSize r) \<and>
      hash32Valid (wp_witnessRootHash r) \<and> SIGNING_KEY_ID (wp_witnessKeyId r) \<and>
      hash32Valid (wp_witnessSignatureSha256 r) \<and> rfc3339Valid (wp_witnessedAt r) \<and>
      (case wp_priorWitnessCheckpointId r of None \<Rightarrow> True | Some x \<Rightarrow> uuidV4Valid x) \<and>
      (case wp_priorWitnessTreeSize r of None \<Rightarrow> True | Some x \<Rightarrow> uint63Valid x) \<and>
      (case wp_priorWitnessRootHash r of None \<Rightarrow> True | Some x \<Rightarrow> hash32Valid x) \<and>
      wp_signatureStatus r = ''verified'' \<and> wp_keyStatus r = ''valid-for-checkpoint'' \<and>
      wp_inclusionStatus r = ''verified'' \<and> wp_freshnessStatus r = ''fresh'' \<and>
      hash32Valid (wp_evidenceDigest r))"

lemma entriesWitnessProof_get_1:
  "fieldOf (entriesWitnessProof r) ''position'' = JStr (wp_position r)"
  "fieldOf (entriesWitnessProof r) ''headHash'' = JStr (wp_headHash r)"
  "fieldOf (entriesWitnessProof r) ''witnessCheckpointId'' = JStr (wp_witnessCheckpointId r)"
  "fieldOf (entriesWitnessProof r) ''witnessTreeSize'' = JStr (wp_witnessTreeSize r)"
  "fieldOf (entriesWitnessProof r) ''witnessRootHash'' = JStr (wp_witnessRootHash r)"
  "fieldOf (entriesWitnessProof r) ''witnessKeyId'' = JStr (wp_witnessKeyId r)"
  "fieldOf (entriesWitnessProof r) ''witnessSignatureSha256'' = JStr (wp_witnessSignatureSha256 r)"
  "fieldOf (entriesWitnessProof r) ''witnessedAt'' = JStr (wp_witnessedAt r)"
  by (simp_all add: entriesWitnessProof_def)

lemma entriesWitnessProof_get_2:
  "fieldOf (entriesWitnessProof r) ''priorWitnessCheckpointId'' = encodeNullable (wp_priorWitnessCheckpointId r)"
  "fieldOf (entriesWitnessProof r) ''priorWitnessTreeSize'' = encodeNullable (wp_priorWitnessTreeSize r)"
  "fieldOf (entriesWitnessProof r) ''priorWitnessRootHash'' = encodeNullable (wp_priorWitnessRootHash r)"
  "fieldOf (entriesWitnessProof r) ''signatureStatus'' = JStr (wp_signatureStatus r)"
  "fieldOf (entriesWitnessProof r) ''keyStatus'' = JStr (wp_keyStatus r)"
  "fieldOf (entriesWitnessProof r) ''inclusionStatus'' = JStr (wp_inclusionStatus r)"
  "fieldOf (entriesWitnessProof r) ''consistencyStatus'' = JStr (witnessConsistencyText (wp_consistencyStatus r))"
  "fieldOf (entriesWitnessProof r) ''freshnessStatus'' = JStr (wp_freshnessStatus r)"
  by (simp_all add: entriesWitnessProof_def)

lemma entriesWitnessProof_get_3:
  "fieldOf (entriesWitnessProof r) ''evidenceDigest'' = JStr (wp_evidenceDigest r)"
  by (simp_all add: entriesWitnessProof_def)

lemmas entriesWitnessProof_get [simp] = entriesWitnessProof_get_1 entriesWitnessProof_get_2 entriesWitnessProof_get_3

lemma expect_encodeWitnessProof: "expectExactRecord (encodeWitnessProof r) WITNESS_PROOF_KEYS = Inr (fieldOf (entriesWitnessProof r))"
  unfolding encodeWitnessProof_def by (rule expectExactRecord_mkRecord) (simp_all add: WITNESS_PROOF_KEYS_def entriesWitnessProof_def)

interpretation witness_proof_codec: record_codec parseWitnessFields encodeWitnessProof witnessProofValid
proof
  show "witnessProofValid r" if "parseWitnessFields v = Inr r" for v r
    using that unfolding parseWitnessFields_def
    by (elim bindE_InrE, simp only: parse_simps guardE_eq_Inr sum.inject, elim conjE, hypsubst, simp add: witnessProofValid_def)
  show "parseWitnessFields (encodeWitnessProof r) = Inr r" if "witnessProofValid r" for r
    using that by (simp add: parseWitnessFields_def expect_encodeWitnessProof parse_ok witnessProofValid_def split: option.splits)
qed

definition witnessProofFields :: "witnessProof \<Rightarrow> digestField list" where
  "witnessProofFields r =
     [Utf8 (wp_position r), DecodedHash (wp_headHash r), Utf8 (wp_witnessCheckpointId r),
      Utf8 (wp_witnessTreeSize r), DecodedHash (wp_witnessRootHash r), Utf8 (wp_witnessKeyId r),
      DecodedHash (wp_witnessSignatureSha256 r), Utf8 (wp_witnessedAt r),
      NullableText (wp_priorWitnessCheckpointId r), NullableText (wp_priorWitnessTreeSize r),
      NullableHash (wp_priorWitnessRootHash r), Utf8 (wp_signatureStatus r), Utf8 (wp_keyStatus r),
      Utf8 (wp_inclusionStatus r), Utf8 (witnessConsistencyText (wp_consistencyStatus r)),
      Utf8 (wp_freshnessStatus r)]"

definition computeDeliveryWitnessProofEvidenceDigest :: "(bytes \<Rightarrow> bytes) \<Rightarrow> string \<Rightarrow> string \<Rightarrow> witnessProof \<Rightarrow> string res" where
  "computeDeliveryWitnessProofEvidenceDigest H conversationId verifiedAt r =
     digestOf H WITNESS_PROOF_EVIDENCE_DIGEST_DOMAIN (Utf8 conversationId # Utf8 verifiedAt # witnessProofFields r)"

definition witnessRollsBack :: "witnessProof \<Rightarrow> witnessAnchor \<Rightarrow> bool" where
  "witnessRollsBack parsed prior =
     (bigInt (wp_witnessTreeSize parsed) < bigInt (wa_witnessTreeSize prior) \<or> wp_witnessedAt parsed < wa_witnessedAt prior
      \<or> (wp_witnessTreeSize parsed = wa_witnessTreeSize prior \<and> wp_witnessRootHash parsed \<noteq> wa_witnessRootHash prior))"

text \<open>
  The source admits a null \<open>priorWitness\<close>, for which it skips the rollback check; both callers pass the last
  trusted witness, so the parameter is not optional here.
\<close>

definition parseWitnessProofEvidence ::
  "(bytes \<Rightarrow> bytes) \<Rightarrow> jsval \<Rightarrow> witnessReceipt \<Rightarrow> witnessAnchor \<Rightarrow> string \<Rightarrow> string \<Rightarrow> witnessProof res" where
  "parseWitnessProofEvidence H v expected priorWitness conversationId verifiedAt =
     bindE (parseWitnessFields v) (\<lambda>parsed.
     if wp_position parsed \<noteq> wr_position expected \<or> wp_headHash parsed \<noteq> wr_headHash expected
        \<or> wp_witnessCheckpointId parsed \<noteq> wr_witnessCheckpointId expected \<or> wp_witnessTreeSize parsed \<noteq> wr_witnessTreeSize expected
        \<or> wp_witnessRootHash parsed \<noteq> wr_witnessRootHash expected \<or> wp_witnessKeyId parsed \<noteq> wr_witnessKeyId expected
        \<or> wp_witnessedAt parsed \<noteq> wr_witnessedAt expected
     then Inl ConversationSyncValidationError
     else bindE (hashSignature H (wr_witnessSignature expected)) (\<lambda>signatureSha256.
     if wp_witnessSignatureSha256 parsed \<noteq> signatureSha256
        \<or> wp_priorWitnessCheckpointId parsed \<noteq> Some (wa_witnessCheckpointId priorWitness)
        \<or> wp_priorWitnessTreeSize parsed \<noteq> Some (wa_witnessTreeSize priorWitness)
        \<or> wp_priorWitnessRootHash parsed \<noteq> Some (wa_witnessRootHash priorWitness)
        \<or> wp_consistencyStatus parsed \<noteq> ConsistencyVerified
     then Inl ConversationSyncValidationError
     else if witnessRollsBack parsed priorWitness then Inl ConversationSyncValidationError
     else bindE (computeDeliveryWitnessProofEvidenceDigest H conversationId verifiedAt parsed) (\<lambda>digest.
     if wp_evidenceDigest parsed \<noteq> digest then Inl ConversationSyncValidationError else Inr parsed)))"

subsection \<open>The Welcome\<close>

record welcomeInput =
  wi_releaseProfileId :: string
  wi_conversationId :: string
  wi_expectedGroupIdHash :: string
  wi_commitEpoch :: string
  wi_commitPosition :: string
  wi_commitEnvelopeId :: string
  wi_commitEnvelopeBytes :: string
  wi_commitEnvelopeSha256 :: string
  wi_targetAccountId :: string
  wi_targetInstallationId :: string
  wi_targetCredentialId :: string
  wi_targetCredentialFingerprint :: string
  wi_welcome :: string
  wi_welcomeSha256 :: string

record welcomeProof =
  xp_releaseProfileId :: string
  xp_expectedGroupIdHash :: string
  xp_commitEpoch :: string
  xp_commitPosition :: string
  xp_commitEnvelopeId :: string
  xp_commitEnvelopeSha256 :: string
  xp_targetAccountId :: string
  xp_targetInstallationId :: string
  xp_targetCredentialId :: string
  xp_targetCredentialFingerprint :: string
  xp_welcomeSha256 :: string
  xp_addCommitStatus :: string
  xp_membershipStatus :: string
  xp_resultingRosterMembershipStatus :: string
  xp_mailboxBindingStatus :: string
  xp_evidenceDigest :: string

definition WELCOME_PROOF_KEYS :: "string list" where
  "WELCOME_PROOF_KEYS =
    [''releaseProfileId'', ''expectedGroupIdHash'', ''commitEpoch'', ''commitPosition'', ''commitEnvelopeId'',
     ''commitEnvelopeSha256'', ''targetAccountId'', ''targetInstallationId'', ''targetCredentialId'',
     ''targetCredentialFingerprint'', ''welcomeSha256'', ''addCommitStatus'', ''membershipStatus'',
     ''resultingRosterMembershipStatus'', ''mailboxBindingStatus'', ''evidenceDigest'']"

definition parseWelcomeFields :: "jsval \<Rightarrow> welcomeProof res" where
  "parseWelcomeFields v =
     bindE (expectExactRecord v WELCOME_PROOF_KEYS) (\<lambda>record.
     bindE (parseReleaseProfileId (record ''releaseProfileId'')) (\<lambda>releaseProfileId.
     bindE (parseHash32 (record ''expectedGroupIdHash'')) (\<lambda>expectedGroupIdHash.
     bindE (parseUint63String (record ''commitEpoch'')) (\<lambda>commitEpoch.
     bindE (parsePositive (record ''commitPosition'')) (\<lambda>commitPosition.
     bindE (parseEnvelopeId (record ''commitEnvelopeId'')) (\<lambda>commitEnvelopeId.
     bindE (parseHash32 (record ''commitEnvelopeSha256'')) (\<lambda>commitEnvelopeSha256.
     bindE (parseAccountId (record ''targetAccountId'')) (\<lambda>targetAccountId.
     bindE (parseInstallationId (record ''targetInstallationId'')) (\<lambda>targetInstallationId.
     bindE (parseCredentialId (record ''targetCredentialId'')) (\<lambda>targetCredentialId.
     bindE (parseFingerprint32 (record ''targetCredentialFingerprint'')) (\<lambda>targetCredentialFingerprint.
     bindE (parseHash32 (record ''welcomeSha256'')) (\<lambda>welcomeSha256.
     bindE (parseExactLiteral ''verified'' (record ''addCommitStatus'')) (\<lambda>addCommitStatus.
     bindE (parseExactLiteral ''verified'' (record ''membershipStatus'')) (\<lambda>membershipStatus.
     bindE (parseExactLiteral ''verified-present'' (record ''resultingRosterMembershipStatus'')) (\<lambda>resultingRosterMembershipStatus.
     bindE (parseExactLiteral ''verified'' (record ''mailboxBindingStatus'')) (\<lambda>mailboxBindingStatus.
     bindE (parseHash32 (record ''evidenceDigest'')) (\<lambda>evidenceDigest.
     Inr \<lparr>xp_releaseProfileId = releaseProfileId, xp_expectedGroupIdHash = expectedGroupIdHash,
          xp_commitEpoch = commitEpoch, xp_commitPosition = commitPosition,
          xp_commitEnvelopeId = commitEnvelopeId, xp_commitEnvelopeSha256 = commitEnvelopeSha256,
          xp_targetAccountId = targetAccountId, xp_targetInstallationId = targetInstallationId,
          xp_targetCredentialId = targetCredentialId,
          xp_targetCredentialFingerprint = targetCredentialFingerprint, xp_welcomeSha256 = welcomeSha256,
          xp_addCommitStatus = addCommitStatus, xp_membershipStatus = membershipStatus,
          xp_resultingRosterMembershipStatus = resultingRosterMembershipStatus,
          xp_mailboxBindingStatus = mailboxBindingStatus, xp_evidenceDigest = evidenceDigest\<rparr>)))))))))))))))))"

definition entriesWelcomeProof :: "welcomeProof \<Rightarrow> (string \<times> jsval) list" where
  "entriesWelcomeProof r =
     [(''releaseProfileId'', JStr (xp_releaseProfileId r)),
      (''expectedGroupIdHash'', JStr (xp_expectedGroupIdHash r)), (''commitEpoch'', JStr (xp_commitEpoch r)),
      (''commitPosition'', JStr (xp_commitPosition r)), (''commitEnvelopeId'', JStr (xp_commitEnvelopeId r)),
      (''commitEnvelopeSha256'', JStr (xp_commitEnvelopeSha256 r)),
      (''targetAccountId'', JStr (xp_targetAccountId r)),
      (''targetInstallationId'', JStr (xp_targetInstallationId r)),
      (''targetCredentialId'', JStr (xp_targetCredentialId r)),
      (''targetCredentialFingerprint'', JStr (xp_targetCredentialFingerprint r)),
      (''welcomeSha256'', JStr (xp_welcomeSha256 r)), (''addCommitStatus'', JStr (xp_addCommitStatus r)),
      (''membershipStatus'', JStr (xp_membershipStatus r)),
      (''resultingRosterMembershipStatus'', JStr (xp_resultingRosterMembershipStatus r)),
      (''mailboxBindingStatus'', JStr (xp_mailboxBindingStatus r)),
      (''evidenceDigest'', JStr (xp_evidenceDigest r))]"

definition encodeWelcomeProof :: "welcomeProof \<Rightarrow> jsval" where
  "encodeWelcomeProof r = mkRecord (entriesWelcomeProof r)"

definition welcomeProofValid :: "welcomeProof \<Rightarrow> bool" where
  "welcomeProofValid r =
     (RELEASE_PROFILE_ID (xp_releaseProfileId r) \<and> hash32Valid (xp_expectedGroupIdHash r) \<and>
      uint63Valid (xp_commitEpoch r) \<and> positiveUint63Valid (xp_commitPosition r) \<and>
      uuidV4Valid (xp_commitEnvelopeId r) \<and> hash32Valid (xp_commitEnvelopeSha256 r) \<and>
      uuidV4Valid (xp_targetAccountId r) \<and> uuidV4Valid (xp_targetInstallationId r) \<and>
      uuidV4Valid (xp_targetCredentialId r) \<and> hash32Valid (xp_targetCredentialFingerprint r) \<and>
      hash32Valid (xp_welcomeSha256 r) \<and> xp_addCommitStatus r = ''verified'' \<and>
      xp_membershipStatus r = ''verified'' \<and>
      xp_resultingRosterMembershipStatus r = ''verified-present'' \<and>
      xp_mailboxBindingStatus r = ''verified'' \<and> hash32Valid (xp_evidenceDigest r))"

lemma entriesWelcomeProof_get [simp]:
  "fieldOf (entriesWelcomeProof r) ''releaseProfileId'' = JStr (xp_releaseProfileId r)"
  "fieldOf (entriesWelcomeProof r) ''expectedGroupIdHash'' = JStr (xp_expectedGroupIdHash r)"
  "fieldOf (entriesWelcomeProof r) ''commitEpoch'' = JStr (xp_commitEpoch r)"
  "fieldOf (entriesWelcomeProof r) ''commitPosition'' = JStr (xp_commitPosition r)"
  "fieldOf (entriesWelcomeProof r) ''commitEnvelopeId'' = JStr (xp_commitEnvelopeId r)"
  "fieldOf (entriesWelcomeProof r) ''commitEnvelopeSha256'' = JStr (xp_commitEnvelopeSha256 r)"
  "fieldOf (entriesWelcomeProof r) ''targetAccountId'' = JStr (xp_targetAccountId r)"
  "fieldOf (entriesWelcomeProof r) ''targetInstallationId'' = JStr (xp_targetInstallationId r)"
  "fieldOf (entriesWelcomeProof r) ''targetCredentialId'' = JStr (xp_targetCredentialId r)"
  "fieldOf (entriesWelcomeProof r) ''targetCredentialFingerprint'' = JStr (xp_targetCredentialFingerprint r)"
  "fieldOf (entriesWelcomeProof r) ''welcomeSha256'' = JStr (xp_welcomeSha256 r)"
  "fieldOf (entriesWelcomeProof r) ''addCommitStatus'' = JStr (xp_addCommitStatus r)"
  "fieldOf (entriesWelcomeProof r) ''membershipStatus'' = JStr (xp_membershipStatus r)"
  "fieldOf (entriesWelcomeProof r) ''resultingRosterMembershipStatus'' = JStr (xp_resultingRosterMembershipStatus r)"
  "fieldOf (entriesWelcomeProof r) ''mailboxBindingStatus'' = JStr (xp_mailboxBindingStatus r)"
  "fieldOf (entriesWelcomeProof r) ''evidenceDigest'' = JStr (xp_evidenceDigest r)"
  by (simp_all add: entriesWelcomeProof_def)

lemma expect_encodeWelcomeProof: "expectExactRecord (encodeWelcomeProof r) WELCOME_PROOF_KEYS = Inr (fieldOf (entriesWelcomeProof r))"
  unfolding encodeWelcomeProof_def by (rule expectExactRecord_mkRecord) (simp_all add: WELCOME_PROOF_KEYS_def entriesWelcomeProof_def)

interpretation welcome_proof_codec: record_codec parseWelcomeFields encodeWelcomeProof welcomeProofValid
proof
  show "welcomeProofValid r" if "parseWelcomeFields v = Inr r" for v r
    using that unfolding parseWelcomeFields_def
    by (elim bindE_InrE, simp only: parse_simps guardE_eq_Inr sum.inject, elim conjE, hypsubst, simp add: welcomeProofValid_def)
  show "parseWelcomeFields (encodeWelcomeProof r) = Inr r" if "welcomeProofValid r" for r
    using that by (simp add: parseWelcomeFields_def expect_encodeWelcomeProof parse_ok welcomeProofValid_def split: option.splits)
qed

definition welcomeProofFields :: "welcomeProof \<Rightarrow> digestField list" where
  "welcomeProofFields r =
     [Utf8 (xp_releaseProfileId r), DecodedHash (xp_expectedGroupIdHash r), Utf8 (xp_commitEpoch r),
      Utf8 (xp_commitPosition r), Utf8 (xp_commitEnvelopeId r), DecodedHash (xp_commitEnvelopeSha256 r),
      Utf8 (xp_targetAccountId r), Utf8 (xp_targetInstallationId r), Utf8 (xp_targetCredentialId r),
      DecodedFingerprint (xp_targetCredentialFingerprint r), DecodedHash (xp_welcomeSha256 r),
      Utf8 (xp_addCommitStatus r), Utf8 (xp_membershipStatus r), Utf8 (xp_resultingRosterMembershipStatus r),
      Utf8 (xp_mailboxBindingStatus r)]"

definition welcomeSubstituted :: "welcomeProof \<Rightarrow> welcomeInput \<Rightarrow> bool" where
  "welcomeSubstituted parsed expected =
     (xp_releaseProfileId parsed \<noteq> wi_releaseProfileId expected
      \<or> xp_expectedGroupIdHash parsed \<noteq> wi_expectedGroupIdHash expected
      \<or> xp_commitEpoch parsed \<noteq> wi_commitEpoch expected
      \<or> xp_commitPosition parsed \<noteq> wi_commitPosition expected
      \<or> xp_commitEnvelopeId parsed \<noteq> wi_commitEnvelopeId expected
      \<or> xp_commitEnvelopeSha256 parsed \<noteq> wi_commitEnvelopeSha256 expected
      \<or> xp_targetAccountId parsed \<noteq> wi_targetAccountId expected
      \<or> xp_targetInstallationId parsed \<noteq> wi_targetInstallationId expected
      \<or> xp_targetCredentialId parsed \<noteq> wi_targetCredentialId expected
      \<or> xp_targetCredentialFingerprint parsed \<noteq> wi_targetCredentialFingerprint expected
      \<or> xp_welcomeSha256 parsed \<noteq> wi_welcomeSha256 expected)"

definition computeTargetWelcomeProofEvidenceDigest :: "(bytes \<Rightarrow> bytes) \<Rightarrow> string \<Rightarrow> welcomeProof \<Rightarrow> string res" where
  "computeTargetWelcomeProofEvidenceDigest H conversationId r =
     digestOf H TARGET_WELCOME_PROOF_EVIDENCE_DIGEST_DOMAIN (Utf8 conversationId # welcomeProofFields r)"

definition parseTargetWelcomeProofEvidence ::
  "(bytes \<Rightarrow> bytes) \<Rightarrow> jsval \<Rightarrow> welcomeInput option \<Rightarrow> string \<Rightarrow> welcomeProof option res" where
  "parseTargetWelcomeProofEvidence H v expected conversationId = (case expected of
     None \<Rightarrow> if v \<noteq> JNull then Inl ConversationSyncValidationError else Inr None
   | Some e \<Rightarrow>
       bindE (parseWelcomeFields v) (\<lambda>parsed.
       if welcomeSubstituted parsed e then Inl ConversationSyncValidationError
       else bindE (computeTargetWelcomeProofEvidenceDigest H conversationId parsed) (\<lambda>digest.
       if xp_evidenceDigest parsed \<noteq> digest then Inl ConversationSyncValidationError else Inr (Some parsed))))"

subsection \<open>The bundle\<close>

record pageProofRequest =
  pr_realmId :: string
  pr_conversationId :: string
  pr_conversationGeneration :: string
  pr_releaseProfileId :: string
  pr_releaseTrustRootDigest :: string
  pr_checkpoints :: "checkpointInput list"
  pr_witness :: witnessReceipt
  pr_priorWitness :: witnessAnchor
  pr_targetWelcome :: "welcomeInput option"
  pr_verifiedAt :: string

record pageProof =
  pg_realmId :: string
  pg_conversationId :: string
  pg_conversationGeneration :: string
  pg_releaseProfileId :: string
  pg_releaseTrustRootDigest :: string
  pg_verifiedAt :: string
  pg_checkpoints :: "checkpointProof list"
  pg_witness :: witnessProof
  pg_targetWelcome :: "welcomeProof option"
  pg_bundleEvidenceDigest :: string

definition PAGE_PROOF_KEYS :: "string list" where
  "PAGE_PROOF_KEYS =
    [''status'', ''profile'', ''realmId'', ''conversationId'', ''conversationGeneration'', ''releaseProfileId'', ''releaseTrustRootDigest'',
     ''verifiedAt'', ''checkpoints'', ''witness'', ''targetWelcome'', ''bundleEvidenceDigest'']"

definition bundleDigestFields :: "pageProof \<Rightarrow> digestField list" where
  "bundleDigestFields r =
     [Utf8 (pg_realmId r), Utf8 (pg_conversationId r), Utf8 (pg_conversationGeneration r), Utf8 (pg_releaseProfileId r),
      DecodedHash (pg_releaseTrustRootDigest r), Utf8 (pg_verifiedAt r)]
     @ map (\<lambda>c. DecodedHash (kp_evidenceDigest c)) (pg_checkpoints r)
     @ [DecodedHash (wp_evidenceDigest (pg_witness r))]
     @ (case pg_targetWelcome r of None \<Rightarrow> [Utf8 ''absent''] | Some w \<Rightarrow> [Utf8 ''present'', DecodedHash (xp_evidenceDigest w)])"

definition computeConversationPageProofBundleEvidenceDigest :: "(bytes \<Rightarrow> bytes) \<Rightarrow> pageProof \<Rightarrow> string res" where
  "computeConversationPageProofBundleEvidenceDigest H r =
     (if pg_checkpoints r = [] \<or> length (pg_checkpoints r) > CONVERSATION_PAGE_HARD_MAX_EVENTS + 1
      then Inl ConversationSyncValidationError
      else digestOf H PAGE_PROOF_BUNDLE_EVIDENCE_DIGEST_DOMAIN (bundleDigestFields r))"

definition parseConversationPageProofEvidence :: "(bytes \<Rightarrow> bytes) \<Rightarrow> jsval \<Rightarrow> pageProofRequest \<Rightarrow> pageProof res" where
  "parseConversationPageProofEvidence H v expected =
     bindE (expectExactRecord v PAGE_PROOF_KEYS) (\<lambda>record.
     bindE (guardE (record ''status'' = JStr ''verified'' \<and> record ''profile'' = JStr ''conversation-page-proof-bundle.v1'')
       ConversationSyncValidationError) (\<lambda>_.
     bindE (parseConversationId (record ''conversationId'')) (\<lambda>conversationId.
     bindE (parseDeliveryRealmId (record ''realmId'')) (\<lambda>realmId.
     bindE (parsePositive (record ''conversationGeneration'')) (\<lambda>conversationGeneration.
     bindE (parseReleaseProfileId (record ''releaseProfileId'')) (\<lambda>releaseProfileId.
     bindE (parseHash32 (record ''releaseTrustRootDigest'')) (\<lambda>releaseTrustRootDigest.
     bindE (parseRfc3339Millis (record ''verifiedAt'')) (\<lambda>verifiedAt.
     bindE (guardE (\<not> (realmId \<noteq> pr_realmId expected \<or> conversationId \<noteq> pr_conversationId expected
         \<or> conversationGeneration \<noteq> pr_conversationGeneration expected \<or> releaseProfileId \<noteq> pr_releaseProfileId expected
         \<or> releaseTrustRootDigest \<noteq> pr_releaseTrustRootDigest expected \<or> verifiedAt \<noteq> pr_verifiedAt expected))
       ConversationSyncValidationError) (\<lambda>_.
     bindE (expectDenseArray (record ''checkpoints'') (int (length (pr_checkpoints expected)))) (\<lambda>rawCheckpoints.
     bindE (guardE (length rawCheckpoints = length (pr_checkpoints expected)) ConversationSyncValidationError) (\<lambda>_.
     bindE (mapE (\<lambda>(entry, checkpoint). parseCheckpointProofEvidence H entry checkpoint conversationId verifiedAt)
       (zip rawCheckpoints (pr_checkpoints expected))) (\<lambda>checkpoints.
     bindE (parseWitnessProofEvidence H (record ''witness'') (pr_witness expected) (pr_priorWitness expected) conversationId verifiedAt) (\<lambda>witness.
     bindE (parseTargetWelcomeProofEvidence H (record ''targetWelcome'') (pr_targetWelcome expected) conversationId) (\<lambda>targetWelcome.
     bindE (parseHash32 (record ''bundleEvidenceDigest'')) (\<lambda>bundleEvidenceDigest.
     let parsed = \<lparr>pg_realmId = realmId, pg_conversationId = conversationId, pg_conversationGeneration = conversationGeneration,
           pg_releaseProfileId = releaseProfileId, pg_releaseTrustRootDigest = releaseTrustRootDigest, pg_verifiedAt = verifiedAt,
           pg_checkpoints = checkpoints, pg_witness = witness, pg_targetWelcome = targetWelcome,
           pg_bundleEvidenceDigest = bundleEvidenceDigest\<rparr> in
     bindE (computeConversationPageProofBundleEvidenceDigest H parsed) (\<lambda>digest.
     if bundleEvidenceDigest \<noteq> digest then Inl ConversationSyncValidationError else Inr parsed))))))))))))))))"

subsection \<open>The call of the proof verifier\<close>

definition eventCheckpoint :: "eventItem \<Rightarrow> checkpointInput" where
  "eventCheckpoint item =
     (let e = storedCommon (ei_envelope item) in
      \<lparr>ki_conversationId = se_conversationId e, ki_position = se_position e, ki_previousHeadHash = se_previousHeadHash e,
       ki_headHash = se_headHash e, ki_signingKeyId = se_logSigningKeyId e, ki_checkpointDigest = se_logCheckpointDigest e,
       ki_signature = se_logHeadSignature e, ki_checkpointReceivedAt = se_receivedAt e\<rparr>)"

definition headCheckpoint :: "string \<Rightarrow> signedLogHead \<Rightarrow> checkpointInput" where
  "headCheckpoint conversationId h =
     \<lparr>ki_conversationId = conversationId, ki_position = lh_position h, ki_previousHeadHash = lh_previousHeadHash h,
      ki_headHash = lh_headHash h, ki_signingKeyId = lh_signingKeyId h, ki_checkpointDigest = lh_checkpointDigest h,
      ki_signature = lh_signature h, ki_checkpointReceivedAt = lh_checkpointReceivedAt h\<rparr>"

definition welcomeInputOf :: "string \<Rightarrow> string \<Rightarrow> string \<Rightarrow> membershipWindow \<Rightarrow> eventItem \<Rightarrow> targetWelcome \<Rightarrow> welcomeInput" where
  "welcomeInputOf releaseProfileId expectedGroupIdHash targetAccountId membership item w =
     (let e = storedCommon (ei_envelope item) in
      \<lparr>wi_releaseProfileId = releaseProfileId, wi_conversationId = se_conversationId e, wi_expectedGroupIdHash = expectedGroupIdHash,
       wi_commitEpoch = se_epoch e, wi_commitPosition = se_position e, wi_commitEnvelopeId = se_envelopeId e,
       wi_commitEnvelopeBytes = se_envelopeBytes e, wi_commitEnvelopeSha256 = se_envelopeSha256 e, wi_targetAccountId = targetAccountId,
       wi_targetInstallationId = tw_targetInstallationId w, wi_targetCredentialId = mw_credentialId membership,
       wi_targetCredentialFingerprint = mw_credentialFingerprint membership, wi_welcome = tw_welcome w,
       wi_welcomeSha256 = tw_welcomeSha256 w\<rparr>)"

definition targetWelcomeOf :: "string \<Rightarrow> string \<Rightarrow> string \<Rightarrow> membershipWindow \<Rightarrow> eventItem list \<Rightarrow> welcomeInput option" where
  "targetWelcomeOf releaseProfileId expectedGroupIdHash targetAccountId membership items =
     (case find (\<lambda>item. ei_welcome item \<noteq> None) items of
        None \<Rightarrow> None
      | Some item \<Rightarrow> map_option (welcomeInputOf releaseProfileId expectedGroupIdHash targetAccountId membership item) (ei_welcome item))"

definition pageCheckpoints :: "verifiedPage \<Rightarrow> checkpointInput list" where
  "pageCheckpoints page =
     map eventCheckpoint (vp_events page) @ [headCheckpoint (ps_conversationId (vp_snapshot page)) (ps_logHead (vp_snapshot page))]"

definition pageProofRequestOf :: "verifiedPage \<Rightarrow> string \<Rightarrow> verifiedPrefix \<Rightarrow> pageProofRequest" where
  "pageProofRequestOf page verifiedAt x =
     \<lparr>pr_realmId = cx_realmId (vx_context x), pr_conversationId = ps_conversationId (vp_snapshot page),
      pr_conversationGeneration = vx_conversationGeneration x, pr_releaseProfileId = vx_releaseProfileId x,
      pr_releaseTrustRootDigest = vx_releaseTrustRootDigest x, pr_checkpoints = pageCheckpoints page,
      pr_witness = ps_witnessReceipt (vp_snapshot page), pr_priorWitness = vx_witness x,
      pr_targetWelcome = targetWelcomeOf (vx_releaseProfileId x) (vx_expectedGroupIdHash x) (cx_accountId (vx_context x)) (vx_membership x)
        (vp_events page),
      pr_verifiedAt = verifiedAt\<rparr>"

definition verifyConversationPageProofs ::
  "(bytes \<Rightarrow> bytes) \<Rightarrow> (pageProofRequest \<Rightarrow> jsval res) \<Rightarrow> verifiedPage \<Rightarrow> string \<Rightarrow> verifiedPrefix \<Rightarrow> pageProof res" where
  "verifyConversationPageProofs H verify page verifiedAt x =
     (if length (pageCheckpoints page) = 0 \<or> length (pageCheckpoints page) > CONVERSATION_PAGE_HARD_MAX_EVENTS + 1
      then Inl ConversationSyncValidationError
      else let request = pageProofRequestOf page verifiedAt x in
        bindE (verify request) (\<lambda>raw.
        bindE (throwIfDeliveryPortUnavailable raw) (\<lambda>_.
        parseConversationPageProofEvidence H raw request)))"

subsection \<open>The policy head\<close>

definition policyHeadRequestOf :: "pageSnapshot \<Rightarrow> string \<Rightarrow> verifiedPrefix \<Rightarrow> policyHeadProofExpectation" where
  "policyHeadRequestOf s verifiedAt x =
     \<lparr>px_realmId = cx_realmId (vx_context x), px_conversationGeneration = vx_conversationGeneration x,
      px_releaseTrustRootDigest = vx_releaseTrustRootDigest x, px_purpose = HistoricalPage, px_releaseProfileId = vx_releaseProfileId x,
      px_deliveryLimitsDigest = ps_deliveryLimitsDigest s, px_conversationId = ps_conversationId s, px_policyHeadId = ps_policyHeadId s,
      px_policyHeadSequence = ps_policyHeadSequence s, px_policyHeadHash = ps_policyHeadHash s,
      px_deliveryLogPosition = ps_policyDeliveryLogPosition s, px_deliveryLogHeadHash = ps_policyDeliveryLogHeadHash s,
      px_evaluationLogPosition = lh_position (ps_logHead s), px_evaluationLogHeadHash = lh_headHash (ps_logHead s),
      px_epoch = ps_epoch s, px_rosterVersion = ps_rosterVersion s, px_confirmedTranscriptHash = ps_confirmedTranscriptHash s,
      px_policyRevision = ps_policyRevision s, px_mandatoryProposalCount = ps_policyMandatoryProposalCount s,
      px_mandatoryProposalSetHash = ps_policyMandatoryProposalSetHash s,
      px_authorizedSendGrantSetHash = ps_policyAuthorizedSendGrantSetHash s, px_selectedSendGrantEvidenceDigest = ZERO_HASH32,
      px_selectedSendGrantInclusionEvidenceDigest = ZERO_HASH32,
      px_authorizedQuotaPolicyDigest = ps_policyAuthorizedQuotaPolicyDigest s, px_priorPolicyHeadSequence = pa_policyHeadSequence (vx_policy x),
      px_priorPolicyHeadHash = pa_policyHeadHash (vx_policy x), px_priorPolicyWitnessCheckpointId = pa_witnessCheckpointId (vx_policy x),
      px_priorPolicyWitnessEvidenceDigest = pa_witnessEvidenceDigest (vx_policy x), px_verifiedAt = verifiedAt\<rparr>"

text \<open>The port gets the fields of the expectation, and the evidence is parsed against them.\<close>

definition verifyConversationPolicyHead ::
  "(bytes \<Rightarrow> bytes) \<Rightarrow> (policyHeadProofExpectation \<Rightarrow> jsval res) \<Rightarrow> pageSnapshot \<Rightarrow> string \<Rightarrow> verifiedPrefix \<Rightarrow> policyHeadProofEvidence res" where
  "verifyConversationPolicyHead H verify s verifiedAt x =
     (let request = policyHeadRequestOf s verifiedAt x in
      bindE (verify request) (\<lambda>raw.
      bindE (throwIfDeliveryPortUnavailable raw) (\<lambda>_.
      parsePolicyHeadProofEvidence H raw (encodeExpectation request))))"

end
