(* ===== verification/MlsProposals.thy ===== *)
theory MlsProposals
  imports PolicyReplay
begin

section \<open>Evidence about external proposals\<close>

text \<open>
  Models the evidence that the verifier of external proposals returns to the client of
  \<open>src/src/production/delivery/sync.ts\<close>: the authorisation by the policy, the credential of the signer, the records that the
  proposal belongs to, and the hash of the message. The client parses the evidence, compares it with what it asked for,
  and checks that its parts agree. What the port establishes by cryptography is not in the scope of the client.
\<close>

definition MLS_EXTERNAL_PROPOSAL_EVIDENCE_DIGEST_DOMAIN :: string where
  "MLS_EXTERNAL_PROPOSAL_EVIDENCE_DIGEST_DOMAIN = ''jb-msg-mls-external-proposal-evidence/v1''"

definition MLS_EXTERNAL_SIGNER_MAX_LIFETIME_MILLISECONDS :: int where
  "MLS_EXTERNAL_SIGNER_MAX_LIFETIME_MILLISECONDS = 90 * 24 * 60 * 60 * 1000"

record proposalEvidence =
  pe_realmId :: string
  pe_conversationGeneration :: string
  pe_releaseProfileId :: string
  pe_deliveryLimitsDigest :: string
  pe_releaseTrustRootDigest :: string
  pe_expectedGroupIdHash :: string
  pe_conversationId :: string
  pe_position :: string
  pe_envelopeId :: string
  pe_envelopeSha256 :: string
  pe_epoch :: string
  pe_rosterVersion :: string
  pe_credentialId :: string
  pe_credentialFingerprint :: string
  pe_signerGeneration :: string
  pe_checkpointReceivedAt :: string
  pe_pageEndPosition :: string
  pe_pageEndHeadHash :: string
  pe_pageEndPolicyHeadSequence :: string
  pe_pageEndPolicyHeadHash :: string
  pe_priorPolicyHeadSequence :: string
  pe_priorPolicyHeadHash :: string
  pe_priorPolicyWitnessCheckpointId :: string
  pe_priorPolicyWitnessEvidenceDigest :: string
  pe_policyLogHighWaterSequence :: string
  pe_policyLogHighWaterHash :: string
  pe_policyLogHighWaterWitnessCheckpointId :: string
  pe_policyLogHighWaterWitnessEvidenceDigest :: string
  pe_authorizingPolicyHeadId :: string
  pe_authorizingPolicyHeadSequence :: string
  pe_authorizingPolicyHeadHash :: string
  pe_proposalId :: string
  pe_proposalHash :: string
  pe_authorizationRecordHash :: string
  pe_membershipIntentId :: string
  pe_membershipIntentHash :: string
  pe_membershipIntentEvidenceDigest :: string
  pe_proposalRecordBindingStatus :: string
  pe_intentRecordBindingStatus :: string
  pe_recordBindingEvidenceDigest :: string
  pe_proposalType :: proposalType
  pe_proposalRequirement :: proposalRequirement
  pe_proposalBodySha256 :: string
  pe_activeCredentialStatus :: string
  pe_credentialValidFrom :: string
  pe_credentialValidUntil :: string
  pe_publicationWitnessCheckpointId :: string
  pe_publicationWitnessEvidenceDigest :: string
  pe_credentialPublicationStatus :: string
  pe_authorizationRecordStatus :: string
  pe_policyAuthorizationStatus :: string
  pe_policyConsistencyStatus :: string
  pe_policyConsistencyEvidenceDigest :: string
  pe_proposalStatus :: string
  pe_evidenceDigest :: string

definition PROPOSAL_EVIDENCE_KEYS :: "string list" where
  "PROPOSAL_EVIDENCE_KEYS =
    [''status'', ''profile'', ''realmId'', ''conversationGeneration'', ''releaseProfileId'',
     ''deliveryLimitsDigest'', ''releaseTrustRootDigest'', ''expectedGroupIdHash'', ''conversationId'',
     ''position'', ''envelopeId'', ''envelopeSha256'', ''epoch'', ''rosterVersion'', ''credentialId'',
     ''credentialFingerprint'', ''signerGeneration'', ''checkpointReceivedAt'', ''pageEndPosition'',
     ''pageEndHeadHash'', ''pageEndPolicyHeadSequence'', ''pageEndPolicyHeadHash'',
     ''priorPolicyHeadSequence'', ''priorPolicyHeadHash'', ''priorPolicyWitnessCheckpointId'',
     ''priorPolicyWitnessEvidenceDigest'', ''policyLogHighWaterSequence'', ''policyLogHighWaterHash'',
     ''policyLogHighWaterWitnessCheckpointId'', ''policyLogHighWaterWitnessEvidenceDigest'',
     ''authorizingPolicyHeadId'', ''authorizingPolicyHeadSequence'', ''authorizingPolicyHeadHash'',
     ''proposalId'', ''proposalHash'', ''authorizationRecordHash'', ''membershipIntentId'',
     ''membershipIntentHash'', ''membershipIntentEvidenceDigest'', ''proposalRecordBindingStatus'',
     ''intentRecordBindingStatus'', ''recordBindingEvidenceDigest'', ''proposalType'',
     ''proposalRequirement'', ''proposalBodySha256'', ''activeCredentialStatus'', ''credentialValidFrom'',
     ''credentialValidUntil'', ''publicationWitnessCheckpointId'', ''publicationWitnessEvidenceDigest'',
     ''credentialPublicationStatus'', ''authorizationRecordStatus'', ''policyAuthorizationStatus'',
     ''policyConsistencyStatus'', ''policyConsistencyEvidenceDigest'', ''proposalStatus'', ''evidenceDigest'']"

definition parseProposalFields :: "jsval \<Rightarrow> proposalEvidence res" where
  "parseProposalFields v =
     bindE (expectExactRecord v PROPOSAL_EVIDENCE_KEYS) (\<lambda>record.
     bindE (guardE (record ''status'' = JStr ''verified'' \<and> record ''profile'' = JStr ''mls-external-proposal.v1'') ConversationSyncValidationError) (\<lambda>_.
     bindE (parseDeliveryRealmId (record ''realmId'')) (\<lambda>realmId.
     bindE (parsePositive (record ''conversationGeneration'')) (\<lambda>conversationGeneration.
     bindE (parseReleaseProfileId (record ''releaseProfileId'')) (\<lambda>releaseProfileId.
     bindE (parseHash32 (record ''deliveryLimitsDigest'')) (\<lambda>deliveryLimitsDigest.
     bindE (parseHash32 (record ''releaseTrustRootDigest'')) (\<lambda>releaseTrustRootDigest.
     bindE (parseHash32 (record ''expectedGroupIdHash'')) (\<lambda>expectedGroupIdHash.
     bindE (parseConversationId (record ''conversationId'')) (\<lambda>conversationId.
     bindE (parsePositive (record ''position'')) (\<lambda>position.
     bindE (parseEnvelopeId (record ''envelopeId'')) (\<lambda>envelopeId.
     bindE (parseHash32 (record ''envelopeSha256'')) (\<lambda>envelopeSha256.
     bindE (parseUint63String (record ''epoch'')) (\<lambda>epoch.
     bindE (parseUint63String (record ''rosterVersion'')) (\<lambda>rosterVersion.
     bindE (parseCredentialId (record ''credentialId'')) (\<lambda>credentialId.
     bindE (parseFingerprint32 (record ''credentialFingerprint'')) (\<lambda>credentialFingerprint.
     bindE (parsePositive (record ''signerGeneration'')) (\<lambda>signerGeneration.
     bindE (parseRfc3339Millis (record ''checkpointReceivedAt'')) (\<lambda>checkpointReceivedAt.
     bindE (parsePositive (record ''pageEndPosition'')) (\<lambda>pageEndPosition.
     bindE (parseHash32 (record ''pageEndHeadHash'')) (\<lambda>pageEndHeadHash.
     bindE (parsePositive (record ''pageEndPolicyHeadSequence'')) (\<lambda>pageEndPolicyHeadSequence.
     bindE (parseHash32 (record ''pageEndPolicyHeadHash'')) (\<lambda>pageEndPolicyHeadHash.
     bindE (parseUint63String (record ''priorPolicyHeadSequence'')) (\<lambda>priorPolicyHeadSequence.
     bindE (parseHash32 (record ''priorPolicyHeadHash'')) (\<lambda>priorPolicyHeadHash.
     bindE (parseWitnessCheckpointId (record ''priorPolicyWitnessCheckpointId'')) (\<lambda>priorPolicyWitnessCheckpointId.
     bindE (parseHash32 (record ''priorPolicyWitnessEvidenceDigest'')) (\<lambda>priorPolicyWitnessEvidenceDigest.
     bindE (parseUint63String (record ''policyLogHighWaterSequence'')) (\<lambda>policyLogHighWaterSequence.
     bindE (parseHash32 (record ''policyLogHighWaterHash'')) (\<lambda>policyLogHighWaterHash.
     bindE (parseWitnessCheckpointId (record ''policyLogHighWaterWitnessCheckpointId'')) (\<lambda>policyLogHighWaterWitnessCheckpointId.
     bindE (parseHash32 (record ''policyLogHighWaterWitnessEvidenceDigest'')) (\<lambda>policyLogHighWaterWitnessEvidenceDigest.
     bindE (parsePolicyHeadId (record ''authorizingPolicyHeadId'')) (\<lambda>authorizingPolicyHeadId.
     bindE (parsePositive (record ''authorizingPolicyHeadSequence'')) (\<lambda>authorizingPolicyHeadSequence.
     bindE (parseHash32 (record ''authorizingPolicyHeadHash'')) (\<lambda>authorizingPolicyHeadHash.
     bindE (parseProposalId (record ''proposalId'')) (\<lambda>proposalId.
     bindE (parseHash32 (record ''proposalHash'')) (\<lambda>proposalHash.
     bindE (parseHash32 (record ''authorizationRecordHash'')) (\<lambda>authorizationRecordHash.
     bindE (parseMembershipIntentId (record ''membershipIntentId'')) (\<lambda>membershipIntentId.
     bindE (parseHash32 (record ''membershipIntentHash'')) (\<lambda>membershipIntentHash.
     bindE (parseHash32 (record ''membershipIntentEvidenceDigest'')) (\<lambda>membershipIntentEvidenceDigest.
     bindE (parseExactLiteral ''verified-one-to-one'' (record ''proposalRecordBindingStatus'')) (\<lambda>proposalRecordBindingStatus.
     bindE (parseExactLiteral ''verified-one-to-one'' (record ''intentRecordBindingStatus'')) (\<lambda>intentRecordBindingStatus.
     bindE (parseHash32 (record ''recordBindingEvidenceDigest'')) (\<lambda>recordBindingEvidenceDigest.
     bindE (parseProposalType (record ''proposalType'')) (\<lambda>proposalType.
     bindE (parseProposalRequirement (record ''proposalRequirement'')) (\<lambda>proposalRequirement.
     bindE (parseHash32 (record ''proposalBodySha256'')) (\<lambda>proposalBodySha256.
     bindE (parseExactLiteral ''active'' (record ''activeCredentialStatus'')) (\<lambda>activeCredentialStatus.
     bindE (parseRfc3339Millis (record ''credentialValidFrom'')) (\<lambda>credentialValidFrom.
     bindE (parseRfc3339Millis (record ''credentialValidUntil'')) (\<lambda>credentialValidUntil.
     bindE (parseWitnessCheckpointId (record ''publicationWitnessCheckpointId'')) (\<lambda>publicationWitnessCheckpointId.
     bindE (parseHash32 (record ''publicationWitnessEvidenceDigest'')) (\<lambda>publicationWitnessEvidenceDigest.
     bindE (parseExactLiteral ''verified'' (record ''credentialPublicationStatus'')) (\<lambda>credentialPublicationStatus.
     bindE (parseExactLiteral ''verified'' (record ''authorizationRecordStatus'')) (\<lambda>authorizationRecordStatus.
     bindE (parseExactLiteral ''active-at-proposal'' (record ''policyAuthorizationStatus'')) (\<lambda>policyAuthorizationStatus.
     bindE (parseExactLiteral ''verified'' (record ''policyConsistencyStatus'')) (\<lambda>policyConsistencyStatus.
     bindE (parseHash32 (record ''policyConsistencyEvidenceDigest'')) (\<lambda>policyConsistencyEvidenceDigest.
     bindE (parseExactLiteral ''verified'' (record ''proposalStatus'')) (\<lambda>proposalStatus.
     bindE (parseHash32 (record ''evidenceDigest'')) (\<lambda>evidenceDigest.
     Inr \<lparr>pe_realmId = realmId, pe_conversationGeneration = conversationGeneration,
          pe_releaseProfileId = releaseProfileId, pe_deliveryLimitsDigest = deliveryLimitsDigest,
          pe_releaseTrustRootDigest = releaseTrustRootDigest, pe_expectedGroupIdHash = expectedGroupIdHash,
          pe_conversationId = conversationId, pe_position = position, pe_envelopeId = envelopeId,
          pe_envelopeSha256 = envelopeSha256, pe_epoch = epoch, pe_rosterVersion = rosterVersion,
          pe_credentialId = credentialId, pe_credentialFingerprint = credentialFingerprint,
          pe_signerGeneration = signerGeneration, pe_checkpointReceivedAt = checkpointReceivedAt,
          pe_pageEndPosition = pageEndPosition, pe_pageEndHeadHash = pageEndHeadHash,
          pe_pageEndPolicyHeadSequence = pageEndPolicyHeadSequence,
          pe_pageEndPolicyHeadHash = pageEndPolicyHeadHash,
          pe_priorPolicyHeadSequence = priorPolicyHeadSequence, pe_priorPolicyHeadHash = priorPolicyHeadHash,
          pe_priorPolicyWitnessCheckpointId = priorPolicyWitnessCheckpointId,
          pe_priorPolicyWitnessEvidenceDigest = priorPolicyWitnessEvidenceDigest,
          pe_policyLogHighWaterSequence = policyLogHighWaterSequence,
          pe_policyLogHighWaterHash = policyLogHighWaterHash,
          pe_policyLogHighWaterWitnessCheckpointId = policyLogHighWaterWitnessCheckpointId,
          pe_policyLogHighWaterWitnessEvidenceDigest = policyLogHighWaterWitnessEvidenceDigest,
          pe_authorizingPolicyHeadId = authorizingPolicyHeadId,
          pe_authorizingPolicyHeadSequence = authorizingPolicyHeadSequence,
          pe_authorizingPolicyHeadHash = authorizingPolicyHeadHash, pe_proposalId = proposalId,
          pe_proposalHash = proposalHash, pe_authorizationRecordHash = authorizationRecordHash,
          pe_membershipIntentId = membershipIntentId, pe_membershipIntentHash = membershipIntentHash,
          pe_membershipIntentEvidenceDigest = membershipIntentEvidenceDigest,
          pe_proposalRecordBindingStatus = proposalRecordBindingStatus,
          pe_intentRecordBindingStatus = intentRecordBindingStatus,
          pe_recordBindingEvidenceDigest = recordBindingEvidenceDigest, pe_proposalType = proposalType,
          pe_proposalRequirement = proposalRequirement, pe_proposalBodySha256 = proposalBodySha256,
          pe_activeCredentialStatus = activeCredentialStatus, pe_credentialValidFrom = credentialValidFrom,
          pe_credentialValidUntil = credentialValidUntil,
          pe_publicationWitnessCheckpointId = publicationWitnessCheckpointId,
          pe_publicationWitnessEvidenceDigest = publicationWitnessEvidenceDigest,
          pe_credentialPublicationStatus = credentialPublicationStatus,
          pe_authorizationRecordStatus = authorizationRecordStatus,
          pe_policyAuthorizationStatus = policyAuthorizationStatus,
          pe_policyConsistencyStatus = policyConsistencyStatus,
          pe_policyConsistencyEvidenceDigest = policyConsistencyEvidenceDigest,
          pe_proposalStatus = proposalStatus, pe_evidenceDigest = evidenceDigest\<rparr>)))))))))))))))))))))))))))))))))))))))))))))))))))))))))"

definition entriesProposalEvidence :: "proposalEvidence \<Rightarrow> (string \<times> jsval) list" where
  "entriesProposalEvidence r =
     [(''status'', JStr ''verified''), (''profile'', JStr ''mls-external-proposal.v1''),
      (''realmId'', JStr (pe_realmId r)), (''conversationGeneration'', JStr (pe_conversationGeneration r)),
      (''releaseProfileId'', JStr (pe_releaseProfileId r)),
      (''deliveryLimitsDigest'', JStr (pe_deliveryLimitsDigest r)),
      (''releaseTrustRootDigest'', JStr (pe_releaseTrustRootDigest r)),
      (''expectedGroupIdHash'', JStr (pe_expectedGroupIdHash r)),
      (''conversationId'', JStr (pe_conversationId r)), (''position'', JStr (pe_position r)),
      (''envelopeId'', JStr (pe_envelopeId r)), (''envelopeSha256'', JStr (pe_envelopeSha256 r)),
      (''epoch'', JStr (pe_epoch r)), (''rosterVersion'', JStr (pe_rosterVersion r)),
      (''credentialId'', JStr (pe_credentialId r)),
      (''credentialFingerprint'', JStr (pe_credentialFingerprint r)),
      (''signerGeneration'', JStr (pe_signerGeneration r)),
      (''checkpointReceivedAt'', JStr (pe_checkpointReceivedAt r)),
      (''pageEndPosition'', JStr (pe_pageEndPosition r)), (''pageEndHeadHash'', JStr (pe_pageEndHeadHash r)),
      (''pageEndPolicyHeadSequence'', JStr (pe_pageEndPolicyHeadSequence r)),
      (''pageEndPolicyHeadHash'', JStr (pe_pageEndPolicyHeadHash r)),
      (''priorPolicyHeadSequence'', JStr (pe_priorPolicyHeadSequence r)),
      (''priorPolicyHeadHash'', JStr (pe_priorPolicyHeadHash r)),
      (''priorPolicyWitnessCheckpointId'', JStr (pe_priorPolicyWitnessCheckpointId r)),
      (''priorPolicyWitnessEvidenceDigest'', JStr (pe_priorPolicyWitnessEvidenceDigest r)),
      (''policyLogHighWaterSequence'', JStr (pe_policyLogHighWaterSequence r)),
      (''policyLogHighWaterHash'', JStr (pe_policyLogHighWaterHash r)),
      (''policyLogHighWaterWitnessCheckpointId'', JStr (pe_policyLogHighWaterWitnessCheckpointId r)),
      (''policyLogHighWaterWitnessEvidenceDigest'', JStr (pe_policyLogHighWaterWitnessEvidenceDigest r)),
      (''authorizingPolicyHeadId'', JStr (pe_authorizingPolicyHeadId r)),
      (''authorizingPolicyHeadSequence'', JStr (pe_authorizingPolicyHeadSequence r)),
      (''authorizingPolicyHeadHash'', JStr (pe_authorizingPolicyHeadHash r)),
      (''proposalId'', JStr (pe_proposalId r)), (''proposalHash'', JStr (pe_proposalHash r)),
      (''authorizationRecordHash'', JStr (pe_authorizationRecordHash r)),
      (''membershipIntentId'', JStr (pe_membershipIntentId r)),
      (''membershipIntentHash'', JStr (pe_membershipIntentHash r)),
      (''membershipIntentEvidenceDigest'', JStr (pe_membershipIntentEvidenceDigest r)),
      (''proposalRecordBindingStatus'', JStr (pe_proposalRecordBindingStatus r)),
      (''intentRecordBindingStatus'', JStr (pe_intentRecordBindingStatus r)),
      (''recordBindingEvidenceDigest'', JStr (pe_recordBindingEvidenceDigest r)),
      (''proposalType'', JStr (proposalTypeText (pe_proposalType r))),
      (''proposalRequirement'', JStr (proposalRequirementText (pe_proposalRequirement r))),
      (''proposalBodySha256'', JStr (pe_proposalBodySha256 r)),
      (''activeCredentialStatus'', JStr (pe_activeCredentialStatus r)),
      (''credentialValidFrom'', JStr (pe_credentialValidFrom r)),
      (''credentialValidUntil'', JStr (pe_credentialValidUntil r)),
      (''publicationWitnessCheckpointId'', JStr (pe_publicationWitnessCheckpointId r)),
      (''publicationWitnessEvidenceDigest'', JStr (pe_publicationWitnessEvidenceDigest r)),
      (''credentialPublicationStatus'', JStr (pe_credentialPublicationStatus r)),
      (''authorizationRecordStatus'', JStr (pe_authorizationRecordStatus r)),
      (''policyAuthorizationStatus'', JStr (pe_policyAuthorizationStatus r)),
      (''policyConsistencyStatus'', JStr (pe_policyConsistencyStatus r)),
      (''policyConsistencyEvidenceDigest'', JStr (pe_policyConsistencyEvidenceDigest r)),
      (''proposalStatus'', JStr (pe_proposalStatus r)), (''evidenceDigest'', JStr (pe_evidenceDigest r))]"

definition encodeProposalEvidence :: "proposalEvidence \<Rightarrow> jsval" where
  "encodeProposalEvidence r = mkRecord (entriesProposalEvidence r)"

definition proposalEvidenceValid :: "proposalEvidence \<Rightarrow> bool" where
  "proposalEvidenceValid r =
     (REALM_ID (pe_realmId r) \<and> positiveUint63Valid (pe_conversationGeneration r) \<and>
      RELEASE_PROFILE_ID (pe_releaseProfileId r) \<and> hash32Valid (pe_deliveryLimitsDigest r) \<and>
      hash32Valid (pe_releaseTrustRootDigest r) \<and> hash32Valid (pe_expectedGroupIdHash r) \<and>
      uuidV4Valid (pe_conversationId r) \<and> positiveUint63Valid (pe_position r) \<and>
      uuidV4Valid (pe_envelopeId r) \<and> hash32Valid (pe_envelopeSha256 r) \<and>
      uint63Valid (pe_epoch r) \<and> uint63Valid (pe_rosterVersion r) \<and>
      uuidV4Valid (pe_credentialId r) \<and> hash32Valid (pe_credentialFingerprint r) \<and>
      positiveUint63Valid (pe_signerGeneration r) \<and> rfc3339Valid (pe_checkpointReceivedAt r) \<and>
      positiveUint63Valid (pe_pageEndPosition r) \<and> hash32Valid (pe_pageEndHeadHash r) \<and>
      positiveUint63Valid (pe_pageEndPolicyHeadSequence r) \<and>
      hash32Valid (pe_pageEndPolicyHeadHash r) \<and> uint63Valid (pe_priorPolicyHeadSequence r) \<and>
      hash32Valid (pe_priorPolicyHeadHash r) \<and> uuidV4Valid (pe_priorPolicyWitnessCheckpointId r) \<and>
      hash32Valid (pe_priorPolicyWitnessEvidenceDigest r) \<and>
      uint63Valid (pe_policyLogHighWaterSequence r) \<and> hash32Valid (pe_policyLogHighWaterHash r) \<and>
      uuidV4Valid (pe_policyLogHighWaterWitnessCheckpointId r) \<and>
      hash32Valid (pe_policyLogHighWaterWitnessEvidenceDigest r) \<and>
      uuidV4Valid (pe_authorizingPolicyHeadId r) \<and>
      positiveUint63Valid (pe_authorizingPolicyHeadSequence r) \<and>
      hash32Valid (pe_authorizingPolicyHeadHash r) \<and> uuidV7Valid (pe_proposalId r) \<and>
      hash32Valid (pe_proposalHash r) \<and> hash32Valid (pe_authorizationRecordHash r) \<and>
      uuidV7Valid (pe_membershipIntentId r) \<and> hash32Valid (pe_membershipIntentHash r) \<and>
      hash32Valid (pe_membershipIntentEvidenceDigest r) \<and>
      pe_proposalRecordBindingStatus r = ''verified-one-to-one'' \<and>
      pe_intentRecordBindingStatus r = ''verified-one-to-one'' \<and>
      hash32Valid (pe_recordBindingEvidenceDigest r) \<and> hash32Valid (pe_proposalBodySha256 r) \<and>
      pe_activeCredentialStatus r = ''active'' \<and> rfc3339Valid (pe_credentialValidFrom r) \<and>
      rfc3339Valid (pe_credentialValidUntil r) \<and> uuidV4Valid (pe_publicationWitnessCheckpointId r) \<and>
      hash32Valid (pe_publicationWitnessEvidenceDigest r) \<and>
      pe_credentialPublicationStatus r = ''verified'' \<and>
      pe_authorizationRecordStatus r = ''verified'' \<and>
      pe_policyAuthorizationStatus r = ''active-at-proposal'' \<and>
      pe_policyConsistencyStatus r = ''verified'' \<and>
      hash32Valid (pe_policyConsistencyEvidenceDigest r) \<and> pe_proposalStatus r = ''verified'' \<and>
      hash32Valid (pe_evidenceDigest r))"

lemma entriesProposalEvidence_get [simp]:
  "fieldOf (entriesProposalEvidence r) ''status'' = JStr ''verified''"
  "fieldOf (entriesProposalEvidence r) ''profile'' = JStr ''mls-external-proposal.v1''"
  "fieldOf (entriesProposalEvidence r) ''realmId'' = JStr (pe_realmId r)"
  "fieldOf (entriesProposalEvidence r) ''conversationGeneration'' = JStr (pe_conversationGeneration r)"
  "fieldOf (entriesProposalEvidence r) ''releaseProfileId'' = JStr (pe_releaseProfileId r)"
  "fieldOf (entriesProposalEvidence r) ''deliveryLimitsDigest'' = JStr (pe_deliveryLimitsDigest r)"
  "fieldOf (entriesProposalEvidence r) ''releaseTrustRootDigest'' = JStr (pe_releaseTrustRootDigest r)"
  "fieldOf (entriesProposalEvidence r) ''expectedGroupIdHash'' = JStr (pe_expectedGroupIdHash r)"
  "fieldOf (entriesProposalEvidence r) ''conversationId'' = JStr (pe_conversationId r)"
  "fieldOf (entriesProposalEvidence r) ''position'' = JStr (pe_position r)"
  "fieldOf (entriesProposalEvidence r) ''envelopeId'' = JStr (pe_envelopeId r)"
  "fieldOf (entriesProposalEvidence r) ''envelopeSha256'' = JStr (pe_envelopeSha256 r)"
  "fieldOf (entriesProposalEvidence r) ''epoch'' = JStr (pe_epoch r)"
  "fieldOf (entriesProposalEvidence r) ''rosterVersion'' = JStr (pe_rosterVersion r)"
  "fieldOf (entriesProposalEvidence r) ''credentialId'' = JStr (pe_credentialId r)"
  by (simp_all add: entriesProposalEvidence_def)

lemma entriesProposalEvidence_get2 [simp]:
  "fieldOf (entriesProposalEvidence r) ''credentialFingerprint'' = JStr (pe_credentialFingerprint r)"
  "fieldOf (entriesProposalEvidence r) ''signerGeneration'' = JStr (pe_signerGeneration r)"
  "fieldOf (entriesProposalEvidence r) ''checkpointReceivedAt'' = JStr (pe_checkpointReceivedAt r)"
  "fieldOf (entriesProposalEvidence r) ''pageEndPosition'' = JStr (pe_pageEndPosition r)"
  "fieldOf (entriesProposalEvidence r) ''pageEndHeadHash'' = JStr (pe_pageEndHeadHash r)"
  "fieldOf (entriesProposalEvidence r) ''pageEndPolicyHeadSequence'' = JStr (pe_pageEndPolicyHeadSequence r)"
  "fieldOf (entriesProposalEvidence r) ''pageEndPolicyHeadHash'' = JStr (pe_pageEndPolicyHeadHash r)"
  "fieldOf (entriesProposalEvidence r) ''priorPolicyHeadSequence'' = JStr (pe_priorPolicyHeadSequence r)"
  "fieldOf (entriesProposalEvidence r) ''priorPolicyHeadHash'' = JStr (pe_priorPolicyHeadHash r)"
  "fieldOf (entriesProposalEvidence r) ''priorPolicyWitnessCheckpointId'' = JStr (pe_priorPolicyWitnessCheckpointId r)"
  "fieldOf (entriesProposalEvidence r) ''priorPolicyWitnessEvidenceDigest'' = JStr (pe_priorPolicyWitnessEvidenceDigest r)"
  "fieldOf (entriesProposalEvidence r) ''policyLogHighWaterSequence'' = JStr (pe_policyLogHighWaterSequence r)"
  "fieldOf (entriesProposalEvidence r) ''policyLogHighWaterHash'' = JStr (pe_policyLogHighWaterHash r)"
  "fieldOf (entriesProposalEvidence r) ''policyLogHighWaterWitnessCheckpointId'' = JStr (pe_policyLogHighWaterWitnessCheckpointId r)"
  "fieldOf (entriesProposalEvidence r) ''policyLogHighWaterWitnessEvidenceDigest'' = JStr (pe_policyLogHighWaterWitnessEvidenceDigest r)"
  by (simp_all add: entriesProposalEvidence_def)

lemma entriesProposalEvidence_get3 [simp]:
  "fieldOf (entriesProposalEvidence r) ''authorizingPolicyHeadId'' = JStr (pe_authorizingPolicyHeadId r)"
  "fieldOf (entriesProposalEvidence r) ''authorizingPolicyHeadSequence'' = JStr (pe_authorizingPolicyHeadSequence r)"
  "fieldOf (entriesProposalEvidence r) ''authorizingPolicyHeadHash'' = JStr (pe_authorizingPolicyHeadHash r)"
  "fieldOf (entriesProposalEvidence r) ''proposalId'' = JStr (pe_proposalId r)"
  "fieldOf (entriesProposalEvidence r) ''proposalHash'' = JStr (pe_proposalHash r)"
  "fieldOf (entriesProposalEvidence r) ''authorizationRecordHash'' = JStr (pe_authorizationRecordHash r)"
  "fieldOf (entriesProposalEvidence r) ''membershipIntentId'' = JStr (pe_membershipIntentId r)"
  "fieldOf (entriesProposalEvidence r) ''membershipIntentHash'' = JStr (pe_membershipIntentHash r)"
  "fieldOf (entriesProposalEvidence r) ''membershipIntentEvidenceDigest'' = JStr (pe_membershipIntentEvidenceDigest r)"
  "fieldOf (entriesProposalEvidence r) ''proposalRecordBindingStatus'' = JStr (pe_proposalRecordBindingStatus r)"
  "fieldOf (entriesProposalEvidence r) ''intentRecordBindingStatus'' = JStr (pe_intentRecordBindingStatus r)"
  "fieldOf (entriesProposalEvidence r) ''recordBindingEvidenceDigest'' = JStr (pe_recordBindingEvidenceDigest r)"
  "fieldOf (entriesProposalEvidence r) ''proposalType'' = JStr (proposalTypeText (pe_proposalType r))"
  "fieldOf (entriesProposalEvidence r) ''proposalRequirement'' = JStr (proposalRequirementText (pe_proposalRequirement r))"
  "fieldOf (entriesProposalEvidence r) ''proposalBodySha256'' = JStr (pe_proposalBodySha256 r)"
  by (simp_all add: entriesProposalEvidence_def)

lemma entriesProposalEvidence_get4 [simp]:
  "fieldOf (entriesProposalEvidence r) ''activeCredentialStatus'' = JStr (pe_activeCredentialStatus r)"
  "fieldOf (entriesProposalEvidence r) ''credentialValidFrom'' = JStr (pe_credentialValidFrom r)"
  "fieldOf (entriesProposalEvidence r) ''credentialValidUntil'' = JStr (pe_credentialValidUntil r)"
  "fieldOf (entriesProposalEvidence r) ''publicationWitnessCheckpointId'' = JStr (pe_publicationWitnessCheckpointId r)"
  "fieldOf (entriesProposalEvidence r) ''publicationWitnessEvidenceDigest'' = JStr (pe_publicationWitnessEvidenceDigest r)"
  "fieldOf (entriesProposalEvidence r) ''credentialPublicationStatus'' = JStr (pe_credentialPublicationStatus r)"
  "fieldOf (entriesProposalEvidence r) ''authorizationRecordStatus'' = JStr (pe_authorizationRecordStatus r)"
  "fieldOf (entriesProposalEvidence r) ''policyAuthorizationStatus'' = JStr (pe_policyAuthorizationStatus r)"
  "fieldOf (entriesProposalEvidence r) ''policyConsistencyStatus'' = JStr (pe_policyConsistencyStatus r)"
  "fieldOf (entriesProposalEvidence r) ''policyConsistencyEvidenceDigest'' = JStr (pe_policyConsistencyEvidenceDigest r)"
  "fieldOf (entriesProposalEvidence r) ''proposalStatus'' = JStr (pe_proposalStatus r)"
  "fieldOf (entriesProposalEvidence r) ''evidenceDigest'' = JStr (pe_evidenceDigest r)"
  by (simp_all add: entriesProposalEvidence_def)

lemma expect_encodeProposalEvidence: "expectExactRecord (encodeProposalEvidence r) PROPOSAL_EVIDENCE_KEYS = Inr (fieldOf (entriesProposalEvidence r))"
  unfolding encodeProposalEvidence_def by (rule expectExactRecord_mkRecord) (simp_all add: PROPOSAL_EVIDENCE_KEYS_def entriesProposalEvidence_def)

interpretation proposal_evidence_codec: record_codec parseProposalFields encodeProposalEvidence proposalEvidenceValid
proof
  show "proposalEvidenceValid r" if "parseProposalFields v = Inr r" for v r
    using that unfolding parseProposalFields_def
    by (elim bindE_InrE, simp only: parse_simps guardE_eq_Inr sum.inject, elim conjE, hypsubst, simp add: proposalEvidenceValid_def)
  show "parseProposalFields (encodeProposalEvidence r) = Inr r" if "proposalEvidenceValid r" for r
    using that by (cases r) (simp add: parseProposalFields_def expect_encodeProposalEvidence parse_ok proposalEvidenceValid_def parseDeliveryRealmId_ok split: option.splits)
qed

record proposalRequest =
  pq_realmId :: string
  pq_conversationGeneration :: string
  pq_releaseProfileId :: string
  pq_deliveryLimitsDigest :: string
  pq_releaseTrustRootDigest :: string
  pq_expectedGroupIdHash :: string
  pq_conversationId :: string
  pq_position :: string
  pq_envelopeId :: string
  pq_envelopeBytes :: string
  pq_envelopeSha256 :: string
  pq_epoch :: string
  pq_rosterVersion :: string
  pq_credentialId :: string
  pq_credentialFingerprint :: string
  pq_signerGeneration :: string
  pq_checkpointReceivedAt :: string
  pq_pageEndPosition :: string
  pq_pageEndHeadHash :: string
  pq_pageEndPolicyHeadSequence :: string
  pq_pageEndPolicyHeadHash :: string
  pq_priorPolicyHeadSequence :: string
  pq_priorPolicyHeadHash :: string
  pq_priorPolicyWitnessCheckpointId :: string
  pq_priorPolicyWitnessEvidenceDigest :: string
  pq_policyLogHighWaterSequence :: string
  pq_policyLogHighWaterHash :: string
  pq_policyLogHighWaterWitnessCheckpointId :: string
  pq_policyLogHighWaterWitnessEvidenceDigest :: string

definition proposalSubstituted :: "proposalEvidence \<Rightarrow> proposalRequest \<Rightarrow> bool" where
  "proposalSubstituted parsed expected =
     (pe_realmId parsed \<noteq> pq_realmId expected
      \<or> pe_conversationGeneration parsed \<noteq> pq_conversationGeneration expected
      \<or> pe_releaseProfileId parsed \<noteq> pq_releaseProfileId expected
      \<or> pe_deliveryLimitsDigest parsed \<noteq> pq_deliveryLimitsDigest expected
      \<or> pe_releaseTrustRootDigest parsed \<noteq> pq_releaseTrustRootDigest expected
      \<or> pe_expectedGroupIdHash parsed \<noteq> pq_expectedGroupIdHash expected
      \<or> pe_conversationId parsed \<noteq> pq_conversationId expected
      \<or> pe_position parsed \<noteq> pq_position expected
      \<or> pe_envelopeId parsed \<noteq> pq_envelopeId expected
      \<or> pe_envelopeSha256 parsed \<noteq> pq_envelopeSha256 expected
      \<or> pe_epoch parsed \<noteq> pq_epoch expected
      \<or> pe_rosterVersion parsed \<noteq> pq_rosterVersion expected
      \<or> pe_credentialId parsed \<noteq> pq_credentialId expected
      \<or> pe_credentialFingerprint parsed \<noteq> pq_credentialFingerprint expected
      \<or> pe_signerGeneration parsed \<noteq> pq_signerGeneration expected
      \<or> pe_checkpointReceivedAt parsed \<noteq> pq_checkpointReceivedAt expected
      \<or> pe_pageEndPosition parsed \<noteq> pq_pageEndPosition expected
      \<or> pe_pageEndHeadHash parsed \<noteq> pq_pageEndHeadHash expected
      \<or> pe_pageEndPolicyHeadSequence parsed \<noteq> pq_pageEndPolicyHeadSequence expected
      \<or> pe_pageEndPolicyHeadHash parsed \<noteq> pq_pageEndPolicyHeadHash expected
      \<or> pe_priorPolicyHeadSequence parsed \<noteq> pq_priorPolicyHeadSequence expected
      \<or> pe_priorPolicyHeadHash parsed \<noteq> pq_priorPolicyHeadHash expected
      \<or> pe_priorPolicyWitnessCheckpointId parsed \<noteq> pq_priorPolicyWitnessCheckpointId expected
      \<or> pe_priorPolicyWitnessEvidenceDigest parsed \<noteq> pq_priorPolicyWitnessEvidenceDigest expected
      \<or> pe_policyLogHighWaterSequence parsed \<noteq> pq_policyLogHighWaterSequence expected
      \<or> pe_policyLogHighWaterHash parsed \<noteq> pq_policyLogHighWaterHash expected
      \<or> pe_policyLogHighWaterWitnessCheckpointId parsed \<noteq> pq_policyLogHighWaterWitnessCheckpointId expected
      \<or> pe_policyLogHighWaterWitnessEvidenceDigest parsed \<noteq> pq_policyLogHighWaterWitnessEvidenceDigest expected)"

text \<open>The second condition of the parser. Timestamps are compared as strings, and their distance as milliseconds.\<close>

definition proposalInactive :: "proposalEvidence \<Rightarrow> bool" where
  "proposalInactive parsed =
     (pe_credentialValidFrom parsed > pe_checkpointReceivedAt parsed
      \<or> pe_credentialValidUntil parsed \<le> pe_checkpointReceivedAt parsed
      \<or> pe_credentialValidUntil parsed \<le> pe_credentialValidFrom parsed
      \<or> dateMillis (pe_credentialValidUntil parsed) - dateMillis (pe_credentialValidFrom parsed) > MLS_EXTERNAL_SIGNER_MAX_LIFETIME_MILLISECONDS
      \<or> bigInt (pe_authorizingPolicyHeadSequence parsed) = 0
      \<or> bigInt (pe_position parsed) > bigInt (pe_pageEndPosition parsed)
      \<or> bigInt (pe_authorizingPolicyHeadSequence parsed) < bigInt (pe_priorPolicyHeadSequence parsed)
      \<or> bigInt (pe_authorizingPolicyHeadSequence parsed) > bigInt (pe_pageEndPolicyHeadSequence parsed)
      \<or> (pe_authorizingPolicyHeadSequence parsed = pe_priorPolicyHeadSequence parsed
         \<and> pe_authorizingPolicyHeadHash parsed \<noteq> pe_priorPolicyHeadHash parsed)
      \<or> (pe_authorizingPolicyHeadSequence parsed = pe_pageEndPolicyHeadSequence parsed
         \<and> pe_authorizingPolicyHeadHash parsed \<noteq> pe_pageEndPolicyHeadHash parsed)
      \<or> (pe_priorPolicyHeadSequence parsed = ''0'') \<noteq> (pe_priorPolicyHeadHash parsed = ZERO_HASH32)
      \<or> (pe_policyLogHighWaterSequence parsed = ''0'') \<noteq> (pe_policyLogHighWaterHash parsed = ZERO_HASH32)
      \<or> pe_membershipIntentHash parsed = ZERO_HASH32
      \<or> pe_membershipIntentEvidenceDigest parsed = ZERO_HASH32
      \<or> pe_recordBindingEvidenceDigest parsed = ZERO_HASH32)"

definition proposalDigestFields :: "proposalEvidence \<Rightarrow> digestField list" where
  "proposalDigestFields r =
     [Utf8 (pe_realmId r), Utf8 (pe_conversationGeneration r), Utf8 (pe_releaseProfileId r),
      DecodedHash (pe_deliveryLimitsDigest r), DecodedHash (pe_releaseTrustRootDigest r),
      DecodedHash (pe_expectedGroupIdHash r), Utf8 (pe_conversationId r), Utf8 (pe_position r),
      Utf8 (pe_envelopeId r), DecodedHash (pe_envelopeSha256 r), Utf8 (pe_epoch r), Utf8 (pe_rosterVersion r),
      Utf8 (pe_credentialId r), DecodedFingerprint (pe_credentialFingerprint r), Utf8 (pe_signerGeneration r),
      Utf8 (pe_checkpointReceivedAt r), Utf8 (pe_pageEndPosition r), DecodedHash (pe_pageEndHeadHash r),
      Utf8 (pe_pageEndPolicyHeadSequence r), DecodedHash (pe_pageEndPolicyHeadHash r),
      Utf8 (pe_priorPolicyHeadSequence r), DecodedHash (pe_priorPolicyHeadHash r),
      Utf8 (pe_priorPolicyWitnessCheckpointId r), DecodedHash (pe_priorPolicyWitnessEvidenceDigest r),
      Utf8 (pe_policyLogHighWaterSequence r), DecodedHash (pe_policyLogHighWaterHash r),
      Utf8 (pe_policyLogHighWaterWitnessCheckpointId r),
      DecodedHash (pe_policyLogHighWaterWitnessEvidenceDigest r), Utf8 (pe_authorizingPolicyHeadId r),
      Utf8 (pe_authorizingPolicyHeadSequence r), DecodedHash (pe_authorizingPolicyHeadHash r),
      Utf8 (pe_proposalId r), DecodedHash (pe_proposalHash r), DecodedHash (pe_authorizationRecordHash r),
      Utf8 (pe_membershipIntentId r), DecodedHash (pe_membershipIntentHash r),
      DecodedHash (pe_membershipIntentEvidenceDigest r), Utf8 (pe_proposalRecordBindingStatus r),
      Utf8 (pe_intentRecordBindingStatus r), DecodedHash (pe_recordBindingEvidenceDigest r),
      Utf8 (proposalTypeText (pe_proposalType r)), Utf8 (proposalRequirementText (pe_proposalRequirement r)),
      DecodedHash (pe_proposalBodySha256 r), Utf8 (pe_activeCredentialStatus r),
      Utf8 (pe_credentialValidFrom r), Utf8 (pe_credentialValidUntil r),
      Utf8 (pe_publicationWitnessCheckpointId r), DecodedHash (pe_publicationWitnessEvidenceDigest r),
      Utf8 (pe_credentialPublicationStatus r), Utf8 (pe_authorizationRecordStatus r),
      Utf8 (pe_policyAuthorizationStatus r), Utf8 (pe_policyConsistencyStatus r),
      DecodedHash (pe_policyConsistencyEvidenceDigest r), Utf8 (pe_proposalStatus r)]"

definition computeMlsExternalProposalEvidenceDigest :: "(bytes \<Rightarrow> bytes) \<Rightarrow> proposalEvidence \<Rightarrow> string res" where
  "computeMlsExternalProposalEvidenceDigest H r = digestOf H MLS_EXTERNAL_PROPOSAL_EVIDENCE_DIGEST_DOMAIN (proposalDigestFields r)"

definition parseMlsExternalProposalEvidence :: "(bytes \<Rightarrow> bytes) \<Rightarrow> jsval \<Rightarrow> proposalRequest \<Rightarrow> proposalEvidence res" where
  "parseMlsExternalProposalEvidence H v expected =
     bindE (parseProposalFields v) (\<lambda>parsed.
     if proposalSubstituted parsed expected then Inl ConversationSyncValidationError
     else if proposalInactive parsed then Inl ConversationSyncValidationError
     else bindE (decodeCanonicalBase64Url (pq_envelopeBytes expected)) (\<lambda>message.
     bindE (computeExternalProposalHash H (JView (ownedView message)) (JStr (pe_authorizationRecordHash parsed))) (\<lambda>computedProposalHash.
     if pe_proposalHash parsed \<noteq> computedProposalHash then Inl ConversationSyncValidationError
     else bindE (computeMlsExternalProposalEvidenceDigest H parsed) (\<lambda>digest.
     if pe_evidenceDigest parsed \<noteq> digest then Inl ConversationSyncValidationError else Inr parsed))))"

definition proposalRequestOf ::
  "verifiedPage \<Rightarrow> storedEnvelopeCommon \<Rightarrow> string \<Rightarrow> string \<Rightarrow> string \<Rightarrow> string \<Rightarrow> string \<Rightarrow> string \<Rightarrow> policyProjection \<Rightarrow> policyAnchor \<Rightarrow>
    string \<Rightarrow> string \<Rightarrow> string \<Rightarrow> proposalRequest" where
  "proposalRequestOf page envelope realmId conversationGeneration releaseProfileId deliveryLimitsDigest releaseTrustRootDigest
       expectedGroupIdHash pageStartPolicy policyLogHighWater credentialId fingerprint generation =
     (let snapshot = vp_snapshot page in
      \<lparr>pq_realmId = realmId, pq_conversationGeneration = conversationGeneration, pq_releaseProfileId = releaseProfileId,
       pq_deliveryLimitsDigest = deliveryLimitsDigest, pq_releaseTrustRootDigest = releaseTrustRootDigest,
       pq_expectedGroupIdHash = expectedGroupIdHash, pq_conversationId = se_conversationId envelope,
       pq_position = se_position envelope, pq_envelopeId = se_envelopeId envelope, pq_envelopeBytes = se_envelopeBytes envelope,
       pq_envelopeSha256 = se_envelopeSha256 envelope, pq_epoch = se_epoch envelope, pq_rosterVersion = se_rosterVersion envelope,
       pq_credentialId = credentialId, pq_credentialFingerprint = fingerprint, pq_signerGeneration = generation,
       pq_checkpointReceivedAt = se_receivedAt envelope, pq_pageEndPosition = lh_position (ps_logHead snapshot),
       pq_pageEndHeadHash = lh_headHash (ps_logHead snapshot), pq_pageEndPolicyHeadSequence = ps_policyHeadSequence snapshot,
       pq_pageEndPolicyHeadHash = ps_policyHeadHash snapshot, pq_priorPolicyHeadSequence = pp_policyHeadSequence pageStartPolicy,
       pq_priorPolicyHeadHash = pp_policyHeadHash pageStartPolicy,
       pq_priorPolicyWitnessCheckpointId = pp_policyWitnessCheckpointId pageStartPolicy,
       pq_priorPolicyWitnessEvidenceDigest = pp_policyWitnessEvidenceDigest pageStartPolicy,
       pq_policyLogHighWaterSequence = pa_policyHeadSequence policyLogHighWater,
       pq_policyLogHighWaterHash = pa_policyHeadHash policyLogHighWater,
       pq_policyLogHighWaterWitnessCheckpointId = pa_witnessCheckpointId policyLogHighWater,
       pq_policyLogHighWaterWitnessEvidenceDigest = pa_witnessEvidenceDigest policyLogHighWater\<rparr>)"

definition verifyMlsExternalProposal ::
  "(bytes \<Rightarrow> bytes) \<Rightarrow> (proposalRequest \<Rightarrow> jsval res) \<Rightarrow> verifiedPage \<Rightarrow> storedEnvelopeCommon \<Rightarrow> string \<Rightarrow> string \<Rightarrow> string \<Rightarrow> string \<Rightarrow> string \<Rightarrow>
    string \<Rightarrow> policyProjection \<Rightarrow> policyAnchor \<Rightarrow> proposalEvidence res" where
  "verifyMlsExternalProposal H verify page envelope realmId conversationGeneration releaseProfileId deliveryLimitsDigest
       releaseTrustRootDigest expectedGroupIdHash pageStartPolicy policyLogHighWater =
     (case se_sender envelope of
        InstallationSender accountId installationId \<Rightarrow> Inl ConversationSyncValidationError
      | EntitlementSigner credentialId fingerprint generation \<Rightarrow>
          if se_envelopeClass envelope \<noteq> ExternalProposal then Inl ConversationSyncValidationError
          else let request = proposalRequestOf page envelope realmId conversationGeneration releaseProfileId deliveryLimitsDigest
                 releaseTrustRootDigest expectedGroupIdHash pageStartPolicy policyLogHighWater credentialId fingerprint generation in
          bindE (verify request) (\<lambda>raw.
          bindE (throwIfDeliveryPortUnavailable raw) (\<lambda>_.
          parseMlsExternalProposalEvidence H raw request)))"

end
