(* ===== verification/MlsCommits.thy ===== *)
theory MlsCommits
  imports PolicyReplay
begin

section \<open>Evidence about Commits\<close>

text \<open>
  Models the evidence that the verifier of MLS Commits returns to the client of \<open>src/src/production/delivery/sync.ts\<close>: the
  transition of epoch, roster version and transcript hash, the staged proposals that the Commit consumed with the intents
  behind them, and the members it adds or removes. The client parses the evidence, compares it with what it asked for,
  and checks the transition and the bookkeeping of proposals.
\<close>

definition MLS_COMMIT_PROJECTION_EVIDENCE_DIGEST_DOMAIN :: string where
  "MLS_COMMIT_PROJECTION_EVIDENCE_DIGEST_DOMAIN = ''jb-msg-mls-commit-projection-evidence/v1''"

subsection \<open>Intents and targets of a Commit\<close>

record committedIntent =
  ci_membershipIntentId :: string
  ci_membershipIntentHash :: string
  ci_membershipIntentEvidenceDigest :: string
  ci_proposalId :: string
  ci_proposalHash :: string
  ci_commitPosition :: string
  ci_commitEnvelopeId :: string
  ci_commitEnvelopeSha256 :: string

definition COMMITTED_INTENT_KEYS :: "string list" where
  "COMMITTED_INTENT_KEYS =
    [''membershipIntentId'', ''membershipIntentHash'', ''membershipIntentEvidenceDigest'', ''proposalId'',
     ''proposalHash'', ''commitPosition'', ''commitEnvelopeId'', ''commitEnvelopeSha256'']"

definition parseCommittedIntent :: "jsval \<Rightarrow> committedIntent res" where
  "parseCommittedIntent v =
     bindE (expectExactRecord v COMMITTED_INTENT_KEYS) (\<lambda>record.
     bindE (parseMembershipIntentId (record ''membershipIntentId'')) (\<lambda>membershipIntentId.
     bindE (parseHash32 (record ''membershipIntentHash'')) (\<lambda>membershipIntentHash.
     bindE (parseHash32 (record ''membershipIntentEvidenceDigest'')) (\<lambda>membershipIntentEvidenceDigest.
     bindE (parseProposalId (record ''proposalId'')) (\<lambda>proposalId.
     bindE (parseHash32 (record ''proposalHash'')) (\<lambda>proposalHash.
     bindE (parsePositive (record ''commitPosition'')) (\<lambda>commitPosition.
     bindE (parseEnvelopeId (record ''commitEnvelopeId'')) (\<lambda>commitEnvelopeId.
     bindE (parseHash32 (record ''commitEnvelopeSha256'')) (\<lambda>commitEnvelopeSha256.
     Inr \<lparr>ci_membershipIntentId = membershipIntentId, ci_membershipIntentHash = membershipIntentHash,
          ci_membershipIntentEvidenceDigest = membershipIntentEvidenceDigest, ci_proposalId = proposalId,
          ci_proposalHash = proposalHash, ci_commitPosition = commitPosition,
          ci_commitEnvelopeId = commitEnvelopeId, ci_commitEnvelopeSha256 = commitEnvelopeSha256\<rparr>)))))))))"

definition entriesCommittedIntent :: "committedIntent \<Rightarrow> (string \<times> jsval) list" where
  "entriesCommittedIntent r =
     [(''membershipIntentId'', JStr (ci_membershipIntentId r)),
      (''membershipIntentHash'', JStr (ci_membershipIntentHash r)),
      (''membershipIntentEvidenceDigest'', JStr (ci_membershipIntentEvidenceDigest r)),
      (''proposalId'', JStr (ci_proposalId r)), (''proposalHash'', JStr (ci_proposalHash r)),
      (''commitPosition'', JStr (ci_commitPosition r)), (''commitEnvelopeId'', JStr (ci_commitEnvelopeId r)),
      (''commitEnvelopeSha256'', JStr (ci_commitEnvelopeSha256 r))]"

definition encodeCommittedIntent :: "committedIntent \<Rightarrow> jsval" where
  "encodeCommittedIntent r = mkRecord (entriesCommittedIntent r)"

definition committedIntentValid :: "committedIntent \<Rightarrow> bool" where
  "committedIntentValid r =
     (uuidV7Valid (ci_membershipIntentId r) \<and> hash32Valid (ci_membershipIntentHash r) \<and>
      hash32Valid (ci_membershipIntentEvidenceDigest r) \<and> uuidV7Valid (ci_proposalId r) \<and>
      hash32Valid (ci_proposalHash r) \<and> positiveUint63Valid (ci_commitPosition r) \<and>
      uuidV4Valid (ci_commitEnvelopeId r) \<and> hash32Valid (ci_commitEnvelopeSha256 r))"

lemma entriesCommittedIntent_get [simp]:
  "fieldOf (entriesCommittedIntent r) ''membershipIntentId'' = JStr (ci_membershipIntentId r)"
  "fieldOf (entriesCommittedIntent r) ''membershipIntentHash'' = JStr (ci_membershipIntentHash r)"
  "fieldOf (entriesCommittedIntent r) ''membershipIntentEvidenceDigest'' = JStr (ci_membershipIntentEvidenceDigest r)"
  "fieldOf (entriesCommittedIntent r) ''proposalId'' = JStr (ci_proposalId r)"
  "fieldOf (entriesCommittedIntent r) ''proposalHash'' = JStr (ci_proposalHash r)"
  "fieldOf (entriesCommittedIntent r) ''commitPosition'' = JStr (ci_commitPosition r)"
  "fieldOf (entriesCommittedIntent r) ''commitEnvelopeId'' = JStr (ci_commitEnvelopeId r)"
  "fieldOf (entriesCommittedIntent r) ''commitEnvelopeSha256'' = JStr (ci_commitEnvelopeSha256 r)"
  by (simp_all add: entriesCommittedIntent_def)

lemma expect_encodeCommittedIntent: "expectExactRecord (encodeCommittedIntent r) COMMITTED_INTENT_KEYS = Inr (fieldOf (entriesCommittedIntent r))"
  unfolding encodeCommittedIntent_def by (rule expectExactRecord_mkRecord) (simp_all add: COMMITTED_INTENT_KEYS_def entriesCommittedIntent_def)

interpretation committed_intent_codec: record_codec parseCommittedIntent encodeCommittedIntent committedIntentValid
proof
  show "committedIntentValid r" if "parseCommittedIntent v = Inr r" for v r
    using that unfolding parseCommittedIntent_def
    by (elim bindE_InrE, simp only: parse_simps guardE_eq_Inr sum.inject, elim conjE, hypsubst, simp add: committedIntentValid_def)
  show "parseCommittedIntent (encodeCommittedIntent r) = Inr r" if "committedIntentValid r" for r
    using that by (simp add: parseCommittedIntent_def expect_encodeCommittedIntent parse_ok committedIntentValid_def split: option.splits)
qed

text \<open>The loop over the entries with the set of pairs seen; a pair is one text with a NUL between the two identifiers.\<close>

definition intentPair :: "committedIntent \<Rightarrow> string" where
  "intentPair binding = ci_membershipIntentId binding @ CHR 0x00 # ci_proposalId binding"

definition intentRejected :: "string list \<Rightarrow> committedIntent \<Rightarrow> bool" where
  "intentRejected pairs binding = (intentPair binding \<in> set pairs \<or> ci_membershipIntentHash binding = ZERO_HASH32
     \<or> ci_membershipIntentEvidenceDigest binding = ZERO_HASH32)"

primrec intentScan :: "string list \<Rightarrow> jsval list \<Rightarrow> committedIntent list res" where
  "intentScan pairs [] = Inr []"
| "intentScan pairs (entry # rest) =
     bindE (parseCommittedIntent entry) (\<lambda>binding.
     if intentRejected pairs binding then Inl ConversationSyncValidationError
     else bindE (intentScan (intentPair binding # pairs) rest) (\<lambda>parsed. Inr (binding # parsed)))"

definition parseCommittedIntentBindings :: "jsval \<Rightarrow> committedIntent list res" where
  "parseCommittedIntentBindings v =
     bindE (expectDenseArray v (int CONVERSATION_PAGE_HARD_MAX_EVENTS)) (\<lambda>entries. intentScan [] entries)"

definition encodeIntentList :: "committedIntent list \<Rightarrow> jsval" where
  "encodeIntentList is = mkArray (map encodeCommittedIntent is)"

primrec intentsAccepted :: "string list \<Rightarrow> committedIntent list \<Rightarrow> bool" where
  "intentsAccepted pairs [] = True"
| "intentsAccepted pairs (i # is) =
     (committedIntentValid i \<and> \<not> intentRejected pairs i \<and> intentsAccepted (intentPair i # pairs) is)"

definition intentListValid :: "committedIntent list \<Rightarrow> bool" where
  "intentListValid is = (intentsAccepted [] is \<and> length is \<le> CONVERSATION_PAGE_HARD_MAX_EVENTS)"

lemma intentScan_valid: "intentScan pairs xs = Inr is \<Longrightarrow> intentsAccepted pairs is \<and> length is = length xs"
  by (induction xs arbitrary: pairs "is") (auto simp: bindE_eq_Inr committed_intent_codec.parse_wf split: if_splits)

lemma intentScan_encode: "intentsAccepted pairs is \<Longrightarrow> intentScan pairs (map encodeCommittedIntent is) = Inr is"
  by (induction "is" arbitrary: pairs) (auto simp: committed_intent_codec.parse_encode)

interpretation intent_list_codec: record_codec parseCommittedIntentBindings encodeIntentList intentListValid
proof
  show "intentListValid r" if "parseCommittedIntentBindings v = Inr r" for v r
    using that by (auto simp: parseCommittedIntentBindings_def bindE_eq_Inr expectDenseArray_iff intentListValid_def dest: intentScan_valid)
  show "parseCommittedIntentBindings (encodeIntentList r) = Inr r" if "intentListValid r" for r
    using that by (simp add: parseCommittedIntentBindings_def encodeIntentList_def expectDenseArray_mkArray intentListValid_def intentScan_encode)
qed

definition intentDigestFields :: "committedIntent \<Rightarrow> digestField list" where
  "intentDigestFields i =
     [Utf8 (ci_membershipIntentId i), DecodedHash (ci_membershipIntentHash i), DecodedHash (ci_membershipIntentEvidenceDigest i),
      Utf8 (ci_proposalId i), DecodedHash (ci_proposalHash i), Utf8 (ci_commitPosition i), Utf8 (ci_commitEnvelopeId i),
      DecodedHash (ci_commitEnvelopeSha256 i)]"

definition encodeCommittedIntents :: "committedIntent list \<Rightarrow> digestField list" where
  "encodeCommittedIntents is = Utf8 (showNat (length is)) # concat (map intentDigestFields is)"

record membershipTarget =
  mt_accountId :: string
  mt_installationId :: string
  mt_credentialId :: string
  mt_credentialFingerprint :: string

definition MEMBERSHIP_TARGET_KEYS :: "string list" where
  "MEMBERSHIP_TARGET_KEYS =
    [''accountId'', ''installationId'', ''credentialId'', ''credentialFingerprint'']"

definition parseMembershipTarget :: "jsval \<Rightarrow> membershipTarget res" where
  "parseMembershipTarget v =
     bindE (expectExactRecord v MEMBERSHIP_TARGET_KEYS) (\<lambda>record.
     bindE (parseAccountId (record ''accountId'')) (\<lambda>accountId.
     bindE (parseInstallationId (record ''installationId'')) (\<lambda>installationId.
     bindE (parseCredentialId (record ''credentialId'')) (\<lambda>credentialId.
     bindE (parseFingerprint32 (record ''credentialFingerprint'')) (\<lambda>credentialFingerprint.
     Inr \<lparr>mt_accountId = accountId, mt_installationId = installationId, mt_credentialId = credentialId,
          mt_credentialFingerprint = credentialFingerprint\<rparr>)))))"

definition entriesMembershipTarget :: "membershipTarget \<Rightarrow> (string \<times> jsval) list" where
  "entriesMembershipTarget r =
     [(''accountId'', JStr (mt_accountId r)), (''installationId'', JStr (mt_installationId r)),
      (''credentialId'', JStr (mt_credentialId r)),
      (''credentialFingerprint'', JStr (mt_credentialFingerprint r))]"

definition encodeMembershipTarget :: "membershipTarget \<Rightarrow> jsval" where
  "encodeMembershipTarget r = mkRecord (entriesMembershipTarget r)"

definition membershipTargetValid :: "membershipTarget \<Rightarrow> bool" where
  "membershipTargetValid r =
     (uuidV4Valid (mt_accountId r) \<and> uuidV4Valid (mt_installationId r) \<and>
      uuidV4Valid (mt_credentialId r) \<and> hash32Valid (mt_credentialFingerprint r))"

lemma entriesMembershipTarget_get [simp]:
  "fieldOf (entriesMembershipTarget r) ''accountId'' = JStr (mt_accountId r)"
  "fieldOf (entriesMembershipTarget r) ''installationId'' = JStr (mt_installationId r)"
  "fieldOf (entriesMembershipTarget r) ''credentialId'' = JStr (mt_credentialId r)"
  "fieldOf (entriesMembershipTarget r) ''credentialFingerprint'' = JStr (mt_credentialFingerprint r)"
  by (simp_all add: entriesMembershipTarget_def)

lemma expect_encodeMembershipTarget: "expectExactRecord (encodeMembershipTarget r) MEMBERSHIP_TARGET_KEYS = Inr (fieldOf (entriesMembershipTarget r))"
  unfolding encodeMembershipTarget_def by (rule expectExactRecord_mkRecord) (simp_all add: MEMBERSHIP_TARGET_KEYS_def entriesMembershipTarget_def)

interpretation membership_target_codec: record_codec parseMembershipTarget encodeMembershipTarget membershipTargetValid
proof
  show "membershipTargetValid r" if "parseMembershipTarget v = Inr r" for v r
    using that unfolding parseMembershipTarget_def
    by (elim bindE_InrE, simp only: parse_simps guardE_eq_Inr sum.inject, elim conjE, hypsubst, simp add: membershipTargetValid_def)
  show "parseMembershipTarget (encodeMembershipTarget r) = Inr r" if "membershipTargetValid r" for r
    using that by (simp add: parseMembershipTarget_def expect_encodeMembershipTarget parse_ok membershipTargetValid_def split: option.splits)
qed

definition parseMlsMembershipTarget :: "jsval \<Rightarrow> membershipTarget option res" where
  "parseMlsMembershipTarget v = (if v = JNull then Inr None else bindE (parseMembershipTarget v) (\<lambda>target. Inr (Some target)))"

definition encodeTarget :: "membershipTarget option \<Rightarrow> jsval" where
  "encodeTarget t = (case t of None \<Rightarrow> JNull | Some target \<Rightarrow> encodeMembershipTarget target)"

definition targetValid :: "membershipTarget option \<Rightarrow> bool" where
  "targetValid t = (case t of None \<Rightarrow> True | Some target \<Rightarrow> membershipTargetValid target)"

interpretation target_codec: record_codec parseMlsMembershipTarget encodeTarget targetValid
proof
  show "targetValid r" if "parseMlsMembershipTarget v = Inr r" for v r
    using that by (auto simp: parseMlsMembershipTarget_def bindE_eq_Inr targetValid_def membership_target_codec.parse_wf split: if_splits)
  show "parseMlsMembershipTarget (encodeTarget r) = Inr r" if "targetValid r" for r
  proof (cases r)
    case (Some target)
    then have "parseMembershipTarget (encodeMembershipTarget target) = Inr target"
      using that by (intro membership_target_codec.parse_encode) (simp add: targetValid_def)
    moreover have "encodeMembershipTarget target \<noteq> JNull" by (simp add: encodeMembershipTarget_def mkRecord_def)
    ultimately show ?thesis using Some by (simp add: parseMlsMembershipTarget_def encodeTarget_def)
  qed (simp add: parseMlsMembershipTarget_def encodeTarget_def)
qed

lemma mls_lists_defined [simp]: "JUndefined \<noteq> encodeIntentList is" "JUndefined \<noteq> encodeStagedList ps" "JUndefined \<noteq> encodeTarget t"
  by (auto simp: encodeIntentList_def encodeStagedList_def encodeTarget_def encodeMembershipTarget_def mkArray_def mkRecord_def split: option.splits)

definition sameMlsMembershipTarget :: "membershipTarget option \<Rightarrow> membershipTarget option \<Rightarrow> bool" where
  "sameMlsMembershipTarget left right = (case (left, right) of
     (None, None) \<Rightarrow> True
   | (Some l, Some r) \<Rightarrow> mt_accountId l = mt_accountId r \<and> mt_installationId l = mt_installationId r
       \<and> mt_credentialId l = mt_credentialId r \<and> mt_credentialFingerprint l = mt_credentialFingerprint r
   | _ \<Rightarrow> False)"

lemma sameMlsMembershipTarget_iff: "sameMlsMembershipTarget left right \<longleftrightarrow> left = right"
  by (auto simp: sameMlsMembershipTarget_def intro: membershipTarget.equality split: option.splits)

definition encodeMlsMembershipTarget :: "membershipTarget option \<Rightarrow> digestField list" where
  "encodeMlsMembershipTarget t = (case t of
     None \<Rightarrow> [Utf8 ''absent'']
   | Some v \<Rightarrow> [Utf8 ''present'', Utf8 (mt_accountId v), Utf8 (mt_installationId v), Utf8 (mt_credentialId v),
        DecodedFingerprint (mt_credentialFingerprint v)])"

lemma parseNullable_proposal_iff [parse_simps]:
  "parseNullable parseProposalId v = Inr x \<longleftrightarrow> v = encodeNullable x \<and> (case x of None \<Rightarrow> True | Some s \<Rightarrow> uuidV7Valid s)"
  by (rule parseNullable_iff) (simp add: parse_simps)

subsection \<open>Commits\<close>

datatype commitKind = MembershipCommit | UpdateCommit

primrec commitKindText :: "commitKind \<Rightarrow> string" where
  "commitKindText MembershipCommit = ''membership''"
| "commitKindText UpdateCommit = ''update''"

definition parseCommitKind :: "jsval \<Rightarrow> commitKind res" where
  "parseCommitKind = parseOneOfString commitKindText [MembershipCommit, UpdateCommit]"

lemma commitKindText_inj [enum_inj]: "commitKindText a = commitKindText b \<longleftrightarrow> a = b"
  by (cases a; cases b) simp_all

lemma parseCommitKind_iff [parse_simps]: "parseCommitKind v = Inr x \<longleftrightarrow> v = JStr (commitKindText x)"
  unfolding parseCommitKind_def
proof (rule parseOneOfString_iff)
  show "inj commitKindText" by (rule injI) (simp add: enum_inj)
  show "y \<in> set [MembershipCommit, UpdateCommit]" for y by (cases y) simp_all
qed

lemma parseCommitKind_ok [parse_ok]: "parseCommitKind (JStr (commitKindText x)) = Inr x"
  by (simp add: parse_simps)

datatype creatorMembershipStatus = CreatorPresent | CreatorNotApplicable

primrec creatorMembershipStatusText :: "creatorMembershipStatus \<Rightarrow> string" where
  "creatorMembershipStatusText CreatorPresent = ''verified-present''"
| "creatorMembershipStatusText CreatorNotApplicable = ''not-applicable''"

definition parseCreatorMembershipStatus :: "jsval \<Rightarrow> creatorMembershipStatus res" where
  "parseCreatorMembershipStatus = parseOneOfString creatorMembershipStatusText [CreatorPresent, CreatorNotApplicable]"

lemma creatorMembershipStatusText_inj [enum_inj]: "creatorMembershipStatusText a = creatorMembershipStatusText b \<longleftrightarrow> a = b"
  by (cases a; cases b) simp_all

lemma parseCreatorMembershipStatus_iff [parse_simps]: "parseCreatorMembershipStatus v = Inr x \<longleftrightarrow> v = JStr (creatorMembershipStatusText x)"
  unfolding parseCreatorMembershipStatus_def
proof (rule parseOneOfString_iff)
  show "inj creatorMembershipStatusText" by (rule injI) (simp add: enum_inj)
  show "y \<in> set [CreatorPresent, CreatorNotApplicable]" for y by (cases y) simp_all
qed

lemma parseCreatorMembershipStatus_ok [parse_ok]: "parseCreatorMembershipStatus (JStr (creatorMembershipStatusText x)) = Inr x"
  by (simp add: parse_simps)

datatype removalMembershipStatus = RemovalAbsent | RemovalNotApplicable

primrec removalMembershipStatusText :: "removalMembershipStatus \<Rightarrow> string" where
  "removalMembershipStatusText RemovalAbsent = ''verified-absent''"
| "removalMembershipStatusText RemovalNotApplicable = ''not-applicable''"

definition parseRemovalMembershipStatus :: "jsval \<Rightarrow> removalMembershipStatus res" where
  "parseRemovalMembershipStatus = parseOneOfString removalMembershipStatusText [RemovalAbsent, RemovalNotApplicable]"

lemma removalMembershipStatusText_inj [enum_inj]: "removalMembershipStatusText a = removalMembershipStatusText b \<longleftrightarrow> a = b"
  by (cases a; cases b) simp_all

lemma parseRemovalMembershipStatus_iff [parse_simps]: "parseRemovalMembershipStatus v = Inr x \<longleftrightarrow> v = JStr (removalMembershipStatusText x)"
  unfolding parseRemovalMembershipStatus_def
proof (rule parseOneOfString_iff)
  show "inj removalMembershipStatusText" by (rule injI) (simp add: enum_inj)
  show "y \<in> set [RemovalAbsent, RemovalNotApplicable]" for y by (cases y) simp_all
qed

lemma parseRemovalMembershipStatus_ok [parse_ok]: "parseRemovalMembershipStatus (JStr (removalMembershipStatusText x)) = Inr x"
  by (simp add: parse_simps)

record commitEvidence =
  ce_realmId :: string
  ce_conversationGeneration :: string
  ce_releaseProfileId :: string
  ce_releaseTrustRootDigest :: string
  ce_expectedGroupIdHash :: string
  ce_conversationId :: string
  ce_position :: string
  ce_envelopeId :: string
  ce_envelopeSha256 :: string
  ce_expectedAccountId :: string
  ce_expectedInstallationId :: string
  ce_expectedCredentialId :: string
  ce_expectedCredentialFingerprint :: string
  ce_expectedCredentialRevocationVersion :: string
  ce_expectedSenderGeneration :: string
  ce_authenticatedCredentialId :: string
  ce_authenticatedCredentialFingerprint :: string
  ce_authenticatedCredentialRevocationVersion :: string
  ce_authenticatedSenderGeneration :: string
  ce_senderBindingStatus :: string
  ce_commitEpoch :: string
  ce_commitRosterVersion :: string
  ce_previousEpoch :: string
  ce_previousRosterVersion :: string
  ce_previousConfirmedTranscriptHash :: string
  ce_baseConfirmedTranscriptHash :: string
  ce_resultingConfirmedTranscriptHash :: string
  ce_commitKind :: commitKind
  ce_resultingEpoch :: string
  ce_resultingRosterVersion :: string
  ce_stagedProposals :: "stagedProposal list"
  ce_requiredProposals :: "mandatoryProposal list"
  ce_consumedProposals :: "stagedProposal list"
  ce_committedIntents :: "committedIntent list"
  ce_proposalConsumptionStatus :: string
  ce_intentBindingStatus :: string
  ce_creatorBootstrapTarget :: "membershipTarget option"
  ce_creatorMembershipStatus :: creatorMembershipStatus
  ce_removalTarget :: "membershipTarget option"
  ce_removalProposalId :: "string option"
  ce_removalProposalHash :: "string option"
  ce_removalMembershipStatus :: removalMembershipStatus
  ce_projectionStatus :: string
  ce_evidenceDigest :: string

definition COMMIT_EVIDENCE_KEYS :: "string list" where
  "COMMIT_EVIDENCE_KEYS =
    [''status'', ''profile'', ''realmId'', ''conversationGeneration'', ''releaseProfileId'',
     ''releaseTrustRootDigest'', ''expectedGroupIdHash'', ''conversationId'', ''position'', ''envelopeId'',
     ''envelopeSha256'', ''expectedAccountId'', ''expectedInstallationId'', ''expectedCredentialId'',
     ''expectedCredentialFingerprint'', ''expectedCredentialRevocationVersion'', ''expectedSenderGeneration'',
     ''authenticatedCredentialId'', ''authenticatedCredentialFingerprint'',
     ''authenticatedCredentialRevocationVersion'', ''authenticatedSenderGeneration'', ''senderBindingStatus'',
     ''commitEpoch'', ''commitRosterVersion'', ''previousEpoch'', ''previousRosterVersion'',
     ''previousConfirmedTranscriptHash'', ''baseConfirmedTranscriptHash'',
     ''resultingConfirmedTranscriptHash'', ''commitKind'', ''resultingEpoch'', ''resultingRosterVersion'',
     ''stagedProposals'', ''requiredProposals'', ''consumedProposals'', ''committedIntents'',
     ''proposalConsumptionStatus'', ''intentBindingStatus'', ''creatorBootstrapTarget'',
     ''creatorMembershipStatus'', ''removalTarget'', ''removalProposalId'', ''removalProposalHash'',
     ''removalMembershipStatus'', ''projectionStatus'', ''evidenceDigest'']"

definition parseCommitFields :: "jsval \<Rightarrow> commitEvidence res" where
  "parseCommitFields v =
     bindE (expectExactRecord v COMMIT_EVIDENCE_KEYS) (\<lambda>record.
     bindE (guardE (record ''status'' = JStr ''verified'' \<and> record ''profile'' = JStr ''mls-commit-projection.v1'') ConversationSyncValidationError) (\<lambda>_.
     bindE (parseDeliveryRealmId (record ''realmId'')) (\<lambda>realmId.
     bindE (parsePositive (record ''conversationGeneration'')) (\<lambda>conversationGeneration.
     bindE (parseReleaseProfileId (record ''releaseProfileId'')) (\<lambda>releaseProfileId.
     bindE (parseHash32 (record ''releaseTrustRootDigest'')) (\<lambda>releaseTrustRootDigest.
     bindE (parseHash32 (record ''expectedGroupIdHash'')) (\<lambda>expectedGroupIdHash.
     bindE (parseConversationId (record ''conversationId'')) (\<lambda>conversationId.
     bindE (parsePositive (record ''position'')) (\<lambda>position.
     bindE (parseEnvelopeId (record ''envelopeId'')) (\<lambda>envelopeId.
     bindE (parseHash32 (record ''envelopeSha256'')) (\<lambda>envelopeSha256.
     bindE (parseAccountId (record ''expectedAccountId'')) (\<lambda>expectedAccountId.
     bindE (parseInstallationId (record ''expectedInstallationId'')) (\<lambda>expectedInstallationId.
     bindE (parseCredentialId (record ''expectedCredentialId'')) (\<lambda>expectedCredentialId.
     bindE (parseFingerprint32 (record ''expectedCredentialFingerprint'')) (\<lambda>expectedCredentialFingerprint.
     bindE (parseUint63String (record ''expectedCredentialRevocationVersion'')) (\<lambda>expectedCredentialRevocationVersion.
     bindE (parsePositive (record ''expectedSenderGeneration'')) (\<lambda>expectedSenderGeneration.
     bindE (parseCredentialId (record ''authenticatedCredentialId'')) (\<lambda>authenticatedCredentialId.
     bindE (parseFingerprint32 (record ''authenticatedCredentialFingerprint'')) (\<lambda>authenticatedCredentialFingerprint.
     bindE (parseUint63String (record ''authenticatedCredentialRevocationVersion'')) (\<lambda>authenticatedCredentialRevocationVersion.
     bindE (parsePositive (record ''authenticatedSenderGeneration'')) (\<lambda>authenticatedSenderGeneration.
     bindE (parseExactLiteral ''verified'' (record ''senderBindingStatus'')) (\<lambda>senderBindingStatus.
     bindE (parseUint63String (record ''commitEpoch'')) (\<lambda>commitEpoch.
     bindE (parseUint63String (record ''commitRosterVersion'')) (\<lambda>commitRosterVersion.
     bindE (parseUint63String (record ''previousEpoch'')) (\<lambda>previousEpoch.
     bindE (parseUint63String (record ''previousRosterVersion'')) (\<lambda>previousRosterVersion.
     bindE (parseHash32 (record ''previousConfirmedTranscriptHash'')) (\<lambda>previousConfirmedTranscriptHash.
     bindE (parseHash32 (record ''baseConfirmedTranscriptHash'')) (\<lambda>baseConfirmedTranscriptHash.
     bindE (parseHash32 (record ''resultingConfirmedTranscriptHash'')) (\<lambda>resultingConfirmedTranscriptHash.
     bindE (parseCommitKind (record ''commitKind'')) (\<lambda>commitKind.
     bindE (parseUint63String (record ''resultingEpoch'')) (\<lambda>resultingEpoch.
     bindE (parseUint63String (record ''resultingRosterVersion'')) (\<lambda>resultingRosterVersion.
     bindE (parseStagedProposalBindings (record ''stagedProposals'')) (\<lambda>stagedProposals.
     bindE (parsePolicyMandatoryProposals (record ''requiredProposals'')) (\<lambda>requiredProposals.
     bindE (parseStagedProposalBindings (record ''consumedProposals'')) (\<lambda>consumedProposals.
     bindE (parseCommittedIntentBindings (record ''committedIntents'')) (\<lambda>committedIntents.
     bindE (parseExactLiteral ''verified'' (record ''proposalConsumptionStatus'')) (\<lambda>proposalConsumptionStatus.
     bindE (parseExactLiteral ''verified'' (record ''intentBindingStatus'')) (\<lambda>intentBindingStatus.
     bindE (parseMlsMembershipTarget (record ''creatorBootstrapTarget'')) (\<lambda>creatorBootstrapTarget.
     bindE (parseCreatorMembershipStatus (record ''creatorMembershipStatus'')) (\<lambda>creatorMembershipStatus.
     bindE (parseMlsMembershipTarget (record ''removalTarget'')) (\<lambda>removalTarget.
     bindE (parseNullable parseProposalId (record ''removalProposalId'')) (\<lambda>removalProposalId.
     bindE (parseNullable parseHash32 (record ''removalProposalHash'')) (\<lambda>removalProposalHash.
     bindE (parseRemovalMembershipStatus (record ''removalMembershipStatus'')) (\<lambda>removalMembershipStatus.
     bindE (parseExactLiteral ''verified'' (record ''projectionStatus'')) (\<lambda>projectionStatus.
     bindE (parseHash32 (record ''evidenceDigest'')) (\<lambda>evidenceDigest.
     Inr \<lparr>ce_realmId = realmId, ce_conversationGeneration = conversationGeneration,
          ce_releaseProfileId = releaseProfileId, ce_releaseTrustRootDigest = releaseTrustRootDigest,
          ce_expectedGroupIdHash = expectedGroupIdHash, ce_conversationId = conversationId,
          ce_position = position, ce_envelopeId = envelopeId, ce_envelopeSha256 = envelopeSha256,
          ce_expectedAccountId = expectedAccountId, ce_expectedInstallationId = expectedInstallationId,
          ce_expectedCredentialId = expectedCredentialId,
          ce_expectedCredentialFingerprint = expectedCredentialFingerprint,
          ce_expectedCredentialRevocationVersion = expectedCredentialRevocationVersion,
          ce_expectedSenderGeneration = expectedSenderGeneration,
          ce_authenticatedCredentialId = authenticatedCredentialId,
          ce_authenticatedCredentialFingerprint = authenticatedCredentialFingerprint,
          ce_authenticatedCredentialRevocationVersion = authenticatedCredentialRevocationVersion,
          ce_authenticatedSenderGeneration = authenticatedSenderGeneration,
          ce_senderBindingStatus = senderBindingStatus, ce_commitEpoch = commitEpoch,
          ce_commitRosterVersion = commitRosterVersion, ce_previousEpoch = previousEpoch,
          ce_previousRosterVersion = previousRosterVersion,
          ce_previousConfirmedTranscriptHash = previousConfirmedTranscriptHash,
          ce_baseConfirmedTranscriptHash = baseConfirmedTranscriptHash,
          ce_resultingConfirmedTranscriptHash = resultingConfirmedTranscriptHash, ce_commitKind = commitKind,
          ce_resultingEpoch = resultingEpoch, ce_resultingRosterVersion = resultingRosterVersion,
          ce_stagedProposals = stagedProposals, ce_requiredProposals = requiredProposals,
          ce_consumedProposals = consumedProposals, ce_committedIntents = committedIntents,
          ce_proposalConsumptionStatus = proposalConsumptionStatus,
          ce_intentBindingStatus = intentBindingStatus, ce_creatorBootstrapTarget = creatorBootstrapTarget,
          ce_creatorMembershipStatus = creatorMembershipStatus, ce_removalTarget = removalTarget,
          ce_removalProposalId = removalProposalId, ce_removalProposalHash = removalProposalHash,
          ce_removalMembershipStatus = removalMembershipStatus, ce_projectionStatus = projectionStatus,
          ce_evidenceDigest = evidenceDigest\<rparr>))))))))))))))))))))))))))))))))))))))))))))))"

definition entriesCommitEvidence :: "commitEvidence \<Rightarrow> (string \<times> jsval) list" where
  "entriesCommitEvidence r =
     [(''status'', JStr ''verified''), (''profile'', JStr ''mls-commit-projection.v1''),
      (''realmId'', JStr (ce_realmId r)), (''conversationGeneration'', JStr (ce_conversationGeneration r)),
      (''releaseProfileId'', JStr (ce_releaseProfileId r)),
      (''releaseTrustRootDigest'', JStr (ce_releaseTrustRootDigest r)),
      (''expectedGroupIdHash'', JStr (ce_expectedGroupIdHash r)),
      (''conversationId'', JStr (ce_conversationId r)), (''position'', JStr (ce_position r)),
      (''envelopeId'', JStr (ce_envelopeId r)), (''envelopeSha256'', JStr (ce_envelopeSha256 r)),
      (''expectedAccountId'', JStr (ce_expectedAccountId r)),
      (''expectedInstallationId'', JStr (ce_expectedInstallationId r)),
      (''expectedCredentialId'', JStr (ce_expectedCredentialId r)),
      (''expectedCredentialFingerprint'', JStr (ce_expectedCredentialFingerprint r)),
      (''expectedCredentialRevocationVersion'', JStr (ce_expectedCredentialRevocationVersion r)),
      (''expectedSenderGeneration'', JStr (ce_expectedSenderGeneration r)),
      (''authenticatedCredentialId'', JStr (ce_authenticatedCredentialId r)),
      (''authenticatedCredentialFingerprint'', JStr (ce_authenticatedCredentialFingerprint r)),
      (''authenticatedCredentialRevocationVersion'', JStr (ce_authenticatedCredentialRevocationVersion r)),
      (''authenticatedSenderGeneration'', JStr (ce_authenticatedSenderGeneration r)),
      (''senderBindingStatus'', JStr (ce_senderBindingStatus r)), (''commitEpoch'', JStr (ce_commitEpoch r)),
      (''commitRosterVersion'', JStr (ce_commitRosterVersion r)),
      (''previousEpoch'', JStr (ce_previousEpoch r)),
      (''previousRosterVersion'', JStr (ce_previousRosterVersion r)),
      (''previousConfirmedTranscriptHash'', JStr (ce_previousConfirmedTranscriptHash r)),
      (''baseConfirmedTranscriptHash'', JStr (ce_baseConfirmedTranscriptHash r)),
      (''resultingConfirmedTranscriptHash'', JStr (ce_resultingConfirmedTranscriptHash r)),
      (''commitKind'', JStr (commitKindText (ce_commitKind r))),
      (''resultingEpoch'', JStr (ce_resultingEpoch r)),
      (''resultingRosterVersion'', JStr (ce_resultingRosterVersion r)),
      (''stagedProposals'', encodeStagedList (ce_stagedProposals r)),
      (''requiredProposals'', encodeMandatoryProposals (ce_requiredProposals r)),
      (''consumedProposals'', encodeStagedList (ce_consumedProposals r)),
      (''committedIntents'', encodeIntentList (ce_committedIntents r)),
      (''proposalConsumptionStatus'', JStr (ce_proposalConsumptionStatus r)),
      (''intentBindingStatus'', JStr (ce_intentBindingStatus r)),
      (''creatorBootstrapTarget'', encodeTarget (ce_creatorBootstrapTarget r)),
      (''creatorMembershipStatus'', JStr (creatorMembershipStatusText (ce_creatorMembershipStatus r))),
      (''removalTarget'', encodeTarget (ce_removalTarget r)),
      (''removalProposalId'', encodeNullable (ce_removalProposalId r)),
      (''removalProposalHash'', encodeNullable (ce_removalProposalHash r)),
      (''removalMembershipStatus'', JStr (removalMembershipStatusText (ce_removalMembershipStatus r))),
      (''projectionStatus'', JStr (ce_projectionStatus r)), (''evidenceDigest'', JStr (ce_evidenceDigest r))]"

definition encodeCommitEvidence :: "commitEvidence \<Rightarrow> jsval" where
  "encodeCommitEvidence r = mkRecord (entriesCommitEvidence r)"

definition commitEvidenceValid :: "commitEvidence \<Rightarrow> bool" where
  "commitEvidenceValid r =
     (REALM_ID (ce_realmId r) \<and> positiveUint63Valid (ce_conversationGeneration r) \<and>
      RELEASE_PROFILE_ID (ce_releaseProfileId r) \<and> hash32Valid (ce_releaseTrustRootDigest r) \<and>
      hash32Valid (ce_expectedGroupIdHash r) \<and> uuidV4Valid (ce_conversationId r) \<and>
      positiveUint63Valid (ce_position r) \<and> uuidV4Valid (ce_envelopeId r) \<and>
      hash32Valid (ce_envelopeSha256 r) \<and> uuidV4Valid (ce_expectedAccountId r) \<and>
      uuidV4Valid (ce_expectedInstallationId r) \<and> uuidV4Valid (ce_expectedCredentialId r) \<and>
      hash32Valid (ce_expectedCredentialFingerprint r) \<and>
      uint63Valid (ce_expectedCredentialRevocationVersion r) \<and>
      positiveUint63Valid (ce_expectedSenderGeneration r) \<and>
      uuidV4Valid (ce_authenticatedCredentialId r) \<and>
      hash32Valid (ce_authenticatedCredentialFingerprint r) \<and>
      uint63Valid (ce_authenticatedCredentialRevocationVersion r) \<and>
      positiveUint63Valid (ce_authenticatedSenderGeneration r) \<and>
      ce_senderBindingStatus r = ''verified'' \<and> uint63Valid (ce_commitEpoch r) \<and>
      uint63Valid (ce_commitRosterVersion r) \<and> uint63Valid (ce_previousEpoch r) \<and>
      uint63Valid (ce_previousRosterVersion r) \<and>
      hash32Valid (ce_previousConfirmedTranscriptHash r) \<and>
      hash32Valid (ce_baseConfirmedTranscriptHash r) \<and>
      hash32Valid (ce_resultingConfirmedTranscriptHash r) \<and> uint63Valid (ce_resultingEpoch r) \<and>
      uint63Valid (ce_resultingRosterVersion r) \<and> stagedListValid (ce_stagedProposals r) \<and>
      mandatoryProposalsValid (ce_requiredProposals r) \<and> stagedListValid (ce_consumedProposals r) \<and>
      intentListValid (ce_committedIntents r) \<and> ce_proposalConsumptionStatus r = ''verified'' \<and>
      ce_intentBindingStatus r = ''verified'' \<and> targetValid (ce_creatorBootstrapTarget r) \<and>
      targetValid (ce_removalTarget r) \<and>
      (case ce_removalProposalId r of None \<Rightarrow> True | Some x \<Rightarrow> uuidV7Valid x) \<and>
      (case ce_removalProposalHash r of None \<Rightarrow> True | Some x \<Rightarrow> hash32Valid x) \<and>
      ce_projectionStatus r = ''verified'' \<and> hash32Valid (ce_evidenceDigest r))"

lemma entriesCommitEvidence_get [simp]:
  "fieldOf (entriesCommitEvidence r) ''status'' = JStr ''verified''"
  "fieldOf (entriesCommitEvidence r) ''profile'' = JStr ''mls-commit-projection.v1''"
  "fieldOf (entriesCommitEvidence r) ''realmId'' = JStr (ce_realmId r)"
  "fieldOf (entriesCommitEvidence r) ''conversationGeneration'' = JStr (ce_conversationGeneration r)"
  "fieldOf (entriesCommitEvidence r) ''releaseProfileId'' = JStr (ce_releaseProfileId r)"
  "fieldOf (entriesCommitEvidence r) ''releaseTrustRootDigest'' = JStr (ce_releaseTrustRootDigest r)"
  "fieldOf (entriesCommitEvidence r) ''expectedGroupIdHash'' = JStr (ce_expectedGroupIdHash r)"
  "fieldOf (entriesCommitEvidence r) ''conversationId'' = JStr (ce_conversationId r)"
  "fieldOf (entriesCommitEvidence r) ''position'' = JStr (ce_position r)"
  "fieldOf (entriesCommitEvidence r) ''envelopeId'' = JStr (ce_envelopeId r)"
  "fieldOf (entriesCommitEvidence r) ''envelopeSha256'' = JStr (ce_envelopeSha256 r)"
  "fieldOf (entriesCommitEvidence r) ''expectedAccountId'' = JStr (ce_expectedAccountId r)"
  "fieldOf (entriesCommitEvidence r) ''expectedInstallationId'' = JStr (ce_expectedInstallationId r)"
  "fieldOf (entriesCommitEvidence r) ''expectedCredentialId'' = JStr (ce_expectedCredentialId r)"
  "fieldOf (entriesCommitEvidence r) ''expectedCredentialFingerprint'' = JStr (ce_expectedCredentialFingerprint r)"
  by (simp_all add: entriesCommitEvidence_def)

lemma entriesCommitEvidence_get2 [simp]:
  "fieldOf (entriesCommitEvidence r) ''expectedCredentialRevocationVersion'' = JStr (ce_expectedCredentialRevocationVersion r)"
  "fieldOf (entriesCommitEvidence r) ''expectedSenderGeneration'' = JStr (ce_expectedSenderGeneration r)"
  "fieldOf (entriesCommitEvidence r) ''authenticatedCredentialId'' = JStr (ce_authenticatedCredentialId r)"
  "fieldOf (entriesCommitEvidence r) ''authenticatedCredentialFingerprint'' = JStr (ce_authenticatedCredentialFingerprint r)"
  "fieldOf (entriesCommitEvidence r) ''authenticatedCredentialRevocationVersion'' = JStr (ce_authenticatedCredentialRevocationVersion r)"
  "fieldOf (entriesCommitEvidence r) ''authenticatedSenderGeneration'' = JStr (ce_authenticatedSenderGeneration r)"
  "fieldOf (entriesCommitEvidence r) ''senderBindingStatus'' = JStr (ce_senderBindingStatus r)"
  "fieldOf (entriesCommitEvidence r) ''commitEpoch'' = JStr (ce_commitEpoch r)"
  "fieldOf (entriesCommitEvidence r) ''commitRosterVersion'' = JStr (ce_commitRosterVersion r)"
  "fieldOf (entriesCommitEvidence r) ''previousEpoch'' = JStr (ce_previousEpoch r)"
  "fieldOf (entriesCommitEvidence r) ''previousRosterVersion'' = JStr (ce_previousRosterVersion r)"
  "fieldOf (entriesCommitEvidence r) ''previousConfirmedTranscriptHash'' = JStr (ce_previousConfirmedTranscriptHash r)"
  "fieldOf (entriesCommitEvidence r) ''baseConfirmedTranscriptHash'' = JStr (ce_baseConfirmedTranscriptHash r)"
  "fieldOf (entriesCommitEvidence r) ''resultingConfirmedTranscriptHash'' = JStr (ce_resultingConfirmedTranscriptHash r)"
  "fieldOf (entriesCommitEvidence r) ''commitKind'' = JStr (commitKindText (ce_commitKind r))"
  by (simp_all add: entriesCommitEvidence_def)

lemma entriesCommitEvidence_get3 [simp]:
  "fieldOf (entriesCommitEvidence r) ''resultingEpoch'' = JStr (ce_resultingEpoch r)"
  "fieldOf (entriesCommitEvidence r) ''resultingRosterVersion'' = JStr (ce_resultingRosterVersion r)"
  "fieldOf (entriesCommitEvidence r) ''stagedProposals'' = encodeStagedList (ce_stagedProposals r)"
  "fieldOf (entriesCommitEvidence r) ''requiredProposals'' = encodeMandatoryProposals (ce_requiredProposals r)"
  "fieldOf (entriesCommitEvidence r) ''consumedProposals'' = encodeStagedList (ce_consumedProposals r)"
  "fieldOf (entriesCommitEvidence r) ''committedIntents'' = encodeIntentList (ce_committedIntents r)"
  "fieldOf (entriesCommitEvidence r) ''proposalConsumptionStatus'' = JStr (ce_proposalConsumptionStatus r)"
  "fieldOf (entriesCommitEvidence r) ''intentBindingStatus'' = JStr (ce_intentBindingStatus r)"
  "fieldOf (entriesCommitEvidence r) ''creatorBootstrapTarget'' = encodeTarget (ce_creatorBootstrapTarget r)"
  "fieldOf (entriesCommitEvidence r) ''creatorMembershipStatus'' = JStr (creatorMembershipStatusText (ce_creatorMembershipStatus r))"
  "fieldOf (entriesCommitEvidence r) ''removalTarget'' = encodeTarget (ce_removalTarget r)"
  "fieldOf (entriesCommitEvidence r) ''removalProposalId'' = encodeNullable (ce_removalProposalId r)"
  "fieldOf (entriesCommitEvidence r) ''removalProposalHash'' = encodeNullable (ce_removalProposalHash r)"
  "fieldOf (entriesCommitEvidence r) ''removalMembershipStatus'' = JStr (removalMembershipStatusText (ce_removalMembershipStatus r))"
  "fieldOf (entriesCommitEvidence r) ''projectionStatus'' = JStr (ce_projectionStatus r)"
  by (simp_all add: entriesCommitEvidence_def)

lemma entriesCommitEvidence_get4 [simp]:
  "fieldOf (entriesCommitEvidence r) ''evidenceDigest'' = JStr (ce_evidenceDigest r)"
  by (simp_all add: entriesCommitEvidence_def)

lemma expect_encodeCommitEvidence: "expectExactRecord (encodeCommitEvidence r) COMMIT_EVIDENCE_KEYS = Inr (fieldOf (entriesCommitEvidence r))"
  unfolding encodeCommitEvidence_def by (rule expectExactRecord_mkRecord) (simp_all add: COMMIT_EVIDENCE_KEYS_def entriesCommitEvidence_def)

interpretation commit_evidence_codec: record_codec parseCommitFields encodeCommitEvidence commitEvidenceValid
proof
  show "commitEvidenceValid r" if "parseCommitFields v = Inr r" for v r
    using that unfolding parseCommitFields_def
    by (elim bindE_InrE, simp only: parse_simps guardE_eq_Inr sum.inject, elim conjE, hypsubst, simp add: commitEvidenceValid_def staged_list_codec.parse_wf intent_list_codec.parse_wf target_codec.parse_wf mandatory_codec.parse_wf)
  show "parseCommitFields (encodeCommitEvidence r) = Inr r" if "commitEvidenceValid r" for r
    using that by (cases r) (simp add: parseCommitFields_def expect_encodeCommitEvidence parse_ok commitEvidenceValid_def staged_list_codec.parse_encode intent_list_codec.parse_encode target_codec.parse_encode mandatory_codec.parse_encode parseDeliveryRealmId_ok split: option.splits)
qed

record commitRequest =
  cq_realmId :: string
  cq_conversationGeneration :: string
  cq_releaseProfileId :: string
  cq_releaseTrustRootDigest :: string
  cq_expectedGroupIdHash :: string
  cq_conversationId :: string
  cq_position :: string
  cq_envelopeId :: string
  cq_envelopeBytes :: string
  cq_envelopeSha256 :: string
  cq_expectedAccountId :: string
  cq_expectedInstallationId :: string
  cq_expectedCredentialId :: string
  cq_expectedCredentialFingerprint :: string
  cq_expectedCredentialRevocationVersion :: string
  cq_expectedSenderGeneration :: string
  cq_commitEpoch :: string
  cq_commitRosterVersion :: string
  cq_previousEpoch :: string
  cq_previousRosterVersion :: string
  cq_previousConfirmedTranscriptHash :: string
  cq_baseConfirmedTranscriptHash :: string
  cq_resultingConfirmedTranscriptHash :: string
  cq_stagedProposals :: "stagedProposal list"
  cq_requiredProposals :: "mandatoryProposal list"
  cq_creatorBootstrapTarget :: "membershipTarget option"
  cq_removalTarget :: "membershipTarget option"

definition commitSubstituted :: "commitEvidence \<Rightarrow> commitRequest \<Rightarrow> bool" where
  "commitSubstituted parsed expected =
     (ce_realmId parsed \<noteq> cq_realmId expected
      \<or> ce_conversationGeneration parsed \<noteq> cq_conversationGeneration expected
      \<or> ce_releaseProfileId parsed \<noteq> cq_releaseProfileId expected
      \<or> ce_releaseTrustRootDigest parsed \<noteq> cq_releaseTrustRootDigest expected
      \<or> ce_expectedGroupIdHash parsed \<noteq> cq_expectedGroupIdHash expected
      \<or> ce_conversationId parsed \<noteq> cq_conversationId expected
      \<or> ce_position parsed \<noteq> cq_position expected
      \<or> ce_envelopeId parsed \<noteq> cq_envelopeId expected
      \<or> ce_envelopeSha256 parsed \<noteq> cq_envelopeSha256 expected
      \<or> ce_expectedAccountId parsed \<noteq> cq_expectedAccountId expected
      \<or> ce_expectedInstallationId parsed \<noteq> cq_expectedInstallationId expected
      \<or> ce_expectedCredentialId parsed \<noteq> cq_expectedCredentialId expected
      \<or> ce_expectedCredentialFingerprint parsed \<noteq> cq_expectedCredentialFingerprint expected
      \<or> ce_expectedCredentialRevocationVersion parsed \<noteq> cq_expectedCredentialRevocationVersion expected
      \<or> ce_expectedSenderGeneration parsed \<noteq> cq_expectedSenderGeneration expected
      \<or> ce_authenticatedCredentialId parsed \<noteq> cq_expectedCredentialId expected
      \<or> ce_authenticatedCredentialFingerprint parsed \<noteq> cq_expectedCredentialFingerprint expected
      \<or> ce_authenticatedCredentialRevocationVersion parsed \<noteq> cq_expectedCredentialRevocationVersion expected
      \<or> ce_authenticatedSenderGeneration parsed \<noteq> cq_expectedSenderGeneration expected
      \<or> ce_commitEpoch parsed \<noteq> cq_commitEpoch expected
      \<or> ce_commitRosterVersion parsed \<noteq> cq_commitRosterVersion expected
      \<or> ce_previousEpoch parsed \<noteq> cq_previousEpoch expected
      \<or> ce_previousRosterVersion parsed \<noteq> cq_previousRosterVersion expected
      \<or> ce_previousConfirmedTranscriptHash parsed \<noteq> cq_previousConfirmedTranscriptHash expected
      \<or> ce_baseConfirmedTranscriptHash parsed \<noteq> cq_baseConfirmedTranscriptHash expected
      \<or> ce_resultingConfirmedTranscriptHash parsed \<noteq> cq_resultingConfirmedTranscriptHash expected
      \<or> \<not> sameStagedProposals (ce_stagedProposals parsed) (cq_stagedProposals expected)
      \<or> \<not> samePolicyMandatoryProposals (ce_requiredProposals parsed) (cq_requiredProposals expected)
      \<or> \<not> sameMlsMembershipTarget (ce_creatorBootstrapTarget parsed) (cq_creatorBootstrapTarget expected)
      \<or> \<not> sameMlsMembershipTarget (ce_removalTarget parsed) (cq_removalTarget expected))"

text \<open>The epoch and the roster version that have to result.\<close>

definition checkCommitTransition :: "commitEvidence \<Rightarrow> unit res" where
  "checkCommitTransition parsed =
     bindE (incrementUint63 (ce_previousEpoch parsed)) (\<lambda>expectedResultingEpoch.
     bindE (if ce_commitKind parsed = MembershipCommit then incrementUint63 (ce_previousRosterVersion parsed)
            else Inr (ce_previousRosterVersion parsed)) (\<lambda>expectedResultingRosterVersion.
     if ce_resultingEpoch parsed \<noteq> expectedResultingEpoch \<or> ce_resultingRosterVersion parsed \<noteq> expectedResultingRosterVersion
     then Inl ConversationSyncValidationError else Inr ()))"

definition sameStagedProposal :: "stagedProposal \<Rightarrow> stagedProposal \<Rightarrow> bool" where
  "sameStagedProposal left right =
     (sp_position left = sp_position right \<and> sp_envelopeId left = sp_envelopeId right
      \<and> sp_envelopeSha256 left = sp_envelopeSha256 right \<and> sp_epoch left = sp_epoch right
      \<and> sp_proposalId left = sp_proposalId right \<and> sp_proposalHash left = sp_proposalHash right
      \<and> sp_authorizationRecordHash left = sp_authorizationRecordHash right
      \<and> sp_membershipIntentId left = sp_membershipIntentId right \<and> sp_membershipIntentHash left = sp_membershipIntentHash right
      \<and> sp_membershipIntentEvidenceDigest left = sp_membershipIntentEvidenceDigest right
      \<and> sp_proposalType left = sp_proposalType right \<and> sp_proposalRequirement left = sp_proposalRequirement right
      \<and> sp_authorizingPolicyHeadSequence left = sp_authorizingPolicyHeadSequence right
      \<and> sp_authorizingPolicyHeadHash left = sp_authorizingPolicyHeadHash right)"

text \<open>The map of consumed identifiers, in which a later entry would replace an earlier one.\<close>

definition consumedIds :: "commitEvidence \<Rightarrow> string \<Rightarrow> string option" where
  "consumedIds parsed = map_of (rev (map (\<lambda>p. (sp_proposalId p, sp_proposalHash p)) (ce_consumedProposals parsed)))"

definition consumptionWrong :: "commitEvidence \<Rightarrow> bool" where
  "consumptionWrong parsed =
     (list_ex (\<lambda>proposal. \<not> list_ex (\<lambda>staged. sameStagedProposal staged proposal) (ce_stagedProposals parsed)) (ce_consumedProposals parsed)
      \<or> list_ex (\<lambda>required. consumedIds parsed (pm_proposalId required) \<noteq> Some (pm_proposalHash required)) (ce_requiredProposals parsed))"

definition consumedRemoval :: "commitEvidence \<Rightarrow> stagedProposal option" where
  "consumedRemoval parsed = find (\<lambda>p. sp_proposalType p = RemoveProposal \<and> Some (sp_proposalId p) = ce_removalProposalId parsed
     \<and> Some (sp_proposalHash p) = ce_removalProposalHash parsed) (ce_consumedProposals parsed)"

definition everyConsumedProposalHasIntent :: "commitEvidence \<Rightarrow> bool" where
  "everyConsumedProposalHasIntent parsed =
     list_all (\<lambda>proposal. list_ex (\<lambda>intent.
       ci_membershipIntentId intent = sp_membershipIntentId proposal \<and> ci_membershipIntentHash intent = sp_membershipIntentHash proposal
       \<and> ci_membershipIntentEvidenceDigest intent = sp_membershipIntentEvidenceDigest proposal
       \<and> ci_proposalId intent = sp_proposalId proposal \<and> ci_proposalHash intent = sp_proposalHash proposal
       \<and> ci_commitPosition intent = ce_position parsed \<and> ci_commitEnvelopeId intent = ce_envelopeId parsed
       \<and> ci_commitEnvelopeSha256 intent = ce_envelopeSha256 parsed) (ce_committedIntents parsed)) (ce_consumedProposals parsed)"

definition membershipIncomplete :: "commitEvidence \<Rightarrow> bool" where
  "membershipIncomplete parsed =
     ((ce_commitKind parsed = UpdateCommit
        \<and> (ce_consumedProposals parsed \<noteq> [] \<or> ce_creatorBootstrapTarget parsed \<noteq> None \<or> ce_removalTarget parsed \<noteq> None))
      \<or> (ce_commitKind parsed = MembershipCommit \<and> ce_consumedProposals parsed = [] \<and> ce_creatorBootstrapTarget parsed = None)
      \<or> (ce_creatorBootstrapTarget parsed = None) \<noteq> (ce_creatorMembershipStatus parsed = CreatorNotApplicable)
      \<or> (ce_removalTarget parsed = None) \<noteq> (ce_removalMembershipStatus parsed = RemovalNotApplicable)
      \<or> (ce_removalTarget parsed = None \<and> (ce_removalProposalId parsed \<noteq> None \<or> ce_removalProposalHash parsed \<noteq> None))
      \<or> (ce_removalTarget parsed \<noteq> None \<and> consumedRemoval parsed = None)
      \<or> length (ce_committedIntents parsed) \<noteq> length (ce_consumedProposals parsed)
      \<or> \<not> everyConsumedProposalHasIntent parsed)"

definition commitDigestFields :: "commitEvidence \<Rightarrow> digestField list" where
  "commitDigestFields r =
     [Utf8 (ce_realmId r), Utf8 (ce_conversationGeneration r), Utf8 (ce_releaseProfileId r),
        DecodedHash (ce_releaseTrustRootDigest r), DecodedHash (ce_expectedGroupIdHash r),
        Utf8 (ce_conversationId r), Utf8 (ce_position r), Utf8 (ce_envelopeId r),
        DecodedHash (ce_envelopeSha256 r), Utf8 (ce_expectedAccountId r), Utf8 (ce_expectedInstallationId r),
        Utf8 (ce_expectedCredentialId r), DecodedFingerprint (ce_expectedCredentialFingerprint r),
        Utf8 (ce_expectedCredentialRevocationVersion r), Utf8 (ce_expectedSenderGeneration r),
        Utf8 (ce_authenticatedCredentialId r), DecodedFingerprint (ce_authenticatedCredentialFingerprint r),
        Utf8 (ce_authenticatedCredentialRevocationVersion r), Utf8 (ce_authenticatedSenderGeneration r),
        Utf8 (ce_senderBindingStatus r), Utf8 (ce_commitEpoch r), Utf8 (ce_commitRosterVersion r),
        Utf8 (ce_previousEpoch r), Utf8 (ce_previousRosterVersion r),
        DecodedHash (ce_previousConfirmedTranscriptHash r), DecodedHash (ce_baseConfirmedTranscriptHash r),
        DecodedHash (ce_resultingConfirmedTranscriptHash r), Utf8 (commitKindText (ce_commitKind r)),
        Utf8 (ce_resultingEpoch r), Utf8 (ce_resultingRosterVersion r)]
     @ encodeStagedProposals (ce_stagedProposals r)
     @ encodePolicyMandatoryProposals (ce_requiredProposals r)
     @ encodeStagedProposals (ce_consumedProposals r)
     @ encodeCommittedIntents (ce_committedIntents r)
     @ [Utf8 (ce_proposalConsumptionStatus r), Utf8 (ce_intentBindingStatus r)]
     @ encodeMlsMembershipTarget (ce_creatorBootstrapTarget r)
     @ [Utf8 (creatorMembershipStatusText (ce_creatorMembershipStatus r))]
     @ encodeMlsMembershipTarget (ce_removalTarget r)
     @ [NullableText (ce_removalProposalId r), NullableHash (ce_removalProposalHash r),
        Utf8 (removalMembershipStatusText (ce_removalMembershipStatus r)), Utf8 (ce_projectionStatus r)]"

definition computeMlsCommitProjectionEvidenceDigest :: "(bytes \<Rightarrow> bytes) \<Rightarrow> commitEvidence \<Rightarrow> string res" where
  "computeMlsCommitProjectionEvidenceDigest H r = digestOf H MLS_COMMIT_PROJECTION_EVIDENCE_DIGEST_DOMAIN (commitDigestFields r)"

definition parseMlsCommitProjectionEvidence :: "(bytes \<Rightarrow> bytes) \<Rightarrow> jsval \<Rightarrow> commitRequest \<Rightarrow> commitEvidence res" where
  "parseMlsCommitProjectionEvidence H v expected =
     bindE (parseCommitFields v) (\<lambda>parsed.
     if commitSubstituted parsed expected then Inl ConversationSyncValidationError
     else bindE (checkCommitTransition parsed) (\<lambda>_.
     if consumptionWrong parsed then Inl ConversationSyncValidationError
     else if membershipIncomplete parsed then Inl ConversationSyncValidationError
     else bindE (computeMlsCommitProjectionEvidenceDigest H parsed) (\<lambda>digest.
     if ce_evidenceDigest parsed \<noteq> digest then Inl ConversationSyncValidationError else Inr parsed)))"

end
