(* ===== verification/MlsTranscript.thy ===== *)
theory MlsTranscript
  imports MlsProposals MlsCommits
begin

section \<open>The ordered MLS transcript of a page\<close>

text \<open>
  Models \<open>verifyOrderedMlsTranscript\<close> of \<open>src/src/production/delivery/sync.ts\<close>: after the policy replay the client goes
  through the events of the page in the order of the log. It keeps the MLS projection (epoch, roster version, transcript
  hash), the queue of staged proposals and the policy in force. External proposals are verified and staged, Commits are
  verified against the projection and the queue and advance the projection, application messages have to find the queue
  and the policy free of outstanding proposals. The two verifiers are arguments.
\<close>

text \<open>The arguments of the function that stay the same over the page.\<close>

record transcriptInput =
  ti_page :: verifiedPage
  ti_senderBindings :: "senderBinding list"
  ti_membership :: membershipWindow
  ti_cursorContext :: cursorContext
  ti_pageStartPolicy :: policyProjection
  ti_realmId :: string
  ti_conversationGeneration :: string
  ti_releaseProfileId :: string
  ti_deliveryLimitsDigest :: string
  ti_releaseTrustRootDigest :: string
  ti_expectedGroupIdHash :: string
  ti_priorPolicy :: policyAnchor

text \<open>The variables of the loop. Of the transitions the ones that \<open>transitionIndex\<close> has not passed are kept.\<close>

record transcriptState =
  ts_projection :: mlsProjection
  ts_stagedProposals :: "stagedProposal list"
  ts_commitEvidence :: "commitEvidence list"
  ts_proposalEvidence :: "proposalEvidence list"
  ts_activePolicy :: replayProjection
  ts_transitions :: "replayProjection list"
  ts_lastCommit :: "commitEvidence option"

subsection \<open>Cutoff transitions\<close>

definition removedRequirements :: "replayProjection \<Rightarrow> replayProjection \<Rightarrow> mandatoryProposal list" where
  "removedRequirements active transition =
     filter (\<lambda>required. \<not> list_ex (\<lambda>later. pm_proposalId later = pm_proposalId required \<and> pm_proposalHash later = pm_proposalHash required)
       (rj_mandatoryProposals transition)) (rj_mandatoryProposals active)"

definition notConsumed :: "commitEvidence \<Rightarrow> mandatoryProposal \<Rightarrow> bool" where
  "notConsumed commit required =
     (\<not> list_ex (\<lambda>consumed. sp_proposalId consumed = pm_proposalId required \<and> sp_proposalHash consumed = pm_proposalHash required)
       (ce_consumedProposals commit))"

definition clearedWithoutCommit :: "commitEvidence option \<Rightarrow> replayProjection \<Rightarrow> replayProjection \<Rightarrow> bool" where
  "clearedWithoutCommit lastCommit active transition =
     (removedRequirements active transition \<noteq> []
      \<and> (case lastCommit of
           None \<Rightarrow> True
         | Some commit \<Rightarrow> ce_position commit \<noteq> rj_deliveryLogPosition transition
             \<or> list_ex (notConsumed commit) (removedRequirements active transition)))"

fun applyCutoffTransitions ::
  "commitEvidence option \<Rightarrow> string \<Rightarrow> bool \<Rightarrow> replayProjection \<Rightarrow> replayProjection list \<Rightarrow> (replayProjection \<times> replayProjection list) res" where
  "applyCutoffTransitions lastCommit throughPosition inclusive active [] = Inr (active, [])"
| "applyCutoffTransitions lastCommit throughPosition inclusive active (transition # rest) =
     (let comparison = bigInt (rj_deliveryLogPosition transition) - bigInt throughPosition in
      if comparison > 0 \<or> (\<not> inclusive \<and> comparison = 0) then Inr (active, transition # rest)
      else if clearedWithoutCommit lastCommit active transition then Inl ConversationSyncValidationError
      else applyCutoffTransitions lastCommit throughPosition inclusive transition rest)"

definition cutoffStep :: "string \<Rightarrow> bool \<Rightarrow> transcriptState \<Rightarrow> transcriptState res" where
  "cutoffStep throughPosition inclusive st =
     bindE (applyCutoffTransitions (ts_lastCommit st) throughPosition inclusive (ts_activePolicy st) (ts_transitions st)) (\<lambda>(active, rest).
     Inr (st\<lparr>ts_activePolicy := active, ts_transitions := rest\<rparr>))"

subsection \<open>External proposals\<close>

definition stagedOf :: "proposalEvidence \<Rightarrow> stagedProposal" where
  "stagedOf p =
     \<lparr>sp_position = pe_position p, sp_envelopeId = pe_envelopeId p, sp_envelopeSha256 = pe_envelopeSha256 p, sp_epoch = pe_epoch p,
      sp_proposalId = pe_proposalId p, sp_proposalHash = pe_proposalHash p, sp_authorizationRecordHash = pe_authorizationRecordHash p,
      sp_membershipIntentId = pe_membershipIntentId p, sp_membershipIntentHash = pe_membershipIntentHash p,
      sp_membershipIntentEvidenceDigest = pe_membershipIntentEvidenceDigest p, sp_proposalType = pe_proposalType p,
      sp_proposalRequirement = pe_proposalRequirement p, sp_authorizingPolicyHeadSequence = pe_authorizingPolicyHeadSequence p,
      sp_authorizingPolicyHeadHash = pe_authorizingPolicyHeadHash p\<rparr>"

definition isRequired :: "replayProjection \<Rightarrow> proposalEvidence \<Rightarrow> bool" where
  "isRequired active p = list_ex (\<lambda>required. pm_proposalId required = pe_proposalId p \<and> pm_proposalHash required = pe_proposalHash p)
     (rj_mandatoryProposals active)"

definition transcriptProposal ::
  "(bytes \<Rightarrow> bytes) \<Rightarrow> (proposalRequest \<Rightarrow> jsval res) \<Rightarrow> transcriptInput \<Rightarrow> storedEnvelopeCommon \<Rightarrow> transcriptState \<Rightarrow> transcriptState res" where
  "transcriptProposal H proposalVerifier input envelope st =
     bindE (verifyMlsExternalProposal H proposalVerifier (ti_page input) envelope (ti_realmId input) (ti_conversationGeneration input)
         (ti_releaseProfileId input) (ti_deliveryLimitsDigest input) (ti_releaseTrustRootDigest input) (ti_expectedGroupIdHash input)
         (ti_pageStartPolicy input) (ti_priorPolicy input)) (\<lambda>verifiedProposal.
     bindE (parseStagedProposalBindings (encodeStagedList (ts_stagedProposals st @ [stagedOf verifiedProposal]))) (\<lambda>staged.
     bindE (cutoffStep (se_position envelope) True
         (st\<lparr>ts_proposalEvidence := ts_proposalEvidence st @ [verifiedProposal], ts_stagedProposals := staged\<rparr>)) (\<lambda>st'.
     if pe_proposalRequirement verifiedProposal \<noteq> (if isRequired (ts_activePolicy st') verifiedProposal then MandatoryProposal else OptionalProposal)
     then Inl ConversationSyncValidationError
     else Inr st')))"

subsection \<open>Commits\<close>

definition missingRequiredProposal :: "transcriptState \<Rightarrow> bool" where
  "missingRequiredProposal st =
     list_ex (\<lambda>required. \<not> list_ex (\<lambda>staged. sp_proposalId staged = pm_proposalId required \<and> sp_proposalHash staged = pm_proposalHash required)
       (ts_stagedProposals st)) (rj_mandatoryProposals (ts_activePolicy st))"

text \<open>An entitlement signer has no account, so it matches no binding.\<close>

definition bindingMatches :: "storedEnvelopeCommon \<Rightarrow> senderBinding \<Rightarrow> bool" where
  "bindingMatches envelope binding = (case se_sender envelope of
     EntitlementSigner c f g \<Rightarrow> False
   | InstallationSender accountId installationId \<Rightarrow>
       sb_accountId binding = accountId \<and> sb_installationId binding = installationId
       \<and> bigInt (sb_activeFromPosition binding) \<le> bigInt (se_position envelope)
       \<and> (case sb_inactiveAtPosition binding of None \<Rightarrow> True | Some until \<Rightarrow> bigInt (se_position envelope) < bigInt until))"

definition targetOf :: "transcriptInput \<Rightarrow> membershipTarget" where
  "targetOf input =
     \<lparr>mt_accountId = cx_accountId (ti_cursorContext input), mt_installationId = cx_installationId (ti_cursorContext input),
      mt_credentialId = mw_credentialId (ti_membership input),
      mt_credentialFingerprint = mw_credentialFingerprint (ti_membership input)\<rparr>"

definition commitRequestOf ::
  "transcriptInput \<Rightarrow> transcriptState \<Rightarrow> storedEnvelopeCommon \<Rightarrow> string \<Rightarrow> string \<Rightarrow> senderBinding \<Rightarrow> commitRequest" where
  "commitRequestOf input st envelope base resulting binding =
     \<lparr>cq_realmId = ti_realmId input, cq_conversationGeneration = ti_conversationGeneration input,
      cq_releaseProfileId = ti_releaseProfileId input, cq_releaseTrustRootDigest = ti_releaseTrustRootDigest input,
      cq_expectedGroupIdHash = ti_expectedGroupIdHash input, cq_conversationId = se_conversationId envelope,
      cq_position = se_position envelope, cq_envelopeId = se_envelopeId envelope, cq_envelopeBytes = se_envelopeBytes envelope,
      cq_envelopeSha256 = se_envelopeSha256 envelope, cq_expectedAccountId = senderAccountId (se_sender envelope),
      cq_expectedInstallationId = senderInstallationId (se_sender envelope), cq_expectedCredentialId = sb_credentialId binding,
      cq_expectedCredentialFingerprint = sb_credentialFingerprint binding,
      cq_expectedCredentialRevocationVersion = sb_credentialRevocationVersion binding,
      cq_expectedSenderGeneration = sb_senderGeneration binding, cq_commitEpoch = se_epoch envelope,
      cq_commitRosterVersion = se_rosterVersion envelope, cq_previousEpoch = mp_epoch (ts_projection st),
      cq_previousRosterVersion = mp_rosterVersion (ts_projection st),
      cq_previousConfirmedTranscriptHash = mp_confirmedTranscriptHash (ts_projection st),
      cq_baseConfirmedTranscriptHash = base, cq_resultingConfirmedTranscriptHash = resulting,
      cq_stagedProposals = ts_stagedProposals st, cq_requiredProposals = rj_mandatoryProposals (ts_activePolicy st),
      cq_creatorBootstrapTarget =
        (if mw_bootstrapMode (ti_membership input) = CreatorBootstrap \<and> se_position envelope = mw_joinedPosition (ti_membership input)
         then Some (targetOf input) else None),
      cq_removalTarget =
        (if mw_removedPosition (ti_membership input) = Some (se_position envelope) then Some (targetOf input) else None)\<rparr>"

definition transcriptCommit ::
  "(bytes \<Rightarrow> bytes) \<Rightarrow> (commitRequest \<Rightarrow> jsval res) \<Rightarrow> transcriptInput \<Rightarrow> storedEnvelopeCommon \<Rightarrow> string \<Rightarrow> string \<Rightarrow> transcriptState \<Rightarrow>
    transcriptState res" where
  "transcriptCommit H commitVerifier input envelope base resulting st =
     (if missingRequiredProposal st then Inl ConversationSyncValidationError
      else if base \<noteq> mp_confirmedTranscriptHash (ts_projection st) then Inl ConversationSyncValidationError
      else case find (bindingMatches envelope) (ti_senderBindings input) of
        None \<Rightarrow> Inl ConversationSyncValidationError
      | Some senderBinding \<Rightarrow>
          let request = commitRequestOf input st envelope base resulting senderBinding in
          bindE (commitVerifier request) (\<lambda>raw.
          bindE (throwIfDeliveryPortUnavailable raw) (\<lambda>_.
          bindE (parseMlsCommitProjectionEvidence H raw request) (\<lambda>parsed.
          cutoffStep (se_position envelope) True
            (st\<lparr>ts_commitEvidence := ts_commitEvidence st @ [parsed], ts_lastCommit := Some parsed, ts_stagedProposals := [],
                ts_projection := \<lparr>mp_epoch = ce_resultingEpoch parsed, mp_rosterVersion = ce_resultingRosterVersion parsed,
                  mp_confirmedTranscriptHash = ce_resultingConfirmedTranscriptHash parsed\<rparr>\<rparr>)))))"

subsection \<open>The loop\<close>

definition transcriptEvent ::
  "(bytes \<Rightarrow> bytes) \<Rightarrow> (commitRequest \<Rightarrow> jsval res) \<Rightarrow> (proposalRequest \<Rightarrow> jsval res) \<Rightarrow> transcriptInput \<Rightarrow> eventItem \<Rightarrow> transcriptState \<Rightarrow>
    transcriptState res" where
  "transcriptEvent H commitVerifier proposalVerifier input item st =
     (let envelope = storedCommon (ei_envelope item) in
      bindE (cutoffStep (se_position envelope) False st) (\<lambda>st1.
      if se_epoch envelope \<noteq> mp_epoch (ts_projection st1) \<or> se_rosterVersion envelope \<noteq> mp_rosterVersion (ts_projection st1)
      then Inl ConversationSyncValidationError
      else case ei_envelope item of
        StoredApplication _ \<Rightarrow>
          if rj_mandatoryProposals (ts_activePolicy st1) \<noteq> [] \<or> ts_stagedProposals st1 \<noteq> [] then Inl ConversationSyncValidationError
          else Inr st1
      | StoredExternalProposal _ \<Rightarrow> transcriptProposal H proposalVerifier input envelope st1
      | StoredMlsCommit _ base resulting \<Rightarrow> transcriptCommit H commitVerifier input envelope base resulting st1))"

primrec transcriptEvents ::
  "(bytes \<Rightarrow> bytes) \<Rightarrow> (commitRequest \<Rightarrow> jsval res) \<Rightarrow> (proposalRequest \<Rightarrow> jsval res) \<Rightarrow> transcriptInput \<Rightarrow> eventItem list \<Rightarrow> transcriptState \<Rightarrow>
    transcriptState res" where
  "transcriptEvents H commitVerifier proposalVerifier input [] st = Inr st"
| "transcriptEvents H commitVerifier proposalVerifier input (item # rest) st =
     bindE (transcriptEvent H commitVerifier proposalVerifier input item st) (\<lambda>st'.
     transcriptEvents H commitVerifier proposalVerifier input rest st')"

definition initialTranscript :: "mlsProjection \<Rightarrow> stagedProposal list \<Rightarrow> replayEvidence \<Rightarrow> transcriptState" where
  "initialTranscript projectionAtAnchor stagedProposalsAtAnchor policyReplay =
     \<lparr>ts_projection = projectionAtAnchor, ts_stagedProposals = stagedProposalsAtAnchor, ts_commitEvidence = [], ts_proposalEvidence = [],
      ts_activePolicy = rv_pageStartPolicy policyReplay, ts_transitions = rv_transitions policyReplay, ts_lastCommit = None\<rparr>"

record transcriptEvidence =
  te_commitProjectionEvidence :: "commitEvidence list"
  te_externalProposalEvidence :: "proposalEvidence list"
  te_stagedProposalsAtPageEnd :: "stagedProposal list"

definition finishTranscript :: "pageSnapshot \<Rightarrow> replayEvidence \<Rightarrow> transcriptState \<Rightarrow> transcriptEvidence res" where
  "finishTranscript snapshot policyReplay st =
     (if ts_transitions st \<noteq> []
         \<or> \<not> samePolicyMandatoryProposals (rj_mandatoryProposals (ts_activePolicy st)) (rj_mandatoryProposals (rv_pageEndPolicy policyReplay))
      then Inl ConversationSyncValidationError
      else if ps_epoch snapshot \<noteq> mp_epoch (ts_projection st) \<or> ps_rosterVersion snapshot \<noteq> mp_rosterVersion (ts_projection st)
         \<or> ps_confirmedTranscriptHash snapshot \<noteq> mp_confirmedTranscriptHash (ts_projection st)
      then Inl ConversationSyncValidationError
      else Inr \<lparr>te_commitProjectionEvidence = ts_commitEvidence st, te_externalProposalEvidence = ts_proposalEvidence st,
        te_stagedProposalsAtPageEnd = ts_stagedProposals st\<rparr>)"

definition verifyOrderedMlsTranscript ::
  "(bytes \<Rightarrow> bytes) \<Rightarrow> (commitRequest \<Rightarrow> jsval res) \<Rightarrow> (proposalRequest \<Rightarrow> jsval res) \<Rightarrow> transcriptInput \<Rightarrow> mlsProjection \<Rightarrow>
    stagedProposal list \<Rightarrow> replayEvidence \<Rightarrow> transcriptEvidence res" where
  "verifyOrderedMlsTranscript H commitVerifier proposalVerifier input projectionAtAnchor stagedProposalsAtAnchor policyReplay =
     (let snapshot = vp_snapshot (ti_page input) in
      if list_ex (\<lambda>p. sp_epoch p \<noteq> mp_epoch projectionAtAnchor) stagedProposalsAtAnchor then Inl ConversationSyncValidationError
      else
        bindE (transcriptEvents H commitVerifier proposalVerifier input (vp_events (ti_page input))
          (initialTranscript projectionAtAnchor stagedProposalsAtAnchor policyReplay)) (\<lambda>st.
        bindE (cutoffStep (lh_position (ps_logHead snapshot)) True st) (\<lambda>st'.
        finishTranscript snapshot policyReplay st')))"

end
