(* ===== verification/SyncClient.thy ===== *)
theory SyncClient
  imports PageProofs MlsTranscript
begin

section \<open>The whole verification of a page\<close>

text \<open>
  \<open>parseAndVerifyConversationPageJson\<close> of \<open>src/src/production/delivery/sync.ts\<close> with all its calls: the page is read, and
  then the evidence about its checkpoints and witness, about the policy head, about the history of the policy and about the MLS
  transcript is asked for and checked, in this order. The ports are a record of functions from requests to answers; a call
  that ends with an error has an error as its value.
\<close>

record syncPorts =
  sy_cursorCodec :: "string \<Rightarrow> jsval res"
  sy_pageProofVerifier :: "pageProofRequest \<Rightarrow> jsval res"
  sy_policyHeadProofVerifier :: "policyHeadProofExpectation \<Rightarrow> jsval res"
  sy_policyReplayVerifier :: "replayRequest \<Rightarrow> jsval res"
  sy_mlsCommitProjectionVerifier :: "commitRequest \<Rightarrow> jsval res"
  sy_mlsExternalProposalVerifier :: "proposalRequest \<Rightarrow> jsval res"

record verifiedConversationPage =
  vc_page :: verifiedPage
  vc_nextCursorClaims :: cursorClaims
  vc_proofEvidence :: pageProof
  vc_policyHeadEvidence :: policyHeadProofEvidence
  vc_policyReplayEvidence :: replayEvidence
  vc_orderedMlsEvidence :: transcriptEvidence

definition transcriptInputOf :: "verifiedPage \<Rightarrow> verifiedPrefix \<Rightarrow> transcriptInput" where
  "transcriptInputOf page x =
     \<lparr>ti_page = page, ti_senderBindings = vx_senderBindings x, ti_membership = vx_membership x, ti_cursorContext = vx_context x,
      ti_pageStartPolicy = vx_policyProjection x, ti_realmId = cx_realmId (vx_context x),
      ti_conversationGeneration = vx_conversationGeneration x, ti_releaseProfileId = vx_releaseProfileId x,
      ti_deliveryLimitsDigest = vx_deliveryLimitsDigest x, ti_releaseTrustRootDigest = vx_releaseTrustRootDigest x,
      ti_expectedGroupIdHash = vx_expectedGroupIdHash x, ti_priorPolicy = vx_policy x\<rparr>"

definition verifyPageEvidence ::
  "(bytes \<Rightarrow> bytes) \<Rightarrow> syncPorts \<Rightarrow> openedSync \<Rightarrow> verifiedPage \<Rightarrow> cursorClaims \<Rightarrow> verifiedConversationPage res" where
  "verifyPageEvidence H ports os page claims =
     (let x = os_prefix os in
      bindE (verifyConversationPageProofs H (sy_pageProofVerifier ports) page (os_now os) x) (\<lambda>proofEvidence.
      bindE (verifyConversationPolicyHead H (sy_policyHeadProofVerifier ports) (vp_snapshot page) (os_now os) x) (\<lambda>policyHeadEvidence.
      bindE (verifyConversationPolicyReplay H (sy_policyReplayVerifier ports) page (vx_anchor x) (vx_policyProjection x) (vx_policy x)
        (os_now os) (cx_realmId (vx_context x)) (vx_conversationGeneration x) (vx_releaseProfileId x) (vx_deliveryLimitsDigest x)
        (vx_releaseTrustRootDigest x)) (\<lambda>policyReplayEvidence.
      bindE (verifyOrderedMlsTranscript H (sy_mlsCommitProjectionVerifier ports) (sy_mlsExternalProposalVerifier ports)
        (transcriptInputOf page x) (vx_projection x) (vx_stagedProposals x) policyReplayEvidence) (\<lambda>orderedMlsEvidence.
      Inr \<lparr>vc_page = page, vc_nextCursorClaims = claims, vc_proofEvidence = proofEvidence, vc_policyHeadEvidence = policyHeadEvidence,
        vc_policyReplayEvidence = policyReplayEvidence, vc_orderedMlsEvidence = orderedMlsEvidence\<rparr>)))))"

definition parseAndVerifyConversationPageJsonInternal ::
  "(bytes \<Rightarrow> bytes) \<Rightarrow> syncPorts \<Rightarrow> jsval \<Rightarrow> syncRequest \<Rightarrow> verifiedConversationPage res option" where
  "parseAndVerifyConversationPageJsonInternal H ports rawResponse rq =
     andThen (Some (openSyncPrefix H rq)) (\<lambda>os.
     andThen (readOpenedPage H (sy_cursorCodec ports) rawResponse rq os) (\<lambda>(page, claims).
     Some (verifyPageEvidence H ports os page claims)))"

definition parseAndVerifyConversationPageJson ::
  "(bytes \<Rightarrow> bytes) \<Rightarrow> syncPorts \<Rightarrow> jsval \<Rightarrow> syncRequest \<Rightarrow> verifiedConversationPage res option" where
  "parseAndVerifyConversationPageJson H ports rawResponse rq =
     map_option (map_sum normalizeConversationSyncFailure id) (parseAndVerifyConversationPageJsonInternal H ports rawResponse rq)"

end
