(* ===== verification/LogHead.thy ===== *)
theory LogHead
  imports PageProofs
begin

section \<open>The request for the log head\<close>

text \<open>
  Models \<open>parseAndVerifyConversationLogHead\<close> of \<open>src/src/production/delivery/sync.ts\<close>: a client that has verified a prefix
  of the log asks for the current head, compares the answer with the head it has and with its membership, and has the
  proof verifier confirm the checkpoint, the receipt of the witness and that the log was only appended to. The
  verifier is the parameter \<open>verify\<close>. The incident that the exported function reports on an error is not modelled, since it is chosen by the
  text of the error message.
\<close>

definition CONVERSATION_LOG_HEAD_HARD_MAX_SERIALIZED_BYTES :: int where
  "CONVERSATION_LOG_HEAD_HARD_MAX_SERIALIZED_BYTES = 64 * 1024"

definition CONVERSATION_LOG_HEAD_PROOF_EVIDENCE_DIGEST_DOMAIN :: string where
  "CONVERSATION_LOG_HEAD_PROOF_EVIDENCE_DIGEST_DOMAIN = ''jb-msg-conversation-log-head-proof-evidence/v1''"

datatype logHeadVisibility = ActiveHighWater | RemovedBoundary

primrec logHeadVisibilityText :: "logHeadVisibility \<Rightarrow> string" where
  "logHeadVisibilityText ActiveHighWater = ''active-high-water''"
| "logHeadVisibilityText RemovedBoundary = ''removed-boundary''"

definition parseLogHeadVisibility :: "jsval \<Rightarrow> logHeadVisibility res" where
  "parseLogHeadVisibility = parseOneOfString logHeadVisibilityText [ActiveHighWater, RemovedBoundary]"

lemma logHeadVisibilityText_inj [enum_inj]: "logHeadVisibilityText a = logHeadVisibilityText b \<longleftrightarrow> a = b"
  by (cases a; cases b) simp_all

lemma parseLogHeadVisibility_iff [parse_simps]: "parseLogHeadVisibility v = Inr x \<longleftrightarrow> v = JStr (logHeadVisibilityText x)"
  unfolding parseLogHeadVisibility_def
proof (rule parseOneOfString_iff)
  show "inj logHeadVisibilityText" by (rule injI) (simp add: enum_inj)
  show "y \<in> set [ActiveHighWater, RemovedBoundary]" for y by (cases y) simp_all
qed

lemma parseLogHeadVisibility_ok [parse_ok]: "parseLogHeadVisibility (JStr (logHeadVisibilityText x)) = Inr x"
  by (simp add: parse_simps)

datatype visibilityStatus = StatusActiveHighWater | StatusRemovedExact

primrec visibilityStatusText :: "visibilityStatus \<Rightarrow> string" where
  "visibilityStatusText StatusActiveHighWater = ''active-high-water''"
| "visibilityStatusText StatusRemovedExact = ''removed-exact''"

definition parseVisibilityStatus :: "jsval \<Rightarrow> visibilityStatus res" where
  "parseVisibilityStatus = parseOneOfString visibilityStatusText [StatusActiveHighWater, StatusRemovedExact]"

lemma visibilityStatusText_inj [enum_inj]: "visibilityStatusText a = visibilityStatusText b \<longleftrightarrow> a = b"
  by (cases a; cases b) simp_all

lemma parseVisibilityStatus_iff [parse_simps]: "parseVisibilityStatus v = Inr x \<longleftrightarrow> v = JStr (visibilityStatusText x)"
  unfolding parseVisibilityStatus_def
proof (rule parseOneOfString_iff)
  show "inj visibilityStatusText" by (rule injI) (simp add: enum_inj)
  show "y \<in> set [StatusActiveHighWater, StatusRemovedExact]" for y by (cases y) simp_all
qed

lemma parseVisibilityStatus_ok [parse_ok]: "parseVisibilityStatus (JStr (visibilityStatusText x)) = Inr x"
  by (simp add: parse_simps)

subsection \<open>The evidence of the proof verifier\<close>

record logHeadRequest =
  lr_realmId :: string
  lr_accountId :: string
  lr_installationId :: string
  lr_conversationId :: string
  lr_conversationGeneration :: string
  lr_releaseProfileId :: string
  lr_releaseTrustRootDigest :: string
  lr_verifiedPrefixEvidenceDigest :: string
  lr_membershipBootstrapMode :: bootstrapMode
  lr_membershipCredentialId :: string
  lr_membershipCredentialFingerprint :: string
  lr_membershipJoinedPosition :: string
  lr_membershipRemovedPosition :: "string option"
  lr_visibilityMode :: logHeadVisibility
  lr_removedPosition :: "string option"
  lr_fromPosition :: string
  lr_fromHeadHash :: string
  lr_current :: checkpointInput
  lr_witness :: witnessReceipt
  lr_priorWitness :: witnessAnchor
  lr_verifiedAt :: string

text \<open>The fields before the nested evidence; the last three are parsed after the comparison with the request.\<close>

record logHeadBase =
  lb_realmId :: string
  lb_accountId :: string
  lb_installationId :: string
  lb_conversationId :: string
  lb_conversationGeneration :: string
  lb_releaseProfileId :: string
  lb_releaseTrustRootDigest :: string
  lb_verifiedPrefixEvidenceDigest :: string
  lb_membershipBootstrapMode :: bootstrapMode
  lb_membershipCredentialId :: string
  lb_membershipCredentialFingerprint :: string
  lb_membershipJoinedPosition :: string
  lb_membershipRemovedPosition :: "string option"
  lb_visibilityStatus :: visibilityStatus
  lb_fromPosition :: string
  lb_fromHeadHash :: string
  lb_currentPosition :: string
  lb_currentHeadHash :: string
  lb_appendOnlyConsistencyStatus :: string
  lb_appendOnlyConsistencyEvidenceDigest :: string
  lb_verifiedAt :: string
  lb_checkpoint :: jsval
  lb_witness :: jsval
  lb_evidenceDigest :: jsval

definition LOG_HEAD_PROOF_KEYS :: "string list" where
  "LOG_HEAD_PROOF_KEYS =
    [''status'', ''profile'', ''realmId'', ''accountId'', ''installationId'', ''conversationId'',
     ''conversationGeneration'', ''releaseProfileId'', ''releaseTrustRootDigest'',
     ''verifiedPrefixEvidenceDigest'', ''membershipBootstrapMode'', ''membershipCredentialId'',
     ''membershipCredentialFingerprint'', ''membershipJoinedPosition'', ''membershipRemovedPosition'',
     ''visibilityStatus'', ''fromPosition'', ''fromHeadHash'', ''currentPosition'', ''currentHeadHash'',
     ''appendOnlyConsistencyStatus'', ''appendOnlyConsistencyEvidenceDigest'', ''checkpoint'', ''witness'',
     ''verifiedAt'', ''evidenceDigest'']"

definition parseLogHeadBase :: "jsval \<Rightarrow> logHeadBase res" where
  "parseLogHeadBase v =
     bindE (expectExactRecord v LOG_HEAD_PROOF_KEYS) (\<lambda>record.
     bindE (guardE (record ''status'' = JStr ''verified'' \<and> record ''profile'' = JStr ''conversation-log-head-proof.v1'') ConversationSyncValidationError) (\<lambda>_.
     bindE (parseDeliveryRealmId (record ''realmId'')) (\<lambda>realmId.
     bindE (parseAccountId (record ''accountId'')) (\<lambda>accountId.
     bindE (parseInstallationId (record ''installationId'')) (\<lambda>installationId.
     bindE (parseConversationId (record ''conversationId'')) (\<lambda>conversationId.
     bindE (parsePositive (record ''conversationGeneration'')) (\<lambda>conversationGeneration.
     bindE (parseReleaseProfileId (record ''releaseProfileId'')) (\<lambda>releaseProfileId.
     bindE (parseHash32 (record ''releaseTrustRootDigest'')) (\<lambda>releaseTrustRootDigest.
     bindE (parseNonZeroHash32Sync (record ''verifiedPrefixEvidenceDigest'')) (\<lambda>verifiedPrefixEvidenceDigest.
     bindE (parseBootstrapMode (record ''membershipBootstrapMode'')) (\<lambda>membershipBootstrapMode.
     bindE (parseCredentialId (record ''membershipCredentialId'')) (\<lambda>membershipCredentialId.
     bindE (parseFingerprint32 (record ''membershipCredentialFingerprint'')) (\<lambda>membershipCredentialFingerprint.
     bindE (parsePositive (record ''membershipJoinedPosition'')) (\<lambda>membershipJoinedPosition.
     bindE (parseNullable parsePositive (record ''membershipRemovedPosition'')) (\<lambda>membershipRemovedPosition.
     bindE (parseVisibilityStatus (record ''visibilityStatus'')) (\<lambda>visibilityStatus.
     bindE (parseUint63String (record ''fromPosition'')) (\<lambda>fromPosition.
     bindE (parseHash32 (record ''fromHeadHash'')) (\<lambda>fromHeadHash.
     bindE (parsePositive (record ''currentPosition'')) (\<lambda>currentPosition.
     bindE (parseHash32 (record ''currentHeadHash'')) (\<lambda>currentHeadHash.
     bindE (parseExactLiteral ''verified'' (record ''appendOnlyConsistencyStatus'')) (\<lambda>appendOnlyConsistencyStatus.
     bindE (parseHash32 (record ''appendOnlyConsistencyEvidenceDigest'')) (\<lambda>appendOnlyConsistencyEvidenceDigest.
     bindE (parseRfc3339Millis (record ''verifiedAt'')) (\<lambda>verifiedAt.
     bindE (Inr (record ''checkpoint'')) (\<lambda>checkpoint.
     bindE (Inr (record ''witness'')) (\<lambda>witness.
     bindE (Inr (record ''evidenceDigest'')) (\<lambda>evidenceDigest.
     Inr \<lparr>lb_realmId = realmId, lb_accountId = accountId, lb_installationId = installationId,
          lb_conversationId = conversationId, lb_conversationGeneration = conversationGeneration,
          lb_releaseProfileId = releaseProfileId, lb_releaseTrustRootDigest = releaseTrustRootDigest,
          lb_verifiedPrefixEvidenceDigest = verifiedPrefixEvidenceDigest,
          lb_membershipBootstrapMode = membershipBootstrapMode,
          lb_membershipCredentialId = membershipCredentialId,
          lb_membershipCredentialFingerprint = membershipCredentialFingerprint,
          lb_membershipJoinedPosition = membershipJoinedPosition,
          lb_membershipRemovedPosition = membershipRemovedPosition, lb_visibilityStatus = visibilityStatus,
          lb_fromPosition = fromPosition, lb_fromHeadHash = fromHeadHash,
          lb_currentPosition = currentPosition, lb_currentHeadHash = currentHeadHash,
          lb_appendOnlyConsistencyStatus = appendOnlyConsistencyStatus,
          lb_appendOnlyConsistencyEvidenceDigest = appendOnlyConsistencyEvidenceDigest,
          lb_verifiedAt = verifiedAt, lb_checkpoint = checkpoint, lb_witness = witness,
          lb_evidenceDigest = evidenceDigest\<rparr>))))))))))))))))))))))))))"

definition entriesLogHeadBase :: "logHeadBase \<Rightarrow> (string \<times> jsval) list" where
  "entriesLogHeadBase r =
     [(''status'', JStr ''verified''), (''profile'', JStr ''conversation-log-head-proof.v1''),
      (''realmId'', JStr (lb_realmId r)), (''accountId'', JStr (lb_accountId r)),
      (''installationId'', JStr (lb_installationId r)), (''conversationId'', JStr (lb_conversationId r)),
      (''conversationGeneration'', JStr (lb_conversationGeneration r)),
      (''releaseProfileId'', JStr (lb_releaseProfileId r)),
      (''releaseTrustRootDigest'', JStr (lb_releaseTrustRootDigest r)),
      (''verifiedPrefixEvidenceDigest'', JStr (lb_verifiedPrefixEvidenceDigest r)),
      (''membershipBootstrapMode'', JStr (bootstrapModeText (lb_membershipBootstrapMode r))),
      (''membershipCredentialId'', JStr (lb_membershipCredentialId r)),
      (''membershipCredentialFingerprint'', JStr (lb_membershipCredentialFingerprint r)),
      (''membershipJoinedPosition'', JStr (lb_membershipJoinedPosition r)),
      (''membershipRemovedPosition'', encodeNullable (lb_membershipRemovedPosition r)),
      (''visibilityStatus'', JStr (visibilityStatusText (lb_visibilityStatus r))),
      (''fromPosition'', JStr (lb_fromPosition r)), (''fromHeadHash'', JStr (lb_fromHeadHash r)),
      (''currentPosition'', JStr (lb_currentPosition r)), (''currentHeadHash'', JStr (lb_currentHeadHash r)),
      (''appendOnlyConsistencyStatus'', JStr (lb_appendOnlyConsistencyStatus r)),
      (''appendOnlyConsistencyEvidenceDigest'', JStr (lb_appendOnlyConsistencyEvidenceDigest r)),
      (''checkpoint'', lb_checkpoint r), (''witness'', lb_witness r),
      (''verifiedAt'', JStr (lb_verifiedAt r)), (''evidenceDigest'', lb_evidenceDigest r)]"

definition encodeLogHeadBase :: "logHeadBase \<Rightarrow> jsval" where
  "encodeLogHeadBase r = mkRecord (entriesLogHeadBase r)"

definition logHeadBaseValid :: "logHeadBase \<Rightarrow> bool" where
  "logHeadBaseValid r =
     (REALM_ID (lb_realmId r) \<and> uuidV4Valid (lb_accountId r) \<and>
      uuidV4Valid (lb_installationId r) \<and> uuidV4Valid (lb_conversationId r) \<and>
      positiveUint63Valid (lb_conversationGeneration r) \<and>
      RELEASE_PROFILE_ID (lb_releaseProfileId r) \<and> hash32Valid (lb_releaseTrustRootDigest r) \<and>
      nonZeroHashValid (lb_verifiedPrefixEvidenceDigest r) \<and>
      uuidV4Valid (lb_membershipCredentialId r) \<and>
      hash32Valid (lb_membershipCredentialFingerprint r) \<and>
      positiveUint63Valid (lb_membershipJoinedPosition r) \<and>
      (case lb_membershipRemovedPosition r of None \<Rightarrow> True | Some x \<Rightarrow> positiveUint63Valid x) \<and>
      uint63Valid (lb_fromPosition r) \<and> hash32Valid (lb_fromHeadHash r) \<and>
      positiveUint63Valid (lb_currentPosition r) \<and> hash32Valid (lb_currentHeadHash r) \<and>
      lb_appendOnlyConsistencyStatus r = ''verified'' \<and>
      hash32Valid (lb_appendOnlyConsistencyEvidenceDigest r) \<and> rfc3339Valid (lb_verifiedAt r) \<and>
      lb_checkpoint r \<noteq> JUndefined \<and> lb_witness r \<noteq> JUndefined \<and>
      lb_evidenceDigest r \<noteq> JUndefined)"

lemma entriesLogHeadBase_get_1:
  "fieldOf (entriesLogHeadBase r) ''status'' = JStr ''verified''"
  "fieldOf (entriesLogHeadBase r) ''profile'' = JStr ''conversation-log-head-proof.v1''"
  "fieldOf (entriesLogHeadBase r) ''realmId'' = JStr (lb_realmId r)"
  "fieldOf (entriesLogHeadBase r) ''accountId'' = JStr (lb_accountId r)"
  "fieldOf (entriesLogHeadBase r) ''installationId'' = JStr (lb_installationId r)"
  "fieldOf (entriesLogHeadBase r) ''conversationId'' = JStr (lb_conversationId r)"
  "fieldOf (entriesLogHeadBase r) ''conversationGeneration'' = JStr (lb_conversationGeneration r)"
  "fieldOf (entriesLogHeadBase r) ''releaseProfileId'' = JStr (lb_releaseProfileId r)"
  by (simp_all add: entriesLogHeadBase_def)

lemma entriesLogHeadBase_get_2:
  "fieldOf (entriesLogHeadBase r) ''releaseTrustRootDigest'' = JStr (lb_releaseTrustRootDigest r)"
  "fieldOf (entriesLogHeadBase r) ''verifiedPrefixEvidenceDigest'' = JStr (lb_verifiedPrefixEvidenceDigest r)"
  "fieldOf (entriesLogHeadBase r) ''membershipBootstrapMode'' = JStr (bootstrapModeText (lb_membershipBootstrapMode r))"
  "fieldOf (entriesLogHeadBase r) ''membershipCredentialId'' = JStr (lb_membershipCredentialId r)"
  "fieldOf (entriesLogHeadBase r) ''membershipCredentialFingerprint'' = JStr (lb_membershipCredentialFingerprint r)"
  "fieldOf (entriesLogHeadBase r) ''membershipJoinedPosition'' = JStr (lb_membershipJoinedPosition r)"
  "fieldOf (entriesLogHeadBase r) ''membershipRemovedPosition'' = encodeNullable (lb_membershipRemovedPosition r)"
  "fieldOf (entriesLogHeadBase r) ''visibilityStatus'' = JStr (visibilityStatusText (lb_visibilityStatus r))"
  by (simp_all add: entriesLogHeadBase_def)

lemma entriesLogHeadBase_get_3:
  "fieldOf (entriesLogHeadBase r) ''fromPosition'' = JStr (lb_fromPosition r)"
  "fieldOf (entriesLogHeadBase r) ''fromHeadHash'' = JStr (lb_fromHeadHash r)"
  "fieldOf (entriesLogHeadBase r) ''currentPosition'' = JStr (lb_currentPosition r)"
  "fieldOf (entriesLogHeadBase r) ''currentHeadHash'' = JStr (lb_currentHeadHash r)"
  "fieldOf (entriesLogHeadBase r) ''appendOnlyConsistencyStatus'' = JStr (lb_appendOnlyConsistencyStatus r)"
  "fieldOf (entriesLogHeadBase r) ''appendOnlyConsistencyEvidenceDigest'' = JStr (lb_appendOnlyConsistencyEvidenceDigest r)"
  "fieldOf (entriesLogHeadBase r) ''checkpoint'' = lb_checkpoint r"
  "fieldOf (entriesLogHeadBase r) ''witness'' = lb_witness r"
  by (simp_all add: entriesLogHeadBase_def)

lemma entriesLogHeadBase_get_4:
  "fieldOf (entriesLogHeadBase r) ''verifiedAt'' = JStr (lb_verifiedAt r)"
  "fieldOf (entriesLogHeadBase r) ''evidenceDigest'' = lb_evidenceDigest r"
  by (simp_all add: entriesLogHeadBase_def)

lemmas entriesLogHeadBase_get [simp] = entriesLogHeadBase_get_1 entriesLogHeadBase_get_2 entriesLogHeadBase_get_3 entriesLogHeadBase_get_4

lemma expect_encodeLogHeadBase:
  "logHeadBaseValid r \<Longrightarrow> expectExactRecord (encodeLogHeadBase r) LOG_HEAD_PROOF_KEYS = Inr (fieldOf (entriesLogHeadBase r))"
  unfolding encodeLogHeadBase_def by (rule expectExactRecord_mkRecord) (auto simp: LOG_HEAD_PROOF_KEYS_def entriesLogHeadBase_def logHeadBaseValid_def)

lemma parseLogHeadBase_encode: "logHeadBaseValid r \<Longrightarrow> parseLogHeadBase (encodeLogHeadBase r) = Inr r"
  by (simp add: parseLogHeadBase_def expect_encodeLogHeadBase) (simp add: logHeadBaseValid_def parse_ok parseDeliveryRealmId_ok split: option.splits)

definition logHeadSubstituted :: "logHeadBase \<Rightarrow> logHeadRequest \<Rightarrow> bool" where
  "logHeadSubstituted parsed expected =
     (lb_realmId parsed \<noteq> lr_realmId expected
      \<or> lb_accountId parsed \<noteq> lr_accountId expected
      \<or> lb_installationId parsed \<noteq> lr_installationId expected
      \<or> lb_conversationId parsed \<noteq> lr_conversationId expected
      \<or> lb_conversationGeneration parsed \<noteq> lr_conversationGeneration expected
      \<or> lb_releaseProfileId parsed \<noteq> lr_releaseProfileId expected
      \<or> lb_releaseTrustRootDigest parsed \<noteq> lr_releaseTrustRootDigest expected
      \<or> lb_verifiedPrefixEvidenceDigest parsed \<noteq> lr_verifiedPrefixEvidenceDigest expected
      \<or> lb_membershipBootstrapMode parsed \<noteq> lr_membershipBootstrapMode expected
      \<or> lb_membershipCredentialId parsed \<noteq> lr_membershipCredentialId expected
      \<or> lb_membershipCredentialFingerprint parsed \<noteq> lr_membershipCredentialFingerprint expected
      \<or> lb_membershipJoinedPosition parsed \<noteq> lr_membershipJoinedPosition expected
      \<or> lb_membershipRemovedPosition parsed \<noteq> lr_membershipRemovedPosition expected
      \<or> lb_visibilityStatus parsed \<noteq> (if lr_visibilityMode expected = ActiveHighWater then StatusActiveHighWater else StatusRemovedExact)
      \<or> lb_fromPosition parsed \<noteq> lr_fromPosition expected
      \<or> lb_fromHeadHash parsed \<noteq> lr_fromHeadHash expected
      \<or> lb_currentPosition parsed \<noteq> ki_position (lr_current expected)
      \<or> lb_currentHeadHash parsed \<noteq> ki_headHash (lr_current expected)
      \<or> lb_verifiedAt parsed \<noteq> lr_verifiedAt expected)"

record logHeadProof =
  lp_base :: logHeadBase
  lp_checkpoint :: checkpointProof
  lp_witness :: witnessProof
  lp_evidenceDigest :: string

definition logHeadDigestFields :: "logHeadProof \<Rightarrow> digestField list" where
  "logHeadDigestFields p =
     (let r = lp_base p in
      [Utf8 (lb_realmId r), Utf8 (lb_accountId r), Utf8 (lb_installationId r), Utf8 (lb_conversationId r),
       Utf8 (lb_conversationGeneration r), Utf8 (lb_releaseProfileId r),
       DecodedHash (lb_releaseTrustRootDigest r), DecodedHash (lb_verifiedPrefixEvidenceDigest r),
       Utf8 (bootstrapModeText (lb_membershipBootstrapMode r)), Utf8 (lb_membershipCredentialId r),
       DecodedFingerprint (lb_membershipCredentialFingerprint r), Utf8 (lb_membershipJoinedPosition r),
       NullableText (lb_membershipRemovedPosition r), Utf8 (visibilityStatusText (lb_visibilityStatus r)),
       Utf8 (lb_fromPosition r), DecodedHash (lb_fromHeadHash r), Utf8 (lb_currentPosition r),
       DecodedHash (lb_currentHeadHash r), Utf8 (lb_appendOnlyConsistencyStatus r),
       DecodedHash (lb_appendOnlyConsistencyEvidenceDigest r),
       DecodedHash (kp_evidenceDigest (lp_checkpoint p)), DecodedHash (wp_evidenceDigest (lp_witness p)),
       Utf8 (lb_verifiedAt r)])"

definition computeConversationLogHeadProofEvidenceDigest :: "(bytes \<Rightarrow> bytes) \<Rightarrow> logHeadProof \<Rightarrow> string res" where
  "computeConversationLogHeadProofEvidenceDigest H p = digestOf H CONVERSATION_LOG_HEAD_PROOF_EVIDENCE_DIGEST_DOMAIN (logHeadDigestFields p)"

definition parseConversationLogHeadProofEvidence :: "(bytes \<Rightarrow> bytes) \<Rightarrow> jsval \<Rightarrow> logHeadRequest \<Rightarrow> logHeadProof res" where
  "parseConversationLogHeadProofEvidence H v expected =
     bindE (parseLogHeadBase v) (\<lambda>parsedBase.
     if logHeadSubstituted parsedBase expected then Inl ConversationSyncValidationError
     else
     bindE (parseCheckpointProofEvidence H (lb_checkpoint parsedBase) (lr_current expected) (lr_conversationId expected) (lr_verifiedAt expected)) (\<lambda>checkpoint.
     bindE (parseWitnessProofEvidence H (lb_witness parsedBase) (lr_witness expected) (lr_priorWitness expected) (lr_conversationId expected)
       (lr_verifiedAt expected)) (\<lambda>witness.
     bindE (parseHash32 (lb_evidenceDigest parsedBase)) (\<lambda>evidenceDigest.
     let parsed = \<lparr>lp_base = parsedBase, lp_checkpoint = checkpoint, lp_witness = witness, lp_evidenceDigest = evidenceDigest\<rparr> in
     bindE (computeConversationLogHeadProofEvidenceDigest H parsed) (\<lambda>digest.
     if evidenceDigest \<noteq> digest then Inl ConversationSyncValidationError else Inr parsed)))))"

subsection \<open>The request and its answer\<close>

record logHeadInput =
  li_cursorContext :: jsval
  li_membership :: jsval
  li_verifiedPrefixEvidenceDigest :: jsval
  li_conversationGeneration :: jsval
  li_releaseProfileId :: jsval
  li_releaseTrustRootDigest :: jsval
  li_fromAnchor :: jsval
  li_trustedWitnessAnchor :: jsval
  li_now :: jsval
  li_deadline :: jsval
  li_aborted :: bool

record logHeadFrame =
  lf_context :: cursorContext
  lf_membership :: membershipWindow
  lf_verifiedPrefixEvidenceDigest :: string
  lf_generation :: string
  lf_releaseProfileId :: string
  lf_releaseTrustRootDigest :: string
  lf_fromAnchor :: headAnchor
  lf_priorWitness :: witnessAnchor
  lf_verifiedAt :: string

definition openLogHeadRequest :: "logHeadInput \<Rightarrow> logHeadFrame res" where
  "openLogHeadRequest input =
     bindE (parseConversationCursorContext (li_cursorContext input)) (\<lambda>cx.
     bindE (parseMembershipWindow (li_membership input)) (\<lambda>membership.
     bindE (parseNonZeroHash32Sync (li_verifiedPrefixEvidenceDigest input)) (\<lambda>verifiedPrefixEvidenceDigest.
     bindE (parsePositive (li_conversationGeneration input)) (\<lambda>generation.
     bindE (parseReleaseProfileId (li_releaseProfileId input)) (\<lambda>releaseProfileId.
     bindE (parseHash32 (li_releaseTrustRootDigest input)) (\<lambda>releaseTrustRootDigest.
     bindE (parseHeadAnchor (li_fromAnchor input)) (\<lambda>fromAnchor.
     bindE (validateAnchor fromAnchor) (\<lambda>_.
     bindE (parseWitnessConsistencyAnchor (li_trustedWitnessAnchor input)) (\<lambda>priorWitness.
     bindE (parseRfc3339Millis (li_now input)) (\<lambda>verifiedAt.
     bindE (parseRfc3339Millis (li_deadline input)) (\<lambda>deadline.
     if deadline \<le> verifiedAt \<or> dateMillis deadline - dateMillis verifiedAt > CONVERSATION_SYNC_MAX_PORT_WAIT_MILLISECONDS \<or> li_aborted input
     then Inl ConversationSyncValidationError
     else Inr \<lparr>lf_context = cx, lf_membership = membership, lf_verifiedPrefixEvidenceDigest = verifiedPrefixEvidenceDigest,
       lf_generation = generation, lf_releaseProfileId = releaseProfileId, lf_releaseTrustRootDigest = releaseTrustRootDigest,
       lf_fromAnchor = fromAnchor, lf_priorWitness = priorWitness, lf_verifiedAt = verifiedAt\<rparr>)))))))))))"

definition LOG_HEAD_RESPONSE_KEYS :: "string list" where
  "LOG_HEAD_RESPONSE_KEYS =
     [''conversationId'', ''generation'', ''releaseProfileId'', ''releaseTrustRootDigest'', ''visibility'', ''logHead'', ''witnessReceipt'']"

record logHeadResponse =
  ld_visibility :: logHeadVisibility
  ld_logHead :: signedLogHead
  ld_witnessReceipt :: witnessReceipt

definition expectedVisibility :: "membershipWindow \<Rightarrow> logHeadVisibility" where
  "expectedVisibility membership = (if mw_removedPosition membership = None then ActiveHighWater else RemovedBoundary)"

definition readLogHeadResponse :: "(bytes \<Rightarrow> bytes) \<Rightarrow> jsval \<Rightarrow> logHeadFrame \<Rightarrow> logHeadResponse res" where
  "readLogHeadResponse H v frame =
     bindE (expectExactRecord v LOG_HEAD_RESPONSE_KEYS) (\<lambda>record.
     bindE (parseConversationId (record ''conversationId'')) (\<lambda>conversationId.
     bindE (parseLogHeadVisibility (record ''visibility'')) (\<lambda>visibility.
     if conversationId \<noteq> cx_conversationId (lf_context frame) then Inl ConversationSyncValidationError
     else
     bindE (parsePositive (record ''generation'')) (\<lambda>generation.
     if generation \<noteq> lf_generation frame then Inl ConversationSyncValidationError
     else
     bindE (parseReleaseProfileId (record ''releaseProfileId'')) (\<lambda>releaseProfileId.
     if releaseProfileId \<noteq> lf_releaseProfileId frame then Inl ConversationSyncValidationError
     else
     bindE (parseHash32 (record ''releaseTrustRootDigest'')) (\<lambda>releaseTrustRootDigest.
     if releaseTrustRootDigest \<noteq> lf_releaseTrustRootDigest frame then Inl ConversationSyncValidationError
     else if visibility \<noteq> expectedVisibility (lf_membership frame) then Inl ConversationSyncValidationError
     else
     bindE (parseSignedDeliveryLogHead H conversationId (record ''logHead'')) (\<lambda>logHead.
     bindE (parseWitnessReceipt (record ''witnessReceipt'')) (\<lambda>receipt.
     if wr_conversationId receipt \<noteq> conversationId \<or> wr_position receipt \<noteq> lh_position logHead
        \<or> wr_headHash receipt \<noteq> lh_headHash logHead
     then Inl ConversationSyncValidationError
     else Inr \<lparr>ld_visibility = visibility, ld_logHead = logHead, ld_witnessReceipt = receipt\<rparr>))))))))"

definition logHeadRejected :: "membershipWindow \<Rightarrow> headAnchor \<Rightarrow> signedLogHead \<Rightarrow> bool" where
  "logHeadRejected membership fromAnchor logHead =
     (bigInt (lh_position logHead) < bigInt (ha_position fromAnchor)
      \<or> (mw_removedPosition membership = None \<and> bigInt (lh_position logHead) < bigInt (mw_joinedPosition membership))
      \<or> (lh_position logHead = ha_position fromAnchor
         \<and> (lh_previousHeadHash logHead \<noteq> ha_previousHeadHash fromAnchor \<or> lh_headHash logHead \<noteq> ha_headHash fromAnchor
            \<or> Some (lh_checkpointReceivedAt logHead) \<noteq> ha_checkpointReceivedAt fromAnchor))
      \<or> (bigInt (lh_position logHead) = bigInt (ha_position fromAnchor) + 1 \<and> lh_previousHeadHash logHead \<noteq> ha_headHash fromAnchor)
      \<or> (case mw_removedPosition membership of None \<Rightarrow> False | Some removed \<Rightarrow> lh_position logHead \<noteq> removed))"

definition logHeadRequestOf :: "logHeadFrame \<Rightarrow> logHeadResponse \<Rightarrow> logHeadRequest" where
  "logHeadRequestOf frame d =
     (let cx = lf_context frame; membership = lf_membership frame in
      \<lparr>lr_realmId = cx_realmId cx, lr_accountId = cx_accountId cx, lr_installationId = cx_installationId cx,
       lr_conversationId = cx_conversationId cx, lr_conversationGeneration = lf_generation frame,
       lr_releaseProfileId = lf_releaseProfileId frame, lr_releaseTrustRootDigest = lf_releaseTrustRootDigest frame,
       lr_verifiedPrefixEvidenceDigest = lf_verifiedPrefixEvidenceDigest frame, lr_membershipBootstrapMode = mw_bootstrapMode membership,
       lr_membershipCredentialId = mw_credentialId membership, lr_membershipCredentialFingerprint = mw_credentialFingerprint membership,
       lr_membershipJoinedPosition = mw_joinedPosition membership, lr_membershipRemovedPosition = mw_removedPosition membership,
       lr_visibilityMode = ld_visibility d, lr_removedPosition = mw_removedPosition membership,
       lr_fromPosition = ha_position (lf_fromAnchor frame), lr_fromHeadHash = ha_headHash (lf_fromAnchor frame),
       lr_current = headCheckpoint (cx_conversationId cx) (ld_logHead d), lr_witness = ld_witnessReceipt d,
       lr_priorWitness = lf_priorWitness frame, lr_verifiedAt = lf_verifiedAt frame\<rparr>)"

record verifiedLogHead =
  vl_conversationId :: string
  vl_generation :: string
  vl_releaseProfileId :: string
  vl_releaseTrustRootDigest :: string
  vl_visibility :: logHeadVisibility
  vl_logHead :: signedLogHead
  vl_witnessReceipt :: witnessReceipt
  vl_proofEvidence :: logHeadProof

definition parseAndVerifyConversationLogHeadInternal ::
  "(bytes \<Rightarrow> bytes) \<Rightarrow> (logHeadRequest \<Rightarrow> jsval res) \<Rightarrow> jsval \<Rightarrow> logHeadInput \<Rightarrow> verifiedLogHead res" where
  "parseAndVerifyConversationLogHeadInternal H verify v input =
     bindE (openLogHeadRequest input) (\<lambda>frame.
     bindE (readLogHeadResponse H v frame) (\<lambda>d.
     if logHeadRejected (lf_membership frame) (lf_fromAnchor frame) (ld_logHead d) then Inl ConversationSyncValidationError
     else let request = logHeadRequestOf frame d in
       bindE (verify request) (\<lambda>raw.
       bindE (throwIfDeliveryPortUnavailable raw) (\<lambda>_.
       bindE (parseConversationLogHeadProofEvidence H raw request) (\<lambda>proofEvidence.
       Inr \<lparr>vl_conversationId = cx_conversationId (lf_context frame), vl_generation = lf_generation frame,
         vl_releaseProfileId = lf_releaseProfileId frame, vl_releaseTrustRootDigest = lf_releaseTrustRootDigest frame,
         vl_visibility = ld_visibility d, vl_logHead = ld_logHead d, vl_witnessReceipt = ld_witnessReceipt d,
         vl_proofEvidence = proofEvidence\<rparr>)))))"

definition parseAndVerifyConversationLogHead ::
  "(bytes \<Rightarrow> bytes) \<Rightarrow> (logHeadRequest \<Rightarrow> jsval res) \<Rightarrow> jsval \<Rightarrow> logHeadInput \<Rightarrow> verifiedLogHead res option" where
  "parseAndVerifyConversationLogHead H verify rawResponse input =
     map_option (map_sum normalizeConversationSyncFailure id)
       (andThen (Some (parseOwnedBytes rawResponse CONVERSATION_LOG_HEAD_HARD_MAX_SERIALIZED_BYTES)) (\<lambda>serialized.
        andThen (parseStrictJsonBytes serialized) (\<lambda>parsedJson.
        Some (parseAndVerifyConversationLogHeadInternal H verify (jsvalOf parsedJson) input))))"

end
