(* ===== verification/SyncPrefixProofs.thy ===== *)
theory SyncPrefixProofs
  imports SyncPrefix EnvelopeProperties
begin

section \<open>The digest of a prefix determines the prefix\<close>

text \<open>
  The list of fields that is hashed contains three lists of varying length. The mandatory and the staged proposals are
  preceded by their number; the sender bindings are not, but each begins with an identifier of 36 characters, and what
  follows them, the number of staged proposals, is shorter. So the fields can be cut in one way only.
\<close>

definition prefixValid :: "(bytes \<Rightarrow> bytes) \<Rightarrow> verifiedPrefix \<Rightarrow> bool" where
  "prefixValid H x =
     (contextValid (vx_context x) \<and> windowValid (vx_membership x) \<and> anchorValid (vx_anchor x) \<and> witnessAnchorValid (vx_witness x)
      \<and> policyAnchorValid (vx_policy x) \<and> mlsProjectionValid (vx_projection x) \<and> policyProjectionValid H (vx_policyProjection x)
      \<and> senderBindingsValid (vx_senderBindings x) \<and> stagedListValid (vx_stagedProposals x)
      \<and> positiveUint63Valid (vx_conversationGeneration x) \<and> RELEASE_PROFILE_ID (vx_releaseProfileId x)
      \<and> hash32Valid (vx_deliveryLimitsDigest x) \<and> hash32Valid (vx_releaseTrustRootDigest x) \<and> hash32Valid (vx_expectedGroupIdHash x))"

lemmas prefix_parsers_wf = parseConversationCursorContext_valid window_codec.parse_wf anchor_codec.parse_wf witness_anchor_codec.parse_wf
  policy_anchor_codec.parse_wf mls_projection_codec.parse_wf policy_projection_codec.parse_wf sender_bindings_codec.parse_wf
  staged_list_codec.parse_wf

lemma parsePrefixInput_valid: "parsePrefixInput H input = Inr x \<Longrightarrow> prefixValid H x"
  unfolding parsePrefixInput_def
  by (elim bindE_InrE, drule prefix_parsers_wf, drule prefix_parsers_wf, drule prefix_parsers_wf, drule prefix_parsers_wf,
      drule prefix_parsers_wf, drule prefix_parsers_wf, drule prefix_parsers_wf, drule prefix_parsers_wf, drule prefix_parsers_wf)
    (auto simp: prefixValid_def parse_simps)

subsection \<open>Lists of fields\<close>

lemma counted_rows_inj:
  assumes "map fieldRaw (Utf8 (showNat (length xs)) # concat (map f xs) @ rest) = map fieldRaw (Utf8 (showNat (length ys)) # concat (map f ys) @ rest')"
    and "\<And>x. length (f x) = n"
    and "\<And>x y. x \<in> set xs \<Longrightarrow> y \<in> set ys \<Longrightarrow> map fieldRaw (f x) = map fieldRaw (f y) \<Longrightarrow> x = y"
  shows "xs = ys" "map fieldRaw rest = map fieldRaw rest'"
proof -
  have len: "length xs = length ys" using assms(1) by simp
  have width: "length (concat (map f zs)) = n * length zs" for zs by (induction zs) (simp_all add: assms(2))
  have eq: "map fieldRaw (concat (map f xs) @ rest) = map fieldRaw (concat (map f ys) @ rest')"
    using assms(1) by (simp only: list.map list.inject)
  have "length (concat (map f xs)) = length (concat (map f ys))" unfolding width len ..
  note parts = map_fieldRaw_append [OF eq this]
  show "map fieldRaw rest = map fieldRaw rest'" by (rule parts(2))
  show "xs = ys" by (rule row_fields_inj [OF parts(1) len assms(2,3)])
qed

lemma marked_rows_inj:
  assumes "map fieldRaw (concat (map f xs) @ end_mark # rest) = map fieldRaw (concat (map f ys) @ end_mark' # rest')"
    and "\<And>x. length (f x) = Suc n"
    and "\<And>x. x \<in> set xs \<union> set ys \<Longrightarrow> 36 \<le> length (fieldRaw (hd (f x)))"
    and "length (fieldRaw end_mark) < 36" "length (fieldRaw end_mark') < 36"
    and "\<And>x y. x \<in> set xs \<Longrightarrow> y \<in> set ys \<Longrightarrow> map fieldRaw (f x) = map fieldRaw (f y) \<Longrightarrow> x = y"
  shows "xs = ys \<and> map fieldRaw (end_mark # rest) = map fieldRaw (end_mark' # rest')"
  using assms(1,3,6)
proof (induction xs arbitrary: ys)
  case Nil
  show ?case
  proof (cases ys)
    case (Cons y ys')
    obtain g gs where "f y = g # gs" using assms(2) [of y] by (cases "f y") auto
    with Nil(1) Cons have "fieldRaw end_mark = fieldRaw g" by simp
    moreover have "36 \<le> length (fieldRaw g)" using Nil(2) [of y] Cons \<open>f y = g # gs\<close> by simp
    ultimately show ?thesis using assms(4) by simp
  qed (use Nil in simp)
next
  case (Cons x xs)
  obtain g gs where x: "f x = g # gs" using assms(2) [of x] by (cases "f x") auto
  have g: "36 \<le> length (fieldRaw g)" using Cons.prems(2) [of x] x by simp
  show ?case
  proof (cases ys)
    case Nil
    with Cons.prems(1) x have "fieldRaw g = fieldRaw end_mark'" by simp
    with g assms(5) show ?thesis by simp
  next
    case ys: (Cons y ys')
    have "map fieldRaw (f x @ concat (map f xs) @ end_mark # rest) = map fieldRaw (f y @ concat (map f ys') @ end_mark' # rest')"
      using Cons.prems(1) ys by simp
    from map_fieldRaw_append [OF this] have "map fieldRaw (f x) = map fieldRaw (f y)"
      "map fieldRaw (concat (map f xs) @ end_mark # rest) = map fieldRaw (concat (map f ys') @ end_mark' # rest')"
      by (simp_all add: assms(2) del: map_append map_concat)
    moreover have "x = y" using Cons.prems(3) calculation(1) ys by simp
    moreover have "xs = ys' \<and> map fieldRaw (end_mark # rest) = map fieldRaw (end_mark' # rest')"
      using Cons.IH [OF calculation(2)] Cons.prems(2,3) ys by simp
    ultimately show ?thesis using ys by simp
  qed
qed

subsection \<open>Injectivity\<close>

lemma small_bootstrapMode [small_fields]: "smallField 256 (Utf8 (bootstrapModeText m))"
  by (rule smallField_Utf8, cases m) simp_all

lemma small_proposalType [small_fields]: "smallField 256 (Utf8 (proposalTypeText t))"
  by (rule smallField_Utf8, cases t) simp_all

lemma small_proposalRequirement [small_fields]: "smallField 256 (Utf8 (proposalRequirementText r))"
  by (rule smallField_Utf8, cases r) simp_all

lemma uuid7_length: "uuidV7Valid s \<Longrightarrow> length s = 36"
  unfolding uuidV7Valid_def matchesShape_def UUID_V7_def uuidPattern_def
  by (drule list_all2_lengthD) simp

lemma fieldRaw_NullableTime [field_inj]:
  "(case v of None \<Rightarrow> True | Some s \<Rightarrow> rfc3339Valid s) \<Longrightarrow> (case w of None \<Rightarrow> True | Some s \<Rightarrow> rfc3339Valid s) \<Longrightarrow>
     fieldRaw (NullableText v) = fieldRaw (NullableText w) \<longleftrightarrow> v = w"
  by (rule fieldRaw_NullableText; auto dest!: length_rfc3339 split: option.splits)

lemma mandatoryFields_inj:
  "mandatoryProposalValid p \<Longrightarrow> mandatoryProposalValid q \<Longrightarrow>
   map fieldRaw [Utf8 (pm_proposalId p), DecodedHash (pm_proposalHash p)] = map fieldRaw [Utf8 (pm_proposalId q), DecodedHash (pm_proposalHash q)] \<Longrightarrow> p = q"
  by (simp add: mandatoryProposalValid_def mandatoryProposal.equality)

lemma senderBindingFields_inj:
  "senderBindingValid p \<Longrightarrow> senderBindingValid q \<Longrightarrow>
   map fieldRaw (senderBindingDigestFields p) = map fieldRaw (senderBindingDigestFields q) \<Longrightarrow> p = q"
  by (simp add: senderBindingValid_def senderBindingDigestFields_def field_inj senderBinding.equality)

lemma stagedFields_inj:
  "stagedProposalValid p \<Longrightarrow> stagedProposalValid q \<Longrightarrow>
   map fieldRaw (stagedDigestFields p) = map fieldRaw (stagedDigestFields q) \<Longrightarrow> p = q"
  by (simp add: stagedProposalValid_def stagedDigestFields_def enum_inj stagedProposal.equality)

lemma stagedAccepted_valid: "stagedAccepted seen ps \<Longrightarrow> p \<in> set ps \<Longrightarrow> stagedProposalValid p"
  by (induction ps arbitrary: seen) auto

lemma prefix_parts:
  assumes valid: "prefixValid H x" "prefixValid H y"
    and eq: "map fieldRaw (prefixDigestFields x) = map fieldRaw (prefixDigestFields y)"
  shows "map fieldRaw (prefixIdentityFields x) = map fieldRaw (prefixIdentityFields y)"
    "pp_policyMandatoryProposals (vx_policyProjection x) = pp_policyMandatoryProposals (vx_policyProjection y)"
    "map fieldRaw (prefixTrustFields x) = map fieldRaw (prefixTrustFields y)"
    "vx_senderBindings x = vx_senderBindings y" "vx_stagedProposals x = vx_stagedProposals y"
proof -
  note v = valid [unfolded prefixValid_def]
  let ?mand = "\<lambda>z. pp_policyMandatoryProposals (vx_policyProjection z)"
  let ?row = "\<lambda>p. [Utf8 (pm_proposalId p), DecodedHash (pm_proposalHash p)]"
  let ?staged = "\<lambda>z. Utf8 (showNat (length (vx_stagedProposals z))) # concat (map stagedDigestFields (vx_stagedProposals z)) @ []"
  let ?tail = "\<lambda>z. concat (map senderBindingDigestFields (vx_senderBindings z)) @ ?staged z"
  let ?body = "\<lambda>z. Utf8 (showNat (length (?mand z))) # concat (map ?row (?mand z)) @ prefixTrustFields z @ ?tail z"
  have widths: "length (prefixIdentityFields z) = 27" "length (prefixTrustFields z) = 16" for z
    by (simp_all add: prefixIdentityFields_def prefixTrustFields_def Let_def)
  have whole: "prefixDigestFields z = prefixIdentityFields z @ ?body z" for z
    by (simp add: prefixDigestFields_def encodePolicyMandatoryProposals_def mandatoryDigestFields_def encodeStagedProposals_def)
  note first = map_fieldRaw_append [OF eq [unfolded whole], unfolded widths, OF refl]
  show "map fieldRaw (prefixIdentityFields x) = map fieldRaw (prefixIdentityFields y)" by (rule first(1))
  have "p = q" if "p \<in> set (?mand x)" "q \<in> set (?mand y)" "map fieldRaw (?row p) = map fieldRaw (?row q)" for p q
    using that v by (intro mandatoryFields_inj) (auto simp: policyProjectionValid_def mandatoryProposalsValid_def list_all_iff)
  note mand = counted_rows_inj [OF first(2), where n = 2, OF _ this]
  show "?mand x = ?mand y" by (rule mand(1)) simp
  have rest: "map fieldRaw (prefixTrustFields x @ ?tail x) = map fieldRaw (prefixTrustFields y @ ?tail y)" by (rule mand(2)) simp
  note trust = map_fieldRaw_append [OF rest, unfolded widths, OF refl]
  show "map fieldRaw (prefixTrustFields x) = map fieldRaw (prefixTrustFields y)" by (rule trust(1))
  have bindings: "senderBindingValid b" if "b \<in> set (vx_senderBindings x) \<union> set (vx_senderBindings y)" for b
    using that v by (auto simp: senderBindingsValid_def list_all_iff)
  have mark: "36 \<le> length (fieldRaw (hd (senderBindingDigestFields b)))" if "b \<in> set (vx_senderBindings x) \<union> set (vx_senderBindings y)" for b
    using bindings [OF that] length_le_utf8 [of "sb_accountId b"]
    by (simp add: senderBindingDigestFields_def fieldRaw_def senderBindingValid_def length_uuid)
  have short: "length (fieldRaw (Utf8 (showNat (length (vx_stagedProposals z))))) < 36" if "prefixValid H z" for z
  proof -
    have "length (vx_stagedProposals z) < 10 ^ 3" using that by (simp add: prefixValid_def stagedListValid_def CONVERSATION_PAGE_HARD_MAX_EVENTS_def)
    then have "length (showNat (length (vx_stagedProposals z))) \<le> 3" by (rule length_showNat_le) simp
    then show ?thesis using length_utf8 [of "showNat (length (vx_stagedProposals z))"] by (simp add: fieldRaw_def)
  qed
  have senders: "vx_senderBindings x = vx_senderBindings y \<and> map fieldRaw (?staged x) = map fieldRaw (?staged y)"
    by (rule marked_rows_inj [OF trust(2) _ mark short [OF valid(1)] short [OF valid(2)], where n = 7])
      (use bindings in \<open>auto simp: senderBindingDigestFields_def [THEN arg_cong [where f = length]] intro: senderBindingFields_inj\<close>)
  then show "vx_senderBindings x = vx_senderBindings y" by simp
  have "p = q" if "p \<in> set (vx_stagedProposals x)" "q \<in> set (vx_stagedProposals y)" "map fieldRaw (stagedDigestFields p) = map fieldRaw (stagedDigestFields q)" for p q
    using that v by (intro stagedFields_inj) (auto simp: stagedListValid_def intro: stagedAccepted_valid)
  note staged = counted_rows_inj [OF senders [THEN conjunct2], where n = 14, OF _ this]
  show "vx_stagedProposals x = vx_stagedProposals y" by (rule staged(1)) (simp add: stagedDigestFields_def)
qed

lemma prefixDigestFields_inj:
  assumes valid: "prefixValid H x" "prefixValid H y"
    and eq: "map fieldRaw (prefixDigestFields x) = map fieldRaw (prefixDigestFields y)"
  shows "x = y"
proof -
  note v = valid [unfolded prefixValid_def] and parts = prefix_parts [OF valid eq]
  note identity = parts(1) [unfolded prefixIdentityFields_def Let_def] and trust = parts(3) [unfolded prefixTrustFields_def Let_def]
  have "vx_context x = vx_context y" using identity by (simp add: cursorContext.equality)
  moreover have "vx_membership x = vx_membership y"
    using identity v by (simp add: windowValid_def enum_inj field_inj membershipWindow.equality)
  moreover have "vx_anchor x = vx_anchor y" using identity v by (simp add: anchorValid_def field_inj headAnchor.equality)
  moreover have "vx_projection x = vx_projection y" using identity v by (simp add: mlsProjectionValid_def mlsProjection.equality)
  moreover have "vx_policyProjection x = vx_policyProjection y"
    using identity trust parts(2) v by (simp add: policyProjectionValid_def policyProjection.equality)
  moreover have "vx_witness x = vx_witness y" using trust v by (simp add: witnessAnchorValid_def witnessAnchor.equality)
  moreover have "vx_policy x = vx_policy y" using trust v by (simp add: policyAnchorValid_def policyAnchor.equality)
  moreover have "vx_conversationGeneration x = vx_conversationGeneration y" "vx_releaseProfileId x = vx_releaseProfileId y"
    "vx_deliveryLimitsDigest x = vx_deliveryLimitsDigest y" "vx_releaseTrustRootDigest x = vx_releaseTrustRootDigest y"
    "vx_expectedGroupIdHash x = vx_expectedGroupIdHash y"
    using identity v by simp_all
  ultimately show ?thesis using parts(4,5) by (simp add: verifiedPrefix.equality)
qed

end
