(* ===== verification/SyncPageProofs.thy ===== *)
theory SyncPageProofs
  imports SyncPage EnvelopeProperties
begin

section \<open>What a page verification accepts\<close>

text \<open>
  The items of a page as a codec, the loop over the events as a condition on the list of items, and the final checks. The
  condition \<open>eventsContinue\<close> says without reference to the loop that the events continue the anchor.
\<close>

subsection \<open>Items\<close>

definition decodedLength :: "string \<Rightarrow> int" where
  "decodedLength payload = int (length (b64decode payload))"

lemma decodedLength_nonneg [simp]: "0 \<le> decodedLength s"
  by (simp add: decodedLength_def)

definition welcomeValid :: "(bytes \<Rightarrow> bytes) \<Rightarrow> string \<Rightarrow> deliveryLimits \<Rightarrow> targetWelcome \<Rightarrow> bool" where
  "welcomeValid H installation limits w =
     (uuidV4Valid (tw_targetInstallationId w) \<and> tw_targetInstallationId w = installation
      \<and> bigInt (welcomeDecodedMaxBytes limits) \<noteq> 0
      \<and> carriesHash H (welcomeMaximum limits) (tw_welcome w) (tw_welcomeSha256 w))"

definition itemValid :: "(bytes \<Rightarrow> bytes) \<Rightarrow> string \<Rightarrow> deliveryLimits \<Rightarrow> eventItem \<Rightarrow> bool" where
  "itemValid H installation limits item =
     (storedEnvelopeValid H (ei_envelope item)
      \<and> decodedLength (se_envelopeBytes (storedCommon (ei_envelope item)))
          \<le> configuredMaximum limits (se_envelopeClass (storedCommon (ei_envelope item)))
      \<and> (case ei_welcome item of None \<Rightarrow> True
         | Some w \<Rightarrow> welcomeValid H installation limits w \<and> se_envelopeClass (storedCommon (ei_envelope item)) = MlsCommit))"

definition encodeWelcome :: "targetWelcome \<Rightarrow> jsval" where
  "encodeWelcome w = mkRecord [(''targetInstallationId'', JStr (tw_targetInstallationId w)), (''welcome'', JStr (tw_welcome w)),
     (''welcomeSha256'', JStr (tw_welcomeSha256 w))]"

fun storedEntries :: "storedEnvelope \<Rightarrow> (string \<times> jsval) list" where
  "storedEntries (StoredMlsCommit e base resulting) = entriesStored e @
     [(''baseConfirmedTranscriptHash'', JStr base), (''resultingConfirmedTranscriptHash'', JStr resulting)]"
| "storedEntries (StoredExternalProposal e) = entriesStored e"
| "storedEntries (StoredApplication e) = entriesStored e"

definition encodeItem :: "eventItem \<Rightarrow> jsval" where
  "encodeItem item = mkRecord (storedEntries (ei_envelope item)
     @ (case ei_welcome item of None \<Rightarrow> [] | Some w \<Rightarrow> [(''welcome'', encodeWelcome w)]))"

lemma encodeStored_entries: "encodeStoredEnvelope env = mkRecord (storedEntries env)"
  by (cases env) simp_all

lemma welcomeMaximum_range:
  "bigInt (welcomeDecodedMaxBytes limits) \<noteq> 0 \<Longrightarrow> 1 \<le> welcomeMaximum limits \<and> welcomeMaximum limits \<le> 8388608"
  using bigInt_nonneg [of "welcomeDecodedMaxBytes limits"]
  by (auto simp: welcomeMaximum_def minimum_def CONVERSATION_WELCOME_HARD_MAX_BYTES_def simp del: bigInt_nonneg)

lemma parseTargetWelcome_valid:
  assumes "parseTargetWelcome H v installation limits = Inr w"
  shows "welcomeValid H installation limits w"
proof -
  obtain get where "expectExactRecord v TARGET_WELCOME_KEYS = Inr get"
    and inst: "parseInstallationId (get ''targetInstallationId'') = Inr (tw_targetInstallationId w)"
      "tw_targetInstallationId w = installation" and nz: "bigInt (welcomeDecodedMaxBytes limits) \<noteq> 0"
    and payload: "\<exists>bs. parseCanonicalBase64UrlBytes 1 (welcomeMaximum limits) (get ''welcome'') = Inr bs
        \<and> computeEnvelopeSha256 H (owned bs) = Inr (tw_welcomeSha256 w)"
      "parseCanonicalBase64Url 1 (welcomeMaximum limits) (get ''welcome'') = Inr (tw_welcome w)"
    using assms unfolding parseTargetWelcome_def by (auto simp: bindE_eq_Inr split: if_splits)
  note range = welcomeMaximum_range [OF nz]
  have "carriesHash H (welcomeMaximum limits) (tw_welcome w) (tw_welcomeSha256 w)"
    using payload range by (auto simp: hashed_payload parseCanonicalBase64Url_text)
  with inst nz show ?thesis by (simp add: welcomeValid_def parse_simps)
qed

lemma parseTargetWelcome_encode:
  assumes "welcomeValid H installation limits w"
  shows "parseTargetWelcome H (encodeWelcome w) installation limits = Inr w"
proof -
  have nz: "bigInt (welcomeDecodedMaxBytes limits) \<noteq> 0"
    and hash: "carriesHash H (welcomeMaximum limits) (tw_welcome w) (tw_welcomeSha256 w)"
    and inst: "uuidV4Valid installation" "tw_targetInstallationId w = installation"
    using assms by (auto simp: welcomeValid_def)
  note range = welcomeMaximum_range [OF nz]
  have read: "expectExactRecord (encodeWelcome w) TARGET_WELCOME_KEYS = Inr (fieldOf
     [(''targetInstallationId'', JStr (tw_targetInstallationId w)), (''welcome'', JStr (tw_welcome w)),
      (''welcomeSha256'', JStr (tw_welcomeSha256 w))])"
    unfolding encodeWelcome_def by (rule expectExactRecord_mkRecord) (simp_all add: TARGET_WELCOME_KEYS_def)
  obtain bs where bs: "parseCanonicalBase64UrlBytes 1 (welcomeMaximum limits) (JStr (tw_welcome w)) = Inr bs"
    "computeEnvelopeSha256 H (owned bs) = Inr (tw_welcomeSha256 w)"
    using hashed_payload [of "welcomeMaximum limits" "JStr (tw_welcome w)" H "tw_welcomeSha256 w"] range hash by auto
  have payload: "parseCanonicalBase64Url 1 (welcomeMaximum limits) (JStr (tw_welcome w)) = Inr (tw_welcome w)"
    using range hash by (simp add: parseCanonicalBase64Url_text carriesHash_def)
  have "hash32Valid (tw_welcomeSha256 w)" using hash unfolding carriesHash_def by blast
  then show ?thesis
    using inst(1) nz unfolding inst(2) [symmetric] by (simp add: parseTargetWelcome_def read bs payload parse_ok)
qed

lemma decodedEnvelopeLength_iff:
  assumes "storedCommonValid H (storedCommon env)"
  shows "decodedEnvelopeLength env limits = Inr n \<longleftrightarrow>
    n = decodedLength (se_envelopeBytes (storedCommon env))
    \<and> n \<le> configuredMaximum limits (se_envelopeClass (storedCommon env))"
proof -
  let ?cls = "se_envelopeClass (storedCommon env)" and ?payload = "se_envelopeBytes (storedCommon env)"
  let ?max = "minimum (configuredMaximum limits ?cls) (maximumEnvelopeBytes ?cls)"
  have valid: "b64Valid 1 (maximumEnvelopeBytes ?cls) ?payload" using assms by (simp add: storedCommonValid_def carriesHash_def)
  then have len: "1 \<le> decodedLength ?payload" "decodedLength ?payload \<le> maximumEnvelopeBytes ?cls"
    by (auto simp: b64Valid_def decodedLength_def)
  have nonneg: "0 \<le> configuredMaximum limits ?cls" by (simp add: configuredMaximum_def)
  show ?thesis
  proof (cases "configuredMaximum limits ?cls = 0")
    case True
    then show ?thesis using len by (auto simp: decodedEnvelopeLength_def Let_def)
  next
    case False
    with nonneg have range: "1 \<le> ?max" "?max \<le> 8388608"
      using envelope_maxima(3,4) [of ?cls] by (auto simp: minimum_def)
    have "b64Valid 1 ?max ?payload \<longleftrightarrow> decodedLength ?payload \<le> configuredMaximum limits ?cls"
      using valid len by (auto simp: b64Valid_def decodedLength_def minimum_def)
    then show ?thesis
      using False by (auto simp: decodedEnvelopeLength_def Let_def bindE_eq_Inr parseCanonicalBase64UrlBytes_iff [OF range] decodedLength_def)
  qed
qed

lemma parseStoredEnvelope_null: "parseStoredEnvelope H (JObj NullPrototype props) = parseStoredEnvelope H (JObj ObjectPrototype props)"
proof -
  have "readDataDiscriminator (JObj NullPrototype props) k = readDataDiscriminator (JObj ObjectPrototype props) k" for k
    by (simp add: readDataDiscriminator_def)
  moreover have "expectExactRecord (JObj NullPrototype props) ks = expectExactRecord (JObj ObjectPrototype props) ks" for ks
    by (simp add: expectExactRecord_def plainProps_def)
  ultimately show ?thesis unfolding parseStoredEnvelope_def by presburger
qed

lemma copyRecordWithout_mkRecord:
  "copyRecordWithout (mkRecord kvs) key = JObj NullPrototype (map (\<lambda>(k, v). (KStr k, Data True v)) (filter (\<lambda>(k, v). k \<noteq> key) kvs))"
  by (induction kvs) (auto simp: copyRecordWithout_def mkRecord_def)

lemma storedEntries_keys:
  "map fst (storedEntries env) = (case env of StoredMlsCommit _ _ _ \<Rightarrow> STORED_COMMIT_KEYS | _ \<Rightarrow> STORED_ENVELOPE_COMMON_KEYS)"
  by (cases env) (simp_all add: entriesStored_def STORED_COMMIT_KEYS_def STORED_ENVELOPE_COMMON_KEYS_def)

lemma storedEntries_defined: "JUndefined \<notin> set (map snd (storedEntries env))" "\<forall>(k, v) \<in> set (storedEntries env). k \<noteq> ''welcome''"
  by (cases env; simp add: entriesStored_def encodeSender_defined)+

lemma commit_iff: "storedEnvelopeValid H env \<Longrightarrow> se_envelopeClass (storedCommon env) = MlsCommit \<longleftrightarrow> (\<exists>e b r. env = StoredMlsCommit e b r)"
  by (cases env) auto

lemma readDataField_stored:
  "readDataField (mkRecord (storedEntries env @ xs)) ''envelopeClass'' = Inr (JStr (envelopeClassText (se_envelopeClass (storedCommon env))))"
  by (cases env) (simp_all add: readDataField_def mkRecord_def entriesStored_def)

lemma hasOwnDataField_welcome:
  "hasOwnDataField (encodeItem item) ''welcome'' = (ei_welcome item \<noteq> None)"
  by (cases "ei_envelope item"; cases "ei_welcome item")
     (simp_all add: hasOwnDataField_def encodeItem_def mkRecord_def entriesStored_def)


lemma copy_encodeItem: "parseStoredEnvelope H (copyRecordWithout (encodeItem item) ''welcome'') = parseStoredEnvelope H (encodeStoredEnvelope (ei_envelope item))"
proof -
  have "filter (\<lambda>(k, v). k \<noteq> ''welcome'') (storedEntries (ei_envelope item)) = storedEntries (ei_envelope item)"
    using storedEntries_defined(2) by (subst filter_id_conv) auto
  then have "copyRecordWithout (encodeItem item) ''welcome''
      = JObj NullPrototype (map (\<lambda>(k, v). (KStr k, Data True v)) (storedEntries (ei_envelope item)))"
    by (simp add: encodeItem_def copyRecordWithout_mkRecord split: option.splits)
  then show ?thesis by (simp add: parseStoredEnvelope_null encodeStored_entries mkRecord_def)
qed

lemma item_keys_distinct: "distinct STORED_ENVELOPE_COMMON_KEYS" "distinct STORED_COMMIT_KEYS" "distinct (STORED_COMMIT_KEYS @ [''welcome''])"
  by (simp_all add: STORED_COMMIT_KEYS_def STORED_ENVELOPE_COMMON_KEYS_def)

lemma expect_encodeItem:
  assumes "storedEnvelopeValid H (ei_envelope item)" "ei_welcome item \<noteq> None \<Longrightarrow> se_envelopeClass (storedCommon (ei_envelope item)) = MlsCommit"
  shows "expectExactRecord (encodeItem item)
      (if se_envelopeClass (storedCommon (ei_envelope item)) = MlsCommit then
         if ei_welcome item \<noteq> None then STORED_COMMIT_KEYS @ [''welcome''] else STORED_COMMIT_KEYS
       else STORED_ENVELOPE_COMMON_KEYS)
    = Inr (fieldOf (storedEntries (ei_envelope item)
        @ (case ei_welcome item of None \<Rightarrow> [] | Some w \<Rightarrow> [(''welcome'', encodeWelcome w)])))"
  unfolding encodeItem_def
proof (rule expectExactRecord_mkRecord)
  let ?keys = "if se_envelopeClass (storedCommon (ei_envelope item)) = MlsCommit then
         if ei_welcome item \<noteq> None then STORED_COMMIT_KEYS @ [''welcome''] else STORED_COMMIT_KEYS
       else STORED_ENVELOPE_COMMON_KEYS"
  show "distinct ?keys" using item_keys_distinct by simp
  show "map fst (storedEntries (ei_envelope item) @ (case ei_welcome item of None \<Rightarrow> [] | Some w \<Rightarrow> [(''welcome'', encodeWelcome w)])) = ?keys"
    using assms by (cases "ei_envelope item"; cases "ei_welcome item") (auto simp: storedEntries_keys simp del: storedEntries.simps)
  show "JUndefined \<notin> set (map snd (storedEntries (ei_envelope item)
      @ (case ei_welcome item of None \<Rightarrow> [] | Some w \<Rightarrow> [(''welcome'', encodeWelcome w)])))"
    using storedEntries_defined(1) by (auto simp: encodeWelcome_def mkRecord_def split: option.splits)
qed

lemma parseConversationEventItem_valid:
  assumes "parseConversationEventItem H v installation limits = Inr item"
  shows "itemValid H installation limits item"
proof -
  obtain n where env: "parseStoredEnvelope H (copyRecordWithout v ''welcome'') = Inr (ei_envelope item)"
    and n: "decodedEnvelopeLength (ei_envelope item) limits = Inr n"
    and w: "ei_welcome item = None \<or> (\<exists>x w. parseTargetWelcome H x installation limits = Inr w \<and> ei_welcome item = Some w)"
    and cls: "ei_welcome item \<noteq> None \<longrightarrow> se_envelopeClass (storedCommon (ei_envelope item)) = MlsCommit"
    using assms unfolding parseConversationEventItem_def
    by (auto simp: bindE_eq_Inr Let_def map_sum_def split: if_splits sum.splits, blast)
  have valid: "storedEnvelopeValid H (ei_envelope item)" using env by (rule parseStoredEnvelope_valid)
  show ?thesis
    using valid n w cls decodedEnvelopeLength_iff [OF storedEnvelopeValid_common [OF valid]]
    by (auto simp: itemValid_def dest!: parseTargetWelcome_valid split: option.splits)
qed

lemma parseConversationEventItem_encode:
  assumes "itemValid H installation limits item"
  shows "parseConversationEventItem H (encodeItem item) installation limits = Inr item"
proof -
  have valid: "storedEnvelopeValid H (ei_envelope item)" using assms by (simp add: itemValid_def)
  have wv: "welcomeValid H installation limits w \<and> se_envelopeClass (storedCommon (ei_envelope item)) = MlsCommit"
    if "ei_welcome item = Some w" for w using assms that by (simp add: itemValid_def)
  have len: "decodedEnvelopeLength (ei_envelope item) limits = Inr (decodedLength (se_envelopeBytes (storedCommon (ei_envelope item))))"
    using assms decodedEnvelopeLength_iff [OF storedEnvelopeValid_common [OF valid]] by (simp add: itemValid_def)
  have cls: "readDataField (encodeItem item) ''envelopeClass'' = Inr (JStr (envelopeClassText (se_envelopeClass (storedCommon (ei_envelope item)))))"
    unfolding encodeItem_def by (rule readDataField_stored)
  have commit: "envelopeClassText c = ''mls_commit'' \<longleftrightarrow> c = MlsCommit" for c by (cases c) simp_all
  have read: "fieldOf (storedEntries (ei_envelope item) @ [(''welcome'', encodeWelcome w)]) ''welcome'' = encodeWelcome w" for w
    by (cases "ei_envelope item") (simp_all add: entriesStored_def)
  show ?thesis
    using valid wv expect_encodeItem [OF valid]
    by (cases "ei_welcome item")
      (auto simp: parseConversationEventItem_def cls hasOwnDataField_welcome Let_def commit copy_encodeItem
        stored_envelope_codec.parse_encode len read parseTargetWelcome_encode split: if_splits)
qed

interpretation item_codec: record_codec "\<lambda>v. parseConversationEventItem H v installation limits" encodeItem "itemValid H installation limits"
  for H installation limits
  by unfold_locales (auto intro: parseConversationEventItem_valid parseConversationEventItem_encode)

subsection \<open>The loop\<close>

abbreviation stored :: "eventItem \<Rightarrow> storedEnvelopeCommon" where
  "stored item \<equiv> storedCommon (ei_envelope item)"

abbreviation itemPosition :: "eventItem \<Rightarrow> int" where
  "itemPosition item \<equiv> bigInt (se_position (stored item))"

definition itemBytes :: "eventItem \<Rightarrow> int" where
  "itemBytes item = decodedLength (se_envelopeBytes (stored item))
     + (case ei_welcome item of None \<Rightarrow> 0 | Some w \<Rightarrow> decodedLength (tw_welcome w))"

lemma itemBytes_nonneg [simp]: "0 \<le> itemBytes item"
  by (simp add: itemBytes_def split: option.splits)

definition inWindow :: "membershipWindow \<Rightarrow> int \<Rightarrow> bool" where
  "inWindow membership position = (bigInt (mw_joinedPosition membership) \<le> position
     \<and> (case mw_removedPosition membership of None \<Rightarrow> True | Some removed \<Rightarrow> position \<le> bigInt removed))"

definition pageBudget :: "deliveryLimits \<Rightarrow> int" where
  "pageBudget limits = min (bigInt (pageDecodedArtifactsMaxBytes limits)) CONVERSATION_PAGE_HARD_MAX_DECODED_ARTIFACT_BYTES"

definition welcomeExpected :: "pageFrame \<Rightarrow> eventItem \<Rightarrow> bool" where
  "welcomeExpected frame item = (ei_welcome item = None \<or> expectedWelcomeCommitPosition frame = Some (se_position (stored item)))"

definition eventFits :: "deliveryLimits \<Rightarrow> pageFrame \<Rightarrow> pageScan \<Rightarrow> eventItem \<Rightarrow> bool" where
  "eventFits limits frame scan item =
     (se_conversationId (stored item) = cx_conversationId (pf_context frame) \<and> itemPosition item = sc_previousPosition scan + 1
      \<and> se_previousHeadHash (stored item) = sc_previousHeadHash scan \<and> inWindow (pf_membership frame) (itemPosition item)
      \<and> se_envelopeId (stored item) \<notin> set (sc_envelopeIds scan) \<and> se_headHash (stored item) \<notin> set (sc_headHashes scan)
      \<and> welcomeExpected frame item \<and> itemBytes item \<le> CONVERSATION_PAGE_HARD_MAX_FIRST_ITEM_BYTES
      \<and> sc_decodedArtifactBytes scan + itemBytes item \<le> pageBudget limits)"

definition pushItem :: "pageScan \<Rightarrow> eventItem \<Rightarrow> pageScan" where
  "pushItem scan item = \<lparr>sc_previousPosition = itemPosition item, sc_previousHeadHash = se_headHash (stored item),
     sc_decodedArtifactBytes = sc_decodedArtifactBytes scan + itemBytes item,
     sc_welcomeCount = sc_welcomeCount scan + (if ei_welcome item = None then 0 else 1),
     sc_envelopeIds = se_envelopeId (stored item) # sc_envelopeIds scan, sc_headHashes = se_headHash (stored item) # sc_headHashes scan,
     sc_events = sc_events scan @ [item]\<rparr>"

lemma verifyStoredEnvelopeHashes_valid: "storedCommonValid H (storedCommon env) \<Longrightarrow> verifyStoredEnvelopeHashes H env = Inr ()"
  by (simp add: verifyStoredEnvelopeHashes_def storedCommonValid_def storedHashes_def)

lemma welcomeBytesOf_valid:
  "(case welcome of None \<Rightarrow> True | Some w \<Rightarrow> welcomeValid H installation limits w) \<Longrightarrow>
   welcomeBytesOf limits welcome = Inr (case welcome of None \<Rightarrow> 0 | Some w \<Rightarrow> decodedLength (tw_welcome w))"
  by (auto simp: welcomeBytesOf_def bindE_eq_Inr parseCanonicalBase64UrlBytes_iff welcomeMaximum_range welcomeValid_def
      carriesHash_def decodedLength_def split: option.splits)

lemma verifyPageEvent_iff:
  "verifyPageEvent H limits frame scan v = Inr scan' \<longleftrightarrow>
     (\<exists>item. parseConversationEventItem H v (cx_installationId (pf_context frame)) limits = Inr item
        \<and> eventFits limits frame scan item \<and> scan' = pushItem scan item)"
proof (cases "parseConversationEventItem H v (cx_installationId (pf_context frame)) limits")
  case (Inr item)
  have item: "itemValid H (cx_installationId (pf_context frame)) limits item" by (rule item_codec.parse_wf [OF Inr])
  then have valid: "storedCommonValid H (stored item)" by (simp add: itemValid_def storedEnvelopeValid_common)
  have len: "decodedEnvelopeLength (ei_envelope item) limits = Inr (decodedLength (se_envelopeBytes (stored item)))"
    using item decodedEnvelopeLength_iff [OF valid] by (simp add: itemValid_def)
  have welcome_bytes: "welcomeBytesOf limits (ei_welcome item) = Inr (case ei_welcome item of None \<Rightarrow> 0 | Some w \<Rightarrow> decodedLength (tw_welcome w))"
    using item by (intro welcomeBytesOf_valid [where H = H and installation = "cx_installationId (pf_context frame)"])
      (auto simp: itemValid_def split: option.splits)
  show ?thesis
    by (auto simp: verifyPageEvent_def Inr Let_def verifyStoredEnvelopeHashes_valid [OF valid] len welcome_bytes eventFits_def pushItem_def
        inWindow_def pageBudget_def itemBytes_def [symmetric] welcomeExpected_def not_less split: if_splits option.splits)
qed (simp add: verifyPageEvent_def)

primrec eventsFit :: "deliveryLimits \<Rightarrow> pageFrame \<Rightarrow> pageScan \<Rightarrow> eventItem list \<Rightarrow> bool" where
  "eventsFit limits frame scan [] = True"
| "eventsFit limits frame scan (item # items) = (eventFits limits frame scan item \<and> eventsFit limits frame (pushItem scan item) items)"

lemma verifyPageEvents_iff:
  "verifyPageEvents H limits frame scan vs = Inr scan' \<longleftrightarrow>
     (\<exists>items. mapE (\<lambda>v. parseConversationEventItem H v (cx_installationId (pf_context frame)) limits) vs = Inr items
        \<and> eventsFit limits frame scan items \<and> scan' = foldl pushItem scan items)"
proof (induction vs arbitrary: scan)
  case (Cons v vs)
  show ?case
    by (auto simp: bindE_eq_Inr verifyPageEvent_iff Cons.IH)
qed auto

text \<open>The same condition without the loop.\<close>

definition totalBytes :: "eventItem list \<Rightarrow> int" where
  "totalBytes items = sum_list (map itemBytes items)"

definition itemAdmissible :: "pageFrame \<Rightarrow> eventItem \<Rightarrow> bool" where
  "itemAdmissible frame item =
     (se_conversationId (stored item) = cx_conversationId (pf_context frame) \<and> inWindow (pf_membership frame) (itemPosition item)
      \<and> welcomeExpected frame item \<and> itemBytes item \<le> CONVERSATION_PAGE_HARD_MAX_FIRST_ITEM_BYTES)"

definition consecutive :: "int \<Rightarrow> eventItem list \<Rightarrow> bool" where
  "consecutive after items = (\<forall>i < length items. itemPosition (items ! i) = after + 1 + int i)"

lemma consecutive_simps [simp]:
  "consecutive after []"
  "consecutive after (item # items) \<longleftrightarrow> itemPosition item = after + 1 \<and> consecutive (after + 1) items"
  by (auto simp: consecutive_def nth_Cons split: nat.splits)

lemma totalBytes_simps [simp]: "totalBytes [] = 0" "totalBytes (item # items) = itemBytes item + totalBytes items"
  by (simp_all add: totalBytes_def)

lemma totalBytes_nonneg [simp]: "0 \<le> totalBytes items"
  by (induction items) simp_all

lemma eventsFit_iff:
  assumes "sc_decodedArtifactBytes scan \<le> pageBudget limits"
  shows "eventsFit limits frame scan items \<longleftrightarrow>
     list_all (itemAdmissible frame) items \<and> consecutive (sc_previousPosition scan) items
     \<and> linked (sc_previousHeadHash scan) (map ei_envelope items)
     \<and> distinct (map (\<lambda>item. se_envelopeId (stored item)) items) \<and> distinct (map (\<lambda>item. se_headHash (stored item)) items)
     \<and> (\<lambda>item. se_envelopeId (stored item)) ` set items \<inter> set (sc_envelopeIds scan) = {}
     \<and> (\<lambda>item. se_headHash (stored item)) ` set items \<inter> set (sc_headHashes scan) = {}
     \<and> sc_decodedArtifactBytes scan + totalBytes items \<le> pageBudget limits"
  using assms
proof (induction items arbitrary: scan)
  case (Cons item items)
  show ?case
  proof (cases "sc_decodedArtifactBytes scan + itemBytes item \<le> pageBudget limits")
    case True
    have "sc_decodedArtifactBytes (pushItem scan item) \<le> pageBudget limits" using True by (simp add: pushItem_def)
    note ih = Cons.IH [OF this]
    have push: "sc_previousPosition (pushItem scan item) = itemPosition item" "sc_previousHeadHash (pushItem scan item) = se_headHash (stored item)"
      "sc_envelopeIds (pushItem scan item) = se_envelopeId (stored item) # sc_envelopeIds scan"
      "sc_headHashes (pushItem scan item) = se_headHash (stored item) # sc_headHashes scan"
      "sc_decodedArtifactBytes (pushItem scan item) = sc_decodedArtifactBytes scan + itemBytes item"
      by (simp_all add: pushItem_def)
    show ?thesis unfolding eventsFit.simps ih push using True by (auto simp: eventFits_def itemAdmissible_def [of frame item] add.assoc)
  next
    case False
    then have "\<not> sc_decodedArtifactBytes scan + totalBytes (item # items) \<le> pageBudget limits"
      using totalBytes_nonneg [of items] by (simp del: totalBytes_nonneg)
    with False show ?thesis by (simp add: eventFits_def del: totalBytes_simps)
  qed
qed simp

lemma foldl_pushItem:
  "sc_events (foldl pushItem scan items) = sc_events scan @ items"
  "sc_decodedArtifactBytes (foldl pushItem scan items) = sc_decodedArtifactBytes scan + totalBytes items"
  "sc_welcomeCount (foldl pushItem scan items) = sc_welcomeCount scan + length (filter (\<lambda>item. ei_welcome item \<noteq> None) items)"
  "sc_previousHeadHash (foldl pushItem scan items) = lastHead (sc_previousHeadHash scan) (map ei_envelope items)"
  by (induction items arbitrary: scan) (auto simp: pushItem_def)

lemma foldl_pushItem_position:
  "consecutive (sc_previousPosition scan) items \<Longrightarrow>
   sc_previousPosition (foldl pushItem scan items) = sc_previousPosition scan + int (length items)"
  by (induction items arbitrary: scan) (auto simp: pushItem_def)

text \<open>The events of a page continue the anchor of the request.\<close>

definition eventsContinue :: "deliveryLimits \<Rightarrow> pageFrame \<Rightarrow> eventItem list \<Rightarrow> bool" where
  "eventsContinue limits frame items =
     (list_all (itemAdmissible frame) items \<and> consecutive (bigInt (pf_requestedAfterPosition frame)) items
      \<and> linked (ha_headHash (pf_anchor frame)) (map ei_envelope items)
      \<and> distinct (map (\<lambda>item. se_envelopeId (stored item)) items) \<and> distinct (map (\<lambda>item. se_headHash (stored item)) items)
      \<and> totalBytes items \<le> pageBudget limits)"

lemma pageBudget_nonneg [simp]: "0 \<le> pageBudget limits"
  by (simp add: pageBudget_def CONVERSATION_PAGE_HARD_MAX_DECODED_ARTIFACT_BYTES_def)

lemma verifyPageEvents_initial:
  "verifyPageEvents H limits frame (initialScan frame) vs = Inr scan \<longleftrightarrow>
     (\<exists>items. mapE (\<lambda>v. parseConversationEventItem H v (cx_installationId (pf_context frame)) limits) vs = Inr items
        \<and> eventsContinue limits frame items \<and> scan = foldl pushItem (initialScan frame) items)"
  by (simp add: verifyPageEvents_iff eventsFit_iff initialScan_def eventsContinue_def)

subsection \<open>The request\<close>

lemma openPageRequest_frame:
  assumes "openPageRequest input = Inr frame"
  shows "contextValid (pf_context frame)" "windowValid (pf_membership frame)" "anchorValid (pf_anchor frame)"
    "ha_position (pf_anchor frame) = pf_requestedAfterPosition frame" "validateAnchor (pf_anchor frame) = Inr ()"
    "bigInt (pf_requestedLimit frame) \<le> int CONVERSATION_PAGE_HARD_MAX_EVENTS"
    "bigInt (mw_joinedPosition (pf_membership frame)) - 1 \<le> bigInt (pf_requestedAfterPosition frame)"
proof -
  obtain cx limit membership after anchor floor where parts:
    "parseConversationCursorContext (pi_cursorContext input) = Inr cx" "bigInt limit \<le> int CONVERSATION_PAGE_HARD_MAX_EVENTS"
    "parseMembershipWindow (pi_membership input) = Inr membership" "parseHeadAnchor (pi_anchor input) = Inr anchor"
    "bigInt (boundaryBeforeJoin membership) \<le> bigInt after" "ha_position anchor = after" "validateAnchor anchor = Inr ()"
    "frame = \<lparr>pf_context = cx, pf_requestedLimit = limit, pf_membership = membership, pf_anchor = anchor, pf_requestedAfterPosition = after\<rparr>"
    using assms unfolding openPageRequest_def by (elim bindE_InrE) (auto simp: not_less split: if_splits elim!: bindE_InrE)
  have window: "windowValid membership" using parts(3) by (rule window_codec.parse_wf)
  then have "0 \<le> bigInt (mw_joinedPosition membership) - 1"
    by (auto simp: windowValid_def positiveUint63Valid_def uint63Valid_def bigInt_pos_iff [symmetric])
  then have "bigInt (boundaryBeforeJoin membership) = bigInt (mw_joinedPosition membership) - 1"
    by (simp add: boundaryBeforeJoin_def decrementPositive_def)
  then show "contextValid (pf_context frame)" "windowValid (pf_membership frame)" "anchorValid (pf_anchor frame)"
    "ha_position (pf_anchor frame) = pf_requestedAfterPosition frame" "validateAnchor (pf_anchor frame) = Inr ()"
    "bigInt (pf_requestedLimit frame) \<le> int CONVERSATION_PAGE_HARD_MAX_EVENTS"
    "bigInt (mw_joinedPosition (pf_membership frame)) - 1 \<le> bigInt (pf_requestedAfterPosition frame)"
    using parts window parseConversationCursorContext_valid anchor_codec.parse_wf by auto
qed

subsection \<open>The end of a page\<close>

definition lastAnchor :: "headAnchor \<Rightarrow> eventItem list \<Rightarrow> headAnchor" where
  "lastAnchor anchor items = (if items = [] then anchor else anchorOfEnvelope (ei_envelope (last items)))"

definition headMatches :: "headAnchor \<Rightarrow> signedLogHead \<Rightarrow> bool" where
  "headMatches entry signedHead =
     (ha_position entry = lh_position signedHead \<and> ha_previousHeadHash entry = lh_previousHeadHash signedHead
      \<and> ha_headHash entry = lh_headHash signedHead \<and> ha_checkpointReceivedAt entry = Some (lh_checkpointReceivedAt signedHead))"

lemma map_of_heads_last: "map_of (pageHeads anchor items) (ha_position (lastAnchor anchor items)) = Some (lastAnchor anchor items)"
  by (cases items rule: rev_cases) (simp_all add: pageHeads_def lastAnchor_def anchorOfEnvelope_def Let_def)

lemma consecutive_last:
  "consecutive after items \<Longrightarrow> items \<noteq> [] \<Longrightarrow> itemPosition (last items) = after + int (length items)"
  by (induction items arbitrary: after) (auto split: if_splits)

lemma uint63_bigInt_eq: "uint63Valid s \<Longrightarrow> uint63Valid t \<Longrightarrow> bigInt s = bigInt t \<longleftrightarrow> s = t"
  by (simp add: uint63Valid_def bigInt_eq_iff)

lemma snapshotHead_iff:
  assumes position: "bigInt (ha_position (lastAnchor anchor items)) = bigInt (lh_position (ps_logHead snapshot))"
    and "uint63Valid (ha_position (lastAnchor anchor items))" "pageSnapshotValid H snapshot"
  shows "verifySnapshotHead snapshot anchor items = Inr () \<longleftrightarrow> headMatches (lastAnchor anchor items) (ps_logHead snapshot)"
proof -
  have "lh_position (ps_logHead snapshot) = ha_position (lastAnchor anchor items)"
    using assms uint63_bigInt_eq [of "ha_position (lastAnchor anchor items)" "lh_position (ps_logHead snapshot)"]
    by (auto simp: pageSnapshotValid_def logHeadValid_def)
  moreover have "wr_position (ps_witnessReceipt snapshot) = lh_position (ps_logHead snapshot)"
    "wr_headHash (ps_witnessReceipt snapshot) = lh_headHash (ps_logHead snapshot)"
    using assms(3) by (auto simp: pageSnapshotValid_def)
  ultimately show ?thesis
    by (auto simp: verifySnapshotHead_def Let_def map_of_heads_last headMatches_def)
qed

definition policyAnchored :: "pageSnapshot \<Rightarrow> headAnchor \<Rightarrow> eventItem list \<Rightarrow> bool" where
  "policyAnchored snapshot anchor items =
     (if bigInt (ps_policyDeliveryLogPosition snapshot) \<le> bigInt (ha_position anchor)
      then bigInt (ps_policyDeliveryLogPosition snapshot) = bigInt (ha_position anchor)
             \<longrightarrow> ps_policyDeliveryLogHeadHash snapshot = ha_headHash anchor
      else \<exists>item \<in> set items. se_position (stored item) = ps_policyDeliveryLogPosition snapshot
             \<and> se_headHash (stored item) = ps_policyDeliveryLogHeadHash snapshot)"

lemma consecutive_positions_distinct: "consecutive after items \<Longrightarrow> distinct (map (\<lambda>item. se_position (stored item)) items)"
proof -
  assume c: "consecutive after items"
  have "se_position (stored (items ! i)) \<noteq> se_position (stored (items ! j))" if "i < length items" "j < length items" "i \<noteq> j" for i j
    using c that by (metis (no_types, lifting) add_left_cancel consecutive_def of_nat_eq_iff)
  then show ?thesis by (auto simp: distinct_conv_nth)
qed

lemma find_key_iff:
  assumes "distinct (map f xs)"
  shows "(case List.find (\<lambda>x. f x = k) xs of None \<Rightarrow> False | Some x \<Rightarrow> P x) \<longleftrightarrow> (\<exists>x \<in> set xs. f x = k \<and> P x)"
  using assms by (induction xs) (auto, metis imageI)

lemma policyAnchor_iff:
  assumes "consecutive after items"
  shows "verifySnapshotPolicyDeliveryAnchor snapshot anchor items = Inr () \<longleftrightarrow> policyAnchored snapshot anchor items"
  using find_key_iff [OF consecutive_positions_distinct [OF assms], where k = "ps_policyDeliveryLogPosition snapshot"
      and P = "\<lambda>item. se_headHash (stored item) = ps_policyDeliveryLogHeadHash snapshot"]
  by (auto simp: verifySnapshotPolicyDeliveryAnchor_def policyAnchored_def Let_def split: option.splits if_splits)

definition joinSatisfied :: "pageFrame \<Rightarrow> eventItem list \<Rightarrow> bool" where
  "joinSatisfied frame items =
     (length (filter (\<lambda>item. ei_welcome item \<noteq> None) items) \<le> 1
      \<and> (expectedWelcomeCommitPosition frame \<noteq> None \<longrightarrow> length (filter (\<lambda>item. ei_welcome item \<noteq> None) items) = 1)
      \<and> (requiresJoinCommit frame \<longrightarrow> items \<noteq> [] \<and> se_position (stored (hd items)) = mw_joinedPosition (pf_membership frame)
           \<and> se_envelopeClass (stored (hd items)) = MlsCommit))"

lemma checkJoinCommit_iff:
  "checkJoinCommit frame (foldl pushItem (initialScan frame) items) = Inr () \<longleftrightarrow> joinSatisfied frame items"
proof -
  have scan: "sc_events (foldl pushItem (initialScan frame) items) = items"
    "sc_welcomeCount (foldl pushItem (initialScan frame) items) = length (filter (\<lambda>item. ei_welcome item \<noteq> None) items)"
    by (simp_all add: foldl_pushItem initialScan_def)
  show ?thesis unfolding checkJoinCommit_def joinSatisfied_def scan by (cases items) auto
qed

subsection \<open>Pages\<close>

definition hidesNothing :: "(bytes \<Rightarrow> bytes) \<Rightarrow> pageInput \<Rightarrow> pageFrame \<Rightarrow> verifiedPage \<Rightarrow> bool" where
  "hidesNothing H input frame page =
     ((vp_events page = [] \<longrightarrow> \<not> vp_hasMore page
         \<and> (\<exists>projection. parseConversationPolicyProjection H (pi_policyProjectionAtAnchor input) = Inr projection
               \<and> snapshotMatchesPolicyProjection (vp_snapshot page) projection))
      \<and> (case mw_removedPosition (pf_membership frame) of None \<Rightarrow> True
         | Some removed \<Rightarrow> bigInt (lh_position (ps_logHead (vp_snapshot page))) \<le> bigInt removed
             \<and> (lh_position (ps_logHead (vp_snapshot page)) = removed \<longrightarrow> \<not> vp_hasMore page)))"

definition snapshotBound :: "(bytes \<Rightarrow> bytes) \<Rightarrow> pageInput \<Rightarrow> pageFrame \<Rightarrow> pageSnapshot \<Rightarrow> bool" where
  "snapshotBound H input frame snapshot =
     (pageSnapshotValid H snapshot \<and> ps_conversationId snapshot = cx_conversationId (pf_context frame)
      \<and> ps_generation snapshot = pi_conversationGeneration input \<and> ps_releaseProfileId snapshot = pi_releaseProfileId input
      \<and> ps_deliveryLimitsDigest snapshot = pi_deliveryLimitsDigest input)"

definition pageAcceptable :: "(bytes \<Rightarrow> bytes) \<Rightarrow> pageInput \<Rightarrow> pageFrame \<Rightarrow> verifiedPage \<Rightarrow> bool" where
  "pageAcceptable H input frame page =
     (list_all (itemValid H (cx_installationId (pf_context frame)) (pi_limits input)) (vp_events page)
      \<and> int (length (vp_events page)) \<le> bigInt (pf_requestedLimit frame)
      \<and> eventsContinue (pi_limits input) frame (vp_events page) \<and> joinSatisfied frame (vp_events page)
      \<and> snapshotBound H input frame (vp_snapshot page)
      \<and> headMatches (lastAnchor (pf_anchor frame) (vp_events page)) (ps_logHead (vp_snapshot page))
      \<and> policyAnchored (vp_snapshot page) (pf_anchor frame) (vp_events page) \<and> hidesNothing H input frame page
      \<and> parseEncodedConversationCursor (JStr (vp_nextCursor page)) (encodeLimits (pi_limits input)) = Inr (vp_nextCursor page)
      \<and> vp_decodedArtifactBytes page = bigIntToString (totalBytes (vp_events page))
      \<and> vp_serializedBytes page = showNat (pi_serializedBytes input))"

lemma parseEncodedConversationCursor_text: "parseEncodedConversationCursor v limits = Inr s \<Longrightarrow> v = JStr s"
  by (cases v) (auto simp: parseEncodedConversationCursor_def bindE_eq_Inr Let_def split: if_splits)

lemma lastAnchor_position:
  assumes "openPageRequest input = Inr frame" "list_all (itemValid H installation limits) items"
    and "consecutive (bigInt (pf_requestedAfterPosition frame)) items"
  shows "uint63Valid (ha_position (lastAnchor (pf_anchor frame) items))"
    "bigInt (ha_position (lastAnchor (pf_anchor frame) items)) = bigInt (pf_requestedAfterPosition frame) + int (length items)"
proof -
  note frame = openPageRequest_frame [OF assms(1)]
  have "storedCommonValid H (stored (last items))" if "items \<noteq> []"
    using assms(2) that by (auto simp: list_all_iff itemValid_def storedEnvelopeValid_common)
  then show "uint63Valid (ha_position (lastAnchor (pf_anchor frame) items))"
    using frame(3) by (auto simp: lastAnchor_def anchorOfEnvelope_def Let_def anchorValid_def storedCommonValid_def)
  show "bigInt (ha_position (lastAnchor (pf_anchor frame) items)) = bigInt (pf_requestedAfterPosition frame) + int (length items)"
    using frame(4) consecutive_last [OF assms(3)] by (simp add: lastAnchor_def anchorOfEnvelope_def Let_def)
qed

text \<open>The last three checks together: the page ends at the signed head of the snapshot and hides nothing.\<close>

lemma page_end_iff:
  assumes "openPageRequest input = Inr frame" "list_all (itemValid H installation limits) items"
    and "consecutive (bigInt (pf_requestedAfterPosition frame)) items" "pageSnapshotValid H snapshot"
    and "vp_events page = items" "vp_snapshot page = snapshot" "vp_hasMore page = hasMore"
  shows "verifySnapshotHead snapshot (pf_anchor frame) items = Inr ()
      \<and> checkPageEnd H input frame (foldl pushItem (initialScan frame) items) snapshot hasMore = Inr ()
    \<longleftrightarrow> headMatches (lastAnchor (pf_anchor frame) items) (ps_logHead snapshot) \<and> hidesNothing H input frame page"
proof -
  let ?scan = "foldl pushItem (initialScan frame) items" and ?p = "bigInt (lh_position (ps_logHead snapshot))"
  have scan: "sc_events ?scan = items" "sc_previousPosition ?scan = bigInt (pf_requestedAfterPosition frame) + int (length items)"
    using assms(3) by (simp_all add: foldl_pushItem foldl_pushItem_position initialScan_def)
  note position = lastAnchor_position [OF assms(1-3)]
  show ?thesis
  proof (cases "?p = bigInt (pf_requestedAfterPosition frame) + int (length items)")
    case True
    then have "verifySnapshotHead snapshot (pf_anchor frame) items = Inr ()
        \<longleftrightarrow> headMatches (lastAnchor (pf_anchor frame) items) (ps_logHead snapshot)"
      using position assms(4) by (intro snapshotHead_iff) simp_all
    moreover have "checkPageEnd H input frame ?scan snapshot hasMore = Inr () \<longleftrightarrow> hidesNothing H input frame page"
      using True
      by (auto simp: checkPageEnd_def hidesNothing_def Let_def scan assms(5-7) bindE_eq_Inr not_less split: if_splits option.splits)
    ultimately show ?thesis by simp
  next
    case False
    then have "checkPageEnd H input frame ?scan snapshot hasMore \<noteq> Inr ()"
      by (auto simp: checkPageEnd_def Let_def scan bindE_eq_Inr split: if_splits)
    moreover have "\<not> headMatches (lastAnchor (pf_anchor frame) items) (ps_logHead snapshot)"
      using False position(2) by (auto simp: headMatches_def)
    ultimately show ?thesis by simp
  qed
qed

definition encodePage :: "verifiedPage \<Rightarrow> jsval" where
  "encodePage page = mkRecord [(''events'', mkArray (map encodeItem (vp_events page))), (''nextCursor'', JStr (vp_nextCursor page)),
     (''hasMore'', JBool (vp_hasMore page)), (''snapshot'', encodePageSnapshot (vp_snapshot page))]"

text \<open>A page is read from a value: its fields are the encodings that the parsers undo.\<close>

definition readsAs :: "(bytes \<Rightarrow> bytes) \<Rightarrow> pageInput \<Rightarrow> pageFrame \<Rightarrow> jsval \<Rightarrow> verifiedPage \<Rightarrow> bool" where
  "readsAs H input frame v page = (\<exists>get rawEvents. expectExactRecord v PAGE_KEYS = Inr get \<and> get ''events'' = mkArray rawEvents
     \<and> mapE (\<lambda>raw. parseConversationEventItem H raw (cx_installationId (pf_context frame)) (pi_limits input)) rawEvents = Inr (vp_events page)
     \<and> get ''hasMore'' = JBool (vp_hasMore page) \<and> get ''nextCursor'' = JStr (vp_nextCursor page)
     \<and> parseConversationPageSnapshot H (get ''snapshot'') = Inr (vp_snapshot page))"

lemma mapE_items_valid:
  "mapE (\<lambda>raw. parseConversationEventItem H raw installation limits) vs = Inr items \<Longrightarrow> list_all (itemValid H installation limits) items"
  by (auto simp: mapE_eq_Inr list_all_length list_all2_conv_all_nth intro: item_codec.parse_wf)

lemma verifyConversationPage_iff:
  assumes open_request: "openPageRequest input = Inr frame"
  shows "verifyConversationPage H v input = Inr page \<longleftrightarrow> readsAs H input frame v page \<and> pageAcceptable H input frame page"
    (is "?L \<longleftrightarrow> ?R")
proof
  assume ?L
  then obtain get rawEvents hasMore scan where read: "expectExactRecord v PAGE_KEYS = Inr get"
    "expectDenseArray (get ''events'') (bigInt (pf_requestedLimit frame)) = Inr rawEvents" "get ''hasMore'' = JBool hasMore"
    and cursor: "parseEncodedConversationCursor (get ''nextCursor'') (encodeLimits (pi_limits input)) = Inr (vp_nextCursor page)"
    and snap: "parseConversationPageSnapshot H (get ''snapshot'') = Inr (vp_snapshot page)"
      "snapshotBound H input frame (vp_snapshot page)"
    and scan: "verifyPageEvents H (pi_limits input) frame (initialScan frame) rawEvents = Inr scan"
    and checks: "checkJoinCommit frame scan = Inr ()" "verifySnapshotHead (vp_snapshot page) (pf_anchor frame) (sc_events scan) = Inr ()"
      "verifySnapshotPolicyDeliveryAnchor (vp_snapshot page) (pf_anchor frame) (sc_events scan) = Inr ()"
      "checkPageEnd H input frame scan (vp_snapshot page) hasMore = Inr ()"
    and page: "vp_events page = sc_events scan" "vp_hasMore page = hasMore"
      "vp_decodedArtifactBytes page = bigIntToString (sc_decodedArtifactBytes scan)" "vp_serializedBytes page = showNat (pi_serializedBytes input)"
    unfolding verifyConversationPage_def open_request
    by (auto elim!: bindE_InrE split: jsval.splits if_splits simp: snapshotBound_def page_snapshot_codec.parse_wf)
  obtain items where items: "mapE (\<lambda>raw. parseConversationEventItem H raw (cx_installationId (pf_context frame)) (pi_limits input)) rawEvents = Inr items"
    "eventsContinue (pi_limits input) frame items" "scan = foldl pushItem (initialScan frame) items"
    using scan by (auto simp: verifyPageEvents_initial)
  have events: "sc_events scan = items" "sc_decodedArtifactBytes scan = totalBytes items"
    by (simp_all add: items(3) foldl_pushItem initialScan_def)
  have consecutive: "consecutive (bigInt (pf_requestedAfterPosition frame)) items" using items(2) by (simp add: eventsContinue_def)
  note valid = mapE_items_valid [OF items(1)]
  have "pageSnapshotValid H (vp_snapshot page)" using snap(2) by (simp add: snapshotBound_def)
  note ends = page_end_iff [OF open_request valid consecutive this, of page hasMore]
  show ?R
    unfolding readsAs_def pageAcceptable_def
    using read cursor snap items checks page events valid parseEncodedConversationCursor_text [OF cursor] ends
      mapE_length [OF items(1)] policyAnchor_iff [OF consecutive]
    by (auto simp: expectDenseArray_iff checkJoinCommit_iff)
next
  assume R: ?R
  then obtain get rawEvents where read: "expectExactRecord v PAGE_KEYS = Inr get" "get ''events'' = mkArray rawEvents"
    "mapE (\<lambda>raw. parseConversationEventItem H raw (cx_installationId (pf_context frame)) (pi_limits input)) rawEvents = Inr (vp_events page)"
    "get ''hasMore'' = JBool (vp_hasMore page)" "get ''nextCursor'' = JStr (vp_nextCursor page)"
    "parseConversationPageSnapshot H (get ''snapshot'') = Inr (vp_snapshot page)"
    and ok: "pageAcceptable H input frame page" by (auto simp: readsAs_def)
  let ?scan = "foldl pushItem (initialScan frame) (vp_events page)"
  have consecutive: "consecutive (bigInt (pf_requestedAfterPosition frame)) (vp_events page)"
    using ok by (simp add: pageAcceptable_def eventsContinue_def)
  have loop: "verifyPageEvents H (pi_limits input) frame (initialScan frame) rawEvents = Inr ?scan"
    using read(3) ok by (auto simp: verifyPageEvents_initial pageAcceptable_def)
  have arr: "expectDenseArray (mkArray rawEvents) (bigInt (pf_requestedLimit frame)) = Inr rawEvents"
    using ok mapE_length [OF read(3)] by (simp add: expectDenseArray_iff pageAcceptable_def)
  have events: "sc_events ?scan = vp_events page" "sc_decodedArtifactBytes ?scan = totalBytes (vp_events page)"
    by (simp_all add: foldl_pushItem initialScan_def)
  note valid = mapE_items_valid [OF read(3)]
  have snap: "pageSnapshotValid H (vp_snapshot page)" using ok by (simp add: pageAcceptable_def snapshotBound_def)
  have ends: "verifySnapshotHead (vp_snapshot page) (pf_anchor frame) (vp_events page) = Inr ()"
    "checkPageEnd H input frame ?scan (vp_snapshot page) (vp_hasMore page) = Inr ()"
    using page_end_iff [OF open_request valid consecutive snap refl refl refl] ok by (auto simp: pageAcceptable_def)
  have others: "checkJoinCommit frame ?scan = Inr ()"
    "verifySnapshotPolicyDeliveryAnchor (vp_snapshot page) (pf_anchor frame) (vp_events page) = Inr ()"
    using ok by (auto simp: checkJoinCommit_iff policyAnchor_iff [OF consecutive] pageAcceptable_def)
  show ?L
    using ok by (simp add: verifyConversationPage_def open_request read arr loop events ends others pageAcceptable_def snapshotBound_def)
qed

end
