(* ===== verification/SyncProperties.thy ===== *)
theory SyncProperties
  imports SyncPageProofs CursorProperties
begin

section \<open>Properties of synchronisation\<close>

text \<open>
  What a client knows about the pages it accepts: a page continues its anchor without a gap and inside its membership, a
  page is accepted exactly if it does so, and clients that reach the same head have seen the same conversation.
\<close>

lemma linked_append: "linked head (xs @ ys) \<longleftrightarrow> linked head xs \<and> linked (lastHead head xs) ys"
  by (induction xs arbitrary: head) auto

lemma lastHead_append: "lastHead head (xs @ ys) = lastHead (lastHead head xs) ys"
  by (induction xs arbitrary: head) auto

lemma lastHead_lastAnchor: "lastHead (ha_headHash anchor) (map ei_envelope items) = ha_headHash (lastAnchor anchor items)"
  by (cases items rule: rev_cases) (simp_all add: lastHead_append lastAnchor_def anchorOfEnvelope_def Let_def)

lemma consecutive_append: "consecutive after (xs @ ys) \<longleftrightarrow> consecutive after xs \<and> consecutive (after + int (length xs)) ys"
  by (induction xs arbitrary: after) (auto simp: add.assoc)

definition anchorOfLogHead :: "signedLogHead \<Rightarrow> headAnchor" where
  "anchorOfLogHead h = \<lparr>ha_position = lh_position h, ha_previousHeadHash = lh_previousHeadHash h, ha_headHash = lh_headHash h,
     ha_checkpointReceivedAt = Some (lh_checkpointReceivedAt h)\<rparr>"

lemma headMatches_anchor: "headMatches anchor h \<longleftrightarrow> anchor = anchorOfLogHead h"
  by (auto simp: headMatches_def anchorOfLogHead_def intro: headAnchor.equality)

lemma accepted_page:
  assumes "verifyConversationPage H v input = Inr page"
  obtains frame where "openPageRequest input = Inr frame" "pageAcceptable H input frame page"
  using assms verifyConversationPage_iff [of input _ H v page] unfolding verifyConversationPage_def [of H v input]
  by (cases "openPageRequest input") auto

lemma acceptable_page:
  assumes "openPageRequest input = Inr frame" "pageAcceptable H input frame page"
  shows "list_all (\<lambda>item. storedEnvelopeValid H (ei_envelope item)) (vp_events page)" "list_all (itemAdmissible frame) (vp_events page)"
    "consecutive (bigInt (ha_position (pf_anchor frame))) (vp_events page)"
    "linked (ha_headHash (pf_anchor frame)) (map ei_envelope (vp_events page))"
    "lastAnchor (pf_anchor frame) (vp_events page) = anchorOfLogHead (ps_logHead (vp_snapshot page))"
    "lastHead (ha_headHash (pf_anchor frame)) (map ei_envelope (vp_events page)) = lh_headHash (ps_logHead (vp_snapshot page))"
    "bigInt (lh_position (ps_logHead (vp_snapshot page))) = bigInt (ha_position (pf_anchor frame)) + int (length (vp_events page))"
proof -
  have items: "list_all (itemValid H (cx_installationId (pf_context frame)) (pi_limits input)) (vp_events page)"
    and continue_anchor: "eventsContinue (pi_limits input) frame (vp_events page)"
    and last: "lastAnchor (pf_anchor frame) (vp_events page) = anchorOfLogHead (ps_logHead (vp_snapshot page))"
    using assms(2) by (auto simp: pageAcceptable_def headMatches_anchor)
  note position = openPageRequest_frame(4) [OF assms(1)]
  show "list_all (\<lambda>item. storedEnvelopeValid H (ei_envelope item)) (vp_events page)"
    using items by (auto simp: list_all_iff itemValid_def)
  show "list_all (itemAdmissible frame) (vp_events page)" "linked (ha_headHash (pf_anchor frame)) (map ei_envelope (vp_events page))"
    "consecutive (bigInt (ha_position (pf_anchor frame))) (vp_events page)"
    using continue_anchor position by (simp_all add: eventsContinue_def)
  show "lastAnchor (pf_anchor frame) (vp_events page) = anchorOfLogHead (ps_logHead (vp_snapshot page))" by (rule last)
  then show "lastHead (ha_headHash (pf_anchor frame)) (map ei_envelope (vp_events page)) = lh_headHash (ps_logHead (vp_snapshot page))"
    by (simp add: lastHead_lastAnchor anchorOfLogHead_def)
  show "bigInt (lh_position (ps_logHead (vp_snapshot page))) = bigInt (ha_position (pf_anchor frame)) + int (length (vp_events page))"
    using lastAnchor_position(2) [OF assms(1) items] continue_anchor last position
    by (simp add: eventsContinue_def anchorOfLogHead_def)
qed

subsection \<open>One page\<close>

text \<open>
  C15. An accepted page continues the anchor of the request. Its events are valid envelopes of the conversation, their
  positions follow the position of the anchor one by one, each extends the head before it, starting from the head of the
  anchor, and all lie in the membership window; no envelope identifier occurs twice; the last one (or the anchor, if there is
  none) is the head that the snapshot signs and the witness receipt names; there are at most 500 events and at most 4 MiB
  of decoded bytes.
\<close>

theorem accepted_page_continues:
  assumes "verifyConversationPage H v input = Inr page"
  shows "\<exists>frame. openPageRequest input = Inr frame
    \<and> (\<forall>item \<in> set (vp_events page). storedEnvelopeValid H (ei_envelope item)
         \<and> se_conversationId (stored item) = cx_conversationId (pf_context frame) \<and> inWindow (pf_membership frame) (itemPosition item))
    \<and> (\<forall>i < length (vp_events page). itemPosition (vp_events page ! i) = bigInt (ha_position (pf_anchor frame)) + 1 + int i)
    \<and> linked (ha_headHash (pf_anchor frame)) (map ei_envelope (vp_events page))
    \<and> distinct (map (\<lambda>item. se_envelopeId (stored item)) (vp_events page))
    \<and> lastHead (ha_headHash (pf_anchor frame)) (map ei_envelope (vp_events page)) = lh_headHash (ps_logHead (vp_snapshot page))
    \<and> wr_headHash (ps_witnessReceipt (vp_snapshot page)) = lh_headHash (ps_logHead (vp_snapshot page))
    \<and> bigInt (lh_position (ps_logHead (vp_snapshot page))) = bigInt (ha_position (pf_anchor frame)) + int (length (vp_events page))
    \<and> length (vp_events page) \<le> 500 \<and> totalBytes (vp_events page) \<le> 4194304"
proof (rule accepted_page [OF assms])
  fix frame
  assume frame: "openPageRequest input = Inr frame" "pageAcceptable H input frame page"
  note facts = acceptable_page [OF frame]
  have more_facts: "int (length (vp_events page)) \<le> bigInt (pf_requestedLimit frame)" "eventsContinue (pi_limits input) frame (vp_events page)"
    "pageSnapshotValid H (vp_snapshot page)"
    using frame(2) by (auto simp: pageAcceptable_def snapshotBound_def)
  have "wr_headHash (ps_witnessReceipt (vp_snapshot page)) = lh_headHash (ps_logHead (vp_snapshot page))"
    using more_facts(3) by (auto simp: pageSnapshotValid_def)
  moreover have "length (vp_events page) \<le> 500"
    using more_facts(1) openPageRequest_frame(6) [OF frame(1)] by (simp add: CONVERSATION_PAGE_HARD_MAX_EVENTS_def)
  moreover have "totalBytes (vp_events page) \<le> 4194304"
    using more_facts(2) by (simp add: eventsContinue_def pageBudget_def CONVERSATION_PAGE_HARD_MAX_DECODED_ARTIFACT_BYTES_def)
  moreover have "distinct (map (\<lambda>item. se_envelopeId (stored item)) (vp_events page))"
    using more_facts(2) by (simp add: eventsContinue_def)
  ultimately show ?thesis
    using frame(1) facts by (intro exI [of _ frame]) (auto simp: list_all_iff itemAdmissible_def consecutive_def)
qed

lemma encodePage_reads:
  assumes ok: "pageAcceptable H input frame page"
  shows "readsAs H input frame (encodePage page) page"
proof -
  have read: "expectExactRecord (encodePage page) PAGE_KEYS = Inr (fieldOf
      [(''events'', mkArray (map encodeItem (vp_events page))), (''nextCursor'', JStr (vp_nextCursor page)),
       (''hasMore'', JBool (vp_hasMore page)), (''snapshot'', encodePageSnapshot (vp_snapshot page))])"
    unfolding encodePage_def
    by (rule expectExactRecord_mkRecord) (simp_all add: PAGE_KEYS_def mkArray_def encodePageSnapshot_def mkRecord_def)
  have "mapE (\<lambda>raw. parseConversationEventItem H raw (cx_installationId (pf_context frame)) (pi_limits input))
      (map encodeItem (vp_events page)) = Inr (vp_events page)"
    using ok by (auto simp: mapE_eq_Inr list_all2_conv_all_nth pageAcceptable_def list_all_length item_codec.parse_encode)
  then show ?thesis
    using ok unfolding readsAs_def
    by (intro exI [of _ "fieldOf _"] exI [of _ "map encodeItem (vp_events page)"] conjI, unfold read)
      (auto simp: page_snapshot_codec.parse_encode pageAcceptable_def snapshotBound_def)
qed

text \<open>
  C16. A page is accepted exactly if it is acceptable. Once the request itself is in order, the page that encodes given
  items, cursor and snapshot passes every check if and only if its items are valid for the client, continue the anchor
  within the limits, contain the commit and the Welcome of a join where the client has to see them, end in the signed
  head, and hide nothing.
\<close>

theorem page_acceptance_exact:
  assumes "openPageRequest input = Inr frame"
  shows "verifyConversationPage H (encodePage page) input = Inr page \<longleftrightarrow> pageAcceptable H input frame page"
  using encodePage_reads verifyConversationPage_iff [OF assms] by blast

subsection \<open>Page after page\<close>

text \<open>
  A client that synchronises a conversation: from the anchor \<open>start\<close> it has accepted pages, each requested at the head the
  page before it ended with, and collected their events.
\<close>

inductive synced :: "(bytes \<Rightarrow> bytes) \<Rightarrow> string \<Rightarrow> headAnchor \<Rightarrow> headAnchor \<Rightarrow> eventItem list \<Rightarrow> bool"
  for H conversation start where
  synced_start: "synced H conversation start start []"
| synced_page: "synced H conversation start anchor items \<Longrightarrow> openPageRequest input = Inr frame \<Longrightarrow> pf_anchor frame = anchor \<Longrightarrow>
    cx_conversationId (pf_context frame) = conversation \<Longrightarrow> verifyConversationPage H v input = Inr page \<Longrightarrow>
    synced H conversation start (anchorOfLogHead (ps_logHead (vp_snapshot page))) (items @ vp_events page)"

lemma synced_run:
  assumes "synced H conversation start anchor items"
  shows "list_all (\<lambda>item. storedEnvelopeValid H (ei_envelope item) \<and> se_conversationId (stored item) = conversation) items
    \<and> consecutive (bigInt (ha_position start)) items
    \<and> linked (ha_headHash start) (map ei_envelope items) \<and> lastHead (ha_headHash start) (map ei_envelope items) = ha_headHash anchor
    \<and> bigInt (ha_position anchor) = bigInt (ha_position start) + int (length items)"
  using assms
proof (induction rule: synced.induct)
  case (synced_page anchor items input frame v page)
  have ok: "pageAcceptable H input frame page"
    using synced_page.hyps(5) verifyConversationPage_iff [OF synced_page.hyps(2)] by blast
  note facts = acceptable_page [OF synced_page.hyps(2) ok]
  have "list_all (\<lambda>item. storedEnvelopeValid H (ei_envelope item) \<and> se_conversationId (stored item) = conversation) (vp_events page)"
    using facts(1,2) synced_page.hyps(4) by (auto simp: list_all_iff itemAdmissible_def)
  then show ?case
    using synced_page.IH facts(3,4,6,7) synced_page.hyps(3)
    by (simp add: consecutive_append linked_append lastHead_append anchorOfLogHead_def)
qed simp

text \<open>
  C17. Synchronising page by page collects the log without a gap: after any number of accepted pages the events the client
  has are valid envelopes of the conversation, at the positions that follow its first anchor one by one, each extending the
  head before it, and the anchor it stands at is the head of the last of them.
\<close>

theorem sync_is_gapless:
  assumes "synced H conversation start anchor items"
  shows "list_all (\<lambda>item. storedEnvelopeValid H (ei_envelope item) \<and> se_conversationId (stored item) = conversation) items
    \<and> (\<forall>i < length items. itemPosition (items ! i) = bigInt (ha_position start) + 1 + int i)
    \<and> linked (ha_headHash start) (map ei_envelope items) \<and> lastHead (ha_headHash start) (map ei_envelope items) = ha_headHash anchor
    \<and> bigInt (ha_position anchor) = bigInt (ha_position start) + int (length items)"
  using synced_run [OF assms] by (simp add: consecutive_def)

text \<open>
  C18. Clients that reach the same head have seen the same conversation. If two clients start at the same position and
  stand at the same position and head after any number of accepted pages, they started from the same head and have
  the same envelopes, metadata and bytes, as far as SHA-256 does not collide on what was hashed for them. A server cannot
  show different histories to clients that compare the head they stand at.
\<close>

theorem synced_clients_agree:
  assumes "synced H conversation start anchor items" "synced H conversation' start' anchor' items'"
    and "anchorValid start" "anchorValid start'" "ha_position start = ha_position start'"
    and "ha_position anchor = ha_position anchor'" "ha_headHash anchor = ha_headHash anchor'"
    and "inj_on H (hashedAlong H (ha_headHash start) (map ei_envelope items) \<union> hashedAlong H (ha_headHash start') (map ei_envelope items'))"
  shows "ha_headHash start = ha_headHash start' \<and>
    map (\<lambda>item. (leafInputOf (stored item), se_envelopeBytes (stored item))) items
      = map (\<lambda>item. (leafInputOf (stored item), se_envelopeBytes (stored item))) items'"
proof -
  have run: "list_all (storedEnvelopeValid H) (map ei_envelope is)" "linked (ha_headHash a) (map ei_envelope is)"
      "lastHead (ha_headHash a) (map ei_envelope is) = ha_headHash b" "bigInt (ha_position b) = bigInt (ha_position a) + int (length is)"
    if "synced H c a b is" for c a b "is"
    using synced_run [OF that] by (auto simp: list_all_iff)
  note mine = run [OF assms(1)] and theirs = run [OF assms(2)]
  have len: "length (map ei_envelope items) = length (map ei_envelope items')"
    using mine(4) theirs(4) assms(5,6) by simp
  have last: "lastHead (ha_headHash start) (map ei_envelope items) = lastHead (ha_headHash start') (map ei_envelope items')"
    using mine(3) theirs(3) assms(7) by simp
  have head: "hash32Valid (ha_headHash start)" "hash32Valid (ha_headHash start')" using assms(3,4) by (auto simp: anchorValid_def)
  note binding = linked_binding [OF mine(1) theirs(1) mine(2) theirs(2) len last head assms(8)]
  have "ha_headHash start = ha_headHash start'
    \<and> map (\<lambda>env. (leafInputOf (storedCommon env), se_envelopeBytes (storedCommon env))) (map ei_envelope items)
      = map (\<lambda>env. (leafInputOf (storedCommon env), se_envelopeBytes (storedCommon env))) (map ei_envelope items')"
    using binding by blast
  then show ?thesis by (simp add: comp_def)
qed

subsection \<open>A first page\<close>

text \<open>The creator of a conversation asks for its first page and gets the commit that created it.\<close>

definition sampleCommitLeaf :: envelopeLeafInput where
  "sampleCommitLeaf = sampleLeaf\<lparr>leafPosition := ''1'', leafEnvelopeClass := MlsCommit, leafContentType := MLS_PUBLIC_MESSAGE_MEDIA_TYPE,
     leafEnvelopeSha256 := b64encode (lengthHash [1, 2])\<rparr>"

definition sampleSignature :: string where
  "sampleSignature = b64encode (replicate 64 1)"

definition sampleCommitCommon :: storedEnvelopeCommon where
  "sampleCommitCommon = storedOf lengthHash sampleCommitLeaf (b64encode [1, 2]) ZERO_HASH32 ''log-1'' sampleSignature"

definition sampleCommitItem :: eventItem where
  "sampleCommitItem = \<lparr>ei_envelope = StoredMlsCommit sampleCommitCommon hashText hashText, ei_welcome = None\<rparr>"

definition sampleWindow :: membershipWindow where
  "sampleWindow = \<lparr>mw_bootstrapMode = CreatorBootstrap, mw_credentialId = sampleCredentialId, mw_credentialFingerprint = hashText,
     mw_joinedPosition = ''1'', mw_removedPosition = None\<rparr>"

definition emptyLogAnchor :: headAnchor where
  "emptyLogAnchor = \<lparr>ha_position = ''0'', ha_previousHeadHash = ZERO_HASH32, ha_headHash = ZERO_HASH32, ha_checkpointReceivedAt = None\<rparr>"

definition samplePageInput :: pageInput where
  "samplePageInput = \<lparr>pi_cursorContext = encodeCursorContext sampleCursorContext, pi_requestedCursor = JNull,
     pi_requestedCursorClaims = None, pi_requestedLimit = JStr ''2'', pi_membership = encodeWindow sampleWindow,
     pi_retainedFloor = JStr ''1'', pi_anchor = encodeAnchor emptyLogAnchor, pi_policyProjectionAtAnchor = JNull,
     pi_conversationGeneration = ''1'', pi_releaseProfileId = ''release-1'', pi_deliveryLimitsDigest = hashText,
     pi_limits = sampleCursorLimits, pi_serializedBytes = 4000\<rparr>"

definition sampleFrame :: pageFrame where
  "sampleFrame = \<lparr>pf_context = sampleCursorContext, pf_requestedLimit = ''2'', pf_membership = sampleWindow, pf_anchor = emptyLogAnchor,
     pf_requestedAfterPosition = ''0''\<rparr>"

definition sampleLogHead :: signedLogHead where
  "sampleLogHead = \<lparr>lh_position = ''1'', lh_previousHeadHash = ZERO_HASH32, lh_headHash = se_headHash sampleCommitCommon,
     lh_signingKeyId = ''log-1'', lh_checkpointDigest = se_logCheckpointDigest sampleCommitCommon, lh_signature = sampleSignature,
     lh_checkpointReceivedAt = receivedAt\<rparr>"

definition sampleReceipt :: witnessReceipt where
  "sampleReceipt = \<lparr>wr_conversationId = sampleConversationId, wr_position = ''1'', wr_headHash = se_headHash sampleCommitCommon,
     wr_witnessCheckpointId = sampleCheckpointId, wr_witnessTreeSize = ''1'', wr_witnessRootHash = hashText, wr_witnessKeyId = ''log-1'',
     wr_witnessSignature = sampleSignature, wr_witnessedAt = receivedAt\<rparr>"

definition samplePageSnapshot :: pageSnapshot where
  "samplePageSnapshot = \<lparr>ps_conversationId = sampleConversationId, ps_generation = ''1'', ps_releaseProfileId = ''release-1'',
     ps_deliveryLimitsDigest = hashText, ps_etag = etagText ''1'' ''1'', ps_epoch = ''1'', ps_rosterVersion = ''1'',
     ps_confirmedTranscriptHash = hashText, ps_policyHeadId = sampleCheckpointId, ps_policyRevision = ''1'',
     ps_policyMandatoryProposalCount = ''0'', ps_policyMandatoryProposalSetHash = ZERO_HASH32, ps_policyMandatoryProposals = [],
     ps_policyAuthorizedSendGrantSetHash = hashText, ps_policyAuthorizedQuotaPolicyDigest = hashText, ps_policyHeadSequence = ''1'',
     ps_policyHeadHash = hashText, ps_policyDeliveryLogPosition = ''0'', ps_policyDeliveryLogHeadHash = ZERO_HASH32,
     ps_policyWitnessCheckpointId = sampleCheckpointId, ps_policyWitnessEvidenceDigest = hashText, ps_logHead = sampleLogHead,
     ps_witnessReceipt = sampleReceipt\<rparr>"

definition sampleVerifiedPage :: verifiedPage where
  "sampleVerifiedPage = \<lparr>vp_events = [sampleCommitItem], vp_nextCursor = tokenOf (replicate 32 0), vp_hasMore = False,
     vp_snapshot = samplePageSnapshot, vp_decodedArtifactBytes = ''2'', vp_serializedBytes = ''4000''\<rparr>"

lemma sampleCommitLeaf_valid: "leafValid sampleCommitLeaf"
  using sampleLeaf_valid hashed_valid [OF lengthHash_length]
  by (simp add: leafValid_def sampleCommitLeaf_def sampleLeaf_def requireClassSenderAndMediaType_def)

lemma sample_small_values [simp]: "b64Valid 64 64 sampleSignature" "SIGNING_KEY_ID ''log-1''" "RELEASE_PROFILE_ID ''release-1''"
proof -
  show "b64Valid 64 64 sampleSignature"
    unfolding b64Valid_iff sampleSignature_def by (intro exI [of _ "replicate 64 1"]) simp
qed (simp_all add: SIGNING_KEY_ID_def RELEASE_PROFILE_ID_def identShape_def isLowerAlnum_def isDigit_def)

lemma sampleCommit_valid: "storedCommonValid lengthHash sampleCommitCommon"
proof -
  have "carriesHash lengthHash (maximumEnvelopeBytes (leafEnvelopeClass sampleCommitLeaf)) (b64encode [1, 2]) (leafEnvelopeSha256 sampleCommitLeaf)"
    using hashed_valid [OF lengthHash_length, of "[1, 2]"]
    by (auto simp: carriesHash_def b64Valid_iff sampleCommitLeaf_def maximumEnvelopeBytes_def MAX_MLS_COMMIT_ENVELOPE_BYTES_def
        intro!: exI [of _ "[1, 2]"])
  then show ?thesis
    unfolding sampleCommitCommon_def
    by (intro storedOf_valid sampleCommitLeaf_valid lengthHash_length) (simp_all add: sampleCommitLeaf_def)
qed

lemma sampleCommit_fields [simp]:
  "se_conversationId sampleCommitCommon = sampleConversationId" "se_position sampleCommitCommon = ''1''"
  "se_envelopeId sampleCommitCommon = sampleCredentialId" "se_envelopeClass sampleCommitCommon = MlsCommit"
  "se_envelopeBytes sampleCommitCommon = b64encode [1, 2]" "se_receivedAt sampleCommitCommon = receivedAt"
  "se_previousHeadHash sampleCommitCommon = ZERO_HASH32"
  by (simp_all add: sampleCommitCommon_def storedOf_def Let_def sampleCommitLeaf_def sampleLeaf_def)

lemma sample_request_fields [simp]:
  "mw_bootstrapMode sampleWindow = CreatorBootstrap" "mw_joinedPosition sampleWindow = ''1''" "mw_removedPosition sampleWindow = None"
  "ha_position emptyLogAnchor = ''0''" "ha_previousHeadHash emptyLogAnchor = ZERO_HASH32" "ha_headHash emptyLogAnchor = ZERO_HASH32"
  "ha_checkpointReceivedAt emptyLogAnchor = None"
  by (simp_all add: sampleWindow_def emptyLogAnchor_def)

lemma sampleFrame_opens: "openPageRequest samplePageInput = Inr sampleFrame"
proof -
  have cx: "parseConversationCursorContext (encodeCursorContext sampleCursorContext) = Inr sampleCursorContext"
    using samplePlaintext_valid(3) by (rule parseConversationCursorContext_encode)
  have window: "parseMembershipWindow (encodeWindow sampleWindow) = Inr sampleWindow"
    by (rule window_codec.parse_encode) (simp add: windowValid_def sampleWindow_def atOrAfter_def)
  have anchor: "parseHeadAnchor (encodeAnchor emptyLogAnchor) = Inr emptyLogAnchor"
    by (rule anchor_codec.parse_encode) (simp add: anchorValid_def emptyLogAnchor_def ZERO_HASH32_valid)
  have "bigIntToString 0 = ''0''" using bigIntToString_of_nat [of 0] by (simp add: showNat_0)
  moreover have "bigInt (bigIntToString 1) = 1" by simp
  ultimately show ?thesis
    by (simp add: openPageRequest_def samplePageInput_def cx window anchor sampleFrame_def requestedAfterPosition_def
        boundaryBeforeJoin_def decrementPositive_def validateAnchor_def checkRetention_def incrementUint63_def
        CONVERSATION_PAGE_HARD_MAX_EVENTS_def sampleCursorLimits_def parse_ok Let_def)
qed

lemma length_sampleHeadPreimage:
  "length (headPreimage ZERO_HASH32 (b64encode (lengthHash x))) = 82"
  by (simp add: headPreimage_def LOG_HEAD_HASH_DOMAIN_def utf8_def utf8_char_def Let_def ZERO_HASH32_bytes lengthHash_def)

lemma sampleCommit_head [simp]: "nonZeroHashValid (se_headHash sampleCommitCommon)"
proof -
  obtain x where x: "se_headHash sampleCommitCommon = b64encode (lengthHash (headPreimage ZERO_HASH32 (b64encode (lengthHash x))))"
    by (auto simp: sampleCommitCommon_def storedOf_def Let_def)
  have "beNat (lengthHash (headPreimage ZERO_HASH32 (b64encode (lengthHash x)))) = 82"
    by (simp add: lengthHash_def [of "headPreimage _ _"] length_sampleHeadPreimage beNat_beBytes)
  moreover have "beNat (replicate 32 0) = 0" by (simp add: beNat_def numeral_eq_Suc)
  ultimately have "lengthHash (headPreimage ZERO_HASH32 (b64encode (lengthHash x))) \<noteq> replicate 32 0" by (auto dest!: arg_cong [where f = beNat])
  then show ?thesis unfolding x nonZeroHashValid_def using encoded_not_zero hashed_valid [OF lengthHash_length] by blast
qed

lemma sampleLogHead_valid: "logHeadValid lengthHash sampleConversationId sampleLogHead"
proof -
  have "checkpointInputOf sampleCommitCommon = \<lparr>cpConversationId = sampleConversationId, cpPosition = ''1'',
      cpPreviousHeadHash = ZERO_HASH32, cpHeadHash = se_headHash sampleCommitCommon, cpSigningKeyId = ''log-1''\<rparr>"
    by (simp add: checkpointInputOf_def) (simp add: sampleCommitCommon_def storedOf_def Let_def)
  moreover have "computeDeliveryLogCheckpointDigest lengthHash (encodeCheckpoint (checkpointInputOf sampleCommitCommon))
      = Inr (se_logCheckpointDigest sampleCommitCommon)" "hash32Valid (se_logCheckpointDigest sampleCommitCommon)"
    using sampleCommit_valid by (auto simp: storedCommonValid_def storedHashes_def)
  ultimately show ?thesis by (simp add: logHeadValid_def sampleLogHead_def ZERO_HASH32_valid)
qed

lemma samplePage_acceptable: "pageAcceptable lengthHash samplePageInput sampleFrame sampleVerifiedPage"
proof -
  have item: "itemValid lengthHash sampleConversationId sampleCursorLimits sampleCommitItem"
    using sampleCommit_valid
    by (simp add: itemValid_def sampleCommitItem_def decodedLength_def configuredMaximum_def sampleCursorLimits_def)
  have events: "eventsContinue sampleCursorLimits sampleFrame [sampleCommitItem]"
    by (simp add: eventsContinue_def sampleFrame_def sampleCommitItem_def itemAdmissible_def sampleCursorContext_def inWindow_def
        welcomeExpected_def itemBytes_def decodedLength_def pageBudget_def sampleCursorLimits_def
        CONVERSATION_PAGE_HARD_MAX_FIRST_ITEM_BYTES_def CONVERSATION_PAGE_HARD_MAX_DECODED_ARTIFACT_BYTES_def)
  have join: "joinSatisfied sampleFrame [sampleCommitItem]"
    by (simp add: joinSatisfied_def expectedWelcomeCommitPosition_def sampleFrame_def sampleCommitItem_def)
  have "receiptValid sampleReceipt" by (simp add: receiptValid_def sampleReceipt_def)
  then have snapshot: "snapshotBound lengthHash samplePageInput sampleFrame samplePageSnapshot"
    using sampleLogHead_valid
    by (simp add: snapshotBound_def pageSnapshotValid_def samplePageSnapshot_def samplePageInput_def sampleFrame_def sampleCursorContext_def
        sampleLogHead_def sampleReceipt_def mandatoryProposalsValid_def validatePolicyMandatoryProposalProjection_def
        computePolicyMandatoryProposalSetHash_def DELIVERY_MANDATORY_PROPOSALS_MAX_def ZERO_HASH32_valid)
  have last: "headMatches (lastAnchor emptyLogAnchor [sampleCommitItem]) sampleLogHead"
    by (simp add: headMatches_def lastAnchor_def anchorOfEnvelope_def sampleCommitItem_def sampleLogHead_def)
  have cursor: "parseEncodedConversationCursor (JStr (tokenOf (replicate 32 0))) (encodeLimits sampleCursorLimits) = Inr (tokenOf (replicate 32 0))"
    using sampleCursorLimits_valid by (intro parseEncodedConversationCursor_token) (simp_all add: length_tokenOf)
  have rest: "policyAnchored samplePageSnapshot emptyLogAnchor [sampleCommitItem]"
    "hidesNothing lengthHash samplePageInput sampleFrame sampleVerifiedPage"
    by (simp_all add: policyAnchored_def samplePageSnapshot_def hidesNothing_def sampleVerifiedPage_def sampleFrame_def)
  have "totalBytes [sampleCommitItem] = 2" by (simp add: itemBytes_def sampleCommitItem_def decodedLength_def)
  moreover have "bigIntToString 2 = ''2''" by code_simp
  ultimately have sizes: "bigIntToString (totalBytes [sampleCommitItem]) = ''2''" by simp
  have size4000: "showNat 4000 = ''4000''" by (simp add: showNat.simps digitChar_def) code_simp
  have selectors: "vp_events sampleVerifiedPage = [sampleCommitItem]" "vp_snapshot sampleVerifiedPage = samplePageSnapshot"
    "vp_nextCursor sampleVerifiedPage = tokenOf (replicate 32 0)" "vp_decodedArtifactBytes sampleVerifiedPage = ''2''"
    "vp_serializedBytes sampleVerifiedPage = ''4000''" "pi_limits samplePageInput = sampleCursorLimits" "pi_serializedBytes samplePageInput = 4000"
    "pf_anchor sampleFrame = emptyLogAnchor" "cx_installationId (pf_context sampleFrame) = sampleConversationId"
    "pf_requestedLimit sampleFrame = ''2''" "ps_logHead samplePageSnapshot = sampleLogHead"
    by (simp_all add: sampleVerifiedPage_def samplePageInput_def sampleFrame_def sampleCursorContext_def samplePageSnapshot_def)
  show ?thesis
    unfolding pageAcceptable_def selectors sizes size4000 using item events join snapshot last cursor rest by simp
qed

lemma samplePage_accepted: "verifyConversationPage lengthHash (encodePage sampleVerifiedPage) samplePageInput = Inr sampleVerifiedPage"
  using verifyConversationPage_iff [OF sampleFrame_opens] encodePage_reads samplePage_acceptable by blast

lemma sampleRun: "synced lengthHash sampleConversationId emptyLogAnchor (anchorOfLogHead sampleLogHead) [sampleCommitItem]"
  using synced.synced_page [OF synced.synced_start sampleFrame_opens _ _ samplePage_accepted]
  by (simp add: sampleVerifiedPage_def sampleFrame_def sampleCursorContext_def samplePageSnapshot_def)

theorem accepted_page_continues_witness:
  "verifyConversationPage lengthHash (encodePage sampleVerifiedPage) samplePageInput = Inr sampleVerifiedPage
   \<and> length (vp_events sampleVerifiedPage) = 1 \<and> lastHead ZERO_HASH32 (map ei_envelope (vp_events sampleVerifiedPage)) = lh_headHash sampleLogHead"
  using accepted_page_continues [OF samplePage_accepted] samplePage_accepted sampleFrame_opens
  by (auto simp: sampleFrame_def sampleVerifiedPage_def samplePageSnapshot_def)

theorem page_acceptance_exact_witness:
  "verifyConversationPage lengthHash (encodePage sampleVerifiedPage) samplePageInput = Inr sampleVerifiedPage
   \<and> verifyConversationPage lengthHash (encodePage (sampleVerifiedPage\<lparr>vp_events := []\<rparr>)) samplePageInput
       \<noteq> Inr (sampleVerifiedPage\<lparr>vp_events := []\<rparr>)"
proof -
  have "\<not> pageAcceptable lengthHash samplePageInput sampleFrame (sampleVerifiedPage\<lparr>vp_events := []\<rparr>)"
    by (simp add: pageAcceptable_def headMatches_def lastAnchor_def sampleFrame_def sampleVerifiedPage_def samplePageSnapshot_def sampleLogHead_def)
  with samplePage_acceptable show ?thesis by (simp add: page_acceptance_exact [OF sampleFrame_opens])
qed

theorem sync_is_gapless_witness:
  "synced lengthHash sampleConversationId emptyLogAnchor (anchorOfLogHead sampleLogHead) [sampleCommitItem]
   \<and> linked ZERO_HASH32 [ei_envelope sampleCommitItem] \<and> bigInt (ha_position (anchorOfLogHead sampleLogHead)) = 1"
  using sync_is_gapless [OF sampleRun] sampleRun by (simp add: emptyLogAnchor_def)

theorem synced_clients_agree_witness:
  "\<exists>items. synced lengthHash sampleConversationId emptyLogAnchor (anchorOfLogHead sampleLogHead) items \<and> items = [sampleCommitItem]
     \<and> map (\<lambda>item. se_envelopeBytes (stored item)) items = [b64encode [1, 2]]"
proof -
  have anchor: "anchorValid emptyLogAnchor" by (simp add: anchorValid_def ZERO_HASH32_valid)
  have hashed: "hashedAlong lengthHash ZERO_HASH32 [ei_envelope sampleCommitItem] =
      {headPreimage ZERO_HASH32 (b64encode (lengthHash (leafPreimage sampleCommitLeaf))), leafPreimage sampleCommitLeaf, [1, 2]}"
    using storedOf_leaf [of lengthHash sampleCommitLeaf]
    by (simp add: hashedAlong_def leafHashesOf_def sampleCommitItem_def sampleCommitCommon_def storedOf_parts insert_commute)
  have "inj_on lengthHash (hashedAlong lengthHash ZERO_HASH32 [ei_envelope sampleCommitItem])"
    unfolding hashed using length_leafPreimage [OF sampleCommitLeaf_valid] length_sampleHeadPreimage
    by (intro lengthHash_inj) (auto simp: inj_on_def)
  then have "inj_on lengthHash (hashedAlong lengthHash (ha_headHash emptyLogAnchor) (map ei_envelope [sampleCommitItem])
      \<union> hashedAlong lengthHash (ha_headHash emptyLogAnchor) (map ei_envelope [sampleCommitItem]))"
    by simp
  from synced_clients_agree [OF sampleRun sampleRun anchor anchor refl refl refl this] sampleRun
  show ?thesis by (simp add: sampleCommitItem_def)
qed

end
