(* ===== verification/SyncKernelProperties.thy ===== *)
theory SyncKernelProperties
  imports SyncKernel SyncPrefixProofs SyncProperties
begin

section \<open>Properties of the sync kernel\<close>

text \<open>
  The kernel composes the prefix, the cursors and the page: its answer exists and is one of the declared errors or a page that
  continues the verified prefix; the next page can be requested from the one before; an expired cursor names a position
  that can be requested; the digest of the prefix determines it.
\<close>

subsection \<open>The prefix\<close>

lemma computePrefixDigest_parsed:
  "parsePrefixInput H input = Inr x \<Longrightarrow>
   computeConversationVerifiedPrefixEvidenceDigest H input
     = digestOf H CONVERSATION_VERIFIED_PREFIX_EVIDENCE_DIGEST_DOMAIN (prefixDigestFields x)"
  by (simp add: computeConversationVerifiedPrefixEvidenceDigest_def)

lemma parsePrefixInput_encode: "prefixValid H x \<Longrightarrow> parsePrefixInput H (encodePrefix x) = Inr x"
  by (simp add: parsePrefixInput_def encodePrefix_def prefixValid_def parseConversationCursorContext_encode window_codec.parse_encode
      anchor_codec.parse_encode witness_anchor_codec.parse_encode policy_anchor_codec.parse_encode mls_projection_codec.parse_encode
      policy_projection_codec.parse_encode sender_bindings_codec.parse_encode staged_list_codec.parse_encode parse_ok)

text \<open>
  C29. The digest of a verified prefix identifies it: two inputs with the same digest parse to the same realm, account,
  installation, conversation, membership, log anchor, MLS state, policy projection with its mandatory proposals,
  witness and policy anchors, sender bindings, staged proposals and release, if SHA-256 does not collide on the two
  preimages. None of these parts can be exchanged for that of another prefix.
\<close>

theorem prefix_digest_binding:
  assumes "parsePrefixInput H input = Inr x" "parsePrefixInput H input' = Inr y"
    and "computeConversationVerifiedPrefixEvidenceDigest H input = Inr h" "computeConversationVerifiedPrefixEvidenceDigest H input' = Inr h"
    and "inj_on H {digestPreimage CONVERSATION_VERIFIED_PREFIX_EVIDENCE_DIGEST_DOMAIN (prefixDigestFields x),
                   digestPreimage CONVERSATION_VERIFIED_PREFIX_EVIDENCE_DIGEST_DOMAIN (prefixDigestFields y)}"
  shows "x = y"
proof (rule prefixDigestFields_inj)
  show "prefixValid H x" "prefixValid H y" using assms(1,2) by (auto intro: parsePrefixInput_valid)
  show "map fieldRaw (prefixDigestFields x) = map fieldRaw (prefixDigestFields y)"
    using assms by (intro digestOf_binding [of H]) (simp_all add: computePrefixDigest_parsed)
qed

lemma openSyncPrefix_facts:
  assumes "openSyncPrefix H rq = Inr os"
  shows "parsePrefixInput H (rq_prefix rq) = Inr (os_prefix os)" "prefixValid H (os_prefix os)"
    "parseDeliveryLimits (rq_limits rq) = Inr (os_limits os)" "checkPrefixConsistency (os_prefix os) = Inr ()"
    "\<exists>h. rq_verifiedPrefixEvidenceDigest rq = JStr h
       \<and> computeConversationVerifiedPrefixEvidenceDigest H (rq_prefix rq) = Inr h"
proof -
  obtain evidence where facts: "parsePrefixInput H (rq_prefix rq) = Inr (os_prefix os)"
    "parseDeliveryLimits (rq_limits rq) = Inr (os_limits os)" "checkPrefixConsistency (os_prefix os) = Inr ()"
    "parseHash32 (rq_verifiedPrefixEvidenceDigest rq) = Inr evidence"
    "computeConversationVerifiedPrefixEvidenceDigest H (encodePrefix (os_prefix os)) = Inr evidence"
    using assms unfolding openSyncPrefix_def parsePrefixInput_def Let_def
    by (elim bindE_InrE) (auto elim!: bindE_InrE split: if_splits)
  note valid = parsePrefixInput_valid [OF facts(1)]
  show "parsePrefixInput H (rq_prefix rq) = Inr (os_prefix os)" "parseDeliveryLimits (rq_limits rq) = Inr (os_limits os)"
    "checkPrefixConsistency (os_prefix os) = Inr ()" "prefixValid H (os_prefix os)" by (fact facts(1-3) valid)+
  show "\<exists>h. rq_verifiedPrefixEvidenceDigest rq = JStr h \<and> computeConversationVerifiedPrefixEvidenceDigest H (rq_prefix rq) = Inr h"
    using facts(4,5) computePrefixDigest_parsed [OF parsePrefixInput_encode [OF valid]] computePrefixDigest_parsed [OF facts(1)]
    by (auto simp: parse_simps)
qed

subsection \<open>The response\<close>

lemma parseOwnedBytes_view:
  assumes "parseOwnedBytes v maximum = Inr bs" "maximum \<le> int bound"
  obtains view where "v = JView view" "bs = viewBytes view" "length bs \<le> bound"
proof -
  have "copyBytes maximum v = Inr bs" using assms(1) by (auto simp: parseOwnedBytes_def split: sum.splits)
  then show ?thesis using that assms(2) by (elim copyBytes_Inr_view) (metis of_nat_le_iff order_trans)
qed

lemma andThen_eq_Inr: "andThen m f = Some (Inr y) \<longleftrightarrow> (\<exists>x. m = Some (Inr x) \<and> f x = Some (Inr y))"
  by (auto simp: andThen_def split: option.splits sum.splits)

lemma andThen_returns: "m \<noteq> None \<Longrightarrow> (\<And>x. f x \<noteq> None) \<Longrightarrow> andThen m f \<noteq> None"
  by (auto simp: andThen_def split: option.splits sum.splits)

lemma parseStrictJsonBytes_returns: "parseStrictJsonBytes bs \<noteq> None"
  using parseJsonText_returns [of SYNC_JSON_LIMITS] by (auto simp: parseStrictJsonBytes_def split: option.splits)

lemma readConversationPage_returns: "readConversationPage H decode rawResponse rq \<noteq> None"
  unfolding readConversationPage_def readOpenedPage_def
  by (intro andThen_returns parseStrictJsonBytes_returns) simp_all

lemma parseStrictJsonBytes_strict:
  "parseStrictJsonBytes bs = Some (Inr v) \<Longrightarrow> uniqueKeys v \<and> jsonDepthAtMost 21 v \<and> jsonSize v \<le> 50000"
  using parseJsonText_strict [of SYNC_JSON_LIMITS _ v]
  by (auto simp: parseStrictJsonBytes_def SYNC_JSON_LIMITS_def strictJson_def split: if_splits option.splits)

text \<open>The frame of a request that was opened from a prefix.\<close>

lemma parsePrefixInput_context:
  "parsePrefixInput H input = Inr x \<Longrightarrow> parseConversationCursorContext (xi_cursorContext input) = Inr (vx_context x)"
  unfolding parsePrefixInput_def by (elim bindE_InrE) (simp only: sum.inject, hypsubst, simp)

lemma openPageRequest_prefix:
  assumes "openPageRequest (pageInputOf rq os claims serialized) = Inr frame"
    and "parseConversationCursorContext (xi_cursorContext (rq_prefix rq)) = Inr (vx_context (os_prefix os))" "prefixValid H (os_prefix os)"
  shows "pf_context frame = vx_context (os_prefix os)" "pf_membership frame = vx_membership (os_prefix os)"
    "pf_anchor frame = vx_anchor (os_prefix os)"
proof -
  have "parseMembershipWindow (encodeWindow (vx_membership (os_prefix os))) = Inr (vx_membership (os_prefix os))"
    "parseHeadAnchor (encodeAnchor (vx_anchor (os_prefix os))) = Inr (vx_anchor (os_prefix os))"
    using assms(3) by (simp_all add: prefixValid_def window_codec.parse_encode anchor_codec.parse_encode)
  then show "pf_context frame = vx_context (os_prefix os)" "pf_membership frame = vx_membership (os_prefix os)"
    "pf_anchor frame = vx_anchor (os_prefix os)"
    using assms(1,2) by (auto simp: openPageRequest_def pageInputOf_def encodePrefix_def Let_def bindE_eq_Inr split: if_splits)
qed

lemma resolveNextCursor_position:
  assumes "resolveNextCursor decode os page = Inr claims" "headMatches (lastAnchor anchor (vp_events page)) (ps_logHead (vp_snapshot page))"
  shows "cc_lastReturnedPosition claims = lh_position (ps_logHead (vp_snapshot page))"
proof -
  have "cc_lastReturnedPosition claims = (if vp_events page = [] then lh_position (ps_logHead (vp_snapshot page))
      else se_position (storedCommon (ei_envelope (last (vp_events page)))))"
    using assms(1) unfolding resolveNextCursor_def by (elim bindE_InrE) (auto split: sum.splits cursorVerdict.splits if_splits)
  with assms(2) show ?thesis by (auto simp: headMatches_def lastAnchor_def anchorOfEnvelope_def Let_def split: if_splits)
qed

text \<open>What is known of a response that was accepted.\<close>

definition responseSound ::
  "(bytes \<Rightarrow> bytes) \<Rightarrow> jsval \<Rightarrow> syncRequest \<Rightarrow> verifiedPage \<Rightarrow> cursorClaims \<Rightarrow> bool" where
  "responseSound H rawResponse rq page claims \<longleftrightarrow>
     (\<exists>x h view v input frame. parsePrefixInput H (rq_prefix rq) = Inr x
        \<and> rq_verifiedPrefixEvidenceDigest rq = JStr h \<and> computeConversationVerifiedPrefixEvidenceDigest H (rq_prefix rq) = Inr h
        \<and> rawResponse = JView view \<and> length (viewBytes view) \<le> 8388608
        \<and> parseStrictJsonBytes (viewBytes view) = Some (Inr v) \<and> uniqueKeys v
        \<and> verifyConversationPage H (jsvalOf v) input = Inr page \<and> openPageRequest input = Inr frame
        \<and> pi_requestedCursor input = rq_requestedCursor rq \<and> pi_requestedLimit input = rq_requestedLimit rq
        \<and> pf_context frame = vx_context x \<and> pf_membership frame = vx_membership x \<and> pf_anchor frame = vx_anchor x
        \<and> cc_lastReturnedPosition claims = lh_position (ps_logHead (vp_snapshot page)))"

lemma readConversationPage_sound:
  assumes "readConversationPage H decode rawResponse rq = Some (Inr (page, claims))"
  shows "responseSound H rawResponse rq page claims"
proof -
  obtain os requested serialized v where os: "openSyncPrefix H rq = Inr os"
    and bytes: "parseOwnedBytes rawResponse
      (minimum (bigInt (pageSerializedResponseMaxBytes (os_limits os))) CONVERSATION_PAGE_HARD_MAX_SERIALIZED_BYTES) = Inr serialized"
    and v: "parseStrictJsonBytes serialized = Some (Inr v)"
    and page: "verifyConversationPage H (jsvalOf v) (pageInputOf rq os requested serialized) = Inr page"
    and cursor: "resolveNextCursor decode os page = Inr claims"
    using assms unfolding readConversationPage_def readOpenedPage_def andThen_eq_Inr option.inject sum.inject prod.inject by blast
  let ?input = "pageInputOf rq os requested serialized"
  obtain frame where frame: "openPageRequest ?input = Inr frame" "pageAcceptable H ?input frame page" by (rule accepted_page [OF page])
  note facts = openSyncPrefix_facts [OF os]
  obtain h where h: "rq_verifiedPrefixEvidenceDigest rq = JStr h"
    "computeConversationVerifiedPrefixEvidenceDigest H (rq_prefix rq) = Inr h" using facts(5) by blast
  note same = openPageRequest_prefix [OF frame(1) parsePrefixInput_context [OF facts(1)] facts(2)]
  obtain view where view: "rawResponse = JView view" "serialized = viewBytes view" "length serialized \<le> 8388608"
    by (rule parseOwnedBytes_view [OF bytes]) (auto simp: minimum_def CONVERSATION_PAGE_HARD_MAX_SERIALIZED_BYTES_def split: if_splits)
  have next_position: "cc_lastReturnedPosition claims = lh_position (ps_logHead (vp_snapshot page))"
    using resolveNextCursor_position [OF cursor] frame(2) by (auto simp: pageAcceptable_def)
  have "uniqueKeys v" using parseStrictJsonBytes_strict [OF v] by simp
  then show ?thesis
    unfolding responseSound_def
    by (intro exI [of _ "os_prefix os"] exI [of _ h] exI [of _ view] exI [of _ v] exI [of _ ?input] exI [of _ frame] conjI)
      (use facts(1) h view v page frame(1) same next_position in \<open>simp_all add: pageInputOf_def Let_def\<close>)
qed

text \<open>
  C19. Every response gets an answer: the reader of a page never runs out, and the errors a caller of the exported function
  sees are the declared ones. An accepted response is at most 8 MiB of JSON without duplicate keys; the prefix of
  the request hashes to the digest that was stored with it; the page continues the anchor of that prefix, for its context
  and inside its membership; and the cursor for the next page names the position of the head the page ends with.
\<close>

theorem page_response_sound:
  "normalizedPage H decode rawResponse rq \<noteq> None
   \<and> (\<forall>e. normalizedPage H decode rawResponse rq = Some (Inl e) \<longrightarrow> normalizeConversationSyncFailure e = e)
   \<and> (\<forall>page claims. normalizedPage H decode rawResponse rq = Some (Inr (page, claims)) \<longrightarrow> responseSound H rawResponse rq page claims)"
proof -
  have idem: "normalizeConversationSyncFailure (normalizeConversationSyncFailure e) = normalizeConversationSyncFailure e" for e
    by (cases e) simp_all
  have sound: "responseSound H rawResponse rq page claims"
    if "normalizedPage H decode rawResponse rq = Some (Inr (page, claims))" for page claims
  proof (rule readConversationPage_sound)
    show "readConversationPage H decode rawResponse rq = Some (Inr (page, claims))"
      using that by (cases "the (readConversationPage H decode rawResponse rq)") (auto simp: normalizedPage_def)
  qed
  have error: "normalizeConversationSyncFailure e = e" if "normalizedPage H decode rawResponse rq = Some (Inl e)" for e
    using that idem by (cases "the (readConversationPage H decode rawResponse rq)") (auto simp: normalizedPage_def)
  show ?thesis
    using readConversationPage_returns [of H decode rawResponse rq] sound error by (simp add: normalizedPage_def)
qed

subsection \<open>After a page, after an expired cursor\<close>

lemma nextUint63:
  assumes "uint63Valid s" "s \<noteq> UINT63_MAX_STRING"
  shows "incrementUint63 s = Inr (bigIntToString (bigInt s + 1))"
proof -
  have max: "canonicalDecimal UINT63_MAX_STRING" "bigInt UINT63_MAX_STRING = 9223372036854775807"
    by (simp_all add: UINT63_MAX_STRING_def canonicalDecimal_def isDigit_def bigInt_def readNat_def digitVal_def)
  have "bigInt s \<noteq> 9223372036854775807"
    using assms bigIntToString_bigInt [OF max(1)] max(2) by (metis bigIntToString_bigInt uint63Valid_def)
  then show ?thesis using assms(1) by (simp add: incrementUint63_def Let_def uint63Valid_def UINT63_MAX_def)
qed

lemma checkRetention_ok:
  assumes "uint63Valid after" "bigInt retainedFloor \<le> bigInt after + 1"
  shows "checkRetention cx membership retainedFloor after = Inr ()"
  using assms by (auto simp: checkRetention_def nextUint63)

lemma openPageRequest_again:
  assumes "openPageRequest input = Inr frame" "pi_retainedFloor input = JStr retainedFloor"
    and "parseHeadAnchor (encodeAnchor anchor) = Inr anchor" "validateAnchor anchor = Inr ()"
    and "cc_lastReturnedPosition claims = ha_position anchor"
    and "bigInt (boundaryBeforeJoin (pf_membership frame)) \<le> bigInt (ha_position anchor)"
    and "case mw_removedPosition (pf_membership frame) of None \<Rightarrow> True | Some removed \<Rightarrow> bigInt (ha_position anchor) \<le> bigInt removed"
    and "checkRetention (pf_context frame) (pf_membership frame) retainedFloor (ha_position anchor) = Inr ()"
  shows "openPageRequest (input\<lparr>pi_requestedCursor := JStr cursor, pi_requestedCursorClaims := Some claims, pi_anchor := encodeAnchor anchor\<rparr>)
    = Inr (frame\<lparr>pf_anchor := anchor, pf_requestedAfterPosition := ha_position anchor\<rparr>)"
proof -
  obtain cx limit membership after old where parts:
    "parseConversationCursorContext (pi_cursorContext input) = Inr cx" "parseUint63String (pi_requestedLimit input) = Inr limit"
    "\<not> (limit = ''0'' \<or> bigInt limit > bigInt (conversationEventsMaxPerPage (pi_limits input)) \<or> bigInt limit > int CONVERSATION_PAGE_HARD_MAX_EVENTS)"
    "parseMembershipWindow (pi_membership input) = Inr membership" "parsePositive (pi_retainedFloor input) = Inr retainedFloor"
    "frame = \<lparr>pf_context = cx, pf_requestedLimit = limit, pf_membership = membership, pf_anchor = old, pf_requestedAfterPosition = after\<rparr>"
    using assms(1,2) unfolding openPageRequest_def
    by (elim bindE_InrE) (auto simp: parse_simps split: if_splits elim!: bindE_InrE)
  have "\<not> (case mw_removedPosition membership of None \<Rightarrow> False | Some removed \<Rightarrow> bigInt (ha_position anchor) > bigInt removed)"
    using assms(7) parts(6) by (auto split: option.splits)
  then show ?thesis
    using assms(3-6,8) parts by (simp add: openPageRequest_def requestedAfterPosition_def)
qed

text \<open>
  C20. A client can go on after every page. If it has accepted a page, the cursor the server issued names the position
  the page ends at, and the server still keeps the position after that, then the request for the next page, made with that
  cursor and anchored at the head the page was signed with, is in order: the window, the anchor and the retention check pass.
\<close>

theorem next_page_can_be_requested:
  assumes "verifyConversationPage H v input = Inr page"
    and "cc_lastReturnedPosition claims = lh_position (ps_logHead (vp_snapshot page))"
    and "pi_retainedFloor input = JStr retainedFloor" "bigInt retainedFloor \<le> bigInt (lh_position (ps_logHead (vp_snapshot page))) + 1"
  shows "\<exists>frame. openPageRequest (input\<lparr>pi_requestedCursor := JStr (vp_nextCursor page), pi_requestedCursorClaims := Some claims,
      pi_anchor := encodeAnchor (anchorOfLogHead (ps_logHead (vp_snapshot page)))\<rparr>) = Inr frame
    \<and> pf_anchor frame = anchorOfLogHead (ps_logHead (vp_snapshot page))"
proof -
  let ?head = "ps_logHead (vp_snapshot page)"
  obtain frame where frame: "openPageRequest input = Inr frame" "pageAcceptable H input frame page" by (rule accepted_page [OF assms(1)])
  have hides: "hidesNothing H input frame page" and snapshot: "pageSnapshotValid H (vp_snapshot page)"
    using frame(2) by (auto simp: pageAcceptable_def snapshotBound_def)
  have head: "logHeadValid H (ps_conversationId (vp_snapshot page)) ?head" using snapshot by (auto simp: pageSnapshotValid_def)
  have anchor: "parseHeadAnchor (encodeAnchor (anchorOfLogHead ?head)) = Inr (anchorOfLogHead ?head)"
    "validateAnchor (anchorOfLogHead ?head) = Inr ()" "uint63Valid (lh_position ?head)"
    using head by (auto simp: anchorOfLogHead_def logHeadValid_def anchorValid_def nonZeroHashValid_def positiveUint63Valid_def
        validateAnchor_def intro!: anchor_codec.parse_encode)
  have "bigInt (boundaryBeforeJoin (pf_membership frame)) \<le> bigInt (lh_position ?head)"
    using acceptable_page(7) [OF frame] openPageRequest_frame(2,4,7) [OF frame(1)]
    by (auto simp: boundaryBeforeJoin_def decrementPositive_def windowValid_def positiveUint63_iff)
  moreover have "case mw_removedPosition (pf_membership frame) of None \<Rightarrow> True | Some removed \<Rightarrow> bigInt (lh_position ?head) \<le> bigInt removed"
    using hides by (auto simp: hidesNothing_def split: option.splits)
  ultimately show ?thesis
    using assms(2) checkRetention_ok [OF anchor(3) assms(4)]
    by (subst openPageRequest_again [OF frame(1) assms(3) anchor(1,2)]) (simp_all add: anchorOfLogHead_def split: option.splits)
qed

text \<open>
  C30. A client whose cursor has expired is told where to start again. The position in the error lies in its membership
  window, a request from there passes the retention check, and nothing it may still read is skipped: it is the
  position before the client joined or the one before the first position the server keeps.
\<close>

theorem expired_cursor_restart:
  assumes "windowValid membership" "positiveUint63Valid retainedFloor"
    and "expiredCursorFailure cx membership retainedFloor = ConversationCursorExpiredError conversation installation restart"
  shows "bigInt (boundaryBeforeJoin membership) \<le> bigInt restart
    \<and> (case mw_removedPosition membership of None \<Rightarrow> True | Some removed \<Rightarrow> bigInt restart \<le> bigInt removed)
    \<and> checkRetention cx membership retainedFloor restart = Inr ()
    \<and> (restart = boundaryBeforeJoin membership \<or> bigInt restart + 1 = bigInt retainedFloor)
    \<and> conversation = cx_conversationId cx \<and> installation = cx_installationId cx"
proof -
  have joined: "uint63Valid (mw_joinedPosition membership)" "0 < bigInt (mw_joinedPosition membership)"
    and kept: "uint63Valid retainedFloor" "0 < bigInt retainedFloor"
    using assms(1,2) by (auto simp: windowValid_def positiveUint63_iff)
  have dec: "uint63Valid (decrementPositive s) \<and> bigInt (decrementPositive s) = bigInt s - 1" if "uint63Valid s" "0 < bigInt s" for s
    using that by (simp add: decrementPositive_def uint63Valid_def) (simp add: bigIntToString_def)
  have restart: "restart = restartPosition membership retainedFloor" and names: "conversation = cx_conversationId cx"
    "installation = cx_installationId cx"
    and removed: "\<And>removed. mw_removedPosition membership = Some removed \<Longrightarrow> bigInt retainedFloor \<le> bigInt removed"
    using assms(3) by (auto simp: expiredCursorFailure_def split: if_splits option.splits)
  have bounds: "bigInt restart = max (bigInt (mw_joinedPosition membership) - 1) (bigInt retainedFloor - 1)" "uint63Valid restart"
    "restart = boundaryBeforeJoin membership \<or> bigInt restart + 1 = bigInt retainedFloor"
    using dec [OF joined] dec [OF kept] by (auto simp: restart restartPosition_def maximumUint63_def boundaryBeforeJoin_def)
  have "checkRetention cx membership retainedFloor restart = Inr ()"
    using bounds by (intro checkRetention_ok) auto
  moreover have "bigInt restart \<le> bigInt r" if "mw_removedPosition membership = Some r" for r
    using bounds(1) removed [OF that] assms(1) that by (auto simp: windowValid_def atOrAfter_def)
  ultimately show ?thesis
    using bounds(1,3) names dec [OF joined] by (auto simp: boundaryBeforeJoin_def split: option.splits)
qed

subsection \<open>A request and its answers\<close>

definition samplePolicyProjection :: policyProjection where
  "samplePolicyProjection = \<lparr>pp_etag = etagText ''1'' ''1'', pp_policyHeadId = sampleCheckpointId, pp_policyRevision = ''1'',
     pp_policyMandatoryProposalCount = ''0'', pp_policyMandatoryProposalSetHash = ZERO_HASH32, pp_policyMandatoryProposals = [],
     pp_policyAuthorizedSendGrantSetHash = hashText, pp_policyAuthorizedQuotaPolicyDigest = hashText, pp_policyHeadSequence = ''1'',
     pp_policyHeadHash = hashText, pp_policyDeliveryLogPosition = ''0'', pp_policyDeliveryLogHeadHash = ZERO_HASH32,
     pp_policyWitnessCheckpointId = sampleCheckpointId, pp_policyWitnessEvidenceDigest = hashText\<rparr>"

definition commitSender :: senderBinding where
  "commitSender = \<lparr>sb_accountId = sampleAccountId, sb_installationId = sampleInstallationId, sb_credentialId = sampleCredentialId,
     sb_credentialFingerprint = hashText, sb_credentialRevocationVersion = ''0'', sb_senderGeneration = ''1'', sb_activeFromPosition = ''1'',
     sb_inactiveAtPosition = None\<rparr>"

definition samplePrefix :: "string \<Rightarrow> verifiedPrefix" where
  "samplePrefix limitsDigest = \<lparr>vx_context = sampleCursorContext, vx_membership = sampleWindow, vx_anchor = emptyLogAnchor,
     vx_witness = \<lparr>wa_witnessCheckpointId = sampleCheckpointId, wa_witnessTreeSize = ''0'', wa_witnessRootHash = hashText, wa_witnessedAt = receivedAt\<rparr>,
     vx_policy = \<lparr>pa_policyHeadSequence = ''1'', pa_policyHeadHash = hashText, pa_witnessCheckpointId = sampleCheckpointId,
       pa_witnessEvidenceDigest = hashText\<rparr>,
     vx_projection = \<lparr>mp_epoch = ''1'', mp_rosterVersion = ''1'', mp_confirmedTranscriptHash = hashText\<rparr>,
     vx_policyProjection = samplePolicyProjection, vx_senderBindings = [commitSender], vx_stagedProposals = [], vx_conversationGeneration = ''1'',
     vx_releaseProfileId = ''release-1'', vx_deliveryLimitsDigest = limitsDigest, vx_releaseTrustRootDigest = hashText,
     vx_expectedGroupIdHash = hashText\<rparr>"

lemma samplePrefix_valid: "hash32Valid d \<Longrightarrow> prefixValid lengthHash (samplePrefix d)"
  using samplePlaintext_valid(3)
  by (simp add: prefixValid_def samplePrefix_def windowValid_def sampleWindow_def atOrAfter_def anchorValid_def emptyLogAnchor_def
      ZERO_HASH32_valid witnessAnchorValid_def policyAnchorValid_def mlsProjectionValid_def policyProjectionValid_def
      samplePolicyProjection_def senderBindingsValid_def senderBindingValid_def commitSender_def nonEmptyRange_def
      CONVERSATION_PAGE_HARD_MAX_EVENTS_def stagedListValid_def mandatoryProposalsValid_def
      validatePolicyMandatoryProposalProjection_def computePolicyMandatoryProposalSetHash_def
      DELIVERY_MANDATORY_PROPOSALS_MAX_def)

lemma samplePrefix_fields: "hash32Valid d \<Longrightarrow> list_all (smallField 256) (prefixDigestFields (samplePrefix d))"
  using samplePrefix_valid [of d]
  by (simp add: prefixDigestFields_def prefixIdentityFields_def prefixTrustFields_def samplePrefix_def samplePolicyProjection_def
      encodePolicyMandatoryProposals_def encodeStagedProposals_def prefixValid_def sampleCursorContext_def emptyLogAnchor_def
      sampleWindow_def ZERO_HASH32_valid contextValid_def mandatoryDigestFields_def senderBindingDigestFields_def commitSender_def small_fields smallField_Utf8
      showNat.simps CONVERSATION_EVENTS_ROUTE_TEMPLATE_def showNat_0)

lemma samplePrefix_digest:
  assumes "hash32Valid d"
  shows "\<exists>h. computeConversationVerifiedPrefixEvidenceDigest lengthHash (encodePrefix (samplePrefix d)) = Inr h"
  unfolding computePrefixDigest_parsed [OF parsePrefixInput_encode [OF samplePrefix_valid [OF assms]]]
  by (rule digestOf_small [OF lengthHash_length samplePrefix_fields [OF assms]])
    (simp_all add: prefixDigestFields_def prefixIdentityFields_def prefixTrustFields_def samplePrefix_def samplePolicyProjection_def
      encodePolicyMandatoryProposals_def encodeStagedProposals_def CONVERSATION_VERIFIED_PREFIX_EVIDENCE_DIGEST_DOMAIN_def mandatoryDigestFields_def senderBindingDigestFields_def
      Let_def)

theorem prefix_digest_binding_witness:
  "parsePrefixInput lengthHash (encodePrefix (samplePrefix hashText)) = Inr (samplePrefix hashText)
   \<and> (\<exists>h. computeConversationVerifiedPrefixEvidenceDigest lengthHash (encodePrefix (samplePrefix hashText)) = Inr h)"
proof -
  let ?input = "encodePrefix (samplePrefix hashText)"
  have parsed: "parsePrefixInput lengthHash ?input = Inr (samplePrefix hashText)"
    by (intro parsePrefixInput_encode samplePrefix_valid) simp
  obtain h where h: "computeConversationVerifiedPrefixEvidenceDigest lengthHash ?input = Inr h" using samplePrefix_digest [of hashText] by auto
  have "samplePrefix hashText = samplePrefix hashText" by (rule prefix_digest_binding [OF parsed parsed h h]) simp
  with parsed h show ?thesis by blast
qed

theorem next_page_can_be_requested_witness:
  "\<exists>frame. openPageRequest (samplePageInput\<lparr>pi_requestedCursor := JStr (tokenOf (replicate 32 0)),
      pi_requestedCursorClaims := Some (claimsOf (tokenOf (replicate 32 0)) sampleCursorContext (samplePlaintext\<lparr>pt_lastReturnedPosition := ''1''\<rparr>)),
      pi_anchor := encodeAnchor (anchorOfLogHead sampleLogHead)\<rparr>) = Inr frame \<and> pf_anchor frame = anchorOfLogHead sampleLogHead"
proof -
  have parts: "vp_nextCursor sampleVerifiedPage = tokenOf (replicate 32 0)" "vp_snapshot sampleVerifiedPage = samplePageSnapshot"
    "ps_logHead samplePageSnapshot = sampleLogHead" "lh_position sampleLogHead = ''1''" "pi_retainedFloor samplePageInput = JStr ''1''"
    by (simp_all add: sampleVerifiedPage_def samplePageSnapshot_def sampleLogHead_def samplePageInput_def)
  show ?thesis
    using next_page_can_be_requested [OF samplePage_accepted, of
        "claimsOf (tokenOf (replicate 32 0)) sampleCursorContext (samplePlaintext\<lparr>pt_lastReturnedPosition := ''1''\<rparr>)" "''1''"]
    unfolding parts by (simp add: claimsOf_def)
qed

theorem expired_cursor_restart_witness:
  "expiredCursorFailure sampleCursorContext sampleWindow ''1''
     = ConversationCursorExpiredError sampleConversationId sampleConversationId ''0''
   \<and> checkRetention sampleCursorContext sampleWindow ''1'' ''0'' = Inr ()"
proof -
  have "windowValid sampleWindow" by (simp add: windowValid_def sampleWindow_def atOrAfter_def)
  moreover have "bigIntToString 0 = ''0''" using bigIntToString_of_nat [of 0] by (simp add: showNat_0)
  then have "expiredCursorFailure sampleCursorContext sampleWindow ''1''
      = ConversationCursorExpiredError sampleConversationId sampleConversationId ''0''"
    by (simp add: expiredCursorFailure_def restartPosition_def maximumUint63_def decrementPositive_def sampleCursorContext_def)
  ultimately show ?thesis using expired_cursor_restart [of sampleWindow "''1''" sampleCursorContext] by simp
qed

end
