(* ===== verification/PageProofProperties.thy ===== *)
theory PageProofProperties
  imports LogHead SyncKernelProperties
begin

section \<open>What the proof evidence shows\<close>

text \<open>
  An accepted bundle of proofs speaks about exactly the checkpoints, the receipt and the Welcome of the page, and an accepted
  log head continues what the client knew. The predicates below say what one entry proves; they are the shared contract
  of the two callers of the parsers.
\<close>

definition provesCheckpoint :: "(bytes \<Rightarrow> bytes) \<Rightarrow> checkpointProof \<Rightarrow> checkpointInput \<Rightarrow> bool" where
  "provesCheckpoint H p k \<longleftrightarrow> kp_position p = ki_position k \<and> kp_previousHeadHash p = ki_previousHeadHash k \<and> kp_headHash p = ki_headHash k
     \<and> kp_signingKeyId p = ki_signingKeyId k \<and> kp_checkpointDigest p = ki_checkpointDigest k
     \<and> kp_checkpointReceivedAt p = ki_checkpointReceivedAt k \<and> hashSignature H (ki_signature k) = Inr (kp_signatureSha256 p)
     \<and> kp_signatureStatus p = ''verified'' \<and> kp_keyStatus p = ''valid-for-checkpoint''"

definition provesWitness :: "(bytes \<Rightarrow> bytes) \<Rightarrow> witnessProof \<Rightarrow> witnessReceipt \<Rightarrow> bool" where
  "provesWitness H p r \<longleftrightarrow> wp_position p = wr_position r \<and> wp_headHash p = wr_headHash r \<and> wp_witnessCheckpointId p = wr_witnessCheckpointId r
     \<and> wp_witnessTreeSize p = wr_witnessTreeSize r \<and> wp_witnessRootHash p = wr_witnessRootHash r \<and> wp_witnessKeyId p = wr_witnessKeyId r
     \<and> wp_witnessedAt p = wr_witnessedAt r \<and> hashSignature H (wr_witnessSignature r) = Inr (wp_witnessSignatureSha256 p)
     \<and> wp_signatureStatus p = ''verified'' \<and> wp_inclusionStatus p = ''verified'' \<and> wp_freshnessStatus p = ''fresh''"

definition witnessExtends :: "witnessReceipt \<Rightarrow> witnessAnchor \<Rightarrow> bool" where
  "witnessExtends r w \<longleftrightarrow> bigInt (wa_witnessTreeSize w) \<le> bigInt (wr_witnessTreeSize r) \<and> wa_witnessedAt w \<le> wr_witnessedAt r
     \<and> (wr_witnessTreeSize r = wa_witnessTreeSize w \<longrightarrow> wr_witnessRootHash r = wa_witnessRootHash w)"

lemma checkpoint_proven:
  assumes "parseCheckpointProofEvidence H v k conversationId verifiedAt = Inr p"
  shows "provesCheckpoint H p k"
proof -
  have fields: "parseCheckpointFields v = Inr p" using assms by (auto simp: parseCheckpointProofEvidence_def bindE_eq_Inr split: if_splits)
  then show ?thesis using assms checkpoint_proof_codec.parse_wf [OF fields]
    by (auto simp: parseCheckpointProofEvidence_def provesCheckpoint_def checkpointProofValid_def bindE_eq_Inr split: if_splits)
qed

lemma witness_proven:
  assumes "parseWitnessProofEvidence H v r w conversationId verifiedAt = Inr p"
  shows "provesWitness H p r \<and> witnessExtends r w"
proof -
  have fields: "parseWitnessFields v = Inr p" using assms by (auto simp: parseWitnessProofEvidence_def bindE_eq_Inr split: if_splits)
  have "\<not> witnessRollsBack p w" using assms by (auto simp: parseWitnessProofEvidence_def bindE_eq_Inr split: if_splits)
  moreover have "provesWitness H p r" using assms witness_proof_codec.parse_wf [OF fields]
    by (auto simp: parseWitnessProofEvidence_def provesWitness_def witnessProofValid_def bindE_eq_Inr split: if_splits)
  ultimately show ?thesis by (auto simp: witnessExtends_def witnessRollsBack_def provesWitness_def not_less)
qed

lemma checkpoints_proven:
  assumes "mapE (\<lambda>(entry, k). parseCheckpointProofEvidence H entry k conversationId verifiedAt) (zip vs ks) = Inr ps" "length vs = length ks"
  shows "list_all2 (provesCheckpoint H) ps ks"
proof -
  have "length ps = length ks" using mapE_length [OF assms(1)] assms(2) by simp
  moreover have "parseCheckpointProofEvidence H (vs ! i) (ks ! i) conversationId verifiedAt = Inr (ps ! i)" if "i < length ks" for i
    using assms that by (auto simp: mapE_eq_Inr list_all2_conv_all_nth)
  ultimately show ?thesis by (auto simp: list_all2_conv_all_nth intro: checkpoint_proven)
qed

text \<open>The Welcome that the evidence is about is that of an event of the page.\<close>

definition provesWelcome :: "welcomeProof \<Rightarrow> verifiedPrefix \<Rightarrow> eventItem \<Rightarrow> targetWelcome \<Rightarrow> bool" where
  "provesWelcome p x item w \<longleftrightarrow> ei_welcome item = Some w
     \<and> xp_commitPosition p = se_position (storedCommon (ei_envelope item)) \<and> xp_commitEpoch p = se_epoch (storedCommon (ei_envelope item))
     \<and> xp_commitEnvelopeSha256 p = se_envelopeSha256 (storedCommon (ei_envelope item)) \<and> xp_welcomeSha256 p = tw_welcomeSha256 w
     \<and> xp_expectedGroupIdHash p = vx_expectedGroupIdHash x \<and> xp_targetAccountId p = cx_accountId (vx_context x)
     \<and> xp_targetCredentialFingerprint p = mw_credentialFingerprint (vx_membership x) \<and> xp_membershipStatus p = ''verified''"

lemma welcome_proven:
  assumes "parseTargetWelcomeProofEvidence H v (targetWelcomeOf (vx_releaseProfileId x) (vx_expectedGroupIdHash x)
      (cx_accountId (vx_context x)) (vx_membership x) items) conversationId = Inr evidence"
  shows "case evidence of None \<Rightarrow> \<forall>item \<in> set items. ei_welcome item = None
    | Some p \<Rightarrow> \<exists>item \<in> set items. \<exists>w. provesWelcome p x item w"
proof (cases "find (\<lambda>item. ei_welcome item \<noteq> None) items")
  case None
  then have "evidence = None" using assms by (auto simp: targetWelcomeOf_def parseTargetWelcomeProofEvidence_def split: if_splits)
  then show ?thesis using None by (auto simp: find_None_iff)
next
  case (Some item)
  then obtain w where w: "item \<in> set items" "ei_welcome item = Some w" by (auto simp: find_Some_iff)
  let ?e = "welcomeInputOf (vx_releaseProfileId x) (vx_expectedGroupIdHash x) (cx_accountId (vx_context x)) (vx_membership x) item w"
  have "parseTargetWelcomeProofEvidence H v (Some ?e) conversationId = Inr evidence" using assms Some w by (simp add: targetWelcomeOf_def)
  then obtain p where p: "parseWelcomeFields v = Inr p" "\<not> welcomeSubstituted p ?e" "evidence = Some p"
    by (auto simp: parseTargetWelcomeProofEvidence_def bindE_eq_Inr split: if_splits)
  have "provesWelcome p x item w" using p(2) w(2) welcome_proof_codec.parse_wf [OF p(1)]
    by (simp add: welcomeSubstituted_def welcomeInputOf_def provesWelcome_def welcomeProofValid_def Let_def)
  then show ?thesis using p(3) w(1) by auto
qed

text \<open>
  The proof evidence that the client accepts for a page covers the page. There is one entry per event and one for the log
  head, in order, each with the position, both head hashes, the digest, key and time of that checkpoint and with the hash of its
  signature. The entry of the witness is about the receipt of the snapshot, and the receipt does not roll back or fork
  what the client trusted: the tree is at least as large, a tree of the same size has the same root, and it
  was witnessed no earlier. There is an entry for a Welcome exactly if an event carries one, and it names that
  event's Commit, that Welcome, the group, and the account and credential of the client.
\<close>

lemma page_proofs_cover:
  assumes "verifyConversationPageProofs H verify page verifiedAt x = Inr pg"
  shows "list_all2 (provesCheckpoint H) (pg_checkpoints pg)
      (map eventCheckpoint (vp_events page) @ [headCheckpoint (ps_conversationId (vp_snapshot page)) (ps_logHead (vp_snapshot page))])
    \<and> provesWitness H (pg_witness pg) (ps_witnessReceipt (vp_snapshot page))
    \<and> witnessExtends (ps_witnessReceipt (vp_snapshot page)) (vx_witness x)
    \<and> (case pg_targetWelcome pg of None \<Rightarrow> \<forall>item \<in> set (vp_events page). ei_welcome item = None
      | Some p \<Rightarrow> \<exists>item \<in> set (vp_events page). \<exists>w. provesWelcome p x item w)"
proof -
  let ?request = "pageProofRequestOf page verifiedAt x"
  obtain raw where "parseConversationPageProofEvidence H raw ?request = Inr pg"
    using assms by (auto simp: verifyConversationPageProofs_def bindE_eq_Inr Let_def split: if_splits)
  then obtain entry vs conversationId t where parts:
    "length vs = length (pr_checkpoints ?request)"
    "mapE (\<lambda>(entry, k). parseCheckpointProofEvidence H entry k conversationId t) (zip vs (pr_checkpoints ?request)) = Inr (pg_checkpoints pg)"
    "parseWitnessProofEvidence H (entry ''witness'') (pr_witness ?request) (pr_priorWitness ?request) conversationId t = Inr (pg_witness pg)"
    "parseTargetWelcomeProofEvidence H (entry ''targetWelcome'') (pr_targetWelcome ?request) conversationId = Inr (pg_targetWelcome pg)"
    unfolding parseConversationPageProofEvidence_def Let_def
    by (elim bindE_InrE) (auto simp: guardE_eq_Inr split: if_splits)
  have request: "pr_checkpoints ?request = pageCheckpoints page" "pr_witness ?request = ps_witnessReceipt (vp_snapshot page)"
    "pr_priorWitness ?request = vx_witness x" by (simp_all add: pageProofRequestOf_def)
  show ?thesis
    using checkpoints_proven [OF parts(2,1)] witness_proven [OF parts(3)] welcome_proven [OF parts(4) [unfolded pageProofRequestOf_def pageProofRequest.select_convs]]
    by (simp add: request pageCheckpoints_def)
qed

subsection \<open>The log head\<close>

text \<open>
  What the client knew is the head that it stands at, its membership and the last witness it trusted; an accepted head is
  described relative to that.
\<close>

definition logHeadContinues :: "(bytes \<Rightarrow> bytes) \<Rightarrow> logHeadFrame \<Rightarrow> verifiedLogHead \<Rightarrow> bool" where
  "logHeadContinues H frame r \<longleftrightarrow>
     (let from = lf_fromAnchor frame; h = vl_logHead r; base = lp_base (vl_proofEvidence r) in
      bigInt (ha_position from) \<le> bigInt (lh_position h)
      \<and> (lh_position h = ha_position from \<longrightarrow> lh_headHash h = ha_headHash from \<and> lh_previousHeadHash h = ha_previousHeadHash from
           \<and> ha_checkpointReceivedAt from = Some (lh_checkpointReceivedAt h))
      \<and> (bigInt (lh_position h) = bigInt (ha_position from) + 1 \<longrightarrow> lh_previousHeadHash h = ha_headHash from)
      \<and> (case mw_removedPosition (lf_membership frame) of None \<Rightarrow> bigInt (mw_joinedPosition (lf_membership frame)) \<le> bigInt (lh_position h)
         | Some removed \<Rightarrow> lh_position h = removed)
      \<and> logHeadValid H (cx_conversationId (lf_context frame)) h
      \<and> wr_conversationId (vl_witnessReceipt r) = cx_conversationId (lf_context frame)
      \<and> wr_position (vl_witnessReceipt r) = lh_position h \<and> wr_headHash (vl_witnessReceipt r) = lh_headHash h
      \<and> provesCheckpoint H (lp_checkpoint (vl_proofEvidence r)) (headCheckpoint (cx_conversationId (lf_context frame)) h)
      \<and> provesWitness H (lp_witness (vl_proofEvidence r)) (vl_witnessReceipt r)
      \<and> witnessExtends (vl_witnessReceipt r) (lf_priorWitness frame)
      \<and> lb_appendOnlyConsistencyStatus base = ''verified'' \<and> lb_fromPosition base = ha_position from \<and> lb_fromHeadHash base = ha_headHash from
      \<and> lb_currentPosition base = lh_position h \<and> lb_currentHeadHash base = lh_headHash h
      \<and> lb_accountId base = cx_accountId (lf_context frame) \<and> lb_installationId base = cx_installationId (lf_context frame)
      \<and> lb_verifiedPrefixEvidenceDigest base = lf_verifiedPrefixEvidenceDigest frame)"

lemma logHead_frame:
  assumes "parseAndVerifyConversationLogHeadInternal H verify v input = Inr r"
  shows "\<exists>frame. openLogHeadRequest input = Inr frame \<and> logHeadContinues H frame r"
proof -
  obtain frame d raw p where frame: "openLogHeadRequest input = Inr frame" and d: "readLogHeadResponse H v frame = Inr d"
    and kept: "\<not> logHeadRejected (lf_membership frame) (lf_fromAnchor frame) (ld_logHead d)"
    and p: "parseConversationLogHeadProofEvidence H raw (logHeadRequestOf frame d) = Inr p"
    and r: "vl_logHead r = ld_logHead d" "vl_witnessReceipt r = ld_witnessReceipt d" "vl_proofEvidence r = p"
    using assms by (auto simp: parseAndVerifyConversationLogHeadInternal_def bindE_eq_Inr Let_def split: if_splits)
  have head: "logHeadValid H (cx_conversationId (lf_context frame)) (ld_logHead d)"
    and receipt: "wr_conversationId (ld_witnessReceipt d) = cx_conversationId (lf_context frame)"
      "wr_position (ld_witnessReceipt d) = lh_position (ld_logHead d)" "wr_headHash (ld_witnessReceipt d) = lh_headHash (ld_logHead d)"
    using d unfolding readLogHeadResponse_def
    by (auto simp: bindE_eq_Inr log_head_codec.parse_wf split: if_splits)
  obtain base where base: "parseLogHeadBase raw = Inr base" "\<not> logHeadSubstituted base (logHeadRequestOf frame d)" "lp_base p = base"
    and nested: "parseCheckpointProofEvidence H (lb_checkpoint base) (headCheckpoint (cx_conversationId (lf_context frame)) (ld_logHead d))
        (cx_conversationId (lf_context frame)) (lf_verifiedAt frame) = Inr (lp_checkpoint p)"
      "parseWitnessProofEvidence H (lb_witness base) (ld_witnessReceipt d) (lf_priorWitness frame)
        (cx_conversationId (lf_context frame)) (lf_verifiedAt frame) = Inr (lp_witness p)"
    using p by (auto simp: parseConversationLogHeadProofEvidence_def logHeadRequestOf_def bindE_eq_Inr Let_def split: if_splits)
  have status: "lb_appendOnlyConsistencyStatus base = ''verified''"
    using base(1) unfolding parseLogHeadBase_def
    by (elim bindE_InrE) (simp only: parse_simps guardE_eq_Inr sum.inject, elim conjE, hypsubst, simp)
  have same: "lb_fromPosition base = ha_position (lf_fromAnchor frame)" "lb_fromHeadHash base = ha_headHash (lf_fromAnchor frame)"
      "lb_currentPosition base = lh_position (ld_logHead d)" "lb_currentHeadHash base = lh_headHash (ld_logHead d)"
      "lb_accountId base = cx_accountId (lf_context frame)" "lb_installationId base = cx_installationId (lf_context frame)"
      "lb_verifiedPrefixEvidenceDigest base = lf_verifiedPrefixEvidenceDigest frame"
    using base(2) by (simp_all add: logHeadSubstituted_def logHeadRequestOf_def headCheckpoint_def Let_def)
  have "logHeadContinues H frame r"
    using kept head receipt checkpoint_proven [OF nested(1)] witness_proven [OF nested(2)] status same
    unfolding logHeadContinues_def Let_def r base(3)
    by (auto simp: logHeadRejected_def split: option.splits)
  with frame show ?thesis by blast
qed

text \<open>
  C28. Every answer to a request for the log head ends in a declared error or in a head that continues what the client knew. An accepted
  head is not behind the head the client stands at; at the same position it is the same head, at the next position it
  names the client's head as predecessor; a removed member gets exactly the head of its removal and an active one a head
  not before its join. Its checkpoint digest is recomputed, the receipt of the witness is about this head and
  extends the last trusted one, and the evidence of append-only consistency names exactly the old head, the new head, the
  installation and the verified prefix.
\<close>

theorem log_head_continues:
  "\<exists>result. parseAndVerifyConversationLogHead H verify rawResponse input = Some result
     \<and> (case result of
          Inl e \<Rightarrow> normalizeConversationSyncFailure e = e
        | Inr r \<Rightarrow> \<exists>frame. openLogHeadRequest input = Inr frame \<and> logHeadContinues H frame r)"
proof -
  let ?steps = "andThen (Some (parseOwnedBytes rawResponse CONVERSATION_LOG_HEAD_HARD_MAX_SERIALIZED_BYTES)) (\<lambda>serialized.
        andThen (parseStrictJsonBytes serialized) (\<lambda>parsedJson.
        Some (parseAndVerifyConversationLogHeadInternal H verify (jsvalOf parsedJson) input)))"
  have "?steps \<noteq> None" by (intro andThen_returns parseStrictJsonBytes_returns) simp_all
  then obtain result where result: "?steps = Some result" by blast
  have idem: "normalizeConversationSyncFailure (normalizeConversationSyncFailure e) = normalizeConversationSyncFailure e" for e
    by (cases e) simp_all
  show ?thesis
  proof (cases result)
    case (Inl e)
    then show ?thesis using result idem by (simp add: parseAndVerifyConversationLogHead_def)
  next
    case (Inr r)
    then obtain v where "parseAndVerifyConversationLogHeadInternal H verify v input = Inr r" using result by (auto simp: andThen_eq_Inr)
    from logHead_frame [OF this] show ?thesis using result Inr by (simp add: parseAndVerifyConversationLogHead_def)
  qed
qed

end
