(* ===== verification/JsonPrinting.thy ===== *)
theory JsonPrinting
  imports EnvelopeJson
begin

section \<open>The JSON text of a record\<close>

text \<open>
  The other direction of the strict reader for whole responses: the text of a value made of records, arrays, ASCII strings and
  booleans, down to a given depth, is read back as that value. \<open>jsonAt\<close> is the JSON of a value, \<open>printableAt\<close> says that it has
  one, and \<open>weightAt\<close> bounds the length of the text.
\<close>

definition asciiString :: "string \<Rightarrow> bool" where
  "asciiString s = list_all (\<lambda>c. 32 \<le> charCode c \<and> charCode c < 128) s"

primrec jsonAt :: "nat \<Rightarrow> jsval \<Rightarrow> json" where
  "jsonAt 0 v = JsonNull"
| "jsonAt (Suc n) v = (case v of
     JStr s \<Rightarrow> textJson s
   | JBool b \<Rightarrow> JsonBool b
   | JArr p xs holes \<Rightarrow> JsonArray (map (jsonAt n) xs)
   | JObj p props \<Rightarrow> JsonObject (map (\<lambda>(k, d). (case k of KStr s \<Rightarrow> unitsOf s | _ \<Rightarrow> [], case d of Data _ x \<Rightarrow> jsonAt n x | _ \<Rightarrow> JsonNull)) props)
   | _ \<Rightarrow> JsonNull)"

primrec printableAt :: "nat \<Rightarrow> jsval \<Rightarrow> bool" where
  "printableAt 0 v = False"
| "printableAt (Suc n) v = (case v of
     JStr s \<Rightarrow> asciiString s
   | JBool b \<Rightarrow> True
   | JArr p xs holes \<Rightarrow> v = mkArray xs \<and> list_all (printableAt n) xs
   | JObj p props \<Rightarrow> p = ObjectPrototype \<and> distinct (map fst props)
       \<and> list_all (\<lambda>(k, d). (case k of KStr s \<Rightarrow> asciiString s | _ \<Rightarrow> False) \<and> (case d of Data e x \<Rightarrow> e \<and> printableAt n x | _ \<Rightarrow> False)) props
   | _ \<Rightarrow> False)"

primrec weightAt :: "nat \<Rightarrow> jsval \<Rightarrow> nat" where
  "weightAt 0 v = 4"
| "weightAt (Suc n) v = (case v of
     JStr s \<Rightarrow> 2 + 2 * length s
   | JArr p xs holes \<Rightarrow> 2 + sum_list (map (\<lambda>x. weightAt n x + 1) xs)
   | JObj p props \<Rightarrow> 2 + sum_list (map (\<lambda>(k, d). (case k of KStr s \<Rightarrow> 4 + 2 * length s | _ \<Rightarrow> 4) + (case d of Data _ x \<Rightarrow> weightAt n x | _ \<Rightarrow> 4)) props)
   | _ \<Rightarrow> 5)"

text \<open>The three functions on the values the encoders build.\<close>

lemma at_values:
  "jsonAt (Suc n) (JStr s) = textJson s" "jsonAt (Suc n) (JBool b) = JsonBool b" "jsonAt (Suc n) (mkArray xs) = JsonArray (map (jsonAt n) xs)"
  "jsonAt (Suc n) (mkRecord kvs) = JsonObject (map (\<lambda>(k, x). (unitsOf k, jsonAt n x)) kvs)"
  "printableAt (Suc n) (JStr s) = asciiString s" "printableAt (Suc n) (JBool b)"
  "printableAt (Suc n) (mkArray xs) = list_all (printableAt n) xs"
  "printableAt (Suc n) (mkRecord kvs) = (distinct (map fst kvs) \<and> list_all (\<lambda>(k, x). asciiString k \<and> printableAt n x) kvs)"
  "weightAt (Suc n) (JStr s) = 2 + 2 * length s" "weightAt (Suc n) (JBool b) = 5"
  "weightAt (Suc n) (mkArray xs) = 2 + sum_list (map (\<lambda>x. weightAt n x + 1) xs)"
  "weightAt (Suc n) (mkRecord kvs) = 2 + sum_list (map (\<lambda>m. 4 + 2 * length (fst m) + weightAt n (snd m)) kvs)"
proof -
  have keys: "map fst (map (\<lambda>(k, x). (KStr k, Data True x)) kvs) = map KStr (map fst kvs)" by (simp add: split_beta)
  have "distinct (map fst (map (\<lambda>(k, x). (KStr k, Data True x)) kvs)) = distinct (map fst kvs)"
    unfolding keys by (simp only: distinct_map [of KStr]) (simp add: inj_on_def)
  then show "printableAt (Suc n) (mkRecord kvs) = (distinct (map fst kvs) \<and> list_all (\<lambda>(k, x). asciiString k \<and> printableAt n x) kvs)"
    by (simp add: mkRecord_def list_all_iff split_beta)
qed (simp_all add: mkArray_def mkRecord_def comp_def split_beta)

lemma printableAt_record:
  assumes "printableAt (Suc n) (JObj p props)"
  obtains kvs where "JObj p props = mkRecord kvs"
proof -
  have "\<exists>kvs. props = map (\<lambda>(k, x). (KStr k, Data True x)) kvs"
    using assms
  proof (induction props)
    case (Cons d props)
    obtain s x where "d = (KStr s, Data True x)" using Cons.prems by (cases d) (auto split: jskey.splits jsprop.splits)
    moreover obtain kvs where "props = map (\<lambda>(k, x). (KStr k, Data True x)) kvs" using Cons by auto
    ultimately have "d # props = map (\<lambda>(k, x). (KStr k, Data True x)) ((s, x) # kvs)" by simp
    then show ?case by (rule exI)
  qed simp
  then show ?thesis using that assms by (auto simp: mkRecord_def)
qed

lemma printableAt_cases:
  assumes "printableAt (Suc n) v"
  obtains (Text) s where "v = JStr s" "asciiString s"
  | (Bool) b where "v = JBool b"
  | (Array) xs where "v = mkArray xs" "list_all (printableAt n) xs"
  | (Record) kvs where "v = mkRecord kvs" "distinct (map fst kvs)" "list_all (\<lambda>(k, x). asciiString k \<and> printableAt n x) kvs"
proof (cases v)
  case (JObj p props)
  then obtain kvs where "v = mkRecord kvs" using assms printableAt_record by metis
  then show ?thesis using assms Record by (simp add: at_values del: printableAt.simps)
qed (use assms that in auto)

declare jsonAt.simps(2) [simp del] printableAt.simps(2) [simp del] weightAt.simps(2) [simp del]

lemma unitsOf_ascii: "asciiString s \<Longrightarrow> plainUnits (unitsOf s) \<and> asciiUnits (unitsOf s)"
  by (auto simp: asciiString_def plainUnits_def asciiUnits_def unitsOf_def list_all_iff)

lemma jsonAt_spells:
  "printableAt n v \<Longrightarrow> jsvalOf (jsonAt n v) = v \<and> plainJson (jsonAt n v) \<and> asciiJson (jsonAt n v) \<and> strictJson n (jsonAt n v)"
proof (induction n arbitrary: v)
  case (Suc n)
  from Suc.prems show ?case
  proof (cases rule: printableAt_cases)
    case (Array xs)
    then show ?thesis using Suc.IH by (auto simp: at_values list_all_iff strictJson_def comp_def intro!: arg_cong [where f = mkArray] map_idI)
  next
    case (Record kvs)
    have "distinct (map unitsOf (map fst kvs))" using Record(2) by (simp add: distinct_map inj_on_def unitsOf_eq_iff)
    then show ?thesis
      using Record Suc.IH unitsOf_ascii
      by (auto simp: at_values list_all_iff strictJson_def comp_def split_beta intro!: arg_cong [where f = mkRecord] map_idI)
  qed (auto simp: at_values textJson_def strictJson_def unitsOf_ascii)
qed simp

lemma length_joined_sum: "sum_list (map length xs) \<le> length (joined xs)"
  by (induction xs rule: joined.induct) auto

lemma length_printString: "length (printString s) \<le> 2 * length s + 2"
  by (induction s) (auto simp: printString_def escapeUnit_def)

lemma jsonAt_length: "printableAt n v \<Longrightarrow> length (printJson (jsonAt n v)) \<le> weightAt n v"
proof (induction n arbitrary: v)
  case (Suc n)
  from Suc.prems show ?case
  proof (cases rule: printableAt_cases)
    case (Text s)
    then show ?thesis using length_printString [of "unitsOf s"] by (simp add: at_values textJson_def)
  next
    case (Array xs)
    have "sum_list (map (\<lambda>x. length (printJson (jsonAt n x)) + 1) xs) \<le> sum_list (map (\<lambda>x. weightAt n x + 1) xs)"
      using Array(2) Suc.IH by (intro sum_list_mono) (simp add: list_all_iff)
    then show ?thesis
      using length_joined_le [of "map (\<lambda>x. printJson (jsonAt n x)) xs"] by (simp add: Array(1) at_values comp_def)
  next
    case (Record kvs)
    let ?text = "\<lambda>m. printString (unitsOf (fst m)) @ 58 # printJson (jsonAt n (snd m))"
    have "length (?text m) + 1 \<le> 4 + 2 * length (fst m) + weightAt n (snd m)" if "m \<in> set kvs" for m
      using Record(3) Suc.IH [of "snd m"] that length_printString [of "unitsOf (fst m)"] by (auto simp: list_all_iff)
    then have "sum_list (map (\<lambda>m. length (?text m) + 1) kvs) \<le> sum_list (map (\<lambda>m. 4 + 2 * length (fst m) + weightAt n (snd m)) kvs)"
      by (intro sum_list_mono)
    then show ?thesis
      using length_joined_le [of "map ?text kvs"] by (simp add: Record(1) at_values comp_def split_beta)
  qed (simp add: at_values unitsOf_def)
qed simp

lemma jsonSize_le: "plainJson v \<Longrightarrow> jsonSize v \<le> length (printJson v)"
proof (induction v rule: printJson.induct)
  case (5 xs)
  have "sum_list (map jsonSize xs) \<le> sum_list (map (\<lambda>x. length (printJson x)) xs)"
    using 5 by (intro sum_list_mono) auto
  then show ?case using length_joined_sum [of "map printJson xs"] by (simp add: comp_def)
next
  case (6 ms)
  let ?text = "\<lambda>m. printString (fst m) @ 58 # printJson (snd m)"
  have "jsonSize (snd m) \<le> length (?text m)" if "m \<in> set ms" for m
    using 6 that by (cases m) fastforce
  then have "sum_list (map (\<lambda>m. jsonSize (snd m)) ms) \<le> sum_list (map (\<lambda>m. length (?text m)) ms)"
    by (intro sum_list_mono)
  then show ?case using length_joined_sum [of "map ?text ms"] by (simp add: comp_def)
qed (simp_all add: unitsOf_def printString_def)

lemma jsonDepth_mono: "jsonDepthAtMost n v \<Longrightarrow> n \<le> m \<Longrightarrow> jsonDepthAtMost m v"
proof (induction n v arbitrary: m rule: jsonDepthAtMost.induct)
  case (2 d xs)
  then show ?case by (cases m) auto
next
  case (3 d ms)
  then show ?case by (cases m) auto
qed (auto elim: less_natE simp: Suc_le_eq dest!: less_imp_Suc_add)

text \<open>The text of a value is read back as that value.\<close>

lemma parseJsonText_value:
  assumes "printableAt n v" "n \<le> jl_depth lim + 1" "weightAt n v \<le> jl_nodes lim"
  shows "\<exists>j. parseJsonText lim (printJson (jsonAt n v)) = Some (Inr j) \<and> jsvalOf j = v"
proof -
  have "strictJson (jl_depth lim + 1) (jsonAt n v)"
    using jsonAt_spells [OF assms(1)] jsonDepth_mono assms(2) by (auto simp: strictJson_def)
  moreover have "jsonSize (jsonAt n v) \<le> jl_nodes lim"
    using jsonAt_length [OF assms(1)] jsonSize_le [of "jsonAt n v"] jsonAt_spells [OF assms(1)] assms(3) by linarith
  ultimately show ?thesis using jsonAt_spells [OF assms(1)] parseJsonText_print by blast
qed

end
