(* ===== verification/SyncSample.thy ===== *)
theory SyncSample
  imports SyncKernelProperties JsonPrinting
begin

section \<open>A request and its answer\<close>

text \<open>
  A complete run of the page reader: the creator of a conversation has an empty verified prefix, asks for the first page, and
  the server answers with the JSON text of the page that holds the creating commit and with a cursor for the next one.
\<close>

definition limitsDigest :: string where
  "limitsDigest = b64encode (lengthHash (digestPreimage DELIVERY_LIMITS_DIGEST_DOMAIN (limitsDigestFields sampleCursorLimits)))"

definition prefixDigest :: string where
  "prefixDigest = b64encode (lengthHash (digestPreimage CONVERSATION_VERIFIED_PREFIX_EVIDENCE_DIGEST_DOMAIN
     (prefixDigestFields (samplePrefix limitsDigest))))"

definition sampleSyncRequest :: syncRequest where
  "sampleSyncRequest = \<lparr>rq_prefix = encodePrefix (samplePrefix limitsDigest), rq_requestedCursor = JNull, rq_requestedLimit = JStr ''2'',
     rq_retainedFloor = JStr ''1'', rq_verifiedPrefixEvidenceDigest = JStr prefixDigest, rq_now = JStr ''2024-01-01T00:00:00.000Z'',
     rq_deadline = JStr ''2024-01-01T00:00:05.000Z'', rq_aborted = False, rq_limits = encodeLimits sampleCursorLimits\<rparr>"

definition sampleOpened :: openedSync where
  "sampleOpened = \<lparr>os_limits = sampleCursorLimits, os_now = ''2024-01-01T00:00:00.000Z'', os_prefix = samplePrefix limitsDigest\<rparr>"

definition answerPage :: "nat \<Rightarrow> verifiedPage" where
  "answerPage n = sampleVerifiedPage\<lparr>vp_snapshot := samplePageSnapshot\<lparr>ps_deliveryLimitsDigest := limitsDigest, ps_etag := etagText ''2'' ''2'',
       ps_epoch := ''2'', ps_rosterVersion := ''2''\<rparr>,
     vp_serializedBytes := showNat n\<rparr>"

definition answerValue :: jsval where
  "answerValue = encodePage (answerPage 0)"

definition answerBytes :: bytes where
  "answerBytes = map of_nat (printJson (jsonAt 5 answerValue))"

definition answerClaims :: cursorClaims where
  "answerClaims = claimsOf (tokenOf (replicate 32 0)) sampleCursorContext (samplePlaintext\<lparr>pt_lastReturnedPosition := ''1''\<rparr>)"

definition samplePort :: "string \<Rightarrow> jsval res" where
  "samplePort cursor = Inr (encodeCursorClaims answerClaims)"

subsection \<open>The request opens\<close>

lemma limitsDigest_computed: "computeDeliveryLimitsDigest lengthHash (encodeLimits sampleCursorLimits) = Inr limitsDigest"
  and limitsDigest_valid [simp]: "hash32Valid limitsDigest"
proof -
  have limits: "parseDeliveryLimits (encodeLimits sampleCursorLimits) = Inr sampleCursorLimits"
    by (rule limits_codec.parse_encode [OF sampleCursorLimits_valid(1)])
  have "list_all (smallField 256) (limitsDigestFields sampleCursorLimits)" "length (limitsDigestFields sampleCursorLimits) \<le> 30000"
    by (simp_all add: limitsDigestFields_def DELIVERY_LIMIT_KEYS_def limitEntry_def limitTable_def sampleCursorLimits_def smallField_Utf8)
  then obtain h where h: "digestOf lengthHash DELIVERY_LIMITS_DIGEST_DOMAIN (limitsDigestFields sampleCursorLimits) = Inr h"
    using digestOf_small [OF lengthHash_length, of _ DELIVERY_LIMITS_DIGEST_DOMAIN] by (auto simp: DELIVERY_LIMITS_DIGEST_DOMAIN_def)
  with limits digestOf_Inr(3,4) [OF h]
  show "computeDeliveryLimitsDigest lengthHash (encodeLimits sampleCursorLimits) = Inr limitsDigest" "hash32Valid limitsDigest"
    by (simp_all add: computeDeliveryLimitsDigest_def limitsDigest_def)
qed

lemma prefixDigest_computed:
  "computeConversationVerifiedPrefixEvidenceDigest lengthHash (encodePrefix (samplePrefix limitsDigest)) = Inr prefixDigest"
  and prefixDigest_valid [simp]: "hash32Valid prefixDigest"
proof -
  obtain h where h: "computeConversationVerifiedPrefixEvidenceDigest lengthHash (encodePrefix (samplePrefix limitsDigest)) = Inr h"
    using samplePrefix_digest [OF limitsDigest_valid] by blast
  then have "digestOf lengthHash CONVERSATION_VERIFIED_PREFIX_EVIDENCE_DIGEST_DOMAIN (prefixDigestFields (samplePrefix limitsDigest)) = Inr h"
    by (simp add: computePrefixDigest_parsed [OF parsePrefixInput_encode [OF samplePrefix_valid]])
  from digestOf_Inr(3,4) [OF this] h
  show "computeConversationVerifiedPrefixEvidenceDigest lengthHash (encodePrefix (samplePrefix limitsDigest)) = Inr prefixDigest"
    "hash32Valid prefixDigest" by (simp_all add: prefixDigest_def)
qed

lemma deadline_times:
  "rfc3339Valid ''2024-01-01T00:00:05.000Z''" "dateParse ''2024-01-01T00:00:05.000Z'' = Some 1704067205000"
  "\<not> ''2024-01-01T00:00:05.000Z'' \<le> ''2024-01-01T00:00:00.000Z''"
  by code_simp+

lemma sampleRequest_opens: "openSyncPrefix lengthHash sampleSyncRequest = Inr sampleOpened"
proof -
  have valid: "prefixValid lengthHash (samplePrefix limitsDigest)" by (rule samplePrefix_valid) simp
  have limits: "parseDeliveryLimits (encodeLimits sampleCursorLimits) = Inr sampleCursorLimits"
    by (rule limits_codec.parse_encode [OF sampleCursorLimits_valid(1)])
  have consistent: "checkPrefixConsistency (samplePrefix limitsDigest) = Inr ()"
    by (simp add: checkPrefixConsistency_def samplePrefix_def samplePolicyProjection_def emptyLogAnchor_def Let_def)
  have times: "parseRfc3339Millis (JStr ''2024-01-01T00:00:00.000Z'') = Inr ''2024-01-01T00:00:00.000Z''"
    "parseRfc3339Millis (JStr ''2024-01-01T00:00:05.000Z'') = Inr ''2024-01-01T00:00:05.000Z''"
    using deadline_times cursor_sample_times by (simp_all add: parse_ok)
  have same: "\<lparr>vx_context = vx_context x, vx_membership = vx_membership x, vx_anchor = vx_anchor x, vx_witness = vx_witness x,
      vx_policy = vx_policy x, vx_projection = vx_projection x, vx_policyProjection = vx_policyProjection x,
      vx_senderBindings = vx_senderBindings x, vx_stagedProposals = vx_stagedProposals x,
      vx_conversationGeneration = vx_conversationGeneration x, vx_releaseProfileId = vx_releaseProfileId x,
      vx_deliveryLimitsDigest = vx_deliveryLimitsDigest x, vx_releaseTrustRootDigest = vx_releaseTrustRootDigest x,
      vx_expectedGroupIdHash = vx_expectedGroupIdHash x\<rparr> = x" for x :: verifiedPrefix by simp
  have digest: "vx_deliveryLimitsDigest (samplePrefix limitsDigest) = limitsDigest" by (simp add: samplePrefix_def)
  show ?thesis
    unfolding openSyncPrefix_def sampleSyncRequest_def sampleOpened_def
    using valid limits consistent times limitsDigest_computed prefixDigest_computed deadline_times cursor_sample_times(1)
    by (simp add: encodePrefix_def prefixValid_def parseConversationCursorContext_encode window_codec.parse_encode
      anchor_codec.parse_encode witness_anchor_codec.parse_encode policy_anchor_codec.parse_encode mls_projection_codec.parse_encode
      policy_projection_codec.parse_encode sender_bindings_codec.parse_encode staged_list_codec.parse_encode parse_ok digest same [of "samplePrefix limitsDigest", unfolded digest]
      dateMillis_def CONVERSATION_SYNC_MAX_PORT_WAIT_MILLISECONDS_def Let_def)
qed

subsection \<open>The answer is a text\<close>

lemma asciiString_plain: "plainText s \<Longrightarrow> asciiString s"
  by (auto simp: plainText_def asciiString_def list_all_iff)

lemma asciiString_hash [simp]: "hash32Valid s \<Longrightarrow> asciiString s" "nonZeroHashValid s \<Longrightarrow> asciiString s"
  by (auto intro: asciiString_plain plainText_hash simp: nonZeroHashValid_def)

lemma asciiString_b64encode [simp]: "asciiString (b64encode bs)"
  by (auto intro!: asciiString_plain plainText_b64)

lemma asciiString_append: "asciiString (s @ t) \<longleftrightarrow> asciiString s \<and> asciiString t"
  by (simp add: asciiString_def)

lemma answer_times: "asciiString receivedAt" "length receivedAt = 24"
proof -
  show "asciiString receivedAt" unfolding receivedAt_def clock_def asciiString_def by code_simp
qed (simp add: length_rfc3339)

lemma answer_texts:
  "asciiString sampleConversationId" "asciiString sampleCheckpointId" "asciiString sampleCredentialId" "asciiString sampleAccountId"
  "asciiString sampleInstallationId" "asciiString sampleSignature" "asciiString (tokenOf (replicate 32 0))"
  "asciiString (etagText ''2'' ''2'')" "asciiString MLS_PUBLIC_MESSAGE_MEDIA_TYPE" "asciiString hashText" "asciiString ZERO_HASH32"
proof -
  have "asciiString CONVERSATION_CURSOR_PREFIX" by (simp add: asciiString_def CONVERSATION_CURSOR_PREFIX_def)
  then show "asciiString (tokenOf (replicate 32 0))" by (simp add: tokenOf_def asciiString_append)
qed (simp_all add: sampleSignature_def hashText_def ZERO_HASH32_valid, simp_all add: asciiString_def sampleConversationId_def
    sampleCheckpointId_def sampleCredentialId_def sampleAccountId_def sampleInstallationId_def etagText_def etagQuote_def
    MLS_PUBLIC_MESSAGE_MEDIA_TYPE_def)

lemma answer_lengths:
  "length sampleConversationId = 36" "length sampleCheckpointId = 36" "length sampleCredentialId = 36" "length sampleAccountId = 36"
  "length sampleInstallationId = 36" "length sampleSignature = 86" "length (tokenOf (replicate 32 0)) = 47"
  "length (etagText ''2'' ''2'') = 7" "length MLS_PUBLIC_MESSAGE_MEDIA_TYPE \<le> 60" "length hashText = 43" "length ZERO_HASH32 = 43"
  "length limitsDigest = 43"
  using length_hash32 [OF ZERO_HASH32_valid] length_hash32 [OF limitsDigest_valid]
  by (simp_all add: sampleSignature_def hashText_def length_tokenOf length_b64encode sampleConversationId_def sampleCheckpointId_def
      sampleCredentialId_def sampleAccountId_def sampleInstallationId_def etagText_def MLS_PUBLIC_MESSAGE_MEDIA_TYPE_def)

text \<open>The texts of the commit itself.\<close>

lemma commit_fields [simp]:
  "se_contentType sampleCommitCommon = MLS_PUBLIC_MESSAGE_MEDIA_TYPE" "se_epoch sampleCommitCommon = ''1''"
  "se_rosterVersion sampleCommitCommon = ''1''" "se_sender sampleCommitCommon = InstallationSender sampleAccountId sampleInstallationId"
  "se_logSigningKeyId sampleCommitCommon = ''log-1''" "se_logHeadSignature sampleCommitCommon = sampleSignature"
  by (simp_all add: sampleCommitCommon_def storedOf_def Let_def sampleCommitLeaf_def sampleLeaf_def)

lemma commit_hashes:
  "hash32Valid (se_leafHash sampleCommitCommon)" "hash32Valid (se_headHash sampleCommitCommon)"
  "hash32Valid (se_logCheckpointDigest sampleCommitCommon)" "hash32Valid (se_envelopeSha256 sampleCommitCommon)"
  by (simp_all add: sampleCommitCommon_def storedOf_def Let_def sampleCommitLeaf_def hashed_valid)

lemma asciiString_literal [simp]: "asciiString []" "asciiString (c # s) \<longleftrightarrow> 32 \<le> charCode c \<and> charCode c < 128 \<and> asciiString s"
  by (simp_all add: asciiString_def)

lemmas answer_encoding = answerValue_def answerPage_def encodePage_def encodeItem_def encodePageSnapshot_def entriesPageSnapshot_def
  encodeLogHead_def entriesLogHead_def encodeReceipt_def entriesReceipt_def entriesStored_def encodeMandatoryProposals_def
  sampleVerifiedPage_def sampleCommitItem_def samplePageSnapshot_def sampleLogHead_def sampleReceipt_def

lemma answerValue_printable: "printableAt (Suc (Suc (Suc (Suc (Suc 0))))) answerValue"
  by (simp add: at_values answer_encoding answer_texts answer_times commit_hashes del: b64encode.simps)

lemma answerValue_weight: "weightAt (Suc (Suc (Suc (Suc (Suc 0))))) answerValue \<le> 50000"
  using length_hash32 [OF commit_hashes(1)] length_hash32 [OF commit_hashes(2)] length_hash32 [OF commit_hashes(3)]
    length_hash32 [OF commit_hashes(4)]
  by (simp add: at_values answer_encoding answer_lengths answer_times length_b64encode MLS_PUBLIC_MESSAGE_MEDIA_TYPE_def)

subsection \<open>The answer is accepted\<close>

lemma printed_response:
  fixes v :: jsval
  defines "bs \<equiv> map of_nat (printJson (jsonAt 5 v))"
  assumes "printableAt (Suc (Suc (Suc (Suc (Suc 0))))) v" "weightAt (Suc (Suc (Suc (Suc (Suc 0))))) v \<le> 50000"
  shows "\<exists>j. parseStrictJsonBytes bs = Some (Inr j) \<and> jsvalOf j = v" "length bs \<le> 50000"
proof -
  let ?text = "printJson (jsonAt (Suc (Suc (Suc (Suc (Suc 0))))) v)"
  have bytes: "bs = map of_nat ?text" by (simp add: bs_def numeral_eq_Suc)
  have ascii: "asciiUnits ?text" using jsonAt_spells [OF assms(2)] by (blast intro: asciiUnits_printJson)
  then have units: "map unat bs = ?text"
    by (auto simp: bytes asciiUnits_def list_all_iff intro!: map_idI)
  have "239 \<notin> set (map unat bs)" using ascii by (auto simp: units asciiUnits_def list_all_iff)
  have bom: "\<not> startsWithBom bs"
  proof
    assume "startsWithBom bs"
    then have "(239 :: 8 word) \<in> set (take 3 bs)" by (simp add: startsWithBom_def)
    then have "unat (239 :: 8 word) \<in> unat ` set bs" by (intro imageI) (rule in_set_takeD)
    with \<open>239 \<notin> set (map unat bs)\<close> show False by simp
  qed
  show "\<exists>j. parseStrictJsonBytes bs = Some (Inr j) \<and> jsvalOf j = v"
    using parseJsonText_value [OF assms(2), of SYNC_JSON_LIMITS] assms(3)
    by (simp add: parseStrictJsonBytes_def bom units decodeUtf8_ascii [OF ascii] SYNC_JSON_LIMITS_def)
  show "length bs \<le> 50000" using jsonAt_length [OF assms(2)] assms(3) by (simp add: bytes)
qed

lemmas answer_read = printed_response(1) [OF answerValue_printable answerValue_weight, folded answerBytes_def]
  and answer_size = printed_response(2) [OF answerValue_printable answerValue_weight, folded answerBytes_def]

lemma answerPage_accepted:
  "verifyConversationPage lengthHash answerValue (pageInputOf sampleSyncRequest sampleOpened None answerBytes) = Inr (answerPage (length answerBytes))"
proof -
  let ?input = "pageInputOf sampleSyncRequest sampleOpened None answerBytes" and ?page = "answerPage (length answerBytes)"
  have prefix: "vx_membership (samplePrefix limitsDigest) = sampleWindow" "vx_anchor (samplePrefix limitsDigest) = emptyLogAnchor"
    "vx_context (samplePrefix limitsDigest) = sampleCursorContext" "vx_conversationGeneration (samplePrefix limitsDigest) = ''1''"
    "vx_releaseProfileId (samplePrefix limitsDigest) = ''release-1''" "vx_deliveryLimitsDigest (samplePrefix limitsDigest) = limitsDigest"
    by (simp_all add: samplePrefix_def)
  have frame: "openPageRequest ?input = Inr sampleFrame"
    using sampleFrame_opens
    unfolding openPageRequest_def samplePageInput_def pageInputOf_def sampleSyncRequest_def sampleOpened_def encodePrefix_def prefix
      Let_def requestedAfterPosition_def pageInput.select_convs syncRequest.select_convs openedSync.select_convs prefixInput.select_convs
      prefix .
  have window: "pf_membership sampleFrame = sampleWindow" by (simp add: sampleFrame_def)
  have two: "uint63Valid ''2''" by simp
  then have etag: "etagValid (etagText ''2'' ''2'')" unfolding etagValid_def by blast
  have "pageAcceptable lengthHash ?input sampleFrame ?page"
    using samplePage_acceptable two etag
    by (simp add: pageAcceptable_def answerPage_def sampleVerifiedPage_def samplePageInput_def pageInputOf_def sampleSyncRequest_def
        sampleOpened_def snapshotBound_def pageSnapshotValid_def samplePageSnapshot_def policyAnchored_def hidesNothing_def prefix window Let_def)
  then have "verifyConversationPage lengthHash (encodePage ?page) ?input = Inr ?page"
    using verifyConversationPage_iff [OF frame] encodePage_reads by blast
  moreover have "encodePage ?page = answerValue" by (simp add: answerValue_def encodePage_def answerPage_def)
  ultimately show ?thesis by simp
qed

lemma answer_next_cursor: "resolveNextCursor samplePort sampleOpened (answerPage n) = Inr answerClaims"
proof -
  have token: "vp_nextCursor (answerPage n) = tokenOf (replicate 32 0)" "vp_events (answerPage n) = [sampleCommitItem]"
    by (simp_all add: answerPage_def sampleVerifiedPage_def)
  have cursor: "parseEncodedConversationCursor (JStr (tokenOf (replicate 32 0))) (encodeLimits sampleCursorLimits) = Inr (tokenOf (replicate 32 0))"
    using sampleCursorLimits_valid by (intro parseEncodedConversationCursor_token) (simp_all add: length_tokenOf)
  have cx: "parseConversationCursorContext (encodeCursorContext sampleCursorContext) = Inr sampleCursorContext"
    using samplePlaintext_valid(3) by (rule parseConversationCursorContext_encode)
  let ?pt = "samplePlaintext\<lparr>pt_lastReturnedPosition := ''1''\<rparr>"
  have pt: "plaintextValid ?pt" "bindsContext sampleCodec sampleCursorContext ?pt"
    using samplePlaintext_valid(1,2) by (simp_all add: plaintextValid_def bindsContext_def)
  have verdict: "cursorVerdictOf sampleCursorContext ''2024-01-01T00:00:00.000Z'' answerClaims = Inr (CurrentCursor answerClaims)"
    by (simp add: cursorVerdictOf_def answerClaims_def claimsOf_def sampleCursorContext_def samplePlaintext_def cursor_sample_times
        dateMillis_def CONVERSATION_CURSOR_MAX_LIFETIME_MILLISECONDS_def Let_def)
  have "parseConversationCursorClaims (encodeCursorClaims answerClaims) (JStr (tokenOf (replicate 32 0)))
      (encodeCursorContext sampleCursorContext) (JStr ''2024-01-01T00:00:00.000Z'') (encodeLimits sampleCursorLimits) = Inr (CurrentCursor answerClaims)"
    using parseConversationCursorClaims_claimsOf [OF cx samplePlaintext_valid(3) pt cursor_sample_times(3) cursor] verdict
    by (simp add: answerClaims_def)
  moreover have "throwIfDeliveryPortUnavailable (encodeCursorClaims answerClaims) = Inr ()"
    by (simp add: throwIfDeliveryPortUnavailable_def encodeCursorClaims_def mkRecord_def recGet_def)
  ultimately show ?thesis
    by (simp add: resolveNextCursor_def samplePort_def token sampleOpened_def samplePrefix_def answerClaims_def claimsOf_def
        sampleCommitItem_def)
qed

lemma sampleResponse_read:
  "readOpenedPage lengthHash samplePort (owned answerBytes) sampleSyncRequest sampleOpened
   = Some (Inr (answerPage (length answerBytes), answerClaims))"
  "readOpenedPage lengthHash samplePort JNull sampleSyncRequest sampleOpened = Some (Inl ConversationSyncValidationError)"
proof -
  obtain j where j: "parseStrictJsonBytes answerBytes = Some (Inr j)" "jsvalOf j = answerValue" using answer_read by blast
  have "minimum (bigInt (pageSerializedResponseMaxBytes sampleCursorLimits)) CONVERSATION_PAGE_HARD_MAX_SERIALIZED_BYTES = 86400"
    by (simp add: sampleCursorLimits_def minimum_def CONVERSATION_PAGE_HARD_MAX_SERIALIZED_BYTES_def bigInt_def readNat_def digitVal_def)
  moreover have "parseOwnedBytes (owned answerBytes) 86400 = Inr answerBytes"
    using answer_size by (simp add: parseOwnedBytes_def owned_def copyBytes_owned)
  moreover have "parseOwnedBytes JNull 86400 = Inl ConversationSyncValidationError"
    by (auto simp: parseOwnedBytes_def elim: copyBytes_Inr_view split: sum.splits)
  moreover have "resolveRequestedCursor samplePort sampleOpened (rq_requestedCursor sampleSyncRequest) (rq_retainedFloor sampleSyncRequest) = Inr None"
    by (simp add: resolveRequestedCursor_def sampleSyncRequest_def)
  ultimately show "readOpenedPage lengthHash samplePort (owned answerBytes) sampleSyncRequest sampleOpened
      = Some (Inr (answerPage (length answerBytes), answerClaims))"
    "readOpenedPage lengthHash samplePort JNull sampleSyncRequest sampleOpened = Some (Inl ConversationSyncValidationError)"
    using j answerPage_accepted answer_next_cursor by (simp_all add: readOpenedPage_def andThen_def sampleOpened_def)
qed

theorem page_response_sound_witness:
  "normalizedPage lengthHash samplePort (owned answerBytes) sampleSyncRequest = Some (Inr (answerPage (length answerBytes), answerClaims))
   \<and> responseSound lengthHash (owned answerBytes) sampleSyncRequest (answerPage (length answerBytes)) answerClaims
   \<and> normalizedPage lengthHash samplePort JNull sampleSyncRequest = Some (Inl ConversationSyncValidationError)"
proof -
  have "normalizedPage lengthHash samplePort (owned answerBytes) sampleSyncRequest
      = Some (Inr (answerPage (length answerBytes), answerClaims))"
    "normalizedPage lengthHash samplePort JNull sampleSyncRequest = Some (Inl ConversationSyncValidationError)"
    using sampleResponse_read by (simp_all add: normalizedPage_def readConversationPage_def sampleRequest_opens andThen_def)
  then show ?thesis using page_response_sound [of lengthHash samplePort "owned answerBytes" sampleSyncRequest] by simp
qed

end
