(* ===== verification/PolicyReplayProperties.thy ===== *)
theory PolicyReplayProperties
  imports PolicyReplay SyncSample
begin

section \<open>Properties of the policy replay\<close>

text \<open>
  The replay walks through events and transitions with two cursors. Declaratively, an event sees the mandatory proposals
  of the last transition before its position; the lemmas show that the walk accepts exactly the histories in which no
  application message sees an outstanding proposal and no proposal disappears at a position whose envelope is not a Commit.
\<close>

definition lastMandatory :: "mandatoryProposal list \<Rightarrow> replayProjection list \<Rightarrow> mandatoryProposal list" where
  "lastMandatory start ts = last (start # map rj_mandatoryProposals ts)"

definition inForce :: "mandatoryProposal list \<Rightarrow> replayProjection list \<Rightarrow> int \<Rightarrow> mandatoryProposal list" where
  "inForce start ts p = lastMandatory start (filter (\<lambda>t. bigInt (rj_deliveryLogPosition t) < p) ts)"

text \<open>Each transition with the mandatory proposals it replaces.\<close>

fun successive :: "mandatoryProposal list \<Rightarrow> replayProjection list \<Rightarrow> (mandatoryProposal list \<times> replayProjection) list" where
  "successive active [] = []"
| "successive active (t # ts) = (active, t) # successive (rj_mandatoryProposals t) ts"

definition replayLawful :: "mandatoryProposal list \<Rightarrow> replayProjection list \<Rightarrow> replayEvent list \<Rightarrow> bool" where
  "replayLawful start ts es \<longleftrightarrow> (\<forall>e \<in> set es.
     (re_envelopeClass e = Application \<longrightarrow> inForce start ts (bigInt (re_position e)) = [])
     \<and> (\<forall>(before, t) \<in> set (successive start ts).
          rj_deliveryLogPosition t = re_position e \<and> clearsRequirement before t \<longrightarrow> re_envelopeClass e = MlsCommit))"

lemma lastMandatory_simps [simp]:
  "lastMandatory a [] = a" "lastMandatory a (t # ts) = lastMandatory (rj_mandatoryProposals t) ts"
  "lastMandatory a (xs @ ys) = lastMandatory (lastMandatory a xs) ys"
  by (simp_all add: lastMandatory_def)

lemma successive_append: "successive a (xs @ ys) = successive a xs @ successive (lastMandatory a xs) ys"
  by (induction xs arbitrary: a) auto

lemma successive_snd: "(before, t) \<in> set (successive a ts) \<Longrightarrow> t \<in> set ts"
  by (induction ts arbitrary: a) auto

subsection \<open>The two cursors\<close>

lemma passTransitions_split:
  "passTransitions position a ts = (lastMandatory a (takeWhile (\<lambda>t. bigInt (rj_deliveryLogPosition t) < bigInt position) ts),
     dropWhile (\<lambda>t. bigInt (rj_deliveryLogPosition t) < bigInt position) ts)"
  by (induction ts arbitrary: a) auto

lemma settleTransitions_split:
  "settleTransitions e a ts =
     (let here = takeWhile (\<lambda>t. rj_deliveryLogPosition t = re_position e) ts in
      if \<forall>(before, t) \<in> set (successive a here). clearsRequirement before t \<longrightarrow> re_envelopeClass e = MlsCommit
      then Inr (lastMandatory a here, dropWhile (\<lambda>t. rj_deliveryLogPosition t = re_position e) ts)
      else Inl ConversationSyncValidationError)"
  by (induction ts arbitrary: a) (auto simp: Let_def)

text \<open>A sorted list of transitions falls into those before, at and after the position of an event.\<close>

lemma transitions_parts:
  fixes e :: replayEvent
  defines "p \<equiv> bigInt (re_position e)"
  assumes "sorted (map (\<lambda>t. bigInt (rj_deliveryLogPosition t)) ts)" "\<forall>t \<in> set ts. uint63Valid (rj_deliveryLogPosition t)"
    and "uint63Valid (re_position e)"
  obtains A B C where "ts = A @ B @ C" "A = takeWhile (\<lambda>t. bigInt (rj_deliveryLogPosition t) < p) ts"
    "B @ C = dropWhile (\<lambda>t. bigInt (rj_deliveryLogPosition t) < p) ts"
    "B = takeWhile (\<lambda>t. rj_deliveryLogPosition t = re_position e) (B @ C)"
    "C = dropWhile (\<lambda>t. rj_deliveryLogPosition t = re_position e) (B @ C)"
    "\<forall>t \<in> set A. bigInt (rj_deliveryLogPosition t) < p" "\<forall>t \<in> set B. rj_deliveryLogPosition t = re_position e"
    "\<forall>t \<in> set C. p < bigInt (rj_deliveryLogPosition t)"
proof -
  let ?before = "\<lambda>t. bigInt (rj_deliveryLogPosition t) < p" and ?here = "\<lambda>t. rj_deliveryLogPosition t = re_position e"
  define A R where "A = takeWhile ?before ts" and "R = dropWhile ?before ts"
  define B C where "B = takeWhile ?here R" and "C = dropWhile ?here R"
  have ts: "ts = A @ R" "R = B @ C" by (simp_all add: A_def R_def B_def C_def)
  have sorted: "sorted (map (\<lambda>t. bigInt (rj_deliveryLogPosition t)) R)" "sorted (map (\<lambda>t. bigInt (rj_deliveryLogPosition t)) C)"
    using assms(2) by (simp_all add: ts sorted_append)
  have "p \<le> bigInt (rj_deliveryLogPosition t)" if "t \<in> set R" for t
  proof (cases R)
    case (Cons r rs)
    then have "\<not> ?before r" using hd_dropWhile [of ?before ts] by (simp add: R_def)
    then show ?thesis using that sorted(1) Cons by auto
  qed (use that in simp)
  moreover have "p < bigInt (rj_deliveryLogPosition t)" if "t \<in> set C" for t
  proof (cases C)
    case (Cons c cs)
    have "\<not> ?here c" using Cons hd_dropWhile [of ?here R] by (simp add: C_def)
    moreover have "uint63Valid (rj_deliveryLogPosition c)" using assms(3) Cons by (simp add: ts)
    ultimately have "bigInt (rj_deliveryLogPosition c) \<noteq> p" using uint63_eq_iff assms(4) by (auto simp: p_def)
    moreover have "p \<le> bigInt (rj_deliveryLogPosition c)" using calculation(1) Cons ts(2) \<open>\<And>t. t \<in> set R \<Longrightarrow> p \<le> bigInt (rj_deliveryLogPosition t)\<close> by simp
    ultimately show ?thesis using that sorted(2) Cons by auto
  qed (use that in simp)
  moreover have "ts = A @ B @ C" by (simp add: ts)
  moreover have "B @ C = dropWhile ?before ts" by (simp add: ts(2) [symmetric] R_def)
  moreover have "B = takeWhile ?here (B @ C)" "C = dropWhile ?here (B @ C)" by (simp_all only: B_def C_def takeWhile_dropWhile_id)
  moreover have "\<forall>t \<in> set A. ?before t" "\<forall>t \<in> set B. ?here t" by (auto simp: A_def B_def dest: set_takeWhileD)
  ultimately show ?thesis using A_def by (intro that [of A B C]) blast+
qed

lemma eventsOrdered_later: "eventsOrdered prior es \<Longrightarrow> e \<in> set es \<Longrightarrow> prior < bigInt (re_position e)"
  by (induction es arbitrary: prior) fastforce+

lemma replayEvents_iff:
  assumes "eventsOrdered prior es" "sorted (map (\<lambda>t. bigInt (rj_deliveryLogPosition t)) ts)"
    "\<forall>t \<in> set ts. uint63Valid (rj_deliveryLogPosition t)"
  shows "replayEvents a ts es = Inr () \<longleftrightarrow> replayLawful a ts es"
  using assms
proof (induction es arbitrary: prior a ts)
  case Nil
  then show ?case by (simp add: replayLawful_def)
next
  case (Cons e es)
  let ?p = "bigInt (re_position e)"
  have e: "uint63Valid (re_position e)" and later: "\<forall>e' \<in> set es. ?p < bigInt (re_position e')"
    using Cons.prems(1) eventsOrdered_later by (auto simp: replayEventValid_def positiveUint63Valid_def)
  obtain A B C where parts: "ts = A @ B @ C" "A = takeWhile (\<lambda>t. bigInt (rj_deliveryLogPosition t) < ?p) ts"
    "B @ C = dropWhile (\<lambda>t. bigInt (rj_deliveryLogPosition t) < ?p) ts"
    "B = takeWhile (\<lambda>t. rj_deliveryLogPosition t = re_position e) (B @ C)"
    "C = dropWhile (\<lambda>t. rj_deliveryLogPosition t = re_position e) (B @ C)"
    "\<forall>t \<in> set A. bigInt (rj_deliveryLogPosition t) < ?p" "\<forall>t \<in> set B. rj_deliveryLogPosition t = re_position e"
    "\<forall>t \<in> set C. ?p < bigInt (rj_deliveryLogPosition t)"
    by (rule transitions_parts [OF Cons.prems(2,3) e])
  let ?a1 = "lastMandatory a A" and ?a2 = "lastMandatory (lastMandatory a A) B"
  have pairs: "set (successive a ts) = set (successive a A) \<union> set (successive ?a1 B) \<union> set (successive ?a2 C)"
    by (simp add: parts(1) successive_append Un_assoc)
  have here: "inForce a ts ?p = ?a1"
  proof -
    have "filter (\<lambda>t. bigInt (rj_deliveryLogPosition t) < ?p) ts = A"
      unfolding parts(1) using parts(6-8) by (auto simp: filter_id_conv intro!: filter_False)
    then show ?thesis by (simp add: inForce_def)
  qed
  have after: "inForce a ts p' = inForce ?a2 C p'" if "?p < p'" for p'
  proof -
    have "filter (\<lambda>t. bigInt (rj_deliveryLogPosition t) < p') ts = A @ B @ filter (\<lambda>t. bigInt (rj_deliveryLogPosition t) < p') C"
      unfolding parts(1) using parts(6,7) that by (auto simp: filter_id_conv)
    then show ?thesis by (simp add: inForce_def)
  qed
  have apart: "\<forall>(before, t) \<in> set (successive x A). bigInt (rj_deliveryLogPosition t) < ?p"
    "\<forall>(before, t) \<in> set (successive x B). rj_deliveryLogPosition t = re_position e"
    "\<forall>(before, t) \<in> set (successive x C). ?p < bigInt (rj_deliveryLogPosition t)" for x
    using parts(6-8) successive_snd by fast+
  have at_event: "(\<forall>(before, t) \<in> set (successive a ts). rj_deliveryLogPosition t = re_position e \<and> clearsRequirement before t
        \<longrightarrow> re_envelopeClass e = MlsCommit)
      \<longleftrightarrow> (\<forall>(before, t) \<in> set (successive ?a1 B). clearsRequirement before t \<longrightarrow> re_envelopeClass e = MlsCommit)"
    unfolding pairs using apart(1) [of a] apart(2) [of ?a1] apart(3) [of ?a2] by force
  have rest: "replayLawful a ts es \<longleftrightarrow> replayLawful ?a2 C es"
  proof -
    have "(\<forall>(before, t) \<in> set (successive a ts). rj_deliveryLogPosition t = re_position e' \<and> clearsRequirement before t
          \<longrightarrow> re_envelopeClass e' = MlsCommit)
        \<longleftrightarrow> (\<forall>(before, t) \<in> set (successive ?a2 C). rj_deliveryLogPosition t = re_position e' \<and> clearsRequirement before t
          \<longrightarrow> re_envelopeClass e' = MlsCommit)" if "e' \<in> set es" for e'
      unfolding pairs using apart(1) [of a] apart(2) [of ?a1] bspec [OF later that] by force
    then show ?thesis using after later by (simp add: replayLawful_def)
  qed
  have ih: "replayEvents ?a2 C es = Inr () \<longleftrightarrow> replayLawful ?a2 C es"
    using Cons.prems by (intro Cons.IH [of ?p]) (auto simp: parts(1) sorted_append)
  have step: "replayEvents a ts (e # es) = Inr () \<longleftrightarrow> \<not> (re_envelopeClass e = Application \<and> ?a1 \<noteq> [])
      \<and> (\<forall>(before, t) \<in> set (successive ?a1 B). clearsRequirement before t \<longrightarrow> re_envelopeClass e = MlsCommit)
      \<and> replayEvents ?a2 C es = Inr ()"
    by (simp add: passTransitions_split settleTransitions_split Let_def parts(2,3) [symmetric] parts(4,5) [symmetric] del: replayEvents.simps(1))
  show ?case unfolding step ih rest [symmetric] using at_event here by (auto simp: replayLawful_def)
qed

subsection \<open>The interval\<close>

lemma checkTransitions_facts:
  "checkTransitions evidence prior ts = Inr final \<Longrightarrow>
     rj_mandatoryProposals final = lastMandatory (rj_mandatoryProposals prior) ts
     \<and> sorted (map (\<lambda>t. bigInt (rj_deliveryLogPosition t)) (prior # ts))
     \<and> (\<forall>t \<in> set ts. policyReplayHeadMatchesPage evidence t \<and> bigInt (rj_policyHeadSequence prior) < bigInt (rj_policyHeadSequence t)
          \<and> bigInt (rj_deliveryLogPosition t) \<le> bigInt (rv_pageEndPosition evidence))"
  by (induction ts arbitrary: prior) (fastforce simp: transitionRejected_def split: if_splits)+

lemma samePolicyReplayProjection_iff: "samePolicyReplayProjection a b \<longleftrightarrow> a = b"
  by (auto simp: samePolicyReplayProjection_def samePolicyMandatoryProposals_iff intro: replayProjection.equality)

lemma sameReplayEvent_iff: "sameReplayEvent a b \<longleftrightarrow> a = b"
  by (auto simp: sameReplayEvent_def intro: replayEvent.equality)

lemma matches_request:
  assumes "assertPolicyReplayMatchesRequest ev rq = Inr ()"
  shows "rv_events ev = rr_events rq" "rv_pageStartPolicy ev = rr_pageStartPolicy rq" "rv_pageEndPolicy ev = rr_pageEndPolicy rq"
    "rv_pageStartPosition ev = rr_pageStartPosition rq" "rv_pageEndPosition ev = rr_pageEndPosition rq"
  using assms
  by (auto simp: assertPolicyReplayMatchesRequest_def samePolicyReplayProjection_iff sameReplayEvent_iff list_ex_iff
      intro: nth_equalityI split: if_splits)

lemma validInterval_lawful:
  assumes "validatePolicyReplayInterval ev = Inr ()" "replayEvidenceValid ev"
  shows "replayLawful (rj_mandatoryProposals (rv_pageStartPolicy ev)) (rv_transitions ev) (rv_events ev)"
    "lastMandatory (rj_mandatoryProposals (rv_pageStartPolicy ev)) (rv_transitions ev) = rj_mandatoryProposals (rv_pageEndPolicy ev)"
    "\<forall>t \<in> set (rv_transitions ev). policyReplayHeadMatchesPage ev t \<and> bigInt (rj_deliveryLogPosition t) \<le> bigInt (rv_pageEndPosition ev)"
proof -
  let ?start = "rj_mandatoryProposals (rv_pageStartPolicy ev)"
  obtain final where final: "checkTransitions ev (rv_pageStartPolicy ev) (rv_transitions ev) = Inr final"
    "rj_mandatoryProposals final = rj_mandatoryProposals (rv_pageEndPolicy ev)" "replayEvents ?start (rv_transitions ev) (rv_events ev) = Inr ()"
    using assms(1) by (auto simp: validatePolicyReplayInterval_def bindE_eq_Inr samePolicyMandatoryProposals_iff split: if_splits)
  note facts = checkTransitions_facts [OF final(1)]
  have "eventsOrdered 0 (rv_events ev)" "\<forall>t \<in> set (rv_transitions ev). uint63Valid (rj_deliveryLogPosition t)"
    using assms(2) by (auto simp: replayEvidenceValid_def replayEventsValid_def replayTransitionsValid_def replayProjectionValid_def list_all_iff)
  from replayEvents_iff [OF this(1) _ this(2)] facts final(3) show "replayLawful ?start (rv_transitions ev) (rv_events ev)" by auto
  show "lastMandatory ?start (rv_transitions ev) = rj_mandatoryProposals (rv_pageEndPolicy ev)" using facts final(2) by simp
  show "\<forall>t \<in> set (rv_transitions ev). policyReplayHeadMatchesPage ev t \<and> bigInt (rj_deliveryLogPosition t) \<le> bigInt (rv_pageEndPosition ev)"
    using facts by blast
qed

lemma replay_accepted:
  assumes "verifyConversationPolicyReplay H verify page anchor startPolicy highWater now realm generation release limits root = Inr ev"
  shows "rv_events ev = map replayEventOf (vp_events page)" "rv_pageStartPolicy ev = toPolicyReplayProjection startPolicy"
    "rv_pageEndPolicy ev = snapshotPolicyReplayProjection (vp_snapshot page)" "rv_pageStartPosition ev = ha_position anchor"
    "rv_pageEndPosition ev = lh_position (ps_logHead (vp_snapshot page))"
    "replayEvidenceValid ev" "validatePolicyReplayInterval ev = Inr ()"
proof -
  obtain raw where raw: "parseConversationPolicyReplayEvidence H raw
      (replayRequestOf page anchor startPolicy highWater now realm generation release limits root) = Inr ev"
    using assms by (auto simp: verifyConversationPolicyReplay_def Let_def bindE_eq_Inr)
  then have parsed: "parsePolicyReplayFields raw = Inr ev" "validatePolicyReplayInterval ev = Inr ()"
    and same: "assertPolicyReplayMatchesRequest ev (replayRequestOf page anchor startPolicy highWater now realm generation release limits root) = Inr ()"
    by (auto simp: parseConversationPolicyReplayEvidence_def bindE_eq_Inr split: if_splits)
  show "replayEvidenceValid ev" "validatePolicyReplayInterval ev = Inr ()"
    using parsed replay_evidence_codec.parse_wf by auto
  show "rv_events ev = map replayEventOf (vp_events page)" "rv_pageStartPolicy ev = toPolicyReplayProjection startPolicy"
    "rv_pageEndPolicy ev = snapshotPolicyReplayProjection (vp_snapshot page)" "rv_pageStartPosition ev = ha_position anchor"
    "rv_pageEndPosition ev = lh_position (ps_logHead (vp_snapshot page))"
    using matches_request [OF same] by (simp_all add: replayRequestOf_def Let_def)
qed

text \<open>
  The walk with two cursors decides the declarative condition. On events in strictly increasing positions and
  transitions in non-decreasing ones, it accepts if and only if no application message sees an outstanding mandatory
  proposal and every transition at the position of an event that lets one disappear finds a Commit there.
\<close>

theorem replay_walk_exact:
  assumes "eventsOrdered 0 es" "sorted (map (\<lambda>t. bigInt (rj_deliveryLogPosition t)) ts)"
    and "list_all (\<lambda>t. uint63Valid (rj_deliveryLogPosition t)) ts"
  shows "replayEvents start ts es = Inr () \<longleftrightarrow> replayLawful start ts es"
  using assms(3) by (intro replayEvents_iff [OF assms(1,2)]) (simp add: list_all_iff)

text \<open>
  C21. A page whose policy replay was accepted respects every cutoff. No application message of the page stands at a
  position where a mandatory proposal is outstanding; a transition that lets a mandatory proposal disappear stands at
  the position of a Commit of the page, with its head, or at the position where the page starts; and the transitions
  lead from the mandatory proposals of the client's prefix to those of the snapshot.
\<close>

theorem policy_cutoff_respected:
  assumes "verifyConversationPolicyReplay H verify page anchor startPolicy highWater now realm generation release limits root = Inr ev"
  shows "(\<forall>item \<in> set (vp_events page). se_envelopeClass (stored item) = Application \<longrightarrow>
         inForce (pp_policyMandatoryProposals startPolicy) (rv_transitions ev) (itemPosition item) = [])
    \<and> (\<forall>(before, t) \<in> set (successive (pp_policyMandatoryProposals startPolicy) (rv_transitions ev)). clearsRequirement before t \<longrightarrow>
         rj_deliveryLogPosition t = ha_position anchor
         \<or> (\<exists>item \<in> set (vp_events page). se_position (stored item) = rj_deliveryLogPosition t
              \<and> se_headHash (stored item) = rj_deliveryLogHeadHash t \<and> se_envelopeClass (stored item) = MlsCommit))
    \<and> inForce (pp_policyMandatoryProposals startPolicy) (rv_transitions ev) (bigInt (lh_position (ps_logHead (vp_snapshot page))) + 1)
        = ps_policyMandatoryProposals (vp_snapshot page)"
proof -
  let ?start = "pp_policyMandatoryProposals startPolicy" and ?ts = "rv_transitions ev"
  note accepted = replay_accepted [OF assms]
  note interval = validInterval_lawful [OF accepted(7,6)]
  have start: "rj_mandatoryProposals (rv_pageStartPolicy ev) = ?start" by (simp add: accepted(2) toPolicyReplayProjection_def)
  have lawful: "replayLawful ?start ?ts (map replayEventOf (vp_events page))" using interval(1) by (simp add: start accepted(1))
  have event: "re_position (replayEventOf item) = se_position (stored item)" "re_headHash (replayEventOf item) = se_headHash (stored item)"
    "re_envelopeClass (replayEventOf item) = se_envelopeClass (stored item)" for item by (simp_all add: replayEventOf_def Let_def)
  have "inForce ?start ?ts (itemPosition item) = []" if "item \<in> set (vp_events page)" "se_envelopeClass (stored item) = Application" for item
    using lawful that by (auto simp: replayLawful_def event)
  moreover have "rj_deliveryLogPosition t = ha_position anchor
      \<or> (\<exists>item \<in> set (vp_events page). se_position (stored item) = rj_deliveryLogPosition t
              \<and> se_headHash (stored item) = rj_deliveryLogHeadHash t \<and> se_envelopeClass (stored item) = MlsCommit)"
    if "(before, t) \<in> set (successive ?start ?ts)" "clearsRequirement before t" for before t
  proof (cases "rj_deliveryLogPosition t = ha_position anchor")
    case False
    have "policyReplayHeadMatchesPage ev t" using interval(3) successive_snd [OF that(1)] by blast
    then obtain item where item: "item \<in> set (vp_events page)" "se_position (stored item) = rj_deliveryLogPosition t"
      "se_headHash (stored item) = rj_deliveryLogHeadHash t"
      using False by (auto simp: policyReplayHeadMatchesPage_def accepted(1,4) list_ex_iff event)
    then have "se_envelopeClass (stored item) = MlsCommit"
      using lawful that by (fastforce simp: replayLawful_def event)
    with item show ?thesis by blast
  qed simp
  moreover have "filter (\<lambda>t. bigInt (rj_deliveryLogPosition t) < bigInt (lh_position (ps_logHead (vp_snapshot page))) + 1) ?ts = ?ts"
    using interval(3) by (auto simp: filter_id_conv accepted(5))
  then have "inForce ?start ?ts (bigInt (lh_position (ps_logHead (vp_snapshot page))) + 1) = ps_policyMandatoryProposals (vp_snapshot page)"
    using interval(2) by (simp add: inForce_def start accepted(3) snapshotPolicyReplayProjection_def)
  ultimately show ?thesis by blast
qed

subsection \<open>A Commit that clears a requirement\<close>

text \<open>
  The client's prefix has one mandatory proposal; the page holds the Commit at position 1, and the second policy head, evaluated
  there, has none.
\<close>

definition sampleRequirement :: mandatoryProposal where
  "sampleRequirement = \<lparr>pm_proposalId = ''00000000-0000-7000-8000-00000000000f'', pm_proposalHash = hashText\<rparr>"

definition startPolicy :: policyProjection where
  "startPolicy = samplePolicyProjection\<lparr>pp_policyMandatoryProposals := [sampleRequirement]\<rparr>"

definition clearedPolicy :: replayProjection where
  "clearedPolicy = \<lparr>rj_policyHeadId = sampleCheckpointId, rj_policyHeadSequence = ''2'', rj_policyHeadHash = hashText,
     rj_deliveryLogPosition = ''1'', rj_deliveryLogHeadHash = se_headHash sampleCommitCommon, rj_mandatoryProposals = [],
     rj_witnessCheckpointId = sampleCheckpointId, rj_witnessEvidenceDigest = hashText\<rparr>"

definition replayPage :: verifiedPage where
  "replayPage = sampleVerifiedPage\<lparr>vp_snapshot := samplePageSnapshot\<lparr>ps_policyHeadSequence := ''2'', ps_policyDeliveryLogPosition := ''1'',
     ps_policyDeliveryLogHeadHash := se_headHash sampleCommitCommon\<rparr>\<rparr>"

definition highWater :: policyAnchor where
  "highWater = \<lparr>pa_policyHeadSequence = ''2'', pa_policyHeadHash = hashText, pa_witnessCheckpointId = sampleCheckpointId,
     pa_witnessEvidenceDigest = hashText\<rparr>"

definition sampleReplayRequest :: replayRequest where
  "sampleReplayRequest = replayRequestOf replayPage emptyLogAnchor startPolicy highWater receivedAt ''main'' ''1'' ''release-1'' hashText hashText"

definition unsignedReplay :: replayEvidence where
  "unsignedReplay = \<lparr>rv_realmId = ''main'', rv_conversationGeneration = ''1'', rv_releaseProfileId = ''release-1'',
     rv_deliveryLimitsDigest = hashText, rv_releaseTrustRootDigest = hashText, rv_conversationId = sampleConversationId,
     rv_pageStartPosition = ''0'', rv_pageStartHeadHash = ZERO_HASH32, rv_pageStartPolicy = toPolicyReplayProjection startPolicy,
     rv_pageEndPosition = ''1'', rv_pageEndHeadHash = se_headHash sampleCommitCommon, rv_pageEndPolicy = clearedPolicy,
     rv_policyLogHighWaterSequence = ''2'', rv_policyLogHighWaterHash = hashText,
     rv_policyLogHighWaterWitnessCheckpointId = sampleCheckpointId, rv_policyLogHighWaterWitnessEvidenceDigest = hashText,
     rv_events = [replayEventOf sampleCommitItem], rv_transitions = [clearedPolicy], rv_transitionCompactionStatus = ''verified-complete'',
     rv_transitionRangeProofDigest = hashText, rv_historicalIntervalStatus = ''verified'', rv_applicationCutoffStatus = ''verified'',
     rv_policyConsistencyStatus = ''verified'', rv_policyConsistencyEvidenceDigest = hashText, rv_verifiedAt = receivedAt,
     rv_evidenceDigest = hashText\<rparr>"

definition sampleReplay :: replayEvidence where
  "sampleReplay = unsignedReplay\<lparr>rv_evidenceDigest :=
     b64encode (lengthHash (digestPreimage CONVERSATION_POLICY_REPLAY_EVIDENCE_DIGEST_DOMAIN (replayDigestFields unsignedReplay)))\<rparr>"

lemma requirement_valid: "mandatoryProposalsValid [sampleRequirement]" "uuidV7Valid (pm_proposalId sampleRequirement)"
proof -
  show "uuidV7Valid (pm_proposalId sampleRequirement)" unfolding sampleRequirement_def by code_simp
  then show "mandatoryProposalsValid [sampleRequirement]"
    by (simp add: mandatoryProposalsValid_def mandatoryProposalValid_def DELIVERY_MANDATORY_PROPOSALS_MAX_def sampleRequirement_def)
qed

lemma mandatoryProposalsValid_Nil: "mandatoryProposalsValid []"
  by (simp add: mandatoryProposalsValid_def DELIVERY_MANDATORY_PROPOSALS_MAX_def)

lemma replayEvent_commit: "replayEventOf sampleCommitItem = \<lparr>re_position = ''1'', re_envelopeId = sampleCredentialId, re_envelopeClass = MlsCommit,
    re_envelopeSha256 = se_envelopeSha256 sampleCommitCommon, re_headHash = se_headHash sampleCommitCommon\<rparr>"
  by (simp add: replayEventOf_def sampleCommitItem_def)

lemmas replay_sample = unsignedReplay_def startPolicy_def samplePolicyProjection_def toPolicyReplayProjection_def clearedPolicy_def
  replayEvent_commit

lemma unsignedReplay_valid: "replayEvidenceValid unsignedReplay"
  using requirement_valid mandatoryProposalsValid_Nil commit_hashes(4) sampleCommit_head samplePlaintext_valid(3)
  by (simp add: replayEvidenceValid_def replay_sample replayProjectionValid_def replayEventsValid_def replayEventValid_def
      replayTransitionsValid_def CONVERSATION_POLICY_REPLAY_MAX_COALESCED_TRANSITIONS_def CONVERSATION_PAGE_HARD_MAX_EVENTS_def
      ZERO_HASH32_valid nonZeroHashValid_def contextValid_def sampleCursorContext_def)

lemma sampleReplay_digest:
  "computeConversationPolicyReplayEvidenceDigest lengthHash sampleReplay = Inr (rv_evidenceDigest sampleReplay)" "hash32Valid (rv_evidenceDigest sampleReplay)"
proof -
  have fields: "replayDigestFields sampleReplay = replayDigestFields unsignedReplay"
    by (simp add: replayDigestFields_def sampleReplay_def unsignedReplay_def)
  have "list_all (smallField 256) (replayDigestFields unsignedReplay)" "length (replayDigestFields unsignedReplay) \<le> 30000"
    using unsignedReplay_valid commit_hashes(4) sampleCommit_head requirement_valid(2)
    by (simp_all add: replayDigestFields_def replay_sample encodePolicyReplayProjection_def replayEventDigestFields_def
        encodePolicyMandatoryProposals_def mandatoryDigestFields_def sampleRequirement_def ZERO_HASH32_valid nonZeroHashValid_def
        small_fields smallField_Utf8 showNat.simps)
  then obtain h where h: "digestOf lengthHash CONVERSATION_POLICY_REPLAY_EVIDENCE_DIGEST_DOMAIN (replayDigestFields unsignedReplay) = Inr h"
    using digestOf_small [OF lengthHash_length, of _ CONVERSATION_POLICY_REPLAY_EVIDENCE_DIGEST_DOMAIN]
    by (auto simp: CONVERSATION_POLICY_REPLAY_EVIDENCE_DIGEST_DOMAIN_def)
  have "rv_evidenceDigest sampleReplay = h" using digestOf_Inr(3) [OF h] by (simp add: sampleReplay_def)
  with digestOf_Inr(4) [OF h] h
  show "computeConversationPolicyReplayEvidenceDigest lengthHash sampleReplay = Inr (rv_evidenceDigest sampleReplay)"
    "hash32Valid (rv_evidenceDigest sampleReplay)"
    by (simp_all add: computeConversationPolicyReplayEvidenceDigest_def fields)
qed

lemma sampleReplay_accepted:
  "verifyConversationPolicyReplay lengthHash (\<lambda>request. Inr (encodeReplayEvidence sampleReplay)) replayPage emptyLogAnchor startPolicy highWater
     receivedAt ''main'' ''1'' ''release-1'' hashText hashText = Inr sampleReplay"
proof -
  have "replayEvidenceValid sampleReplay"
    using unsignedReplay_valid sampleReplay_digest(2) by (simp add: sampleReplay_def replayEvidenceValid_def)
  then have parsed: "parsePolicyReplayFields (encodeReplayEvidence sampleReplay) = Inr sampleReplay" by (rule replay_evidence_codec.parse_encode)
  have "assertPolicyReplayMatchesRequest sampleReplay sampleReplayRequest = Inr ()"
    by (simp add: assertPolicyReplayMatchesRequest_def sampleReplayRequest_def replayRequestOf_def sampleReplay_def replayPage_def
        sampleVerifiedPage_def samplePageSnapshot_def sampleLogHead_def highWater_def unsignedReplay_def snapshotPolicyReplayProjection_def
        clearedPolicy_def samePolicyReplayProjection_iff sameReplayEvent_iff)
  moreover have "validatePolicyReplayInterval sampleReplay = Inr ()"
    using sampleCommit_head
    by (simp add: validatePolicyReplayInterval_def sampleReplay_def replayRollsBack_def transitionRejected_def policyReplayHeadMatchesPage_def
        replay_sample samePolicyMandatoryProposals_iff)
  moreover have "throwIfDeliveryPortUnavailable (encodeReplayEvidence sampleReplay) = Inr ()"
    by (simp add: throwIfDeliveryPortUnavailable_def encodeReplayEvidence_def entriesReplayEvidence_def mkRecord_def recGet_def)
  ultimately show ?thesis
    using parsed sampleReplay_digest(1)
    by (simp add: verifyConversationPolicyReplay_def parseConversationPolicyReplayEvidence_def sampleReplayRequest_def [symmetric])
qed

theorem policy_cutoff_respected_witness:
  "verifyConversationPolicyReplay lengthHash (\<lambda>request. Inr (encodeReplayEvidence sampleReplay)) replayPage emptyLogAnchor startPolicy highWater
     receivedAt ''main'' ''1'' ''release-1'' hashText hashText = Inr sampleReplay
   \<and> clearsRequirement [sampleRequirement] clearedPolicy
   \<and> (\<exists>item \<in> set (vp_events replayPage). se_headHash (stored item) = rj_deliveryLogHeadHash clearedPolicy \<and> se_envelopeClass (stored item) = MlsCommit)"
proof -
  have pair: "([sampleRequirement], clearedPolicy) \<in> set (successive (pp_policyMandatoryProposals startPolicy) (rv_transitions sampleReplay))"
    and clears: "clearsRequirement [sampleRequirement] clearedPolicy"
    by (simp_all add: sampleReplay_def unsignedReplay_def startPolicy_def clearsRequirement_def clearedPolicy_def)
  have "rj_deliveryLogPosition clearedPolicy \<noteq> ha_position emptyLogAnchor" by (simp add: clearedPolicy_def)
  with policy_cutoff_respected [OF sampleReplay_accepted] pair clears sampleReplay_accepted show ?thesis by blast
qed

subsection \<open>Where a page is cut\<close>

text \<open>
  Transitions at the position where a page starts take effect before its first event without a look at the envelope there,
  which belongs to the page before. So this check refuses a transition that lets a mandatory proposal disappear at the
  position of an external proposal if the page contains that envelope, and accepts it, with an application message after it,
  if the page starts there. The check of the MLS transcript, which follows, decides about such a page.
\<close>

definition applicationAt :: "string \<Rightarrow> replayEvent" where
  "applicationAt position = \<lparr>re_position = position, re_envelopeId = sampleCredentialId, re_envelopeClass = Application,
     re_envelopeSha256 = hashText, re_headHash = hashText\<rparr>"

definition requirementAt :: "string \<Rightarrow> string \<Rightarrow> mandatoryProposal list \<Rightarrow> replayProjection" where
  "requirementAt revision position required = \<lparr>rj_policyHeadId = sampleCheckpointId, rj_policyHeadSequence = revision, rj_policyHeadHash = hashText,
     rj_deliveryLogPosition = position, rj_deliveryLogHeadHash = hashText, rj_mandatoryProposals = required,
     rj_witnessCheckpointId = sampleCheckpointId, rj_witnessEvidenceDigest = hashText\<rparr>"

definition cutEvidence :: "string \<Rightarrow> string \<Rightarrow> replayEvent list \<Rightarrow> replayEvidence" where
  "cutEvidence pageStart pageEnd es = unsignedReplay\<lparr>rv_pageStartPosition := pageStart, rv_pageStartHeadHash := hashText,
     rv_pageStartPolicy := requirementAt ''1'' ''2'' [sampleRequirement], rv_pageEndPosition := pageEnd, rv_pageEndHeadHash := hashText,
     rv_pageEndPolicy := requirementAt ''2'' ''3'' [], rv_events := es, rv_transitions := [requirementAt ''2'' ''3'' []]\<rparr>"

lemma cutoff_depends_on_page_boundary:
  "validatePolicyReplayInterval (cutEvidence ''2'' ''3'' [(applicationAt ''3'')\<lparr>re_envelopeClass := ExternalProposal\<rparr>])
     = Inl ConversationSyncValidationError
   \<and> validatePolicyReplayInterval (cutEvidence ''3'' ''4'' [applicationAt ''4'']) = Inr ()"
  by (simp add: cutEvidence_def unsignedReplay_def validatePolicyReplayInterval_def replayRollsBack_def transitionRejected_def
      policyReplayHeadMatchesPage_def requirementAt_def applicationAt_def samePolicyMandatoryProposals_iff clearsRequirement_def
      bigInt_def readNat_def digitVal_def)

end
