(* ===== verification/MlsTranscriptProofs.thy ===== *)
theory MlsTranscriptProofs
  imports MlsTranscript PolicyReplayProperties
begin

section \<open>Lemmas about the ordered MLS transcript\<close>

text \<open>
  The abstract group: its epoch, roster version and transcript hash, and the proposals staged in the epoch. Application
  messages need an empty queue, proposals join it, and a Commit that extends the transcript starts the next epoch with an
  empty queue. The lemmas show what one event does to the state of the loop, and that it is a step of the group.
\<close>

subsection \<open>The abstract group\<close>

record groupView =
  gv_epoch :: int
  gv_roster :: int
  gv_transcript :: string
  gv_staged :: "stagedProposal list"

definition inView :: "groupView \<Rightarrow> storedEnvelopeCommon \<Rightarrow> bool" where
  "inView v c \<longleftrightarrow> bigInt (se_epoch c) = gv_epoch v \<and> bigInt (se_rosterVersion c) = gv_roster v"

definition stagedFrom :: "storedEnvelopeCommon \<Rightarrow> stagedProposal \<Rightarrow> bool" where
  "stagedFrom c p \<longleftrightarrow> sp_position p = se_position c \<and> sp_envelopeId p = se_envelopeId c \<and> sp_envelopeSha256 p = se_envelopeSha256 c
     \<and> sp_epoch p = se_epoch c"

text \<open>The third argument of a step lists the proposals that it consumes.\<close>

inductive groupStep :: "groupView \<Rightarrow> eventItem \<Rightarrow> stagedProposal list \<Rightarrow> groupView \<Rightarrow> bool" where
  group_application: "groupStep v item [] v"
    if "ei_envelope item = StoredApplication c" "inView v c" "gv_staged v = []"
| group_proposal: "groupStep v item [] (v\<lparr>gv_staged := gv_staged v @ [p]\<rparr>)"
    if "ei_envelope item = StoredExternalProposal c" "inView v c" "stagedFrom c p"
      "sp_proposalId p \<notin> sp_proposalId ` set (gv_staged v)" "sp_proposalHash p \<notin> sp_proposalHash ` set (gv_staged v)"
| group_commit: "groupStep v item consumed \<lparr>gv_epoch = gv_epoch v + 1, gv_roster = roster, gv_transcript = resulting, gv_staged = []\<rparr>"
    if "ei_envelope item = StoredMlsCommit c (gv_transcript v) resulting" "inView v c" "set consumed \<subseteq> set (gv_staged v)"
      "roster = gv_roster v + 1 \<or> roster = gv_roster v \<and> consumed = []"

inductive groupRun :: "groupView \<Rightarrow> eventItem list \<Rightarrow> stagedProposal list list \<Rightarrow> groupView \<Rightarrow> bool" where
  group_end: "groupRun v [] [] v"
| group_event: "groupRun v (item # items) (consumed # rest) w"
    if "groupStep v item consumed u" "groupRun u items rest w"

inductive_cases groupStepE: "groupStep v item consumed w"
inductive_simps groupRun_Nil: "groupRun v [] labels w"
inductive_simps groupRun_Cons: "groupRun v (item # items) labels w"

definition isCommit :: "eventItem \<Rightarrow> bool" where
  "isCommit item = (case ei_envelope item of StoredMlsCommit c base resulting \<Rightarrow> True | _ \<Rightarrow> False)"

lemma groupStep_facts:
  assumes "groupStep v item consumed w"
  shows "inView v (stored item)" "gv_epoch w = gv_epoch v + (if isCommit item then 1 else 0)"
    "gv_roster v \<le> gv_roster w" "gv_roster w \<le> gv_roster v + (if isCommit item then 1 else 0)"
    "set consumed \<subseteq> set (gv_staged v)"
  using assms by (auto simp: isCommit_def elim!: groupStepE)

lemma groupRun_append:
  "groupRun v (xs @ ys) labels w \<Longrightarrow> \<exists>u as bs. groupRun v xs as u \<and> groupRun u ys bs w \<and> labels = as @ bs"
proof (induction xs arbitrary: v labels)
  case Nil
  then show ?case using group_end by fastforce
next
  case (Cons x xs)
  then obtain u a rest where "groupStep v x a u" "groupRun u (xs @ ys) rest w" "labels = a # rest" by (auto simp: groupRun_Cons)
  then show ?case using Cons.IH group_event by (metis append_Cons)
qed

lemma groupRun_epoch: "groupRun v items labels w \<Longrightarrow> gv_epoch w = gv_epoch v + int (length (filter isCommit items))"
  by (induction rule: groupRun.induct) (auto dest: groupStep_facts(2))

lemma groupRun_roster:
  "groupRun v items labels w \<Longrightarrow> gv_roster v \<le> gv_roster w \<and> gv_roster w \<le> gv_roster v + int (length (filter isCommit items))"
  by (induction rule: groupRun.induct) (auto dest: groupStep_facts(3,4) split: if_splits)

text \<open>Whoever follows the group never confuses epochs: the epoch of an event counts the Commits before it.\<close>

lemma groupRun_event_epoch:
  assumes "groupRun v (xs @ item # ys) labels w"
  shows "bigInt (se_epoch (stored item)) = gv_epoch v + int (length (filter isCommit xs))"
proof -
  obtain u as b bs where run: "groupRun v xs as u" "groupStep u item b bs" using groupRun_append [OF assms] by (auto simp: groupRun_Cons)
  show ?thesis using groupRun_epoch [OF run(1)] groupStep_facts(1) [OF run(2)] by (simp add: inView_def)
qed

lemma groupRun_application_staged:
  assumes "groupRun v (xs @ item # ys) labels w" "ei_envelope item = StoredApplication c"
  shows "\<exists>as u. groupRun v xs as u \<and> gv_staged u = []"
  using groupRun_append [OF assms(1)] assms(2) by (fastforce simp: groupRun_Cons elim: groupStepE)

subsection \<open>Evidence\<close>

lemma parseProposal_facts:
  assumes "verifyMlsExternalProposal H verify page envelope realm generation release limits root groupId policy known = Inr pe"
  shows "proposalEvidenceValid pe" "pe_position pe = se_position envelope" "pe_envelopeId pe = se_envelopeId envelope"
    "pe_envelopeSha256 pe = se_envelopeSha256 envelope" "pe_epoch pe = se_epoch envelope"
    "bigInt (pe_position pe) \<le> bigInt (lh_position (ps_logHead (vp_snapshot page)))"
proof -
  obtain raw c f g where raw: "parseMlsExternalProposalEvidence H raw
      (proposalRequestOf page envelope realm generation release limits root groupId policy known c f g) = Inr pe"
    using assms by (auto simp: verifyMlsExternalProposal_def Let_def bindE_eq_Inr split: envelopeSender.splits if_splits)
  then have parsed: "parseProposalFields raw = Inr pe" "\<not> proposalInactive pe"
    "\<not> proposalSubstituted pe (proposalRequestOf page envelope realm generation release limits root groupId policy known c f g)"
    by (auto simp: parseMlsExternalProposalEvidence_def bindE_eq_Inr split: if_splits)
  show "proposalEvidenceValid pe" using parsed(1) by (rule proposal_evidence_codec.parse_wf)
  have same: "pe_position pe = se_position envelope" "pe_envelopeId pe = se_envelopeId envelope"
    "pe_envelopeSha256 pe = se_envelopeSha256 envelope" "pe_epoch pe = se_epoch envelope"
    "pe_pageEndPosition pe = lh_position (ps_logHead (vp_snapshot page))"
    using parsed(3) by (simp_all add: proposalSubstituted_def proposalRequestOf_def Let_def)
  then show "pe_position pe = se_position envelope" "pe_envelopeId pe = se_envelopeId envelope"
    "pe_envelopeSha256 pe = se_envelopeSha256 envelope" "pe_epoch pe = se_epoch envelope" by simp_all
  show "bigInt (pe_position pe) \<le> bigInt (lh_position (ps_logHead (vp_snapshot page)))"
    using parsed(2) same(5) by (auto simp: proposalInactive_def)
qed

lemma sameStagedProposal_iff: "sameStagedProposal a b \<longleftrightarrow> a = b"
  by (auto simp: sameStagedProposal_def intro: stagedProposal.equality)

lemma sameStagedProposals_iff: "sameStagedProposals xs ys \<longleftrightarrow> xs = ys"
  by (auto simp: sameStagedProposals_def list_all_iff intro: nth_equalityI)

lemma incrementUint63_value: "incrementUint63 s = Inr t \<Longrightarrow> uint63Valid s \<Longrightarrow> bigInt t = bigInt s + 1"
  by (auto simp: incrementUint63_def Let_def uint63Valid_def split: if_splits)

lemma checkCommitTransition_facts:
  assumes "checkCommitTransition ce = Inr ()" "commitEvidenceValid ce"
  shows "bigInt (ce_resultingEpoch ce) = bigInt (ce_previousEpoch ce) + 1"
    "bigInt (ce_resultingRosterVersion ce) = bigInt (ce_previousRosterVersion ce) + (if ce_commitKind ce = MembershipCommit then 1 else 0)"
proof -
  have valid: "uint63Valid (ce_previousEpoch ce)" "uint63Valid (ce_previousRosterVersion ce)"
    using assms(2) by (simp_all add: commitEvidenceValid_def)
  show "bigInt (ce_resultingEpoch ce) = bigInt (ce_previousEpoch ce) + 1"
    "bigInt (ce_resultingRosterVersion ce) = bigInt (ce_previousRosterVersion ce) + (if ce_commitKind ce = MembershipCommit then 1 else 0)"
    using assms(1) valid by (auto simp: checkCommitTransition_def bindE_eq_Inr dest: incrementUint63_value split: if_splits)
qed

lemma consumption_facts:
  assumes "\<not> consumptionWrong ce" "\<not> membershipIncomplete ce"
  shows "set (ce_consumedProposals ce) \<subseteq> set (ce_stagedProposals ce)"
    "r \<in> set (ce_requiredProposals ce) \<Longrightarrow> \<exists>p \<in> set (ce_consumedProposals ce). sp_proposalId p = pm_proposalId r \<and> sp_proposalHash p = pm_proposalHash r"
    "ce_commitKind ce = MembershipCommit \<or> ce_consumedProposals ce = []"
proof -
  show "set (ce_consumedProposals ce) \<subseteq> set (ce_stagedProposals ce)"
    using assms(1) by (auto simp: consumptionWrong_def list_ex_iff sameStagedProposal_iff)
  show "\<exists>p \<in> set (ce_consumedProposals ce). sp_proposalId p = pm_proposalId r \<and> sp_proposalHash p = pm_proposalHash r"
    if "r \<in> set (ce_requiredProposals ce)"
  proof -
    have "consumedIds ce (pm_proposalId r) = Some (pm_proposalHash r)" using assms(1) that by (auto simp: consumptionWrong_def list_ex_iff)
    then have "(pm_proposalId r, pm_proposalHash r) \<in> set (rev (map (\<lambda>p. (sp_proposalId p, sp_proposalHash p)) (ce_consumedProposals ce)))"
      unfolding consumedIds_def by (rule map_of_SomeD)
    then show ?thesis by auto
  qed
  show "ce_commitKind ce = MembershipCommit \<or> ce_consumedProposals ce = []"
    using assms(2) by (cases "ce_commitKind ce") (auto simp: membershipIncomplete_def)
qed

text \<open>What an accepted Commit evidence says about the request.\<close>

lemma parseCommit_facts:
  assumes "parseMlsCommitProjectionEvidence H raw rq = Inr ce"
  shows "commitEvidenceValid ce" "ce_position ce = cq_position rq" "ce_envelopeId ce = cq_envelopeId rq"
    "ce_envelopeSha256 ce = cq_envelopeSha256 rq" "ce_resultingConfirmedTranscriptHash ce = cq_resultingConfirmedTranscriptHash rq"
    "bigInt (ce_resultingEpoch ce) = bigInt (cq_previousEpoch rq) + 1"
    "bigInt (ce_resultingRosterVersion ce) = bigInt (cq_previousRosterVersion rq) + 1
      \<or> bigInt (ce_resultingRosterVersion ce) = bigInt (cq_previousRosterVersion rq) \<and> ce_consumedProposals ce = []"
    "set (ce_consumedProposals ce) \<subseteq> set (cq_stagedProposals rq)"
    "\<And>r. r \<in> set (cq_requiredProposals rq) \<Longrightarrow>
       \<exists>p \<in> set (ce_consumedProposals ce). sp_proposalId p = pm_proposalId r \<and> sp_proposalHash p = pm_proposalHash r"
proof -
  have parsed: "parseCommitFields raw = Inr ce" "\<not> commitSubstituted ce rq" "checkCommitTransition ce = Inr ()"
    "\<not> consumptionWrong ce" "\<not> membershipIncomplete ce"
    using assms by (auto simp: parseMlsCommitProjectionEvidence_def bindE_eq_Inr split: if_splits)
  show valid: "commitEvidenceValid ce" using parsed(1) by (rule commit_evidence_codec.parse_wf)
  have same: "ce_position ce = cq_position rq" "ce_envelopeId ce = cq_envelopeId rq" "ce_envelopeSha256 ce = cq_envelopeSha256 rq"
    "ce_resultingConfirmedTranscriptHash ce = cq_resultingConfirmedTranscriptHash rq" "ce_previousEpoch ce = cq_previousEpoch rq"
    "ce_previousRosterVersion ce = cq_previousRosterVersion rq" "ce_stagedProposals ce = cq_stagedProposals rq"
    "ce_requiredProposals ce = cq_requiredProposals rq"
    using parsed(2) by (simp_all add: commitSubstituted_def sameStagedProposals_iff samePolicyMandatoryProposals_iff)
  note transition = checkCommitTransition_facts [OF parsed(3) valid]
  note consumption = consumption_facts [OF parsed(4,5)]
  show "ce_position ce = cq_position rq" "ce_envelopeId ce = cq_envelopeId rq" "ce_envelopeSha256 ce = cq_envelopeSha256 rq"
    "ce_resultingConfirmedTranscriptHash ce = cq_resultingConfirmedTranscriptHash rq" by (rule same)+
  show "bigInt (ce_resultingEpoch ce) = bigInt (cq_previousEpoch rq) + 1" using transition(1) same by simp
  show "bigInt (ce_resultingRosterVersion ce) = bigInt (cq_previousRosterVersion rq) + 1
      \<or> bigInt (ce_resultingRosterVersion ce) = bigInt (cq_previousRosterVersion rq) \<and> ce_consumedProposals ce = []"
    using transition(2) consumption(3) same by auto
  show "set (ce_consumedProposals ce) \<subseteq> set (cq_stagedProposals rq)" using consumption(1) same by simp
  show "\<exists>p \<in> set (ce_consumedProposals ce). sp_proposalId p = pm_proposalId r \<and> sp_proposalHash p = pm_proposalHash r"
    if "r \<in> set (cq_requiredProposals rq)" for r using consumption(2) that same by simp
qed

subsection \<open>One event\<close>

lemma cutoffStep_frame:
  assumes "cutoffStep position inclusive st = Inr st'"
  shows "ts_projection st' = ts_projection st" "ts_stagedProposals st' = ts_stagedProposals st" "ts_commitEvidence st' = ts_commitEvidence st"
    "ts_proposalEvidence st' = ts_proposalEvidence st" "ts_lastCommit st' = ts_lastCommit st"
    "applyCutoffTransitions (ts_lastCommit st) position inclusive (ts_activePolicy st) (ts_transitions st)
       = Inr (ts_activePolicy st', ts_transitions st')"
  using assms by (auto simp: cutoffStep_def bindE_eq_Inr)

lemma parseStagedProposal_same: "parseStagedProposal (encodeStagedProposal p) = Inr q \<Longrightarrow> q = p"
  unfolding parseStagedProposal_def expect_encodeStagedProposal bindE_Inr
  by (elim bindE_InrE) (auto simp: parse_simps enum_inj)

lemma stagedScan_same: "stagedScan seen (map encodeStagedProposal ps) = Inr qs \<Longrightarrow> qs = ps"
  by (induction ps arbitrary: seen qs) (auto simp: bindE_eq_Inr dest: parseStagedProposal_same split: if_splits)

lemma parseStaged_same:
  assumes "parseStagedProposalBindings (encodeStagedList ps) = Inr qs"
  shows "qs = ps" "stagedListValid ps"
proof -
  show "qs = ps" using assms
    by (auto simp: parseStagedProposalBindings_def encodeStagedList_def bindE_eq_Inr expectDenseArray_iff mkArray_def dest: stagedScan_same)
  with assms show "stagedListValid ps" by (metis staged_list_codec.parse_wf)
qed

text \<open>The three kinds of events.\<close>

lemma transcriptProposal_facts:
  assumes "transcriptProposal H pv input c st = Inr st'"
  obtains pe st1 where "verifyMlsExternalProposal H pv (ti_page input) c (ti_realmId input) (ti_conversationGeneration input)
         (ti_releaseProfileId input) (ti_deliveryLimitsDigest input) (ti_releaseTrustRootDigest input) (ti_expectedGroupIdHash input)
         (ti_pageStartPolicy input) (ti_priorPolicy input) = Inr pe"
    "stagedListValid (ts_stagedProposals st @ [stagedOf pe])"
    "st1 = st\<lparr>ts_proposalEvidence := ts_proposalEvidence st @ [pe], ts_stagedProposals := ts_stagedProposals st @ [stagedOf pe]\<rparr>"
    "cutoffStep (se_position c) True st1 = Inr st'"
    "pe_proposalRequirement pe = MandatoryProposal \<longleftrightarrow> isRequired (ts_activePolicy st') pe"
proof -
  obtain pe staged where pe: "verifyMlsExternalProposal H pv (ti_page input) c (ti_realmId input) (ti_conversationGeneration input)
         (ti_releaseProfileId input) (ti_deliveryLimitsDigest input) (ti_releaseTrustRootDigest input) (ti_expectedGroupIdHash input)
         (ti_pageStartPolicy input) (ti_priorPolicy input) = Inr pe"
    and staged: "parseStagedProposalBindings (encodeStagedList (ts_stagedProposals st @ [stagedOf pe])) = Inr staged"
    and cut: "cutoffStep (se_position c) True (st\<lparr>ts_proposalEvidence := ts_proposalEvidence st @ [pe], ts_stagedProposals := staged\<rparr>) = Inr st'"
    and requirement: "pe_proposalRequirement pe = MandatoryProposal \<longleftrightarrow> isRequired (ts_activePolicy st') pe"
    using assms unfolding transcriptProposal_def by (elim bindE_InrE) (auto split: if_splits)
  note same = parseStaged_same [OF staged]
  show thesis using that [OF pe same(2) refl] cut requirement by (simp add: same(1))
qed

lemma transcriptCommit_facts:
  assumes "transcriptCommit H cv input c base resulting st = Inr st'"
  obtains ce binding raw where "base = mp_confirmedTranscriptHash (ts_projection st)" "\<not> missingRequiredProposal st"
    "parseMlsCommitProjectionEvidence H raw (commitRequestOf input st c base resulting binding) = Inr ce"
    "cutoffStep (se_position c) True
      (st\<lparr>ts_commitEvidence := ts_commitEvidence st @ [ce], ts_lastCommit := Some ce, ts_stagedProposals := [],
          ts_projection := \<lparr>mp_epoch = ce_resultingEpoch ce, mp_rosterVersion = ce_resultingRosterVersion ce,
            mp_confirmedTranscriptHash = ce_resultingConfirmedTranscriptHash ce\<rparr>\<rparr>) = Inr st'"
  using assms by (auto simp: transcriptCommit_def Let_def bindE_eq_Inr split: if_splits option.splits)

definition viewOf :: "mlsProjection \<Rightarrow> stagedProposal list \<Rightarrow> groupView" where
  "viewOf projection staged = \<lparr>gv_epoch = bigInt (mp_epoch projection), gv_roster = bigInt (mp_rosterVersion projection),
     gv_transcript = mp_confirmedTranscriptHash projection, gv_staged = staged\<rparr>"

abbreviation stateView :: "transcriptState \<Rightarrow> groupView" where
  "stateView st \<equiv> viewOf (ts_projection st) (ts_stagedProposals st)"

text \<open>The proposals that the Commits verified so far consumed.\<close>

definition consumedSoFar :: "transcriptState \<Rightarrow> stagedProposal list" where
  "consumedSoFar st = concat (map ce_consumedProposals (ts_commitEvidence st))"

lemma stagedAccepted_fresh:
  "stagedAccepted seen (ps @ [p]) \<Longrightarrow> sp_proposalId p \<notin> sp_proposalId ` set ps \<union> set (seen_ids seen)
     \<and> sp_proposalHash p \<notin> sp_proposalHash ` set ps \<union> set (seen_hashes seen)"
  by (induction ps arbitrary: seen) (fastforce simp: stagedRejected_def seeStaged_def)+

lemma transcriptEvent_cases:
  assumes "transcriptEvent H cv pv input item st = Inr st'"
  obtains st1 where "cutoffStep (se_position (stored item)) False st = Inr st1"
    "se_epoch (stored item) = mp_epoch (ts_projection st)" "se_rosterVersion (stored item) = mp_rosterVersion (ts_projection st)"
    "(\<exists>c. ei_envelope item = StoredApplication c) \<and> rj_mandatoryProposals (ts_activePolicy st1) = [] \<and> ts_stagedProposals st1 = [] \<and> st' = st1
     \<or> (\<exists>c. ei_envelope item = StoredExternalProposal c) \<and> transcriptProposal H pv input (stored item) st1 = Inr st'
     \<or> (\<exists>c base resulting. ei_envelope item = StoredMlsCommit c base resulting \<and> transcriptCommit H cv input (stored item) base resulting st1 = Inr st')"
  using assms unfolding transcriptEvent_def Let_def
  by (elim bindE_InrE) (auto split: if_splits storedEnvelope.splits simp: cutoffStep_frame(1))

lemma transcriptEvent_group:
  assumes "transcriptEvent H cv pv input item st = Inr st'"
  shows "\<exists>consumed. groupStep (stateView st) item consumed (stateView st') \<and> consumedSoFar st' = consumedSoFar st @ consumed"
  using assms
proof (rule transcriptEvent_cases)
  fix st1
  assume cut: "cutoffStep (se_position (stored item)) False st = Inr st1"
    and epoch: "se_epoch (stored item) = mp_epoch (ts_projection st)" "se_rosterVersion (stored item) = mp_rosterVersion (ts_projection st)"
    and kind: "(\<exists>c. ei_envelope item = StoredApplication c) \<and> rj_mandatoryProposals (ts_activePolicy st1) = [] \<and> ts_stagedProposals st1 = [] \<and> st' = st1
     \<or> (\<exists>c. ei_envelope item = StoredExternalProposal c) \<and> transcriptProposal H pv input (stored item) st1 = Inr st'
     \<or> (\<exists>c base resulting. ei_envelope item = StoredMlsCommit c base resulting \<and> transcriptCommit H cv input (stored item) base resulting st1 = Inr st')"
  note frame = cutoffStep_frame(1-4) [OF cut]
  have inView: "inView (stateView st) (stored item)" using epoch by (simp add: inView_def viewOf_def)
  from kind show ?thesis
  proof (elim disjE conjE exE)
    fix c
    assume "ei_envelope item = StoredApplication c" "ts_stagedProposals st1 = []" "st' = st1"
    then show ?thesis using frame inView by (auto simp: viewOf_def consumedSoFar_def intro!: group_application)
  next
    fix c
    assume c: "ei_envelope item = StoredExternalProposal c" and "transcriptProposal H pv input (stored item) st1 = Inr st'"
    then obtain pe st2 where pe: "verifyMlsExternalProposal H pv (ti_page input) (stored item) (ti_realmId input) (ti_conversationGeneration input)
         (ti_releaseProfileId input) (ti_deliveryLimitsDigest input) (ti_releaseTrustRootDigest input) (ti_expectedGroupIdHash input)
         (ti_pageStartPolicy input) (ti_priorPolicy input) = Inr pe"
      and staged: "stagedListValid (ts_stagedProposals st1 @ [stagedOf pe])"
      and st2: "st2 = st1\<lparr>ts_proposalEvidence := ts_proposalEvidence st1 @ [pe], ts_stagedProposals := ts_stagedProposals st1 @ [stagedOf pe]\<rparr>"
      and last: "cutoffStep (se_position (stored item)) True st2 = Inr st'"
      using transcriptProposal_facts by metis
    have fresh: "sp_proposalId (stagedOf pe) \<notin> sp_proposalId ` set (ts_stagedProposals st)" "sp_proposalHash (stagedOf pe) \<notin> sp_proposalHash ` set (ts_stagedProposals st)"
      using staged stagedAccepted_fresh by (fastforce simp: stagedListValid_def frame)+
    have "stagedFrom c (stagedOf pe)" using parseProposal_facts(2-5) [OF pe] c by (simp add: stagedFrom_def stagedOf_def)
    then have "groupStep (stateView st) item [] ((stateView st)\<lparr>gv_staged := gv_staged (stateView st) @ [stagedOf pe]\<rparr>)"
      using c inView fresh by (intro group_proposal [of item c]) (simp_all add: viewOf_def)
    then show ?thesis using cutoffStep_frame(1-3) [OF last] frame st2 by (intro exI [of _ "[]"]) (simp add: viewOf_def consumedSoFar_def)
  next
    fix c base resulting
    assume c: "ei_envelope item = StoredMlsCommit c base resulting" and commit: "transcriptCommit H cv input (stored item) base resulting st1 = Inr st'"
    from commit show ?thesis
    proof (rule transcriptCommit_facts)
      fix ce binding raw
      assume base: "base = mp_confirmedTranscriptHash (ts_projection st1)"
        and ce: "parseMlsCommitProjectionEvidence H raw (commitRequestOf input st1 (stored item) base resulting binding) = Inr ce"
        and last: "cutoffStep (se_position (stored item)) True
          (st1\<lparr>ts_commitEvidence := ts_commitEvidence st1 @ [ce], ts_lastCommit := Some ce, ts_stagedProposals := [],
            ts_projection := \<lparr>mp_epoch = ce_resultingEpoch ce, mp_rosterVersion = ce_resultingRosterVersion ce,
              mp_confirmedTranscriptHash = ce_resultingConfirmedTranscriptHash ce\<rparr>\<rparr>) = Inr st'"
      note facts = parseCommit_facts(5-8) [OF ce]
      have "groupStep (stateView st) item (ce_consumedProposals ce)
          \<lparr>gv_epoch = gv_epoch (stateView st) + 1, gv_roster = bigInt (ce_resultingRosterVersion ce), gv_transcript = resulting, gv_staged = []\<rparr>"
        using c base inView frame facts by (intro group_commit [of item c]) (auto simp: viewOf_def commitRequestOf_def)
      then show ?thesis using cutoffStep_frame(1-3) [OF last] frame facts
        by (intro exI [of _ "ce_consumedProposals ce"]) (simp add: viewOf_def consumedSoFar_def commitRequestOf_def)
    qed
  qed
qed

lemma transcriptEvents_group:
  "transcriptEvents H cv pv input items st = Inr st' \<Longrightarrow>
     \<exists>labels. groupRun (stateView st) items labels (stateView st') \<and> consumedSoFar st' = consumedSoFar st @ concat labels"
proof (induction items arbitrary: st)
  case Nil
  then show ?case using group_end by fastforce
next
  case (Cons item items)
  then obtain st1 where st1: "transcriptEvent H cv pv input item st = Inr st1" "transcriptEvents H cv pv input items st1 = Inr st'"
    by (auto simp: bindE_eq_Inr)
  then obtain consumed labels where "groupStep (stateView st) item consumed (stateView st1)" "consumedSoFar st1 = consumedSoFar st @ consumed"
    "groupRun (stateView st1) items labels (stateView st')" "consumedSoFar st' = consumedSoFar st1 @ concat labels"
    using transcriptEvent_group Cons.IH by blast
  then show ?case by (intro exI [of _ "consumed # labels"]) (auto intro: group_event)
qed

lemma transcriptEvents_invariant:
  assumes "transcriptEvents H cv pv input items st = Inr st'" "I st"
    and "\<And>item s s'. item \<in> set items \<Longrightarrow> transcriptEvent H cv pv input item s = Inr s' \<Longrightarrow> I s \<Longrightarrow> I s'"
  shows "I st'"
  using assms by (induction items arbitrary: st) (auto simp: bindE_eq_Inr)

subsection \<open>The policy in force\<close>

text \<open>A requirement that the second set does not have was consumed by the Commit, if the transition stands at its position.\<close>

definition consumedBy :: "commitEvidence \<Rightarrow> mandatoryProposal \<Rightarrow> bool" where
  "consumedBy ce r \<longleftrightarrow> (\<exists>p \<in> set (ce_consumedProposals ce). sp_proposalId p = pm_proposalId r \<and> sp_proposalHash p = pm_proposalHash r)"

definition clearedBy :: "commitEvidence set \<Rightarrow> mandatoryProposal list \<Rightarrow> replayProjection \<Rightarrow> bool" where
  "clearedBy commits before t \<longleftrightarrow> (\<forall>r \<in> set before - set (rj_mandatoryProposals t).
     \<exists>ce \<in> commits. ce_position ce = rj_deliveryLogPosition t \<and> consumedBy ce r)"

lemma set_removedRequirements: "set (removedRequirements active t) = set (rj_mandatoryProposals active) - set (rj_mandatoryProposals t)"
proof -
  have same: "pm_proposalId a = pm_proposalId b \<and> pm_proposalHash a = pm_proposalHash b \<longleftrightarrow> a = b" for a b :: mandatoryProposal
    by (auto intro: mandatoryProposal.equality)
  show ?thesis by (auto simp: removedRequirements_def list_ex_iff same)
qed

lemma cleared_with_commit:
  assumes "\<not> clearedWithoutCommit lastCommit active t"
  shows "clearedBy (set_option lastCommit) (rj_mandatoryProposals active) t"
proof (cases "removedRequirements active t = []")
  case True
  then show ?thesis using set_removedRequirements [of active t] by (auto simp: clearedBy_def)
next
  case False
  with assms obtain ce where "lastCommit = Some ce" "ce_position ce = rj_deliveryLogPosition t"
    "\<forall>r \<in> set (removedRequirements active t). \<not> notConsumed ce r"
    by (auto simp: clearedWithoutCommit_def list_ex_iff split: option.splits)
  then show ?thesis by (auto simp: clearedBy_def set_removedRequirements consumedBy_def notConsumed_def list_ex_iff)
qed

lemma applyCutoff_handled:
  "applyCutoffTransitions lastCommit position inclusive active ts = Inr (active', rest) \<Longrightarrow>
     \<exists>handled. ts = handled @ rest \<and> rj_mandatoryProposals active' = lastMandatory (rj_mandatoryProposals active) handled
       \<and> (\<forall>(before, t) \<in> set (successive (rj_mandatoryProposals active) handled). clearedBy (set_option lastCommit) before t)"
proof (induction ts arbitrary: active)
  case (Cons t ts)
  let ?comparison = "bigInt (rj_deliveryLogPosition t) - bigInt position"
  show ?case
  proof (cases "?comparison > 0 \<or> (\<not> inclusive \<and> ?comparison = 0)")
    case True
    then show ?thesis using Cons.prems by (intro exI [of _ "[]"]) (auto simp: Let_def)
  next
    case False
    then have step: "\<not> clearedWithoutCommit lastCommit active t" "applyCutoffTransitions lastCommit position inclusive t ts = Inr (active', rest)"
      using Cons.prems by (auto simp: Let_def split: if_splits)
    from Cons.IH [OF step(2)] obtain handled where "ts = handled @ rest" "rj_mandatoryProposals active' = lastMandatory (rj_mandatoryProposals t) handled"
      "\<forall>(before, t') \<in> set (successive (rj_mandatoryProposals t) handled). clearedBy (set_option lastCommit) before t'" by blast
    then show ?thesis using cleared_with_commit [OF step(1)] by (intro exI [of _ "t # handled"]) auto
  qed
qed simp

lemma applyCutoff_rest:
  "applyCutoffTransitions lastCommit position True active ts = Inr (active', rest) \<Longrightarrow>
     sorted (map (\<lambda>t. bigInt (rj_deliveryLogPosition t)) ts) \<Longrightarrow> \<forall>t \<in> set rest. bigInt position < bigInt (rj_deliveryLogPosition t)"
  by (induction ts arbitrary: active) (auto simp: Let_def split: if_splits intro: less_le_trans)

text \<open>While every remaining transition lies after the last Commit no requirement can disappear.\<close>

lemma applyCutoff_grows:
  assumes "applyCutoffTransitions lastCommit position inclusive active ts = Inr (active', rest)"
    and "\<forall>ce \<in> set_option lastCommit. \<forall>t \<in> set ts. bigInt (ce_position ce) < bigInt (rj_deliveryLogPosition t)"
  shows "set (rj_mandatoryProposals active) \<subseteq> set (rj_mandatoryProposals active')"
proof -
  obtain handled where handled: "ts = handled @ rest" "rj_mandatoryProposals active' = lastMandatory (rj_mandatoryProposals active) handled"
    "\<forall>(before, t) \<in> set (successive (rj_mandatoryProposals active) handled). clearedBy (set_option lastCommit) before t"
    using applyCutoff_handled [OF assms(1)] by blast
  have grows: "\<forall>(before, t) \<in> set (successive a ts). set before \<subseteq> set (rj_mandatoryProposals t) \<Longrightarrow> set a \<subseteq> set (lastMandatory a ts)" for a ts
    by (induction ts arbitrary: a) auto
  have "set before \<subseteq> set (rj_mandatoryProposals t)"
    if pair: "(before, t) \<in> set (successive (rj_mandatoryProposals active) handled)" for before t
  proof (rule ccontr)
    assume "\<not> set before \<subseteq> set (rj_mandatoryProposals t)"
    then obtain ce where "ce \<in> set_option lastCommit" "ce_position ce = rj_deliveryLogPosition t"
      using handled(3) pair by (fastforce simp: clearedBy_def)
    moreover have "t \<in> set ts" using successive_snd [OF pair] handled(1) by simp
    ultimately show False using assms(2) by fastforce
  qed
  then show ?thesis unfolding handled(2) by (intro grows) auto
qed

text \<open>The transitions handled so far, each clearing only what a verified Commit consumed.\<close>

definition policyLedger :: "mandatoryProposal list \<Rightarrow> replayProjection list \<Rightarrow> transcriptState \<Rightarrow> bool" where
  "policyLedger start ts st \<longleftrightarrow> set_option (ts_lastCommit st) \<subseteq> set (ts_commitEvidence st) \<and> (\<exists>handled. ts = handled @ ts_transitions st
     \<and> rj_mandatoryProposals (ts_activePolicy st) = lastMandatory start handled
     \<and> (\<forall>(before, t) \<in> set (successive start handled). clearedBy (set (ts_commitEvidence st)) before t))"

lemma clearedBy_mono: "clearedBy A before t \<Longrightarrow> A \<subseteq> B \<Longrightarrow> clearedBy B before t"
  unfolding clearedBy_def by blast

lemma cutoffStep_ledger:
  assumes "cutoffStep position inclusive st = Inr st'" "policyLedger start ts st"
  shows "policyLedger start ts st'"
proof -
  note frame = cutoffStep_frame [OF assms(1)]
  obtain handled where handled: "ts = handled @ ts_transitions st" "rj_mandatoryProposals (ts_activePolicy st) = lastMandatory start handled"
    "\<forall>(before, t) \<in> set (successive start handled). clearedBy (set (ts_commitEvidence st)) before t"
    and last: "set_option (ts_lastCommit st) \<subseteq> set (ts_commitEvidence st)"
    using assms(2) by (auto simp: policyLedger_def)
  obtain newly where newly: "ts_transitions st = newly @ ts_transitions st'"
    "rj_mandatoryProposals (ts_activePolicy st') = lastMandatory (rj_mandatoryProposals (ts_activePolicy st)) newly"
    "\<forall>(before, t) \<in> set (successive (rj_mandatoryProposals (ts_activePolicy st)) newly). clearedBy (set_option (ts_lastCommit st)) before t"
    using applyCutoff_handled [OF frame(6)] by blast
  have "\<forall>(before, t) \<in> set (successive start (handled @ newly)). clearedBy (set (ts_commitEvidence st')) before t"
    using handled(2,3) newly(3) clearedBy_mono [OF _ last] by (auto simp: successive_append frame(3))
  then show ?thesis unfolding policyLedger_def using handled(1,2) newly(1,2) last frame(3,5)
    by (intro conjI exI [of _ "handled @ newly"]) simp_all
qed

lemma transcriptEvent_ledger:
  assumes "transcriptEvent H cv pv input item st = Inr st'" "policyLedger start ts st"
  shows "policyLedger start ts st'"
  using assms(1)
proof (rule transcriptEvent_cases)
  fix st1
  assume cut: "cutoffStep (se_position (stored item)) False st = Inr st1"
    and kind: "(\<exists>c. ei_envelope item = StoredApplication c) \<and> rj_mandatoryProposals (ts_activePolicy st1) = [] \<and> ts_stagedProposals st1 = [] \<and> st' = st1
     \<or> (\<exists>c. ei_envelope item = StoredExternalProposal c) \<and> transcriptProposal H pv input (stored item) st1 = Inr st'
     \<or> (\<exists>c base resulting. ei_envelope item = StoredMlsCommit c base resulting \<and> transcriptCommit H cv input (stored item) base resulting st1 = Inr st')"
  have ledger: "policyLedger start ts st1" using cut assms(2) by (rule cutoffStep_ledger)
  have proposal: "policyLedger start ts (st1\<lparr>ts_proposalEvidence := x, ts_stagedProposals := y\<rparr>)" for x y
    using ledger by (simp add: policyLedger_def)
  have commit: "policyLedger start ts (st1\<lparr>ts_commitEvidence := ts_commitEvidence st1 @ [ce], ts_lastCommit := Some ce, ts_stagedProposals := x, ts_projection := y\<rparr>)" for ce x y
    using ledger by (fastforce simp: policyLedger_def intro: clearedBy_mono)
  from kind show ?thesis
    using ledger cutoffStep_ledger [OF _ proposal] cutoffStep_ledger [OF _ commit]
    by (elim disjE) (blast elim: transcriptProposal_facts transcriptCommit_facts)+
qed

subsection \<open>Where Commits and staged proposals come from\<close>

definition knownProposals :: "stagedProposal list \<Rightarrow> transcriptState \<Rightarrow> stagedProposal set" where
  "knownProposals staged st = set staged \<union> stagedOf ` set (ts_proposalEvidence st)"

definition evidenceBound :: "eventItem list \<Rightarrow> stagedProposal list \<Rightarrow> transcriptState \<Rightarrow> bool" where
  "evidenceBound items staged st \<longleftrightarrow> set (ts_stagedProposals st) \<subseteq> knownProposals staged st
     \<and> (\<forall>ce \<in> set (ts_commitEvidence st). set (ce_consumedProposals ce) \<subseteq> knownProposals staged st
          \<and> (\<exists>item \<in> set items. isCommit item \<and> se_position (stored item) = ce_position ce \<and> se_envelopeId (stored item) = ce_envelopeId ce))"

lemma cutoffStep_bound: "cutoffStep position inclusive st = Inr st' \<Longrightarrow> evidenceBound items staged st \<Longrightarrow> evidenceBound items staged st'"
  by (simp add: evidenceBound_def knownProposals_def cutoffStep_frame(2-4))

lemma transcriptEvent_bound:
  assumes "transcriptEvent H cv pv input item st = Inr st'" "item \<in> set items" "evidenceBound items staged st"
  shows "evidenceBound items staged st'"
  using assms(1)
proof (rule transcriptEvent_cases)
  fix st1
  assume cut: "cutoffStep (se_position (stored item)) False st = Inr st1"
    and kind: "(\<exists>c. ei_envelope item = StoredApplication c) \<and> rj_mandatoryProposals (ts_activePolicy st1) = [] \<and> ts_stagedProposals st1 = [] \<and> st' = st1
     \<or> (\<exists>c. ei_envelope item = StoredExternalProposal c) \<and> transcriptProposal H pv input (stored item) st1 = Inr st'
     \<or> (\<exists>c base resulting. ei_envelope item = StoredMlsCommit c base resulting \<and> transcriptCommit H cv input (stored item) base resulting st1 = Inr st')"
  have bound: "evidenceBound items staged st1" using cut assms(3) by (rule cutoffStep_bound)
  have proposal: "evidenceBound items staged (st1\<lparr>ts_proposalEvidence := ts_proposalEvidence st1 @ [pe],
      ts_stagedProposals := ts_stagedProposals st1 @ [stagedOf pe]\<rparr>)" for pe
    using bound by (auto simp: evidenceBound_def knownProposals_def)
  from kind show ?thesis
  proof (elim disjE conjE exE)
    assume "transcriptProposal H pv input (stored item) st1 = Inr st'"
    then show ?thesis using cutoffStep_bound [OF _ proposal] by (blast elim: transcriptProposal_facts)
  next
    fix c base resulting
    assume c: "ei_envelope item = StoredMlsCommit c base resulting" and commit: "transcriptCommit H cv input (stored item) base resulting st1 = Inr st'"
    from commit show ?thesis
    proof (rule transcriptCommit_facts)
      fix ce binding raw
      assume ce: "parseMlsCommitProjectionEvidence H raw (commitRequestOf input st1 (stored item) base resulting binding) = Inr ce"
        and last: "cutoffStep (se_position (stored item)) True
          (st1\<lparr>ts_commitEvidence := ts_commitEvidence st1 @ [ce], ts_lastCommit := Some ce, ts_stagedProposals := [],
            ts_projection := \<lparr>mp_epoch = ce_resultingEpoch ce, mp_rosterVersion = ce_resultingRosterVersion ce,
              mp_confirmedTranscriptHash = ce_resultingConfirmedTranscriptHash ce\<rparr>\<rparr>) = Inr st'"
      have here: "\<exists>item \<in> set items. isCommit item \<and> se_position (stored item) = ce_position ce \<and> se_envelopeId (stored item) = ce_envelopeId ce"
        using assms(2) c parseCommit_facts(2,3) [OF ce] by (intro bexI [of _ item]) (simp_all add: isCommit_def commitRequestOf_def)
      moreover have "set (ce_consumedProposals ce) \<subseteq> knownProposals staged st1"
        using parseCommit_facts(8) [OF ce] bound by (auto simp: commitRequestOf_def evidenceBound_def)
      ultimately show ?thesis using bound
        by (intro cutoffStep_bound [OF last]) (auto simp: evidenceBound_def knownProposals_def)
    qed
  qed (use bound in simp)
qed

subsection \<open>The queue of staged proposals\<close>

definition requirementKept :: "mandatoryProposal list \<Rightarrow> stagedProposal \<Rightarrow> bool" where
  "requirementKept required p \<longleftrightarrow> (sp_proposalRequirement p = MandatoryProposal \<longrightarrow>
     (\<exists>r \<in> set required. pm_proposalId r = sp_proposalId p \<and> pm_proposalHash r = sp_proposalHash p))"

definition queueReady :: "string \<Rightarrow> string \<Rightarrow> mandatoryProposal list \<Rightarrow> stagedProposal list \<Rightarrow> bool" where
  "queueReady epoch position required ps \<longleftrightarrow> stagedListValid ps
     \<and> (\<forall>p \<in> set ps. sp_epoch p = epoch \<and> bigInt (sp_position p) \<le> bigInt position \<and> requirementKept required p)"

definition queueInvariant :: "string \<Rightarrow> transcriptState \<Rightarrow> bool" where
  "queueInvariant position st \<longleftrightarrow>
     queueReady (mp_epoch (ts_projection st)) position (rj_mandatoryProposals (ts_activePolicy st)) (ts_stagedProposals st)
     \<and> sorted (map (\<lambda>t. bigInt (rj_deliveryLogPosition t)) (ts_transitions st))
     \<and> (\<forall>ce \<in> set_option (ts_lastCommit st). \<forall>t \<in> set (ts_transitions st). bigInt (ce_position ce) < bigInt (rj_deliveryLogPosition t))"

lemma queueReady_mono: "queueReady epoch position required ps \<Longrightarrow> set required \<subseteq> set required' \<Longrightarrow> queueReady epoch position required' ps"
  unfolding queueReady_def requirementKept_def by blast

lemma cutoffStep_queue:
  assumes "cutoffStep at inclusive st = Inr st'" "queueInvariant position st"
  shows "queueInvariant position st'"
proof -
  note frame = cutoffStep_frame [OF assms(1)]
  have after: "\<forall>ce \<in> set_option (ts_lastCommit st). \<forall>t \<in> set (ts_transitions st). bigInt (ce_position ce) < bigInt (rj_deliveryLogPosition t)"
    and ready: "queueReady (mp_epoch (ts_projection st)) position (rj_mandatoryProposals (ts_activePolicy st)) (ts_stagedProposals st)"
    and sorted: "sorted (map (\<lambda>t. bigInt (rj_deliveryLogPosition t)) (ts_transitions st))"
    using assms(2) by (auto simp: queueInvariant_def)
  obtain handled where "ts_transitions st = handled @ ts_transitions st'" using applyCutoff_handled [OF frame(6)] by blast
  then have "sorted (map (\<lambda>t. bigInt (rj_deliveryLogPosition t)) (ts_transitions st'))"
    "\<forall>ce \<in> set_option (ts_lastCommit st'). \<forall>t \<in> set (ts_transitions st'). bigInt (ce_position ce) < bigInt (rj_deliveryLogPosition t)"
    using sorted after frame(5) by (simp_all add: sorted_append)
  moreover have "queueReady (mp_epoch (ts_projection st')) position (rj_mandatoryProposals (ts_activePolicy st')) (ts_stagedProposals st')"
    using queueReady_mono [OF ready applyCutoff_grows [OF frame(6) after]] frame(1,2) by simp
  ultimately show ?thesis by (simp add: queueInvariant_def)
qed

lemma queueReady_Nil: "queueReady epoch position required []"
  by (simp add: queueReady_def stagedListValid_def CONVERSATION_PAGE_HARD_MAX_EVENTS_def)

lemma transcriptEvent_queue:
  assumes "transcriptEvent H cv pv input item st = Inr st'"
    and inv: "queueInvariant (lh_position (ps_logHead (vp_snapshot (ti_page input)))) st" (is "queueInvariant ?final st")
  shows "queueInvariant ?final st'"
  using assms(1)
proof (rule transcriptEvent_cases)
  fix st1
  assume cut: "cutoffStep (se_position (stored item)) False st = Inr st1"
    and epoch: "se_epoch (stored item) = mp_epoch (ts_projection st)"
    and kind: "(\<exists>c. ei_envelope item = StoredApplication c) \<and> rj_mandatoryProposals (ts_activePolicy st1) = [] \<and> ts_stagedProposals st1 = [] \<and> st' = st1
     \<or> (\<exists>c. ei_envelope item = StoredExternalProposal c) \<and> transcriptProposal H pv input (stored item) st1 = Inr st'
     \<or> (\<exists>c base resulting. ei_envelope item = StoredMlsCommit c base resulting \<and> transcriptCommit H cv input (stored item) base resulting st1 = Inr st')"
  have queue: "queueInvariant ?final st1" using cut inv by (rule cutoffStep_queue)
  from kind show ?thesis
  proof (elim disjE conjE exE)
    assume "transcriptProposal H pv input (stored item) st1 = Inr st'"
    then show ?thesis
    proof (rule transcriptProposal_facts)
      fix pe st2
      assume pe: "verifyMlsExternalProposal H pv (ti_page input) (stored item) (ti_realmId input) (ti_conversationGeneration input)
           (ti_releaseProfileId input) (ti_deliveryLimitsDigest input) (ti_releaseTrustRootDigest input) (ti_expectedGroupIdHash input)
           (ti_pageStartPolicy input) (ti_priorPolicy input) = Inr pe"
        and staged: "stagedListValid (ts_stagedProposals st1 @ [stagedOf pe])"
        and st2: "st2 = st1\<lparr>ts_proposalEvidence := ts_proposalEvidence st1 @ [pe], ts_stagedProposals := ts_stagedProposals st1 @ [stagedOf pe]\<rparr>"
        and last: "cutoffStep (se_position (stored item)) True st2 = Inr st'"
        and requirement: "pe_proposalRequirement pe = MandatoryProposal \<longleftrightarrow> isRequired (ts_activePolicy st') pe"
      define st3 where "st3 = st'\<lparr>ts_stagedProposals := ts_stagedProposals st1\<rparr>"
      have "cutoffStep (se_position (stored item)) True (st1\<lparr>ts_proposalEvidence := ts_proposalEvidence st1 @ [pe]\<rparr>) = Inr st3"
        using last st2 by (auto simp: cutoffStep_def bindE_eq_Inr st3_def)
      then have "queueInvariant ?final st3" using queue by (elim cutoffStep_queue) (simp add: queueInvariant_def)
      moreover have "ts_stagedProposals st' = ts_stagedProposals st1 @ [stagedOf pe]" "mp_epoch (ts_projection st') = se_epoch (stored item)"
        using cutoffStep_frame(1,2) [OF last] cutoffStep_frame(1) [OF cut] epoch st2 by simp_all
      moreover have "requirementKept (rj_mandatoryProposals (ts_activePolicy st')) (stagedOf pe)"
        using requirement by (auto simp: requirementKept_def isRequired_def list_ex_iff stagedOf_def)
      ultimately show ?thesis using parseProposal_facts(2,5,6) [OF pe] staged
        by (auto simp: queueInvariant_def queueReady_def st3_def stagedOf_def)
    qed
  next
    fix base resulting
    assume "transcriptCommit H cv input (stored item) base resulting st1 = Inr st'"
    then show ?thesis
    proof (rule transcriptCommit_facts)
      fix ce binding raw
      assume ce: "parseMlsCommitProjectionEvidence H raw (commitRequestOf input st1 (stored item) base resulting binding) = Inr ce"
        and last: "cutoffStep (se_position (stored item)) True
          (st1\<lparr>ts_commitEvidence := ts_commitEvidence st1 @ [ce], ts_lastCommit := Some ce, ts_stagedProposals := [],
            ts_projection := \<lparr>mp_epoch = ce_resultingEpoch ce, mp_rosterVersion = ce_resultingRosterVersion ce,
              mp_confirmedTranscriptHash = ce_resultingConfirmedTranscriptHash ce\<rparr>\<rparr>) = Inr st'"
      note frame = cutoffStep_frame [OF last, simplified]
      have sorted: "sorted (map (\<lambda>t. bigInt (rj_deliveryLogPosition t)) (ts_transitions st1))" using queue by (simp add: queueInvariant_def)
      obtain handled where "ts_transitions st1 = handled @ ts_transitions st'" using applyCutoff_handled [OF frame(6)] by blast
      with sorted have "sorted (map (\<lambda>t. bigInt (rj_deliveryLogPosition t)) (ts_transitions st'))" by (simp add: sorted_append)
      moreover have "\<forall>t \<in> set (ts_transitions st'). bigInt (ce_position ce) < bigInt (rj_deliveryLogPosition t)"
        using applyCutoff_rest [OF frame(6) sorted] parseCommit_facts(2) [OF ce] by (simp add: commitRequestOf_def)
      ultimately show ?thesis using frame by (simp add: queueInvariant_def queueReady_Nil)
    qed
  qed (use queue in simp)
qed

end
