(* ===== verification/MlsTranscriptProperties.thy ===== *)
theory MlsTranscriptProperties
  imports MlsTranscriptProofs
begin

section \<open>Properties of the ordered MLS transcript\<close>

text \<open>
  What a page whose MLS transcript was accepted tells the client: it is a run of the abstract group, messages belong to their
  epoch, requirements of the policy end with the Commit that fulfils them, and the queue of staged proposals that the
  client stores is one that the next page may start from. The witnesses evaluate one page with an external proposal, the
  Commit that consumes it and an application message.
\<close>

subsection \<open>Acceptance\<close>

definition snapshotProjection :: "pageSnapshot \<Rightarrow> mlsProjection" where
  "snapshotProjection s = \<lparr>mp_epoch = ps_epoch s, mp_rosterVersion = ps_rosterVersion s, mp_confirmedTranscriptHash = ps_confirmedTranscriptHash s\<rparr>"

lemma transcript_accepted:
  assumes "verifyOrderedMlsTranscript H cv pv input projection staged replay = Inr te"
  obtains st st' where "transcriptEvents H cv pv input (vp_events (ti_page input)) (initialTranscript projection staged replay) = Inr st"
    "cutoffStep (lh_position (ps_logHead (vp_snapshot (ti_page input)))) True st = Inr st'"
    "\<forall>p \<in> set staged. sp_epoch p = mp_epoch projection" "ts_transitions st' = []"
    "rj_mandatoryProposals (ts_activePolicy st') = rj_mandatoryProposals (rv_pageEndPolicy replay)"
    "ts_projection st' = snapshotProjection (vp_snapshot (ti_page input))"
    "te = \<lparr>te_commitProjectionEvidence = ts_commitEvidence st', te_externalProposalEvidence = ts_proposalEvidence st',
        te_stagedProposalsAtPageEnd = ts_stagedProposals st'\<rparr>"
  using assms unfolding verifyOrderedMlsTranscript_def Let_def
  by (auto simp: bindE_eq_Inr finishTranscript_def list_ex_iff samePolicyMandatoryProposals_iff snapshotProjection_def split: if_splits)

lemma transcript_run:
  assumes "verifyOrderedMlsTranscript H cv pv input projection staged replay = Inr te"
  shows "\<exists>labels. groupRun (viewOf projection staged) (vp_events (ti_page input)) labels
      (viewOf (snapshotProjection (vp_snapshot (ti_page input))) (te_stagedProposalsAtPageEnd te))
    \<and> concat labels = concat (map ce_consumedProposals (te_commitProjectionEvidence te))"
  using assms
proof (rule transcript_accepted)
  fix st st'
  assume events: "transcriptEvents H cv pv input (vp_events (ti_page input)) (initialTranscript projection staged replay) = Inr st"
    and cut: "cutoffStep (lh_position (ps_logHead (vp_snapshot (ti_page input)))) True st = Inr st'"
    and projection: "ts_projection st' = snapshotProjection (vp_snapshot (ti_page input))"
    and te: "te = \<lparr>te_commitProjectionEvidence = ts_commitEvidence st', te_externalProposalEvidence = ts_proposalEvidence st',
        te_stagedProposalsAtPageEnd = ts_stagedProposals st'\<rparr>"
  show ?thesis using transcriptEvents_group [OF events] cutoffStep_frame(1-3) [OF cut] projection
    by (auto simp: te initialTranscript_def consumedSoFar_def)
qed

text \<open>
  C22. An accepted page is a run of the abstract group from what the client knew to what the snapshot says. Every event is in
  the epoch and roster version of the group; a Commit extends the transcript hash, advances the epoch by one and the roster
  version by at most one, and empties the queue; application messages find the queue empty; proposals join it once; and
  the Commits consume exactly the proposals that their evidence names, all of them from the queue.
\<close>

theorem transcript_refines_group:
  assumes "verifyOrderedMlsTranscript H commitVerifier proposalVerifier input projection staged replay = Inr te"
  shows "\<exists>labels. groupRun (viewOf projection staged) (vp_events (ti_page input)) labels
      (viewOf (snapshotProjection (vp_snapshot (ti_page input))) (te_stagedProposalsAtPageEnd te))
    \<and> concat labels = concat (map ce_consumedProposals (te_commitProjectionEvidence te))"
  by (rule transcript_run [OF assms])

subsection \<open>Messages and epochs\<close>

lemma groupRun_staged_kept:
  "groupRun v items labels w \<Longrightarrow> filter isCommit items = [] \<Longrightarrow> set (gv_staged v) \<subseteq> set (gv_staged w)"
  by (induction rule: groupRun.induct) (auto simp: isCommit_def elim!: groupStepE split: if_splits)

lemma groupStep_proposal_staged:
  "groupStep v item consumed w \<Longrightarrow> ei_envelope item = StoredExternalProposal c \<Longrightarrow> gv_staged w \<noteq> []"
  by (auto elim: groupStepE)

lemma groupRun_commit_between:
  assumes "groupRun v (xs @ item # ys) labels w" "ei_envelope item = StoredApplication c"
  shows "gv_staged v = [] \<or> (\<exists>x \<in> set xs. isCommit x)"
    "xs = as @ p # bs \<Longrightarrow> ei_envelope p = StoredExternalProposal d \<Longrightarrow> \<exists>x \<in> set bs. isCommit x"
proof -
  obtain u labels' where run: "groupRun v xs labels' u" "gv_staged u = []" using groupRun_application_staged [OF assms] by blast
  show "gv_staged v = [] \<or> (\<exists>x \<in> set xs. isCommit x)"
    using groupRun_staged_kept [OF run(1)] run(2) by (auto simp: filter_empty_conv)
  show "\<exists>x \<in> set bs. isCommit x" if "xs = as @ p # bs" "ei_envelope p = StoredExternalProposal d"
  proof -
    have "groupRun v (as @ p # bs) labels' u" using run(1) that(1) by simp
    from groupRun_append [OF this] obtain m n a b where "groupStep m p a n" "groupRun n bs b u" by (auto simp: groupRun_Cons)
    then show ?thesis using groupStep_proposal_staged [OF _ that(2)] groupRun_staged_kept run(2) by (fastforce simp: filter_empty_conv)
  qed
qed

text \<open>
  C23. In an accepted page every event carries the epoch that counts the Commits before it, and the snapshot the epoch that
  counts all of them. An application message never comes between an external proposal and the next Commit: a queue that was
  not empty at the start of the page, and every proposal of the page before the message, is followed by a Commit first.
\<close>

theorem messages_belong_to_their_epoch:
  assumes "verifyOrderedMlsTranscript H commitVerifier proposalVerifier input projection staged replay = Inr te"
  shows "bigInt (ps_epoch (vp_snapshot (ti_page input))) = bigInt (mp_epoch projection) + int (length (filter isCommit (vp_events (ti_page input))))
    \<and> (\<forall>before item after. vp_events (ti_page input) = before @ item # after \<longrightarrow>
        bigInt (se_epoch (stored item)) = bigInt (mp_epoch projection) + int (length (filter isCommit before))
        \<and> ((\<exists>c. ei_envelope item = StoredApplication c) \<longrightarrow>
            (staged = [] \<or> (\<exists>x \<in> set before. isCommit x))
            \<and> (\<forall>first p between d. before = first @ p # between \<and> ei_envelope p = StoredExternalProposal d \<longrightarrow> (\<exists>x \<in> set between. isCommit x))))"
proof -
  obtain labels where run: "groupRun (viewOf projection staged) (vp_events (ti_page input)) labels
      (viewOf (snapshotProjection (vp_snapshot (ti_page input))) (te_stagedProposalsAtPageEnd te))"
    using transcript_run [OF assms] by blast
  have view: "gv_epoch (viewOf q s) = bigInt (mp_epoch q)" "gv_staged (viewOf q s) = s" for q s by (simp_all add: viewOf_def)
  have total: "bigInt (ps_epoch (vp_snapshot (ti_page input))) = bigInt (mp_epoch projection) + int (length (filter isCommit (vp_events (ti_page input))))"
    using groupRun_epoch [OF run] by (simp add: view snapshotProjection_def)
  have "bigInt (se_epoch (stored item)) = bigInt (mp_epoch projection) + int (length (filter isCommit before))"
    if "vp_events (ti_page input) = before @ item # after" for before item after
    using groupRun_event_epoch [OF run [unfolded that]] by (simp add: view)
  moreover have "(staged = [] \<or> (\<exists>x \<in> set before. isCommit x))
      \<and> (\<forall>first p between d. before = first @ p # between \<and> ei_envelope p = StoredExternalProposal d \<longrightarrow> (\<exists>x \<in> set between. isCommit x))"
    if "vp_events (ti_page input) = before @ item # after" "ei_envelope item = StoredApplication c" for before item after c
    using groupRun_commit_between [OF run [unfolded that(1)] that(2)] by (auto simp: view)
  ultimately show ?thesis using total by blast
qed

subsection \<open>Requirements of the policy\<close>

text \<open>
  C24. In an accepted page a mandatory proposal ceases to be required only by fulfilment. For every policy transition and
  every requirement that it drops, the page has a Commit at the position of the transition whose verified evidence says
  that it consumed a proposal with exactly that identifier and hash, and that proposal was staged before or is one
  whose envelope was verified in this page. After all transitions the requirements are those of the snapshot's policy.
\<close>

theorem requirement_cleared_by_consumption:
  assumes "verifyOrderedMlsTranscript H commitVerifier proposalVerifier input projection staged replay = Inr te"
  shows "(\<forall>(before, t) \<in> set (successive (rj_mandatoryProposals (rv_pageStartPolicy replay)) (rv_transitions replay)).
       \<forall>r \<in> set before - set (rj_mandatoryProposals t).
       \<exists>item \<in> set (vp_events (ti_page input)). \<exists>ce \<in> set (te_commitProjectionEvidence te). \<exists>p \<in> set (ce_consumedProposals ce).
         isCommit item \<and> se_position (stored item) = rj_deliveryLogPosition t \<and> se_envelopeId (stored item) = ce_envelopeId ce
         \<and> sp_proposalId p = pm_proposalId r \<and> sp_proposalHash p = pm_proposalHash r
         \<and> p \<in> set staged \<union> stagedOf ` set (te_externalProposalEvidence te))
    \<and> lastMandatory (rj_mandatoryProposals (rv_pageStartPolicy replay)) (rv_transitions replay) = rj_mandatoryProposals (rv_pageEndPolicy replay)"
  using assms
proof (rule transcript_accepted)
  let ?start = "rj_mandatoryProposals (rv_pageStartPolicy replay)" and ?events = "vp_events (ti_page input)"
  fix st st'
  assume events: "transcriptEvents H commitVerifier proposalVerifier input ?events (initialTranscript projection staged replay) = Inr st"
    and cut: "cutoffStep (lh_position (ps_logHead (vp_snapshot (ti_page input)))) True st = Inr st'"
    and rest: "ts_transitions st' = []" "rj_mandatoryProposals (ts_activePolicy st') = rj_mandatoryProposals (rv_pageEndPolicy replay)"
    and te: "te = \<lparr>te_commitProjectionEvidence = ts_commitEvidence st', te_externalProposalEvidence = ts_proposalEvidence st',
        te_stagedProposalsAtPageEnd = ts_stagedProposals st'\<rparr>"
  have "policyLedger ?start (rv_transitions replay) (initialTranscript projection staged replay)"
    by (simp add: policyLedger_def initialTranscript_def)
  then have "policyLedger ?start (rv_transitions replay) st"
    by (rule transcriptEvents_invariant [OF events]) (rule transcriptEvent_ledger)
  then have ledger: "policyLedger ?start (rv_transitions replay) st'" by (rule cutoffStep_ledger [OF cut])
  have "evidenceBound ?events staged (initialTranscript projection staged replay)"
    by (simp add: evidenceBound_def initialTranscript_def knownProposals_def)
  then have "evidenceBound ?events staged st"
    by (rule transcriptEvents_invariant [OF events]) (rule transcriptEvent_bound)
  then have bound: "evidenceBound ?events staged st'" by (rule cutoffStep_bound [OF cut])
  have cleared: "\<forall>(before, t) \<in> set (successive ?start (rv_transitions replay)). clearedBy (set (ts_commitEvidence st')) before t"
    and final: "lastMandatory ?start (rv_transitions replay) = rj_mandatoryProposals (rv_pageEndPolicy replay)"
    using ledger rest by (auto simp: policyLedger_def)
  have "\<exists>item \<in> set ?events. \<exists>ce \<in> set (te_commitProjectionEvidence te). \<exists>p \<in> set (ce_consumedProposals ce).
         isCommit item \<and> se_position (stored item) = rj_deliveryLogPosition t \<and> se_envelopeId (stored item) = ce_envelopeId ce
         \<and> sp_proposalId p = pm_proposalId r \<and> sp_proposalHash p = pm_proposalHash r
         \<and> p \<in> set staged \<union> stagedOf ` set (te_externalProposalEvidence te)"
    if pair: "(before, t) \<in> set (successive ?start (rv_transitions replay))" and r: "r \<in> set before - set (rj_mandatoryProposals t)" for before t r
  proof -
    obtain ce p where ce: "ce \<in> set (ts_commitEvidence st')" "ce_position ce = rj_deliveryLogPosition t"
      and p: "p \<in> set (ce_consumedProposals ce)" "sp_proposalId p = pm_proposalId r" "sp_proposalHash p = pm_proposalHash r"
      using bspec [OF cleared pair] r unfolding clearedBy_def consumedBy_def by blast
    then show ?thesis using bound by (fastforce simp: evidenceBound_def knownProposals_def te)
  qed
  with final show ?thesis by blast
qed

subsection \<open>The start of the next page\<close>

lemma queueReady_iff:
  "queueReady epoch position required ps \<longleftrightarrow> parseStagedProposalBindings (encodeStagedList ps) = Inr ps
     \<and> \<not> list_ex (\<lambda>p. sp_epoch p \<noteq> epoch) ps \<and> \<not> list_ex (\<lambda>p. bigInt (sp_position p) > bigInt position) ps
     \<and> \<not> list_ex (substitutedMandatory required) ps"
proof -
  have "parseStagedProposalBindings (encodeStagedList ps) = Inr ps \<longleftrightarrow> stagedListValid ps"
    using staged_list_codec.parse_encode parseStaged_same(2) by blast
  then show ?thesis
    by (auto simp: queueReady_def requirementKept_def substitutedMandatory_def list_ex_iff not_less)
qed

lemma staged_queue_ready:
  assumes "verifyOrderedMlsTranscript H commitVerifier proposalVerifier input projection staged replay = Inr te"
    and "validatePolicyReplayInterval replay = Inr ()"
    and "parseStagedProposalBindings (encodeStagedList staged) = Inr staged"
    and "\<not> list_ex (\<lambda>p. bigInt (sp_position p) > bigInt (lh_position (ps_logHead (vp_snapshot (ti_page input))))) staged"
    and "\<not> list_ex (substitutedMandatory (rj_mandatoryProposals (rv_pageStartPolicy replay))) staged"
  shows "parseStagedProposalBindings (encodeStagedList (te_stagedProposalsAtPageEnd te)) = Inr (te_stagedProposalsAtPageEnd te)
    \<and> \<not> list_ex (\<lambda>p. sp_epoch p \<noteq> ps_epoch (vp_snapshot (ti_page input))) (te_stagedProposalsAtPageEnd te)
    \<and> \<not> list_ex (\<lambda>p. bigInt (sp_position p) > bigInt (lh_position (ps_logHead (vp_snapshot (ti_page input))))) (te_stagedProposalsAtPageEnd te)
    \<and> \<not> list_ex (substitutedMandatory (rj_mandatoryProposals (rv_pageEndPolicy replay))) (te_stagedProposalsAtPageEnd te)"
  using assms(1)
proof (rule transcript_accepted)
  let ?final = "lh_position (ps_logHead (vp_snapshot (ti_page input)))"
  fix st st'
  assume events: "transcriptEvents H commitVerifier proposalVerifier input (vp_events (ti_page input)) (initialTranscript projection staged replay) = Inr st"
    and cut: "cutoffStep ?final True st = Inr st'"
    and epochs: "\<forall>p \<in> set staged. sp_epoch p = mp_epoch projection"
    and final: "rj_mandatoryProposals (ts_activePolicy st') = rj_mandatoryProposals (rv_pageEndPolicy replay)"
      "ts_projection st' = snapshotProjection (vp_snapshot (ti_page input))"
    and te: "te = \<lparr>te_commitProjectionEvidence = ts_commitEvidence st', te_externalProposalEvidence = ts_proposalEvidence st',
        te_stagedProposalsAtPageEnd = ts_stagedProposals st'\<rparr>"
  obtain prior where "checkTransitions replay (rv_pageStartPolicy replay) (rv_transitions replay) = Inr prior"
    using assms(2) by (auto simp: validatePolicyReplayInterval_def bindE_eq_Inr split: if_splits)
  then have "sorted (map (\<lambda>t. bigInt (rj_deliveryLogPosition t)) (rv_transitions replay))" using checkTransitions_facts by fastforce
  moreover have "queueReady (mp_epoch projection) ?final (rj_mandatoryProposals (rv_pageStartPolicy replay)) staged"
    using assms(3-5) epochs by (simp add: queueReady_iff list_ex_iff)
  ultimately have "queueInvariant ?final (initialTranscript projection staged replay)" by (simp add: queueInvariant_def initialTranscript_def)
  then have "queueInvariant ?final st" by (rule transcriptEvents_invariant [OF events]) (rule transcriptEvent_queue)
  then have "queueInvariant ?final st'" by (rule cutoffStep_queue [OF cut])
  then show ?thesis using final by (simp add: queueInvariant_def queueReady_iff te snapshotProjection_def)
qed

text \<open>
  C25. The queue of staged proposals that an accepted page leaves is one that the next page may start from. If the queue of the
  prefix was in order (it parses, no proposal lies after the end of the page, and the mandatory ones are required by the
  policy at the start) and the policy replay is valid, then the queue at the end parses, all its proposals are of the epoch
  of the snapshot and not after its log head, and the mandatory ones are required by the policy at the end: the checks that the
  client makes of its prefix before it reads the next page succeed on it.
\<close>

theorem staged_queue_ready_for_next_page:
  assumes "verifyOrderedMlsTranscript H commitVerifier proposalVerifier input projection staged replay = Inr te"
    and "validatePolicyReplayInterval replay = Inr ()"
    and "parseStagedProposalBindings (encodeStagedList staged) = Inr staged"
    and "\<not> list_ex (\<lambda>p. bigInt (sp_position p) > bigInt (lh_position (ps_logHead (vp_snapshot (ti_page input))))) staged"
    and "\<not> list_ex (substitutedMandatory (rj_mandatoryProposals (rv_pageStartPolicy replay))) staged"
  shows "parseStagedProposalBindings (encodeStagedList (te_stagedProposalsAtPageEnd te)) = Inr (te_stagedProposalsAtPageEnd te)
    \<and> \<not> list_ex (\<lambda>p. sp_epoch p \<noteq> ps_epoch (vp_snapshot (ti_page input))) (te_stagedProposalsAtPageEnd te)
    \<and> \<not> list_ex (\<lambda>p. bigInt (sp_position p) > bigInt (lh_position (ps_logHead (vp_snapshot (ti_page input))))) (te_stagedProposalsAtPageEnd te)
    \<and> \<not> list_ex (substitutedMandatory (rj_mandatoryProposals (rv_pageEndPolicy replay))) (te_stagedProposalsAtPageEnd te)"
  by (rule staged_queue_ready [OF assms])

text \<open>
  C26. A policy transition at the start of a page that drops a requirement is never accepted, whatever the verifiers
  say: if the first transition lies before the first event of the page and not after its log head, and drops a requirement of the policy
  that the page starts with, the check of the transcript rejects the page. So a client whose page ended at the Commit that
  consumed a mandatory proposal, before the policy head was renewed, rejects every continuation.
\<close>

theorem page_start_clearing_refused:
  assumes "rv_transitions replay = t # ts" "r \<in> set (rj_mandatoryProposals (rv_pageStartPolicy replay))" "r \<notin> set (rj_mandatoryProposals t)"
    and "list_all (\<lambda>item. bigInt (rj_deliveryLogPosition t) < bigInt (se_position (storedCommon (ei_envelope item)))) (vp_events (ti_page input))"
    and "bigInt (rj_deliveryLogPosition t) \<le> bigInt (lh_position (ps_logHead (vp_snapshot (ti_page input))))"
  shows "verifyOrderedMlsTranscript H commitVerifier proposalVerifier input projection staged replay = Inl ConversationSyncValidationError"
proof -
  let ?init = "initialTranscript projection staged replay"
  have "r \<in> set (removedRequirements (rv_pageStartPolicy replay) t)" using assms(2,3) by (simp add: set_removedRequirements)
  then have cleared: "clearedWithoutCommit None (rv_pageStartPolicy replay) t" by (auto simp: clearedWithoutCommit_def)
  have refused: "cutoffStep position inclusive ?init = Inl ConversationSyncValidationError"
    if "bigInt (rj_deliveryLogPosition t) < bigInt position \<or> inclusive \<and> bigInt (rj_deliveryLogPosition t) \<le> bigInt position" for position inclusive
    using that cleared assms(1) by (auto simp: cutoffStep_def initialTranscript_def Let_def)
  show ?thesis
  proof (cases "vp_events (ti_page input)")
    case Nil
    then show ?thesis using refused assms(5) by (simp add: verifyOrderedMlsTranscript_def Let_def)
  next
    case (Cons item rest)
    then have "transcriptEvent H commitVerifier proposalVerifier input item ?init = Inl ConversationSyncValidationError"
      using refused assms(4) by (simp add: transcriptEvent_def Let_def)
    then show ?thesis using Cons by (simp add: verifyOrderedMlsTranscript_def Let_def)
  qed
qed

end
