(* ===== verification/SyncClientProperties.thy ===== *)
theory SyncClientProperties
  imports SyncClient PageProofProperties MlsTranscriptProperties
begin

section \<open>What a verified page gives the client\<close>

text \<open>
  The parts of the verification fit together: the evidence about the page, its policy and its transcript is about the same prefix
  and the same snapshot, and what the page leaves is a prefix from which the next request can be made.
\<close>

subsection \<open>The prefix after a page\<close>

text \<open>
  The client stands at the signed head, trusts the receipt of the page, has the MLS and policy projections of the snapshot, and
  keeps the queue of staged proposals that the transcript ends with. The rest of the prefix stays.
\<close>

definition snapshotPolicyProjection :: "pageSnapshot \<Rightarrow> policyProjection" where
  "snapshotPolicyProjection s =
     \<lparr>pp_etag = ps_etag s, pp_policyHeadId = ps_policyHeadId s, pp_policyRevision = ps_policyRevision s,
      pp_policyMandatoryProposalCount = ps_policyMandatoryProposalCount s,
      pp_policyMandatoryProposalSetHash = ps_policyMandatoryProposalSetHash s, pp_policyMandatoryProposals = ps_policyMandatoryProposals s,
      pp_policyAuthorizedSendGrantSetHash = ps_policyAuthorizedSendGrantSetHash s,
      pp_policyAuthorizedQuotaPolicyDigest = ps_policyAuthorizedQuotaPolicyDigest s, pp_policyHeadSequence = ps_policyHeadSequence s,
      pp_policyHeadHash = ps_policyHeadHash s, pp_policyDeliveryLogPosition = ps_policyDeliveryLogPosition s,
      pp_policyDeliveryLogHeadHash = ps_policyDeliveryLogHeadHash s, pp_policyWitnessCheckpointId = ps_policyWitnessCheckpointId s,
      pp_policyWitnessEvidenceDigest = ps_policyWitnessEvidenceDigest s\<rparr>"

definition anchorOfReceipt :: "witnessReceipt \<Rightarrow> witnessAnchor" where
  "anchorOfReceipt r = \<lparr>wa_witnessCheckpointId = wr_witnessCheckpointId r, wa_witnessTreeSize = wr_witnessTreeSize r,
     wa_witnessRootHash = wr_witnessRootHash r, wa_witnessedAt = wr_witnessedAt r\<rparr>"

definition prefixAfter :: "verifiedPrefix \<Rightarrow> verifiedConversationPage \<Rightarrow> verifiedPrefix" where
  "prefixAfter x v =
     (let s = vp_snapshot (vc_page v) in
      x\<lparr>vx_anchor := anchorOfLogHead (ps_logHead s), vx_witness := anchorOfReceipt (ps_witnessReceipt s),
        vx_projection := snapshotProjection s, vx_policyProjection := snapshotPolicyProjection s,
        vx_stagedProposals := te_stagedProposalsAtPageEnd (vc_orderedMlsEvidence v)\<rparr>)"

lemma prefixAfter_valid:
  assumes "prefixValid H x" "pageSnapshotValid H (vp_snapshot (vc_page v))"
    and "stagedListValid (te_stagedProposalsAtPageEnd (vc_orderedMlsEvidence v))"
  shows "prefixValid H (prefixAfter x v)"
proof -
  have "policyProjectionValid H (snapshotPolicyProjection (vp_snapshot (vc_page v)))"
    using assms(2) unfolding pageSnapshotValid_def policyProjectionValid_def snapshotPolicyProjection_def policyProjection.select_convs
    by (elim conjE) (intro conjI; blast)
  moreover have "anchorValid (anchorOfLogHead (ps_logHead (vp_snapshot (vc_page v))))"
    "witnessAnchorValid (anchorOfReceipt (ps_witnessReceipt (vp_snapshot (vc_page v))))"
    "mlsProjectionValid (snapshotProjection (vp_snapshot (vc_page v)))"
    using assms(2)
    by (auto simp: pageSnapshotValid_def logHeadValid_def receiptValid_def anchorOfLogHead_def anchorValid_def anchorOfReceipt_def
        witnessAnchorValid_def snapshotProjection_def mlsProjectionValid_def positiveUint63Valid_def nonZeroHashValid_def)
  ultimately show ?thesis using assms(1,3) by (simp add: prefixValid_def prefixAfter_def Let_def)
qed

lemma prefixAfter_consistent:
  assumes "pageSnapshotValid H (vp_snapshot (vc_page v))"
    and "queueReady epoch (lh_position (ps_logHead (vp_snapshot (vc_page v)))) (ps_policyMandatoryProposals (vp_snapshot (vc_page v)))
      (te_stagedProposalsAtPageEnd (vc_orderedMlsEvidence v))"
  shows "checkPrefixConsistency (prefixAfter x v) = Inr ()"
  using assms
  by (auto simp: checkPrefixConsistency_def prefixAfter_def Let_def pageSnapshotValid_def snapshotPolicyProjection_def snapshotProjection_def
      anchorOfLogHead_def queueReady_iff)

subsection \<open>The composition\<close>

lemma page_verified:
  assumes "parseAndVerifyConversationPageJson H ports rawResponse rq = Some (Inr v)"
  obtains os where "openSyncPrefix H rq = Inr os"
    "readConversationPage H (sy_cursorCodec ports) rawResponse rq = Some (Inr (vc_page v, vc_nextCursorClaims v))"
    "verifyConversationPageProofs H (sy_pageProofVerifier ports) (vc_page v) (os_now os) (os_prefix os) = Inr (vc_proofEvidence v)"
    "verifyConversationPolicyHead H (sy_policyHeadProofVerifier ports) (vp_snapshot (vc_page v)) (os_now os) (os_prefix os)
       = Inr (vc_policyHeadEvidence v)"
    "\<exists>realm generation release limits root. verifyConversationPolicyReplay H (sy_policyReplayVerifier ports) (vc_page v)
       (vx_anchor (os_prefix os)) (vx_policyProjection (os_prefix os)) (vx_policy (os_prefix os)) (os_now os) realm generation release limits root
       = Inr (vc_policyReplayEvidence v)"
    "verifyOrderedMlsTranscript H (sy_mlsCommitProjectionVerifier ports) (sy_mlsExternalProposalVerifier ports)
       (transcriptInputOf (vc_page v) (os_prefix os)) (vx_projection (os_prefix os)) (vx_stagedProposals (os_prefix os))
       (vc_policyReplayEvidence v) = Inr (vc_orderedMlsEvidence v)"
proof -
  have "parseAndVerifyConversationPageJsonInternal H ports rawResponse rq = Some (Inr v)"
    using assms by (cases "the (parseAndVerifyConversationPageJsonInternal H ports rawResponse rq)")
      (auto simp: parseAndVerifyConversationPageJson_def)
  then obtain os page claims where os: "openSyncPrefix H rq = Inr os"
    and page: "readOpenedPage H (sy_cursorCodec ports) rawResponse rq os = Some (Inr (page, claims))"
    and v: "verifyPageEvidence H ports os page claims = Inr v"
    by (auto simp: parseAndVerifyConversationPageJsonInternal_def andThen_eq_Inr)
  have read: "readConversationPage H (sy_cursorCodec ports) rawResponse rq = Some (Inr (page, claims))"
    using os page by (simp add: readConversationPage_def andThen_def)
  obtain proofs policy replay transcript where evidence:
    "verifyConversationPageProofs H (sy_pageProofVerifier ports) page (os_now os) (os_prefix os) = Inr proofs"
    "verifyConversationPolicyHead H (sy_policyHeadProofVerifier ports) (vp_snapshot page) (os_now os) (os_prefix os) = Inr policy"
    "\<exists>realm generation release limits root. verifyConversationPolicyReplay H (sy_policyReplayVerifier ports) page
       (vx_anchor (os_prefix os)) (vx_policyProjection (os_prefix os)) (vx_policy (os_prefix os)) (os_now os) realm generation release limits root
       = Inr replay"
    "verifyOrderedMlsTranscript H (sy_mlsCommitProjectionVerifier ports) (sy_mlsExternalProposalVerifier ports)
       (transcriptInputOf page (os_prefix os)) (vx_projection (os_prefix os)) (vx_stagedProposals (os_prefix os)) replay = Inr transcript"
    "\<lparr>vc_page = page, vc_nextCursorClaims = claims, vc_proofEvidence = proofs, vc_policyHeadEvidence = policy,
       vc_policyReplayEvidence = replay, vc_orderedMlsEvidence = transcript\<rparr> = v"
    using v unfolding verifyPageEvidence_def Let_def by (elim bindE_InrE) (simp only: sum.inject, blast)
  show ?thesis
    using os read evidence(1-4) by (intro that [of os]) (simp_all add: evidence(5) [symmetric])
qed

lemma expectation_reparsed:
  assumes "parsePolicyHeadProofExpectation (encodeExpectation r) = Inr q"
  shows "q = r"
  using assms unfolding parsePolicyHeadProofExpectation_def expect_encodeExpectation
  by (elim bindE_InrE) (simp only: sum.inject, hypsubst,
    simp add: parse_simps guardE_eq_Inr enum_inj entriesExpectation_get policyHeadProofExpectation.equality)

lemma policy_head_proven:
  assumes "verifyConversationPolicyHead H verify s verifiedAt x = Inr p"
  shows "expectationPart p = policyHeadRequestOf s verifiedAt x \<and> \<not> statusInvalidForPurpose p"
proof -
  obtain raw where raw: "parsePolicyHeadProofEvidence H raw (encodeExpectation (policyHeadRequestOf s verifiedAt x)) = Inr p"
    using assms by (auto simp: verifyConversationPolicyHead_def Let_def bindE_eq_Inr)
  then have parsed: "parsePolicyHeadProofExpectation (encodeExpectation (policyHeadRequestOf s verifiedAt x)) = Inr (expectationPart p)"
    and status: "\<not> statusInvalidForPurpose p" by (auto simp: parsePolicyHeadProofEvidence_Inr)
  show ?thesis using expectation_reparsed [OF parsed] status by simp
qed

text \<open>
  C27. Everything in a page that the client accepts is covered by evidence, and the page leads to a usable prefix. The response continues the prefix
  whose digest was stored; every event and the log head have an accepted checkpoint proof, and the receipt extends the last
  trusted witness; the proof of the policy head is about the snapshot at its log head and is a proof for a
  page, not one for an append; the events are a run of the abstract group from the prefix to the snapshot. The prefix after
  the page (anchored at the signed head, with the receipt, the projections of the snapshot and the queue that the
  transcript leaves) parses again and passes the consistency checks of the next request.
\<close>

theorem verified_page_gives_next_prefix:
  assumes "parseAndVerifyConversationPageJson H ports rawResponse rq = Some (Inr v)"
  shows "\<exists>x. parsePrefixInput H (rq_prefix rq) = Inr x
    \<and> responseSound H rawResponse rq (vc_page v) (vc_nextCursorClaims v)
    \<and> list_all2 (provesCheckpoint H) (pg_checkpoints (vc_proofEvidence v)) (pageCheckpoints (vc_page v))
    \<and> witnessExtends (ps_witnessReceipt (vp_snapshot (vc_page v))) (vx_witness x)
    \<and> px_purpose (vc_policyHeadEvidence v) = HistoricalPage
    \<and> px_policyHeadHash (vc_policyHeadEvidence v) = ps_policyHeadHash (vp_snapshot (vc_page v))
    \<and> px_evaluationLogHeadHash (vc_policyHeadEvidence v) = lh_headHash (ps_logHead (vp_snapshot (vc_page v)))
    \<and> (\<exists>labels. groupRun (viewOf (vx_projection x) (vx_stagedProposals x)) (vp_events (vc_page v)) labels
         (viewOf (snapshotProjection (vp_snapshot (vc_page v))) (te_stagedProposalsAtPageEnd (vc_orderedMlsEvidence v))))
    \<and> parsePrefixInput H (encodePrefix (prefixAfter x v)) = Inr (prefixAfter x v)
    \<and> checkPrefixConsistency (prefixAfter x v) = Inr ()"
  using assms
proof (rule page_verified)
  fix os :: openedSync
  let ?x = "os_prefix os" and ?page = "vc_page v" and ?s = "vp_snapshot (vc_page v)" and ?te = "vc_orderedMlsEvidence v"
  assume os: "openSyncPrefix H rq = Inr os"
    and page: "readConversationPage H (sy_cursorCodec ports) rawResponse rq = Some (Inr (?page, vc_nextCursorClaims v))"
    and proofs: "verifyConversationPageProofs H (sy_pageProofVerifier ports) ?page (os_now os) ?x = Inr (vc_proofEvidence v)"
    and policy: "verifyConversationPolicyHead H (sy_policyHeadProofVerifier ports) ?s (os_now os) ?x = Inr (vc_policyHeadEvidence v)"
    and replay: "\<exists>realm generation release limits root. verifyConversationPolicyReplay H (sy_policyReplayVerifier ports) ?page
       (vx_anchor ?x) (vx_policyProjection ?x) (vx_policy ?x) (os_now os) realm generation release limits root = Inr (vc_policyReplayEvidence v)"
    and transcript: "verifyOrderedMlsTranscript H (sy_mlsCommitProjectionVerifier ports) (sy_mlsExternalProposalVerifier ports)
       (transcriptInputOf ?page ?x) (vx_projection ?x) (vx_stagedProposals ?x) (vc_policyReplayEvidence v) = Inr ?te"
  note facts = openSyncPrefix_facts [OF os] and sound = readConversationPage_sound [OF page]
  obtain j input frame where read: "verifyConversationPage H j input = Inr ?page" "openPageRequest input = Inr frame"
    "pf_anchor frame = vx_anchor ?x" using sound facts(1) by (auto simp: responseSound_def)
  then have ok: "pageAcceptable H input frame ?page" using accepted_page [OF read(1)] by auto
  have snapshot: "pageSnapshotValid H ?s" using ok by (auto simp: pageAcceptable_def snapshotBound_def)
  have later: "bigInt (ha_position (vx_anchor ?x)) \<le> bigInt (lh_position (ps_logHead ?s))"
    using acceptable_page(7) [OF read(2) ok] by (simp add: read(3))
  obtain realm generation release limits root where "verifyConversationPolicyReplay H (sy_policyReplayVerifier ports) ?page
    (vx_anchor ?x) (vx_policyProjection ?x) (vx_policy ?x) (os_now os) realm generation release limits root = Inr (vc_policyReplayEvidence v)"
    using replay by blast
  note start = replay_accepted(2) [OF this] and final = replay_accepted(3) [OF this] and interval = replay_accepted(7) [OF this]
  have input_page: "ti_page (transcriptInputOf ?page ?x) = ?page" by (simp add: transcriptInputOf_def)
  have staged: "stagedListValid (vx_stagedProposals ?x)" using facts(2) by (simp add: prefixValid_def)
  have ready: "\<not> list_ex (\<lambda>p. bigInt (sp_position p) > bigInt (lh_position (ps_logHead ?s))) (vx_stagedProposals ?x)"
    "\<not> list_ex (substitutedMandatory (rj_mandatoryProposals (toPolicyReplayProjection (vx_policyProjection ?x)))) (vx_stagedProposals ?x)"
    using facts(4) later by (auto simp: checkPrefixConsistency_def Let_def list_ex_iff toPolicyReplayProjection_def split: if_splits)
  note queue = staged_queue_ready [OF transcript interval staged_list_codec.parse_encode [OF staged], unfolded input_page start final, OF ready]
  have "rj_mandatoryProposals (snapshotPolicyReplayProjection ?s) = ps_policyMandatoryProposals ?s"
    by (simp add: snapshotPolicyReplayProjection_def)
  with queue have after: "queueReady (ps_epoch ?s) (lh_position (ps_logHead ?s)) (ps_policyMandatoryProposals ?s) (te_stagedProposalsAtPageEnd ?te)"
    by (simp add: queueReady_iff)
  then have "prefixValid H (prefixAfter ?x v)"
    using prefixAfter_valid [OF facts(2) snapshot] by (simp add: queueReady_def)
  then have reparsed: "parsePrefixInput H (encodePrefix (prefixAfter ?x v)) = Inr (prefixAfter ?x v)" by (rule parsePrefixInput_encode)
  have "px_purpose (vc_policyHeadEvidence v) = HistoricalPage" "px_policyHeadHash (vc_policyHeadEvidence v) = ps_policyHeadHash ?s"
    "px_evaluationLogHeadHash (vc_policyHeadEvidence v) = lh_headHash (ps_logHead ?s)"
    using policy_head_proven [OF policy] by (auto simp: expectationPart_def policyHeadRequestOf_def)
  then show ?thesis
    using facts(1) sound page_proofs_cover [OF proofs] transcript_run [OF transcript, unfolded input_page] reparsed
      prefixAfter_consistent [OF snapshot after]
    by (intro exI [of _ ?x]) (auto simp: pageCheckpoints_def)
qed

end
