(* ===== verification/MlsTranscriptSample.thy ===== *)
theory MlsTranscriptSample
  imports MlsTranscriptProperties
begin

section \<open>A page with a proposal, its Commit and a message\<close>

text \<open>
  The log has an external proposal at position 1, which a policy head evaluated there makes mandatory, the Commit that consumes it
  at position 2, where the next policy head drops the requirement, and an application message in the new epoch at position
  3. The witnesses of the transcript properties are evaluated on it. SHA-256 is instantiated by a constant of the right
  length, so all digests are one text.
\<close>

subsection \<open>Events\<close>

definition constantHash :: "bytes \<Rightarrow> bytes" where
  "constantHash bs = replicate 32 7"

definition eventCommon :: "string \<Rightarrow> envelopeClass \<Rightarrow> envelopeSender \<Rightarrow> string \<Rightarrow> storedEnvelopeCommon" where
  "eventCommon position cls sender version =
     \<lparr>se_conversationId = sampleConversationId, se_position = position, se_envelopeId = sampleCredentialId, se_envelopeClass = cls,
      se_contentType = ''message/mls'', se_envelopeBytes = b64encode [1, 2], se_envelopeSha256 = hashText, se_epoch = version,
      se_rosterVersion = version, se_sender = sender, se_receivedAt = receivedAt, se_leafHash = hashText, se_previousHeadHash = hashText,
      se_headHash = hashText, se_logSigningKeyId = ''log-1'', se_logCheckpointDigest = hashText, se_logHeadSignature = sampleSignature\<rparr>"

definition proposalEnvelope :: storedEnvelopeCommon where
  "proposalEnvelope = eventCommon ''1'' ExternalProposal (EntitlementSigner sampleCredentialId hashText ''1'') ''0''"

definition commitEnvelope :: storedEnvelopeCommon where
  "commitEnvelope = eventCommon ''2'' MlsCommit (InstallationSender sampleAccountId sampleInstallationId) ''0''"

definition messageEnvelope :: storedEnvelopeCommon where
  "messageEnvelope = eventCommon ''3'' Application (InstallationSender sampleAccountId sampleInstallationId) ''1''"

definition transcriptItems :: "eventItem list" where
  "transcriptItems =
     [\<lparr>ei_envelope = StoredExternalProposal proposalEnvelope, ei_welcome = None\<rparr>,
      \<lparr>ei_envelope = StoredMlsCommit commitEnvelope hashText hashText, ei_welcome = None\<rparr>,
      \<lparr>ei_envelope = StoredApplication messageEnvelope, ei_welcome = None\<rparr>]"

definition transcriptSnapshot :: pageSnapshot where
  "transcriptSnapshot = samplePageSnapshot\<lparr>ps_policyHeadSequence := ''3'', ps_policyDeliveryLogPosition := ''2'',
     ps_policyDeliveryLogHeadHash := hashText, ps_logHead := sampleLogHead\<lparr>lh_position := ''3'', lh_headHash := hashText\<rparr>\<rparr>"

definition transcriptPage :: verifiedPage where
  "transcriptPage = sampleVerifiedPage\<lparr>vp_events := transcriptItems, vp_snapshot := transcriptSnapshot\<rparr>"

subsection \<open>What the verifiers answer\<close>

definition knownPolicy :: policyAnchor where
  "knownPolicy = \<lparr>pa_policyHeadSequence = ''3'', pa_policyHeadHash = hashText, pa_witnessCheckpointId = sampleCheckpointId,
     pa_witnessEvidenceDigest = hashText\<rparr>"

definition transcriptReplay :: replayEvidence where
  "transcriptReplay = unsignedReplay\<lparr>rv_pageStartPolicy := requirementAt ''1'' ''0'' [], rv_pageStartHeadHash := hashText,
     rv_pageEndPosition := ''3'', rv_pageEndHeadHash := hashText, rv_pageEndPolicy := requirementAt ''3'' ''2'' [],
     rv_policyLogHighWaterSequence := ''3'', rv_events := map replayEventOf transcriptItems,
     rv_transitions := [requirementAt ''2'' ''1'' [sampleRequirement], requirementAt ''3'' ''2'' []]\<rparr>"

definition proposalAnswer :: proposalEvidence where
  "proposalAnswer =
     \<lparr>pe_realmId = ''main'', pe_conversationGeneration = ''1'', pe_releaseProfileId = ''release-1'', pe_deliveryLimitsDigest = hashText,
      pe_releaseTrustRootDigest = hashText, pe_expectedGroupIdHash = hashText, pe_conversationId = sampleConversationId, pe_position = ''1'',
      pe_envelopeId = sampleCredentialId, pe_envelopeSha256 = hashText, pe_epoch = ''0'', pe_rosterVersion = ''0'',
      pe_credentialId = sampleCredentialId, pe_credentialFingerprint = hashText, pe_signerGeneration = ''1'',
      pe_checkpointReceivedAt = receivedAt, pe_pageEndPosition = ''3'', pe_pageEndHeadHash = hashText, pe_pageEndPolicyHeadSequence = ''3'',
      pe_pageEndPolicyHeadHash = hashText, pe_priorPolicyHeadSequence = ''1'', pe_priorPolicyHeadHash = hashText,
      pe_priorPolicyWitnessCheckpointId = sampleCheckpointId, pe_priorPolicyWitnessEvidenceDigest = hashText,
      pe_policyLogHighWaterSequence = ''3'', pe_policyLogHighWaterHash = hashText, pe_policyLogHighWaterWitnessCheckpointId = sampleCheckpointId,
      pe_policyLogHighWaterWitnessEvidenceDigest = hashText, pe_authorizingPolicyHeadId = sampleCheckpointId,
      pe_authorizingPolicyHeadSequence = ''2'', pe_authorizingPolicyHeadHash = hashText, pe_proposalId = pm_proposalId sampleRequirement,
      pe_proposalHash = hashText, pe_authorizationRecordHash = hashText, pe_membershipIntentId = pm_proposalId sampleRequirement,
      pe_membershipIntentHash = hashText, pe_membershipIntentEvidenceDigest = hashText,
      pe_proposalRecordBindingStatus = ''verified-one-to-one'', pe_intentRecordBindingStatus = ''verified-one-to-one'',
      pe_recordBindingEvidenceDigest = hashText, pe_proposalType = AddProposal, pe_proposalRequirement = MandatoryProposal,
      pe_proposalBodySha256 = hashText, pe_activeCredentialStatus = ''active'', pe_credentialValidFrom = dayStart,
      pe_credentialValidUntil = dayEnd, pe_publicationWitnessCheckpointId = sampleCheckpointId,
      pe_publicationWitnessEvidenceDigest = hashText, pe_credentialPublicationStatus = ''verified'',
      pe_authorizationRecordStatus = ''verified'', pe_policyAuthorizationStatus = ''active-at-proposal'',
      pe_policyConsistencyStatus = ''verified'', pe_policyConsistencyEvidenceDigest = hashText, pe_proposalStatus = ''verified'',
      pe_evidenceDigest = hashText\<rparr>"

definition commitIntent :: committedIntent where
  "commitIntent = \<lparr>ci_membershipIntentId = pm_proposalId sampleRequirement, ci_membershipIntentHash = hashText,
     ci_membershipIntentEvidenceDigest = hashText, ci_proposalId = pm_proposalId sampleRequirement, ci_proposalHash = hashText,
     ci_commitPosition = ''2'', ci_commitEnvelopeId = sampleCredentialId, ci_commitEnvelopeSha256 = hashText\<rparr>"

definition commitAnswer :: commitEvidence where
  "commitAnswer =
     \<lparr>ce_realmId = ''main'', ce_conversationGeneration = ''1'', ce_releaseProfileId = ''release-1'', ce_releaseTrustRootDigest = hashText,
      ce_expectedGroupIdHash = hashText, ce_conversationId = sampleConversationId, ce_position = ''2'', ce_envelopeId = sampleCredentialId,
      ce_envelopeSha256 = hashText, ce_expectedAccountId = sampleAccountId, ce_expectedInstallationId = sampleInstallationId,
      ce_expectedCredentialId = sampleCredentialId, ce_expectedCredentialFingerprint = hashText, ce_expectedCredentialRevocationVersion = ''0'',
      ce_expectedSenderGeneration = ''1'', ce_authenticatedCredentialId = sampleCredentialId,
      ce_authenticatedCredentialFingerprint = hashText, ce_authenticatedCredentialRevocationVersion = ''0'',
      ce_authenticatedSenderGeneration = ''1'', ce_senderBindingStatus = ''verified'', ce_commitEpoch = ''0'', ce_commitRosterVersion = ''0'',
      ce_previousEpoch = ''0'', ce_previousRosterVersion = ''0'', ce_previousConfirmedTranscriptHash = hashText,
      ce_baseConfirmedTranscriptHash = hashText, ce_resultingConfirmedTranscriptHash = hashText, ce_commitKind = MembershipCommit,
      ce_resultingEpoch = ''1'', ce_resultingRosterVersion = ''1'', ce_stagedProposals = [stagedOf proposalAnswer],
      ce_requiredProposals = [sampleRequirement], ce_consumedProposals = [stagedOf proposalAnswer], ce_committedIntents = [commitIntent],
      ce_proposalConsumptionStatus = ''verified'', ce_intentBindingStatus = ''verified'', ce_creatorBootstrapTarget = None,
      ce_creatorMembershipStatus = CreatorNotApplicable, ce_removalTarget = None, ce_removalProposalId = None, ce_removalProposalHash = None,
      ce_removalMembershipStatus = RemovalNotApplicable, ce_projectionStatus = ''verified'', ce_evidenceDigest = hashText\<rparr>"

definition transcriptInputs :: transcriptInput where
  "transcriptInputs = \<lparr>ti_page = transcriptPage, ti_senderBindings = [commitSender], ti_membership = sampleWindow,
     ti_cursorContext = sampleCursorContext, ti_pageStartPolicy = samplePolicyProjection, ti_realmId = ''main'',
     ti_conversationGeneration = ''1'', ti_releaseProfileId = ''release-1'', ti_deliveryLimitsDigest = hashText,
     ti_releaseTrustRootDigest = hashText, ti_expectedGroupIdHash = hashText, ti_priorPolicy = knownPolicy\<rparr>"

definition firstProjection :: mlsProjection where
  "firstProjection = \<lparr>mp_epoch = ''0'', mp_rosterVersion = ''0'', mp_confirmedTranscriptHash = hashText\<rparr>"

subsection \<open>The proposal is accepted\<close>

lemma three [simp]: "bigInt ''3'' = 3" "uint63Valid ''3''" "positiveUint63Valid ''3''"
proof -
  show b: "bigInt ''3'' = 3" by (simp add: bigInt_def readNat_def digitVal_def)
  show u: "uint63Valid ''3''" by (simp add: uint63Valid_def b UINT63_MAX_def canonicalDecimal_def isDigit_def)
  show "positiveUint63Valid ''3''" by (simp add: positiveUint63Valid_def u)
qed

lemma constant_digest:
  assumes "list_all (smallField 256) fs" "length fs \<le> 30000" "length domain \<le> 1000"
  shows "digestOf constantHash domain fs = Inr hashText"
proof -
  obtain h where h: "digestOf constantHash domain fs = Inr h"
    using digestOf_small [OF _ assms, of constantHash] by (auto simp: sha256Length_def constantHash_def)
  then show ?thesis using digestOf_Inr(3) [OF h] by (simp add: constantHash_def hashText_def)
qed

lemma realm_main: "REALM_ID ''main''"
  using samplePlaintext_valid(3) by (simp add: contextValid_def sampleCursorContext_def)

lemma proposalAnswer_valid: "proposalEvidenceValid proposalAnswer"
  using requirement_valid(2) realm_main by (simp add: proposalEvidenceValid_def proposalAnswer_def)

lemma small_requirement [small_fields]: "smallField 256 (Utf8 (pm_proposalId sampleRequirement))"
  by (simp add: sampleRequirement_def smallField_Utf8)

lemma proposalAnswer_digest: "computeMlsExternalProposalEvidenceDigest constantHash proposalAnswer = Inr hashText"
  unfolding computeMlsExternalProposalEvidenceDigest_def
proof (rule constant_digest)
  show "list_all (smallField 256) (proposalDigestFields proposalAnswer)" "length (proposalDigestFields proposalAnswer) \<le> 30000"
    using requirement_valid(2) realm_main by (simp_all add: proposalDigestFields_def proposalAnswer_def small_fields smallField_Utf8)
qed (simp add: MLS_EXTERNAL_PROPOSAL_EVIDENCE_DIGEST_DOMAIN_def)

lemma proposalAnswer_hash: "computeExternalProposalHash constantHash (JView (ownedView [1, 2])) (JStr hashText) = Inr hashText"
proof -
  have "sha256Bytes constantHash [utf8 EXTERNAL_PROPOSAL_HASH_DOMAIN, lp [1, 2], b64decode hashText] = Inr hashText"
    using length_utf8 [of EXTERNAL_PROPOSAL_HASH_DOMAIN]
    by (simp add: sha256Bytes_iff constantHash_def hashText_def lp_def DEFAULT_MAX_BASE64URL_BYTES_def EXTERNAL_PROPOSAL_HASH_DOMAIN_def)
  moreover have "2 \<le> DEFAULT_MAX_BASE64URL_BYTES" by (simp add: DEFAULT_MAX_BASE64URL_BYTES_def)
  ultimately show ?thesis
    by (simp add: computeExternalProposalHash_def owned_def [symmetric] lengthPrefix_eq parse_ok decodeHash32_valid)
qed

lemma envelope_fields [simp]:
  "se_sender proposalEnvelope = EntitlementSigner sampleCredentialId hashText ''1''" "se_position proposalEnvelope = ''1''"
  "se_envelopeClass proposalEnvelope = ExternalProposal" "se_epoch proposalEnvelope = ''0''" "se_rosterVersion proposalEnvelope = ''0''"
  "se_sender commitEnvelope = InstallationSender sampleAccountId sampleInstallationId" "se_position commitEnvelope = ''2''"
  "se_epoch commitEnvelope = ''0''" "se_rosterVersion commitEnvelope = ''0''"
  "se_position messageEnvelope = ''3''" "se_epoch messageEnvelope = ''1''" "se_rosterVersion messageEnvelope = ''1''"
  by (simp_all add: proposalEnvelope_def commitEnvelope_def messageEnvelope_def eventCommon_def)

definition proposalAnswerRequest :: proposalRequest where
  "proposalAnswerRequest = proposalRequestOf transcriptPage proposalEnvelope ''main'' ''1'' ''release-1'' hashText hashText hashText
     samplePolicyProjection knownPolicy sampleCredentialId hashText ''1''"

lemmas transcript_page = transcriptPage_def transcriptSnapshot_def sampleVerifiedPage_def samplePageSnapshot_def sampleLogHead_def

lemma proposalAnswer_accepted: "parseMlsExternalProposalEvidence constantHash (encodeProposalEvidence proposalAnswer) proposalAnswerRequest = Inr proposalAnswer"
proof -
  have parsed: "parseProposalFields (encodeProposalEvidence proposalAnswer) = Inr proposalAnswer"
    using proposalAnswer_valid by (rule proposal_evidence_codec.parse_encode)
  have same: "\<not> proposalSubstituted proposalAnswer proposalAnswerRequest"
    by (simp add: proposalSubstituted_def proposalAnswerRequest_def proposalRequestOf_def proposalAnswer_def proposalEnvelope_def eventCommon_def
        transcript_page samplePolicyProjection_def knownPolicy_def Let_def)
  have active: "\<not> proposalInactive proposalAnswer"
    by (simp add: proposalInactive_def proposalAnswer_def timestamp_less_iff timestamp_le_iff MLS_EXTERNAL_SIGNER_MAX_LIFETIME_MILLISECONDS_def)
  have "b64Valid 1 8388608 (b64encode [1, 2])" by (auto simp: b64Valid_iff intro: exI [of _ "[1, 2]"])
  then have bytes: "decodeCanonicalBase64Url (pq_envelopeBytes proposalAnswerRequest) = Inr [1, 2]"
    by (simp add: decodeCanonicalBase64Url_def parseCanonicalBase64UrlBytes_iff DEFAULT_MAX_BASE64URL_BYTES_def proposalAnswerRequest_def
        proposalRequestOf_def proposalEnvelope_def eventCommon_def Let_def del: b64encode.simps)
  show ?thesis
    using proposalAnswer_hash proposalAnswer_digest
    by (simp add: parseMlsExternalProposalEvidence_def parsed same active bytes) (simp add: proposalAnswer_def)
qed

subsection \<open>The Commit is accepted\<close>

lemma staged_answer: "stagedOf proposalAnswer =
    \<lparr>sp_position = ''1'', sp_envelopeId = sampleCredentialId, sp_envelopeSha256 = hashText, sp_epoch = ''0'',
     sp_proposalId = pm_proposalId sampleRequirement, sp_proposalHash = hashText, sp_authorizationRecordHash = hashText,
     sp_membershipIntentId = pm_proposalId sampleRequirement, sp_membershipIntentHash = hashText, sp_membershipIntentEvidenceDigest = hashText,
     sp_proposalType = AddProposal, sp_proposalRequirement = MandatoryProposal, sp_authorizingPolicyHeadSequence = ''2'',
     sp_authorizingPolicyHeadHash = hashText\<rparr>"
  by (simp add: stagedOf_def proposalAnswer_def)

lemma staged_answer_valid: "stagedListValid [stagedOf proposalAnswer]"
  using requirement_valid(2)
  by (simp add: stagedListValid_def staged_answer stagedProposalValid_def stagedRejected_def nothingStaged_def CONVERSATION_PAGE_HARD_MAX_EVENTS_def)

lemma requirement_hash: "pm_proposalHash sampleRequirement = hashText"
  by (simp add: sampleRequirement_def)

lemma commitIntent_valid: "intentListValid [commitIntent]"
  using requirement_valid(2)
  by (simp add: intentListValid_def commitIntent_def committedIntentValid_def intentRejected_def CONVERSATION_PAGE_HARD_MAX_EVENTS_def)

lemma commitAnswer_valid: "commitEvidenceValid commitAnswer"
  using requirement_valid(1) realm_main staged_answer_valid commitIntent_valid
  by (simp add: commitEvidenceValid_def commitAnswer_def targetValid_def)

lemma commitAnswer_digest: "computeMlsCommitProjectionEvidenceDigest constantHash commitAnswer = Inr hashText"
  unfolding computeMlsCommitProjectionEvidenceDigest_def
proof (rule constant_digest)
  show "list_all (smallField 256) (commitDigestFields commitAnswer)" "length (commitDigestFields commitAnswer) \<le> 30000"
    using requirement_valid(2) realm_main
    by (simp_all add: commitDigestFields_def commitAnswer_def encodeStagedProposals_def stagedDigestFields_def staged_answer
        encodePolicyMandatoryProposals_def mandatoryDigestFields_def encodeCommittedIntents_def intentDigestFields_def commitIntent_def
        encodeMlsMembershipTarget_def requirement_hash small_fields smallField_Utf8 showNat.simps)
qed (simp add: MLS_COMMIT_PROJECTION_EVIDENCE_DIGEST_DOMAIN_def)

text \<open>The state when the Commit is reached: the proposal is staged and required.\<close>

definition stagedState :: transcriptState where
  "stagedState = \<lparr>ts_projection = firstProjection, ts_stagedProposals = [stagedOf proposalAnswer], ts_commitEvidence = [],
     ts_proposalEvidence = [proposalAnswer], ts_activePolicy = requirementAt ''2'' ''1'' [sampleRequirement],
     ts_transitions = [requirementAt ''3'' ''2'' []], ts_lastCommit = None\<rparr>"

definition commitAnswerRequest :: commitRequest where
  "commitAnswerRequest = commitRequestOf transcriptInputs stagedState commitEnvelope hashText hashText commitSender"

lemma commitAnswer_accepted: "parseMlsCommitProjectionEvidence constantHash (encodeCommitEvidence commitAnswer) commitAnswerRequest = Inr commitAnswer"
proof -
  have parsed: "parseCommitFields (encodeCommitEvidence commitAnswer) = Inr commitAnswer"
    using commitAnswer_valid by (rule commit_evidence_codec.parse_encode)
  have same: "\<not> commitSubstituted commitAnswer commitAnswerRequest"
    by (simp add: commitSubstituted_def commitAnswerRequest_def commitRequestOf_def commitAnswer_def transcriptInputs_def stagedState_def
        commitEnvelope_def eventCommon_def commitSender_def firstProjection_def requirementAt_def sampleWindow_def
        sameStagedProposals_iff samePolicyMandatoryProposals_iff sameMlsMembershipTarget_iff)
  have "bigIntToString 1 = ''1''" by code_simp
  then have transition: "checkCommitTransition commitAnswer = Inr ()"
    by (simp add: checkCommitTransition_def commitAnswer_def incrementUint63_def Let_def)
  have consumed: "\<not> consumptionWrong commitAnswer"
    by (simp add: consumptionWrong_def commitAnswer_def consumedIds_def staged_answer sameStagedProposal_iff requirement_hash)
  have complete: "\<not> membershipIncomplete commitAnswer"
    by (simp add: membershipIncomplete_def commitAnswer_def everyConsumedProposalHasIntent_def staged_answer commitIntent_def)
  show ?thesis
    using commitAnswer_digest
    by (simp add: parseMlsCommitProjectionEvidence_def parsed same transition consumed complete) (simp add: commitAnswer_def)
qed

subsection \<open>The run\<close>

abbreviation answerProposal :: "proposalRequest \<Rightarrow> jsval res" where
  "answerProposal \<equiv> \<lambda>request. Inr (encodeProposalEvidence proposalAnswer)"

abbreviation answerCommit :: "commitRequest \<Rightarrow> jsval res" where
  "answerCommit \<equiv> \<lambda>request. Inr (encodeCommitEvidence commitAnswer)"

lemma answers_available:
  "throwIfDeliveryPortUnavailable (encodeProposalEvidence proposalAnswer) = Inr ()"
  "throwIfDeliveryPortUnavailable (encodeCommitEvidence commitAnswer) = Inr ()"
  by (simp_all add: throwIfDeliveryPortUnavailable_def encodeProposalEvidence_def entriesProposalEvidence_def encodeCommitEvidence_def
      entriesCommitEvidence_def mkRecord_def recGet_def)

definition committedState :: transcriptState where
  "committedState = \<lparr>ts_projection = \<lparr>mp_epoch = ''1'', mp_rosterVersion = ''1'', mp_confirmedTranscriptHash = hashText\<rparr>, ts_stagedProposals = [],
     ts_commitEvidence = [commitAnswer], ts_proposalEvidence = [proposalAnswer], ts_activePolicy = requirementAt ''3'' ''2'' [],
     ts_transitions = [], ts_lastCommit = Some commitAnswer\<rparr>"

lemma proposal_event:
  "transcriptEvent constantHash answerCommit answerProposal transcriptInputs \<lparr>ei_envelope = StoredExternalProposal proposalEnvelope, ei_welcome = None\<rparr>
     (initialTranscript firstProjection [] transcriptReplay) = Inr stagedState"
proof -
  let ?initial = "initialTranscript firstProjection [] transcriptReplay"
  have cut: "cutoffStep ''1'' False ?initial = Inr ?initial"
    by (simp add: cutoffStep_def initialTranscript_def transcriptReplay_def requirementAt_def)
  have verified: "verifyMlsExternalProposal constantHash answerProposal transcriptPage proposalEnvelope ''main'' ''1'' ''release-1'' hashText hashText
      hashText samplePolicyProjection knownPolicy = Inr proposalAnswer"
    using proposalAnswer_accepted answers_available(1)
    by (simp add: verifyMlsExternalProposal_def proposalAnswerRequest_def)
  have staged: "parseStagedProposalBindings (encodeStagedList [stagedOf proposalAnswer]) = Inr [stagedOf proposalAnswer]"
    using staged_answer_valid by (rule staged_list_codec.parse_encode)
  have cut2: "cutoffStep ''1'' True (?initial\<lparr>ts_proposalEvidence := [proposalAnswer], ts_stagedProposals := [stagedOf proposalAnswer]\<rparr>) = Inr stagedState"
    by (simp add: cutoffStep_def initialTranscript_def transcriptReplay_def requirementAt_def stagedState_def clearedWithoutCommit_def removedRequirements_def)
  have required: "isRequired (ts_activePolicy stagedState) proposalAnswer"
    by (simp add: isRequired_def stagedState_def requirementAt_def proposalAnswer_def requirement_hash)
  have proposal: "transcriptProposal constantHash answerProposal transcriptInputs proposalEnvelope ?initial = Inr stagedState"
    using verified staged cut2 required
    by (simp add: transcriptProposal_def transcriptInputs_def initialTranscript_def) (simp add: proposalAnswer_def)
  show ?thesis using cut proposal
    by (simp add: transcriptEvent_def Let_def) (simp add: initialTranscript_def firstProjection_def)
qed

lemma commit_event:
  "transcriptEvent constantHash answerCommit answerProposal transcriptInputs
     \<lparr>ei_envelope = StoredMlsCommit commitEnvelope hashText hashText, ei_welcome = None\<rparr> stagedState = Inr committedState"
proof -
  have cut: "cutoffStep ''2'' False stagedState = Inr stagedState"
    by (simp add: cutoffStep_def stagedState_def requirementAt_def)
  have staged: "\<not> missingRequiredProposal stagedState"
    by (simp add: missingRequiredProposal_def stagedState_def staged_answer requirementAt_def requirement_hash)
  have sender: "find (bindingMatches commitEnvelope) (ti_senderBindings transcriptInputs) = Some commitSender"
    by (simp add: transcriptInputs_def bindingMatches_def commitSender_def)
  have cut2: "cutoffStep ''2'' True
      (stagedState\<lparr>ts_commitEvidence := [commitAnswer], ts_lastCommit := Some commitAnswer, ts_stagedProposals := [],
         ts_projection := \<lparr>mp_epoch = ''1'', mp_rosterVersion = ''1'', mp_confirmedTranscriptHash = hashText\<rparr>\<rparr>) = Inr committedState"
    by (simp add: cutoffStep_def stagedState_def committedState_def requirementAt_def clearedWithoutCommit_def removedRequirements_def
        notConsumed_def requirement_hash commitAnswer_def staged_answer)
  have result: "ce_resultingEpoch commitAnswer = ''1''" "ce_resultingRosterVersion commitAnswer = ''1''"
    "ce_resultingConfirmedTranscriptHash commitAnswer = hashText" by (simp_all add: commitAnswer_def)
  have projection: "ts_projection stagedState = firstProjection" "ts_commitEvidence stagedState = []" by (simp_all add: stagedState_def)
  have "transcriptCommit constantHash answerCommit transcriptInputs commitEnvelope hashText hashText stagedState = Inr committedState"
    using commitAnswer_accepted answers_available(2) cut2
    by (simp add: transcriptCommit_def staged sender result projection commitAnswerRequest_def firstProjection_def)
  then show ?thesis using cut by (simp add: transcriptEvent_def Let_def projection firstProjection_def)
qed

definition transcriptResult :: transcriptEvidence where
  "transcriptResult = \<lparr>te_commitProjectionEvidence = [commitAnswer], te_externalProposalEvidence = [proposalAnswer],
     te_stagedProposalsAtPageEnd = []\<rparr>"

lemma transcriptSample_accepted:
  "verifyOrderedMlsTranscript constantHash answerCommit answerProposal transcriptInputs firstProjection [] transcriptReplay = Inr transcriptResult"
proof -
  have cut: "cutoffStep ''3'' inclusive committedState = Inr committedState" for inclusive
    by (simp add: cutoffStep_def committedState_def)
  then have message: "transcriptEvent constantHash answerCommit answerProposal transcriptInputs
      \<lparr>ei_envelope = StoredApplication messageEnvelope, ei_welcome = None\<rparr> committedState = Inr committedState"
    by (simp add: transcriptEvent_def Let_def) (simp add: committedState_def requirementAt_def)
  have page: "vp_events (ti_page transcriptInputs) = transcriptItems" "vp_snapshot (ti_page transcriptInputs) = transcriptSnapshot"
    "lh_position (ps_logHead transcriptSnapshot) = ''3''"
    by (simp_all add: transcriptInputs_def transcriptPage_def transcriptSnapshot_def)
  have "finishTranscript transcriptSnapshot transcriptReplay committedState = Inr transcriptResult"
    by (simp add: finishTranscript_def committedState_def transcriptSnapshot_def samplePageSnapshot_def transcriptReplay_def requirementAt_def
        samePolicyMandatoryProposals_iff transcriptResult_def)
  then show ?thesis
    using proposal_event commit_event message cut
    by (simp add: verifyOrderedMlsTranscript_def Let_def page transcriptItems_def)
qed

subsection \<open>Witnesses\<close>

theorem transcript_refines_group_witness:
  "\<exists>labels. groupRun (viewOf firstProjection []) transcriptItems labels (viewOf (snapshotProjection transcriptSnapshot) [])
     \<and> concat labels = [stagedOf proposalAnswer]"
  using transcript_refines_group [OF transcriptSample_accepted]
  by (simp add: transcriptInputs_def transcriptPage_def transcriptResult_def commitAnswer_def)

theorem messages_belong_to_their_epoch_witness:
  "verifyOrderedMlsTranscript constantHash answerCommit answerProposal transcriptInputs firstProjection [] transcriptReplay = Inr transcriptResult
   \<and> bigInt (ps_epoch transcriptSnapshot) = 1"
  using messages_belong_to_their_epoch [OF transcriptSample_accepted] transcriptSample_accepted
  by (simp add: transcriptInputs_def transcriptPage_def firstProjection_def transcriptItems_def isCommit_def)

theorem requirement_cleared_by_consumption_witness:
  "\<exists>item \<in> set transcriptItems. isCommit item \<and> se_position (storedCommon (ei_envelope item)) = ''2''
     \<and> (\<exists>p \<in> set (ce_consumedProposals commitAnswer). sp_proposalId p = pm_proposalId sampleRequirement \<and> p = stagedOf proposalAnswer)"
proof -
  let ?t = "requirementAt ''3'' ''2'' []"
  have "([sampleRequirement], ?t) \<in> set (successive (rj_mandatoryProposals (rv_pageStartPolicy transcriptReplay)) (rv_transitions transcriptReplay))"
    "sampleRequirement \<in> set [sampleRequirement] - set (rj_mandatoryProposals ?t)"
    by (simp_all add: transcriptReplay_def requirementAt_def)
  then obtain item ce p where "item \<in> set (vp_events (ti_page transcriptInputs))" "isCommit item"
    "se_position (stored item) = rj_deliveryLogPosition ?t" "ce \<in> set (te_commitProjectionEvidence transcriptResult)"
    "p \<in> set (ce_consumedProposals ce)" "sp_proposalId p = pm_proposalId sampleRequirement"
    "p \<in> set [] \<union> stagedOf ` set (te_externalProposalEvidence transcriptResult)"
    using requirement_cleared_by_consumption [OF transcriptSample_accepted] by blast
  then show ?thesis
    by (intro bexI [of _ item]) (auto simp: transcriptResult_def transcriptInputs_def transcriptPage_def requirementAt_def)
qed

theorem staged_queue_ready_for_next_page_witness:
  "validatePolicyReplayInterval transcriptReplay = Inr ()
   \<and> parseStagedProposalBindings (encodeStagedList (te_stagedProposalsAtPageEnd transcriptResult)) = Inr (te_stagedProposalsAtPageEnd transcriptResult)"
proof -
  have "validatePolicyReplayInterval transcriptReplay = Inr ()"
    by (simp add: validatePolicyReplayInterval_def replayRollsBack_def transcriptReplay_def unsignedReplay_def requirementAt_def transitionRejected_def
        samePolicyMandatoryProposals_iff policyReplayHeadMatchesPage_def transcriptItems_def replayEventOf_def eventCommon_def
        proposalEnvelope_def commitEnvelope_def messageEnvelope_def clearsRequirement_def Let_def)
  moreover have "parseStagedProposalBindings (encodeStagedList []) = Inr []"
    by (rule staged_list_codec.parse_encode) (simp add: stagedListValid_def)
  ultimately show ?thesis using staged_queue_ready_for_next_page [OF transcriptSample_accepted] by simp
qed

text \<open>A page after the Commit, whose policy was renewed only now: the requirement disappears where the page starts.\<close>

theorem page_start_clearing_refused_witness:
  "verifyOrderedMlsTranscript constantHash answerCommit answerProposal (transcriptInputs\<lparr>ti_page := transcriptPage\<lparr>vp_events := drop 2 transcriptItems\<rparr>\<rparr>)
     \<lparr>mp_epoch = ''1'', mp_rosterVersion = ''1'', mp_confirmedTranscriptHash = hashText\<rparr> []
     (transcriptReplay\<lparr>rv_pageStartPolicy := requirementAt ''2'' ''1'' [sampleRequirement], rv_transitions := [requirementAt ''3'' ''2'' []]\<rparr>)
   = Inl ConversationSyncValidationError"
  by (rule page_start_clearing_refused [where t = "requirementAt ''3'' ''2'' []" and r = sampleRequirement and ts = "[]"])
    (simp_all add: requirementAt_def transcriptItems_def transcriptPage_def transcriptSnapshot_def)

end
