(* ===== verification/SyncClientSample.thy ===== *)
theory SyncClientSample
  imports SyncClientProperties SyncSample MlsTranscriptSample
begin

section \<open>A page verified completely\<close>

text \<open>
  The response of \<open>SyncSample\<close>, the first page of a conversation with the Commit of its creator, together with answers of all
  verifiers that the client accepts. The evidence has the digests that the hash function of the sample gives.
\<close>

definition lengthDigest :: "string \<Rightarrow> digestField list \<Rightarrow> string" where
  "lengthDigest domain fs = b64encode (lengthHash (digestPreimage domain fs))"

lemma lengthDigest_computed:
  assumes "list_all (smallField 256) fs" "length fs \<le> 30000" "length domain \<le> 1000"
  shows "digestOf lengthHash domain fs = Inr (lengthDigest domain fs)" "hash32Valid (lengthDigest domain fs)"
proof -
  obtain h where h: "digestOf lengthHash domain fs = Inr h" using digestOf_small [OF lengthHash_length assms] by blast
  with digestOf_Inr(3,4) [OF h] show "digestOf lengthHash domain fs = Inr (lengthDigest domain fs)" "hash32Valid (lengthDigest domain fs)"
    by (simp_all add: lengthDigest_def)
qed

abbreviation askedAt :: string where
  "askedAt \<equiv> ''2024-01-01T00:00:00.000Z''"

abbreviation clientPrefix :: verifiedPrefix where
  "clientPrefix \<equiv> samplePrefix limitsDigest"

abbreviation firstPage :: verifiedPage where
  "firstPage \<equiv> answerPage (length answerBytes)"

definition signatureHash :: string where
  "signatureHash = b64encode (lengthHash (replicate 64 1))"

lemma signatureHash_valid [simp]: "hash32Valid signatureHash"
  unfolding signatureHash_def by (rule hashed_valid [OF lengthHash_length])

lemma signature_hashed: "hashSignature lengthHash sampleSignature = Inr signatureHash"
proof -
  have "validateByteBounds 64 64 = Inr ()" by (rule validateByteBounds_ok) simp_all
  then have "parseCanonicalBase64UrlBytes 64 64 (JStr sampleSignature) = Inr (replicate 64 1)"
    using sample_small_values(1)
    by (simp add: parseCanonicalBase64UrlBytes_def res_simps parseCanonicalBase64Url_iff copyBytes_owned)
      (simp add: sampleSignature_def copyBytes_owned)
  moreover have "computeEnvelopeSha256 lengthHash (owned (replicate 64 1)) = Inr signatureHash"
    using lengthHash_length by (simp add: computeEnvelopeSha256_owned signatureHash_def sha256Length_def)
  ultimately show ?thesis by (simp add: hashSignature_def)
qed

lemma commit_texts [simp]:
  "se_position sampleCommitCommon = ''1''" "se_previousHeadHash sampleCommitCommon = ZERO_HASH32"
  "se_conversationId sampleCommitCommon = sampleConversationId" "se_receivedAt sampleCommitCommon = receivedAt"
  "se_envelopeId sampleCommitCommon = sampleCredentialId"
  by (simp_all add: sampleCommitCommon_def storedOf_def Let_def sampleCommitLeaf_def sampleLeaf_def)

lemma commit_hashes_simp [simp]:
  "hash32Valid (se_headHash sampleCommitCommon)" "hash32Valid (se_logCheckpointDigest sampleCommitCommon)"
  "hash32Valid (se_envelopeSha256 sampleCommitCommon)"
  by (fact commit_hashes)+

subsection \<open>Checkpoints and the witness\<close>

definition unsignedCheckpoint :: checkpointProof where
  "unsignedCheckpoint = \<lparr>kp_position = ''1'', kp_previousHeadHash = ZERO_HASH32, kp_headHash = se_headHash sampleCommitCommon,
     kp_signingKeyId = ''log-1'', kp_checkpointDigest = se_logCheckpointDigest sampleCommitCommon, kp_signatureSha256 = signatureHash,
     kp_checkpointReceivedAt = receivedAt, kp_signatureStatus = ''verified'', kp_keyStatus = ''valid-for-checkpoint'',
     kp_evidenceDigest = hashText\<rparr>"

definition checkpointDigest :: string where
  "checkpointDigest = lengthDigest CHECKPOINT_PROOF_EVIDENCE_DIGEST_DOMAIN
     (Utf8 sampleConversationId # Utf8 askedAt # checkpointProofFields unsignedCheckpoint)"

definition headProof :: checkpointProof where
  "headProof = unsignedCheckpoint\<lparr>kp_evidenceDigest := checkpointDigest\<rparr>"

definition headInput :: checkpointInput where
  "headInput = headCheckpoint sampleConversationId sampleLogHead"

lemma checkpointDigest_computed:
  "computeDeliveryCheckpointProofEvidenceDigest lengthHash sampleConversationId askedAt headProof = Inr checkpointDigest"
  "hash32Valid checkpointDigest"
proof -
  have fields: "checkpointProofFields headProof = checkpointProofFields unsignedCheckpoint"
    by (simp add: checkpointProofFields_def headProof_def)
  have "list_all (smallField 256) (Utf8 sampleConversationId # Utf8 askedAt # checkpointProofFields unsignedCheckpoint)"
    "length (Utf8 sampleConversationId # Utf8 askedAt # checkpointProofFields unsignedCheckpoint) \<le> 30000"
    by (simp_all add: checkpointProofFields_def unsignedCheckpoint_def small_fields smallField_Utf8 ZERO_HASH32_valid)
  note computed = lengthDigest_computed [OF this, of CHECKPOINT_PROOF_EVIDENCE_DIGEST_DOMAIN]
  show "computeDeliveryCheckpointProofEvidenceDigest lengthHash sampleConversationId askedAt headProof = Inr checkpointDigest"
    "hash32Valid checkpointDigest"
    using computed by (simp_all add: computeDeliveryCheckpointProofEvidenceDigest_def fields checkpointDigest_def
        CHECKPOINT_PROOF_EVIDENCE_DIGEST_DOMAIN_def)
qed

lemma headProof_accepted: "parseCheckpointProofEvidence lengthHash (encodeCheckpointProof headProof) headInput sampleConversationId askedAt = Inr headProof"
proof -
  have "checkpointProofValid headProof"
    using checkpointDigest_computed(2) by (simp add: checkpointProofValid_def headProof_def unsignedCheckpoint_def ZERO_HASH32_valid)
  then have "parseCheckpointFields (encodeCheckpointProof headProof) = Inr headProof" by (rule checkpoint_proof_codec.parse_encode)
  then show ?thesis
    using checkpointDigest_computed(1) signature_hashed
    by (simp add: parseCheckpointProofEvidence_def) (simp add: headProof_def unsignedCheckpoint_def headInput_def headCheckpoint_def sampleLogHead_def)
qed

definition unsignedWitness :: witnessProof where
  "unsignedWitness = \<lparr>wp_position = ''1'', wp_headHash = se_headHash sampleCommitCommon, wp_witnessCheckpointId = sampleCheckpointId,
     wp_witnessTreeSize = ''1'', wp_witnessRootHash = hashText, wp_witnessKeyId = ''log-1'', wp_witnessSignatureSha256 = signatureHash,
     wp_witnessedAt = receivedAt, wp_priorWitnessCheckpointId = Some sampleCheckpointId, wp_priorWitnessTreeSize = Some ''0'',
     wp_priorWitnessRootHash = Some hashText, wp_signatureStatus = ''verified'', wp_keyStatus = ''valid-for-checkpoint'',
     wp_inclusionStatus = ''verified'', wp_consistencyStatus = ConsistencyVerified, wp_freshnessStatus = ''fresh'',
     wp_evidenceDigest = hashText\<rparr>"

definition witnessDigest :: string where
  "witnessDigest = lengthDigest WITNESS_PROOF_EVIDENCE_DIGEST_DOMAIN (Utf8 sampleConversationId # Utf8 askedAt # witnessProofFields unsignedWitness)"

definition receiptProof :: witnessProof where
  "receiptProof = unsignedWitness\<lparr>wp_evidenceDigest := witnessDigest\<rparr>"

lemma small_empty_tree: "smallField 256 (NullableText (Some ''0''))"
  using nullableText_raw [of "Some ''0''"] by (auto simp: smallField_def nullablePart_def length_present utf8_bound [where n = 100])

lemma witnessDigest_computed:
  "computeDeliveryWitnessProofEvidenceDigest lengthHash sampleConversationId askedAt receiptProof = Inr witnessDigest"
  "hash32Valid witnessDigest"
proof -
  have fields: "witnessProofFields receiptProof = witnessProofFields unsignedWitness"
    by (simp add: witnessProofFields_def receiptProof_def)
  have "list_all (smallField 256) (Utf8 sampleConversationId # Utf8 askedAt # witnessProofFields unsignedWitness)"
    "length (Utf8 sampleConversationId # Utf8 askedAt # witnessProofFields unsignedWitness) \<le> 30000"
    by (simp_all add: witnessProofFields_def unsignedWitness_def small_fields smallField_Utf8 small_empty_tree)
  note computed = lengthDigest_computed [OF this, of WITNESS_PROOF_EVIDENCE_DIGEST_DOMAIN]
  show "computeDeliveryWitnessProofEvidenceDigest lengthHash sampleConversationId askedAt receiptProof = Inr witnessDigest"
    "hash32Valid witnessDigest"
    using computed by (simp_all add: computeDeliveryWitnessProofEvidenceDigest_def fields witnessDigest_def
        WITNESS_PROOF_EVIDENCE_DIGEST_DOMAIN_def)
qed

lemma receiptProof_accepted:
  "parseWitnessProofEvidence lengthHash (encodeWitnessProof receiptProof) sampleReceipt (vx_witness clientPrefix) sampleConversationId askedAt
   = Inr receiptProof"
proof -
  have "witnessProofValid receiptProof"
    using witnessDigest_computed(2) sampleCommit_head
    by (simp add: witnessProofValid_def receiptProof_def unsignedWitness_def)
  then have "parseWitnessFields (encodeWitnessProof receiptProof) = Inr receiptProof" by (rule witness_proof_codec.parse_encode)
  then show ?thesis
    using witnessDigest_computed(1) signature_hashed
    by (simp add: parseWitnessProofEvidence_def)
      (simp add: receiptProof_def unsignedWitness_def sampleReceipt_def samplePrefix_def witnessRollsBack_def)
qed

subsection \<open>The bundle\<close>

lemma firstPage_parts [simp]:
  "vp_events firstPage = [sampleCommitItem]" "ps_logHead (vp_snapshot firstPage) = sampleLogHead"
  "ps_witnessReceipt (vp_snapshot firstPage) = sampleReceipt" "ps_conversationId (vp_snapshot firstPage) = sampleConversationId"
  by (simp_all add: answerPage_def sampleVerifiedPage_def samplePageSnapshot_def)

lemma clientPrefix_parts [simp]:
  "vx_context clientPrefix = sampleCursorContext" "vx_membership clientPrefix = sampleWindow" "vx_anchor clientPrefix = emptyLogAnchor"
  "vx_conversationGeneration clientPrefix = ''1''" "vx_releaseProfileId clientPrefix = ''release-1''"
  "vx_deliveryLimitsDigest clientPrefix = limitsDigest" "vx_releaseTrustRootDigest clientPrefix = hashText"
  "vx_expectedGroupIdHash clientPrefix = hashText" "vx_policyProjection clientPrefix = samplePolicyProjection"
  "vx_senderBindings clientPrefix = [commitSender]" "vx_stagedProposals clientPrefix = []"
  "cx_realmId sampleCursorContext = ''main''"
  by (simp_all add: samplePrefix_def sampleCursorContext_def)

definition unsignedBundle :: pageProof where
  "unsignedBundle = \<lparr>pg_realmId = ''main'', pg_conversationId = sampleConversationId, pg_conversationGeneration = ''1'',
     pg_releaseProfileId = ''release-1'', pg_releaseTrustRootDigest = hashText, pg_verifiedAt = askedAt, pg_checkpoints = [headProof, headProof],
     pg_witness = receiptProof, pg_targetWelcome = None, pg_bundleEvidenceDigest = hashText\<rparr>"

definition bundleDigest :: string where
  "bundleDigest = lengthDigest PAGE_PROOF_BUNDLE_EVIDENCE_DIGEST_DOMAIN (bundleDigestFields unsignedBundle)"

definition pageBundle :: pageProof where
  "pageBundle = unsignedBundle\<lparr>pg_bundleEvidenceDigest := bundleDigest\<rparr>"

definition entriesBundle :: "(string \<times> jsval) list" where
  "entriesBundle =
     [(''status'', JStr ''verified''), (''profile'', JStr ''conversation-page-proof-bundle.v1''), (''realmId'', JStr ''main''),
      (''conversationId'', JStr sampleConversationId), (''conversationGeneration'', JStr ''1''), (''releaseProfileId'', JStr ''release-1''),
      (''releaseTrustRootDigest'', JStr hashText), (''verifiedAt'', JStr askedAt),
      (''checkpoints'', JArr ArrayPrototype [encodeCheckpointProof headProof, encodeCheckpointProof headProof] 0),
      (''witness'', encodeWitnessProof receiptProof), (''targetWelcome'', JNull), (''bundleEvidenceDigest'', JStr bundleDigest)]"

lemma bundleDigest_computed:
  "computeConversationPageProofBundleEvidenceDigest lengthHash pageBundle = Inr bundleDigest" "hash32Valid bundleDigest"
proof -
  have fields: "bundleDigestFields pageBundle = bundleDigestFields unsignedBundle" by (simp add: bundleDigestFields_def pageBundle_def)
  have digests: "kp_evidenceDigest headProof = checkpointDigest" "wp_evidenceDigest receiptProof = witnessDigest"
    by (simp_all add: headProof_def receiptProof_def)
  have "list_all (smallField 256) (bundleDigestFields unsignedBundle)"
    using realm_main checkpointDigest_computed(2) witnessDigest_computed(2)
    by (simp add: bundleDigestFields_def unsignedBundle_def digests small_fields smallField_Utf8)
  note computed = lengthDigest_computed [OF this, of PAGE_PROOF_BUNDLE_EVIDENCE_DIGEST_DOMAIN]
  show "computeConversationPageProofBundleEvidenceDigest lengthHash pageBundle = Inr bundleDigest" "hash32Valid bundleDigest"
    using computed
    by (simp_all add: computeConversationPageProofBundleEvidenceDigest_def fields bundleDigest_def)
      (simp_all add: bundleDigestFields_def unsignedBundle_def pageBundle_def PAGE_PROOF_BUNDLE_EVIDENCE_DIGEST_DOMAIN_def
        CONVERSATION_PAGE_HARD_MAX_EVENTS_def)
qed

lemma bundle_accepted:
  "verifyConversationPageProofs lengthHash (\<lambda>request. Inr (mkRecord entriesBundle)) firstPage askedAt clientPrefix = Inr pageBundle"
proof -
  let ?request = "pageProofRequestOf firstPage askedAt clientPrefix"
  have "expectExactRecord (mkRecord entriesBundle) PAGE_PROOF_KEYS = Inr (fieldOf entriesBundle)"
    by (rule expectExactRecord_mkRecord)
      (simp_all add: PAGE_PROOF_KEYS_def entriesBundle_def encodeCheckpointProof_def encodeWitnessProof_def mkRecord_def)
  moreover have "fieldOf entriesBundle ''status'' = JStr ''verified''"
    "fieldOf entriesBundle ''profile'' = JStr ''conversation-page-proof-bundle.v1''" "fieldOf entriesBundle ''realmId'' = JStr ''main''"
    "fieldOf entriesBundle ''conversationId'' = JStr sampleConversationId" "fieldOf entriesBundle ''conversationGeneration'' = JStr ''1''"
    "fieldOf entriesBundle ''releaseProfileId'' = JStr ''release-1''" "fieldOf entriesBundle ''releaseTrustRootDigest'' = JStr hashText"
    "fieldOf entriesBundle ''verifiedAt'' = JStr askedAt"
    "fieldOf entriesBundle ''checkpoints'' = JArr ArrayPrototype [encodeCheckpointProof headProof, encodeCheckpointProof headProof] 0"
    "fieldOf entriesBundle ''witness'' = encodeWitnessProof receiptProof" "fieldOf entriesBundle ''targetWelcome'' = JNull"
    "fieldOf entriesBundle ''bundleEvidenceDigest'' = JStr bundleDigest"
    by (simp_all add: entriesBundle_def)
  moreover have "eventCheckpoint sampleCommitItem = headInput" "headCheckpoint sampleConversationId sampleLogHead = headInput"
    by (simp_all add: eventCheckpoint_def headInput_def headCheckpoint_def sampleCommitItem_def sampleLogHead_def)
  then have "pr_checkpoints ?request = [headInput, headInput]" "length (pageCheckpoints firstPage) = 2"
    by (simp_all add: pageProofRequestOf_def pageCheckpoints_def)
  moreover have "pr_targetWelcome ?request = None"
    by (simp add: pageProofRequestOf_def targetWelcomeOf_def sampleCommitItem_def)
  moreover have "pr_witness ?request = sampleReceipt" "pr_priorWitness ?request = vx_witness clientPrefix" "pr_realmId ?request = ''main''"
    "pr_conversationId ?request = sampleConversationId" "pr_conversationGeneration ?request = ''1''" "pr_releaseProfileId ?request = ''release-1''"
    "pr_releaseTrustRootDigest ?request = hashText" "pr_verifiedAt ?request = askedAt"
    by (simp_all add: pageProofRequestOf_def)
  moreover have "throwIfDeliveryPortUnavailable (mkRecord entriesBundle) = Inr ()"
    by (simp add: throwIfDeliveryPortUnavailable_def entriesBundle_def mkRecord_def recGet_def)
  moreover have "parseRfc3339Millis (JStr askedAt) = Inr askedAt" using cursor_sample_times by (simp add: parse_ok)
  moreover have "unsignedBundle\<lparr>pg_bundleEvidenceDigest := bundleDigest\<rparr> = \<lparr>pg_realmId = ''main'', pg_conversationId = sampleConversationId,
      pg_conversationGeneration = ''1'', pg_releaseProfileId = ''release-1'', pg_releaseTrustRootDigest = hashText, pg_verifiedAt = askedAt,
      pg_checkpoints = [headProof, headProof], pg_witness = receiptProof, pg_targetWelcome = None, pg_bundleEvidenceDigest = bundleDigest\<rparr>"
    by (simp add: unsignedBundle_def)
  ultimately show ?thesis
    using bundleDigest_computed headProof_accepted receiptProof_accepted realm_main
    by (simp add: verifyConversationPageProofs_def parseConversationPageProofEvidence_def parse_ok parseDeliveryRealmId_ok
        parseTargetWelcomeProofEvidence_def expectDenseArray_def guardE_def CONVERSATION_PAGE_HARD_MAX_EVENTS_def pageBundle_def)
qed

subsection \<open>The policy head and its history\<close>

definition unsignedPolicyHead :: policyHeadProofEvidence where
  "unsignedPolicyHead = policyHeadProofExpectation.extend (policyHeadRequestOf (vp_snapshot firstPage) askedAt clientPrefix)
     (policyHeadProofEvidence.fields hashText ''log-1'' hashText sampleCheckpointId hashText hashText receivedAt soonAfter ''verified''
       ''valid-for-checkpoint'' ''verified'' Historical PageExact ''verified'' NotRequested hashText hashText)"

definition policyHeadDigest :: string where
  "policyHeadDigest = lengthDigest POLICY_HEAD_PROOF_EVIDENCE_DIGEST_DOMAIN (evidenceDigestFields unsignedPolicyHead)"

definition pagePolicyHead :: policyHeadProofEvidence where
  "pagePolicyHead = unsignedPolicyHead\<lparr>pv_evidenceDigest := policyHeadDigest\<rparr>"

lemmas policy_head_sample = unsignedPolicyHead_def policyHeadProofExpectation.defs policyHeadProofEvidence.defs policyHeadRequestOf_def
  answerPage_def sampleVerifiedPage_def samplePageSnapshot_def samplePrefix_def sampleCursorContext_def

lemma pagePolicyHead_accepted:
  "verifyConversationPolicyHead lengthHash (\<lambda>request. Inr (encodeEvidence pagePolicyHead)) (vp_snapshot firstPage) askedAt clientPrefix
   = Inr pagePolicyHead"
proof -
  have "dateMillis askedAt = 1704067200000" using cursor_sample_times(1) by (simp add: dateMillis_def)
  then have times: "receivedAt \<le> askedAt" "receivedAt < soonAfter" "dateMillis soonAfter - dateMillis receivedAt \<le> 300000" "rfc3339Valid askedAt"
    using cursor_sample_times(3) by (simp_all add: timestamp_less_iff timestamp_le_iff)
  have realm: "quotaNameValid ''main''" by (simp add: quotaNameValid_def identShape_def isLowerAlnum_def isDigit_def)
  have fields: "evidenceDigestFields pagePolicyHead = evidenceDigestFields unsignedPolicyHead"
    by (simp add: evidenceDigestFields_def pagePolicyHead_def)
  have "list_all (smallField 256) (evidenceDigestFields unsignedPolicyHead)" "length (evidenceDigestFields unsignedPolicyHead) \<le> 30000"
    using realm_main by (simp_all add: evidenceDigestFields_def policy_head_sample sampleLogHead_def small_fields smallField_Utf8 ZERO_HASH32_valid)
  note computed = lengthDigest_computed [OF this, of POLICY_HEAD_PROOF_EVIDENCE_DIGEST_DOMAIN]
  have digest: "computePolicyHeadProofEvidenceDigest lengthHash pagePolicyHead = Inr policyHeadDigest" "hash32Valid policyHeadDigest"
    using computed by (simp_all add: computePolicyHeadProofEvidenceDigest_def fields policyHeadDigest_def POLICY_HEAD_PROOF_EVIDENCE_DIGEST_DOMAIN_def)
  have valid: "evidenceFieldsValid pagePolicyHead"
    using digest(2) times realm sampleCommit_head by (simp add: evidenceFieldsValid_def pagePolicyHead_def policy_head_sample sampleLogHead_def ZERO_HASH32_valid)
  have "expectationValid (policyHeadRequestOf (vp_snapshot firstPage) askedAt clientPrefix)"
    using times realm sampleCommit_head by (simp add: expectationValid_def policy_head_sample sampleLogHead_def ZERO_HASH32_valid sentinelMismatch_def
      grantSentinelInvalid_def nonZeroHashValid_def)
  moreover have "expectationPart pagePolicyHead = policyHeadRequestOf (vp_snapshot firstPage) askedAt clientPrefix"
    by (simp add: expectationPart_def pagePolicyHead_def policy_head_sample)
  moreover have "\<not> witnessBindingInconsistent pagePolicyHead" "\<not> statusInvalidForPurpose pagePolicyHead"
    using times sampleCommit_head
    by (simp_all add: witnessBindingInconsistent_def statusInvalidForPurpose_def sentinelMismatch_def pagePolicyHead_def policy_head_sample
        sampleLogHead_def not_less not_le nonZeroHashValid_def)
  moreover have "throwIfDeliveryPortUnavailable (encodeEvidence pagePolicyHead) = Inr ()"
    by (simp add: throwIfDeliveryPortUnavailable_def encodeEvidence_def entriesEvidence_def mkRecord_def recGet_def)
  moreover have "pv_evidenceDigest pagePolicyHead = policyHeadDigest" by (simp add: pagePolicyHead_def)
  ultimately show ?thesis
    using digest(1) valid
    by (simp add: verifyConversationPolicyHead_def parsePolicyHeadProofEvidence_Inr evidence_fields_codec.parse_encode expectation_codec.parse_encode)
qed

definition unsignedHistory :: replayEvidence where
  "unsignedHistory = unsignedReplay\<lparr>rv_deliveryLimitsDigest := limitsDigest, rv_pageStartPolicy := toPolicyReplayProjection samplePolicyProjection,
     rv_pageEndPolicy := snapshotPolicyReplayProjection (vp_snapshot firstPage), rv_policyLogHighWaterSequence := ''1'', rv_transitions := [],
     rv_verifiedAt := askedAt\<rparr>"

definition historyDigest :: string where
  "historyDigest = lengthDigest CONVERSATION_POLICY_REPLAY_EVIDENCE_DIGEST_DOMAIN (replayDigestFields unsignedHistory)"

definition pageHistory :: replayEvidence where
  "pageHistory = unsignedHistory\<lparr>rv_evidenceDigest := historyDigest\<rparr>"

lemmas history_sample = unsignedHistory_def unsignedReplay_def samplePolicyProjection_def toPolicyReplayProjection_def
  snapshotPolicyReplayProjection_def answerPage_def sampleVerifiedPage_def samplePageSnapshot_def replayEvent_commit

lemma pageHistory_accepted:
  "verifyConversationPolicyReplay lengthHash (\<lambda>request. Inr (encodeReplayEvidence pageHistory)) firstPage emptyLogAnchor samplePolicyProjection
     (vx_policy clientPrefix) askedAt ''main'' ''1'' ''release-1'' limitsDigest hashText = Inr pageHistory"
proof -
  let ?request = "replayRequestOf firstPage emptyLogAnchor samplePolicyProjection (vx_policy clientPrefix) askedAt ''main'' ''1'' ''release-1''
    limitsDigest hashText"
  have fields: "replayDigestFields pageHistory = replayDigestFields unsignedHistory" by (simp add: replayDigestFields_def pageHistory_def)
  have "list_all (smallField 256) (replayDigestFields unsignedHistory)" "length (replayDigestFields unsignedHistory) \<le> 30000"
    using realm_main by (simp_all add: replayDigestFields_def history_sample encodePolicyReplayProjection_def replayEventDigestFields_def
        encodePolicyMandatoryProposals_def mandatoryDigestFields_def ZERO_HASH32_valid small_fields smallField_Utf8 showNat.simps)
  note computed = lengthDigest_computed [OF this, of CONVERSATION_POLICY_REPLAY_EVIDENCE_DIGEST_DOMAIN]
  have digest: "computeConversationPolicyReplayEvidenceDigest lengthHash pageHistory = Inr historyDigest" "hash32Valid historyDigest"
    using computed by (simp_all add: computeConversationPolicyReplayEvidenceDigest_def fields historyDigest_def
        CONVERSATION_POLICY_REPLAY_EVIDENCE_DIGEST_DOMAIN_def)
  have "replayEvidenceValid pageHistory"
    using digest(2) mandatoryProposalsValid_Nil realm_main cursor_sample_times(3) sampleCommit_head
    by (simp add: replayEvidenceValid_def pageHistory_def history_sample replayProjectionValid_def replayEventsValid_def replayEventValid_def
        replayTransitionsValid_def CONVERSATION_POLICY_REPLAY_MAX_COALESCED_TRANSITIONS_def CONVERSATION_PAGE_HARD_MAX_EVENTS_def
        ZERO_HASH32_valid)
  then have "parsePolicyReplayFields (encodeReplayEvidence pageHistory) = Inr pageHistory" by (rule replay_evidence_codec.parse_encode)
  moreover have "assertPolicyReplayMatchesRequest pageHistory ?request = Inr ()"
    by (simp add: assertPolicyReplayMatchesRequest_def replayRequestOf_def pageHistory_def history_sample samplePrefix_def emptyLogAnchor_def
        sampleLogHead_def samePolicyReplayProjection_iff sameReplayEvent_iff)
  moreover have "validatePolicyReplayInterval pageHistory = Inr ()"
    using sampleCommit_head
    by (simp add: validatePolicyReplayInterval_def pageHistory_def replayRollsBack_def transitionRejected_def policyReplayHeadMatchesPage_def
        history_sample samePolicyMandatoryProposals_iff samePolicyReplayProjection_iff Let_def)
  moreover have "throwIfDeliveryPortUnavailable (encodeReplayEvidence pageHistory) = Inr ()"
    by (simp add: throwIfDeliveryPortUnavailable_def encodeReplayEvidence_def entriesReplayEvidence_def mkRecord_def recGet_def)
  moreover have "rv_evidenceDigest pageHistory = historyDigest" by (simp add: pageHistory_def)
  ultimately show ?thesis
    using digest(1) by (simp add: verifyConversationPolicyReplay_def parseConversationPolicyReplayEvidence_def)
qed

subsection \<open>The Commit of the creator\<close>

definition clientTarget :: membershipTarget where
  "clientTarget = \<lparr>mt_accountId = sampleConversationId, mt_installationId = sampleConversationId, mt_credentialId = sampleCredentialId,
     mt_credentialFingerprint = hashText\<rparr>"

definition unsignedCreation :: commitEvidence where
  "unsignedCreation = commitAnswer\<lparr>ce_position := ''1'', ce_envelopeSha256 := se_envelopeSha256 sampleCommitCommon, ce_commitEpoch := ''1'',
     ce_commitRosterVersion := ''1'', ce_previousEpoch := ''1'', ce_previousRosterVersion := ''1'', ce_resultingEpoch := ''2'',
     ce_resultingRosterVersion := ''2'', ce_stagedProposals := [], ce_requiredProposals := [], ce_consumedProposals := [],
     ce_committedIntents := [], ce_creatorBootstrapTarget := Some clientTarget, ce_creatorMembershipStatus := CreatorPresent\<rparr>"

definition creationDigest :: string where
  "creationDigest = lengthDigest MLS_COMMIT_PROJECTION_EVIDENCE_DIGEST_DOMAIN (commitDigestFields unsignedCreation)"

definition creation :: commitEvidence where
  "creation = unsignedCreation\<lparr>ce_evidenceDigest := creationDigest\<rparr>"

lemmas creation_sample = creation_def unsignedCreation_def commitAnswer_def clientTarget_def

definition startState :: transcriptState where
  "startState = initialTranscript (vx_projection clientPrefix) [] pageHistory"

definition creationRequest :: commitRequest where
  "creationRequest = commitRequestOf (transcriptInputOf firstPage clientPrefix) startState sampleCommitCommon hashText hashText commitSender"

lemma creation_accepted: "parseMlsCommitProjectionEvidence lengthHash (encodeCommitEvidence creation) creationRequest = Inr creation"
proof -
  have fields: "commitDigestFields creation = commitDigestFields unsignedCreation" by (simp add: commitDigestFields_def creation_def)
  have "list_all (smallField 256) (commitDigestFields unsignedCreation)" "length (commitDigestFields unsignedCreation) \<le> 30000"
    using realm_main
    by (simp_all add: commitDigestFields_def creation_sample encodeStagedProposals_def encodePolicyMandatoryProposals_def mandatoryDigestFields_def
        encodeCommittedIntents_def encodeMlsMembershipTarget_def small_fields smallField_Utf8 showNat.simps)
  note computed = lengthDigest_computed [OF this, of MLS_COMMIT_PROJECTION_EVIDENCE_DIGEST_DOMAIN]
  have digest: "computeMlsCommitProjectionEvidenceDigest lengthHash creation = Inr creationDigest" "hash32Valid creationDigest"
    using computed by (simp_all add: computeMlsCommitProjectionEvidenceDigest_def fields creationDigest_def
        MLS_COMMIT_PROJECTION_EVIDENCE_DIGEST_DOMAIN_def)
  have "commitEvidenceValid creation"
    using digest(2) realm_main mandatoryProposalsValid_Nil
    by (simp add: commitEvidenceValid_def creation_sample targetValid_def membershipTargetValid_def stagedListValid_def intentListValid_def
        CONVERSATION_PAGE_HARD_MAX_EVENTS_def)
  then have parsed: "parseCommitFields (encodeCommitEvidence creation) = Inr creation" by (rule commit_evidence_codec.parse_encode)
  have same: "\<not> commitSubstituted creation creationRequest"
    by (simp add: commitSubstituted_def creationRequest_def commitRequestOf_def transcriptInputOf_def startState_def initialTranscript_def
        targetOf_def commitSender_def sampleWindow_def sampleCursorContext_def samplePrefix_def pageHistory_def history_sample
        sameStagedProposals_iff samePolicyMandatoryProposals_iff sameMlsMembershipTarget_iff)
      (simp add: creation_sample)
  have "bigIntToString 2 = ''2''" by code_simp
  then have transition: "checkCommitTransition creation = Inr ()"
    by (simp add: checkCommitTransition_def creation_sample incrementUint63_def Let_def)
  have complete: "\<not> consumptionWrong creation" "\<not> membershipIncomplete creation"
    by (simp_all add: consumptionWrong_def membershipIncomplete_def everyConsumedProposalHasIntent_def creation_sample)
  show ?thesis
    using digest(1) by (simp add: parseMlsCommitProjectionEvidence_def parsed same transition complete) (simp add: creation_def)
qed

definition pageTranscript :: transcriptEvidence where
  "pageTranscript = \<lparr>te_commitProjectionEvidence = [creation], te_externalProposalEvidence = [], te_stagedProposalsAtPageEnd = []\<rparr>"

lemma pageTranscript_accepted:
  "verifyOrderedMlsTranscript lengthHash (\<lambda>request. Inr (encodeCommitEvidence creation)) answerProposal (transcriptInputOf firstPage clientPrefix)
     (vx_projection clientPrefix) [] pageHistory = Inr pageTranscript"
proof -
  let ?input = "transcriptInputOf firstPage clientPrefix"
  have state: "ts_projection startState = \<lparr>mp_epoch = ''1'', mp_rosterVersion = ''1'', mp_confirmedTranscriptHash = hashText\<rparr>"
    "ts_stagedProposals startState = []" "ts_transitions startState = []" "rj_mandatoryProposals (ts_activePolicy startState) = []"
    "ts_commitEvidence startState = []" "ts_proposalEvidence startState = []"
    by (simp_all add: startState_def initialTranscript_def samplePrefix_def pageHistory_def unsignedHistory_def
        toPolicyReplayProjection_def samplePolicyProjection_def)
  have cut: "cutoffStep position inclusive st = Inr st" if "ts_transitions st = []" for position inclusive st
    using that by (simp add: cutoffStep_def)
  have sender: "find (bindingMatches sampleCommitCommon) (ti_senderBindings ?input) = Some commitSender"
    by (simp add: transcriptInputOf_def bindingMatches_def commitSender_def)
  have available: "throwIfDeliveryPortUnavailable (encodeCommitEvidence creation) = Inr ()"
    by (simp add: throwIfDeliveryPortUnavailable_def encodeCommitEvidence_def entriesCommitEvidence_def mkRecord_def recGet_def)
  have result: "ce_resultingEpoch creation = ''2''" "ce_resultingRosterVersion creation = ''2''"
    "ce_resultingConfirmedTranscriptHash creation = hashText" by (simp_all add: creation_sample)
  let ?end_state = "startState\<lparr>ts_commitEvidence := [creation], ts_lastCommit := Some creation, ts_stagedProposals := [],
      ts_projection := \<lparr>mp_epoch = ''2'', mp_rosterVersion = ''2'', mp_confirmedTranscriptHash = hashText\<rparr>\<rparr>"
  have "transcriptCommit lengthHash (\<lambda>request. Inr (encodeCommitEvidence creation)) ?input sampleCommitCommon hashText hashText startState
      = Inr ?end_state"
    using creation_accepted available cut [of ?end_state]
    by (simp add: transcriptCommit_def missingRequiredProposal_def state sender result creationRequest_def)
  then have event: "transcriptEvent lengthHash (\<lambda>request. Inr (encodeCommitEvidence creation)) answerProposal ?input sampleCommitItem startState
      = Inr ?end_state"
    using cut [OF state(3)] by (simp add: transcriptEvent_def sampleCommitItem_def Let_def state)
  have "finishTranscript (vp_snapshot firstPage) pageHistory ?end_state = Inr pageTranscript"
    by (simp add: finishTranscript_def state samePolicyMandatoryProposals_iff pageTranscript_def)
      (simp add: pageHistory_def history_sample)
  then show ?thesis
    using event cut [of ?end_state] state(3)
    by (simp add: verifyOrderedMlsTranscript_def transcriptInputOf_def startState_def [symmetric] Let_def) 
qed

subsection \<open>Witness\<close>

definition clientPorts :: syncPorts where
  "clientPorts = \<lparr>sy_cursorCodec = samplePort, sy_pageProofVerifier = \<lambda>request. Inr (mkRecord entriesBundle),
     sy_policyHeadProofVerifier = \<lambda>request. Inr (encodeEvidence pagePolicyHead),
     sy_policyReplayVerifier = \<lambda>request. Inr (encodeReplayEvidence pageHistory),
     sy_mlsCommitProjectionVerifier = \<lambda>request. Inr (encodeCommitEvidence creation), sy_mlsExternalProposalVerifier = answerProposal\<rparr>"

definition clientResult :: verifiedConversationPage where
  "clientResult = \<lparr>vc_page = firstPage, vc_nextCursorClaims = answerClaims, vc_proofEvidence = pageBundle, vc_policyHeadEvidence = pagePolicyHead,
     vc_policyReplayEvidence = pageHistory, vc_orderedMlsEvidence = pageTranscript\<rparr>"

lemma clientSample_accepted:
  "parseAndVerifyConversationPageJson lengthHash clientPorts (owned answerBytes) sampleSyncRequest = Some (Inr clientResult)"
proof -
  have "verifyPageEvidence lengthHash clientPorts sampleOpened firstPage answerClaims = Inr clientResult"
    using bundle_accepted pagePolicyHead_accepted pageHistory_accepted pageTranscript_accepted
    by (simp add: verifyPageEvidence_def clientPorts_def sampleOpened_def clientResult_def Let_def)
  then show ?thesis
    using sampleResponse_read
    by (simp add: parseAndVerifyConversationPageJson_def parseAndVerifyConversationPageJsonInternal_def sampleRequest_opens andThen_def
        clientPorts_def)
qed

theorem verified_page_gives_next_prefix_witness:
  "parseAndVerifyConversationPageJson lengthHash clientPorts (owned answerBytes) sampleSyncRequest = Some (Inr clientResult)
   \<and> checkPrefixConsistency (prefixAfter (samplePrefix limitsDigest) clientResult) = Inr ()
   \<and> vx_anchor (prefixAfter (samplePrefix limitsDigest) clientResult) = anchorOfLogHead sampleLogHead"
proof -
  have "parsePrefixInput lengthHash (rq_prefix sampleSyncRequest) = Inr (samplePrefix limitsDigest)"
    by (simp add: sampleSyncRequest_def parsePrefixInput_encode samplePrefix_valid)
  with verified_page_gives_next_prefix [OF clientSample_accepted] clientSample_accepted
  show ?thesis by (simp add: prefixAfter_def Let_def clientResult_def)
qed

end
