(* ===== verification/LogHeadSample.thy ===== *)
theory LogHeadSample
  imports SyncClientSample
begin

section \<open>A log head asked for and accepted\<close>

text \<open>
  The same client, still at the empty log, asks for the current head; the server answers with the JSON text of the head at
  position 1 and its receipt, and the verifier confirms it.
\<close>

definition headResponse :: "(string \<times> jsval) list" where
  "headResponse = [(''conversationId'', JStr sampleConversationId), (''generation'', JStr ''1''), (''releaseProfileId'', JStr ''release-1''),
     (''releaseTrustRootDigest'', JStr hashText), (''visibility'', JStr ''active-high-water''), (''logHead'', encodeLogHead sampleLogHead),
     (''witnessReceipt'', encodeReceipt sampleReceipt)]"

definition headBytes :: bytes where
  "headBytes = map of_nat (printJson (jsonAt 5 (mkRecord headResponse)))"

definition headRequestInput :: logHeadInput where
  "headRequestInput = \<lparr>li_cursorContext = encodeCursorContext sampleCursorContext, li_membership = encodeWindow sampleWindow,
     li_verifiedPrefixEvidenceDigest = JStr hashText, li_conversationGeneration = JStr ''1'', li_releaseProfileId = JStr ''release-1'',
     li_releaseTrustRootDigest = JStr hashText, li_fromAnchor = encodeAnchor emptyLogAnchor,
     li_trustedWitnessAnchor = encodeWitnessAnchor (vx_witness clientPrefix), li_now = JStr askedAt,
     li_deadline = JStr ''2024-01-01T00:00:05.000Z'', li_aborted = False\<rparr>"

definition headFrame :: logHeadFrame where
  "headFrame = \<lparr>lf_context = sampleCursorContext, lf_membership = sampleWindow, lf_verifiedPrefixEvidenceDigest = hashText,
     lf_generation = ''1'', lf_releaseProfileId = ''release-1'', lf_releaseTrustRootDigest = hashText, lf_fromAnchor = emptyLogAnchor,
     lf_priorWitness = vx_witness clientPrefix, lf_verifiedAt = askedAt\<rparr>"

definition headRead :: logHeadResponse where
  "headRead = \<lparr>ld_visibility = ActiveHighWater, ld_logHead = sampleLogHead, ld_witnessReceipt = sampleReceipt\<rparr>"

subsection \<open>The request and the response\<close>

lemma headRequest_opens: "openLogHeadRequest headRequestInput = Inr headFrame"
proof -
  have valid: "prefixValid lengthHash clientPrefix" by (rule samplePrefix_valid) simp
  have "parseConversationCursorContext (encodeCursorContext sampleCursorContext) = Inr sampleCursorContext"
    "parseMembershipWindow (encodeWindow sampleWindow) = Inr sampleWindow" "parseHeadAnchor (encodeAnchor emptyLogAnchor) = Inr emptyLogAnchor"
    "parseWitnessConsistencyAnchor (encodeWitnessAnchor (vx_witness clientPrefix)) = Inr (vx_witness clientPrefix)"
    using valid by (auto simp: prefixValid_def parseConversationCursorContext_encode window_codec.parse_encode anchor_codec.parse_encode
        witness_anchor_codec.parse_encode)
  moreover have "validateAnchor emptyLogAnchor = Inr ()" by (simp add: validateAnchor_def emptyLogAnchor_def)
  moreover have "parseRfc3339Millis (JStr askedAt) = Inr askedAt"
    "parseRfc3339Millis (JStr ''2024-01-01T00:00:05.000Z'') = Inr ''2024-01-01T00:00:05.000Z''"
    using deadline_times cursor_sample_times by (simp_all add: parse_ok)
  ultimately show ?thesis
    using deadline_times cursor_sample_times(1)
    by (simp add: openLogHeadRequest_def headRequestInput_def headFrame_def parse_ok dateMillis_def
        CONVERSATION_SYNC_MAX_PORT_WAIT_MILLISECONDS_def)
qed

lemma headResponse_read: "readLogHeadResponse lengthHash (mkRecord headResponse) headFrame = Inr headRead"
proof -
  have page: "pageSnapshotValid lengthHash (vp_snapshot sampleVerifiedPage)"
    using samplePage_acceptable by (simp add: pageAcceptable_def snapshotBound_def)
  have "parseSignedDeliveryLogHead lengthHash sampleConversationId (encodeLogHead sampleLogHead) = Inr sampleLogHead"
    "parseWitnessReceipt (encodeReceipt sampleReceipt) = Inr sampleReceipt"
    using page by (auto simp: pageSnapshotValid_def sampleVerifiedPage_def samplePageSnapshot_def log_head_codec.parse_encode receipt_codec.parse_encode)
  moreover have "expectExactRecord (mkRecord headResponse) LOG_HEAD_RESPONSE_KEYS = Inr (fieldOf headResponse)"
    by (rule expectExactRecord_mkRecord)
      (simp_all add: LOG_HEAD_RESPONSE_KEYS_def headResponse_def encodeLogHead_def encodeReceipt_def mkRecord_def)
  moreover have "fieldOf headResponse ''conversationId'' = JStr sampleConversationId" "fieldOf headResponse ''generation'' = JStr ''1''"
    "fieldOf headResponse ''releaseProfileId'' = JStr ''release-1''" "fieldOf headResponse ''releaseTrustRootDigest'' = JStr hashText"
    "fieldOf headResponse ''visibility'' = JStr ''active-high-water''" "fieldOf headResponse ''logHead'' = encodeLogHead sampleLogHead"
    "fieldOf headResponse ''witnessReceipt'' = encodeReceipt sampleReceipt"
    by (simp_all add: headResponse_def)
  moreover have "parseLogHeadVisibility (JStr ''active-high-water'') = Inr ActiveHighWater"
    using parseLogHeadVisibility_ok [of ActiveHighWater] by simp
  ultimately show ?thesis
    by (simp add: readLogHeadResponse_def headFrame_def headRead_def parse_ok expectedVisibility_def)
      (simp add: sampleCursorContext_def sampleWindow_def sampleLogHead_def sampleReceipt_def)
qed

lemmas head_encoding = headResponse_def encodeLogHead_def entriesLogHead_def encodeReceipt_def entriesReceipt_def sampleLogHead_def sampleReceipt_def

lemma headResponse_printable: "printableAt (Suc (Suc (Suc (Suc (Suc 0))))) (mkRecord headResponse)"
  by (simp add: at_values head_encoding answer_texts answer_times commit_hashes del: b64encode.simps)

lemma headResponse_weight: "weightAt (Suc (Suc (Suc (Suc (Suc 0))))) (mkRecord headResponse) \<le> 50000"
  using length_hash32 [OF commit_hashes(2)] length_hash32 [OF commit_hashes(3)]
  by (simp add: at_values head_encoding answer_lengths answer_times)

lemmas headBytes_read = printed_response [OF headResponse_printable headResponse_weight, folded headBytes_def]

subsection \<open>The proof of the verifier\<close>

definition unsignedHeadBase :: logHeadBase where
  "unsignedHeadBase = \<lparr>lb_realmId = ''main'', lb_accountId = sampleConversationId, lb_installationId = sampleConversationId,
     lb_conversationId = sampleConversationId, lb_conversationGeneration = ''1'', lb_releaseProfileId = ''release-1'',
     lb_releaseTrustRootDigest = hashText, lb_verifiedPrefixEvidenceDigest = hashText, lb_membershipBootstrapMode = CreatorBootstrap,
     lb_membershipCredentialId = sampleCredentialId, lb_membershipCredentialFingerprint = hashText, lb_membershipJoinedPosition = ''1'',
     lb_membershipRemovedPosition = None, lb_visibilityStatus = StatusActiveHighWater, lb_fromPosition = ''0'', lb_fromHeadHash = ZERO_HASH32,
     lb_currentPosition = ''1'', lb_currentHeadHash = se_headHash sampleCommitCommon, lb_appendOnlyConsistencyStatus = ''verified'',
     lb_appendOnlyConsistencyEvidenceDigest = hashText, lb_verifiedAt = askedAt, lb_checkpoint = encodeCheckpointProof headProof,
     lb_witness = encodeWitnessProof receiptProof, lb_evidenceDigest = JStr hashText\<rparr>"

definition logHeadEvidence :: "string \<Rightarrow> logHeadProof" where
  "logHeadEvidence digest = \<lparr>lp_base = unsignedHeadBase\<lparr>lb_evidenceDigest := JStr digest\<rparr>, lp_checkpoint = headProof, lp_witness = receiptProof,
     lp_evidenceDigest = digest\<rparr>"

definition logHeadDigest :: string where
  "logHeadDigest = lengthDigest CONVERSATION_LOG_HEAD_PROOF_EVIDENCE_DIGEST_DOMAIN (logHeadDigestFields (logHeadEvidence hashText))"

definition logHeadAnswer :: jsval where
  "logHeadAnswer = encodeLogHeadBase (lp_base (logHeadEvidence logHeadDigest))"

lemma logHeadDigest_computed:
  "computeConversationLogHeadProofEvidenceDigest lengthHash (logHeadEvidence logHeadDigest) = Inr logHeadDigest" "hash32Valid logHeadDigest"
proof -
  have fields: "logHeadDigestFields (logHeadEvidence logHeadDigest) = logHeadDigestFields (logHeadEvidence hashText)"
    by (simp add: logHeadDigestFields_def logHeadEvidence_def)
  have "list_all (smallField 256) (logHeadDigestFields (logHeadEvidence hashText))" "length (logHeadDigestFields (logHeadEvidence hashText)) \<le> 30000"
    using realm_main checkpointDigest_computed(2) witnessDigest_computed(2)
    by (simp_all add: logHeadDigestFields_def logHeadEvidence_def unsignedHeadBase_def headProof_def receiptProof_def small_fields smallField_Utf8
        ZERO_HASH32_valid)
  note computed = lengthDigest_computed [OF this, of CONVERSATION_LOG_HEAD_PROOF_EVIDENCE_DIGEST_DOMAIN]
  have digest: "digestOf lengthHash CONVERSATION_LOG_HEAD_PROOF_EVIDENCE_DIGEST_DOMAIN (logHeadDigestFields (logHeadEvidence hashText)) = Inr logHeadDigest"
    "hash32Valid logHeadDigest"
    using computed by (simp_all add: logHeadDigest_def CONVERSATION_LOG_HEAD_PROOF_EVIDENCE_DIGEST_DOMAIN_def)
  then show "computeConversationLogHeadProofEvidenceDigest lengthHash (logHeadEvidence logHeadDigest) = Inr logHeadDigest" "hash32Valid logHeadDigest"
    by (simp_all add: computeConversationLogHeadProofEvidenceDigest_def fields)
qed

lemma logHeadAnswer_accepted:
  "parseConversationLogHeadProofEvidence lengthHash logHeadAnswer (logHeadRequestOf headFrame headRead) = Inr (logHeadEvidence logHeadDigest)"
proof -
  let ?base = "lp_base (logHeadEvidence logHeadDigest)" and ?request = "logHeadRequestOf headFrame headRead"
  have "logHeadBaseValid ?base"
    using realm_main cursor_sample_times(3) logHeadDigest_computed(2)
    by (simp add: logHeadBaseValid_def logHeadEvidence_def unsignedHeadBase_def ZERO_HASH32_valid encodeCheckpointProof_def encodeWitnessProof_def mkRecord_def)
  then have "parseLogHeadBase logHeadAnswer = Inr ?base" unfolding logHeadAnswer_def by (rule parseLogHeadBase_encode)
  moreover have "\<not> logHeadSubstituted ?base ?request"
    by (simp add: logHeadSubstituted_def logHeadEvidence_def unsignedHeadBase_def logHeadRequestOf_def headFrame_def headRead_def
        sampleCursorContext_def sampleWindow_def emptyLogAnchor_def headCheckpoint_def sampleLogHead_def Let_def)
  moreover have "lr_current ?request = headInput" "lr_witness ?request = sampleReceipt" "lr_priorWitness ?request = vx_witness clientPrefix"
    "lr_conversationId ?request = sampleConversationId" "lr_verifiedAt ?request = askedAt"
    by (simp_all add: logHeadRequestOf_def headFrame_def headRead_def headInput_def sampleCursorContext_def Let_def)
  moreover have "lb_checkpoint ?base = encodeCheckpointProof headProof" "lb_witness ?base = encodeWitnessProof receiptProof"
    "lb_evidenceDigest ?base = JStr logHeadDigest"
    "\<lparr>lp_base = ?base, lp_checkpoint = headProof, lp_witness = receiptProof, lp_evidenceDigest = logHeadDigest\<rparr> = logHeadEvidence logHeadDigest"
    by (simp_all add: logHeadEvidence_def unsignedHeadBase_def)
  ultimately show ?thesis
    using headProof_accepted receiptProof_accepted logHeadDigest_computed
    by (simp add: parseConversationLogHeadProofEvidence_def parse_ok)
qed

subsection \<open>Witness\<close>

definition acceptedHead :: verifiedLogHead where
  "acceptedHead = \<lparr>vl_conversationId = sampleConversationId, vl_generation = ''1'', vl_releaseProfileId = ''release-1'',
     vl_releaseTrustRootDigest = hashText, vl_visibility = ActiveHighWater, vl_logHead = sampleLogHead, vl_witnessReceipt = sampleReceipt,
     vl_proofEvidence = logHeadEvidence logHeadDigest\<rparr>"

theorem log_head_continues_witness:
  "parseAndVerifyConversationLogHead lengthHash (\<lambda>request. Inr logHeadAnswer) (owned headBytes) headRequestInput = Some (Inr acceptedHead)
   \<and> logHeadContinues lengthHash headFrame acceptedHead"
proof -
  obtain j where j: "parseStrictJsonBytes headBytes = Some (Inr j)" "jsvalOf j = mkRecord headResponse" using headBytes_read(1) by blast
  have "parseOwnedBytes (owned headBytes) CONVERSATION_LOG_HEAD_HARD_MAX_SERIALIZED_BYTES = Inr headBytes"
    using headBytes_read(2) by (simp add: parseOwnedBytes_def owned_def copyBytes_owned CONVERSATION_LOG_HEAD_HARD_MAX_SERIALIZED_BYTES_def)
  moreover have "\<not> logHeadRejected sampleWindow emptyLogAnchor sampleLogHead"
    by (simp add: logHeadRejected_def sampleWindow_def emptyLogAnchor_def sampleLogHead_def)
  moreover have "throwIfDeliveryPortUnavailable logHeadAnswer = Inr ()"
    by (simp add: throwIfDeliveryPortUnavailable_def logHeadAnswer_def encodeLogHeadBase_def entriesLogHeadBase_def mkRecord_def recGet_def)
  moreover have "lf_membership headFrame = sampleWindow" "lf_fromAnchor headFrame = emptyLogAnchor" "ld_logHead headRead = sampleLogHead"
    by (simp_all add: headFrame_def headRead_def)
  ultimately have accepted: "parseAndVerifyConversationLogHead lengthHash (\<lambda>request. Inr logHeadAnswer) (owned headBytes) headRequestInput
      = Some (Inr acceptedHead)"
    using j logHeadAnswer_accepted
    by (simp add: parseAndVerifyConversationLogHead_def parseAndVerifyConversationLogHeadInternal_def andThen_def headRequest_opens headResponse_read)
      (simp add: acceptedHead_def headFrame_def headRead_def sampleCursorContext_def)
  then show ?thesis
    using log_head_continues [of lengthHash "\<lambda>request. Inr logHeadAnswer" "owned headBytes" headRequestInput]
    by (auto simp: headRequest_opens)
qed

end
