(* ===== verification/Spec2Isabelle.thy ===== *)
theory Spec2Isabelle
  imports MerkleConsistency AppendProperties SnapshotProperties FanoutProperties LogProperties ValueProperties
    WitnessProperties CursorProperties NonceAllocator EnvelopeProperties LogHeadSample
begin

text \<open>
  This library verifies the delivery core of jbchat, a messaging service with end-to-end encrypted
  conversations. The server never reads a message: it decides whether a client may append an encrypted
  envelope to the log of a conversation, accounts for the quota the append uses, chains the log by hashes,
  and derives who receives the envelope. All of this happens on rows that the database returns under a
  lock and that the code re-validates field by field before it trusts them. A separate witness keeps a
  Merkle log of policy heads and of checkpoints, and proves inclusion and consistency to clients. A client
  reads the log page by page with encrypted cursors and trusts nothing in a page that it has not checked.

  \<^bold>\<open>The parts and their theories.\<close> Paths are relative to \<^verbatim>\<open>src/src/production\<close>; definitions carry
  the names of the functions they model.

  \<^item> \<open>JB_Prelude\<close>: errors as values of a sum type, sequencing and guards, bytes, UTF-8, the 32-bit
    conversions of JavaScript's bitwise operators, and the collections of simplification rules.
  \<^item> \<open>JsValues\<close>: the JavaScript values a validator can be given (primitives, objects with own property
    descriptors and a prototype, arrays, typed-array views with their backing buffer), and the locales
    \<open>string_parser\<close> and \<open>record_codec\<close>: what a parser promises (only valid values, every valid value
    accepted from its plain form). Every record parser below is an interpretation of \<open>record_codec\<close>.
  \<^item> \<open>DecimalText\<close>, \<open>Base64Url\<close>, \<open>Timestamps\<close>, \<open>NodeRuntime\<close>: the conversions of the language and its
    runtime that the code relies on: BigInt and its text, base64url, \<^verbatim>\<open>Date.parse\<close> and \<^verbatim>\<open>toISOString\<close> with
    the proleptic calendar, BigInt literals, Buffers and UUIDs.
  \<^item> \<open>ValueObjects\<close> (\<^verbatim>\<open>delivery/valueObjects.ts\<close>): exact records, owned copies of bytes, identifiers,
    63-bit counters, timestamps, entity tags, hashes, signatures and envelope senders.
  \<^item> \<open>Hashes\<close> (\<^verbatim>\<open>delivery/hashes.ts\<close>): length-prefixed preimages; digests of leaves, log heads, checkpoints
    and external proposals. \<open>DigestFacts\<close>: when a digest determines what was digested.
  \<^item> \<open>Limits\<close> (\<^verbatim>\<open>delivery/limits.ts\<close>) and \<open>Idempotency\<close> (\<^verbatim>\<open>delivery/idempotency.ts\<close>).
  \<^item> \<open>StateParsers\<close>, \<open>QuotaState\<close>, \<open>ConversationState\<close>, \<open>PolicyProof\<close>, \<open>AppendSnapshot\<close>,
    \<open>AppendDecision\<close>, \<open>AppendTransition\<close>, \<open>AppendExpiry\<close>, \<open>Fanout\<close> (all \<^verbatim>\<open>delivery/state.ts\<close>): the
    rows of a locked conversation as records, their parsers, the consistency of the snapshot, the decision
    with its fifteen reasons for rejection, the validators of the rows to be written, the conversion of
    reserved quota, the expiry of a pending append and the fan-out to recipients. \<open>QuotaProofs\<close>,
    \<open>AppendProofs\<close>, \<open>FanoutProofs\<close>: the lemmas about the operations. \<open>QuotaLedger\<close>: the abstract account
    with holds, and the step relation of a conversation whose appends overlap.
  \<^item> \<open>Envelopes\<close>, \<open>EnvelopeProofs\<close>, \<open>StrictJson\<close>, \<open>StrictJsonProofs\<close>, \<open>EnvelopeJson\<close> (\<^verbatim>\<open>delivery/envelopes.ts\<close>):
    append bodies, stored envelopes with their hashes, replays, and the JSON reader without duplicate keys that
    \<^verbatim>\<open>delivery/sync.ts\<close> has too. \<open>JsonPrinting\<close>: the text of a record, for whole responses.
  \<^item> \<open>CursorCodec\<close>, \<open>CursorProofs\<close> (\<^verbatim>\<open>delivery/conversationCursorCodec.ts\<close> and the cursor parsers of
    \<^verbatim>\<open>delivery/sync.ts\<close>), \<open>NonceAllocator\<close> (\<^verbatim>\<open>storage/cursorNonceAllocator.ts\<close>): sealed cursors, and the
    ranges of nonces that several processes reserve in one database row.
  \<^item> \<open>SyncValues\<close>, \<open>SyncPage\<close>, \<open>SyncPrefix\<close>, \<open>SyncKernel\<close> (\<^verbatim>\<open>delivery/sync.ts\<close>): the state of a client (its
    verified prefix with membership, log anchor, MLS and policy projections), the parsers of a page, the loop
    over its events, the digest of the prefix, and the reading of a response with its cursors.
    \<open>SyncPageProofs\<close>, \<open>SyncPrefixProofs\<close>: the lemmas. \<open>PolicyReplay\<close>: the evidence of the policy verifier, its
    comparison with what the client asked, and the walk over the events of the page and the policy transitions.
    \<open>MlsProposals\<close>, \<open>MlsCommits\<close>: the evidence about external proposals and Commits. \<open>MlsTranscript\<close>: the loop that
    stages proposals, checks Commits and advances the MLS projection. \<open>MlsTranscriptProofs\<close>: the abstract group that
    it implements, and the lemmas. \<open>PageProofs\<close>: the evidence about checkpoints, witness, Welcome and policy head.
    \<open>LogHead\<close>: the separate request for the log head. \<open>SyncClient\<close>: the whole verification of a page, composed of all these.
  \<^item> \<open>MerkleLog\<close>, \<open>MerkleProofs\<close>, \<open>MerkleConsistency\<close> (\<^verbatim>\<open>witness/merkleLog.ts\<close>).
  \<^item> \<open>WitnessCore\<close>, \<open>WitnessProofs\<close>, \<open>WitnessSteps\<close>, \<open>WitnessClients\<close>, \<open>WitnessHistory\<close>
    (\<^verbatim>\<open>witness/witnessCore.ts\<close>): the database of the witness as a record of tables, its handlers, the step
    relation over their calls, what a client learns from its proofs, and what the witness reads back later.
  \<^item> \<open>AppendProperties\<close>, \<open>SnapshotProperties\<close>, \<open>FanoutProperties\<close>, \<open>LogProperties\<close>, \<open>ValueProperties\<close>,
    \<open>EnvelopeProperties\<close>, \<open>WitnessProperties\<close>, \<open>CursorProperties\<close>, \<open>SyncProperties\<close>, \<open>SyncKernelProperties\<close>,
    \<open>PolicyReplayProperties\<close>, \<open>MlsTranscriptProperties\<close>, \<open>PageProofProperties\<close>, \<open>SyncClientProperties\<close>: the properties with their witnesses. \<open>Samples\<close>, \<open>SyncSample\<close>,
    \<open>MlsTranscriptSample\<close>, \<open>SyncClientSample\<close> and \<open>LogHeadSample\<close>: the concrete conversation, responses, transcript and evidence on which the witnesses are evaluated.

  \<^bold>\<open>How the code is represented.\<close> A value that the source types as unknown is a \<open>jsval\<close>; a validator is a
  function into a sum type whose left side is the exception thrown. A validated row is a record with the
  fields of the interface in the source. Counters remain decimal strings, as in the source, and \<open>bigInt\<close>
  reads them; timestamps remain strings, and \<open>dateMillis\<close> reads them. A transaction of the witness or of the
  nonce allocator is one step of a step relation; clocks, random bytes and the answers of ports are arguments.
  Loops are terminating functions, with one exception: the loops of the JSON reader over the members of an
  object and the elements of an array run on fuel, which is the length of the source plus one. Every round
  consumes a character, and it is proved that the reader always answers.

  \<^bold>\<open>Parameters and hypotheses.\<close> SHA-256 is the parameter \<open>H\<close>. A property that needs its output length
  assumes \<open>sha256Length H\<close>; a property that a digest identifies what was digested assumes that \<open>H\<close> does not
  collide on the preimages that occur in the statement (\<open>inj_on\<close> on that finite set), never injectivity of
  \<open>H\<close>. \<open>localeCompare\<close>, whose order depends on the locale of the host, is a parameter of the fan-out; where the
  order of the code units matters, \<open>codeUnitLocale\<close> is the hypothesis, which Danish collation, for one, does not meet. Ed25519 verification and the signer of the witness, the text input of the database and AES-GCM are
  parameters too; of the cipher \<open>gcmCipher\<close> assumes what its documentation says: opening undoes sealing with
  the same key, nonce and associated data, and tags have 16 bytes. The cursor codec and the
  verifiers that the client calls (page proofs, policy head, policy replay, external proposals, Commits, log head) are functions from requests to answers
  or errors, of which nothing is assumed. Statements about the decision assume a time not before 1970.

  \<^bold>\<open>What is proved.\<close> Quota: every accepted call acts on each quota row as one step of an account with
  holds; reserved amounts are the sum of the live reservations; limits are never exceeded; a live
  reservation can always be settled. Append: the decision is equivalent to a declarative authorisation
  predicate and never throws; the rows it prescribes are the only rows the validators accept. Snapshot
  and evidence: digests bind, parsing inverts, a refresh changes the policy head only. Fan-out: the
  recipients are exactly the eligible installations and cover the roster, and the plan is read back exactly if
  the locale lists them in the order of their code units. Envelopes: the JSON of a body is
  read back, replays are recognised exactly. Merkle log: generated proofs verify, accepted proofs are sound
  if their elements are 32-byte hashes, a condition the verifier leaves to its callers and cannot do without,
  the recursion ends within the depth of the tree. Witness: what it reads from its log later extends what
  it read before, its checkpoints commit to it, its answers are those of a chain of heads per conversation (a
  position that is taken is a repetition or an equivocation, any other submission that does not continue the
  chain is refused as not an extension), the policy and directory logs are the chains of the submitted
  checkpoints, its proofs are accepted. Cursors: sealing and
  opening are inverse, a cursor is bound to its context, no nonce is used twice. Synchronisation: a page is
  accepted exactly if it continues what the client has verified; page by page the client collects the log
  without a gap; clients that compare their heads have seen the same conversation; the next page can be
  requested; the digest of a prefix determines it; a replayed policy keeps application messages away from outstanding
  mandatory proposals; an accepted MLS transcript is a run of an abstract group whose epochs count the Commits,
  requirements end only with the Commit that consumed them, and the next page can start where it ends; the proof evidence covers every event and
  the head of a page, and neither a page nor a log head rolls back what the client or the witness knew; the prefix after a
  verified page passes the checks of the next request; every
  response gets a declared answer. Values: canonical encodings are unique and round-trip.

  \<^bold>\<open>Not modelled.\<close> In \<^verbatim>\<open>delivery/sync.ts\<close> the reports of incidents, which are chosen by the text of an error
  message, and the timers around calls of ports. \<^verbatim>\<open>delivery/service.ts\<close> and
  \<^verbatim>\<open>delivery/appendPersistence.ts\<close>, which arrange calls of the database, the signer and the verifiers around
  the decision. The authority over purchases and devices, a subsystem of its own. SQL and the database
  adapters, HTTP routing, network reads of chain nodes, signing and encryption (node:crypto), the user
  interface and operational scripts: they are effects around the code modelled here, or code whose meaning
  is that of another system. JavaScript Proxy objects are not represented among the values.
\<close>

end
